(* ===== verification/Prelude.thy ===== *)
theory Prelude
  imports Main "HOL-Library.Multiset" "HOL-Library.Sublist"
begin

text \<open>
  The vocabulary every component of the development shares: thrown errors as values, the
  operations of the JavaScript standard library the code calls (array search, in-place update
  of the element found, stable sort with a comparator, set-based de-duplication, string
  trimming, lower-casing, prefix tests and decimal formatting), instants, and JSON values.

  Strings are lists of code units below 256 (\<^typ>\<open>char\<close>): lower-casing and trimming are
  exact on them. Numbers are integers. The generic lemmas are collected at the end of each
  section; \<open>row_simps\<close> gathers the facts about searched and updated arrays.
\<close>

named_theorems row_simps "arrays of rows that are searched and updated in place"
named_theorems text_simps "string operations of the standard library"

section \<open>Errors and results\<close>

datatype js_error = Error string | RangeError string | TypeError string

text \<open>
  An operation on a mutable object takes its state and returns what it throws or returns
  together with the state it leaves, because some operations change the state and then throw.
\<close>

type_synonym ('s, 'a) outcome = "(js_error + 'a) \<times> 's"

abbreviation throws :: "('s, 'a) outcome \<Rightarrow> bool" where
  "throws r \<equiv> isl (fst r)"

section \<open>Arrays\<close>

text \<open>
  \<open>xs.find(P)\<close> is \<^const>\<open>List.find\<close>. The code then assigns to fields of the object
  found; the model replaces the first element that satisfies \<open>P\<close>.
\<close>

fun update_first :: "('a \<Rightarrow> bool) \<Rightarrow> ('a \<Rightarrow> 'a) \<Rightarrow> 'a list \<Rightarrow> 'a list" where
  "update_first P f [] = []"
| "update_first P f (x # xs) = (if P x then f x # xs else x # update_first P f xs)"

text \<open>\<open>[...new Set(xs)]\<close> keeps the first occurrence of every value.\<close>

fun dedupe :: "'a list \<Rightarrow> 'a list" where
  "dedupe [] = []"
| "dedupe (x # xs) = x # filter (\<lambda>y. y \<noteq> x) (dedupe xs)"

text \<open>\<open>xs.sort(cmp)\<close> is stable; \<open>le a b\<close> stands for \<open>cmp(a, b) <= 0\<close>.\<close>

fun insort_by :: "('a \<Rightarrow> 'a \<Rightarrow> bool) \<Rightarrow> 'a \<Rightarrow> 'a list \<Rightarrow> 'a list" where
  "insort_by le x [] = [x]"
| "insort_by le x (y # ys) = (if le x y then x # y # ys else y # insort_by le x ys)"

fun sort_by :: "('a \<Rightarrow> 'a \<Rightarrow> bool) \<Rightarrow> 'a list \<Rightarrow> 'a list" where
  "sort_by le [] = []"
| "sort_by le (x # xs) = insort_by le x (sort_by le xs)"

lemma length_update_first [simp, row_simps]: "length (update_first P f xs) = length xs"
  by (induction xs) auto

lemma update_first_None [row_simps]: "List.find P xs = None \<Longrightarrow> update_first P f xs = xs"
  by (induction xs) (auto split: if_splits)

lemma map_update_first [row_simps]:
  "(\<And>x. P x \<Longrightarrow> k (f x) = k x) \<Longrightarrow> map k (update_first P f xs) = map k xs"
  by (induction xs) auto

lemma set_update_first_subset: "set (update_first P f xs) \<subseteq> set xs \<union> f ` {x \<in> set xs. P x}"
  by (induction xs) auto

lemma in_update_firstE:
  assumes "y \<in> set (update_first P f xs)"
  obtains "y \<in> set xs" | x where "x \<in> set xs" "P x" "y = f x" "List.find P xs = Some x"
  using assms
proof (induction xs arbitrary: thesis)
  case Nil
  then show ?case by simp
next
  case (Cons x xs)
  then show ?case by (auto split: if_splits)
qed

lemma find_SomeD: "List.find P xs = Some x \<Longrightarrow> x \<in> set xs \<and> P x"
  by (induction xs) (auto split: if_splits)

lemma find_None_iff_all: "List.find P xs = None \<longleftrightarrow> (\<forall>x \<in> set xs. \<not> P x)"
  by (induction xs) auto

lemma find_update_first_same:
  "List.find P xs = Some x \<Longrightarrow> P (f x) \<Longrightarrow> List.find P (update_first P f xs) = Some (f x)"
  by (induction xs) (auto split: if_splits)

lemma find_update_first_other:
  "(\<And>x. P x \<Longrightarrow> \<not> Q x \<and> \<not> Q (f x)) \<Longrightarrow> List.find Q (update_first P f xs) = List.find Q xs"
  by (induction xs) auto

lemma find_Some_split:
  "List.find P xs = Some x \<longleftrightarrow> (\<exists>ys zs. xs = ys @ x # zs \<and> P x \<and> (\<forall>y \<in> set ys. \<not> P y))"
proof (induction xs)
  case Nil
  then show ?case by simp
next
  case (Cons a xs)
  show ?case
  proof (cases "P a")
    case True
    then show ?thesis by (auto simp: Cons_eq_append_conv)
  next
    case False
    have "(\<exists>ys zs. a # xs = ys @ x # zs \<and> P x \<and> (\<forall>y \<in> set ys. \<not> P y))
        \<longleftrightarrow> (\<exists>ys zs. xs = ys @ x # zs \<and> P x \<and> (\<forall>y \<in> set ys. \<not> P y))"
      (is "?l = ?r")
    proof
      assume ?l
      with False show ?r by (auto simp: Cons_eq_append_conv)
    next
      assume ?r
      then obtain ys zs where "xs = ys @ x # zs" "P x" "\<forall>y \<in> set ys. \<not> P y"
        by blast
      with False have "a # xs = (a # ys) @ x # zs" "P x" "\<forall>y \<in> set (a # ys). \<not> P y"
        by simp_all
      then show ?l by blast
    qed
    with False Cons show ?thesis by simp
  qed
qed

lemma update_first_split:
  assumes "\<forall>y \<in> set ys. \<not> P y" "P x"
  shows "update_first P f (ys @ x # zs) = ys @ f x # zs"
  using assms by (induction ys) auto

lemma distinct_update_first:
  assumes "distinct (map k xs)" "List.find P xs = Some x"
    and "\<And>y. y \<in> set xs \<Longrightarrow> y \<noteq> x \<Longrightarrow> k y \<noteq> k (f x)"
  shows "distinct (map k (update_first P f xs))"
proof -
  obtain ys zs where xs: "xs = ys @ x # zs" "P x" "\<forall>y \<in> set ys. \<not> P y"
    using assms(2) unfolding find_Some_split by blast
  have "x \<notin> set ys \<union> set zs"
    using assms(1) xs(1) by (auto simp: distinct_map)
  then have "k (f x) \<notin> k ` (set ys \<union> set zs)"
    using assms(3) xs(1) by fastforce
  moreover have "update_first P f xs = ys @ f x # zs"
    unfolding xs(1) using xs(2,3) by (simp add: update_first_split)
  ultimately show ?thesis
    using assms(1) xs(1) by auto
qed

lemma distinct_map_filter: "distinct (map k xs) \<Longrightarrow> distinct (map k (filter P xs))"
  by (induction xs) auto

lemma distinct_map_same: "distinct (map k xs) \<Longrightarrow> x \<in> set xs \<Longrightarrow> y \<in> set xs \<Longrightarrow> k x = k y \<Longrightarrow> x = y"
  by (auto simp: distinct_map inj_on_def)

lemma set_dedupe [simp]: "set (dedupe xs) = set xs"
  by (induction xs) auto

lemma distinct_dedupe [simp]: "distinct (dedupe xs)"
  by (induction xs) auto

lemma set_insort_by [simp]: "set (insort_by le x xs) = insert x (set xs)"
  by (induction xs) auto

lemma set_sort_by [simp]: "set (sort_by le xs) = set xs"
  by (induction xs) auto

lemma mset_insort_by [simp]: "mset (insort_by le x xs) = add_mset x (mset xs)"
  by (induction xs) auto

lemma mset_sort_by [simp]: "mset (sort_by le xs) = mset xs"
  by (induction xs) auto

lemma length_sort_by [simp]: "length (sort_by le xs) = length xs"
  by (metis mset_sort_by size_mset)

lemma sort_by_Nil_iff [simp]: "sort_by le xs = [] \<longleftrightarrow> xs = []"
  by (metis length_0_conv length_sort_by)

lemma sort_by_sorted: "sorted_wrt le xs \<Longrightarrow> sort_by le xs = xs"
proof (induction xs)
  case Nil
  then show ?case by simp
next
  case (Cons x xs)
  then show ?case by (cases xs) auto
qed

text \<open>
  A comparator that is total and transitive (what the specification of
  \<open>Array.prototype.sort\<close> asks of it) sorts, and its first element is a least one.
\<close>

locale comparator =
  fixes le :: "'a \<Rightarrow> 'a \<Rightarrow> bool"
  assumes total: "le x y \<or> le y x"
    and trans: "le x y \<Longrightarrow> le y z \<Longrightarrow> le x z"
begin

lemma sorted_insort: "sorted_wrt le xs \<Longrightarrow> sorted_wrt le (insort_by le x xs)"
proof (induction xs)
  case Nil
  then show ?case by simp
next
  case (Cons y ys)
  then show ?case
    using total [of x y] by (auto intro: trans)
qed

lemma sorted_sort: "sorted_wrt le (sort_by le xs)"
  by (induction xs) (auto intro: sorted_insort)

lemma refl: "le x x"
  using total [of x x] by simp

lemma least_first:
  assumes "sort_by le xs = y # ys" "x \<in> set xs"
  shows "le y x"
proof -
  have s: "sorted_wrt le (y # ys)"
    using sorted_sort [of xs] assms(1) by simp
  have "x \<in> set (y # ys)"
    using assms by (metis set_sort_by)
  with s show ?thesis by (auto intro: refl)
qed

lemma first_mem: "sort_by le xs = y # ys \<Longrightarrow> y \<in> set xs"
  by (metis list.set_intros(1) set_sort_by)

lemma head_exists: "xs \<noteq> [] \<Longrightarrow> \<exists>y ys. sort_by le xs = y # ys"
  by (metis neq_Nil_conv sort_by_Nil_iff)

end

text \<open>
  Rows identified by a key: the first row with the key is updated in place, otherwise a new
  row is put in front (\<open>unshift\<close>). The laws say an update keeps the key of its row; what
  follows is that the keys stay distinct and that the row found afterwards is the updated one.
\<close>

definition upsert_front :: "('a \<Rightarrow> bool) \<Rightarrow> ('a \<Rightarrow> 'a) \<Rightarrow> 'a \<Rightarrow> 'a list \<Rightarrow> 'a list" where
  "upsert_front P f new xs = (if List.find P xs = None then new # xs else update_first P f xs)"

locale keyed_rows =
  fixes key :: "'a \<Rightarrow> 'k"
    and upd :: "'i \<Rightarrow> 'a \<Rightarrow> 'a"
    and mk :: "'i \<Rightarrow> 'a"
    and ikey :: "'i \<Rightarrow> 'k"
  assumes key_upd: "key r = ikey i \<Longrightarrow> key (upd i r) = key r"
    and key_mk: "key (mk i) = ikey i"
begin

lemma distinct_upsert:
  assumes "distinct (map key xs)"
  shows "distinct (map key (upsert_front (\<lambda>r. key r = ikey i) (upd i) (mk i) xs))"
proof (cases "List.find (\<lambda>r. key r = ikey i) xs")
  case None
  then have "ikey i \<notin> key ` set xs"
    by (auto simp: find_None_iff_all)
  with None assms show ?thesis
    by (simp add: upsert_front_def key_mk)
next
  case (Some r)
  with assms show ?thesis
    by (simp add: upsert_front_def map_update_first key_upd)
qed

lemma find_upsert:
  "List.find (\<lambda>r. key r = ikey i) (upsert_front (\<lambda>r. key r = ikey i) (upd i) (mk i) xs)
     = Some (case List.find (\<lambda>r. key r = ikey i) xs of None \<Rightarrow> mk i | Some r \<Rightarrow> upd i r)"
proof (cases "List.find (\<lambda>r. key r = ikey i) xs")
  case None
  then show ?thesis by (simp add: upsert_front_def key_mk)
next
  case (Some r)
  then have "key r = ikey i" by (auto dest: find_SomeD)
  with Some show ?thesis
    by (simp add: upsert_front_def find_update_first_same key_upd)
qed

lemma find_upsert_other:
  assumes "k \<noteq> ikey i"
  shows "List.find (\<lambda>r. key r = k) (upsert_front (\<lambda>r. key r = ikey i) (upd i) (mk i) xs)
     = List.find (\<lambda>r. key r = k) xs"
  using assms by (auto simp: upsert_front_def key_mk key_upd intro!: find_update_first_other)

lemma length_upsert:
  "length (upsert_front (\<lambda>r. key r = ikey i) (upd i) (mk i) xs)
     = length xs + (if ikey i \<in> key ` set xs then 0 else 1)"
  by (force simp: upsert_front_def find_None_iff_all dest: find_SomeD)

end

section \<open>Strings\<close>

definition js_lower_char :: "char \<Rightarrow> char" where
  "js_lower_char c =
     (let n = (of_char c :: nat)
      in if (65 \<le> n \<and> n \<le> 90) \<or> (192 \<le> n \<and> n \<le> 222 \<and> n \<noteq> 215) then char_of (n + 32) else c)"

definition to_lower_case :: "string \<Rightarrow> string" where
  "to_lower_case s = map js_lower_char s"

definition is_space :: "char \<Rightarrow> bool" where
  "is_space c = (let n = (of_char c :: nat) in (9 \<le> n \<and> n \<le> 13) \<or> n = 32 \<or> n = 160)"

definition js_trim :: "string \<Rightarrow> string" where
  "js_trim s = rev (dropWhile is_space (rev (dropWhile is_space s)))"

definition starts_with :: "string \<Rightarrow> string \<Rightarrow> bool" where
  "starts_with s p \<longleftrightarrow> take (length p) s = p"

definition ends_with :: "string \<Rightarrow> string \<Rightarrow> bool" where
  "ends_with s p \<longleftrightarrow> length p \<le> length s \<and> drop (length s - length p) s = p"

fun str_includes :: "string \<Rightarrow> string \<Rightarrow> bool" where
  "str_includes [] p = (p = [])"
| "str_includes (c # s) p = (starts_with (c # s) p \<or> str_includes s p)"

definition slice :: "nat \<Rightarrow> string \<Rightarrow> string" where
  "slice n s = take n s"

fun join :: "string \<Rightarrow> string list \<Rightarrow> string" where
  "join sep [] = []"
| "join sep [s] = s"
| "join sep (s # t # ts) = s @ sep @ join sep (t # ts)"

text \<open>A string counts as true in a condition when it is present and not empty.\<close>

definition truthy :: "string option \<Rightarrow> bool" where
  "truthy s = (case s of None \<Rightarrow> False | Some t \<Rightarrow> t \<noteq> [])"

lemma starts_with_append [simp, text_simps]: "starts_with (p @ s) p"
  by (simp add: starts_with_def)

lemma starts_with_iff [text_simps]: "starts_with s p \<longleftrightarrow> (\<exists>t. s = p @ t)"
  by (metis append_eq_conv_conj append_take_drop_id starts_with_def)

lemma ends_with_iff [text_simps]: "ends_with s p \<longleftrightarrow> (\<exists>t. s = t @ p)"
proof
  assume "ends_with s p"
  then have "s = take (length s - length p) s @ p"
    by (metis append_take_drop_id ends_with_def)
  then show "\<exists>t. s = t @ p" by blast
next
  assume "\<exists>t. s = t @ p"
  then show "ends_with s p" by (auto simp: ends_with_def)
qed

lemma length_to_lower_case [simp, text_simps]: "length (to_lower_case s) = length s"
  by (simp add: to_lower_case_def)

lemma js_lower_char_idem [simp]: "js_lower_char (js_lower_char c) = js_lower_char c"
proof -
  have "(of_char c :: nat) < 256"
    by (rule nat_of_char_less_256)
  then show ?thesis
    by (auto simp: js_lower_char_def Let_def)
qed

lemma to_lower_case_idem [simp, text_simps]: "to_lower_case (to_lower_case s) = to_lower_case s"
  by (simp add: to_lower_case_def)

subsection \<open>Decimal numerals\<close>

definition digit :: "nat \<Rightarrow> char" where
  "digit n = char_of (48 + n)"

fun nat_str :: "nat \<Rightarrow> string" where
  "nat_str n = (if n < 10 then [digit n] else nat_str (n div 10) @ [digit (n mod 10)])"

declare nat_str.simps [simp del]

definition int_str :: "int \<Rightarrow> string" where
  "int_str i = (if i < 0 then ''-'' @ nat_str (nat (- i)) else nat_str (nat i))"

definition pad_start :: "nat \<Rightarrow> char \<Rightarrow> string \<Rightarrow> string" where
  "pad_start n c s = replicate (n - length s) c @ s"

definition digit_value :: "char \<Rightarrow> nat" where
  "digit_value c = of_char c - 48"

definition read_digits :: "string \<Rightarrow> nat" where
  "read_digits s = foldl (\<lambda>acc c. 10 * acc + digit_value c) 0 s"

lemma digit_value_digit [simp]: "n < 10 \<Longrightarrow> digit_value (digit n) = n"
  by (simp add: digit_value_def digit_def)

lemma read_digits_snoc: "read_digits (s @ [c]) = 10 * read_digits s + digit_value c"
  by (simp add: read_digits_def)

lemma read_nat_str [simp]: "read_digits (nat_str n) = n"
proof (induction n rule: nat_str.induct)
  case (1 n)
  show ?case
  proof (cases "n < 10")
    case True
    then show ?thesis
      by (simp add: nat_str.simps [of n] read_digits_def)
  next
    case False
    with 1 show ?thesis
      by (simp add: nat_str.simps [of n] read_digits_snoc)
  qed
qed

lemma read_pad_start [simp]: "read_digits (pad_start k CHR ''0'' s) = read_digits s"
proof -
  have z: "foldl (\<lambda>acc c. 10 * acc + digit_value c) 0 (replicate m CHR ''0'') = 0" for m
    by (induction m) (auto simp: digit_value_def)
  then show ?thesis
    by (simp add: pad_start_def read_digits_def)
qed

lemma nat_str_inj [simp, text_simps]: "nat_str m = nat_str n \<longleftrightarrow> m = n"
  by (metis read_nat_str)

lemma nat_str_digits: "c \<in> set (nat_str n) \<Longrightarrow> 48 \<le> (of_char c :: nat) \<and> (of_char c :: nat) \<le> 57"
proof (induction n rule: nat_str.induct)
  case (1 n)
  have d: "m < 10 \<Longrightarrow> (of_char (digit m) :: nat) = 48 + m" for m
    by (simp add: digit_def)
  show ?case
  proof (cases "n < 10")
    case True
    with 1 d [of n] show ?thesis by (simp add: nat_str.simps [of n])
  next
    case False
    with 1 d [of "n mod 10"] show ?thesis
      by (auto simp: nat_str.simps [of n])
  qed
qed

lemma nat_str_not_Nil [simp]: "nat_str n \<noteq> []"
  by (simp add: nat_str.simps [of n])

definition or_else :: "'a option \<Rightarrow> 'a \<Rightarrow> 'a" where
  "or_else v d = (case v of None \<Rightarrow> d | Some x \<Rightarrow> x)"

lemma or_else_simps [simp]: "or_else None d = d" "or_else (Some v) d = v"
  by (simp_all add: or_else_def)

section \<open>Instants\<close>

text \<open>
  An ISO date string is represented by the instant \<open>Date.parse\<close> reads from it, in
  milliseconds, or \<open>Unparsable\<close> when \<open>Date.parse\<close> gives \<open>NaN\<close>. Comparisons with
  \<open>NaN\<close> are false. \<open>toISOString\<close> throws outside the range of a date.
\<close>

datatype iso_date = Instant int | Unparsable

fun date_parse :: "iso_date \<Rightarrow> int option" where
  "date_parse (Instant t) = Some t"
| "date_parse Unparsable = None"

definition nan_le :: "int option \<Rightarrow> int option \<Rightarrow> bool" where
  "nan_le a b = (case (a, b) of (Some x, Some y) \<Rightarrow> x \<le> y | _ \<Rightarrow> False)"

abbreviation date_le :: "iso_date \<Rightarrow> iso_date \<Rightarrow> bool" where
  "date_le a b \<equiv> nan_le (date_parse a) (date_parse b)"

definition max_date_ms :: int where
  "max_date_ms = 8640000000000000"

definition date_plus :: "iso_date \<Rightarrow> int \<Rightarrow> js_error + iso_date" where
  "date_plus d ms =
     (case date_parse d of
        None \<Rightarrow> Inl (RangeError ''Invalid time value'')
      | Some t \<Rightarrow> if \<bar>t + ms\<bar> \<le> max_date_ms then Inr (Instant (t + ms))
                 else Inl (RangeError ''Invalid time value''))"

definition civil_date :: "int \<Rightarrow> int \<times> int \<times> int" where
  "civil_date days =
     (let z = days + 719468; era = z div 146097; doe = z mod 146097;
          yoe = (doe - doe div 1460 + doe div 36524 - doe div 146096) div 365;
          doy = doe - (365 * yoe + yoe div 4 - yoe div 100);
          mp = (5 * doy + 2) div 153;
          m = (if mp < 10 then mp + 3 else mp - 9)
      in ((if m \<le> 2 then 1 else 0) + yoe + era * 400, m, doy - (153 * mp + 2) div 5 + 1))"

definition padded :: "nat \<Rightarrow> int \<Rightarrow> string" where
  "padded k n = pad_start k CHR ''0'' (nat_str (nat n))"

fun toISOString :: "iso_date \<Rightarrow> string" where
  "toISOString (Instant t) =
     (let (y, m, d) = civil_date (t div 86400000); ms = t mod 86400000 in
      (if 0 \<le> y \<and> y \<le> 9999 then padded 4 y else (if y < 0 then ''-'' else ''+'') @ padded 6 \<bar>y\<bar>)
      @ ''-'' @ padded 2 m @ ''-'' @ padded 2 d @ ''T'' @ padded 2 (ms div 3600000) @ '':''
      @ padded 2 (ms div 60000 mod 60) @ '':'' @ padded 2 (ms div 1000 mod 60) @ ''.''
      @ padded 3 (ms mod 1000) @ ''Z'')"
| "toISOString Unparsable = ''Invalid Date''"

lemma nan_le_Some [simp]: "nan_le (Some x) (Some y) \<longleftrightarrow> x \<le> y"
  by (simp add: nan_le_def)

lemma nan_le_None [simp]: "\<not> nan_le None b" "\<not> nan_le a None"
  by (auto simp: nan_le_def split: option.splits)

lemma date_plus_Inr: "date_plus d ms = Inr d' \<Longrightarrow> \<exists>t. d = Instant t \<and> d' = Instant (t + ms)"
  by (cases d) (auto simp: date_plus_def split: if_splits)

section \<open>JSON values\<close>

text \<open>
  Values of type \<open>unknown\<close> and \<open>Record<string, unknown>\<close>. An object lists its own
  entries in the order of their enumeration. \<open>JUndef\<close> is \<open>undefined\<close>. A number whose text
  is not a decimal integer is \<open>JReal\<close> of that text (\<open>1.5\<close>, \<open>1e+21\<close>, \<open>NaN\<close>, \<open>Infinity\<close>).
\<close>

datatype json =
    JNull
  | JUndef
  | JBool bool
  | JNum int
  | JReal string
  | JStr string
  | JArr "json list"
  | JObj "(string \<times> json) list"

type_synonym json_record = "(string \<times> json) list"

fun obj_get :: "json_record \<Rightarrow> string \<Rightarrow> json option" where
  "obj_get [] k = None"
| "obj_get ((k', v) # es) k = (if k' = k then Some v else obj_get es k)"

definition opt_entry :: "string \<Rightarrow> string option \<Rightarrow> json_record" where
  "opt_entry k v = [(k, case v of None \<Rightarrow> JUndef | Some s \<Rightarrow> JStr s)]"

end
