(* ===== verification/Domain.thy ===== *)
theory Domain
  imports Prelude
begin

text \<open>
  The data model of \<^verbatim>\<open>packages/core/src/types.ts\<close>, with the identity and memory types of
  \<^verbatim>\<open>identity.ts\<close> and \<^verbatim>\<open>memory.ts\<close> that a snapshot holds. A union of string literals is a
  datatype, an interface is a record whose fields carry a prefix for their interface, an
  optional field is an \<open>option\<close>. The functions ending in \<open>_str\<close> give the literals back.
\<close>

section \<open>Enumerations\<close>

datatype principal_kind = Human | Agent | ServiceAccount | Integration | SystemPrincipal

datatype place_kind = SlackChannel | SlackDm | GithubRepo | ProjectPlace | SystemPlace

datatype capability_kind =
    Slack_read | Slack_write | Github_read | Github_branch | Github_pr
  | Linear_read | Linear_write | Mcp_tool | Sandbox_exec | Model_call

datatype risk_level = Read_internal | Write_draft | Write_external | Privileged

datatype decision = Allow | Ask | Deny

datatype connector_kind =
    Conn_slack | Conn_github | Conn_linear | Conn_model_provider | Conn_mcp | Conn_sandbox
  | Conn_custom

datatype connector_install_status =
    Conn_pending | Conn_active | Conn_paused | Conn_revoked | Conn_error

datatype credential_status = Cred_active | Cred_disabled | Cred_rotation_due | Cred_revoked

datatype run_status =
    Run_queued | Run_reading_context | Run_planning | Run_awaiting_approval | Run_running_tools
  | Run_working_in_sandbox | Run_completed | Run_failed | Run_cancelled

datatype trigger_kind =
  Trig_mention | Trig_reaction | Trig_dm | Trig_slash_command | Trig_api | Trig_schedule

datatype org_plan = Plan_oss | Plan_team | Plan_enterprise

datatype agent_status = Agent_active | Agent_paused | Agent_disabled

datatype profile_kind =
  Kind_answer | Kind_coding | Kind_incident | Kind_support | Kind_data | Kind_workflow

datatype place_provider = Prov_slack | Prov_github | Prov_system

datatype sensitivity = Public | Internal | Confidential | Restricted

datatype runtime_kind = Ai_sdk | Opencode | Langgraph | External_runtime

datatype run_event_type =
    Ev_run_created | Ev_policy_evaluated | Ev_model_selected | Ev_tool_requested
  | Ev_approval_requested | Ev_approval_decided | Ev_run_status_changed | Ev_run_completed
  | Ev_run_failed

datatype approval_status = Approval_pending | Approval_approved | Approval_denied | Approval_expired

datatype ingress_kind =
  In_slack_event | In_slack_command | In_slack_interaction | In_slack_oauth | In_github_webhook
  | In_api_run

datatype ingress_provider = Ingress_slack | Ingress_github | Ingress_api

datatype ingress_status = Ingress_processed | Ingress_ignored

datatype outbound_kind = Out_run_outcome | Out_approval_decision

datatype outbound_status = Out_queued | Out_delivering | Out_delivered | Out_failed

datatype outbound_provider = Outbound_slack

datatype identity_scope =
  Scope_workspace | Scope_public_channel | Scope_private_channel | Scope_dm | Scope_service_account

datatype memory_source_kind =
  Mem_slack_thread | Mem_doc | Mem_repo | Mem_ticket | Mem_mcp_output | Mem_uploaded_file
  | Mem_generated_report

datatype memory_retention_kind = Retain_forever | Retain_ttl_days | Retain_keep_until

fun capability_str :: "capability_kind \<Rightarrow> string" where
  "capability_str Slack_read = ''slack.read''"
| "capability_str Slack_write = ''slack.write''"
| "capability_str Github_read = ''github.read''"
| "capability_str Github_branch = ''github.branch''"
| "capability_str Github_pr = ''github.pr''"
| "capability_str Linear_read = ''linear.read''"
| "capability_str Linear_write = ''linear.write''"
| "capability_str Mcp_tool = ''mcp.tool''"
| "capability_str Sandbox_exec = ''sandbox.exec''"
| "capability_str Model_call = ''model.call''"

fun decision_str :: "decision \<Rightarrow> string" where
  "decision_str Allow = ''allow''"
| "decision_str Ask = ''ask''"
| "decision_str Deny = ''deny''"

fun risk_str :: "risk_level \<Rightarrow> string" where
  "risk_str Read_internal = ''read_internal''"
| "risk_str Write_draft = ''write_draft''"
| "risk_str Write_external = ''write_external''"
| "risk_str Privileged = ''privileged''"

fun scope_str :: "identity_scope \<Rightarrow> string" where
  "scope_str Scope_workspace = ''workspace''"
| "scope_str Scope_public_channel = ''public_channel''"
| "scope_str Scope_private_channel = ''private_channel''"
| "scope_str Scope_dm = ''dm''"
| "scope_str Scope_service_account = ''service_account''"

lemma capability_str_inj [simp]: "capability_str a = capability_str b \<longleftrightarrow> a = b"
  by (cases a; cases b) simp_all

section \<open>Interfaces\<close>

record organization =
  org_id :: string
  org_name :: string
  org_slug :: string
  org_plan :: org_plan
  org_primaryAgentId :: string

record principal =
  pr_id :: string
  pr_orgId :: string
  pr_kind :: principal_kind
  pr_displayName :: string
  pr_email :: "string option"
  pr_externalProvider :: "string option"
  pr_externalId :: "string option"
  pr_metadata :: "json option"

record agent_identity =
  ag_id :: string
  ag_orgId :: string
  ag_principalId :: string
  ag_name :: string
  ag_handle :: string
  ag_description :: string
  ag_status :: agent_status
  ag_defaultModelPolicyId :: string
  ag_defaultRuntimeProfileId :: string

record capability_profile =
  cp_id :: string
  cp_orgId :: string
  cp_agentId :: string
  cp_name :: string
  cp_capabilityKind :: profile_kind
  cp_runtimeProfileId :: string
  cp_modelPolicyId :: string
  cp_enabled :: bool

record place_scope =
  pl_id :: string
  pl_orgId :: string
  pl_kind :: place_kind
  pl_provider :: place_provider
  pl_externalId :: string
  pl_name :: string
  pl_sensitivity :: sensitivity
  pl_metadata :: "json option"

record capability_grant =
  gr_id :: string
  gr_capability :: capability_kind
  gr_resource :: string
  gr_decision :: decision
  gr_risk :: risk_level
  gr_requiresApproval :: bool

record access_bundle =
  bu_id :: string
  bu_orgId :: string
  bu_name :: string
  bu_description :: string
  bu_attachedPlaceIds :: "string list"
  bu_grants :: "capability_grant list"
  bu_budgetPolicyId :: string

record model_policy =
  mp_id :: string
  mp_orgId :: string
  mp_name :: string
  mp_defaultModel :: string
  mp_fallbackModels :: "string list"
  mp_perRunBudgetCents :: int

record runtime_profile =
  rp_id :: string
  rp_orgId :: string
  rp_name :: string
  rp_runtimeKind :: runtime_kind
  rp_adapter :: string

record budget_policy =
  bp_id :: string
  bp_orgId :: string
  bp_name :: string
  bp_perRunCents :: int
  bp_perDayCents :: int

record connector_install =
  ci_id :: string
  ci_orgId :: string
  ci_kind :: connector_kind
  ci_provider :: string
  ci_externalId :: "string option"
  ci_displayName :: string
  ci_status :: connector_install_status
  ci_installedByPrincipalId :: "string option"
  ci_config :: "json option"
  ci_metadata :: "json option"
  ci_createdAt :: iso_date
  ci_updatedAt :: iso_date

record credential_record =
  cr_id :: string
  cr_orgId :: string
  cr_connectorInstallId :: "string option"
  cr_name :: string
  cr_provider :: string
  cr_externalAccountId :: "string option"
  cr_secretRef :: string
  cr_status :: credential_status
  cr_scopeSummary :: string
  cr_metadata :: "json option"
  cr_expiresAt :: "iso_date option"
  cr_rotationDueAt :: "iso_date option"
  cr_lastUsedAt :: "iso_date option"
  cr_createdAt :: iso_date
  cr_updatedAt :: iso_date

record run =
  run_id :: string
  run_orgId :: string
  run_agentId :: string
  run_requesterPrincipalId :: string
  run_placeScopeId :: string
  run_trigger :: trigger_kind
  run_prompt :: string
  run_capability :: "capability_kind option"
  run_resource :: "string option"
  run_status :: run_status
  run_modelPolicyId :: string
  run_runtimeProfileId :: string
  run_estimatedCostCents :: int
  run_actualCostCents :: int
  run_createdAt :: iso_date
  run_updatedAt :: iso_date

record run_event =
  ev_id :: string
  ev_runId :: string
  ev_orgId :: string
  ev_type :: run_event_type
  ev_message :: string
  ev_data :: "json option"
  ev_createdAt :: iso_date

record approval_request =
  ap_id :: string
  ap_orgId :: string
  ap_runId :: string
  ap_action :: string
  ap_risk :: risk_level
  ap_status :: approval_status
  ap_payloadHash :: string
  ap_payloadMetadata :: "json option"
  ap_requestedByPrincipalId :: string
  ap_decidedByPrincipalId :: "string option"
  ap_createdAt :: iso_date
  ap_expiresAt :: iso_date
  ap_decidedAt :: "iso_date option"

record audit_event =
  au_id :: string
  au_orgId :: string
  au_actorPrincipalId :: "string option"
  au_runId :: "string option"
  au_action :: string
  au_resourceType :: string
  au_resourceId :: "string option"
  au_decision :: "decision option"
  au_risk :: "risk_level option"
  au_message :: string
  au_data :: "json option"
  au_createdAt :: iso_date

record ingress_delivery =
  in_id :: string
  in_orgId :: string
  in_provider :: ingress_provider
  in_kind :: ingress_kind
  in_key :: string
  in_status :: ingress_status
  in_runId :: "string option"
  in_approvalId :: "string option"
  in_response :: "json option"
  in_createdAt :: iso_date
  in_updatedAt :: iso_date

record outbound_delivery =
  ob_id :: string
  ob_orgId :: string
  ob_provider :: outbound_provider
  ob_kind :: outbound_kind
  ob_key :: string
  ob_status :: outbound_status
  ob_target :: json
  ob_payload :: json
  ob_attempts :: int
  ob_maxAttempts :: int
  ob_runId :: "string option"
  ob_approvalId :: "string option"
  ob_lastError :: "string option"
  ob_nextAttemptAt :: "iso_date option"
  ob_deliveredAt :: "iso_date option"
  ob_createdAt :: iso_date
  ob_updatedAt :: iso_date

record agent_identity_profile =
  id_id :: string
  id_orgId :: string
  id_scope :: identity_scope
  id_name :: string
  id_baseline :: "bool option"
  id_enabled :: bool
  id_placeId :: "string option"
  id_accessBundleIds :: "string list"
  id_modelPolicyId :: "string option"
  id_runtimeProfileId :: "string option"
  id_approverPrincipalIds :: "string list option"
  id_invocationAllowlistPrincipalIds :: "string list option"
  id_inheritsBaseline :: "bool option"

record agent_identity_binding =
  bi_id :: string
  bi_orgId :: string
  bi_identityId :: string
  bi_placeId :: string
  bi_enabled :: bool

record memory_retention =
  mr_kind :: memory_retention_kind
  mr_ttlDays :: "int option"
  mr_retainUntil :: "iso_date option"

record memory_source =
  ms_id :: string
  ms_orgId :: string
  ms_kind :: memory_source_kind
  ms_placeId :: "string option"
  ms_identityId :: "string option"
  ms_sensitivity :: sensitivity
  ms_contentHash :: string
  ms_createdByPrincipalId :: string
  ms_retention :: memory_retention
  ms_title :: "string option"
  ms_uri :: "string option"
  ms_createdAt :: iso_date

record memory_citation =
  mc_sourceId :: string
  mc_sourceKind :: memory_source_kind
  mc_label :: string
  mc_uri :: "string option"
  mc_locator :: "string option"

record memory_chunk =
  ch_id :: string
  ch_orgId :: string
  ch_sourceId :: string
  ch_placeId :: "string option"
  ch_identityId :: "string option"
  ch_allowedPlaceIds :: "string list option"
  ch_allowedIdentityIds :: "string list option"
  ch_sensitivity :: sensitivity
  ch_contentHash :: string
  ch_citation :: memory_citation
  ch_text :: string

record bek_snapshot =
  sn_org :: organization
  sn_principals :: "principal list"
  sn_agent :: agent_identity
  sn_capabilityProfiles :: "capability_profile list"
  sn_places :: "place_scope list"
  sn_accessBundles :: "access_bundle list"
  sn_modelPolicies :: "model_policy list"
  sn_runtimeProfiles :: "runtime_profile list"
  sn_budgetPolicies :: "budget_policy list"
  sn_connectorInstalls :: "connector_install list"
  sn_credentials :: "credential_record list"
  sn_runs :: "run list"
  sn_events :: "run_event list"
  sn_approvals :: "approval_request list"
  sn_auditEvents :: "audit_event list"
  sn_ingressDeliveries :: "ingress_delivery list"
  sn_outboundDeliveries :: "outbound_delivery list"
  sn_agentIdentities :: "agent_identity_profile list option"
  sn_agentIdentityBindings :: "agent_identity_binding list option"
  sn_memorySources :: "memory_source list option"
  sn_memoryChunks :: "memory_chunk list option"

end
