(* ===== verification/Seed.thy ===== *)
theory Seed
  imports Domain
begin

text \<open>
  The demo workspace of \<^verbatim>\<open>packages/core/src/seed.ts\<close>, the snapshot a new store starts from when
  it is given none. It is also the concrete input at which the hypotheses of the properties are
  shown to hold.
\<close>

definition seed_org :: organization where
  "seed_org = \<lparr> org_id = ''org_demo'', org_name = ''Bek Demo Workspace'', org_slug = ''bek-demo'',
     org_plan = Plan_oss, org_primaryAgentId = ''agent_bek'' \<rparr>"

definition seed_principal :: "string \<Rightarrow> principal_kind \<Rightarrow> string \<Rightarrow> string option \<Rightarrow> principal" where
  "seed_principal ident kind name email =
     \<lparr> pr_id = ident, pr_orgId = ''org_demo'', pr_kind = kind, pr_displayName = name,
       pr_email = email, pr_externalProvider = None, pr_externalId = None, pr_metadata = None \<rparr>"

definition seed_principals :: "principal list" where
  "seed_principals =
     [seed_principal ''principal_bek'' Agent ''Bek'' None,
      seed_principal ''principal_bryson'' Human ''Bryson'' (Some ''bryson@example.com''),
      seed_principal ''principal_admin'' Human ''Admin'' (Some ''admin@example.com'')]"

definition seed_agent :: agent_identity where
  "seed_agent =
     \<lparr> ag_id = ''agent_bek'', ag_orgId = ''org_demo'', ag_principalId = ''principal_bek'',
       ag_name = ''Bek'', ag_handle = ''@bek'',
       ag_description = ''One open-source Slack teammate with governed tools behind it.'',
       ag_status = Agent_active, ag_defaultModelPolicyId = ''model_auto'',
       ag_defaultRuntimeProfileId = ''runtime_answer'' \<rparr>"

definition seed_profile :: "string \<Rightarrow> string \<Rightarrow> profile_kind \<Rightarrow> string \<Rightarrow> capability_profile" where
  "seed_profile ident name kind runtimeProfileId =
     \<lparr> cp_id = ident, cp_orgId = ''org_demo'', cp_agentId = ''agent_bek'', cp_name = name,
       cp_capabilityKind = kind, cp_runtimeProfileId = runtimeProfileId,
       cp_modelPolicyId = ''model_auto'', cp_enabled = True \<rparr>"

definition seed_place :: "string \<Rightarrow> string \<Rightarrow> string \<Rightarrow> sensitivity \<Rightarrow> place_scope" where
  "seed_place ident externalId name sens =
     \<lparr> pl_id = ident, pl_orgId = ''org_demo'', pl_kind = SlackChannel, pl_provider = Prov_slack,
       pl_externalId = externalId, pl_name = name, pl_sensitivity = sens,
       pl_metadata = Some (JObj [(''teamId'', JStr ''T123'')]) \<rparr>"

definition place_checkout :: place_scope where
  "place_checkout = seed_place ''place_checkout'' ''C_CHECKOUT'' ''#checkout-eng'' Internal"

definition place_general :: place_scope where
  "place_general = seed_place ''place_general'' ''C_GENERAL'' ''#general'' Public"

definition seed_grant :: "string \<Rightarrow> capability_kind \<Rightarrow> string \<Rightarrow> decision \<Rightarrow> risk_level \<Rightarrow> bool
    \<Rightarrow> capability_grant" where
  "seed_grant ident capability res dec risk requiresApproval =
     \<lparr> gr_id = ident, gr_capability = capability, gr_resource = res, gr_decision = dec,
       gr_risk = risk, gr_requiresApproval = requiresApproval \<rparr>"

definition bundle_checkout :: access_bundle where
  "bundle_checkout =
     \<lparr> bu_id = ''bundle_checkout'', bu_orgId = ''org_demo'', bu_name = ''Checkout Engineering'',
       bu_description = ''Repo, issue, and observability grants for checkout engineering.'',
       bu_attachedPlaceIds = [''place_checkout''],
       bu_grants =
         [seed_grant ''grant_slack_read'' Slack_read ''slack:C_CHECKOUT'' Allow Read_internal False,
          seed_grant ''grant_github_read'' Github_read ''github:redohq/checkout'' Allow Read_internal False,
          seed_grant ''grant_github_pr'' Github_pr ''github:redohq/checkout'' Ask Write_external True,
          seed_grant ''grant_sandbox'' Sandbox_exec ''sandbox:docker-local'' Ask Privileged True],
       bu_budgetPolicyId = ''budget_checkout'' \<rparr>"

definition bundle_general :: access_bundle where
  "bundle_general =
     \<lparr> bu_id = ''bundle_general'', bu_orgId = ''org_demo'', bu_name = ''General Read-Only'',
       bu_description = ''Safe default for public channels.'',
       bu_attachedPlaceIds = [''place_general''],
       bu_grants =
         [seed_grant ''grant_general_slack_read'' Slack_read ''slack:C_GENERAL'' Allow Read_internal False],
       bu_budgetPolicyId = ''budget_checkout'' \<rparr>"

definition seed_model_policy :: model_policy where
  "seed_model_policy =
     \<lparr> mp_id = ''model_auto'', mp_orgId = ''org_demo'', mp_name = ''Auto balanced'',
       mp_defaultModel = ''openai/gpt-5.4'',
       mp_fallbackModels = [''anthropic/claude-sonnet-4.8'', ''openai-compatible/local''],
       mp_perRunBudgetCents = 2000 \<rparr>"

definition runtime_answer :: runtime_profile where
  "runtime_answer = \<lparr> rp_id = ''runtime_answer'', rp_orgId = ''org_demo'',
     rp_name = ''Answer runtime'', rp_runtimeKind = Ai_sdk, rp_adapter = ''ai-sdk-local-stub'' \<rparr>"

definition runtime_code :: runtime_profile where
  "runtime_code = \<lparr> rp_id = ''runtime_code'', rp_orgId = ''org_demo'',
     rp_name = ''Code runtime'', rp_runtimeKind = Opencode, rp_adapter = ''opencode-sandbox'' \<rparr>"

definition seed_budget_policy :: budget_policy where
  "seed_budget_policy = \<lparr> bp_id = ''budget_checkout'', bp_orgId = ''org_demo'',
     bp_name = ''Checkout default'', bp_perRunCents = 2000, bp_perDayCents = 50000 \<rparr>"

definition seed_run :: "iso_date \<Rightarrow> run" where
  "seed_run now =
     \<lparr> run_id = ''run_demo'', run_orgId = ''org_demo'', run_agentId = ''agent_bek'',
       run_requesterPrincipalId = ''principal_bryson'', run_placeScopeId = ''place_checkout'',
       run_trigger = Trig_mention, run_prompt = ''@bek what can you access here?'',
       run_capability = None, run_resource = None, run_status = Run_completed,
       run_modelPolicyId = ''model_auto'', run_runtimeProfileId = ''runtime_answer'',
       run_estimatedCostCents = 4, run_actualCostCents = 3, run_createdAt = now,
       run_updatedAt = now \<rparr>"

definition seed_event :: "string \<Rightarrow> run_event_type \<Rightarrow> string \<Rightarrow> iso_date \<Rightarrow> run_event" where
  "seed_event ident type message now =
     \<lparr> ev_id = ident, ev_runId = ''run_demo'', ev_orgId = ''org_demo'', ev_type = type,
       ev_message = message, ev_data = None, ev_createdAt = now \<rparr>"

definition createSeedSnapshot :: "iso_date \<Rightarrow> bek_snapshot" where
  "createSeedSnapshot now =
     \<lparr> sn_org = seed_org, sn_principals = seed_principals, sn_agent = seed_agent,
       sn_capabilityProfiles =
         [seed_profile ''cap_answer'' ''Answer'' Kind_answer ''runtime_answer'',
          seed_profile ''cap_code'' ''Code'' Kind_coding ''runtime_code''],
       sn_places = [place_checkout, place_general],
       sn_accessBundles = [bundle_checkout, bundle_general],
       sn_modelPolicies = [seed_model_policy],
       sn_runtimeProfiles = [runtime_answer, runtime_code],
       sn_budgetPolicies = [seed_budget_policy],
       sn_connectorInstalls = [], sn_credentials = [], sn_runs = [seed_run now],
       sn_events =
         [seed_event ''event_demo_created'' Ev_run_created ''Bek was mentioned in #checkout-eng.'' now,
          seed_event ''event_demo_completed'' Ev_run_completed
            ''Bek can read Slack context, read github:redohq/checkout, and ask before PR/sandbox writes.'' now],
       sn_approvals = [], sn_auditEvents = [], sn_ingressDeliveries = [], sn_outboundDeliveries = [],
       sn_agentIdentities = None, sn_agentIdentityBindings = None, sn_memorySources = None,
       sn_memoryChunks = None \<rparr>"

lemmas seed_defs =
  seed_org_def seed_principal_def seed_principals_def seed_agent_def seed_profile_def seed_place_def
  place_checkout_def place_general_def seed_grant_def bundle_checkout_def bundle_general_def
  seed_model_policy_def runtime_answer_def runtime_code_def seed_budget_policy_def seed_run_def
  seed_event_def createSeedSnapshot_def

end
