(* ===== verification/Policy.thy ===== *)
theory Policy
  imports Seed
begin

text \<open>
  The policy evaluator, \<^verbatim>\<open>packages/core/src/policy.ts\<close>: the bundles of a place, the match of a
  grant's resource against the requested one, the specificity order, and \<open>evaluatePolicy\<close>.
  The lemmas show that a request no grant matches is denied, that a matching deny wins over
  every other grant, and what the grant of an allow or ask decision must satisfy.
\<close>

record policy_request =
  rq_placeScopeId :: string
  rq_capability :: capability_kind
  rq_resource :: "string option"

record policy_decision =
  pd_decision :: decision
  pd_risk :: risk_level
  pd_requiresApproval :: bool
  pd_matchingGrant :: "capability_grant option"
  pd_reason :: string

definition bundlesForPlace :: "access_bundle list \<Rightarrow> place_scope \<Rightarrow> access_bundle list" where
  "bundlesForPlace bundles place = filter (\<lambda>b. pl_id place \<in> set (bu_attachedPlaceIds b)) bundles"

text \<open>A missing and an empty requested resource are both falsy.\<close>

definition resourceMatches :: "string \<Rightarrow> string option \<Rightarrow> bool" where
  "resourceMatches grantResource requestedResource =
     (if \<not> truthy requestedResource then grantResource = ''*''
      else let requested = the requestedResource
           in if grantResource = requested \<or> grantResource = ''*'' then True
              else if ends_with grantResource ''*'' then starts_with requested (butlast grantResource)
              else False)"

definition specificityScore :: "string \<Rightarrow> string option \<Rightarrow> nat" where
  "specificityScore grantResource requestedResource =
     (if \<not> truthy requestedResource then (if grantResource = ''*'' then 1 else 0)
      else if grantResource = the requestedResource then 1000
      else if ends_with grantResource ''*'' then length grantResource
      else if grantResource = ''*'' then 1
      else 0)"

definition more_specific :: "string option \<Rightarrow> capability_grant \<Rightarrow> capability_grant \<Rightarrow> bool" where
  "more_specific requested a b =
     (specificityScore (gr_resource b) requested \<le> specificityScore (gr_resource a) requested)"

definition matchingGrants :: "access_bundle list \<Rightarrow> policy_request \<Rightarrow> capability_grant list" where
  "matchingGrants bundles request =
     sort_by (more_specific (rq_resource request))
       (filter (\<lambda>g. resourceMatches (gr_resource g) (rq_resource request))
         (filter (\<lambda>g. gr_capability g = rq_capability request)
           (concat (map bu_grants bundles))))"

definition evaluatePolicy :: "access_bundle list \<Rightarrow> policy_request \<Rightarrow> policy_decision" where
  "evaluatePolicy bundles request =
     (let cap = capability_str (rq_capability request) in
      case matchingGrants bundles request of
        [] \<Rightarrow> \<lparr> pd_decision = Deny, pd_risk = Privileged, pd_requiresApproval = False,
               pd_matchingGrant = None,
               pd_reason = ''No grant allows '' @ cap @ '' in this place.'' \<rparr>
      | matchingGrant # others \<Rightarrow>
          (case List.find (\<lambda>g. gr_decision g = Deny) (matchingGrant # others) of
             Some denyingGrant \<Rightarrow>
               \<lparr> pd_decision = Deny, pd_risk = gr_risk denyingGrant, pd_requiresApproval = False,
                 pd_matchingGrant = Some denyingGrant,
                 pd_reason = ''Grant '' @ gr_id denyingGrant @ '' explicitly denies '' @ cap @ ''.'' \<rparr>
           | None \<Rightarrow>
               \<lparr> pd_decision = gr_decision matchingGrant, pd_risk = gr_risk matchingGrant,
                 pd_requiresApproval =
                   (gr_requiresApproval matchingGrant \<or> gr_decision matchingGrant = Ask),
                 pd_matchingGrant = Some matchingGrant,
                 pd_reason =
                   (if gr_decision matchingGrant = Ask
                    then ''Grant '' @ gr_id matchingGrant @ '' allows '' @ cap @ '' after approval.''
                    else ''Grant '' @ gr_id matchingGrant @ '' allows '' @ cap @ ''.'') \<rparr>))"

definition assertSingleVisibleAgent :: "string list \<Rightarrow> js_error option" where
  "assertSingleVisibleAgent agentHandles =
     (if length (dedupe (map to_lower_case agentHandles)) \<noteq> 1
      then Some (Error ''Bek v1 must expose exactly one visible agent handle per workspace.'')
      else None)"

section \<open>The order of the matching grants\<close>

interpretation specificity: comparator "more_specific requested" for requested
  by unfold_locales (auto simp: more_specific_def)

definition grant_applies :: "access_bundle list \<Rightarrow> policy_request \<Rightarrow> capability_grant \<Rightarrow> bool" where
  "grant_applies bundles request g \<longleftrightarrow>
     (\<exists>b \<in> set bundles. g \<in> set (bu_grants b)) \<and> gr_capability g = rq_capability request
     \<and> resourceMatches (gr_resource g) (rq_resource request)"

lemma set_matchingGrants: "g \<in> set (matchingGrants bundles request) \<longleftrightarrow> grant_applies bundles request g"
  by (auto simp: matchingGrants_def grant_applies_def)

lemma matchingGrants_head:
  assumes "matchingGrants bundles request = g # gs" "grant_applies bundles request g'"
  shows "specificityScore (gr_resource g') (rq_resource request)
    \<le> specificityScore (gr_resource g) (rq_resource request)"
proof -
  have "g' \<in> set (g # gs)"
    using assms set_matchingGrants by metis
  then have "more_specific (rq_resource request) g g'"
    using assms(1) specificity.least_first [of "rq_resource request" _ g gs g']
    unfolding matchingGrants_def by (metis set_sort_by)
  then show ?thesis by (simp add: more_specific_def)
qed

section \<open>The decision\<close>

lemma evaluatePolicy_none:
  assumes "matchingGrants bundles request = []"
  shows "pd_decision (evaluatePolicy bundles request) = Deny"
    "pd_risk (evaluatePolicy bundles request) = Privileged"
    "pd_requiresApproval (evaluatePolicy bundles request) = False"
    "pd_matchingGrant (evaluatePolicy bundles request) = None"
  using assms by (simp_all add: evaluatePolicy_def Let_def)

lemma evaluatePolicy_deny:
  assumes "List.find (\<lambda>g. gr_decision g = Deny) (matchingGrants bundles request) = Some d"
  shows "pd_decision (evaluatePolicy bundles request) = Deny"
    "pd_risk (evaluatePolicy bundles request) = gr_risk d"
    "pd_requiresApproval (evaluatePolicy bundles request) = False"
    "pd_matchingGrant (evaluatePolicy bundles request) = Some d"
  using assms by (cases "matchingGrants bundles request";
      simp add: evaluatePolicy_def Let_def del: List.find.simps(2))+

lemma evaluatePolicy_grant:
  assumes "matchingGrants bundles request = g # gs"
    "List.find (\<lambda>g. gr_decision g = Deny) (matchingGrants bundles request) = None"
  shows "pd_decision (evaluatePolicy bundles request) = gr_decision g"
    "pd_risk (evaluatePolicy bundles request) = gr_risk g"
    "pd_requiresApproval (evaluatePolicy bundles request)
       = (gr_requiresApproval g \<or> gr_decision g = Ask)"
    "pd_matchingGrant (evaluatePolicy bundles request) = Some g"
  using assms by (simp_all add: evaluatePolicy_def Let_def del: List.find.simps(2))

lemma find_deny_None:
  "List.find (\<lambda>g. gr_decision g = Deny) (matchingGrants bundles request) = None
     \<longleftrightarrow> (\<forall>g. grant_applies bundles request g \<longrightarrow> gr_decision g \<noteq> Deny)"
  by (auto simp: find_None_iff_all set_matchingGrants)

lemma find_deny_SomeD:
  "List.find (\<lambda>g. gr_decision g = Deny) (matchingGrants bundles request) = Some d
     \<Longrightarrow> grant_applies bundles request d \<and> gr_decision d = Deny"
  using find_SomeD [of _ "matchingGrants bundles request" d] set_matchingGrants by blast

lemma matchingGrants_Nil_iff:
  "matchingGrants bundles request = [] \<longleftrightarrow> (\<forall>g. \<not> grant_applies bundles request g)"
  using set_matchingGrants [of _ bundles request] by (cases "matchingGrants bundles request") auto

lemma matchingGrants_Cons_applies:
  "matchingGrants bundles request = g # gs \<Longrightarrow> grant_applies bundles request g"
  using set_matchingGrants [of g bundles request] by simp

lemma evaluatePolicy_unmatched:
  assumes "\<forall>g. \<not> grant_applies bundles request g"
  shows "pd_decision (evaluatePolicy bundles request) = Deny"
    "pd_risk (evaluatePolicy bundles request) = Privileged"
    "pd_matchingGrant (evaluatePolicy bundles request) = None"
  using assms evaluatePolicy_none [of bundles request] by (simp_all add: matchingGrants_Nil_iff)

lemma evaluatePolicy_denied:
  assumes "grant_applies bundles request g" "gr_decision g = Deny"
  obtains d where "grant_applies bundles request d" "gr_decision d = Deny"
    "pd_decision (evaluatePolicy bundles request) = Deny"
    "pd_requiresApproval (evaluatePolicy bundles request) = False"
    "pd_risk (evaluatePolicy bundles request) = gr_risk d"
    "pd_matchingGrant (evaluatePolicy bundles request) = Some d"
proof (cases "List.find (\<lambda>g. gr_decision g = Deny) (matchingGrants bundles request)")
  case None
  with assms show thesis by (simp add: find_deny_None)
next
  case (Some d)
  from find_deny_SomeD [OF this] evaluatePolicy_deny [OF this] show thesis
    by (intro that) simp_all
qed

lemma evaluatePolicy_permitted:
  assumes "pd_decision (evaluatePolicy bundles request) \<noteq> Deny"
  obtains g where "grant_applies bundles request g"
    "pd_matchingGrant (evaluatePolicy bundles request) = Some g"
    "pd_decision (evaluatePolicy bundles request) = gr_decision g"
    "pd_risk (evaluatePolicy bundles request) = gr_risk g"
    "pd_requiresApproval (evaluatePolicy bundles request)
       = (gr_requiresApproval g \<or> gr_decision g = Ask)"
    "\<And>g'. grant_applies bundles request g' \<Longrightarrow> gr_decision g' \<noteq> Deny
       \<and> specificityScore (gr_resource g') (rq_resource request)
           \<le> specificityScore (gr_resource g) (rq_resource request)"
proof (cases "matchingGrants bundles request")
  case Nil
  with assms show thesis by (simp add: evaluatePolicy_none)
next
  case (Cons g gs)
  have none: "List.find (\<lambda>g. gr_decision g = Deny) (matchingGrants bundles request) = None"
  proof (cases "List.find (\<lambda>g. gr_decision g = Deny) (matchingGrants bundles request)")
    case (Some d)
    with assms show ?thesis by (simp add: evaluatePolicy_deny)
  qed
  show thesis
  proof (rule that [of g])
    show "grant_applies bundles request g"
      using Cons by (rule matchingGrants_Cons_applies)
    show "gr_decision g' \<noteq> Deny
       \<and> specificityScore (gr_resource g') (rq_resource request)
           \<le> specificityScore (gr_resource g) (rq_resource request)"
      if "grant_applies bundles request g'" for g'
      using that none matchingGrants_head [OF Cons that] by (simp add: find_deny_None)
  qed (use evaluatePolicy_grant [OF Cons none] in simp_all)
qed

text \<open>
  What the callers of the evaluator rely on: a denied request never asks for approval, and an
  ask decision always does. A component that gates work on a decision is proved against this
  interface.
\<close>

locale policy_gate =
  fixes decide :: "access_bundle list \<Rightarrow> policy_request \<Rightarrow> policy_decision"
  assumes deny_no_approval:
      "pd_decision (decide bs rq) = Deny \<Longrightarrow> \<not> pd_requiresApproval (decide bs rq)"
    and ask_approval:
      "pd_decision (decide bs rq) = Ask \<Longrightarrow> pd_requiresApproval (decide bs rq)"
    and granted:
      "pd_decision (decide bs rq) \<noteq> Deny \<Longrightarrow> \<exists>g. grant_applies bs rq g
         \<and> pd_matchingGrant (decide bs rq) = Some g \<and> pd_risk (decide bs rq) = gr_risk g"
begin

lemma approval_not_denied: "pd_requiresApproval (decide bs rq) \<Longrightarrow> pd_decision (decide bs rq) \<noteq> Deny"
  using deny_no_approval by blast

lemma unapproved_is_allow:
  "pd_decision (decide bs rq) \<noteq> Deny \<Longrightarrow> \<not> pd_requiresApproval (decide bs rq)
     \<Longrightarrow> pd_decision (decide bs rq) = Allow"
  using ask_approval by (cases "pd_decision (decide bs rq)") auto

lemma no_bundles_denied: "pd_decision (decide [] rq) = Deny"
  using granted [of "[]" rq] by (auto simp: grant_applies_def)

end

interpretation gate: policy_gate evaluatePolicy
proof
  fix bs rq
  show "\<not> pd_requiresApproval (evaluatePolicy bs rq)" if "pd_decision (evaluatePolicy bs rq) = Deny"
  proof (cases "List.find (\<lambda>g. gr_decision g = Deny) (matchingGrants bs rq)")
    case None
    then show ?thesis
    proof (cases "matchingGrants bs rq")
      case (Cons g gs)
      with None that show ?thesis
        using matchingGrants_Cons_applies [OF Cons] evaluatePolicy_grant [OF Cons None]
        by (simp add: find_deny_None)
    qed (simp add: evaluatePolicy_none)
  qed (simp add: evaluatePolicy_deny)
  show "pd_requiresApproval (evaluatePolicy bs rq)" if "pd_decision (evaluatePolicy bs rq) = Ask"
    by (rule evaluatePolicy_permitted [of bs rq]) (use that in simp_all)
  show "\<exists>g. grant_applies bs rq g \<and> pd_matchingGrant (evaluatePolicy bs rq) = Some g
      \<and> pd_risk (evaluatePolicy bs rq) = gr_risk g"
    if "pd_decision (evaluatePolicy bs rq) \<noteq> Deny"
    using that by (elim evaluatePolicy_permitted) blast
qed

section \<open>Properties\<close>

text \<open>
  C1. Deny wins. When any grant of the bundles matches the request and denies it, the decision is
  deny without an approval path, whatever more specific grants allow, and the reported grant is
  one of the denying ones.
\<close>

theorem deny_overrides:
  assumes "grant_applies bundles request g" "gr_decision g = Deny"
  shows "pd_decision (evaluatePolicy bundles request) = Deny
    \<and> \<not> pd_requiresApproval (evaluatePolicy bundles request)
    \<and> (\<exists>d. pd_matchingGrant (evaluatePolicy bundles request) = Some d
         \<and> gr_decision d = Deny \<and> grant_applies bundles request d
         \<and> pd_risk (evaluatePolicy bundles request) = gr_risk d)"
  by (rule evaluatePolicy_denied [OF assms]) simp

definition pr_request :: policy_request where
  "pr_request = \<lparr> rq_placeScopeId = ''place_checkout'', rq_capability = Github_pr,
     rq_resource = Some ''github:redohq/checkout'' \<rparr>"

definition frozen_bundle :: access_bundle where
  "frozen_bundle = bundle_checkout\<lparr>bu_grants := bu_grants bundle_checkout
     @ [seed_grant ''grant_freeze'' Github_pr ''github:redohq/*'' Deny Privileged False]\<rparr>"

theorem deny_overrides_witness:
  "pd_decision (evaluatePolicy [frozen_bundle] pr_request) = Deny"
  using deny_overrides [of "[frozen_bundle]" pr_request
      "seed_grant ''grant_freeze'' Github_pr ''github:redohq/*'' Deny Privileged False"]
  by (simp add: grant_applies_def frozen_bundle_def pr_request_def seed_grant_def
      resourceMatches_def truthy_def ends_with_def starts_with_def)

text \<open>
  C2. Nothing is allowed without a grant. A decision other than deny is backed by a grant of the
  place's bundles for the same capability whose resource matches; no matching grant denies, none
  is more specific, and approval is required exactly when that grant asks for it.
\<close>

theorem permission_needs_grant:
  assumes "pd_decision (evaluatePolicy (bundlesForPlace bundles place) request) \<noteq> Deny"
  shows "\<exists>b \<in> set bundles. \<exists>g \<in> set (bu_grants b).
      pl_id place \<in> set (bu_attachedPlaceIds b)
    \<and> gr_capability g = rq_capability request
    \<and> resourceMatches (gr_resource g) (rq_resource request)
    \<and> pd_decision (evaluatePolicy (bundlesForPlace bundles place) request) = gr_decision g
    \<and> pd_risk (evaluatePolicy (bundlesForPlace bundles place) request) = gr_risk g
    \<and> (pd_requiresApproval (evaluatePolicy (bundlesForPlace bundles place) request)
         \<longleftrightarrow> gr_requiresApproval g \<or> gr_decision g = Ask)
    \<and> (\<forall>g'. grant_applies (bundlesForPlace bundles place) request g'
         \<longrightarrow> gr_decision g' \<noteq> Deny
           \<and> specificityScore (gr_resource g') (rq_resource request)
               \<le> specificityScore (gr_resource g) (rq_resource request))"
proof (rule evaluatePolicy_permitted [OF assms])
  fix g
  assume g: "grant_applies (bundlesForPlace bundles place) request g"
    "pd_decision (evaluatePolicy (bundlesForPlace bundles place) request) = gr_decision g"
    "pd_risk (evaluatePolicy (bundlesForPlace bundles place) request) = gr_risk g"
    "pd_requiresApproval (evaluatePolicy (bundlesForPlace bundles place) request)
       = (gr_requiresApproval g \<or> gr_decision g = Ask)"
    "\<And>g'. grant_applies (bundlesForPlace bundles place) request g' \<Longrightarrow> gr_decision g' \<noteq> Deny
       \<and> specificityScore (gr_resource g') (rq_resource request)
           \<le> specificityScore (gr_resource g) (rq_resource request)"
  from g(1) obtain b where b: "b \<in> set bundles" "pl_id place \<in> set (bu_attachedPlaceIds b)"
    "g \<in> set (bu_grants b)" "gr_capability g = rq_capability request"
    "resourceMatches (gr_resource g) (rq_resource request)"
    unfolding grant_applies_def bundlesForPlace_def by auto
  show ?thesis
    by (rule bexI [OF _ b(1)], rule bexI [OF _ b(3)]) (use b g in simp)
qed

theorem permission_needs_grant_witness:
  "\<exists>g. grant_applies [bundle_checkout] pr_request g \<and> gr_decision g = Ask"
proof -
  have d: "pd_decision (evaluatePolicy (bundlesForPlace [bundle_checkout, bundle_general] place_checkout)
      pr_request) = Ask"
    by (simp add: bundlesForPlace_def evaluatePolicy_def matchingGrants_def pr_request_def seed_defs
        resourceMatches_def truthy_def ends_with_def Let_def)
  have b: "bundlesForPlace [bundle_checkout, bundle_general] place_checkout = [bundle_checkout]"
    by (simp add: bundlesForPlace_def seed_defs)
  show ?thesis
    using permission_needs_grant [of "[bundle_checkout, bundle_general]" place_checkout pr_request] d b
    by (auto simp: grant_applies_def bundle_general_def place_checkout_def seed_place_def)
qed

end
