(* ===== verification/Identity.thy ===== *)
theory Identity
  imports Policy
begin

text \<open>
  Agent identities, \<^verbatim>\<open>packages/core/src/identity.ts\<close>: which identity acts in a place, what it
  inherits from the workspace baseline, when it is disabled or isolated, who may invoke it, and
  the default profiles derived from places and bundles. The lemmas show that an isolated
  identity gets grants of its own bundles only, that disabling an identity, the baseline it
  inherits or the binding revokes the place, and what the derived defaults resolve to.
\<close>

record resolved_identity =
  ri_identity :: agent_identity_profile
  ri_baseline :: "agent_identity_profile option"
  ri_enabled :: bool
  ri_isolated :: bool
  ri_effectiveBundleIds :: "string list"
  ri_effectiveGrants :: "capability_grant list"
  ri_approverPrincipalIds :: "string list"
  ri_invocationAllowlistPrincipalIds :: "string list"
  ri_reason :: string

record resolve_input =
  re_identities :: "agent_identity_profile list"
  re_place :: place_scope
  re_accessBundles :: "access_bundle list"
  re_bindings :: "agent_identity_binding list option"

definition isWorkspaceBaseline :: "agent_identity_profile \<Rightarrow> bool" where
  "isWorkspaceBaseline i = (id_scope i = Scope_workspace \<and> id_baseline i = Some True)"

definition identityIsIsolated :: "agent_identity_profile \<Rightarrow> bool" where
  "identityIsIsolated i =
     (if id_scope i = Scope_private_channel then True else id_inheritsBaseline i = Some False)"

definition grantsForBundleIds :: "access_bundle list \<Rightarrow> string list \<Rightarrow> capability_grant list" where
  "grantsForBundleIds bundles bundleIds =
     concat (map bu_grants (filter (\<lambda>b. bu_id b \<in> set bundleIds) bundles))"

definition emptyIdentity :: "place_scope \<Rightarrow> agent_identity_profile" where
  "emptyIdentity place =
     \<lparr> id_id = ''identity_unresolved_'' @ pl_id place, id_orgId = pl_orgId place,
       id_scope = (if pl_kind place = SlackDm then Scope_dm else Scope_public_channel),
       id_name = ''Unresolved identity'', id_baseline = None, id_enabled = False,
       id_placeId = None, id_accessBundleIds = [], id_modelPolicyId = None,
       id_runtimeProfileId = None, id_approverPrincipalIds = None,
       id_invocationAllowlistPrincipalIds = None, id_inheritsBaseline = None \<rparr>"

definition reasonForEnabled :: "agent_identity_profile \<Rightarrow> bool \<Rightarrow> bool \<Rightarrow> string" where
  "reasonForEnabled identity isolated inheritsBaseline =
     (if isWorkspaceBaseline identity then ''Resolved to the workspace baseline identity.''
      else if isolated then ''Resolved to isolated '' @ scope_str (id_scope identity)
        @ '' identity (no baseline inheritance).''
      else if inheritsBaseline then ''Resolved to '' @ scope_str (id_scope identity)
        @ '' identity inheriting the workspace baseline.''
      else ''Resolved to '' @ scope_str (id_scope identity) @ '' identity.'')"

definition reasonForDisabled :: "agent_identity_profile \<Rightarrow> bool \<Rightarrow> bool \<Rightarrow> string" where
  "reasonForDisabled identity baselineEnabled bindingDisabled =
     (if bindingDisabled then ''The identity binding for this place is disabled.''
      else if \<not> baselineEnabled then ''The inherited workspace baseline identity is disabled.''
      else ''Agent identity '' @ id_name identity @ '' is disabled.'')"

definition bindings_of :: "resolve_input \<Rightarrow> agent_identity_binding list" where
  "bindings_of input = (case re_bindings input of None \<Rightarrow> [] | Some bs \<Rightarrow> bs)"

definition orgIdentities :: "resolve_input \<Rightarrow> agent_identity_profile list" where
  "orgIdentities input = filter (\<lambda>i. id_orgId i = pl_orgId (re_place input)) (re_identities input)"

definition baseline_of :: "resolve_input \<Rightarrow> agent_identity_profile option" where
  "baseline_of input = List.find isWorkspaceBaseline (orgIdentities input)"

definition boundIdentityIds :: "resolve_input \<Rightarrow> string list" where
  "boundIdentityIds input =
     map bi_identityId
       (filter (\<lambda>b. bi_placeId b = pl_id (re_place input) \<and> bi_orgId b = pl_orgId (re_place input))
         (bindings_of input))"

definition placeIdentity :: "resolve_input \<Rightarrow> agent_identity_profile option" where
  "placeIdentity input =
     (case List.find (\<lambda>i. id_placeId i = Some (pl_id (re_place input))
                         \<or> id_id i \<in> set (boundIdentityIds input)) (orgIdentities input) of
        Some i \<Rightarrow> Some i
      | None \<Rightarrow> baseline_of input)"

definition bindingDisabled :: "resolve_input \<Rightarrow> agent_identity_profile \<Rightarrow> bool" where
  "bindingDisabled input identity =
     (\<exists>b \<in> set (bindings_of input). bi_placeId b = pl_id (re_place input)
        \<and> bi_identityId b = id_id identity \<and> bi_enabled b = False)"

definition resolveAgentIdentity :: "resolve_input \<Rightarrow> resolved_identity" where
  "resolveAgentIdentity input =
     (let baseline = baseline_of input; place = re_place input in
      case placeIdentity input of
        None \<Rightarrow>
          \<lparr> ri_identity = emptyIdentity place, ri_baseline = None, ri_enabled = False,
            ri_isolated = (pl_kind place = SlackDm), ri_effectiveBundleIds = [],
            ri_effectiveGrants = [], ri_approverPrincipalIds = [],
            ri_invocationAllowlistPrincipalIds = [],
            ri_reason = ''No agent identity (and no workspace baseline) covers this place.'' \<rparr>
      | Some pid \<Rightarrow>
          (let disabled = bindingDisabled input pid;
               isolated = identityIsIsolated pid;
               inherits = (\<not> isolated \<and> \<not> isWorkspaceBaseline pid
                            \<and> id_inheritsBaseline pid \<noteq> Some False);
               bundleIds = dedupe
                 ((case baseline of Some b \<Rightarrow> (if inherits then id_accessBundleIds b else []) | None \<Rightarrow> [])
                  @ id_accessBundleIds pid);
               baselineEnabled =
                 (\<not> inherits \<or> (case baseline of None \<Rightarrow> True | Some b \<Rightarrow> id_enabled b));
               enabled = (id_enabled pid \<and> baselineEnabled \<and> \<not> disabled)
           in \<lparr> ri_identity = pid,
                ri_baseline = (if inherits then baseline else None),
                ri_enabled = enabled,
                ri_isolated = isolated,
                ri_effectiveBundleIds = bundleIds,
                ri_effectiveGrants = grantsForBundleIds (re_accessBundles input) bundleIds,
                ri_approverPrincipalIds =
                  (case id_approverPrincipalIds pid of None \<Rightarrow> [] | Some ids \<Rightarrow> ids),
                ri_invocationAllowlistPrincipalIds =
                  (case id_invocationAllowlistPrincipalIds pid of None \<Rightarrow> [] | Some ids \<Rightarrow> ids),
                ri_reason = (if enabled then reasonForEnabled pid isolated inherits
                             else reasonForDisabled pid baselineEnabled disabled) \<rparr>))"

datatype invocation_decision = Invoke_allow | Invoke_deny

record invocation_input =
  iv_resolved :: resolved_identity
  iv_principal :: principal
  iv_isPlaceMember :: "bool option"

record invocation_result =
  ivr_decision :: invocation_decision
  ivr_reason :: string

definition canInvokeAgent :: "invocation_input \<Rightarrow> invocation_result" where
  "canInvokeAgent input =
     (if \<not> ri_enabled (iv_resolved input) then
        \<lparr> ivr_decision = Invoke_deny,
          ivr_reason = ''The agent identity for this place is disabled.'' \<rparr>
      else let allowlist = ri_invocationAllowlistPrincipalIds (iv_resolved input) in
        if 0 < length allowlist then
          (if pr_id (iv_principal input) \<in> set allowlist
           then \<lparr> ivr_decision = Invoke_allow,
                  ivr_reason = ''Principal is on the invocation allowlist.'' \<rparr>
           else \<lparr> ivr_decision = Invoke_deny,
                  ivr_reason = ''Principal is not on this identity's invocation allowlist.'' \<rparr>)
        else if iv_isPlaceMember input = Some False then
          \<lparr> ivr_decision = Invoke_deny, ivr_reason = ''Principal is not a member of this place.'' \<rparr>
        else \<lparr> ivr_decision = Invoke_allow, ivr_reason = ''Principal may invoke this identity.'' \<rparr>)"

definition isIdentityDataIsolated :: "resolved_identity \<Rightarrow> bool" where
  "isIdentityDataIsolated resolved = ri_isolated resolved"

definition scopeForPlace :: "place_scope \<Rightarrow> identity_scope" where
  "scopeForPlace place =
     (if pl_kind place = SlackDm then Scope_dm
      else if pl_sensitivity place = Confidential \<or> pl_sensitivity place = Restricted
        then Scope_private_channel
      else Scope_public_channel)"

record derive_input =
  di_orgId :: string
  di_places :: "place_scope list"
  di_accessBundles :: "access_bundle list"

definition identity_for :: "string \<Rightarrow> identity_scope \<Rightarrow> string \<Rightarrow> string \<Rightarrow> bool option \<Rightarrow> string option
    \<Rightarrow> string list \<Rightarrow> agent_identity_profile" where
  "identity_for orgId scope ident name baseline placeId bundleIds =
     \<lparr> id_id = ident, id_orgId = orgId, id_scope = scope, id_name = name, id_baseline = baseline,
       id_enabled = True, id_placeId = placeId, id_accessBundleIds = bundleIds,
       id_modelPolicyId = None, id_runtimeProfileId = None, id_approverPrincipalIds = None,
       id_invocationAllowlistPrincipalIds = None, id_inheritsBaseline = None \<rparr>"

definition deriveDefaultIdentityProfiles :: "derive_input \<Rightarrow> agent_identity_profile list" where
  "deriveDefaultIdentityProfiles input =
     (let orgBundles = filter (\<lambda>b. bu_orgId b = di_orgId input) (di_accessBundles input);
          baselineBundleIds = map bu_id (filter (\<lambda>b. length (bu_attachedPlaceIds b) = 0) orgBundles);
          baseline = identity_for (di_orgId input) Scope_workspace
            (''identity_baseline_'' @ di_orgId input) ''Workspace baseline'' (Some True) None
            baselineBundleIds;
          placeIdentities =
            map (\<lambda>place. identity_for (di_orgId input) (scopeForPlace place)
                   (''identity_'' @ pl_id place) (pl_name place @ '' identity'') None
                   (Some (pl_id place))
                   (map bu_id (filter (\<lambda>b. pl_id place \<in> set (bu_attachedPlaceIds b)) orgBundles)))
              (filter (\<lambda>p. pl_orgId p = di_orgId input) (di_places input))
      in baseline # placeIdentities)"

section \<open>Resolution\<close>

definition inherits_baseline :: "agent_identity_profile \<Rightarrow> bool" where
  "inherits_baseline i = (\<not> identityIsIsolated i \<and> \<not> isWorkspaceBaseline i)"

lemma inherits_baseline_iff:
  "(\<not> identityIsIsolated i \<and> \<not> isWorkspaceBaseline i \<and> id_inheritsBaseline i \<noteq> Some False)
     \<longleftrightarrow> inherits_baseline i"
  by (auto simp: inherits_baseline_def identityIsIsolated_def split: if_splits)

lemma resolve_none:
  assumes "placeIdentity input = None"
  shows "ri_enabled (resolveAgentIdentity input) = False"
    "ri_effectiveGrants (resolveAgentIdentity input) = []"
    "ri_effectiveBundleIds (resolveAgentIdentity input) = []"
  using assms by (simp_all add: resolveAgentIdentity_def Let_def)

lemma resolve_some:
  assumes "placeIdentity input = Some i"
  shows "ri_identity (resolveAgentIdentity input) = i"
    "ri_isolated (resolveAgentIdentity input) = identityIsIsolated i"
    "ri_enabled (resolveAgentIdentity input) \<longleftrightarrow>
       id_enabled i \<and> \<not> bindingDisabled input i
       \<and> (inherits_baseline i \<longrightarrow> (\<forall>b. baseline_of input = Some b \<longrightarrow> id_enabled b))"
    "set (ri_effectiveBundleIds (resolveAgentIdentity input)) =
       set (id_accessBundleIds i) \<union>
       (case baseline_of input of None \<Rightarrow> {}
        | Some b \<Rightarrow> if inherits_baseline i then set (id_accessBundleIds b) else {})"
    "ri_effectiveGrants (resolveAgentIdentity input) =
       grantsForBundleIds (re_accessBundles input) (ri_effectiveBundleIds (resolveAgentIdentity input))"
    "ri_invocationAllowlistPrincipalIds (resolveAgentIdentity input) =
       (case id_invocationAllowlistPrincipalIds i of None \<Rightarrow> [] | Some ids \<Rightarrow> ids)"
  using assms unfolding resolveAgentIdentity_def Let_def inherits_baseline_iff
  by (auto split: option.splits)

lemma set_grantsForBundleIds:
  "g \<in> set (grantsForBundleIds bundles ids) \<longleftrightarrow>
     (\<exists>b \<in> set bundles. bu_id b \<in> set ids \<and> g \<in> set (bu_grants b))"
  by (auto simp: grantsForBundleIds_def)

lemma placeIdentity_org:
  assumes "placeIdentity input = Some i"
  shows "i \<in> set (re_identities input) \<and> id_orgId i = pl_orgId (re_place input)"
  using assms
  by (auto simp: placeIdentity_def baseline_of_def orgIdentities_def split: option.splits
      dest!: find_SomeD)

section \<open>Properties\<close>

text \<open>
  C3. Private compartments do not inherit. When the identity resolved for a place is isolated (a
  private channel, or one that opts out of the baseline), every effective grant comes from a
  bundle bound to that identity itself, and no baseline is attached.
\<close>

theorem isolated_grants_own_bundles:
  assumes "placeIdentity input = Some i"
    and "id_scope i = Scope_private_channel \<or> id_inheritsBaseline i = Some False"
  shows "ri_isolated (resolveAgentIdentity input)
    \<and> ri_baseline (resolveAgentIdentity input) = None
    \<and> set (ri_effectiveBundleIds (resolveAgentIdentity input)) = set (id_accessBundleIds i)
    \<and> (\<forall>g \<in> set (ri_effectiveGrants (resolveAgentIdentity input)).
         \<exists>b \<in> set (re_accessBundles input). bu_id b \<in> set (id_accessBundleIds i) \<and> g \<in> set (bu_grants b))"
proof -
  have iso: "identityIsIsolated i"
    using assms(2) by (auto simp: identityIsIsolated_def)
  then have ni: "\<not> inherits_baseline i"
    by (simp add: inherits_baseline_def)
  then have ids: "set (ri_effectiveBundleIds (resolveAgentIdentity input)) = set (id_accessBundleIds i)"
    using resolve_some(4) [OF assms(1)] by (auto split: option.splits)
  moreover have "ri_baseline (resolveAgentIdentity input) = None"
    using assms(1) iso by (simp add: resolveAgentIdentity_def Let_def)
  ultimately show ?thesis
    using iso resolve_some(2,5) [OF assms(1)] by (simp add: set_grantsForBundleIds)
qed

definition private_identity :: agent_identity_profile where
  "private_identity = identity_for ''org_demo'' Scope_private_channel ''identity_checkout'' ''Checkout''
     None (Some ''place_checkout'') [''bundle_checkout'']"

definition private_input :: resolve_input where
  "private_input = \<lparr> re_identities = [private_identity], re_place = place_checkout,
     re_accessBundles = [bundle_checkout, bundle_general], re_bindings = None \<rparr>"

theorem isolated_grants_own_bundles_witness:
  "ri_isolated (resolveAgentIdentity private_input)
   \<and> set (ri_effectiveBundleIds (resolveAgentIdentity private_input)) = {''bundle_checkout''}"
  using isolated_grants_own_bundles [of private_input private_identity]
  by (simp add: private_input_def private_identity_def identity_for_def placeIdentity_def
      orgIdentities_def place_checkout_def seed_place_def)

text \<open>
  Revocation. A place is enabled exactly when some identity covers it, that identity is
  enabled, no binding of it to the place is disabled, and the baseline it inherits, if there is
  one, is enabled too. A disabled place can be invoked by nobody.
\<close>

theorem revocation_disables_place:
  "(ri_enabled (resolveAgentIdentity input) \<longleftrightarrow>
      (\<exists>i. placeIdentity input = Some i \<and> id_enabled i \<and> \<not> bindingDisabled input i
         \<and> (identityIsIsolated i \<or> isWorkspaceBaseline i
            \<or> baseline_of input = None \<or> id_enabled (the (baseline_of input)))))
   \<and> (\<not> ri_enabled (resolveAgentIdentity input) \<longrightarrow>
      (\<forall>p m. ivr_decision (canInvokeAgent \<lparr> iv_resolved = resolveAgentIdentity input,
               iv_principal = p, iv_isPlaceMember = m \<rparr>) = Invoke_deny))"
proof (cases "placeIdentity input")
  case None
  then show ?thesis by (simp add: resolve_none canInvokeAgent_def)
next
  case (Some i)
  then show ?thesis
    by (cases "baseline_of input")
       (auto simp: resolve_some(3) [OF Some] inherits_baseline_def canInvokeAgent_def)
qed

theorem revocation_disables_place_witness:
  "ivr_decision (canInvokeAgent \<lparr> iv_resolved = resolveAgentIdentity
      (private_input\<lparr>re_identities := [private_identity\<lparr>id_enabled := False\<rparr>]\<rparr>),
      iv_principal = seed_principal ''principal_bryson'' Human ''Bryson'' None,
      iv_isPlaceMember = Some True \<rparr>) = Invoke_deny"
  using revocation_disables_place
      [of "private_input\<lparr>re_identities := [private_identity\<lparr>id_enabled := False\<rparr>]\<rparr>"]
  by (auto simp: private_input_def private_identity_def identity_for_def placeIdentity_def
      orgIdentities_def place_checkout_def seed_place_def)

text \<open>
  Who may invoke. An invocation is allowed exactly when the place is enabled and either the
  principal is on a non-empty allowlist, or there is no allowlist and the principal is not known
  to be outside the place.
\<close>

theorem invocation_allowed_iff:
  "ivr_decision (canInvokeAgent input) = Invoke_allow \<longleftrightarrow>
     ri_enabled (iv_resolved input)
     \<and> (if ri_invocationAllowlistPrincipalIds (iv_resolved input) = []
        then iv_isPlaceMember input \<noteq> Some False
        else pr_id (iv_principal input) \<in> set (ri_invocationAllowlistPrincipalIds (iv_resolved input)))"
  by (auto simp: canInvokeAgent_def Let_def)

lemma find_place_identity:
  assumes "place \<in> set places" "pl_orgId place = org"
    and "\<And>p. p \<in> set places \<Longrightarrow> pl_id p = pl_id place \<Longrightarrow> p = place"
  shows "List.find (\<lambda>i. id_placeId i = Some (pl_id place))
      (map (\<lambda>p. identity_for org (scopeForPlace p) (''identity_'' @ pl_id p) (nm p) None
              (Some (pl_id p)) (bs p)) (filter (\<lambda>p. pl_orgId p = org) places))
    = Some (identity_for org (scopeForPlace place) (''identity_'' @ pl_id place) (nm place) None
              (Some (pl_id place)) (bs place))"
  using assms
proof (induction places)
  case Nil
  then show ?case by simp
next
  case (Cons p ps)
  show ?case
  proof (cases "pl_id p = pl_id place")
    case True
    then have "p = place" using Cons.prems(3) by simp
    with Cons.prems(2) show ?thesis by (simp add: identity_for_def)
  next
    case False
    with Cons show ?thesis by (auto simp: identity_for_def)
  qed
qed

lemma derived_place_identity:
  assumes "place \<in> set places"
    and "\<And>p. p \<in> set places \<Longrightarrow> pl_id p = pl_id place \<Longrightarrow> p = place"
    and "input = \<lparr> re_identities = deriveDefaultIdentityProfiles
           \<lparr> di_orgId = pl_orgId place, di_places = places, di_accessBundles = bundles \<rparr>,
         re_place = place, re_accessBundles = bundles, re_bindings = None \<rparr>"
  shows "placeIdentity input = Some (identity_for (pl_orgId place) (scopeForPlace place)
      (''identity_'' @ pl_id place) (pl_name place @ '' identity'') None (Some (pl_id place))
      (map bu_id (filter (\<lambda>b. pl_id place \<in> set (bu_attachedPlaceIds b))
        (filter (\<lambda>b. bu_orgId b = pl_orgId place) bundles))))"
    (is "_ = Some ?i")
proof -
  let ?P = "\<lambda>i. id_placeId i = Some (pl_id place)"
  let ?derived = "deriveDefaultIdentityProfiles
           \<lparr> di_orgId = pl_orgId place, di_places = places, di_accessBundles = bundles \<rparr>"
  have "\<forall>i \<in> set ?derived. id_orgId i = pl_orgId place"
    by (auto simp: deriveDefaultIdentityProfiles_def Let_def identity_for_def)
  then have org: "orgIdentities input = ?derived"
    using assms(3) by (simp add: orgIdentities_def)
  have "boundIdentityIds input = []"
    using assms(3) by (simp add: boundIdentityIds_def bindings_of_def)
  then have "List.find (\<lambda>i. id_placeId i = Some (pl_id (re_place input))
      \<or> id_id i \<in> set (boundIdentityIds input)) (orgIdentities input) = List.find ?P ?derived"
    using assms(3) org by simp
  also have "\<dots> = Some ?i"
    using find_place_identity [OF assms(1) HOL.refl assms(2)]
    by (simp add: deriveDefaultIdentityProfiles_def Let_def identity_for_def)
  finally show ?thesis by (simp add: placeIdentity_def)
qed

lemma derived_enabled: "i \<in> set (deriveDefaultIdentityProfiles d) \<Longrightarrow> id_enabled i"
  by (auto simp: deriveDefaultIdentityProfiles_def Let_def identity_for_def)

lemma baseline_of_mem: "baseline_of input = Some b \<Longrightarrow> b \<in> set (re_identities input)"
  by (auto simp: baseline_of_def orgIdentities_def dest!: find_SomeD)

text \<open>
  The derived defaults govern every place. For a place of the organization whose id is its
  own, the default profiles resolve without bindings to an enabled identity of the place; a
  confidential or restricted channel is isolated, and its grants come from the organization's
  bundles attached to it.
\<close>

theorem derived_defaults_resolve:
  assumes "place \<in> set places"
    and "\<forall>p \<in> set places. pl_id p = pl_id place \<longrightarrow> p = place"
    and "input = \<lparr> re_identities = deriveDefaultIdentityProfiles
           \<lparr> di_orgId = pl_orgId place, di_places = places, di_accessBundles = bundles \<rparr>,
         re_place = place, re_accessBundles = bundles, re_bindings = None \<rparr>"
  shows "ri_enabled (resolveAgentIdentity input)
    \<and> (ri_isolated (resolveAgentIdentity input) \<longleftrightarrow>
         pl_kind place \<noteq> SlackDm \<and> pl_sensitivity place \<in> {Confidential, Restricted})
    \<and> (ri_isolated (resolveAgentIdentity input) \<longrightarrow>
        (\<forall>g \<in> set (ri_effectiveGrants (resolveAgentIdentity input)).
          \<exists>b \<in> set bundles. \<exists>b' \<in> set bundles. g \<in> set (bu_grants b) \<and> bu_id b = bu_id b'
            \<and> bu_orgId b' = pl_orgId place \<and> pl_id place \<in> set (bu_attachedPlaceIds b')))"
proof -
  let ?i = "identity_for (pl_orgId place) (scopeForPlace place)
      (''identity_'' @ pl_id place) (pl_name place @ '' identity'') None (Some (pl_id place))
      (map bu_id (filter (\<lambda>b. pl_id place \<in> set (bu_attachedPlaceIds b))
        (filter (\<lambda>b. bu_orgId b = pl_orgId place) bundles)))"
  have pi: "placeIdentity input = Some ?i"
    using assms by (intro derived_place_identity) auto
  have base: "baseline_of input = Some b \<Longrightarrow> id_enabled b" for b
    using derived_enabled baseline_of_mem [of input b] assms(3) by simp
  have en: "ri_enabled (resolveAgentIdentity input)"
    using base assms(3) unfolding resolve_some(3) [OF pi]
    by (auto simp: identity_for_def bindingDisabled_def bindings_of_def)
  have iso: "ri_isolated (resolveAgentIdentity input) \<longleftrightarrow> scopeForPlace place = Scope_private_channel"
    unfolding resolve_some(2) [OF pi] by (simp add: identityIsIsolated_def identity_for_def)
  have grants: "\<exists>b \<in> set bundles. \<exists>b' \<in> set bundles. g \<in> set (bu_grants b) \<and> bu_id b = bu_id b'
            \<and> bu_orgId b' = pl_orgId place \<and> pl_id place \<in> set (bu_attachedPlaceIds b')"
    if "ri_isolated (resolveAgentIdentity input)"
      "g \<in> set (ri_effectiveGrants (resolveAgentIdentity input))" for g
  proof -
    have "\<not> inherits_baseline ?i"
      using that(1) resolve_some(2) [OF pi] by (simp add: inherits_baseline_def)
    then have "set (ri_effectiveBundleIds (resolveAgentIdentity input)) = set (id_accessBundleIds ?i)"
      using resolve_some(4) [OF pi] by (auto split: option.splits)
    with that(2) resolve_some(5) [OF pi] obtain b where
      "b \<in> set bundles" "g \<in> set (bu_grants b)" "bu_id b \<in> set (id_accessBundleIds ?i)"
      using assms(3) by (auto simp: set_grantsForBundleIds)
    then show ?thesis
      by (auto simp: identity_for_def)
  qed
  from en iso grants show ?thesis
    by (auto simp: scopeForPlace_def split: if_splits)
qed

theorem derived_defaults_resolve_witness:
  "\<not> ri_isolated (resolveAgentIdentity \<lparr> re_identities = deriveDefaultIdentityProfiles
      \<lparr> di_orgId = ''org_demo'', di_places = [place_checkout, place_general],
        di_accessBundles = [bundle_checkout, bundle_general] \<rparr>,
      re_place = place_checkout, re_accessBundles = [bundle_checkout, bundle_general],
      re_bindings = None \<rparr>)"
  using derived_defaults_resolve [of place_checkout "[place_checkout, place_general]" _
      "[bundle_checkout, bundle_general]"]
  by (simp add: place_checkout_def place_general_def seed_place_def)

end
