(* ===== verification/JsRegex.thy ===== *)
theory JsRegex
  imports Prelude
begin

text \<open>
  The regular expressions of ECMAScript, as far as the code uses them: character classes,
  sequence, ordered alternatives, greedy and lazy counted repetition, capture groups, word
  boundaries and anchors, with the backtracking semantics of the language. A matcher returns
  every way to match at a position in the order backtracking tries them; the first one is the
  match. The components write their patterns as values of type \<open>rx\<close>.
\<close>

datatype rx =
    Cls "char \<Rightarrow> bool"
  | Eps
  | Seq rx rx
  | Alt rx rx
  | Rep bool nat "nat option" rx
  | Grp nat rx
  | WordB
  | AtStart
  | AtEnd

text \<open>A position: the character before it, the text after it, and the captures so far.\<close>

type_synonym captures = "(nat \<times> string) list"
type_synonym pos = "char option \<times> string \<times> captures"

abbreviation rest_of :: "pos \<Rightarrow> string" where
  "rest_of m \<equiv> fst (snd m)"

definition word_char :: "char \<Rightarrow> bool" where
  "word_char c = (let n = (of_char c :: nat)
     in (65 \<le> n \<and> n \<le> 90) \<or> (97 \<le> n \<and> n \<le> 122) \<or> (48 \<le> n \<and> n \<le> 57) \<or> n = 95)"

definition at_boundary :: "char option \<Rightarrow> string \<Rightarrow> bool" where
  "at_boundary prev s =
     ((case prev of None \<Rightarrow> False | Some c \<Rightarrow> word_char c)
        \<noteq> (case s of [] \<Rightarrow> False | c # _ \<Rightarrow> word_char c))"

text \<open>
  Repetition of \<open>f\<close> between \<open>lo\<close> and \<open>hi\<close> times. An iteration beyond the minimum that
  consumes nothing fails, so \<open>lo + length rest + 1\<close> units of fuel are never used up.
\<close>

fun rep_runs :: "nat \<Rightarrow> bool \<Rightarrow> nat \<Rightarrow> nat option \<Rightarrow> (pos \<Rightarrow> pos list) \<Rightarrow> pos \<Rightarrow> pos list" where
  "rep_runs 0 greedy lo hi f m = [m]"
| "rep_runs (Suc n) greedy lo hi f m =
     (if hi = Some 0 then [m]
      else let more = concat (map (\<lambda>m'. if lo = 0 \<and> rest_of m' = rest_of m then []
                        else rep_runs n greedy (lo - 1) (map_option (\<lambda>k. k - 1) hi) f m') (f m))
           in if 0 < lo then more else if greedy then more @ [m] else m # more)"

primrec rx_runs :: "rx \<Rightarrow> pos \<Rightarrow> pos list" where
  "rx_runs (Cls p) m =
     (case m of (prev, s, caps) \<Rightarrow>
        (case s of [] \<Rightarrow> [] | c # cs \<Rightarrow> if p c then [(Some c, cs, caps)] else []))"
| "rx_runs Eps m = [m]"
| "rx_runs (Seq a b) m = concat (map (rx_runs b) (rx_runs a m))"
| "rx_runs (Alt a b) m = rx_runs a m @ rx_runs b m"
| "rx_runs (Rep greedy lo hi a) m =
     rep_runs (lo + length (rest_of m) + 1) greedy lo hi (rx_runs a) m"
| "rx_runs (Grp k a) m =
     map (\<lambda>(prev, s, caps). (prev, s, (k, take (length (rest_of m) - length s) (rest_of m)) # caps))
       (rx_runs a m)"
| "rx_runs WordB m = (case m of (prev, s, _) \<Rightarrow> if at_boundary prev s then [m] else [])"
| "rx_runs AtStart m = (if fst m = None then [m] else [])"
| "rx_runs AtEnd m = (if rest_of m = [] then [m] else [])"

definition capture :: "captures \<Rightarrow> nat \<Rightarrow> string" where
  "capture caps k = (case map_of caps k of None \<Rightarrow> [] | Some s \<Rightarrow> s)"

text \<open>\<open>r.exec(s)\<close>: the captures of the first match, scanning from the left.\<close>

fun rx_scan :: "rx \<Rightarrow> char option \<Rightarrow> string \<Rightarrow> captures option" where
  "rx_scan r prev s =
     (case rx_runs r (prev, s, []) of
        (_, _, caps) # _ \<Rightarrow> Some caps
      | [] \<Rightarrow> (case s of [] \<Rightarrow> None | c # cs \<Rightarrow> rx_scan r (Some c) cs))"

definition rx_exec :: "rx \<Rightarrow> string \<Rightarrow> captures option" where
  "rx_exec r s = rx_scan r None s"

definition rx_test :: "rx \<Rightarrow> string \<Rightarrow> bool" where
  "rx_test r s = (rx_exec r s \<noteq> None)"

text \<open>
  \<open>s.replace(r, f)\<close> with the global flag: matches from the left, each replaced by \<open>f\<close> of
  its captures; after an empty match one character is copied.
\<close>

function replace_from :: "rx \<Rightarrow> (captures \<Rightarrow> string) \<Rightarrow> char option \<Rightarrow> string \<Rightarrow> string" where
  "replace_from r f prev s =
     (case rx_runs r (prev, s, []) of
        (prev', s', caps) # _ \<Rightarrow>
          if length s' < length s then f caps @ replace_from r f prev' s'
          else f caps @ (case s of [] \<Rightarrow> [] | c # cs \<Rightarrow> c # replace_from r f (Some c) cs)
      | [] \<Rightarrow> (case s of [] \<Rightarrow> [] | c # cs \<Rightarrow> c # replace_from r f (Some c) cs))"
  by pat_completeness auto
termination
  by (relation "measure (\<lambda>(r, f, prev, s). length s)") auto

declare rx_scan.simps [simp del] replace_from.simps [simp del]

definition replace_all :: "rx \<Rightarrow> (captures \<Rightarrow> string) \<Rightarrow> string \<Rightarrow> string" where
  "replace_all r f s = replace_from r f None s"

section \<open>Building patterns\<close>

definition rx_seq :: "rx list \<Rightarrow> rx" where
  "rx_seq rs = foldr Seq rs Eps"

fun rx_alts :: "rx list \<Rightarrow> rx" where
  "rx_alts [] = Cls (\<lambda>_. False)"
| "rx_alts [r] = r"
| "rx_alts (r # s # rs) = Alt r (rx_alts (s # rs))"

definition chr :: "char \<Rightarrow> rx" where
  "chr c = Cls (\<lambda>d. d = c)"

definition chr_i :: "char \<Rightarrow> rx" where
  "chr_i c = Cls (\<lambda>d. js_lower_char d = js_lower_char c)"

definition lit :: "string \<Rightarrow> rx" where
  "lit s = rx_seq (map chr s)"

definition lit_i :: "string \<Rightarrow> rx" where
  "lit_i s = rx_seq (map chr_i s)"

definition in_range :: "char \<Rightarrow> char \<Rightarrow> char \<Rightarrow> bool" where
  "in_range a b c = ((of_char a :: nat) \<le> of_char c \<and> (of_char c :: nat) \<le> of_char b)"

definition alnum_or :: "string \<Rightarrow> char \<Rightarrow> bool" where
  "alnum_or extra c =
     (in_range CHR ''A'' CHR ''Z'' c \<or> in_range CHR ''a'' CHR ''z'' c \<or>
      in_range CHR ''0'' CHR ''9'' c \<or> c \<in> set extra)"

definition plus :: "rx \<Rightarrow> rx" where "plus r = Rep True 1 None r"
definition star :: "rx \<Rightarrow> rx" where "star r = Rep True 0 None r"
definition optional :: "rx \<Rightarrow> rx" where "optional r = Rep True 0 (Some 1) r"
definition at_least :: "nat \<Rightarrow> rx \<Rightarrow> rx" where "at_least n r = Rep True n None r"
definition exactly :: "nat \<Rightarrow> rx \<Rightarrow> rx" where "exactly n r = Rep True n (Some n) r"
definition lazy_star :: "rx \<Rightarrow> rx" where "lazy_star r = Rep False 0 None r"

section \<open>What a match leaves\<close>

text \<open>A match consumes a prefix: the text after it is a suffix of the text before it.\<close>

lemma rep_runs_cases:
  assumes "m' \<in> set (rep_runs (Suc n) g lo hi f m)"
  obtains "m' = m"
  | m'' where "m'' \<in> set (f m)"
      "m' \<in> set (rep_runs n g (lo - 1) (map_option (\<lambda>k. k - 1) hi) f m'')"
  using assms by (auto simp: Let_def split: if_splits)

lemma suffix_rep_runs:
  assumes f: "\<And>m m'. m' \<in> set (f m) \<Longrightarrow> suffix (rest_of m') (rest_of m)"
  shows "m' \<in> set (rep_runs n g lo hi f m) \<Longrightarrow> suffix (rest_of m') (rest_of m)"
proof (induction n arbitrary: lo hi m)
  case 0
  then show ?case by simp
next
  case (Suc n)
  from Suc.prems show ?case
  proof (cases rule: rep_runs_cases)
    case 1
    then show ?thesis by simp
  next
    case (2 m'')
    have "suffix (rest_of m') (rest_of m'')"
      using Suc.IH 2(2) .
    from suffix_order.trans [OF this f [OF 2(1)]] show ?thesis .
  qed
qed

lemma suffix_rx_runs: "m' \<in> set (rx_runs r m) \<Longrightarrow> suffix (rest_of m') (rest_of m)"
proof (induction r arbitrary: m m')
  case (Cls p)
  then show ?case
    by (auto split: prod.splits list.splits if_splits simp: suffix_def)
next
  case (Seq a b)
  then obtain m'' where "m'' \<in> set (rx_runs a m)" "m' \<in> set (rx_runs b m'')"
    by auto
  from suffix_order.trans [OF Seq.IH(2) [OF this(2)] Seq.IH(1) [OF this(1)]] show ?case .
next
  case (Rep greedy lo hi a)
  from Rep.prems have "m' \<in> set (rep_runs (lo + length (rest_of m) + 1) greedy lo hi (rx_runs a) m)"
    by (simp only: rx_runs.simps)
  then show ?case
    by (rule suffix_rep_runs [rotated]) (rule Rep.IH)
next
  case (Grp k a)
  then obtain m'' where "m'' \<in> set (rx_runs a m)" "rest_of m'' = rest_of m'"
    by (auto split: prod.splits)
  with Grp.IH show ?case by metis
qed (auto split: prod.splits if_splits)

text \<open>A text in which nothing matches is left alone by a replacement.\<close>

lemma replace_from_no_match:
  assumes "rx_scan r prev s = None"
  shows "replace_from r f prev s = s"
  using assms
proof (induction s arbitrary: prev)
  case Nil
  then show ?case
    by (subst replace_from.simps) (auto simp: rx_scan.simps split: list.splits)
next
  case (Cons c s)
  from Cons.prems have n: "rx_runs r (prev, c # s, []) = []" "rx_scan r (Some c) s = None"
    by (auto simp: rx_scan.simps [of r prev "c # s"] split: list.splits)
  with Cons.IH show ?case
    by (subst replace_from.simps) simp
qed

lemma replace_all_no_match: "\<not> rx_test r s \<Longrightarrow> replace_all r f s = s"
  by (simp add: rx_test_def rx_exec_def replace_all_def replace_from_no_match)

section \<open>Runs of one character class\<close>

definition prev_at :: "char option \<Rightarrow> string \<Rightarrow> nat \<Rightarrow> char option" where
  "prev_at prev s k = (if k = 0 then prev else Some (s ! (k - 1)))"

lemma rep_runs_cls:
  "length s < n \<Longrightarrow> rep_runs n True lo None (rx_runs (Cls p)) (prev, s, caps)
     = map (\<lambda>k. (prev_at prev s k, drop k s, caps)) (rev [lo ..< Suc (length (takeWhile p s))])"
proof (induction s arbitrary: n lo prev)
  case Nil
  then obtain n' where "n = Suc n'" by (cases n) auto
  then show ?case by (auto simp: prev_at_def)
next
  case (Cons c s)
  then obtain n' where n: "n = Suc n'" by (cases n) auto
  show ?case
  proof (cases "p c")
    case False
    then show ?thesis by (auto simp: n prev_at_def)
  next
    case True
    let ?t = "length (takeWhile p s)"
    have f: "rx_runs (Cls p) (prev, c # s, caps) = [(Some c, s, caps)]"
      using True by simp
    have IH: "rep_runs n' True (lo - 1) None (rx_runs (Cls p)) (Some c, s, caps)
        = map (\<lambda>k. (prev_at (Some c) s k, drop k s, caps)) (rev [lo - 1 ..< Suc ?t])"
      using Cons.prems n by (intro Cons.IH) simp
    have shift: "map (\<lambda>k. (prev_at (Some c) s k, drop k s, caps)) (rev [j ..< Suc ?t])
        = map (\<lambda>k. (prev_at prev (c # s) k, drop k (c # s), caps)) (rev [Suc j ..< Suc (Suc ?t)])"
      for j
    proof -
      have "rev [Suc j ..< Suc (Suc ?t)] = map Suc (rev [j ..< Suc ?t])"
        by (simp only: rev_map [symmetric] map_Suc_upt)
      then show ?thesis
        by (auto simp: prev_at_def nth_Cons split: nat.splits)
    qed
    show ?thesis
    proof (cases lo)
      case 0
      have z: "rev [0 ..< Suc (Suc ?t)] = rev [Suc 0 ..< Suc (Suc ?t)] @ [0]"
        by (subst upt_conv_Cons) (simp_all del: upt_Suc)
      have "rep_runs n True lo None (rx_runs (Cls p)) (prev, c # s, caps)
          = map (\<lambda>k. (prev_at (Some c) s k, drop k s, caps)) (rev [0 ..< Suc ?t]) @ [(prev, c # s, caps)]"
        using IH 0 True by (simp add: n)
      also have "\<dots> = map (\<lambda>k. (prev_at prev (c # s) k, drop k (c # s), caps)) (rev [Suc 0 ..< Suc (Suc ?t)] @ [0])"
        unfolding shift [of 0] by (simp add: prev_at_def del: upt_Suc)
      finally show ?thesis
        using True 0 by (simp only: z takeWhile.simps if_True list.size add_0_right add_Suc_right)
    next
      case (Suc l)
      then show ?thesis
        using IH f True by (simp add: n shift del: upt_Suc rx_runs.simps)
    qed
  qed
qed

lemma runs_plus_cls:
  "rx_runs (plus (Cls p)) (prev, s, caps)
     = map (\<lambda>k. (prev_at prev s k, drop k s, caps)) (rev [1 ..< Suc (length (takeWhile p s))])"
  by (simp add: plus_def rep_runs_cls del: rep_runs.simps)

lemma set_runs_plus_cls:
  "set (rx_runs (plus (Cls p)) (prev, s, caps))
     = {(prev_at prev s k, drop k s, caps) | k. 1 \<le> k \<and> k \<le> length (takeWhile p s)}"
  by (auto simp: runs_plus_cls)

lemma rx_seq_simps [simp]:
  "rx_seq [] = Eps" "rx_seq (r # rs) = Seq r (rx_seq rs)"
  by (simp_all add: rx_seq_def)

lemma runs_lit:
  "rx_runs (lit p) (prev, s, caps) =
     (if starts_with s p then [(prev_at prev s (length p), drop (length p) s, caps)] else [])"
proof (induction p arbitrary: prev s)
  case Nil
  then show ?case by (simp add: lit_def starts_with_def prev_at_def)
next
  case (Cons c p)
  show ?case
  proof (cases s)
    case Nil
    then show ?thesis by (simp add: lit_def chr_def starts_with_def)
  next
    case (Cons d t)
    have "rx_runs (lit (c # p)) (prev, s, caps)
        = (if d = c then rx_runs (lit p) (Some d, t, caps) else [])"
      by (simp add: lit_def chr_def Cons)
    also have "\<dots> = (if starts_with s (c # p)
        then [(prev_at prev s (length (c # p)), drop (length (c # p)) s, caps)] else [])"
      by (auto simp: Cons.IH \<open>s = d # t\<close> starts_with_def prev_at_def nth_Cons
          split: nat.splits)
    finally show ?thesis .
  qed
qed

lemma take_takeWhile_all: "j \<le> length (takeWhile p s) \<Longrightarrow> c \<in> set (take j s) \<Longrightarrow> p c"
  by (metis in_set_takeD set_takeWhileD takeWhile_eq_take take_take min.absorb1)

lemma runs_group_plus:
  "set (rx_runs (Grp k (plus (Cls p))) (prev, s, caps)) =
     {(prev_at prev s j, drop j s, (k, take j s) # caps) | j. 1 \<le> j \<and> j \<le> length (takeWhile p s)}"
proof -
  have "take (length s - (length s - j)) s = take j s" for j
    by (cases "j \<le> length s") simp_all
  then have "rx_runs (Grp k (plus (Cls p))) (prev, s, caps) =
      map (\<lambda>j. (prev_at prev s j, drop j s, (k, take j s) # caps))
        (rev [1 ..< Suc (length (takeWhile p s))])"
    by (simp add: runs_plus_cls del: upt_Suc)
  then show ?thesis by (auto simp: Suc_le_eq)
qed

lemma runs_chr: "rx_runs (chr c) (prev, s, caps) =
     (case s of [] \<Rightarrow> [] | d # ds \<Rightarrow> if d = c then [(Some d, ds, caps)] else [])"
  by (simp add: chr_def)

lemma runs_seq: "m \<in> set (rx_runs (Seq a b) m0) \<longleftrightarrow>
    (\<exists>m1. m1 \<in> set (rx_runs a m0) \<and> m \<in> set (rx_runs b m1))"
  by auto

lemma scan_anchored_Some: "rx_scan (Seq AtStart r) (Some c) s = None"
  by (induction s arbitrary: c) (auto simp: rx_scan.simps)

lemma exec_anchored:
  "rx_exec (Seq AtStart r) s =
     (case rx_runs r (None, s, []) of (_, _, caps) # _ \<Rightarrow> Some caps | [] \<Rightarrow> None)"
  unfolding rx_exec_def
  by (subst rx_scan.simps) (auto simp: scan_anchored_Some split: list.splits)

end
