(* ===== verification/Rbac.thy ===== *)
theory Rbac
  imports JsRegex
begin

text \<open>
  Role-based access control, \<^verbatim>\<open>packages/core/src/rbac.ts\<close>: roles, scopes, the table of scopes
  per role, and the scope a request of the admin API needs. The lemmas relate the roles to each
  other and show that every write outside the session endpoints is gated by a scope that
  read-only roles do not have.
\<close>

datatype role =
  Owner | Admin | Operator | Approver | Developer | Viewer | Billing_admin

datatype scope =
    Slack_manage | Github_manage | Models_manage | Mcp_manage | Credentials_manage
  | Connectors_manage | Channels_manage | Access_manage | Runtime_manage | Settings_manage
  | Worker_operate | Writes_approve | Runs_create | Runs_cancel | Audit_view | Audit_export
  | Billing_manage

fun role_str :: "role \<Rightarrow> string" where
  "role_str Owner = ''owner''"
| "role_str Admin = ''admin''"
| "role_str Operator = ''operator''"
| "role_str Approver = ''approver''"
| "role_str Developer = ''developer''"
| "role_str Viewer = ''viewer''"
| "role_str Billing_admin = ''billing_admin''"

fun scope_name :: "scope \<Rightarrow> string" where
  "scope_name Slack_manage = ''slack.manage''"
| "scope_name Github_manage = ''github.manage''"
| "scope_name Models_manage = ''models.manage''"
| "scope_name Mcp_manage = ''mcp.manage''"
| "scope_name Credentials_manage = ''credentials.manage''"
| "scope_name Connectors_manage = ''connectors.manage''"
| "scope_name Channels_manage = ''channels.manage''"
| "scope_name Access_manage = ''access.manage''"
| "scope_name Runtime_manage = ''runtime.manage''"
| "scope_name Settings_manage = ''settings.manage''"
| "scope_name Worker_operate = ''worker.operate''"
| "scope_name Writes_approve = ''writes.approve''"
| "scope_name Runs_create = ''runs.create''"
| "scope_name Runs_cancel = ''runs.cancel''"
| "scope_name Audit_view = ''audit.view''"
| "scope_name Audit_export = ''audit.export''"
| "scope_name Billing_manage = ''billing.manage''"

definition ALL_ROLES :: "role list" where
  "ALL_ROLES = [Owner, Admin, Operator, Approver, Developer, Viewer, Billing_admin]"

definition configScopes :: "scope list" where
  "configScopes = [Slack_manage, Github_manage, Models_manage, Mcp_manage, Credentials_manage,
     Connectors_manage, Channels_manage, Access_manage, Runtime_manage, Settings_manage]"

definition ALL_SCOPES :: "scope list" where
  "ALL_SCOPES = [Slack_manage, Github_manage, Models_manage, Mcp_manage, Credentials_manage,
     Connectors_manage, Channels_manage, Access_manage, Runtime_manage, Settings_manage,
     Worker_operate, Writes_approve, Runs_create, Runs_cancel, Audit_view, Audit_export,
     Billing_manage]"

fun ROLE_SCOPES :: "role \<Rightarrow> scope list" where
  "ROLE_SCOPES Owner = ALL_SCOPES"
| "ROLE_SCOPES Admin = configScopes @
     [Worker_operate, Writes_approve, Runs_create, Runs_cancel, Audit_view, Audit_export]"
| "ROLE_SCOPES Operator = [Worker_operate, Writes_approve, Runs_create, Runs_cancel, Audit_view]"
| "ROLE_SCOPES Approver = [Writes_approve, Audit_view]"
| "ROLE_SCOPES Developer = [Runs_create, Audit_view]"
| "ROLE_SCOPES Viewer = [Audit_view]"
| "ROLE_SCOPES Billing_admin = [Billing_manage, Audit_view]"

definition isRole :: "string \<Rightarrow> bool" where
  "isRole value = (value \<in> set (map role_str ALL_ROLES))"

definition scopesForRole :: "role \<Rightarrow> scope list" where
  "scopesForRole r = ROLE_SCOPES r"

definition roleHasScope :: "role \<Rightarrow> scope \<Rightarrow> bool" where
  "roleHasScope r s = (s \<in> set (ROLE_SCOPES r))"

record authorize_decision =
  ad_allowed :: bool
  ad_role :: role
  ad_scope :: scope
  ad_reason :: string

definition authorizeScope :: "role \<Rightarrow> scope \<Rightarrow> authorize_decision" where
  "authorizeScope r s =
     (let allowed = roleHasScope r s in
      \<lparr> ad_allowed = allowed, ad_role = r, ad_scope = s,
        ad_reason =
          (if allowed then ''Role '' @ role_str r @ '' has scope '' @ scope_name s @ ''.''
           else ''Role '' @ role_str r @ '' is missing required scope '' @ scope_name s @ ''.'') \<rparr>)"

text \<open>
  Upper-casing is only compared with the four method names, none of which a character above
  \<^verbatim>\<open>z\<close> can turn into.
\<close>

definition js_upper_char :: "char \<Rightarrow> char" where
  "js_upper_char c = (let n = (of_char c :: nat) in if 97 \<le> n \<and> n \<le> 122 then char_of (n - 32) else c)"

definition to_upper_case :: "string \<Rightarrow> string" where
  "to_upper_case s = map js_upper_char s"

definition segment :: rx where
  "segment = plus (Cls (\<lambda>c. c \<noteq> CHR ''/''))"

definition approval_decision_rx :: rx where
  "approval_decision_rx = Seq AtStart (rx_seq [lit ''/api/approvals/'', segment, chr CHR ''/'',
     rx_alts [lit ''approve'', lit ''deny''], AtEnd])"

definition run_cancel_rx :: rx where
  "run_cancel_rx = Seq AtStart (rx_seq [lit ''/api/runs/'', segment, lit ''/cancel'', AtEnd])"

definition is_write_method :: "string \<Rightarrow> bool" where
  "is_write_method method = (to_upper_case method \<in> {''POST'', ''PATCH'', ''PUT'', ''DELETE''})"

definition requiredScopeForRequest :: "string \<Rightarrow> string \<Rightarrow> scope option" where
  "requiredScopeForRequest method path =
     (if starts_with path ''/api/auth/'' then None
      else if starts_with path ''/api/audit-events/export'' then Some Audit_export
      else if \<not> is_write_method method then None
      else if rx_test approval_decision_rx path then Some Writes_approve
      else if rx_test run_cancel_rx path then Some Runs_cancel
      else if path = ''/api/runs'' then Some Runs_create
      else if starts_with path ''/api/worker/'' \<or> starts_with path ''/api/outbound/''
              \<or> str_includes path ''/dead-letter'' then Some Worker_operate
      else if starts_with path ''/api/connectors/mcp'' then Some Mcp_manage
      else if starts_with path ''/api/connectors'' then Some Connectors_manage
      else if starts_with path ''/api/slack'' then Some Slack_manage
      else if starts_with path ''/api/github'' then Some Github_manage
      else if starts_with path ''/api/channels'' then Some Channels_manage
      else if starts_with path ''/api/access-bundles'' then Some Access_manage
      else if starts_with path ''/api/model-policies'' then Some Models_manage
      else if starts_with path ''/api/runtime-profiles'' then Some Runtime_manage
      else Some Settings_manage)"

section \<open>Paths of decisions\<close>

lemma approval_decision_path:
  assumes "k \<noteq> []" "CHR ''/'' \<notin> set k"
  shows "rx_test approval_decision_rx (''/api/approvals/'' @ k @ ''/approve'')"
proof -
  let ?s = "k @ ''/approve''"
  let ?p = "Some CHR ''/'' :: char option"
  have tw: "takeWhile (\<lambda>c. c \<noteq> CHR ''/'') ?s = k"
    using assms(2) by (subst takeWhile_append2) auto
  have "(prev_at ?p ?s (length k), drop (length k) ?s, []) \<in> set (rx_runs segment (?p, ?s, []))"
    using assms(1) tw unfolding segment_def set_runs_plus_cls
    by (auto simp: Suc_le_eq intro!: exI [of _ "length k"])
  then have seg: "(prev_at ?p ?s (length k), ''/approve'', []) \<in> set (rx_runs segment (?p, ?s, []))"
    by simp
  have tail: "rx_runs (rx_seq [chr CHR ''/'', rx_alts [lit ''approve'', lit ''deny''], AtEnd])
      (q, ''/approve'', []) \<noteq> []" for q
    by (simp add: chr_def runs_lit starts_with_def)
  have "rx_runs (rx_seq [segment, chr CHR ''/'', rx_alts [lit ''approve'', lit ''deny''], AtEnd])
      (?p, ?s, []) \<noteq> []"
    using seg tail by (fastforce simp del: rx_runs.simps(1,4,9))
  then have "rx_runs (rx_seq [lit ''/api/approvals/'', segment, chr CHR ''/'',
      rx_alts [lit ''approve'', lit ''deny''], AtEnd]) (None, ''/api/approvals/'' @ ?s, []) \<noteq> []"
    by (simp add: runs_lit starts_with_def prev_at_def)
  then show ?thesis
    unfolding rx_test_def approval_decision_rx_def exec_anchored
    by (auto split: list.splits)
qed

section \<open>Properties\<close>

text \<open>
  The role table. The owner has every scope and the admin every scope but billing; the
  scopes of the operator include those of approver and developer and are included in those of
  the admin; only owner and admin hold a configuration scope, only owner and billing admin the
  billing scope, and every role may view the audit log.
\<close>

theorem role_table:
  "roleHasScope Owner s
   \<and> (roleHasScope Admin s \<longleftrightarrow> s \<noteq> Billing_manage)
   \<and> (roleHasScope Operator s \<longrightarrow> roleHasScope Admin s)
   \<and> (roleHasScope Approver s \<or> roleHasScope Developer s \<longrightarrow> roleHasScope Operator s)
   \<and> (s \<in> set configScopes \<longrightarrow> (roleHasScope r s \<longleftrightarrow> r \<in> {Owner, Admin}))
   \<and> (roleHasScope r Billing_manage \<longleftrightarrow> r \<in> {Owner, Billing_admin})
   \<and> roleHasScope r Audit_view"
  by (cases s; cases r; simp add: roleHasScope_def ALL_SCOPES_def configScopes_def)

text \<open>
  Writes are gated. A write request outside the session endpoints always needs a scope, and
  no read-only role has it: viewer and billing admin are refused every such request. A read needs
  no scope unless it exports the audit log.
\<close>

theorem writes_are_gated:
  "(is_write_method method \<and> \<not> starts_with path ''/api/auth/'' \<longrightarrow>
      (\<exists>s. requiredScopeForRequest method path = Some s
         \<and> \<not> ad_allowed (authorizeScope Viewer s) \<and> \<not> ad_allowed (authorizeScope Billing_admin s)))
   \<and> (\<not> is_write_method method \<longrightarrow>
      requiredScopeForRequest method path =
        (if \<not> starts_with path ''/api/auth/'' \<and> starts_with path ''/api/audit-events/export''
         then Some Audit_export else None))"
  by (auto simp: requiredScopeForRequest_def authorizeScope_def roleHasScope_def Let_def)

text \<open>
  Deciding an approval is its own permission. A write to the approve endpoint of any
  approval needs the approve scope, which owner, admin, operator and approver have and developer,
  viewer and billing admin do not.
\<close>

theorem approving_needs_approver:
  assumes "is_write_method method" "approvalId \<noteq> []" "CHR ''/'' \<notin> set approvalId"
  shows "requiredScopeForRequest method (''/api/approvals/'' @ approvalId @ ''/approve'')
      = Some Writes_approve
    \<and> (ad_allowed (authorizeScope r Writes_approve) \<longleftrightarrow> r \<in> {Owner, Admin, Operator, Approver})"
proof -
  have "requiredScopeForRequest method (''/api/approvals/'' @ approvalId @ ''/approve'')
      = Some Writes_approve"
    using assms(1) approval_decision_path [OF assms(2,3)]
    by (simp add: requiredScopeForRequest_def starts_with_def)
  moreover have "ad_allowed (authorizeScope r Writes_approve)
      \<longleftrightarrow> r \<in> {Owner, Admin, Operator, Approver}"
    by (cases r)
       (simp_all add: authorizeScope_def roleHasScope_def ALL_SCOPES_def configScopes_def)
  ultimately show ?thesis by blast
qed

theorem approving_needs_approver_witness:
  "requiredScopeForRequest ''post'' ''/api/approvals/approval_1/approve'' = Some Writes_approve
   \<and> \<not> ad_allowed (authorizeScope Developer Writes_approve)"
proof -
  have "is_write_method ''post''" by code_simp
  from approving_needs_approver [OF this, of "''approval_1''" Developer] show ?thesis by simp
qed

theorem role_table_witness:
  "roleHasScope Admin Writes_approve \<and> \<not> roleHasScope Operator (hd configScopes)"
proof -
  have o: "roleHasScope Operator Writes_approve" by code_simp
  have c: "hd configScopes \<in> set configScopes" by code_simp
  show ?thesis
    using role_table [of Writes_approve Admin] role_table [of "hd configScopes" Operator] o c by simp
qed

theorem writes_are_gated_witness:
  "(\<exists>s. requiredScopeForRequest ''POST'' ''/api/runs'' = Some s \<and> \<not> ad_allowed (authorizeScope Viewer s))
   \<and> requiredScopeForRequest ''GET'' ''/api/audit-events/export'' = Some Audit_export"
proof -
  have w: "is_write_method ''POST''" "\<not> is_write_method ''GET''" by code_simp+
  from w(1) writes_are_gated [of "''POST''" "''/api/runs''"]
  have "\<exists>s. requiredScopeForRequest ''POST'' ''/api/runs'' = Some s \<and> \<not> ad_allowed (authorizeScope Viewer s)"
    by (auto simp: starts_with_def)
  with w(2) writes_are_gated [of "''GET''" "''/api/audit-events/export''"] show ?thesis
    by (simp add: starts_with_def)
qed

end
