(* ===== verification/Security.thy ===== *)
theory Security
  imports JsRegex
begin

text \<open>
  Redaction, \<^verbatim>\<open>packages/core/src/security.ts\<close>: the secret patterns as regular expressions,
  \<open>redactSecrets\<close> as their successive replacements, and \<open>redactUnknown\<close>, which masks the
  fields with a sensitive name and redacts every other string, at any depth.
\<close>

section \<open>Patterns\<close>

definition redacted :: "string \<Rightarrow> string" where
  "redacted label = ''[redacted:'' @ label @ '']''"

definition token_char :: "char \<Rightarrow> bool" where
  "token_char = alnum_or ''._~+/=-''"

definition quote_opt :: rx where
  "quote_opt = optional (Cls (\<lambda>c. c = CHR 0x22 \<or> c = CHR 0x27))"

definition sep_opt :: "string \<Rightarrow> rx" where
  "sep_opt cs = optional (Cls (\<lambda>c. c \<in> set cs))"

definition spaces :: rx where
  "spaces = star (Cls is_space)"

definition slack_token_rx :: rx where
  "slack_token_rx = rx_seq [WordB, lit ''xox'', Cls (\<lambda>c. c \<in> set ''baprs''), chr CHR ''-'',
     at_least 10 (Cls (alnum_or ''-'')), WordB]"

definition slack_app_token_rx :: rx where
  "slack_app_token_rx = rx_seq [WordB, lit ''xapp-'', Cls (in_range CHR ''0'' CHR ''9''),
     chr CHR ''-'', at_least 10 (Cls (alnum_or ''-'')), WordB]"

definition github_token_rx :: rx where
  "github_token_rx = rx_seq [WordB, lit ''gh'', Cls (\<lambda>c. c \<in> set ''pousr''), chr CHR ''_'',
     at_least 20 (Cls (alnum_or ''_'')), WordB]"

definition github_pat_rx :: rx where
  "github_pat_rx = rx_seq [WordB, lit ''github_pat_'', at_least 22 (Cls (alnum_or ''_'')), WordB]"

definition sk_key_rx :: rx where
  "sk_key_rx = rx_seq [WordB, lit ''sk-'', at_least 20 (Cls (alnum_or ''_-'')), WordB]"

definition api_key_rx :: rx where
  "api_key_rx = rx_seq [WordB,
     Grp 1 (rx_seq [rx_alts [lit_i ''x-api-key'', rx_seq [lit_i ''api'', sep_opt '' _-'', lit_i ''key'']],
       spaces, Cls (\<lambda>c. c \<in> set '':=''), spaces, quote_opt]),
     at_least 16 (Cls token_char), Grp 2 quote_opt]"

definition named_token_rx :: "string \<Rightarrow> rx" where
  "named_token_rx w = rx_seq [lit_i w, sep_opt '' _-'', lit_i ''token'']"

definition auth_value_rx :: rx where
  "auth_value_rx = rx_seq [WordB,
     Grp 1 (rx_seq [rx_alts [lit_i ''authorization'', named_token_rx ''bearer'',
         named_token_rx ''access'', named_token_rx ''refresh'', named_token_rx ''id'',
         named_token_rx ''auth''],
       spaces, Cls (\<lambda>c. c \<in> set '':=''), spaces, quote_opt]),
     optional (Seq (lit_i ''Bearer'') (plus (Cls is_space))),
     at_least 16 (Cls token_char), Grp 2 quote_opt]"

definition aws_key_rx :: rx where
  "aws_key_rx = rx_seq [WordB, rx_alts [lit ''AKIA'', lit ''ASIA''],
     exactly 16 (Cls (\<lambda>c. in_range CHR ''0'' CHR ''9'' c \<or> in_range CHR ''A'' CHR ''Z'' c)), WordB]"

definition bearer_rx :: rx where
  "bearer_rx = rx_seq [WordB, lit_i ''Bearer'', plus (Cls is_space), at_least 16 (Cls token_char), WordB]"

definition upper_or_space :: "char \<Rightarrow> bool" where
  "upper_or_space c = (in_range CHR ''A'' CHR ''Z'' c \<or> c = CHR '' '')"

definition private_key_rx :: rx where
  "private_key_rx = rx_seq [lit ''-----BEGIN '', star (Cls upper_or_space), lit ''PRIVATE KEY-----'',
     lazy_star (Cls (\<lambda>_. True)),
     lit ''-----END '', star (Cls upper_or_space), lit ''PRIVATE KEY-----'']"

definition around :: "string \<Rightarrow> captures \<Rightarrow> string" where
  "around label caps = capture caps 1 @ redacted label @ capture caps 2"

definition SECRET_PATTERNS :: "(rx \<times> (captures \<Rightarrow> string)) list" where
  "SECRET_PATTERNS =
     [(slack_token_rx, \<lambda>_. redacted ''slack-token''),
      (slack_app_token_rx, \<lambda>_. redacted ''slack-app-token''),
      (github_token_rx, \<lambda>_. redacted ''github-token''),
      (github_pat_rx, \<lambda>_. redacted ''github-token''),
      (sk_key_rx, \<lambda>_. redacted ''api-key''),
      (api_key_rx, around ''api-key''),
      (auth_value_rx, around ''bearer-token''),
      (aws_key_rx, \<lambda>_. redacted ''aws-access-key''),
      (bearer_rx, \<lambda>_. redacted ''bearer-token''),
      (private_key_rx, \<lambda>_. redacted ''private-key'')]"

definition redactSecrets :: "string \<Rightarrow> string" where
  "redactSecrets value = foldl (\<lambda>v (pattern, replacement). replace_all pattern replacement v)
     value SECRET_PATTERNS"

section \<open>Sensitive field names\<close>

definition opt_us :: rx where
  "opt_us = optional (Cls (\<lambda>c. c \<in> set ''_-''))"

definition joined :: "string \<Rightarrow> string \<Rightarrow> rx" where
  "joined a b = rx_seq [lit_i a, opt_us, lit_i b]"

definition SENSITIVE_FIELD_NAME_PATTERN :: rx where
  "SENSITIVE_FIELD_NAME_PATTERN = rx_alts
     [lit_i ''token'', lit_i ''secret'', lit_i ''password'', lit_i ''passphrase'',
      joined ''api'' ''key'', joined ''private'' ''key'', joined ''access'' ''key'',
      lit_i ''authorization'',
      rx_seq [lit_i ''credential'', opt_us, rx_alts [lit_i ''secret'', lit_i ''value'', lit_i ''ref'']],
      rx_seq [lit_i ''refresh'', opt_us, rx_alts [lit_i ''token'', lit_i ''secret'']],
      joined ''access'' ''token'', joined ''client'' ''secret'', joined ''bot'' ''token'',
      joined ''signing'' ''secret'',
      rx_seq [lit_i ''webhook'', opt_us, lit_i ''signing'', opt_us, lit_i ''secret'']]"

definition camel_rx :: rx where
  "camel_rx = Seq (Grp 1 (Cls (\<lambda>c. in_range CHR ''a'' CHR ''z'' c \<or> in_range CHR ''0'' CHR ''9'' c)))
     (Grp 2 (Cls (in_range CHR ''A'' CHR ''Z'')))"

definition normalizeFieldName :: "string \<Rightarrow> string" where
  "normalizeFieldName fieldName =
     to_lower_case
       (replace_all (plus (Cls is_space)) (\<lambda>_. ''_'')
         (replace_all camel_rx (\<lambda>caps. capture caps 1 @ ''_'' @ capture caps 2) fieldName))"

definition isSensitiveFieldName :: "string \<Rightarrow> bool" where
  "isSensitiveFieldName fieldName = rx_test SENSITIVE_FIELD_NAME_PATTERN (normalizeFieldName fieldName)"

section \<open>Redaction of values\<close>

definition masked :: json where
  "masked = JStr ''[redacted:field]''"

fun redactUnknown :: "json \<Rightarrow> json" where
  "redactUnknown (JStr s) = JStr (redactSecrets s)"
| "redactUnknown (JArr vs) = JArr (map redactUnknown vs)"
| "redactUnknown (JObj es) =
     JObj (map (\<lambda>(key, entry). (key, if isSensitiveFieldName key then masked else redactUnknown entry)) es)"
| "redactUnknown JNull = JNull"
| "redactUnknown JUndef = JUndef"
| "redactUnknown (JBool b) = JBool b"
| "redactUnknown (JNum n) = JNum n"
| "redactUnknown (JReal t) = JReal t"

text \<open>\<open>redactedRecord\<close> of \<^verbatim>\<open>store.ts\<close>.\<close>

definition redactedRecord :: "json option \<Rightarrow> json option" where
  "redactedRecord value = map_option redactUnknown value"

text \<open>
  The specification: every field with a sensitive name, at any depth, holds the mask, and every
  string that is not the mask of such a field is an output of \<open>redactSecrets\<close>.
\<close>

fun clean :: "json \<Rightarrow> bool" where
  "clean (JStr s) = (s \<in> range redactSecrets)"
| "clean (JArr vs) = (\<forall>v \<in> set vs. clean v)"
| "clean (JObj es) = (\<forall>(k, v) \<in> set es. if isSensitiveFieldName k then v = masked else clean v)"
| "clean _ = True"

text \<open>The shape of a value: its constructors, its keys in order, its lengths.\<close>

fun same_shape :: "json \<Rightarrow> json \<Rightarrow> bool" where
  "same_shape (JArr vs) w = (\<exists>ws. w = JArr ws \<and> list_all2 same_shape vs ws)"
| "same_shape (JObj es) w = (\<exists>fs. w = JObj fs \<and>
     list_all2 (\<lambda>(k, v) (k', v'). k' = k \<and> (isSensitiveFieldName k \<or> same_shape v v')) es fs)"
| "same_shape (JStr s) w = (\<exists>t. w = JStr t)"
| "same_shape v w = (v = w)"

lemma clean_redactUnknown: "clean (redactUnknown v)"
  by (induction v rule: redactUnknown.induct) (auto split: if_splits)

lemma same_shape_redactUnknown: "same_shape v (redactUnknown v)"
proof (induction v rule: redactUnknown.induct)
  case (2 vs)
  then show ?case by (auto simp: list.rel_map list_all2_same)
next
  case (3 es)
  then show ?case by (auto simp: list.rel_map list_all2_same split: prod.splits)
qed auto

end
