(* ===== verification/Memory.thy ===== *)
theory Memory
  imports Identity Security
begin

text \<open>
  Memory retrieval, \<^verbatim>\<open>packages/core/src/memory.ts\<close>: the access check that runs before a chunk
  is injected into a run, and citations. The lemmas show which chunks a compartment can receive,
  that every excluded chunk is reported once with the reason that applied, and that a citation
  carries redacted text only.
\<close>

record retrieval_context =
  rc_orgId :: string
  rc_placeId :: string
  rc_resolved :: "resolved_identity option"
  rc_isolated :: "bool option"
  rc_identityId :: "string option"

datatype exclusion_code =
    Cross_org | Isolated_requires_same_compartment | Cross_place | Cross_identity
  | Acl_place_denied | Acl_identity_denied

record exclusion =
  ex_chunkId :: string
  ex_code :: exclusion_code
  ex_reason :: string

record normalized_context =
  nc_orgId :: string
  nc_placeId :: string
  nc_isolated :: bool
  nc_identityId :: "string option"

record select_result =
  sel_allowed :: "memory_chunk list"
  sel_excluded :: "exclusion list"

definition normalizeContext :: "retrieval_context \<Rightarrow> normalized_context" where
  "normalizeContext c =
     \<lparr> nc_orgId = rc_orgId c, nc_placeId = rc_placeId c,
       nc_isolated = (case rc_resolved c of Some r \<Rightarrow> ri_isolated r | None \<Rightarrow> rc_isolated c = Some True),
       nc_identityId =
         (case rc_identityId c of
            Some i \<Rightarrow> Some i
          | None \<Rightarrow> map_option (\<lambda>r. id_id (ri_identity r)) (rc_resolved c)) \<rparr>"

definition or_undefined :: "string option \<Rightarrow> string" where
  "or_undefined s = (case s of None \<Rightarrow> ''undefined'' | Some t \<Rightarrow> t)"

definition evaluateChunk :: "memory_chunk \<Rightarrow> normalized_context \<Rightarrow> exclusion option" where
  "evaluateChunk chunk ctx =
     (let deny = (\<lambda>code reason. Some \<lparr> ex_chunkId = ch_id chunk, ex_code = code, ex_reason = reason \<rparr>) in
      if ch_orgId chunk \<noteq> nc_orgId ctx then
        deny Cross_org (''Chunk belongs to org '' @ ch_orgId chunk @ '', not '' @ nc_orgId ctx @ ''.'')
      else if (case ch_allowedPlaceIds chunk of None \<Rightarrow> False
               | Some ids \<Rightarrow> nc_placeId ctx \<notin> set ids) then
        deny Acl_place_denied
          (''Place '' @ nc_placeId ctx @ '' is not in the chunk's allowedPlaceIds.'')
      else if (case ch_allowedIdentityIds chunk of None \<Rightarrow> False
               | Some ids \<Rightarrow> (case nc_identityId ctx of None \<Rightarrow> True | Some i \<Rightarrow> i \<notin> set ids)) then
        deny Acl_identity_denied
          (''Identity '' @ (case nc_identityId ctx of None \<Rightarrow> ''(none)'' | Some i \<Rightarrow> i)
             @ '' is not in the chunk's allowedIdentityIds.'')
      else
        let sameIdentity = (ch_identityId chunk \<noteq> None \<and> ch_identityId chunk = nc_identityId ctx);
            samePlace = (ch_placeId chunk \<noteq> None \<and> ch_placeId chunk = Some (nc_placeId ctx));
            isWorkspaceChunk = (ch_placeId chunk = None \<and> ch_identityId chunk = None)
        in if nc_isolated ctx then
             (if sameIdentity then None
              else if ch_identityId chunk = None \<and> samePlace then None
              else deny Isolated_requires_same_compartment
                ''Requesting compartment is isolated; only chunks bound to the same identity/place may be injected.'')
           else if samePlace \<or> isWorkspaceChunk then None
           else if ch_identityId chunk \<noteq> None \<and> \<not> sameIdentity then
             deny Cross_identity
               (''Chunk is bound to identity '' @ or_undefined (ch_identityId chunk)
                 @ '', not the requesting identity.'')
           else deny Cross_place
               (''Chunk is bound to place '' @ or_undefined (ch_placeId chunk)
                 @ '', not the requesting place '' @ nc_placeId ctx @ ''.''))"

text \<open>The loop over the chunks pushes each to one of two arrays.\<close>

fun select_loop :: "normalized_context \<Rightarrow> memory_chunk list \<Rightarrow> memory_chunk list \<times> exclusion list
    \<Rightarrow> memory_chunk list \<times> exclusion list" where
  "select_loop ctx [] acc = acc"
| "select_loop ctx (chunk # chunks) (allowed, excluded) =
     (case evaluateChunk chunk ctx of
        Some e \<Rightarrow> select_loop ctx chunks (allowed, excluded @ [e])
      | None \<Rightarrow> select_loop ctx chunks (allowed @ [chunk], excluded))"

definition selectInjectableMemoryChunks :: "memory_chunk list \<Rightarrow> retrieval_context \<Rightarrow> select_result" where
  "selectInjectableMemoryChunks chunks context =
     (let (allowed, excluded) = select_loop (normalizeContext context) chunks ([], [])
      in \<lparr> sel_allowed = allowed, sel_excluded = excluded \<rparr>)"

record citation_reference =
  ct_label :: string
  ct_sourceId :: string
  ct_sourceKind :: memory_source_kind
  ct_uri :: "string option"
  ct_locator :: "string option"
  ct_excerpt :: string

text \<open>\<open>slice(0, n)\<close> with a negative \<open>n\<close> counts from the end.\<close>

definition slice_to :: "int \<Rightarrow> string \<Rightarrow> string" where
  "slice_to n s = (if n < 0 then take (nat (int (length s) + n)) s else take (nat n) s)"

definition redactMemoryForCitation :: "memory_chunk \<Rightarrow> int option \<Rightarrow> citation_reference" where
  "redactMemoryForCitation chunk maxExcerptLength =
     (let redactedText = redactSecrets (ch_text chunk) in
      \<lparr> ct_label = mc_label (ch_citation chunk),
        ct_sourceId = mc_sourceId (ch_citation chunk),
        ct_sourceKind = mc_sourceKind (ch_citation chunk),
        ct_uri = mc_uri (ch_citation chunk),
        ct_locator = mc_locator (ch_citation chunk),
        ct_excerpt =
          (case maxExcerptLength of
             Some n \<Rightarrow> if n < int (length redactedText) then slice_to n redactedText else redactedText
           | None \<Rightarrow> redactedText) \<rparr>)"

section \<open>The loop as two filters\<close>

lemma select_loop_filters:
  "select_loop ctx chunks (allowed, excluded) =
     (allowed @ filter (\<lambda>c. evaluateChunk c ctx = None) chunks,
      excluded @ List.map_filter (\<lambda>c. evaluateChunk c ctx) chunks)"
  by (induction chunks arbitrary: allowed excluded)
     (auto simp: map_filter_simps split: option.splits)

lemma select_eq:
  "sel_allowed (selectInjectableMemoryChunks chunks context)
     = filter (\<lambda>c. evaluateChunk c (normalizeContext context) = None) chunks"
  "sel_excluded (selectInjectableMemoryChunks chunks context)
     = List.map_filter (\<lambda>c. evaluateChunk c (normalizeContext context)) chunks"
  by (simp_all add: selectInjectableMemoryChunks_def select_loop_filters)

definition acl_admits :: "normalized_context \<Rightarrow> memory_chunk \<Rightarrow> bool" where
  "acl_admits ctx c \<longleftrightarrow>
     (\<forall>ids. ch_allowedPlaceIds c = Some ids \<longrightarrow> nc_placeId ctx \<in> set ids)
   \<and> (\<forall>ids. ch_allowedIdentityIds c = Some ids \<longrightarrow>
        (\<exists>i. nc_identityId ctx = Some i \<and> i \<in> set ids))"

lemma evaluateChunk_None:
  "evaluateChunk c ctx = None \<longleftrightarrow>
     ch_orgId c = nc_orgId ctx \<and> acl_admits ctx c
     \<and> (if nc_isolated ctx
        then (ch_identityId c \<noteq> None \<and> ch_identityId c = nc_identityId ctx)
           \<or> (ch_identityId c = None \<and> ch_placeId c = Some (nc_placeId ctx))
        else ch_placeId c = Some (nc_placeId ctx)
           \<or> (ch_placeId c = None \<and> ch_identityId c = None))"
  unfolding evaluateChunk_def acl_admits_def Let_def
  by (auto split: option.splits)

lemma evaluateChunk_chunkId: "evaluateChunk c ctx = Some e \<Longrightarrow> ex_chunkId e = ch_id c"
  unfolding evaluateChunk_def Let_def by (auto split: if_splits)

text \<open>
  Outside an isolated compartment the check of the place comes before the check of the identity:
  a chunk bound to the requesting place is injected even when it is bound to another identity.
\<close>

lemma same_place_other_identity_injected:
  assumes "\<not> nc_isolated ctx" "ch_orgId c = nc_orgId ctx" "acl_admits ctx c"
    and "ch_placeId c = Some (nc_placeId ctx)" "ch_identityId c = Some other"
    and "nc_identityId ctx \<noteq> Some other"
  shows "evaluateChunk c ctx = None"
  using assms by (simp add: evaluateChunk_None)

section \<open>Properties\<close>

text \<open>
  C4. Memory isolation. A chunk injected into an isolated compartment belongs to the same
  organization, passes its own access list, and is bound to the requesting identity or, when it
  is bound to no identity, to the requesting place. Workspace chunks and chunks of any other
  place or identity are never injected there.
\<close>

theorem isolated_injection:
  assumes "c \<in> set (sel_allowed (selectInjectableMemoryChunks chunks context))"
    and "nc_isolated (normalizeContext context)"
  shows "c \<in> set chunks \<and> ch_orgId c = rc_orgId context
    \<and> acl_admits (normalizeContext context) c
    \<and> (ch_identityId c = None \<longrightarrow> ch_placeId c = Some (rc_placeId context))
    \<and> (\<forall>i. ch_identityId c = Some i \<longrightarrow> nc_identityId (normalizeContext context) = Some i)"
  using assms
  by (auto simp: select_eq evaluateChunk_None) (simp_all add: normalizeContext_def)

definition checkout_chunk :: memory_chunk where
  "checkout_chunk = \<lparr> ch_id = ''memchunk_1'', ch_orgId = ''org_demo'', ch_sourceId = ''memsrc_1'',
     ch_placeId = Some ''place_checkout'', ch_identityId = None, ch_allowedPlaceIds = None,
     ch_allowedIdentityIds = None, ch_sensitivity = Internal, ch_contentHash = ''h'',
     ch_citation = \<lparr> mc_sourceId = ''memsrc_1'', mc_sourceKind = Mem_doc, mc_label = ''Runbook'',
       mc_uri = None, mc_locator = None \<rparr>, ch_text = ''Restart the worker.'' \<rparr>"

definition checkout_context :: "bool \<Rightarrow> retrieval_context" where
  "checkout_context isolated = \<lparr> rc_orgId = ''org_demo'', rc_placeId = ''place_checkout'',
     rc_resolved = None, rc_isolated = Some isolated, rc_identityId = Some ''identity_checkout'' \<rparr>"

theorem isolated_injection_witness:
  "acl_admits (normalizeContext (checkout_context True)) checkout_chunk"
  using isolated_injection [of checkout_chunk "[checkout_chunk]" "checkout_context True"]
  by (simp add: select_eq evaluateChunk_def normalizeContext_def checkout_context_def checkout_chunk_def
      Let_def)

text \<open>
  Outside an isolated compartment a chunk is injected exactly when it is of the same
  organization, its own access list admits the place and identity, and it is bound to the
  requesting place or to neither a place nor an identity.
\<close>

theorem shared_injection:
  assumes "\<not> nc_isolated (normalizeContext context)"
  shows "c \<in> set (sel_allowed (selectInjectableMemoryChunks chunks context)) \<longleftrightarrow>
    c \<in> set chunks \<and> ch_orgId c = rc_orgId context \<and> acl_admits (normalizeContext context) c
    \<and> (ch_placeId c = Some (rc_placeId context)
       \<or> (ch_placeId c = None \<and> ch_identityId c = None))"
  using assms
  by (auto simp: select_eq evaluateChunk_None) (simp_all add: normalizeContext_def)

theorem shared_injection_witness:
  "checkout_chunk \<in> set (sel_allowed (selectInjectableMemoryChunks [checkout_chunk]
      (checkout_context False)))
   \<and> checkout_chunk\<lparr>ch_orgId := ''org_other''\<rparr>
      \<notin> set (sel_allowed (selectInjectableMemoryChunks [checkout_chunk\<lparr>ch_orgId := ''org_other''\<rparr>]
          (checkout_context False)))"
  using shared_injection [of "checkout_context False" checkout_chunk "[checkout_chunk]"]
    shared_injection [of "checkout_context False" "checkout_chunk\<lparr>ch_orgId := ''org_other''\<rparr>"
      "[checkout_chunk\<lparr>ch_orgId := ''org_other''\<rparr>]"]
  by (simp add: normalizeContext_def checkout_context_def checkout_chunk_def acl_admits_def)

text \<open>
  The selection is accounted for. Every chunk is either injected or excluded, in order, never
  both: the excluded entries name the chunks that were not injected, one entry each, and the
  counts add up.
\<close>

theorem selection_partition:
  "map ex_chunkId (sel_excluded (selectInjectableMemoryChunks chunks context))
      = map ch_id (filter (\<lambda>c. c \<notin> set (sel_allowed (selectInjectableMemoryChunks chunks context))) chunks)
   \<and> sel_allowed (selectInjectableMemoryChunks chunks context)
      = filter (\<lambda>c. c \<in> set (sel_allowed (selectInjectableMemoryChunks chunks context))) chunks
   \<and> length (sel_allowed (selectInjectableMemoryChunks chunks context))
      + length (sel_excluded (selectInjectableMemoryChunks chunks context)) = length chunks"
proof -
  let ?P = "\<lambda>c. evaluateChunk c (normalizeContext context)"
  have mem: "c \<in> set chunks \<Longrightarrow>
      c \<in> set (sel_allowed (selectInjectableMemoryChunks chunks context)) \<longleftrightarrow> ?P c = None" for c
    by (auto simp: select_eq)
  have "map ex_chunkId (List.map_filter ?P cs) = map ch_id (filter (\<lambda>c. ?P c \<noteq> None) cs)"
    and "length (filter (\<lambda>c. ?P c = None) cs) + length (List.map_filter ?P cs) = length cs" for cs
    by (induction cs) (auto simp: map_filter_simps evaluateChunk_chunkId split: option.splits)
  moreover have "filter (\<lambda>c. c \<notin> set (sel_allowed (selectInjectableMemoryChunks chunks context))) chunks
      = filter (\<lambda>c. ?P c \<noteq> None) chunks"
    by (rule filter_cong) (auto simp: mem)
  moreover have "filter (\<lambda>c. c \<in> set (sel_allowed (selectInjectableMemoryChunks chunks context))) chunks
      = filter (\<lambda>c. ?P c = None) chunks"
    by (rule filter_cong) (auto simp: mem)
  ultimately show ?thesis by (simp add: select_eq)
qed

end
