(* ===== verification/Budgets.thy ===== *)
theory Budgets
  imports Seed Complex_Main
begin

text \<open>
  Daily budget status, \<^verbatim>\<open>packages/core/src/budgets.ts\<close>: per policy, the runs created today in
  the places its bundles attach to, what they spent, and the ok, warning and exceeded states.
  Fractions are rationals. The lemmas show that the spend is the sum over exactly the governed
  runs of the day and when each state is reported.
\<close>

datatype budget_state = Budget_ok | Budget_warning | Budget_exceeded

record budget_status =
  bs_budgetPolicyId :: string
  bs_name :: string
  bs_perDayCents :: int
  bs_spentTodayCents :: int
  bs_remainingTodayCents :: int
  bs_utilization :: rat
  bs_state :: budget_state
  bs_runCountToday :: nat

record budget_input =
  bin_policies :: "budget_policy list"
  bin_accessBundles :: "access_bundle list"
  bin_runs :: "run list"
  bin_now :: iso_date
  bin_warningThreshold :: "rat option"

definition DEFAULT_WARNING_THRESHOLD :: rat where
  "DEFAULT_WARNING_THRESHOLD = 4 / 5"

text \<open>The first ten characters of an ISO date name its UTC day.\<close>

definition utcDay :: "iso_date \<Rightarrow> int option" where
  "utcDay d = map_option (\<lambda>ms. ms div 86400000) (date_parse d)"

definition governed_places :: "access_bundle list \<Rightarrow> budget_policy \<Rightarrow> string list" where
  "governed_places bundles policy =
     concat (map bu_attachedPlaceIds (filter (\<lambda>b. bu_budgetPolicyId b = bp_id policy) bundles))"

definition todayRuns :: "budget_input \<Rightarrow> int \<Rightarrow> budget_policy \<Rightarrow> run list" where
  "todayRuns input today policy =
     filter (\<lambda>r. run_placeScopeId r \<in> set (governed_places (bin_accessBundles input) policy)
               \<and> utcDay (run_createdAt r) = Some today) (bin_runs input)"

definition budgetStatusFor :: "budget_input \<Rightarrow> int \<Rightarrow> budget_policy \<Rightarrow> budget_status" where
  "budgetStatusFor input today policy =
     (let warningThreshold =
            (case bin_warningThreshold input of None \<Rightarrow> DEFAULT_WARNING_THRESHOLD | Some t \<Rightarrow> t);
          runs = todayRuns input today policy;
          spent = foldl (\<lambda>total r. total + run_actualCostCents r) 0 runs;
          remaining = max 0 (bp_perDayCents policy - spent);
          utilization = (if 0 < bp_perDayCents policy
                         then of_int spent / of_int (bp_perDayCents policy) else 0);
          state = (if 0 < bp_perDayCents policy \<and> bp_perDayCents policy \<le> spent then Budget_exceeded
                   else if warningThreshold \<le> utilization \<and> 0 < bp_perDayCents policy
                     then Budget_warning
                   else Budget_ok)
      in \<lparr> bs_budgetPolicyId = bp_id policy, bs_name = bp_name policy,
           bs_perDayCents = bp_perDayCents policy, bs_spentTodayCents = spent,
           bs_remainingTodayCents = remaining, bs_utilization = utilization,
           bs_state = state, bs_runCountToday = length runs \<rparr>)"

definition summarizeBudgetStatus :: "budget_input \<Rightarrow> js_error + budget_status list" where
  "summarizeBudgetStatus input =
     (case utcDay (bin_now input) of
        None \<Rightarrow> Inl (Error ''now must be a valid date.'')
      | Some today \<Rightarrow> Inr (map (budgetStatusFor input today) (bin_policies input)))"

lemma foldl_sum_costs:
  "foldl (\<lambda>total r. total + run_actualCostCents r) a rs = a + sum_list (map run_actualCostCents rs)"
  by (induction rs arbitrary: a) auto

lemma budgetStatusFor_simps:
  "bs_spentTodayCents (budgetStatusFor input today p)
     = sum_list (map run_actualCostCents (todayRuns input today p))"
  "bs_remainingTodayCents (budgetStatusFor input today p)
     = max 0 (bp_perDayCents p - sum_list (map run_actualCostCents (todayRuns input today p)))"
  "bs_perDayCents (budgetStatusFor input today p) = bp_perDayCents p"
  by (simp_all add: budgetStatusFor_def Let_def foldl_sum_costs)

text \<open>
  The spend of a policy is the sum of the actual costs of the runs created on the UTC day of
  the clock in a place that some bundle under the policy attaches to, and of no other run.
\<close>

theorem spend_is_governed_sum:
  assumes "summarizeBudgetStatus input = Inr statuses"
  shows "length statuses = length (bin_policies input)
    \<and> (\<forall>i < length statuses. \<exists>now.
         bin_now input = Instant now
       \<and> bs_budgetPolicyId (statuses ! i) = bp_id (bin_policies input ! i)
       \<and> bs_spentTodayCents (statuses ! i) = sum_list (map run_actualCostCents
           (filter (\<lambda>r. (\<exists>b \<in> set (bin_accessBundles input).
                           bu_budgetPolicyId b = bp_id (bin_policies input ! i)
                         \<and> run_placeScopeId r \<in> set (bu_attachedPlaceIds b))
                      \<and> (\<exists>t. run_createdAt r = Instant t \<and> t div 86400000 = now div 86400000))
             (bin_runs input))))"
proof -
  obtain now where now: "bin_now input = Instant now"
    and st: "statuses = map (budgetStatusFor input (now div 86400000)) (bin_policies input)"
    using assms by (cases "bin_now input") (auto simp: summarizeBudgetStatus_def utcDay_def)
  have day: "utcDay d = Some k \<longleftrightarrow> (\<exists>t. d = Instant t \<and> t div 86400000 = k)" for d k
    by (cases d) (auto simp: utcDay_def)
  have "todayRuns input (now div 86400000) p =
      filter (\<lambda>r. (\<exists>b \<in> set (bin_accessBundles input). bu_budgetPolicyId b = bp_id p
                         \<and> run_placeScopeId r \<in> set (bu_attachedPlaceIds b))
                \<and> (\<exists>t. run_createdAt r = Instant t \<and> t div 86400000 = now div 86400000))
        (bin_runs input)" for p
    unfolding todayRuns_def day by (rule filter_cong) (auto simp: governed_places_def)
  with now show ?thesis
    by (auto simp: st budgetStatusFor_simps) (simp add: budgetStatusFor_def Let_def)
qed

definition seed_budget_input :: "int \<Rightarrow> int \<Rightarrow> budget_input" where
  "seed_budget_input now limit = \<lparr> bin_policies = [seed_budget_policy\<lparr>bp_perDayCents := limit\<rparr>],
     bin_accessBundles = [bundle_checkout, bundle_general],
     bin_runs = [seed_run (Instant 1000), seed_run (Instant 90000000)], bin_now = Instant now,
     bin_warningThreshold = None \<rparr>"

theorem spend_is_governed_sum_witness:
  "bs_spentTodayCents (budgetStatusFor (seed_budget_input 2000 3) 0 (seed_budget_policy\<lparr>bp_perDayCents := 3\<rparr>)) = 3"
  using spend_is_governed_sum [of "seed_budget_input 2000 3"
      "[budgetStatusFor (seed_budget_input 2000 3) 0 (seed_budget_policy\<lparr>bp_perDayCents := 3\<rparr>)]"]
  by (simp add: summarizeBudgetStatus_def utcDay_def seed_budget_input_def seed_run_def
      bundle_checkout_def seed_budget_policy_def)

text \<open>
  Reported states. A policy with a daily ceiling is exceeded exactly when nothing remains,
  a warning says that the threshold is reached and something remains, and a policy without a
  ceiling is always ok with nothing remaining.
\<close>

theorem budget_state_iff_remaining:
  "(0 < bp_perDayCents p \<longrightarrow>
      (bs_state (budgetStatusFor input today p) = Budget_exceeded
         \<longleftrightarrow> bs_remainingTodayCents (budgetStatusFor input today p) = 0)
    \<and> (bs_state (budgetStatusFor input today p) = Budget_warning
         \<longleftrightarrow> 0 < bs_remainingTodayCents (budgetStatusFor input today p)
           \<and> (case bin_warningThreshold input of None \<Rightarrow> 4 / 5 | Some t \<Rightarrow> t)
               * of_int (bp_perDayCents p) \<le> of_int (bs_spentTodayCents (budgetStatusFor input today p))))
   \<and> (bp_perDayCents p \<le> 0 \<and> (\<forall>r \<in> set (bin_runs input). 0 \<le> run_actualCostCents r) \<longrightarrow>
      bs_state (budgetStatusFor input today p) = Budget_ok
      \<and> bs_remainingTodayCents (budgetStatusFor input today p) = 0)"
proof -
  let ?s = "sum_list (map run_actualCostCents (todayRuns input today p))"
  have nonneg: "0 \<le> ?s" if "\<forall>r \<in> set (bin_runs input). 0 \<le> run_actualCostCents r"
    using that by (intro sum_list_nonneg) (auto simp: todayRuns_def)
  have "(t::rat) \<le> of_int ?s / of_int (bp_perDayCents p) \<longleftrightarrow> t * of_int (bp_perDayCents p) \<le> of_int ?s"
    if "0 < bp_perDayCents p" for t
    using that by (simp add: pos_le_divide_eq)
  note eq = this
  show ?thesis
  proof (rule conjI, goal_cases)
    case 1
    show ?case
      using eq
      by (auto simp: budgetStatusFor_def Let_def foldl_sum_costs DEFAULT_WARNING_THRESHOLD_def
          split: option.splits)
  next
    case 2
    show ?case
    proof
      assume h: "bp_perDayCents p \<le> 0 \<and> (\<forall>r \<in> set (bin_runs input). 0 \<le> run_actualCostCents r)"
      with nonneg have "0 \<le> ?s" by blast
      with h show "bs_state (budgetStatusFor input today p) = Budget_ok
          \<and> bs_remainingTodayCents (budgetStatusFor input today p) = 0"
        by (simp add: budgetStatusFor_def Let_def foldl_sum_costs)
    qed
  qed
qed

theorem budget_state_iff_remaining_witness:
  "bs_state (budgetStatusFor (seed_budget_input 2000 3) 0 (seed_budget_policy\<lparr>bp_perDayCents := 3\<rparr>))
     = Budget_exceeded
   \<and> bs_state (budgetStatusFor (seed_budget_input 2000 0) 0 (seed_budget_policy\<lparr>bp_perDayCents := 0\<rparr>))
     = Budget_ok"
proof -
  have r: "bs_remainingTodayCents (budgetStatusFor (seed_budget_input 2000 3) 0
      (seed_budget_policy\<lparr>bp_perDayCents := 3\<rparr>)) = 0"
    by (simp add: budgetStatusFor_simps todayRuns_def governed_places_def utcDay_def
        seed_budget_input_def seed_run_def bundle_checkout_def bundle_general_def seed_budget_policy_def)
  show ?thesis
    using r budget_state_iff_remaining [of "seed_budget_policy\<lparr>bp_perDayCents := 3\<rparr>" "seed_budget_input 2000 3" 0]
      budget_state_iff_remaining [of "seed_budget_policy\<lparr>bp_perDayCents := 0\<rparr>" "seed_budget_input 2000 0" 0]
    by (simp add: seed_budget_input_def seed_run_def)
qed

end
