(* ===== verification/Grants.thy ===== *)
theory Grants
  imports Seed JsRegex
begin

text \<open>
  Capability grants before they enter a bundle: \<open>normalizeGrantInput\<close>,
  \<open>normalizeGrantResource\<close> and \<open>isGitHubCapability\<close> of \<^verbatim>\<open>packages/core/src/store.ts\<close>. The
  lemmas read the GitHub resource pattern as a text of owner and repository, show that a
  normalized resource is its own normal form, and state what an accepted grant satisfies.
\<close>

record grant_input =
  gi_capability :: "capability_kind option"
  gi_resource :: "string option"
  gi_decision :: "decision option"
  gi_risk :: "risk_level option"
  gi_requiresApproval :: "bool option"

definition isGitHubCapability :: "capability_kind \<Rightarrow> bool" where
  "isGitHubCapability c = (c = Github_read \<or> c = Github_branch \<or> c = Github_pr)"

definition repo_char :: "char \<Rightarrow> bool" where
  "repo_char = alnum_or ''_.-''"

definition github_resource_rx :: rx where
  "github_resource_rx = Seq AtStart (rx_seq [lit ''github:'', Grp 1 (plus (Cls repo_char)),
     chr CHR ''/'', Grp 2 (plus (Cls repo_char)), AtEnd])"

definition normalizeGrantResource :: "capability_kind \<Rightarrow> string option \<Rightarrow> js_error + string" where
  "normalizeGrantResource capability rawResource =
     (let res = map_option js_trim rawResource in
      if \<not> truthy res then Inl (Error ''Grant resource is required.'')
      else if isGitHubCapability capability then
        (case rx_exec github_resource_rx (the res) of
           None \<Rightarrow> Inl (Error ''GitHub grants must use github:owner/repo resources.'')
         | Some caps \<Rightarrow>
             (if capture caps 1 = [] \<or> capture caps 2 = []
              then Inl (Error ''GitHub grants must use github:owner/repo resources.'')
              else Inr (''github:'' @ to_lower_case (capture caps 1) @ ''/'' @ capture caps 2)))
      else Inr (the res))"

definition first_given :: "'a option \<Rightarrow> 'a option \<Rightarrow> 'a option" where
  "first_given a b = (case a of Some x \<Rightarrow> Some x | None \<Rightarrow> b)"

definition normalizeGrantInput :: "access_bundle \<Rightarrow> grant_input \<Rightarrow> capability_grant option
    \<Rightarrow> js_error + (capability_kind \<times> string \<times> decision \<times> risk_level \<times> bool)" where
  "normalizeGrantInput bundle input existing =
     (case first_given (gi_capability input) (map_option gr_capability existing) of
        None \<Rightarrow> Inl (Error ''Grant capability is required.'')
      | Some capability \<Rightarrow>
     (case first_given (gi_decision input) (map_option gr_decision existing) of
        None \<Rightarrow> Inl (Error ''Grant decision is required.'')
      | Some dec \<Rightarrow>
     (case first_given (gi_risk input) (map_option gr_risk existing) of
        None \<Rightarrow> Inl (Error ''Grant risk is required.'')
      | Some risk \<Rightarrow>
     (case first_given (gi_requiresApproval input) (map_option gr_requiresApproval existing) of
        None \<Rightarrow> Inl (Error ''Grant approval requirement is required.'')
      | Some requiresApproval \<Rightarrow>
     (case normalizeGrantResource capability (first_given (gi_resource input) (map_option gr_resource existing)) of
        Inl e \<Rightarrow> Inl e
      | Inr res \<Rightarrow>
          (if dec = Ask \<and> \<not> requiresApproval
           then Inl (Error ''Ask grants must require approval.'')
           else if dec \<noteq> Ask \<and> requiresApproval
           then Inl (Error ''Only ask grants can require approval.'')
           else if (\<exists>g \<in> set (bu_grants bundle). Some (gr_id g) \<noteq> map_option gr_id existing
                      \<and> gr_capability g = capability \<and> gr_resource g = res)
           then Inl (Error (''Duplicate grant already exists for '' @ capability_str capability
                       @ '' on '' @ res @ ''.''))
           else Inr (capability, res, dec, risk, requiresApproval)))))))"


section \<open>The GitHub resource pattern\<close>

lemma not_repo_char [simp]: "\<not> repo_char CHR ''/''" "\<not> repo_char CHR '':''"
  by (simp_all add: repo_char_def alnum_or_def in_range_def)

definition repo_name :: "string \<Rightarrow> bool" where
  "repo_name s \<longleftrightarrow> s \<noteq> [] \<and> (\<forall>c \<in> set s. repo_char c)"

abbreviation github_tail :: rx where
  "github_tail \<equiv> rx_seq [lit ''github:'', Grp 1 (plus (Cls repo_char)),
     chr CHR ''/'', Grp 2 (plus (Cls repo_char)), AtEnd]"

lemma github_runsD:
  assumes "m \<in> set (rx_runs github_tail (p, s, []))"
  shows "\<exists>owner repo q. s = ''github:'' @ owner @ ''/'' @ repo \<and> repo_name owner \<and> repo_name repo
    \<and> m = (q, [], [(2, repo), (1, owner)])"
proof -
  let ?t = "drop 7 s"
  obtain m0 where m0: "m0 \<in> set (rx_runs (lit ''github:'') (p, s, []))"
    and mA: "m \<in> set (rx_runs (rx_seq [Grp 1 (plus (Cls repo_char)), chr CHR ''/'',
      Grp 2 (plus (Cls repo_char)), AtEnd]) m0)"
    using assms by (subst (asm) rx_seq_simps(2), subst (asm) runs_seq) blast
  have st: "starts_with s ''github:''" and m0: "m0 = (prev_at p s 7, ?t, [])"
    using m0 by (simp_all add: runs_lit eval_nat_numeral split: if_splits)
  obtain m1 where m1: "m1 \<in> set (rx_runs (Grp 1 (plus (Cls repo_char))) m0)"
    and mB: "m \<in> set (rx_runs (rx_seq [chr CHR ''/'', Grp 2 (plus (Cls repo_char)), AtEnd]) m1)"
    using mA by (subst (asm) rx_seq_simps(2), subst (asm) runs_seq) blast
  obtain j where j: "1 \<le> j" "j \<le> length (takeWhile repo_char ?t)"
    and m1: "m1 = (prev_at (prev_at p s 7) ?t j, drop j ?t, [(1, take j ?t)])"
    using m1 unfolding m0 runs_group_plus by blast
  obtain m2 where m2: "m2 \<in> set (rx_runs (chr CHR ''/'') m1)"
    and mC: "m \<in> set (rx_runs (rx_seq [Grp 2 (plus (Cls repo_char)), AtEnd]) m2)"
    using mB by (subst (asm) rx_seq_simps(2), subst (asm) runs_seq) blast
  obtain r where r: "drop j ?t = CHR ''/'' # r" and m2: "m2 = (Some CHR ''/'', r, [(1, take j ?t)])"
  proof (cases "drop j ?t")
    case Nil
    with m2 show ?thesis unfolding m1 runs_chr by simp
  next
    case (Cons d ds)
    with m2 that show ?thesis unfolding m1 runs_chr by (simp split: if_splits)
  qed
  obtain m3 where m3: "m3 \<in> set (rx_runs (Grp 2 (plus (Cls repo_char))) m2)"
    and mD: "m \<in> set (rx_runs (rx_seq [AtEnd]) m3)"
    using mC by (subst (asm) rx_seq_simps(2), subst (asm) runs_seq) blast
  obtain k where k: "1 \<le> k" "k \<le> length (takeWhile repo_char r)"
    and m3: "m3 = (prev_at (Some CHR ''/'') r k, drop k r, [(2, take k r), (1, take j ?t)])"
    using m3 unfolding m2 runs_group_plus by blast
  have kr: "drop k r = []" "m = m3"
    using mD m3 by (simp_all split: if_splits)
  have "s = ''github:'' @ ?t"
    using st by (auto simp: starts_with_iff)
  also have "?t = take j ?t @ CHR ''/'' # r"
    using append_take_drop_id [of j ?t] r by simp
  finally have s: "s = ''github:'' @ take j ?t @ ''/'' @ take k r"
    using kr(1) by simp
  have "take j ?t \<noteq> []" using j r by auto
  moreover have "take k r \<noteq> []" using k kr(1) by auto
  ultimately show ?thesis
    using s m3 kr take_takeWhile_all [OF j(2)] take_takeWhile_all [OF k(2)]
    by (auto simp: repo_name_def)
qed

lemma takeWhile_repo: "repo_name s \<Longrightarrow> takeWhile repo_char (s @ CHR ''/'' # t) = s"
  by (subst takeWhile_append2) (auto simp: repo_name_def)

lemma github_runsI:
  assumes "repo_name owner" "repo_name repo"
  shows "\<exists>q. (q, [], [(2, repo), (1, owner)]) \<in>
    set (rx_runs github_tail (p, ''github:'' @ owner @ ''/'' @ repo, []))"
proof -
  let ?t = "owner @ ''/'' @ repo"
  have o: "1 \<le> length owner" "1 \<le> length repo"
    using assms by (auto simp: repo_name_def Suc_le_eq)
  have r: "takeWhile repo_char repo = repo"
    using assms(2) by (simp add: repo_name_def takeWhile_eq_all_conv)
  have 1: "(prev_at p (''github:'' @ ?t) 7, ?t, []) \<in>
      set (rx_runs (lit ''github:'') (p, ''github:'' @ ?t, []))"
    by (simp add: runs_lit starts_with_def eval_nat_numeral)
  have 2: "(prev_at q ?t (length owner), ''/'' @ repo, [(1, owner)]) \<in>
      set (rx_runs (Grp 1 (plus (Cls repo_char))) (q, ?t, []))" for q
    unfolding runs_group_plus using o takeWhile_repo [OF assms(1)]
    by (auto intro!: exI [of _ "length owner"])
  have 3: "(Some CHR ''/'', repo, cs) \<in> set (rx_runs (chr CHR ''/'') (q, ''/'' @ repo, cs))" for q cs
    by (simp add: runs_chr)
  have 4: "(prev_at q repo (length repo), [], (2, repo) # cs) \<in>
      set (rx_runs (Grp 2 (plus (Cls repo_char))) (q, repo, cs))" for q cs
    unfolding runs_group_plus r using o by (auto intro!: exI [of _ "length repo"])
  have 5: "m \<in> set (rx_runs (rx_seq [AtEnd]) m)" if "rest_of m = []" for m
    using that by simp
  show ?thesis
    apply (rule exI)
    apply (subst rx_seq_simps(2), subst runs_seq, rule exI, rule conjI, rule 1)
    apply (subst rx_seq_simps(2), subst runs_seq, rule exI, rule conjI, rule 2)
    apply (subst rx_seq_simps(2), subst runs_seq, rule exI, rule conjI, rule 3)
    apply (subst rx_seq_simps(2), subst runs_seq, rule exI, rule conjI, rule 4)
    apply (rule 5, simp)
    done
qed

lemma slash_split_unique:
  assumes "repo_name a" "repo_name a'" "a @ ''/'' @ b = a' @ ''/'' @ b'"
  shows "a = a' \<and> b = b'"
proof -
  have "a = a'"
    using takeWhile_repo [OF assms(1), of b] takeWhile_repo [OF assms(2), of b'] assms(3) by simp
  with assms(3) show ?thesis by simp
qed

lemma exec_github_iff:
  "rx_exec github_resource_rx s = Some caps \<longleftrightarrow>
     (\<exists>owner repo. s = ''github:'' @ owner @ ''/'' @ repo \<and> repo_name owner \<and> repo_name repo
        \<and> caps = [(2, repo), (1, owner)])"
  (is "?l \<longleftrightarrow> ?r")
proof
  assume ?l
  then obtain q r ms where "rx_runs github_tail (None, s, []) = (q, r, caps) # ms"
    unfolding github_resource_rx_def exec_anchored by (auto split: list.splits)
  then have "(q, r, caps) \<in> set (rx_runs github_tail (None, s, []))" by simp
  from github_runsD [OF this] show ?r by blast
next
  assume ?r
  then obtain owner repo where s: "s = ''github:'' @ owner @ ''/'' @ repo"
    and n: "repo_name owner" "repo_name repo" and caps: "caps = [(2, repo), (1, owner)]"
    by blast
  obtain q r cs ms where e: "rx_runs github_tail (None, s, []) = (q, r, cs) # ms"
    using github_runsI [OF n, of None] unfolding s
    by (cases "rx_runs github_tail (None, ''github:'' @ owner @ ''/'' @ repo, [])") auto
  then have "(q, r, cs) \<in> set (rx_runs github_tail (None, s, []))" by simp
  from github_runsD [OF this] obtain owner' repo' where
    "s = ''github:'' @ owner' @ ''/'' @ repo'" "repo_name owner'" "cs = [(2, repo'), (1, owner')]"
    by blast
  then have "cs = caps"
    using slash_split_unique [OF n(1), of owner' repo repo'] by (simp add: s caps)
  with e show ?l
    unfolding github_resource_rx_def exec_anchored by simp
qed

section \<open>Normal forms\<close>

lemma dropWhile_no: "(\<forall>c \<in> set s. \<not> P c) \<Longrightarrow> dropWhile P s = s"
  by (cases s) auto

lemma trim_no_space: "(\<And>c. c \<in> set s \<Longrightarrow> \<not> is_space c) \<Longrightarrow> js_trim s = s"
  by (simp add: js_trim_def dropWhile_no)

lemma dropWhile_idem_rev:
  "dropWhile P (rev (dropWhile P (rev (dropWhile P s)))) = rev (dropWhile P (rev (dropWhile P s)))"
proof (cases "dropWhile P s")
  case Nil
  show ?thesis unfolding Nil by simp
next
  case (Cons c t)
  then have c: "\<not> P c" by (metis hd_dropWhile list.distinct(1) list.sel(1))
  then have "dropWhile P (xs @ [c]) = dropWhile P xs @ [c]" for xs
    by (induction xs) auto
  with c show ?thesis unfolding Cons by simp
qed

lemma js_trim_idem [simp, text_simps]: "js_trim (js_trim s) = js_trim s"
proof -
  have "js_trim s = rev (dropWhile is_space (rev (dropWhile is_space s)))"
    by (simp add: js_trim_def)
  then show ?thesis
    unfolding js_trim_def dropWhile_idem_rev by (simp add: dropWhile_idem_rev)
qed

lemma repo_char_not_space: "repo_char c \<Longrightarrow> \<not> is_space c"
  unfolding is_space_def Let_def repo_char_def alnum_or_def in_range_def by auto

lemma repo_char_lower: "repo_char c \<Longrightarrow> repo_char (js_lower_char c)"
proof -
  assume r: "repo_char c"
  let ?n = "of_char c :: nat"
  show "repo_char (js_lower_char c)"
  proof (cases "65 \<le> ?n \<and> ?n \<le> 90")
    case True
    then have "(of_char (js_lower_char c) :: nat) = ?n + 32"
      by (simp add: js_lower_char_def Let_def)
    with True show ?thesis by (simp add: repo_char_def alnum_or_def in_range_def)
  next
    case False
    moreover have "?n < 192"
      using r by (auto simp: repo_char_def alnum_or_def in_range_def)
    ultimately have "js_lower_char c = c"
      by (auto simp: js_lower_char_def Let_def)
    with r show ?thesis by simp
  qed
qed

lemma repo_name_lower: "repo_name s \<Longrightarrow> repo_name (to_lower_case s)"
  by (auto simp: repo_name_def to_lower_case_def repo_char_lower)

lemma js_trim_github:
  assumes "repo_name owner" "repo_name repo"
  shows "js_trim (''github:'' @ owner @ ''/'' @ repo) = ''github:'' @ owner @ ''/'' @ repo"
proof (rule trim_no_space)
  fix c
  assume "c \<in> set (''github:'' @ owner @ ''/'' @ repo)"
  then consider "c \<in> set ''github:/''" | "repo_char c"
    using assms by (auto simp: repo_name_def)
  then show "\<not> is_space c"
  proof cases
    case 1
    then show ?thesis by (auto simp: is_space_def)
  qed (rule repo_char_not_space)
qed

lemma normalizeGrantResource_github:
  assumes "isGitHubCapability capability"
  shows "normalizeGrantResource capability raw = Inr res \<longleftrightarrow>
    (\<exists>r owner repo. raw = Some r \<and> js_trim r = ''github:'' @ owner @ ''/'' @ repo
       \<and> repo_name owner \<and> repo_name repo \<and> res = ''github:'' @ to_lower_case owner @ ''/'' @ repo)"
  (is "?l \<longleftrightarrow> ?r")
proof
  assume l: ?l
  then obtain r where r: "raw = Some r" "js_trim r \<noteq> []"
    by (auto simp: normalizeGrantResource_def Let_def truthy_def split: if_splits option.splits)
  then obtain caps where caps: "rx_exec github_resource_rx (js_trim r) = Some caps"
    using l assms by (cases "rx_exec github_resource_rx (js_trim r)")
      (auto simp: normalizeGrantResource_def Let_def truthy_def)
  from caps obtain owner repo where o: "js_trim r = ''github:'' @ owner @ ''/'' @ repo"
    "repo_name owner" "repo_name repo" "caps = [(2, repo), (1, owner)]"
    unfolding exec_github_iff by blast
  with l r assms caps have "res = ''github:'' @ to_lower_case owner @ ''/'' @ repo"
    by (simp add: normalizeGrantResource_def Let_def truthy_def capture_def repo_name_def)
  with r o show ?r by blast
next
  assume ?r
  then obtain r owner repo where r: "raw = Some r" "js_trim r = ''github:'' @ owner @ ''/'' @ repo"
    and n: "repo_name owner" "repo_name repo"
    and res: "res = ''github:'' @ to_lower_case owner @ ''/'' @ repo"
    by blast
  have "rx_exec github_resource_rx (js_trim r) = Some [(2, repo), (1, owner)]"
    unfolding exec_github_iff using r n by blast
  moreover have "js_trim r \<noteq> []" using r by simp
  ultimately show ?l
    using assms n r(1) res
    by (simp add: normalizeGrantResource_def Let_def capture_def truthy_def repo_name_def)
qed

lemma normal_form_idem:
  assumes "normalizeGrantResource capability raw = Inr res"
  shows "normalizeGrantResource capability (Some res) = Inr res"
proof (cases "isGitHubCapability capability")
  case True
  then obtain owner repo where n: "repo_name owner" "repo_name repo"
    and res: "res = ''github:'' @ to_lower_case owner @ ''/'' @ repo"
    using assms normalizeGrantResource_github by blast
  have "js_trim res = ''github:'' @ to_lower_case owner @ ''/'' @ repo"
    unfolding res by (rule js_trim_github [OF repo_name_lower [OF n(1)] n(2)])
  then have "\<exists>r owner' repo'. Some res = Some r \<and> js_trim r = ''github:'' @ owner' @ ''/'' @ repo'
       \<and> repo_name owner' \<and> repo_name repo' \<and> res = ''github:'' @ to_lower_case owner' @ ''/'' @ repo'"
    using res repo_name_lower [OF n(1)] n(2)
    by (intro exI [of _ res] exI [of _ "to_lower_case owner"] exI [of _ repo]) simp
  then show ?thesis
    unfolding normalizeGrantResource_github [OF True] .
next
  case False
  with assms show ?thesis
    by (auto simp: normalizeGrantResource_def Let_def truthy_def split: if_splits option.splits)
qed

lemma normalizeGrantInput_Inr:
  assumes "normalizeGrantInput bundle input existing = Inr (capability, res, dec, risk, ra)"
  shows "(ra \<longleftrightarrow> dec = Ask) \<and> normalizeGrantResource capability (Some res) = Inr res
    \<and> (\<forall>g \<in> set (bu_grants bundle). Some (gr_id g) \<noteq> map_option gr_id existing
         \<longrightarrow> \<not> (gr_capability g = capability \<and> gr_resource g = res))"
  using assms normal_form_idem
  by (auto simp: normalizeGrantInput_def split: option.splits sum.splits if_splits)

text \<open>
  C8. Normal forms of grant resources. A resource accepted for a GitHub capability is
  \<^verbatim>\<open>github:owner/repo\<close> with a lower-case owner, any other is the trimmed, non-empty text; and the
  result is its own normal form, so comparing stored texts compares resources.
\<close>

theorem normalize_resource:
  assumes "normalizeGrantResource capability raw = Inr res"
  shows "normalizeGrantResource capability (Some res) = Inr res
    \<and> (if isGitHubCapability capability
       then \<exists>owner repo. res = ''github:'' @ to_lower_case owner @ ''/'' @ repo
              \<and> repo_name owner \<and> repo_name repo
       else res \<noteq> [] \<and> map_option js_trim raw = Some res)"
proof (cases "isGitHubCapability capability")
  case True
  with normal_form_idem [OF assms] assms show ?thesis
    unfolding normalizeGrantResource_github [OF True] by auto
next
  case False
  with assms have "res \<noteq> [] \<and> map_option js_trim raw = Some res"
    by (auto simp: normalizeGrantResource_def Let_def truthy_def split: if_splits option.splits)
  with False normal_form_idem [OF assms] show ?thesis by simp
qed

theorem normalize_resource_witness:
  "\<exists>owner repo. ''github:redohq/Checkout'' = ''github:'' @ to_lower_case owner @ ''/'' @ repo
     \<and> repo_name owner \<and> repo_name repo"
proof -
  have "normalizeGrantResource Github_pr (Some '' github:RedoHQ/Checkout '') = Inr ''github:redohq/Checkout''"
    by code_simp
  from normalize_resource [OF this] show ?thesis by (simp add: isGitHubCapability_def)
qed

end
