(* ===== verification/Canonical.thy ===== *)
theory Canonical
  imports Prelude
begin

text \<open>
  The canonical text of an approval payload, \<open>canonicalStringify\<close> of
  \<^verbatim>\<open>packages/core/src/runs.ts\<close>, with \<open>JSON.stringify\<close> of atoms written out. The key order
  of \<open>localeCompare\<close> depends on the locale of the process and is the parameter \<open>collate\<close>
  (\<open>collate a b\<close> says \<open>a.localeCompare(b) <= 0\<close>). The result is \<open>None\<close> where the
  code returns \<open>undefined\<close>.
\<close>

section \<open>JSON text of atoms\<close>

definition hex_digit :: "nat \<Rightarrow> char" where
  "hex_digit n = (if n < 10 then char_of (48 + n) else char_of (87 + n))"

definition json_escape :: "char \<Rightarrow> string" where
  "json_escape c =
     (let n = (of_char c :: nat) in
      if n = 34 then [CHR 0x5C, CHR 0x22]
      else if n = 92 then [CHR 0x5C, CHR 0x5C]
      else if n = 8 then [CHR 0x5C, CHR ''b'']
      else if n = 9 then [CHR 0x5C, CHR ''t'']
      else if n = 10 then [CHR 0x5C, CHR ''n'']
      else if n = 12 then [CHR 0x5C, CHR ''f'']
      else if n = 13 then [CHR 0x5C, CHR ''r'']
      else if n < 32 then [CHR 0x5C, CHR ''u'', CHR ''0'', CHR ''0'', hex_digit (n div 16), hex_digit (n mod 16)]
      else [c])"

definition json_quote :: "string \<Rightarrow> string" where
  "json_quote s = CHR 0x22 # concat (map json_escape s) @ [CHR 0x22]"

text \<open>The order of code units, one possible collation.\<close>

fun code_unit_le :: "string \<Rightarrow> string \<Rightarrow> bool" where
  "code_unit_le [] t = True"
| "code_unit_le (c # s) [] = False"
| "code_unit_le (c # s) (d # t) =
     (if c = d then code_unit_le s t else (of_char c :: nat) < of_char d)"

text \<open>The JSON text of a number that is not an integer; what is not finite has the text \<open>null\<close>.\<close>

definition is_finite_text :: "string \<Rightarrow> bool" where
  "is_finite_text t \<longleftrightarrow> t \<notin> {''NaN'', ''Infinity'', ''-Infinity''}"

definition number_text :: "string \<Rightarrow> string" where
  "number_text t = (if is_finite_text t then t else ''null'')"

section \<open>The canonical text\<close>

definition is_undefined :: "json \<Rightarrow> bool" where
  "is_undefined v = (v = JUndef)"

text \<open>An array joins \<open>undefined\<close> as the empty text; an object drops undefined entries.\<close>

definition or_empty :: "string option \<Rightarrow> string" where
  "or_empty s = (case s of None \<Rightarrow> [] | Some t \<Rightarrow> t)"

fun canonicalStringify :: "(string \<Rightarrow> string \<Rightarrow> bool) \<Rightarrow> json \<Rightarrow> string option" where
  "canonicalStringify collate JNull = Some ''null''"
| "canonicalStringify collate JUndef = None"
| "canonicalStringify collate (JBool b) = Some (if b then ''true'' else ''false'')"
| "canonicalStringify collate (JNum n) = Some (int_str n)"
| "canonicalStringify collate (JReal t) = Some (number_text t)"
| "canonicalStringify collate (JStr s) = Some (json_quote s)"
| "canonicalStringify collate (JArr vs) =
     Some (''['' @ join '','' (map (\<lambda>v. or_empty (canonicalStringify collate v)) vs) @ '']'')"
| "canonicalStringify collate (JObj es) =
     Some (''{'' @ join '',''
       (map snd
         (sort_by (\<lambda>a b. collate (fst a) (fst b))
           (map (\<lambda>(key, entry). (key, json_quote key @ '':'' @ or_empty (canonicalStringify collate entry)))
             (filter (\<lambda>e. \<not> is_undefined (snd e)) es)))) @ ''}'')"

end
