(* ===== verification/Runs.thy ===== *)
theory Runs
  imports Security Seed Canonical
begin

text \<open>
  Runs, run events and approval requests, \<^verbatim>\<open>packages/core/src/runs.ts\<close> and \<^verbatim>\<open>ids.ts\<close>.
  What the code takes from Node is a parameter: \<open>randomUUID\<close>, the clock, SHA-256 and the
  collation of \<open>localeCompare\<close>. Each draw of a random id and each reading of the clock has
  a number; operations carry the number of draws made so far.
\<close>

record env =
  env_uuid :: "nat \<Rightarrow> string"
  env_clock :: "nat \<Rightarrow> int"
  env_sha256 :: "string \<Rightarrow> string"
  env_collate :: "string \<Rightarrow> string \<Rightarrow> bool"

definition createId :: "env \<Rightarrow> nat \<Rightarrow> string \<Rightarrow> string \<times> nat" where
  "createId E n pre = (pre @ ''_'' @ env_uuid E n, Suc n)"

text \<open>\<open>now ?? new Date().toISOString()\<close>.\<close>

definition time_or_now :: "env \<Rightarrow> nat \<Rightarrow> iso_date option \<Rightarrow> iso_date \<times> nat" where
  "time_or_now E n now = (case now of Some t \<Rightarrow> (t, n) | None \<Rightarrow> (Instant (env_clock E n), Suc n))"

definition ceil_div :: "int \<Rightarrow> int \<Rightarrow> int" where
  "ceil_div a b = - ((- a) div b)"

definition estimatePromptCostCents :: "string \<Rightarrow> model_policy \<Rightarrow> int" where
  "estimatePromptCostCents prompt policy =
     (let roughTokens = ceil_div (int (length prompt)) 4;
          roughCents = max 1 (ceil_div roughTokens 1000)
      in min roughCents (mp_perRunBudgetCents policy))"

record create_run_input =
  cri_orgId :: string
  cri_agentId :: string
  cri_requesterPrincipalId :: string
  cri_placeScopeId :: string
  cri_trigger :: trigger_kind
  cri_prompt :: string
  cri_capability :: "capability_kind option"
  cri_resource :: "string option"
  cri_modelPolicy :: model_policy
  cri_runtimeProfile :: runtime_profile

definition makeRun :: "env \<Rightarrow> nat \<Rightarrow> create_run_input \<Rightarrow> iso_date option \<Rightarrow> run \<times> nat" where
  "makeRun E n input now =
     (let (at, n1) = time_or_now E n now;
          prompt = redactSecrets (cri_prompt input);
          (ident, n2) = createId E n1 ''run''
      in (\<lparr> run_id = ident, run_orgId = cri_orgId input, run_agentId = cri_agentId input,
            run_requesterPrincipalId = cri_requesterPrincipalId input,
            run_placeScopeId = cri_placeScopeId input, run_trigger = cri_trigger input,
            run_prompt = prompt, run_capability = cri_capability input,
            run_resource = (if truthy (cri_resource input) then cri_resource input else None),
            run_status = Run_queued, run_modelPolicyId = mp_id (cri_modelPolicy input),
            run_runtimeProfileId = rp_id (cri_runtimeProfile input),
            run_estimatedCostCents = estimatePromptCostCents prompt (cri_modelPolicy input),
            run_actualCostCents = 0, run_createdAt = at, run_updatedAt = at \<rparr>, n2))"

definition createRunEvent :: "env \<Rightarrow> nat \<Rightarrow> string \<Rightarrow> string \<Rightarrow> run_event_type \<Rightarrow> string \<Rightarrow> json option
    \<Rightarrow> iso_date option \<Rightarrow> run_event \<times> nat" where
  "createRunEvent E n orgId runId type message data now =
     (let (at, n1) = time_or_now E n now;
          (ident, n2) = createId E n1 ''event''
      in (\<lparr> ev_id = ident, ev_runId = runId, ev_orgId = orgId, ev_type = type,
            ev_message = redactSecrets message, ev_data = map_option redactUnknown data,
            ev_createdAt = at \<rparr>, n2))"

text \<open>\<open>createHash("sha256").update(undefined)\<close> throws.\<close>

definition hashPayload :: "env \<Rightarrow> json \<Rightarrow> js_error + string" where
  "hashPayload E payload =
     (case canonicalStringify (env_collate E) payload of
        None \<Rightarrow> Inl (TypeError ''The data argument must be of type string'')
      | Some text \<Rightarrow> Inr (env_sha256 E text))"

definition approvalPayloadMetadata :: "json \<Rightarrow> json option" where
  "approvalPayloadMetadata payload =
     (case redactUnknown payload of JObj es \<Rightarrow> Some (JObj es) | _ \<Rightarrow> None)"

definition approval_ttl_ms :: int where
  "approval_ttl_ms = 30 * 60 * 1000"

definition createApprovalRequest :: "env \<Rightarrow> nat \<Rightarrow> string \<Rightarrow> string \<Rightarrow> string \<Rightarrow> string \<Rightarrow> json
    \<Rightarrow> risk_level \<Rightarrow> (js_error + approval_request) \<times> nat" where
  "createApprovalRequest E n orgId runId requestedByPrincipalId action payload risk =
     (let (at, n1) = time_or_now E n None in
      case date_plus at approval_ttl_ms of
        Inl e \<Rightarrow> (Inl e, n1)
      | Inr expiresAt \<Rightarrow>
          (let (ident, n2) = createId E n1 ''approval'' in
           case hashPayload E payload of
             Inl e \<Rightarrow> (Inl e, n2)
           | Inr h \<Rightarrow>
               (Inr \<lparr> ap_id = ident, ap_orgId = orgId, ap_runId = runId, ap_action = action,
                      ap_risk = risk, ap_status = Approval_pending, ap_payloadHash = h,
                      ap_payloadMetadata = approvalPayloadMetadata payload,
                      ap_requestedByPrincipalId = requestedByPrincipalId,
                      ap_decidedByPrincipalId = None, ap_createdAt = at, ap_expiresAt = expiresAt,
                      ap_decidedAt = None \<rparr>, n2)))"

section \<open>What the constructors fill in\<close>

lemma time_or_now_Some [simp]: "time_or_now E n (Some t) = (t, n)"
  by (simp add: time_or_now_def)

lemma ceil_div_bounds: "0 < b \<Longrightarrow> a \<le> ceil_div a b * b \<and> ceil_div a b * b < a + b"
proof -
  assume b: "0 < b"
  have e: "(- a) div b * b + (- a) mod b = - a" by (rule div_mult_mod_eq)
  have "0 \<le> (- a) mod b" "(- a) mod b < b" using b by simp_all
  moreover have "ceil_div a b * b = - ((- a) div b * b)"
    by (simp add: ceil_div_def)
  ultimately show ?thesis using e by linarith
qed

lemma makeRun_simps:
  "run_status (fst (makeRun E n input now)) = Run_queued"
  "run_actualCostCents (fst (makeRun E n input now)) = 0"
  "run_prompt (fst (makeRun E n input now)) = redactSecrets (cri_prompt input)"
  "run_placeScopeId (fst (makeRun E n input now)) = cri_placeScopeId input"
  "run_orgId (fst (makeRun E n input now)) = cri_orgId input"
  "run_requesterPrincipalId (fst (makeRun E n input now)) = cri_requesterPrincipalId input"
  "run_capability (fst (makeRun E n input now)) = cri_capability input"
  by (simp_all add: makeRun_def Let_def split: prod.splits)

lemma createApprovalRequest_Inr:
  assumes "fst (createApprovalRequest E n orgId runId requester action payload risk) = Inr a"
  shows "ap_status a = Approval_pending \<and> ap_runId a = runId \<and> ap_orgId a = orgId
    \<and> ap_requestedByPrincipalId a = requester \<and> ap_risk a = risk \<and> ap_action a = action
    \<and> hashPayload E payload = Inr (ap_payloadHash a) \<and> ap_decidedByPrincipalId a = None
    \<and> ap_payloadMetadata a = approvalPayloadMetadata payload
    \<and> date_plus (ap_createdAt a) approval_ttl_ms = Inr (ap_expiresAt a)"
  using assms
  by (auto simp: createApprovalRequest_def time_or_now_def createId_def Let_def split: sum.splits)

text \<open>
  The estimate of a run is between one cent (or the policy's ceiling, when that is lower)
  and the ceiling, is exact when the ceiling does not cut it off (the number of thousands of
  four-character tokens, rounded up), and grows with the prompt.
\<close>

theorem estimate_bounds:
  "estimatePromptCostCents p policy \<le> mp_perRunBudgetCents policy
   \<and> min 1 (mp_perRunBudgetCents policy) \<le> estimatePromptCostCents p policy
   \<and> (length p \<le> length q \<longrightarrow> estimatePromptCostCents p policy \<le> estimatePromptCostCents q policy)
   \<and> (p \<noteq> [] \<and> estimatePromptCostCents p policy < mp_perRunBudgetCents policy \<longrightarrow>
        (estimatePromptCostCents p policy - 1) * 4000 < int (length p)
      \<and> int (length p) \<le> estimatePromptCostCents p policy * 4000)"
proof -
  let ?c = "\<lambda>s::string. ceil_div (ceil_div (int (length s)) 4) 1000"
  have mono: "ceil_div a b \<le> ceil_div a' b" if "a \<le> a'" "0 < b" for a a' b :: int
    using that by (simp add: ceil_div_def zdiv_mono1)
  have exact: "(?c p - 1) * 4000 < int (length p) \<and> int (length p) \<le> ?c p * 4000"
    using ceil_div_bounds [OF zero_less_numeral, of "int (length p)" "num.Bit0 (num.Bit0 num.One)"]
      ceil_div_bounds [of 1000 "ceil_div (int (length p)) 4"] by simp
  then have "p \<noteq> [] \<Longrightarrow> 1 \<le> ?c p" by (cases p) auto
  moreover have "length p \<le> length q \<Longrightarrow> ?c p \<le> ?c q"
    by (intro mono) simp_all
  ultimately show ?thesis
    using exact by (auto simp: estimatePromptCostCents_def Let_def min_def max_def)
qed

theorem estimate_bounds_witness:
  "estimatePromptCostCents (replicate 9000 CHR ''a'') seed_model_policy \<le> 3
   \<and> 2 * 4000 < int (length (replicate 9000 CHR ''a''))"
proof -
  let ?e = "estimatePromptCostCents (replicate 9000 CHR ''a'') seed_model_policy"
  have "?e = 3"
    by (simp add: estimatePromptCostCents_def ceil_div_def seed_model_policy_def)
  with estimate_bounds [of "replicate 9000 CHR ''a''" seed_model_policy "replicate 9000 CHR ''a''"]
  show ?thesis by (simp add: seed_model_policy_def)
qed

end
