(* ===== verification/Store_State.thy ===== *)
theory Store_State
  imports Runs Identity
begin

text \<open>
  The state of \<open>BekStore\<close> (\<^verbatim>\<open>packages/core/src/store.ts\<close>): the snapshot, the number of ids
  and clock readings drawn so far, and the persistence queue. Every mutation of the store ends
  in \<open>recordChange\<close>, which captures the snapshot for the listener; \<open>drain\<close> is the event
  loop running the queued saves, \<open>flushChanges\<close> what a caller awaits. The private finders
  and the helpers shared by the operations are here too.
\<close>

record store =
  st_snapshot :: bek_snapshot
  st_draws :: nat
  st_listening :: bool
  st_queue :: "bek_snapshot list"
  st_error :: "js_error option"

definition newStore :: "bek_snapshot \<Rightarrow> bool \<Rightarrow> store" where
  "newStore snapshot listening =
     \<lparr> st_snapshot = snapshot, st_draws = 0, st_listening = listening, st_queue = [],
       st_error = None \<rparr>"

definition read_store :: "store \<Rightarrow> bek_snapshot" where
  "read_store st = st_snapshot st"

definition modify :: "(bek_snapshot \<Rightarrow> bek_snapshot) \<Rightarrow> store \<Rightarrow> store" where
  "modify f st = st\<lparr>st_snapshot := f (st_snapshot st)\<rparr>"

definition recordChange :: "store \<Rightarrow> store" where
  "recordChange st =
     (if \<not> st_listening st then st else st\<lparr>st_queue := st_queue st @ [read_store st]\<rparr>)"

text \<open>
  One queued save: skipped after an error, otherwise the listener runs and may fail. The worker
  queue saves its snapshots the same way.
\<close>

definition save_one :: "('a \<Rightarrow> js_error option) \<Rightarrow> 'a \<Rightarrow> js_error option
    \<Rightarrow> 'a list \<Rightarrow> js_error option \<times> 'a list" where
  "save_one listener snapshot err saved =
     (case err of
        Some e \<Rightarrow> (Some e, saved)
      | None \<Rightarrow> (case listener snapshot of
                  Some e \<Rightarrow> (Some e, saved)
                | None \<Rightarrow> (None, saved @ [snapshot])))"

fun save_all :: "('a \<Rightarrow> js_error option) \<Rightarrow> 'a list \<Rightarrow> js_error option
    \<Rightarrow> 'a list \<Rightarrow> js_error option \<times> 'a list" where
  "save_all listener [] err saved = (err, saved)"
| "save_all listener (s # ss) err saved =
     (let (err', saved') = save_one listener s err saved in save_all listener ss err' saved')"

definition drain :: "(bek_snapshot \<Rightarrow> js_error option) \<Rightarrow> store \<Rightarrow> store \<times> bek_snapshot list" where
  "drain listener st =
     (let (err, saved) = save_all listener (st_queue st) (st_error st) []
      in (st\<lparr>st_queue := [], st_error := err\<rparr>, saved))"

definition flushChanges :: "(bek_snapshot \<Rightarrow> js_error option) \<Rightarrow> store
    \<Rightarrow> (store, bek_snapshot list) outcome" where
  "flushChanges listener st =
     (let (st', saved) = drain listener st in
      case st_error st' of
        Some e \<Rightarrow> (Inl e, st'\<lparr>st_error := None\<rparr>)
      | None \<Rightarrow> (Inr saved, st'))"

section \<open>Finders\<close>

definition findPrincipal :: "store \<Rightarrow> string \<Rightarrow> principal option" where
  "findPrincipal st principalId = List.find (\<lambda>p. pr_id p = principalId) (sn_principals (st_snapshot st))"

definition is_place :: "string \<Rightarrow> place_scope \<Rightarrow> bool" where
  "is_place placeId p \<longleftrightarrow> pl_id p = placeId \<or> pl_externalId p = placeId"

definition findPlace :: "store \<Rightarrow> string \<Rightarrow> place_scope option" where
  "findPlace st placeId = List.find (is_place placeId) (sn_places (st_snapshot st))"

definition findBundle :: "store \<Rightarrow> string \<Rightarrow> access_bundle option" where
  "findBundle st bundleId = List.find (\<lambda>b. bu_id b = bundleId) (sn_accessBundles (st_snapshot st))"

definition findGrantIn :: "access_bundle \<Rightarrow> string \<Rightarrow> capability_grant option" where
  "findGrantIn b grantId = List.find (\<lambda>g. gr_id g = grantId) (bu_grants b)"

definition findModelPolicy :: "store \<Rightarrow> string \<Rightarrow> model_policy option" where
  "findModelPolicy st i = List.find (\<lambda>p. mp_id p = i) (sn_modelPolicies (st_snapshot st))"

definition findRuntimeProfile :: "store \<Rightarrow> string \<Rightarrow> runtime_profile option" where
  "findRuntimeProfile st i = List.find (\<lambda>p. rp_id p = i) (sn_runtimeProfiles (st_snapshot st))"

definition findRun :: "store \<Rightarrow> string \<Rightarrow> run option" where
  "findRun st runId = List.find (\<lambda>r. run_id r = runId) (sn_runs (st_snapshot st))"

definition findOutboundDelivery :: "store \<Rightarrow> string \<Rightarrow> outbound_delivery option" where
  "findOutboundDelivery st i = List.find (\<lambda>d. ob_id d = i) (sn_outboundDeliveries (st_snapshot st))"

definition findIngressDelivery :: "store \<Rightarrow> string \<Rightarrow> ingress_delivery option" where
  "findIngressDelivery st key =
     List.find (\<lambda>d. in_key d = key) (sn_ingressDeliveries (st_snapshot st))"

fun capabilityKindForCapability :: "capability_kind option \<Rightarrow> profile_kind" where
  "capabilityKindForCapability capability =
     (if capability \<in> {Some Github_read, Some Github_branch, Some Github_pr, Some Sandbox_exec}
      then Kind_coding
      else if capability \<in> {Some Linear_read, Some Linear_write, Some Mcp_tool} then Kind_workflow
      else Kind_answer)"

definition findCapabilityProfile :: "store \<Rightarrow> profile_kind \<Rightarrow> capability_profile option" where
  "findCapabilityProfile st kind =
     List.find (\<lambda>p. cp_orgId p = org_id (sn_org (st_snapshot st))
                  \<and> cp_agentId p = ag_id (sn_agent (st_snapshot st))
                  \<and> cp_enabled p \<and> cp_capabilityKind p = kind)
       (sn_capabilityProfiles (st_snapshot st))"

definition resolveRunProfiles :: "store \<Rightarrow> capability_kind option
    \<Rightarrow> js_error + (model_policy \<times> runtime_profile)" where
  "resolveRunProfiles st capability =
     (let profile = findCapabilityProfile st (capabilityKindForCapability capability);
          agent = sn_agent (st_snapshot st) in
      case findModelPolicy st (case profile of Some p \<Rightarrow> cp_modelPolicyId p
                                             | None \<Rightarrow> ag_defaultModelPolicyId agent) of
        None \<Rightarrow> Inl (Error ''Model policy not found.'')
      | Some policy \<Rightarrow>
          (case findRuntimeProfile st (case profile of Some p \<Rightarrow> cp_runtimeProfileId p
                                                     | None \<Rightarrow> ag_defaultRuntimeProfileId agent) of
             None \<Rightarrow> Inl (Error ''Runtime profile not found.'')
           | Some rprofile \<Rightarrow> Inr (policy, rprofile)))"

fun eventTypeForStatus :: "run_status \<Rightarrow> run_event_type" where
  "eventTypeForStatus status =
     (if status = Run_completed then Ev_run_completed
      else if status = Run_failed then Ev_run_failed
      else Ev_run_status_changed)"

text \<open>\<open>assignOptional\<close>: a defined value replaces the field.\<close>

definition assignOptional :: "'a option \<Rightarrow> 'a option \<Rightarrow> 'a option" where
  "assignOptional old new = (case new of None \<Rightarrow> old | Some v \<Rightarrow> Some v)"

text \<open>\<open>if (v) field = v\<close> for strings: empty strings are ignored.\<close>

definition assign_truthy :: "string \<Rightarrow> string option \<Rightarrow> string" where
  "assign_truthy old new = (if truthy new then the new else old)"

text \<open>\<open>events.unshift(createRunEvent(orgId, runId, type, message, data, now))\<close>.\<close>

definition push_event :: "env \<Rightarrow> string \<Rightarrow> string \<Rightarrow> run_event_type \<Rightarrow> string \<Rightarrow> json option
    \<Rightarrow> iso_date option \<Rightarrow> store \<Rightarrow> store" where
  "push_event E orgId runId type message data now st =
     (let (ev, n) = createRunEvent E (st_draws st) orgId runId type message data now
      in st\<lparr>st_draws := n,
            st_snapshot := (st_snapshot st)\<lparr>sn_events := ev # sn_events (st_snapshot st)\<rparr>\<rparr>)"

definition take_time :: "env \<Rightarrow> iso_date option \<Rightarrow> store \<Rightarrow> iso_date \<times> store" where
  "take_time E now st =
     (let (t, n) = time_or_now E (st_draws st) now in (t, st\<lparr>st_draws := n\<rparr>))"

definition take_id :: "env \<Rightarrow> string \<Rightarrow> store \<Rightarrow> string \<times> store" where
  "take_id E pre st =
     (let (i, n) = createId E (st_draws st) pre in (i, st\<lparr>st_draws := n\<rparr>))"

definition optional_id :: "env \<Rightarrow> string option \<Rightarrow> string \<Rightarrow> store \<Rightarrow> string \<times> store" where
  "optional_id E given pre st = (case given of Some i \<Rightarrow> (i, st) | None \<Rightarrow> take_id E pre st)"

abbreviation org_of :: "store \<Rightarrow> string" where
  "org_of st \<equiv> org_id (sn_org (st_snapshot st))"

section \<open>Frames\<close>

named_theorems frame "what the helpers leave unchanged"

lemma snapshot_modify [simp, frame]: "st_snapshot (modify f st) = f (st_snapshot st)"
  by (simp add: modify_def)

lemma snapshot_recordChange [simp, frame]: "st_snapshot (recordChange st) = st_snapshot st"
  by (simp add: recordChange_def)

lemma snapshot_take_time [simp, frame]: "st_snapshot (snd (take_time E now st)) = st_snapshot st"
  by (simp add: take_time_def Let_def split: prod.splits)

lemma snapshot_take_id [simp, frame]: "st_snapshot (snd (take_id E pre st)) = st_snapshot st"
  by (simp add: take_id_def Let_def split: prod.splits)

lemma snapshot_optional_id [simp, frame]:
  "st_snapshot (snd (optional_id E given pre st)) = st_snapshot st"
  by (simp add: optional_id_def split: option.splits)

lemma take_time_frame: "take_time E now st = (t, st') \<Longrightarrow> st_snapshot st' = st_snapshot st"
  using snapshot_take_time [of E now st] by simp

lemma take_id_frame: "take_id E pre st = (i, st') \<Longrightarrow> st_snapshot st' = st_snapshot st"
  using snapshot_take_id [of E pre st] by simp

lemma optional_id_frame: "optional_id E g pre st = (i, st') \<Longrightarrow> st_snapshot st' = st_snapshot st"
  using snapshot_optional_id [of E g pre st] by simp

lemma queue_frames [simp, frame]:
  "st_queue (modify f st) = st_queue st" "st_listening (modify f st) = st_listening st"
  "st_error (modify f st) = st_error st"
  "st_queue (snd (take_time E now st)) = st_queue st"
  "st_listening (snd (take_time E now st)) = st_listening st"
  "st_error (snd (take_time E now st)) = st_error st"
  "st_queue (snd (take_id E pre st)) = st_queue st"
  "st_listening (snd (take_id E pre st)) = st_listening st"
  "st_error (snd (take_id E pre st)) = st_error st"
  "st_queue (snd (optional_id E g pre st)) = st_queue st"
  "st_listening (snd (optional_id E g pre st)) = st_listening st"
  "st_error (snd (optional_id E g pre st)) = st_error st"
  "st_queue (push_event E o' r' t' m' d' now st) = st_queue st"
  "st_listening (push_event E o' r' t' m' d' now st) = st_listening st"
  "st_error (push_event E o' r' t' m' d' now st) = st_error st"
  by (auto simp: modify_def take_time_def take_id_def optional_id_def push_event_def Let_def
      split: prod.splits option.splits)

lemma recordChange_frames [simp, frame]:
  "st_queue (recordChange st) = st_queue st @ (if st_listening st then [st_snapshot st] else [])"
  "st_listening (recordChange st) = st_listening st" "st_error (recordChange st) = st_error st"
  by (simp_all add: recordChange_def read_store_def)

definition event_for :: "env \<Rightarrow> string \<Rightarrow> string \<Rightarrow> run_event_type \<Rightarrow> string \<Rightarrow> json option
    \<Rightarrow> iso_date option \<Rightarrow> store \<Rightarrow> run_event" where
  "event_for E orgId runId type message data now st =
     fst (createRunEvent E (st_draws st) orgId runId type message data now)"

lemma snapshot_push_event [simp, frame]:
  "st_snapshot (push_event E orgId runId type message data now st)
     = (st_snapshot st)\<lparr>sn_events :=
         event_for E orgId runId type message data now st # sn_events (st_snapshot st)\<rparr>"
  by (simp add: push_event_def event_for_def Let_def split: prod.splits)

section \<open>Persistence\<close>

text \<open>
  The specification of the queue: with no pending error, the snapshots before the first one the
  listener rejects are saved, in order, and everything after it is dropped.
\<close>

lemma save_all_error: "save_all listener ss (Some e) saved = (Some e, saved)"
  by (induction ss) (auto simp: save_one_def)

lemma save_all_spec:
  "save_all listener ss None saved =
     (case dropWhile (\<lambda>s. listener s = None) ss of [] \<Rightarrow> None | s # _ \<Rightarrow> listener s,
      saved @ takeWhile (\<lambda>s. listener s = None) ss)"
proof (induction ss arbitrary: saved)
  case Nil
  then show ?case by simp
next
  case (Cons s ss)
  show ?case
  proof (cases "listener s")
    case None
    with Cons show ?thesis by (simp add: save_one_def)
  next
    case (Some e)
    then show ?thesis by (simp add: save_one_def save_all_error)
  qed
qed

text \<open>
  The contract the API handlers rely on for an operation of the store: a refusal leaves the
  snapshot and the queue alone, a success queues exactly the snapshot it leaves. A handler that
  awaits \<open>flushChanges\<close> afterwards therefore answers once its change is saved.
\<close>

locale store_operation =
  fixes op :: "store \<Rightarrow> (store, 'a) outcome"
  assumes refused: "fst (op st) = Inl e \<Longrightarrow>
      st_snapshot (snd (op st)) = st_snapshot st \<and> st_queue (snd (op st)) = st_queue st"
    and recorded: "fst (op st) = Inr v \<Longrightarrow> st_queue (snd (op st)) =
      st_queue st @ (if st_listening st then [st_snapshot (snd (op st))] else [])"
    and persistence_frame: "st_listening (snd (op st)) = st_listening st \<and> st_error (snd (op st)) = st_error st"
begin

lemma refused_frame:
  "fst (op st) = Inl e \<Longrightarrow> drain listener (snd (op st)) =
     (snd (op st)\<lparr>st_queue := [], st_error := st_error (fst (drain listener st))\<rparr>, snd (drain listener st))"
  using refused [of st e] persistence_frame [of st] by (simp add: drain_def split: prod.splits)

lemma durable:
  assumes "fst (op st) = Inr v" "st_listening st" "st_error st = None" "st_queue st = []"
  shows "flushChanges listener (snd (op st)) =
    (case listener (st_snapshot (snd (op st))) of
       None \<Rightarrow> (Inr [st_snapshot (snd (op st))], snd (op st)\<lparr>st_queue := [], st_error := None\<rparr>)
     | Some e \<Rightarrow> (Inl e, snd (op st)\<lparr>st_queue := [], st_error := None\<rparr>))"
  using assms recorded [of st v] persistence_frame [of st]
  by (simp add: flushChanges_def drain_def save_one_def split: option.splits)

end

text \<open>The contract of one call, in a form that follows the branches of a definition.\<close>

definition lawful :: "store \<Rightarrow> (store, 'a) outcome \<Rightarrow> bool" where
  "lawful st r \<longleftrightarrow>
     (case fst r of
        Inl e \<Rightarrow> st_snapshot (snd r) = st_snapshot st \<and> st_queue (snd r) = st_queue st
      | Inr v \<Rightarrow> st_queue (snd r) =
          st_queue st @ (if st_listening st then [st_snapshot (snd r)] else []))
   \<and> st_listening (snd r) = st_listening st \<and> st_error (snd r) = st_error st"

lemma lawful_refuse:
  "st_snapshot st' = st_snapshot st \<Longrightarrow> st_queue st' = st_queue st \<Longrightarrow> st_listening st' = st_listening st
     \<Longrightarrow> st_error st' = st_error st \<Longrightarrow> lawful st (Inl e, st')"
  by (simp add: lawful_def)

lemma lawful_record:
  "st_queue st' = st_queue st \<Longrightarrow> st_listening st' = st_listening st \<Longrightarrow> st_error st' = st_error st
     \<Longrightarrow> lawful st (Inr v, recordChange st')"
  by (simp add: lawful_def)

lemmas lawful_simps = lawful_refuse lawful_record Let_def split_def

lemma store_operationI:
  assumes "\<And>st. lawful st (op st)"
  shows "store_operation op"
proof
  fix st e v
  show "fst (op st) = Inl e \<Longrightarrow> st_snapshot (snd (op st)) = st_snapshot st \<and> st_queue (snd (op st)) = st_queue st"
    "fst (op st) = Inr v \<Longrightarrow> st_queue (snd (op st)) =
      st_queue st @ (if st_listening st then [st_snapshot (snd (op st))] else [])"
    "st_listening (snd (op st)) = st_listening st \<and> st_error (snd (op st)) = st_error st"
    using assms [of st] by (simp_all add: lawful_def)
qed

text \<open>
  Durability of the store. When the listener accepts every queued snapshot, flushing succeeds
  and the last snapshot saved is the state of the store at its last recorded change; when it
  rejects one, flushing reports that error once, the snapshots before it are saved in order and
  the later ones are not, and a second flush succeeds with nothing left to save.
\<close>

theorem flush_saves_or_reports:
  assumes "st_error st = None" "st_listening st"
  shows "((\<forall>s \<in> set (st_queue (recordChange st)). listener s = None) \<longrightarrow>
      (\<exists>saved. fst (flushChanges listener (recordChange st)) = Inr saved
         \<and> saved \<noteq> [] \<and> last saved = st_snapshot st))
   \<and> (\<forall>s e pre post. st_queue st = pre @ s # post \<and> (\<forall>p \<in> set pre. listener p = None)
        \<and> listener s = Some e \<longrightarrow>
      drain listener st = (st\<lparr>st_queue := [], st_error := Some e\<rparr>, pre)
      \<and> flushChanges listener st = (Inl e, st\<lparr>st_queue := [], st_error := None\<rparr>)
      \<and> flushChanges listener (snd (flushChanges listener st))
          = (Inr [], st\<lparr>st_queue := [], st_error := None\<rparr>))"
proof (rule conjI, goal_cases)
  case 1
  show ?case
  proof
    assume ok: "\<forall>s \<in> set (st_queue (recordChange st)). listener s = None"
    then have dw: "dropWhile (\<lambda>s. listener s = None) (st_queue (recordChange st)) = []"
      and tw: "takeWhile (\<lambda>s. listener s = None) (st_queue (recordChange st)) = st_queue (recordChange st)"
      by auto
    have "st_error (recordChange st) = None"
      using assms by (simp add: recordChange_def)
    then have "fst (flushChanges listener (recordChange st)) = Inr (st_queue (recordChange st))"
      by (simp add: flushChanges_def drain_def save_all_spec tw dw del: recordChange_frames)
    with assms(2) show "\<exists>saved. fst (flushChanges listener (recordChange st)) = Inr saved
         \<and> saved \<noteq> [] \<and> last saved = st_snapshot st"
      by simp
  qed
next
  case 2
  show ?case
  proof (intro allI impI)
    fix s e pre post
    assume h: "st_queue st = pre @ s # post \<and> (\<forall>p \<in> set pre. listener p = None) \<and> listener s = Some e"
    then have "takeWhile (\<lambda>s. listener s = None) (st_queue st) = pre"
      "dropWhile (\<lambda>s. listener s = None) (st_queue st) = s # post"
      by (simp_all add: takeWhile_append2 dropWhile_append2)
    with h assms have d: "drain listener st = (st\<lparr>st_queue := [], st_error := Some e\<rparr>, pre)"
      by (simp add: drain_def save_all_spec)
    then have "flushChanges listener st = (Inl e, st\<lparr>st_queue := [], st_error := None\<rparr>)"
      by (simp add: flushChanges_def)
    with d show "drain listener st = (st\<lparr>st_queue := [], st_error := Some e\<rparr>, pre)
      \<and> flushChanges listener st = (Inl e, st\<lparr>st_queue := [], st_error := None\<rparr>)
      \<and> flushChanges listener (snd (flushChanges listener st))
          = (Inr [], st\<lparr>st_queue := [], st_error := None\<rparr>)"
      by (simp add: flushChanges_def drain_def)
  qed
qed

theorem flush_saves_or_reports_witness:
  "\<exists>saved. fst (flushChanges (\<lambda>_. None)
      (recordChange (newStore (createSeedSnapshot (Instant 0)) True))) = Inr saved \<and> saved \<noteq> []"
  using flush_saves_or_reports [of "newStore (createSeedSnapshot (Instant 0)) True" "\<lambda>_. None"]
  by (auto simp: newStore_def)

end
