(* ===== verification/Store_Admin.thy ===== *)
theory Store_Admin
  imports Store_State Grants
begin

text \<open>
  The administrative operations of \<open>BekStore\<close> (\<^verbatim>\<open>packages/core/src/store.ts\<close>): the agent,
  principals, places, access bundles and their grants, model policies, runtime profiles,
  connector installs and credentials. The lemmas show that places stay unique per provider and
  external id, that the grants of a bundle stay unique per capability and resource and require
  approval exactly when they ask, and that deleting a place leaves no bundle attached to it.
\<close>

definition throw :: "string \<Rightarrow> store \<Rightarrow> (store, 'a) outcome" where
  "throw msg st = (Inl (Error msg), st)"

lemma throw_simps [simp]: "fst (throw msg st) = Inl (Error msg)" "snd (throw msg st) = st"
  by (simp_all add: throw_def)

section \<open>Agent and principals\<close>

record update_agent_input =
  uai_name :: "string option"
  uai_description :: "string option"
  uai_status :: "agent_status option"
  uai_defaultModelPolicyId :: "string option"
  uai_defaultRuntimeProfileId :: "string option"

definition updateAgent :: "update_agent_input \<Rightarrow> store \<Rightarrow> (store, agent_identity) outcome" where
  "updateAgent input st =
     (let sn = st_snapshot st in
      if truthy (uai_defaultModelPolicyId input)
         \<and> \<not> (\<exists>p \<in> set (sn_modelPolicies sn). Some (mp_id p) = uai_defaultModelPolicyId input)
      then throw ''Model policy not found.'' st
      else if truthy (uai_defaultRuntimeProfileId input)
         \<and> \<not> (\<exists>p \<in> set (sn_runtimeProfiles sn). Some (rp_id p) = uai_defaultRuntimeProfileId input)
      then throw ''Runtime profile not found.'' st
      else
        let old = sn_agent sn;
            agent = old\<lparr>ag_name := assign_truthy (ag_name old) (uai_name input),
                        ag_description := assign_truthy (ag_description old) (uai_description input),
                        ag_status := or_else (uai_status input) (ag_status old),
                        ag_defaultModelPolicyId :=
                          assign_truthy (ag_defaultModelPolicyId old) (uai_defaultModelPolicyId input),
                        ag_defaultRuntimeProfileId :=
                          assign_truthy (ag_defaultRuntimeProfileId old) (uai_defaultRuntimeProfileId input),
                        ag_handle := ''@bek''\<rparr>
        in (Inr agent, recordChange (modify (sn_agent_update (\<lambda>_. agent)) st)))"

definition linkPrincipalExternalIdentity :: "string \<Rightarrow> string \<Rightarrow> string \<Rightarrow> json option \<Rightarrow> store
    \<Rightarrow> (store, principal) outcome" where
  "linkPrincipalExternalIdentity principalId rawProvider rawId metadata st =
     (case findPrincipal st principalId of
        None \<Rightarrow> throw ''Principal not found.'' st
      | Some p \<Rightarrow>
          (let externalProvider = js_trim rawProvider; externalId = js_trim rawId in
           if externalProvider = [] \<or> externalId = []
           then throw ''External provider and external ID are required.'' st
           else if (\<exists>c \<in> set (sn_principals (st_snapshot st)). pr_id c \<noteq> pr_id p
                      \<and> pr_orgId c = pr_orgId p
                      \<and> pr_externalProvider c = Some externalProvider
                      \<and> pr_externalId c = Some externalId)
           then throw ''External identity is already linked to another principal.'' st
           else
             let upd = (\<lambda>q. q\<lparr>pr_externalProvider := Some externalProvider,
                             pr_externalId := Some externalId,
                             pr_metadata := assignOptional (pr_metadata q) (redactedRecord metadata)\<rparr>)
             in (Inr (upd p),
                 recordChange (modify (sn_principals_update
                   (update_first (\<lambda>q. pr_id q = principalId) upd)) st))))"

section \<open>Places\<close>

record create_place_input =
  cpi_kind :: place_kind
  cpi_provider :: place_provider
  cpi_externalId :: string
  cpi_name :: string
  cpi_sensitivity :: sensitivity
  cpi_metadata :: "json option"

definition same_place :: "place_provider \<Rightarrow> string \<Rightarrow> place_scope \<Rightarrow> bool" where
  "same_place provider externalId p \<longleftrightarrow>
     pl_provider p = provider \<and> to_lower_case (pl_externalId p) = to_lower_case externalId"

definition createPlace :: "env \<Rightarrow> create_place_input \<Rightarrow> store \<Rightarrow> (store, place_scope) outcome" where
  "createPlace E input st =
     (if (\<exists>p \<in> set (sn_places (st_snapshot st)). same_place (cpi_provider input) (cpi_externalId input) p)
      then throw ''Place with this provider and external ID already exists.'' st
      else
        let (ident, st1) = take_id E ''place'' st;
            place = \<lparr> pl_id = ident, pl_orgId = org_of st, pl_kind = cpi_kind input,
                      pl_provider = cpi_provider input, pl_externalId = cpi_externalId input,
                      pl_name = cpi_name input, pl_sensitivity = cpi_sensitivity input,
                      pl_metadata = redactedRecord (cpi_metadata input) \<rparr>
        in (Inr place, recordChange (modify (sn_places_update (\<lambda>ps. place # ps)) st1)))"

record update_place_input =
  upi_name :: "string option"
  upi_externalId :: "string option"
  upi_sensitivity :: "sensitivity option"
  upi_metadata :: "json option"

definition updated_place :: "update_place_input \<Rightarrow> place_scope \<Rightarrow> place_scope" where
  "updated_place input p =
     p\<lparr>pl_name := assign_truthy (pl_name p) (upi_name input),
       pl_externalId := assign_truthy (pl_externalId p) (upi_externalId input),
       pl_sensitivity := or_else (upi_sensitivity input) (pl_sensitivity p),
       pl_metadata := assignOptional (pl_metadata p) (redactedRecord (upi_metadata input))\<rparr>"

definition updatePlace :: "string \<Rightarrow> update_place_input \<Rightarrow> store \<Rightarrow> (store, place_scope) outcome" where
  "updatePlace placeId input st =
     (case findPlace st placeId of
        None \<Rightarrow> throw ''Place not found.'' st
      | Some place \<Rightarrow>
          (if truthy (upi_externalId input)
              \<and> (\<exists>c \<in> set (sn_places (st_snapshot st)). pl_id c \<noteq> pl_id place
                   \<and> same_place (pl_provider place) (the (upi_externalId input)) c)
           then throw ''Place with this provider and external ID already exists.'' st
           else (Inr (updated_place input place),
                 recordChange (modify (sn_places_update
                   (update_first (is_place placeId) (updated_place input))) st))))"

definition detach_place :: "string \<Rightarrow> access_bundle \<Rightarrow> access_bundle" where
  "detach_place placeId b = b\<lparr>bu_attachedPlaceIds := filter (\<lambda>i. i \<noteq> placeId) (bu_attachedPlaceIds b)\<rparr>"

definition deletePlace :: "string \<Rightarrow> store \<Rightarrow> (store, place_scope) outcome" where
  "deletePlace placeId st =
     (case findPlace st placeId of
        None \<Rightarrow> throw ''Place not found.'' st
      | Some place \<Rightarrow>
          (if (\<exists>r \<in> set (sn_runs (st_snapshot st)). run_placeScopeId r = pl_id place)
           then throw ''Cannot delete a place that has runs.'' st
           else (Inr place,
                 recordChange
                   (modify (sn_places_update (filter (\<lambda>c. pl_id c \<noteq> pl_id place)))
                     (modify (sn_accessBundles_update (map (detach_place (pl_id place)))) st)))))"

section \<open>Access bundles\<close>

record create_bundle_input =
  cbi_name :: string
  cbi_description :: string
  cbi_budgetPolicyId :: "string option"
  cbi_attachedPlaceIds :: "string list option"

definition is_budget_policy :: "bek_snapshot \<Rightarrow> string \<Rightarrow> bool" where
  "is_budget_policy sn i = (\<exists>p \<in> set (sn_budgetPolicies sn). bp_id p = i)"

definition createAccessBundle :: "env \<Rightarrow> create_bundle_input \<Rightarrow> store \<Rightarrow> (store, access_bundle) outcome" where
  "createAccessBundle E input st =
     (let sn = st_snapshot st;
          budgetPolicyId =
            (case cbi_budgetPolicyId input of
               Some i \<Rightarrow> Some i
             | None \<Rightarrow> (case sn_budgetPolicies sn of [] \<Rightarrow> None | p # _ \<Rightarrow> Some (bp_id p)))
      in if \<not> truthy budgetPolicyId \<or> \<not> is_budget_policy sn (the budgetPolicyId)
         then throw ''Budget policy not found.'' st
         else
           let attachedPlaceIds = dedupe (or_else (cbi_attachedPlaceIds input) []) in
           if (\<exists>i \<in> set attachedPlaceIds. findPlace st i = None)
           then throw ''Place not found.'' st
           else
             let (ident, st1) = take_id E ''bundle'' st;
                 bundle = \<lparr> bu_id = ident, bu_orgId = org_of st, bu_name = cbi_name input,
                            bu_description = cbi_description input,
                            bu_attachedPlaceIds = attachedPlaceIds, bu_grants = [],
                            bu_budgetPolicyId = the budgetPolicyId \<rparr>
             in (Inr bundle, recordChange (modify (sn_accessBundles_update (\<lambda>bs. bundle # bs)) st1)))"

definition update_bundle :: "string \<Rightarrow> (access_bundle \<Rightarrow> access_bundle) \<Rightarrow> store \<Rightarrow> store" where
  "update_bundle bundleId f st =
     recordChange (modify (sn_accessBundles_update (update_first (\<lambda>b. bu_id b = bundleId) f)) st)"

definition updateAccessBundle :: "string \<Rightarrow> string option \<Rightarrow> string option \<Rightarrow> string option \<Rightarrow> store
    \<Rightarrow> (store, access_bundle) outcome" where
  "updateAccessBundle bundleId name description budgetPolicyId st =
     (case findBundle st bundleId of
        None \<Rightarrow> throw ''Access bundle not found.'' st
      | Some bundle \<Rightarrow>
          (if truthy budgetPolicyId \<and> \<not> is_budget_policy (st_snapshot st) (the budgetPolicyId)
           then throw ''Budget policy not found.'' st
           else
             let upd = (\<lambda>b. b\<lparr>bu_name := assign_truthy (bu_name b) name,
                             bu_description := assign_truthy (bu_description b) description,
                             bu_budgetPolicyId := assign_truthy (bu_budgetPolicyId b) budgetPolicyId\<rparr>)
             in (Inr (upd bundle), update_bundle bundleId upd st)))"

definition attach_place :: "string \<Rightarrow> access_bundle \<Rightarrow> access_bundle" where
  "attach_place placeId b =
     (if placeId \<in> set (bu_attachedPlaceIds b) then b
      else b\<lparr>bu_attachedPlaceIds := bu_attachedPlaceIds b @ [placeId]\<rparr>)"

definition attachBundleToPlace :: "string \<Rightarrow> string \<Rightarrow> store \<Rightarrow> (store, access_bundle) outcome" where
  "attachBundleToPlace bundleId placeId st =
     (case findBundle st bundleId of
        None \<Rightarrow> throw ''Access bundle not found.'' st
      | Some bundle \<Rightarrow>
          (case findPlace st placeId of
             None \<Rightarrow> throw ''Place not found.'' st
           | Some place \<Rightarrow>
               (Inr (attach_place (pl_id place) bundle),
                update_bundle bundleId (attach_place (pl_id place)) st)))"

definition detachBundleFromPlace :: "string \<Rightarrow> string \<Rightarrow> store \<Rightarrow> (store, access_bundle) outcome" where
  "detachBundleFromPlace bundleId placeId st =
     (case findBundle st bundleId of
        None \<Rightarrow> throw ''Access bundle not found.'' st
      | Some bundle \<Rightarrow>
          (case findPlace st placeId of
             None \<Rightarrow> throw ''Place not found.'' st
           | Some place \<Rightarrow>
               (Inr (detach_place (pl_id place) bundle),
                update_bundle bundleId (detach_place (pl_id place)) st)))"

section \<open>Grants\<close>

definition createGrant :: "env \<Rightarrow> string \<Rightarrow> string option \<Rightarrow> grant_input \<Rightarrow> store
    \<Rightarrow> (store, capability_grant) outcome" where
  "createGrant E bundleId givenId input st =
     (case findBundle st bundleId of
        None \<Rightarrow> throw ''Access bundle not found.'' st
      | Some bundle \<Rightarrow>
          (case normalizeGrantInput bundle input None of
             Inl e \<Rightarrow> (Inl e, st)
           | Inr (capability, res, dec, risk, requiresApproval) \<Rightarrow>
               (let (ident, st1) = optional_id E givenId ''grant'' st;
                    grant = \<lparr> gr_id = ident, gr_capability = capability, gr_resource = res,
                              gr_decision = dec, gr_risk = risk,
                              gr_requiresApproval = requiresApproval \<rparr>
                in (Inr grant, update_bundle bundleId (\<lambda>b. b\<lparr>bu_grants := grant # bu_grants b\<rparr>) st1))))"

definition updateGrant :: "string \<Rightarrow> string \<Rightarrow> grant_input \<Rightarrow> store
    \<Rightarrow> (store, capability_grant) outcome" where
  "updateGrant bundleId grantId input st =
     (case findBundle st bundleId of
        None \<Rightarrow> throw ''Access bundle not found.'' st
      | Some bundle \<Rightarrow>
          (case findGrantIn bundle grantId of
             None \<Rightarrow> throw ''Grant not found.'' st
           | Some grant \<Rightarrow>
               (case normalizeGrantInput bundle input (Some grant) of
                  Inl e \<Rightarrow> (Inl e, st)
                | Inr (capability, res, dec, risk, requiresApproval) \<Rightarrow>
                    (let upd = (\<lambda>g. g\<lparr>gr_capability := capability, gr_resource := res,
                                     gr_decision := dec, gr_risk := risk,
                                     gr_requiresApproval := requiresApproval\<rparr>)
                     in (Inr (upd grant),
                         update_bundle bundleId
                           (\<lambda>b. b\<lparr>bu_grants := update_first (\<lambda>g. gr_id g = grantId) upd (bu_grants b)\<rparr>) st)))))"

definition deleteGrant :: "string \<Rightarrow> string \<Rightarrow> store \<Rightarrow> (store, capability_grant) outcome" where
  "deleteGrant bundleId grantId st =
     (case findBundle st bundleId of
        None \<Rightarrow> throw ''Access bundle not found.'' st
      | Some bundle \<Rightarrow>
          (case findGrantIn bundle grantId of
             None \<Rightarrow> throw ''Grant not found.'' st
           | Some grant \<Rightarrow>
               (Inr grant,
                update_bundle bundleId
                  (\<lambda>b. b\<lparr>bu_grants := filter (\<lambda>c. gr_id c \<noteq> gr_id grant) (bu_grants b)\<rparr>) st)))"

section \<open>Model policies and runtime profiles\<close>

record update_model_policy_input =
  ump_name :: "string option"
  ump_defaultModel :: "string option"
  ump_fallbackModels :: "string list option"
  ump_perRunBudgetCents :: "int option"

definition updateModelPolicy :: "string \<Rightarrow> update_model_policy_input \<Rightarrow> store
    \<Rightarrow> (store, model_policy) outcome" where
  "updateModelPolicy modelPolicyId input st =
     (case findModelPolicy st modelPolicyId of
        None \<Rightarrow> throw ''Model policy not found.'' st
      | Some policy \<Rightarrow>
          (let upd = (\<lambda>p. p\<lparr>mp_name := assign_truthy (mp_name p) (ump_name input),
                           mp_defaultModel := assign_truthy (mp_defaultModel p) (ump_defaultModel input),
                           mp_fallbackModels :=
                             (case ump_fallbackModels input of
                                None \<Rightarrow> mp_fallbackModels p | Some ms \<Rightarrow> dedupe ms),
                           mp_perRunBudgetCents :=
                             or_else (ump_perRunBudgetCents input) (mp_perRunBudgetCents p)\<rparr>)
           in (Inr (upd policy),
               recordChange (modify (sn_modelPolicies_update
                 (update_first (\<lambda>p. mp_id p = modelPolicyId) upd)) st))))"

definition updateRuntimeProfile :: "string \<Rightarrow> string option \<Rightarrow> string option \<Rightarrow> runtime_kind option
    \<Rightarrow> store \<Rightarrow> (store, runtime_profile) outcome" where
  "updateRuntimeProfile runtimeProfileId name adapter runtimeKind st =
     (case findRuntimeProfile st runtimeProfileId of
        None \<Rightarrow> throw ''Runtime profile not found.'' st
      | Some profile \<Rightarrow>
          (let upd = (\<lambda>p. p\<lparr>rp_name := assign_truthy (rp_name p) name,
                           rp_adapter := assign_truthy (rp_adapter p) adapter,
                           rp_runtimeKind := or_else runtimeKind (rp_runtimeKind p)\<rparr>)
           in (Inr (upd profile),
               recordChange (modify (sn_runtimeProfiles_update
                 (update_first (\<lambda>p. rp_id p = runtimeProfileId) upd)) st))))"

section \<open>Connector installs and credentials\<close>

record connector_input =
  coi_id :: "string option"
  coi_kind :: connector_kind
  coi_provider :: string
  coi_externalId :: "string option"
  coi_displayName :: string
  coi_status :: "connector_install_status option"
  coi_installedByPrincipalId :: "string option"
  coi_config :: "json option"
  coi_metadata :: "json option"
  coi_now :: "iso_date option"

definition is_install :: "connector_input \<Rightarrow> connector_install \<Rightarrow> bool" where
  "is_install input c \<longleftrightarrow>
     Some (ci_id c) = coi_id input
   \<or> (coi_externalId input \<noteq> None \<and> ci_provider c = coi_provider input
      \<and> ci_externalId c = coi_externalId input)"

definition updated_install :: "connector_input \<Rightarrow> iso_date \<Rightarrow> connector_install \<Rightarrow> connector_install" where
  "updated_install input now c =
     c\<lparr>ci_kind := coi_kind input, ci_provider := coi_provider input,
       ci_displayName := coi_displayName input,
       ci_status := or_else (coi_status input) (ci_status c), ci_updatedAt := now,
       ci_externalId := assignOptional (ci_externalId c) (coi_externalId input),
       ci_installedByPrincipalId :=
         assignOptional (ci_installedByPrincipalId c) (coi_installedByPrincipalId input),
       ci_config := assignOptional (ci_config c) (redactedRecord (coi_config input)),
       ci_metadata := assignOptional (ci_metadata c) (redactedRecord (coi_metadata input))\<rparr>"

definition upsertConnectorInstall :: "env \<Rightarrow> connector_input \<Rightarrow> store
    \<Rightarrow> (store, connector_install) outcome" where
  "upsertConnectorInstall E input st =
     (let (now, st0) = take_time E (coi_now input) st in
      case List.find (is_install input) (sn_connectorInstalls (st_snapshot st0)) of
        Some existing \<Rightarrow>
          (Inr (updated_install input now existing),
           recordChange (modify (sn_connectorInstalls_update
             (update_first (is_install input) (updated_install input now))) st0))
      | None \<Rightarrow>
          (let (ident, st1) = optional_id E (coi_id input) ''connector'' st0;
               install = \<lparr> ci_id = ident, ci_orgId = org_of st, ci_kind = coi_kind input,
                           ci_provider = coi_provider input, ci_externalId = coi_externalId input,
                           ci_displayName = coi_displayName input,
                           ci_status = or_else (coi_status input) Conn_active,
                           ci_installedByPrincipalId = coi_installedByPrincipalId input,
                           ci_config = redactedRecord (coi_config input),
                           ci_metadata = redactedRecord (coi_metadata input),
                           ci_createdAt = now, ci_updatedAt = now \<rparr>
           in (Inr install,
               recordChange (modify (sn_connectorInstalls_update (\<lambda>cs. install # cs)) st1))))"

record credential_input =
  cdi_id :: "string option"
  cdi_connectorInstallId :: "string option"
  cdi_name :: string
  cdi_provider :: string
  cdi_externalAccountId :: "string option"
  cdi_secretRef :: string
  cdi_status :: "credential_status option"
  cdi_scopeSummary :: string
  cdi_metadata :: "json option"
  cdi_expiresAt :: "iso_date option"
  cdi_rotationDueAt :: "iso_date option"
  cdi_lastUsedAt :: "iso_date option"
  cdi_now :: "iso_date option"

definition is_credential :: "credential_input \<Rightarrow> credential_record \<Rightarrow> bool" where
  "is_credential input c \<longleftrightarrow>
     Some (cr_id c) = cdi_id input
   \<or> (cdi_connectorInstallId input \<noteq> None \<and> cr_connectorInstallId c = cdi_connectorInstallId input
      \<and> cr_provider c = cdi_provider input \<and> cr_externalAccountId c = cdi_externalAccountId input)"

definition updated_credential :: "credential_input \<Rightarrow> iso_date \<Rightarrow> credential_record \<Rightarrow> credential_record" where
  "updated_credential input now c =
     c\<lparr>cr_name := cdi_name input, cr_provider := cdi_provider input,
       cr_secretRef := redactSecrets (cdi_secretRef input),
       cr_status := or_else (cdi_status input) (cr_status c),
       cr_scopeSummary := cdi_scopeSummary input, cr_updatedAt := now,
       cr_connectorInstallId := assignOptional (cr_connectorInstallId c) (cdi_connectorInstallId input),
       cr_externalAccountId := assignOptional (cr_externalAccountId c) (cdi_externalAccountId input),
       cr_metadata := assignOptional (cr_metadata c) (redactedRecord (cdi_metadata input)),
       cr_expiresAt := assignOptional (cr_expiresAt c) (cdi_expiresAt input),
       cr_rotationDueAt := assignOptional (cr_rotationDueAt c) (cdi_rotationDueAt input),
       cr_lastUsedAt := assignOptional (cr_lastUsedAt c) (cdi_lastUsedAt input)\<rparr>"

definition upsertCredential :: "env \<Rightarrow> credential_input \<Rightarrow> store \<Rightarrow> (store, credential_record) outcome" where
  "upsertCredential E input st =
     (let (now, st0) = take_time E (cdi_now input) st in
      if truthy (cdi_connectorInstallId input)
         \<and> \<not> (\<exists>c \<in> set (sn_connectorInstalls (st_snapshot st0)). Some (ci_id c) = cdi_connectorInstallId input)
      then throw ''Connector install not found.'' st0
      else case List.find (is_credential input) (sn_credentials (st_snapshot st0)) of
        Some existing \<Rightarrow>
          (Inr (updated_credential input now existing),
           recordChange (modify (sn_credentials_update
             (update_first (is_credential input) (updated_credential input now))) st0))
      | None \<Rightarrow>
          (let (ident, st1) = optional_id E (cdi_id input) ''credential'' st0;
               credential = \<lparr> cr_id = ident, cr_orgId = org_of st,
                 cr_connectorInstallId = cdi_connectorInstallId input, cr_name = cdi_name input,
                 cr_provider = cdi_provider input, cr_externalAccountId = cdi_externalAccountId input,
                 cr_secretRef = redactSecrets (cdi_secretRef input),
                 cr_status = or_else (cdi_status input) Cred_active,
                 cr_scopeSummary = cdi_scopeSummary input,
                 cr_metadata = redactedRecord (cdi_metadata input),
                 cr_expiresAt = cdi_expiresAt input, cr_rotationDueAt = cdi_rotationDueAt input,
                 cr_lastUsedAt = cdi_lastUsedAt input, cr_createdAt = now, cr_updatedAt = now \<rparr>
           in (Inr credential,
               recordChange (modify (sn_credentials_update (\<lambda>cs. credential # cs)) st1))))"

definition markCredentialUsed :: "env \<Rightarrow> string \<Rightarrow> iso_date option \<Rightarrow> store
    \<Rightarrow> (store, credential_record option) outcome" where
  "markCredentialUsed E credentialId now st =
     (case List.find (\<lambda>c. cr_id c = credentialId) (sn_credentials (st_snapshot st)) of
        None \<Rightarrow> (Inr None, st)
      | Some credential \<Rightarrow>
          (let (at, st1) = take_time E now st;
               upd = (\<lambda>c. c\<lparr>cr_lastUsedAt := Some at, cr_updatedAt := at\<rparr>)
           in (Inr (Some (upd credential)),
               recordChange (modify (sn_credentials_update
                 (update_first (\<lambda>c. cr_id c = credentialId) upd)) st1))))"

section \<open>The contract of the operations\<close>

text \<open>Every operation above refuses without a trace and records what it changed.\<close>

interpretation agent: store_operation "updateAgent input" for input
  by (rule store_operationI)
    (simp add: updateAgent_def throw_def lawful_simps split: option.split sum.split)

interpretation link: store_operation "linkPrincipalExternalIdentity i p x m" for i p x m
  by (rule store_operationI)
    (simp add: linkPrincipalExternalIdentity_def throw_def lawful_simps split: option.split sum.split)

interpretation place_create: store_operation "createPlace E input" for E input
  by (rule store_operationI)
    (simp add: createPlace_def throw_def lawful_simps split: option.split sum.split)

interpretation place_update: store_operation "updatePlace i input" for i input
  by (rule store_operationI)
    (simp add: updatePlace_def throw_def lawful_simps split: option.split sum.split)

interpretation place_delete: store_operation "deletePlace i" for i
  by (rule store_operationI)
    (simp add: deletePlace_def throw_def lawful_simps split: option.split sum.split)

interpretation bundle_create: store_operation "createAccessBundle E input" for E input
  by (rule store_operationI)
    (simp add: createAccessBundle_def throw_def lawful_simps split: option.split sum.split)

interpretation bundle_update: store_operation "updateAccessBundle i n d b" for i n d b
  by (rule store_operationI)
    (simp add: updateAccessBundle_def update_bundle_def throw_def lawful_simps split: option.split sum.split)

interpretation attach: store_operation "attachBundleToPlace b p" for b p
  by (rule store_operationI)
    (simp add: attachBundleToPlace_def update_bundle_def throw_def lawful_simps split: option.split sum.split)

interpretation detach: store_operation "detachBundleFromPlace b p" for b p
  by (rule store_operationI)
    (simp add: detachBundleFromPlace_def update_bundle_def throw_def lawful_simps split: option.split sum.split)

interpretation grant_create: store_operation "createGrant E b i input" for E b i input
  by (rule store_operationI)
    (simp add: createGrant_def update_bundle_def throw_def lawful_simps split: option.split sum.split)

interpretation grant_update: store_operation "updateGrant b g input" for b g input
  by (rule store_operationI)
    (simp add: updateGrant_def update_bundle_def throw_def lawful_simps split: option.split sum.split)

interpretation grant_delete: store_operation "deleteGrant b g" for b g
  by (rule store_operationI)
    (simp add: deleteGrant_def update_bundle_def throw_def lawful_simps split: option.split sum.split)

interpretation model_policy: store_operation "updateModelPolicy i input" for i input
  by (rule store_operationI)
    (simp add: updateModelPolicy_def throw_def lawful_simps split: option.split sum.split)

interpretation runtime_profile: store_operation "updateRuntimeProfile i n a k" for i n a k
  by (rule store_operationI)
    (simp add: updateRuntimeProfile_def throw_def lawful_simps split: option.split sum.split)

interpretation connector: store_operation "upsertConnectorInstall E input" for E input
  by (rule store_operationI)
    (simp add: upsertConnectorInstall_def throw_def lawful_simps split: option.split sum.split)

interpretation credential: store_operation "upsertCredential E input" for E input
  by (rule store_operationI)
    (simp add: upsertCredential_def throw_def lawful_simps split: option.split sum.split)

section \<open>Invariants of places and grants\<close>

definition place_key :: "place_scope \<Rightarrow> place_provider \<times> string" where
  "place_key p = (pl_provider p, to_lower_case (pl_externalId p))"

definition places_ok :: "place_scope list \<Rightarrow> bool" where
  "places_ok ps \<longleftrightarrow> distinct (map pl_id ps) \<and> distinct (map place_key ps)"

definition grant_key :: "capability_grant \<Rightarrow> capability_kind \<times> string" where
  "grant_key g = (gr_capability g, gr_resource g)"

definition grant_ok :: "capability_grant \<Rightarrow> bool" where
  "grant_ok g \<longleftrightarrow> (gr_requiresApproval g \<longleftrightarrow> gr_decision g = Ask)
     \<and> normalizeGrantResource (gr_capability g) (Some (gr_resource g)) = Inr (gr_resource g)"

definition bundle_ok :: "access_bundle \<Rightarrow> bool" where
  "bundle_ok b \<longleftrightarrow> distinct (map gr_id (bu_grants b)) \<and> distinct (map grant_key (bu_grants b))
     \<and> (\<forall>g \<in> set (bu_grants b). grant_ok g)"

lemma same_place_key: "same_place pr x p \<longleftrightarrow> place_key p = (pr, to_lower_case x)"
  by (auto simp: same_place_def place_key_def)

lemma createPlace_ok:
  assumes "places_ok (sn_places (st_snapshot st))"
    and "fst (take_id E ''place'' st) \<notin> pl_id ` set (sn_places (st_snapshot st))"
  shows "places_ok (sn_places (st_snapshot (snd (createPlace E input st))))"
proof (cases "\<exists>p \<in> set (sn_places (st_snapshot st)). same_place (cpi_provider input) (cpi_externalId input) p")
  case True
  with assms(1) show ?thesis by (simp add: createPlace_def)
next
  case False
  then have "(cpi_provider input, to_lower_case (cpi_externalId input))
      \<notin> place_key ` set (sn_places (st_snapshot st))"
    by (auto simp: same_place_key)
  with False assms show ?thesis
    by (simp add: createPlace_def Let_def split_def places_ok_def place_key_def)
qed

lemma updated_place_simps [simp]:
  "pl_id (updated_place input p) = pl_id p" "pl_provider (updated_place input p) = pl_provider p"
  by (simp_all add: updated_place_def)

lemma updated_place_key:
  "place_key (updated_place input p) =
     (if truthy (upi_externalId input) then (pl_provider p, to_lower_case (the (upi_externalId input)))
      else place_key p)"
  by (simp add: place_key_def updated_place_def assign_truthy_def)

lemma updatePlace_ok:
  assumes "places_ok (sn_places (st_snapshot st))"
  shows "places_ok (sn_places (st_snapshot (snd (updatePlace placeId input st))))"
proof (cases "isl (fst (updatePlace placeId input st))")
  case True
  then obtain e where "fst (updatePlace placeId input st) = Inl e" by (auto simp: isl_def)
  from place_update.refused [OF this] assms show ?thesis by simp
next
  case False
  let ?ps = "sn_places (st_snapshot st)"
  obtain p where p: "findPlace st placeId = Some p"
    and free: "truthy (upi_externalId input) \<Longrightarrow> c \<in> set ?ps \<Longrightarrow> pl_id c \<noteq> pl_id p \<Longrightarrow>
      place_key c \<noteq> (pl_provider p, to_lower_case (the (upi_externalId input)))" for c
    using False by (auto simp: updatePlace_def same_place_key split: option.splits if_splits)
  have upd: "sn_places (st_snapshot (snd (updatePlace placeId input st)))
      = update_first (is_place placeId) (updated_place input) ?ps"
    using False p by (auto simp: updatePlace_def split: if_splits)
  have mem: "p \<in> set ?ps" using p by (auto simp: findPlace_def dest: find_SomeD)
  have "distinct (map pl_id (update_first (is_place placeId) (updated_place input) ?ps))"
    using assms by (simp add: map_update_first places_ok_def)
  moreover have "distinct (map place_key (update_first (is_place placeId) (updated_place input) ?ps))"
  proof (rule distinct_update_first)
    show "place_key c \<noteq> place_key (updated_place input p)" if "c \<in> set ?ps" "c \<noteq> p" for c
    proof -
      have ids: "pl_id c \<noteq> pl_id p"
        using assms that mem by (auto simp: places_ok_def dest: distinct_map_same)
      have "place_key c \<noteq> place_key p"
        using assms that mem by (auto simp: places_ok_def dest: distinct_map_same)
      with free [OF _ that(1) ids] show ?thesis by (simp add: updated_place_key)
    qed
  qed (use assms p in \<open>simp_all add: places_ok_def findPlace_def\<close>)
  ultimately show ?thesis by (simp add: places_ok_def upd)
qed

lemma deletePlace_ok:
  assumes "places_ok (sn_places (st_snapshot st))"
  shows "places_ok (sn_places (st_snapshot (snd (deletePlace placeId st))))"
  using assms
  by (auto simp: deletePlace_def places_ok_def intro!: distinct_map_filter split: option.splits)

subsection \<open>Grants of a bundle\<close>

lemma bundle_ok_add:
  assumes "bundle_ok b" "normalizeGrantInput b input None = Inr (c, r, d, k, ra)"
    and "i \<notin> gr_id ` set (bu_grants b)"
  shows "bundle_ok (b\<lparr>bu_grants := \<lparr> gr_id = i, gr_capability = c, gr_resource = r, gr_decision = d,
     gr_risk = k, gr_requiresApproval = ra \<rparr> # bu_grants b\<rparr>)"
  using assms normalizeGrantInput_Inr [OF assms(2)]
  by (auto simp: bundle_ok_def grant_ok_def grant_key_def)

lemma bundle_ok_change:
  assumes "bundle_ok b" "findGrantIn b i = Some g"
    and "normalizeGrantInput b input (Some g) = Inr (c, r, d, k, ra)"
  shows "bundle_ok (b\<lparr>bu_grants := update_first (\<lambda>g. gr_id g = i)
     (\<lambda>g. g\<lparr>gr_capability := c, gr_resource := r, gr_decision := d, gr_risk := k,
            gr_requiresApproval := ra\<rparr>) (bu_grants b)\<rparr>)"
proof -
  let ?u = "\<lambda>g. g\<lparr>gr_capability := c, gr_resource := r, gr_decision := d, gr_risk := k,
            gr_requiresApproval := ra\<rparr>"
  note n = normalizeGrantInput_Inr [OF assms(3)]
  have g: "g \<in> set (bu_grants b)" and f: "List.find (\<lambda>g. gr_id g = i) (bu_grants b) = Some g"
    using assms(2) by (auto simp: findGrantIn_def dest: find_SomeD)
  have "distinct (map gr_id (update_first (\<lambda>g. gr_id g = i) ?u (bu_grants b)))"
    using assms(1) by (simp add: map_update_first bundle_ok_def)
  moreover have "distinct (map grant_key (update_first (\<lambda>g. gr_id g = i) ?u (bu_grants b)))"
  proof (rule distinct_update_first [OF _ f])
    show "distinct (map grant_key (bu_grants b))"
      using assms(1) by (simp add: bundle_ok_def)
    fix y
    assume y: "y \<in> set (bu_grants b)" "y \<noteq> g"
    then have "gr_id y \<noteq> gr_id g"
      using assms(1) g by (auto simp: bundle_ok_def dest: distinct_map_same)
    with n y show "grant_key y \<noteq> grant_key (?u g)" by (simp add: grant_key_def)
  qed
  moreover have "\<forall>g' \<in> set (update_first (\<lambda>g. gr_id g = i) ?u (bu_grants b)). grant_ok g'"
  proof
    fix g'
    assume "g' \<in> set (update_first (\<lambda>g. gr_id g = i) ?u (bu_grants b))"
    then show "grant_ok g'"
    proof (rule in_update_firstE)
      show "grant_ok g'" if "g' \<in> set (bu_grants b)"
        using that assms(1) by (simp add: bundle_ok_def)
      show "grant_ok g'" if "g' = ?u x" for x
        using that n by (simp add: grant_ok_def)
    qed
  qed
  ultimately show ?thesis by (simp add: bundle_ok_def)
qed

lemma bundle_ok_remove: "bundle_ok b \<Longrightarrow> bundle_ok (b\<lparr>bu_grants := filter P (bu_grants b)\<rparr>)"
  by (auto simp: bundle_ok_def intro!: distinct_map_filter)

definition bundles_ok :: "access_bundle list \<Rightarrow> bool" where
  "bundles_ok bs \<longleftrightarrow> (\<forall>b \<in> set bs. bundle_ok b)"

lemma bundles_ok_update:
  assumes "bundles_ok bs" "\<And>b. List.find P bs = Some b \<Longrightarrow> bundle_ok (f b)"
  shows "bundles_ok (update_first P f bs)"
  unfolding bundles_ok_def
proof
  fix b
  assume "b \<in> set (update_first P f bs)"
  then show "bundle_ok b"
  proof (rule in_update_firstE)
    show "bundle_ok b" if "b \<in> set bs" using that assms(1) by (simp add: bundles_ok_def)
    show "bundle_ok b" if "b = f x" "List.find P bs = Some x" for x
      using that assms(2) by simp
  qed
qed

lemma findBundle_ok: "bundles_ok (sn_accessBundles (st_snapshot st)) \<Longrightarrow> findBundle st i = Some b \<Longrightarrow> bundle_ok b"
  by (auto simp: findBundle_def bundles_ok_def dest: find_SomeD)

lemma update_bundle_snapshot [simp]:
  "st_snapshot (update_bundle i f st) =
     sn_accessBundles_update (update_first (\<lambda>b. bu_id b = i) f) (st_snapshot st)"
  by (simp add: update_bundle_def)

lemma createGrant_ok:
  assumes "bundles_ok (sn_accessBundles (st_snapshot st))"
    and "\<And>b. findBundle st bundleId = Some b \<Longrightarrow>
       fst (optional_id E givenId ''grant'' st) \<notin> gr_id ` set (bu_grants b)"
  shows "bundles_ok (sn_accessBundles (st_snapshot (snd (createGrant E bundleId givenId input st))))"
proof (cases "findBundle st bundleId")
  case None
  with assms show ?thesis by (simp add: createGrant_def)
next
  case (Some b)
  show ?thesis
  proof (cases "normalizeGrantInput b input None")
    case (Inl e)
    with Some assms(1) show ?thesis by (simp add: createGrant_def)
  next
    case (Inr n)
    obtain c r d k ra where n: "n = (c, r, d, k, ra)" by (cases n) auto
    have "bundles_ok (update_first (\<lambda>b. bu_id b = bundleId) (\<lambda>b. b\<lparr>bu_grants :=
        \<lparr> gr_id = fst (optional_id E givenId ''grant'' st), gr_capability = c, gr_resource = r,
          gr_decision = d, gr_risk = k, gr_requiresApproval = ra \<rparr> # bu_grants b\<rparr>)
        (sn_accessBundles (st_snapshot st)))"
    proof (rule bundles_ok_update [OF assms(1)])
      fix b'
      assume "List.find (\<lambda>b. bu_id b = bundleId) (sn_accessBundles (st_snapshot st)) = Some b'"
      then have "b' = b" using Some by (simp add: findBundle_def)
      then show "bundle_ok (b'\<lparr>bu_grants :=
        \<lparr> gr_id = fst (optional_id E givenId ''grant'' st), gr_capability = c, gr_resource = r,
          gr_decision = d, gr_risk = k, gr_requiresApproval = ra \<rparr> # bu_grants b'\<rparr>)"
        using bundle_ok_add [OF findBundle_ok [OF assms(1) Some]] Inr n assms(2) [OF Some] by simp
    qed
    with Some Inr n show ?thesis by (simp add: createGrant_def Let_def split_def)
  qed
qed

lemma updateGrant_ok:
  assumes "bundles_ok (sn_accessBundles (st_snapshot st))"
  shows "bundles_ok (sn_accessBundles (st_snapshot (snd (updateGrant bundleId grantId input st))))"
proof (cases "isl (fst (updateGrant bundleId grantId input st))")
  case True
  then obtain e where "fst (updateGrant bundleId grantId input st) = Inl e" by (auto simp: isl_def)
  from grant_update.refused [OF this] assms show ?thesis by simp
next
  case False
  then obtain b g c r d k ra where b: "findBundle st bundleId = Some b"
    and g: "findGrantIn b grantId = Some g"
    and n: "normalizeGrantInput b input (Some g) = Inr (c, r, d, k, ra)"
    by (auto simp: updateGrant_def split: option.splits sum.splits)
  show ?thesis
    using b g n bundle_ok_change [OF findBundle_ok [OF assms b] g n]
    by (auto simp: updateGrant_def Let_def findBundle_def intro!: bundles_ok_update [OF assms])
qed

lemma deleteGrant_ok:
  assumes "bundles_ok (sn_accessBundles (st_snapshot st))"
  shows "bundles_ok (sn_accessBundles (st_snapshot (snd (deleteGrant bundleId grantId st))))"
  using assms findBundle_ok [OF assms]
  by (auto simp: deleteGrant_def findBundle_def intro!: bundles_ok_update bundle_ok_remove
      split: option.splits)

section \<open>Properties\<close>

text \<open>
  Places stay unique. With distinct place ids and a fresh id for a new place, no operation on
  places makes two places of one provider share an external id, upper and lower case alike.
\<close>

theorem places_stay_unique:
  assumes "places_ok (sn_places (st_snapshot st))"
    and "fst (take_id E ''place'' st) \<notin> pl_id ` set (sn_places (st_snapshot st))"
  shows "places_ok (sn_places (st_snapshot (snd (createPlace E c st))))
    \<and> places_ok (sn_places (st_snapshot (snd (updatePlace i u st))))
    \<and> places_ok (sn_places (st_snapshot (snd (deletePlace i st))))
    \<and> ((\<exists>p \<in> set (sn_places (st_snapshot st)).
          place_key p = (cpi_provider c, to_lower_case (cpi_externalId c))) \<longrightarrow>
        fst (createPlace E c st) = Inl (Error ''Place with this provider and external ID already exists.''))"
  using createPlace_ok [OF assms] updatePlace_ok [OF assms(1)] deletePlace_ok [OF assms(1)]
  by (auto simp: createPlace_def same_place_key)

definition demo_store :: store where
  "demo_store = newStore (createSeedSnapshot (Instant 0)) True"

definition demo_env :: env where
  "demo_env = \<lparr> env_uuid = nat_str, env_clock = (\<lambda>n. 1000 + int n), env_sha256 = (\<lambda>s. s),
     env_collate = code_unit_le \<rparr>"

lemma demo_snapshot: "st_snapshot demo_store = createSeedSnapshot (Instant 0)"
  by (simp add: demo_store_def newStore_def)

lemma demo_places_ok: "places_ok (sn_places (st_snapshot demo_store))"
  unfolding demo_snapshot createSeedSnapshot_def place_checkout_def place_general_def seed_place_def
    places_ok_def place_key_def
  by code_simp

lemma demo_bundles_ok: "bundles_ok (sn_accessBundles (st_snapshot demo_store))"
  unfolding demo_snapshot bundles_ok_def bundle_ok_def grant_key_def grant_ok_def
  by code_simp

theorem places_stay_unique_witness:
  "fst (createPlace demo_env \<lparr> cpi_kind = SlackChannel, cpi_provider = Prov_slack,
      cpi_externalId = ''c_general'', cpi_name = ''#dup'', cpi_sensitivity = Public,
      cpi_metadata = None \<rparr> demo_store)
    = Inl (Error ''Place with this provider and external ID already exists.'')"
proof -
  have k: "place_key place_general = (Prov_slack, to_lower_case ''c_general'')" by code_simp
  have f: "fst (take_id demo_env ''place'' demo_store) \<notin> pl_id ` set (sn_places (st_snapshot demo_store))"
    by (simp add: take_id_def createId_def Let_def demo_snapshot demo_env_def demo_store_def
        newStore_def nat_str.simps digit_def seed_defs)
  show ?thesis
    using places_stay_unique [OF demo_places_ok f, of "\<lparr> cpi_kind = SlackChannel, cpi_provider = Prov_slack,
      cpi_externalId = ''c_general'', cpi_name = ''#dup'', cpi_sensitivity = Public,
      cpi_metadata = None \<rparr>"] k
    by (simp add: demo_snapshot createSeedSnapshot_def)
qed

text \<open>
  C5. Grants stay well formed. With distinct grant ids in every bundle, each bundle keeps at most
  one grant per capability and normalized resource, and a grant requires approval exactly when
  its decision is ask, whatever grants are created, changed or deleted.
\<close>

theorem grants_stay_well_formed:
  assumes "bundles_ok (sn_accessBundles (st_snapshot st))"
    and "\<And>b. findBundle st bundleId = Some b \<Longrightarrow>
       fst (optional_id E givenId ''grant'' st) \<notin> gr_id ` set (bu_grants b)"
  shows "bundles_ok (sn_accessBundles (st_snapshot (snd (createGrant E bundleId givenId input st))))
    \<and> bundles_ok (sn_accessBundles (st_snapshot (snd (updateGrant bundleId grantId input st))))
    \<and> bundles_ok (sn_accessBundles (st_snapshot (snd (deleteGrant bundleId grantId st))))"
  using createGrant_ok [OF assms] updateGrant_ok [OF assms(1)] deleteGrant_ok [OF assms(1)] by blast

theorem grants_stay_well_formed_witness:
  "bundles_ok (sn_accessBundles (st_snapshot (snd (createGrant demo_env ''bundle_checkout''
      (Some ''grant_new'') \<lparr> gi_capability = Some Linear_read, gi_resource = Some ''linear:*'',
        gi_decision = Some Allow, gi_risk = Some Read_internal, gi_requiresApproval = Some False \<rparr>
      demo_store))))"
  using grants_stay_well_formed [OF demo_bundles_ok, of "''bundle_checkout''" demo_env "Some ''grant_new''"]
  by (simp add: optional_id_def findBundle_def demo_snapshot seed_defs)

text \<open>
  Deleting a place revokes its access. A successful deletion happens only when no run was
  made there; afterwards no place has the id, and no bundle is attached to it, so every request
  evaluated in that place is denied.
\<close>

theorem deleted_place_has_no_access:
  assumes "fst (deletePlace placeId st) = Inr place"
  shows "(\<forall>r \<in> set (sn_runs (st_snapshot st)). run_placeScopeId r \<noteq> pl_id place)
    \<and> (\<forall>p \<in> set (sn_places (st_snapshot (snd (deletePlace placeId st)))). pl_id p \<noteq> pl_id place)
    \<and> bundlesForPlace (sn_accessBundles (st_snapshot (snd (deletePlace placeId st)))) place = []
    \<and> pd_decision (evaluatePolicy (bundlesForPlace
        (sn_accessBundles (st_snapshot (snd (deletePlace placeId st)))) place) request) = Deny"
proof -
  have b: "bundlesForPlace (sn_accessBundles (st_snapshot (snd (deletePlace placeId st)))) place = []"
    using assms
    by (auto simp: deletePlace_def bundlesForPlace_def detach_place_def filter_empty_conv
        split: option.splits if_splits)
  show ?thesis
    unfolding b gate.no_bundles_denied
    using assms by (auto simp: deletePlace_def split: option.splits if_splits)
qed

theorem deleted_place_has_no_access_witness:
  "bundlesForPlace (sn_accessBundles (st_snapshot (snd (deletePlace ''C_GENERAL'' demo_store))))
     place_general = []"
  using deleted_place_has_no_access [of "''C_GENERAL''" demo_store place_general]
  by (simp add: deletePlace_def findPlace_def is_place_def demo_snapshot seed_defs)

end
