(* ===== verification/Store_Runs.thy ===== *)
theory Store_Runs
  imports Store_Admin
begin

text \<open>
  Runs and approvals of \<open>BekStore\<close> (\<^verbatim>\<open>packages/core/src/store.ts\<close>): \<open>createRun\<close> evaluates the
  policy of the place and completes, fails, queues or parks the run behind an approval;
  \<open>decideApproval\<close> guards and applies a decision; \<open>setRunStatus\<close>, \<open>appendRunEvent\<close>,
  \<open>upsertApprovalRequest\<close> and \<open>recordAuditEvent\<close> are the operations the worker and the API
  report with. The lemmas give the outcome of \<open>createRun\<close> for every policy decision and the
  exact conditions under which an approval is decided.
\<close>

section \<open>Creating a run\<close>

datatype advance_mode = Inline_stub | Worker_mode

fun advance_mode_str :: "advance_mode \<Rightarrow> string" where
  "advance_mode_str Inline_stub = ''inline_stub''"
| "advance_mode_str Worker_mode = ''worker''"

text \<open>An approval payload is given as a value, possibly absent, or computed from the run.\<close>

datatype approval_payload = Payload_value json | Payload_fun "run \<Rightarrow> json"

record create_run_request =
  crr_prompt :: string
  crr_placeScopeId :: string
  crr_requesterPrincipalId :: "string option"
  crr_trigger :: "trigger_kind option"
  crr_capability :: "capability_kind option"
  crr_resource :: "string option"
  crr_advanceMode :: "advance_mode option"
  crr_approvalPayload :: approval_payload
  crr_deferApproval :: bool

definition capability_data :: "create_run_request \<Rightarrow> json_record" where
  "capability_data input =
     opt_entry ''capability'' (map_option capability_str (crr_capability input))
     @ opt_entry ''resource'' (crr_resource input)"

definition approvalPayloadFor :: "create_run_request \<Rightarrow> run \<Rightarrow> json" where
  "approvalPayloadFor input r =
     (case crr_approvalPayload input of
        Payload_fun f \<Rightarrow> f r
      | Payload_value v \<Rightarrow>
          (if v = JNull \<or> v = JUndef
           then JObj ((''prompt'', JStr (crr_prompt input)) # capability_data input) else v))"

text \<open>The run is the front element of the runs from its creation on; the code holds a reference.\<close>

definition set_front_run :: "(run \<Rightarrow> run) \<Rightarrow> store \<Rightarrow> store" where
  "set_front_run f =
     modify (sn_runs_update (\<lambda>rs. case rs of [] \<Rightarrow> [] | r # rest \<Rightarrow> f r # rest))"

definition run_input :: "store \<Rightarrow> create_run_request \<Rightarrow> model_policy \<Rightarrow> runtime_profile \<Rightarrow> create_run_input" where
  "run_input st input modelPolicy runtimeProfile =
     \<lparr> cri_orgId = org_of st, cri_agentId = ag_id (sn_agent (st_snapshot st)),
       cri_requesterPrincipalId = or_else (crr_requesterPrincipalId input) ''principal_bryson'',
       cri_placeScopeId = crr_placeScopeId input,
       cri_trigger = or_else (crr_trigger input) Trig_api, cri_prompt = crr_prompt input,
       cri_capability = crr_capability input, cri_resource = crr_resource input,
       cri_modelPolicy = modelPolicy, cri_runtimeProfile = runtimeProfile \<rparr>"

definition push_run :: "env \<Rightarrow> create_run_input \<Rightarrow> store \<Rightarrow> run \<times> store" where
  "push_run E input st =
     (let (r, n) = makeRun E (st_draws st) input None;
          st1 = st\<lparr>st_draws := n,
                   st_snapshot := (st_snapshot st)\<lparr>sn_runs := r # sn_runs (st_snapshot st)\<rparr>\<rparr>
      in (r, push_event E (org_of st) (run_id r) Ev_run_created (''Bek queued: '' @ run_prompt r)
              None None st1))"

definition push_approval :: "env \<Rightarrow> create_run_request \<Rightarrow> run \<Rightarrow> capability_kind \<Rightarrow> risk_level \<Rightarrow> store
    \<Rightarrow> (store, approval_request) outcome" where
  "push_approval E input r capability risk st =
     (case createApprovalRequest E (st_draws st) (org_of st) (run_id r) (run_requesterPrincipalId r)
             (capability_str capability) (approvalPayloadFor input r) risk of
        (Inl e, n) \<Rightarrow> (Inl e, st\<lparr>st_draws := n\<rparr>)
      | (Inr approval, n) \<Rightarrow>
          (let st1 = set_front_run (run_status_update (\<lambda>_. Run_awaiting_approval)) (st\<lparr>st_draws := n\<rparr>);
               st2 = modify (sn_approvals_update (\<lambda>as. approval # as)) st1
           in (Inr approval,
               push_event E (org_of st2) (run_id r) Ev_approval_requested
                 (''Approval required for '' @ capability_str capability @ ''.'')
                 (Some (JObj [(''approvalId'', JStr (ap_id approval))])) None st2)))"

definition complete_stub :: "run \<Rightarrow> run" where
  "complete_stub r = r\<lparr>run_status := Run_completed,
     run_actualCostCents := max 1 (run_estimatedCostCents r - 1)\<rparr>"

definition apply_decision :: "env \<Rightarrow> create_run_request \<Rightarrow> run \<Rightarrow> capability_kind \<Rightarrow> policy_decision
    \<Rightarrow> store \<Rightarrow> (store, unit) outcome" where
  "apply_decision E input r capability d st =
     (let advanceMode = or_else (crr_advanceMode input) Inline_stub;
          org = org_of st in
      if pd_decision d = Deny then
        (Inr (), push_event E org (run_id r) Ev_run_failed (pd_reason d)
                   (Some (JObj (capability_data input))) None
                   (set_front_run (run_status_update (\<lambda>_. Run_failed)) st))
      else if pd_requiresApproval d then
        (if crr_deferApproval input \<and> advanceMode = Worker_mode then
           (Inr (), push_event E org (run_id r) Ev_run_status_changed
              ''Policy requires approval; worker planning will prepare the approval payload.''
              (Some (JObj ((''advanceMode'', JStr (advance_mode_str advanceMode)) # capability_data input)))
              None st)
         else
           (case push_approval E input r capability (pd_risk d) st of
              (Inl e, st') \<Rightarrow> (Inl e, st')
            | (Inr _, st') \<Rightarrow> (Inr (), st')))
      else if advanceMode = Inline_stub then
        (Inr (), push_event E org (run_id r) Ev_run_completed ''Bek completed the local stub run.'' None None
                   (set_front_run complete_stub st))
      else
        (Inr (), push_event E org (run_id r) Ev_run_status_changed
           ''Policy allowed the run; worker advancement is pending.''
           (Some (JObj [(''advanceMode'', JStr (advance_mode_str advanceMode))])) None st))"

definition policyRequest :: "create_run_request \<Rightarrow> capability_kind \<Rightarrow> policy_request" where
  "policyRequest input capability =
     \<lparr> rq_placeScopeId = crr_placeScopeId input, rq_capability = capability,
       rq_resource = crr_resource input \<rparr>"

definition push_policy_event :: "env \<Rightarrow> run \<Rightarrow> policy_decision \<Rightarrow> store \<Rightarrow> store" where
  "push_policy_event E r d st =
     push_event E (org_of st) (run_id r) Ev_policy_evaluated (pd_reason d)
       (Some (JObj [(''decision'', JStr (decision_str (pd_decision d))),
                    (''requiresApproval'', JBool (pd_requiresApproval d))])) None st"

definition createRun :: "env \<Rightarrow> create_run_request \<Rightarrow> store \<Rightarrow> (store, run) outcome" where
  "createRun E input st =
     (case resolveRunProfiles st (crr_capability input) of
        Inl e \<Rightarrow> (Inl e, st)
      | Inr (modelPolicy, runtimeProfile) \<Rightarrow>
     (case List.find (\<lambda>p. pl_id p = crr_placeScopeId input) (sn_places (st_snapshot st)) of
        None \<Rightarrow> throw ''Unknown place scope.'' st
      | Some place \<Rightarrow>
          (let (r, st1) = push_run E (run_input st input modelPolicy runtimeProfile) st;
               (res, st2) =
                 (case crr_capability input of
                    None \<Rightarrow> (Inr (), st1)
                  | Some capability \<Rightarrow>
                      (let d = evaluatePolicy
                             (bundlesForPlace (sn_accessBundles (st_snapshot st1)) place)
                             (policyRequest input capability)
                       in apply_decision E input r capability d (push_policy_event E r d st1)))
           in case res of
                Inl e \<Rightarrow> (Inl e, st2)
              | Inr _ \<Rightarrow>
                  (let (at, st3) = take_time E None st2;
                       st4 = set_front_run (run_updatedAt_update (\<lambda>_. at)) st3
                   in (Inr (hd (sn_runs (st_snapshot st4))), recordChange st4)))))"

section \<open>Deciding an approval\<close>

record approval_decision_input =
  adi_principalId :: string
  adi_payloadHash :: string
  adi_now :: "iso_date option"
  adi_advanceMode :: "advance_mode option"

definition decision_status :: "bool \<Rightarrow> approval_status" where
  "decision_status approved = (if approved then Approval_approved else Approval_denied)"

definition approval_decided_word :: "bool \<Rightarrow> string" where
  "approval_decided_word approved = (if approved then ''approved'' else ''denied'')"

definition update_approval :: "string \<Rightarrow> (approval_request \<Rightarrow> approval_request) \<Rightarrow> store \<Rightarrow> store" where
  "update_approval approvalId f = modify (sn_approvals_update (update_first (\<lambda>a. ap_id a = approvalId) f))"

definition decided_run :: "bool \<Rightarrow> bool \<Rightarrow> iso_date \<Rightarrow> run \<Rightarrow> run" where
  "decided_run approved to_worker now r =
     (if approved \<and> to_worker then r\<lparr>run_status := Run_queued, run_updatedAt := now\<rparr>
      else r\<lparr>run_status := (if approved then Run_completed else Run_cancelled),
             run_actualCostCents := (if approved then max 1 (run_estimatedCostCents r) else 0),
             run_updatedAt := now\<rparr>)"

definition update_run :: "string \<Rightarrow> (run \<Rightarrow> run) \<Rightarrow> store \<Rightarrow> store" where
  "update_run runId f = modify (sn_runs_update (update_first (\<lambda>r. run_id r = runId) f))"

definition needs_second_person :: "risk_level \<Rightarrow> bool" where
  "needs_second_person k = (k = Write_external \<or> k = Privileged)"

definition decideApproval :: "env \<Rightarrow> string \<Rightarrow> bool \<Rightarrow> approval_decision_input \<Rightarrow> store
    \<Rightarrow> (store, approval_request) outcome" where
  "decideApproval E approvalId approved input st =
     (case List.find (\<lambda>a. ap_id a = approvalId) (sn_approvals (st_snapshot st)) of
        None \<Rightarrow> throw ''Approval not found.'' st
      | Some approval \<Rightarrow>
      if ap_status approval \<noteq> Approval_pending then throw ''Approval is no longer pending.'' st
      else if ap_payloadHash approval \<noteq> adi_payloadHash input
      then throw ''Approval payload hash does not match the pending request.'' st
      else
        let (now, st1) = take_time E (adi_now input) st in
        if date_le (ap_expiresAt approval) now
        then throw ''Approval has expired.''
               (update_approval approvalId
                  (\<lambda>a. a\<lparr>ap_status := Approval_expired, ap_decidedAt := Some now\<rparr>) st1)
        else case List.find (\<lambda>p. pr_id p = adi_principalId input \<and> pr_orgId p = ap_orgId approval)
                    (sn_principals (st_snapshot st1)) of
          None \<Rightarrow> throw ''Approval actor not found.'' st1
        | Some actor \<Rightarrow>
            if pr_kind actor \<noteq> Human then throw ''Approval actor must be a human principal.'' st1
            else if pr_id actor = ap_requestedByPrincipalId approval
                    \<and> needs_second_person (ap_risk approval)
            then throw ''Requester cannot self-approve write or privileged actions.'' st1
            else
              let upd = (\<lambda>a. a\<lparr>ap_status := decision_status approved,
                               ap_decidedByPrincipalId := Some (pr_id actor),
                               ap_decidedAt := Some now\<rparr>);
                  st2 = update_approval approvalId upd st1;
                  st3 = update_run (ap_runId approval)
                          (decided_run approved (adi_advanceMode input = Some Worker_mode) now) st2;
                  st4 = push_event E (org_of st3) (ap_runId approval) Ev_approval_decided
                          (''Approval '' @ approval_decided_word approved @ ''.'')
                          (Some (JObj [(''approvalId'', JStr approvalId),
                                       (''decidedByPrincipalId'', JStr (pr_id actor))])) None st3
              in (Inr (upd approval), recordChange st4))"

section \<open>Reporting\<close>

record append_event_input =
  aei_runId :: string
  aei_type :: run_event_type
  aei_message :: string
  aei_data :: "json option"
  aei_now :: "iso_date option"

definition appendRunEvent :: "env \<Rightarrow> append_event_input \<Rightarrow> store \<Rightarrow> (store, run_event) outcome" where
  "appendRunEvent E input st =
     (case findRun st (aei_runId input) of
        None \<Rightarrow> throw ''Run not found.'' st
      | Some r \<Rightarrow>
          (let st1 = push_event E (run_orgId r) (run_id r) (aei_type input) (aei_message input)
                       (aei_data input) (aei_now input) st
           in (Inr (hd (sn_events (st_snapshot st1))), recordChange st1)))"

record set_status_input =
  ssi_runId :: string
  ssi_status :: run_status
  ssi_message :: string
  ssi_actualCostCents :: "int option"
  ssi_data :: "json option"
  ssi_now :: "iso_date option"

definition with_status :: "set_status_input \<Rightarrow> iso_date \<Rightarrow> run \<Rightarrow> run" where
  "with_status input now r =
     r\<lparr>run_status := ssi_status input,
       run_actualCostCents := or_else (ssi_actualCostCents input) (run_actualCostCents r),
       run_updatedAt := now\<rparr>"

definition setRunStatus :: "env \<Rightarrow> set_status_input \<Rightarrow> store \<Rightarrow> (store, run) outcome" where
  "setRunStatus E input st =
     (case findRun st (ssi_runId input) of
        None \<Rightarrow> throw ''Run not found.'' st
      | Some r \<Rightarrow>
          (let (now, st1) = take_time E (ssi_now input) st;
               st2 = update_run (ssi_runId input) (with_status input now) st1;
               st3 = push_event E (run_orgId r) (run_id r) (eventTypeForStatus (ssi_status input))
                       (ssi_message input) (ssi_data input) (Some now) st2
           in (Inr (with_status input now r), recordChange st3)))"

text \<open>
  \<open>Object.assign(existing, approval)\<close> overwrites the fields the given object has; an absent
  optional field keeps its old value.
\<close>

definition merge_approval :: "approval_request \<Rightarrow> approval_request \<Rightarrow> approval_request" where
  "merge_approval new old =
     new\<lparr>ap_payloadMetadata := assignOptional (ap_payloadMetadata old) (ap_payloadMetadata new),
         ap_decidedByPrincipalId :=
           assignOptional (ap_decidedByPrincipalId old) (ap_decidedByPrincipalId new),
         ap_decidedAt := assignOptional (ap_decidedAt old) (ap_decidedAt new)\<rparr>"

definition upsertApprovalRequest :: "approval_request \<Rightarrow> store \<Rightarrow> (store, approval_request) outcome" where
  "upsertApprovalRequest approval st =
     (case findRun st (ap_runId approval) of
        None \<Rightarrow> throw ''Run not found.'' st
      | Some r \<Rightarrow>
          (if run_orgId r \<noteq> ap_orgId approval
           then throw ''Approval does not belong to the run organization.'' st
           else (Inr approval,
                 recordChange (modify (sn_approvals_update
                   (upsert_front (\<lambda>a. ap_id a = ap_id approval) (merge_approval approval) approval)) st))))"

record audit_input =
  aui_actorPrincipalId :: "string option"
  aui_runId :: "string option"
  aui_action :: string
  aui_resourceType :: string
  aui_resourceId :: "string option"
  aui_decision :: "decision option"
  aui_risk :: "risk_level option"
  aui_message :: string
  aui_data :: "json option"
  aui_now :: "iso_date option"

definition non_empty :: "string option \<Rightarrow> string option" where
  "non_empty s = (if truthy s then s else None)"

definition recordAuditEvent :: "env \<Rightarrow> audit_input \<Rightarrow> store \<Rightarrow> (store, audit_event) outcome" where
  "recordAuditEvent E input st =
     (let (now, st1) = take_time E (aui_now input) st;
          action = js_trim (aui_action input);
          resourceType = js_trim (aui_resourceType input);
          message = js_trim (aui_message input) in
      if action = [] then throw ''Audit event action is required.'' st1
      else if resourceType = [] then throw ''Audit event resource type is required.'' st1
      else if message = [] then throw ''Audit event message is required.'' st1
      else if truthy (aui_actorPrincipalId input)
              \<and> findPrincipal st1 (the (aui_actorPrincipalId input)) = None
      then throw ''Principal not found.'' st1
      else if truthy (aui_runId input) \<and> findRun st1 (the (aui_runId input)) = None
      then throw ''Run not found.'' st1
      else
        let (ident, st2) = take_id E ''audit'' st1;
            event = \<lparr> au_id = ident, au_orgId = org_of st2,
              au_actorPrincipalId = aui_actorPrincipalId input, au_runId = aui_runId input,
              au_action = action, au_resourceType = resourceType,
              au_resourceId = non_empty (map_option js_trim (aui_resourceId input)),
              au_decision = aui_decision input, au_risk = aui_risk input,
              au_message = redactSecrets message, au_data = redactedRecord (aui_data input),
              au_createdAt = now \<rparr>
        in (Inr event, recordChange (modify (sn_auditEvents_update (\<lambda>es. event # es)) st2)))"

section \<open>The outcome of a new run\<close>

text \<open>What a run becomes, as a function of the policy decision alone.\<close>

definition status_after :: "create_run_request \<Rightarrow> policy_decision option \<Rightarrow> run_status" where
  "status_after input d =
     (case d of
        None \<Rightarrow> Run_queued
      | Some d \<Rightarrow>
          if pd_decision d = Deny then Run_failed
          else if pd_requiresApproval d then
            (if crr_deferApproval input \<and> crr_advanceMode input = Some Worker_mode
             then Run_queued else Run_awaiting_approval)
          else if crr_advanceMode input = Some Worker_mode then Run_queued else Run_completed)"

definition event_after :: "policy_decision option \<Rightarrow> run_status \<Rightarrow> run_event_type" where
  "event_after d s =
     (case s of
        Run_failed \<Rightarrow> Ev_run_failed
      | Run_awaiting_approval \<Rightarrow> Ev_approval_requested
      | Run_completed \<Rightarrow> Ev_run_completed
      | _ \<Rightarrow> (if d = None then Ev_run_created else Ev_run_status_changed))"

definition settled :: "run_status \<Rightarrow> run \<Rightarrow> run" where
  "settled s r = r\<lparr>run_status := s,
     run_actualCostCents := (if s = Run_completed then max 1 (run_estimatedCostCents r - 1) else 0)\<rparr>"

definition approval_of_run :: "env \<Rightarrow> create_run_request \<Rightarrow> policy_decision \<Rightarrow> run \<Rightarrow> approval_request \<Rightarrow> bool" where
  "approval_of_run E input d r a \<longleftrightarrow>
     ap_status a = Approval_pending \<and> ap_runId a = run_id r \<and> ap_orgId a = run_orgId r
   \<and> ap_requestedByPrincipalId a = run_requesterPrincipalId r \<and> ap_risk a = pd_risk d
   \<and> ap_decidedByPrincipalId a = None
   \<and> hashPayload E (approvalPayloadFor input r) = Inr (ap_payloadHash a)
   \<and> date_plus (ap_createdAt a) approval_ttl_ms = Inr (ap_expiresAt a)"

lemma advance_inline_iff:
  "or_else (crr_advanceMode input) Inline_stub = Inline_stub \<longleftrightarrow> crr_advanceMode input \<noteq> Some Worker_mode"
  "or_else (crr_advanceMode input) Inline_stub = Worker_mode \<longleftrightarrow> crr_advanceMode input = Some Worker_mode"
  by (cases "crr_advanceMode input"; cases "the (crr_advanceMode input)"; simp add: or_else_def)+

lemma event_for_fields [simp]:
  "ev_runId (event_for E o' rid t m d now st) = rid" "ev_type (event_for E o' rid t m d now st) = t"
  "ev_orgId (event_for E o' rid t m d now st) = o'"
  by (simp_all add: event_for_def createRunEvent_def Let_def split: prod.splits)

lemma snapshot_set_front_run [simp]:
  "sn_runs (st_snapshot st) = r # rs \<Longrightarrow>
     st_snapshot (set_front_run f st) = (st_snapshot st)\<lparr>sn_runs := f r # rs\<rparr>"
  by (simp add: set_front_run_def)

lemma settled_other: "s \<noteq> Run_completed \<Longrightarrow> run_actualCostCents r = 0 \<Longrightarrow> settled s r = r\<lparr>run_status := s\<rparr>"
  by (cases r) (simp add: settled_def)

lemma settled_queued: "run_status r = Run_queued \<Longrightarrow> run_actualCostCents r = 0 \<Longrightarrow> settled Run_queued r = r"
  by (cases r) (simp add: settled_def)

lemma ex_event:
  "\<exists>ev. s\<lparr>sn_runs := x, sn_events := event_for E o' rid t m dt u st' # z\<rparr>
        = s\<lparr>sn_runs := x, sn_events := ev # z\<rparr> \<and> ev_runId ev = rid \<and> ev_type ev = t"
  by (rule exI [of _ "event_for E o' rid t m dt u st'"]) simp

lemma approvals_Cons: "sn_approvals_update ((#) a) s = s\<lparr>sn_approvals := a # sn_approvals s\<rparr>"
  by simp

lemma push_approval_Inr:
  assumes "fst (push_approval E input r c (pd_risk d) st) = Inr a" "sn_runs (st_snapshot st) = r # rs"
    and "run_orgId r = org_of st"
  shows "approval_of_run E input d r a
    \<and> (\<exists>ev. st_snapshot (snd (push_approval E input r c (pd_risk d) st)) = (st_snapshot st)
        \<lparr>sn_runs := r\<lparr>run_status := Run_awaiting_approval\<rparr> # rs,
         sn_approvals := a # sn_approvals (st_snapshot st),
         sn_events := ev # sn_events (st_snapshot st)\<rparr>
       \<and> ev_runId ev = run_id r \<and> ev_type ev = Ev_approval_requested)"
proof -
  let ?ca = "createApprovalRequest E (st_draws st) (org_of st) (run_id r) (run_requesterPrincipalId r)
             (capability_str c) (approvalPayloadFor input r) (pd_risk d)"
  have a: "fst ?ca = Inr a"
    using assms(1) by (auto simp: push_approval_def Let_def split: prod.splits sum.splits)
  then obtain n where ca: "?ca = (Inr a, n)" by (cases ?ca) auto
  have e: "\<exists>ev. s\<lparr>sn_runs := x, sn_approvals := y, sn_events := event_for E o' (run_id r)
        Ev_approval_requested m dt t st' # z\<rparr> = s\<lparr>sn_runs := x, sn_approvals := y, sn_events := ev # z\<rparr>
      \<and> ev_runId ev = run_id r \<and> ev_type ev = Ev_approval_requested" for s x y z o' m dt t st'
    by (intro exI conjI, rule refl) simp_all
  show ?thesis
    using createApprovalRequest_Inr [OF a] assms(2,3)
    by (simp add: push_approval_def ca Let_def approval_of_run_def approvals_Cons e)
qed

lemma apply_decision_spec:
  assumes ok: "fst (apply_decision E input r c d st) = Inr ()"
    and r: "sn_runs (st_snapshot st) = r # rs" "run_status r = Run_queued"
      "run_actualCostCents r = 0" "run_orgId r = org_of st"
  shows "\<exists>ev as. st_snapshot (snd (apply_decision E input r c d st)) = (st_snapshot st)
        \<lparr>sn_runs := settled (status_after input (Some d)) r # rs, sn_approvals := as,
         sn_events := ev # sn_events (st_snapshot st)\<rparr>
    \<and> ev_runId ev = run_id r \<and> ev_type ev = event_after (Some d) (status_after input (Some d))
    \<and> (if status_after input (Some d) = Run_awaiting_approval
       then \<exists>a. as = a # sn_approvals (st_snapshot st) \<and> approval_of_run E input d r a
       else as = sn_approvals (st_snapshot st))"
proof (cases "status_after input (Some d) = Run_awaiting_approval")
  case True
  then have p: "apply_decision E input r c d st =
      (case push_approval E input r c (pd_risk d) st of
              (Inl e, st') \<Rightarrow> (Inl e, st') | (Inr _, st') \<Rightarrow> (Inr (), st'))"
    by (auto simp: status_after_def apply_decision_def Let_def advance_inline_iff split: if_splits)
  then obtain a where a: "fst (push_approval E input r c (pd_risk d) st) = Inr a"
    using ok by (auto split: prod.splits sum.splits)
  have st: "snd (apply_decision E input r c d st) = snd (push_approval E input r c (pd_risk d) st)"
    using a unfolding p by (auto split: prod.splits sum.splits)
  from push_approval_Inr [OF a r(1,4)] obtain ev where
    "approval_of_run E input d r a" "ev_runId ev = run_id r" "ev_type ev = Ev_approval_requested"
    "st_snapshot (snd (push_approval E input r c (pd_risk d) st)) = (st_snapshot st)
        \<lparr>sn_runs := r\<lparr>run_status := Run_awaiting_approval\<rparr> # rs,
         sn_approvals := a # sn_approvals (st_snapshot st),
         sn_events := ev # sn_events (st_snapshot st)\<rparr>"
    by blast
  then show ?thesis
    unfolding st True using settled_other [of Run_awaiting_approval r] r(3)
    by (intro exI [of _ ev] exI [of _ "a # sn_approvals (st_snapshot st)"]) (simp add: event_after_def)
next
  case False
  have w0: "\<exists>ev. s\<lparr>sn_events := event_for E o' rid t m dt u st' # z\<rparr>
        = s\<lparr>sn_runs := x, sn_events := ev # z\<rparr> \<and> ev_runId ev = rid \<and> ev_type ev = t"
    if "sn_runs s = x" for s :: bek_snapshot and x z o' rid t m dt u st'
    using that by (intro exI [of _ "event_for E o' rid t m dt u st'"]) simp
  consider "pd_decision d = Deny" | "pd_decision d \<noteq> Deny" "pd_requiresApproval d"
    | "pd_decision d \<noteq> Deny" "\<not> pd_requiresApproval d" by blast
  then show ?thesis
  proof cases
    case 1
    then show ?thesis
      using r settled_other [of Run_failed r]
      by (simp add: apply_decision_def Let_def status_after_def event_after_def ex_event)
  next
    case 2
    with False have "crr_deferApproval input \<and> crr_advanceMode input = Some Worker_mode"
      by (auto simp: status_after_def split: if_splits)
    with 2 show ?thesis
      using r settled_queued [OF r(2,3)]
      by (simp add: apply_decision_def Let_def status_after_def event_after_def advance_inline_iff w0)
  next
    case 3
    show ?thesis
    proof (cases "crr_advanceMode input = Some Worker_mode")
      case True
      with 3 show ?thesis
        using r settled_queued [OF r(2,3)]
        by (simp add: apply_decision_def Let_def status_after_def event_after_def advance_inline_iff w0)
    next
      case False
      moreover have "complete_stub r = settled Run_completed r"
        by (cases r) (simp add: complete_stub_def settled_def)
      ultimately show ?thesis
        using 3 r
        by (simp add: apply_decision_def Let_def status_after_def event_after_def advance_inline_iff ex_event)
    qed
  qed
qed

text \<open>The run as it is pushed, before any decision.\<close>

definition new_run :: "env \<Rightarrow> create_run_request \<Rightarrow> store \<Rightarrow> model_policy \<Rightarrow> runtime_profile \<Rightarrow> run" where
  "new_run E input st modelPolicy runtimeProfile =
     fst (makeRun E (st_draws st) (run_input st input modelPolicy runtimeProfile) None)"

lemma new_run_fields [simp]:
  "run_status (new_run E input st mp rp) = Run_queued" "run_actualCostCents (new_run E input st mp rp) = 0"
  "run_orgId (new_run E input st mp rp) = org_of st"
  "run_prompt (new_run E input st mp rp) = redactSecrets (crr_prompt input)"
  "run_placeScopeId (new_run E input st mp rp) = crr_placeScopeId input"
  "run_capability (new_run E input st mp rp) = crr_capability input"
  by (simp_all add: new_run_def makeRun_simps run_input_def)

lemma push_run_spec:
  "\<exists>ev. fst (push_run E (run_input st input mp rp) st) = new_run E input st mp rp
     \<and> st_snapshot (snd (push_run E (run_input st input mp rp) st)) = (st_snapshot st)
         \<lparr>sn_runs := new_run E input st mp rp # sn_runs (st_snapshot st),
          sn_events := ev # sn_events (st_snapshot st)\<rparr>
     \<and> ev_runId ev = run_id (new_run E input st mp rp) \<and> ev_type ev = Ev_run_created"
  by (simp add: push_run_def Let_def split_def new_run_def ex_event)

lemma push_policy_event_spec:
  "\<exists>ev. st_snapshot (push_policy_event E r d st) = (st_snapshot st)\<lparr>sn_events := ev # sn_events (st_snapshot st)\<rparr>
     \<and> ev_runId ev = run_id r \<and> ev_type ev = Ev_policy_evaluated"
  unfolding push_policy_event_def snapshot_push_event by (rule exI, rule conjI, rule refl) simp

definition decision_for :: "create_run_request \<Rightarrow> bek_snapshot \<Rightarrow> place_scope \<Rightarrow> policy_decision option" where
  "decision_for input sn place =
     map_option (\<lambda>c. evaluatePolicy (bundlesForPlace (sn_accessBundles sn) place) (policyRequest input c))
       (crr_capability input)"

lemma createRun_spec:
  assumes "fst (createRun E input st) = Inr r"
  obtains place mp rp evs as where
    "List.find (\<lambda>p. pl_id p = crr_placeScopeId input) (sn_places (st_snapshot st)) = Some place"
    "resolveRunProfiles st (crr_capability input) = Inr (mp, rp)"
    "r = settled (status_after input (decision_for input (st_snapshot st) place))
           (new_run E input st mp rp)\<lparr>run_updatedAt := run_updatedAt r\<rparr>"
    "st_snapshot (snd (createRun E input st)) = (st_snapshot st)
       \<lparr>sn_runs := r # sn_runs (st_snapshot st), sn_approvals := as,
        sn_events := evs @ sn_events (st_snapshot st)\<rparr>"
    "\<forall>e \<in> set evs. ev_runId e = run_id r" "evs \<noteq> []"
    "ev_type (hd evs) = event_after (decision_for input (st_snapshot st) place) (run_status r)"
    "if run_status r = Run_awaiting_approval
     then \<exists>a d. as = a # sn_approvals (st_snapshot st)
            \<and> decision_for input (st_snapshot st) place = Some d
            \<and> approval_of_run E input d (new_run E input st mp rp) a
     else as = sn_approvals (st_snapshot st)"
proof -
  obtain mp rp place where
    rp: "resolveRunProfiles st (crr_capability input) = Inr (mp, rp)"
    and pl: "List.find (\<lambda>p. pl_id p = crr_placeScopeId input) (sn_places (st_snapshot st)) = Some place"
    using assms by (auto simp: createRun_def split: sum.splits option.splits prod.splits)
  let ?n = "new_run E input st mp rp"
  let ?st1 = "snd (push_run E (run_input st input mp rp) st)"
  let ?s = "status_after input (decision_for input (st_snapshot st) place)"
  obtain ev1 where n: "fst (push_run E (run_input st input mp rp) st) = ?n"
    and s1: "st_snapshot ?st1 = (st_snapshot st)\<lparr>sn_runs := ?n # sn_runs (st_snapshot st),
          sn_events := ev1 # sn_events (st_snapshot st)\<rparr>"
    and ev1: "ev_runId ev1 = run_id ?n" "ev_type ev1 = Ev_run_created"
    using push_run_spec by blast
  define res where "res = (case crr_capability input of
                    None \<Rightarrow> (Inr (), ?st1)
                  | Some c \<Rightarrow> apply_decision E input ?n c
                      (evaluatePolicy (bundlesForPlace (sn_accessBundles (st_snapshot st)) place)
                        (policyRequest input c))
                      (push_policy_event E ?n
                        (evaluatePolicy (bundlesForPlace (sn_accessBundles (st_snapshot st)) place)
                          (policyRequest input c)) ?st1))"
  have cr: "createRun E input st = (case fst res of Inl e \<Rightarrow> (Inl e, snd res)
      | Inr _ \<Rightarrow> (let st3 = snd (take_time E None (snd res));
                     st4 = set_front_run (run_updatedAt_update (\<lambda>_. fst (take_time E None (snd res)))) st3
                 in (Inr (hd (sn_runs (st_snapshot st4))), recordChange st4)))"
    using n s1 by (simp add: createRun_def rp pl Let_def split_def res_def cong: option.case_cong sum.case_cong)
  have ok: "fst res = Inr ()"
    using assms unfolding cr by (auto split: sum.splits)
  have "\<exists>evs as. st_snapshot (snd res) = (st_snapshot st)
       \<lparr>sn_runs := settled ?s ?n # sn_runs (st_snapshot st), sn_approvals := as,
        sn_events := evs @ sn_events (st_snapshot st)\<rparr>
     \<and> (\<forall>e \<in> set evs. ev_runId e = run_id ?n) \<and> evs \<noteq> []
     \<and> ev_type (hd evs) = event_after (decision_for input (st_snapshot st) place) ?s
     \<and> (if ?s = Run_awaiting_approval
        then \<exists>a d. as = a # sn_approvals (st_snapshot st)
            \<and> decision_for input (st_snapshot st) place = Some d \<and> approval_of_run E input d ?n a
        else as = sn_approvals (st_snapshot st))"
  proof (cases "crr_capability input")
    case None
    then show ?thesis
      using s1 ev1 settled_queued [of ?n]
      by (intro exI [of _ "[ev1]"] exI [of _ "sn_approvals (st_snapshot st)"])
         (simp add: res_def decision_for_def status_after_def event_after_def)
  next
    case (Some c)
    define d where "d = evaluatePolicy (bundlesForPlace (sn_accessBundles (st_snapshot st)) place)
                        (policyRequest input c)"
    have df: "decision_for input (st_snapshot st) place = Some d"
      using Some by (simp add: decision_for_def d_def)
    obtain ev2 where s2: "st_snapshot (push_policy_event E ?n d ?st1) =
        (st_snapshot ?st1)\<lparr>sn_events := ev2 # sn_events (st_snapshot ?st1)\<rparr>"
      and ev2: "ev_runId ev2 = run_id ?n"
      using push_policy_event_spec by blast
    have rs: "res = apply_decision E input ?n c d (push_policy_event E ?n d ?st1)"
      using Some by (simp add: res_def d_def)
    obtain ev3 as where s3: "st_snapshot (snd res) = (st_snapshot (push_policy_event E ?n d ?st1))
        \<lparr>sn_runs := settled (status_after input (Some d)) ?n # sn_runs (st_snapshot st), sn_approvals := as,
         sn_events := ev3 # sn_events (st_snapshot (push_policy_event E ?n d ?st1))\<rparr>"
      and ev3: "ev_runId ev3 = run_id ?n" "ev_type ev3 = event_after (Some d) (status_after input (Some d))"
      and as: "if status_after input (Some d) = Run_awaiting_approval
       then \<exists>a. as = a # sn_approvals (st_snapshot (push_policy_event E ?n d ?st1)) \<and> approval_of_run E input d ?n a
       else as = sn_approvals (st_snapshot (push_policy_event E ?n d ?st1))"
      using apply_decision_spec [of E input ?n c d "push_policy_event E ?n d ?st1" "sn_runs (st_snapshot st)"]
        ok rs s1 s2 by auto
    show ?thesis
      using s3 s2 s1 ev1 ev2 ev3 as df
      by (intro exI [of _ "[ev3, ev2, ev1]"] exI [of _ as]) (simp split: if_splits)
  qed
  then obtain evs as where sr: "st_snapshot (snd res) = (st_snapshot st)
       \<lparr>sn_runs := settled ?s ?n # sn_runs (st_snapshot st), sn_approvals := as,
        sn_events := evs @ sn_events (st_snapshot st)\<rparr>"
    and rest: "\<forall>e \<in> set evs. ev_runId e = run_id ?n" "evs \<noteq> []"
      "ev_type (hd evs) = event_after (decision_for input (st_snapshot st) place) ?s"
      "if ?s = Run_awaiting_approval
        then \<exists>a d. as = a # sn_approvals (st_snapshot st)
            \<and> decision_for input (st_snapshot st) place = Some d \<and> approval_of_run E input d ?n a
        else as = sn_approvals (st_snapshot st)"
    by blast
  let ?r = "(settled ?s ?n)\<lparr>run_updatedAt := fst (take_time E None (snd res))\<rparr>"
  have fin: "st_snapshot (snd (createRun E input st)) = (st_snapshot st)
       \<lparr>sn_runs := ?r # sn_runs (st_snapshot st), sn_approvals := as,
        sn_events := evs @ sn_events (st_snapshot st)\<rparr>" and r: "r = ?r"
    using assms ok sr unfolding cr by (simp_all add: Let_def)
  have rid: "run_id r = run_id ?n" and rst: "run_status r = ?s"
    unfolding r by (simp_all add: settled_def)
  show thesis
  proof (rule that [OF pl rp])
    show "r = settled ?s ?n\<lparr>run_updatedAt := run_updatedAt r\<rparr>"
      by (subst (1 2) r) simp
    show "st_snapshot (snd (createRun E input st)) = (st_snapshot st)
       \<lparr>sn_runs := r # sn_runs (st_snapshot st), sn_approvals := as,
        sn_events := evs @ sn_events (st_snapshot st)\<rparr>"
      unfolding fin r ..
    show "\<forall>e \<in> set evs. ev_runId e = run_id r" "evs \<noteq> []"
      "ev_type (hd evs) = event_after (decision_for input (st_snapshot st) place) (run_status r)"
      "if run_status r = Run_awaiting_approval
       then \<exists>a d. as = a # sn_approvals (st_snapshot st)
            \<and> decision_for input (st_snapshot st) place = Some d \<and> approval_of_run E input d ?n a
       else as = sn_approvals (st_snapshot st)"
      using rest unfolding rid rst by blast+
  qed
qed

section \<open>Decisions\<close>

definition decidable :: "iso_date \<Rightarrow> approval_decision_input \<Rightarrow> bek_snapshot \<Rightarrow> approval_request \<Rightarrow> principal \<Rightarrow> bool" where
  "decidable now input sn a actor \<longleftrightarrow>
     ap_status a = Approval_pending \<and> ap_payloadHash a = adi_payloadHash input
   \<and> \<not> date_le (ap_expiresAt a) now
   \<and> List.find (\<lambda>p. pr_id p = adi_principalId input \<and> pr_orgId p = ap_orgId a) (sn_principals sn) = Some actor
   \<and> pr_kind actor = Human
   \<and> \<not> (pr_id actor = ap_requestedByPrincipalId a \<and> needs_second_person (ap_risk a))"

abbreviation approval_at :: "store \<Rightarrow> string \<Rightarrow> approval_request option" where
  "approval_at st i \<equiv> List.find (\<lambda>a. ap_id a = i) (sn_approvals (st_snapshot st))"

abbreviation decision_time :: "env \<Rightarrow> approval_decision_input \<Rightarrow> store \<Rightarrow> iso_date" where
  "decision_time E input st \<equiv> fst (take_time E (adi_now input) st)"

definition decided_approval :: "bool \<Rightarrow> iso_date \<Rightarrow> string \<Rightarrow> approval_request \<Rightarrow> approval_request" where
  "decided_approval approved now actor a =
     a\<lparr>ap_status := decision_status approved, ap_decidedByPrincipalId := Some actor,
       ap_decidedAt := Some now\<rparr>"

lemma decideApproval_cases:
  "isl (fst (decideApproval E i approved input st)) \<longleftrightarrow>
     \<not> (\<exists>a actor. approval_at st i = Some a
           \<and> decidable (decision_time E input st) input (st_snapshot st) a actor)"
  by (auto simp: decideApproval_def decidable_def Let_def split_def split: option.splits if_splits)

lemma snapshot_update_approval [simp]:
  "st_snapshot (update_approval i f st)
     = (st_snapshot st)\<lparr>sn_approvals := update_first (\<lambda>a. ap_id a = i) f (sn_approvals (st_snapshot st))\<rparr>"
  by (simp add: update_approval_def)

lemma snapshot_update_run [simp]:
  "st_snapshot (update_run i f st)
     = (st_snapshot st)\<lparr>sn_runs := update_first (\<lambda>r. run_id r = i) f (sn_runs (st_snapshot st))\<rparr>"
  by (simp add: update_run_def)

lemma ex_event3:
  "\<exists>ev. s\<lparr>sn_runs := x, sn_approvals := y, sn_events := event_for E o' rid t m dt u st' # z\<rparr>
        = s\<lparr>sn_runs := x, sn_approvals := y, sn_events := ev # z\<rparr> \<and> ev_runId ev = rid \<and> ev_type ev = t"
  by (rule exI [of _ "event_for E o' rid t m dt u st'"]) simp

lemma decideApproval_effect:
  assumes a: "approval_at st i = Some a"
    and d: "decidable (decision_time E input st) input (st_snapshot st) a actor"
  shows "\<exists>ev. decideApproval E i approved input st =
      (Inr (decided_approval approved (decision_time E input st) (pr_id actor) a),
       snd (decideApproval E i approved input st))
    \<and> st_snapshot (snd (decideApproval E i approved input st)) = (st_snapshot st)
        \<lparr>sn_approvals := update_first (\<lambda>a. ap_id a = i)
            (decided_approval approved (decision_time E input st) (pr_id actor)) (sn_approvals (st_snapshot st)),
         sn_runs := update_first (\<lambda>r. run_id r = ap_runId a)
            (decided_run approved (adi_advanceMode input = Some Worker_mode) (decision_time E input st))
            (sn_runs (st_snapshot st)),
         sn_events := ev # sn_events (st_snapshot st)\<rparr>
    \<and> ev_runId ev = ap_runId a \<and> ev_type ev = Ev_approval_decided"
proof -
  let ?now = "decision_time E input st"
  let ?st1 = "snd (take_time E (adi_now input) st)"
  let ?st2 = "update_approval i (decided_approval approved ?now (pr_id actor)) ?st1"
  let ?st3 = "update_run (ap_runId a) (decided_run approved (adi_advanceMode input = Some Worker_mode) ?now) ?st2"
  have upd: "(\<lambda>a. a\<lparr>ap_status := decision_status approved, ap_decidedByPrincipalId := Some (pr_id actor),
      ap_decidedAt := Some ?now\<rparr>) = decided_approval approved ?now (pr_id actor)"
    by (rule ext) (simp add: decided_approval_def)
  have e: "decideApproval E i approved input st =
      (Inr (decided_approval approved ?now (pr_id actor) a),
       recordChange (push_event E (org_of ?st3) (ap_runId a) Ev_approval_decided
                          (''Approval '' @ approval_decided_word approved @ ''.'')
                          (Some (JObj [(''approvalId'', JStr i),
                                       (''decidedByPrincipalId'', JStr (pr_id actor))])) None ?st3))"
    using a d unfolding decideApproval_def decidable_def by (auto simp: Let_def split_def upd)
  show ?thesis
    unfolding e snd_conv snapshot_recordChange snapshot_push_event
    by (intro exI [of _ "event_for E (org_of ?st3) (ap_runId a) Ev_approval_decided
          (''Approval '' @ approval_decided_word approved @ ''.'')
          (Some (JObj [(''approvalId'', JStr i), (''decidedByPrincipalId'', JStr (pr_id actor))])) None ?st3"]
        conjI refl event_for_fields) simp
qed

lemma decideApproval_refused:
  assumes "fst (decideApproval E i approved input st) = Inl e" "e \<noteq> Error ''Approval has expired.''"
  shows "st_snapshot (snd (decideApproval E i approved input st)) = st_snapshot st"
proof -
  define Q where "Q r \<longleftrightarrow> (\<forall>e. fst r = Inl e \<longrightarrow> e \<noteq> Error ''Approval has expired.''
      \<longrightarrow> st_snapshot (snd r) = st_snapshot st)" for r :: "(store, approval_request) outcome"
  have q: "Q (throw m st')" if "st_snapshot st' = st_snapshot st" for m st'
    using that by (simp add: Q_def)
  have x: "Q (throw ''Approval has expired.'' st')" "Q (Inr v, st')" for st' v
    by (simp_all add: Q_def)
  have "Q (decideApproval E i approved input st)"
    unfolding decideApproval_def Let_def split_def
    by (simp add: q x split: option.split)
  with assms show ?thesis by (simp add: Q_def)
qed

lemma apply_decision_succeeds:
  "status_after input (Some d) \<noteq> Run_awaiting_approval \<Longrightarrow> fst (apply_decision E input r c d st) = Inr ()"
  by (auto simp: apply_decision_def Let_def status_after_def advance_inline_iff split: if_splits)

lemma createRun_succeeds:
  assumes rp: "resolveRunProfiles st (crr_capability input) = Inr (mp, rp)"
    and pl: "List.find (\<lambda>p. pl_id p = crr_placeScopeId input) (sn_places (st_snapshot st)) = Some place"
    and aw: "status_after input (decision_for input (st_snapshot st) place) \<noteq> Run_awaiting_approval"
  shows "\<exists>r. fst (createRun E input st) = Inr r"
proof -
  let ?st1 = "snd (push_run E (run_input st input mp rp) st)"
  have b: "sn_accessBundles (st_snapshot ?st1) = sn_accessBundles (st_snapshot st)"
    using push_run_spec [of E st input mp rp] by auto
  show ?thesis
  proof (cases "crr_capability input")
    case None
    then show ?thesis using rp pl by (simp add: createRun_def Let_def split_def)
  next
    case (Some c)
    let ?d = "evaluatePolicy (bundlesForPlace (sn_accessBundles (st_snapshot st)) place) (policyRequest input c)"
    have "fst (apply_decision E input r c ?d st') = Inr ()" for r st'
      using aw Some by (intro apply_decision_succeeds) (simp add: decision_for_def)
    then show ?thesis
      using rp pl Some by (simp add: createRun_def Let_def split_def b)
  qed
qed

definition sane_clock :: "env \<Rightarrow> bool" where
  "sane_clock E \<longleftrightarrow> (\<forall>n. \<bar>env_clock E n\<bar> \<le> 4102444800000)"

lemma push_approval_succeeds:
  assumes "sane_clock E" "hashPayload E (approvalPayloadFor input r) = Inr h"
  shows "\<exists>a. fst (push_approval E input r c k st) = Inr a"
proof -
  have "\<bar>env_clock E (st_draws st)\<bar> \<le> 4102444800000"
    using assms(1) by (simp add: sane_clock_def)
  then have "\<bar>env_clock E (st_draws st) + approval_ttl_ms\<bar> \<le> max_date_ms"
    unfolding approval_ttl_ms_def max_date_ms_def by linarith
  then show ?thesis
    using assms(2)
    by (simp add: push_approval_def createApprovalRequest_def time_or_now_def date_plus_def
        createId_def Let_def)
qed

lemma createRun_waits:
  assumes rp: "resolveRunProfiles st (crr_capability input) = Inr (mp, rp)"
    and pl: "List.find (\<lambda>p. pl_id p = crr_placeScopeId input) (sn_places (st_snapshot st)) = Some place"
    and aw: "status_after input (decision_for input (st_snapshot st) place) = Run_awaiting_approval"
    and E: "sane_clock E" and h: "\<And>r. \<exists>h. hashPayload E (approvalPayloadFor input r) = Inr h"
  shows "\<exists>r. fst (createRun E input st) = Inr r"
proof -
  let ?st1 = "snd (push_run E (run_input st input mp rp) st)"
  have b: "sn_accessBundles (st_snapshot ?st1) = sn_accessBundles (st_snapshot st)"
    using push_run_spec [of E st input mp rp] by auto
  obtain c where c: "crr_capability input = Some c"
    using aw by (cases "crr_capability input") (auto simp: decision_for_def status_after_def)
  let ?d = "evaluatePolicy (bundlesForPlace (sn_accessBundles (st_snapshot st)) place) (policyRequest input c)"
  have d: "pd_decision ?d \<noteq> Deny" "pd_requiresApproval ?d"
    "\<not> (crr_deferApproval input \<and> crr_advanceMode input = Some Worker_mode)"
    using aw c by (auto simp: status_after_def decision_for_def split: if_splits)
  have "fst (apply_decision E input r c ?d st') = Inr ()" for r st'
  proof -
    obtain h where "hashPayload E (approvalPayloadFor input r) = Inr h" using h by blast
    from push_approval_succeeds [OF E this] obtain a where
      "fst (push_approval E input r c (pd_risk ?d) st') = Inr a" by blast
    with d show ?thesis
      by (auto simp: apply_decision_def Let_def advance_inline_iff split: prod.split sum.split)
  qed
  then show ?thesis
    using rp pl c by (simp add: createRun_def Let_def split_def b)
qed

lemma createRun_status:
  assumes "fst (createRun E input st) = Inr r"
    and "List.find (\<lambda>p. pl_id p = crr_placeScopeId input) (sn_places (st_snapshot st)) = Some place"
  shows "run_status r = status_after input (decision_for input (st_snapshot st) place)"
proof -
  from assms(1) obtain place' mp rp where
    pl: "List.find (\<lambda>p. pl_id p = crr_placeScopeId input) (sn_places (st_snapshot st)) = Some place'"
    and rr: "r = settled (status_after input (decision_for input (st_snapshot st) place'))
           (new_run E input st mp rp)\<lparr>run_updatedAt := run_updatedAt r\<rparr>"
    by (rule createRun_spec) blast
  show ?thesis
    using arg_cong [OF rr, of run_status] pl assms(2) by (simp add: settled_def)
qed

text \<open>A request in the demo workspace: read the repository, or open a pull request.\<close>

definition demo_request :: "capability_kind \<Rightarrow> create_run_request" where
  "demo_request c = \<lparr> crr_prompt = ''work on the repo'', crr_placeScopeId = ''place_checkout'',
      crr_requesterPrincipalId = None, crr_trigger = None, crr_capability = Some c,
      crr_resource = Some ''github:redohq/checkout'', crr_advanceMode = None,
      crr_approvalPayload = Payload_value JUndef, crr_deferApproval = False \<rparr>"

lemma demo_request_simps [simp]:
  "crr_placeScopeId (demo_request c) = ''place_checkout''" "crr_capability (demo_request c) = Some c"
  "crr_deferApproval (demo_request c) = False" "crr_advanceMode (demo_request c) = None"
  "crr_approvalPayload (demo_request c) = Payload_value JUndef"
  by (simp_all add: demo_request_def)

lemma demo_place:
  "List.find (\<lambda>p. pl_id p = ''place_checkout'') (sn_places (st_snapshot demo_store)) = Some place_checkout"
  by (simp add: demo_snapshot seed_defs)

lemma demo_status:
  "status_after (demo_request Github_read) (decision_for (demo_request Github_read) (st_snapshot demo_store) place_checkout)
     = Run_completed"
  "status_after (demo_request Github_pr) (decision_for (demo_request Github_pr) (st_snapshot demo_store) place_checkout)
     = Run_awaiting_approval"
  by code_simp+

lemma demo_profiles:
  "resolveRunProfiles demo_store (Some Github_read) = Inr (seed_model_policy, runtime_code)"
  "resolveRunProfiles demo_store (Some Github_pr) = Inr (seed_model_policy, runtime_code)"
  by code_simp+

lemma demo_run_read: "\<exists>r. fst (createRun demo_env (demo_request Github_read) demo_store) = Inr r"
  by (rule createRun_succeeds [where place = place_checkout and mp = seed_model_policy and rp = runtime_code])
     (simp_all add: demo_profiles demo_place demo_status)

definition frozen_env :: env where
  "frozen_env = demo_env\<lparr>env_clock := \<lambda>_. 1000\<rparr>"

lemma demo_run_pr: "\<exists>r. fst (createRun frozen_env (demo_request Github_pr) demo_store) = Inr r"
  by (rule createRun_waits [where place = place_checkout and mp = seed_model_policy and rp = runtime_code])
     (simp_all add: demo_profiles demo_place demo_status sane_clock_def frozen_env_def
        approvalPayloadFor_def hashPayload_def)

section \<open>Contracts\<close>

interpretation append_event: store_operation "appendRunEvent E input" for E input
  by (rule store_operationI)
    (simp add: appendRunEvent_def throw_def lawful_simps split: option.split sum.split)

interpretation set_status: store_operation "setRunStatus E input" for E input
  by (rule store_operationI)
    (simp add: setRunStatus_def update_run_def throw_def lawful_simps split: option.split sum.split)

interpretation upsert_approval: store_operation "upsertApprovalRequest a" for a
  by (rule store_operationI)
    (simp add: upsertApprovalRequest_def throw_def lawful_simps split: option.split sum.split)

interpretation audit: store_operation "recordAuditEvent E input" for E input
  by (rule store_operationI)
    (simp add: recordAuditEvent_def throw_def lawful_simps split: option.split sum.split)

interpretation approvals: keyed_rows ap_id merge_approval "\<lambda>a. a" ap_id
  by unfold_locales (simp_all add: merge_approval_def)

section \<open>Properties\<close>

text \<open>
  C6. The outcome of a new run. Its status, cost and last event are a function of the policy
  decision of its place and the advance mode: denied runs fail, runs that need approval wait for
  one (unless a worker prepares it), allowed runs complete as a stub or are queued for the
  worker. Exactly one run and its own events are added, an approval only when it waits; nothing
  else of the snapshot changes.
\<close>

theorem createRun_outcome:
  assumes "fst (createRun E input st) = Inr r"
  shows "\<exists>place evs as.
      List.find (\<lambda>p. pl_id p = crr_placeScopeId input) (sn_places (st_snapshot st)) = Some place
    \<and> run_status r = status_after input (decision_for input (st_snapshot st) place)
    \<and> run_actualCostCents r =
        (if run_status r = Run_completed then max 1 (run_estimatedCostCents r - 1) else 0)
    \<and> run_prompt r = redactSecrets (crr_prompt input)
    \<and> st_snapshot (snd (createRun E input st)) = (st_snapshot st)
       \<lparr>sn_runs := r # sn_runs (st_snapshot st), sn_approvals := as @ sn_approvals (st_snapshot st),
        sn_events := evs @ sn_events (st_snapshot st)\<rparr>
    \<and> (\<forall>e \<in> set evs. ev_runId e = run_id r)
    \<and> ev_type (hd evs) = event_after (decision_for input (st_snapshot st) place) (run_status r)
    \<and> (run_status r \<noteq> Run_awaiting_approval \<longrightarrow> as = [])"
proof -
  from assms obtain place mp rp evs as where s:
    "List.find (\<lambda>p. pl_id p = crr_placeScopeId input) (sn_places (st_snapshot st)) = Some place"
    "r = settled (status_after input (decision_for input (st_snapshot st) place))
           (new_run E input st mp rp)\<lparr>run_updatedAt := run_updatedAt r\<rparr>"
    "st_snapshot (snd (createRun E input st)) = (st_snapshot st)
       \<lparr>sn_runs := r # sn_runs (st_snapshot st), sn_approvals := as,
        sn_events := evs @ sn_events (st_snapshot st)\<rparr>"
    "\<forall>e \<in> set evs. ev_runId e = run_id r"
    "ev_type (hd evs) = event_after (decision_for input (st_snapshot st) place) (run_status r)"
    "if run_status r = Run_awaiting_approval
     then \<exists>a d. as = a # sn_approvals (st_snapshot st)
            \<and> decision_for input (st_snapshot st) place = Some d
            \<and> approval_of_run E input d (new_run E input st mp rp) a
     else as = sn_approvals (st_snapshot st)"
    by (rule createRun_spec) blast
  have f1: "run_status r = status_after input (decision_for input (st_snapshot st) place)"
    using arg_cong [OF s(2), of run_status] by (simp add: settled_def)
  have f2: "run_actualCostCents r =
        (if run_status r = Run_completed then max 1 (run_estimatedCostCents r - 1) else 0)"
    using arg_cong [OF s(2), of run_actualCostCents] arg_cong [OF s(2), of run_estimatedCostCents] f1
    by (simp add: settled_def)
  have f3: "run_prompt r = redactSecrets (crr_prompt input)"
    using arg_cong [OF s(2), of run_prompt] by (simp add: settled_def)
  have "\<exists>new. as = new @ sn_approvals (st_snapshot st) \<and> (run_status r \<noteq> Run_awaiting_approval \<longrightarrow> new = [])"
    using s(6) by (cases "run_status r = Run_awaiting_approval") auto
  then show ?thesis using s f1 f2 f3 by blast
qed

theorem createRun_outcome_witness:
  "\<exists>r. fst (createRun demo_env (demo_request Github_read) demo_store) = Inr r \<and> run_status r = Run_completed"
proof -
  obtain r where r: "fst (createRun demo_env (demo_request Github_read) demo_store) = Inr r"
    using demo_run_read by blast
  from createRun_outcome [OF r] have "run_status r = Run_completed"
    by (auto simp: demo_place demo_status)
  with r show ?thesis by blast
qed

text \<open>
  Nothing runs ungranted. A new run that names a capability is completed, or queued for a
  worker without an approval to prepare, only when an allow grant of a bundle attached to its
  place covers the capability and the requested resource without requiring approval, and no
  matching grant denies it.
\<close>

theorem runs_need_a_grant:
  assumes "fst (createRun E input st) = Inr r" "crr_capability input = Some c"
    and "run_status r = Run_completed \<or> (run_status r = Run_queued \<and> \<not> crr_deferApproval input)"
  shows "\<exists>place b g. pl_id place = crr_placeScopeId input \<and> place \<in> set (sn_places (st_snapshot st))
    \<and> b \<in> set (sn_accessBundles (st_snapshot st)) \<and> pl_id place \<in> set (bu_attachedPlaceIds b)
    \<and> g \<in> set (bu_grants b) \<and> gr_capability g = c \<and> resourceMatches (gr_resource g) (crr_resource input)
    \<and> gr_decision g = Allow \<and> \<not> gr_requiresApproval g
    \<and> (\<forall>g'. grant_applies (bundlesForPlace (sn_accessBundles (st_snapshot st)) place)
         (policyRequest input c) g' \<longrightarrow> gr_decision g' \<noteq> Deny)"
proof -
  from assms(1) obtain place mp rp where
    pl: "List.find (\<lambda>p. pl_id p = crr_placeScopeId input) (sn_places (st_snapshot st)) = Some place"
    and r: "r = settled (status_after input (decision_for input (st_snapshot st) place))
           (new_run E input st mp rp)\<lparr>run_updatedAt := run_updatedAt r\<rparr>"
    by (rule createRun_spec) blast
  let ?bs = "bundlesForPlace (sn_accessBundles (st_snapshot st)) place"
  let ?d = "evaluatePolicy ?bs (policyRequest input c)"
  have "run_status r = status_after input (Some ?d)"
    using arg_cong [OF r, of run_status] assms(2) by (simp add: settled_def decision_for_def)
  with assms(3) have nd: "pd_decision ?d \<noteq> Deny" and na: "\<not> pd_requiresApproval ?d"
    by (auto simp: status_after_def split: if_splits)
  have al: "pd_decision ?d = Allow"
    using gate.unapproved_is_allow [OF nd na] .
  show ?thesis
  proof (rule evaluatePolicy_permitted [OF nd])
    fix g
    assume g: "grant_applies ?bs (policyRequest input c) g" "pd_decision ?d = gr_decision g"
      "pd_requiresApproval ?d = (gr_requiresApproval g \<or> gr_decision g = Ask)"
      and all: "\<And>g'. grant_applies ?bs (policyRequest input c) g' \<Longrightarrow> gr_decision g' \<noteq> Deny
       \<and> specificityScore (gr_resource g') (rq_resource (policyRequest input c))
           \<le> specificityScore (gr_resource g) (rq_resource (policyRequest input c))"
    from g(1) obtain b where "b \<in> set (sn_accessBundles (st_snapshot st))"
      "pl_id place \<in> set (bu_attachedPlaceIds b)" "g \<in> set (bu_grants b)"
      "gr_capability g = c" "resourceMatches (gr_resource g) (crr_resource input)"
      by (auto simp: grant_applies_def bundlesForPlace_def policyRequest_def)
    moreover have "gr_decision g = Allow" "\<not> gr_requiresApproval g"
      using g al na by simp_all
    ultimately show ?thesis
      using find_SomeD [OF pl] all by blast
  qed
qed

theorem runs_need_a_grant_witness:
  "\<exists>b g. b \<in> set (sn_accessBundles (st_snapshot demo_store)) \<and> g \<in> set (bu_grants b)
     \<and> gr_capability g = Github_read \<and> gr_decision g = Allow"
proof -
  obtain r where r: "fst (createRun demo_env (demo_request Github_read) demo_store) = Inr r"
    using demo_run_read by blast
  have "run_status r = Run_completed"
    using createRun_status [OF r, of place_checkout] by (simp add: demo_place demo_status)
  from runs_need_a_grant [OF r _ disjI1 [OF this]] show ?thesis by auto
qed

text \<open>
  What an approval binds. A new run waits for approval exactly when the policy asks for it (and
  no worker prepares it); the approval then pending for it carries the hash of the payload, the
  requester and the risk of the grant, nobody has decided it, and it expires thirty minutes
  after it was made.
\<close>

theorem waiting_run_has_approval:
  assumes "fst (createRun E input st) = Inr r" "run_status r = Run_awaiting_approval"
  shows "\<exists>a payload. sn_approvals (st_snapshot (snd (createRun E input st))) = a # sn_approvals (st_snapshot st)
    \<and> ap_status a = Approval_pending \<and> ap_runId a = run_id r \<and> ap_orgId a = run_orgId r
    \<and> ap_requestedByPrincipalId a = run_requesterPrincipalId r \<and> ap_decidedByPrincipalId a = None
    \<and> hashPayload E payload = Inr (ap_payloadHash a)
    \<and> (\<forall>v. crr_approvalPayload input = Payload_value v \<and> v \<noteq> JNull \<and> v \<noteq> JUndef \<longrightarrow> payload = v)
    \<and> (\<exists>t. ap_createdAt a = Instant t \<and> ap_expiresAt a = Instant (t + 1800000))
    \<and> (\<exists>place g. place \<in> set (sn_places (st_snapshot st)) \<and> pl_id place = crr_placeScopeId input
         \<and> (\<exists>c. crr_capability input = Some c \<and>
            grant_applies (bundlesForPlace (sn_accessBundles (st_snapshot st)) place) (policyRequest input c) g)
         \<and> ap_risk a = gr_risk g)"
proof -
  from assms(1) obtain place mp rp evs as where s:
    "List.find (\<lambda>p. pl_id p = crr_placeScopeId input) (sn_places (st_snapshot st)) = Some place"
    "r = settled (status_after input (decision_for input (st_snapshot st) place))
           (new_run E input st mp rp)\<lparr>run_updatedAt := run_updatedAt r\<rparr>"
    "st_snapshot (snd (createRun E input st)) = (st_snapshot st)
       \<lparr>sn_runs := r # sn_runs (st_snapshot st), sn_approvals := as,
        sn_events := evs @ sn_events (st_snapshot st)\<rparr>"
    "if run_status r = Run_awaiting_approval
     then \<exists>a d. as = a # sn_approvals (st_snapshot st)
            \<and> decision_for input (st_snapshot st) place = Some d
            \<and> approval_of_run E input d (new_run E input st mp rp) a
     else as = sn_approvals (st_snapshot st)"
    by (rule createRun_spec) blast
  let ?n = "new_run E input st mp rp"
  obtain a d where a: "as = a # sn_approvals (st_snapshot st)" "approval_of_run E input d ?n a"
    and d: "decision_for input (st_snapshot st) place = Some d"
    using s(4) assms(2) by auto
  have ids: "run_id r = run_id ?n" "run_orgId r = run_orgId ?n"
    "run_requesterPrincipalId r = run_requesterPrincipalId ?n"
    using arg_cong [OF s(2), of run_id] arg_cong [OF s(2), of run_orgId]
      arg_cong [OF s(2), of run_requesterPrincipalId] by (simp_all add: settled_def)
  obtain c where c: "crr_capability input = Some c"
    and dc: "d = evaluatePolicy (bundlesForPlace (sn_accessBundles (st_snapshot st)) place) (policyRequest input c)"
    using d by (auto simp: decision_for_def)
  have "run_status r = status_after input (Some d)"
    using arg_cong [OF s(2), of run_status] d by (simp add: settled_def)
  with assms(2) have "pd_decision d \<noteq> Deny"
    by (auto simp: status_after_def split: if_splits)
  then obtain g where g: "grant_applies (bundlesForPlace (sn_accessBundles (st_snapshot st)) place) (policyRequest input c) g"
    "pd_risk d = gr_risk g"
    using gate.granted dc by blast
  have e: "\<exists>t. ap_createdAt a = Instant t \<and> ap_expiresAt a = Instant (t + 1800000)"
    using a(2) date_plus_Inr [of "ap_createdAt a" approval_ttl_ms "ap_expiresAt a"]
    by (auto simp: approval_of_run_def approval_ttl_ms_def)
  have v: "\<forall>v. crr_approvalPayload input = Payload_value v \<and> v \<noteq> JNull \<and> v \<noteq> JUndef
      \<longrightarrow> approvalPayloadFor input ?n = v"
    by (auto simp: approvalPayloadFor_def)
  show ?thesis
    using a s(3) ids e v g c find_SomeD [OF s(1)]
    by (intro exI [of _ a] exI [of _ "approvalPayloadFor input ?n"] conjI exI [of _ place] exI [of _ g])
       (auto simp: approval_of_run_def)
qed

theorem waiting_run_has_approval_witness:
  "\<exists>r a. fst (createRun frozen_env (demo_request Github_pr) demo_store) = Inr r
     \<and> sn_approvals (st_snapshot (snd (createRun frozen_env (demo_request Github_pr) demo_store))) = [a]
     \<and> ap_runId a = run_id r"
proof -
  obtain r where r: "fst (createRun frozen_env (demo_request Github_pr) demo_store) = Inr r"
    using demo_run_pr by blast
  have "run_status r = Run_awaiting_approval"
    using createRun_status [OF r, of place_checkout] by (simp add: demo_place demo_status)
  from waiting_run_has_approval [OF r this] r show ?thesis
    by (auto simp: demo_snapshot createSeedSnapshot_def)
qed

text \<open>
  C7. Who may decide. A decision succeeds exactly when the approval exists and is pending, the
  caller names the hash of the payload that was shown, it has not expired, and the actor is a
  human of the same organization who is not deciding an external write or a privileged action of
  their own.
\<close>

theorem decision_accepted_iff:
  "(\<exists>a. fst (decideApproval E i approved input st) = Inr a) \<longleftrightarrow>
     (\<exists>a actor. approval_at st i = Some a \<and> ap_status a = Approval_pending
        \<and> ap_payloadHash a = adi_payloadHash input
        \<and> \<not> date_le (ap_expiresAt a) (decision_time E input st)
        \<and> List.find (\<lambda>p. pr_id p = adi_principalId input \<and> pr_orgId p = ap_orgId a)
            (sn_principals (st_snapshot st)) = Some actor
        \<and> pr_kind actor = Human
        \<and> \<not> (pr_id actor = ap_requestedByPrincipalId a \<and> ap_risk a \<in> {Write_external, Privileged}))"
proof -
  have "(\<exists>a. fst (decideApproval E i approved input st) = Inr a) \<longleftrightarrow> \<not> isl (fst (decideApproval E i approved input st))"
    by (cases "fst (decideApproval E i approved input st)") auto
  then show ?thesis
    unfolding decideApproval_cases by (auto simp: decidable_def needs_second_person_def)
qed

text \<open>
  A decision happens once. When a decision succeeds, the approval and its run change together
  (approved runs complete, or are queued for a worker; denied runs are cancelled at no cost), one
  event is added and nothing else changes; any later decision on the same approval, by anybody,
  is refused.
\<close>

theorem decision_happens_once:
  assumes "fst (decideApproval E i approved input st) = Inr a'"
  shows "(\<exists>a ev. approval_at st i = Some a
      \<and> st_snapshot (snd (decideApproval E i approved input st)) = (st_snapshot st)
        \<lparr>sn_approvals := update_first (\<lambda>a. ap_id a = i) (\<lambda>_. a') (sn_approvals (st_snapshot st)),
         sn_runs := update_first (\<lambda>r. run_id r = ap_runId a)
            (decided_run approved (adi_advanceMode input = Some Worker_mode) (decision_time E input st))
            (sn_runs (st_snapshot st)),
         sn_events := ev # sn_events (st_snapshot st)\<rparr>
      \<and> ev_runId ev = ap_runId a \<and> ev_type ev = Ev_approval_decided)
    \<and> ap_status a' = (if approved then Approval_approved else Approval_denied)
    \<and> approval_at (snd (decideApproval E i approved input st)) i = Some a'
    \<and> (\<forall>E' approved' input'. decideApproval E' i approved' input' (snd (decideApproval E i approved input st))
        = (Inl (Error ''Approval is no longer pending.''), snd (decideApproval E i approved input st)))"
proof -
  have "\<not> isl (fst (decideApproval E i approved input st))" using assms by simp
  then obtain a actor where a: "approval_at st i = Some a"
    and d: "decidable (decision_time E input st) input (st_snapshot st) a actor"
    unfolding decideApproval_cases by blast
  let ?upd = "decided_approval approved (decision_time E input st) (pr_id actor)"
  from decideApproval_effect [OF a d, of approved] obtain ev where
    res: "decideApproval E i approved input st = (Inr (?upd a), snd (decideApproval E i approved input st))"
    and sn: "st_snapshot (snd (decideApproval E i approved input st)) = (st_snapshot st)
        \<lparr>sn_approvals := update_first (\<lambda>a. ap_id a = i) ?upd (sn_approvals (st_snapshot st)),
         sn_runs := update_first (\<lambda>r. run_id r = ap_runId a)
            (decided_run approved (adi_advanceMode input = Some Worker_mode) (decision_time E input st))
            (sn_runs (st_snapshot st)),
         sn_events := ev # sn_events (st_snapshot st)\<rparr>"
    and ev: "ev_runId ev = ap_runId a" "ev_type ev = Ev_approval_decided" by blast
  have a': "a' = ?upd a" using assms res by (metis fst_conv sum.inject(2))
  have st: "ap_status a' = (if approved then Approval_approved else Approval_denied)"
    by (simp add: a' decided_approval_def decision_status_def)
  have same: "update_first (\<lambda>a. ap_id a = i) ?upd xs = update_first (\<lambda>a. ap_id a = i) (\<lambda>_. a') xs"
    if "List.find (\<lambda>a. ap_id a = i) xs = Some a" for xs
    using that by (induction xs) (auto simp: a' split: if_splits)
  have "ap_id a = i" using find_SomeD [OF a] by simp
  then have at: "approval_at (snd (decideApproval E i approved input st)) i = Some a'"
    unfolding sn using find_update_first_same [OF a, of ?upd] by (simp add: a' decided_approval_def)
  have "decideApproval E' i approved' input' (snd (decideApproval E i approved input st))
        = (Inl (Error ''Approval is no longer pending.''), snd (decideApproval E i approved input st))"
    for E' approved' input'
    using st by (subst decideApproval_def) (simp add: at throw_def)
  with a sn same [OF a] ev st at show ?thesis by metis
qed

definition demo_approval :: approval_request where
  "demo_approval = \<lparr> ap_id = ''approval_1'', ap_orgId = ''org_demo'', ap_runId = ''run_demo'',
     ap_action = ''github.pr'', ap_risk = Write_external, ap_status = Approval_pending,
     ap_payloadHash = ''hash'', ap_payloadMetadata = None,
     ap_requestedByPrincipalId = ''principal_bryson'', ap_decidedByPrincipalId = None,
     ap_createdAt = Instant 0, ap_expiresAt = Instant 1800000, ap_decidedAt = None \<rparr>"

definition waiting_store :: store where
  "waiting_store = modify (sn_approvals_update (\<lambda>_. [demo_approval])) demo_store"

definition admin_decides :: "int \<Rightarrow> approval_decision_input" where
  "admin_decides t = \<lparr> adi_principalId = ''principal_admin'', adi_payloadHash = ''hash'',
     adi_now = Some (Instant t), adi_advanceMode = None \<rparr>"

lemma waiting_approval: "approval_at waiting_store ''approval_1'' = Some demo_approval"
  by (simp add: waiting_store_def demo_approval_def)

lemma waiting_decidable:
  "decidable (decision_time demo_env (admin_decides 5000) waiting_store) (admin_decides 5000)
     (st_snapshot waiting_store) demo_approval (seed_principal ''principal_admin'' Human ''Admin'' (Some ''admin@example.com''))"
  by (simp add: decidable_def admin_decides_def take_time_def demo_approval_def waiting_store_def
      demo_snapshot createSeedSnapshot_def seed_principals_def seed_principal_def needs_second_person_def)

theorem decision_happens_once_witness:
  "fst (decideApproval demo_env ''approval_1'' False (admin_decides 6000)
      (snd (decideApproval demo_env ''approval_1'' True (admin_decides 5000) waiting_store)))
   = Inl (Error ''Approval is no longer pending.'')"
proof -
  obtain a where "fst (decideApproval demo_env ''approval_1'' True (admin_decides 5000) waiting_store) = Inr a"
    using decideApproval_effect [OF waiting_approval waiting_decidable, of True] by (metis fst_conv)
  from decision_happens_once [OF this] show ?thesis by simp
qed

text \<open>
  Refused decisions. A decision that comes too late marks the approval expired, so that it
  can never be decided afterwards, but does not record the change: the queue of snapshots to save
  is as before. Every other refusal leaves the snapshot as it was.
\<close>

theorem late_decision_expires:
  assumes "approval_at st i = Some a" "ap_status a = Approval_pending"
    and "ap_payloadHash a = adi_payloadHash input"
    and "date_le (ap_expiresAt a) (decision_time E input st)"
  shows "fst (decideApproval E i approved input st) = Inl (Error ''Approval has expired.'')
    \<and> st_snapshot (snd (decideApproval E i approved input st)) = (st_snapshot st)\<lparr>sn_approvals :=
        update_first (\<lambda>a. ap_id a = i)
          (\<lambda>a. a\<lparr>ap_status := Approval_expired, ap_decidedAt := Some (decision_time E input st)\<rparr>)
          (sn_approvals (st_snapshot st))\<rparr>
    \<and> st_queue (snd (decideApproval E i approved input st)) = st_queue st
    \<and> fst (decideApproval E' i approved' input' (snd (decideApproval E i approved input st)))
        = Inl (Error ''Approval is no longer pending.'')
    \<and> (\<forall>e. fst (decideApproval E' i' approved' input' st') = Inl e \<and> e \<noteq> Error ''Approval has expired.''
        \<longrightarrow> st_snapshot (snd (decideApproval E' i' approved' input' st')) = st_snapshot st')"
proof -
  let ?f = "\<lambda>a. a\<lparr>ap_status := Approval_expired, ap_decidedAt := Some (decision_time E input st)\<rparr>"
  have r: "decideApproval E i approved input st = throw ''Approval has expired.''
      (update_approval i ?f (snd (take_time E (adi_now input) st)))"
    using assms by (simp add: decideApproval_def Let_def split_def)
  have "ap_id a = i" using find_SomeD [OF assms(1)] by simp
  then have "approval_at (snd (decideApproval E i approved input st)) i = Some (?f a)"
    unfolding r using find_update_first_same [OF assms(1), of ?f] by simp
  then have "fst (decideApproval E' i approved' input' (snd (decideApproval E i approved input st)))
        = Inl (Error ''Approval is no longer pending.'')"
    by (subst decideApproval_def) simp
  with r decideApproval_refused [of E' i' approved' input' st'] show ?thesis
    by (simp add: update_approval_def)
qed

theorem late_decision_expires_witness:
  "fst (decideApproval demo_env ''approval_1'' True (admin_decides 1800000) waiting_store)
     = Inl (Error ''Approval has expired.'')"
  using late_decision_expires [OF waiting_approval, of "admin_decides 1800000" demo_env]
  by (simp add: demo_approval_def admin_decides_def take_time_def)

end
