(* ===== verification/Store_Deliveries.thy ===== *)
theory Store_Deliveries
  imports Complex_Main Store_Runs Memory
begin

text \<open>
  The deliveries and the memory of \<open>BekStore\<close> (\<^verbatim>\<open>packages/core/src/store.ts\<close>): ingress
  deliveries, which make the handling of an incoming request idempotent per key; outbound
  deliveries, a queue with attempts and retries, also one row per key; memory sources and chunks.
  The lemmas show that keys stay unique, that a delivery is due, begun and retried as its
  attempts allow, and that what is stored is redacted.
\<close>

section \<open>Ingress deliveries\<close>

record ingress_input =
  ini_key :: string
  ini_provider :: "ingress_provider option"
  ini_kind :: ingress_kind
  ini_status :: ingress_status
  ini_runId :: "string option"
  ini_approvalId :: "string option"
  ini_response :: "json option"
  ini_now :: "iso_date option"

definition updated_ingress :: "iso_date \<times> string \<times> string \<times> ingress_input \<Rightarrow> ingress_delivery \<Rightarrow> ingress_delivery" where
  "updated_ingress x d =
     (case x of (now, ident, orgId, input) \<Rightarrow>
        d\<lparr>in_status := ini_status input, in_updatedAt := now,
          in_runId := assignOptional (in_runId d) (ini_runId input),
          in_approvalId := assignOptional (in_approvalId d) (ini_approvalId input),
          in_response := assignOptional (in_response d) (map_option redactUnknown (ini_response input))\<rparr>)"

definition new_ingress :: "iso_date \<times> string \<times> string \<times> ingress_input \<Rightarrow> ingress_delivery" where
  "new_ingress x =
     (case x of (now, ident, orgId, input) \<Rightarrow>
        \<lparr> in_id = ident, in_orgId = orgId, in_provider = or_else (ini_provider input) Ingress_slack,
          in_kind = ini_kind input, in_key = ini_key input, in_status = ini_status input,
          in_runId = ini_runId input, in_approvalId = ini_approvalId input,
          in_response = map_option redactUnknown (ini_response input),
          in_createdAt = now, in_updatedAt = now \<rparr>)"

definition ingress_key :: "iso_date \<times> string \<times> string \<times> ingress_input \<Rightarrow> string" where
  "ingress_key x = (case x of (_, _, _, input) \<Rightarrow> ini_key input)"

definition recordIngressDelivery :: "env \<Rightarrow> ingress_input \<Rightarrow> store \<Rightarrow> (store, ingress_delivery) outcome" where
  "recordIngressDelivery E input st =
     (let (now, st0) = take_time E (ini_now input) st in
      case findIngressDelivery st0 (ini_key input) of
        Some existing \<Rightarrow>
          (let x = (now, [], [], input)
           in (Inr (updated_ingress x existing),
               recordChange (modify (sn_ingressDeliveries_update
                 (update_first (\<lambda>d. in_key d = ini_key input) (updated_ingress x))) st0)))
      | None \<Rightarrow>
          (let (ident, st1) = take_id E ''delivery'' st0;
               delivery = new_ingress (now, ident, org_of st1, input)
           in (Inr delivery, recordChange (modify (sn_ingressDeliveries_update (\<lambda>ds. delivery # ds)) st1))))"

definition removeIngressDelivery :: "string \<Rightarrow> bool option \<Rightarrow> store \<Rightarrow> bool \<times> store" where
  "removeIngressDelivery key record st =
     (let before = sn_ingressDeliveries (st_snapshot st);
          after = filter (\<lambda>d. in_key d \<noteq> key) before;
          st1 = modify (sn_ingressDeliveries_update (\<lambda>_. after)) st;
          removed = (length after \<noteq> length before)
      in (removed, if removed \<and> record \<noteq> Some False then recordChange st1 else st1))"

section \<open>Outbound deliveries\<close>

text \<open>\<open>undefined\<close>, \<open>NaN\<close> and the infinities give the default; a finite number is floored.\<close>

datatype js_number = Finite rat | Not_finite

definition normalizeOutboundMaxAttempts :: "js_number option \<Rightarrow> int" where
  "normalizeOutboundMaxAttempts value =
     (case value of
        Some (Finite q) \<Rightarrow> max 1 (min 20 (floor q))
      | _ \<Rightarrow> 5)"

record outbound_input =
  obi_key :: string
  obi_kind :: outbound_kind
  obi_target :: json
  obi_payload :: json
  obi_runId :: "string option"
  obi_approvalId :: "string option"
  obi_maxAttempts :: "js_number option"
  obi_now :: "iso_date option"

definition updated_outbound :: "iso_date \<times> string \<times> string \<times> outbound_input \<Rightarrow> outbound_delivery \<Rightarrow> outbound_delivery" where
  "updated_outbound x d =
     (case x of (now, ident, orgId, input) \<Rightarrow>
        (let requeue = (ob_status d = Out_failed) in
         d\<lparr>ob_kind := obi_kind input, ob_target := redactUnknown (obi_target input),
           ob_payload := redactUnknown (obi_payload input),
           ob_maxAttempts := normalizeOutboundMaxAttempts (obi_maxAttempts input),
           ob_updatedAt := now,
           ob_status := (if requeue then Out_queued else ob_status d),
           ob_nextAttemptAt := (if requeue then Some now else ob_nextAttemptAt d),
           ob_lastError := (if requeue then None else ob_lastError d),
           ob_runId := assignOptional (ob_runId d) (obi_runId input),
           ob_approvalId := assignOptional (ob_approvalId d) (obi_approvalId input)\<rparr>))"

definition new_outbound :: "iso_date \<times> string \<times> string \<times> outbound_input \<Rightarrow> outbound_delivery" where
  "new_outbound x =
     (case x of (now, ident, orgId, input) \<Rightarrow>
        \<lparr> ob_id = ident, ob_orgId = orgId, ob_provider = Outbound_slack, ob_kind = obi_kind input,
          ob_key = obi_key input, ob_status = Out_queued, ob_target = redactUnknown (obi_target input),
          ob_payload = redactUnknown (obi_payload input), ob_attempts = 0,
          ob_maxAttempts = normalizeOutboundMaxAttempts (obi_maxAttempts input),
          ob_runId = obi_runId input, ob_approvalId = obi_approvalId input, ob_lastError = None,
          ob_nextAttemptAt = Some now, ob_deliveredAt = None, ob_createdAt = now, ob_updatedAt = now \<rparr>)"

definition outbound_key :: "iso_date \<times> string \<times> string \<times> outbound_input \<Rightarrow> string" where
  "outbound_key x = (case x of (_, _, _, input) \<Rightarrow> obi_key input)"

definition enqueueOutboundDelivery :: "env \<Rightarrow> outbound_input \<Rightarrow> store \<Rightarrow> (store, outbound_delivery) outcome" where
  "enqueueOutboundDelivery E input st =
     (let (now, st0) = take_time E (obi_now input) st in
      case List.find (\<lambda>d. ob_key d = obi_key input) (sn_outboundDeliveries (st_snapshot st0)) of
        Some existing \<Rightarrow>
          (let x = (now, [], [], input)
           in (Inr (updated_outbound x existing),
               recordChange (modify (sn_outboundDeliveries_update
                 (update_first (\<lambda>d. ob_key d = obi_key input) (updated_outbound x))) st0)))
      | None \<Rightarrow>
          (let (ident, st1) = take_id E ''outbound'' st0;
               delivery = new_outbound (now, ident, org_of st1, input)
           in (Inr delivery, recordChange (modify (sn_outboundDeliveries_update (\<lambda>ds. delivery # ds)) st1))))"

definition due_at :: "outbound_delivery \<Rightarrow> iso_date" where
  "due_at d = or_else (ob_nextAttemptAt d) (ob_createdAt d)"

text \<open>
  ISO dates that \<open>toISOString\<close> wrote sort like the instants they denote; dates that do not parse
  are never due.
\<close>

definition due_before :: "outbound_delivery \<Rightarrow> outbound_delivery \<Rightarrow> bool" where
  "due_before a b =
     (case (date_parse (due_at a), date_parse (due_at b)) of
        (Some x, Some y) \<Rightarrow> x \<le> y | (None, Some y) \<Rightarrow> False | _ \<Rightarrow> True)"

definition listDueOutboundDeliveries :: "env \<Rightarrow> outbound_provider option \<Rightarrow> iso_date option \<Rightarrow> int option
    \<Rightarrow> store \<Rightarrow> outbound_delivery list \<times> store" where
  "listDueOutboundDeliveries E provider now limit st =
     (let (time, st1) = take_time E now st;
          n = max 1 (or_else limit 25)
      in (take (nat n) (sort_by due_before
            (filter (\<lambda>d. ob_status d = Out_queued
                       \<and> (case provider of None \<Rightarrow> True | Some p \<Rightarrow> ob_provider d = p)
                       \<and> date_le (due_at d) time) (sn_outboundDeliveries (st_snapshot st1)))), st1))"

definition update_outbound :: "string \<Rightarrow> (outbound_delivery \<Rightarrow> outbound_delivery) \<Rightarrow> store \<Rightarrow> store" where
  "update_outbound i f =
     modify (sn_outboundDeliveries_update (update_first (\<lambda>d. ob_id d = i) f))"

definition begun :: "iso_date \<Rightarrow> outbound_delivery \<Rightarrow> outbound_delivery" where
  "begun now d = d\<lparr>ob_status := Out_delivering, ob_attempts := ob_attempts d + 1,
     ob_updatedAt := now, ob_nextAttemptAt := None\<rparr>"

definition beginOutboundDelivery :: "env \<Rightarrow> string \<Rightarrow> iso_date option \<Rightarrow> store
    \<Rightarrow> (store, outbound_delivery) outcome" where
  "beginOutboundDelivery E i now st =
     (case findOutboundDelivery st i of
        None \<Rightarrow> throw ''Outbound delivery not found.'' st
      | Some d \<Rightarrow>
          (let (time, st1) = take_time E now st in
           if ob_status d \<noteq> Out_queued then throw ''Outbound delivery is not queued.'' st1
           else (Inr (begun time d), recordChange (update_outbound i (begun time) st1))))"

definition completed :: "iso_date \<Rightarrow> outbound_delivery \<Rightarrow> outbound_delivery" where
  "completed now d = d\<lparr>ob_status := Out_delivered, ob_lastError := None, ob_nextAttemptAt := None,
     ob_deliveredAt := Some now, ob_updatedAt := now\<rparr>"

definition completeOutboundDelivery :: "env \<Rightarrow> string \<Rightarrow> iso_date option \<Rightarrow> store
    \<Rightarrow> (store, outbound_delivery) outcome" where
  "completeOutboundDelivery E i now st =
     (case findOutboundDelivery st i of
        None \<Rightarrow> throw ''Outbound delivery not found.'' st
      | Some d \<Rightarrow>
          (let (time, st1) = take_time E now st
           in (Inr (completed time d), recordChange (update_outbound i (completed time) st1))))"

record fail_input =
  fai_id :: string
  fai_error :: string
  fai_retryable :: "bool option"
  fai_retryDelayMs :: "int option"
  fai_now :: "iso_date option"

definition retry_allowed :: "fail_input \<Rightarrow> outbound_delivery \<Rightarrow> bool" where
  "retry_allowed input d \<longleftrightarrow> fai_retryable input \<noteq> Some False \<and> ob_attempts d < ob_maxAttempts d"

text \<open>The status and the error are assigned before \<open>toISOString\<close> may throw.\<close>

definition failed :: "fail_input \<Rightarrow> iso_date option \<Rightarrow> iso_date \<Rightarrow> outbound_delivery \<Rightarrow> outbound_delivery" where
  "failed input next now d =
     d\<lparr>ob_status := (if retry_allowed input d then Out_queued else Out_failed),
       ob_lastError := Some (take 500 (redactSecrets (fai_error input))),
       ob_nextAttemptAt := (if retry_allowed input d then next else None),
       ob_updatedAt := now\<rparr>"

definition failOutboundDelivery :: "env \<Rightarrow> fail_input \<Rightarrow> store \<Rightarrow> (store, outbound_delivery) outcome" where
  "failOutboundDelivery E input st =
     (case findOutboundDelivery st (fai_id input) of
        None \<Rightarrow> throw ''Outbound delivery not found.'' st
      | Some d \<Rightarrow>
          (let (now, st1) = take_time E (fai_now input) st in
           if \<not> retry_allowed input d then
             (Inr (failed input None now d),
              recordChange (update_outbound (fai_id input) (failed input None now) st1))
           else
             (case date_plus now (max 0 (or_else (fai_retryDelayMs input) 1000)) of
                Inl e \<Rightarrow>
                  (Inl e, update_outbound (fai_id input)
                     (\<lambda>d. d\<lparr>ob_status := Out_queued,
                            ob_lastError := Some (take 500 (redactSecrets (fai_error input)))\<rparr>) st1)
              | Inr next \<Rightarrow>
                  (Inr (failed input (Some next) now d),
                   recordChange (update_outbound (fai_id input) (failed input (Some next) now) st1)))))"

section \<open>Memory\<close>

record memory_source_input =
  msi_kind :: memory_source_kind
  msi_sensitivity :: sensitivity
  msi_contentHash :: string
  msi_createdByPrincipalId :: string
  msi_retention :: memory_retention
  msi_placeId :: "string option"
  msi_identityId :: "string option"
  msi_title :: "string option"
  msi_uri :: "string option"
  msi_now :: "iso_date option"

definition recordMemorySource :: "env \<Rightarrow> memory_source_input \<Rightarrow> store \<Rightarrow> (store, memory_source) outcome" where
  "recordMemorySource E input st =
     (let (ident, st1) = take_id E ''memsrc'' st;
          (now, st2) = take_time E (msi_now input) st1;
          source = \<lparr> ms_id = ident, ms_orgId = org_of st, ms_kind = msi_kind input,
            ms_placeId = msi_placeId input, ms_identityId = msi_identityId input,
            ms_sensitivity = msi_sensitivity input, ms_contentHash = msi_contentHash input,
            ms_createdByPrincipalId = msi_createdByPrincipalId input,
            ms_retention = msi_retention input, ms_title = msi_title input, ms_uri = msi_uri input,
            ms_createdAt = now \<rparr>
      in (Inr source,
          recordChange (modify (sn_memorySources_update (\<lambda>ss. Some (source # or_else ss []))) st2)))"

record memory_chunk_input =
  mci_sourceId :: string
  mci_sensitivity :: sensitivity
  mci_contentHash :: string
  mci_citation :: memory_citation
  mci_text :: string
  mci_placeId :: "string option"
  mci_identityId :: "string option"
  mci_allowedPlaceIds :: "string list option"
  mci_allowedIdentityIds :: "string list option"

definition make_chunk :: "string \<Rightarrow> string \<Rightarrow> memory_chunk_input \<Rightarrow> memory_chunk" where
  "make_chunk ident orgId input =
     \<lparr> ch_id = ident, ch_orgId = orgId, ch_sourceId = mci_sourceId input,
       ch_placeId = mci_placeId input, ch_identityId = mci_identityId input,
       ch_allowedPlaceIds = mci_allowedPlaceIds input,
       ch_allowedIdentityIds = mci_allowedIdentityIds input,
       ch_sensitivity = mci_sensitivity input, ch_contentHash = mci_contentHash input,
       ch_citation = mci_citation input, ch_text = redactSecrets (mci_text input) \<rparr>"

fun push_chunks :: "env \<Rightarrow> memory_chunk_input list \<Rightarrow> store \<Rightarrow> memory_chunk list \<times> store" where
  "push_chunks E [] st = ([], st)"
| "push_chunks E (input # inputs) st =
     (let (ident, st1) = take_id E ''memchunk'' st;
          chunk = make_chunk ident (org_of st1) input;
          st2 = modify (sn_memoryChunks_update (\<lambda>cs. Some (or_else cs [] @ [chunk]))) st1;
          (created, st3) = push_chunks E inputs st2
      in (chunk # created, st3))"

definition recordMemoryChunks :: "env \<Rightarrow> memory_chunk_input list \<Rightarrow> store \<Rightarrow> (store, memory_chunk list) outcome" where
  "recordMemoryChunks E inputs st =
     (let st0 = modify (sn_memoryChunks_update (\<lambda>cs. Some (or_else cs []))) st;
          (created, st1) = push_chunks E inputs st0
      in (Inr created, recordChange st1))"

definition listMemoryChunks :: "store \<Rightarrow> memory_chunk list" where
  "listMemoryChunks st = or_else (sn_memoryChunks (st_snapshot st)) []"

section \<open>One row per key\<close>

interpretation ingress: keyed_rows in_key updated_ingress new_ingress ingress_key
  by unfold_locales (auto simp: updated_ingress_def new_ingress_def ingress_key_def split: prod.splits)

interpretation outbound: keyed_rows ob_key updated_outbound new_outbound outbound_key
  by unfold_locales
    (auto simp: updated_outbound_def new_outbound_def outbound_key_def Let_def split: prod.splits)

definition ingress_args :: "env \<Rightarrow> ingress_input \<Rightarrow> store \<Rightarrow> iso_date \<times> string \<times> string \<times> ingress_input" where
  "ingress_args E input st =
     (let (now, st0) = take_time E (ini_now input) st
      in (now, fst (take_id E ''delivery'' st0), org_of st, input))"

definition outbound_args :: "env \<Rightarrow> outbound_input \<Rightarrow> store \<Rightarrow> iso_date \<times> string \<times> string \<times> outbound_input" where
  "outbound_args E input st =
     (let (now, st0) = take_time E (obi_now input) st
      in (now, fst (take_id E ''outbound'' st0), org_of st, input))"

lemma ingress_key_args [simp]: "ingress_key (ingress_args E input st) = ini_key input"
  by (simp add: ingress_key_def ingress_args_def Let_def split_def)

lemma outbound_key_args [simp]: "outbound_key (outbound_args E input st) = obi_key input"
  by (simp add: outbound_key_def outbound_args_def Let_def split_def)

lemma updated_ingress_args:
  "updated_ingress (ingress_args E input st) = updated_ingress (fst (take_time E (ini_now input) st), [], [], input)"
  by (rule ext) (simp add: updated_ingress_def ingress_args_def Let_def split_def)

lemma updated_outbound_args:
  "updated_outbound (outbound_args E input st) = updated_outbound (fst (take_time E (obi_now input) st), [], [], input)"
  by (rule ext) (simp add: updated_outbound_def outbound_args_def Let_def split_def)

lemma new_args:
  "new_ingress (ingress_args E input st) = new_ingress (fst (take_time E (ini_now input) st),
     fst (take_id E ''delivery'' (snd (take_time E (ini_now input) st))), org_of st, input)"
  "new_outbound (outbound_args E o_input st) = new_outbound (fst (take_time E (obi_now o_input) st),
     fst (take_id E ''outbound'' (snd (take_time E (obi_now o_input) st))), org_of st, o_input)"
  by (simp_all add: ingress_args_def outbound_args_def Let_def split_def)

lemma recordIngressDelivery_rows:
  "sn_ingressDeliveries (st_snapshot (snd (recordIngressDelivery E input st))) =
     upsert_front (\<lambda>d. in_key d = ini_key input) (updated_ingress (ingress_args E input st))
       (new_ingress (ingress_args E input st)) (sn_ingressDeliveries (st_snapshot st))"
  by (auto simp: recordIngressDelivery_def findIngressDelivery_def upsert_front_def new_args
      Let_def split_def updated_ingress_args split: option.split)

lemma enqueueOutboundDelivery_rows:
  "sn_outboundDeliveries (st_snapshot (snd (enqueueOutboundDelivery E input st))) =
     upsert_front (\<lambda>d. ob_key d = obi_key input) (updated_outbound (outbound_args E input st))
       (new_outbound (outbound_args E input st)) (sn_outboundDeliveries (st_snapshot st))"
  by (auto simp: enqueueOutboundDelivery_def upsert_front_def new_args
      Let_def split_def updated_outbound_args split: option.split)

section \<open>Contracts\<close>

interpretation ingress_record: store_operation "recordIngressDelivery E input" for E input
  by (rule store_operationI)
    (simp add: recordIngressDelivery_def throw_def lawful_simps split: option.split)

interpretation outbound_enqueue: store_operation "enqueueOutboundDelivery E input" for E input
  by (rule store_operationI)
    (simp add: enqueueOutboundDelivery_def throw_def lawful_simps split: option.split)

interpretation outbound_begin: store_operation "beginOutboundDelivery E i now" for E i now
  by (rule store_operationI)
    (simp add: beginOutboundDelivery_def update_outbound_def throw_def lawful_simps split: option.split)

interpretation outbound_complete: store_operation "completeOutboundDelivery E i now" for E i now
  by (rule store_operationI)
    (simp add: completeOutboundDelivery_def update_outbound_def throw_def lawful_simps split: option.split)

interpretation memory_source: store_operation "recordMemorySource E input" for E input
  by (rule store_operationI) (simp add: recordMemorySource_def lawful_simps)

section \<open>Properties\<close>

text \<open>
  Ingress is idempotent per key. Recording a delivery finds or makes the one row of its key:
  keys stay distinct, the row found afterwards carries the new status and redacted response,
  rows of other keys are untouched, and a second record of a key adds no row. Removing a key
  reports whether it was there and makes it unknown.
\<close>

theorem ingress_one_row_per_key:
  assumes "distinct (map in_key (sn_ingressDeliveries (st_snapshot st)))"
  shows "distinct (map in_key (sn_ingressDeliveries (st_snapshot (snd (recordIngressDelivery E input st)))))
    \<and> (\<exists>d. findIngressDelivery (snd (recordIngressDelivery E input st)) (ini_key input) = Some d
         \<and> fst (recordIngressDelivery E input st) = Inr d \<and> in_status d = ini_status input
         \<and> (ini_response input \<noteq> None \<longrightarrow> in_response d = map_option redactUnknown (ini_response input)))
    \<and> (\<forall>k. k \<noteq> ini_key input \<longrightarrow>
         findIngressDelivery (snd (recordIngressDelivery E input st)) k = findIngressDelivery st k)
    \<and> length (sn_ingressDeliveries (st_snapshot (snd (recordIngressDelivery E input st)))) =
        length (sn_ingressDeliveries (st_snapshot st))
          + (if findIngressDelivery st (ini_key input) = None then 1 else 0)
    \<and> findIngressDelivery (snd (removeIngressDelivery key b st)) key = None
    \<and> (fst (removeIngressDelivery key b st) \<longleftrightarrow> findIngressDelivery st key \<noteq> None)"
proof (intro conjI)
  let ?x = "ingress_args E input st"
  let ?ds = "sn_ingressDeliveries (st_snapshot st)"
  note rows = recordIngressDelivery_rows
  show "distinct (map in_key (sn_ingressDeliveries (st_snapshot (snd (recordIngressDelivery E input st)))))"
    unfolding rows using ingress.distinct_upsert [OF assms, of ?x] by simp
  have f: "findIngressDelivery (snd (recordIngressDelivery E input st)) (ini_key input)
      = Some (case findIngressDelivery st (ini_key input) of None \<Rightarrow> new_ingress ?x | Some r \<Rightarrow> updated_ingress ?x r)"
    unfolding findIngressDelivery_def rows using ingress.find_upsert [of ?x ?ds] by simp
  have r: "fst (recordIngressDelivery E input st)
      = Inr (case findIngressDelivery st (ini_key input) of None \<Rightarrow> new_ingress ?x | Some r \<Rightarrow> updated_ingress ?x r)"
    by (auto simp: recordIngressDelivery_def new_args Let_def split_def findIngressDelivery_def
        updated_ingress_args split: option.split)
  show "\<exists>d. findIngressDelivery (snd (recordIngressDelivery E input st)) (ini_key input) = Some d
         \<and> fst (recordIngressDelivery E input st) = Inr d \<and> in_status d = ini_status input
         \<and> (ini_response input \<noteq> None \<longrightarrow> in_response d = map_option redactUnknown (ini_response input))"
    unfolding f r
    by (auto simp: new_ingress_def updated_ingress_def ingress_args_def Let_def split_def
        assignOptional_def split: option.split)
  show "\<forall>k. k \<noteq> ini_key input \<longrightarrow>
         findIngressDelivery (snd (recordIngressDelivery E input st)) k = findIngressDelivery st k"
    unfolding findIngressDelivery_def rows using ingress.find_upsert_other [of _ ?x ?ds] by simp
  show "length (sn_ingressDeliveries (st_snapshot (snd (recordIngressDelivery E input st)))) =
        length ?ds + (if findIngressDelivery st (ini_key input) = None then 1 else 0)"
    unfolding rows using ingress.length_upsert [of ?x ?ds]
    by (auto simp: findIngressDelivery_def find_None_iff_all image_iff)
  show "findIngressDelivery (snd (removeIngressDelivery key b st)) key = None"
    by (simp add: removeIngressDelivery_def findIngressDelivery_def Let_def find_None_iff_all)
  have "length (filter P xs) \<noteq> length xs \<longleftrightarrow> (\<exists>x \<in> set xs. \<not> P x)" for P and xs :: "ingress_delivery list"
    using length_filter_less [of _ xs P] by (auto simp: filter_id_conv) (metis filter_True)
  then show "fst (removeIngressDelivery key b st) \<longleftrightarrow> findIngressDelivery st key \<noteq> None"
    by (auto simp: removeIngressDelivery_def findIngressDelivery_def Let_def find_None_iff_all)
qed

definition demo_ingress :: "string \<Rightarrow> ingress_input" where
  "demo_ingress k = \<lparr> ini_key = k, ini_provider = None, ini_kind = In_slack_event,
     ini_status = Ingress_processed, ini_runId = None, ini_approvalId = None, ini_response = None,
     ini_now = None \<rparr>"

theorem ingress_one_row_per_key_witness:
  "length (sn_ingressDeliveries (st_snapshot (snd (recordIngressDelivery demo_env (demo_ingress ''k'') demo_store)))) = 1
   \<and> findIngressDelivery (snd (recordIngressDelivery demo_env (demo_ingress ''k'') demo_store)) ''k'' \<noteq> None"
proof -
  have k: "ini_key (demo_ingress ''k'') = ''k''" by (simp add: demo_ingress_def)
  have e: "sn_ingressDeliveries (st_snapshot demo_store) = []"
    by (simp add: demo_snapshot createSeedSnapshot_def)
  then have n: "findIngressDelivery demo_store ''k'' = None"
    by (simp add: findIngressDelivery_def)
  have d: "distinct (map in_key (sn_ingressDeliveries (st_snapshot demo_store)))"
    using e by simp
  note t = ingress_one_row_per_key [OF d, of demo_env "demo_ingress ''k''", unfolded k n]
  from t [THEN conjunct2, THEN conjunct1] obtain r where
    "findIngressDelivery (snd (recordIngressDelivery demo_env (demo_ingress ''k'') demo_store)) ''k'' = Some r"
    by blast
  moreover from t e have "length (sn_ingressDeliveries (st_snapshot (snd (recordIngressDelivery demo_env (demo_ingress ''k'') demo_store)))) = 1"
    by simp
  ultimately show ?thesis by simp
qed

interpretation due: comparator due_before
  by unfold_locales (auto simp: due_before_def split: option.splits)

lemma take_sorted_prefix:
  assumes "sorted_wrt le xs" "x \<in> set xs" "x \<notin> set (take n xs)"
  shows "length (take n xs) = n \<and> (\<forall>y \<in> set (take n xs). le y x)"
proof -
  have "x \<in> set (drop n xs)"
    using assms(2,3) by (metis Un_iff append_take_drop_id set_append)
  moreover have "sorted_wrt le (take n xs @ drop n xs)"
    using assms(1) by simp
  ultimately show ?thesis
    unfolding sorted_wrt_append by (cases "n \<le> length xs") auto
qed

text \<open>
  What is due. The list of due deliveries is sorted by due time and holds only queued
  deliveries of the provider whose time has come; a due delivery that is left out is not earlier
  than any listed one, and is left out only when the limit is reached.
\<close>

theorem due_deliveries:
  assumes "listDueOutboundDeliveries E provider now limit st = (ds, st')"
  shows "sorted_wrt due_before ds
    \<and> (\<forall>d \<in> set ds. d \<in> set (sn_outboundDeliveries (st_snapshot st)) \<and> ob_status d = Out_queued
         \<and> (case provider of None \<Rightarrow> True | Some p \<Rightarrow> ob_provider d = p)
         \<and> date_le (due_at d) (fst (take_time E now st)))
    \<and> (\<forall>d \<in> set (sn_outboundDeliveries (st_snapshot st)).
         ob_status d = Out_queued \<and> (case provider of None \<Rightarrow> True | Some p \<Rightarrow> ob_provider d = p)
         \<and> date_le (due_at d) (fst (take_time E now st)) \<and> d \<notin> set ds \<longrightarrow>
         length ds = nat (max 1 (or_else limit 25)) \<and> (\<forall>x \<in> set ds. due_before x d))"
proof -
  let ?all = "sort_by due_before (filter (\<lambda>d. ob_status d = Out_queued
      \<and> (case provider of None \<Rightarrow> True | Some p \<Rightarrow> ob_provider d = p)
      \<and> date_le (due_at d) (fst (take_time E now st))) (sn_outboundDeliveries (st_snapshot st)))"
  let ?n = "nat (max 1 (or_else limit 25))"
  have ds: "ds = take ?n ?all"
    using assms by (simp add: listDueOutboundDeliveries_def Let_def split_def)
  have sorted: "sorted_wrt due_before ?all"
    by (rule due.sorted_sort)
  have mem: "d \<in> set ?all \<longleftrightarrow> d \<in> set (sn_outboundDeliveries (st_snapshot st)) \<and> ob_status d = Out_queued
      \<and> (case provider of None \<Rightarrow> True | Some p \<Rightarrow> ob_provider d = p)
      \<and> date_le (due_at d) (fst (take_time E now st))" for d
    by simp
  have "d \<in> set ?all" if "d \<in> set ds" for d
    using that unfolding ds by (rule in_set_takeD)
  moreover have "sorted_wrt due_before ds"
    unfolding ds using sorted by (rule sorted_wrt_take)
  moreover have "length ds = ?n \<and> (\<forall>x \<in> set ds. due_before x d)" if "d \<in> set ?all" "d \<notin> set ds" for d
    using take_sorted_prefix [OF sorted that(1), of ?n] that(2) unfolding ds by blast
  ultimately show ?thesis unfolding mem by blast
qed

definition outbound_demo :: store where
  "outbound_demo = snd (enqueueOutboundDelivery demo_env \<lparr> obi_key = ''k'', obi_kind = Out_run_outcome,
     obi_target = JObj [], obi_payload = JObj [], obi_runId = None, obi_approvalId = None,
     obi_maxAttempts = Some (Finite 2), obi_now = Some (Instant 0) \<rparr> demo_store)"

theorem due_deliveries_witness:
  "sorted_wrt due_before (fst (listDueOutboundDeliveries demo_env None (Some (Instant 5)) None outbound_demo))"
  using due_deliveries [of demo_env None "Some (Instant 5)" None outbound_demo
      "fst (listDueOutboundDeliveries demo_env None (Some (Instant 5)) None outbound_demo)"
      "snd (listDueOutboundDeliveries demo_env None (Some (Instant 5)) None outbound_demo)"]
  by simp

section \<open>Attempts\<close>

definition outbound_ok :: "outbound_delivery \<Rightarrow> bool" where
  "outbound_ok d \<longleftrightarrow> 0 \<le> ob_attempts d \<and> ob_attempts d \<le> ob_maxAttempts d
     \<and> 1 \<le> ob_maxAttempts d \<and> ob_maxAttempts d \<le> 20
     \<and> (ob_status d = Out_queued \<longrightarrow> ob_attempts d < ob_maxAttempts d)"

lemma all_update_first:
  assumes "\<forall>x \<in> set xs. Q x" "\<And>x. List.find P xs = Some x \<Longrightarrow> Q x \<Longrightarrow> Q (f x)"
  shows "\<forall>x \<in> set (update_first P f xs). Q x"
proof
  fix y
  assume "y \<in> set (update_first P f xs)"
  then show "Q y"
    by (rule in_update_firstE) (use assms in auto)
qed

lemma max_attempts_range: "1 \<le> normalizeOutboundMaxAttempts v \<and> normalizeOutboundMaxAttempts v \<le> 20"
  by (simp add: normalizeOutboundMaxAttempts_def split: option.split js_number.split)

lemma outbound_rows_update [simp]:
  "sn_outboundDeliveries (st_snapshot (update_outbound i f st))
     = update_first (\<lambda>d. ob_id d = i) f (sn_outboundDeliveries (st_snapshot st))"
  by (simp add: update_outbound_def)

abbreviation all_outbound_ok :: "store \<Rightarrow> bool" where
  "all_outbound_ok st \<equiv> \<forall>d \<in> set (sn_outboundDeliveries (st_snapshot st)). outbound_ok d"

lemma begin_ok:
  assumes ok: "all_outbound_ok st"
  shows "all_outbound_ok (snd (beginOutboundDelivery E i now st))"
proof (cases "findOutboundDelivery st i")
  case None
  with ok show ?thesis by (simp add: beginOutboundDelivery_def)
next
  case (Some d)
  show ?thesis
  proof (cases "ob_status d = Out_queued")
    case True
    have "\<forall>x \<in> set (update_first (\<lambda>d. ob_id d = i) (begun t) (sn_outboundDeliveries (st_snapshot st))). outbound_ok x" for t
      using ok Some True
      by (intro all_update_first) (auto simp: findOutboundDelivery_def outbound_ok_def begun_def)
    with Some True show ?thesis by (simp add: beginOutboundDelivery_def Let_def split_def)
  qed (use ok Some in \<open>simp add: beginOutboundDelivery_def Let_def split_def\<close>)
qed

lemma complete_ok:
  assumes ok: "all_outbound_ok st"
  shows "all_outbound_ok (snd (completeOutboundDelivery E i now st))"
proof -
  have "\<forall>x \<in> set (update_first (\<lambda>d. ob_id d = i) (completed t) (sn_outboundDeliveries (st_snapshot st))). outbound_ok x" for t
    using ok by (intro all_update_first) (auto simp: outbound_ok_def completed_def)
  with ok show ?thesis
    by (simp add: completeOutboundDelivery_def Let_def split_def split: option.split)
qed

lemma fail_ok:
  assumes ok: "all_outbound_ok st"
  shows "all_outbound_ok (snd (failOutboundDelivery E input st))"
proof (cases "findOutboundDelivery st (fai_id input)")
  case None
  with ok show ?thesis by (simp add: failOutboundDelivery_def)
next
  case (Some d)
  let ?ds = "sn_outboundDeliveries (st_snapshot st)"
  have 1: "\<forall>x \<in> set (update_first (\<lambda>d. ob_id d = fai_id input) (failed input n t) ?ds). outbound_ok x" for n t
    using ok by (intro all_update_first) (auto simp: outbound_ok_def failed_def retry_allowed_def)
  have 2: "\<forall>x \<in> set (update_first (\<lambda>d. ob_id d = fai_id input)
      (\<lambda>d. d\<lparr>ob_status := Out_queued, ob_lastError := e\<rparr>) ?ds). outbound_ok x"
    if "retry_allowed input d" for e
    using ok that Some
    by (intro all_update_first) (auto simp: outbound_ok_def retry_allowed_def findOutboundDelivery_def)
  show ?thesis
    using Some 1 2
    by (simp add: failOutboundDelivery_def Let_def split_def split: sum.split)
qed

text \<open>
  Bounded attempts. From deliveries within their bounds, beginning, completing and failing
  deliveries and enqueuing a new key keep every delivery within them: between one and twenty
  attempts are allowed, never more are made, and a queued delivery has one left.
\<close>

theorem attempts_bounded:
  assumes "all_outbound_ok st"
  shows "all_outbound_ok (snd (beginOutboundDelivery E i now st))
    \<and> all_outbound_ok (snd (completeOutboundDelivery E i now st))
    \<and> all_outbound_ok (snd (failOutboundDelivery E f st))
    \<and> ((\<forall>d \<in> set (sn_outboundDeliveries (st_snapshot st)). ob_key d \<noteq> obi_key input) \<longrightarrow>
        all_outbound_ok (snd (enqueueOutboundDelivery E input st)))"
proof -
  have "all_outbound_ok (snd (enqueueOutboundDelivery E input st))"
    if "\<forall>d \<in> set (sn_outboundDeliveries (st_snapshot st)). ob_key d \<noteq> obi_key input"
  proof -
    have "List.find (\<lambda>d. ob_key d = obi_key input) (sn_outboundDeliveries (st_snapshot st)) = None"
      using that by (simp add: find_None_iff_all)
    moreover have "outbound_ok (new_outbound (outbound_args E input st))"
      using max_attempts_range [of "obi_maxAttempts input"] unfolding new_args
      by (simp add: outbound_ok_def new_outbound_def)
    ultimately show ?thesis
      using assms by (simp add: enqueueOutboundDelivery_rows upsert_front_def)
  qed
  with begin_ok [OF assms] complete_ok [OF assms] fail_ok [OF assms] show ?thesis by blast
qed

theorem attempts_bounded_witness:
  "list_all outbound_ok (sn_outboundDeliveries (st_snapshot
     (snd (beginOutboundDelivery demo_env ''outbound_0'' None demo_store))))"
  using attempts_bounded [of demo_store] by (simp add: demo_snapshot createSeedSnapshot_def list_all_iff)

text \<open>
  Failing a delivery. A failed attempt is requeued exactly when the failure is retryable and
  attempts are left, due after the delay; otherwise the delivery is failed for good with no next
  attempt. The stored error is redacted and cut to 500 characters.
\<close>

theorem failed_delivery_outcome:
  assumes "findOutboundDelivery st (fai_id input) = Some d"
    and "fst (failOutboundDelivery E input st) = Inr d'"
  shows "(ob_status d' = Out_queued \<longleftrightarrow> fai_retryable input \<noteq> Some False \<and> ob_attempts d < ob_maxAttempts d)
    \<and> (ob_status d' = Out_failed \<longleftrightarrow> ob_status d' \<noteq> Out_queued)
    \<and> (if ob_status d' = Out_queued
       then \<exists>t. fst (take_time E (fai_now input) st) = Instant t
              \<and> ob_nextAttemptAt d' = Some (Instant (t + max 0 (or_else (fai_retryDelayMs input) 1000)))
       else ob_nextAttemptAt d' = None)
    \<and> ob_lastError d' = Some (take 500 (redactSecrets (fai_error input)))
    \<and> findOutboundDelivery (snd (failOutboundDelivery E input st)) (fai_id input) = Some d'"
proof -
  let ?now = "fst (take_time E (fai_now input) st)"
  obtain nxt where d': "d' = failed input nxt ?now d"
    and nx: "retry_allowed input d \<Longrightarrow>
      \<exists>t. ?now = Instant t \<and> nxt = Some (Instant (t + max 0 (or_else (fai_retryDelayMs input) 1000)))"
    and st: "snd (failOutboundDelivery E input st) = recordChange (update_outbound (fai_id input)
      (failed input nxt ?now) (snd (take_time E (fai_now input) st)))"
  proof (cases "retry_allowed input d")
    case False
    with assms that [of None] show thesis by (auto simp: failOutboundDelivery_def Let_def split_def)
  next
    case True
    then obtain n where n: "date_plus ?now (max 0 (or_else (fai_retryDelayMs input) 1000)) = Inr n"
      using assms by (auto simp: failOutboundDelivery_def Let_def split_def split: sum.splits)
    with True assms that [of "Some n"] date_plus_Inr [OF n] show thesis
      by (auto simp: failOutboundDelivery_def Let_def split_def)
  qed
  have ident: "ob_id d = fai_id input"
    using assms(1) by (auto simp: findOutboundDelivery_def dest: find_SomeD)
  have f: "findOutboundDelivery (snd (failOutboundDelivery E input st)) (fai_id input) = Some d'"
    unfolding st d' findOutboundDelivery_def
    using assms(1) ident by (simp add: findOutboundDelivery_def find_update_first_same failed_def)
  show ?thesis
    using f nx by (auto simp: d' failed_def retry_allowed_def)
qed

definition demo_failure :: fail_input where
  "demo_failure = \<lparr> fai_id = ''outbound_0'', fai_error = ''timeout'', fai_retryable = None,
     fai_retryDelayMs = None, fai_now = Some (Instant 10) \<rparr>"

lemma nat_str_0: "nat_str 0 = ''0''"
  by code_simp

lemma outbound_demo_row:
  "\<exists>d. findOutboundDelivery outbound_demo ''outbound_0'' = Some d \<and> ob_attempts d = 0 \<and> ob_maxAttempts d = 2"
  by (simp add: outbound_demo_def findOutboundDelivery_def enqueueOutboundDelivery_def take_time_def
      take_id_def createId_def demo_snapshot createSeedSnapshot_def new_outbound_def demo_env_def
      demo_store_def newStore_def nat_str_0 normalizeOutboundMaxAttempts_def Let_def modify_def)

theorem failed_delivery_outcome_witness:
  "\<exists>d'. fst (failOutboundDelivery demo_env demo_failure outbound_demo) = Inr d'
    \<and> ob_nextAttemptAt d' = Some (Instant 1010)"
proof -
  have i: "fai_id demo_failure = ''outbound_0''" by (simp add: demo_failure_def)
  obtain d where d: "findOutboundDelivery outbound_demo (fai_id demo_failure) = Some d"
    "ob_attempts d = 0" "ob_maxAttempts d = 2"
    using outbound_demo_row i by auto
  then obtain d' where d': "fst (failOutboundDelivery demo_env demo_failure outbound_demo) = Inr d'"
    by (simp add: failOutboundDelivery_def retry_allowed_def take_time_def date_plus_def max_date_ms_def
        demo_failure_def)
  from failed_delivery_outcome [OF d(1) d'] d(2,3) d' show ?thesis
    by (auto simp: take_time_def demo_failure_def)
qed

text \<open>
  Enqueuing an existing failed key requeues it with the attempts it made, so that one more
  attempt exceeds the number allowed.
\<close>

lemma reenqueued_delivery_exceeds:
  assumes "List.find (\<lambda>d. ob_key d = obi_key input) (sn_outboundDeliveries (st_snapshot st)) = Some d"
    and "ob_status d = Out_failed" "ob_attempts d = normalizeOutboundMaxAttempts (obi_maxAttempts input)"
  shows "\<exists>d'. fst (enqueueOutboundDelivery E input st) = Inr d' \<and> ob_status d' = Out_queued
    \<and> ob_attempts d' = ob_maxAttempts d' \<and> ob_attempts (begun t d') > ob_maxAttempts (begun t d')"
  using assms
  by (simp add: enqueueOutboundDelivery_def updated_outbound_def begun_def Let_def split_def)

text \<open>
  Memory round trip. Recorded chunks are listed after the chunks already there, in order,
  with their text redacted and every binding and access list as given; nothing else changes.
\<close>

theorem memory_round_trip:
  "fst (recordMemoryChunks E inputs st) = Inr (drop (length (listMemoryChunks st))
       (listMemoryChunks (snd (recordMemoryChunks E inputs st))))
   \<and> (\<exists>idents. length idents = length inputs
       \<and> listMemoryChunks (snd (recordMemoryChunks E inputs st)) = listMemoryChunks st
           @ map2 (\<lambda>i input. make_chunk i (org_of st) input) idents inputs)
   \<and> sn_memoryChunks_update (\<lambda>_. None) (st_snapshot (snd (recordMemoryChunks E inputs st)))
      = sn_memoryChunks_update (\<lambda>_. None) (st_snapshot st)"
proof -
  have push: "\<exists>idents. length idents = length inputs
       \<and> fst (push_chunks E inputs st) = map2 (\<lambda>i input. make_chunk i (org_of st) input) idents inputs
       \<and> st_snapshot (snd (push_chunks E inputs st)) = (st_snapshot st)\<lparr>sn_memoryChunks :=
           Some (cs @ map2 (\<lambda>i input. make_chunk i (org_of st) input) idents inputs)\<rparr>"
    if "sn_memoryChunks (st_snapshot st) = Some cs" for cs st
    using that
  proof (induction inputs arbitrary: st cs)
    case Nil
    then show ?case by simp
  next
    case (Cons input inputs)
    let ?i = "fst (take_id E ''memchunk'' st)" and ?st1 = "snd (take_id E ''memchunk'' st)"
    let ?c = "make_chunk ?i (org_of st) input"
    let ?st2 = "modify (sn_memoryChunks_update (\<lambda>cs. Some (or_else cs [] @ [?c]))) ?st1"
    have "sn_memoryChunks (st_snapshot ?st2) = Some (cs @ [?c])"
      using Cons.prems by simp
    from Cons.IH [OF this] obtain idents where ids: "length idents = length inputs"
      "fst (push_chunks E inputs ?st2) = map2 (\<lambda>i input. make_chunk i (org_of st) input) idents inputs"
      "st_snapshot (snd (push_chunks E inputs ?st2)) = (st_snapshot ?st2)\<lparr>sn_memoryChunks :=
           Some ((cs @ [?c]) @ map2 (\<lambda>i input. make_chunk i (org_of st) input) idents inputs)\<rparr>"
      by auto
    then show ?case
      using Cons.prems by (intro exI [of _ "?i # idents"]) (simp add: Let_def split_def)
  qed
  let ?st0 = "modify (sn_memoryChunks_update (\<lambda>cs. Some (or_else cs []))) st"
  have "sn_memoryChunks (st_snapshot ?st0) = Some (listMemoryChunks st)"
    by (simp add: listMemoryChunks_def)
  from push [OF this] obtain idents where ids: "length idents = length inputs"
    "fst (push_chunks E inputs ?st0) = map2 (\<lambda>i input. make_chunk i (org_of st) input) idents inputs"
    "st_snapshot (snd (push_chunks E inputs ?st0)) = (st_snapshot ?st0)\<lparr>sn_memoryChunks :=
           Some (listMemoryChunks st @ map2 (\<lambda>i input. make_chunk i (org_of st) input) idents inputs)\<rparr>"
    by auto
  have l: "listMemoryChunks (snd (recordMemoryChunks E inputs st)) = listMemoryChunks st
           @ map2 (\<lambda>i input. make_chunk i (org_of st) input) idents inputs"
    using ids(3) by (simp add: recordMemoryChunks_def listMemoryChunks_def Let_def split_def)
  have f: "fst (recordMemoryChunks E inputs st) = Inr (map2 (\<lambda>i input. make_chunk i (org_of st) input) idents inputs)"
    using ids(2) by (simp add: recordMemoryChunks_def Let_def split_def)
  show ?thesis
    unfolding f l using ids(1,3)
    by (intro conjI) (auto simp: recordMemoryChunks_def Let_def split_def)
qed

end
