(* ===== verification/Worker_Types.thy ===== *)
theory Worker_Types
  imports Runs
begin

text \<open>
  The data of the worker queue, \<^verbatim>\<open>packages/worker/src/index.ts\<close>, with the work items, results and
  observability events it takes from \<^verbatim>\<open>packages/runtime/src/index.ts\<close>, and the pure helpers of
  the queue: the table of attempt states, the idempotency key, the retry delay, the sequential id
  factory. The lemmas bound the retry delay and show that generated ids are unique.
\<close>

section \<open>Work items and results\<close>

datatype work_reason = Reason_new_run | Reason_approval_granted | Reason_retry | Reason_resume

fun work_reason_str :: "work_reason \<Rightarrow> string" where
  "work_reason_str Reason_new_run = ''new_run''"
| "work_reason_str Reason_approval_granted = ''approval_granted''"
| "work_reason_str Reason_retry = ''retry''"
| "work_reason_str Reason_resume = ''resume''"

record run_work_item =
  wi_orgId :: string
  wi_runId :: string
  wi_attempt :: int
  wi_reason :: work_reason
  wi_traceId :: string
  wi_enqueuedAt :: iso_date

datatype artifact_kind =
  Art_patch | Art_log | Art_test_report | Art_screenshot | Art_summary | Art_other

record runtime_artifact_ref =
  ar_id :: string
  ar_kind :: artifact_kind
  ar_contentHash :: string
  ar_sizeBytes :: int
  ar_uri :: "string option"

datatype runtime_result_status = Res_completed | Res_awaiting_approval | Res_failed | Res_cancelled

record runtime_result =
  rr_status :: runtime_result_status
  rr_finalText :: "string option"
  rr_artifactRefs :: "runtime_artifact_ref list"
  rr_actualCostCents :: int
  rr_error :: "string option"

datatype runtime_event_type =
    Rt_worker_claimed | Rt_runtime_selected | Rt_runtime_started | Rt_runtime_completed
  | Rt_model_requested | Rt_model_completed | Rt_budget_checked | Rt_sandbox_requested
  | Rt_sandbox_started | Rt_sandbox_network_changed | Rt_sandbox_command_started
  | Rt_sandbox_command_completed | Rt_sandbox_artifact_created | Rt_tool_requested
  | Rt_tool_approved | Rt_tool_denied | Rt_tool_completed | Rt_credential_leased
  | Rt_credential_revoked

record runtime_event =
  re_type :: runtime_event_type
  re_message :: string
  re_data :: "json option"

section \<open>Queue records\<close>

datatype worker_lifecycle_event_type =
    Lc_enqueued | Lc_heartbeat | Lc_lease_expired | Lc_retry_scheduled | Lc_approval_waiting
  | Lc_approval_resumed | Lc_approval_blocked | Lc_cancel_requested | Lc_redrive_enqueued
  | Lc_completed | Lc_failed | Lc_dead_lettered | Lc_cancelled

datatype worker_event_type =
  Runtime_event runtime_event_type | Lifecycle worker_lifecycle_event_type

datatype work_status =
    Work_queued | Work_claimed | Work_awaiting_approval | Work_completed | Work_failed
  | Work_cancelled | Work_dead

fun work_status_str :: "work_status \<Rightarrow> string" where
  "work_status_str Work_queued = ''queued''"
| "work_status_str Work_claimed = ''claimed''"
| "work_status_str Work_awaiting_approval = ''awaiting_approval''"
| "work_status_str Work_completed = ''completed''"
| "work_status_str Work_failed = ''failed''"
| "work_status_str Work_cancelled = ''cancelled''"
| "work_status_str Work_dead = ''dead''"

datatype attempt_state =
    At_queued | At_claimed | At_awaiting_approval | At_retry_scheduled | At_cancel_requested
  | At_completed | At_cancelled | At_dead_lettered

fun attempt_state_str :: "attempt_state \<Rightarrow> string" where
  "attempt_state_str At_queued = ''queued''"
| "attempt_state_str At_claimed = ''claimed''"
| "attempt_state_str At_awaiting_approval = ''awaiting_approval''"
| "attempt_state_str At_retry_scheduled = ''retry_scheduled''"
| "attempt_state_str At_cancel_requested = ''cancel_requested''"
| "attempt_state_str At_completed = ''completed''"
| "attempt_state_str At_cancelled = ''cancelled''"
| "attempt_state_str At_dead_lettered = ''dead_lettered''"

fun workerRunAttemptStateTransitions :: "attempt_state \<Rightarrow> attempt_state list" where
  "workerRunAttemptStateTransitions At_queued = [At_claimed, At_cancelled]"
| "workerRunAttemptStateTransitions At_claimed =
     [At_queued, At_awaiting_approval, At_retry_scheduled, At_cancel_requested, At_completed,
      At_cancelled, At_dead_lettered]"
| "workerRunAttemptStateTransitions At_awaiting_approval = [At_queued, At_cancelled]"
| "workerRunAttemptStateTransitions At_retry_scheduled = []"
| "workerRunAttemptStateTransitions At_cancel_requested = [At_cancelled]"
| "workerRunAttemptStateTransitions At_completed = []"
| "workerRunAttemptStateTransitions At_cancelled = []"
| "workerRunAttemptStateTransitions At_dead_lettered = []"

definition canTransitionRunAttemptState :: "attempt_state \<Rightarrow> attempt_state \<Rightarrow> bool" where
  "canTransitionRunAttemptState current nxt =
     (current = nxt \<or> nxt \<in> set (workerRunAttemptStateTransitions current))"

record worker_retry_policy =
  wp_maxAttempts :: int
  wp_baseDelayMs :: int
  wp_maxDelayMs :: int

definition defaultWorkerRetryPolicy :: worker_retry_policy where
  "defaultWorkerRetryPolicy = \<lparr> wp_maxAttempts = 3, wp_baseDelayMs = 1000, wp_maxDelayMs = 30000 \<rparr>"

record worker_lease =
  wl_id :: string
  wl_idempotencyKey :: string
  wl_workerId :: string
  wl_orgId :: string
  wl_runId :: string
  wl_attempt :: int
  wl_traceId :: string
  wl_claimedAt :: iso_date
  wl_heartbeatAt :: iso_date
  wl_expiresAt :: iso_date

record worker_approval_gate =
  wg_approvalId :: string
  wg_payloadHash :: string
  wg_payloadMetadata :: "json option"
  wg_action :: string
  wg_risk :: risk_level
  wg_status :: approval_status
  wg_createdAt :: iso_date
  wg_expiresAt :: iso_date

record worker_work_record =
  wr_id :: string
  wr_sequence :: int
  wr_idempotencyKey :: string
  wr_item :: run_work_item
  wr_status :: work_status
  wr_attemptState :: attempt_state
  wr_availableAt :: iso_date
  wr_createdAt :: iso_date
  wr_updatedAt :: iso_date
  wr_lease :: "worker_lease option"
  wr_approval :: "worker_approval_gate option"
  wr_retryOf :: "string option"
  wr_cancelRequestedAt :: "iso_date option"
  wr_cancelReason :: "string option"
  wr_terminalReason :: "string option"
  wr_result :: "runtime_result option"

record worker_dead_letter =
  wd_id :: string
  wd_sequence :: int
  wd_workId :: string
  wd_idempotencyKey :: string
  wd_item :: run_work_item
  wd_reason :: string
  wd_failedAt :: iso_date
  wd_result :: runtime_result
  wd_retryPolicy :: worker_retry_policy

record worker_event =
  we_id :: string
  we_sequence :: int
  we_type :: worker_event_type
  we_orgId :: string
  we_runId :: string
  we_attempt :: "int option"
  we_traceId :: "string option"
  we_message :: string
  we_data :: "json option"
  we_createdAt :: iso_date

record worker_event_input =
  wei_type :: worker_event_type
  wei_orgId :: string
  wei_runId :: string
  wei_attempt :: "int option"
  wei_traceId :: "string option"
  wei_message :: string
  wei_data :: "json option"
  wei_now :: "iso_date option"

record worker_snapshot =
  ws_records :: "worker_work_record list"
  ws_deadLetters :: "worker_dead_letter list"
  ws_events :: "worker_event list"

section \<open>Helpers\<close>

definition createWorkerIdempotencyKey :: "run_work_item \<Rightarrow> string" where
  "createWorkerIdempotencyKey item =
     ''run_attempt:'' @ wi_orgId item @ '':'' @ wi_runId item @ '':'' @ int_str (wi_attempt item)"

definition isActiveStatus :: "work_status \<Rightarrow> bool" where
  "isActiveStatus status =
     (status = Work_queued \<or> status = Work_claimed \<or> status = Work_awaiting_approval)"

definition assertRetryPolicy :: "worker_retry_policy \<Rightarrow> js_error option" where
  "assertRetryPolicy policy =
     (if wp_maxAttempts policy < 1 then Some (Error ''maxAttempts must be at least 1.'')
      else if wp_baseDelayMs policy \<le> 0 \<or> wp_maxDelayMs policy \<le> 0
      then Some (Error ''Retry delays must be positive.'')
      else None)"

definition retryDelayMs :: "int \<Rightarrow> worker_retry_policy \<Rightarrow> js_error + int" where
  "retryDelayMs failedAttempt policy =
     (case assertRetryPolicy policy of
        Some e \<Rightarrow> Inl e
      | None \<Rightarrow>
          (let exponent = max 0 (failedAttempt - 1)
           in Inr (min (wp_maxDelayMs policy) (wp_baseDelayMs policy * 2 ^ nat exponent))))"

definition sequential_id :: "nat \<Rightarrow> string \<Rightarrow> string" where
  "sequential_id n pre = pre @ ''_'' @ pad_start 4 CHR ''0'' (nat_str n)"

text \<open>
  \<open>createSequentialIdFactory start\<close> is a closure over a counter: the draw number \<open>k\<close> (from zero)
  gives the number \<open>start + k\<close>.
\<close>

definition createSequentialIdFactory :: "nat \<Rightarrow> nat \<Rightarrow> string \<Rightarrow> string" where
  "createSequentialIdFactory start = (\<lambda>k pre. sequential_id (start + k) pre)"

definition approvalGateFromRequest :: "approval_request \<Rightarrow> worker_approval_gate" where
  "approvalGateFromRequest approval =
     \<lparr> wg_approvalId = ap_id approval, wg_payloadHash = ap_payloadHash approval,
       wg_payloadMetadata = ap_payloadMetadata approval, wg_action = ap_action approval,
       wg_risk = ap_risk approval, wg_status = ap_status approval,
       wg_createdAt = ap_createdAt approval, wg_expiresAt = ap_expiresAt approval \<rparr>"

definition max_of :: "int list \<Rightarrow> int" where
  "max_of xs = foldl max 0 xs"

definition maxWorkerSequence :: "worker_snapshot \<Rightarrow> int" where
  "maxWorkerSequence sn =
     max_of (map wr_sequence (ws_records sn) @ map wd_sequence (ws_deadLetters sn)
             @ map we_sequence (ws_events sn))"

definition suffix_rx :: rx where
  "suffix_rx = rx_seq [chr CHR ''_'', Grp 1 (plus (Cls (in_range CHR ''0'' CHR ''9''))), AtEnd]"

definition idNumericSuffix :: "string \<Rightarrow> nat" where
  "idNumericSuffix ident =
     (case rx_exec suffix_rx ident of None \<Rightarrow> 0 | Some caps \<Rightarrow> read_digits (capture caps 1))"

definition maxWorkerGeneratedId :: "worker_snapshot \<Rightarrow> int" where
  "maxWorkerGeneratedId sn =
     max_of (concat (map (\<lambda>r. [int (idNumericSuffix (wr_id r)),
                               (case wr_lease r of None \<Rightarrow> 0 | Some l \<Rightarrow> int (idNumericSuffix (wl_id l)))])
                       (ws_records sn))
             @ map (\<lambda>d. int (idNumericSuffix (wd_id d))) (ws_deadLetters sn)
             @ map (\<lambda>e. int (idNumericSuffix (we_id e))) (ws_events sn))"

section \<open>Ids\<close>

text \<open>What the queue needs of an id factory: no two draws give the same id.\<close>

locale fresh_ids =
  fixes make :: "nat \<Rightarrow> string \<Rightarrow> string"
  assumes fresh: "make m p = make n q \<Longrightarrow> m = n"
begin

lemma distinct_draws: "distinct (map (\<lambda>(n, p). make n p) xs)" if "distinct (map fst xs)"
  using that by (induction xs) (auto, force dest: fresh)

lemma later_not_earlier: "n \<notin> ns \<Longrightarrow> make n p \<notin> (\<lambda>(m, q). make m q) ` (ns \<times> UNIV)"
  using fresh by auto

end

lemma pad_digits: "c \<in> set (pad_start k CHR ''0'' (nat_str n)) \<Longrightarrow> c \<noteq> CHR ''_''"
  using nat_str_digits [of c n] by (auto simp: pad_start_def)

lemma underscore_split:
  assumes "CHR ''_'' \<notin> set a" "CHR ''_'' \<notin> set b" "p @ ''_'' @ a = q @ ''_'' @ b"
  shows "a = b"
proof -
  have tw: "takeWhile (\<lambda>c. c \<noteq> CHR ''_'') (rev (r @ ''_'' @ s)) = rev s" if "CHR ''_'' \<notin> set s" for r s
    using that by (simp, subst takeWhile_append2) auto
  have "rev a = takeWhile (\<lambda>c. c \<noteq> CHR ''_'') (rev (p @ ''_'' @ a))"
    by (rule tw [OF assms(1), symmetric])
  also have "\<dots> = rev b"
    unfolding assms(3) by (rule tw [OF assms(2)])
  finally show ?thesis by simp
qed

lemma sequential_id_inj: "sequential_id m p = sequential_id n q \<Longrightarrow> m = n"
proof -
  assume "sequential_id m p = sequential_id n q"
  then have "pad_start 4 CHR ''0'' (nat_str m) = pad_start 4 CHR ''0'' (nat_str n)"
    unfolding sequential_id_def by (rule underscore_split [rotated 2]) (auto dest: pad_digits)
  then have "read_digits (pad_start 4 CHR ''0'' (nat_str m)) = read_digits (pad_start 4 CHR ''0'' (nat_str n))"
    by simp
  then show "m = n" by simp
qed

interpretation sequential: fresh_ids "createSequentialIdFactory start" for start
  by unfold_locales (auto simp: createSequentialIdFactory_def dest: sequential_id_inj)

section \<open>Retry delays\<close>

lemma retry_pow_mono: "a \<le> b \<Longrightarrow> (0::int) \<le> c \<Longrightarrow> c * 2 ^ nat (max 0 (a - 1)) \<le> c * 2 ^ nat (max 0 (b - 1))"
  by (intro mult_left_mono power_increasing) auto

text \<open>
  Retry delays. Under a policy that passes its check the delay before a retry is positive and
  at most the maximum, starts at the base delay (or the maximum, when that is lower), and grows
  with the attempt: it doubles until it reaches the maximum. Under any other policy the
  computation is refused.
\<close>

theorem retry_delay_bounds:
  assumes "retryDelayMs a policy = Inr d"
  shows "0 < d \<and> d \<le> wp_maxDelayMs policy
    \<and> (a \<le> 1 \<longrightarrow> d = min (wp_maxDelayMs policy) (wp_baseDelayMs policy))
    \<and> (\<exists>d'. retryDelayMs (a + 1) policy = Inr d' \<and> d \<le> d'
         \<and> (1 \<le> a \<longrightarrow> d' = min (wp_maxDelayMs policy) (2 * d)))
    \<and> 1 \<le> wp_maxAttempts policy"
proof -
  have p: "0 < wp_baseDelayMs policy" "0 < wp_maxDelayMs policy" "1 \<le> wp_maxAttempts policy"
    and ok: "assertRetryPolicy policy = None"
    using assms by (auto simp: retryDelayMs_def assertRetryPolicy_def split: if_splits)
  have d: "d = min (wp_maxDelayMs policy) (wp_baseDelayMs policy * 2 ^ nat (max 0 (a - 1)))"
    using assms ok by (simp add: retryDelayMs_def)
  let ?d' = "min (wp_maxDelayMs policy) (wp_baseDelayMs policy * 2 ^ nat (max 0 (a + 1 - 1)))"
  have "retryDelayMs (a + 1) policy = Inr ?d'"
    using ok by (simp add: retryDelayMs_def)
  moreover have "d \<le> ?d'"
    unfolding d using retry_pow_mono [of a "a + 1" "wp_baseDelayMs policy"] p by linarith
  moreover have "?d' = min (wp_maxDelayMs policy) (2 * d)" if "1 \<le> a"
  proof -
    have e: "nat (max 0 (a + 1 - 1)) = Suc (nat (max 0 (a - 1)))"
      using that by linarith
    have "wp_baseDelayMs policy * 2 ^ nat (max 0 (a + 1 - 1))
        = 2 * (wp_baseDelayMs policy * 2 ^ nat (max 0 (a - 1)))" unfolding e by simp
    then show ?thesis unfolding d using p by linarith
  qed
  moreover have "0 < d"
    unfolding d using p by simp
  ultimately show ?thesis using p d by auto
qed

theorem retry_delay_bounds_witness:
  "retryDelayMs 6 defaultWorkerRetryPolicy = Inr 30000 \<and> (30000::int) \<le> wp_maxDelayMs defaultWorkerRetryPolicy"
proof -
  have r: "retryDelayMs 6 defaultWorkerRetryPolicy = Inr 30000"
    by (simp add: retryDelayMs_def assertRetryPolicy_def defaultWorkerRetryPolicy_def)
  with retry_delay_bounds [OF r] show ?thesis by simp
qed

end
