(* ===== verification/Worker_Queue.thy ===== *)
theory Worker_Queue
  imports Worker_Types
begin

text \<open>
  \<open>InMemoryWorkerQueue\<close>, \<^verbatim>\<open>packages/worker/src/index.ts\<close>: the records, dead letters and events of
  the queue with its sequence counter, and one definition per method. Records are only appended,
  so a reference to a record is its index. The id factory, the clock and the retry policy are the
  configuration; the state counts the draws from the first two. \<open>wq_sink\<close> is what an
  \<open>InMemoryWorkerEventSink\<close> attached to the queue has received.
\<close>

record worker_config =
  wc_idFactory :: "nat \<Rightarrow> string \<Rightarrow> string"
  wc_now :: "nat \<Rightarrow> iso_date"
  wc_retryPolicy :: worker_retry_policy

record worker_queue =
  wq_records :: "worker_work_record list"
  wq_deadLetters :: "worker_dead_letter list"
  wq_events :: "worker_event list"
  wq_nextSequence :: int
  wq_draws :: nat
  wq_ticks :: nat
  wq_sink :: "worker_event list"

section \<open>Construction and reading\<close>

definition by_sequence :: "('a \<Rightarrow> int) \<Rightarrow> 'a \<Rightarrow> 'a \<Rightarrow> bool" where
  "by_sequence sq a b = (sq a \<le> sq b)"

definition empty_queue :: worker_queue where
  "empty_queue = \<lparr> wq_records = [], wq_deadLetters = [], wq_events = [], wq_nextSequence = 1,
     wq_draws = 0, wq_ticks = 0, wq_sink = [] \<rparr>"

text \<open>
  The constructor with an initial snapshot and the default id factory; the factory starts above
  the next sequence number and above every number at the end of an id in the snapshot.
\<close>

definition newQueue :: "worker_snapshot option \<Rightarrow> worker_queue" where
  "newQueue initialSnapshot =
     (case initialSnapshot of
        None \<Rightarrow> empty_queue
      | Some sn \<Rightarrow> empty_queue
          \<lparr>wq_records := sort_by (by_sequence wr_sequence) (ws_records sn),
           wq_deadLetters := sort_by (by_sequence wd_sequence) (ws_deadLetters sn),
           wq_events := sort_by (by_sequence we_sequence) (ws_events sn),
           wq_nextSequence := maxWorkerSequence sn + 1\<rparr>)"

definition defaultIdFactory :: "worker_snapshot option \<Rightarrow> nat \<Rightarrow> string \<Rightarrow> string" where
  "defaultIdFactory initialSnapshot =
     createSequentialIdFactory
       (case initialSnapshot of
          None \<Rightarrow> 1
        | Some sn \<Rightarrow> nat (max (maxWorkerSequence sn + 1) (maxWorkerGeneratedId sn + 1)))"

definition read_queue :: "worker_queue \<Rightarrow> worker_snapshot" where
  "read_queue q =
     \<lparr> ws_records = sort_by (by_sequence wr_sequence) (wq_records q),
       ws_deadLetters = sort_by (by_sequence wd_sequence) (wq_deadLetters q),
       ws_events = sort_by (by_sequence we_sequence) (wq_events q) \<rparr>"

definition read_sink :: "worker_queue \<Rightarrow> worker_event list" where
  "read_sink q = sort_by (by_sequence we_sequence) (wq_sink q)"

section \<open>Steps every method is made of\<close>

text \<open>Sequencing: an exception ends the method and keeps the state reached.\<close>

definition andThen :: "('s \<Rightarrow> ('s, 'a) outcome) \<Rightarrow> ('a \<Rightarrow> 's \<Rightarrow> ('s, 'b) outcome) \<Rightarrow> 's \<Rightarrow> ('s, 'b) outcome" where
  "andThen m f s = (case m s of (Inl e, s') \<Rightarrow> (Inl e, s') | (Inr x, s') \<Rightarrow> f x s')"

definition returns :: "'a \<Rightarrow> 's \<Rightarrow> ('s, 'a) outcome" where
  "returns x s = (Inr x, s)"

definition lift_sum :: "js_error + 'a \<Rightarrow> 's \<Rightarrow> ('s, 'a) outcome" where
  "lift_sum r s = (r, s)"

definition updating :: "('s \<Rightarrow> 's) \<Rightarrow> 's \<Rightarrow> ('s, unit) outcome" where
  "updating f s = (Inr (), f s)"

definition now_or_clock :: "worker_config \<Rightarrow> iso_date option \<Rightarrow> worker_queue \<Rightarrow> iso_date \<times> worker_queue" where
  "now_or_clock C given q =
     (case given of
        Some t \<Rightarrow> (t, q)
      | None \<Rightarrow> (wc_now C (wq_ticks q), q\<lparr>wq_ticks := wq_ticks q + 1\<rparr>))"

definition draw_id :: "worker_config \<Rightarrow> string \<Rightarrow> worker_queue \<Rightarrow> string \<times> worker_queue" where
  "draw_id C pre q = (wc_idFactory C (wq_draws q) pre, q\<lparr>wq_draws := wq_draws q + 1\<rparr>)"

definition next_sequence :: "worker_queue \<Rightarrow> int \<times> worker_queue" where
  "next_sequence q = (wq_nextSequence q, q\<lparr>wq_nextSequence := wq_nextSequence q + 1\<rparr>)"

definition record_at :: "worker_queue \<Rightarrow> nat \<Rightarrow> worker_work_record" where
  "record_at q i = wq_records q ! i"

definition set_rec :: "nat \<Rightarrow> (worker_work_record \<Rightarrow> worker_work_record) \<Rightarrow> worker_queue \<Rightarrow> worker_queue" where
  "set_rec i f q = q\<lparr>wq_records := (wq_records q)[i := f (wq_records q ! i)]\<rparr>"

definition find_index :: "(worker_work_record \<Rightarrow> bool) \<Rightarrow> worker_queue \<Rightarrow> nat option" where
  "find_index P q = List.find (\<lambda>i. P (wq_records q ! i)) [0 ..< length (wq_records q)]"

definition findByLeaseId :: "string \<Rightarrow> worker_queue \<Rightarrow> nat option" where
  "findByLeaseId leaseId = find_index (\<lambda>r. map_option wl_id (wr_lease r) = Some leaseId)"

definition addMs :: "iso_date \<Rightarrow> int \<Rightarrow> js_error + iso_date" where
  "addMs = date_plus"

definition emit :: "worker_config \<Rightarrow> worker_event_input \<Rightarrow> worker_queue \<Rightarrow> worker_event \<times> worker_queue" where
  "emit C input q =
     (let (ident, q1) = draw_id C ''event'' q;
          (sq, q2) = next_sequence q1;
          (createdAt, q3) = now_or_clock C (wei_now input) q2;
          event = \<lparr> we_id = ident, we_sequence = sq, we_type = wei_type input,
            we_orgId = wei_orgId input, we_runId = wei_runId input, we_attempt = wei_attempt input,
            we_traceId = wei_traceId input, we_message = redactSecrets (wei_message input),
            we_data = map_option redactUnknown (wei_data input), we_createdAt = createdAt \<rparr>
      in (event, q3\<lparr>wq_events := wq_events q3 @ [event], wq_sink := wq_sink q3 @ [event]\<rparr>))"

text \<open>The events a method emits about a record carry its item's org, run, attempt and trace.\<close>

definition emit_for :: "worker_config \<Rightarrow> nat \<Rightarrow> worker_event_type \<Rightarrow> string \<Rightarrow> json option \<Rightarrow> iso_date
    \<Rightarrow> worker_queue \<Rightarrow> worker_queue" where
  "emit_for C i type message data now q =
     (let item = wr_item (record_at q i) in
      snd (emit C \<lparr> wei_type = type, wei_orgId = wi_orgId item, wei_runId = wi_runId item,
        wei_attempt = Some (wi_attempt item), wei_traceId = Some (wi_traceId item),
        wei_message = message, wei_data = data, wei_now = Some now \<rparr> q))"

definition transitionRecord :: "nat \<Rightarrow> work_status \<Rightarrow> attempt_state \<Rightarrow> iso_date \<Rightarrow> worker_queue
    \<Rightarrow> (worker_queue, unit) outcome" where
  "transitionRecord i status attemptState now q =
     (let current = wr_attemptState (record_at q i) in
      if \<not> canTransitionRunAttemptState current attemptState
      then (Inl (Error (''Invalid run attempt transition '' @ attempt_state_str current @ '' -> ''
                   @ attempt_state_str attemptState @ ''.'')), q)
      else (Inr (), set_rec i (\<lambda>r. r\<lparr>wr_status := status, wr_attemptState := attemptState,
                                     wr_updatedAt := now\<rparr>) q))"

definition fresh_record :: "string \<Rightarrow> int \<Rightarrow> run_work_item \<Rightarrow> iso_date \<Rightarrow> iso_date \<Rightarrow> string option
    \<Rightarrow> worker_work_record" where
  "fresh_record ident sq item availableAt now retryOf =
     \<lparr> wr_id = ident, wr_sequence = sq, wr_idempotencyKey = createWorkerIdempotencyKey item,
       wr_item = item, wr_status = Work_queued, wr_attemptState = At_queued,
       wr_availableAt = availableAt, wr_createdAt = now, wr_updatedAt = now, wr_lease = None,
       wr_approval = None, wr_retryOf = retryOf, wr_cancelRequestedAt = None, wr_cancelReason = None,
       wr_terminalReason = None, wr_result = None \<rparr>"

text \<open>Append a queued record for an item; its index is returned.\<close>

definition push_record :: "worker_config \<Rightarrow> run_work_item \<Rightarrow> iso_date \<Rightarrow> iso_date \<Rightarrow> string option
    \<Rightarrow> worker_queue \<Rightarrow> nat \<times> worker_queue" where
  "push_record C item availableAt now retryOf q =
     (let (ident, q1) = draw_id C ''work'' q;
          (sq, q2) = next_sequence q1
      in (length (wq_records q2),
          q2\<lparr>wq_records := wq_records q2 @ [fresh_record ident sq item availableAt now retryOf]\<rparr>))"

section \<open>Enqueue\<close>

record enqueue_input =
  eni_item :: run_work_item
  eni_availableAt :: "iso_date option"
  eni_now :: "iso_date option"

datatype enqueue_decision =
    Enqueued worker_work_record
  | Duplicate worker_work_record

definition enqueue :: "worker_config \<Rightarrow> enqueue_input \<Rightarrow> worker_queue \<Rightarrow> enqueue_decision \<times> worker_queue" where
  "enqueue C input q =
     (let (now, q1) = now_or_clock C (eni_now input) q;
          idempotencyKey = createWorkerIdempotencyKey (eni_item input) in
      case find_index (\<lambda>r. wr_idempotencyKey r = idempotencyKey \<and> isActiveStatus (wr_status r)) q1 of
        Some i \<Rightarrow> (Duplicate (record_at q1 i), q1)
      | None \<Rightarrow>
          (let (i, q2) = push_record C (eni_item input)
                 (or_else (eni_availableAt input) (wi_enqueuedAt (eni_item input))) now None q1;
               reason = work_reason_str (wi_reason (eni_item input));
               q3 = emit_for C i (Lifecycle Lc_enqueued) (''Queued run work for '' @ reason @ ''.'')
                      (Some (JObj [(''reason'', JStr reason)])) now q2
           in (Enqueued (record_at q3 i), q3)))"

section \<open>Leases\<close>

definition lease_expired :: "iso_date \<Rightarrow> worker_work_record \<Rightarrow> bool" where
  "lease_expired now r \<longleftrightarrow>
     (case wr_lease r of None \<Rightarrow> False | Some l \<Rightarrow> date_le (wl_expiresAt l) now)"

definition expireClaimedRecord :: "worker_config \<Rightarrow> nat \<Rightarrow> iso_date \<Rightarrow> string \<Rightarrow> worker_queue
    \<Rightarrow> (worker_queue, unit) outcome" where
  "expireClaimedRecord C i now message q =
     (if wr_cancelRequestedAt (record_at q i) \<noteq> None then
        andThen (transitionRecord i Work_cancelled At_cancelled now) (\<lambda>_ q1.
          let reason = or_else (wr_cancelReason (record_at q1 i)) ''Run cancellation requested.'';
              q2 = set_rec i (\<lambda>r. r\<lparr>wr_lease := None, wr_terminalReason := Some reason\<rparr>) q1
          in (Inr (), emit_for C i (Lifecycle Lc_cancelled) reason None now q2)) q
      else
        andThen (transitionRecord i Work_queued At_queued now) (\<lambda>_ q1.
          let q2 = set_rec i (\<lambda>r. r\<lparr>wr_lease := None\<rparr>) q1
          in (Inr (), emit_for C i (Lifecycle Lc_lease_expired) message None now q2)) q)"

fun requeue_loop :: "worker_config \<Rightarrow> iso_date \<Rightarrow> nat list \<Rightarrow> worker_queue
    \<Rightarrow> (worker_queue, worker_work_record list) outcome" where
  "requeue_loop C now [] q = (Inr [], q)"
| "requeue_loop C now (i # is) q =
     (if wr_status (record_at q i) = Work_claimed \<and> lease_expired now (record_at q i) then
        andThen (expireClaimedRecord C i now ''Worker lease expired; work returned to queue.'')
          (\<lambda>_ q1. let expired = record_at q1 i in
             andThen (requeue_loop C now is) (\<lambda>expiredRecords. returns (expired # expiredRecords)) q1) q
      else requeue_loop C now is q)"

definition requeueExpiredLeases :: "worker_config \<Rightarrow> iso_date \<Rightarrow> worker_queue
    \<Rightarrow> (worker_queue, worker_work_record list) outcome" where
  "requeueExpiredLeases C now q = requeue_loop C now [0 ..< length (wq_records q)] q"

definition expireLeases :: "worker_config \<Rightarrow> iso_date option \<Rightarrow> worker_queue
    \<Rightarrow> (worker_queue, worker_work_record list) outcome" where
  "expireLeases C given q =
     (let (now, q1) = now_or_clock C given q in requeueExpiredLeases C now q1)"

section \<open>Claim\<close>

record claim_input =
  cli_workerId :: string
  cli_leaseMs :: int
  cli_now :: "iso_date option"

datatype claim_decision =
    Claimed worker_lease worker_work_record
  | No_available_work

definition parsed :: "iso_date \<Rightarrow> int" where
  "parsed d = (case date_parse d of None \<Rightarrow> 0 | Some t \<Rightarrow> t)"

definition claimable :: "iso_date \<Rightarrow> worker_work_record \<Rightarrow> bool" where
  "claimable now r \<longleftrightarrow> wr_status r = Work_queued \<and> date_le (wr_availableAt r) now"

definition claim_order :: "worker_queue \<Rightarrow> nat \<Rightarrow> nat \<Rightarrow> bool" where
  "claim_order q i j =
     (let a = parsed (wr_availableAt (record_at q i)); b = parsed (wr_availableAt (record_at q j))
      in if a \<noteq> b then a \<le> b else wr_sequence (record_at q i) \<le> wr_sequence (record_at q j))"

definition next_due :: "iso_date \<Rightarrow> worker_queue \<Rightarrow> nat option" where
  "next_due now q =
     (case sort_by (claim_order q) (filter (\<lambda>i. claimable now (record_at q i)) [0 ..< length (wq_records q)]) of
        [] \<Rightarrow> None | i # _ \<Rightarrow> Some i)"

definition claimNext :: "worker_config \<Rightarrow> claim_input \<Rightarrow> worker_queue \<Rightarrow> (worker_queue, claim_decision) outcome" where
  "claimNext C input q =
     (if cli_leaseMs input \<le> 0 then (Inl (Error ''leaseMs must be positive.''), q)
      else
        let (now, q0) = now_or_clock C (cli_now input) q in
        andThen (requeueExpiredLeases C now) (\<lambda>_ q1.
          case next_due now q1 of
            None \<Rightarrow> (Inr No_available_work, q1)
          | Some i \<Rightarrow>
              (let r = record_at q1 i;
                   (ident, q2) = draw_id C ''lease'' q1 in
               andThen (lift_sum (addMs now (cli_leaseMs input))) (\<lambda>expiresAt q2.
                 let lease = \<lparr> wl_id = ident, wl_idempotencyKey = wr_idempotencyKey r,
                       wl_workerId = cli_workerId input, wl_orgId = wi_orgId (wr_item r),
                       wl_runId = wi_runId (wr_item r), wl_attempt = wi_attempt (wr_item r),
                       wl_traceId = wi_traceId (wr_item r), wl_claimedAt = now,
                       wl_heartbeatAt = now, wl_expiresAt = expiresAt \<rparr> in
                 andThen (transitionRecord i Work_claimed At_claimed now) (\<lambda>_ q3.
                   let q4 = set_rec i (\<lambda>r. r\<lparr>wr_lease := Some lease\<rparr>) q3;
                       q5 = emit_for C i (Runtime_event Rt_worker_claimed)
                              (''Worker '' @ cli_workerId input @ '' claimed run work.'')
                              (Some (JObj [(''workerId'', JStr (cli_workerId input)),
                                           (''leaseId'', JStr ident)])) now q4
                   in (Inr (Claimed lease (record_at q5 i)), q5)) q2) q2)) q0)"

section \<open>Heartbeat\<close>

record heartbeat_input =
  hbi_leaseId :: string
  hbi_extendByMs :: "int option"
  hbi_now :: "iso_date option"

datatype heartbeat_decision =
    Hb_continue worker_lease worker_work_record
  | Hb_cancel string worker_work_record
  | Hb_lost_lease string
  | Hb_not_found string

text \<open>\<open>undefined\<close> extends by the length of the lease, which is \<open>NaN\<close> when a date does not parse.\<close>

definition extension :: "int option \<Rightarrow> worker_lease \<Rightarrow> int option" where
  "extension given l =
     (case given of
        Some ms \<Rightarrow> Some ms
      | None \<Rightarrow> (case (date_parse (wl_expiresAt l), date_parse (wl_claimedAt l)) of
                  (Some e, Some c) \<Rightarrow> Some (e - c) | _ \<Rightarrow> None))"

definition heartbeat :: "worker_config \<Rightarrow> heartbeat_input \<Rightarrow> worker_queue
    \<Rightarrow> (worker_queue, heartbeat_decision) outcome" where
  "heartbeat C input q =
     (let (now, q1) = now_or_clock C (hbi_now input) q in
      case findByLeaseId (hbi_leaseId input) q1 of
        None \<Rightarrow> (Inr (Hb_not_found ''Unknown worker lease.''), q1)
      | Some i \<Rightarrow>
      (case wr_lease (record_at q1 i) of
        None \<Rightarrow> (Inr (Hb_lost_lease (''Work is '' @ work_status_str (wr_status (record_at q1 i)) @ '', not claimed.'')), q1)
      | Some lease \<Rightarrow>
        if wr_status (record_at q1 i) \<noteq> Work_claimed
        then (Inr (Hb_lost_lease (''Work is '' @ work_status_str (wr_status (record_at q1 i)) @ '', not claimed.'')), q1)
        else if date_le (wl_expiresAt lease) now then
          andThen (expireClaimedRecord C i now ''Worker lease expired before heartbeat.'')
            (\<lambda>_. returns (Hb_lost_lease ''Worker lease expired.'')) q1
        else if wr_cancelRequestedAt (record_at q1 i) \<noteq> None then
          (Inr (Hb_cancel (or_else (wr_cancelReason (record_at q1 i)) ''Run cancellation requested.'') (record_at q1 i)), q1)
        else
          (case extension (hbi_extendByMs input) lease of
             None \<Rightarrow> (Inl (RangeError ''Invalid time value''), q1)
           | Some extendByMs \<Rightarrow>
             if extendByMs \<le> 0 then (Inl (Error ''extendByMs must be positive.''), q1)
             else
               andThen (lift_sum (addMs now extendByMs)) (\<lambda>expiresAt q1.
                 let renewed = lease\<lparr>wl_heartbeatAt := now, wl_expiresAt := expiresAt\<rparr>;
                     q2 = set_rec i (\<lambda>r. r\<lparr>wr_lease := Some renewed, wr_updatedAt := now\<rparr>) q1;
                     q3 = emit_for C i (Lifecycle Lc_heartbeat) ''Worker heartbeat accepted.''
                            (Some (JObj [(''leaseId'', JStr (wl_id renewed)),
                               (''expiresAt'', JStr (toISOString expiresAt))])) now q2
                 in (Inr (Hb_continue renewed (record_at q3 i)), q3)) q1)))"

section \<open>Settle\<close>

record settle_input =
  sei_leaseId :: string
  sei_result :: runtime_result
  sei_approval :: "approval_request option"
  sei_now :: "iso_date option"

datatype settle_decision =
    Settled_completed worker_work_record
  | Paused_for_approval worker_work_record
  | Retry_scheduled worker_work_record worker_work_record iso_date
  | Dead_lettered worker_work_record worker_dead_letter
  | Settled_cancelled worker_work_record
  | Settle_lost_lease string

definition deadLetterRecord :: "worker_config \<Rightarrow> nat \<Rightarrow> runtime_result \<Rightarrow> iso_date \<Rightarrow> worker_queue
    \<Rightarrow> worker_dead_letter \<times> worker_queue" where
  "deadLetterRecord C i result now q =
     (let (ident, q1) = draw_id C ''dead'' q;
          (sq, q2) = next_sequence q1;
          r = record_at q i;
          deadLetter = \<lparr> wd_id = ident, wd_sequence = sq, wd_workId = wr_id r,
            wd_idempotencyKey = wr_idempotencyKey r, wd_item = wr_item r,
            wd_reason = or_else (wr_terminalReason r) '''', wd_failedAt = now, wd_result = result,
            wd_retryPolicy = wc_retryPolicy C \<rparr>
      in (deadLetter, q2\<lparr>wq_deadLetters := wq_deadLetters q2 @ [deadLetter]\<rparr>))"

definition deadLetter_branch :: "worker_config \<Rightarrow> nat \<Rightarrow> runtime_result \<Rightarrow> iso_date \<Rightarrow> worker_queue
    \<Rightarrow> (worker_queue, settle_decision) outcome" where
  "deadLetter_branch C i result now =
     andThen (transitionRecord i Work_dead At_dead_lettered now) (\<lambda>_ q1.
       let (deadLetter, q2) = deadLetterRecord C i result now q1;
           q3 = emit_for C i (Lifecycle Lc_failed) (wd_reason deadLetter)
                  (Some (JObj [(''maxAttempts'', JNum (wp_maxAttempts (wc_retryPolicy C))),
                               (''deadLetterId'', JStr (wd_id deadLetter))])) now q2;
           q4 = emit_for C i (Lifecycle Lc_dead_lettered) ''Run work moved to dead-letter queue.''
                  (Some (JObj [(''deadLetterId'', JStr (wd_id deadLetter))])) now q3
       in (Inr (Dead_lettered (record_at q4 i) deadLetter), q4))"

definition retryItem_of :: "run_work_item \<Rightarrow> iso_date \<Rightarrow> run_work_item" where
  "retryItem_of item now =
     item\<lparr>wi_attempt := wi_attempt item + 1, wi_reason := Reason_retry, wi_enqueuedAt := now\<rparr>"

definition retry_branch :: "worker_config \<Rightarrow> nat \<Rightarrow> iso_date \<Rightarrow> worker_queue
    \<Rightarrow> (worker_queue, settle_decision) outcome" where
  "retry_branch C i now =
     andThen (transitionRecord i Work_failed At_retry_scheduled now) (\<lambda>_ q1.
       let r = record_at q1 i; item = wr_item r in
       andThen (lift_sum (retryDelayMs (wi_attempt item) (wc_retryPolicy C))) (\<lambda>delay.
       andThen (lift_sum (addMs now delay)) (\<lambda>retryAt q1.
         let retryItem = retryItem_of item now;
             (k, q2) = push_record C retryItem retryAt now (Some (wr_id r)) q1;
             (_, q3) = emit C \<lparr> wei_type = Lifecycle Lc_retry_scheduled, wei_orgId = wi_orgId item,
               wei_runId = wi_runId item, wei_attempt = Some (wi_attempt retryItem),
               wei_traceId = Some (wi_traceId item),
               wei_message = ''Retry '' @ int_str (wi_attempt retryItem) @ '' scheduled.'',
               wei_data = Some (JObj [(''retryAt'', JStr (toISOString retryAt)),
                                      (''previousAttempt'', JNum (wi_attempt item))]),
               wei_now = Some now \<rparr> q2
         in (Inr (Retry_scheduled (record_at q3 i) (record_at q3 k) retryAt), q3))) q1)"

definition settleFailure :: "worker_config \<Rightarrow> nat \<Rightarrow> runtime_result \<Rightarrow> iso_date \<Rightarrow> worker_queue
    \<Rightarrow> (worker_queue, settle_decision) outcome" where
  "settleFailure C i result now q =
     (let q1 = set_rec i (\<lambda>r. r\<lparr>wr_lease := None, wr_result := Some result,
                 wr_terminalReason := Some (or_else (rr_error result) ''Run work failed.''),
                 wr_updatedAt := now\<rparr>) q in
      if wp_maxAttempts (wc_retryPolicy C) \<le> wi_attempt (wr_item (record_at q1 i))
      then deadLetter_branch C i result now q1
      else retry_branch C i now q1)"

definition settle_cancelled :: "worker_config \<Rightarrow> nat \<Rightarrow> runtime_result \<Rightarrow> iso_date \<Rightarrow> worker_queue
    \<Rightarrow> (worker_queue, settle_decision) outcome" where
  "settle_cancelled C i result now =
     andThen (transitionRecord i Work_cancelled At_cancelled now) (\<lambda>_ q1.
       let reason = or_else (wr_cancelReason (record_at q1 i)) (or_else (rr_error result) ''Run cancelled.'');
           q2 = set_rec i (\<lambda>r. r\<lparr>wr_lease := None, wr_result := Some result,
                  wr_terminalReason := Some reason\<rparr>) q1;
           q3 = emit_for C i (Lifecycle Lc_cancelled) reason None now q2
       in (Inr (Settled_cancelled (record_at q3 i)), q3))"

definition settle_completed :: "worker_config \<Rightarrow> nat \<Rightarrow> runtime_result \<Rightarrow> iso_date \<Rightarrow> worker_queue
    \<Rightarrow> (worker_queue, settle_decision) outcome" where
  "settle_completed C i result now =
     andThen (transitionRecord i Work_completed At_completed now) (\<lambda>_ q1.
       let q2 = set_rec i (\<lambda>r. r\<lparr>wr_lease := None, wr_result := Some result,
                  wr_terminalReason := Some (or_else (rr_finalText result) ''Run completed.'')\<rparr>) q1;
           q3 = emit_for C i (Lifecycle Lc_completed) ''Run work completed.''
                  (Some (JObj [(''actualCostCents'', JNum (rr_actualCostCents result))])) now q2
       in (Inr (Settled_completed (record_at q3 i)), q3))"

definition settle_awaiting :: "worker_config \<Rightarrow> nat \<Rightarrow> runtime_result \<Rightarrow> approval_request option
    \<Rightarrow> iso_date \<Rightarrow> worker_queue \<Rightarrow> (worker_queue, settle_decision) outcome" where
  "settle_awaiting C i result approval now q =
     (case approval of
        None \<Rightarrow> (Inl (Error ''Approval result requires an approval request.''), q)
      | Some ap \<Rightarrow>
        if ap_orgId ap \<noteq> wi_orgId (wr_item (record_at q i)) \<or> ap_runId ap \<noteq> wi_runId (wr_item (record_at q i))
        then (Inl (Error ''Approval request does not belong to claimed work.''), q)
        else
          andThen (transitionRecord i Work_awaiting_approval At_awaiting_approval now) (\<lambda>_ q1.
            let q2 = set_rec i (\<lambda>r. r\<lparr>wr_lease := None, wr_result := Some result,
                       wr_approval := Some (approvalGateFromRequest ap)\<rparr>) q1;
                q3 = emit_for C i (Lifecycle Lc_approval_waiting)
                       (''Run is waiting on approval '' @ ap_id ap @ ''.'')
                       (Some (JObj [(''approvalId'', JStr (ap_id ap)), (''action'', JStr (ap_action ap)),
                                    (''risk'', JStr (risk_str (ap_risk ap)))])) now q2
            in (Inr (Paused_for_approval (record_at q3 i)), q3)) q)"

definition settle_active :: "worker_config \<Rightarrow> nat \<Rightarrow> settle_input \<Rightarrow> iso_date \<Rightarrow> worker_queue
    \<Rightarrow> (worker_queue, settle_decision) outcome" where
  "settle_active C i input now q =
     (if wr_cancelRequestedAt (record_at q i) \<noteq> None \<or> rr_status (sei_result input) = Res_cancelled
      then settle_cancelled C i (sei_result input) now q
      else case rr_status (sei_result input) of
        Res_completed \<Rightarrow> settle_completed C i (sei_result input) now q
      | Res_awaiting_approval \<Rightarrow> settle_awaiting C i (sei_result input) (sei_approval input) now q
      | _ \<Rightarrow> settleFailure C i (sei_result input) now q)"

definition settle :: "worker_config \<Rightarrow> settle_input \<Rightarrow> worker_queue
    \<Rightarrow> (worker_queue, settle_decision) outcome" where
  "settle C input q =
     (let (now, q1) = now_or_clock C (sei_now input) q in
      case findByLeaseId (sei_leaseId input) q1 of
        None \<Rightarrow> (Inr (Settle_lost_lease ''Worker lease is not active.''), q1)
      | Some i \<Rightarrow>
        if wr_status (record_at q1 i) \<noteq> Work_claimed \<or> wr_lease (record_at q1 i) = None
        then (Inr (Settle_lost_lease ''Worker lease is not active.''), q1)
        else if lease_expired now (record_at q1 i) then
          andThen (expireClaimedRecord C i now ''Worker lease expired before settlement.'')
            (\<lambda>_. returns (Settle_lost_lease ''Worker lease expired.'')) q1
        else settle_active C i input now q1)"

section \<open>Cancel\<close>

record cancel_input =
  cai_orgId :: string
  cai_runId :: string
  cai_reason :: string
  cai_now :: "iso_date option"

datatype cancel_decision =
    Cancel_requested "worker_work_record list"
  | Already_terminal "worker_work_record list"
  | Cancel_not_found

definition cancel_one :: "worker_config \<Rightarrow> string \<Rightarrow> iso_date \<Rightarrow> nat \<Rightarrow> worker_queue
    \<Rightarrow> (worker_queue, unit) outcome" where
  "cancel_one C reason now i q =
     (let q1 = emit_for C i (Lifecycle Lc_cancel_requested) reason None now
                 (set_rec i (\<lambda>r. r\<lparr>wr_cancelRequestedAt := Some now, wr_cancelReason := Some reason\<rparr>) q) in
      if wr_status (record_at q1 i) \<noteq> Work_claimed then
        andThen (transitionRecord i Work_cancelled At_cancelled now) (\<lambda>_ q2.
          (Inr (), emit_for C i (Lifecycle Lc_cancelled) reason None now
             (set_rec i (\<lambda>r. r\<lparr>wr_lease := None, wr_terminalReason := Some reason\<rparr>) q2))) q1
      else transitionRecord i Work_claimed At_cancel_requested now q1)"

fun cancel_loop :: "worker_config \<Rightarrow> string \<Rightarrow> iso_date \<Rightarrow> nat list \<Rightarrow> worker_queue
    \<Rightarrow> (worker_queue, unit) outcome" where
  "cancel_loop C reason now [] q = (Inr (), q)"
| "cancel_loop C reason now (i # is) q =
     andThen (cancel_one C reason now i) (\<lambda>_. cancel_loop C reason now is) q"

definition indices_where :: "(worker_work_record \<Rightarrow> bool) \<Rightarrow> worker_queue \<Rightarrow> nat list" where
  "indices_where P q = filter (\<lambda>i. P (record_at q i)) [0 ..< length (wq_records q)]"

definition of_run :: "string \<Rightarrow> string \<Rightarrow> worker_work_record \<Rightarrow> bool" where
  "of_run orgId runId r \<longleftrightarrow> wi_orgId (wr_item r) = orgId \<and> wi_runId (wr_item r) = runId"

definition cancelRun :: "worker_config \<Rightarrow> cancel_input \<Rightarrow> worker_queue
    \<Rightarrow> (worker_queue, cancel_decision) outcome" where
  "cancelRun C input q =
     (let (now, q1) = now_or_clock C (cai_now input) q;
          records = indices_where (of_run (cai_orgId input) (cai_runId input)) q1;
          activeRecords = filter (\<lambda>i. isActiveStatus (wr_status (record_at q1 i))) records in
      if records = [] then (Inr Cancel_not_found, q1)
      else if activeRecords = [] then (Inr (Already_terminal (map (record_at q1) records)), q1)
      else
        andThen (cancel_loop C (cai_reason input) now activeRecords) (\<lambda>_ q2.
          (Inr (Cancel_requested (map (record_at q2) activeRecords)), q2)) q1)"

section \<open>Redrive\<close>

record redrive_input =
  rdi_orgId :: string
  rdi_deadLetterId :: string
  rdi_reason :: "string option"
  rdi_traceId :: "string option"
  rdi_now :: "iso_date option"

datatype redrive_decision =
    Redrive_enqueued worker_work_record worker_dead_letter
  | Active_work_exists worker_work_record worker_dead_letter
  | Redrive_not_found string

definition redriveDeadLetter :: "worker_config \<Rightarrow> redrive_input \<Rightarrow> worker_queue
    \<Rightarrow> redrive_decision \<times> worker_queue" where
  "redriveDeadLetter C input q =
     (let (now, q1) = now_or_clock C (rdi_now input) q in
      case List.find (\<lambda>d. wd_id d = rdi_deadLetterId input \<and> wi_orgId (wd_item d) = rdi_orgId input)
             (wq_deadLetters q1) of
        None \<Rightarrow> (Redrive_not_found ''Dead letter not found.'', q1)
      | Some deadLetter \<Rightarrow>
      (case find_index (\<lambda>r. of_run (wi_orgId (wd_item deadLetter)) (wi_runId (wd_item deadLetter)) r
              \<and> isActiveStatus (wr_status r)) q1 of
        Some i \<Rightarrow> (Active_work_exists (record_at q1 i) deadLetter, q1)
      | None \<Rightarrow>
          let (traceId, q2) = (case rdi_traceId input of Some t \<Rightarrow> (t, q1) | None \<Rightarrow> draw_id C ''trace'' q1);
              item = (wd_item deadLetter)\<lparr>wi_attempt := 1, wi_reason := Reason_resume,
                       wi_traceId := traceId, wi_enqueuedAt := now\<rparr>;
              (i, q3) = push_record C item now now (Some (wd_workId deadLetter)) q2;
              q4 = emit_for C i (Lifecycle Lc_redrive_enqueued)
                     (or_else (rdi_reason input) ''Dead-lettered run work was redriven.'')
                     (Some (JObj [(''deadLetterId'', JStr (wd_id deadLetter)),
                                  (''previousWorkId'', JStr (wd_workId deadLetter)),
                                  (''previousAttempt'', JNum (wi_attempt (wd_item deadLetter)))])) now q3
          in (Redrive_enqueued (record_at q4 i) deadLetter, q4)))"

section \<open>Resume after an approval\<close>

record resume_input =
  rei_approval :: approval_request
  rei_traceId :: "string option"
  rei_now :: "iso_date option"

datatype resume_decision =
    Resume_enqueued worker_work_record
  | Already_resumed worker_work_record
  | Resume_waiting worker_work_record
  | Resume_cancelled worker_work_record
  | Resume_blocked string worker_work_record
  | Resume_not_found string

definition cancelApprovalWait :: "worker_config \<Rightarrow> nat \<Rightarrow> approval_status \<Rightarrow> string \<Rightarrow> iso_date
    \<Rightarrow> worker_queue \<Rightarrow> (worker_queue, resume_decision) outcome" where
  "cancelApprovalWait C i status reason now q =
     (case wr_approval (record_at q i) of
        None \<Rightarrow> (Inr (Resume_blocked ''Paused work is missing its approval gate.'' (record_at q i)), q)
      | Some gate \<Rightarrow>
          andThen (transitionRecord i Work_cancelled At_cancelled now) (\<lambda>_ q1.
            let q2 = set_rec i (\<lambda>r. r\<lparr>wr_approval := Some (gate\<lparr>wg_status := status\<rparr>),
                       wr_terminalReason := Some reason\<rparr>) q1;
                q3 = emit_for C i (Lifecycle Lc_cancelled) reason
                       (Some (JObj [(''approvalId'', JStr (wg_approvalId gate))])) now q2
            in (Inr (Resume_cancelled (record_at q3 i)), q3)) q)"

definition resume_approved :: "worker_config \<Rightarrow> nat \<Rightarrow> worker_approval_gate \<Rightarrow> approval_request
    \<Rightarrow> string option \<Rightarrow> iso_date \<Rightarrow> worker_queue \<Rightarrow> (worker_queue, resume_decision) outcome" where
  "resume_approved C i gate approval traceId now q =
     (let q1 = set_rec i (\<lambda>r. r\<lparr>wr_item := (wr_item r)\<lparr>wi_reason := Reason_approval_granted,
                 wi_traceId := or_else traceId (wi_traceId (wr_item r)), wi_enqueuedAt := now\<rparr>\<rparr>) q in
      andThen (transitionRecord i Work_queued At_queued now) (\<lambda>_ q2.
        let renewed = gate\<lparr>wg_status := ap_status approval,
              wg_payloadMetadata := (case ap_payloadMetadata approval of
                 None \<Rightarrow> wg_payloadMetadata gate | Some m \<Rightarrow> Some m)\<rparr>;
            q3 = set_rec i (\<lambda>r. r\<lparr>wr_availableAt := now, wr_approval := Some renewed\<rparr>) q2;
            q4 = emit_for C i (Lifecycle Lc_approval_resumed)
                   ''Approval granted; run work is queued to resume.''
                   (Some (JObj ((''approvalId'', JStr (ap_id approval))
                      # opt_entry ''decidedByPrincipalId'' (ap_decidedByPrincipalId approval)))) now q3
        in (Inr (Resume_enqueued (record_at q4 i)), q4)) q1)"

definition resumeAfterApproval :: "worker_config \<Rightarrow> resume_input \<Rightarrow> worker_queue
    \<Rightarrow> (worker_queue, resume_decision) outcome" where
  "resumeAfterApproval C input q =
     (let (now, q1) = now_or_clock C (rei_now input) q; approval = rei_approval input in
      case find_index (\<lambda>r. of_run (ap_orgId approval) (ap_runId approval) r
              \<and> map_option wg_approvalId (wr_approval r) = Some (ap_id approval)) q1 of
        None \<Rightarrow> (Inr (Resume_not_found ''No paused work is waiting for that approval.''), q1)
      | Some i \<Rightarrow>
      (case wr_approval (record_at q1 i) of
        None \<Rightarrow> (Inr (Resume_blocked ''Paused work is missing its approval gate.'' (record_at q1 i)), q1)
      | Some gate \<Rightarrow>
        if wg_payloadHash gate \<noteq> ap_payloadHash approval then
          (let q2 = emit_for C i (Lifecycle Lc_approval_blocked)
                      ''Approval payload hash did not match paused work.''
                      (Some (JObj [(''approvalId'', JStr (ap_id approval))])) now q1
           in (Inr (Resume_blocked ''Approval payload hash does not match paused work.'' (record_at q2 i)), q2))
        else if wr_status (record_at q1 i) \<noteq> Work_awaiting_approval then
          (if wg_status gate = Approval_approved then (Inr (Already_resumed (record_at q1 i)), q1)
           else if wr_status (record_at q1 i) = Work_cancelled then (Inr (Resume_cancelled (record_at q1 i)), q1)
           else (Inr (Resume_blocked (''Approval gate is '' @ work_status_str (wr_status (record_at q1 i))
                       @ '', not awaiting approval.'') (record_at q1 i)), q1))
        else if ap_status approval = Approval_pending \<and> date_le (wg_expiresAt gate) now then
          cancelApprovalWait C i Approval_expired ''Approval expired.'' now q1
        else if ap_status approval = Approval_pending then (Inr (Resume_waiting (record_at q1 i)), q1)
        else if ap_status approval = Approval_denied then
          cancelApprovalWait C i Approval_denied ''Approval denied.'' now q1
        else if ap_status approval = Approval_expired then
          cancelApprovalWait C i Approval_expired ''Approval expired.'' now q1
        else resume_approved C i gate approval (rei_traceId input) now q1))"

section \<open>Events of the runtime\<close>

record runtime_event_input =
  rti_leaseId :: string
  rti_event :: runtime_event
  rti_now :: "iso_date option"

definition emitRuntimeEvent :: "worker_config \<Rightarrow> runtime_event_input \<Rightarrow> worker_queue
    \<Rightarrow> worker_event option \<times> worker_queue" where
  "emitRuntimeEvent C input q =
     (case findByLeaseId (rti_leaseId input) q of
        None \<Rightarrow> (None, q)
      | Some i \<Rightarrow>
        if wr_lease (record_at q i) = None then (None, q)
        else
          (let item = wr_item (record_at q i);
               (event, q1) = emit C \<lparr> wei_type = Runtime_event (re_type (rti_event input)),
                 wei_orgId = wi_orgId item, wei_runId = wi_runId item,
                 wei_attempt = Some (wi_attempt item), wei_traceId = Some (wi_traceId item),
                 wei_message = re_message (rti_event input), wei_data = re_data (rti_event input),
                 wei_now = rti_now input \<rparr> q
           in (Some event, q1)))"

end
