(* ===== verification/Worker_Steps.thy ===== *)
theory Worker_Steps
  imports Worker_Invariants
begin

text \<open>
  Every method of the queue keeps the invariant and the history of \<^verbatim>\<open>Worker_Invariants\<close>, and
  fails only with the errors it announces: an attempt state that the table of transitions does not
  allow is never asked for. The methods are the rules of one step relation, so that both hold of
  every queue a run can reach.
\<close>

section \<open>One method call\<close>

definition safe :: "worker_config \<Rightarrow> js_error set \<Rightarrow> worker_queue \<Rightarrow> (worker_queue, 'a) outcome \<Rightarrow> bool" where
  "safe C E q r \<longleftrightarrow> keeps C q (snd r) \<and> (\<forall>e. fst r = Inl e \<longrightarrow> e \<in> E)"

lemma safe_Inr [simp]: "safe C E q (Inr x, q') \<longleftrightarrow> keeps C q q'"
  by (simp add: safe_def)

lemma safe_Inl [simp]: "safe C E q (Inl e, q') \<longleftrightarrow> keeps C q q' \<and> e \<in> E"
  by (simp add: safe_def)

lemma safe_trans: "keeps C q q1 \<Longrightarrow> (queue_inv C q1 \<Longrightarrow> safe C E q1 r) \<Longrightarrow> safe C E q r"
  unfolding safe_def using keeps_trans by (metis keeps_def)

lemma safe_mono: "safe C E q r \<Longrightarrow> E \<subseteq> E' \<Longrightarrow> safe C E' q r"
  by (auto simp: safe_def)

lemma safe_andThen:
  assumes "safe C E q (m q)" "\<And>x q1. m q = (Inr x, q1) \<Longrightarrow> queue_inv C q1 \<Longrightarrow> safe C E q1 (f x q1)"
  shows "safe C E q (andThen m f q)"
proof (cases "m q")
  case (Pair r q1)
  then show ?thesis
    using assms safe_trans [of C q q1 E] by (cases r; cases "f (projr r) q1") (auto simp: keeps_def)
qed

lemma inv_wf: "queue_inv C q \<Longrightarrow> i < length (wq_records q) \<Longrightarrow> wf_work (record_at q i)"
  by (simp add: queue_inv_def)

lemma claimed_state:
  "wf_work r \<Longrightarrow> wr_status r = Work_claimed \<Longrightarrow>
     wr_attemptState r = (if wr_cancelRequestedAt r = None then At_claimed else At_cancel_requested)"
  by (auto simp: wf_work_def)

lemma awaiting_state:
  "wf_work r \<Longrightarrow> wr_status r = Work_awaiting_approval \<Longrightarrow>
     wr_attemptState r = At_awaiting_approval \<and> wr_lease r = None \<and> wr_cancelRequestedAt r = None"
  by (auto simp: wf_work_def)

lemma queued_state:
  "wf_work r \<Longrightarrow> wr_status r = Work_queued \<Longrightarrow>
     wr_attemptState r = At_queued \<and> wr_lease r = None \<and> wr_cancelRequestedAt r = None"
  by (auto simp: wf_work_def)

lemmas transitions = canTransitionRunAttemptState_def

definition same_work :: "worker_work_record \<Rightarrow> worker_work_record \<Rightarrow> bool" where
  "same_work r r' \<longleftrightarrow>
     wr_id r' = wr_id r \<and> wr_sequence r' = wr_sequence r \<and> wr_idempotencyKey r' = wr_idempotencyKey r
   \<and> wr_createdAt r' = wr_createdAt r \<and> wr_retryOf r' = wr_retryOf r
   \<and> wi_orgId (wr_item r') = wi_orgId (wr_item r) \<and> wi_runId (wr_item r') = wi_runId (wr_item r)
   \<and> wi_attempt (wr_item r') = wi_attempt (wr_item r)"

lemma evolves_step:
  "same_work r r' \<Longrightarrow> isActiveStatus (wr_status r)
     \<Longrightarrow> canTransitionRunAttemptState (wr_attemptState r) (wr_attemptState r') \<Longrightarrow> evolves r r'"
  by (auto simp: same_work_def evolves_def)

lemma keeps_set_step:
  assumes "queue_inv C q" "i < length (wq_records q)" "isActiveStatus (wr_status (record_at q i))"
    "same_work (record_at q i) (f (record_at q i))"
    "canTransitionRunAttemptState (wr_attemptState (record_at q i)) (wr_attemptState (f (record_at q i)))"
    "wf_work (f (record_at q i))"
    "lease_id (f (record_at q i)) = None \<or> lease_id (f (record_at q i)) = lease_id (record_at q i)"
  shows "keeps C q (set_rec i f q)"
  using assms by (intro keeps_set evolves_step)

lemma keeps_update:
  assumes "ok_config C" "queue_inv C q" "i < length (wq_records q)"
    "isActiveStatus (wr_status (record_at q i))" "same_work (record_at q i) (f (record_at q i))"
    "canTransitionRunAttemptState (wr_attemptState (record_at q i)) (wr_attemptState (f (record_at q i)))"
    "wf_work (f (record_at q i))"
    "lease_id (f (record_at q i)) = None \<or> lease_id (f (record_at q i)) = lease_id (record_at q i)"
  shows "keeps C q (emit_for C i t m d now (set_rec i f q))"
  by (rule keeps_trans [OF keeps_set_step [where f = f, OF assms(2-)] keeps_emit_for [OF assms(1)]])

section \<open>Leases\<close>

lemma expireClaimedRecord_eq:
  assumes "wf_work (record_at q i)" "wr_status (record_at q i) = Work_claimed" "i < length (wq_records q)"
  shows "expireClaimedRecord C i now message q =
    (if wr_cancelRequestedAt (record_at q i) \<noteq> None
     then (Inr (), emit_for C i (Lifecycle Lc_cancelled)
            (or_else (wr_cancelReason (record_at q i)) ''Run cancellation requested.'') None now
            (set_rec i (\<lambda>r. r\<lparr>wr_status := Work_cancelled, wr_attemptState := At_cancelled,
               wr_updatedAt := now, wr_lease := None,
               wr_terminalReason := Some (or_else (wr_cancelReason (record_at q i)) ''Run cancellation requested.'')\<rparr>) q))
     else (Inr (), emit_for C i (Lifecycle Lc_lease_expired) message None now
            (set_rec i (\<lambda>r. r\<lparr>wr_status := Work_queued, wr_attemptState := At_queued,
               wr_updatedAt := now, wr_lease := None\<rparr>) q)))"
  using assms claimed_state [of "record_at q i"]
  by (simp add: expireClaimedRecord_def transitionRecord_ok transitions Let_def)

lemma safe_expire:
  assumes ok: "ok_config C" and inv: "queue_inv C q" and i: "i < length (wq_records q)"
    and st: "wr_status (record_at q i) = Work_claimed"
  shows "safe C {} q (expireClaimedRecord C i now message q)"
proof -
  note wf = inv_wf [OF inv i]
  have "keeps C q (emit_for C i (Lifecycle Lc_cancelled) m None now
      (set_rec i (\<lambda>r. r\<lparr>wr_status := Work_cancelled, wr_attemptState := At_cancelled,
         wr_updatedAt := now, wr_lease := None, wr_terminalReason := Some m\<rparr>) q))"
    if "wr_cancelRequestedAt (record_at q i) \<noteq> None" for m
    using wf st that claimed_state [OF wf st]
    by (intro keeps_update ok inv i) (simp_all add: isActiveStatus_def same_work_def transitions wf_work_def lease_id_def)
  moreover have "keeps C q (emit_for C i (Lifecycle Lc_lease_expired) message None now
      (set_rec i (\<lambda>r. r\<lparr>wr_status := Work_queued, wr_attemptState := At_queued,
         wr_updatedAt := now, wr_lease := None\<rparr>) q))"
    if "wr_cancelRequestedAt (record_at q i) = None"
    using wf st that claimed_state [OF wf st]
    by (intro keeps_update ok inv i) (simp_all add: isActiveStatus_def same_work_def transitions wf_work_def lease_id_def)
  ultimately show ?thesis
    by (simp add: expireClaimedRecord_eq [OF wf st i])
qed

lemma safe_requeue_loop:
  assumes "ok_config C" "queue_inv C q" "\<forall>i \<in> set is. i < length (wq_records q)"
  shows "safe C {} q (requeue_loop C now is q)"
  using assms(2-)
proof (induction "is" arbitrary: q)
  case Nil
  then show ?case by (simp add: keeps_refl)
next
  case (Cons i "is")
  show ?case
  proof (cases "wr_status (record_at q i) = Work_claimed \<and> lease_expired now (record_at q i)")
    case True
    have s: "safe C {} q (expireClaimedRecord C i now m q)" for m
      using True Cons.prems assms(1) by (intro safe_expire) auto
    show ?thesis
      unfolding requeue_loop.simps if_P [OF True]
    proof (rule safe_andThen)
      fix x q1 assume e: "expireClaimedRecord C i now ''Worker lease expired; work returned to queue.'' q = (Inr x, q1)"
        and inv1: "queue_inv C q1"
      have len: "length (wq_records q) \<le> length (wq_records q1)"
        using s [of "''Worker lease expired; work returned to queue.''"] e by (simp add: keeps_def history_def)
      have "safe C {} q1 (requeue_loop C now is q1)"
        using inv1 Cons.prems len by (intro Cons.IH) auto
      then show "safe C {} q1 (let expired = record_at q1 i in
             andThen (requeue_loop C now is) (\<lambda>expiredRecords. returns (expired # expiredRecords)) q1)"
        unfolding Let_def by (rule safe_andThen) (simp add: returns_def keeps_refl)
    qed (rule s)
  next
    case False
    with Cons show ?thesis by auto
  qed
qed

lemma safe_requeueExpiredLeases:
  "ok_config C \<Longrightarrow> queue_inv C q \<Longrightarrow> safe C {} q (requeueExpiredLeases C now q)"
  unfolding requeueExpiredLeases_def by (rule safe_requeue_loop) auto

lemma safe_clock:
  assumes "queue_inv C q" "\<And>now q1. queue_inv C q1 \<Longrightarrow> wq_records q1 = wq_records q \<Longrightarrow> safe C E q1 (f now q1)"
  shows "safe C E q (let (now, q1) = now_or_clock C t q in f now q1)"
  using assms keeps_clock [OF assms(1), of t]
  by (auto simp: split_def Let_def keeps_def intro!: safe_trans [OF keeps_clock [OF assms(1), of t]])

lemma safe_expireLeases: "ok_config C \<Longrightarrow> queue_inv C q \<Longrightarrow> safe C {} q (expireLeases C t q)"
  unfolding expireLeases_def by (rule safe_clock) (auto intro: safe_requeueExpiredLeases)

section \<open>Enqueue and claim\<close>

lemma enqueue_keeps: "ok_config C \<Longrightarrow> queue_inv C q \<Longrightarrow> keeps C q (snd (enqueue C input q))"
proof -
  assume ok: "ok_config C" and inv: "queue_inv C q"
  let ?q1 = "snd (now_or_clock C (eni_now input) q)"
  note clock = keeps_clock [OF inv, of "eni_now input"]
  then have inv1: "queue_inv C ?q1" by (simp add: keeps_def)
  have "keeps C ?q1 (emit_for C i t m d now (snd (push_record C item a now' r ?q1)))" for i t m d now item a now' r
    by (rule keeps_trans [OF keeps_push [OF ok inv1] keeps_emit_for [OF ok]])
  then have "keeps C q (emit_for C i t m d now (snd (push_record C item a now' r ?q1)))" for i t m d now item a now' r
    by (rule keeps_trans [OF clock])
  with clock show ?thesis
    by (simp add: enqueue_def Let_def split_def split: option.split)
qed

lemma sort_by_head_mem: "sort_by le xs = x # ys \<Longrightarrow> x \<in> set xs"
  by (metis list.set_intros(1) set_sort_by)

lemma next_due_Some:
  "next_due now q = Some i \<Longrightarrow> i < length (wq_records q) \<and> claimable now (record_at q i)"
  unfolding next_due_def by (auto split: list.splits dest: sort_by_head_mem)

text \<open>Handing out a lease: the only update that gives a record a new lease.\<close>

lemma keeps_new_lease:
  assumes ok: "ok_config C" and inv: "queue_inv C q" and i: "i < length (wq_records q)"
    and st: "wr_status (record_at q i) = Work_queued"
    and l: "wl_id l = wc_idFactory C (wq_draws q) ''lease''" "lease_matches (record_at q i) l"
    and q': "q' = set_rec i (\<lambda>r. r\<lparr>wr_status := Work_claimed, wr_attemptState := At_claimed,
               wr_updatedAt := now, wr_lease := Some l\<rparr>) (q\<lparr>wq_draws := wq_draws q + 1\<rparr>)"
  shows "keeps C q q'"
proof -
  let ?f = "\<lambda>r. r\<lparr>wr_status := Work_claimed, wr_attemptState := At_claimed, wr_updatedAt := now, wr_lease := Some l\<rparr>"
  note wf = inv_wf [OF inv i]
  have rec_: "record_at q' j = (if j = i then ?f (record_at q i) else record_at q j)" for j
    using i by (simp add: q' record_at_def set_rec_def)
  have len: "length (wq_records q') = length (wq_records q)"
    by (simp add: q')
  have next_: "wq_nextSequence q' = wq_nextSequence q" "wq_deadLetters q' = wq_deadLetters q"
    "wq_events q' = wq_events q" "wq_sink q' = wq_sink q"
    by (simp_all add: q')
  have draws_: "wq_draws q' = wq_draws q + 1"
    by (simp add: q')
  have rows: "sequences q' = sequences q" "row_ids q' = row_ids q"
    using map_set_rec [of i q wr_sequence ?f] map_set_rec [of i q wr_id ?f] i
    by (simp_all add: q' sequences_def row_ids_def records_set_rec record_at_def)
  have wf': "wf_work (?f (record_at q i))"
    using wf queued_state [OF wf st] st l(2) by (auto simp: wf_work_def lease_matches_def isActiveStatus_def)
  have new: "wl_id l \<notin> lease_ids q"
    using inv l(1) by (auto simp: queue_inv_def unused_ids_def)
  then have old: "lease_id (record_at q j) \<noteq> Some (wl_id l)" if "j < length (wq_records q)" for j
    using that by (auto simp: lease_ids_def record_at_def)
  have sub: "lease_ids q' \<subseteq> insert (wl_id l) (lease_ids q)"
  proof
    fix x assume "x \<in> lease_ids q'"
    then obtain j where j: "j < length (wq_records q)" "lease_id (record_at q' j) = Some x"
      by (auto simp: lease_ids_def in_set_conv_nth record_at_def len)
    show "x \<in> insert (wl_id l) (lease_ids q)"
    proof (cases "j = i")
      case True
      with j show ?thesis by (simp add: rec_ lease_id_def)
    next
      case False
      with j have "lease_id (record_at q j) = Some x" by (simp add: rec_)
      with j(1) show ?thesis by (auto simp: lease_ids_def record_at_def)
    qed
  qed
  have "unused_ids C q' (insert (wl_id l) (set (row_ids q) \<union> lease_ids q))"
    unfolding l(1) using inv by (intro unused_insert [OF ok]) (auto simp: queue_inv_def q')
  then have "unused_ids C q' (set (row_ids q') \<union> lease_ids q')"
    unfolding rows by (rule unused_mono) (use sub in auto)
  moreover have "leases_unique q'"
    unfolding leases_unique_def len
  proof (intro allI impI)
    fix a b assume h: "a < length (wq_records q)" "b < length (wq_records q)"
      "lease_id (record_at q' a) \<noteq> None \<and> lease_id (record_at q' a) = lease_id (record_at q' b)"
    have "leases_unique q" using inv by (simp add: queue_inv_def)
    then have "a = b" if "a \<noteq> i" "b \<noteq> i"
      using h that by (auto simp: rec_ leases_unique_def)
    moreover have "lease_id (record_at q' i) = Some (wl_id l)"
      by (simp add: rec_ lease_id_def)
    then have "a = i \<longleftrightarrow> b = i"
      using h old [OF h(1)] old [OF h(2)] by (auto simp: rec_ split: if_splits)
    ultimately show "a = b" by blast
  qed
  ultimately have "queue_inv C q'"
    using inv wf' next_ by (auto simp: queue_inv_def rows len rec_)
  moreover have "evolves (record_at q i) (?f (record_at q i))"
    using queued_state [OF wf st] st by (intro evolves_step) (auto simp: same_work_def transitions isActiveStatus_def)
  ultimately show ?thesis
    using sub l(1) by (auto simp: keeps_def history_def rec_ len next_ leases_drawn_def drawn_def draws_)
qed

definition claim_errors :: "js_error set" where
  "claim_errors = {Error ''leaseMs must be positive.'', RangeError ''Invalid time value''}"

lemma addMs_error: "addMs d ms = Inl e \<Longrightarrow> e = RangeError ''Invalid time value''"
  by (auto simp: addMs_def date_plus_def split: option.splits if_splits)

definition lease_for :: "worker_config \<Rightarrow> claim_input \<Rightarrow> iso_date \<Rightarrow> iso_date \<Rightarrow> nat \<Rightarrow> worker_queue
    \<Rightarrow> worker_lease" where
  "lease_for C input now expiresAt i q =
     (let r = record_at q i in
      \<lparr> wl_id = wc_idFactory C (wq_draws q) ''lease'', wl_idempotencyKey = wr_idempotencyKey r,
        wl_workerId = cli_workerId input, wl_orgId = wi_orgId (wr_item r),
        wl_runId = wi_runId (wr_item r), wl_attempt = wi_attempt (wr_item r),
        wl_traceId = wi_traceId (wr_item r), wl_claimedAt = now,
        wl_heartbeatAt = now, wl_expiresAt = expiresAt \<rparr>)"

text \<open>What a claim does with the record it has chosen.\<close>

definition claimed_queue :: "worker_config \<Rightarrow> claim_input \<Rightarrow> iso_date \<Rightarrow> iso_date \<Rightarrow> nat \<Rightarrow> worker_queue
    \<Rightarrow> worker_queue" where
  "claimed_queue C input now expiresAt i q =
     emit_for C i (Runtime_event Rt_worker_claimed)
       (''Worker '' @ cli_workerId input @ '' claimed run work.'')
       (Some (JObj [(''workerId'', JStr (cli_workerId input)),
                    (''leaseId'', JStr (wc_idFactory C (wq_draws q) ''lease''))])) now
       (set_rec i (\<lambda>r. r\<lparr>wr_status := Work_claimed, wr_attemptState := At_claimed,
           wr_updatedAt := now, wr_lease := Some (lease_for C input now expiresAt i q)\<rparr>)
         (q\<lparr>wq_draws := wq_draws q + 1\<rparr>))"

lemma claimNext_eq:
  assumes "0 < cli_leaseMs input" "now_or_clock C (cli_now input) q = (now, q0)"
    "requeueExpiredLeases C now q0 = (Inr xs, q1)" "queue_inv C q1"
  shows "claimNext C input q =
    (case next_due now q1 of
       None \<Rightarrow> (Inr No_available_work, q1)
     | Some i \<Rightarrow>
       (case addMs now (cli_leaseMs input) of
          Inl e \<Rightarrow> (Inl e, q1\<lparr>wq_draws := wq_draws q1 + 1\<rparr>)
        | Inr expiresAt \<Rightarrow>
            let q' = claimed_queue C input now expiresAt i q1
            in (Inr (Claimed (lease_for C input now expiresAt i q1) (record_at q' i)), q')))"
proof (cases "next_due now q1")
  case None
  with assms show ?thesis by (simp add: claimNext_def)
next
  case (Some i)
  then have i: "i < length (wq_records q1)" "wr_status (record_at q1 i) = Work_queued"
    using next_due_Some by (auto simp: claimable_def)
  have "canTransitionRunAttemptState (wr_attemptState (record_at (q1\<lparr>wq_draws := Suc (wq_draws q1)\<rparr>) i)) At_claimed"
    using queued_state [OF inv_wf [OF assms(4) i(1)] i(2)] by (simp add: transitions record_at_def)
  with Some assms show ?thesis
    by (simp add: claimNext_def draw_id_def andThen_def lift_sum_def transitionRecord_ok lease_for_def
        claimed_queue_def Let_def split: sum.split)
qed

lemma keeps_draw:
  assumes "queue_inv C q"
  shows "keeps C q (q\<lparr>wq_draws := wq_draws q + 1\<rparr>)"
proof -
  have "wq_records (q\<lparr>wq_draws := Suc (wq_draws q)\<rparr>) = wq_records q" by simp
  note same = same_records [OF this]
  show ?thesis
    using assms by (simp add: keeps_def queue_inv_def history_def sequences_def row_ids_def same unused_ids_def
        leases_drawn_def)
qed

lemma keeps_claimed:
  assumes "ok_config C" "queue_inv C q" "next_due now q = Some i"
  shows "keeps C q (claimed_queue C input now expiresAt i q)"
proof -
  have i: "i < length (wq_records q)" "wr_status (record_at q i) = Work_queued"
    using next_due_Some [OF assms(3)] by (auto simp: claimable_def)
  have "keeps C q (set_rec i (\<lambda>r. r\<lparr>wr_status := Work_claimed, wr_attemptState := At_claimed,
           wr_updatedAt := now, wr_lease := Some (lease_for C input now expiresAt i q)\<rparr>)
         (q\<lparr>wq_draws := wq_draws q + 1\<rparr>))"
    by (rule keeps_new_lease [OF assms(1,2) i _ _ refl]) (auto simp: lease_for_def lease_matches_def Let_def)
  then show ?thesis
    unfolding claimed_queue_def by (rule keeps_trans) (rule keeps_emit_for [OF assms(1)])
qed

lemma safe_claimNext:
  assumes ok: "ok_config C" and inv: "queue_inv C q"
  shows "safe C claim_errors q (claimNext C input q)"
proof (cases "0 < cli_leaseMs input")
  case False
  with inv show ?thesis by (simp add: claimNext_def claim_errors_def keeps_refl)
next
  case True
  obtain now q0 where c: "now_or_clock C (cli_now input) q = (now, q0)" by fastforce
  obtain r q1 where e: "requeueExpiredLeases C now q0 = (r, q1)" by fastforce
  have k0: "keeps C q q0" using keeps_clock [OF inv, of "cli_now input"] c by simp
  then have "queue_inv C q0" by (simp add: keeps_def)
  then have s: "safe C {} q0 (r, q1)"
    using safe_requeueExpiredLeases [OF ok, of q0 now] e by simp
  then obtain xs where r: "r = Inr xs" by (cases r) (auto simp: safe_def)
  with s have k1: "keeps C q0 q1" by simp
  then have inv1: "queue_inv C q1" by (simp add: keeps_def)
  have "keeps C q1 (q1\<lparr>wq_draws := wq_draws q1 + 1\<rparr>)"
    by (rule keeps_draw [OF inv1])
  then have "safe C claim_errors q1 (claimNext C input q)"
    unfolding claimNext_eq [OF True c e [unfolded r] inv1]
    using keeps_claimed [OF ok inv1] keeps_refl [OF inv1]
    by (auto simp: Let_def claim_errors_def dest: addMs_error split: option.split sum.split)
  then show ?thesis
    using k0 k1 safe_trans by metis
qed

section \<open>Heartbeat\<close>

lemma findByLeaseId_Some:
  assumes "findByLeaseId l q = Some i"
  shows "i < length (wq_records q) \<and> lease_id (record_at q i) = Some l"
  using assms find_index_Some unfolding findByLeaseId_def lease_id_def by blast

lemma lease_claimed:
  "queue_inv C q \<Longrightarrow> findByLeaseId l q = Some i \<Longrightarrow>
     wr_status (record_at q i) = Work_claimed \<and> (\<exists>lease. wr_lease (record_at q i) = Some lease \<and> wl_id lease = l)"
  using findByLeaseId_Some [of l q i] inv_wf [of C q i] by (auto simp: lease_id_def wf_work_def)

definition heartbeat_errors :: "js_error set" where
  "heartbeat_errors = {Error ''extendByMs must be positive.'', RangeError ''Invalid time value''}"

lemma safe_heartbeat:
  assumes ok: "ok_config C" and inv: "queue_inv C q"
  shows "safe C heartbeat_errors q (heartbeat C input q)"
  unfolding heartbeat_def
proof (rule safe_clock [OF inv])
  fix now q1 assume inv1: "queue_inv C q1"
  show "safe C heartbeat_errors q1 (case findByLeaseId (hbi_leaseId input) q1 of
        None \<Rightarrow> (Inr (Hb_not_found ''Unknown worker lease.''), q1)
      | Some i \<Rightarrow>
      (case wr_lease (record_at q1 i) of
        None \<Rightarrow> (Inr (Hb_lost_lease (''Work is '' @ work_status_str (wr_status (record_at q1 i)) @ '', not claimed.'')), q1)
      | Some lease \<Rightarrow>
        if wr_status (record_at q1 i) \<noteq> Work_claimed
        then (Inr (Hb_lost_lease (''Work is '' @ work_status_str (wr_status (record_at q1 i)) @ '', not claimed.'')), q1)
        else if date_le (wl_expiresAt lease) now then
          andThen (expireClaimedRecord C i now ''Worker lease expired before heartbeat.'')
            (\<lambda>_. returns (Hb_lost_lease ''Worker lease expired.'')) q1
        else if wr_cancelRequestedAt (record_at q1 i) \<noteq> None then
          (Inr (Hb_cancel (or_else (wr_cancelReason (record_at q1 i)) ''Run cancellation requested.'') (record_at q1 i)), q1)
        else
          (case extension (hbi_extendByMs input) lease of
             None \<Rightarrow> (Inl (RangeError ''Invalid time value''), q1)
           | Some extendByMs \<Rightarrow>
             if extendByMs \<le> 0 then (Inl (Error ''extendByMs must be positive.''), q1)
             else
               andThen (lift_sum (addMs now extendByMs)) (\<lambda>expiresAt q1.
                 let renewed = lease\<lparr>wl_heartbeatAt := now, wl_expiresAt := expiresAt\<rparr>;
                     q2 = set_rec i (\<lambda>r. r\<lparr>wr_lease := Some renewed, wr_updatedAt := now\<rparr>) q1;
                     q3 = emit_for C i (Lifecycle Lc_heartbeat) ''Worker heartbeat accepted.''
                            (Some (JObj [(''leaseId'', JStr (wl_id renewed)),
                               (''expiresAt'', JStr (toISOString expiresAt))])) now q2
                 in (Inr (Hb_continue renewed (record_at q3 i)), q3)) q1)))"
  proof (cases "findByLeaseId (hbi_leaseId input) q1")
    case None
    with inv1 show ?thesis by (simp add: keeps_refl)
  next
    case (Some i)
    note i = findByLeaseId_Some [OF Some, THEN conjunct1]
    obtain lease where st: "wr_status (record_at q1 i) = Work_claimed" and l: "wr_lease (record_at q1 i) = Some lease"
      using lease_claimed [OF inv1 Some] by blast
    note wf = inv_wf [OF inv1 i]
    have "safe C {} q1 (andThen (expireClaimedRecord C i now m) (\<lambda>_. returns d) q1)" for m and d :: heartbeat_decision
      by (rule safe_andThen [where m = "expireClaimedRecord C i now m", OF safe_expire [OF ok inv1 i st]]) (simp add: returns_def keeps_refl)
    then have expired: "safe C heartbeat_errors q1 (andThen (expireClaimedRecord C i now m) (\<lambda>_. returns d) q1)"
      for m and d :: heartbeat_decision
      by (rule safe_mono) simp
    have renew: "keeps C q1 (emit_for C i t m d now (set_rec i (\<lambda>r. r\<lparr>wr_lease :=
        Some (lease\<lparr>wl_heartbeatAt := now, wl_expiresAt := e\<rparr>), wr_updatedAt := now\<rparr>) q1))" for t m d e
      using wf l st by (intro keeps_update ok inv1 i)
        (auto simp: isActiveStatus_def same_work_def transitions wf_work_def lease_id_def lease_matches_def)
    show ?thesis
      using Some st l expired renew keeps_refl [OF inv1]
      by (auto simp: andThen_def lift_sum_def heartbeat_errors_def Let_def dest: addMs_error
          split: option.split sum.split)
  qed
qed

section \<open>Settle\<close>

definition settled_as :: "work_status \<Rightarrow> attempt_state \<Rightarrow> iso_date \<Rightarrow> runtime_result \<Rightarrow> string option
    \<Rightarrow> worker_work_record \<Rightarrow> worker_work_record" where
  "settled_as s a now result reason r =
     r\<lparr>wr_status := s, wr_attemptState := a, wr_updatedAt := now, wr_lease := None,
       wr_result := Some result, wr_terminalReason := reason\<rparr>"

text \<open>Each way to settle, as one update of the record and its events.\<close>

lemma settle_cancelled_eq:
  assumes "wf_work (record_at q i)" "wr_status (record_at q i) = Work_claimed" "i < length (wq_records q)"
  shows "settle_cancelled C i result now q =
    (let reason = or_else (wr_cancelReason (record_at q i)) (or_else (rr_error result) ''Run cancelled.'');
         q' = emit_for C i (Lifecycle Lc_cancelled) reason None now
                (set_rec i (settled_as Work_cancelled At_cancelled now result (Some reason)) q)
     in (Inr (Settled_cancelled (record_at q' i)), q'))"
  using assms claimed_state [OF assms(1,2)]
  by (simp add: settle_cancelled_def transitionRecord_ok transitions Let_def settled_as_def [abs_def])

lemma settle_completed_eq:
  assumes "wr_attemptState (record_at q i) = At_claimed" "i < length (wq_records q)"
  shows "settle_completed C i result now q =
    (let q' = emit_for C i (Lifecycle Lc_completed) ''Run work completed.''
                (Some (JObj [(''actualCostCents'', JNum (rr_actualCostCents result))])) now
                (set_rec i (settled_as Work_completed At_completed now result
                   (Some (or_else (rr_finalText result) ''Run completed.''))) q)
     in (Inr (Settled_completed (record_at q' i)), q'))"
  using assms
  by (simp add: settle_completed_def transitionRecord_ok transitions Let_def settled_as_def [abs_def])

definition paused_as :: "iso_date \<Rightarrow> runtime_result \<Rightarrow> approval_request \<Rightarrow> worker_work_record
    \<Rightarrow> worker_work_record" where
  "paused_as now result ap r =
     r\<lparr>wr_status := Work_awaiting_approval, wr_attemptState := At_awaiting_approval, wr_updatedAt := now,
       wr_lease := None, wr_result := Some result, wr_approval := Some (approvalGateFromRequest ap)\<rparr>"

lemma settle_awaiting_eq:
  assumes "wr_attemptState (record_at q i) = At_claimed" "i < length (wq_records q)"
  shows "settle_awaiting C i result approval now q =
    (case approval of
       None \<Rightarrow> (Inl (Error ''Approval result requires an approval request.''), q)
     | Some ap \<Rightarrow>
       if \<not> of_run (ap_orgId ap) (ap_runId ap) (record_at q i)
       then (Inl (Error ''Approval request does not belong to claimed work.''), q)
       else let q' = emit_for C i (Lifecycle Lc_approval_waiting)
                       (''Run is waiting on approval '' @ ap_id ap @ ''.'')
                       (Some (JObj [(''approvalId'', JStr (ap_id ap)), (''action'', JStr (ap_action ap)),
                                    (''risk'', JStr (risk_str (ap_risk ap)))])) now
                       (set_rec i (paused_as now result ap) q)
            in (Inr (Paused_for_approval (record_at q' i)), q'))"
  using assms
  by (auto simp: settle_awaiting_def of_run_def transitionRecord_ok transitions Let_def paused_as_def [abs_def]
      split: option.split)

definition dead_queue :: "worker_config \<Rightarrow> nat \<Rightarrow> runtime_result \<Rightarrow> iso_date \<Rightarrow> worker_queue \<Rightarrow> worker_queue" where
  "dead_queue C i result now q =
     snd (deadLetterRecord C i result now (set_rec i (settled_as Work_dead At_dead_lettered now result
        (Some (or_else (rr_error result) ''Run work failed.''))) q))"

definition dead_letter_of :: "worker_config \<Rightarrow> nat \<Rightarrow> runtime_result \<Rightarrow> iso_date \<Rightarrow> worker_queue
    \<Rightarrow> worker_dead_letter" where
  "dead_letter_of C i result now q =
     (let r = record_at q i in
      \<lparr> wd_id = wc_idFactory C (wq_draws q) ''dead'', wd_sequence = wq_nextSequence q,
        wd_workId = wr_id r, wd_idempotencyKey = wr_idempotencyKey r, wd_item = wr_item r,
        wd_reason = or_else (rr_error result) ''Run work failed.'', wd_failedAt = now,
        wd_result = result, wd_retryPolicy = wc_retryPolicy C \<rparr>)"

lemma record_at_pushed:
  "k = length (wq_records q) \<Longrightarrow> record_at (snd (push_record C item a now r q)) k =
     fresh_record (wc_idFactory C (wq_draws q) ''work'') (wq_nextSequence q) item a now r"
  by simp

definition retry_queue :: "worker_config \<Rightarrow> nat \<Rightarrow> runtime_result \<Rightarrow> iso_date \<Rightarrow> iso_date \<Rightarrow> worker_queue
    \<Rightarrow> worker_queue" where
  "retry_queue C i result now retryAt q =
     (let item = wr_item (record_at q i); retryItem = retryItem_of item now in
      snd (emit C \<lparr> wei_type = Lifecycle Lc_retry_scheduled, wei_orgId = wi_orgId item,
             wei_runId = wi_runId item, wei_attempt = Some (wi_attempt retryItem),
             wei_traceId = Some (wi_traceId item),
             wei_message = ''Retry '' @ int_str (wi_attempt retryItem) @ '' scheduled.'',
             wei_data = Some (JObj [(''retryAt'', JStr (toISOString retryAt)),
                                    (''previousAttempt'', JNum (wi_attempt item))]),
             wei_now = Some now \<rparr>
        (snd (push_record C retryItem retryAt now (Some (wr_id (record_at q i)))
          (set_rec i (settled_as Work_failed At_retry_scheduled now result
             (Some (or_else (rr_error result) ''Run work failed.''))) q)))))"

lemma settleFailure_eq:
  assumes "wr_attemptState (record_at q i) = At_claimed" "i < length (wq_records q)"
    "assertRetryPolicy (wc_retryPolicy C) = None"
  shows "settleFailure C i result now q =
    (if wp_maxAttempts (wc_retryPolicy C) \<le> wi_attempt (wr_item (record_at q i))
     then let q1 = dead_queue C i result now q; deadLetter = dead_letter_of C i result now q;
              q2 = emit_for C i (Lifecycle Lc_failed) (or_else (rr_error result) ''Run work failed.'')
                  (Some (JObj [(''maxAttempts'', JNum (wp_maxAttempts (wc_retryPolicy C))),
                               (''deadLetterId'', JStr (wd_id deadLetter))])) now q1;
              q3 = emit_for C i (Lifecycle Lc_dead_lettered) ''Run work moved to dead-letter queue.''
                  (Some (JObj [(''deadLetterId'', JStr (wd_id deadLetter))])) now q2
          in (Inr (Dead_lettered (record_at q3 i) deadLetter), q3)
     else
       (case addMs now (projr (retryDelayMs (wi_attempt (wr_item (record_at q i))) (wc_retryPolicy C))) of
          Inl e \<Rightarrow> (Inl e, set_rec i (settled_as Work_failed At_retry_scheduled now result
                            (Some (or_else (rr_error result) ''Run work failed.''))) q)
        | Inr retryAt \<Rightarrow>
            let q' = retry_queue C i result now retryAt q
            in (Inr (Retry_scheduled (record_at q' i) (record_at q' (length (wq_records q))) retryAt), q')))"
proof -
  have f: "set_rec i (\<lambda>r. r\<lparr>wr_lease := None, wr_result := Some result,
             wr_terminalReason := Some x, wr_status := s, wr_attemptState := a, wr_updatedAt := now\<rparr>) q = set_rec i (settled_as s a now result (Some x)) q" for s a x
    by (rule arg_cong [where f = "\<lambda>f. set_rec i f q"], rule ext) (simp add: settled_as_def)
  obtain d where d: "retryDelayMs (wi_attempt (wr_item (record_at q i))) (wc_retryPolicy C) = Inr d"
    using assms(3) by (simp add: retryDelayMs_def)
  show ?thesis
  proof (cases "wp_maxAttempts (wc_retryPolicy C) \<le> wi_attempt (wr_item (record_at q i))")
    case True
    have dl: "fst (deadLetterRecord C i result now (set_rec i (settled_as Work_dead At_dead_lettered now result (Some x)) q))
        = dead_letter_of C i result now q" if "x = or_else (rr_error result) ''Run work failed.''" for x
      using assms(2) that by (simp add: deadLetterRecord_def dead_letter_of_def draw_id_def next_sequence_def Let_def
          settled_as_def record_at_def set_rec_def)
    have di: "wd_id (dead_letter_of C i result now q) = wc_idFactory C (wq_draws q) ''dead''"
      by (simp add: dead_letter_of_def Let_def)
    have dr: "wd_reason (dead_letter_of C i result now q) = or_else (rr_error result) ''Run work failed.''"
      by (simp add: dead_letter_of_def Let_def)
    show ?thesis
      using assms True f
      by (simp add: settleFailure_def deadLetter_branch_def transitionRecord_ok transitions split_def Let_def
          dead_queue_def dl dr di)
  next
    case False
    then show ?thesis
      using assms f d
      by (simp add: settleFailure_def retry_branch_def transitionRecord_ok transitions split_def Let_def
          andThen_def lift_sum_def retry_queue_def settled_as_def record_at_pushed split: sum.split)
  qed
qed

text \<open>Each of these updates keeps the invariant.\<close>

lemma wf_settled:
  assumes "wf_work r" "wr_status r = Work_claimed"
    "state_matches s a" "s \<noteq> Work_claimed" "\<not> isActiveStatus s"
    "wr_cancelRequestedAt r = None \<or> s = Work_cancelled"
  shows "wf_work (settled_as s a now result (Some reason) r)"
  using assms by (cases s) (auto simp: settled_as_def wf_work_def isActiveStatus_def)

lemma settled_simps [simp]:
  "wr_status (settled_as s a now result reason r) = s"
  "wr_attemptState (settled_as s a now result reason r) = a"
  "wr_lease (settled_as s a now result reason r) = None"
  "wr_result (settled_as s a now result reason r) = Some result"
  "wr_terminalReason (settled_as s a now result reason r) = reason"
  "wr_item (settled_as s a now result reason r) = wr_item r"
  "wr_id (settled_as s a now result reason r) = wr_id r"
  "lease_id (settled_as s a now result reason r) = None"
  "same_work r (settled_as s a now result reason r)"
  by (simp_all add: settled_as_def lease_id_def same_work_def)

lemma wf_paused:
  "wf_work r \<Longrightarrow> wr_status r = Work_claimed \<Longrightarrow> wr_cancelRequestedAt r = None \<Longrightarrow>
     wf_work (paused_as now result ap r)"
  by (auto simp: paused_as_def wf_work_def isActiveStatus_def)

lemma paused_simps [simp]:
  "wr_status (paused_as now result ap r) = Work_awaiting_approval"
  "wr_attemptState (paused_as now result ap r) = At_awaiting_approval"
  "wr_lease (paused_as now result ap r) = None"
  "wr_approval (paused_as now result ap r) = Some (approvalGateFromRequest ap)"
  "wr_result (paused_as now result ap r) = Some result" "wr_item (paused_as now result ap r) = wr_item r"
  "lease_id (paused_as now result ap r) = None" "same_work r (paused_as now result ap r)"
  by (simp_all add: paused_as_def lease_id_def same_work_def)

definition settle_errors :: "js_error set" where
  "settle_errors = {Error ''Approval result requires an approval request.'',
     Error ''Approval request does not belong to claimed work.'', RangeError ''Invalid time value''}"

lemma keeps_settled:
  assumes inv: "queue_inv C q" and i: "i < length (wq_records q)"
    and st: "wr_status (record_at q i) = Work_claimed"
    and s: "state_matches s a" "s \<noteq> Work_claimed" "\<not> isActiveStatus s"
    and a: "canTransitionRunAttemptState (wr_attemptState (record_at q i)) a"
    and c: "wr_cancelRequestedAt (record_at q i) = None \<or> s = Work_cancelled"
  shows "keeps C q (set_rec i (settled_as s a now result (Some reason)) q)"
  using wf_settled [OF inv_wf [OF inv i] st s c] st a
  by (intro keeps_set_step inv i) (simp_all add: isActiveStatus_def)

lemma keeps_settled_emit:
  assumes "ok_config C" and "queue_inv C q" "i < length (wq_records q)"
    "wr_status (record_at q i) = Work_claimed" "state_matches s a" "s \<noteq> Work_claimed" "\<not> isActiveStatus s"
    "canTransitionRunAttemptState (wr_attemptState (record_at q i)) a"
    "wr_cancelRequestedAt (record_at q i) = None \<or> s = Work_cancelled"
  shows "keeps C q (emit_for C i t m d n (set_rec i (settled_as s a now result (Some reason)) q))"
  by (rule keeps_trans [OF keeps_settled [OF assms(2-)] keeps_emit_for [OF assms(1)]])

lemma safe_settleFailure:
  assumes ok: "ok_config C" and inv: "queue_inv C q" and i: "i < length (wq_records q)"
    and st: "wr_status (record_at q i) = Work_claimed" "wr_cancelRequestedAt (record_at q i) = None"
  shows "safe C settle_errors q (settleFailure C i result now q)"
proof -
  have a: "wr_attemptState (record_at q i) = At_claimed"
    using claimed_state [OF inv_wf [OF inv i] st(1)] st(2) by simp
  have pol: "assertRetryPolicy (wc_retryPolicy C) = None"
    using ok by (simp add: ok_config_def)
  have dead: "keeps C q (dead_queue C i result now q)"
    unfolding dead_queue_def
    by (rule keeps_trans [OF keeps_settled [OF inv i st(1)] keeps_dead_letter [OF ok]])
      (simp_all add: st a transitions isActiveStatus_def)
  have dead1: "keeps C q (emit_for C i t m d now (dead_queue C i result now q))" for t m d
    by (rule keeps_trans [OF dead keeps_emit_for [OF ok]])
  have dead2: "keeps C q (emit_for C i t1 m1 d1 now (emit_for C i t2 m2 d2 now (dead_queue C i result now q)))"
    for t1 m1 d1 t2 m2 d2
    by (rule keeps_trans [OF dead1 keeps_emit_for [OF ok]])
  have failed: "keeps C q (set_rec i (settled_as Work_failed At_retry_scheduled now result (Some x)) q)" for x
    by (rule keeps_settled [OF inv i st(1)]) (simp_all add: st a transitions isActiveStatus_def)
  have retry: "keeps C q (retry_queue C i result now retryAt q)" for retryAt
    unfolding retry_queue_def Let_def
    by (rule keeps_trans [OF keeps_trans [OF failed keeps_push [OF ok]] keeps_emit [OF ok]])
  show ?thesis
    unfolding settleFailure_eq [OF a i pol]
    using dead2 failed retry by (auto simp: Let_def settle_errors_def dest: addMs_error split: sum.split)
qed

lemma safe_settle_active:
  assumes ok: "ok_config C" and inv: "queue_inv C q" and i: "i < length (wq_records q)"
    and st: "wr_status (record_at q i) = Work_claimed"
  shows "safe C settle_errors q (settle_active C i input now q)"
proof -
  note wf = inv_wf [OF inv i]
  show ?thesis
  proof (cases "wr_cancelRequestedAt (record_at q i) \<noteq> None \<or> rr_status (sei_result input) = Res_cancelled")
    case True
    have "canTransitionRunAttemptState (wr_attemptState (record_at q i)) At_cancelled"
      using claimed_state [OF wf st] by (simp add: transitions)
    then have "keeps C q (emit_for C i t m d n (set_rec i (settled_as Work_cancelled At_cancelled now result (Some x)) q))"
      for t m d n result x
      by (intro keeps_settled_emit ok inv i st) (simp_all add: isActiveStatus_def)
    with True show ?thesis
      by (simp add: settle_active_def settle_cancelled_eq [OF wf st i] Let_def)
  next
    case False
    then have a: "wr_attemptState (record_at q i) = At_claimed"
      using claimed_state [OF wf st] by simp
    have "keeps C q (emit_for C i t m d n (set_rec i (settled_as Work_completed At_completed now result (Some x)) q))"
      for t m d n result x
      by (intro keeps_settled_emit ok inv i st) (use False in \<open>simp_all add: a isActiveStatus_def transitions\<close>)
    moreover have "keeps C q (emit_for C i t m d n (set_rec i (paused_as now result ap) q))"
      for t m d n result ap
      using wf_paused [OF wf st] False st
      by (intro keeps_update ok inv i) (simp_all add: a isActiveStatus_def transitions)
    moreover have "safe C settle_errors q (settleFailure C i (sei_result input) now q)"
      using False by (intro safe_settleFailure ok inv i st) simp
    ultimately show ?thesis
      using False keeps_refl [OF inv]
      by (auto simp: settle_active_def settle_completed_eq [OF a i] settle_awaiting_eq [OF a i] Let_def
          settle_errors_def split: runtime_result_status.split option.split)
  qed
qed

lemma safe_settle:
  assumes ok: "ok_config C" and inv: "queue_inv C q"
  shows "safe C settle_errors q (settle C input q)"
  unfolding settle_def
proof (rule safe_clock [OF inv])
  fix now q1 assume inv1: "queue_inv C q1"
  show "safe C settle_errors q1 (case findByLeaseId (sei_leaseId input) q1 of
        None \<Rightarrow> (Inr (Settle_lost_lease ''Worker lease is not active.''), q1)
      | Some i \<Rightarrow>
        if wr_status (record_at q1 i) \<noteq> Work_claimed \<or> wr_lease (record_at q1 i) = None
        then (Inr (Settle_lost_lease ''Worker lease is not active.''), q1)
        else if lease_expired now (record_at q1 i) then
          andThen (expireClaimedRecord C i now ''Worker lease expired before settlement.'')
            (\<lambda>_. returns (Settle_lost_lease ''Worker lease expired.'')) q1
        else settle_active C i input now q1)"
  proof (cases "findByLeaseId (sei_leaseId input) q1")
    case None
    with inv1 show ?thesis by (simp add: keeps_refl)
  next
    case (Some i)
    note i = findByLeaseId_Some [OF Some, THEN conjunct1]
    have st: "wr_status (record_at q1 i) = Work_claimed"
      using lease_claimed [OF inv1 Some] by blast
    have "safe C {} q1 (andThen (expireClaimedRecord C i now m) (\<lambda>_. returns d) q1)" for m and d :: settle_decision
      by (rule safe_andThen [where m = "expireClaimedRecord C i now m", OF safe_expire [OF ok inv1 i st]])
        (simp add: returns_def keeps_refl)
    then have "safe C settle_errors q1 (andThen (expireClaimedRecord C i now m) (\<lambda>_. returns d) q1)"
      for m and d :: settle_decision
      by (rule safe_mono) simp
    then show ?thesis
      using Some keeps_refl [OF inv1] safe_settle_active [OF ok inv1 i st] by simp
  qed
qed

section \<open>Cancel\<close>

lemma set_rec_emit_for:
  assumes "i < length (wq_records q)" "wr_item (g (record_at q i)) = wr_item (record_at q i)"
  shows "set_rec i g (emit_for C i t m d now q) = emit_for C i t m d now (set_rec i g q)"
proof -
  have e: "emit C inp (q\<lparr>wq_records := rs\<rparr>) = (fst (emit C inp q), (snd (emit C inp q))\<lparr>wq_records := rs\<rparr>)" for inp rs
    by (simp add: emit_def draw_id_def next_sequence_def now_or_clock_def Let_def split: option.split)
  show ?thesis
    using assms unfolding emit_for_def set_rec_def record_at_def
    by (simp add: Let_def e)
qed

definition cancelled_as :: "iso_date \<Rightarrow> string \<Rightarrow> worker_work_record \<Rightarrow> worker_work_record" where
  "cancelled_as now reason r =
     r\<lparr>wr_cancelRequestedAt := Some now, wr_cancelReason := Some reason, wr_status := Work_cancelled,
       wr_attemptState := At_cancelled, wr_updatedAt := now, wr_lease := None,
       wr_terminalReason := Some reason\<rparr>"

definition cancel_requested_as :: "iso_date \<Rightarrow> string \<Rightarrow> worker_work_record \<Rightarrow> worker_work_record" where
  "cancel_requested_as now reason r =
     r\<lparr>wr_cancelRequestedAt := Some now, wr_cancelReason := Some reason, wr_status := Work_claimed,
       wr_attemptState := At_cancel_requested, wr_updatedAt := now\<rparr>"

definition cancel_update :: "iso_date \<Rightarrow> string \<Rightarrow> worker_work_record \<Rightarrow> worker_work_record" where
  "cancel_update now reason r =
     (if wr_status r = Work_claimed then cancel_requested_as now reason r else cancelled_as now reason r)"

lemma cancel_one_eq:
  assumes "wf_work (record_at q i)" "isActiveStatus (wr_status (record_at q i))" "i < length (wq_records q)"
  shows "cancel_one C reason now i q =
    (Inr (), if wr_status (record_at q i) = Work_claimed
       then emit_for C i (Lifecycle Lc_cancel_requested) reason None now
              (set_rec i (cancel_requested_as now reason) q)
       else emit_for C i (Lifecycle Lc_cancelled) reason None now
              (emit_for C i (Lifecycle Lc_cancel_requested) reason None now
                (set_rec i (cancelled_as now reason) q)))"
  using assms claimed_state [OF assms(1)] queued_state [OF assms(1)] awaiting_state [OF assms(1)]
  by (auto simp: cancel_one_def isActiveStatus_def transitionRecord_ok transitions Let_def
      set_rec_emit_for cancelled_as_def [abs_def] cancel_requested_as_def [abs_def])

lemma cancelled_simps [simp]:
  "wr_status (cancelled_as now reason r) = Work_cancelled"
  "wr_attemptState (cancelled_as now reason r) = At_cancelled"
  "wr_lease (cancelled_as now reason r) = None" "wr_item (cancelled_as now reason r) = wr_item r"
  "lease_id (cancelled_as now reason r) = None" "same_work r (cancelled_as now reason r)"
  by (simp_all add: cancelled_as_def lease_id_def same_work_def)

lemma wf_cancelled:
  assumes "wf_work r" "isActiveStatus (wr_status r)" "wr_status r \<noteq> Work_claimed"
  shows "wf_work (cancelled_as now reason r)" "canTransitionRunAttemptState (wr_attemptState r) At_cancelled"
  using assms by (cases "wr_status r"; simp add: wf_work_def isActiveStatus_def cancelled_as_def transitions)+

lemma keeps_cancel_one:
  assumes ok: "ok_config C" and inv: "queue_inv C q" and i: "i < length (wq_records q)"
    and act: "isActiveStatus (wr_status (record_at q i))"
  shows "safe C {} q (cancel_one C reason now i q)"
proof -
  note wf = inv_wf [OF inv i]
  have "keeps C q (emit_for C i t m d now (set_rec i (cancel_requested_as now reason) q))"
    if "wr_status (record_at q i) = Work_claimed" for t m d
    using wf that claimed_state [OF wf that]
    by (intro keeps_update ok inv i)
      (auto simp: isActiveStatus_def same_work_def transitions wf_work_def lease_id_def lease_matches_def cancel_requested_as_def)
  moreover have c: "keeps C q (emit_for C i t m d now (set_rec i (cancelled_as now reason) q))"
    if "wr_status (record_at q i) \<noteq> Work_claimed" for t m d
    using wf_cancelled [OF wf act that] act by (intro keeps_update ok inv i) simp_all
  moreover have "keeps C q (emit_for C i t1 m1 d1 now (emit_for C i t m d now (set_rec i (cancelled_as now reason) q)))"
    if "wr_status (record_at q i) \<noteq> Work_claimed" for t m d t1 m1 d1
    by (rule keeps_trans [OF c [OF that] keeps_emit_for [OF ok]])
  ultimately show ?thesis
    by (simp add: cancel_one_eq [OF wf act i])
qed

lemma cancel_one_records:
  assumes "wf_work (record_at q i)" "isActiveStatus (wr_status (record_at q i))" "i < length (wq_records q)"
  shows "wq_records (snd (cancel_one C reason now i q)) =
      wq_records (set_rec i (cancel_update now reason) q)"
    "record_at (snd (cancel_one C reason now i q)) j =
      (if j = i then cancel_update now reason (record_at q i) else record_at q j)"
  using assms by (simp_all add: cancel_one_eq records_set_rec cancel_update_def)

lemma safe_cancel_loop:
  assumes "ok_config C" "queue_inv C q" "distinct is"
    "\<forall>i \<in> set is. i < length (wq_records q) \<and> isActiveStatus (wr_status (record_at q i))"
  shows "safe C {} q (cancel_loop C reason now is q)"
  using assms(2-)
proof (induction "is" arbitrary: q)
  case Nil
  then show ?case by (simp add: keeps_refl)
next
  case (Cons i "is")
  then have i: "i < length (wq_records q)" "isActiveStatus (wr_status (record_at q i))" by auto
  note wf = inv_wf [OF Cons.prems(1) i(1)]
  show ?case
    unfolding cancel_loop.simps
  proof (rule safe_andThen)
    show "safe C {} q (cancel_one C reason now i q)"
      using assms(1) Cons.prems(1) i by (rule keeps_cancel_one)
    fix x q1 assume e: "cancel_one C reason now i q = (Inr x, q1)" and inv1: "queue_inv C q1"
    have "length (wq_records q1) = length (wq_records q)" "\<forall>j \<in> set is. record_at q1 j = record_at q j"
      using cancel_one_records [OF wf i(2,1), of C reason now] e Cons.prems(2) by auto
    then show "safe C {} q1 (cancel_loop C reason now is q1)"
      using inv1 Cons.prems by (intro Cons.IH) auto
  qed
qed

lemma indices_where_simps [simp]:
  "i \<in> set (indices_where P q) \<longleftrightarrow> i < length (wq_records q) \<and> P (record_at q i)"
  "distinct (indices_where P q)"
  by (auto simp: indices_where_def)

lemma safe_cancelRun:
  assumes ok: "ok_config C" and inv: "queue_inv C q"
  shows "safe C {} q (cancelRun C input q)"
  unfolding cancelRun_def
proof (rule safe_clock [OF inv], unfold Let_def, goal_cases)
  case (1 now q1)
  have "safe C {} q1 (andThen (cancel_loop C (cai_reason input) now
      (filter (\<lambda>i. isActiveStatus (wr_status (record_at q1 i)))
         (indices_where (of_run (cai_orgId input) (cai_runId input)) q1)))
      (\<lambda>_ q2. (Inr (f q2 :: cancel_decision), q2)) q1)" for f
    by (rule safe_andThen) (use 1 ok in \<open>auto intro: safe_cancel_loop keeps_refl\<close>)
  then show ?case
    using keeps_refl [OF 1(1)] by simp
qed

section \<open>Redrive, resume, runtime events\<close>

lemma redrive_keeps:
  assumes ok: "ok_config C" and inv: "queue_inv C q"
  shows "keeps C q (snd (redriveDeadLetter C input q))"
proof -
  let ?q1 = "snd (now_or_clock C (rdi_now input) q)"
  note clock = keeps_clock [OF inv, of "rdi_now input"]
  have inv1: "queue_inv C ?q1" using clock by (simp add: keeps_def)
  have push: "keeps C q2 (emit_for C i t m d now (snd (push_record C item a now' r q2)))"
    if "queue_inv C q2" for i t m d now item a now' r q2
    by (rule keeps_trans [OF keeps_push [OF ok that] keeps_emit_for [OF ok]])
  have k1: "keeps C q (emit_for C i t m d now (snd (push_record C item a now' r ?q1)))" for i t m d now item a now' r
    by (rule keeps_trans [OF clock push])
  have "keeps C ?q1 (snd (draw_id C ''trace'' ?q1))"
    using keeps_draw [OF inv1] by (simp add: draw_id_def)
  then have k2: "keeps C q (snd (draw_id C ''trace'' ?q1))"
    by (rule keeps_trans [OF clock])
  have k3: "keeps C q (emit_for C i t m d now (snd (push_record C item a now' r (snd (draw_id C ''trace'' ?q1)))))"
    for i t m d now item a now' r
    by (rule keeps_trans [OF k2 push])
  show ?thesis
    using clock k1 k3 by (simp add: redriveDeadLetter_def Let_def split_def split: option.split)
qed

lemma cancelApprovalWait_eq:
  assumes "wf_work (record_at q i)" "wr_status (record_at q i) = Work_awaiting_approval"
    "wr_approval (record_at q i) = Some gate" "i < length (wq_records q)"
  shows "cancelApprovalWait C i status reason now q =
    (let q' = emit_for C i (Lifecycle Lc_cancelled) reason
                (Some (JObj [(''approvalId'', JStr (wg_approvalId gate))])) now
                (set_rec i (\<lambda>r. r\<lparr>wr_status := Work_cancelled, wr_attemptState := At_cancelled,
                   wr_updatedAt := now, wr_approval := Some (gate\<lparr>wg_status := status\<rparr>),
                   wr_terminalReason := Some reason\<rparr>) q)
     in (Inr (Resume_cancelled (record_at q' i)), q'))"
  using assms awaiting_state [OF assms(1,2)]
  by (simp add: cancelApprovalWait_def transitionRecord_ok transitions Let_def)

definition granted_gate :: "worker_approval_gate \<Rightarrow> approval_request \<Rightarrow> worker_approval_gate" where
  "granted_gate gate approval =
     gate\<lparr>wg_status := ap_status approval,
          wg_payloadMetadata := (case ap_payloadMetadata approval of
             None \<Rightarrow> wg_payloadMetadata gate | Some m \<Rightarrow> Some m)\<rparr>"

definition resumed_as :: "iso_date \<Rightarrow> string option \<Rightarrow> worker_approval_gate \<Rightarrow> worker_work_record
    \<Rightarrow> worker_work_record" where
  "resumed_as now traceId gate r =
     r\<lparr>wr_item := (wr_item r)\<lparr>wi_reason := Reason_approval_granted,
                    wi_traceId := or_else traceId (wi_traceId (wr_item r)), wi_enqueuedAt := now\<rparr>,
       wr_status := Work_queued, wr_attemptState := At_queued, wr_updatedAt := now,
       wr_availableAt := now, wr_approval := Some gate\<rparr>"

lemma resume_approved_eq:
  assumes "wf_work (record_at q i)" "wr_status (record_at q i) = Work_awaiting_approval"
    "i < length (wq_records q)"
  shows "resume_approved C i gate approval traceId now q =
    (let q' = emit_for C i (Lifecycle Lc_approval_resumed) ''Approval granted; run work is queued to resume.''
                (Some (JObj ((''approvalId'', JStr (ap_id approval))
                   # opt_entry ''decidedByPrincipalId'' (ap_decidedByPrincipalId approval)))) now
                (set_rec i (resumed_as now traceId (granted_gate gate approval)) q)
     in (Inr (Resume_enqueued (record_at q' i)), q'))"
  using assms awaiting_state [OF assms(1,2)]
  by (simp add: resume_approved_def transitionRecord_ok transitions Let_def granted_gate_def resumed_as_def [abs_def])

lemma idempotency_key_cong:
  "wi_orgId a = wi_orgId b \<Longrightarrow> wi_runId a = wi_runId b \<Longrightarrow> wi_attempt a = wi_attempt b \<Longrightarrow>
     createWorkerIdempotencyKey a = createWorkerIdempotencyKey b"
  by (simp add: createWorkerIdempotencyKey_def)

lemma wf_resumed:
  assumes "wf_work r" "wr_status r = Work_awaiting_approval"
  shows "wf_work (resumed_as now traceId gate r)"
  using assms awaiting_state [OF assms]
  by (auto simp: resumed_as_def wf_work_def isActiveStatus_def intro!: idempotency_key_cong)

lemma safe_resume:
  assumes ok: "ok_config C" and inv: "queue_inv C q"
  shows "safe C {} q (resumeAfterApproval C input q)"
  unfolding resumeAfterApproval_def
proof (rule safe_clock [OF inv], unfold Let_def, goal_cases)
  case (1 now q1)
  note refl1 = keeps_refl [OF 1(1)]
  let ?f = "find_index (\<lambda>r. of_run (ap_orgId (rei_approval input)) (ap_runId (rei_approval input)) r
              \<and> map_option wg_approvalId (wr_approval r) = Some (ap_id (rei_approval input))) q1"
  show ?case
  proof (cases ?f)
    case None
    with refl1 show ?thesis by simp
  next
    case (Some i)
    then have i: "i < length (wq_records q1)" using find_index_Some by blast
    note wf = inv_wf [OF 1(1) i]
    have blocked: "keeps C q1 (emit_for C i t m d now q1)" for t m d
      by (rule keeps_emit_for [OF ok 1(1)])
    have cancelled: "safe C {} q1 (cancelApprovalWait C i status reason now q1)"
      if st: "wr_status (record_at q1 i) = Work_awaiting_approval" "wr_approval (record_at q1 i) = Some gate"
      for status reason gate
    proof -
      have "wf_work ((record_at q1 i)\<lparr>wr_status := Work_cancelled, wr_attemptState := At_cancelled,
               wr_updatedAt := now, wr_approval := g, wr_terminalReason := Some reason\<rparr>)" for g
        using wf awaiting_state [OF wf st(1)] by (simp add: wf_work_def isActiveStatus_def)
      then show ?thesis
        using awaiting_state [OF wf st(1)] st
        unfolding cancelApprovalWait_eq [OF wf st i] Let_def safe_Inr
        by (intro keeps_update ok 1(1) i) (simp_all add: isActiveStatus_def same_work_def transitions lease_id_def)
    qed
    have resumed: "safe C {} q1 (resume_approved C i gate ap traceId now q1)"
      if st: "wr_status (record_at q1 i) = Work_awaiting_approval" for gate ap traceId
      using awaiting_state [OF wf st] st wf_resumed [OF wf st]
      unfolding resume_approved_eq [OF wf st i] Let_def safe_Inr
      by (intro keeps_update ok 1(1) i)
        (simp_all add: isActiveStatus_def same_work_def transitions lease_id_def resumed_as_def)
    show ?thesis
      unfolding Some option.case
      using refl1 blocked cancelled resumed by (simp split: option.split)
  qed
qed

lemma emitRuntimeEvent_keeps:
  "ok_config C \<Longrightarrow> queue_inv C q \<Longrightarrow> keeps C q (snd (emitRuntimeEvent C input q))"
  by (simp add: emitRuntimeEvent_def Let_def split_def keeps_refl keeps_emit split: option.split)

section \<open>The step relation\<close>

text \<open>One call of a method of the queue, whatever it answers.\<close>

inductive worker_step :: "worker_config \<Rightarrow> worker_queue \<Rightarrow> worker_queue \<Rightarrow> bool" for C where
  step_enqueue: "worker_step C q (snd (enqueue C ei q))"
| step_claim: "worker_step C q (snd (claimNext C ci q))"
| step_heartbeat: "worker_step C q (snd (heartbeat C hi q))"
| step_expire: "worker_step C q (snd (expireLeases C t q))"
| step_settle: "worker_step C q (snd (settle C si q))"
| step_cancel: "worker_step C q (snd (cancelRun C cai q))"
| step_redrive: "worker_step C q (snd (redriveDeadLetter C di q))"
| step_resume: "worker_step C q (snd (resumeAfterApproval C ri q))"
| step_emit: "worker_step C q (snd (emit C wi q))"
| step_runtime_event: "worker_step C q (snd (emitRuntimeEvent C rti q))"

inductive worker_run :: "worker_config \<Rightarrow> worker_queue \<Rightarrow> worker_queue \<Rightarrow> bool" for C where
  run_start: "worker_run C q q"
| run_step: "worker_run C q q1 \<Longrightarrow> worker_step C q1 q2 \<Longrightarrow> worker_run C q q2"

lemma safe_keeps: "safe C E q r \<Longrightarrow> keeps C q (snd r)"
  by (simp add: safe_def)

lemmas method_keeps =
  enqueue_keeps safe_keeps [OF safe_claimNext] safe_keeps [OF safe_heartbeat]
  safe_keeps [OF safe_expireLeases] safe_keeps [OF safe_settle] safe_keeps [OF safe_cancelRun]
  redrive_keeps safe_keeps [OF safe_resume] keeps_emit emitRuntimeEvent_keeps

lemma step_keeps: "worker_step C q q' \<Longrightarrow> ok_config C \<Longrightarrow> queue_inv C q \<Longrightarrow> keeps C q q'"
  by (induction rule: worker_step.induct) (simp_all add: method_keeps)

lemma run_keeps: "worker_run C q q' \<Longrightarrow> ok_config C \<Longrightarrow> queue_inv C q \<Longrightarrow> keeps C q q'"
proof (induction rule: worker_run.induct)
  case (run_start q)
  then show ?case by (simp add: keeps_refl)
next
  case (run_step q q1 q2)
  then have "keeps C q q1" by simp
  then show ?case
    by (rule keeps_trans) (rule step_keeps [OF run_step.hyps(2) run_step.prems(1)])
qed

lemma empty_queue_inv: "queue_inv C empty_queue"
  by (simp add: queue_inv_def empty_queue_def sequences_def row_ids_def lease_ids_def leases_unique_def
      unused_ids_def)

end
