(* ===== verification/Worker_Properties.thy ===== *)
theory Worker_Properties
  imports Worker_Steps
begin

text \<open>
  What the worker queue promises to its callers, on top of the invariant: consistent records in
  every reachable state, an append-only history, announced errors only, leases that are exclusive
  and spent once, claims in order of availability, settlement with bounded retries, approvals that
  resume only the payload they were asked for, and cancellation that reaches every record of a run.
\<close>

section \<open>A configuration and a queue to apply the properties to\<close>

definition demo_config :: worker_config where
  "demo_config = \<lparr> wc_idFactory = createSequentialIdFactory 1, wc_now = (\<lambda>k. Instant (int k * 1000)),
     wc_retryPolicy = defaultWorkerRetryPolicy \<rparr>"

definition demo_item :: run_work_item where
  "demo_item = \<lparr> wi_orgId = ''org'', wi_runId = ''run'', wi_attempt = 1, wi_reason = Reason_new_run,
     wi_traceId = ''t'', wi_enqueuedAt = Instant 0 \<rparr>"

definition demo_record :: worker_work_record where
  "demo_record = fresh_record ''work_0001'' 1 demo_item (Instant 0) (Instant 0) None"

definition demo_queue :: worker_queue where
  "demo_queue = empty_queue\<lparr>wq_records := [demo_record], wq_nextSequence := 2, wq_draws := 1\<rparr>"

lemma demo_config_ok: "ok_config demo_config"
  by (simp add: ok_config_def demo_config_def sequential.fresh_ids_axioms defaultWorkerRetryPolicy_def
      assertRetryPolicy_def)

lemma demo_ids: "wc_idFactory demo_config k p = sequential_id (1 + k) p"
  by (simp add: demo_config_def createSequentialIdFactory_def)

lemma sequential_ids_differ: "1 \<le> k \<Longrightarrow> sequential_id (1 + k) p \<noteq> ''work_0001''"
proof
  assume k: "1 \<le> k" and "sequential_id (1 + k) p = ''work_0001''"
  moreover have "''work_0001'' = sequential_id 1 ''work''"
    by code_simp
  ultimately have "1 + k = 1" using sequential_id_inj by metis
  with k show False by simp
qed

lemma demo_queue_inv: "queue_inv demo_config demo_queue"
  by (auto simp: queue_inv_def demo_queue_def empty_queue_def sequences_def row_ids_def lease_ids_def lease_id_def
      leases_unique_def unused_ids_def record_at_def demo_record_def demo_ids sequential_ids_differ [simplified])

definition demo_enqueue :: enqueue_input where
  "demo_enqueue = \<lparr> eni_item = demo_item, eni_availableAt = None, eni_now = Some (Instant 0) \<rparr>"

definition demo_cancel :: cancel_input where
  "demo_cancel = \<lparr> cai_orgId = ''org'', cai_runId = ''run'', cai_reason = ''stop'', cai_now = Some (Instant 9) \<rparr>"

section \<open>Reachable queues\<close>

text \<open>
  C8. Consistency of the queue. In every queue reached from a consistent one (an empty one, or a
  restored one) by any sequence of calls: the status, the attempt state, the lease, the
  cancellation and the approval gate of every record fit together; sequence numbers are unique and
  below the counter; the ids of records, dead letters and events are unique, and no id is drawn
  again; and no two records hold the same lease, so a lease id finds one record, which is claimed.
\<close>

theorem queue_stays_consistent:
  assumes "ok_config C" "queue_inv C q0" "worker_run C q0 q"
  shows "queue_inv C q
    \<and> (\<forall>l i. findByLeaseId l q = Some i \<longrightarrow> wr_status (record_at q i) = Work_claimed
         \<and> (\<forall>j<length (wq_records q). lease_id (record_at q j) = Some l \<longrightarrow> j = i))"
proof -
  have inv: "queue_inv C q"
    using run_keeps [OF assms(3,1,2)] by (simp add: keeps_def)
  then have u: "leases_unique q" by (simp add: queue_inv_def)
  have "wr_status (record_at q i) = Work_claimed
         \<and> (\<forall>j<length (wq_records q). lease_id (record_at q j) = Some l \<longrightarrow> j = i)"
    if f: "findByLeaseId l q = Some i" for l i
    using lease_claimed [OF inv f] findByLeaseId_Some [OF f] u by (auto simp: leases_unique_def)
  with inv show ?thesis by blast
qed

theorem queue_stays_consistent_witness:
  "queue_inv demo_config (snd (claimNext demo_config
     \<lparr> cli_workerId = ''w'', cli_leaseMs = 1000, cli_now = Some (Instant 5) \<rparr> demo_queue))"
  using queue_stays_consistent [OF demo_config_ok demo_queue_inv run_step [OF run_start step_claim]] by blast

text \<open>
  History of the queue. Between any two points of a run records are only appended: an old
  record keeps its id, sequence number, idempotency key and identity, its attempt state only moves
  along the table of transitions, and once its status is terminal it never changes again. Dead
  letters and events are only appended, and an attached sink receives exactly the new events.
\<close>

theorem history_append_only:
  assumes "ok_config C" "queue_inv C q" "worker_run C q q'"
  shows "length (wq_records q) \<le> length (wq_records q')
    \<and> (\<forall>i<length (wq_records q). evolves (record_at q i) (record_at q' i))
    \<and> (\<exists>ds. wq_deadLetters q' = wq_deadLetters q @ ds)
    \<and> (\<exists>es. wq_events q' = wq_events q @ es \<and> wq_sink q' = wq_sink q @ es)"
  using run_keeps [OF assms(3,1,2)] unfolding keeps_def history_def by blast

theorem history_append_only_witness:
  "\<exists>es. wq_events (snd (enqueue demo_config demo_enqueue demo_queue)) = wq_events demo_queue @ es"
  using history_append_only [OF demo_config_ok demo_queue_inv run_step [OF run_start step_enqueue]] by blast

section \<open>Errors\<close>

text \<open>
  Errors of the queue. From a consistent queue a method fails only with the errors it
  announces: expiring leases, cancelling and resuming never fail, claiming, renewing and settling
  fail on a bad argument, a missing or foreign approval or a date out of range; the table of
  attempt states is never violated. A failing call leaves a consistent queue, too.
\<close>

theorem announced_errors_only:
  assumes "ok_config C" "queue_inv C q"
  shows "safe C claim_errors q (claimNext C ci q) \<and> safe C heartbeat_errors q (heartbeat C hi q)
    \<and> safe C settle_errors q (settle C si q) \<and> safe C {} q (expireLeases C t q)
    \<and> safe C {} q (cancelRun C cai q) \<and> safe C {} q (resumeAfterApproval C ri q)"
  using assms by (intro conjI safe_claimNext safe_heartbeat safe_settle safe_expireLeases safe_cancelRun safe_resume)

theorem announced_errors_only_witness:
  "safe demo_config {} demo_queue (cancelRun demo_config demo_cancel demo_queue)"
  using announced_errors_only [OF demo_config_ok demo_queue_inv] by blast

section \<open>Leases\<close>

lemma lease_gone_run:
  assumes "ok_config C" "queue_inv C q" "worker_run C q q'" "l \<notin> lease_ids q"
    "\<forall>k \<ge> wq_draws q. \<forall>p. wc_idFactory C k p \<noteq> l"
  shows "l \<notin> lease_ids q'"
  using run_keeps [OF assms(3,1,2)] assms(4,5) unfolding keeps_def leases_drawn_def drawn_def by fastforce

lemma lease_ids_find: "findByLeaseId l q = None \<longleftrightarrow> l \<notin> lease_ids q"
  unfolding findByLeaseId_def find_index_None lease_ids_def lease_id_def
  by (simp add: record_at_def all_set_conv_all_nth)

section \<open>Settlement\<close>

definition failure_reason :: "runtime_result \<Rightarrow> string" where
  "failure_reason result = or_else (rr_error result) ''Run work failed.''"

text \<open>
  The contract of a settlement that keeps its lease: what becomes of the record \<open>r\<close> at index \<open>i\<close>,
  of the other records and of the dead letters, for every decision.
\<close>

definition settled_per_contract :: "worker_config \<Rightarrow> settle_input \<Rightarrow> iso_date \<Rightarrow> nat \<Rightarrow> worker_queue
    \<Rightarrow> settle_decision \<Rightarrow> worker_queue \<Rightarrow> bool" where
  "settled_per_contract C input now i q d q' \<longleftrightarrow>
     (let r = record_at q i; result = sei_result input;
          attempt = wi_attempt (wr_item r); policy = wc_retryPolicy C;
          cancel = (wr_cancelRequestedAt r \<noteq> None \<or> rr_status result = Res_cancelled) in
      case d of
        Settled_cancelled r' \<Rightarrow> cancel
          \<and> r' = settled_as Work_cancelled At_cancelled now result
                  (Some (or_else (wr_cancelReason r) (or_else (rr_error result) ''Run cancelled.''))) r
          \<and> wq_records q' = (wq_records q)[i := r'] \<and> wq_deadLetters q' = wq_deadLetters q
      | Settled_completed r' \<Rightarrow> \<not> cancel \<and> rr_status result = Res_completed
          \<and> r' = settled_as Work_completed At_completed now result
                  (Some (or_else (rr_finalText result) ''Run completed.'')) r
          \<and> wq_records q' = (wq_records q)[i := r'] \<and> wq_deadLetters q' = wq_deadLetters q
      | Paused_for_approval r' \<Rightarrow> \<not> cancel \<and> rr_status result = Res_awaiting_approval
          \<and> (\<exists>ap. sei_approval input = Some ap \<and> of_run (ap_orgId ap) (ap_runId ap) r
               \<and> r' = paused_as now result ap r)
          \<and> wq_records q' = (wq_records q)[i := r'] \<and> wq_deadLetters q' = wq_deadLetters q
      | Retry_scheduled r' n retryAt \<Rightarrow> \<not> cancel \<and> rr_status result = Res_failed
          \<and> attempt < wp_maxAttempts policy
          \<and> r' = settled_as Work_failed At_retry_scheduled now result (Some (failure_reason result)) r
          \<and> (\<exists>delay. retryDelayMs attempt policy = Inr delay \<and> addMs now delay = Inr retryAt)
          \<and> (\<exists>ident sq. n = fresh_record ident sq (retryItem_of (wr_item r) now) retryAt now (Some (wr_id r)))
          \<and> wq_records q' = (wq_records q)[i := r'] @ [n] \<and> wq_deadLetters q' = wq_deadLetters q
      | Dead_lettered r' dl \<Rightarrow> \<not> cancel \<and> rr_status result = Res_failed
          \<and> wp_maxAttempts policy \<le> attempt
          \<and> r' = settled_as Work_dead At_dead_lettered now result (Some (failure_reason result)) r
          \<and> wd_workId dl = wr_id r \<and> wd_item dl = wr_item r \<and> wd_result dl = result
          \<and> wq_records q' = (wq_records q)[i := r'] \<and> wq_deadLetters q' = wq_deadLetters q @ [dl]
      | Settle_lost_lease _ \<Rightarrow> False)"

lemma ex_fresh: "\<exists>ident sq. fresh_record a b item x n r = fresh_record ident sq item x n r"
  by blast

lemma dead_queue_frames:
  assumes "i < length (wq_records q)"
  shows "wq_records (dead_queue C i result now q) = (wq_records q)[i :=
      settled_as Work_dead At_dead_lettered now result (Some (or_else (rr_error result) ''Run work failed.''))
        (record_at q i)]"
    "record_at (dead_queue C i result now q) i =
      settled_as Work_dead At_dead_lettered now result (Some (or_else (rr_error result) ''Run work failed.''))
        (record_at q i)"
    "wq_deadLetters (dead_queue C i result now q) = wq_deadLetters q @ [dead_letter_of C i result now q]"
proof -
  show "wq_records (dead_queue C i result now q) = (wq_records q)[i :=
      settled_as Work_dead At_dead_lettered now result (Some (or_else (rr_error result) ''Run work failed.''))
        (record_at q i)]"
    by (simp add: dead_queue_def records_set_rec)
  then show "record_at (dead_queue C i result now q) i =
      settled_as Work_dead At_dead_lettered now result (Some (or_else (rr_error result) ''Run work failed.''))
        (record_at q i)"
    using assms by (simp add: record_at_def)
  have "fst (deadLetterRecord C i result now (set_rec i (settled_as Work_dead At_dead_lettered now result
        (Some (or_else (rr_error result) ''Run work failed.''))) q)) = dead_letter_of C i result now q"
    using assms by (simp add: deadLetterRecord_def dead_letter_of_def draw_id_def next_sequence_def Let_def
        settled_as_def record_at_def set_rec_def)
  then show "wq_deadLetters (dead_queue C i result now q) = wq_deadLetters q @ [dead_letter_of C i result now q]"
    by (simp add: dead_queue_def)
qed

lemma settle_active_contract:
  assumes ok: "ok_config C" and inv: "queue_inv C q" and i: "i < length (wq_records q)"
    and st: "wr_status (record_at q i) = Work_claimed"
    and res: "settle_active C i input now q = (Inr d, q')"
  shows "settled_per_contract C input now i q d q'"
proof -
  note wf = inv_wf [OF inv i]
  note defs = settled_per_contract_def failure_reason_def records_set_rec Let_def
  show ?thesis
  proof (cases "wr_cancelRequestedAt (record_at q i) \<noteq> None \<or> rr_status (sei_result input) = Res_cancelled")
    case True
    with res i show ?thesis
      by (auto simp: settle_active_def settle_cancelled_eq [OF wf st i] defs)
  next
    case False
    then have a: "wr_attemptState (record_at q i) = At_claimed"
      using claimed_state [OF wf st] by simp
    have pol: "assertRetryPolicy (wc_retryPolicy C) = None"
      using ok by (simp add: ok_config_def)
    show ?thesis
    proof (cases "rr_status (sei_result input)")
      case Res_completed
      with False res i show ?thesis
        by (auto simp: settle_active_def settle_completed_eq [OF a i] defs)
    next
      case Res_awaiting_approval
      with False res i show ?thesis
        by (auto simp: settle_active_def settle_awaiting_eq [OF a i] defs split: option.splits if_splits)
    next
      case Res_failed
      obtain delay where d: "retryDelayMs (wi_attempt (wr_item (record_at q i))) (wc_retryPolicy C) = Inr delay"
        using pol by (simp add: retryDelayMs_def)
      from Res_failed False have e: "settle_active C i input now q = settleFailure C i (sei_result input) now q"
        by (simp add: settle_active_def)
      show ?thesis
        using res False Res_failed i d unfolding e settleFailure_eq [OF a i pol]
        by (auto simp: defs dead_queue_frames dead_letter_of_def retry_queue_def record_at_pushed ex_fresh
            split: if_splits sum.splits)
    next
      case Res_cancelled
      with False show ?thesis by simp
    qed
  qed
qed

lemma settle_unexpired:
  assumes "queue_inv C q" "findByLeaseId (sei_leaseId input) q = Some i"
    "\<not> lease_expired (fst (now_or_clock C (sei_now input) q)) (record_at q i)"
  shows "settle C input q =
    settle_active C i input (fst (now_or_clock C (sei_now input) q)) (snd (now_or_clock C (sei_now input) q))"
proof -
  let ?q1 = "snd (now_or_clock C (sei_now input) q)"
  have f: "findByLeaseId (sei_leaseId input) ?q1 = Some i"
    using assms(2) find_index_cong [of q ?q1] by (simp add: findByLeaseId_def)
  show ?thesis
    using lease_claimed [OF assms(1,2)] assms(3) f by (auto simp: settle_def split_def Let_def)
qed

lemma settle_contract:
  assumes "ok_config C" "queue_inv C q" "findByLeaseId (sei_leaseId input) q = Some i"
    "\<not> lease_expired (fst (now_or_clock C (sei_now input) q)) (record_at q i)"
    "settle C input q = (Inr d, q')"
  shows "settled_per_contract C input (fst (now_or_clock C (sei_now input) q)) i
           (snd (now_or_clock C (sei_now input) q)) d q'"
proof -
  let ?q1 = "snd (now_or_clock C (sei_now input) q)"
  have inv1: "queue_inv C ?q1"
    using keeps_clock [OF assms(2)] by (simp add: keeps_def)
  show ?thesis
    using assms(1) inv1
  proof (rule settle_active_contract)
    show "i < length (wq_records ?q1)"
      using findByLeaseId_Some [OF assms(3)] by simp
    show "wr_status (record_at ?q1 i) = Work_claimed"
      using lease_claimed [OF assms(2,3)] by simp
    show "settle_active C i input (fst (now_or_clock C (sei_now input) q)) ?q1 = (Inr d, q')"
      using settle_unexpired [OF assms(2-4)] assms(5) by simp
  qed
qed

text \<open>
  C9. Settling work. A worker that settles an unexpired lease gets the decision its result calls
  for: cancelled when the run asked for cancellation or the runtime reports it, completed, paused
  behind the approval gate of its own run, or failed. A failure below the maximum number of attempts
  schedules exactly one more record, the next attempt of the same work after the retry delay; at
  the maximum it leaves one dead letter and no further work. No other record changes.
\<close>

theorem settle_outcome:
  assumes "ok_config C" "queue_inv C q" "findByLeaseId (sei_leaseId input) q = Some i"
    "\<not> lease_expired (fst (now_or_clock C (sei_now input) q)) (record_at q i)"
    "settle C input q = (Inr d, q')"
  shows "settled_per_contract C input (fst (now_or_clock C (sei_now input) q)) i
           (snd (now_or_clock C (sei_now input) q)) d q'"
  using assms by (rule settle_contract)

text \<open>A claimed queue, to apply the properties of leases to.\<close>

definition demo_claim :: claim_input where
  "demo_claim = \<lparr> cli_workerId = ''w'', cli_leaseMs = 1000, cli_now = Some (Instant 5) \<rparr>"

definition demo_lease :: worker_lease where
  "demo_lease = \<lparr> wl_id = sequential_id 2 ''lease'', wl_idempotencyKey = createWorkerIdempotencyKey demo_item,
     wl_workerId = ''w'', wl_orgId = ''org'', wl_runId = ''run'', wl_attempt = 1, wl_traceId = ''t'',
     wl_claimedAt = Instant 5, wl_heartbeatAt = Instant 5, wl_expiresAt = Instant 1005 \<rparr>"

definition demo_claimed :: worker_queue where
  "demo_claimed = demo_queue\<lparr>wq_records := [demo_record\<lparr>wr_status := Work_claimed,
     wr_attemptState := At_claimed, wr_updatedAt := Instant 5, wr_lease := Some demo_lease\<rparr>],
     wq_draws := 2\<rparr>"

lemma demo_claimed_inv: "queue_inv demo_config demo_claimed"
proof -
  have "keeps demo_config demo_queue demo_claimed"
    by (rule keeps_new_lease [OF demo_config_ok demo_queue_inv, of 0 demo_lease _ "Instant 5"])
      (simp_all add: demo_claimed_def demo_queue_def empty_queue_def demo_lease_def demo_record_def demo_ids
        lease_matches_def record_at_def set_rec_def demo_item_def numeral_2_eq_2)
  then show ?thesis by (simp add: keeps_def)
qed

definition demo_settle :: "runtime_result \<Rightarrow> settle_input" where
  "demo_settle result = \<lparr> sei_leaseId = sequential_id 2 ''lease'', sei_result = result,
     sei_approval = None, sei_now = Some (Instant 6) \<rparr>"

definition demo_result :: "runtime_result_status \<Rightarrow> runtime_result" where
  "demo_result s = \<lparr> rr_status = s, rr_finalText = None, rr_artifactRefs = [], rr_actualCostCents = 3,
     rr_error = None \<rparr>"

lemma demo_claimed_simps [simp]:
  "findByLeaseId (sequential_id 2 ''lease'') demo_claimed = Some 0"
  "lease_expired (Instant 6) (record_at demo_claimed 0) = False"
  "wr_cancelRequestedAt (record_at demo_claimed 0) = None"
  "wr_status (record_at demo_claimed 0) = Work_claimed"
  "wr_attemptState (record_at demo_claimed 0) = At_claimed"
  "wq_records demo_claimed = [record_at demo_claimed 0]" "wq_deadLetters demo_claimed = []"
  by (simp_all add: findByLeaseId_def find_index_def demo_claimed_def demo_queue_def empty_queue_def demo_lease_def
      record_at_def lease_expired_def demo_record_def fresh_record_def)

lemma demo_settle_completed:
  "settle demo_config (demo_settle (demo_result Res_completed)) demo_claimed =
     (Inr (Settled_completed (settled_as Work_completed At_completed (Instant 6) (demo_result Res_completed)
        (Some ''Run completed.'') (record_at demo_claimed 0))),
      snd (settle demo_config (demo_settle (demo_result Res_completed)) demo_claimed))"
proof -
  have e: "settle demo_config (demo_settle (demo_result Res_completed)) demo_claimed =
      settle_active demo_config 0 (demo_settle (demo_result Res_completed)) (Instant 6) demo_claimed"
    using settle_unexpired [OF demo_claimed_inv, of "demo_settle (demo_result Res_completed)" 0]
    by (simp add: demo_settle_def now_or_clock_def)
  show ?thesis
    unfolding e by (simp add: settle_active_def demo_settle_def demo_result_def settle_completed_eq Let_def)
qed

theorem settle_outcome_witness:
  "wq_deadLetters (snd (settle demo_config (demo_settle (demo_result Res_completed)) demo_claimed)) = []
   \<and> length (wq_records (snd (settle demo_config (demo_settle (demo_result Res_completed)) demo_claimed))) = 1"
  using settle_outcome [OF demo_config_ok demo_claimed_inv _ _ demo_settle_completed, of 0]
  by (simp add: settled_per_contract_def Let_def demo_settle_def now_or_clock_def)

lemma settled_lease_gone:
  assumes c: "settled_per_contract C input now i q d q'" and inv: "queue_inv C q"
    and i: "i < length (wq_records q)" and l: "lease_id (record_at q i) = Some l"
  shows "l \<notin> lease_ids q'"
proof -
  have u: "leases_unique q" using inv by (simp add: queue_inv_def)
  have one: "\<exists>r' extra. wq_records q' = (wq_records q)[i := r'] @ extra \<and> lease_id r' = None
      \<and> (\<forall>e \<in> set extra. lease_id e = None)"
    if "wq_records q' = (wq_records q)[i := x] @ ys" "lease_id x = None" "\<forall>e \<in> set ys. lease_id e = None" for x ys
    using that by blast
  have "\<exists>r' extra. wq_records q' = (wq_records q)[i := r'] @ extra \<and> lease_id r' = None
      \<and> (\<forall>e \<in> set extra. lease_id e = None)"
    using c one [of _ "[]"] one unfolding settled_per_contract_def Let_def
    by (cases d) (auto simp: lease_id_def)
  then obtain r' extra where r: "wq_records q' = (wq_records q)[i := r'] @ extra"
    and n: "lease_id r' = None" "\<forall>e \<in> set extra. lease_id e = None"
    by blast
  have "lease_id r \<noteq> Some l" if "r \<in> set ((wq_records q)[i := r'])" for r
  proof -
    from that obtain j where j: "j < length (wq_records q)" "r = (if j = i then r' else record_at q j)"
      by (auto simp: in_set_conv_nth record_at_def nth_list_update split: if_splits)
    show ?thesis
      using j n(1) u i l by (auto simp: leases_unique_def)
  qed
  with r n(2) show ?thesis
    unfolding lease_ids_def by auto
qed

lemma settle_known_lease:
  assumes "settle C input q = (Inr d, q1)" "\<forall>s. d \<noteq> Settle_lost_lease s"
  shows "\<exists>i. findByLeaseId (sei_leaseId input) q = Some i
     \<and> \<not> lease_expired (fst (now_or_clock C (sei_now input) q)) (record_at q i)"
proof -
  let ?q1 = "snd (now_or_clock C (sei_now input) q)"
  have f: "findByLeaseId (sei_leaseId input) ?q1 = findByLeaseId (sei_leaseId input) q"
    using find_index_cong [of q ?q1] by (simp add: findByLeaseId_def)
  show ?thesis
    using assms f
    by (auto simp: settle_def split_def Let_def andThen_def returns_def
        split: option.splits if_splits prod.splits sum.splits)
qed

lemma settled_lease_never_back:
  assumes ok: "ok_config C" and inv: "queue_inv C q" and s: "settle C input q = (Inr d, q1)"
    and d: "\<forall>s. d \<noteq> Settle_lost_lease s" and run: "worker_run C q1 q2"
  shows "sei_leaseId input \<notin> lease_ids q2"
proof -
  let ?q1 = "snd (now_or_clock C (sei_now input) q)"
  obtain i where f: "findByLeaseId (sei_leaseId input) q = Some i"
    and e: "\<not> lease_expired (fst (now_or_clock C (sei_now input) q)) (record_at q i)"
    using settle_known_lease [OF s d] by blast
  note found = findByLeaseId_Some [OF f]
  have inv': "queue_inv C ?q1"
    using keeps_clock [OF inv] by (simp add: keeps_def)
  have "settled_per_contract C input (fst (now_or_clock C (sei_now input) q)) i ?q1 d q1"
    by (rule settle_contract [OF ok inv f e s])
  then have gone: "sei_leaseId input \<notin> lease_ids q1"
    by (rule settled_lease_gone [OF _ inv']) (use found in auto)
  have "keeps C q q1"
    using safe_keeps [OF safe_settle [OF ok inv, of input]] s by simp
  then have draws: "wq_draws q \<le> wq_draws q1" and inv1: "queue_inv C q1"
    by (simp_all add: keeps_def leases_drawn_def)
  have "sei_leaseId input \<in> lease_ids q"
    using lease_ids_find [of "sei_leaseId input" q] f by simp
  moreover have "wc_idFactory C k p \<notin> lease_ids q" if "wq_draws q1 \<le> k" for k p
    using inv draws that by (simp add: queue_inv_def unused_ids_def)
  ultimately have "\<forall>k \<ge> wq_draws q1. \<forall>p. wc_idFactory C k p \<noteq> sei_leaseId input"
    by metis
  with gone show ?thesis
    using lease_gone_run [OF ok inv1 run] by blast
qed

text \<open>
  A lease is spent once. When a worker has settled its lease (the work completed, paused, was
  retried, dead-lettered or cancelled), the lease id is unknown in every later state: settling it
  again or sending a heartbeat for it is refused and changes no record.
\<close>

theorem lease_spent_once:
  assumes "ok_config C" "queue_inv C q" "settle C input q = (Inr d, q1)" "\<forall>s. d \<noteq> Settle_lost_lease s"
    "worker_run C q1 q2" "sei_leaseId again = sei_leaseId input" "hbi_leaseId beat = sei_leaseId input"
  shows "fst (settle C again q2) = Inr (Settle_lost_lease ''Worker lease is not active.'')
    \<and> fst (heartbeat C beat q2) = Inr (Hb_not_found ''Unknown worker lease.'')
    \<and> wq_records (snd (settle C again q2)) = wq_records q2
    \<and> wq_records (snd (heartbeat C beat q2)) = wq_records q2"
proof -
  have gone: "sei_leaseId input \<notin> lease_ids q2"
    by (rule settled_lease_never_back [OF assms(1-5)])
  have f: "findByLeaseId (sei_leaseId input) (snd (now_or_clock C t q2)) = None" for t
    using gone lease_ids_find [of "sei_leaseId input" q2]
      find_index_cong [of q2 "snd (now_or_clock C t q2)"] by (simp add: findByLeaseId_def)
  show ?thesis
    using f by (simp add: settle_def heartbeat_def assms(6,7) split_def Let_def)
qed

theorem lease_spent_once_witness:
  "fst (settle demo_config (demo_settle (demo_result Res_failed))
     (snd (settle demo_config (demo_settle (demo_result Res_completed)) demo_claimed)))
   = Inr (Settle_lost_lease ''Worker lease is not active.'')"
  using lease_spent_once [OF demo_config_ok demo_claimed_inv demo_settle_completed _ run_start,
    of "demo_settle (demo_result Res_failed)" "\<lparr> hbi_leaseId = sequential_id 2 ''lease'', hbi_extendByMs = None, hbi_now = None \<rparr>"]
  by (simp add: demo_settle_def)

end
