(* ===== verification/Worker_Claims.thy ===== *)
theory Worker_Claims
  imports Worker_Properties
begin

text \<open>
  How work leaves the queue: expired leases are released, a claim takes the earliest due record,
  an approval resumes exactly the payload it was asked for, a cancellation reaches every record of
  its run, and enqueueing is idempotent while the work is active.
\<close>

section \<open>Expired leases\<close>

definition expired_claim :: "iso_date \<Rightarrow> worker_work_record \<Rightarrow> bool" where
  "expired_claim now r \<longleftrightarrow> wr_status r = Work_claimed \<and> lease_expired now r"

definition released :: "iso_date \<Rightarrow> worker_work_record \<Rightarrow> worker_work_record" where
  "released now r =
     (if \<not> expired_claim now r then r
      else if wr_cancelRequestedAt r \<noteq> None
      then r\<lparr>wr_status := Work_cancelled, wr_attemptState := At_cancelled, wr_updatedAt := now, wr_lease := None,
             wr_terminalReason := Some (or_else (wr_cancelReason r) ''Run cancellation requested.'')\<rparr>
      else r\<lparr>wr_status := Work_queued, wr_attemptState := At_queued, wr_updatedAt := now, wr_lease := None\<rparr>)"

lemma expire_releases:
  assumes "queue_inv C q" "i < length (wq_records q)" "expired_claim now (record_at q i)"
  shows "fst (expireClaimedRecord C i now m q) = Inr ()"
    "wq_records (snd (expireClaimedRecord C i now m q)) = (wq_records q)[i := released now (record_at q i)]"
    "wq_deadLetters (snd (expireClaimedRecord C i now m q)) = wq_deadLetters q"
proof -
  have st: "wr_status (record_at q i) = Work_claimed"
    using assms(3) by (simp add: expired_claim_def)
  show "fst (expireClaimedRecord C i now m q) = Inr ()"
    "wq_records (snd (expireClaimedRecord C i now m q)) = (wq_records q)[i := released now (record_at q i)]"
    "wq_deadLetters (snd (expireClaimedRecord C i now m q)) = wq_deadLetters q"
    using assms by (simp_all add: expireClaimedRecord_eq [OF inv_wf [OF assms(1,2)] st assms(2)] records_set_rec
        released_def)
qed

lemma requeue_loop_releases:
  assumes "ok_config C" "queue_inv C q" "distinct is" "\<forall>i \<in> set is. i < length (wq_records q)"
  shows "\<exists>q'. requeue_loop C now is q =
      (Inr (map (\<lambda>i. released now (record_at q i)) (filter (\<lambda>i. expired_claim now (record_at q i)) is)), q')
    \<and> length (wq_records q') = length (wq_records q) \<and> wq_deadLetters q' = wq_deadLetters q
    \<and> (\<forall>j<length (wq_records q). record_at q' j =
         (if j \<in> set is then released now (record_at q j) else record_at q j))"
  using assms(2-)
proof (induction "is" arbitrary: q)
  case Nil
  then show ?case by simp
next
  case (Cons i "is")
  then have i: "i < length (wq_records q)" by simp
  show ?case
  proof (cases "expired_claim now (record_at q i)")
    case False
    then have r: "released now (record_at q i) = record_at q i" by (simp add: released_def)
    have e: "requeue_loop C now (i # is) q = requeue_loop C now is q"
      using False by (auto simp: expired_claim_def)
    show ?thesis
      using Cons.IH [OF Cons.prems(1)] Cons.prems(2,3) False r unfolding e by auto
  next
    case True
    define q1 where "q1 = snd (expireClaimedRecord C i now ''Worker lease expired; work returned to queue.'' q)"
    note ex = expire_releases [OF Cons.prems(1) i True, of "''Worker lease expired; work returned to queue.''"]
    have e1: "expireClaimedRecord C i now ''Worker lease expired; work returned to queue.'' q = (Inr (), q1)"
      using ex(1) by (simp add: q1_def prod_eq_iff)
    have st: "wr_status (record_at q i) = Work_claimed"
      using True by (simp add: expired_claim_def)
    have inv1: "queue_inv C q1"
      using safe_keeps [OF safe_expire [OF assms(1) Cons.prems(1) i st]] by (simp add: q1_def keeps_def)
    have rec1: "record_at q1 j = (if j = i then released now (record_at q i) else record_at q j)"
      if "j < length (wq_records q)" for j
      using ex(2) that by (simp add: q1_def record_at_def)
    have len1: "length (wq_records q1) = length (wq_records q)"
      using ex(2) by (simp add: q1_def)
    have same: "map (\<lambda>j. released now (record_at q1 j)) (filter (\<lambda>j. expired_claim now (record_at q1 j)) is)
        = map (\<lambda>j. released now (record_at q j)) (filter (\<lambda>j. expired_claim now (record_at q j)) is)"
      using Cons.prems(2,3) rec1 by (intro map_cong filter_cong) auto
    obtain q2 where q2: "requeue_loop C now is q1 =
        (Inr (map (\<lambda>j. released now (record_at q j)) (filter (\<lambda>j. expired_claim now (record_at q j)) is)), q2)"
      "length (wq_records q2) = length (wq_records q1)" "wq_deadLetters q2 = wq_deadLetters q1"
      "\<forall>j<length (wq_records q1). record_at q2 j =
         (if j \<in> set is then released now (record_at q1 j) else record_at q1 j)"
      using Cons.IH [OF inv1] Cons.prems(2,3) len1 unfolding same by auto
    have "requeue_loop C now (i # is) q =
        (Inr (map (\<lambda>j. released now (record_at q j)) (filter (\<lambda>j. expired_claim now (record_at q j)) (i # is))), q2)"
      using True e1 q2(1) rec1 [OF i] by (simp add: expired_claim_def returns_def)
    then show ?thesis
      using q2(2-) ex(3) len1 rec1 Cons.prems(2) by (auto simp: q1_def)
  qed
qed

lemma requeue_releases:
  assumes "ok_config C" "queue_inv C q"
  shows "\<exists>q'. requeueExpiredLeases C now q =
      (Inr (map (released now) (filter (expired_claim now) (wq_records q))), q')
    \<and> wq_records q' = map (released now) (wq_records q) \<and> wq_deadLetters q' = wq_deadLetters q"
proof -
  obtain q' where q': "requeueExpiredLeases C now q =
      (Inr (map (\<lambda>i. released now (record_at q i)) (filter (\<lambda>i. expired_claim now (record_at q i))
         [0 ..< length (wq_records q)])), q')"
    "length (wq_records q') = length (wq_records q)" "wq_deadLetters q' = wq_deadLetters q"
    "\<forall>j<length (wq_records q). record_at q' j = released now (record_at q j)"
    using requeue_loop_releases [OF assms, of "[0 ..< length (wq_records q)]" now]
    by (auto simp: requeueExpiredLeases_def)
  have "map (\<lambda>i. released now (record_at q i)) (filter (\<lambda>i. expired_claim now (record_at q i)) [0 ..< length (wq_records q)])
      = map (released now) (filter (expired_claim now) (map (record_at q) [0 ..< length (wq_records q)]))"
    by (simp add: filter_map comp_def)
  moreover have "map (record_at q) [0 ..< length (wq_records q)] = wq_records q"
    by (simp add: record_at_def [abs_def] map_nth)
  moreover have "wq_records q' = map (released now) (wq_records q)"
    using q'(2,4) by (intro nth_equalityI) (auto simp: record_at_def)
  ultimately show ?thesis
    using q'(1,3) by auto
qed

section \<open>Claims\<close>

definition claims_before :: "worker_work_record \<Rightarrow> worker_work_record \<Rightarrow> bool" where
  "claims_before a b \<longleftrightarrow>
     parsed (wr_availableAt a) < parsed (wr_availableAt b)
   \<or> parsed (wr_availableAt a) = parsed (wr_availableAt b) \<and> wr_sequence a \<le> wr_sequence b"

lemma claim_order_iff: "claim_order q i j \<longleftrightarrow> claims_before (record_at q i) (record_at q j)"
  by (auto simp: claim_order_def claims_before_def Let_def)

interpretation claim: comparator "claim_order q" for q
  by unfold_locales (auto simp: claim_order_iff claims_before_def)

lemma next_due_least:
  assumes "next_due now q = Some i"
  shows "i < length (wq_records q)" "claimable now (record_at q i)"
    "\<And>j. j < length (wq_records q) \<Longrightarrow> claimable now (record_at q j) \<Longrightarrow> claims_before (record_at q i) (record_at q j)"
proof -
  show "i < length (wq_records q)" "claimable now (record_at q i)"
    using next_due_Some [OF assms] by auto
  fix j assume j: "j < length (wq_records q)" "claimable now (record_at q j)"
  obtain ys where "sort_by (claim_order q) (filter (\<lambda>i. claimable now (record_at q i)) [0 ..< length (wq_records q)]) = i # ys"
    using assms by (auto simp: next_due_def split: list.splits)
  then have "claim_order q i j"
    using j by (intro claim.least_first) auto
  then show "claims_before (record_at q i) (record_at q j)"
    by (simp add: claim_order_iff)
qed

lemma next_due_None:
  "next_due now q = None \<longleftrightarrow> (\<forall>r \<in> set (wq_records q). \<not> claimable now r)"
proof -
  have "next_due now q = None \<longleftrightarrow> filter (\<lambda>i. claimable now (record_at q i)) [0 ..< length (wq_records q)] = []"
    by (auto simp: next_due_def split: list.split)
  then show ?thesis
    by (auto simp: filter_empty_conv all_set_conv_all_nth record_at_def)
qed

text \<open>
  Claiming work. A claim first releases every claim whose lease has expired (back to the queue,
  or cancelled when its cancellation was requested). It answers that there is no work exactly when
  no queued record is due; otherwise it leases a due record with the earliest availability and,
  among those, the lowest sequence number, under a lease id no record has ever held, for the
  requested time from now, and changes no other record.
\<close>

theorem claim_takes_earliest_due:
  assumes "ok_config C" "queue_inv C q" "0 < cli_leaseMs input"
    and now: "now = fst (now_or_clock C (cli_now input) q)" and rs: "rs = map (released now) (wq_records q)"
  shows "case claimNext C input q of
      (Inl e, q') \<Rightarrow> e = RangeError ''Invalid time value'' \<and> wq_records q' = rs
    | (Inr No_available_work, q') \<Rightarrow> (\<forall>r \<in> set rs. \<not> claimable now r) \<and> wq_records q' = rs
    | (Inr (Claimed l r), q') \<Rightarrow>
        (\<exists>i<length rs. claimable now (rs ! i) \<and> (\<forall>r' \<in> set rs. claimable now r' \<longrightarrow> claims_before (rs ! i) r')
           \<and> r = (rs ! i)\<lparr>wr_status := Work_claimed, wr_attemptState := At_claimed, wr_updatedAt := now, wr_lease := Some l\<rparr>
           \<and> wq_records q' = rs[i := r] \<and> lease_matches (rs ! i) l
           \<and> addMs now (cli_leaseMs input) = Inr (wl_expiresAt l) \<and> wl_id l \<notin> lease_ids q
           \<and> findByLeaseId (wl_id l) q' = Some i)"
proof -
  obtain q0 where c: "now_or_clock C (cli_now input) q = (now, q0)"
    using now by (metis prod.collapse)
  then have q0: "wq_records q0 = wq_records q" "wq_draws q0 = wq_draws q" "queue_inv C q0"
    using keeps_clock [OF assms(2), of "cli_now input"] now_or_clock_frames [of C "cli_now input" q]
    by (simp_all add: keeps_def)
  obtain xs q1 where r: "requeueExpiredLeases C now q0 = (Inr xs, q1)" and q1: "wq_records q1 = rs"
    using requeue_releases [OF assms(1) q0(3), of now] by (auto simp: rs q0)
  have k1: "keeps C q0 q1"
    using safe_requeueExpiredLeases [OF assms(1) q0(3), of now] r by simp
  then have inv1: "queue_inv C q1" and d1: "wq_draws q \<le> wq_draws q1"
    by (simp_all add: keeps_def leases_drawn_def q0)
  note eq = claimNext_eq [OF assms(3) c r inv1]
  show ?thesis
  proof (cases "next_due now q1")
    case None
    then show ?thesis
      using next_due_None [of now q1] unfolding eq None by (simp add: q1)
  next
    case (Some i)
    show ?thesis
    proof (cases "addMs now (cli_leaseMs input)")
      case (Inl e)
      then show ?thesis
        unfolding eq using Some addMs_error [OF Inl] by (simp add: q1)
    next
      case (Inr expiresAt)
      let ?l = "lease_for C input now expiresAt i q1" and ?q = "claimed_queue C input now expiresAt i q1"
      have i: "i < length rs" "record_at q1 i = rs ! i"
        using next_due_least(1) [OF Some] q1 by (simp_all add: record_at_def)
      have recs: "wq_records ?q = rs[i := (rs ! i)\<lparr>wr_status := Work_claimed, wr_attemptState := At_claimed,
          wr_updatedAt := now, wr_lease := Some ?l\<rparr>]"
        using q1 by (simp add: claimed_queue_def records_set_rec record_at_def)
      then have rec_: "record_at ?q i = (rs ! i)\<lparr>wr_status := Work_claimed, wr_attemptState := At_claimed,
          wr_updatedAt := now, wr_lease := Some ?l\<rparr>"
        using i(1) by (simp add: record_at_def)
      have least: "\<forall>r' \<in> set rs. claimable now r' \<longrightarrow> claims_before (rs ! i) r'"
        using next_due_least(3) [OF Some] i q1 by (auto simp: in_set_conv_nth record_at_def)
      have fresh: "wl_id ?l \<notin> lease_ids q"
        using assms(2) d1 by (simp add: queue_inv_def unused_ids_def lease_for_def Let_def)
      have inv2: "queue_inv C ?q"
        using keeps_claimed [OF assms(1) inv1 Some] by (simp add: keeps_def)
      have found: "findByLeaseId (wl_id ?l) ?q = Some i"
      proof -
        have li: "lease_id (record_at ?q i) = Some (wl_id ?l)" "i < length (wq_records ?q)"
          using i by (simp_all add: rec_ lease_id_def recs)
        then have "wl_id ?l \<in> lease_ids ?q" by (auto simp: lease_ids_def record_at_def)
        then obtain k where k: "findByLeaseId (wl_id ?l) ?q = Some k"
          using lease_ids_find [of "wl_id ?l" ?q] by auto
        then have "k = i"
          using findByLeaseId_Some [OF k] li inv2 by (auto simp: queue_inv_def leases_unique_def)
        with k show ?thesis by simp
      qed
      show ?thesis
        unfolding eq using Some Inr i next_due_least(2) [OF Some] recs rec_ least fresh found
        by (auto simp: Let_def lease_for_def lease_matches_def intro!: exI [of _ i])
    qed
  qed
qed

theorem claim_takes_earliest_due_witness:
  "fst (claimNext demo_config demo_claim demo_queue) \<noteq> Inr No_available_work"
proof -
  have e: "map (released (Instant 5)) (wq_records demo_queue) = [demo_record]"
    by (simp add: demo_queue_def released_def expired_claim_def demo_record_def)
  have c: "claimable (Instant 5) demo_record"
    by (simp add: claimable_def demo_record_def)
  have t: "Instant 5 = fst (now_or_clock demo_config (cli_now demo_claim) demo_queue)" "0 < cli_leaseMs demo_claim"
    by (simp_all add: demo_claim_def now_or_clock_def)
  note claim = claim_takes_earliest_due [OF demo_config_ok demo_queue_inv t(2,1) e [symmetric]]
  show ?thesis
  proof
    assume "fst (claimNext demo_config demo_claim demo_queue) = Inr No_available_work"
    then obtain q' where "claimNext demo_config demo_claim demo_queue = (Inr No_available_work, q')"
      by (metis prod.collapse)
    with claim c show False by simp
  qed
qed

section \<open>Approvals\<close>

lemma clocked: "now_or_clock C t q = (now, q1) \<Longrightarrow> wq_records q1 = wq_records q"
  by (metis now_or_clock_frames(1) snd_conv)

lemma resume_enqueued_iff:
  assumes ok: "ok_config C" and inv: "queue_inv C q"
    and now: "now = fst (now_or_clock C (rei_now input) q)"
  shows "(\<exists>q'. resumeAfterApproval C input q = (Inr (Resume_enqueued r), q') \<and> wq_records q' = rs) \<longleftrightarrow>
    (\<exists>i gate. find_index (\<lambda>r. of_run (ap_orgId (rei_approval input)) (ap_runId (rei_approval input)) r
          \<and> map_option wg_approvalId (wr_approval r) = Some (ap_id (rei_approval input))) q = Some i
       \<and> wr_approval (record_at q i) = Some gate
       \<and> wg_payloadHash gate = ap_payloadHash (rei_approval input)
       \<and> wr_status (record_at q i) = Work_awaiting_approval
       \<and> ap_status (rei_approval input) = Approval_approved
       \<and> r = resumed_as now (rei_traceId input) (granted_gate gate (rei_approval input)) (record_at q i)
       \<and> rs = (wq_records q)[i := r])"
proof -
  obtain q1 where c: "now_or_clock C (rei_now input) q = (now, q1)"
    using now by (metis prod.collapse)
  have recs: "wq_records q1 = wq_records q" by (rule clocked [OF c])
  then have same: "record_at q1 j = record_at q j" "find_index P q1 = find_index P q" for j P
    using find_index_cong [OF recs] by (simp_all add: record_at_def recs)
  have inv1: "queue_inv C q1"
    using keeps_clock [OF inv, of "rei_now input"] c by (simp add: keeps_def)
  let ?f = "find_index (\<lambda>r. of_run (ap_orgId (rei_approval input)) (ap_runId (rei_approval input)) r
          \<and> map_option wg_approvalId (wr_approval r) = Some (ap_id (rei_approval input))) q"
  show ?thesis
  proof (cases ?f)
    case None
    then show ?thesis by (simp add: resumeAfterApproval_def c same Let_def)
  next
    case (Some i)
    then have i: "i < length (wq_records q)" using find_index_Some by blast
    then have i1: "i < length (wq_records q1)" by (simp add: recs)
    note wf = inv_wf [OF inv1 i1]
    show ?thesis
    proof (cases "wr_approval (record_at q i)")
      case None
      with Some show ?thesis by (simp add: resumeAfterApproval_def c same Let_def)
    next
      case gate: (Some gate)
      have cancel: "\<not> (\<exists>q'. cancelApprovalWait C i status reason now q1 = (Inr (Resume_enqueued r), q') \<and> wq_records q' = rs)"
        if "wr_status (record_at q i) = Work_awaiting_approval" for status reason
        using cancelApprovalWait_eq [OF wf _ _ i1, of gate C status reason now] gate that by (simp add: same Let_def)
      have resume: "(\<exists>q'. resume_approved C i gate (rei_approval input) (rei_traceId input) now q1 =
            (Inr (Resume_enqueued r), q') \<and> wq_records q' = rs)
          \<longleftrightarrow> r = resumed_as now (rei_traceId input) (granted_gate gate (rei_approval input)) (record_at q i)
            \<and> rs = (wq_records q)[i := r]"
        if "wr_status (record_at q i) = Work_awaiting_approval"
        using resume_approved_eq [OF wf _ i1] i1 that
        by (auto simp: same Let_def records_set_rec recs)
      show ?thesis
        using Some gate cancel resume
        by (cases "ap_status (rei_approval input)") (simp_all add: resumeAfterApproval_def c same Let_def)
    qed
  qed
qed

text \<open>
  C10. Resuming after an approval. Paused work goes back to the queue exactly when the first record
  of the approval's run that waits on that approval is still awaiting it, the hash of the payload it
  was paused with is the hash that was approved, and the approval was granted; nothing else is
  changed, and the record is then due at once with the granted gate.
\<close>

theorem resume_needs_granted_matching_approval:
  assumes "ok_config C" "queue_inv C q" "now = fst (now_or_clock C (rei_now input) q)"
  shows "(\<exists>q'. resumeAfterApproval C input q = (Inr (Resume_enqueued r), q') \<and> wq_records q' = rs) \<longleftrightarrow>
    (\<exists>i gate. find_index (\<lambda>r. of_run (ap_orgId (rei_approval input)) (ap_runId (rei_approval input)) r
          \<and> map_option wg_approvalId (wr_approval r) = Some (ap_id (rei_approval input))) q = Some i
       \<and> wr_approval (record_at q i) = Some gate
       \<and> wg_payloadHash gate = ap_payloadHash (rei_approval input)
       \<and> wr_status (record_at q i) = Work_awaiting_approval
       \<and> ap_status (rei_approval input) = Approval_approved
       \<and> r = resumed_as now (rei_traceId input) (granted_gate gate (rei_approval input)) (record_at q i)
       \<and> rs = (wq_records q)[i := r])"
  using assms by (rule resume_enqueued_iff)

definition demo_approval_request :: approval_request where
  "demo_approval_request = \<lparr> ap_id = ''ap'', ap_orgId = ''org'', ap_runId = ''run'', ap_action = ''pr'',
     ap_risk = Write_external, ap_status = Approval_approved, ap_payloadHash = ''h'', ap_payloadMetadata = None,
     ap_requestedByPrincipalId = ''p'', ap_decidedByPrincipalId = Some ''q'', ap_createdAt = Instant 6,
     ap_expiresAt = Instant 600, ap_decidedAt = Some (Instant 7) \<rparr>"

definition demo_pause :: "worker_work_record \<Rightarrow> worker_work_record" where
  "demo_pause = paused_as (Instant 6) (demo_result Res_awaiting_approval)
     (demo_approval_request\<lparr>ap_status := Approval_pending\<rparr>)"

definition demo_paused :: worker_queue where
  "demo_paused = set_rec 0 demo_pause demo_claimed"

definition demo_resume :: resume_input where
  "demo_resume = \<lparr> rei_approval = demo_approval_request, rei_traceId = None, rei_now = Some (Instant 8) \<rparr>"

lemma demo_paused_record: "record_at demo_paused 0 = demo_pause (record_at demo_claimed 0)"
  "wq_records demo_paused = [record_at demo_paused 0]"
proof -
  show "record_at demo_paused 0 = demo_pause (record_at demo_claimed 0)"
    by (simp add: demo_paused_def)
  then show "wq_records demo_paused = [record_at demo_paused 0]"
    unfolding demo_paused_def records_set_rec by simp
qed

lemma demo_paused_inv: "queue_inv demo_config demo_paused"
proof -
  have wf: "wf_work (record_at demo_claimed 0)"
    using inv_wf [OF demo_claimed_inv, of 0] by simp
  have "keeps demo_config demo_claimed demo_paused"
    unfolding demo_paused_def demo_pause_def
    by (rule keeps_set_step [OF demo_claimed_inv])
      (use wf_paused [OF wf] in \<open>simp_all add: isActiveStatus_def transitions\<close>)
  then show ?thesis by (simp add: keeps_def)
qed

theorem resume_needs_granted_matching_approval_witness:
  "\<exists>r q'. resumeAfterApproval demo_config demo_resume demo_paused = (Inr (Resume_enqueued r), q')
     \<and> wq_records q' = [r]"
proof -
  have item: "wr_item (record_at demo_claimed 0) = demo_item"
    by (simp add: record_at_def demo_claimed_def demo_record_def del: demo_claimed_simps)
  have len: "length (wq_records demo_paused) = 1"
    unfolding demo_paused_record(2) by simp
  have found: "find_index P demo_paused = Some 0" if "P (record_at demo_paused 0)" for P
    using that [unfolded record_at_def] by (simp add: find_index_def len)
  let ?gate = "approvalGateFromRequest (demo_approval_request\<lparr>ap_status := Approval_pending\<rparr>)"
  have "find_index (\<lambda>r. of_run (ap_orgId (rei_approval demo_resume)) (ap_runId (rei_approval demo_resume)) r
          \<and> map_option wg_approvalId (wr_approval r) = Some (ap_id (rei_approval demo_resume))) demo_paused = Some 0"
    by (rule found) (simp add: demo_paused_record(1) demo_pause_def of_run_def item demo_item_def demo_resume_def
        demo_approval_request_def approvalGateFromRequest_def)
  moreover have "wr_approval (record_at demo_paused 0) = Some ?gate"
    "wr_status (record_at demo_paused 0) = Work_awaiting_approval"
    by (simp_all add: demo_paused_record(1) demo_pause_def)
  moreover have "wg_payloadHash ?gate = ap_payloadHash (rei_approval demo_resume)"
    "ap_status (rei_approval demo_resume) = Approval_approved"
    by (simp_all add: demo_resume_def demo_approval_request_def approvalGateFromRequest_def)
  moreover have "[r] = (wq_records demo_paused)[0 := r]" for r
    by (simp add: demo_paused_record(2))
  ultimately show ?thesis
    unfolding resume_needs_granted_matching_approval [OF demo_config_ok demo_paused_inv refl] by blast
qed

section \<open>Cancellation\<close>

lemma cancel_loop_updates:
  assumes "ok_config C" "queue_inv C q" "distinct is"
    "\<forall>i \<in> set is. i < length (wq_records q) \<and> isActiveStatus (wr_status (record_at q i))"
  shows "\<exists>q'. cancel_loop C reason now is q = (Inr (), q') \<and> length (wq_records q') = length (wq_records q)
    \<and> wq_deadLetters q' = wq_deadLetters q
    \<and> (\<forall>j<length (wq_records q). record_at q' j =
         (if j \<in> set is then cancel_update now reason (record_at q j) else record_at q j))"
  using assms(2-)
proof (induction "is" arbitrary: q)
  case Nil
  then show ?case by simp
next
  case (Cons i "is")
  then have i: "i < length (wq_records q)" "isActiveStatus (wr_status (record_at q i))" by auto
  note wf = inv_wf [OF Cons.prems(1) i(1)]
  define q1 where "q1 = snd (cancel_one C reason now i q)"
  have e: "cancel_one C reason now i q = (Inr (), q1)"
    using cancel_one_eq [OF wf i(2,1)] by (simp add: q1_def prod_eq_iff)
  have inv1: "queue_inv C q1"
    using safe_keeps [OF keeps_cancel_one [OF assms(1) Cons.prems(1) i]] by (simp add: q1_def keeps_def)
  have rec1: "record_at q1 j = (if j = i then cancel_update now reason (record_at q i) else record_at q j)" for j
    using cancel_one_records(2) [OF wf i(2,1)] by (simp add: q1_def)
  have len1: "length (wq_records q1) = length (wq_records q)"
    using cancel_one_records(1) [OF wf i(2,1)] by (simp add: q1_def)
  have dl1: "wq_deadLetters q1 = wq_deadLetters q"
    using cancel_one_eq [OF wf i(2,1)] by (simp add: q1_def)
  have act1: "\<forall>j \<in> set is. j < length (wq_records q1) \<and> isActiveStatus (wr_status (record_at q1 j))"
    using Cons.prems(2,3) by (auto simp: rec1 len1)
  obtain q2 where q2: "cancel_loop C reason now is q1 = (Inr (), q2)"
    "length (wq_records q2) = length (wq_records q1)" "wq_deadLetters q2 = wq_deadLetters q1"
    "\<forall>j<length (wq_records q1). record_at q2 j =
       (if j \<in> set is then cancel_update now reason (record_at q1 j) else record_at q1 j)"
    using Cons.IH [OF inv1 _ act1] Cons.prems(2) by auto
  have "cancel_loop C reason now (i # is) q = (Inr (), q2)"
    using e q2(1) by simp
  then show ?case
    using q2(2-) Cons.prems(2) by (auto simp: rec1 len1 dl1)
qed

text \<open>
  Cancelling a run. A cancellation updates exactly the active records of the run: those that
  are queued or wait on an approval are cancelled, those that are claimed keep their lease and are
  marked, and no other record changes. It reports a run without records as not found and a run
  without active records as terminal.
\<close>

theorem cancel_reaches_whole_run:
  assumes "ok_config C" "queue_inv C q" "now = fst (now_or_clock C (cai_now input) q)"
  shows "\<exists>d q'. cancelRun C input q = (Inr d, q')
    \<and> wq_records q' = map (\<lambda>r. if of_run (cai_orgId input) (cai_runId input) r \<and> isActiveStatus (wr_status r)
                             then cancel_update now (cai_reason input) r else r) (wq_records q)
    \<and> (d = Cancel_not_found \<longleftrightarrow> (\<forall>r \<in> set (wq_records q). \<not> of_run (cai_orgId input) (cai_runId input) r))
    \<and> ((\<exists>rs. d = Cancel_requested rs) \<longleftrightarrow>
        (\<exists>r \<in> set (wq_records q). of_run (cai_orgId input) (cai_runId input) r \<and> isActiveStatus (wr_status r)))
    \<and> (\<forall>r \<in> set (wq_records q'). of_run (cai_orgId input) (cai_runId input) r \<and> isActiveStatus (wr_status r) \<longrightarrow>
         wr_status r = Work_claimed \<and> wr_attemptState r = At_cancel_requested)"
proof -
  let ?run = "of_run (cai_orgId input) (cai_runId input)"
  let ?hit = "\<lambda>r. ?run r \<and> isActiveStatus (wr_status r)"
  let ?upd = "\<lambda>r. if ?hit r then cancel_update now (cai_reason input) r else r"
  obtain q1 where c: "now_or_clock C (cai_now input) q = (now, q1)"
    using assms(3) by (metis prod.collapse)
  have recs: "wq_records q1 = wq_records q" by (rule clocked [OF c])
  have inv1: "queue_inv C q1"
    using keeps_clock [OF assms(2), of "cai_now input"] c by (simp add: keeps_def)
  let ?rec = "indices_where ?run q1"
  let ?act = "filter (\<lambda>i. isActiveStatus (wr_status (record_at q1 i))) ?rec"
  have mem: "i \<in> set ?act \<longleftrightarrow> i < length (wq_records q) \<and> ?hit (record_at q1 i)" for i
    by (auto simp: recs)
  have none: "?rec = [] \<longleftrightarrow> (\<forall>r \<in> set (wq_records q). \<not> ?run r)"
    by (auto simp: indices_where_def filter_empty_conv all_set_conv_all_nth record_at_def recs)
  have noact: "?act = [] \<longleftrightarrow> (\<forall>r \<in> set (wq_records q). \<not> ?hit r)"
    by (auto simp: indices_where_def filter_empty_conv all_set_conv_all_nth record_at_def recs)
  have run_upd: "?run (?upd r) \<longleftrightarrow> ?run r" for r
    by (simp add: cancel_update_def cancel_requested_as_def cancelled_as_def of_run_def)
  have after: "\<forall>r \<in> set (map ?upd (wq_records q)). ?hit r \<longrightarrow> wr_status r = Work_claimed \<and> wr_attemptState r = At_cancel_requested"
    by (auto simp: cancel_update_def cancel_requested_as_def isActiveStatus_def)
  have "distinct ?act" by simp
  moreover have "\<forall>i \<in> set ?act. i < length (wq_records q1) \<and> isActiveStatus (wr_status (record_at q1 i))"
    by simp
  ultimately obtain q2 where q2: "cancel_loop C (cai_reason input) now ?act q1 = (Inr (), q2)"
    "length (wq_records q2) = length (wq_records q1)"
    "\<forall>j<length (wq_records q1). record_at q2 j =
       (if j \<in> set ?act then cancel_update now (cai_reason input) (record_at q1 j) else record_at q1 j)"
    using cancel_loop_updates [OF assms(1) inv1, of ?act "cai_reason input" now] by blast
  have upd: "wq_records q2 = map ?upd (wq_records q)"
  proof (rule nth_equalityI)
    show "length (wq_records q2) = length (map ?upd (wq_records q))"
      using q2(2) by (simp add: recs)
    fix j assume "j < length (wq_records q2)"
    then have j: "j < length (wq_records q)" using q2(2) by (simp add: recs)
    then have "record_at q2 j = ?upd (record_at q1 j)"
      using q2(3) mem [of j] by (simp add: recs)
    with j show "wq_records q2 ! j = map ?upd (wq_records q) ! j"
      by (simp add: record_at_def recs)
  qed
  have idle: "map ?upd (wq_records q) = wq_records q" if "?act = []"
    using that unfolding noact by (intro map_idI) auto
  show ?thesis
  proof (cases "?act = []")
    case True
    define d where "d = (if ?rec = [] then Cancel_not_found else Already_terminal (map (record_at q1) ?rec))"
    have run: "cancelRun C input q = (Inr d, q1)"
      using True by (auto simp: cancelRun_def Let_def c d_def)
    have recs1: "wq_records q1 = map ?upd (wq_records q)" using idle [OF True] recs by simp
    have d1: "d = Cancel_not_found \<longleftrightarrow> (\<forall>r \<in> set (wq_records q). \<not> ?run r)"
      using none by (simp add: d_def)
    have d2: "(\<exists>rs. d = Cancel_requested rs) \<longleftrightarrow> (\<exists>r \<in> set (wq_records q). ?hit r)"
      using True noact by (auto simp: d_def)
    show ?thesis
      by (intro exI conjI) (rule run recs1 d1 d2 after [folded recs1])+
  next
    case False
    define d where "d = Cancel_requested (map (record_at q2) ?act)"
    from False have rec_: "?rec \<noteq> []" by auto
    have run: "cancelRun C input q = (Inr d, q2)"
      unfolding cancelRun_def Let_def c prod.case d_def if_not_P [OF rec_] if_not_P [OF False]
      using q2(1) by simp
    have d1: "d = Cancel_not_found \<longleftrightarrow> (\<forall>r \<in> set (wq_records q). \<not> ?run r)"
      using none rec_ by (simp add: d_def)
    have d2: "(\<exists>rs. d = Cancel_requested rs) \<longleftrightarrow> (\<exists>r \<in> set (wq_records q). ?hit r)"
      using False noact by (auto simp: d_def)
    show ?thesis
      by (intro exI conjI) (rule run upd d1 d2 after [folded upd])+
  qed
qed

theorem cancel_reaches_whole_run_witness:
  "\<exists>d q'. cancelRun demo_config \<lparr> cai_orgId = ''org'', cai_runId = ''run'', cai_reason = ''stop'', cai_now = Some (Instant 9) \<rparr>
     demo_claimed = (Inr d, q')"
  using cancel_reaches_whole_run [OF demo_config_ok demo_claimed_inv refl] by blast

lemma cancel_requested_sticks:
  "canTransitionRunAttemptState\<^sup>*\<^sup>* a b \<Longrightarrow> a = At_cancel_requested \<or> a = At_cancelled
     \<Longrightarrow> b = At_cancel_requested \<or> b = At_cancelled"
  by (induction rule: rtranclp_induct) (auto simp: canTransitionRunAttemptState_def)

text \<open>
  C11. A requested cancellation is final. Work whose cancellation was requested is never queued,
  completed, paused, retried or dead-lettered again: in every later state it still waits for its
  worker or is cancelled, and a worker that settles its lease is told that it is cancelled or that
  the lease is lost, whatever result it brings.
\<close>

theorem cancellation_is_final:
  assumes "ok_config C" "queue_inv C q" "worker_run C q q'" "i < length (wq_records q)"
    "wr_attemptState (record_at q i) = At_cancel_requested"
  shows "(wr_attemptState (record_at q' i) = At_cancel_requested \<or> wr_attemptState (record_at q' i) = At_cancelled)
    \<and> (findByLeaseId (sei_leaseId input) q' = Some i \<longrightarrow>
        (case fst (settle C input q') of
           Inl e \<Rightarrow> False
         | Inr d \<Rightarrow> (\<exists>r. d = Settled_cancelled r) \<or> (\<exists>s. d = Settle_lost_lease s)))"
proof -
  have k: "keeps C q q'" by (rule run_keeps [OF assms(3,1,2)])
  then have inv': "queue_inv C q'" and h: "history q q'" by (simp_all add: keeps_def)
  have "canTransitionRunAttemptState\<^sup>*\<^sup>* (wr_attemptState (record_at q i)) (wr_attemptState (record_at q' i))"
    using h assms(4) by (simp add: history_def evolves_def)
  then have st: "wr_attemptState (record_at q' i) = At_cancel_requested \<or> wr_attemptState (record_at q' i) = At_cancelled"
    by (rule cancel_requested_sticks) (simp add: assms(5))
  have "case fst (settle C input q') of Inl e \<Rightarrow> False
         | Inr d \<Rightarrow> (\<exists>r. d = Settled_cancelled r) \<or> (\<exists>s. d = Settle_lost_lease s)"
    if f: "findByLeaseId (sei_leaseId input) q' = Some i"
  proof -
    have i: "i < length (wq_records q')" using findByLeaseId_Some [OF f] by simp
    note wf = inv_wf [OF inv' i]
    have claimed: "wr_status (record_at q' i) = Work_claimed" using lease_claimed [OF inv' f] by simp
    then have c: "wr_cancelRequestedAt (record_at q' i) \<noteq> None"
      using claimed_state [OF wf claimed] st by (auto split: if_splits)
    obtain now q1 where n: "now_or_clock C (sei_now input) q' = (now, q1)" by fastforce
    have recs: "wq_records q1 = wq_records q'" by (rule clocked [OF n])
    then have same: "record_at q1 i = record_at q' i" "i < length (wq_records q1)"
      "findByLeaseId (sei_leaseId input) q1 = Some i"
      using i f find_index_cong [OF recs] by (simp_all add: record_at_def findByLeaseId_def)
    have wf1: "wf_work (record_at q1 i)" "wr_status (record_at q1 i) = Work_claimed"
      using wf claimed by (simp_all add: same)
    obtain l where l: "wr_lease (record_at q' i) = Some l" using lease_claimed [OF inv' f] by blast
    show ?thesis
      using c claimed l same settle_cancelled_eq [OF wf1 same(2)] expireClaimedRecord_eq [OF wf1 same(2)]
      by (auto simp: settle_def n settle_active_def Let_def returns_def)
  qed
  with st show ?thesis by blast
qed

definition demo_cancelled :: worker_queue where
  "demo_cancelled = snd (cancel_one demo_config ''stop'' (Instant 6) 0 demo_claimed)"

lemma demo_cancelled_inv: "queue_inv demo_config demo_cancelled"
  and demo_cancelled_record: "0 < length (wq_records demo_cancelled)"
    "wr_attemptState (record_at demo_cancelled 0) = At_cancel_requested"
proof -
  have wf: "wf_work (record_at demo_claimed 0)" "isActiveStatus (wr_status (record_at demo_claimed 0))"
    "0 < length (wq_records demo_claimed)"
    using inv_wf [OF demo_claimed_inv, of 0] by (simp_all add: isActiveStatus_def)
  show "queue_inv demo_config demo_cancelled"
    using safe_keeps [OF keeps_cancel_one [OF demo_config_ok demo_claimed_inv wf(3,2)]]
    by (simp add: demo_cancelled_def keeps_def)
  show "0 < length (wq_records demo_cancelled)"
    using cancel_one_records(1) [OF wf, of demo_config "''stop''" "Instant 6"] wf(3) by (simp add: demo_cancelled_def)
  show "wr_attemptState (record_at demo_cancelled 0) = At_cancel_requested"
    using cancel_one_records(2) [OF wf, of demo_config "''stop''" "Instant 6" 0]
    by (simp add: demo_cancelled_def cancel_update_def cancel_requested_as_def)
qed

theorem cancellation_is_final_witness:
  "wr_attemptState (record_at (snd (expireLeases demo_config (Some (Instant 9999)) demo_cancelled)) 0)
     \<in> {At_cancel_requested, At_cancelled}"
  using cancellation_is_final [OF demo_config_ok demo_cancelled_inv run_step [OF run_start step_expire]
    demo_cancelled_record] by blast

section \<open>Enqueue\<close>

lemma find_append_None: "List.find P xs = None \<Longrightarrow> List.find P (xs @ ys) = List.find P ys"
  by (induction xs) (auto split: if_splits)

lemma find_index_append:
  assumes "wq_records q' = wq_records q @ [r]" "find_index P q = None"
  shows "find_index P q' = (if P r then Some (length (wq_records q)) else None)"
proof -
  have "List.find (\<lambda>i. P (wq_records q' ! i)) [0 ..< length (wq_records q)] = None"
    using assms(2) unfolding find_index_None find_None_iff assms(1) by (simp add: record_at_def nth_append)
  then show ?thesis
    by (simp add: find_index_def assms(1) find_append_None nth_append)
qed

definition active_with_key :: "string \<Rightarrow> worker_work_record \<Rightarrow> bool" where
  "active_with_key key r \<longleftrightarrow> wr_idempotencyKey r = key \<and> isActiveStatus (wr_status r)"

lemma enqueue_eq:
  "enqueue C input q =
    (let q1 = snd (now_or_clock C (eni_now input) q); now = fst (now_or_clock C (eni_now input) q) in
     case find_index (active_with_key (createWorkerIdempotencyKey (eni_item input))) q of
       Some i \<Rightarrow> (Duplicate (record_at q i), q1)
     | None \<Rightarrow>
         let r = fresh_record (wc_idFactory C (wq_draws q) ''work'') (wq_nextSequence q) (eni_item input)
                   (or_else (eni_availableAt input) (wi_enqueuedAt (eni_item input))) now None
         in (Enqueued r, snd (enqueue C input q)))"
proof -
  have f: "find_index P (snd (now_or_clock C (eni_now input) q)) = find_index P q" for P
    by (rule find_index_cong) simp
  show ?thesis
    by (simp add: enqueue_def Let_def split_def f active_with_key_def [abs_def] record_at_pushed split: option.split)
qed

lemma enqueue_new_records:
  assumes "enqueue C input q = (Enqueued r, q')"
  shows "find_index (active_with_key (createWorkerIdempotencyKey (eni_item input))) q = None"
    "wq_records q' = wq_records q @ [r]"
    "\<exists>ident sq now. r = fresh_record ident sq (eni_item input)
       (or_else (eni_availableAt input) (wi_enqueuedAt (eni_item input))) now None"
proof -
  show n: "find_index (active_with_key (createWorkerIdempotencyKey (eni_item input))) q = None"
    using assms by (subst (asm) enqueue_eq) (auto simp: Let_def split: option.splits)
  then have n1: "find_index (\<lambda>r. wr_idempotencyKey r = createWorkerIdempotencyKey (eni_item input)
      \<and> isActiveStatus (wr_status r)) (snd (now_or_clock C (eni_now input) q)) = None"
    using find_index_cong [of q "snd (now_or_clock C (eni_now input) q)"] by (simp add: active_with_key_def [abs_def])
  have r: "r = fresh_record (wc_idFactory C (wq_draws q) ''work'') (wq_nextSequence q) (eni_item input)
      (or_else (eni_availableAt input) (wi_enqueuedAt (eni_item input))) (fst (now_or_clock C (eni_now input) q)) None"
    using assms n by (subst (asm) enqueue_eq) (auto simp: Let_def)
  then show "\<exists>ident sq now. r = fresh_record ident sq (eni_item input)
       (or_else (eni_availableAt input) (wi_enqueuedAt (eni_item input))) now None"
    by blast
  show "wq_records q' = wq_records q @ [r]"
    using assms n1 by (auto simp: enqueue_def Let_def split_def record_at_pushed)
qed

text \<open>
  Enqueueing is idempotent. While a record with the same idempotency key (org, run, attempt) is
  active, enqueueing answers with that record and changes nothing; otherwise it appends exactly one
  queued record for the item, due at the requested time or at the item's own, and enqueueing the
  same attempt again answers with that record.
\<close>

theorem enqueue_idempotent:
  shows "case enqueue C input q of
      (Duplicate r, q') \<Rightarrow> r \<in> set (wq_records q)
        \<and> active_with_key (createWorkerIdempotencyKey (eni_item input)) r
        \<and> wq_records q' = wq_records q \<and> wq_events q' = wq_events q
    | (Enqueued r, q') \<Rightarrow> (\<forall>r' \<in> set (wq_records q). \<not> active_with_key (createWorkerIdempotencyKey (eni_item input)) r')
        \<and> wq_records q' = wq_records q @ [r]
        \<and> (\<exists>ident sq now. r = fresh_record ident sq (eni_item input)
             (or_else (eni_availableAt input) (wi_enqueuedAt (eni_item input))) now None)
        \<and> (createWorkerIdempotencyKey (eni_item again) = createWorkerIdempotencyKey (eni_item input)
             \<longrightarrow> fst (enqueue C again q') = Duplicate r)"
proof (cases "enqueue C input q")
  case (Pair d q')
  show ?thesis
  proof (cases d)
    case (Duplicate r)
    then obtain i where i: "find_index (active_with_key (createWorkerIdempotencyKey (eni_item input))) q = Some i"
      "r = record_at q i" "q' = snd (now_or_clock C (eni_now input) q)"
      using Pair by (subst (asm) enqueue_eq) (auto simp: Let_def split: option.splits)
    then show ?thesis
      using Pair Duplicate find_index_Some [OF i(1)] by (auto simp: record_at_def)
  next
    case (Enqueued r)
    note new = enqueue_new_records [OF Pair [unfolded Enqueued]]
    have act: "active_with_key (createWorkerIdempotencyKey (eni_item input)) r"
      using new(3) by (auto simp: active_with_key_def isActiveStatus_def)
    have "fst (enqueue C again q') = Duplicate r"
      if "createWorkerIdempotencyKey (eni_item again) = createWorkerIdempotencyKey (eni_item input)"
      using find_index_append [OF new(2,1)] act new(2) that
      by (subst enqueue_eq) (simp add: Let_def record_at_def)
    moreover have "\<forall>r' \<in> set (wq_records q). \<not> active_with_key (createWorkerIdempotencyKey (eni_item input)) r'"
      using new(1) by (auto simp: find_index_None record_at_def in_set_conv_nth)
    ultimately show ?thesis
      using Pair Enqueued new(2,3) by simp
  qed
qed

lemma first_work_id: "sequential_id (Suc 0) ''work'' = ''work_0001''"
  by code_simp

theorem enqueue_idempotent_witness:
  "fst (enqueue demo_config demo_enqueue (snd (enqueue demo_config demo_enqueue empty_queue)))
     = Duplicate (fresh_record ''work_0001'' 1 demo_item (Instant 0) (Instant 0) None)"
proof -
  have e: "enqueue demo_config demo_enqueue empty_queue =
      (Enqueued (fresh_record ''work_0001'' 1 demo_item (Instant 0) (Instant 0) None),
       snd (enqueue demo_config demo_enqueue empty_queue))"
    by (subst enqueue_eq) (simp add: Let_def demo_enqueue_def demo_ids first_work_id empty_queue_def find_index_def
        now_or_clock_def demo_item_def)
  show ?thesis
    using enqueue_idempotent [where C = demo_config and input = demo_enqueue and q = empty_queue and again = demo_enqueue] by (subst (asm) e) simp
qed

end
