(* ===== verification/Worker_Restore.thy ===== *)
theory Worker_Restore
  imports Worker_Claims
begin

text \<open>
  Restarting the queue from a saved snapshot: the constructor of \<open>InMemoryWorkerQueue\<close> with
  \<open>initialSnapshot\<close>. What was read comes back, and the default id factory starts above every number
  in use, so the restored queue satisfies the invariant of \<^verbatim>\<open>Worker_Invariants\<close> again.
\<close>

definition createWorkerQueue :: "(nat \<Rightarrow> string \<Rightarrow> string) option \<Rightarrow> (nat \<Rightarrow> iso_date) \<Rightarrow> worker_retry_policy
    \<Rightarrow> worker_snapshot option \<Rightarrow> js_error + (worker_config \<times> worker_queue)" where
  "createWorkerQueue idFactory clock retryPolicy initialSnapshot =
     (case assertRetryPolicy retryPolicy of
        Some e \<Rightarrow> Inl e
      | None \<Rightarrow>
          Inr (\<lparr> wc_idFactory = or_else idFactory (defaultIdFactory initialSnapshot), wc_now = clock,
                 wc_retryPolicy = retryPolicy \<rparr>, newQueue initialSnapshot))"

section \<open>The number at the end of an id\<close>

abbreviation digit_char :: "char \<Rightarrow> bool" where
  "digit_char \<equiv> in_range CHR ''0'' CHR ''9''"

lemma suffix_runs:
  assumes "m \<in> set (rx_runs suffix_rx (prev, s, []))"
  shows "\<exists>d. s = CHR ''_'' # d \<and> d \<noteq> [] \<and> (\<forall>c \<in> set d. digit_char c) \<and> snd (snd m) = [(1, d)]"
proof -
  from assms have "\<exists>m1. m1 \<in> set (rx_runs (chr CHR ''_'') (prev, s, []))
      \<and> m \<in> set (rx_runs (Seq (Grp 1 (plus (Cls digit_char))) (Seq AtEnd Eps)) m1)"
    unfolding suffix_rx_def rx_seq_simps by (subst (asm) runs_seq)
  then obtain m1 where m1: "m1 \<in> set (rx_runs (chr CHR ''_'') (prev, s, []))"
    and m: "m \<in> set (rx_runs (Seq (Grp 1 (plus (Cls digit_char))) (Seq AtEnd Eps)) m1)"
    by blast
  from m1 obtain t where t: "s = CHR ''_'' # t" "m1 = (Some CHR ''_'', t, [])"
    by (auto simp: runs_chr split: list.splits if_splits)
  from m obtain m2 where m2: "m2 \<in> set (rx_runs (Grp 1 (plus (Cls digit_char))) m1)"
    "m \<in> set (rx_runs (Seq AtEnd Eps) m2)"
    unfolding runs_seq by blast
  from m2(1) obtain j where j: "1 \<le> j" "j \<le> length (takeWhile digit_char t)"
    "m2 = (prev_at (Some CHR ''_'') t j, drop j t, [(1, take j t)])"
    unfolding t(2) runs_group_plus by auto
  from m2(2) j(3) have e: "drop j t = []" "m = m2"
    by (auto split: if_splits)
  then have "take j t = t" by simp
  moreover have "\<forall>c \<in> set (take j t). digit_char c"
    using take_takeWhile_all [OF j(2)] by blast
  ultimately show ?thesis
    using j e t(1) length_takeWhile_le [of digit_char t] by (intro exI [of _ t]) auto
qed

lemma suffix_runs_exist:
  assumes "d \<noteq> []" "\<forall>c \<in> set d. digit_char c"
  shows "\<exists>m ms. rx_runs suffix_rx (prev, CHR ''_'' # d, []) = m # ms \<and> snd (snd m) = [(1, d)]"
proof -
  have tw: "takeWhile digit_char d = d" using assms(2) by (simp add: takeWhile_eq_all_conv)
  have "(prev_at (Some CHR ''_'') d (length d), drop (length d) d, [(1, take (length d) d)])
      \<in> set (rx_runs (Grp 1 (plus (Cls digit_char))) (Some CHR ''_'', d, []))"
    unfolding runs_group_plus using assms(1) by (auto simp: Suc_le_eq tw intro!: exI [of _ "length d"])
  then have "(prev_at (Some CHR ''_'') d (length d), drop (length d) d, [(1, take (length d) d)])
      \<in> set (rx_runs suffix_rx (prev, CHR ''_'' # d, []))"
    unfolding suffix_rx_def rx_seq_simps runs_seq
    by (intro exI conjI) (auto simp: runs_chr)
  then obtain m ms where e: "rx_runs suffix_rx (prev, CHR ''_'' # d, []) = m # ms"
    by (cases "rx_runs suffix_rx (prev, CHR ''_'' # d, [])") auto
  then have "m \<in> set (rx_runs suffix_rx (prev, CHR ''_'' # d, []))" by simp
  from suffix_runs [OF this] e show ?thesis by auto
qed

lemma suffix_scan:
  assumes "d \<noteq> []" "\<forall>c \<in> set d. digit_char c"
  shows "rx_scan suffix_rx prev (x @ CHR ''_'' # d) = Some [(1, d)]"
proof (induction x arbitrary: prev)
  case Nil
  obtain m ms where "rx_runs suffix_rx (prev, CHR ''_'' # d, []) = m # ms" "snd (snd m) = [(1, d)]"
    using suffix_runs_exist [OF assms] by blast
  then show ?case by (subst rx_scan.simps) (auto split: prod.splits)
next
  case (Cons c x)
  have "set (rx_runs suffix_rx (prev, c # x @ CHR ''_'' # d, [])) = {}"
  proof (rule ccontr)
    assume "set (rx_runs suffix_rx (prev, c # x @ CHR ''_'' # d, [])) \<noteq> {}"
    then obtain m where "m \<in> set (rx_runs suffix_rx (prev, c # x @ CHR ''_'' # d, []))"
      by (metis all_not_in_conv)
    from suffix_runs [OF this] have "digit_char CHR ''_''" by auto
    then show False by (simp add: in_range_def)
  qed
  then have "rx_runs suffix_rx (prev, (c # x) @ CHR ''_'' # d, []) = []" by simp
  with Cons.IH [of "Some c"] show ?case by (subst rx_scan.simps) simp
qed

lemma idNumericSuffix_sequential: "idNumericSuffix (sequential_id n p) = n"
proof -
  let ?d = "pad_start 4 CHR ''0'' (nat_str n)"
  have "?d \<noteq> []" by (simp add: pad_start_def)
  moreover have "\<forall>c \<in> set ?d. digit_char c"
    using nat_str_digits by (auto simp: pad_start_def in_range_def)
  ultimately have "rx_exec suffix_rx (sequential_id n p) = Some [(1, ?d)]"
    by (simp add: rx_exec_def sequential_id_def suffix_scan)
  then show ?thesis
    by (simp add: idNumericSuffix_def capture_def)
qed

lemma max_of_ge: "x \<in> set xs \<Longrightarrow> x \<le> max_of xs"
proof -
  have a: "y \<le> foldl max y ys" for y :: int and ys
  proof (induction ys arbitrary: y)
    case (Cons z ys)
    from Cons [of "max y z"] show ?case by simp
  qed simp
  have "x \<in> set xs \<Longrightarrow> x \<le> foldl max y xs" for y
  proof (induction xs arbitrary: y)
    case (Cons z xs)
    then show ?case using a [of "max y z" xs] by auto
  qed simp
  then show "x \<in> set xs \<Longrightarrow> x \<le> max_of xs" by (simp add: max_of_def)
qed

section \<open>Reading and restoring\<close>

interpretation by_seq: comparator "by_sequence f" for f :: "'a \<Rightarrow> int"
  by unfold_locales (auto simp: by_sequence_def)

lemma sort_by_again [simp]: "sort_by (by_sequence f) (sort_by (by_sequence f) xs) = sort_by (by_sequence f) xs"
  by (rule sort_by_sorted) (rule by_seq.sorted_sort)

lemma restored_frames [simp]:
  "wq_records (newQueue (Some sn)) = sort_by (by_sequence wr_sequence) (ws_records sn)"
  "wq_deadLetters (newQueue (Some sn)) = sort_by (by_sequence wd_sequence) (ws_deadLetters sn)"
  "wq_events (newQueue (Some sn)) = sort_by (by_sequence we_sequence) (ws_events sn)"
  "wq_nextSequence (newQueue (Some sn)) = maxWorkerSequence sn + 1"
  "wq_draws (newQueue (Some sn)) = 0"
  by (simp_all add: newQueue_def empty_queue_def)

lemma mset_map_sort: "mset (map f (sort_by le xs)) = mset (map f xs)"
  by simp

lemma restored_rows:
  "mset (sequences (newQueue (Some (read_queue q)))) = mset (sequences q)"
  "mset (row_ids (newQueue (Some (read_queue q)))) = mset (row_ids q)"
  "lease_ids (newQueue (Some (read_queue q))) = lease_ids q"
  by (simp_all add: sequences_def row_ids_def lease_ids_def read_queue_def)

lemma leases_unique_iff:
  "leases_unique q \<longleftrightarrow> distinct (filter (\<lambda>l. l \<noteq> None) (map lease_id (wq_records q)))"
proof -
  have "distinct (filter (\<lambda>l. l \<noteq> None) xs) \<longleftrightarrow>
      (\<forall>i<length xs. \<forall>j<length xs. xs ! i \<noteq> None \<and> xs ! i = xs ! j \<longrightarrow> i = j)" for xs :: "string option list"
  proof (induction xs)
    case (Cons x xs)
    then show ?case
      by (simp add: All_less_Suc2) (auto simp: in_set_conv_nth)
  qed simp
  then show ?thesis by (simp add: leases_unique_def record_at_def)
qed

lemma generated_below:
  assumes "x \<in> set (row_ids q) \<union> lease_ids q"
  shows "int (idNumericSuffix x) \<le> maxWorkerGeneratedId (read_queue q)"
proof -
  have "int (idNumericSuffix x) \<in> set (concat (map (\<lambda>r. [int (idNumericSuffix (wr_id r)),
                (case wr_lease r of None \<Rightarrow> 0 | Some l \<Rightarrow> int (idNumericSuffix (wl_id l)))])
                       (ws_records (read_queue q)))
             @ map (\<lambda>d. int (idNumericSuffix (wd_id d))) (ws_deadLetters (read_queue q))
             @ map (\<lambda>e. int (idNumericSuffix (we_id e))) (ws_events (read_queue q)))"
    using assms by (force simp: row_ids_def lease_ids_def lease_id_def read_queue_def)
  then show ?thesis
    unfolding maxWorkerGeneratedId_def by (rule max_of_ge)
qed

lemma sequences_below: "s \<in> set (sequences q) \<Longrightarrow> s \<le> maxWorkerSequence (read_queue q)"
  unfolding maxWorkerSequence_def by (rule max_of_ge) (auto simp: sequences_def read_queue_def)

lemma restore_queue:
  assumes "queue_inv C q"
  shows "case createWorkerQueue None clock policy (Some (read_queue q)) of
      Inl e \<Rightarrow> wp_maxAttempts policy < 1 \<or> wp_baseDelayMs policy \<le> 0 \<or> wp_maxDelayMs policy \<le> 0
    | Inr (C', q') \<Rightarrow> read_queue q' = read_queue q \<and> ok_config C' \<and> queue_inv C' q'"
proof (cases "assertRetryPolicy policy")
  case (Some e)
  then show ?thesis
    by (auto simp: createWorkerQueue_def assertRetryPolicy_def split: if_splits)
next
  case None
  let ?sn = "read_queue q" and ?q = "newQueue (Some (read_queue q))"
  let ?C = "\<lparr> wc_idFactory = defaultIdFactory (Some ?sn), wc_now = clock, wc_retryPolicy = policy \<rparr>"
  have rt: "read_queue ?q = ?sn"
    by (simp add: read_queue_def)
  have ok: "ok_config ?C"
    using None by (simp add: ok_config_def defaultIdFactory_def sequential.fresh_ids_axioms)
  have "wc_idFactory ?C k p \<notin> set (row_ids ?q) \<union> lease_ids ?q" for k p
  proof
    assume "wc_idFactory ?C k p \<in> set (row_ids ?q) \<union> lease_ids ?q"
    then have "wc_idFactory ?C k p \<in> set (row_ids q) \<union> lease_ids q"
      using restored_rows mset_eq_setD by metis
    from generated_below [OF this] show False
      by (auto simp: defaultIdFactory_def createSequentialIdFactory_def idNumericSuffix_sequential max_def split: if_splits)
  qed
  moreover have "distinct (sequences ?q)" "distinct (row_ids ?q)" "set (sequences ?q) = set (sequences q)"
    using assms restored_rows [of q] mset_eq_imp_distinct_iff mset_eq_setD
    by (metis queue_inv_def)+
  moreover have "leases_unique ?q"
  proof -
    have "mset (filter (\<lambda>l. l \<noteq> None) (map lease_id (wq_records ?q))) =
        mset (filter (\<lambda>l. l \<noteq> None) (map lease_id (wq_records q)))"
      by (simp add: read_queue_def)
    then show ?thesis
      using assms mset_eq_imp_distinct_iff unfolding queue_inv_def leases_unique_iff by metis
  qed
  moreover have "\<forall>i<length (wq_records ?q). wf_work (record_at ?q i)"
  proof -
    have "\<forall>r \<in> set (wq_records q). wf_work r"
      using assms by (auto simp: queue_inv_def in_set_conv_nth record_at_def)
    then have "\<forall>r \<in> set (wq_records ?q). wf_work r" by (simp add: read_queue_def)
    then show ?thesis by (simp only: all_set_conv_all_nth record_at_def)
  qed
  moreover have "s < wq_nextSequence ?q" if "s \<in> set (sequences q)" for s
    using sequences_below [OF that] by simp
  ultimately have "queue_inv ?C ?q"
    unfolding queue_inv_def unused_ids_def by auto
  with rt ok show ?thesis
    using None by (simp add: createWorkerQueue_def)
qed

lemma restored_queue:
  assumes "queue_inv C q" "createWorkerQueue None clock policy (Some (read_queue q)) = Inr (C', q')"
  shows "read_queue q' = read_queue q \<and> ok_config C' \<and> queue_inv C' q'"
  using restore_queue [OF assms(1), where clock = clock and policy = policy] assms(2) by simp

text \<open>
  C12. Restarting from a snapshot. Reading a queue and constructing a new one from what was read
  gives back the same snapshot, in a queue that satisfies the invariant with the default id factory:
  every id it will draw differs from every id of a record, a lease, a dead letter or an event of the
  snapshot, and every sequence number it will assign is new. A retry policy that allows no attempt
  or no delay is refused.
\<close>

theorem restore_round_trip:
  assumes "queue_inv C q"
  shows "case createWorkerQueue None clock policy (Some (read_queue q)) of
      Inl e \<Rightarrow> wp_maxAttempts policy < 1 \<or> wp_baseDelayMs policy \<le> 0 \<or> wp_maxDelayMs policy \<le> 0
    | Inr (C', q') \<Rightarrow> read_queue q' = read_queue q \<and> ok_config C' \<and> queue_inv C' q'"
  using assms by (rule restore_queue)

theorem restore_round_trip_witness:
  "\<exists>C' q'. createWorkerQueue None (\<lambda>_. Instant 0) defaultWorkerRetryPolicy (Some (read_queue demo_claimed)) = Inr (C', q')
     \<and> queue_inv C' q'"
  using restore_round_trip [OF demo_claimed_inv, where clock = "\<lambda>_. Instant 0" and policy = defaultWorkerRetryPolicy]
  by (auto simp: createWorkerQueue_def defaultWorkerRetryPolicy_def assertRetryPolicy_def)

end
