(* ===== verification/Worker_Persisted.thy ===== *)
theory Worker_Persisted
  imports Worker_Restore Store_State
begin

text \<open>
  \<open>SnapshotPersistedWorkerQueue\<close>, \<^verbatim>\<open>packages/worker/src/index.ts\<close>: a queue that saves a snapshot
  after every change. The saves are queued and run in order like those of the store. A method is
  wrapped in one of three ways: it records after certain decisions, after a change of the snapshot
  (by its digest), or always. The digest, \<open>JSON.stringify\<close> of the snapshot, is only compared, and the
  snapshots a queue gives have one text each, so it is modelled by the snapshot itself.
\<close>

record persisted_queue =
  pq_queue :: worker_queue
  pq_pending :: "worker_snapshot list"
  pq_error :: "js_error option"

definition newPersistedQueue :: "worker_queue \<Rightarrow> persisted_queue" where
  "newPersistedQueue q = \<lparr> pq_queue = q, pq_pending = [], pq_error = None \<rparr>"

definition snapshotDigest :: "worker_snapshot \<Rightarrow> worker_snapshot" where
  "snapshotDigest snapshot = snapshot"

definition recordQueueChange :: "persisted_queue \<Rightarrow> persisted_queue" where
  "recordQueueChange pq = pq\<lparr>pq_pending := pq_pending pq @ [read_queue (pq_queue pq)]\<rparr>"

definition recordChangeIfChanged :: "worker_snapshot \<Rightarrow> persisted_queue \<Rightarrow> persisted_queue" where
  "recordChangeIfChanged before pq =
     (if snapshotDigest (read_queue (pq_queue pq)) \<noteq> before then recordQueueChange pq else pq)"

text \<open>An exception of the queue passes through the wrapper, which then records nothing.\<close>

definition recording_on :: "('d \<Rightarrow> bool) \<Rightarrow> (worker_queue \<Rightarrow> (worker_queue, 'd) outcome) \<Rightarrow> persisted_queue
    \<Rightarrow> (persisted_queue, 'd) outcome" where
  "recording_on records method pq =
     (let (r, q) = method (pq_queue pq); pq' = pq\<lparr>pq_queue := q\<rparr> in
      (r, case r of Inl e \<Rightarrow> pq' | Inr d \<Rightarrow> if records d then recordQueueChange pq' else pq'))"

definition recording_changes :: "(worker_queue \<Rightarrow> (worker_queue, 'd) outcome) \<Rightarrow> persisted_queue
    \<Rightarrow> (persisted_queue, 'd) outcome" where
  "recording_changes method pq =
     (let before = snapshotDigest (read_queue (pq_queue pq));
          (r, q) = method (pq_queue pq); pq' = pq\<lparr>pq_queue := q\<rparr> in
      (r, case r of Inl e \<Rightarrow> pq' | Inr d \<Rightarrow> recordChangeIfChanged before pq'))"

definition total :: "('s \<Rightarrow> 'd \<times> 's) \<Rightarrow> 's \<Rightarrow> ('s, 'd) outcome" where
  "total method s = (let (d, s') = method s in (Inr d, s'))"

definition persisted_enqueue :: "worker_config \<Rightarrow> enqueue_input \<Rightarrow> persisted_queue
    \<Rightarrow> (persisted_queue, enqueue_decision) outcome" where
  "persisted_enqueue C input =
     recording_on (\<lambda>d. case d of Enqueued _ \<Rightarrow> True | Duplicate _ \<Rightarrow> False) (total (enqueue C input))"

definition persisted_claimNext :: "worker_config \<Rightarrow> claim_input \<Rightarrow> persisted_queue
    \<Rightarrow> (persisted_queue, claim_decision) outcome" where
  "persisted_claimNext C input = recording_changes (claimNext C input)"

definition persisted_heartbeat :: "worker_config \<Rightarrow> heartbeat_input \<Rightarrow> persisted_queue
    \<Rightarrow> (persisted_queue, heartbeat_decision) outcome" where
  "persisted_heartbeat C input = recording_changes (heartbeat C input)"

definition persisted_expireLeases :: "worker_config \<Rightarrow> iso_date option \<Rightarrow> persisted_queue
    \<Rightarrow> (persisted_queue, worker_work_record list) outcome" where
  "persisted_expireLeases C now = recording_on (\<lambda>expired. expired \<noteq> []) (expireLeases C now)"

definition persisted_settle :: "worker_config \<Rightarrow> settle_input \<Rightarrow> persisted_queue
    \<Rightarrow> (persisted_queue, settle_decision) outcome" where
  "persisted_settle C input =
     recording_on (\<lambda>d. case d of Settle_lost_lease _ \<Rightarrow> False | _ \<Rightarrow> True) (settle C input)"

definition persisted_cancelRun :: "worker_config \<Rightarrow> cancel_input \<Rightarrow> persisted_queue
    \<Rightarrow> (persisted_queue, cancel_decision) outcome" where
  "persisted_cancelRun C input = recording_on (\<lambda>d. d \<noteq> Cancel_not_found) (cancelRun C input)"

definition persisted_redriveDeadLetter :: "worker_config \<Rightarrow> redrive_input \<Rightarrow> persisted_queue
    \<Rightarrow> (persisted_queue, redrive_decision) outcome" where
  "persisted_redriveDeadLetter C input =
     recording_on (\<lambda>d. case d of Redrive_enqueued _ _ \<Rightarrow> True | _ \<Rightarrow> False) (total (redriveDeadLetter C input))"

definition persisted_resumeAfterApproval :: "worker_config \<Rightarrow> resume_input \<Rightarrow> persisted_queue
    \<Rightarrow> (persisted_queue, resume_decision) outcome" where
  "persisted_resumeAfterApproval C input = recording_changes (resumeAfterApproval C input)"

definition persisted_emit :: "worker_config \<Rightarrow> worker_event_input \<Rightarrow> persisted_queue
    \<Rightarrow> (persisted_queue, worker_event) outcome" where
  "persisted_emit C input = recording_on (\<lambda>_. True) (total (emit C input))"

definition persisted_emitRuntimeEvent :: "worker_config \<Rightarrow> runtime_event_input \<Rightarrow> persisted_queue
    \<Rightarrow> (persisted_queue, worker_event option) outcome" where
  "persisted_emitRuntimeEvent C input = recording_on (\<lambda>e. e \<noteq> None) (total (emitRuntimeEvent C input))"

definition flushQueueChanges :: "(worker_snapshot \<Rightarrow> js_error option) \<Rightarrow> persisted_queue
    \<Rightarrow> (persisted_queue, worker_snapshot list) outcome" where
  "flushQueueChanges listener pq =
     (let (err, saved) = save_all listener (pq_pending pq) (pq_error pq) [];
          pq' = pq\<lparr>pq_pending := []\<rparr> in
      case err of
        Some e \<Rightarrow> (Inl e, pq'\<lparr>pq_error := None\<rparr>)
      | None \<Rightarrow> (Inr saved, pq'\<lparr>pq_error := None\<rparr>))"

section \<open>The contract of a wrapped method\<close>

text \<open>The snapshot a restart would find once every queued save has run: \<open>saved\<close> was saved before.\<close>

definition durable :: "worker_snapshot \<Rightarrow> persisted_queue \<Rightarrow> worker_snapshot" where
  "durable saved pq = last (saved # pq_pending pq)"

definition in_sync :: "worker_snapshot \<Rightarrow> persisted_queue \<Rightarrow> bool" where
  "in_sync saved pq \<longleftrightarrow> durable saved pq = read_queue (pq_queue pq)"

lemma save_all_accepted:
  assumes "\<forall>s. listener s = None"
  shows "save_all listener ss None saved = (None, saved @ ss)"
  using assms by (induction ss arbitrary: saved) (simp_all add: save_one_def)

locale persisted_method =
  fixes wrapped :: "persisted_queue \<Rightarrow> (persisted_queue, 'd) outcome"
  assumes syncs: "fst (wrapped pq) = Inr d \<Longrightarrow> in_sync saved pq \<Longrightarrow> in_sync saved (snd (wrapped pq))"
    and error_frame: "pq_error (snd (wrapped pq)) = pq_error pq"
begin

lemma flush_after:
  assumes "fst (wrapped pq) = Inr d" "in_sync saved pq" "pq_error pq = None" "\<forall>s. listener s = None"
  shows "\<exists>ss. fst (flushQueueChanges listener (snd (wrapped pq))) = Inr ss
    \<and> last (saved # ss) = read_queue (pq_queue (snd (wrapped pq)))"
proof -
  have "save_all listener (pq_pending (snd (wrapped pq))) None [] = (None, pq_pending (snd (wrapped pq)))"
    using save_all_accepted [OF assms(4)] by simp
  then show ?thesis
    using syncs [OF assms(1,2)] error_frame [of pq] assms(3)
    by (simp add: flushQueueChanges_def in_sync_def durable_def)
qed

end

lemma recording_on_persisted:
  assumes "\<And>q d. fst (method q) = Inr d \<Longrightarrow> \<not> records d \<Longrightarrow> read_queue (snd (method q)) = read_queue q"
  shows "persisted_method (recording_on records method)"
proof
  fix pq saved d
  assume "fst (recording_on records method pq) = Inr d" "in_sync saved pq"
  then show "in_sync saved (snd (recording_on records method pq))"
    using assms [of "pq_queue pq" d]
    by (auto simp: recording_on_def Let_def split_def in_sync_def durable_def recordQueueChange_def)
next
  fix pq show "pq_error (snd (recording_on records method pq)) = pq_error pq"
    by (simp add: recording_on_def Let_def split_def recordQueueChange_def split: sum.split)
qed

lemma recording_changes_persisted: "persisted_method (recording_changes method)"
proof
  fix pq saved d
  assume "fst (recording_changes method pq) = Inr d" "in_sync saved pq"
  then show "in_sync saved (snd (recording_changes method pq))"
    by (auto simp: recording_changes_def Let_def split_def in_sync_def durable_def recordQueueChange_def
        recordChangeIfChanged_def snapshotDigest_def)
next
  fix pq show "pq_error (snd (recording_changes method pq)) = pq_error pq"
    by (simp add: recording_changes_def Let_def split_def recordQueueChange_def recordChangeIfChanged_def
        split: sum.split)
qed

lemma read_queue_cong:
  "wq_records q' = wq_records q \<Longrightarrow> wq_deadLetters q' = wq_deadLetters q \<Longrightarrow> wq_events q' = wq_events q
     \<Longrightarrow> read_queue q' = read_queue q"
  by (simp add: read_queue_def)

lemma read_clock [simp]: "read_queue (snd (now_or_clock C t q)) = read_queue q"
  by (rule read_queue_cong) simp_all

interpretation persisted_claim: persisted_method "persisted_claimNext C input" for C input
  unfolding persisted_claimNext_def by (rule recording_changes_persisted)

interpretation persisted_beat: persisted_method "persisted_heartbeat C input" for C input
  unfolding persisted_heartbeat_def by (rule recording_changes_persisted)

interpretation persisted_resume: persisted_method "persisted_resumeAfterApproval C input" for C input
  unfolding persisted_resumeAfterApproval_def by (rule recording_changes_persisted)

interpretation persisted_event: persisted_method "persisted_emit C input" for C input
  unfolding persisted_emit_def by (rule recording_on_persisted) simp

interpretation persisted_runtime: persisted_method "persisted_emitRuntimeEvent C input" for C input
  unfolding persisted_emitRuntimeEvent_def
  by (rule recording_on_persisted)
    (auto simp: total_def emitRuntimeEvent_def Let_def split_def split: option.splits)

interpretation persisted_enq: persisted_method "persisted_enqueue C input" for C input
  unfolding persisted_enqueue_def
proof (rule recording_on_persisted)
  fix q d assume d: "fst (total (enqueue C input) q) = Inr d" "\<not> (case d of Enqueued _ \<Rightarrow> True | Duplicate _ \<Rightarrow> False)"
  then obtain r where "fst (enqueue C input q) = Duplicate r"
    by (cases d) (auto simp: total_def split_def Let_def)
  then have "snd (enqueue C input q) = snd (now_or_clock C (eni_now input) q)"
    by (simp add: enqueue_def Let_def split_def split: option.splits)
  then show "read_queue (snd (total (enqueue C input) q)) = read_queue q"
    by (simp add: total_def split_def Let_def)
qed

interpretation persisted_redrive: persisted_method "persisted_redriveDeadLetter C input" for C input
  unfolding persisted_redriveDeadLetter_def
  by (rule recording_on_persisted)
    (auto simp: total_def redriveDeadLetter_def Let_def split_def split: option.splits)

interpretation persisted_cancel: persisted_method "persisted_cancelRun C input" for C input
  unfolding persisted_cancelRun_def
  by (rule recording_on_persisted)
    (auto simp: cancelRun_def Let_def split_def andThen_def split: if_splits sum.splits)

lemma requeue_nothing: "requeue_loop C now is q = (Inr [], q') \<Longrightarrow> q' = q"
proof (induction "is" arbitrary: q)
  case (Cons i "is")
  then show ?case
    by (cases "wr_status (record_at q i) = Work_claimed \<and> lease_expired now (record_at q i)")
      (auto simp: andThen_def returns_def split: prod.splits sum.splits)
qed simp

interpretation persisted_expire: persisted_method "persisted_expireLeases C now" for C now
  unfolding persisted_expireLeases_def
proof (rule recording_on_persisted)
  fix q d assume d: "fst (expireLeases C now q) = Inr d" "\<not> d \<noteq> []"
  let ?n = "now_or_clock C now q"
  have "requeueExpiredLeases C (fst ?n) (snd ?n) = (Inr [], snd (expireLeases C now q))"
    using d by (simp add: expireLeases_def split_def Let_def prod_eq_iff)
  then have "snd (expireLeases C now q) = snd ?n"
    unfolding requeueExpiredLeases_def by (rule requeue_nothing)
  then show "read_queue (snd (expireLeases C now q)) = read_queue q" by simp
qed

text \<open>
  A settlement is the exception: when the lease is lost because it has expired, the record has been
  released, but nothing is recorded. The contract holds for every other decision.
\<close>

lemma settled_in_sync:
  assumes "fst (persisted_settle C input pq) = Inr d" "\<forall>s. d \<noteq> Settle_lost_lease s"
  shows "in_sync saved (snd (persisted_settle C input pq))"
proof -
  have "(case d of Settle_lost_lease _ \<Rightarrow> False | _ \<Rightarrow> True)"
    using assms(2) by (cases d) auto
  then show ?thesis
    using assms(1) by (simp add: persisted_settle_def recording_on_def Let_def split_def in_sync_def durable_def
        recordQueueChange_def)
qed

lemma expired_settle_unsaved:
  assumes "queue_inv C (pq_queue pq)" "findByLeaseId (sei_leaseId input) (pq_queue pq) = Some i"
    "lease_expired (fst (now_or_clock C (sei_now input) (pq_queue pq))) (record_at (pq_queue pq) i)"
  shows "pq_pending (snd (persisted_settle C input pq)) = pq_pending pq
    \<and> read_queue (pq_queue (snd (persisted_settle C input pq))) \<noteq> read_queue (pq_queue pq)"
proof -
  let ?q = "pq_queue pq" and ?n = "now_or_clock C (sei_now input) (pq_queue pq)"
  have recs: "wq_records (snd ?n) = wq_records ?q" "wq_events (snd ?n) = wq_events ?q" by simp_all
  have f: "findByLeaseId (sei_leaseId input) (snd ?n) = Some i"
    using assms(2) find_index_cong [OF recs(1)] by (simp add: findByLeaseId_def)
  have i: "i < length (wq_records (snd ?n))" using findByLeaseId_Some [OF f] by simp
  have claimed: "wr_status (record_at (snd ?n) i) = Work_claimed" "wr_lease (record_at (snd ?n) i) \<noteq> None"
    using lease_claimed [OF assms(1,2)] by auto
  have wf: "wf_work (record_at (snd ?n) i)"
    using inv_wf [OF assms(1)] i by simp
  let ?e = "expireClaimedRecord C i (fst ?n) ''Worker lease expired before settlement.'' (snd ?n)"
  have e: "fst ?e = Inr ()" "length (wq_events (snd ?e)) = length (wq_events ?q) + 1"
    using expireClaimedRecord_eq [OF wf claimed(1) i] by simp_all
  have s: "settle C input ?q = (Inr (Settle_lost_lease ''Worker lease expired.''), snd ?e)"
    using f claimed assms(3) e(1) by (simp add: settle_def split_def Let_def andThen_def returns_def)
  have "length (ws_events (read_queue (snd ?e))) \<noteq> length (ws_events (read_queue ?q))"
    using e(2) by (simp add: read_queue_def)
  then show ?thesis
    using s by (auto simp: persisted_settle_def recording_on_def)
qed

section \<open>Restarting after a crash\<close>

text \<open>
  A call of the queue and whether it returned a decision: not when it threw, nor when a settlement was
  answered with a lost lease. Both may have changed the queue.
\<close>

definition returned :: "js_error + 'd \<Rightarrow> bool" where
  "returned r \<longleftrightarrow> (case r of Inl _ \<Rightarrow> False | Inr _ \<Rightarrow> True)"

definition settled_now :: "js_error + settle_decision \<Rightarrow> bool" where
  "settled_now r \<longleftrightarrow> (case r of Inl _ \<Rightarrow> False | Inr d \<Rightarrow> (case d of Settle_lost_lease _ \<Rightarrow> False | _ \<Rightarrow> True))"

inductive persisted_call :: "worker_config \<Rightarrow> persisted_queue \<Rightarrow> bool \<Rightarrow> persisted_queue \<Rightarrow> bool" for C p where
  call_enqueue: "persisted_call C p (returned (fst (persisted_enqueue C ei p))) (snd (persisted_enqueue C ei p))"
| call_claim: "persisted_call C p (returned (fst (persisted_claimNext C ci p))) (snd (persisted_claimNext C ci p))"
| call_heartbeat: "persisted_call C p (returned (fst (persisted_heartbeat C hi p))) (snd (persisted_heartbeat C hi p))"
| call_expire: "persisted_call C p (returned (fst (persisted_expireLeases C t p))) (snd (persisted_expireLeases C t p))"
| call_settle: "persisted_call C p (settled_now (fst (persisted_settle C si p))) (snd (persisted_settle C si p))"
| call_cancel: "persisted_call C p (returned (fst (persisted_cancelRun C cai p))) (snd (persisted_cancelRun C cai p))"
| call_redrive: "persisted_call C p (returned (fst (persisted_redriveDeadLetter C di p))) (snd (persisted_redriveDeadLetter C di p))"
| call_resume: "persisted_call C p (returned (fst (persisted_resumeAfterApproval C ri p))) (snd (persisted_resumeAfterApproval C ri p))"
| call_emit: "persisted_call C p (returned (fst (persisted_emit C wi p))) (snd (persisted_emit C wi p))"
| call_runtime_event: "persisted_call C p (returned (fst (persisted_emitRuntimeEvent C rti p))) (snd (persisted_emitRuntimeEvent C rti p))"

text \<open>Any sequence of calls, with whether each returned a decision.\<close>

inductive persisted_run :: "worker_config \<Rightarrow> persisted_queue \<Rightarrow> bool list \<Rightarrow> persisted_queue \<Rightarrow> bool" for C pq where
  persisted_start: "persisted_run C pq [] pq"
| persisted_next: "persisted_run C pq calls p \<Longrightarrow> persisted_call C p b p' \<Longrightarrow> persisted_run C pq (calls @ [b]) p'"

lemma returned_Inr: "returned r \<longleftrightarrow> (\<exists>d. r = Inr d)"
  by (simp add: returned_def split: sum.split)

lemma settled_now_Inr: "settled_now r \<longleftrightarrow> (\<exists>d. r = Inr d \<and> (\<forall>s. d \<noteq> Settle_lost_lease s))"
  by (simp add: settled_now_def split: sum.split settle_decision.split)

lemmas wrapped_defs = persisted_enqueue_def persisted_claimNext_def persisted_heartbeat_def
  persisted_expireLeases_def persisted_settle_def persisted_cancelRun_def persisted_redriveDeadLetter_def
  persisted_resumeAfterApproval_def persisted_emit_def persisted_emitRuntimeEvent_def

lemma call_keeps_sync: "persisted_call C p b p' \<Longrightarrow> b \<Longrightarrow> in_sync saved p \<Longrightarrow> in_sync saved p'"
  by (cases rule: persisted_call.cases)
    (auto simp: returned_Inr settled_now_Inr intro: persisted_enq.syncs persisted_claim.syncs persisted_beat.syncs
      persisted_expire.syncs settled_in_sync persisted_cancel.syncs persisted_redrive.syncs persisted_resume.syncs
      persisted_event.syncs persisted_runtime.syncs)

lemma wrapped_saves:
  "in_sync saved (snd (recording_on records method p)) \<or> pq_pending (snd (recording_on records method p)) = pq_pending p"
  "in_sync saved (snd (recording_changes method p)) \<or> pq_pending (snd (recording_changes method p)) = pq_pending p"
  by (simp_all add: recording_on_def recording_changes_def Let_def split_def recordQueueChange_def recordChangeIfChanged_def
      in_sync_def durable_def split: sum.split)

lemma call_saves: "persisted_call C p b p' \<Longrightarrow> in_sync saved p' \<or> pq_pending p' = pq_pending p"
  by (erule persisted_call.cases; hypsubst, unfold wrapped_defs, rule wrapped_saves)

lemma last_saved:
  assumes "persisted_run C pq calls p" "in_sync saved pq"
  shows "\<exists>before m after. calls = before @ after \<and> persisted_run C pq before m \<and> persisted_run C m after p
    \<and> (after = [] \<and> m = p \<or> (\<exists>rest. after = False # rest)) \<and> pq_pending m = pq_pending p \<and> in_sync saved m"
  using assms
proof (induction rule: persisted_run.induct)
  case persisted_start
  then show ?case
    by (intro exI [of _ "[]"] exI [of _ pq]) (simp add: persisted_run.persisted_start)
next
  case (persisted_next calls p b p')
  show ?case
  proof (cases "in_sync saved p'")
    case True
    then show ?thesis
      by (intro exI [of _ "calls @ [b]"] exI [of _ p'] exI [of _ "[]"])
        (simp add: persisted_run.persisted_start persisted_run.persisted_next [OF persisted_next.hyps])
  next
    case False
    with call_saves [OF persisted_next.hyps(2)] have same: "pq_pending p' = pq_pending p" by blast
    from persisted_next.IH [OF persisted_next.prems] obtain before m after where m:
      "calls = before @ after" "persisted_run C pq before m" "persisted_run C m after p"
      "after = [] \<and> m = p \<or> (\<exists>rest. after = False # rest)" "pq_pending m = pq_pending p" "in_sync saved m"
      by blast
    have "\<not> b" if "m = p"
      using call_keeps_sync [OF persisted_next.hyps(2) _ m(6) [unfolded that]] False by blast
    then have "\<exists>rest. after @ [b] = False # rest"
      using m(4) by (cases "after = []") auto
    moreover have "persisted_run C m (after @ [b]) p'"
      by (rule persisted_run.persisted_next [OF m(3) persisted_next.hyps(2)])
    ultimately show ?thesis
      using m same by (intro exI [of _ before] exI [of _ m] exI [of _ "after @ [b]"]) simp
  qed
qed

lemma wrapped_queue:
  "pq_queue (snd (recording_on records method pq)) = snd (method (pq_queue pq))"
  "pq_queue (snd (recording_changes method pq)) = snd (method (pq_queue pq))"
  "pq_error (snd (recording_on records method pq)) = pq_error pq"
  "pq_error (snd (recording_changes method pq)) = pq_error pq"
  by (simp_all add: recording_on_def recording_changes_def Let_def split_def recordQueueChange_def
      recordChangeIfChanged_def split: sum.split)

lemma snd_total [simp]: "snd (total m s) = snd (m s)"
  by (simp add: total_def split_def Let_def)

lemma call_worker_run:
  "persisted_call C p b p' \<Longrightarrow> worker_step C (pq_queue p) (pq_queue p') \<and> pq_error p' = pq_error p"
  by (cases rule: persisted_call.cases) (auto simp: wrapped_defs wrapped_queue intro: worker_step.intros)

lemma persisted_worker_run:
  assumes "persisted_run C pq calls p"
  shows "worker_run C (pq_queue pq) (pq_queue p) \<and> pq_error p = pq_error pq"
  using assms
  by (induction rule: persisted_run.induct) (auto intro: run_start run_step dest!: call_worker_run)



end
