(* ===== verification/Json_Values.thy ===== *)
theory Json_Values
  imports Runs
begin

text \<open>
  JSON values as \<open>packages/mcp-gateway/src/index.ts\<close> handles them: reading a property of a plain
  object, \<open>JSON.stringify\<close>, \<open>stableJson\<close> (the copy of a value with its keys sorted), \<open>hashUnknown\<close>
  and \<open>deepEqualJson\<close>. The lemmas show that the copy keeps every entry that is not \<open>undefined\<close>
  and that the JSON text of an object always exists.
\<close>

section \<open>Properties of plain objects\<close>

text \<open>
  \<open>o.k\<close>, for names no prototype defines. A missing property and one that holds \<open>undefined\<close> read
  alike.
\<close>

definition get_prop :: "json_record \<Rightarrow> string \<Rightarrow> json" where
  "get_prop es k = (case obj_get es k of None \<Rightarrow> JUndef | Some v \<Rightarrow> v)"

text \<open>\<open>Object.hasOwn\<close>.\<close>

definition has_own :: "json_record \<Rightarrow> string \<Rightarrow> bool" where
  "has_own es k = (obj_get es k \<noteq> None)"

definition isPlainRecord :: "json \<Rightarrow> bool" where
  "isPlainRecord v = (case v of JObj _ \<Rightarrow> True | _ \<Rightarrow> False)"

definition isString :: "json \<Rightarrow> bool" where
  "isString v = (case v of JStr _ \<Rightarrow> True | _ \<Rightarrow> False)"

lemma obj_get_map_of: "obj_get es = map_of es"
proof
  show "obj_get es k = map_of es k" for k
    by (induction es k rule: obj_get.induct) auto
qed

lemma has_own_iff: "has_own es k \<longleftrightarrow> k \<in> fst ` set es"
  by (simp add: has_own_def obj_get_map_of map_of_eq_None_iff)

lemma get_prop_in: "get_prop es k = v \<Longrightarrow> v \<noteq> JUndef \<Longrightarrow> (k, v) \<in> set es"
  by (auto simp: get_prop_def obj_get_map_of dest: map_of_SomeD split: option.splits)

lemma size_entry: "(k, v) \<in> set es \<Longrightarrow> size v < size (JObj es)"
  by (induction es) auto

lemma size_entry_list [termination_simp]:
  fixes v :: json and es :: json_record
  assumes "(k, v) \<in> set es"
  shows "size v < Suc (size_list (size_prod (\<lambda>x. 0) size) es)"
  using size_entry [OF assms] by simp

lemma isPlainRecord_iff: "isPlainRecord v \<longleftrightarrow> (\<exists>es. v = JObj es)"
  by (cases v) (simp_all add: isPlainRecord_def)

lemma isPlainRecord_simps [simp]:
  "isPlainRecord (JObj es)" "\<not> isPlainRecord JNull" "\<not> isPlainRecord JUndef" "\<not> isPlainRecord (JStr s)"
  "\<not> isPlainRecord (JArr vs)" "\<not> isPlainRecord (JNum n)" "\<not> isPlainRecord (JReal t)" "\<not> isPlainRecord (JBool b)"
  by (simp_all add: isPlainRecord_def)

lemma isString_iff: "isString v \<longleftrightarrow> (\<exists>s. v = JStr s)"
  by (cases v) (simp_all add: isString_def)

section \<open>The text of a value\<close>

fun json_stringify :: "json \<Rightarrow> string option" where
  "json_stringify JNull = Some ''null''"
| "json_stringify JUndef = None"
| "json_stringify (JBool b) = Some (if b then ''true'' else ''false'')"
| "json_stringify (JNum n) = Some (int_str n)"
| "json_stringify (JReal t) = Some (number_text t)"
| "json_stringify (JStr s) = Some (json_quote s)"
| "json_stringify (JArr vs) =
     Some (''['' @ join '','' (map (\<lambda>v. or_else (json_stringify v) ''null'') vs) @ '']'')"
| "json_stringify (JObj es) =
     Some (''{'' @ join '','' (concat (map (\<lambda>(k, v). (case json_stringify v of None \<Rightarrow> []
         | Some t \<Rightarrow> [json_quote k @ '':'' @ t])) es)) @ ''}'')"

text \<open>
  An object enumerates the keys that are array indices first, in ascending order, and then the
  others in the order of their creation; \<open>Object.fromEntries\<close> builds such an object.
\<close>

definition is_digit :: "char \<Rightarrow> bool" where
  "is_digit c = in_range CHR ''0'' CHR ''9'' c"

definition array_index :: "string \<Rightarrow> nat option" where
  "array_index s =
     (if s = [] \<or> \<not> list_all is_digit s \<or> hd s = CHR ''0'' \<and> tl s \<noteq> [] then None
      else if read_digits s < 2 ^ 32 - 1 then Some (read_digits s) else None)"

definition from_entries :: "json_record \<Rightarrow> json_record" where
  "from_entries es =
     sort_by (\<lambda>a b. the (array_index (fst a)) \<le> the (array_index (fst b)))
       (filter (\<lambda>e. array_index (fst e) \<noteq> None) es)
     @ filter (\<lambda>e. array_index (fst e) = None) es"

lemma set_from_entries [simp]: "set (from_entries es) = set es"
  by (auto simp: from_entries_def)

lemma mset_from_entries [simp]: "mset (from_entries es) = mset es"
  by (simp add: from_entries_def)

fun stableJson :: "(string \<Rightarrow> string \<Rightarrow> bool) \<Rightarrow> json \<Rightarrow> json" where
  "stableJson collate (JArr vs) = JArr (map (stableJson collate) vs)"
| "stableJson collate (JObj es) =
     JObj (from_entries (map (\<lambda>(k, v). (k, stableJson collate v))
       (sort_by (\<lambda>a b. collate (fst a) (fst b)) (filter (\<lambda>(k, v). v \<noteq> JUndef) es))))"
| "stableJson collate v = v"

definition deepEqualJson :: "(string \<Rightarrow> string \<Rightarrow> bool) \<Rightarrow> json \<Rightarrow> json \<Rightarrow> bool" where
  "deepEqualJson collate left right =
     (json_stringify (stableJson collate left) = json_stringify (stableJson collate right))"

text \<open>\<open>createHash("sha256").update(undefined)\<close> throws.\<close>

definition hashUnknown :: "env \<Rightarrow> json \<Rightarrow> js_error + string" where
  "hashUnknown E value =
     (case json_stringify (stableJson (env_collate E) value) of
        None \<Rightarrow> Inl (TypeError ''The data argument must be of type string'')
      | Some text \<Rightarrow> Inr (env_sha256 E text))"

definition cloneRecord :: "env \<Rightarrow> json_record \<Rightarrow> json_record" where
  "cloneRecord E es =
     (case stableJson (env_collate E) (JObj es) of JObj fs \<Rightarrow> fs | _ \<Rightarrow> [])"

lemma stringify_None_iff: "json_stringify v = None \<longleftrightarrow> v = JUndef"
  by (cases v) auto

lemma stableJson_JUndef_iff: "stableJson collate v = JUndef \<longleftrightarrow> v = JUndef"
  by (cases v) auto

lemma hashUnknown_fails_iff: "isl (hashUnknown E v) \<longleftrightarrow> v = JUndef"
  by (auto simp: hashUnknown_def stringify_None_iff stableJson_JUndef_iff split: option.splits)

lemma stableJson_record: "stableJson (env_collate E) (JObj es) = JObj (cloneRecord E es)"
  by (simp add: cloneRecord_def)

text \<open>The hash of an object, which always has a text.\<close>

definition hashRecord :: "env \<Rightarrow> json_record \<Rightarrow> string" where
  "hashRecord E es = (case hashUnknown E (JObj es) of Inr h \<Rightarrow> h | Inl _ \<Rightarrow> [])"

lemma hashUnknown_record: "hashUnknown E (JObj es) = Inr (hashRecord E es)"
  using hashUnknown_fails_iff [of E "JObj es"]
  by (auto simp: hashRecord_def split: sum.splits)

lemma set_cloneRecord:
  "set (cloneRecord E es) = {(k, stableJson (env_collate E) v) | k v. (k, v) \<in> set es \<and> v \<noteq> JUndef}"
  by (auto simp: cloneRecord_def image_iff)

lemma distinct_cloneRecord:
  assumes "distinct (map fst es)"
  shows "distinct (map fst (cloneRecord E es))"
proof -
  define fs where "fs = map (\<lambda>(k, v). (k, stableJson (env_collate E) v))
    (sort_by (\<lambda>a b. env_collate E (fst a) (fst b)) (filter (\<lambda>(k, v). v \<noteq> JUndef) es))"
  have "mset (map fst (from_entries fs)) = mset (map fst fs)"
    by (simp only: mset_map mset_from_entries)
  also have "mset (map fst fs) = mset (map fst (filter (\<lambda>(k, v). v \<noteq> JUndef) es))"
    by (simp add: fs_def image_mset.compositionality comp_def case_prod_unfold)
  finally have "distinct (map fst (from_entries fs)) \<longleftrightarrow> distinct (map fst (filter (\<lambda>(k, v). v \<noteq> JUndef) es))"
    by (metis mset_eq_imp_distinct_iff)
  with distinct_map_filter [OF assms] show ?thesis
    by (simp add: cloneRecord_def fs_def)
qed

lemma get_prop_cloneRecord:
  assumes "distinct (map fst es)"
  shows "get_prop (cloneRecord E es) k = stableJson (env_collate E) (get_prop es k)"
proof (cases "get_prop es k = JUndef")
  case True
  have "(k, v) \<notin> set es \<or> v = JUndef" for v
    using True assms map_of_is_SomeI [of es k v]
    by (auto simp: get_prop_def obj_get_map_of)
  then have "k \<notin> fst ` set (cloneRecord E es)"
    by (auto simp: set_cloneRecord image_iff)
  with True show ?thesis
    by (simp add: get_prop_def obj_get_map_of map_of_eq_None_iff [symmetric] split: option.splits)
next
  case False
  then have "(k, get_prop es k) \<in> set es"
    using get_prop_in by blast
  with False have "(k, stableJson (env_collate E) (get_prop es k)) \<in> set (cloneRecord E es)"
    by (auto simp: set_cloneRecord)
  with distinct_cloneRecord [OF assms] show ?thesis
    by (simp add: get_prop_def obj_get_map_of)
qed

end
