(* ===== verification/Mcp_Ledger.thy ===== *)
theory Mcp_Ledger
  imports Json_Values Complex_Main
begin

text \<open>
  The ledger of tool invocations of \<open>packages/mcp-gateway/src/index.ts\<close>: its entries, the filter on
  run and resource, and the summary. A latency is a rational number, or \<open>None\<close> when it is not
  finite; sums are exact.
\<close>

datatype tool_invocation_status = Inv_executed | Inv_blocked | Inv_error

record ledger_input =
  li_id :: "string option"
  li_runId :: string
  li_resource :: string
  li_schemaVersion :: "string option"
  li_schemaHash :: "string option"
  li_inputHash :: string
  li_outputHash :: "string option"
  li_latencyMs :: "rat option"
  li_status :: tool_invocation_status
  li_error :: "string option"
  li_identityId :: "string option"
  li_credentialLeaseId :: "string option"
  li_createdAt :: "iso_date option"

record ledger_entry =
  le_id :: string
  le_runId :: string
  le_resource :: string
  le_inputHash :: string
  le_latencyMs :: rat
  le_status :: tool_invocation_status
  le_createdAt :: iso_date
  le_schemaVersion :: "string option"
  le_schemaHash :: "string option"
  le_outputHash :: "string option"
  le_error :: "string option"
  le_identityId :: "string option"
  le_credentialLeaseId :: "string option"

record ledger_filter =
  lf_runId :: "string option"
  lf_resource :: "string option"

record ledger_summary =
  ls_runId :: "string option"
  ls_resource :: "string option"
  ls_entries :: nat
  ls_executed :: nat
  ls_blocked :: nat
  ls_errors :: nat
  ls_totalLatencyMs :: rat
  ls_averageLatencyMs :: rat
  ls_maxLatencyMs :: rat

definition createLedgerEntry :: "iso_date \<Rightarrow> ledger_input \<Rightarrow> nat \<Rightarrow> js_error + ledger_entry" where
  "createLedgerEntry now input sequence =
     (case li_latencyMs input of
        None \<Rightarrow> Inl (Error ''latencyMs must be a non-negative number.'')
      | Some latency \<Rightarrow>
          if latency < 0 then Inl (Error ''latencyMs must be a non-negative number.'')
          else Inr \<lparr> le_id = or_else (li_id input)
                       (li_runId input @ '':'' @ li_resource input @ '':'' @ nat_str sequence),
                 le_runId = li_runId input, le_resource = li_resource input,
                 le_inputHash = li_inputHash input, le_latencyMs = latency, le_status = li_status input,
                 le_createdAt = or_else (li_createdAt input) now,
                 le_schemaVersion = li_schemaVersion input, le_schemaHash = li_schemaHash input,
                 le_outputHash = li_outputHash input, le_error = li_error input,
                 le_identityId = li_identityId input,
                 le_credentialLeaseId = li_credentialLeaseId input \<rparr>)"

definition recordInvocation :: "iso_date \<Rightarrow> ledger_input \<Rightarrow> ledger_entry list \<Rightarrow> (ledger_entry list, ledger_entry) outcome" where
  "recordInvocation now input entries =
     (case createLedgerEntry now input (length entries + 1) of
        Inl e \<Rightarrow> (Inl e, entries)
      | Inr entry \<Rightarrow> (Inr entry, entries @ [entry]))"

text \<open>An absent or empty member of the filter accepts every entry.\<close>

definition filter_accepts :: "ledger_filter option \<Rightarrow> ledger_entry \<Rightarrow> bool" where
  "filter_accepts flt entry =
     (case flt of None \<Rightarrow> True
      | Some f \<Rightarrow> (\<not> truthy (lf_runId f) \<or> Some (le_runId entry) = lf_runId f)
               \<and> (\<not> truthy (lf_resource f) \<or> Some (le_resource entry) = lf_resource f))"

definition listInvocations :: "ledger_entry list \<Rightarrow> ledger_filter option \<Rightarrow> ledger_entry list" where
  "listInvocations entries flt = filter (filter_accepts flt) entries"

definition non_empty_member :: "(ledger_filter \<Rightarrow> string option) \<Rightarrow> ledger_filter option \<Rightarrow> string option" where
  "non_empty_member m flt = (case flt of None \<Rightarrow> None | Some f \<Rightarrow> if truthy (m f) then m f else None)"

definition summary_step :: "ledger_summary \<Rightarrow> ledger_entry \<Rightarrow> ledger_summary" where
  "summary_step s entry =
     (let counted = (case le_status entry of
            Inv_executed \<Rightarrow> s\<lparr>ls_executed := ls_executed s + 1\<rparr>
          | Inv_blocked \<Rightarrow> s\<lparr>ls_blocked := ls_blocked s + 1\<rparr>
          | Inv_error \<Rightarrow> s\<lparr>ls_errors := ls_errors s + 1\<rparr>)
      in counted\<lparr> ls_totalLatencyMs := ls_totalLatencyMs counted + le_latencyMs entry,
                  ls_maxLatencyMs := max (ls_maxLatencyMs counted) (le_latencyMs entry) \<rparr>)"

definition summarizeLedger :: "ledger_entry list \<Rightarrow> ledger_filter option \<Rightarrow> ledger_summary" where
  "summarizeLedger entries flt =
     (let filtered = filter (filter_accepts flt) entries;
          start = \<lparr> ls_runId = non_empty_member lf_runId flt, ls_resource = non_empty_member lf_resource flt,
                    ls_entries = length filtered, ls_executed = 0, ls_blocked = 0, ls_errors = 0,
                    ls_totalLatencyMs = 0, ls_averageLatencyMs = 0, ls_maxLatencyMs = 0 \<rparr>;
          summed = foldl summary_step start filtered
      in summed\<lparr> ls_averageLatencyMs :=
           (if 0 < length filtered then ls_totalLatencyMs summed / of_nat (length filtered) else 0) \<rparr>)"

definition summarizeInvocations :: "ledger_entry list \<Rightarrow> ledger_filter option \<Rightarrow> ledger_summary" where
  "summarizeInvocations entries flt = summarizeLedger (listInvocations entries flt) flt"

section \<open>What a summary says\<close>

definition ledger_inv :: "ledger_entry list \<Rightarrow> bool" where
  "ledger_inv entries \<longleftrightarrow> (\<forall>e \<in> set entries. 0 \<le> le_latencyMs e)"

fun record_all :: "(iso_date \<times> ledger_input) list \<Rightarrow> ledger_entry list \<Rightarrow> ledger_entry list" where
  "record_all [] entries = entries"
| "record_all ((now, input) # rest) entries = record_all rest (snd (recordInvocation now input entries))"

lemma ledger_inv_record: "ledger_inv entries \<Longrightarrow> ledger_inv (snd (recordInvocation now input entries))"
  by (auto simp: recordInvocation_def createLedgerEntry_def ledger_inv_def split: sum.splits option.splits if_splits)

lemma ledger_inv_record_all: "ledger_inv entries \<Longrightarrow> ledger_inv (record_all inputs entries)"
  by (induction inputs entries rule: record_all.induct) (auto simp: ledger_inv_record)

abbreviation counted :: "tool_invocation_status \<Rightarrow> ledger_entry list \<Rightarrow> nat" where
  "counted st es \<equiv> length (filter (\<lambda>e. le_status e = st) es)"

lemma foldl_summary:
  "ls_executed (foldl summary_step s es) = ls_executed s + counted Inv_executed es"
  "ls_blocked (foldl summary_step s es) = ls_blocked s + counted Inv_blocked es"
  "ls_errors (foldl summary_step s es) = ls_errors s + counted Inv_error es"
  "ls_entries (foldl summary_step s es) = ls_entries s"
  "ls_runId (foldl summary_step s es) = ls_runId s"
  "ls_resource (foldl summary_step s es) = ls_resource s"
  "ls_totalLatencyMs (foldl summary_step s es) = ls_totalLatencyMs s + sum_list (map le_latencyMs es)"
  "ls_maxLatencyMs (foldl summary_step s es) = foldl max (ls_maxLatencyMs s) (map le_latencyMs es)"
  by (induction es arbitrary: s)
    (simp_all add: summary_step_def Let_def ac_simps split: tool_invocation_status.splits)

lemma counted_partition: "length es = counted Inv_executed es + counted Inv_blocked es + counted Inv_error es"
proof (induction es)
  case (Cons e es)
  then show ?case by (cases "le_status e") simp_all
qed simp

lemma foldl_max_start: "(a :: rat) \<le> foldl max a xs"
proof (induction xs arbitrary: a)
  case (Cons x xs)
  from Cons [of "max a x"] show ?case by simp
qed simp

lemma foldl_max_mem: "x \<in> set xs \<Longrightarrow> (x :: rat) \<le> foldl max a xs"
proof (induction xs arbitrary: a)
  case (Cons y ys)
  with foldl_max_start [of "max a x" ys] show ?case by auto
qed simp

lemma sum_list_le_max: "(\<And>x. x \<in> set xs \<Longrightarrow> x \<le> m) \<Longrightarrow> sum_list xs \<le> of_nat (length xs) * m" for m :: rat
proof (induction xs)
  case (Cons x xs)
  then have "x \<le> m" "sum_list xs \<le> of_nat (length xs) * m" by auto
  then show ?case by (simp add: algebra_simps)
qed simp

lemma sum_list_nonneg_rat: "(\<And>x. x \<in> set xs \<Longrightarrow> 0 \<le> x) \<Longrightarrow> 0 \<le> sum_list xs" for xs :: "rat list"
  by (induction xs) auto

lemma filter_twice: "filter (filter_accepts flt) (listInvocations entries flt) = listInvocations entries flt"
  by (simp add: listInvocations_def)

lemma summary_fields:
  "ls_executed (summarizeInvocations entries flt) = counted Inv_executed (listInvocations entries flt)"
  "ls_blocked (summarizeInvocations entries flt) = counted Inv_blocked (listInvocations entries flt)"
  "ls_errors (summarizeInvocations entries flt) = counted Inv_error (listInvocations entries flt)"
  "ls_entries (summarizeInvocations entries flt) = length (listInvocations entries flt)"
  "ls_totalLatencyMs (summarizeInvocations entries flt) = sum_list (map le_latencyMs (listInvocations entries flt))"
  "ls_maxLatencyMs (summarizeInvocations entries flt) = foldl max 0 (map le_latencyMs (listInvocations entries flt))"
  "ls_averageLatencyMs (summarizeInvocations entries flt) =
     (if 0 < length (listInvocations entries flt)
      then ls_totalLatencyMs (summarizeInvocations entries flt) / of_nat (length (listInvocations entries flt))
      else 0)"
  by (simp_all add: summarizeInvocations_def summarizeLedger_def Let_def filter_twice foldl_summary)

text \<open>
  However the ledger was filled, a summary counts every selected entry under one status, its
  average lies between zero and the maximum, and the total is the average times the entries.
\<close>

theorem ledger_summary_bounds:
  "ls_entries (summarizeInvocations (record_all inputs []) flt) =
     ls_executed (summarizeInvocations (record_all inputs []) flt)
     + ls_blocked (summarizeInvocations (record_all inputs []) flt)
     + ls_errors (summarizeInvocations (record_all inputs []) flt) \<and>
   0 \<le> ls_averageLatencyMs (summarizeInvocations (record_all inputs []) flt) \<and>
   ls_averageLatencyMs (summarizeInvocations (record_all inputs []) flt)
     \<le> ls_maxLatencyMs (summarizeInvocations (record_all inputs []) flt) \<and>
   ls_totalLatencyMs (summarizeInvocations (record_all inputs []) flt) =
     of_nat (ls_entries (summarizeInvocations (record_all inputs []) flt))
     * ls_averageLatencyMs (summarizeInvocations (record_all inputs []) flt)"
proof -
  define es where "es = listInvocations (record_all inputs []) flt"
  have "ledger_inv (record_all inputs [])"
    by (rule ledger_inv_record_all) (simp add: ledger_inv_def)
  then have pos: "0 \<le> sum_list (map le_latencyMs es)"
    by (intro sum_list_nonneg_rat) (auto simp: es_def listInvocations_def ledger_inv_def)
  have le: "sum_list (map le_latencyMs es) \<le> of_nat (length es) * foldl max 0 (map le_latencyMs es)"
    using sum_list_le_max [of "map le_latencyMs es" "foldl max 0 (map le_latencyMs es)"]
    by (simp add: foldl_max_mem)
  have avg: "0 \<le> a \<and> a \<le> m \<and> t = of_nat (length es) * a"
    if "a = (if 0 < length es then t / of_nat (length es) else 0)" "0 \<le> t" "t \<le> of_nat (length es) * m"
      "0 \<le> m" for a t m :: rat
    using that by (cases "es = []") (simp_all add: divide_nonneg_pos divide_le_eq mult.commute)
  show ?thesis
    unfolding summary_fields es_def [symmetric]
    using counted_partition [of es] avg [OF refl pos le foldl_max_start] by simp
qed

end
