(* ===== verification/Mcp_Schema.thy ===== *)
theory Mcp_Schema
  imports Json_Values
begin

text \<open>
  The validation of tool inputs in \<open>packages/mcp-gateway/src/index.ts\<close>: the check that a JSON
  schema is one the gateway supports, the check of a value against a schema, and the comparison of
  a presented schema with the cached one. Beside the validators stand two judgements: \<open>well_shaped\<close>
  says which schemas are supported and \<open>conforms\<close> which values a schema describes. The validators
  decide them, and a supported schema never makes the check of a value fail on the schema.
\<close>

section \<open>Results\<close>

datatype schema_check = Valid | Invalid string

definition schema_reason :: "string \<Rightarrow> string \<Rightarrow> string" where
  "schema_reason path reason = ''unsupported schema at '' @ path @ '': '' @ reason"

definition invalidSchema :: "string \<Rightarrow> string \<Rightarrow> schema_check" where
  "invalidSchema path reason = Invalid (schema_reason path reason)"

definition invalidValue :: "string \<Rightarrow> string \<Rightarrow> schema_check" where
  "invalidValue path reason = Invalid (path @ '' '' @ reason)"

definition field_path :: "string \<Rightarrow> string \<Rightarrow> string" where
  "field_path path k = path @ ''.'' @ k"

definition item_path :: "string \<Rightarrow> nat \<Rightarrow> string" where
  "item_path path i = path @ ''['' @ nat_str i @ '']''"

definition expect :: "bool \<Rightarrow> string \<Rightarrow> string \<Rightarrow> schema_check" where
  "expect ok path reason = (if ok then Valid else invalidValue path reason)"

text \<open>A loop that returns the first result that is not valid.\<close>

fun first_invalid :: "schema_check list \<Rightarrow> schema_check" where
  "first_invalid [] = Valid"
| "first_invalid (Valid # cs) = first_invalid cs"
| "first_invalid (Invalid r # cs) = Invalid r"

lemma first_invalid_Valid_iff [simp]: "first_invalid cs = Valid \<longleftrightarrow> (\<forall>c \<in> set cs. c = Valid)"
  by (induction cs rule: first_invalid.induct) auto

lemma first_invalid_InvalidD: "first_invalid cs = Invalid r \<Longrightarrow> Invalid r \<in> set cs"
  by (induction cs rule: first_invalid.induct) auto

lemma results_neq [simp]: "invalidSchema p r \<noteq> Valid" "invalidValue p r \<noteq> Valid"
  by (simp_all add: invalidSchema_def invalidValue_def)

lemma expect_Valid_iff [simp]: "expect ok p r = Valid \<longleftrightarrow> ok"
  by (simp add: expect_def)

section \<open>Reading a schema\<close>

definition readJsonSchemaProperties :: "json_record \<Rightarrow> string \<Rightarrow> string + json_record" where
  "readJsonSchemaProperties schema path =
     (case get_prop schema ''properties'' of
        JUndef \<Rightarrow> Inr []
      | JObj ps \<Rightarrow>
          (case List.find (\<lambda>(_, s). \<not> isPlainRecord s) ps of
             Some (k, _) \<Rightarrow> Inl (schema_reason (field_path path k) ''property schema must be an object'')
           | None \<Rightarrow> Inr ps)
      | _ \<Rightarrow> Inl (schema_reason path ''properties must be an object''))"

definition readJsonSchemaRequired :: "json_record \<Rightarrow> string \<Rightarrow> string + string list" where
  "readJsonSchemaRequired schema path =
     (case get_prop schema ''required'' of
        JUndef \<Rightarrow> Inr []
      | JArr vs \<Rightarrow>
          (if list_all isString vs then Inr (map (\<lambda>v. case v of JStr s \<Rightarrow> s | _ \<Rightarrow> []) vs)
           else Inl (schema_reason path ''required must be an array of strings''))
      | _ \<Rightarrow> Inl (schema_reason path ''required must be an array of strings''))"

definition additional_readable :: "json \<Rightarrow> bool" where
  "additional_readable a = (case a of JUndef \<Rightarrow> True | JBool _ \<Rightarrow> True | JObj _ \<Rightarrow> True | _ \<Rightarrow> False)"

lemma readProperties_entry:
  assumes "readJsonSchemaProperties es path = Inr ps" "(k, s) \<in> set ps"
  shows "size s < size (JObj es)"
proof -
  have "get_prop es ''properties'' = JObj ps"
    using assms by (auto simp: readJsonSchemaProperties_def split: json.splits option.splits)
  then have "size (JObj ps) < size (JObj es)"
    by (intro size_entry get_prop_in) simp_all
  with size_entry [OF assms(2)] show ?thesis by simp
qed

lemma get_prop_size: "get_prop es k \<noteq> JUndef \<Longrightarrow> size (get_prop es k) < size (JObj es)"
  by (intro size_entry get_prop_in) auto

lemma get_prop_size_eq: "get_prop es k = JObj a \<Longrightarrow> size (JObj a) < size (JObj es)"
  using get_prop_size [of es k] by simp

section \<open>Supported schemas\<close>

definition scalar_types :: "string list" where
  "scalar_types = [''boolean'', ''integer'', ''null'', ''number'', ''string'']"

function (sequential) validateJsonSchemaShape :: "json \<Rightarrow> string \<Rightarrow> schema_check" where
  "validateJsonSchemaShape (JObj es) path =
     (case get_prop es ''type'' of
        JStr ty \<Rightarrow>
          (if ty \<in> set scalar_types then Valid
           else if ty = ''array'' then
             (if get_prop es ''items'' = JUndef then invalidSchema path ''array schema must declare items''
              else validateJsonSchemaShape (get_prop es ''items'') (path @ ''[]''))
           else if ty = ''object'' then
             (case readJsonSchemaProperties es path of
                Inl r \<Rightarrow> Invalid r
              | Inr ps \<Rightarrow>
                  (case readJsonSchemaRequired es path of
                     Inl r \<Rightarrow> Invalid r
                   | Inr req \<Rightarrow>
                       (if \<not> additional_readable (get_prop es ''additionalProperties'')
                        then invalidSchema path ''additionalProperties must be boolean or a schema object''
                        else first_invalid
                          (map (\<lambda>(k, s). validateJsonSchemaShape s (field_path path k)) ps
                           @ (case get_prop es ''additionalProperties'' of
                                JObj a \<Rightarrow> [validateJsonSchemaShape (JObj a) (path @ ''.*'')]
                              | _ \<Rightarrow> [])))))
           else invalidSchema path (''unsupported type '' @ ty))
      | _ \<Rightarrow> invalidSchema path ''schema must declare a string type'')"
| "validateJsonSchemaShape _ path = invalidSchema path ''schema must be an object''"
  by pat_completeness auto
termination
  by (relation "measure (\<lambda>(s, _). size s)")
    (auto dest: readProperties_entry get_prop_size get_prop_size_eq)

section \<open>Values of a schema\<close>

text \<open>
  The schema of a field is looked up with \<open>schemas[fieldName]\<close>, which also finds what every object
  inherits: functions, and for \<open>__proto__\<close> the object \<open>Object.prototype\<close>, which is a plain record
  without a \<open>type\<close>.
\<close>

definition object_members :: "string list" where
  "object_members = [''constructor'', ''__defineGetter__'', ''__defineSetter__'', ''hasOwnProperty'',
     ''__lookupGetter__'', ''__lookupSetter__'', ''isPrototypeOf'', ''propertyIsEnumerable'',
     ''toString'', ''valueOf'', ''__proto__'', ''toLocaleString'']"

datatype field_schema = Declared json | Inherited | Undeclared

definition schema_of_field :: "json_record \<Rightarrow> string \<Rightarrow> field_schema" where
  "schema_of_field ps k =
     (case obj_get ps k of
        Some s \<Rightarrow> Declared s
      | None \<Rightarrow> if k \<in> set object_members then Inherited else Undeclared)"

definition inherited_check :: "string \<Rightarrow> string \<Rightarrow> schema_check" where
  "inherited_check k path =
     invalidSchema path (if k = ''__proto__'' then ''schema must declare a string type''
                         else ''schema must be an object'')"

definition isInteger :: "json \<Rightarrow> bool" where
  "isInteger v = (case v of JNum _ \<Rightarrow> True | JReal t \<Rightarrow> str_includes t ''e+'' | _ \<Rightarrow> False)"

definition is_finite_number :: "json \<Rightarrow> bool" where
  "is_finite_number v = (case v of JNum _ \<Rightarrow> True | JReal t \<Rightarrow> is_finite_text t | _ \<Rightarrow> False)"

definition isBoolean :: "json \<Rightarrow> bool" where
  "isBoolean v = (case v of JBool _ \<Rightarrow> True | _ \<Rightarrow> False)"

lemma enumerate_mem_iff: "x \<in> set vs \<longleftrightarrow> (\<exists>i. (i, x) \<in> set (List.enumerate n vs))"
proof (induction vs arbitrary: n)
  case (Cons a vs)
  from Cons [of "Suc n"] show ?case by auto
qed simp

lemma enumerate_mem: "(i, x) \<in> set (List.enumerate n vs) \<Longrightarrow> x \<in> set vs"
  by (subst enumerate_mem_iff [of x vs n]) blast

lemma enumerate_size: "(i, x) \<in> set (List.enumerate n vs) \<Longrightarrow> size x < size (JArr vs)"
  using size_list_estimation' [of x vs "size x" size] by (auto dest: enumerate_mem)

function (sequential) validateJsonSchemaValue :: "json \<Rightarrow> json \<Rightarrow> string \<Rightarrow> schema_check"
  and validateJsonSchemaObject :: "json \<Rightarrow> json_record \<Rightarrow> string \<Rightarrow> schema_check"
  and validateJsonSchemaArray :: "json \<Rightarrow> json_record \<Rightarrow> string \<Rightarrow> schema_check" where
  "validateJsonSchemaValue v (JObj es) path =
     (case get_prop es ''type'' of
        JStr ty \<Rightarrow>
          (if ty = ''object'' then validateJsonSchemaObject v es path
           else if ty = ''array'' then validateJsonSchemaArray v es path
           else if ty = ''boolean'' then expect (isBoolean v) path ''expected boolean''
           else if ty = ''integer'' then expect (isInteger v) path ''expected integer''
           else if ty = ''number'' then expect (is_finite_number v) path ''expected finite number''
           else if ty = ''null'' then expect (v = JNull) path ''expected null''
           else if ty = ''string'' then expect (isString v) path ''expected string''
           else invalidSchema path (''unsupported type '' @ ty))
      | _ \<Rightarrow> invalidSchema path ''schema must declare a string type'')"
| "validateJsonSchemaValue v _ path = invalidSchema path ''schema must be an object''"
| "validateJsonSchemaObject (JObj own) es path =
     (case readJsonSchemaProperties es path of
        Inl r \<Rightarrow> Invalid r
      | Inr ps \<Rightarrow>
     (case readJsonSchemaRequired es path of
        Inl r \<Rightarrow> Invalid r
      | Inr req \<Rightarrow>
     (case List.find (\<lambda>k. \<not> has_own own k) req of
        Some k \<Rightarrow> invalidValue (field_path path k) ''missing required property''
      | None \<Rightarrow>
          (let additional = get_prop es ''additionalProperties'' in
           if \<not> additional_readable additional
           then invalidSchema path ''additionalProperties must be boolean or a schema object''
           else first_invalid (map (\<lambda>(k, x).
             (case schema_of_field ps k of
                Declared s \<Rightarrow> validateJsonSchemaValue x s (field_path path k)
              | Inherited \<Rightarrow> inherited_check k (field_path path k)
              | Undeclared \<Rightarrow>
                  if additional = JBool False
                  then invalidValue (field_path path k) ''unexpected property''
                  else if isPlainRecord additional
                  then validateJsonSchemaValue x additional (field_path path k)
                  else Valid)) own)))))"
| "validateJsonSchemaObject _ es path = invalidValue path ''expected object''"
| "validateJsonSchemaArray (JArr vs) es path =
     (if get_prop es ''items'' = JUndef then invalidSchema path ''array schema must declare items''
      else if \<not> isPlainRecord (get_prop es ''items'')
      then invalidSchema path ''items must be a schema object''
      else first_invalid (map (\<lambda>(i, x).
        validateJsonSchemaValue x (get_prop es ''items'') (item_path path i))
        (List.enumerate 0 vs)))"
| "validateJsonSchemaArray _ es path = invalidValue path ''expected array''"
  by pat_completeness auto
termination
  by (relation "measure (\<lambda>a. case a of Inl (v, _, _) \<Rightarrow> 2 * size v + 1
        | Inr (Inl (v, _, _)) \<Rightarrow> 2 * size v | Inr (Inr (v, _, _)) \<Rightarrow> 2 * size v)")
    (auto dest: size_entry enumerate_size)

definition validateJsonSchemaInput :: "json_record \<Rightarrow> json_record \<Rightarrow> schema_check" where
  "validateJsonSchemaInput input schema =
     (case validateJsonSchemaShape (JObj schema) ''$'' of
        Invalid r \<Rightarrow> Invalid r
      | Valid \<Rightarrow> validateJsonSchemaValue (JObj input) (JObj schema) ''$'')"

section \<open>What the validators decide\<close>

definition properties_of :: "json_record \<Rightarrow> json_record option" where
  "properties_of es = (case readJsonSchemaProperties es [] of Inr ps \<Rightarrow> Some ps | Inl _ \<Rightarrow> None)"

definition required_of :: "json_record \<Rightarrow> string list option" where
  "required_of es = (case readJsonSchemaRequired es [] of Inr ks \<Rightarrow> Some ks | Inl _ \<Rightarrow> None)"

inductive well_shaped :: "json \<Rightarrow> bool" where
  scalar: "get_prop es ''type'' = JStr ty \<Longrightarrow> ty \<in> set scalar_types \<Longrightarrow> well_shaped (JObj es)"
| array: "get_prop es ''type'' = JStr ''array'' \<Longrightarrow> well_shaped (get_prop es ''items'') \<Longrightarrow>
    well_shaped (JObj es)"
| object: "get_prop es ''type'' = JStr ''object'' \<Longrightarrow> properties_of es = Some ps \<Longrightarrow>
    required_of es = Some req \<Longrightarrow> additional_readable (get_prop es ''additionalProperties'') \<Longrightarrow>
    (\<And>k s. (k, s) \<in> set ps \<Longrightarrow> well_shaped s) \<Longrightarrow>
    (\<And>a. get_prop es ''additionalProperties'' = JObj a \<Longrightarrow> well_shaped (JObj a)) \<Longrightarrow>
    well_shaped (JObj es)"

inductive_simps well_shaped_record: "well_shaped (JObj es)"
inductive_cases well_shapedE: "well_shaped v"

text \<open>A field is described by its own schema or, when the schema has none, by the rule for the others.\<close>

definition field_described :: "(json \<Rightarrow> json \<Rightarrow> bool) \<Rightarrow> json_record \<Rightarrow> json \<Rightarrow> string \<Rightarrow> json \<Rightarrow> bool" where
  "field_described R ps additional k x =
     (case schema_of_field ps k of
        Declared s \<Rightarrow> R x s
      | Inherited \<Rightarrow> False
      | Undeclared \<Rightarrow> additional \<noteq> JBool False \<and> (isPlainRecord additional \<longrightarrow> R x additional))"

lemma field_described_mono:
  "R \<le> R' \<Longrightarrow> field_described R ps additional k x \<longrightarrow> field_described R' ps additional k x"
  by (auto simp: field_described_def split: field_schema.splits)

inductive conforms :: "json \<Rightarrow> json \<Rightarrow> bool" where
  boolean: "get_prop es ''type'' = JStr ''boolean'' \<Longrightarrow> isBoolean v \<Longrightarrow> conforms v (JObj es)"
| integer: "get_prop es ''type'' = JStr ''integer'' \<Longrightarrow> isInteger v \<Longrightarrow> conforms v (JObj es)"
| number: "get_prop es ''type'' = JStr ''number'' \<Longrightarrow> is_finite_number v \<Longrightarrow> conforms v (JObj es)"
| null: "get_prop es ''type'' = JStr ''null'' \<Longrightarrow> conforms JNull (JObj es)"
| string: "get_prop es ''type'' = JStr ''string'' \<Longrightarrow> isString v \<Longrightarrow> conforms v (JObj es)"
| array: "get_prop es ''type'' = JStr ''array'' \<Longrightarrow> isPlainRecord (get_prop es ''items'') \<Longrightarrow>
    \<forall>x \<in> set vs. conforms x (get_prop es ''items'') \<Longrightarrow> conforms (JArr vs) (JObj es)"
| object: "get_prop es ''type'' = JStr ''object'' \<Longrightarrow> properties_of es = Some ps \<Longrightarrow>
    required_of es = Some req \<Longrightarrow> additional_readable (get_prop es ''additionalProperties'') \<Longrightarrow>
    \<forall>k \<in> set req. has_own own k \<Longrightarrow>
    \<forall>(k, x) \<in> set own. field_described conforms ps (get_prop es ''additionalProperties'') k x \<Longrightarrow>
    conforms (JObj own) (JObj es)"
  monos field_described_mono

inductive_simps conforms_record: "conforms v (JObj es)"
inductive_cases conformsE: "conforms v s"

lemma read_properties_iff: "readJsonSchemaProperties es p = Inr ps \<longleftrightarrow> properties_of es = Some ps"
  by (auto simp: properties_of_def readJsonSchemaProperties_def split: json.splits option.splits)

lemma read_required_iff: "readJsonSchemaRequired es p = Inr req \<longleftrightarrow> required_of es = Some req"
  by (auto simp: required_of_def readJsonSchemaRequired_def split: json.splits)

lemma read_properties_fails: "readJsonSchemaProperties es p = Inl r \<Longrightarrow> properties_of es = None"
  by (metis Inl_Inr_False not_None_eq read_properties_iff)

lemma read_required_fails: "readJsonSchemaRequired es p = Inl r \<Longrightarrow> required_of es = None"
  by (metis Inl_Inr_False not_None_eq read_required_iff)

lemmas reading_iffs = read_properties_iff read_required_iff
lemmas reading_fails = read_properties_fails read_required_fails

lemma not_record_not_well_shaped: "\<not> isPlainRecord s \<Longrightarrow> \<not> well_shaped s"
  by (auto elim: well_shapedE)

declare validateJsonSchemaShape.simps(1) [simp del]

lemma shape_object:
  assumes "get_prop es ''type'' = JStr ''object''"
  shows "validateJsonSchemaShape (JObj es) p = Valid \<longleftrightarrow>
    (\<exists>ps req. properties_of es = Some ps \<and> required_of es = Some req \<and>
       additional_readable (get_prop es ''additionalProperties'') \<and>
       (\<forall>(k, s) \<in> set ps. validateJsonSchemaShape s (field_path p k) = Valid) \<and>
       (\<forall>a. get_prop es ''additionalProperties'' = JObj a \<longrightarrow>
          validateJsonSchemaShape (JObj a) (p @ ''.*'') = Valid))"
proof (cases "readJsonSchemaProperties es p")
  case (Inl r)
  with assms show ?thesis
    by (simp add: validateJsonSchemaShape.simps(1) [of es] scalar_types_def read_properties_fails)
next
  case ps: (Inr ps)
  show ?thesis
  proof (cases "readJsonSchemaRequired es p")
    case (Inl r)
    with assms ps show ?thesis
      by (simp add: validateJsonSchemaShape.simps(1) [of es] scalar_types_def read_required_fails)
  next
    case (Inr req)
    then have "properties_of es = Some ps" "required_of es = Some req"
      using ps by (simp_all add: reading_iffs)
    with assms ps Inr show ?thesis
      by (cases "get_prop es ''additionalProperties''")
        (auto simp: validateJsonSchemaShape.simps(1) [of es] scalar_types_def)
  qed
qed

lemma shape_iff_well_shaped: "validateJsonSchemaShape s p = Valid \<longleftrightarrow> well_shaped s"
proof (induction s p rule: validateJsonSchemaShape.induct)
  case (1 es path)
  note shape = validateJsonSchemaShape.simps(1) [of es path] well_shaped_record [of es]
  show ?case
  proof (cases "get_prop es ''type''")
    case (JStr ty)
    consider "ty \<in> set scalar_types" | "ty = ''array''" | "ty = ''object''"
      | "ty \<notin> set scalar_types" "ty \<noteq> ''array''" "ty \<noteq> ''object''"
      by blast
    then show ?thesis
    proof cases
      case 1
      with JStr show ?thesis
        by (auto simp: shape)
    next
      case 2
      with 1(1) [OF JStr] JStr show ?thesis
        using not_record_not_well_shaped [of JUndef]
        by (auto simp: shape scalar_types_def)
    next
      case 3
      have sub: "validateJsonSchemaShape s (field_path path k) = Valid \<longleftrightarrow> well_shaped s"
        if "properties_of es = Some ps" "required_of es = Some req"
          "additional_readable (get_prop es ''additionalProperties'')" "(k, s) \<in> set ps" for ps req k s
        using 1(2) [OF JStr] 3 that by (simp add: scalar_types_def reading_iffs)
      have addl: "validateJsonSchemaShape (JObj a) (path @ ''.*'') = Valid \<longleftrightarrow> well_shaped (JObj a)"
        if "properties_of es = Some ps" "required_of es = Some req"
          "get_prop es ''additionalProperties'' = JObj a" for ps req a
        using 1(3) [OF JStr] 3 that by (simp add: scalar_types_def reading_iffs additional_readable_def)
      show ?thesis
        unfolding well_shaped_record [of es] shape_object [OF JStr [unfolded 3]]
        using 3 JStr sub addl by (fastforce simp: scalar_types_def)
    next
      case 4
      with JStr show ?thesis
        by (auto simp: shape)
    qed
  qed (auto simp: shape)
qed (auto elim: well_shapedE)

declare validateJsonSchemaObject.simps(1) [simp del] validateJsonSchemaArray.simps(1) [simp del]
  validateJsonSchemaValue.simps(1) [simp del]

lemmas validator_induct =
  validateJsonSchemaValue_validateJsonSchemaObject_validateJsonSchemaArray.induct

lemma schema_of_field_cases [case_names declared inherited undeclared]:
  obtains s where "schema_of_field ps k = Declared s" | "schema_of_field ps k = Inherited"
  | "schema_of_field ps k = Undeclared"
  by (cases "schema_of_field ps k") auto

lemma field_valid_iff:
  "(case sf of Declared s \<Rightarrow> V s | Inherited \<Rightarrow> inherited_check k q
      | Undeclared \<Rightarrow> if b then invalidValue q r else if d then c else Valid) = Valid \<longleftrightarrow>
   (case sf of Declared s \<Rightarrow> V s = Valid | Inherited \<Rightarrow> False | Undeclared \<Rightarrow> \<not> b \<and> (d \<longrightarrow> c = Valid))"
  by (cases sf) (auto simp: inherited_check_def)

lemma object_valid_iff:
  "validateJsonSchemaObject (JObj own) es p = Valid \<longleftrightarrow>
    (\<exists>ps req. properties_of es = Some ps \<and> required_of es = Some req \<and>
       (\<forall>k \<in> set req. has_own own k) \<and> additional_readable (get_prop es ''additionalProperties'') \<and>
       (\<forall>(k, x) \<in> set own. field_described (\<lambda>x s. validateJsonSchemaValue x s (field_path p k) = Valid)
          ps (get_prop es ''additionalProperties'') k x))"
proof (cases "readJsonSchemaProperties es p")
  case (Inl r)
  then show ?thesis
    by (simp add: validateJsonSchemaObject.simps(1) [of own es p] read_properties_fails)
next
  case ps: (Inr ps)
  show ?thesis
  proof (cases "readJsonSchemaRequired es p")
    case (Inl r)
    with ps show ?thesis
      by (simp add: validateJsonSchemaObject.simps(1) [of own es p] read_required_fails)
  next
    case req: (Inr req)
    have known: "properties_of es = Some ps" "required_of es = Some req"
      using ps req by (simp_all add: reading_iffs)
    show ?thesis
    proof (cases "List.find (\<lambda>k. \<not> has_own own k) req")
      case None
      then have "\<forall>k \<in> set req. has_own own k"
        by (simp add: find_None_iff_all)
      with None ps req known show ?thesis
        by (cases "additional_readable (get_prop es ''additionalProperties'')")
          (simp_all add: validateJsonSchemaObject.simps(1) [of own es p] Let_def case_prod_unfold
            field_valid_iff field_described_def split del: if_split)
    next
      case (Some k)
      then have "k \<in> set req" "\<not> has_own own k"
        by (auto dest: find_SomeD)
      with Some ps req known show ?thesis
        by (auto simp: validateJsonSchemaObject.simps(1) [of own es p])
    qed
  qed
qed

lemma array_valid_iff:
  "validateJsonSchemaArray (JArr vs) es p = Valid \<longleftrightarrow>
    isPlainRecord (get_prop es ''items'') \<and>
       (\<forall>(i, x) \<in> set (List.enumerate 0 vs).
          validateJsonSchemaValue x (get_prop es ''items'') (item_path p i) = Valid)"
  by (auto simp: validateJsonSchemaArray.simps(1) [of vs es p])

lemma conforms_object:
  assumes "get_prop es ''type'' = JStr ''object''"
  shows "conforms v (JObj es) \<longleftrightarrow>
    (\<exists>own ps req. v = JObj own \<and> properties_of es = Some ps \<and> required_of es = Some req \<and>
       (\<forall>k \<in> set req. has_own own k) \<and> additional_readable (get_prop es ''additionalProperties'') \<and>
       (\<forall>(k, x) \<in> set own. field_described conforms ps (get_prop es ''additionalProperties'') k x))"
  unfolding conforms_record [of v es] using assms by auto

lemma conforms_array:
  assumes "get_prop es ''type'' = JStr ''array''"
  shows "conforms v (JObj es) \<longleftrightarrow>
    (\<exists>vs. v = JArr vs \<and> isPlainRecord (get_prop es ''items'') \<and>
       (\<forall>x \<in> set vs. conforms x (get_prop es ''items'')))"
  unfolding conforms_record [of v es] using assms by auto

lemma conforms_scalar:
  assumes "get_prop es ''type'' = JStr ty" "ty \<noteq> ''object''" "ty \<noteq> ''array''"
  shows "conforms v (JObj es) \<longleftrightarrow>
    ty = ''boolean'' \<and> isBoolean v \<or> ty = ''integer'' \<and> isInteger v \<or> ty = ''number'' \<and> is_finite_number v
    \<or> ty = ''null'' \<and> v = JNull \<or> ty = ''string'' \<and> isString v"
  unfolding conforms_record [of v es] using assms by auto

lemma conforms_no_type:
  "\<forall>ty. get_prop es ''type'' \<noteq> JStr ty \<Longrightarrow> \<not> conforms v (JObj es)"
  unfolding conforms_record [of v es] by auto

lemma value_valid_iff: "validateJsonSchemaValue v s p = Valid \<longleftrightarrow> conforms v s"
  and "get_prop es ''type'' = JStr ''object'' \<longrightarrow>
    (validateJsonSchemaObject v es p = Valid \<longleftrightarrow> conforms v (JObj es))"
  and "get_prop es ''type'' = JStr ''array'' \<longrightarrow>
    (validateJsonSchemaArray v es p = Valid \<longleftrightarrow> conforms v (JObj es))"
proof (induction v s p and v es p and v es p rule: validator_induct)
  case (1 v es path)
  show ?case
  proof (cases "get_prop es ''type''")
    case (JStr ty)
    with 1 [OF JStr] show ?thesis
      by (cases "ty = ''object'' \<or> ty = ''array''")
        (auto simp: validateJsonSchemaValue.simps(1) [of v es path] conforms_scalar)
  qed (simp_all add: validateJsonSchemaValue.simps(1) [of v es path] conforms_no_type)
next
  case (3 own es path)
  have "field_described (\<lambda>x s. validateJsonSchemaValue x s (field_path path k) = Valid)
          ps (get_prop es ''additionalProperties'') k x \<longleftrightarrow>
        field_described conforms ps (get_prop es ''additionalProperties'') k x"
    if "(k, x) \<in> set own" "properties_of es = Some ps" "required_of es = Some req"
      "\<forall>k \<in> set req. has_own own k" "additional_readable (get_prop es ''additionalProperties'')"
    for k x ps req
    using 3 that
    by (auto simp: reading_iffs find_None_iff_all field_described_def split: field_schema.splits)
  note same = this
  define checked where "checked ps \<longleftrightarrow> (\<forall>(k, x) \<in> set own.
      field_described (\<lambda>x s. validateJsonSchemaValue x s (field_path path k) = Valid)
        ps (get_prop es ''additionalProperties'') k x)" for ps
  define described where "described ps \<longleftrightarrow> (\<forall>(k, x) \<in> set own.
      field_described conforms ps (get_prop es ''additionalProperties'') k x)" for ps
  have agree: "checked ps \<longleftrightarrow> described ps"
    if "properties_of es = Some ps" "required_of es = Some req"
      "\<forall>k \<in> set req. has_own own k" "additional_readable (get_prop es ''additionalProperties'')"
    for ps req
    unfolding checked_def described_def using same that by (intro ball_cong refl) auto
  show ?case
  proof
    assume "get_prop es ''type'' = JStr ''object''"
    note eqs = object_valid_iff [of own es path, folded checked_def]
      conforms_object [OF this, of "JObj own", folded described_def]
    show "validateJsonSchemaObject (JObj own) es path = Valid \<longleftrightarrow> conforms (JObj own) (JObj es)"
      unfolding eqs
    proof (rule iffI; elim exE conjE)
      fix ps req
      assume r: "properties_of es = Some ps" "required_of es = Some req"
        "\<forall>k \<in> set req. has_own own k" "additional_readable (get_prop es ''additionalProperties'')"
        "checked ps"
      show "\<exists>own' ps req. JObj own = JObj own' \<and> properties_of es = Some ps \<and> required_of es = Some req \<and>
          (\<forall>k \<in> set req. has_own own' k) \<and> additional_readable (get_prop es ''additionalProperties'') \<and>
          (\<forall>(k, x) \<in> set own'. field_described conforms ps (get_prop es ''additionalProperties'') k x)"
        using r agree [OF r(1-4)] unfolding described_def by blast
    next
      fix own' ps req
      assume r: "JObj own = JObj own'" "properties_of es = Some ps" "required_of es = Some req"
        "\<forall>k \<in> set req. has_own own' k" "additional_readable (get_prop es ''additionalProperties'')"
        "\<forall>(k, x) \<in> set own'. field_described conforms ps (get_prop es ''additionalProperties'') k x"
      then have "checked ps"
        using agree [of ps req] unfolding described_def by simp
      with r show "\<exists>ps req. properties_of es = Some ps \<and> required_of es = Some req \<and>
          (\<forall>k \<in> set req. has_own own k) \<and> additional_readable (get_prop es ''additionalProperties'') \<and>
          checked ps"
        by auto
    qed
  qed
next
  case (5 vs es path)
  have "(\<forall>(i, x) \<in> set (List.enumerate 0 vs).
          validateJsonSchemaValue x (get_prop es ''items'') (item_path path i) = Valid) \<longleftrightarrow>
        (\<forall>x \<in> set vs. conforms x (get_prop es ''items''))"
    if r: "isPlainRecord (get_prop es ''items'')"
  proof -
    have "get_prop es ''items'' \<noteq> JUndef"
      using r by auto
    with 5 r have "validateJsonSchemaValue x (get_prop es ''items'') (item_path path i) = Valid \<longleftrightarrow>
        conforms x (get_prop es ''items'')" if "(i, x) \<in> set (List.enumerate 0 vs)" for i x
      using that by auto
    then show ?thesis
      unfolding Ball_def enumerate_mem_iff [of _ vs 0] by auto
  qed
  then show ?case
    by (auto simp: array_valid_iff conforms_array)
qed (auto simp: conforms_object conforms_array elim: conformsE)

lemma conforms_plain_object: "conforms v (JObj es) \<Longrightarrow> get_prop es ''type'' = JStr ''object'' \<Longrightarrow> isPlainRecord v"
  by (auto simp: conforms_object)

section \<open>A supported schema is never the reason\<close>

text \<open>
  No object in the value has a field named like a member of \<open>Object.prototype\<close>. With such a field
  the lookup of its schema finds the inherited member, see \<open>inherited_name_rejected\<close> below.
\<close>

fun plain_keys :: "json \<Rightarrow> bool" where
  "plain_keys (JArr vs) = (\<forall>v \<in> set vs. plain_keys v)"
| "plain_keys (JObj es) = (\<forall>(k, v) \<in> set es. k \<notin> set object_members \<and> plain_keys v)"
| "plain_keys _ = True"

definition about_value :: "string \<Rightarrow> bool" where
  "about_value m \<longleftrightarrow> take 1 m = ''$''"

lemma about_value_paths [simp]:
  "about_value p \<Longrightarrow> about_value (field_path p k)" "about_value p \<Longrightarrow> about_value (item_path p i)"
  by (cases p; simp add: about_value_def field_path_def item_path_def)+

lemma about_value_invalid: "about_value p \<Longrightarrow> invalidValue p r = Invalid m \<Longrightarrow> about_value m"
  by (cases p) (auto simp: about_value_def invalidValue_def)

lemma about_value_not_schema: "about_value m \<Longrightarrow> Invalid m \<noteq> invalidSchema p r"
  by (auto simp: about_value_def invalidSchema_def schema_reason_def)

lemma expect_invalidD: "expect ok p r = Invalid m \<Longrightarrow> invalidValue p r = Invalid m"
  by (simp add: expect_def split: if_splits)

lemma not_inherited: "k \<notin> set object_members \<Longrightarrow> schema_of_field ps k \<noteq> Inherited"
  by (simp add: schema_of_field_def split: option.splits)

lemma declared_mem: "schema_of_field ps k = Declared s \<Longrightarrow> (k, s) \<in> set ps"
  by (auto simp: schema_of_field_def obj_get_map_of dest: map_of_SomeD split: option.splits if_splits)

lemma shaped_object:
  assumes "well_shaped (JObj es)" "get_prop es ''type'' = JStr ''object''"
  obtains ps req where "\<And>p. readJsonSchemaProperties es p = Inr ps" "\<And>p. readJsonSchemaRequired es p = Inr req"
    "additional_readable (get_prop es ''additionalProperties'')" "\<And>k s. (k, s) \<in> set ps \<Longrightarrow> well_shaped s"
    "isPlainRecord (get_prop es ''additionalProperties'') \<Longrightarrow> well_shaped (get_prop es ''additionalProperties'')"
  using assms(1)
proof cases
  case (object ps req)
  show ?thesis
  proof (rule that [of ps req])
    show "isPlainRecord (get_prop es ''additionalProperties'') \<Longrightarrow> well_shaped (get_prop es ''additionalProperties'')"
      using object(6) by (auto simp: isPlainRecord_iff)
  qed (use object in \<open>simp_all add: reading_iffs\<close>)
qed (use assms(2) in \<open>auto simp: scalar_types_def\<close>)

lemma shaped_array:
  assumes "well_shaped (JObj es)" "get_prop es ''type'' = JStr ''array''"
  shows "well_shaped (get_prop es ''items'')" "isPlainRecord (get_prop es ''items'')"
    "get_prop es ''items'' \<noteq> JUndef"
proof -
  show w: "well_shaped (get_prop es ''items'')"
    using assms(1) by cases (use assms(2) in \<open>auto simp: scalar_types_def\<close>)
  show r: "isPlainRecord (get_prop es ''items'')"
    using w not_record_not_well_shaped by blast
  from r show "get_prop es ''items'' \<noteq> JUndef" by auto
qed

lemma well_shaped_type:
  assumes "well_shaped (JObj es)"
  obtains (object) "get_prop es ''type'' = JStr ''object''" | (array) "get_prop es ''type'' = JStr ''array''"
  | (scalar) ty where "get_prop es ''type'' = JStr ty"
      "ty \<in> {''boolean'', ''integer'', ''number'', ''null'', ''string''}"
  using assms
proof cases
  case (scalar ty)
  then show ?thesis
    by (intro that(3) [of ty]) (auto simp: scalar_types_def)
qed (use that in blast)+

lemma value_scalar:
  assumes "get_prop es ''type'' = JStr ty" "ty \<in> {''boolean'', ''integer'', ''number'', ''null'', ''string''}"
  shows "\<exists>ok r. validateJsonSchemaValue v (JObj es) p = expect ok p r"
  using assms(2)
  by (elim insertE emptyE; simp add: validateJsonSchemaValue.simps(1) [of v es p] assms(1); blast)

lemma shaped_invalid_about_value:
  "well_shaped s \<Longrightarrow> plain_keys v \<Longrightarrow> about_value p \<Longrightarrow> validateJsonSchemaValue v s p = Invalid m \<Longrightarrow> about_value m"
  and "well_shaped (JObj es) \<Longrightarrow> get_prop es ''type'' = JStr ''object'' \<Longrightarrow> plain_keys v \<Longrightarrow> about_value p \<Longrightarrow>
    validateJsonSchemaObject v es p = Invalid m \<Longrightarrow> about_value m"
  and "well_shaped (JObj es) \<Longrightarrow> get_prop es ''type'' = JStr ''array'' \<Longrightarrow> plain_keys v \<Longrightarrow> about_value p \<Longrightarrow>
    validateJsonSchemaArray v es p = Invalid m \<Longrightarrow> about_value m"
proof (induction v s p and v es p and v es p arbitrary: m and m and m rule: validator_induct)
  case (1 v es path)
  from 1(3) show ?case
  proof (cases rule: well_shaped_type)
    case object
    with 1(6) have "validateJsonSchemaObject v es path = Invalid m"
      by (simp add: validateJsonSchemaValue.simps(1) [of v es path])
    from 1(1) [OF object refl 1(3) object 1(4,5) this] show ?thesis .
  next
    case array
    with 1(6) have "validateJsonSchemaArray v es path = Invalid m"
      by (simp add: validateJsonSchemaValue.simps(1) [of v es path])
    from 1(2) [OF array _ refl 1(3) array 1(4,5) this] show ?thesis by simp
  next
    case (scalar ty)
    from value_scalar [OF this, of v path] obtain ok r
      where "validateJsonSchemaValue v (JObj es) path = expect ok path r"
      by blast
    with 1(6) have "expect ok path r = Invalid m" by simp
    with 1(5) show ?thesis
      by (auto dest: expect_invalidD about_value_invalid)
  qed
next
  case (3 own es path)
  obtain ps req where r: "\<And>p. readJsonSchemaProperties es p = Inr ps" "\<And>p. readJsonSchemaRequired es p = Inr req"
    "additional_readable (get_prop es ''additionalProperties'')" "\<And>k s. (k, s) \<in> set ps \<Longrightarrow> well_shaped s"
    "isPlainRecord (get_prop es ''additionalProperties'') \<Longrightarrow> well_shaped (get_prop es ''additionalProperties'')"
    using shaped_object [OF 3(3,4)] by blast
  show ?case
  proof (cases "List.find (\<lambda>k. \<not> has_own own k) req")
    case (Some k)
    with 3(7) r have "invalidValue (field_path path k) ''missing required property'' = Invalid m"
      by (simp add: validateJsonSchemaObject.simps(1) [of own es path])
    with 3(6) show ?thesis
      using about_value_invalid about_value_paths(1) by blast
  next
    case None
    with 3(7) r obtain k x where kx: "(k, x) \<in> set own" "(case schema_of_field ps k of
        Declared s \<Rightarrow> validateJsonSchemaValue x s (field_path path k)
      | Inherited \<Rightarrow> inherited_check k (field_path path k)
      | Undeclared \<Rightarrow>
          if get_prop es ''additionalProperties'' = JBool False
          then invalidValue (field_path path k) ''unexpected property''
          else if isPlainRecord (get_prop es ''additionalProperties'')
          then validateJsonSchemaValue x (get_prop es ''additionalProperties'') (field_path path k)
          else Valid) = Invalid m"
      by (auto simp: validateJsonSchemaObject.simps(1) [of own es path] Let_def
          dest!: first_invalid_InvalidD simp del: if_split_asm split del: if_split)
    have at: "about_value (field_path path k)"
      using 3(6) by simp
    have keys: "plain_keys x" "k \<notin> set object_members"
      using 3(5) kx(1) by auto
    show ?thesis
    proof (cases "schema_of_field ps k")
      case (Declared s)
      with kx have "validateJsonSchemaValue x s (field_path path k) = Invalid m" by simp
      from 3(1) [OF r(1) r(2) None refl _ kx(1) refl Declared r(4) [OF declared_mem [OF Declared]] keys(1) at this]
      show ?thesis using r(3) by simp
    next
      case Inherited
      with keys not_inherited show ?thesis by blast
    next
      case Undeclared
      show ?thesis
      proof (cases "isPlainRecord (get_prop es ''additionalProperties'')")
        case True
        then have "get_prop es ''additionalProperties'' \<noteq> JBool False" by auto
        with 3(2) [OF r(1) r(2) None refl _ kx(1) refl Undeclared _ _ r(5) keys(1) at] True kx Undeclared r(3)
        show ?thesis by simp
      next
        case False
        with kx Undeclared at show ?thesis
          by (auto split: if_splits dest: about_value_invalid)
      qed
    qed
  qed
next
  case (5 vs es path)
  note items = shaped_array [OF 5(2,3)]
  from 5(6) items have "Invalid m \<in> set (map (\<lambda>(i, x). validateJsonSchemaValue x (get_prop es ''items'')
      (item_path path i)) (List.enumerate 0 vs))"
    by (intro first_invalid_InvalidD) (simp add: validateJsonSchemaArray.simps(1) [of vs es path])
  then obtain i x where ix: "(i, x) \<in> set (List.enumerate 0 vs)"
    "validateJsonSchemaValue x (get_prop es ''items'') (item_path path i) = Invalid m"
    by auto
  have "plain_keys x"
    using 5(4) enumerate_mem [OF ix(1)] by simp
  with 5(1) [OF _ _ ix(1) refl items(1) _ _ ix(2)] items 5(5) show ?case by simp
qed (auto elim: well_shapedE dest: about_value_invalid)

section \<open>Properties\<close>

text \<open>
  C24. \<open>validateJsonSchemaInput\<close> accepts an input exactly when the schema is one the gateway
  supports and the input conforms to it, at every depth: required properties present, declared
  ones of their schema, the others as \<open>additionalProperties\<close> says.
\<close>

theorem input_accepted_iff_conforms:
  "validateJsonSchemaInput input schema = Valid \<longleftrightarrow>
     well_shaped (JObj schema) \<and> conforms (JObj input) (JObj schema)"
  using shape_iff_well_shaped [of "JObj schema" "''$''"]
  by (auto simp: validateJsonSchemaInput_def value_valid_iff split: schema_check.splits)


definition demo_schema :: json_record where
  "demo_schema = [(''type'', JStr ''object''),
     (''properties'', JObj [(''count'', JObj [(''type'', JStr ''integer'')])]),
     (''required'', JArr [JStr ''count''])]"

lemma demo_schema_supported: "validateJsonSchemaShape (JObj demo_schema) ''$'' = Valid"
  by code_simp

lemma demo_input_rejected:
  "validateJsonSchemaInput [(''count'', JStr ''two'')] demo_schema = Invalid ''$.count expected integer''"
  by code_simp

lemma demo_input_accepted: "validateJsonSchemaInput [(''count'', JNum 2)] demo_schema = Valid"
  by code_simp


text \<open>A field the schema leaves open is rejected for its schema when every object inherits its name.\<close>

lemma inherited_name_rejected:
  "validateJsonSchemaInput [(''constructor'', JNum 1)] [(''type'', JStr ''object'')]
     = invalidSchema ''$.constructor'' ''schema must be an object''"
  by code_simp

end
