(* ===== verification/Mcp_Registry.thy ===== *)
theory Mcp_Registry
  imports Mcp_Schema "HOL-Library.AList"
begin

text \<open>
  The registries of the tool gateway, \<open>packages/mcp-gateway/src/index.ts\<close>: the servers
  (\<open>McpServerRegistry\<close>), the cache of tool schemas with its quarantine (\<open>ToolSchemaCache\<close>) and the
  tools a tenant may call (\<open>McpTenantToolAllowlist\<close>). A JavaScript \<open>Map\<close> is an association list in
  insertion order, \<open>set\<close> is \<open>AList.update\<close> and \<open>delete\<close> is \<open>AList.delete\<close>. A returned copy equals
  what was copied, so the model returns the values themselves where nothing is normalised.
\<close>

section \<open>Resources\<close>

definition index_of :: "char \<Rightarrow> string \<Rightarrow> nat option" where
  "index_of c s = (let n = length (takeWhile (\<lambda>d. d \<noteq> c) s) in if n < length s then Some n else None)"

definition strip_mcp :: "string \<Rightarrow> string" where
  "strip_mcp resource = (if starts_with resource ''mcp:'' then drop 4 resource else resource)"

definition parseMcpResource :: "string \<Rightarrow> string \<times> string" where
  "parseMcpResource resource =
     (let normalized = strip_mcp resource in
      case index_of CHR ''/'' normalized of
        Some i \<Rightarrow> (take i normalized, drop (i + 1) normalized)
      | None \<Rightarrow> (case index_of CHR ''.'' normalized of
          Some i \<Rightarrow> (take i normalized, drop (i + 1) normalized)
        | None \<Rightarrow> (normalized, normalized)))"

definition resourceFromTool :: "string \<Rightarrow> string \<Rightarrow> string" where
  "resourceFromTool serverId toolName = ''mcp:'' @ serverId @ ''/'' @ toolName"

definition toolNameFromResource :: "string \<Rightarrow> string" where
  "toolNameFromResource resource =
     concat (map (\<lambda>c. if c = CHR ''/'' then ''__'' else [c])
       (map (\<lambda>c. if alnum_or ''_/-'' c then c else CHR ''_'') (strip_mcp resource)))"

lemma index_of_append: "c \<notin> set s \<Longrightarrow> index_of c (s @ c # t) = Some (length s)"
proof -
  assume "c \<notin> set s"
  then have "takeWhile (\<lambda>d. d \<noteq> c) (s @ c # t) = s"
    by (induction s) auto
  then show ?thesis by (simp add: index_of_def)
qed

text \<open>
  The resource of a tool names its server and the tool: parsing the text that
  \<open>resourceFromTool\<close> prints gives both back, when the server id has no slash.
\<close>

theorem resource_round_trip:
  assumes "CHR ''/'' \<notin> set serverId"
  shows "parseMcpResource (resourceFromTool serverId toolName) = (serverId, toolName)"
  using assms
  by (simp add: parseMcpResource_def resourceFromTool_def strip_mcp_def starts_with_def index_of_append)

theorem resource_round_trip_witness:
  "parseMcpResource (resourceFromTool ''ops.tools'' ''deploy/prod'') = (''ops.tools'', ''deploy/prod'')"
  by (rule resource_round_trip) simp

section \<open>Servers\<close>

datatype mcp_server_status = Server_active | Server_disabled | Server_pending | Server_quarantined

datatype mcp_transport_kind = Stdio | Http | Sse | In_process

record mcp_server_registration =
  mr_id :: string
  mr_displayName :: string
  mr_transport :: mcp_transport_kind
  mr_origin :: string
  mr_status :: "mcp_server_status option"
  mr_tags :: "string list option"

record registered_mcp_server =
  rs_id :: string
  rs_displayName :: string
  rs_transport :: mcp_transport_kind
  rs_origin :: string
  rs_status :: mcp_server_status
  rs_tags :: "string list option"

type_synonym mcp_server_registry = "(string \<times> registered_mcp_server) list"

definition normalizeServer :: "mcp_server_registration \<Rightarrow> registered_mcp_server" where
  "normalizeServer server =
     \<lparr> rs_id = mr_id server, rs_displayName = mr_displayName server, rs_transport = mr_transport server,
       rs_origin = mr_origin server, rs_status = or_else (mr_status server) Server_pending,
       rs_tags = mr_tags server \<rparr>"

definition registerServer :: "mcp_server_registration \<Rightarrow> mcp_server_registry \<Rightarrow> registered_mcp_server \<times> mcp_server_registry" where
  "registerServer server servers =
     (let normalized = normalizeServer server
      in (normalized, AList.update (rs_id normalized) normalized servers))"

definition newServerRegistry :: "mcp_server_registration list \<Rightarrow> mcp_server_registry" where
  "newServerRegistry registrations = foldl (\<lambda>servers r. snd (registerServer r servers)) [] registrations"

definition listServers :: "mcp_server_registry \<Rightarrow> registered_mcp_server list" where
  "listServers servers = map snd servers"

definition getServer :: "mcp_server_registry \<Rightarrow> string \<Rightarrow> registered_mcp_server option" where
  "getServer servers serverId = map_of servers serverId"

definition getServerByResource :: "mcp_server_registry \<Rightarrow> string \<Rightarrow> registered_mcp_server option" where
  "getServerByResource servers res = getServer servers (fst (parseMcpResource res))"

lemma getServer_register:
  "getServer (snd (registerServer r servers)) k =
     (if k = mr_id r then Some (normalizeServer r) else getServer servers k)"
  by (simp add: getServer_def registerServer_def normalizeServer_def Let_def update_conv')

section \<open>The cache of tool schemas\<close>

datatype tool_schema_status = Schema_active | Schema_quarantined

record tool_schema_input =
  ti_serverId :: string
  ti_toolName :: string
  ti_description :: string
  ti_inputSchema :: json_record
  ti_outputSchema :: "json_record option"
  ti_schemaVersion :: "string option"
  ti_resource :: "string option"
  ti_risk :: "risk_level option"
  ti_cachedAt :: "iso_date option"

record cached_tool_schema =
  cs_serverId :: string
  cs_toolName :: string
  cs_description :: string
  cs_inputSchema :: json_record
  cs_outputSchema :: "json_record option"
  cs_schemaVersion :: "string option"
  cs_resource :: string
  cs_risk :: "risk_level option"
  cs_cachedAt :: iso_date
  cs_hash :: string
  cs_status :: tool_schema_status
  cs_quarantineReason :: "string option"

datatype cache_status = Cache_cached | Cache_unchanged | Cache_quarantined

record tool_schema_cache_result =
  cr_status :: cache_status
  cr_active :: "cached_tool_schema option"
  cr_quarantined :: "cached_tool_schema option"
  cr_reason :: "string option"

record tool_schema_cache =
  tc_active :: "(string \<times> cached_tool_schema) list"
  tc_quarantined :: "(string \<times> cached_tool_schema list) list"

definition emptySchemaCache :: tool_schema_cache where
  "emptySchemaCache = \<lparr> tc_active = [], tc_quarantined = [] \<rparr>"

definition non_empty :: "string option \<Rightarrow> string option" where
  "non_empty s = (if truthy s then s else None)"

text \<open>The object that is hashed; \<open>now\<close> is the clock, for a schema without \<open>cachedAt\<close>.\<close>

definition normalizeToolSchema :: "env \<Rightarrow> iso_date \<Rightarrow> tool_schema_input \<Rightarrow> tool_schema_status \<Rightarrow> cached_tool_schema" where
  "normalizeToolSchema E now schema status =
     (let res = or_else (ti_resource schema) (resourceFromTool (ti_serverId schema) (ti_toolName schema));
          inputSchema = cloneRecord E (ti_inputSchema schema);
          outputSchema = map_option (cloneRecord E) (ti_outputSchema schema);
          schemaVersion = non_empty (ti_schemaVersion schema);
          base = [(''serverId'', JStr (ti_serverId schema)), (''toolName'', JStr (ti_toolName schema)),
                  (''description'', JStr (ti_description schema)), (''inputSchema'', JObj inputSchema)]
                 @ (case outputSchema of None \<Rightarrow> [] | Some os \<Rightarrow> [(''outputSchema'', JObj os)])
                 @ (case schemaVersion of None \<Rightarrow> [] | Some v \<Rightarrow> [(''schemaVersion'', JStr v)])
                 @ [(''resource'', JStr res)]
                 @ (case ti_risk schema of None \<Rightarrow> [] | Some r \<Rightarrow> [(''risk'', JStr (risk_str r))])
      in \<lparr> cs_serverId = ti_serverId schema, cs_toolName = ti_toolName schema,
           cs_description = ti_description schema, cs_inputSchema = inputSchema,
           cs_outputSchema = outputSchema, cs_schemaVersion = schemaVersion, cs_resource = res,
           cs_risk = ti_risk schema, cs_cachedAt = or_else (ti_cachedAt schema) now,
           cs_hash = hashRecord E base, cs_status = status, cs_quarantineReason = None \<rparr>)"

definition cloneSchema :: "env \<Rightarrow> cached_tool_schema \<Rightarrow> cached_tool_schema" where
  "cloneSchema E schema =
     schema\<lparr> cs_inputSchema := cloneRecord E (cs_inputSchema schema),
       cs_outputSchema := map_option (cloneRecord E) (cs_outputSchema schema),
       cs_schemaVersion := non_empty (cs_schemaVersion schema),
       cs_quarantineReason := non_empty (cs_quarantineReason schema) \<rparr>"

definition quarantine_entry :: "cached_tool_schema \<Rightarrow> string \<Rightarrow> cached_tool_schema" where
  "quarantine_entry next reason = next\<lparr> cs_status := Schema_quarantined, cs_quarantineReason := Some reason \<rparr>"

definition listFor :: "(string \<times> 'a list) list \<Rightarrow> string \<Rightarrow> 'a list" where
  "listFor m k = or_else (map_of m k) []"

definition quarantine :: "env \<Rightarrow> cached_tool_schema \<Rightarrow> string \<Rightarrow> tool_schema_cache
    \<Rightarrow> tool_schema_cache_result \<times> tool_schema_cache" where
  "quarantine E next reason cache =
     (let entry = quarantine_entry next reason; res = cs_resource next in
      (\<lparr> cr_status = Cache_quarantined,
         cr_active = map_option (cloneSchema E) (map_of (tc_active cache) res),
         cr_quarantined = Some (cloneSchema E entry), cr_reason = Some reason \<rparr>,
       cache\<lparr> tc_quarantined := AList.update res (listFor (tc_quarantined cache) res @ [entry])
                (tc_quarantined cache) \<rparr>))"

definition activate :: "env \<Rightarrow> cache_status \<Rightarrow> cached_tool_schema \<Rightarrow> tool_schema_cache
    \<Rightarrow> tool_schema_cache_result \<times> tool_schema_cache" where
  "activate E status next cache =
     (\<lparr> cr_status = status, cr_active = Some (cloneSchema E next), cr_quarantined = None, cr_reason = None \<rparr>,
      cache\<lparr> tc_active := AList.update (cs_resource next) next (tc_active cache) \<rparr>)"

definition upsertSchema :: "env \<Rightarrow> iso_date \<Rightarrow> tool_schema_input \<Rightarrow> tool_schema_cache
    \<Rightarrow> tool_schema_cache_result \<times> tool_schema_cache" where
  "upsertSchema E now schema cache =
     (let schemaValidation = validateJsonSchemaShape (JObj (ti_inputSchema schema)) ''$'';
          next = normalizeToolSchema E now schema Schema_active
      in case schemaValidation of
           Invalid why \<Rightarrow> quarantine E next
             (''Unsupported MCP input schema for '' @ cs_resource next @ '': '' @ why) cache
         | Valid \<Rightarrow>
             (case map_of (tc_active cache) (cs_resource next) of
                None \<Rightarrow> activate E Cache_cached next cache
              | Some current \<Rightarrow>
                  if cs_hash current = cs_hash next then activate E Cache_unchanged next cache
                  else quarantine E next
                    (''Schema drift detected for '' @ cs_resource next @ ''; admin review required before use.'')
                    cache))"

definition getActiveSchema :: "env \<Rightarrow> tool_schema_cache \<Rightarrow> string \<Rightarrow> cached_tool_schema option" where
  "getActiveSchema E cache res = map_option (cloneSchema E) (map_of (tc_active cache) res)"

definition listActiveSchemas :: "env \<Rightarrow> tool_schema_cache \<Rightarrow> cached_tool_schema list" where
  "listActiveSchemas E cache = map (cloneSchema E \<circ> snd) (tc_active cache)"

definition listQuarantined :: "env \<Rightarrow> tool_schema_cache \<Rightarrow> string option \<Rightarrow> cached_tool_schema list" where
  "listQuarantined E cache res =
     map (cloneSchema E) (if truthy res then listFor (tc_quarantined cache) (the res)
                          else concat (map snd (tc_quarantined cache)))"

definition isQuarantined :: "tool_schema_cache \<Rightarrow> string \<Rightarrow> bool" where
  "isQuarantined cache res = (0 < length (listFor (tc_quarantined cache) res))"

definition approveSchema :: "env \<Rightarrow> string \<Rightarrow> string \<Rightarrow> tool_schema_cache
    \<Rightarrow> cached_tool_schema option \<times> tool_schema_cache" where
  "approveSchema E res hash cache =
     (let candidates = listFor (tc_quarantined cache) res in
      case List.find (\<lambda>s. cs_hash s = hash) candidates of
        None \<Rightarrow> (None, cache)
      | Some approved \<Rightarrow>
          (let active = (cloneSchema E approved)\<lparr> cs_status := Schema_active, cs_quarantineReason := None \<rparr>
           in (Some (cloneSchema E active),
               cache\<lparr> tc_active := AList.update res active (tc_active cache),
                 tc_quarantined := AList.update res (filter (\<lambda>s. cs_hash s \<noteq> hash) candidates)
                   (tc_quarantined cache) \<rparr>)))"

section \<open>What the cache guarantees\<close>

datatype cache_op = Upsert iso_date tool_schema_input | Approve string string

fun run_cache_op :: "env \<Rightarrow> cache_op \<Rightarrow> tool_schema_cache \<Rightarrow> tool_schema_cache" where
  "run_cache_op E (Upsert now schema) cache = snd (upsertSchema E now schema cache)"
| "run_cache_op E (Approve res hash) cache = snd (approveSchema E res hash cache)"

definition run_cache :: "env \<Rightarrow> cache_op list \<Rightarrow> tool_schema_cache \<Rightarrow> tool_schema_cache" where
  "run_cache E ops cache = foldl (\<lambda>c op. run_cache_op E op c) cache ops"

lemma run_cache_simps [simp]:
  "run_cache E [] cache = cache"
  "run_cache E (op # ops) cache = run_cache E ops (run_cache_op E op cache)"
  by (simp_all add: run_cache_def)

lemma run_cache_snoc: "run_cache E (ops @ [op]) cache = run_cache_op E op (run_cache E ops cache)"
  by (simp add: run_cache_def)

abbreviation active_hash :: "tool_schema_cache \<Rightarrow> string \<Rightarrow> string option" where
  "active_hash cache res \<equiv> map_option cs_hash (map_of (tc_active cache) res)"

lemma listFor_update [simp]:
  "listFor (AList.update res xs m) r = (if r = res then xs else listFor m r)"
  by (simp add: listFor_def update_conv')

lemma quarantine_active [simp]: "tc_active (snd (quarantine E next reason cache)) = tc_active cache"
  by (simp add: quarantine_def Let_def)

lemma quarantine_quarantined:
  "listFor (tc_quarantined (snd (quarantine E next reason cache))) res =
     listFor (tc_quarantined cache) res @ (if res = cs_resource next then [quarantine_entry next reason] else [])"
  by (simp add: quarantine_def Let_def listFor_def update_conv')

lemma activate_simps [simp]:
  "map_of (tc_active (snd (activate E status next cache))) res =
     (if res = cs_resource next then Some next else map_of (tc_active cache) res)"
  "tc_quarantined (snd (activate E status next cache)) = tc_quarantined cache"
  by (simp_all add: activate_def update_conv')

lemma upsert_keeps_active_hash:
  assumes "active_hash cache res = Some h"
  shows "active_hash (snd (upsertSchema E now schema cache)) res = Some h"
  using assms by (auto simp: upsertSchema_def Let_def split: schema_check.splits option.splits)

lemma approve_other_active:
  "r \<noteq> res \<Longrightarrow> map_of (tc_active (snd (approveSchema E r hash cache))) res = map_of (tc_active cache) res"
  by (simp add: approveSchema_def Let_def update_conv' split: option.splits)

lemma approve_active_hash:
  assumes "active_hash cache res = Some h"
  shows "active_hash (snd (approveSchema E res hash cache)) res \<in> {Some h, Some hash}"
  using assms
  by (auto simp: approveSchema_def Let_def update_conv' cloneSchema_def dest: find_SomeD split: option.splits)

text \<open>The schema a tool runs with is the first one cached or the last one an admin approved.\<close>

lemma active_hash_step:
  assumes "active_hash cache res = Some h"
  shows "\<exists>h'. active_hash (run_cache_op E op cache) res = Some h' \<and> (h' = h \<or> op = Approve res h')"
proof (cases op)
  case (Upsert now schema)
  with upsert_keeps_active_hash [OF assms] show ?thesis by simp
next
  case (Approve r hash)
  then show ?thesis
    using assms approve_other_active [of r res E hash cache] approve_active_hash [OF assms, of E hash]
    by (cases "r = res") auto
qed

text \<open>
  C15. Once a tool has an active schema it always has one, and its content (the hash) changes
  only by approving exactly that hash: whatever the server presents, in any order, without an
  approval the tool keeps the schema it had.
\<close>

theorem schema_changes_by_approval_only:
  assumes "active_hash cache res = Some h"
  shows "\<exists>h'. active_hash (run_cache E ops cache) res = Some h' \<and> (h' = h \<or> Approve res h' \<in> set ops)"
  using assms
proof (induction ops arbitrary: cache h)
  case Nil
  then show ?case by simp
next
  case (Cons op ops)
  from active_hash_step [OF Cons.prems] obtain h1
    where h1: "active_hash (run_cache_op E op cache) res = Some h1" "h1 = h \<or> op = Approve res h1"
    by blast
  from Cons.IH [OF h1(1)] h1(2) show ?case by auto
qed

text \<open>The keys of a JavaScript object are distinct.\<close>

fun distinct_keys :: "json \<Rightarrow> bool" where
  "distinct_keys (JArr vs) = (\<forall>v \<in> set vs. distinct_keys v)"
| "distinct_keys (JObj es) = (distinct (map fst es) \<and> (\<forall>(k, v) \<in> set es. distinct_keys v))"
| "distinct_keys _ = True"

lemma distinct_keys_prop: "distinct_keys (JObj es) \<Longrightarrow> distinct_keys (get_prop es k)"
  by (cases "get_prop es k = JUndef") (use get_prop_in in \<open>fastforce+\<close>)

lemma get_prop_copy:
  "distinct_keys (JObj es) \<Longrightarrow> get_prop (cloneRecord E es) k = stableJson (env_collate E) (get_prop es k)"
  by (simp add: get_prop_cloneRecord)

lemma stable_string [simp]: "stableJson collate v = JStr s \<longleftrightarrow> v = JStr s"
  by (cases v) auto

lemma stable_strings: "list_all isString vs \<Longrightarrow> map (stableJson collate) vs = vs"
  by (induction vs) (auto simp: isString_iff)

lemma additional_readable_stable [simp]: "additional_readable (stableJson collate v) = additional_readable v"
  by (cases v) (simp_all add: additional_readable_def)

lemma properties_of_copy:
  assumes "distinct_keys (JObj es)" "properties_of es = Some ps"
  shows "\<exists>qs. properties_of (cloneRecord E es) = Some qs \<and>
    (\<forall>k s. (k, s) \<in> set qs \<longrightarrow> (\<exists>t. (k, t) \<in> set ps \<and> s = stableJson (env_collate E) t))"
proof (cases "get_prop es ''properties'' = JUndef")
  case True
  with assms show ?thesis
    by (simp add: properties_of_def readJsonSchemaProperties_def get_prop_copy)
next
  case False
  with assms(2) have p: "get_prop es ''properties'' = JObj ps" "List.find (\<lambda>(_, s). \<not> isPlainRecord s) ps = None"
    by (auto simp: properties_of_def readJsonSchemaProperties_def split: json.splits option.splits)
  then have "get_prop (cloneRecord E es) ''properties'' = JObj (cloneRecord E ps)"
    using assms(1) by (simp add: get_prop_copy stableJson_record del: distinct_keys.simps stableJson.simps)
  moreover have "List.find (\<lambda>(_, s). \<not> isPlainRecord s) (cloneRecord E ps) = None"
    using p(2) by (auto simp: find_None_iff_all set_cloneRecord isPlainRecord_iff)
  ultimately have "properties_of (cloneRecord E es) = Some (cloneRecord E ps)"
    by (simp add: properties_of_def readJsonSchemaProperties_def)
  then show ?thesis
    by (auto simp: set_cloneRecord)
qed

lemma required_of_copy:
  assumes "distinct_keys (JObj es)"
  shows "required_of es = Some req \<Longrightarrow> required_of (cloneRecord E es) = Some req"
  using assms
  by (auto simp: required_of_def readJsonSchemaRequired_def get_prop_copy stable_strings
      simp del: distinct_keys.simps split: json.splits if_splits)

text \<open>The copy of a supported schema is supported.\<close>

lemma well_shaped_copy:
  "well_shaped s \<Longrightarrow> distinct_keys s \<Longrightarrow> well_shaped (stableJson (env_collate (E :: env)) s)"
proof (induction rule: well_shaped.induct)
  case (scalar es ty)
  then show ?case
    unfolding stableJson_record
    by (intro well_shaped.scalar [of _ ty]) (simp_all add: get_prop_copy del: distinct_keys.simps)
next
  case (array es)
  then show ?case
    unfolding stableJson_record
    by (intro well_shaped.array) (simp_all add: get_prop_copy distinct_keys_prop del: distinct_keys.simps)
next
  case (object es ps req)
  obtain qs where qs: "properties_of (cloneRecord E es) = Some qs"
    "\<forall>k s. (k, s) \<in> set qs \<longrightarrow> (\<exists>t. (k, t) \<in> set ps \<and> s = stableJson (env_collate E) t)"
    using properties_of_copy [OF object.prems object.hyps(2)] by blast
  have ps_keys: "distinct_keys t" if "(k, t) \<in> set ps" for k t
  proof -
    have "get_prop es ''properties'' = JObj ps"
      using object.hyps(2) that
      by (auto simp: properties_of_def readJsonSchemaProperties_def split: json.splits option.splits sum.splits)
    then show ?thesis
      using distinct_keys_prop [OF object.prems, of "''properties''"] that by auto
  qed
  show ?case
    unfolding stableJson_record
  proof (rule well_shaped.object)
    show "get_prop (cloneRecord E es) ''type'' = JStr ''object''"
      using object.hyps(1) object.prems by (simp add: get_prop_copy del: distinct_keys.simps)
    show "properties_of (cloneRecord E es) = Some qs" by (fact qs(1))
    show "required_of (cloneRecord E es) = Some req"
      using required_of_copy [OF object.prems object.hyps(3)] .
    show "additional_readable (get_prop (cloneRecord E es) ''additionalProperties'')"
      using object.hyps(4) object.prems by (simp add: get_prop_copy del: distinct_keys.simps)
    show "well_shaped s" if "(k, s) \<in> set qs" for k s
      using qs(2) that object.IH(1) ps_keys by blast
    show "well_shaped (JObj a)" if a: "get_prop (cloneRecord E es) ''additionalProperties'' = JObj a" for a
    proof -
      from a object.prems have st: "stableJson (env_collate E) (get_prop es ''additionalProperties'') = JObj a"
        by (simp add: get_prop_copy del: distinct_keys.simps)
      then obtain b where b: "get_prop es ''additionalProperties'' = JObj b"
        by (cases "get_prop es ''additionalProperties''") auto
      with object.IH(2) [OF b] distinct_keys_prop [OF object.prems, of "''additionalProperties''"] st
      show ?thesis by simp
    qed
  qed
qed

definition cache_inv :: "(string \<times> string) set \<Rightarrow> tool_schema_cache \<Rightarrow> bool" where
  "cache_inv approved cache \<longleftrightarrow>
     (\<forall>res s. map_of (tc_active cache) res = Some s \<longrightarrow>
        cs_resource s = res \<and> cs_status s = Schema_active \<and> cs_quarantineReason s = None \<and>
        (well_shaped (JObj (cs_inputSchema s)) \<or> (res, cs_hash s) \<in> approved)) \<and>
     (\<forall>res. \<forall>s \<in> set (listFor (tc_quarantined cache) res).
        cs_resource s = res \<and> cs_status s = Schema_quarantined \<and> cs_quarantineReason s \<noteq> None)"

fun approvals :: "cache_op list \<Rightarrow> (string \<times> string) set" where
  "approvals [] = {}"
| "approvals (Approve res hash # ops) = insert (res, hash) (approvals ops)"
| "approvals (Upsert now schema # ops) = approvals ops"

text \<open>The parsed schemas that were presented are JavaScript objects.\<close>

definition presented_objects :: "cache_op list \<Rightarrow> bool" where
  "presented_objects ops \<longleftrightarrow>
     (\<forall>now schema. Upsert now schema \<in> set ops \<longrightarrow> distinct_keys (JObj (ti_inputSchema schema)))"

lemma in_approvals [simp]: "(res, hash) \<in> approvals ops \<longleftrightarrow> Approve res hash \<in> set ops"
  by (induction ops rule: approvals.induct) auto

lemma approvals_append [simp]: "approvals (ops @ ops') = approvals ops \<union> approvals ops'"
  by (induction ops rule: approvals.induct) auto

lemma cache_inv_mono: "cache_inv A cache \<Longrightarrow> A \<subseteq> B \<Longrightarrow> cache_inv B cache"
  unfolding cache_inv_def by blast

lemma cache_inv_quarantine:
  assumes "cache_inv A cache"
  shows "cache_inv A (snd (quarantine E next reason cache))"
  using assms unfolding cache_inv_def quarantine_active quarantine_quarantined
  by (auto simp: quarantine_entry_def)

lemma cache_inv_activate:
  assumes "cache_inv A cache" "cs_status next = Schema_active" "cs_quarantineReason next = None"
    "well_shaped (JObj (cs_inputSchema next))"
  shows "cache_inv A (snd (activate E status next cache))"
  using assms unfolding cache_inv_def activate_simps by auto

lemma normalize_simps:
  "cs_status (normalizeToolSchema E now schema status) = status"
  "cs_quarantineReason (normalizeToolSchema E now schema status) = None"
  "cs_inputSchema (normalizeToolSchema E now schema status) = cloneRecord E (ti_inputSchema schema)"
  by (simp_all add: normalizeToolSchema_def Let_def)

lemma cache_inv_upsert:
  assumes "cache_inv A cache" "distinct_keys (JObj (ti_inputSchema schema))"
  shows "cache_inv A (snd (upsertSchema E now schema cache))"
proof (cases "validateJsonSchemaShape (JObj (ti_inputSchema schema)) ''$''")
  case (Invalid r)
  with assms(1) show ?thesis
    by (simp add: upsertSchema_def Let_def cache_inv_quarantine)
next
  case Valid
  then have "well_shaped (JObj (cloneRecord E (ti_inputSchema schema)))"
    using well_shaped_copy [of "JObj (ti_inputSchema schema)" E] assms(2)
    unfolding shape_iff_well_shaped stableJson_record by blast
  with Valid assms(1) show ?thesis
    by (simp add: upsertSchema_def Let_def cache_inv_quarantine cache_inv_activate normalize_simps
        split: option.splits)
qed

lemma cache_inv_approve:
  assumes inv: "cache_inv A cache"
  shows "cache_inv (insert (res, hash) A) (snd (approveSchema E res hash cache))"
proof (cases "List.find (\<lambda>s. cs_hash s = hash) (listFor (tc_quarantined cache) res)")
  case None
  with inv show ?thesis
    by (auto simp: approveSchema_def intro: cache_inv_mono)
next
  case (Some approved)
  then have found: "approved \<in> set (listFor (tc_quarantined cache) res)" "cs_hash approved = hash"
    by (auto dest: find_SomeD)
  then have "cs_resource approved = res"
    using inv unfolding cache_inv_def by blast
  with inv Some found(2) show ?thesis
    by (auto simp: approveSchema_def Let_def cache_inv_def update_conv' cloneSchema_def)
qed

text \<open>
  In every state of the cache, the active schema of a tool is one the validator supports or
  one an admin approved by its hash, it is marked active, and what waits for review is marked
  quarantined with a reason.
\<close>

theorem cached_schemas_reviewed:
  assumes "presented_objects ops"
  shows "cache_inv (approvals ops) (run_cache E ops emptySchemaCache)"
  using assms
proof (induction ops rule: rev_induct)
  case Nil
  then show ?case
    by (simp add: cache_inv_def emptySchemaCache_def listFor_def)
next
  case (snoc op ops)
  then have inv: "cache_inv (approvals ops) (run_cache E ops emptySchemaCache)"
    by (simp add: presented_objects_def)
  show ?case
  proof (cases op)
    case (Upsert now schema)
    with snoc.prems have "distinct_keys (JObj (ti_inputSchema schema))"
      by (simp add: presented_objects_def)
    from cache_inv_upsert [OF inv this] Upsert show ?thesis
      by (simp add: run_cache_snoc)
  next
    case (Approve res hash)
    with cache_inv_approve [OF inv, of res hash E] show ?thesis
      by (simp add: run_cache_snoc)
  qed
qed

definition demo_env :: env where
  "demo_env = \<lparr> env_uuid = nat_str, env_clock = int, env_sha256 = (\<lambda>s. s), env_collate = code_unit_le \<rparr>"

definition demo_tool :: "string \<Rightarrow> tool_schema_input" where
  "demo_tool ty = \<lparr> ti_serverId = ''ops'', ti_toolName = ''deploy'', ti_description = ''Deploys.'',
     ti_inputSchema = [(''type'', JStr ty)], ti_outputSchema = None, ti_schemaVersion = None,
     ti_resource = None, ti_risk = None, ti_cachedAt = None \<rparr>"

definition demo_cache :: tool_schema_cache where
  "demo_cache = run_cache demo_env [Upsert (Instant 0) (demo_tool ''string''), Upsert (Instant 1) (demo_tool ''number'')]
     emptySchemaCache"

definition demo_hash :: "string \<Rightarrow> string" where
  "demo_hash ty = cs_hash (normalizeToolSchema demo_env (Instant 0) (demo_tool ty) Schema_active)"

lemma demo_cache_active: "active_hash demo_cache ''mcp:ops/deploy'' = Some (demo_hash ''string'')"
  by code_simp

theorem cached_schemas_reviewed_witness:
  "cache_inv {} demo_cache \<and> isQuarantined demo_cache ''mcp:ops/deploy''"
proof
  have "presented_objects [Upsert (Instant 0) (demo_tool ''string''), Upsert (Instant 1) (demo_tool ''number'')]"
    by (simp add: presented_objects_def demo_tool_def)
  from cached_schemas_reviewed [OF this, of demo_env] show "cache_inv {} demo_cache"
    by (simp add: demo_cache_def)
  show "isQuarantined demo_cache ''mcp:ops/deploy''"
    by code_simp
qed

theorem schema_changes_by_approval_only_witness:
  "active_hash (run_cache demo_env [Approve ''mcp:ops/deploy'' (demo_hash ''number'')] demo_cache)
     ''mcp:ops/deploy'' \<in> {Some (demo_hash ''string''), Some (demo_hash ''number'')}"
  using schema_changes_by_approval_only [OF demo_cache_active,
      of demo_env "[Approve ''mcp:ops/deploy'' (demo_hash ''number'')]"]
  by auto

section \<open>What a tenant may call\<close>

record allowlist_record =
  al_tenantId :: string
  al_resource :: string
  al_expiresAt :: "iso_date option"
  al_reason :: "string option"

type_synonym tool_allowlist = "(string \<times> (string \<times> allowlist_record) list) list"

definition normalizeRequiredString :: "string \<Rightarrow> string \<Rightarrow> js_error + string" where
  "normalizeRequiredString v fieldName =
     (if js_trim v = [] then Inl (Error (fieldName @ '' is required.'')) else Inr (js_trim v))"

text \<open>The text of an unparsable date is not represented; the message shows it as a \<open>Date\<close> does.\<close>

definition timestampMs :: "iso_date \<Rightarrow> js_error + int" where
  "timestampMs v =
     (case date_parse v of None \<Rightarrow> Inl (Error (''Invalid timestamp '' @ toISOString v @ ''.'')) | Some t \<Rightarrow> Inr t)"

definition normalizeAllowlistRecord :: "allowlist_record \<Rightarrow> js_error + allowlist_record" where
  "normalizeAllowlistRecord entry =
     (case normalizeRequiredString (al_tenantId entry) ''tenantId'' of
        Inl e \<Rightarrow> Inl e
      | Inr tenantId \<Rightarrow>
     (case normalizeRequiredString (al_resource entry) ''resource'' of
        Inl e \<Rightarrow> Inl e
      | Inr res \<Rightarrow>
        if \<not> starts_with res ''mcp:''
        then Inl (Error (''Allowlisted MCP resource must start with mcp:, got '' @ res @ ''.''))
        else
          (let normalized = \<lparr> al_tenantId = tenantId, al_resource = res, al_expiresAt = al_expiresAt entry,
                 al_reason = non_empty (map_option js_trim (al_reason entry)) \<rparr>
           in case al_expiresAt entry of
                None \<Rightarrow> Inr normalized
              | Some d \<Rightarrow> (case timestampMs d of Inl e \<Rightarrow> Inl e | Inr _ \<Rightarrow> Inr normalized))))"

definition allowTool :: "allowlist_record \<Rightarrow> tool_allowlist \<Rightarrow> (tool_allowlist, allowlist_record) outcome" where
  "allowTool entry entries =
     (case normalizeAllowlistRecord entry of
        Inl e \<Rightarrow> (Inl e, entries)
      | Inr normalized \<Rightarrow>
          (Inr normalized,
           AList.update (al_tenantId normalized)
             (AList.update (al_resource normalized) normalized (listFor entries (al_tenantId normalized)))
             entries))"

definition revokeTool :: "string \<Rightarrow> string \<Rightarrow> tool_allowlist \<Rightarrow> bool \<times> tool_allowlist" where
  "revokeTool tenantId res entries =
     (case map_of entries tenantId of
        None \<Rightarrow> (False, entries)
      | Some tenantEntries \<Rightarrow>
          (map_of tenantEntries res \<noteq> None,
           AList.update tenantId (AList.delete res tenantEntries) entries))"

definition canInvoke :: "tool_allowlist \<Rightarrow> string \<Rightarrow> string \<Rightarrow> iso_date \<Rightarrow> js_error + bool" where
  "canInvoke entries tenantId res at =
     (case map_of (listFor entries tenantId) res of
        None \<Rightarrow> Inr False
      | Some entry \<Rightarrow>
     (case al_expiresAt entry of
        None \<Rightarrow> Inr True
      | Some expiresAt \<Rightarrow>
     (case timestampMs at of
        Inl e \<Rightarrow> Inl e
      | Inr t \<Rightarrow> Inr (case date_parse expiresAt of None \<Rightarrow> False | Some x \<Rightarrow> t < x))))"

definition listAllowed :: "tool_allowlist \<Rightarrow> string option \<Rightarrow> allowlist_record list" where
  "listAllowed entries tenantId =
     (if truthy tenantId then map snd (listFor entries (the tenantId))
      else concat (map (\<lambda>(_, tenantEntries). map snd tenantEntries) entries))"

fun newAllowlist :: "allowlist_record list \<Rightarrow> tool_allowlist \<Rightarrow> (tool_allowlist, unit) outcome" where
  "newAllowlist [] entries = (Inr (), entries)"
| "newAllowlist (r # rs) entries =
     (case allowTool r entries of
        (Inl e, entries') \<Rightarrow> (Inl e, entries')
      | (Inr _, entries') \<Rightarrow> newAllowlist rs entries')"

lemma allow_then_invoke:
  assumes "allowTool entry entries = (Inr normalized, entries')"
  shows "canInvoke entries' (al_tenantId normalized) (al_resource normalized) (Instant t) =
    Inr (case al_expiresAt entry of None \<Rightarrow> True | Some d \<Rightarrow> (case date_parse d of None \<Rightarrow> False | Some x \<Rightarrow> t < x))"
  using assms
  by (auto simp: allowTool_def canInvoke_def update_conv' timestampMs_def normalizeAllowlistRecord_def Let_def
      split: sum.splits option.splits if_splits)

lemma revoke_then_invoke:
  "canInvoke (snd (revokeTool tenantId res entries)) tenantId res at = Inr False"
  by (auto simp: revokeTool_def canInvoke_def listFor_def update_conv' delete_conv' split: option.splits)

text \<open>An entry of one tenant says nothing about another.\<close>

lemma allow_other_tenant:
  assumes "allowTool entry entries = (Inr normalized, entries')" "tenantId \<noteq> al_tenantId normalized"
  shows "canInvoke entries' tenantId res at = canInvoke entries tenantId res at"
  using assms by (auto simp: allowTool_def canInvoke_def split: sum.splits)

lemma revoke_other_tenant:
  "tenantId' \<noteq> tenantId \<Longrightarrow>
   canInvoke (snd (revokeTool tenantId res entries)) tenantId' res' at = canInvoke entries tenantId' res' at"
  by (auto simp: revokeTool_def canInvoke_def listFor_def update_conv' split: option.splits)

end
