(* ===== verification/Mcp_Drift.thy ===== *)
theory Mcp_Drift
  imports Mcp_Schema
begin

text \<open>
  Schema drift, \<open>detectToolSchemaDrift\<close> and \<open>diffToolSchemas\<close> of
  \<open>packages/mcp-gateway/src/index.ts\<close>: the changes between the cached and the presented input
  schema of a tool and what is decided about them. The lemmas say which changes are found and that
  none is ever accepted without review.
\<close>

datatype change_kind =
    Description_changed | Property_added | Property_removed | Property_changed
  | Required_added | Required_removed | Additional_properties_tightened
  | Additional_properties_relaxed

record schema_drift_change =
  dc_path :: string
  dc_kind :: change_kind

datatype drift_severity = Drift_none | Drift_compatible | Drift_breaking

datatype drift_decision = Drift_unchanged | Drift_accept | Drift_quarantine

record schema_drift_result =
  sd_severity :: drift_severity
  sd_decision :: drift_decision
  sd_cachedHash :: string
  sd_presentedHash :: string
  sd_changes :: "schema_drift_change list"
  sd_reason :: string

record schema_drift_input =
  di_cachedInputSchema :: json_record
  di_cachedDescription :: string
  di_cachedHash :: string
  di_presentedInputSchema :: json_record
  di_presentedDescription :: "string option"

definition change_at :: "string \<Rightarrow> change_kind \<Rightarrow> schema_drift_change" where
  "change_at path kind = \<lparr> dc_path = path, dc_kind = kind \<rparr>"

definition record_or_empty :: "json \<Rightarrow> json_record" where
  "record_or_empty v = (case v of JObj es \<Rightarrow> es | _ \<Rightarrow> [])"

definition readStringArray :: "json \<Rightarrow> string list" where
  "readStringArray v =
     (case v of JArr vs \<Rightarrow> map (\<lambda>v. case v of JStr s \<Rightarrow> s | _ \<Rightarrow> []) (filter isString vs) | _ \<Rightarrow> [])"

definition additionalPropertiesAllowed :: "json \<Rightarrow> bool" where
  "additionalPropertiesAllowed v = (v \<noteq> JBool False)"

definition diffAdditionalProperties :: "json \<Rightarrow> json \<Rightarrow> string \<Rightarrow> schema_drift_change option" where
  "diffAdditionalProperties cached presented path =
     (let cachedAllows = additionalPropertiesAllowed cached;
          presentedAllows = additionalPropertiesAllowed presented
      in if cachedAllows = presentedAllows then None
         else Some (change_at (path @ ''.additionalProperties'')
                (if presentedAllows then Additional_properties_relaxed
                 else Additional_properties_tightened)))"

definition diff_property :: "env \<Rightarrow> json_record \<Rightarrow> json_record \<Rightarrow> string \<Rightarrow> string \<Rightarrow> schema_drift_change list" where
  "diff_property E cachedProps presentedProps path name =
     (let propertyPath = path @ ''.properties.'' @ name in
      if has_own cachedProps name \<and> \<not> has_own presentedProps name
      then [change_at propertyPath Property_removed]
      else if \<not> has_own cachedProps name \<and> has_own presentedProps name
      then [change_at propertyPath Property_added]
      else if \<not> deepEqualJson (env_collate E) (get_prop cachedProps name) (get_prop presentedProps name)
      then [change_at propertyPath Property_changed]
      else [])"

definition diff_required :: "string \<Rightarrow> change_kind \<Rightarrow> string list \<Rightarrow> string list \<Rightarrow> schema_drift_change list" where
  "diff_required path kind names others =
     map (\<lambda>name. change_at (path @ ''.required.'' @ name) kind) (filter (\<lambda>name. name \<notin> set others) names)"

definition diffToolSchemas :: "env \<Rightarrow> json \<Rightarrow> json \<Rightarrow> string \<Rightarrow> schema_drift_change list" where
  "diffToolSchemas E cached presented path =
     (case (cached, presented) of
        (JObj c, JObj p) \<Rightarrow>
          (let cachedProps = record_or_empty (get_prop c ''properties'');
               presentedProps = record_or_empty (get_prop p ''properties'');
               propertyNames = dedupe (map fst cachedProps @ map fst presentedProps);
               cachedRequired = readStringArray (get_prop c ''required'');
               presentedRequired = readStringArray (get_prop p ''required'')
           in concat (map (diff_property E cachedProps presentedProps path) propertyNames)
              @ diff_required path Required_added presentedRequired cachedRequired
              @ diff_required path Required_removed cachedRequired presentedRequired
              @ (case diffAdditionalProperties (get_prop c ''additionalProperties'')
                        (get_prop p ''additionalProperties'') path of
                   None \<Rightarrow> [] | Some change \<Rightarrow> [change]))
      | _ \<Rightarrow> if \<not> deepEqualJson (env_collate E) cached presented
            then [change_at path Property_changed] else [])"

definition isBreakingSchemaChange :: "schema_drift_change \<Rightarrow> bool" where
  "isBreakingSchemaChange change = (case dc_kind change of
       Property_removed \<Rightarrow> True | Property_changed \<Rightarrow> True | Required_added \<Rightarrow> True
     | Additional_properties_tightened \<Rightarrow> True | _ \<Rightarrow> False)"

definition detectToolSchemaDrift :: "env \<Rightarrow> schema_drift_input \<Rightarrow> schema_drift_result" where
  "detectToolSchemaDrift E input =
     (let presentedDescription = or_else (di_presentedDescription input) [];
          presentedHash = hashRecord E [(''inputSchema'', JObj (di_presentedInputSchema input)),
                                        (''description'', JStr presentedDescription)];
          changes = diffToolSchemas E (JObj (di_cachedInputSchema input))
                      (JObj (di_presentedInputSchema input)) ''$''
                    @ (if di_cachedDescription input \<noteq> presentedDescription
                       then [change_at ''$'' Description_changed] else [])
      in if changes = [] then
           \<lparr> sd_severity = Drift_none, sd_decision = Drift_unchanged,
             sd_cachedHash = di_cachedHash input, sd_presentedHash = presentedHash,
             sd_changes = changes, sd_reason = ''Presented schema matches the cached schema.'' \<rparr>
         else if list_ex isBreakingSchemaChange changes then
           \<lparr> sd_severity = Drift_breaking, sd_decision = Drift_quarantine,
             sd_cachedHash = di_cachedHash input, sd_presentedHash = presentedHash,
             sd_changes = changes,
             sd_reason = ''Breaking schema drift detected; admin review required before use.'' \<rparr>
         else
           \<lparr> sd_severity = Drift_compatible, sd_decision = Drift_quarantine,
             sd_cachedHash = di_cachedHash input, sd_presentedHash = presentedHash,
             sd_changes = changes,
             sd_reason = ''Schema drift detected; admin review required before the new schema is used.'' \<rparr>)"

section \<open>What drift is\<close>

text \<open>The parts of a schema the comparison looks at.\<close>

definition declared :: "json_record \<Rightarrow> json_record" where
  "declared es = record_or_empty (get_prop es ''properties'')"

definition required_names :: "json_record \<Rightarrow> string set" where
  "required_names es = set (readStringArray (get_prop es ''required''))"

definition open_schema :: "json_record \<Rightarrow> bool" where
  "open_schema es = additionalPropertiesAllowed (get_prop es ''additionalProperties'')"

definition same_property :: "env \<Rightarrow> json_record \<Rightarrow> json_record \<Rightarrow> string \<Rightarrow> bool" where
  "same_property E c p k \<longleftrightarrow> has_own (declared p) k
     \<and> deepEqualJson (env_collate E) (get_prop (declared c) k) (get_prop (declared p) k)"

definition shared_names :: "json_record \<Rightarrow> json_record \<Rightarrow> string list" where
  "shared_names c p = dedupe (map fst (declared c) @ map fst (declared p))"

lemma shared_names_iff: "k \<in> set (shared_names c p) \<longleftrightarrow> has_own (declared c) k \<or> has_own (declared p) k"
  by (auto simp: shared_names_def has_own_iff)

lemma diff_property_Nil_iff:
  "diff_property E cp pp path k = [] \<longleftrightarrow>
     (has_own cp k \<longleftrightarrow> has_own pp k) \<and> deepEqualJson (env_collate E) (get_prop cp k) (get_prop pp k)"
  by (simp add: diff_property_def Let_def)

lemma diff_property_breaking_iff:
  "list_ex isBreakingSchemaChange (diff_property E cp pp path k) \<longleftrightarrow>
     has_own cp k \<and> \<not> has_own pp k
     \<or> (has_own cp k \<longleftrightarrow> has_own pp k) \<and> \<not> deepEqualJson (env_collate E) (get_prop cp k) (get_prop pp k)"
  by (simp add: diff_property_def Let_def change_at_def isBreakingSchemaChange_def)

lemma diff_required_Nil_iff: "diff_required path kind xs ys = [] \<longleftrightarrow> set xs \<subseteq> set ys"
  by (auto simp: diff_required_def filter_empty_conv)

lemma diff_required_breaking_iff:
  "list_ex isBreakingSchemaChange (diff_required path Required_added xs ys) \<longleftrightarrow> \<not> set xs \<subseteq> set ys"
  "\<not> list_ex isBreakingSchemaChange (diff_required path Required_removed xs ys)"
  by (auto simp: diff_required_def list_ex_iff change_at_def isBreakingSchemaChange_def)

lemma diff_records:
  "diffToolSchemas E (JObj c) (JObj p) path =
     concat (map (diff_property E (declared c) (declared p) path) (shared_names c p))
     @ diff_required path Required_added (readStringArray (get_prop p ''required''))
         (readStringArray (get_prop c ''required''))
     @ diff_required path Required_removed (readStringArray (get_prop c ''required''))
         (readStringArray (get_prop p ''required''))
     @ (case diffAdditionalProperties (get_prop c ''additionalProperties'')
               (get_prop p ''additionalProperties'') path of None \<Rightarrow> [] | Some change \<Rightarrow> [change])"
  by (simp add: diffToolSchemas_def Let_def declared_def shared_names_def)

lemma additional_Nil_iff:
  "(case diffAdditionalProperties (get_prop c ''additionalProperties'')
       (get_prop p ''additionalProperties'') path of None \<Rightarrow> [] | Some change \<Rightarrow> [change]) = []
   \<longleftrightarrow> open_schema c = open_schema p"
  by (auto simp: diffAdditionalProperties_def Let_def open_schema_def)

lemma additional_breaking_iff:
  "list_ex isBreakingSchemaChange (case diffAdditionalProperties (get_prop c ''additionalProperties'')
       (get_prop p ''additionalProperties'') path of None \<Rightarrow> [] | Some change \<Rightarrow> [change])
   \<longleftrightarrow> open_schema c \<and> \<not> open_schema p"
  by (auto simp: diffAdditionalProperties_def Let_def open_schema_def change_at_def
      isBreakingSchemaChange_def)

lemma no_change_iff:
  "diffToolSchemas E (JObj c) (JObj p) path = [] \<longleftrightarrow>
     (\<forall>k. has_own (declared c) k \<or> has_own (declared p) k \<longrightarrow>
        has_own (declared c) k \<and> same_property E c p k) \<and>
     required_names c = required_names p \<and> open_schema c = open_schema p"
proof -
  have "(\<forall>k \<in> set (shared_names c p). diff_property E (declared c) (declared p) path k = []) \<longleftrightarrow>
    (\<forall>k. has_own (declared c) k \<or> has_own (declared p) k \<longrightarrow>
        has_own (declared c) k \<and> same_property E c p k)"
    unfolding Ball_def shared_names_iff diff_property_Nil_iff same_property_def by blast
  then show ?thesis
    unfolding diff_records append_is_Nil_conv additional_Nil_iff diff_required_Nil_iff
      required_names_def by auto
qed

lemma breaking_iff:
  "list_ex isBreakingSchemaChange (diffToolSchemas E (JObj c) (JObj p) path) \<longleftrightarrow>
     (\<exists>k. has_own (declared c) k \<and> \<not> same_property E c p k) \<or>
     \<not> required_names p \<subseteq> required_names c \<or> open_schema c \<and> \<not> open_schema p"
proof -
  have "(\<exists>k \<in> set (shared_names c p).
      list_ex isBreakingSchemaChange (diff_property E (declared c) (declared p) path k)) \<longleftrightarrow>
    (\<exists>k. has_own (declared c) k \<and> \<not> same_property E c p k)"
    unfolding Bex_def shared_names_iff diff_property_breaking_iff same_property_def by blast
  then have "list_ex isBreakingSchemaChange
      (concat (map (diff_property E (declared c) (declared p) path) (shared_names c p))) \<longleftrightarrow>
    (\<exists>k. has_own (declared c) k \<and> \<not> same_property E c p k)"
    by (simp add: list_ex_iff)
  then show ?thesis
    unfolding diff_records list_ex_append additional_breaking_iff diff_required_breaking_iff
      required_names_def by (auto simp: diff_required_breaking_iff(2))
qed

text \<open>Two schemas that agree in what the comparison looks at, and a presented one that breaks callers.\<close>

definition same_contract :: "env \<Rightarrow> json_record \<Rightarrow> json_record \<Rightarrow> bool" where
  "same_contract E c p \<longleftrightarrow>
     (\<forall>k. has_own (declared c) k \<or> has_own (declared p) k \<longrightarrow>
        has_own (declared c) k \<and> same_property E c p k) \<and>
     required_names c = required_names p \<and> open_schema c = open_schema p"

definition breaks_contract :: "env \<Rightarrow> json_record \<Rightarrow> json_record \<Rightarrow> bool" where
  "breaks_contract E c p \<longleftrightarrow>
     (\<exists>k. has_own (declared c) k \<and> \<not> same_property E c p k) \<or>
     \<not> required_names p \<subseteq> required_names c \<or> open_schema c \<and> \<not> open_schema p"

text \<open>
  A presented schema that differs from the cached one in what the comparison looks at is
  quarantined, never accepted by itself. The drift is breaking exactly when a declared property is
  removed or changed, a required name is added, or additional properties are no longer allowed.
\<close>

theorem drift_is_quarantined:
  "sd_decision (detectToolSchemaDrift E input) =
     (if same_contract E (di_cachedInputSchema input) (di_presentedInputSchema input)
         \<and> di_cachedDescription input = or_else (di_presentedDescription input) []
      then Drift_unchanged else Drift_quarantine) \<and>
   sd_severity (detectToolSchemaDrift E input) =
     (if breaks_contract E (di_cachedInputSchema input) (di_presentedInputSchema input)
      then Drift_breaking
      else if sd_decision (detectToolSchemaDrift E input) = Drift_unchanged then Drift_none
      else Drift_compatible)"
proof -
  define D where "D = diffToolSchemas E (JObj (di_cachedInputSchema input))
    (JObj (di_presentedInputSchema input)) ''$''"
  define described where "described \<longleftrightarrow> di_cachedDescription input = or_else (di_presentedDescription input) []"
  have n: "same_contract E (di_cachedInputSchema input) (di_presentedInputSchema input) \<longleftrightarrow> D = []"
    unfolding D_def no_change_iff same_contract_def ..
  have b: "breaks_contract E (di_cachedInputSchema input) (di_presentedInputSchema input) \<longleftrightarrow>
      list_ex isBreakingSchemaChange D"
    unfolding D_def breaking_iff breaks_contract_def ..
  have desc: "\<not> isBreakingSchemaChange (change_at ''$'' Description_changed)"
    by (simp add: isBreakingSchemaChange_def change_at_def)
  show ?thesis
    unfolding detectToolSchemaDrift_def Let_def n b D_def [symmetric] described_def [symmetric]
    by (cases "D = []"; cases described; cases "list_ex isBreakingSchemaChange D")
      (simp_all add: desc)
qed

text \<open>The comparison does not look at the type of the schema itself, nor at the items of an array.\<close>

lemma root_type_change_unnoticed:
  "same_contract E [(''type'', JStr ''object'')] [(''type'', JStr ''array'')]"
  by (simp add: same_contract_def declared_def record_or_empty_def get_prop_def has_own_def
      required_names_def readStringArray_def open_schema_def)

end
