(* ===== verification/Mcp_Risk.thy ===== *)
theory Mcp_Risk
  imports Mcp_Registry Mcp_Drift Security
begin

text \<open>
  What a tool may do, \<open>packages/mcp-gateway/src/index.ts\<close>: the classification of a tool's risk from
  its texts (\<open>classifyToolRisk\<close>) and from its annotations (\<open>classifyToolManifestRisk\<close>), and the
  manifest of the tools a run sees (\<open>manifestFromGrants\<close>). Risk levels are a linear order and
  \<open>highestRisk\<close> is their maximum.
\<close>

section \<open>The order of risks\<close>

definition risk_order :: "risk_level list" where
  "risk_order = [Read_internal, Write_draft, Write_external, Privileged]"

definition risk_index :: "risk_level \<Rightarrow> nat" where
  "risk_index r = length (takeWhile (\<lambda>x. x \<noteq> r) risk_order)"

definition highestRisk :: "risk_level \<Rightarrow> risk_level \<Rightarrow> risk_level" where
  "highestRisk left right = (if risk_index right \<le> risk_index left then left else right)"

lemma risk_index_simps [simp]:
  "risk_index Read_internal = 0" "risk_index Write_draft = 1" "risk_index Write_external = 2"
  "risk_index Privileged = 3"
  by (simp_all add: risk_index_def risk_order_def)

lemma risk_index_inj: "risk_index a = risk_index b \<longleftrightarrow> a = b"
  by (cases a; cases b) simp_all

instantiation risk_level :: linorder
begin

definition less_eq_risk_level :: "risk_level \<Rightarrow> risk_level \<Rightarrow> bool" where
  "less_eq_risk_level a b \<longleftrightarrow> risk_index a \<le> risk_index b"

definition less_risk_level :: "risk_level \<Rightarrow> risk_level \<Rightarrow> bool" where
  "less_risk_level a b \<longleftrightarrow> risk_index a < risk_index b"

instance
  by standard (auto simp: less_eq_risk_level_def less_risk_level_def risk_index_inj)

end

lemma highestRisk_max: "highestRisk a b = max a b"
  by (cases a; cases b) (simp_all add: highestRisk_def max_def less_eq_risk_level_def)

definition requiresApprovalForRisk :: "risk_level \<Rightarrow> bool" where
  "requiresApprovalForRisk risk = (risk = Write_external \<or> risk = Privileged)"

lemma requiresApprovalForRisk_iff: "requiresApprovalForRisk r \<longleftrightarrow> Write_external \<le> r"
  by (cases r) (simp_all add: requiresApprovalForRisk_def less_eq_risk_level_def)

section \<open>Classification\<close>

record tool_risk_input =
  tr_name :: string
  tr_description :: "string option"
  tr_resource :: "string option"
  tr_inputSchema :: "json_record option"

record tool_risk_classification =
  tk_risk :: risk_level
  tk_requiresApproval :: bool
  tk_reason :: string

definition words_rx :: "rx list \<Rightarrow> rx" where
  "words_rx ws = rx_seq [WordB, Grp 1 (rx_alts ws), WordB]"

definition plural :: "string \<Rightarrow> rx" where
  "plural w = Seq (lit w) (optional (chr CHR ''s''))"

definition privileged_rx :: rx where
  "privileged_rx = words_rx (map plural [''secret'', ''credential'', ''token'', ''password'']
     @ map lit [''prod-db'', ''database'', ''sql'', ''shell'', ''exec'', ''admin'', ''root''])"

definition write_rx :: rx where
  "write_rx = words_rx (map lit [''create'', ''update'', ''delete'', ''deploy'', ''restart'', ''send'',
     ''post'', ''publish'', ''merge'', ''write''])"

definition draft_rx :: rx where
  "draft_rx = words_rx (map lit [''draft'', ''branch'', ''proposal'', ''preview''])"

definition haystack :: "env \<Rightarrow> tool_risk_input \<Rightarrow> string" where
  "haystack E input = to_lower_case (join '' '' [tr_name input, or_else (tr_description input) [],
     or_else (tr_resource input) [],
     or_else (json_stringify (stableJson (env_collate E) (JObj (or_else (tr_inputSchema input) [])))) []])"

definition classifyToolRisk :: "env \<Rightarrow> tool_risk_input \<Rightarrow> tool_risk_classification" where
  "classifyToolRisk E input =
     (if rx_test privileged_rx (haystack E input) then
        \<lparr> tk_risk = Privileged, tk_requiresApproval = True,
          tk_reason = ''Tool can access privileged data or execution surfaces.'' \<rparr>
      else if rx_test write_rx (haystack E input) then
        \<lparr> tk_risk = Write_external, tk_requiresApproval = True,
          tk_reason = ''Tool appears to mutate an external system.'' \<rparr>
      else if rx_test draft_rx (haystack E input) then
        \<lparr> tk_risk = Write_draft, tk_requiresApproval = False,
          tk_reason = ''Tool appears limited to draft or preview changes.'' \<rparr>
      else \<lparr> tk_risk = Read_internal, tk_requiresApproval = False, tk_reason = ''Tool appears read-only.'' \<rparr>)"

record tool_annotations =
  ta_readOnlyHint :: "bool option"
  ta_destructiveHint :: "bool option"
  ta_idempotentHint :: "bool option"
  ta_openWorldHint :: "bool option"

record manifest_risk_input = tool_risk_input +
  mi_annotations :: "tool_annotations option"
  mi_externalDomains :: "string list option"

datatype tool_risk_signal =
    Annotation_destructive | Annotation_read_only | Annotation_open_world | External_domain
  | Keyword_privileged | Keyword_write | Keyword_draft | Keyword_read | Unknown_conservative

record manifest_risk_classification =
  mk_risk :: risk_level
  mk_requiresApproval :: bool
  mk_reason :: string
  mk_signals :: "tool_risk_signal list"

definition hint :: "(tool_annotations \<Rightarrow> bool option) \<Rightarrow> manifest_risk_input \<Rightarrow> bool" where
  "hint h input = (case mi_annotations input of None \<Rightarrow> False | Some a \<Rightarrow> h a = Some True)"

definition external_domains :: "manifest_risk_input \<Rightarrow> string list" where
  "external_domains input = filter (\<lambda>d. js_trim d \<noteq> []) (or_else (mi_externalDomains input) [])"

fun keyword_signal :: "risk_level \<Rightarrow> tool_risk_signal" where
  "keyword_signal Privileged = Keyword_privileged"
| "keyword_signal Write_external = Keyword_write"
| "keyword_signal Write_draft = Keyword_draft"
| "keyword_signal Read_internal = Keyword_read"

definition buildManifestRiskReason :: "risk_level \<Rightarrow> tool_risk_signal list \<Rightarrow> string list \<Rightarrow> string" where
  "buildManifestRiskReason risk signals externalDomains =
     (if Keyword_privileged \<in> set signals then ''Tool can access privileged data or execution surfaces.''
      else if Annotation_destructive \<in> set signals then ''Tool is annotated as destructive.''
      else if Annotation_open_world \<in> set signals then ''Tool is annotated as touching an open/external world.''
      else if External_domain \<in> set signals
      then ''Tool touches external domains: '' @ join '', '' externalDomains @ ''.''
      else if Unknown_conservative \<in> set signals
      then ''Tool metadata is unknown; defaulting to a conservative write risk.''
      else if risk = Write_external then ''Tool appears to mutate an external system.''
      else if risk = Write_draft then ''Tool appears limited to draft or preview changes.''
      else if Annotation_read_only \<in> set signals then ''Tool is annotated as read-only.''
      else ''Tool appears read-only.'')"

text \<open>The local variables of \<open>classifyToolManifestRisk\<close>, changed one signal after the other.\<close>

definition raise_on :: "bool \<Rightarrow> tool_risk_signal \<Rightarrow> risk_level \<times> tool_risk_signal list
    \<Rightarrow> risk_level \<times> tool_risk_signal list" where
  "raise_on present signal state =
     (if present then (highestRisk (fst state) Write_external, snd state @ [signal]) else state)"

definition classifyToolManifestRisk :: "env \<Rightarrow> manifest_risk_input \<Rightarrow> manifest_risk_classification" where
  "classifyToolManifestRisk E input =
     (let keyword = tk_risk (classifyToolRisk E (tool_risk_input.truncate input));
          externalDomains = external_domains input;
          destructive = hint ta_destructiveHint input;
          openWorld = hint ta_openWorldHint input;
          s1 = raise_on destructive Annotation_destructive (keyword, [keyword_signal keyword]);
          s2 = raise_on openWorld Annotation_open_world s1;
          s3 = raise_on (externalDomains \<noteq> []) External_domain s2;
          hasElevatingSignal = (destructive \<or> openWorld \<or> externalDomains \<noteq> [] \<or> keyword = Privileged);
          s4 = (if hint ta_readOnlyHint input \<and> \<not> hasElevatingSignal
                then (Read_internal, snd s3 @ [Annotation_read_only]) else s3);
          (risk, signals) = raise_on (mi_annotations input = None \<and> externalDomains = []
                \<and> keyword = Read_internal \<and> \<not> truthy (tr_description input)) Unknown_conservative s4
      in \<lparr> mk_risk = risk, mk_requiresApproval = requiresApprovalForRisk risk,
           mk_reason = buildManifestRiskReason risk signals externalDomains, mk_signals = signals \<rparr>)"

section \<open>The manifest of a run\<close>

record tool_descriptor =
  td_name :: string
  td_description :: string
  td_resource :: string
  td_inputSchema :: json_record
  td_risk :: risk_level
  td_requiresApproval :: bool
  td_schemaHash :: "string option"

record tool_manifest =
  tm_runId :: string
  tm_tools :: "tool_descriptor list"
  tm_deniedResources :: "string list"
  tm_quarantinedResources :: "string list"
  tm_unavailableResources :: "string list"

definition descriptorFromGrant :: "env \<Rightarrow> capability_grant \<Rightarrow> cached_tool_schema option \<Rightarrow> tool_descriptor" where
  "descriptorFromGrant E grant schema =
     (let classified = classifyToolRisk E
            \<lparr> tr_name = (case schema of None \<Rightarrow> toolNameFromResource (gr_resource grant) | Some s \<Rightarrow> cs_toolName s),
              tr_description = map_option cs_description schema, tr_resource = Some (gr_resource grant),
              tr_inputSchema = map_option cs_inputSchema schema \<rparr>;
          risk = highestRisk (gr_risk grant)
            (or_else (Option.bind schema cs_risk) (tk_risk classified))
      in \<lparr> td_name = toolNameFromResource (gr_resource grant),
           td_description = (case schema of None \<Rightarrow> ''Governed MCP tool access for '' @ gr_resource grant
                             | Some s \<Rightarrow> cs_description s),
           td_resource = gr_resource grant,
           td_inputSchema = (case schema of
               None \<Rightarrow> [(''type'', JStr ''object''), (''additionalProperties'', JBool True)]
             | Some s \<Rightarrow> cs_inputSchema s),
           td_risk = risk,
           td_requiresApproval = (gr_requiresApproval grant \<or> gr_decision grant = Ask \<or> requiresApprovalForRisk risk),
           td_schemaHash = map_option cs_hash schema \<rparr>)"

definition canExposeTool :: "capability_grant \<Rightarrow> bool" where
  "canExposeTool grant = (gr_capability grant = Mcp_tool \<and> gr_decision grant \<noteq> Deny)"

text \<open>Without a registry no server is unavailable, without a cache nothing is quarantined.\<close>

definition server_unavailable :: "mcp_server_registry option \<Rightarrow> string \<Rightarrow> bool" where
  "server_unavailable registry res =
     (case Option.bind registry (\<lambda>r. getServerByResource r res) of
        None \<Rightarrow> False | Some server \<Rightarrow> rs_status server \<noteq> Server_active)"

definition schema_quarantined :: "tool_schema_cache option \<Rightarrow> string \<Rightarrow> bool" where
  "schema_quarantined cache res = (case cache of None \<Rightarrow> False | Some c \<Rightarrow> isQuarantined c res)"

definition manifest_step :: "env \<Rightarrow> mcp_server_registry option \<Rightarrow> tool_schema_cache option \<Rightarrow> tool_manifest
    \<Rightarrow> capability_grant \<Rightarrow> tool_manifest" where
  "manifest_step E registry cache m grant =
     (if server_unavailable registry (gr_resource grant)
      then m\<lparr>tm_unavailableResources := tm_unavailableResources m @ [gr_resource grant]\<rparr>
      else if schema_quarantined cache (gr_resource grant)
      then m\<lparr>tm_quarantinedResources := tm_quarantinedResources m @ [gr_resource grant]\<rparr>
      else m\<lparr>tm_tools := tm_tools m
               @ [descriptorFromGrant E grant (Option.bind cache (\<lambda>c. getActiveSchema E c (gr_resource grant)))]\<rparr>)"

definition manifestFromGrants :: "env \<Rightarrow> string \<Rightarrow> capability_grant list \<Rightarrow> mcp_server_registry option
    \<Rightarrow> tool_schema_cache option \<Rightarrow> tool_manifest" where
  "manifestFromGrants E runId grants registry cache =
     (let toolGrants = filter (\<lambda>g. gr_capability g = Mcp_tool) grants;
          start = \<lparr> tm_runId = runId, tm_tools = [],
                    tm_deniedResources = map gr_resource (filter (\<lambda>g. gr_decision g = Deny) toolGrants),
                    tm_quarantinedResources = [], tm_unavailableResources = [] \<rparr>
      in foldl (manifest_step E registry cache) start (filter (\<lambda>g. gr_decision g \<noteq> Deny) toolGrants))"

section \<open>What the classification says\<close>

lemma keyword_of_truncate: "tk_risk (classifyToolRisk E (tool_risk_input.truncate input)) =
    tk_risk (classifyToolRisk E \<lparr> tr_name = tr_name input, tr_description = tr_description input,
      tr_resource = tr_resource input, tr_inputSchema = tr_inputSchema input \<rparr>)"
  by (simp add: tool_risk_input.truncate_def)

lemma hint_annotated: "hint h input \<Longrightarrow> mi_annotations input \<noteq> None"
  by (auto simp: hint_def split: option.splits)

text \<open>
  The risk of a presented tool: at least an external write when it is destructive, touches an
  open world or an external domain; read-only by its hint only when nothing elevates it and its
  words are not privileged; an external write when nothing at all is known of it; otherwise what
  its words say. It asks for approval exactly from external writes on.
\<close>

theorem manifest_risk:
  "mk_risk (classifyToolManifestRisk E input) =
     (let keyword = tk_risk (classifyToolRisk E (tool_risk_input.truncate input)) in
      if hint ta_destructiveHint input \<or> hint ta_openWorldHint input \<or> external_domains input \<noteq> []
      then max keyword Write_external
      else if hint ta_readOnlyHint input \<and> keyword \<noteq> Privileged then Read_internal
      else if mi_annotations input = None \<and> keyword = Read_internal \<and> \<not> truthy (tr_description input)
      then Write_external
      else keyword) \<and>
   mk_requiresApproval (classifyToolManifestRisk E input) =
     (Write_external \<le> mk_risk (classifyToolManifestRisk E input))"
  using hint_annotated [of ta_readOnlyHint input] hint_annotated [of ta_destructiveHint input]
    hint_annotated [of ta_openWorldHint input]
  by (cases "tk_risk (classifyToolRisk E (tool_risk_input.truncate input))")
    (auto simp: classifyToolManifestRisk_def raise_on_def highestRisk_def max_def less_eq_risk_level_def Let_def
      requiresApprovalForRisk_iff split: prod.splits)

section \<open>What the manifest exposes\<close>

lemma manifest_step_fields:
  "tm_deniedResources (foldl (manifest_step E registry cache) m gs) = tm_deniedResources m"
  "tm_runId (foldl (manifest_step E registry cache) m gs) = tm_runId m"
  by (induction gs arbitrary: m) (simp_all add: manifest_step_def)

lemma manifest_step_tools:
  "tm_tools (foldl (manifest_step E registry cache) m gs) = tm_tools m
     @ map (\<lambda>g. descriptorFromGrant E g (Option.bind cache (\<lambda>c. getActiveSchema E c (gr_resource g))))
         (filter (\<lambda>g. \<not> server_unavailable registry (gr_resource g)
                    \<and> \<not> schema_quarantined cache (gr_resource g)) gs)"
  by (induction gs arbitrary: m) (simp_all add: manifest_step_def)

lemma manifest_tools:
  "tm_tools (manifestFromGrants E runId grants registry cache) =
     map (\<lambda>g. descriptorFromGrant E g (Option.bind cache (\<lambda>c. getActiveSchema E c (gr_resource g))))
       (filter (\<lambda>g. canExposeTool g \<and> \<not> server_unavailable registry (gr_resource g)
                  \<and> \<not> schema_quarantined cache (gr_resource g)) grants)"
  by (simp add: manifestFromGrants_def manifest_step_tools Let_def canExposeTool_def conj_commute conj_left_commute)

lemma descriptor_risk:
  "gr_risk g \<le> td_risk (descriptorFromGrant E g schema)"
  "td_requiresApproval (descriptorFromGrant E g schema) \<longleftrightarrow>
     gr_requiresApproval g \<or> gr_decision g = Ask \<or> Write_external \<le> td_risk (descriptorFromGrant E g schema)"
  "td_resource (descriptorFromGrant E g schema) = gr_resource g"
  by (simp_all add: descriptorFromGrant_def Let_def highestRisk_max requiresApprovalForRisk_iff)

text \<open>
  Every tool of a manifest comes from an allow or ask grant of the run, on a server that is
  not inactive and with no schema waiting for review; its risk is at least the one granted, and it
  needs an approval when the grant asks for one or its risk is an external write or more.
\<close>

theorem manifest_tool_is_governed:
  assumes "tool \<in> set (tm_tools (manifestFromGrants E runId grants registry cache))"
  shows "\<exists>g \<in> set grants. canExposeTool g \<and> td_resource tool = gr_resource g
    \<and> \<not> server_unavailable registry (td_resource tool) \<and> \<not> schema_quarantined cache (td_resource tool)
    \<and> gr_risk g \<le> td_risk tool
    \<and> td_requiresApproval tool = (gr_requiresApproval g \<or> gr_decision g = Ask \<or> Write_external \<le> td_risk tool)"
  using assms by (auto simp: manifest_tools descriptor_risk)

definition demo_grant :: "decision \<Rightarrow> capability_grant" where
  "demo_grant d = \<lparr> gr_id = ''g1'', gr_capability = Mcp_tool, gr_resource = ''mcp:ops/status'', gr_decision = d,
     gr_risk = Write_draft, gr_requiresApproval = False \<rparr>"

definition demo_descriptor :: tool_descriptor where
  "demo_descriptor = descriptorFromGrant demo_env (demo_grant Allow) None"

theorem manifest_tool_is_governed_witness:
  "\<exists>g. canExposeTool g \<and> gr_risk g \<le> td_risk demo_descriptor \<and> td_resource demo_descriptor = gr_resource g"
proof -
  have "demo_descriptor \<in> set (tm_tools (manifestFromGrants demo_env ''r'' [demo_grant Allow] None None))"
    by (simp add: manifest_tools demo_descriptor_def canExposeTool_def demo_grant_def server_unavailable_def
        schema_quarantined_def)
  from manifest_tool_is_governed [OF this] show ?thesis by blast
qed

text \<open>The manifest looks at one grant at a time: a deny does not take back what another grant allows.\<close>

lemma denied_resource_exposed:
  "''mcp:ops/status'' \<in> set (tm_deniedResources
     (manifestFromGrants E runId [demo_grant Deny, demo_grant Allow] None None))"
  "''mcp:ops/status'' \<in> td_resource ` set (tm_tools
     (manifestFromGrants E runId [demo_grant Deny, demo_grant Allow] None None))"
  by (simp add: manifestFromGrants_def manifest_step_def Let_def demo_grant_def server_unavailable_def
      schema_quarantined_def)
    (simp add: manifest_tools demo_grant_def canExposeTool_def server_unavailable_def
      schema_quarantined_def descriptor_risk)

end
