(* ===== verification/Mcp_Proxy.thy ===== *)
theory Mcp_Proxy
  imports Mcp_Risk
begin

text \<open>
  Calling a tool through the gateway, \<open>packages/mcp-gateway/src/index.ts\<close>: the request a run makes
  (\<open>createMcpProxyRequest\<close>), its execution (\<open>executeMcpProxyRequest\<close>) with the checks before the
  transport is called, and the redaction of what the transport returns. The transport is a
  parameter that changes a world of its own, so the theorems can say when it is called.
\<close>

section \<open>Redaction of outputs\<close>

definition mcp_credential_ref_rx :: rx where
  "mcp_credential_ref_rx = rx_seq [WordB,
     rx_alts (map lit_i [''bek-local-vault'', ''vault'', ''aws-sm'', ''aws-secretsmanager'', ''gcp-secret-manager'',
       ''azure-keyvault'', ''secret'']),
     lit ''://'', plus (Cls (\<lambda>c. \<not> is_space c \<and> c \<notin> {CHR 0x22, CHR 0x27, CHR 0x60, CHR '')'', CHR '',''}))]"

definition MCP_CREDENTIAL_REDACTION_PATTERNS :: "(rx \<times> string) list" where
  "MCP_CREDENTIAL_REDACTION_PATTERNS =
     [(mcp_credential_ref_rx, ''[redacted:mcp-credential-ref]''),
      (slack_token_rx, ''[redacted:mcp-secret]''),
      (github_token_rx, ''[redacted:mcp-secret]''),
      (github_pat_rx, ''[redacted:mcp-secret]''),
      (sk_key_rx, ''[redacted:mcp-secret]''),
      (aws_key_rx, ''[redacted:mcp-secret]''),
      (bearer_rx, ''[redacted:mcp-secret]''),
      (private_key_rx, ''[redacted:mcp-secret]'')]"

definition redactMcpCredentialText :: "string \<Rightarrow> string" where
  "redactMcpCredentialText v =
     foldl (\<lambda>redacted (pattern, replacement). replace_all pattern (\<lambda>_. replacement) redacted)
       v MCP_CREDENTIAL_REDACTION_PATTERNS"

definition mcp_sensitive_rx :: rx where
  "mcp_sensitive_rx = rx_alts
     [lit_i ''token'', lit_i ''secret'', lit_i ''password'', lit_i ''passphrase'', joined ''api'' ''key'',
      joined ''private'' ''key'', lit_i ''authorization'',
      rx_seq [lit_i ''credential'', opt_us, rx_alts [lit_i ''secret'', lit_i ''value'', lit_i ''ref'']],
      joined ''refresh'' ''token'', joined ''access'' ''token'', joined ''bot'' ''token'', joined ''signing'' ''secret'']"

text \<open>The field name is split at its humps and lower-cased as in \<open>security.ts\<close>.\<close>

definition isSensitiveMcpOutputFieldName :: "string \<Rightarrow> bool" where
  "isSensitiveMcpOutputFieldName fieldName = rx_test mcp_sensitive_rx (normalizeFieldName fieldName)"

definition mcp_masked :: json where
  "mcp_masked = JStr ''[redacted:mcp-credential]''"

fun redactUnknownMcpOutput :: "json \<Rightarrow> json \<times> bool" where
  "redactUnknownMcpOutput (JStr s) = (JStr (redactMcpCredentialText s), redactMcpCredentialText s \<noteq> s)"
| "redactUnknownMcpOutput (JArr vs) =
     (JArr (map (\<lambda>v. fst (redactUnknownMcpOutput v)) vs), list_ex (\<lambda>v. snd (redactUnknownMcpOutput v)) vs)"
| "redactUnknownMcpOutput (JObj es) =
     (JObj (map (\<lambda>(key, entry). (key, if isSensitiveMcpOutputFieldName key then mcp_masked
                                      else fst (redactUnknownMcpOutput entry))) es),
      list_ex (\<lambda>(key, entry). if isSensitiveMcpOutputFieldName key then True
                              else snd (redactUnknownMcpOutput entry)) es)"
| "redactUnknownMcpOutput JNull = (JNull, False)"
| "redactUnknownMcpOutput JUndef = (JUndef, False)"
| "redactUnknownMcpOutput (JBool b) = (JBool b, False)"
| "redactUnknownMcpOutput (JNum n) = (JNum n, False)"
| "redactUnknownMcpOutput (JReal t) = (JReal t, False)"

definition redactMcpCredentialReferences :: "json \<Rightarrow> json \<times> bool" where
  "redactMcpCredentialReferences v = redactUnknownMcpOutput v"

section \<open>Requests\<close>

record mcp_proxy_request =
  pq_id :: string
  pq_runId :: string
  pq_serverId :: string
  pq_toolName :: string
  pq_resource :: string
  pq_decision :: decision
  pq_risk :: risk_level
  pq_requiresApproval :: bool
  pq_input :: json_record
  pq_inputHash :: string
  pq_schemaHash :: string
  pq_createdAt :: iso_date

record create_proxy_input =
  cp_runId :: string
  cp_grant :: capability_grant
  cp_server :: registered_mcp_server
  cp_schema :: cached_tool_schema
  cp_input :: json_record
  cp_requestId :: "string option"
  cp_createdAt :: "iso_date option"

definition createMcpProxyRequest :: "env \<Rightarrow> iso_date \<Rightarrow> create_proxy_input \<Rightarrow> js_error + mcp_proxy_request" where
  "createMcpProxyRequest E now input =
     (let grant = cp_grant input; server = cp_server input; schema = cp_schema input in
      if \<not> canExposeTool grant
      then Inl (Error (''Grant '' @ gr_id grant @ '' cannot expose an MCP tool.''))
      else if rs_status server \<noteq> Server_active
      then Inl (Error (''MCP server '' @ rs_id server @ '' is not active.''))
      else if cs_status schema \<noteq> Schema_active
      then Inl (Error (''MCP tool '' @ cs_resource schema @ '' is quarantined.''))
      else if cs_serverId schema \<noteq> rs_id server
      then Inl (Error (''MCP tool '' @ cs_resource schema @ '' is not registered on '' @ rs_id server @ ''.''))
      else if gr_resource grant \<noteq> cs_resource schema
      then Inl (Error (''Grant '' @ gr_id grant @ '' does not match '' @ cs_resource schema @ ''.''))
      else
        (case validateJsonSchemaInput (cp_input input) (cs_inputSchema schema) of
           Invalid why \<Rightarrow> Inl (Error (''MCP input for '' @ cs_resource schema @ '' failed schema validation: '' @ why))
         | Valid \<Rightarrow>
             (let classified = classifyToolRisk E
                    \<lparr> tr_name = cs_toolName schema, tr_description = Some (cs_description schema),
                      tr_resource = Some (cs_resource schema), tr_inputSchema = Some (cs_inputSchema schema) \<rparr>;
                  risk = highestRisk (gr_risk grant) (or_else (cs_risk schema) (tk_risk classified))
              in Inr \<lparr> pq_id = or_else (cp_requestId input) (cp_runId input @ '':'' @ cs_resource schema),
                       pq_runId = cp_runId input, pq_serverId = rs_id server, pq_toolName = cs_toolName schema,
                       pq_resource = cs_resource schema, pq_decision = gr_decision grant, pq_risk = risk,
                       pq_requiresApproval = (gr_requiresApproval grant \<or> gr_decision grant = Ask
                                              \<or> requiresApprovalForRisk risk),
                       pq_input = cloneRecord E (cp_input input), pq_inputHash = hashRecord E (cp_input input),
                       pq_schemaHash = cs_hash schema, pq_createdAt = or_else (cp_createdAt input) now \<rparr>)))"

section \<open>Execution\<close>

datatype mcp_approval_status = Mcp_approved | Mcp_denied | Mcp_expired | Mcp_pending

record mcp_tool_approval =
  ma_id :: string
  ma_requestId :: string
  ma_status :: mcp_approval_status
  ma_decidedByPrincipalId :: "string option"
  ma_decidedAt :: "iso_date option"

record mcp_transport_invocation =
  iv_request :: mcp_proxy_request
  iv_server :: registered_mcp_server
  iv_schema :: cached_tool_schema

text \<open>What the transport does: it returns a value, throws an \<open>Error\<close>, or throws something else.\<close>

datatype transport_reply = Returned json | Threw string | Threw_other

datatype block_reason =
    Approval_not_approved | Approval_required | Invalid_input | Schema_mismatch | Schema_unavailable
  | Server_unavailable | Tenant_not_allowlisted | Transport_error

record execute_proxy_input =
  ex_tenantId :: string
  ex_request :: mcp_proxy_request
  ex_server :: registered_mcp_server
  ex_schema :: cached_tool_schema
  ex_allowlist :: tool_allowlist
  ex_approval :: "mcp_tool_approval option"
  ex_executedAt :: "iso_date option"

record execution_blocked =
  eb_reason :: block_reason
  eb_message :: string
  eb_tenantId :: string
  eb_requestId :: string
  eb_runId :: string
  eb_resource :: string
  eb_risk :: risk_level
  eb_requiresApproval :: bool

record execution_success =
  es_tenantId :: string
  es_requestId :: string
  es_runId :: string
  es_serverId :: string
  es_toolName :: string
  es_resource :: string
  es_risk :: risk_level
  es_requiresApproval :: bool
  es_output :: json
  es_outputHash :: string
  es_redacted :: bool
  es_executedAt :: iso_date
  es_approvalId :: "string option"

datatype execution_result = Blocked execution_blocked | Executed execution_success

fun server_status_str :: "mcp_server_status \<Rightarrow> string" where
  "server_status_str Server_active = ''active''"
| "server_status_str Server_disabled = ''disabled''"
| "server_status_str Server_pending = ''pending''"
| "server_status_str Server_quarantined = ''quarantined''"

fun schema_status_str :: "tool_schema_status \<Rightarrow> string" where
  "schema_status_str Schema_active = ''active''"
| "schema_status_str Schema_quarantined = ''quarantined''"

fun mcp_approval_str :: "mcp_approval_status \<Rightarrow> string" where
  "mcp_approval_str Mcp_approved = ''approved''"
| "mcp_approval_str Mcp_denied = ''denied''"
| "mcp_approval_str Mcp_expired = ''expired''"
| "mcp_approval_str Mcp_pending = ''pending''"

definition requiresApprovalForRequest :: "mcp_proxy_request \<Rightarrow> bool" where
  "requiresApprovalForRequest request =
     (pq_requiresApproval request \<or> pq_decision request = Ask \<or> requiresApprovalForRisk (pq_risk request))"

definition blockExecution :: "execute_proxy_input \<Rightarrow> block_reason \<Rightarrow> string \<Rightarrow> execution_blocked" where
  "blockExecution input reason message =
     \<lparr> eb_reason = reason, eb_message = message, eb_tenantId = ex_tenantId input,
       eb_requestId = pq_id (ex_request input), eb_runId = pq_runId (ex_request input),
       eb_resource = pq_resource (ex_request input), eb_risk = pq_risk (ex_request input),
       eb_requiresApproval = requiresApprovalForRequest (ex_request input) \<rparr>"

definition validateExecutableRequest :: "execute_proxy_input \<Rightarrow> execution_blocked option" where
  "validateExecutableRequest input =
     (let request = ex_request input; server = ex_server input; schema = ex_schema input in
      if rs_status server \<noteq> Server_active
      then Some (blockExecution input Server_unavailable
             (''MCP server '' @ rs_id server @ '' is '' @ server_status_str (rs_status server) @ ''.''))
      else if cs_status schema \<noteq> Schema_active
      then Some (blockExecution input Schema_unavailable
             (''MCP tool '' @ cs_resource schema @ '' is '' @ schema_status_str (cs_status schema) @ ''.''))
      else if cs_serverId schema \<noteq> rs_id server \<or> pq_serverId request \<noteq> rs_id server
        \<or> pq_toolName request \<noteq> cs_toolName schema \<or> pq_resource request \<noteq> cs_resource schema
        \<or> pq_schemaHash request \<noteq> cs_hash schema
      then Some (blockExecution input Schema_mismatch
             (''MCP request '' @ pq_id request @ '' does not match the active server/schema contract.''))
      else
        (case validateJsonSchemaInput (pq_input request) (cs_inputSchema schema) of
           Valid \<Rightarrow> None
         | Invalid why \<Rightarrow> Some (blockExecution input Invalid_input
             (''MCP request '' @ pq_id request @ '' input failed schema validation: '' @ why))))"

definition validateMcpApproval :: "execute_proxy_input \<Rightarrow> execution_blocked option" where
  "validateMcpApproval input =
     (if \<not> requiresApprovalForRequest (ex_request input) then None
      else case ex_approval input of
        None \<Rightarrow> Some (blockExecution input Approval_required
          (''MCP request '' @ pq_id (ex_request input) @ '' requires approval before execution.''))
      | Some approval \<Rightarrow>
          if ma_requestId approval \<noteq> pq_id (ex_request input)
          then Some (blockExecution input Approval_not_approved
            (''Approval '' @ ma_id approval @ '' was issued for a different MCP request.''))
          else if ma_status approval = Mcp_approved then None
          else Some (blockExecution input
            (if ma_status approval = Mcp_pending then Approval_required else Approval_not_approved)
            (''Approval '' @ ma_id approval @ '' is '' @ mcp_approval_str (ma_status approval) @ ''.'')))"

text \<open>A copy of a request, as every call of the transport gets it.\<close>

definition cloneProxyRequest :: "env \<Rightarrow> mcp_proxy_request \<Rightarrow> mcp_proxy_request" where
  "cloneProxyRequest E request = request\<lparr> pq_input := cloneRecord E (pq_input request) \<rparr>"

definition invocation_of :: "env \<Rightarrow> execute_proxy_input \<Rightarrow> mcp_transport_invocation" where
  "invocation_of E input =
     \<lparr> iv_request = cloneProxyRequest E (ex_request input), iv_server = ex_server input,
       iv_schema = cloneSchema E (ex_schema input) \<rparr>"

text \<open>\<open>hashUnknown\<close> throws when the transport returned \<open>undefined\<close>.\<close>

definition execution_success_of :: "env \<Rightarrow> execute_proxy_input \<Rightarrow> iso_date \<Rightarrow> json \<Rightarrow> js_error + execution_success" where
  "execution_success_of E input executedAt rawOutput =
     (let request = ex_request input; (out, redacted) = redactMcpCredentialReferences rawOutput in
      case hashUnknown E out of
        Inl e \<Rightarrow> Inl e
      | Inr hash \<Rightarrow> Inr
          \<lparr> es_tenantId = ex_tenantId input, es_requestId = pq_id request, es_runId = pq_runId request,
            es_serverId = pq_serverId request, es_toolName = pq_toolName request,
            es_resource = pq_resource request, es_risk = pq_risk request,
            es_requiresApproval = requiresApprovalForRequest request, es_output = out,
            es_outputHash = hash, es_redacted = redacted, es_executedAt = executedAt,
            es_approvalId = (case ex_approval input of None \<Rightarrow> None
              | Some approval \<Rightarrow> if ma_status approval = Mcp_approved then Some (ma_id approval) else None) \<rparr>)"

definition executeMcpProxyRequest :: "env \<Rightarrow> ('w \<Rightarrow> mcp_transport_invocation \<Rightarrow> transport_reply \<times> 'w) \<Rightarrow> iso_date
    \<Rightarrow> execute_proxy_input \<Rightarrow> 'w \<Rightarrow> ('w, execution_result) outcome" where
  "executeMcpProxyRequest E transport now input w =
     (case validateExecutableRequest input of
        Some b \<Rightarrow> (Inr (Blocked b), w)
      | None \<Rightarrow>
     (let executedAt = or_else (ex_executedAt input) now in
      case canInvoke (ex_allowlist input) (ex_tenantId input) (pq_resource (ex_request input)) executedAt of
        Inl e \<Rightarrow> (Inl e, w)
      | Inr False \<Rightarrow> (Inr (Blocked (blockExecution input Tenant_not_allowlisted
            (''Tenant '' @ ex_tenantId input @ '' is not allowlisted for '' @ pq_resource (ex_request input) @ ''.''))), w)
      | Inr True \<Rightarrow>
     (case validateMcpApproval input of
        Some b \<Rightarrow> (Inr (Blocked b), w)
      | None \<Rightarrow>
     (case transport w (invocation_of E input) of
        (Threw message, w') \<Rightarrow> (Inr (Blocked (blockExecution input Transport_error message)), w')
      | (Threw_other, w') \<Rightarrow> (Inr (Blocked (blockExecution input Transport_error
            ''MCP transport failed before returning output.'')), w')
      | (Returned rawOutput, w') \<Rightarrow>
          (case execution_success_of E input executedAt rawOutput of
             Inl e \<Rightarrow> (Inl e, w')
           | Inr success \<Rightarrow> (Inr (Executed success), w'))))))"

text \<open>The transport of the tests: handlers by resource.\<close>

type_synonym mock_transport = "(string \<times> (mcp_transport_invocation \<Rightarrow> transport_reply)) list"

definition registerMock :: "string \<Rightarrow> (mcp_transport_invocation \<Rightarrow> transport_reply) \<Rightarrow> mock_transport
    \<Rightarrow> (mock_transport, unit) outcome" where
  "registerMock res handler handlers =
     (if \<not> starts_with res ''mcp:''
      then (Inl (Error (''Mock MCP resource must start with mcp:, got '' @ res @ ''.'')), handlers)
      else (Inr (), AList.update res handler handlers))"

definition mock_execute :: "env \<Rightarrow> mock_transport \<Rightarrow> mcp_transport_invocation \<Rightarrow> transport_reply" where
  "mock_execute E handlers invocation =
     (case map_of handlers (pq_resource (iv_request invocation)) of
        None \<Rightarrow> Threw (''No mock MCP handler registered for '' @ pq_resource (iv_request invocation) @ ''.'')
      | Some handler \<Rightarrow> handler
          \<lparr> iv_request = cloneProxyRequest E (iv_request invocation), iv_server = iv_server invocation,
            iv_schema = cloneSchema E (iv_schema invocation) \<rparr>)"

section \<open>When the transport is called\<close>

definition approval_granted :: "execute_proxy_input \<Rightarrow> bool" where
  "approval_granted input \<longleftrightarrow>
     (case ex_approval input of None \<Rightarrow> False
      | Some a \<Rightarrow> ma_requestId a = pq_id (ex_request input) \<and> ma_status a = Mcp_approved)"

definition request_matches :: "execute_proxy_input \<Rightarrow> bool" where
  "request_matches input \<longleftrightarrow>
     cs_serverId (ex_schema input) = rs_id (ex_server input)
     \<and> pq_serverId (ex_request input) = rs_id (ex_server input)
     \<and> pq_toolName (ex_request input) = cs_toolName (ex_schema input)
     \<and> pq_resource (ex_request input) = cs_resource (ex_schema input)
     \<and> pq_schemaHash (ex_request input) = cs_hash (ex_schema input)"

definition may_execute :: "iso_date \<Rightarrow> execute_proxy_input \<Rightarrow> bool" where
  "may_execute now input \<longleftrightarrow>
     rs_status (ex_server input) = Server_active \<and> cs_status (ex_schema input) = Schema_active
     \<and> request_matches input
     \<and> well_shaped (JObj (cs_inputSchema (ex_schema input)))
     \<and> conforms (JObj (pq_input (ex_request input))) (JObj (cs_inputSchema (ex_schema input)))
     \<and> canInvoke (ex_allowlist input) (ex_tenantId input) (pq_resource (ex_request input))
         (or_else (ex_executedAt input) now) = Inr True
     \<and> (requiresApprovalForRequest (ex_request input) \<longrightarrow> approval_granted input)"

lemma input_checked_iff:
  "validateJsonSchemaInput input schema = Valid \<longleftrightarrow>
     well_shaped (JObj schema) \<and> conforms (JObj input) (JObj schema)"
  using shape_iff_well_shaped [of "JObj schema" "''$''"]
  by (auto simp: validateJsonSchemaInput_def value_valid_iff split: schema_check.splits)

lemma executable_iff:
  "validateExecutableRequest input = None \<longleftrightarrow>
     rs_status (ex_server input) = Server_active \<and> cs_status (ex_schema input) = Schema_active
     \<and> request_matches input
     \<and> well_shaped (JObj (cs_inputSchema (ex_schema input)))
     \<and> conforms (JObj (pq_input (ex_request input))) (JObj (cs_inputSchema (ex_schema input)))"
  using input_checked_iff [of "pq_input (ex_request input)" "cs_inputSchema (ex_schema input)"]
  by (auto simp: validateExecutableRequest_def request_matches_def Let_def split: schema_check.splits)

lemma approval_iff:
  "validateMcpApproval input = None \<longleftrightarrow>
     (requiresApprovalForRequest (ex_request input) \<longrightarrow> approval_granted input)"
  by (auto simp: validateMcpApproval_def approval_granted_def split: option.splits)

lemma may_execute_iff:
  "may_execute now input \<longleftrightarrow> validateExecutableRequest input = None \<and> validateMcpApproval input = None
     \<and> canInvoke (ex_allowlist input) (ex_tenantId input) (pq_resource (ex_request input))
         (or_else (ex_executedAt input) now) = Inr True"
  unfolding may_execute_def executable_iff approval_iff by blast

lemma success_iff:
  "isl (execution_success_of E input at v) \<longleftrightarrow> v = JUndef"
proof -
  have "fst (redactUnknownMcpOutput v) = JUndef \<longleftrightarrow> v = JUndef"
    by (cases v) simp_all
  then show ?thesis
    using hashUnknown_fails_iff [of E "fst (redactUnknownMcpOutput v)"]
    by (auto simp: execution_success_of_def redactMcpCredentialReferences_def Let_def
        split: prod.splits sum.splits)
qed

lemma success_outcome:
  "execution_success_of E input at v = Inl e \<Longrightarrow> v = JUndef"
  "execution_success_of E input at v = Inr s \<Longrightarrow> v \<noteq> JUndef"
  using success_iff [of E input at v] by auto

lemma execute_world:
  "snd (executeMcpProxyRequest E transport now input w) =
     (if may_execute now input then snd (transport w (invocation_of E input)) else w)"
  by (auto simp: executeMcpProxyRequest_def may_execute_iff Let_def
      split: option.splits sum.splits bool.splits transport_reply.splits prod.splits)

lemma execute_result:
  "(\<exists>s. fst (executeMcpProxyRequest E transport now input w) = Inr (Executed s)) \<longleftrightarrow>
     may_execute now input \<and> (\<exists>v. fst (transport w (invocation_of E input)) = Returned v \<and> v \<noteq> JUndef)"
proof (cases "may_execute now input")
  case True
  then show ?thesis
    by (cases "transport w (invocation_of E input)"; cases "fst (transport w (invocation_of E input))")
      (auto simp: executeMcpProxyRequest_def may_execute_iff Let_def split: sum.splits dest: success_outcome)
next
  case False
  then show ?thesis
    by (auto simp: executeMcpProxyRequest_def may_execute_iff Let_def
        split: option.splits sum.splits bool.splits)
qed

text \<open>
  C16. The transport is called, once and with copies of the request, its server and its schema,
  exactly when the server and the schema are active and are those of the request (down to the
  hash), the input conforms to the schema, the tenant is allowed the tool and has not lost it by
  expiry, and an approval of this very request was granted if it needs one. Otherwise nothing
  happens; and a result says executed exactly when the transport then returned a value.
\<close>

theorem tool_called_iff_allowed:
  "snd (executeMcpProxyRequest E transport now input w) =
     (if may_execute now input then snd (transport w (invocation_of E input)) else w) \<and>
   (\<exists>s. fst (executeMcpProxyRequest E transport now input w) = Inr (Executed s)) =
     (may_execute now input \<and> (\<exists>v. fst (transport w (invocation_of E input)) = Returned v \<and> v \<noteq> JUndef))"
  by (rule conjI [OF execute_world execute_result])

text \<open>The call throws after the tool ran, when the transport returned \<open>undefined\<close>.\<close>

lemma undefined_output_throws:
  assumes "may_execute now input" "transport w (invocation_of E input) = (Returned JUndef, w')"
  shows "throws (executeMcpProxyRequest E transport now input w)"
  using assms success_iff [of E input "or_else (ex_executedAt input) now" JUndef]
  by (auto simp: executeMcpProxyRequest_def may_execute_iff Let_def split: sum.splits)

section \<open>A request that was created runs\<close>

text \<open>Values as \<open>JSON.parse\<close> gives them: no \<open>undefined\<close> at any depth, distinct keys.\<close>

fun parsed_json :: "json \<Rightarrow> bool" where
  "parsed_json (JArr vs) = (\<forall>v \<in> set vs. parsed_json v)"
| "parsed_json (JObj es) = (distinct (map fst es) \<and> (\<forall>(k, v) \<in> set es. parsed_json v))"
| "parsed_json v = (v \<noteq> JUndef)"

lemma parsed_not_undefined: "parsed_json v \<Longrightarrow> v \<noteq> JUndef"
  by (cases v) simp_all

lemma set_cloneRecord_parsed:
  assumes "parsed_json (JObj es)"
  shows "set (cloneRecord E es) = {(k, stableJson (env_collate E) v) | k v. (k, v) \<in> set es}"
  using assms parsed_not_undefined unfolding set_cloneRecord by fastforce

lemma has_own_clone: "parsed_json (JObj es) \<Longrightarrow> has_own (cloneRecord E es) k = has_own es k"
  unfolding has_own_iff by (subst set_cloneRecord_parsed) force+

lemma scalar_copies [simp]:
  "isBoolean (stableJson c v) = isBoolean v" "isInteger (stableJson c v) = isInteger v"
  "is_finite_number (stableJson c v) = is_finite_number v" "isString (stableJson c v) = isString v"
  by (cases v; simp add: isBoolean_def isInteger_def is_finite_number_def isString_def)+

lemma conforms_copy:
  "conforms v s \<Longrightarrow> parsed_json v \<Longrightarrow> conforms (stableJson (env_collate (E :: env)) v) s"
proof (induction rule: conforms.induct)
  case (array es vs)
  then show ?case by (auto intro!: conforms.array)
next
  case (object es ps req own)
  show ?case
    unfolding stableJson_record
  proof (rule conforms.object)
    show "\<forall>k \<in> set req. has_own (cloneRecord E own) k"
      using object.hyps(5) object.prems by (simp add: has_own_clone del: parsed_json.simps)
    show "\<forall>(k, x) \<in> set (cloneRecord E own).
        field_described conforms ps (get_prop es ''additionalProperties'') k x"
    proof (clarsimp simp only: set_cloneRecord_parsed [OF object.prems] mem_Collect_eq prod.inject split_paired_all)
      fix k v
      assume kv: "(k, v) \<in> set own"
      then have "parsed_json v"
        using object.prems by auto
      with kv object.IH show "field_described conforms ps (get_prop es ''additionalProperties'') k
          (stableJson (env_collate E) v)"
        by (auto simp: field_described_def split: field_schema.splits)
    qed
  qed (use object.hyps in simp_all)
qed (auto intro: conforms.intros)

lemma created_request:
  assumes "createMcpProxyRequest E now input = Inr request"
  shows "canExposeTool (cp_grant input)" "rs_status (cp_server input) = Server_active"
    "cs_status (cp_schema input) = Schema_active" "cs_serverId (cp_schema input) = rs_id (cp_server input)"
    "gr_resource (cp_grant input) = cs_resource (cp_schema input)"
    "validateJsonSchemaInput (cp_input input) (cs_inputSchema (cp_schema input)) = Valid"
    "pq_serverId request = rs_id (cp_server input)" "pq_toolName request = cs_toolName (cp_schema input)"
    "pq_resource request = cs_resource (cp_schema input)" "pq_schemaHash request = cs_hash (cp_schema input)"
    "pq_input request = cloneRecord E (cp_input input)" "gr_risk (cp_grant input) \<le> pq_risk request"
    "requiresApprovalForRequest request \<longleftrightarrow> gr_requiresApproval (cp_grant input)
       \<or> gr_decision (cp_grant input) = Ask \<or> Write_external \<le> pq_risk request"
  using assms
  by (auto simp: createMcpProxyRequest_def requiresApprovalForRequest_def requiresApprovalForRisk_iff
      highestRisk_max Let_def split: if_splits schema_check.splits)

definition execution_input :: "create_proxy_input \<Rightarrow> mcp_proxy_request \<Rightarrow> string \<Rightarrow> tool_allowlist
    \<Rightarrow> mcp_tool_approval option \<Rightarrow> iso_date option \<Rightarrow> execute_proxy_input" where
  "execution_input c request tenantId allowlist approval executedAt =
     \<lparr> ex_tenantId = tenantId, ex_request = request, ex_server = cp_server c, ex_schema = cp_schema c,
       ex_allowlist = allowlist, ex_approval = approval, ex_executedAt = executedAt \<rparr>"

text \<open>
  C22. A request created from a grant runs: executed for an allowed tenant on the server and the
  schema it was created for, with a granted approval of it if it needs one, it reaches the
  transport. It needs one when its grant asks for it or its risk, at least the one granted, is an
  external write or more. The input is a value as \<open>JSON.parse\<close> gives it.
\<close>

theorem created_request_runs:
  assumes "createMcpProxyRequest E created c = Inr request"
    and "parsed_json (JObj (cp_input c))"
    and "canInvoke allowlist tenantId (cs_resource (cp_schema c)) at = Inr True"
    and "gr_requiresApproval (cp_grant c) \<or> gr_decision (cp_grant c) = Ask \<or> Write_external \<le> pq_risk request \<Longrightarrow>
      approval_granted (execution_input c request tenantId allowlist approval (Some at))"
  shows "snd (executeMcpProxyRequest E transport now
           (execution_input c request tenantId allowlist approval (Some at)) w) =
         snd (transport w (invocation_of E (execution_input c request tenantId allowlist approval (Some at))))
    \<and> gr_risk (cp_grant c) \<le> pq_risk request"
proof -
  note r = created_request [OF assms(1)]
  from r(6) have "well_shaped (JObj (cs_inputSchema (cp_schema c)))"
    "conforms (JObj (cp_input c)) (JObj (cs_inputSchema (cp_schema c)))"
    using input_checked_iff by blast+
  with conforms_copy [OF this(2) assms(2), of E] r assms(3,4)
  have "may_execute now (execution_input c request tenantId allowlist approval (Some at))"
    unfolding stableJson_record
    by (simp add: may_execute_def execution_input_def request_matches_def)
  with r(12) show ?thesis
    by (simp add: execute_world)
qed

section \<open>What the gateway returns\<close>

fun mcp_clean :: "json \<Rightarrow> bool" where
  "mcp_clean (JStr s) = (s \<in> range redactMcpCredentialText)"
| "mcp_clean (JArr vs) = (\<forall>v \<in> set vs. mcp_clean v)"
| "mcp_clean (JObj es) =
     (\<forall>(k, v) \<in> set es. if isSensitiveMcpOutputFieldName k then v = mcp_masked else mcp_clean v)"
| "mcp_clean _ = True"

lemma mcp_clean_redact: "mcp_clean (fst (redactUnknownMcpOutput v))"
  by (induction v rule: redactUnknownMcpOutput.induct) (auto split: if_splits)

lemma unflagged_unchanged: "\<not> snd (redactUnknownMcpOutput v) \<Longrightarrow> fst (redactUnknownMcpOutput v) = v"
proof (induction v rule: redactUnknownMcpOutput.induct)
  case (2 vs)
  then show ?case by (auto simp: list_ex_iff intro!: map_idI)
next
  case (3 es)
  then show ?case by (fastforce simp: list_ex_iff intro!: map_idI split: prod.splits if_splits)
qed auto

lemma executed_output:
  assumes "fst (executeMcpProxyRequest E transport now input w) = Inr (Executed s)"
  obtains v where "fst (transport w (invocation_of E input)) = Returned v"
    "(es_output s, es_redacted s) = redactUnknownMcpOutput v"
  using assms
  by (auto simp: executeMcpProxyRequest_def execution_success_of_def redactMcpCredentialReferences_def Let_def
      split: option.splits sum.splits bool.splits transport_reply.splits prod.splits)

text \<open>
  In what an execution returns, every field with a sensitive name holds the mask and every
  other string went through the redaction of credentials, at any depth; the output is what the
  transport returned unless it is flagged as redacted.
\<close>

theorem executed_output_is_redacted:
  assumes "fst (executeMcpProxyRequest E transport now input w) = Inr (Executed s)"
  shows "mcp_clean (es_output s) \<and>
    (es_redacted s \<or> fst (transport w (invocation_of E input)) = Returned (es_output s))"
proof -
  obtain v where v: "fst (transport w (invocation_of E input)) = Returned v"
    "(es_output s, es_redacted s) = redactUnknownMcpOutput v"
    using assms by (rule executed_output)
  from v(2) have "es_output s = fst (redactUnknownMcpOutput v)" "es_redacted s = snd (redactUnknownMcpOutput v)"
    by (metis fst_conv snd_conv)+
  with v(1) mcp_clean_redact unflagged_unchanged show ?thesis by metis
qed

section \<open>A concrete call\<close>

definition demo_server :: registered_mcp_server where
  "demo_server = \<lparr> rs_id = ''ops'', rs_displayName = ''Ops'', rs_transport = In_process, rs_origin = ''local'',
     rs_status = Server_active, rs_tags = None \<rparr>"

definition demo_cached :: cached_tool_schema where
  "demo_cached = \<lparr> cs_serverId = ''ops'', cs_toolName = ''status'', cs_description = ''Reads.'',
     cs_inputSchema = demo_schema, cs_outputSchema = None, cs_schemaVersion = None,
     cs_resource = ''mcp:ops/status'', cs_risk = Some Read_internal, cs_cachedAt = Instant 0, cs_hash = ''h'',
     cs_status = Schema_active, cs_quarantineReason = None \<rparr>"

definition demo_create :: create_proxy_input where
  "demo_create = \<lparr> cp_runId = ''r1'', cp_grant = demo_grant Allow, cp_server = demo_server,
     cp_schema = demo_cached, cp_input = [(''count'', JNum 2)], cp_requestId = Some ''q1'',
     cp_createdAt = Some (Instant 0) \<rparr>"

definition demo_request :: mcp_proxy_request where
  "demo_request = \<lparr> pq_id = ''q1'', pq_runId = ''r1'', pq_serverId = ''ops'', pq_toolName = ''status'',
     pq_resource = ''mcp:ops/status'', pq_decision = Allow, pq_risk = Write_draft, pq_requiresApproval = False,
     pq_input = cloneRecord demo_env [(''count'', JNum 2)], pq_inputHash = hashRecord demo_env [(''count'', JNum 2)],
     pq_schemaHash = ''h'', pq_createdAt = Instant 0 \<rparr>"

definition demo_allowlist :: tool_allowlist where
  "demo_allowlist = [(''t1'', [(''mcp:ops/status'', \<lparr> al_tenantId = ''t1'', al_resource = ''mcp:ops/status'',
     al_expiresAt = Some (Instant 10), al_reason = None \<rparr>)])]"

definition demo_transport :: "nat \<Rightarrow> mcp_transport_invocation \<Rightarrow> transport_reply \<times> nat" where
  "demo_transport calls _ = (Returned JNull, calls + 1)"

definition demo_execution :: execute_proxy_input where
  "demo_execution = execution_input demo_create demo_request ''t1'' demo_allowlist None (Some (Instant 5))"

lemma demo_created: "createMcpProxyRequest demo_env (Instant 0) demo_create = Inr demo_request"
  using demo_input_accepted
  by (simp add: createMcpProxyRequest_def demo_create_def demo_request_def demo_cached_def demo_server_def
      demo_grant_def canExposeTool_def highestRisk_def requiresApprovalForRisk_def Let_def)

lemma demo_allowed: "canInvoke demo_allowlist ''t1'' ''mcp:ops/status'' (Instant 5) = Inr True"
  by (simp add: canInvoke_def listFor_def demo_allowlist_def timestampMs_def)

lemma demo_may_execute: "may_execute now demo_execution"
proof -
  have "conforms (JObj [(''count'', JNum 2)]) (JObj demo_schema)" "well_shaped (JObj demo_schema)"
    using demo_input_accepted by (simp_all add: input_checked_iff)
  with conforms_copy [OF this(1), of demo_env] demo_allowed show ?thesis
    unfolding stableJson_record
    by (simp add: may_execute_def demo_execution_def execution_input_def demo_create_def demo_request_def
        demo_cached_def demo_server_def request_matches_def requiresApprovalForRequest_def
        requiresApprovalForRisk_def)
qed

theorem created_request_runs_witness:
  "snd (executeMcpProxyRequest demo_env demo_transport (Instant 0) demo_execution 0) = 1 \<and>
   Write_draft \<le> pq_risk demo_request"
  using created_request_runs [OF demo_created, of demo_allowlist "''t1''" "Instant 5" None demo_transport "Instant 0" 0]
    demo_allowed
  by (simp add: demo_execution_def demo_create_def demo_cached_def demo_grant_def demo_request_def
      less_eq_risk_level_def demo_transport_def)

theorem executed_output_is_redacted_witness:
  "\<exists>s. fst (executeMcpProxyRequest demo_env demo_transport (Instant 0) demo_execution 0) = Inr (Executed s) \<and>
     mcp_clean (es_output s)"
proof -
  obtain s where s: "fst (executeMcpProxyRequest demo_env demo_transport (Instant 0) demo_execution 0) = Inr (Executed s)"
    using execute_result [of demo_env demo_transport "Instant 0" demo_execution 0] demo_may_execute
    by (auto simp: demo_transport_def)
  from executed_output_is_redacted [OF s] s show ?thesis by blast
qed

end
