(* ===== verification/Router_Select.thy ===== *)
theory Router_Select
  imports Domain Complex_Main "HOL-Library.AList"
begin

text \<open>
  Choosing a model, \<open>packages/model-router/src/index.ts\<close>: the registry of providers, the cost of a
  call from a benchmark, the ranking of the candidates of a policy, \<open>selectModel\<close>,
  \<open>preflightModelBudget\<close> and the sequence of routes for failover. Scores and prices are rational
  numbers and computed exactly; token counts and cents are integers. The lemmas show what is
  selected and that every routable candidate is tried once.
\<close>

section \<open>Providers\<close>

datatype route_mode = Mode_auto | Mode_best | Mode_fast | Mode_cheap

datatype provider_kind =
  Prov_openai | Prov_anthropic | Prov_openai_compatible | Prov_local | Prov_fake | Prov_custom

datatype provider_status = Provider_active | Provider_degraded | Provider_disabled

datatype budget_decision = Within_budget | Over_budget

fun mode_str :: "route_mode \<Rightarrow> string" where
  "mode_str Mode_auto = ''auto''"
| "mode_str Mode_best = ''best''"
| "mode_str Mode_fast = ''fast''"
| "mode_str Mode_cheap = ''cheap''"

record model_benchmark =
  bm_model :: string
  bm_qualityScore :: rat
  bm_speedScore :: rat
  bm_inputCost :: rat
  bm_outputCost :: rat
  bm_contextWindowTokens :: rat
  bm_pricingBasis :: "string option"
  bm_pricingSource :: "string option"
  bm_pricingUpdatedAt :: "string option"

record provider_model =
  pm_id :: string
  pm_benchmark :: "model_benchmark option"
  pm_enabled :: "bool option"
  pm_aliases :: "string list option"

record provider_registration =
  pv_id :: string
  pv_displayName :: string
  pv_kind :: provider_kind
  pv_status :: "provider_status option"
  pv_models :: "provider_model list"
  pv_tags :: "string list option"

record registered_provider =
  rv_id :: string
  rv_displayName :: string
  rv_kind :: provider_kind
  rv_status :: provider_status
  rv_models :: "provider_model list"
  rv_tags :: "string list option"

record registered_model =
  rm_provider :: registered_provider
  rm_model :: provider_model
  rm_modelId :: string
  rm_benchmark :: "model_benchmark option"

type_synonym provider_registry = "(string \<times> registered_provider) list"

definition normalizeProvider :: "provider_registration \<Rightarrow> registered_provider" where
  "normalizeProvider p =
     \<lparr> rv_id = pv_id p, rv_displayName = pv_displayName p, rv_kind = pv_kind p,
       rv_status = or_else (pv_status p) Provider_active, rv_models = pv_models p, rv_tags = pv_tags p \<rparr>"

definition registerProvider :: "provider_registration \<Rightarrow> provider_registry \<Rightarrow> registered_provider \<times> provider_registry" where
  "registerProvider p providers =
     (let normalized = normalizeProvider p in (normalized, AList.update (rv_id normalized) normalized providers))"

definition createModelProviderRegistry :: "provider_registration list \<Rightarrow> provider_registry" where
  "createModelProviderRegistry registrations = foldl (\<lambda>providers p. snd (registerProvider p providers)) [] registrations"

definition listProviders :: "provider_registry \<Rightarrow> registered_provider list" where
  "listProviders providers = map snd providers"

definition getProvider :: "provider_registry \<Rightarrow> string \<Rightarrow> registered_provider option" where
  "getProvider providers providerId = map_of providers providerId"

definition names_model :: "string \<Rightarrow> provider_model \<Rightarrow> bool" where
  "names_model modelId m = (pm_id m = modelId \<or> (case pm_aliases m of None \<Rightarrow> False | Some as \<Rightarrow> modelId \<in> set as))"

fun resolveModel :: "provider_registry \<Rightarrow> string \<Rightarrow> registered_model option" where
  "resolveModel [] modelId = None"
| "resolveModel ((_, provider) # rest) modelId =
     (case List.find (names_model modelId) (rv_models provider) of
        Some m \<Rightarrow> Some \<lparr> rm_provider = provider, rm_model = m, rm_modelId = pm_id m, rm_benchmark = pm_benchmark m \<rparr>
      | None \<Rightarrow> resolveModel rest modelId)"

definition is_routable :: "registered_model \<Rightarrow> bool" where
  "is_routable r \<longleftrightarrow> rv_status (rm_provider r) \<noteq> Provider_disabled \<and> pm_enabled (rm_model r) \<noteq> Some False"

definition policyCandidateModels :: "model_policy \<Rightarrow> string list" where
  "policyCandidateModels policy = dedupe (mp_defaultModel policy # mp_fallbackModels policy)"

definition candidatesForPolicy :: "provider_registry \<Rightarrow> model_policy \<Rightarrow> registered_model list" where
  "candidatesForPolicy providers policy =
     filter is_routable (List.map_filter (resolveModel providers) (policyCandidateModels policy))"

definition registryBenchmarks :: "provider_registry \<Rightarrow> model_benchmark list" where
  "registryBenchmarks providers =
     concat (map (\<lambda>p. List.map_filter pm_benchmark (rv_models p)) (listProviders providers))"

section \<open>The default registry\<close>

definition priced :: "string \<Rightarrow> rat \<Rightarrow> rat \<Rightarrow> rat \<Rightarrow> rat \<Rightarrow> rat \<Rightarrow> provider_model" where
  "priced model quality speed input output window =
     \<lparr> pm_id = model,
       pm_benchmark = Some \<lparr> bm_model = model, bm_qualityScore = quality, bm_speedScore = speed,
         bm_inputCost = input, bm_outputCost = output, bm_contextWindowTokens = window,
         bm_pricingBasis = Some ''configured_benchmark'', bm_pricingSource = Some ''bek_default'',
         bm_pricingUpdatedAt = Some ''2026-06-25'' \<rparr>,
       pm_enabled = None, pm_aliases = None \<rparr>"

definition provider_of :: "string \<Rightarrow> string \<Rightarrow> provider_kind \<Rightarrow> provider_model list \<Rightarrow> provider_registration" where
  "provider_of ident name kind models =
     \<lparr> pv_id = ident, pv_displayName = name, pv_kind = kind, pv_status = None, pv_models = models, pv_tags = None \<rparr>"

definition defaultModelProviderRegistrations :: "provider_registration list" where
  "defaultModelProviderRegistrations =
     [provider_of ''openai'' ''OpenAI'' Prov_openai
        [priced ''openai/gpt-5.4'' 95 70 125 1000 400000, priced ''openai/gpt-5.5'' 97 68 150 1200 400000],
      provider_of ''anthropic'' ''Anthropic'' Prov_anthropic
        [priced ''anthropic/claude-sonnet-4.8'' 90 82 300 1500 200000],
      provider_of ''openai-compatible'' ''OpenAI-compatible local'' Prov_openai_compatible
        [priced ''openai-compatible/local'' 62 100 0 0 32000]]"

definition createDefaultModelProviderRegistry :: provider_registry where
  "createDefaultModelProviderRegistry = createModelProviderRegistry defaultModelProviderRegistrations"

text \<open>\<open>model.split("/")[0]\<close>, when there is a slash and something before it.\<close>

definition parseProvider :: "string \<Rightarrow> string" where
  "parseProvider model =
     (let provider = takeWhile (\<lambda>c. c \<noteq> CHR ''/'') model
      in if provider \<noteq> [] \<and> provider \<noteq> model then provider else ''openai-compatible'')"

definition providerKindFromId :: "string \<Rightarrow> provider_kind" where
  "providerKindFromId ident =
     (if ident = ''openai'' then Prov_openai else if ident = ''anthropic'' then Prov_anthropic
      else if ident = ''openai-compatible'' then Prov_openai_compatible
      else if ident = ''local'' then Prov_local else Prov_custom)"

text \<open>\<open>split(/[-_]/)\<close> without empty parts.\<close>

fun split_parts :: "string \<Rightarrow> string \<Rightarrow> string list" where
  "split_parts acc [] = (if acc = [] then [] else [acc])"
| "split_parts acc (c # s) =
     (if c = CHR ''-'' \<or> c = CHR ''_'' then (if acc = [] then [] else [acc]) @ split_parts [] s
      else split_parts (acc @ [c]) s)"

definition upper_char :: "char \<Rightarrow> char" where
  "upper_char c =
     (let n = (of_char c :: nat)
      in if (97 \<le> n \<and> n \<le> 122) \<or> (224 \<le> n \<and> n \<le> 254 \<and> n \<noteq> 247) then char_of (n - 32) else c)"

definition capitalize :: "string \<Rightarrow> string" where
  "capitalize s = (case s of [] \<Rightarrow> [] | c # cs \<Rightarrow> upper_char c # cs)"

definition providerDisplayName :: "string \<Rightarrow> string" where
  "providerDisplayName ident =
     (if ident = ''openai'' then ''OpenAI'' else if ident = ''anthropic'' then ''Anthropic''
      else if ident = ''openai-compatible'' then ''OpenAI-compatible''
      else join '' '' (map capitalize (split_parts [] ident)))"

definition add_benchmark :: "provider_registration list \<Rightarrow> model_benchmark \<Rightarrow> provider_registration list" where
  "add_benchmark providers b =
     (let providerId = parseProvider (bm_model b);
          known = (if List.find (\<lambda>p. pv_id p = providerId) providers = None
                   then providers @ [provider_of providerId (providerDisplayName providerId)
                                       (providerKindFromId providerId) []]
                   else providers)
      in update_first (\<lambda>p. pv_id p = providerId)
           (\<lambda>p. p\<lparr> pv_models :=
              (if List.find (\<lambda>m. pm_id m = bm_model b) (pv_models p) = None
               then pv_models p @ [\<lparr> pm_id = bm_model b, pm_benchmark = Some b, pm_enabled = None, pm_aliases = None \<rparr>]
               else update_first (\<lambda>m. pm_id m = bm_model b) (\<lambda>m. m\<lparr> pm_benchmark := Some b \<rparr>) (pv_models p)) \<rparr>)
           known)"

definition createModelProviderRegistryFromBenchmarks :: "model_benchmark list \<Rightarrow> provider_registration list \<Rightarrow> provider_registry" where
  "createModelProviderRegistryFromBenchmarks benchmarks base =
     createModelProviderRegistry (foldl add_benchmark base benchmarks)"

section \<open>Cost\<close>

definition calculateModelUsageCostCents :: "model_benchmark option \<Rightarrow> int \<Rightarrow> int \<Rightarrow> int" where
  "calculateModelUsageCostCents benchmark inputTokens outputTokens =
     (case benchmark of
        None \<Rightarrow> 0
      | Some b \<Rightarrow>
          (let total = of_int inputTokens / 1000000 * bm_inputCost b + of_int outputTokens / 1000000 * bm_outputCost b
           in if total = 0 then 0 else max 1 \<lceil>total\<rceil>))"

definition estimateModelCostCents :: "model_benchmark option \<Rightarrow> int \<Rightarrow> int \<Rightarrow> int" where
  "estimateModelCostCents benchmark inputTokens outputTokens =
     (if benchmark = None then 1 else calculateModelUsageCostCents benchmark inputTokens outputTokens)"

section \<open>Ranking\<close>

record select_input =
  si_policy :: model_policy
  si_mode :: "route_mode option"
  si_estimatedInputTokens :: "int option"
  si_estimatedOutputTokens :: "int option"
  si_benchmarks :: "model_benchmark list option"
  si_registry :: "provider_registry option"

record ranked_candidate =
  rc_model :: string
  rc_benchmark :: "model_benchmark option"
  rc_estimatedCostCents :: int
  rc_score :: rat

record route_budget =
  rb_decision :: budget_decision
  rb_budgetCents :: int
  rb_estimatedCostCents :: int
  rb_remainingBudgetCents :: int
  rb_estimatedInputTokens :: int
  rb_estimatedOutputTokens :: int

record model_route =
  mo_provider :: string
  mo_model :: string
  mo_reason :: string
  mo_estimatedCostCents :: int
  mo_budget :: route_budget
  mo_benchmark :: "model_benchmark option"

definition mode_of :: "('a) select_input_scheme \<Rightarrow> route_mode" where
  "mode_of input = or_else (si_mode input) Mode_auto"

definition scoreModel :: "model_benchmark option \<Rightarrow> route_mode \<Rightarrow> rat" where
  "scoreModel benchmark mode =
     (case benchmark of
        None \<Rightarrow> 1
      | Some b \<Rightarrow>
          (case mode of
             Mode_best \<Rightarrow> bm_qualityScore b * 2 + bm_contextWindowTokens b / 100000
           | Mode_fast \<Rightarrow> bm_speedScore b * 2 + bm_qualityScore b
           | Mode_cheap \<Rightarrow> 100000 / max 1 (bm_inputCost b + bm_outputCost b) + bm_qualityScore b / 10
           | Mode_auto \<Rightarrow> bm_qualityScore b + bm_speedScore b - (bm_inputCost b + bm_outputCost b) / 1000))"

definition filterRoutableModels :: "string list \<Rightarrow> provider_registry option \<Rightarrow> string list" where
  "filterRoutableModels models registry =
     (case registry of
        None \<Rightarrow> dedupe models
      | Some r \<Rightarrow> filter (\<lambda>m. case resolveModel r m of None \<Rightarrow> False | Some x \<Rightarrow> is_routable x) (dedupe models))"

definition better_candidate :: "ranked_candidate \<Rightarrow> ranked_candidate \<Rightarrow> bool" where
  "better_candidate left right =
     (if rc_score left \<noteq> rc_score right then rc_score right < rc_score left
      else rc_estimatedCostCents left \<le> rc_estimatedCostCents right)"

definition candidate_of :: "'a select_input_scheme \<Rightarrow> string \<Rightarrow> ranked_candidate" where
  "candidate_of input model =
     (let benchmarks = or_else (si_benchmarks input)
            (case si_registry input of None \<Rightarrow> [] | Some r \<Rightarrow> registryBenchmarks r);
          registered = Option.bind (si_registry input) (\<lambda>r. resolveModel r model);
          benchmark = (case List.find (\<lambda>b. bm_model b = model) benchmarks of
              Some b \<Rightarrow> Some b | None \<Rightarrow> Option.bind registered rm_benchmark)
      in \<lparr> rc_model = model, rc_benchmark = benchmark,
           rc_estimatedCostCents = estimateModelCostCents benchmark
             (or_else (si_estimatedInputTokens input) 0) (or_else (si_estimatedOutputTokens input) 0),
           rc_score = scoreModel benchmark (mode_of input) \<rparr>)"

definition rankModelCandidates :: "'a select_input_scheme \<Rightarrow> string list \<Rightarrow> ranked_candidate list" where
  "rankModelCandidates input models =
     sort_by better_candidate (map (candidate_of input) (filterRoutableModels models (si_registry input)))"

definition affordable_candidates :: "'a select_input_scheme \<Rightarrow> ranked_candidate list \<Rightarrow> ranked_candidate list" where
  "affordable_candidates input scored =
     filter (\<lambda>c. rc_estimatedCostCents c \<le> mp_perRunBudgetCents (si_policy input)) scored"

definition selectRankedModelCandidate :: "'a select_input_scheme \<Rightarrow> ranked_candidate list
    \<Rightarrow> js_error + (ranked_candidate \<times> ranked_candidate list)" where
  "selectRankedModelCandidate input scored =
     (if scored = [] then Inl (Error ''No model candidates were available for routing.'')
      else
        (let affordable = affordable_candidates input scored;
             pool = (if affordable \<noteq> [] then affordable else scored);
             default = (if mode_of input = Mode_auto
                        then List.find (\<lambda>c. rc_model c = mp_defaultModel (si_policy input)) affordable else None)
         in Inr (or_else default (hd (sort_by better_candidate pool)), affordable)))"

definition routeBudgetPreflight :: "ranked_candidate \<Rightarrow> 'a select_input_scheme \<Rightarrow> route_budget" where
  "routeBudgetPreflight candidate input =
     (let remaining = mp_perRunBudgetCents (si_policy input) - rc_estimatedCostCents candidate
      in \<lparr> rb_decision = (if 0 \<le> remaining then Within_budget else Over_budget),
           rb_budgetCents = mp_perRunBudgetCents (si_policy input),
           rb_estimatedCostCents = rc_estimatedCostCents candidate, rb_remainingBudgetCents = remaining,
           rb_estimatedInputTokens = or_else (si_estimatedInputTokens input) 0,
           rb_estimatedOutputTokens = or_else (si_estimatedOutputTokens input) 0 \<rparr>)"

definition reasonForSelection :: "route_mode \<Rightarrow> string \<Rightarrow> string \<Rightarrow> bool \<Rightarrow> string" where
  "reasonForSelection mode model defaultModel withinBudget =
     (if \<not> withinBudget
      then ''Selected '' @ model @ '' even though the estimate exceeds budget because no configured model fits.''
      else if mode = Mode_auto \<and> model = defaultModel then ''Selected default balanced model within budget.''
      else ''Selected '' @ model @ '' for '' @ mode_str mode @ '' routing within budget.'')"

definition selectModel :: "'a select_input_scheme \<Rightarrow> js_error + model_route" where
  "selectModel input =
     (case selectRankedModelCandidate input
             (rankModelCandidates input (policyCandidateModels (si_policy input))) of
        Inl e \<Rightarrow> Inl e
      | Inr (selected, affordable) \<Rightarrow> Inr
          \<lparr> mo_provider = parseProvider (rc_model selected), mo_model = rc_model selected,
            mo_reason = reasonForSelection (mode_of input) (rc_model selected)
              (mp_defaultModel (si_policy input)) (affordable \<noteq> []),
            mo_estimatedCostCents = rc_estimatedCostCents selected,
            mo_budget = routeBudgetPreflight selected input, mo_benchmark = rc_benchmark selected \<rparr>)"

record preflight_candidate = route_budget +
  fc_provider :: string
  fc_model :: string
  fc_score :: rat
  fc_benchmark :: "model_benchmark option"

record preflight_result =
  pf_policyId :: string
  pf_mode :: route_mode
  pf_decision :: budget_decision
  pf_budgetCents :: int
  pf_selectedProvider :: string
  pf_selectedModel :: string
  pf_estimatedCostCents :: int
  pf_remainingBudgetCents :: int
  pf_estimatedInputTokens :: int
  pf_estimatedOutputTokens :: int
  pf_affordableModels :: "string list"
  pf_candidates :: "preflight_candidate list"
  pf_reason :: string

definition budgetPreflightCandidate :: "ranked_candidate \<Rightarrow> 'a select_input_scheme \<Rightarrow> preflight_candidate" where
  "budgetPreflightCandidate candidate input =
     route_budget.extend (routeBudgetPreflight candidate input)
       (preflight_candidate.fields (parseProvider (rc_model candidate)) (rc_model candidate) (rc_score candidate)
          (rc_benchmark candidate))"

definition budgetPreflightReason :: "ranked_candidate \<Rightarrow> bool \<Rightarrow> string" where
  "budgetPreflightReason selected hasAffordable =
     (if hasAffordable then rc_model selected @ '' is within the configured per-run budget.''
      else rc_model selected
        @ '' exceeds the configured per-run budget, and no configured model fits the estimate.'')"

definition preflightModelBudget :: "'a select_input_scheme \<Rightarrow> js_error + preflight_result" where
  "preflightModelBudget input =
     (let scored = rankModelCandidates input (policyCandidateModels (si_policy input)) in
      case selectRankedModelCandidate input scored of
        Inl e \<Rightarrow> Inl e
      | Inr (selected, affordable) \<Rightarrow>
          (let selectedBudget = routeBudgetPreflight selected input in Inr
           \<lparr> pf_policyId = mp_id (si_policy input), pf_mode = mode_of input,
             pf_decision = rb_decision selectedBudget, pf_budgetCents = mp_perRunBudgetCents (si_policy input),
             pf_selectedProvider = parseProvider (rc_model selected), pf_selectedModel = rc_model selected,
             pf_estimatedCostCents = rc_estimatedCostCents selected,
             pf_remainingBudgetCents = rb_remainingBudgetCents selectedBudget,
             pf_estimatedInputTokens = rb_estimatedInputTokens selectedBudget,
             pf_estimatedOutputTokens = rb_estimatedOutputTokens selectedBudget,
             pf_affordableModels = map rc_model affordable,
             pf_candidates = map (\<lambda>c. budgetPreflightCandidate c input) scored,
             pf_reason = budgetPreflightReason selected (affordable \<noteq> []) \<rparr>))"

definition routeFromCandidate :: "ranked_candidate \<Rightarrow> 'a select_input_scheme \<Rightarrow> string \<Rightarrow> model_route" where
  "routeFromCandidate candidate input reason =
     \<lparr> mo_provider = parseProvider (rc_model candidate), mo_model = rc_model candidate, mo_reason = reason,
       mo_estimatedCostCents = rc_estimatedCostCents candidate,
       mo_budget = routeBudgetPreflight candidate input, mo_benchmark = rc_benchmark candidate \<rparr>"

definition buildModelRouteSequence :: "'a select_input_scheme \<Rightarrow> js_error + model_route list" where
  "buildModelRouteSequence input =
     (case selectModel input of
        Inl e \<Rightarrow> Inl e
      | Inr selected \<Rightarrow>
          (let remaining = rankModelCandidates input
                 (filter (\<lambda>m. m \<noteq> mo_model selected) (policyCandidateModels (si_policy input)))
           in Inr (selected # map (\<lambda>c. routeFromCandidate c input
                (''Fallback candidate '' @ rc_model c @ '' for '' @ mode_str (mode_of input) @ '' routing.''))
                remaining)))"

end
