(* ===== verification/Router_Failover.thy ===== *)
theory Router_Failover
  imports Router_Select
begin

text \<open>
  Calling a model, \<open>packages/model-router/src/index.ts\<close>: the cost ledger, the gateways and
  \<open>runModelWithFailover\<close>, which walks the routes of a policy until one answers. A gateway is a
  parameter that changes a world of its own; the gateway over the AI SDK is modelled with the
  SDK's \<open>generateText\<close> as a parameter.
\<close>

section \<open>The cost ledger\<close>

datatype ledger_phase = Phase_estimate | Phase_actual

record cost_entry =
  ce_id :: string
  ce_runId :: string
  ce_phase :: ledger_phase
  ce_provider :: string
  ce_model :: string
  ce_inputTokens :: int
  ce_outputTokens :: int
  ce_costCents :: int
  ce_reason :: string
  ce_createdAt :: iso_date

record cost_input =
  ci_id :: "string option"
  ci_runId :: string
  ci_phase :: ledger_phase
  ci_provider :: string
  ci_model :: string
  ci_inputTokens :: int
  ci_outputTokens :: int
  ci_costCents :: int
  ci_reason :: string
  ci_createdAt :: "iso_date option"

record cost_summary =
  cu_runId :: "string option"
  cu_estimatedCostCents :: int
  cu_actualCostCents :: int
  cu_inputTokens :: int
  cu_outputTokens :: int
  cu_entries :: nat

fun phase_str :: "ledger_phase \<Rightarrow> string" where
  "phase_str Phase_estimate = ''estimate''"
| "phase_str Phase_actual = ''actual''"

definition createModelCostLedgerEntry :: "iso_date \<Rightarrow> cost_input \<Rightarrow> nat \<Rightarrow> cost_entry" where
  "createModelCostLedgerEntry now input sequence =
     \<lparr> ce_id = or_else (ci_id input) (ci_runId input @ '':'' @ phase_str (ci_phase input) @ '':'' @ ci_provider input
         @ '':'' @ ci_model input @ '':'' @ nat_str sequence),
       ce_runId = ci_runId input, ce_phase = ci_phase input, ce_provider = ci_provider input,
       ce_model = ci_model input, ce_inputTokens = ci_inputTokens input, ce_outputTokens = ci_outputTokens input,
       ce_costCents = ci_costCents input, ce_reason = ci_reason input,
       ce_createdAt = or_else (ci_createdAt input) now \<rparr>"

definition recordCost :: "iso_date \<Rightarrow> cost_input \<Rightarrow> cost_entry list \<Rightarrow> cost_entry list" where
  "recordCost now input entries = entries @ [createModelCostLedgerEntry now input (length entries + 1)]"

definition of_cost_run :: "string option \<Rightarrow> cost_entry \<Rightarrow> bool" where
  "of_cost_run runId entry = (\<not> truthy runId \<or> Some (ce_runId entry) = runId)"

definition listCosts :: "cost_entry list \<Rightarrow> string option \<Rightarrow> cost_entry list" where
  "listCosts entries runId = filter (of_cost_run runId) entries"

definition cost_step :: "cost_summary \<Rightarrow> cost_entry \<Rightarrow> cost_summary" where
  "cost_step s entry =
     (let costed = (if ce_phase entry = Phase_estimate
            then s\<lparr>cu_estimatedCostCents := cu_estimatedCostCents s + ce_costCents entry\<rparr>
            else s\<lparr>cu_actualCostCents := cu_actualCostCents s + ce_costCents entry\<rparr>)
      in costed\<lparr> cu_inputTokens := cu_inputTokens costed + ce_inputTokens entry,
                 cu_outputTokens := cu_outputTokens costed + ce_outputTokens entry \<rparr>)"

definition summarizeModelCostLedger :: "cost_entry list \<Rightarrow> string option \<Rightarrow> cost_summary" where
  "summarizeModelCostLedger entries runId =
     (let filtered = filter (of_cost_run runId) entries in
      foldl cost_step \<lparr> cu_runId = (if truthy runId then runId else None), cu_estimatedCostCents = 0,
        cu_actualCostCents = 0, cu_inputTokens = 0, cu_outputTokens = 0, cu_entries = length filtered \<rparr> filtered)"

definition summarizeCosts :: "cost_entry list \<Rightarrow> string option \<Rightarrow> cost_summary" where
  "summarizeCosts entries runId = summarizeModelCostLedger (listCosts entries runId) runId"

section \<open>Gateways\<close>

record gateway_context =
  gx_orgId :: "string option"
  gx_requesterId :: "string option"
  gx_traceId :: "string option"
  gx_tags :: "string list option"

record gateway_request =
  gq_runId :: string
  gq_route :: model_route
  gq_prompt :: string
  gq_inputTokens :: "int option"
  gq_outputTokens :: "int option"
  gq_createdAt :: "iso_date option"
  gq_context :: "gateway_context option"

record gateway_response =
  gp_runId :: string
  gp_provider :: string
  gp_model :: string
  gp_content :: string
  gp_inputTokens :: int
  gp_outputTokens :: int
  gp_costCents :: int
  gp_latencyMs :: "int option"
  gp_finishReason :: "string option"
  gp_rawFinishReason :: "string option"
  gp_gatewayResponseId :: "string option"
  gp_createdAt :: iso_date

text \<open>A \<open>ModelGatewayError\<close> says whether to retry; any other thrown value has only a text.\<close>

datatype gateway_reply =
    Completed gateway_response
  | Gateway_error string bool
  | Other_error string

text \<open>\<open>Math.ceil(words * 1.3)\<close> for whole numbers of words.\<close>

fun count_words :: "bool \<Rightarrow> string \<Rightarrow> nat" where
  "count_words inside [] = 0"
| "count_words inside (c # s) =
     (if is_space c then count_words False s
      else (if inside then 0 else 1) + count_words True s)"

definition estimatePromptTokens :: "string \<Rightarrow> int" where
  "estimatePromptTokens prompt = max 1 \<lceil>of_nat (count_words False prompt) * (13 / 10 :: rat)\<rceil>"

record fake_behavior =
  fb_fail :: "bool option"
  fb_retryable :: "bool option"
  fb_error :: "string option"
  fb_content :: "string option"
  fb_inputTokens :: "int option"
  fb_outputTokens :: "int option"

definition setBehavior :: "string \<Rightarrow> fake_behavior \<Rightarrow> (string \<times> fake_behavior) list \<Rightarrow> (string \<times> fake_behavior) list" where
  "setBehavior model behavior behaviors = AList.update model behavior behaviors"

definition first_of :: "'a option \<Rightarrow> 'a option \<Rightarrow> 'a option" where
  "first_of a b = (case a of None \<Rightarrow> b | Some x \<Rightarrow> Some x)"

definition fake_complete :: "iso_date \<Rightarrow> provider_registry option \<Rightarrow> (string \<times> fake_behavior) list
    \<Rightarrow> gateway_request \<Rightarrow> gateway_reply" where
  "fake_complete now registry behaviors request =
     (let model = mo_model (gq_route request);
          registered = Option.bind registry (\<lambda>r. resolveModel r model);
          behavior = map_of behaviors model
      in if (case registered of None \<Rightarrow> False | Some r \<Rightarrow> \<not> is_routable r)
         then Gateway_error (model @ '' is disabled in the provider registry.'') False
         else if (case behavior of None \<Rightarrow> False | Some b \<Rightarrow> fb_fail b = Some True)
         then Gateway_error (or_else (Option.bind behavior fb_error) (model @ '' failed locally.''))
                (or_else (Option.bind behavior fb_retryable) True)
         else
           (let inputTokens = or_else (first_of (Option.bind behavior fb_inputTokens) (gq_inputTokens request))
                  (estimatePromptTokens (gq_prompt request));
                outputTokens = or_else (first_of (Option.bind behavior fb_outputTokens) (gq_outputTokens request)) 32;
                benchmark = first_of (Option.bind registered rm_benchmark) (mo_benchmark (gq_route request))
            in Completed \<lparr> gp_runId = gq_runId request, gp_provider = mo_provider (gq_route request),
                 gp_model = model,
                 gp_content = or_else (Option.bind behavior fb_content) (''Bek fake model response from '' @ model @ ''.''),
                 gp_inputTokens = inputTokens, gp_outputTokens = outputTokens,
                 gp_costCents = calculateModelUsageCostCents benchmark inputTokens outputTokens,
                 gp_latencyMs = None, gp_finishReason = None, gp_rawFinishReason = None, gp_gatewayResponseId = None,
                 gp_createdAt = or_else (gq_createdAt request) now \<rparr>))"

subsection \<open>The gateway over the AI SDK\<close>

text \<open>Usage counts the SDK reports: absent, not finite (\<open>None\<close> inside), or a number.\<close>

record sdk_usage =
  su_inputTokens :: "rat option"
  su_outputTokens :: "rat option"

record sdk_response =
  sr_id :: "string option"
  sr_modelId :: "string option"

record sdk_final_step =
  sf_usage :: "sdk_usage option"
  sf_finishReason :: "string option"
  sf_response :: "sdk_response option"

record sdk_result =
  sk_text :: string
  sk_usage :: "sdk_usage option"
  sk_totalUsage :: "sdk_usage option"
  sk_finishReason :: "string option"
  sk_rawFinishReason :: "string option"
  sk_response :: "sdk_response option"
  sk_finalStep :: "sdk_final_step option"

text \<open>What was thrown: its message, and the members \<open>isRetryable\<close> and \<open>statusCode\<close> when they have those types.\<close>

record sdk_error =
  sx_message :: string
  sx_isRetryable :: "bool option"
  sx_statusCode :: "int option"

definition normalizeTokenCount :: "rat option \<Rightarrow> int \<Rightarrow> int" where
  "normalizeTokenCount v fallback = (case v of None \<Rightarrow> max 0 fallback | Some n \<Rightarrow> max 0 \<lceil>n\<rceil>)"

definition gatewayErrorIsRetryable :: "sdk_error \<Rightarrow> bool" where
  "gatewayErrorIsRetryable e =
     (case sx_isRetryable e of
        Some b \<Rightarrow> b
      | None \<Rightarrow> (case sx_statusCode e of
          Some c \<Rightarrow> c = 408 \<or> c = 409 \<or> c = 425 \<or> c = 429 \<or> 500 \<le> c
        | None \<Rightarrow> True))"

definition gateway_tags :: "gateway_request \<Rightarrow> gateway_context option \<Rightarrow> string list" where
  "gateway_tags request context =
     dedupe (filter (\<lambda>t. t \<noteq> [])
       ([''bek'', ''provider:'' @ mo_provider (gq_route request), ''model:'' @ mo_model (gq_route request)]
        @ (case Option.bind context gx_orgId of None \<Rightarrow> [] | Some org \<Rightarrow> if org = [] then [] else [''org:'' @ org])
        @ or_else (Option.bind context gx_tags) []))"

definition gateway_user :: "gateway_context option \<Rightarrow> string option" where
  "gateway_user context =
     (case Option.bind context gx_requesterId of None \<Rightarrow> None | Some r \<Rightarrow> if r = [] then None else Some r)"

record sdk_request =
  sq_model :: string
  sq_prompt :: string
  sq_maxRetries :: int
  sq_timeout :: int
  sq_tags :: "string list"
  sq_user :: "string option"

record vercel_options =
  vo_maxRetries :: "int option"
  vo_timeoutMs :: "int option"
  vo_context :: "gateway_context option"

definition kept :: "string option \<Rightarrow> string option" where
  "kept s = (if truthy s then s else None)"

definition sdk_response_of :: "iso_date \<Rightarrow> int \<Rightarrow> gateway_request \<Rightarrow> sdk_result \<Rightarrow> gateway_response" where
  "sdk_response_of now latency request result =
     (let finalStep = sk_finalStep result;
          usage = first_of (first_of (sk_usage result) (sk_totalUsage result)) (Option.bind finalStep sf_usage);
          inputTokens = normalizeTokenCount (Option.bind usage su_inputTokens)
            (or_else (gq_inputTokens request) (estimatePromptTokens (gq_prompt request)));
          outputTokens = normalizeTokenCount (Option.bind usage su_outputTokens) (or_else (gq_outputTokens request) 0);
          response = first_of (Option.bind finalStep sf_response) (sk_response result);
          finishReason = first_of (Option.bind finalStep sf_finishReason) (sk_finishReason result)
      in \<lparr> gp_runId = gq_runId request, gp_provider = mo_provider (gq_route request),
           gp_model = or_else (Option.bind response sr_modelId) (mo_model (gq_route request)),
           gp_content = sk_text result, gp_inputTokens = inputTokens, gp_outputTokens = outputTokens,
           gp_costCents = calculateModelUsageCostCents (mo_benchmark (gq_route request)) inputTokens outputTokens,
           gp_latencyMs = Some (max 0 latency), gp_finishReason = kept finishReason,
           gp_rawFinishReason = kept (sk_rawFinishReason result),
           gp_gatewayResponseId = kept (Option.bind response sr_id),
           gp_createdAt = or_else (gq_createdAt request) now \<rparr>)"

definition vercel_complete :: "('w \<Rightarrow> sdk_request \<Rightarrow> (sdk_error + sdk_result) \<times> 'w) \<Rightarrow> vercel_options \<Rightarrow> iso_date \<Rightarrow> int
    \<Rightarrow> 'w \<Rightarrow> gateway_request \<Rightarrow> gateway_reply \<times> 'w" where
  "vercel_complete generate options now latency w request =
     (let context = first_of (gq_context request) (vo_context options);
          (result, w') = generate w
            \<lparr> sq_model = mo_model (gq_route request), sq_prompt = gq_prompt request,
              sq_maxRetries = or_else (vo_maxRetries options) 0, sq_timeout = or_else (vo_timeoutMs options) 120000,
              sq_tags = gateway_tags request context, sq_user = gateway_user context \<rparr>
      in (case result of
            Inl e \<Rightarrow> Gateway_error (sx_message e) (gatewayErrorIsRetryable e)
          | Inr r \<Rightarrow> Completed (sdk_response_of now latency request r), w'))"

section \<open>Failover\<close>

datatype attempt_status = Attempt_succeeded | Attempt_failed | Attempt_skipped

datatype attempt_kind = Kind_primary | Kind_fallback

record failover_decision =
  fd_attempt :: nat
  fd_kind :: attempt_kind
  fd_provider :: string
  fd_model :: string
  fd_estimatedCostCents :: int
  fd_budgetDecision :: budget_decision
  fd_budgetCents :: int
  fd_remainingBudgetCents :: int
  fd_reason :: string

record failover_attempt =
  fa_route :: model_route
  fa_status :: attempt_status
  fa_decision :: failover_decision
  fa_error :: "string option"
  fa_retryable :: "bool option"
  fa_actualCostCents :: "int option"

record approved_route =
  ar_provider :: string
  ar_model :: string
  ar_estimatedCostCents :: int

record failover_input = select_input +
  fi_runId :: string
  fi_prompt :: string
  fi_context :: "gateway_context option"
  fi_createdAt :: "iso_date option"
  fi_requireKnownPricing :: "bool option"
  fi_effectiveBudgetCents :: "int option"
  fi_approvedOverBudgetRoute :: "approved_route option"

record failover_result =
  fr_ok :: bool
  fr_route :: "model_route option"
  fr_response :: "gateway_response option"
  fr_attempts :: "failover_attempt list"
  fr_ledgerSummary :: cost_summary
  fr_error :: "string option"

definition effectiveRouteBudgetPreflight :: "model_route \<Rightarrow> 'a failover_input_scheme \<Rightarrow> route_budget" where
  "effectiveRouteBudgetPreflight route input =
     (let budgetCents = or_else (fi_effectiveBudgetCents input) (rb_budgetCents (mo_budget route));
          remaining = budgetCents - mo_estimatedCostCents route
      in (mo_budget route)\<lparr> rb_decision := (if 0 \<le> remaining then Within_budget else Over_budget),
           rb_budgetCents := budgetCents, rb_estimatedCostCents := mo_estimatedCostCents route,
           rb_remainingBudgetCents := remaining \<rparr>)"

definition failoverDecisionMetadata :: "model_route \<Rightarrow> nat \<Rightarrow> 'a failover_input_scheme \<Rightarrow> failover_decision" where
  "failoverDecisionMetadata route index input =
     (let budget = effectiveRouteBudgetPreflight route input in
      \<lparr> fd_attempt = index + 1, fd_kind = (if index = 0 then Kind_primary else Kind_fallback),
        fd_provider = mo_provider route, fd_model = mo_model route,
        fd_estimatedCostCents = rb_estimatedCostCents budget, fd_budgetDecision = rb_decision budget,
        fd_budgetCents = rb_budgetCents budget, fd_remainingBudgetCents = rb_remainingBudgetCents budget,
        fd_reason = mo_reason route \<rparr>)"

definition approved_for_route :: "model_route \<Rightarrow> failover_decision \<Rightarrow> 'a failover_input_scheme \<Rightarrow> bool" where
  "approved_for_route route decision input =
     (case fi_approvedOverBudgetRoute input of None \<Rightarrow> False
      | Some a \<Rightarrow> ar_provider a = mo_provider route \<and> ar_model a = mo_model route
                \<and> fd_estimatedCostCents decision \<le> ar_estimatedCostCents a)"

definition skipReasonForFailoverRoute :: "model_route \<Rightarrow> failover_decision \<Rightarrow> 'a failover_input_scheme \<Rightarrow> string option" where
  "skipReasonForFailoverRoute route decision input =
     (if fi_requireKnownPricing input = Some True \<and> mo_benchmark route = None
      then Some (''Skipped '' @ mo_model route
        @ '': pricing metadata is required before calling budget-enforced model routes.'')
      else if fd_budgetDecision decision = Within_budget then None
      else if approved_for_route route decision input then None
      else Some (''Skipped '' @ mo_model route @ '': estimated '' @ int_str (fd_estimatedCostCents decision)
        @ '' cents exceeds budget ceiling '' @ int_str (fd_budgetCents decision) @ '' cents.''))"

definition estimate_entry :: "'a failover_input_scheme \<Rightarrow> model_route \<Rightarrow> cost_input" where
  "estimate_entry input route =
     \<lparr> ci_id = None, ci_runId = fi_runId input, ci_phase = Phase_estimate, ci_provider = mo_provider route,
       ci_model = mo_model route, ci_inputTokens = or_else (si_estimatedInputTokens input) 0,
       ci_outputTokens = or_else (si_estimatedOutputTokens input) 0, ci_costCents = mo_estimatedCostCents route,
       ci_reason = mo_reason route, ci_createdAt = fi_createdAt input \<rparr>"

definition actual_entry :: "'a failover_input_scheme \<Rightarrow> model_route \<Rightarrow> gateway_response \<Rightarrow> cost_input" where
  "actual_entry input route response =
     \<lparr> ci_id = None, ci_runId = fi_runId input, ci_phase = Phase_actual, ci_provider = mo_provider route,
       ci_model = mo_model route, ci_inputTokens = gp_inputTokens response, ci_outputTokens = gp_outputTokens response,
       ci_costCents = gp_costCents response, ci_reason = ''Model call completed.'',
       ci_createdAt = Some (gp_createdAt response) \<rparr>"

definition request_for :: "'a failover_input_scheme \<Rightarrow> model_route \<Rightarrow> gateway_request" where
  "request_for input route =
     \<lparr> gq_runId = fi_runId input, gq_route = route, gq_prompt = fi_prompt input,
       gq_inputTokens = si_estimatedInputTokens input, gq_outputTokens = si_estimatedOutputTokens input,
       gq_createdAt = fi_createdAt input, gq_context = fi_context input \<rparr>"

definition attempt_of :: "model_route \<Rightarrow> attempt_status \<Rightarrow> failover_decision \<Rightarrow> string option \<Rightarrow> bool option \<Rightarrow> int option
    \<Rightarrow> failover_attempt" where
  "attempt_of route status decision err retryable cost =
     \<lparr> fa_route = route, fa_status = status, fa_decision = decision, fa_error = err, fa_retryable = retryable,
       fa_actualCostCents = cost \<rparr>"

text \<open>The loop over the routes: the answer if one came, the attempts, the ledger and the gateway's world.\<close>

fun failover_loop :: "('w \<Rightarrow> gateway_request \<Rightarrow> gateway_reply \<times> 'w) \<Rightarrow> iso_date \<Rightarrow> 'a failover_input_scheme \<Rightarrow> nat
    \<Rightarrow> model_route list \<Rightarrow> failover_attempt list \<times> cost_entry list \<times> 'w
    \<Rightarrow> (model_route \<times> gateway_response) option \<times> failover_attempt list \<times> cost_entry list \<times> 'w" where
  "failover_loop gateway now input index [] (attempts, ledger, w) = (None, attempts, ledger, w)"
| "failover_loop gateway now input index (route # routes) (attempts, ledger, w) =
     (let decision = failoverDecisionMetadata route index input;
          ledger1 = recordCost now (estimate_entry input route) ledger
      in case skipReasonForFailoverRoute route decision input of
           Some reason \<Rightarrow>
             failover_loop gateway now input (index + 1) routes
               (attempts @ [attempt_of route Attempt_skipped decision (Some reason) (Some False) None], ledger1, w)
         | None \<Rightarrow>
             (case gateway w (request_for input route) of
                (Completed response, w') \<Rightarrow>
                  (Some (route, response),
                   attempts @ [attempt_of route Attempt_succeeded decision None None (Some (gp_costCents response))],
                   recordCost now (actual_entry input route response) ledger1, w')
              | (Gateway_error message retryable, w') \<Rightarrow>
                  (let attempts' = attempts @ [attempt_of route Attempt_failed decision (Some message) (Some retryable) None]
                   in if retryable then failover_loop gateway now input (index + 1) routes (attempts', ledger1, w')
                      else (None, attempts', ledger1, w'))
              | (Other_error message, w') \<Rightarrow>
                  failover_loop gateway now input (index + 1) routes
                    (attempts @ [attempt_of route Attempt_failed decision (Some message) (Some True) None],
                     ledger1, w')))"

definition runModelWithFailover :: "('w \<Rightarrow> gateway_request \<Rightarrow> gateway_reply \<times> 'w) \<Rightarrow> iso_date \<Rightarrow> 'a failover_input_scheme
    \<Rightarrow> cost_entry list \<Rightarrow> 'w \<Rightarrow> js_error + (failover_result \<times> cost_entry list \<times> 'w)" where
  "runModelWithFailover gateway now input ledger w =
     (case buildModelRouteSequence input of
        Inl e \<Rightarrow> Inl e
      | Inr routes \<Rightarrow>
          (case failover_loop gateway now input 0 routes ([], ledger, w) of
             (Some (route, response), attempts, ledger', w') \<Rightarrow>
               Inr (\<lparr> fr_ok = True, fr_route = Some route, fr_response = Some response, fr_attempts = attempts,
                      fr_ledgerSummary = summarizeCosts ledger' (Some (fi_runId input)), fr_error = None \<rparr>, ledger', w')
           | (None, attempts, ledger', w') \<Rightarrow>
               Inr (\<lparr> fr_ok = False, fr_route = None, fr_response = None, fr_attempts = attempts,
                      fr_ledgerSummary = summarizeCosts ledger' (Some (fi_runId input)),
                      fr_error = Some (or_else (if attempts = [] then None else fa_error (last attempts))
                        ''No model route was available for the configured policy.'') \<rparr>, ledger', w')))"

end
