(* ===== verification/Router_Properties.thy ===== *)
theory Router_Properties
  imports Router_Failover
begin

text \<open>
  What routing and failover guarantee: which model is selected and that it fits the budget when any
  does, that every routable model of the policy is tried at most once and in order, that no route
  beyond the budget is called without an approval for it, and what the ledger records.
\<close>

section \<open>Selection\<close>

interpretation ranking: comparator better_candidate
  by unfold_locales (auto simp: better_candidate_def split: if_splits)

definition routable_candidates :: "'a select_input_scheme \<Rightarrow> ranked_candidate list" where
  "routable_candidates input =
     map (candidate_of input) (filterRoutableModels (policyCandidateModels (si_policy input)) (si_registry input))"

definition fits_budget :: "'a select_input_scheme \<Rightarrow> ranked_candidate \<Rightarrow> bool" where
  "fits_budget input c \<longleftrightarrow> rc_estimatedCostCents c \<le> mp_perRunBudgetCents (si_policy input)"

definition contenders :: "'a select_input_scheme \<Rightarrow> ranked_candidate list" where
  "contenders input =
     (if list_ex (fits_budget input) (routable_candidates input)
      then filter (fits_budget input) (routable_candidates input) else routable_candidates input)"

lemma rank_routable:
  "rankModelCandidates input (policyCandidateModels (si_policy input)) =
     sort_by better_candidate (routable_candidates input)"
  by (simp add: rankModelCandidates_def routable_candidates_def)

lemma affordable_iff:
  "affordable_candidates input (sort_by better_candidate cs) =
     filter (fits_budget input) (sort_by better_candidate cs)"
  by (simp add: affordable_candidates_def fits_budget_def [abs_def])

lemma filter_Nil_iff: "filter P xs = [] \<longleftrightarrow> \<not> list_ex P xs"
  by (induction xs) auto

lemma list_ex_sort [simp]: "list_ex P (sort_by le xs) = list_ex P xs"
  by (simp add: list_ex_iff)

lemma hd_sorted_best:
  assumes "xs \<noteq> []"
  shows "hd (sort_by better_candidate xs) \<in> set xs"
    "c \<in> set xs \<Longrightarrow> better_candidate (hd (sort_by better_candidate xs)) c"
proof -
  obtain y ys where s: "sort_by better_candidate xs = y # ys"
    using ranking.head_exists [OF assms] by blast
  from s show "hd (sort_by better_candidate xs) \<in> set xs"
    using ranking.first_mem [OF s] by simp
  from s show "c \<in> set xs \<Longrightarrow> better_candidate (hd (sort_by better_candidate xs)) c"
    using ranking.least_first [OF s] by simp
qed

lemma selected_candidate:
  assumes "selectRankedModelCandidate input (sort_by better_candidate (routable_candidates input))
    = Inr (c, affordable)"
  shows "c \<in> set (contenders input)"
    "affordable \<noteq> [] \<longleftrightarrow> list_ex (fits_budget input) (routable_candidates input)"
    "rc_model c = mp_defaultModel (si_policy input) \<and> mode_of input = Mode_auto
     \<or> (\<forall>d \<in> set (contenders input). better_candidate c d)"
proof -
  define scored where "scored = sort_by better_candidate (routable_candidates input)"
  define pool where "pool = (if filter (fits_budget input) scored \<noteq> [] then filter (fits_budget input) scored else scored)"
  define default where "default = (if mode_of input = Mode_auto
    then List.find (\<lambda>c. rc_model c = mp_defaultModel (si_policy input)) (filter (fits_budget input) scored) else None)"
  have nonempty: "scored \<noteq> []" and aff: "affordable = filter (fits_budget input) scored"
    and c: "c = or_else default (hd (sort_by better_candidate pool))"
    using assms unfolding scored_def
    by (auto simp: selectRankedModelCandidate_def affordable_iff Let_def default_def pool_def scored_def
        simp del: sort_by_Nil_iff split: if_splits)
  show ex: "affordable \<noteq> [] \<longleftrightarrow> list_ex (fits_budget input) (routable_candidates input)"
    unfolding aff filter_Nil_iff scored_def by simp
  have pool: "set pool = set (contenders input)" "pool \<noteq> []"
    using nonempty ex unfolding pool_def contenders_def aff by (auto simp: scored_def filter_Nil_iff)
  show "c \<in> set (contenders input)"
  proof (cases default)
    case None
    with c hd_sorted_best(1) [OF pool(2)] pool(1) show ?thesis by simp
  next
    case (Some d)
    then have "d \<in> set (filter (fits_budget input) scored)"
      by (auto simp: default_def dest: find_SomeD split: if_splits)
    with Some c pool(1) show ?thesis
      by (auto simp: pool_def split: if_splits)
  qed
  show "rc_model c = mp_defaultModel (si_policy input) \<and> mode_of input = Mode_auto
     \<or> (\<forall>d \<in> set (contenders input). better_candidate c d)"
  proof (cases default)
    case None
    with c hd_sorted_best(2) [OF pool(2)] pool(1) show ?thesis by simp
  next
    case (Some d)
    with c show ?thesis
      by (auto simp: default_def dest: find_SomeD split: if_splits)
  qed
qed

text \<open>
  The selected route is that of a routable candidate of the policy. It is within the budget
  exactly when some routable candidate is, and then it is the best ranked among those that fit,
  unless automatic routing finds that the default model fits. When none fits, the best ranked of
  all is taken, over the budget.
\<close>

theorem selected_route:
  assumes "selectModel input = Inr route"
  shows "(\<exists>c \<in> set (contenders input). mo_model route = rc_model c
      \<and> mo_estimatedCostCents route = rc_estimatedCostCents c
      \<and> (rc_model c = mp_defaultModel (si_policy input) \<and> mode_of input = Mode_auto
         \<or> list_all (better_candidate c) (contenders input)))
    \<and> (rb_decision (mo_budget route) = Within_budget) = list_ex (fits_budget input) (routable_candidates input)"
proof -
  obtain c affordable where s: "selectRankedModelCandidate input
      (sort_by better_candidate (routable_candidates input)) = Inr (c, affordable)"
    and route: "mo_model route = rc_model c" "mo_estimatedCostCents route = rc_estimatedCostCents c"
      "mo_budget route = routeBudgetPreflight c input"
    using assms by (auto simp: selectModel_def rank_routable split: sum.splits)
  note c = selected_candidate [OF s]
  have "fits_budget input c \<longleftrightarrow> list_ex (fits_budget input) (routable_candidates input)"
    using c(1) by (auto simp: contenders_def list_ex_iff split: if_splits)
  then have "(rb_decision (mo_budget route) = Within_budget) =
      list_ex (fits_budget input) (routable_candidates input)"
    by (simp add: route(3) routeBudgetPreflight_def fits_budget_def Let_def)
  with c(1,3) route show ?thesis
    unfolding list_all_iff by blast
qed

section \<open>The sequence of routes\<close>

lemma distinct_filterRoutable: "distinct (filterRoutableModels models registry)"
  by (simp add: filterRoutableModels_def split: option.splits)

lemma filterRoutable_filter:
  "set (filterRoutableModels (filter P models) registry) = {m \<in> set (filterRoutableModels models registry). P m}"
  by (auto simp: filterRoutableModels_def split: option.splits)

lemma rc_model_candidate [simp]: "rc_model (candidate_of input m) = m"
  by (simp add: candidate_of_def Let_def)

lemma models_of_ranked:
  "mset (map rc_model (rankModelCandidates input models)) = mset (filterRoutableModels models (si_registry input))"
  by (simp add: rankModelCandidates_def image_mset.compositionality comp_def)

lemma contenders_routable:
  "c \<in> set (contenders input) \<Longrightarrow>
     rc_model c \<in> set (filterRoutableModels (policyCandidateModels (si_policy input)) (si_registry input))"
  by (auto simp: contenders_def routable_candidates_def split: if_splits)

lemma selected_routable:
  assumes "selectModel input = Inr route"
  shows "mo_model route \<in> set (filterRoutableModels (policyCandidateModels (si_policy input)) (si_registry input))"
  using assms selected_candidate(1) [of input] contenders_routable [of _ input]
  by (fastforce simp: selectModel_def rank_routable split: sum.splits)

lemma route_models:
  assumes "buildModelRouteSequence input = Inr routes"
  obtains route where "selectModel input = Inr route" "routes \<noteq> []" "hd routes = route"
    "mset (map mo_model routes) = add_mset (mo_model route) (mset (filterRoutableModels
       (filter (\<lambda>m. m \<noteq> mo_model route) (policyCandidateModels (si_policy input))) (si_registry input)))"
proof -
  from assms obtain route where r: "selectModel input = Inr route"
    and routes: "routes = route # map (\<lambda>c. routeFromCandidate c input
        (''Fallback candidate '' @ rc_model c @ '' for '' @ mode_str (mode_of input) @ '' routing.''))
        (rankModelCandidates input (filter (\<lambda>m. m \<noteq> mo_model route) (policyCandidateModels (si_policy input))))"
    by (auto simp: buildModelRouteSequence_def Let_def split: sum.splits)
  have "mset (map mo_model routes) = add_mset (mo_model route) (mset (map rc_model
      (rankModelCandidates input (filter (\<lambda>m. m \<noteq> mo_model route) (policyCandidateModels (si_policy input))))))"
    by (simp add: routes routeFromCandidate_def comp_def image_mset.compositionality)
  then show ?thesis
    using that [of route] r routes unfolding models_of_ranked by simp
qed

lemma route_order:
  assumes "buildModelRouteSequence input = Inr routes"
  shows "selectModel input = Inr (hd routes) \<and> routes \<noteq> [] \<and> distinct (map mo_model routes)
    \<and> set (map mo_model routes) = set (filterRoutableModels (policyCandidateModels (si_policy input)) (si_registry input))"
proof -
  obtain route where r: "selectModel input = Inr route" "routes \<noteq> []" "hd routes = route"
    "mset (map mo_model routes) = add_mset (mo_model route) (mset (filterRoutableModels
       (filter (\<lambda>m. m \<noteq> mo_model route) (policyCandidateModels (si_policy input))) (si_registry input)))"
    using assms by (rule route_models)
  define rest where "rest = filterRoutableModels
    (filter (\<lambda>m. m \<noteq> mo_model route) (policyCandidateModels (si_policy input))) (si_registry input)"
  have m: "mset (map mo_model routes) = mset (mo_model route # rest)"
    using r(4) by (simp add: rest_def)
  have rest: "set rest = set (filterRoutableModels (policyCandidateModels (si_policy input)) (si_registry input))
      - {mo_model route}" "distinct rest"
    by (auto simp: rest_def filterRoutable_filter distinct_filterRoutable)
  have "distinct (map mo_model routes)"
    using mset_eq_imp_distinct_iff [OF m] rest by simp
  moreover have "set (map mo_model routes) = insert (mo_model route) (set rest)"
    using mset_eq_setD [OF m] by simp
  ultimately show ?thesis
    using r(1-3) rest(1) selected_routable [OF r(1)] by auto
qed

text \<open>
  The sequence of routes starts with the selected one and holds every routable model of the
  policy exactly once.
\<close>

theorem every_routable_model_once:
  assumes "buildModelRouteSequence input = Inr routes"
  shows "selectModel input = Inr (hd routes) \<and> routes \<noteq> [] \<and> distinct (map mo_model routes)
    \<and> set (map mo_model routes) = set (filterRoutableModels (policyCandidateModels (si_policy input)) (si_registry input))"
  by (rule route_order [OF assms])

text \<open>Routing fails exactly when no model of the policy is routable.\<close>

lemma no_route_iff:
  "isl (buildModelRouteSequence input) \<longleftrightarrow>
     filterRoutableModels (policyCandidateModels (si_policy input)) (si_registry input) = []"
  by (auto simp: buildModelRouteSequence_def selectModel_def selectRankedModelCandidate_def rank_routable
      routable_candidates_def Let_def split: sum.splits)

section \<open>Cost\<close>

text \<open>
  The cost of a usage covers its price, exceeds it by less than a cent, and is zero exactly
  for a free usage.
\<close>

theorem cost_covers_usage:
  assumes "0 \<le> bm_inputCost b" "0 \<le> bm_outputCost b" "0 \<le> inputTokens" "0 \<le> outputTokens"
    and "price = (of_int inputTokens * bm_inputCost b + of_int outputTokens * bm_outputCost b) / 1000000"
  shows "price \<le> of_int (calculateModelUsageCostCents (Some b) inputTokens outputTokens) \<and>
    of_int (calculateModelUsageCostCents (Some b) inputTokens outputTokens) < price + 1 \<and>
    (calculateModelUsageCostCents (Some b) inputTokens outputTokens = 0) = (price = 0)"
proof -
  have t: "of_int inputTokens / 1000000 * bm_inputCost b + of_int outputTokens / 1000000 * bm_outputCost b = price"
    by (simp add: assms(5) field_simps)
  have "0 \<le> price"
    unfolding assms(5) using assms(1-4) by simp
  then have "price \<noteq> 0 \<Longrightarrow> 1 \<le> \<lceil>price\<rceil>"
    by linarith
  then show ?thesis
    unfolding calculateModelUsageCostCents_def option.case Let_def t by (cases "price = 0") (auto, linarith+)
qed

section \<open>Failover\<close>

text \<open>A gateway that also keeps the list of the requests it was sent.\<close>

definition logged :: "('w \<Rightarrow> gateway_request \<Rightarrow> gateway_reply \<times> 'w)
    \<Rightarrow> 'w \<times> gateway_request list \<Rightarrow> gateway_request \<Rightarrow> gateway_reply \<times> ('w \<times> gateway_request list)" where
  "logged gateway wl request =
     (case gateway (fst wl) request of (reply, w') \<Rightarrow> (reply, (w', snd wl @ [request])))"

definition may_call :: "'a failover_input_scheme \<Rightarrow> model_route \<Rightarrow> bool" where
  "may_call input route \<longleftrightarrow>
     (fi_requireKnownPricing input = Some True \<longrightarrow> mo_benchmark route \<noteq> None) \<and>
     (mo_estimatedCostCents route \<le> or_else (fi_effectiveBudgetCents input) (rb_budgetCents (mo_budget route))
      \<or> (case fi_approvedOverBudgetRoute input of None \<Rightarrow> False
         | Some a \<Rightarrow> ar_provider a = mo_provider route \<and> ar_model a = mo_model route
                   \<and> mo_estimatedCostCents route \<le> ar_estimatedCostCents a))"

lemma not_skipped_iff:
  "skipReasonForFailoverRoute route (failoverDecisionMetadata route index input) input = None \<longleftrightarrow> may_call input route"
  by (auto simp: skipReasonForFailoverRoute_def failoverDecisionMetadata_def effectiveRouteBudgetPreflight_def
      approved_for_route_def may_call_def Let_def split: option.splits)

abbreviation called :: "failover_attempt \<Rightarrow> bool" where
  "called a \<equiv> fa_status a \<noteq> Attempt_skipped"

definition gave_up :: "failover_attempt list \<Rightarrow> bool" where
  "gave_up attempts \<longleftrightarrow>
     attempts \<noteq> [] \<and> fa_status (last attempts) = Attempt_failed \<and> fa_retryable (last attempts) = Some False"

text \<open>What the loop adds to the attempts, the ledger and the log.\<close>

definition loop_adds :: "'a failover_input_scheme \<Rightarrow> model_route list \<Rightarrow> (model_route \<times> gateway_response) option
    \<Rightarrow> failover_attempt list \<Rightarrow> cost_entry list \<Rightarrow> gateway_request list \<Rightarrow> bool" where
  "loop_adds input routes answer attempts entries requests \<longleftrightarrow>
     map fa_route attempts = take (length attempts) routes \<and>
     requests = map (\<lambda>a. request_for input (fa_route a)) (filter called attempts) \<and>
     list_all (\<lambda>a. called a \<longrightarrow> may_call input (fa_route a)) attempts \<and>
     length (filter (\<lambda>e. ce_phase e = Phase_estimate) entries) = length attempts \<and>
     length (filter (\<lambda>e. ce_phase e = Phase_actual) entries) = (if answer = None then 0 else 1) \<and>
     (answer \<noteq> None \<longleftrightarrow> attempts \<noteq> [] \<and> fa_status (last attempts) = Attempt_succeeded) \<and>
     list_all (\<lambda>a. fa_status a \<noteq> Attempt_succeeded) (butlast attempts) \<and>
     (answer = None \<longrightarrow> length attempts = length routes \<or> gave_up attempts)"

lemma entry_phases [simp]:
  "ce_phase (createModelCostLedgerEntry now (estimate_entry input route) n) = Phase_estimate"
  "ce_phase (createModelCostLedgerEntry now (actual_entry input route response) n) = Phase_actual"
  by (simp_all add: createModelCostLedgerEntry_def estimate_entry_def actual_entry_def)

lemma attempt_simps [simp]:
  "fa_route (attempt_of r st d e b c) = r" "fa_status (attempt_of r st d e b c) = st"
  "fa_retryable (attempt_of r st d e b c) = b"
  by (simp_all add: attempt_of_def)

lemma loop_adds_step:
  assumes "loop_adds input routes answer attempts entries requests"
    and "fa_route a = route" "fa_status a \<noteq> Attempt_succeeded" "called a \<Longrightarrow> may_call input route"
    and "ce_phase e = Phase_estimate"
  shows "loop_adds input (route # routes) answer (a # attempts) (e # entries)
    ((if called a then [request_for input route] else []) @ requests)"
  using assms by (auto simp: loop_adds_def gave_up_def)

lemma loop_adds_stop:
  assumes "fa_route a = route" "called a" "may_call input route" "ce_phase e = Phase_estimate"
    and "answer = None \<and> fa_status a = Attempt_failed \<and> fa_retryable a = Some False \<and> entries = []
       \<or> answer \<noteq> None \<and> fa_status a = Attempt_succeeded \<and> (\<exists>x. entries = [x] \<and> ce_phase x = Phase_actual)"
  shows "loop_adds input (route # routes) answer [a] (e # entries) [request_for input route]"
  using assms by (auto simp: loop_adds_def gave_up_def)

lemma logged_eq: "gateway w request = (reply, w') \<Longrightarrow> logged gateway (w, sent) request = (reply, (w', sent @ [request]))"
  by (simp add: logged_def)

lemma failover_loop_adds:
  assumes "failover_loop (logged gateway) now input index routes (attempts, ledger, (w, sent)) =
    (answer, attempts', ledger', (w', sent1))"
  shows "\<exists>new entries requests. attempts' = attempts @ new \<and> ledger' = ledger @ entries \<and> sent1 = sent @ requests
    \<and> loop_adds input routes answer new entries requests"
  using assms
proof (induction routes arbitrary: index attempts ledger w sent)
  case Nil
  then show ?case by (auto simp: loop_adds_def)
next
  case (Cons route routes)
  define d where "d = failoverDecisionMetadata route index input"
  define e where "e = createModelCostLedgerEntry now (estimate_entry input route) (Suc (length ledger))"
  have e: "ce_phase e = Phase_estimate" "recordCost now (estimate_entry input route) ledger = ledger @ [e]"
    by (simp_all add: e_def recordCost_def)
  show ?case
  proof (cases "skipReasonForFailoverRoute route d input")
    case (Some reason)
    let ?a = "attempt_of route Attempt_skipped d (Some reason) (Some False) None"
    from Cons.prems Some have "failover_loop (logged gateway) now input (index + 1) routes
        (attempts @ [?a], ledger @ [e], (w, sent)) = (answer, attempts', ledger', (w', sent1))"
      by (simp add: d_def [symmetric] e(2) Let_def)
    from Cons.IH [OF this] obtain new entries requests where
      n: "attempts' = attempts @ ?a # new" "ledger' = ledger @ e # entries" "sent1 = sent @ requests"
        "loop_adds input routes answer new entries requests"
      by auto
    from loop_adds_step [OF n(4), of ?a route e] e(1) have
      "loop_adds input (route # routes) answer (?a # new) (e # entries) requests" by simp
    with n(1-3) show ?thesis by blast
  next
    case None
    then have may: "may_call input route"
      unfolding d_def not_skipped_iff .
    obtain reply w1 where g: "gateway w (request_for input route) = (reply, w1)"
      by (cases "gateway w (request_for input route)")
    from logged_eq [of gateway w "request_for input route" reply w1 sent, OF this]
    have g': "logged gateway (w, sent) (request_for input route) = (reply, (w1, sent @ [request_for input route]))" .
    let ?f = "\<lambda>msg b. attempt_of route Attempt_failed d (Some msg) (Some b) None"
    have retry: ?thesis if "failover_loop (logged gateway) now input (index + 1) routes
        (attempts @ [?f msg b], ledger @ [e], (w1, sent @ [request_for input route]))
      = (answer, attempts', ledger', (w', sent1))" for msg b
    proof -
      from Cons.IH [OF that] obtain new entries requests where
        n: "attempts' = attempts @ ?f msg b # new" "ledger' = ledger @ e # entries"
          "sent1 = sent @ request_for input route # requests" "loop_adds input routes answer new entries requests"
        by auto
      from loop_adds_step [OF n(4), of "?f msg b" route e] e(1) may have
        "loop_adds input (route # routes) answer (?f msg b # new) (e # entries) (request_for input route # requests)"
        by simp
      with n(1-3) show ?thesis by blast
    qed
    show ?thesis
    proof (cases reply)
      case (Completed response)
      let ?a = "attempt_of route Attempt_succeeded d None None (Some (gp_costCents response))"
      let ?x = "createModelCostLedgerEntry now (actual_entry input route response) (Suc (Suc (length ledger)))"
      from Cons.prems None g Completed have r: "answer = Some (route, response)" "attempts' = attempts @ [?a]"
        "ledger' = ledger @ [e, ?x]" "sent1 = sent @ [request_for input route]"
        by (auto simp: d_def [symmetric] e_def Let_def g' recordCost_def)
      have "loop_adds input (route # routes) answer [?a] [e, ?x] [request_for input route]"
        by (rule loop_adds_stop) (simp_all add: may e(1) r(1))
      with r(2-4) show ?thesis by blast
    next
      case (Gateway_error message retryable)
      show ?thesis
      proof (cases retryable)
        case True
        with Cons.prems None g Gateway_error show ?thesis
          by (intro retry [of message True]) (simp add: d_def [symmetric] e(2) Let_def g')
      next
        case False
        with Cons.prems None g Gateway_error have r: "answer = None" "attempts' = attempts @ [?f message False]"
          "ledger' = ledger @ [e]" "sent1 = sent @ [request_for input route]"
          by (auto simp: d_def [symmetric] e(2) Let_def g')
        have "loop_adds input (route # routes) answer [?f message False] [e] [request_for input route]"
          by (rule loop_adds_stop) (simp_all add: may e(1) r(1))
        with r(2-4) show ?thesis by blast
      qed
    next
      case (Other_error message)
      with Cons.prems None g show ?thesis
        by (intro retry [of message True]) (simp add: d_def [symmetric] e(2) Let_def g')
    qed
  qed
qed


lemma run_adds:
  assumes "runModelWithFailover (logged gateway) now input ledger (w, []) = Inr (result, ledger', (w', sent))"
  obtains routes entries answer where "buildModelRouteSequence input = Inr routes" "ledger' = ledger @ entries"
    "loop_adds input routes answer (fr_attempts result) entries sent"
    "fr_ok result = (answer \<noteq> None)" "fr_route result = map_option fst answer"
    "fr_ledgerSummary result = summarizeCosts ledger' (Some (fi_runId input))"
proof -
  from assms obtain routes where r: "buildModelRouteSequence input = Inr routes"
    by (auto simp: runModelWithFailover_def split: sum.splits)
  obtain answer attempts ledger1 w1 sent1 where l: "failover_loop (logged gateway) now input 0 routes ([], ledger, (w, []))
      = (answer, attempts, ledger1, (w1, sent1))"
    by (metis prod_cases5)
  with assms r have o: "fr_attempts result = attempts" "ledger' = ledger1" "sent = sent1"
    "fr_ok result = (answer \<noteq> None)" "fr_route result = map_option fst answer"
    "fr_ledgerSummary result = summarizeCosts ledger' (Some (fi_runId input))"
    by (auto simp: runModelWithFailover_def split: option.splits)
  from failover_loop_adds [OF l] obtain entries where
    "ledger1 = ledger @ entries" "loop_adds input routes answer attempts entries sent1" by auto
  with that [OF r] o show ?thesis by metis
qed

text \<open>
  C17. A model call is only made for a route that may be called: its estimate is within the budget
  of the run or covered by an approval of that very model, and its price is known where that is
  required. The calls follow the sequence of routes, and no model is called twice in a run.
\<close>

theorem failover_respects_budget:
  assumes "runModelWithFailover (logged gateway) now input ledger (w, []) = Inr (result, ledger', (w', sent))"
  shows "list_all (\<lambda>q. may_call input (gq_route q)) sent
    \<and> distinct (map (\<lambda>q. mo_model (gq_route q)) sent)
    \<and> map gq_route sent = map fa_route (filter called (fr_attempts result))
    \<and> buildModelRouteSequence input \<noteq> Inr []
    \<and> Inr (map fa_route (fr_attempts result)) = map_sum id (take (length (fr_attempts result))) (buildModelRouteSequence input)"
proof -
  obtain routes entries answer where r: "buildModelRouteSequence input = Inr routes"
    and a: "loop_adds input routes answer (fr_attempts result) entries sent"
    using assms by (rule run_adds)
  define calls where "calls = filter called (fr_attempts result)"
  have routes: "distinct (map mo_model routes)" "routes \<noteq> []"
    using route_order [OF r] by simp_all
  have as: "map fa_route (fr_attempts result) = take (length (fr_attempts result)) routes"
    and sent: "sent = map (\<lambda>a. request_for input (fa_route a)) calls"
    and may: "list_all (\<lambda>a. may_call input (fa_route a)) calls"
    using a by (auto simp: loop_adds_def calls_def list_all_iff)
  have "distinct (map mo_model (map fa_route (fr_attempts result)))"
    unfolding as take_map [symmetric] using routes(1) by (rule distinct_take)
  then have "distinct (map (\<lambda>a. mo_model (fa_route a)) (fr_attempts result))"
    by (simp add: comp_def)
  then have "distinct (map (\<lambda>a. mo_model (fa_route a)) calls)"
    unfolding calls_def by (rule distinct_map_filter)
  moreover have "map gq_route sent = map fa_route calls"
    by (simp add: sent request_for_def comp_def)
  ultimately show ?thesis
    using may as r routes(2)
    by (simp add: sent calls_def [symmetric] comp_def list_all_iff request_for_def)
qed

text \<open>
  The ledger only grows: by one estimate for each attempt, a skipped one included, and by one
  actual cost exactly when the run succeeds. A run succeeds exactly when its last attempt did, no
  earlier attempt succeeded, and a run that fails has tried every route or met an error that is
  not to be retried.
\<close>

theorem failover_accounts:
  assumes "runModelWithFailover (logged gateway) now input ledger (w, []) = Inr (result, ledger', (w', sent))"
  shows "take (length ledger) ledger' = ledger
    \<and> length (filter (\<lambda>e. ce_phase e = Phase_estimate) (drop (length ledger) ledger')) = length (fr_attempts result)
    \<and> length (filter (\<lambda>e. ce_phase e = Phase_actual) (drop (length ledger) ledger')) = (if fr_ok result then 1 else 0)
    \<and> fr_ok result = (fr_attempts result \<noteq> [] \<and> fa_status (last (fr_attempts result)) = Attempt_succeeded)
    \<and> list_all (\<lambda>a. fa_status a \<noteq> Attempt_succeeded) (butlast (fr_attempts result))
    \<and> (fr_ok result \<or> gave_up (fr_attempts result)
       \<or> map_sum id length (buildModelRouteSequence input) = Inr (length (fr_attempts result)))
    \<and> fr_ledgerSummary result = summarizeCosts ledger' (Some (fi_runId input))"
proof -
  obtain routes entries answer where "buildModelRouteSequence input = Inr routes" "ledger' = ledger @ entries"
    "loop_adds input routes answer (fr_attempts result) entries sent" "fr_ok result = (answer \<noteq> None)"
    "fr_ledgerSummary result = summarizeCosts ledger' (Some (fi_runId input))"
    using assms by (rule run_adds)
  then show ?thesis
    by (auto simp: loop_adds_def)
qed


section \<open>A run with a fallback\<close>

definition small_model :: model_benchmark where
  "small_model =
     \<lparr> bm_model = ''acme/small'', bm_qualityScore = 7, bm_speedScore = 9, bm_inputCost = 2000000,
       bm_outputCost = 1000000, bm_contextWindowTokens = 1000, bm_pricingBasis = None, bm_pricingSource = None,
       bm_pricingUpdatedAt = None \<rparr>"

definition large_model :: model_benchmark where
  "large_model = small_model\<lparr> bm_model := ''acme/large'', bm_qualityScore := 9, bm_inputCost := 9000000 \<rparr>"

definition two_models :: failover_input where
  "two_models =
     \<lparr> si_policy = \<lparr> mp_id = ''m'', mp_orgId = ''o'', mp_name = ''Default'', mp_defaultModel = ''acme/small'',
         mp_fallbackModels = [''acme/large'', ''acme/free''], mp_perRunBudgetCents = 10 \<rparr>,
       si_mode = Some Mode_best, si_estimatedInputTokens = Some 3, si_estimatedOutputTokens = Some 2,
       si_benchmarks = Some [small_model, large_model], si_registry = None, fi_runId = ''run'', fi_prompt = ''hi'',
       fi_context = None, fi_createdAt = None, fi_requireKnownPricing = None, fi_effectiveBudgetCents = None,
       fi_approvedOverBudgetRoute = None \<rparr>"

definition small_fails :: "unit \<Rightarrow> gateway_request \<Rightarrow> gateway_reply \<times> unit" where
  "small_fails u request =
     (if mo_model (gq_route request) = ''acme/small'' then Gateway_error ''busy'' True
      else Completed \<lparr> gp_runId = gq_runId request, gp_provider = ''acme'', gp_model = mo_model (gq_route request),
        gp_content = ''ok'', gp_inputTokens = 3, gp_outputTokens = 1, gp_costCents = 1, gp_latencyMs = None,
        gp_finishReason = None, gp_rawFinishReason = None, gp_gatewayResponseId = None, gp_createdAt = Instant 0 \<rparr>, ())"


lemma selected_route_witness:
  "(rb_decision (mo_budget (projr (selectModel two_models))) = Within_budget)
     = list_ex (fits_budget two_models) (routable_candidates two_models)"
  by (rule selected_route [THEN conjunct2]) code_simp

lemma every_routable_model_once_witness:
  "selectModel two_models = Inr (hd (projr (buildModelRouteSequence two_models)))"
  by (rule every_routable_model_once [THEN conjunct1]) code_simp

lemma cost_covers_usage_witness:
  "(calculateModelUsageCostCents (Some small_model) 3 2 = 0) = ((3 * 2000000 + 2 * 1000000) / 1000000 = (0 :: rat))"
  by (rule cost_covers_usage [of small_model 3 2, THEN conjunct2, THEN conjunct2]) (simp_all add: small_model_def)

definition fallback_run :: "failover_result \<times> cost_entry list \<times> unit \<times> gateway_request list" where
  "fallback_run = projr (runModelWithFailover (logged small_fails) (Instant 0) two_models [] ((), []))"

lemma fallback_run:
  "runModelWithFailover (logged small_fails) (Instant 0) two_models [] ((), []) =
     Inr (fst fallback_run, fst (snd fallback_run), fst (snd (snd fallback_run)), snd (snd (snd fallback_run)))"
  by code_simp

lemma failover_respects_budget_witness:
  "distinct (map (\<lambda>q. mo_model (gq_route q)) (snd (snd (snd fallback_run))))
   \<and> map (\<lambda>q. mo_model (gq_route q)) (snd (snd (snd fallback_run))) = [''acme/small'', ''acme/free'']"
  using failover_respects_budget [OF fallback_run] by (elim conjE) (intro conjI, assumption, code_simp)

lemma failover_accounts_witness:
  "fr_ok (fst fallback_run) = (fr_attempts (fst fallback_run) \<noteq> []
     \<and> fa_status (last (fr_attempts (fst fallback_run))) = Attempt_succeeded)
   \<and> map fa_status (fr_attempts (fst fallback_run)) = [Attempt_failed, Attempt_skipped, Attempt_succeeded]"
  using failover_accounts [OF fallback_run] by (elim conjE) (intro conjI, assumption, code_simp)

end
