(* ===== verification/Agent_Properties.thy ===== *)
theory Agent_Properties
  imports Agent_Loop
begin

text \<open>
  What the agent loop guarantees: every grant has a tool of its own, no call reaches the proxy
  without a grant that permits it, and a blocked call suspends the run with one checkpoint for the
  first grant that was blocked.
\<close>

section \<open>Tool names\<close>

lemma free_name_numbered:
  "\<exists>k \<ge> counter. free_name base taken counter = numbered base k \<and> numbered base k \<notin> set taken
     \<and> (\<forall>i. counter \<le> i \<longrightarrow> i < k \<longrightarrow> numbered base i \<in> set taken)"
proof (induction base taken counter rule: free_name.induct)
  case (1 base taken counter)
  show ?case
  proof (cases "numbered base counter \<in> set taken")
    case True
    with 1 obtain k where k: "counter + 1 \<le> k" "free_name base taken (counter + 1) = numbered base k"
      "numbered base k \<notin> set taken" "\<forall>i. counter + 1 \<le> i \<longrightarrow> i < k \<longrightarrow> numbered base i \<in> set taken"
      by blast
    have "numbered base i \<in> set taken" if "counter \<le> i" "i < k" for i
      using k(4) that True by (cases "i = counter") auto
    with k True show ?thesis
      by (subst free_name.simps) (auto intro: exI [of _ k])
  next
    case False
    then show ?thesis
      by (subst free_name.simps) (auto intro: exI [of _ counter])
  qed
qed

lemma free_name_bound:
  "\<exists>k. counter \<le> k \<and> k \<le> counter + length taken \<and> free_name base taken counter = numbered base k
     \<and> numbered base k \<notin> set taken"
proof -
  obtain k where k: "counter \<le> k" "free_name base taken counter = numbered base k"
    "numbered base k \<notin> set taken" "\<forall>i. counter \<le> i \<longrightarrow> i < k \<longrightarrow> numbered base i \<in> set taken"
    using free_name_numbered by blast
  have "card (numbered base ` {counter..<k}) \<le> card (set taken)"
    by (rule card_mono) (use k(4) in auto)
  moreover have "card (numbered base ` {counter..<k}) = k - counter"
    by (subst card_image) (auto simp: inj_on_def)
  ultimately have "k \<le> counter + length taken"
    using card_length [of taken] by linarith
  with k show ?thesis by blast
qed

text \<open>
  C20. The search for a tool name ends, after at most one step for each name taken, with a name
  that is not taken: the name of the capability, or that name with the first free number.
\<close>

theorem tool_name_is_fresh:
  "uniqueToolName grant taken \<notin> set taken
   \<and> (uniqueToolName grant taken = uniqueToolName grant []
      \<or> (\<exists>k. 2 \<le> k \<and> k \<le> length taken + 2 \<and> uniqueToolName grant taken = numbered (uniqueToolName grant []) k))"
proof -
  define base where "base = uniqueToolName grant []"
  have u: "uniqueToolName grant taken = (if base \<notin> set taken then base else free_name base taken 2)" for taken
    by (simp add: base_def uniqueToolName_def Let_def)
  show ?thesis
    unfolding base_def [symmetric] u using free_name_bound [of 2 taken base] by (auto simp: add.commute)
qed

lemma free_name_fresh [simp]: "free_name base taken 2 \<notin> set taken"
  using free_name_bound [of 2 taken base] by auto

lemma fresh_tool_name [simp]: "uniqueToolName g taken \<notin> set taken"
  by (simp add: uniqueToolName_def Let_def)

lemma fresh_tool_name_image [simp]: "uniqueToolName g (map fst tools) \<notin> fst ` set tools"
  using fresh_tool_name [of g "map fst tools"] by simp

definition add_tool :: "tool_set \<Rightarrow> capability_grant \<Rightarrow> tool_set" where
  "add_tool tools g = tools @ [(uniqueToolName g (map fst tools), g)]"

lemma add_tools_grants: "map snd (foldl add_tool tools grants) = map snd tools @ grants"
  by (induction grants arbitrary: tools) (simp_all add: add_tool_def)

lemma add_tools_distinct: "distinct (map fst tools) \<Longrightarrow> distinct (map fst (foldl add_tool tools grants))"
  by (induction grants arbitrary: tools) (simp_all add: add_tool_def)

lemma tool_set_folds: "buildBekToolSet grants = foldl add_tool [] grants"
  by (simp add: buildBekToolSet_def add_tool_def [abs_def])

text \<open>Every grant gets one tool of its own: as many tools as grants, in their order, under distinct names.\<close>

theorem one_tool_per_grant:
  "map snd (buildBekToolSet grants) = grants \<and> distinct (map fst (buildBekToolSet grants))"
  by (simp add: tool_set_folds add_tools_grants add_tools_distinct)

lemma tool_grants: "map_of (buildBekToolSet grants) name = Some g \<Longrightarrow> g \<in> set grants"
proof -
  assume "map_of (buildBekToolSet grants) name = Some g"
  then have "g \<in> set (map snd (buildBekToolSet grants))"
    by (force dest: map_of_SomeD)
  then show "g \<in> set grants"
    by (simp add: tool_set_folds add_tools_grants)
qed

section \<open>Calls of the proxy\<close>

text \<open>A proxy that also keeps the list of the requests it was sent.\<close>

definition recording :: "('w \<Rightarrow> tool_request \<Rightarrow> (string + tool_result) \<times> 'w)
    \<Rightarrow> 'w \<times> tool_request list \<Rightarrow> tool_request \<Rightarrow> (string + tool_result) \<times> ('w \<times> tool_request list)" where
  "recording proxy wl request = (let r = proxy (fst wl) request in (fst r, (snd r, snd wl @ [request])))"

definition governed_call :: "(capability_grant \<Rightarrow> bool) \<Rightarrow> tool_set \<Rightarrow> tool_request \<Rightarrow> bool" where
  "governed_call isApproved tools request \<longleftrightarrow>
     map_of tools (tq_name request) = Some (tq_grant request)
     \<and> tq_risk request = gr_risk (tq_grant request)
     \<and> gr_decision (tq_grant request) \<noteq> Deny
     \<and> (gr_requiresApproval (tq_grant request) \<longrightarrow> isApproved (tq_grant request))"

lemma emit_simps [simp]:
  "as_world (emit_event k m d st) = as_world st" "as_pending (emit_event k m d st) = as_pending st"
  "as_checkpoints (emit_event k m d st) = as_checkpoints st"
  "as_events (emit_event k m d st) = as_events st @ [\<lparr> re_type = k, re_message = m, re_data = d \<rparr>]"
  by (simp_all add: emit_event_def)

lemma note_simps [simp]:
  "as_world (note_pending g st) = as_world st" "as_checkpoints (note_pending g st) = as_checkpoints st"
  "as_events (note_pending g st) = as_events st"
  by (simp_all add: note_pending_def)

lemma generation_invariant:
  assumes "\<And>name args grant st. Q st \<Longrightarrow> map_of tools name = Some grant
      \<Longrightarrow> Q (snd (execute_tool proxy isApproved name grant args st))"
  shows "Q st \<Longrightarrow> Q (snd (run_generation proxy isApproved tools t st))"
  by (induction t arbitrary: st) (auto simp: Let_def assms split: option.split)

text \<open>
  C19. Whatever the model asks for, a request reaches the proxy only under a tool of the run, for
  a grant that does not deny it and, where the grant requires an approval, only after one. The
  request carries the grant and the risk of its tool.
\<close>

theorem proxy_calls_are_governed:
  "list_all (governed_call (isApproved_of options) (buildBekToolSet (rs_grants input)))
     (snd (as_world (snd (runBekAgentLoop (recording proxy) generate options input (w, [])))))"
proof -
  define tools where "tools = buildBekToolSet (rs_grants input)"
  let ?Q = "\<lambda>st. list_all (governed_call (isApproved_of options) tools) (snd (as_world st))"
  have step: "?Q (snd (execute_tool (recording proxy) (isApproved_of options) name grant args st))"
    if "?Q st" "map_of tools name = Some grant" for name args grant st
    using that
    by (auto simp: execute_tool_def recording_def governed_call_def Let_def split: sum.split prod.split)
  obtain reply st where r: "run_generation (recording proxy) (isApproved_of options) tools
      (generate (params_of input options tools)) (started input tools (w, [])) = (reply, st)"
    by (cases "run_generation (recording proxy) (isApproved_of options) tools
      (generate (params_of input options tools)) (started input tools (w, []))")
  have "?Q (started input tools (w, []))"
    by (simp add: started_def)
  from generation_invariant [where Q = ?Q and tools = tools and t = "generate (params_of input options tools)", OF step this] r
  have "?Q st" by simp
  then show ?thesis
    by (auto simp: runBekAgentLoop_def tools_def [symmetric] Let_def r suspend_def split: sum.split list.split)
qed

section \<open>Suspension\<close>

definition blocked_event :: "runtime_event \<Rightarrow> bool" where
  "blocked_event e \<longleftrightarrow> re_type e = Rt_tool_denied
     \<and> (case re_data e of Some (JObj es) \<Rightarrow> obj_get es ''reason'' = Some (JStr ''approval_required'') | _ \<Rightarrow> False)"

definition blockable :: "(capability_grant \<Rightarrow> bool) \<Rightarrow> capability_grant \<Rightarrow> bool" where
  "blockable isApproved g \<longleftrightarrow> gr_requiresApproval g \<and> \<not> isApproved g"

definition pending_ok :: "(capability_grant \<Rightarrow> bool) \<Rightarrow> capability_grant list \<Rightarrow> 'w agent_state \<Rightarrow> bool" where
  "pending_ok isApproved grants st \<longleftrightarrow>
     list_all (\<lambda>g. blockable isApproved g \<and> g \<in> set grants) (as_pending st)
     \<and> distinct (map gr_id (as_pending st))
     \<and> (as_pending st \<noteq> []) = list_ex blocked_event (as_events st)
     \<and> as_checkpoints st = []"

lemma blocked_event_simps [simp]:
  "re_type e \<noteq> Rt_tool_denied \<Longrightarrow> \<not> blocked_event e"
  "blocked_event \<lparr> re_type = Rt_tool_denied, re_message = m, re_data = Some (denial_data n g why) \<rparr>
     = (why = ''approval_required'')"
  by (auto simp: blocked_event_def denial_data_def)

lemma pending_note:
  assumes "pending_ok isApproved grants st" "blockable isApproved g" "g \<in> set grants"
  shows "pending_ok isApproved grants (emit_event Rt_tool_denied m (Some (denial_data n g ''approval_required''))
    (note_pending g st))"
  using assms by (auto simp: pending_ok_def note_pending_def list_ex_iff image_iff)

lemma pending_emit:
  "pending_ok isApproved grants st \<Longrightarrow> \<not> blocked_event \<lparr> re_type = k, re_message = m, re_data = d \<rparr>
     \<Longrightarrow> pending_ok isApproved grants (emit_event k m d st)"
  by (simp add: pending_ok_def)

lemma pending_world:
  "pending_ok isApproved grants st \<Longrightarrow> pending_ok isApproved grants (st\<lparr>as_world := w\<rparr>)"
  by (simp add: pending_ok_def)

lemma pending_execute:
  assumes "pending_ok isApproved grants st" "g \<in> set grants"
  shows "pending_ok isApproved grants (snd (execute_tool proxy isApproved name g args st))"
proof -
  let ?requested = "emit_event Rt_tool_requested (''Tool '' @ name @ '' requested ('' @ capability_str (gr_capability g) @ '').'')
    (Some (JObj [(''tool'', JStr name), (''grantId'', JStr (gr_id g)), (''risk'', JStr (risk_str (gr_risk g)))])) st"
  have r: "pending_ok isApproved grants ?requested"
    by (rule pending_emit) (use assms(1) in simp_all)
  show ?thesis
  proof (cases "gr_requiresApproval g \<and> \<not> isApproved g")
    case True
    then show ?thesis
      using pending_note [OF r _ assms(2)] by (simp add: execute_tool_def blockable_def)
  next
    case False
    show ?thesis
    proof (cases "gr_decision g = Deny")
      case True
      show ?thesis
        unfolding execute_tool_def Let_def if_not_P [OF False] if_P [OF True] snd_conv
        by (intro pending_emit [OF r]) simp
    next
      case allowed: False
      obtain out w where o: "proxy (as_world ?requested)
          \<lparr>tq_name = name, tq_grant = g, tq_input = args, tq_risk = gr_risk g\<rparr> = (out, w)"
        by (cases "proxy (as_world ?requested) \<lparr>tq_name = name, tq_grant = g, tq_input = args, tq_risk = gr_risk g\<rparr>")
      show ?thesis
        unfolding execute_tool_def Let_def if_not_P [OF False] if_not_P [OF allowed] o
        using pending_emit [OF pending_world [OF r]] pending_world [OF r]
        by (cases out) (auto simp: blocked_event_def truthy_def opt_entry_def split: option.split)
    qed
  qed
qed

text \<open>
  A run awaits an approval exactly when the generation answered and a call was blocked, which
  its events show. Then one checkpoint is raised, for the first grant that was blocked, listing
  the ids of all blocked grants once; they are grants of the run that require an approval and have
  none. Otherwise no checkpoint is raised. A run that answered costs at least one cent, a failed
  one nothing.
\<close>

theorem blocked_run_suspends:
  "case runBekAgentLoop proxy generate options input w of (result, st) \<Rightarrow>
     (rr_status result = Res_awaiting_approval) = (rr_status result \<noteq> Res_failed \<and> list_ex blocked_event (as_events st))
   \<and> as_checkpoints st = (if rr_status result = Res_awaiting_approval
        then [checkpoint_for input (hd (as_pending st)) (as_pending st)] else [])
   \<and> list_all (\<lambda>g. blockable (isApproved_of options) g \<and> g \<in> set (rs_grants input)) (as_pending st)
   \<and> distinct (map gr_id (as_pending st))
   \<and> (if rr_status result = Res_failed then rr_actualCostCents result = 0 else 1 \<le> rr_actualCostCents result)"
proof -
  define tools where "tools = buildBekToolSet (rs_grants input)"
  let ?Q = "pending_ok (isApproved_of options) (rs_grants input)"
  obtain reply st where r: "run_generation proxy (isApproved_of options) tools
      (generate (params_of input options tools)) (started input tools w) = (reply, st)"
    by (cases "run_generation proxy (isApproved_of options) tools
      (generate (params_of input options tools)) (started input tools w)")
  have step: "?Q (snd (execute_tool proxy (isApproved_of options) name grant args st))"
    if "?Q st" "map_of tools name = Some grant" for name args grant st
    using pending_execute [OF that(1) tool_grants [OF that(2) [unfolded tools_def]]] .
  have "?Q (started input tools w)"
    by (simp add: started_def pending_ok_def)
  from generation_invariant [where Q = ?Q and tools = tools and t = "generate (params_of input options tools)",
      OF step this] r
  have st: "?Q st" by simp
  have cost: "1 \<le> resolveActualCostCents input options g" for g
    by (simp add: resolveActualCostCents_def Let_def split: option.split)
  show ?thesis
  proof (cases reply)
    case (Inl message)
    with st show ?thesis
      by (simp add: runBekAgentLoop_def tools_def [symmetric] r loop_result_def pending_ok_def)
  next
    case (Inr generated)
    with st show ?thesis
      by (cases "as_pending st")
        (auto simp: runBekAgentLoop_def tools_def [symmetric] r loop_result_def pending_ok_def suspend_def cost
          blocked_event_def [of "\<lparr>re_type = k, re_message = m, re_data = d\<rparr>" for k m d] Let_def)
  qed
qed

text \<open>
  The approval is looked at before the decision: a tool whose grant is denied, but requires an
  approval, suspends the run for an approval that can not help.
\<close>

lemma denied_grant_asks_first:
  assumes "gr_decision g = Deny" "gr_requiresApproval g" "\<not> isApproved g"
  shows "execute_tool proxy isApproved name g args st =
    (Tool_returned (refused ''approval_required''), snd (execute_tool proxy isApproved name g args st))
    \<and> as_pending (snd (execute_tool proxy isApproved name g args st)) \<noteq> []"
  using assms by (auto simp: execute_tool_def Let_def note_pending_def list_ex_iff)

end
