(* ===== verification/Credential_Leases.thy ===== *)
theory Credential_Leases
  imports Domain Runs "HOL-Library.AList"
begin

text \<open>
  Leases on credentials, \<open>packages/credentials/src/leases.ts\<close> with \<open>audit.ts\<close> and \<open>types.ts\<close>: the
  in-memory broker that issues, renews, revokes and expires leases. A \<open>Date\<close> is an instant, or
  \<open>Unparsable\<close> for an invalid one. The clock and the ids are arguments: an operation gets the dates
  that \<open>now\<close> returned and the id that \<open>idFactory\<close> returned. The broker keeps the credential record
  it was given, whose fields nothing in the package changes.
\<close>

section \<open>Types\<close>

record credential_meta =
  cm_id :: string
  cm_orgId :: string
  cm_name :: string
  cm_provider :: string
  cm_secretRef :: string
  cm_status :: credential_status
  cm_scopeSummary :: string
  cm_connectorInstallId :: "string option"
  cm_externalAccountId :: "string option"
  cm_expiresAt :: "iso_date option"
  cm_rotationDueAt :: "iso_date option"
  cm_lastUsedAt :: "iso_date option"

record audit_reference =
  au_credentialId :: string
  au_orgId :: string
  au_provider :: string
  au_status :: credential_status
  au_scopeSummary :: string
  au_secretRefFingerprint :: string
  au_connectorInstallId :: "string option"
  au_externalAccountId :: "string option"

datatype lease_status = Lease_active | Lease_expired | Lease_revoked

record lease_audit_reference =
  la_leaseId :: string
  la_credential :: audit_reference
  la_issuedAt :: iso_date
  la_expiresAt :: iso_date
  la_purpose :: string
  la_scopes :: "string list"
  la_status :: lease_status

record credential_lease =
  cl_id :: string
  cl_credentialId :: string
  cl_orgId :: string
  cl_provider :: string
  cl_purpose :: string
  cl_scopes :: "string list"
  cl_issuedAt :: iso_date
  cl_expiresAt :: iso_date
  cl_ttlMs :: int
  cl_status :: lease_status
  cl_auditRef :: lease_audit_reference
  cl_requestedByPrincipalId :: "string option"
  cl_runId :: "string option"
  cl_revokedAt :: "iso_date option"

record lease_target =
  lt_leaseId :: string
  lt_credentialId :: string
  lt_orgId :: string
  lt_provider :: string
  lt_secretRef :: string
  lt_scopes :: "string list"
  lt_expiresAt :: iso_date
  lt_auditRef :: lease_audit_reference

record lease_request =
  lq_credential :: credential_meta
  lq_purpose :: string
  lq_scopes :: "string list option"
  lq_ttlMs :: "int option"
  lq_requestedByPrincipalId :: "string option"
  lq_runId :: "string option"

record stored_lease =
  sl_lease :: credential_lease
  sl_credential :: credential_meta
  sl_secretRef :: string
  sl_credentialExpiresAtMs :: "int option"

record lease_broker =
  lb_leases :: "(string \<times> stored_lease) list"
  lb_defaultTtlMs :: int
  lb_maxTtlMs :: int
  lb_fingerprintSalt :: "string option"

section \<open>Audit references\<close>

definition createCredentialFingerprint :: "env \<Rightarrow> string list \<Rightarrow> string option \<Rightarrow> string" where
  "createCredentialFingerprint E parts salt =
     ''sha256:'' @ slice 32 (env_sha256 E
       (or_else salt ''bek.credentials.audit.v1'' @ concat (map (\<lambda>p. char_of (0 :: nat) # p) parts)))"

definition present :: "string option \<Rightarrow> string option" where
  "present s = (if truthy s then s else None)"

definition createCredentialAuditReference :: "env \<Rightarrow> credential_meta \<Rightarrow> string option \<Rightarrow> audit_reference" where
  "createCredentialAuditReference E credential salt =
     \<lparr> au_credentialId = cm_id credential, au_orgId = cm_orgId credential, au_provider = cm_provider credential,
       au_status = cm_status credential, au_scopeSummary = cm_scopeSummary credential,
       au_secretRefFingerprint = createCredentialFingerprint E
         [cm_orgId credential, cm_id credential, cm_provider credential, cm_secretRef credential] salt,
       au_connectorInstallId = present (cm_connectorInstallId credential),
       au_externalAccountId = present (cm_externalAccountId credential) \<rparr>"

definition createCredentialLeaseAuditReference :: "env \<Rightarrow> string \<Rightarrow> credential_meta + audit_reference \<Rightarrow> iso_date
    \<Rightarrow> iso_date \<Rightarrow> string \<Rightarrow> string list \<Rightarrow> lease_status \<Rightarrow> string option \<Rightarrow> lease_audit_reference" where
  "createCredentialLeaseAuditReference E leaseId credential issuedAt expiresAt purpose scopes status salt =
     \<lparr> la_leaseId = leaseId,
       la_credential = (case credential of Inl c \<Rightarrow> createCredentialAuditReference E c salt | Inr ref \<Rightarrow> ref),
       la_issuedAt = issuedAt, la_expiresAt = expiresAt, la_purpose = purpose, la_scopes = scopes,
       la_status = status \<rparr>"

definition credentialAuditReferenceToString :: "audit_reference \<Rightarrow> string" where
  "credentialAuditReferenceToString ref =
     ''credential.ref:'' @ au_provider ref @ '':'' @ au_credentialId ref @ '':'' @ au_secretRefFingerprint ref"

section \<open>Values\<close>

definition isLeaseableCredentialStatus :: "credential_status \<Rightarrow> bool" where
  "isLeaseableCredentialStatus status \<longleftrightarrow> status = Cred_active \<or> status = Cred_rotation_due"

text \<open>The order of \<open>sort\<close> without a comparator: by code units.\<close>

fun code_unit_le :: "string \<Rightarrow> string \<Rightarrow> bool" where
  "code_unit_le [] t = True"
| "code_unit_le (c # s) [] = False"
| "code_unit_le (c # s) (d # t) =
     ((of_char c :: nat) < of_char d \<or> c = d \<and> code_unit_le s t)"

definition normalizeScopes :: "string list option \<Rightarrow> string list" where
  "normalizeScopes scopes =
     sort_by code_unit_le (dedupe (filter (\<lambda>s. s \<noteq> []) (map js_trim (or_else scopes []))))"

definition normalizeRequired :: "string \<Rightarrow> string \<Rightarrow> js_error + string" where
  "normalizeRequired v label =
     (let normalized = js_trim v in if normalized = [] then Inl (Error (label @ '' is required.'')) else Inr normalized)"

definition normalizeOptional :: "string option \<Rightarrow> string option" where
  "normalizeOptional v =
     (case v of None \<Rightarrow> None | Some s \<Rightarrow> let normalized = js_trim s in if normalized = [] then None else Some normalized)"

definition parseOptionalTimestamp :: "iso_date option \<Rightarrow> string \<Rightarrow> js_error + int option" where
  "parseOptionalTimestamp v label =
     (case v of
        None \<Rightarrow> Inr None
      | Some d \<Rightarrow> (case date_parse d of
            None \<Rightarrow> Inl (Error (label @ '' must be an ISO timestamp.''))
          | Some t \<Rightarrow> Inr (Some t)))"

definition isSafeInteger :: "int \<Rightarrow> bool" where
  "isSafeInteger n \<longleftrightarrow> \<bar>n\<bar> \<le> 9007199254740991"

text \<open>\<open>new Date(ms).toISOString()\<close>.\<close>

definition iso_of_ms :: "int \<Rightarrow> js_error + iso_date" where
  "iso_of_ms ms = (if \<bar>ms\<bar> \<le> max_date_ms then Inr (Instant ms) else Inl (RangeError ''Invalid time value''))"

definition min_expiry :: "int \<Rightarrow> int option \<Rightarrow> int" where
  "min_expiry requested credentialExpiry =
     (case credentialExpiry of None \<Rightarrow> requested | Some e \<Rightarrow> min requested e)"

section \<open>The broker\<close>

definition newLeaseBroker :: "int option \<Rightarrow> int option \<Rightarrow> string option \<Rightarrow> js_error + lease_broker" where
  "newLeaseBroker defaultTtlMs maxTtlMs salt =
     (let maxTtl = or_else maxTtlMs (15 * 60 * 1000);
          defaultTtl = or_else defaultTtlMs (min (5 * 60 * 1000) maxTtl)
      in if \<not> isSafeInteger defaultTtl \<or> defaultTtl \<le> 0
         then Inl (Error ''defaultTtlMs must be a positive integer.'')
         else if \<not> isSafeInteger maxTtl \<or> maxTtl \<le> 0
         then Inl (Error ''maxTtlMs must be a positive integer.'')
         else if maxTtl < defaultTtl then Inl (Error ''defaultTtlMs cannot exceed maxTtlMs.'')
         else Inr \<lparr> lb_leases = [], lb_defaultTtlMs = defaultTtl, lb_maxTtlMs = maxTtl, lb_fingerprintSalt = salt \<rparr>)"

definition normalizeTtlMs :: "lease_broker \<Rightarrow> int option \<Rightarrow> js_error + int" where
  "normalizeTtlMs b ttlMs =
     (let normalized = or_else ttlMs (lb_defaultTtlMs b) in
      if \<not> isSafeInteger normalized \<or> normalized \<le> 0 then Inl (Error ''ttlMs must be a positive integer.'')
      else if lb_maxTtlMs b < normalized then Inl (Error ''ttlMs cannot exceed maxTtlMs.'')
      else Inr normalized)"

definition createLeaseAuditReference :: "env \<Rightarrow> lease_broker \<Rightarrow> stored_lease \<Rightarrow> lease_audit_reference" where
  "createLeaseAuditReference E b stored =
     (let lease = sl_lease stored in
      createCredentialLeaseAuditReference E (cl_id lease) (Inl (sl_credential stored)) (cl_issuedAt lease)
        (cl_expiresAt lease) (cl_purpose lease) (cl_scopes lease) (cl_status lease) (lb_fingerprintSalt b))"

text \<open>The lease with a new status, expiry or lifetime, and then its new audit reference.\<close>

definition renew_audit :: "env \<Rightarrow> lease_broker \<Rightarrow> stored_lease \<Rightarrow> stored_lease" where
  "renew_audit E b stored =
     stored\<lparr> sl_lease := (sl_lease stored)\<lparr> cl_auditRef := createLeaseAuditReference E b stored \<rparr> \<rparr>"

definition with_status :: "lease_status \<Rightarrow> stored_lease \<Rightarrow> stored_lease" where
  "with_status status stored = stored\<lparr> sl_lease := (sl_lease stored)\<lparr> cl_status := status \<rparr> \<rparr>"

definition expireIfNeeded :: "env \<Rightarrow> lease_broker \<Rightarrow> iso_date \<Rightarrow> stored_lease \<Rightarrow> stored_lease" where
  "expireIfNeeded E b at stored =
     (if cl_status (sl_lease stored) = Lease_active \<and> date_le (cl_expiresAt (sl_lease stored)) at
      then renew_audit E b (with_status Lease_expired stored) else stored)"

definition put_lease :: "string \<Rightarrow> stored_lease \<Rightarrow> lease_broker \<Rightarrow> lease_broker" where
  "put_lease leaseId stored b = b\<lparr> lb_leases := AList.update leaseId stored (lb_leases b) \<rparr>"

definition is_active :: "stored_lease \<Rightarrow> bool" where
  "is_active stored \<longleftrightarrow> cl_status (sl_lease stored) = Lease_active"

definition getStoredActiveLease :: "env \<Rightarrow> string \<Rightarrow> iso_date \<Rightarrow> lease_broker \<Rightarrow> stored_lease option \<times> lease_broker" where
  "getStoredActiveLease E leaseId at b =
     (case map_of (lb_leases b) leaseId of
        None \<Rightarrow> (None, b)
      | Some stored \<Rightarrow>
          (let stored' = expireIfNeeded E b at stored
           in (if is_active stored' then Some stored' else None, put_lease leaseId stored' b)))"

definition lease_of_request :: "env \<Rightarrow> lease_broker \<Rightarrow> string \<Rightarrow> lease_request \<Rightarrow> string \<Rightarrow> iso_date \<Rightarrow> iso_date \<Rightarrow> int
    \<Rightarrow> credential_lease" where
  "lease_of_request E b leaseId request purpose issuedAt expiresAt ttlMs =
     (let credential = lq_credential request; scopes = normalizeScopes (lq_scopes request) in
      \<lparr> cl_id = leaseId, cl_credentialId = cm_id credential, cl_orgId = cm_orgId credential,
        cl_provider = cm_provider credential, cl_purpose = purpose, cl_scopes = scopes,
        cl_issuedAt = issuedAt, cl_expiresAt = expiresAt, cl_ttlMs = ttlMs, cl_status = Lease_active,
        cl_auditRef = createCredentialLeaseAuditReference E leaseId (Inl credential) issuedAt expiresAt purpose scopes
          Lease_active (lb_fingerprintSalt b),
        cl_requestedByPrincipalId = normalizeOptional (lq_requestedByPrincipalId request),
        cl_runId = normalizeOptional (lq_runId request), cl_revokedAt = None \<rparr>)"

definition issueLease :: "env \<Rightarrow> string \<Rightarrow> iso_date \<Rightarrow> lease_request \<Rightarrow> lease_broker \<Rightarrow> (lease_broker, credential_lease) outcome" where
  "issueLease E leaseId now request b =
     (let credential = lq_credential request in
      if \<not> isLeaseableCredentialStatus (cm_status credential)
      then (Inl (Error ''Credential is not leaseable.''), b)
      else case parseOptionalTimestamp (cm_expiresAt credential) ''credential expiresAt'' of
        Inl e \<Rightarrow> (Inl e, b)
      | Inr credentialExpiry \<Rightarrow>
          if (case credentialExpiry of None \<Rightarrow> False | Some e \<Rightarrow> nan_le (Some e) (date_parse now))
          then (Inl (Error ''Credential is expired.''), b)
          else case normalizeTtlMs b (lq_ttlMs request) of
            Inl e \<Rightarrow> (Inl e, b)
          | Inr ttlMs \<Rightarrow>
              (case date_parse now of
                 None \<Rightarrow> (case normalizeRequired (lq_purpose request) ''purpose'' of
                     Inl e \<Rightarrow> (Inl e, b) | Inr _ \<Rightarrow> (Inl (RangeError ''Invalid time value''), b))
               | Some issuedAtMs \<Rightarrow>
                   (let expiresAtMs = min_expiry (issuedAtMs + ttlMs) credentialExpiry in
                    if expiresAtMs - issuedAtMs \<le> 0
                    then (Inl (Error ''Credential lease would expire immediately.''), b)
                    else case normalizeRequired (lq_purpose request) ''purpose'' of
                      Inl e \<Rightarrow> (Inl e, b)
                    | Inr purpose \<Rightarrow>
                        (case iso_of_ms expiresAtMs of
                           Inl e \<Rightarrow> (Inl e, b)
                         | Inr expiresAt \<Rightarrow>
                             (let lease = lease_of_request E b leaseId request purpose now expiresAt
                                    (expiresAtMs - issuedAtMs)
                              in (Inr lease,
                                  put_lease leaseId
                                    \<lparr> sl_lease = lease, sl_credential = credential,
                                      sl_secretRef = cm_secretRef credential,
                                      sl_credentialExpiresAtMs = credentialExpiry \<rparr> b))))))"

text \<open>The clock is read twice.\<close>

definition renewLease :: "env \<Rightarrow> iso_date \<Rightarrow> iso_date \<Rightarrow> string \<Rightarrow> int option \<Rightarrow> lease_broker
    \<Rightarrow> (lease_broker, credential_lease) outcome" where
  "renewLease E now renewedAt leaseId ttl b =
     (case getStoredActiveLease E leaseId now b of
        (None, b1) \<Rightarrow> (Inl (Error ''Credential lease is not active.''), b1)
      | (Some stored, b1) \<Rightarrow>
          (case normalizeTtlMs b1 ttl of
             Inl e \<Rightarrow> (Inl e, b1)
           | Inr ttlMs \<Rightarrow>
               (case date_parse renewedAt of
                  None \<Rightarrow> (Inl (RangeError ''Invalid time value''), b1)
                | Some renewedAtMs \<Rightarrow>
                    (let expiresAtMs = min_expiry (renewedAtMs + ttlMs) (sl_credentialExpiresAtMs stored) in
                     if expiresAtMs \<le> renewedAtMs
                     then (Inl (Error ''Credential lease would expire immediately.''), b1)
                     else case iso_of_ms expiresAtMs of
                       Inl e \<Rightarrow> (Inl e, b1)
                     | Inr expiresAt \<Rightarrow>
                         (let renewed = renew_audit E b1 (stored\<lparr> sl_lease := (sl_lease stored)\<lparr>
                                cl_expiresAt := expiresAt, cl_ttlMs := expiresAtMs - renewedAtMs \<rparr> \<rparr>)
                          in (Inr (sl_lease renewed), put_lease leaseId renewed b1))))))"

text \<open>
  The date is read twice, the same when the caller gives one. The status is set before
  \<open>toISOString\<close> throws on an invalid date.
\<close>

definition revokeLease :: "env \<Rightarrow> iso_date \<Rightarrow> iso_date \<Rightarrow> string \<Rightarrow> lease_broker \<Rightarrow> (lease_broker, credential_lease option) outcome" where
  "revokeLease E at revokedAt leaseId b =
     (case map_of (lb_leases b) leaseId of
        None \<Rightarrow> (Inr None, b)
      | Some stored \<Rightarrow>
          (let stored' = expireIfNeeded E b at stored in
           if \<not> is_active stored' then (Inr (Some (sl_lease stored')), put_lease leaseId stored' b)
           else case date_parse revokedAt of
             None \<Rightarrow> (Inl (RangeError ''Invalid time value''), put_lease leaseId (with_status Lease_revoked stored') b)
           | Some _ \<Rightarrow>
               (let marked = with_status Lease_revoked stored';
                    revoked = renew_audit E b (marked\<lparr> sl_lease := (sl_lease marked)\<lparr> cl_revokedAt := Some revokedAt \<rparr> \<rparr>)
                in (Inr (Some (sl_lease revoked)), put_lease leaseId revoked b))))"

definition getLease :: "env \<Rightarrow> string \<Rightarrow> iso_date \<Rightarrow> lease_broker \<Rightarrow> credential_lease option \<times> lease_broker" where
  "getLease E leaseId at b = (case getStoredActiveLease E leaseId at b of (s, b') \<Rightarrow> (map_option sl_lease s, b'))"

definition expire_all :: "env \<Rightarrow> iso_date \<Rightarrow> lease_broker \<Rightarrow> lease_broker" where
  "expire_all E at b = b\<lparr> lb_leases := map (\<lambda>(k, s). (k, expireIfNeeded E b at s)) (lb_leases b) \<rparr>"

definition listActiveLeases :: "env \<Rightarrow> iso_date \<Rightarrow> lease_broker \<Rightarrow> credential_lease list \<times> lease_broker" where
  "listActiveLeases E at b =
     (let b' = expire_all E at b in (map sl_lease (filter is_active (map snd (lb_leases b'))), b'))"

definition sweepExpired :: "env \<Rightarrow> iso_date \<Rightarrow> lease_broker \<Rightarrow> credential_lease list \<times> lease_broker" where
  "sweepExpired E at b =
     (map sl_lease (filter (\<lambda>s. \<not> is_active s) (map (expireIfNeeded E b at) (filter is_active (map snd (lb_leases b))))),
      expire_all E at b)"

definition resolveLeaseTarget :: "env \<Rightarrow> string \<Rightarrow> iso_date \<Rightarrow> lease_broker \<Rightarrow> lease_target option \<times> lease_broker" where
  "resolveLeaseTarget E leaseId at b =
     (case getStoredActiveLease E leaseId at b of
        (None, b') \<Rightarrow> (None, b')
      | (Some stored, b') \<Rightarrow>
          (let lease = sl_lease stored in
           (Some \<lparr> lt_leaseId = cl_id lease, lt_credentialId = cl_credentialId lease, lt_orgId = cl_orgId lease,
              lt_provider = cl_provider lease, lt_secretRef = sl_secretRef stored, lt_scopes = cl_scopes lease,
              lt_expiresAt = cl_expiresAt lease, lt_auditRef = cl_auditRef lease \<rparr>, b')))"

end
