(* ===== verification/Credential_Broker.thy ===== *)
theory Credential_Broker
  imports Credential_Leases
begin

text \<open>
  What the lease broker promises. In the specification a lease is an expiry, a mark of revocation and
  a mark that its end was noticed; it is alive at a time when it is not revoked and the time is
  before the expiry. Only what a sweep reports depends on the second mark: every operation that looks
  at a lease notices its end, and a sweep reports the ends nobody noticed before. The broker refines
  this as long as its clock does not run backwards. The lemmas on \<open>expireIfNeeded\<close> carry the
  simulation and the invariant of all stored leases.
\<close>

section \<open>The specification\<close>

record lease_terms =
  al_expiry :: int
  al_limit :: "int option"
  al_revoked :: bool
  al_ended :: bool

definition alive :: "int \<Rightarrow> lease_terms \<Rightarrow> bool" where
  "alive t a \<longleftrightarrow> \<not> al_revoked a \<and> t < al_expiry a"

type_synonym lease_table = "string \<Rightarrow> lease_terms option"

definition looked :: "int \<Rightarrow> lease_terms \<Rightarrow> lease_terms" where
  "looked t a = (if \<not> al_revoked a \<and> al_expiry a \<le> t then a\<lparr> al_ended := True \<rparr> else a)"

definition look :: "int \<Rightarrow> string \<Rightarrow> lease_table \<Rightarrow> lease_table" where
  "look t i m = m(i := map_option (looked t) (m i))"

definition look_all :: "int \<Rightarrow> lease_table \<Rightarrow> lease_table" where
  "look_all t m = (\<lambda>i. map_option (looked t) (m i))"

datatype lease_command =
    Do_issue string lease_request
  | Do_renew string "int option"
  | Do_revoke string
  | Do_resolve string
  | Do_list
  | Do_sweep

datatype lease_answer = Refused | Until int | Unknown_lease | Is_revoked | Is_expired | Alive_leases "(string \<times> int) set"
  | Swept "(string \<times> int) set"

text \<open>The lifetime a request may have, and the expiry that the credential still allows.\<close>

definition granted_ttl :: "int \<Rightarrow> int \<Rightarrow> int option \<Rightarrow> int option" where
  "granted_ttl default_ttl max_ttl ttl =
     (let n = or_else ttl default_ttl in if 0 < n \<and> n \<le> max_ttl \<and> isSafeInteger n then Some n else None)"

definition granted_expiry :: "int \<Rightarrow> int \<Rightarrow> int option \<Rightarrow> int option" where
  "granted_expiry t n limit =
     (let e = min_expiry (t + n) limit in if t < e \<and> \<bar>e\<bar> \<le> max_date_ms then Some e else None)"

definition credential_limit :: "credential_meta \<Rightarrow> int option option" where
  "credential_limit c = (case cm_expiresAt c of None \<Rightarrow> Some None | Some d \<Rightarrow> map_option Some (date_parse d))"

definition grantable :: "lease_request \<Rightarrow> bool" where
  "grantable request \<longleftrightarrow> isLeaseableCredentialStatus (cm_status (lq_credential request))
     \<and> js_trim (lq_purpose request) \<noteq> []"

definition granted_terms :: "int \<Rightarrow> int \<Rightarrow> int \<Rightarrow> lease_request \<Rightarrow> lease_terms option" where
  "granted_terms default_ttl max_ttl t request =
     (if \<not> grantable request then None
      else Option.bind (credential_limit (lq_credential request)) (\<lambda>limit.
           Option.bind (granted_ttl default_ttl max_ttl (lq_ttlMs request)) (\<lambda>n.
           map_option (\<lambda>e. \<lparr> al_expiry = e, al_limit = limit, al_revoked = False, al_ended = False \<rparr>) (granted_expiry t n limit))))"

fun specified :: "int \<Rightarrow> int \<Rightarrow> int \<Rightarrow> lease_command \<Rightarrow> lease_table \<Rightarrow> lease_answer \<times> lease_table" where
  "specified dt mt t (Do_issue i request) m =
     (case granted_terms dt mt t request of None \<Rightarrow> (Refused, m) | Some a \<Rightarrow> (Until (al_expiry a), m(i \<mapsto> a)))"
| "specified dt mt t (Do_renew i ttl) m =
     (case m i of
        None \<Rightarrow> (Refused, m)
      | Some a \<Rightarrow>
          (case (if alive t a then Option.bind (granted_ttl dt mt ttl) (\<lambda>n. granted_expiry t n (al_limit a)) else None) of
             None \<Rightarrow> (Refused, look t i m)
           | Some e \<Rightarrow> (Until e, m(i \<mapsto> a\<lparr> al_expiry := e \<rparr>))))"
| "specified dt mt t (Do_revoke i) m =
     (case m i of
        None \<Rightarrow> (Unknown_lease, m)
      | Some a \<Rightarrow> if alive t a then (Is_revoked, m(i \<mapsto> a\<lparr> al_revoked := True \<rparr>))
                 else (if al_revoked a then Is_revoked else Is_expired, look t i m))"
| "specified dt mt t (Do_resolve i) m =
     (case m i of None \<Rightarrow> (Refused, m) | Some a \<Rightarrow> (if alive t a then Until (al_expiry a) else Refused, look t i m))"
| "specified dt mt t Do_list m = (Alive_leases {(i, al_expiry a) | i a. m i = Some a \<and> alive t a}, look_all t m)"
| "specified dt mt t Do_sweep m =
     (Swept {(i, al_expiry a) | i a. m i = Some a \<and> \<not> al_revoked a \<and> \<not> al_ended a \<and> al_expiry a \<le> t}, look_all t m)"

section \<open>The broker as a machine\<close>

definition lease_answer_of :: "(js_error + credential_lease) \<Rightarrow> lease_answer" where
  "lease_answer_of r =
     (case r of Inl _ \<Rightarrow> Refused
      | Inr lease \<Rightarrow> (case date_parse (cl_expiresAt lease) of None \<Rightarrow> Refused | Some e \<Rightarrow> Until e))"

definition revoke_answer :: "(js_error + credential_lease option) \<Rightarrow> lease_answer" where
  "revoke_answer r =
     (case r of
        Inl _ \<Rightarrow> Refused
      | Inr None \<Rightarrow> Unknown_lease
      | Inr (Some lease) \<Rightarrow> (case cl_status lease of
            Lease_revoked \<Rightarrow> Is_revoked | Lease_expired \<Rightarrow> Is_expired | Lease_active \<Rightarrow> Refused))"

definition resolve_answer :: "lease_target option \<Rightarrow> lease_answer" where
  "resolve_answer r =
     (case r of None \<Rightarrow> Refused
      | Some target \<Rightarrow> (case date_parse (lt_expiresAt target) of None \<Rightarrow> Refused | Some e \<Rightarrow> Until e))"

definition listed :: "credential_lease \<Rightarrow> string \<times> int" where
  "listed lease = (cl_id lease, (case date_parse (cl_expiresAt lease) of None \<Rightarrow> 0 | Some e \<Rightarrow> e))"

fun performed :: "env \<Rightarrow> int \<Rightarrow> lease_command \<Rightarrow> lease_broker \<Rightarrow> lease_answer \<times> lease_broker" where
  "performed E t (Do_issue i request) b =
     (case issueLease E i (Instant t) request b of (r, b') \<Rightarrow> (lease_answer_of r, b'))"
| "performed E t (Do_renew i ttl) b =
     (case renewLease E (Instant t) (Instant t) i ttl b of (r, b') \<Rightarrow> (lease_answer_of r, b'))"
| "performed E t (Do_revoke i) b =
     (case revokeLease E (Instant t) (Instant t) i b of (r, b') \<Rightarrow> (revoke_answer r, b'))"
| "performed E t (Do_resolve i) b =
     (case resolveLeaseTarget E i (Instant t) b of (r, b') \<Rightarrow> (resolve_answer r, b'))"
| "performed E t Do_list b =
     (case listActiveLeases E (Instant t) b of (r, b') \<Rightarrow> (Alive_leases (listed ` set r), b'))"
| "performed E t Do_sweep b = 
     (case sweepExpired E (Instant t) b of (r, b') \<Rightarrow> (Swept (listed ` set r), b'))"

section \<open>Simulation\<close>

definition stands_for :: "int \<Rightarrow> stored_lease \<Rightarrow> lease_terms \<Rightarrow> bool" where
  "stands_for t s a \<longleftrightarrow>
     cl_expiresAt (sl_lease s) = Instant (al_expiry a)
     \<and> sl_credentialExpiresAtMs s = al_limit a
     \<and> cl_status (sl_lease s) = (if al_revoked a then Lease_revoked else if al_ended a then Lease_expired else Lease_active)
     \<and> (al_ended a \<longrightarrow> \<not> al_revoked a \<and> al_expiry a \<le> t)"

definition simulates :: "int \<Rightarrow> int \<Rightarrow> int \<Rightarrow> lease_broker \<Rightarrow> lease_table \<Rightarrow> bool" where
  "simulates dt mt t b m \<longleftrightarrow>
     lb_defaultTtlMs b = dt \<and> lb_maxTtlMs b = mt
     \<and> distinct (map fst (lb_leases b))
     \<and> (\<forall>(k, s) \<in> set (lb_leases b). cl_id (sl_lease s) = k)
     \<and> (\<forall>i. rel_option (stands_for t) (map_of (lb_leases b) i) (m i))"

lemma lease_updates [simp]:
  "sl_credential (renew_audit E b s) = sl_credential s" "sl_secretRef (renew_audit E b s) = sl_secretRef s"
  "sl_credentialExpiresAtMs (renew_audit E b s) = sl_credentialExpiresAtMs s"
  "cl_id (sl_lease (renew_audit E b s)) = cl_id (sl_lease s)"
  "cl_expiresAt (sl_lease (renew_audit E b s)) = cl_expiresAt (sl_lease s)"
  "cl_status (sl_lease (renew_audit E b s)) = cl_status (sl_lease s)"
  "cl_issuedAt (sl_lease (renew_audit E b s)) = cl_issuedAt (sl_lease s)"
  "cl_ttlMs (sl_lease (renew_audit E b s)) = cl_ttlMs (sl_lease s)"
  "cl_revokedAt (sl_lease (renew_audit E b s)) = cl_revokedAt (sl_lease s)"
  "sl_credential (with_status st s) = sl_credential s" "sl_secretRef (with_status st s) = sl_secretRef s"
  "sl_credentialExpiresAtMs (with_status st s) = sl_credentialExpiresAtMs s"
  "cl_id (sl_lease (with_status st s)) = cl_id (sl_lease s)"
  "cl_expiresAt (sl_lease (with_status st s)) = cl_expiresAt (sl_lease s)"
  "cl_status (sl_lease (with_status st s)) = st"
  "cl_issuedAt (sl_lease (with_status st s)) = cl_issuedAt (sl_lease s)"
  "cl_ttlMs (sl_lease (with_status st s)) = cl_ttlMs (sl_lease s)"
  "cl_revokedAt (sl_lease (with_status st s)) = cl_revokedAt (sl_lease s)"
  by (simp_all add: renew_audit_def with_status_def)

lemma put_lease_simps [simp]:
  "lb_defaultTtlMs (put_lease i s b) = lb_defaultTtlMs b" "lb_maxTtlMs (put_lease i s b) = lb_maxTtlMs b"
  "lb_fingerprintSalt (put_lease i s b) = lb_fingerprintSalt b"
  "map_of (lb_leases (put_lease i s b)) = (map_of (lb_leases b))(i \<mapsto> s)"
  by (simp_all add: put_lease_def update_conv')

lemma expire_id [simp]: "cl_id (sl_lease (expireIfNeeded E b at s)) = cl_id (sl_lease s)"
  by (simp add: expireIfNeeded_def)

lemma stands_for_later: "stands_for t0 s a \<Longrightarrow> t0 \<le> t \<Longrightarrow> stands_for t s a"
  by (auto simp: stands_for_def)

lemma stands_for_expire:
  assumes "stands_for t0 s a" "t0 \<le> t"
  shows "stands_for t (expireIfNeeded E b (Instant t) s) (looked t a)"
    and "is_active (expireIfNeeded E b (Instant t) s) = alive t a"
  using assms by (cases "al_revoked a"; cases "al_ended a"; simp add: stands_for_def expireIfNeeded_def is_active_def alive_def looked_def)+

lemma looked_alive [simp]: "alive t a \<Longrightarrow> looked t a = a"
  by (simp add: looked_def alive_def)

lemma looked_values [simp]: "al_expiry (looked t a) = al_expiry a" "al_limit (looked t a) = al_limit a"
    "al_revoked (looked t a) = al_revoked a" "alive t' (looked t a) = alive t' a"
  by (simp_all add: looked_def alive_def)

lemma look_known: "m i = Some a \<Longrightarrow> look t i m = m(i \<mapsto> looked t a)" "m i = None \<Longrightarrow> look t i m = m"
  by (simp_all add: look_def fun_upd_idem)

lemma look_alive: "m i = Some a \<Longrightarrow> alive t a \<Longrightarrow> look t i m = m"
  by (simp add: look_def fun_upd_idem)

lemma simulates_lookup:
  assumes "simulates dt mt t b m"
  obtains "map_of (lb_leases b) i = None" "m i = None"
  | s a where "map_of (lb_leases b) i = Some s" "m i = Some a" "stands_for t s a" "cl_id (sl_lease s) = i"
proof -
  have "rel_option (stands_for t) (map_of (lb_leases b) i) (m i)"
    using assms by (simp add: simulates_def)
  then show ?thesis
  proof (cases rule: option.rel_cases)
    case None
    then show ?thesis by (rule that(1))
  next
    case (Some s a)
    then have "(i, s) \<in> set (lb_leases b)" by (simp add: map_of_SomeD)
    with assms have "cl_id (sl_lease s) = i" by (auto simp: simulates_def)
    with Some show ?thesis by (intro that(2))
  qed
qed

lemma simulates_later: "simulates dt mt t0 b m \<Longrightarrow> t0 \<le> t \<Longrightarrow> simulates dt mt t b m"
  by (auto simp: simulates_def intro: option.rel_mono_strong stands_for_later)

lemma set_put_lease: "(k, s) \<in> set (AList.update i x xs) \<Longrightarrow> (k, s) \<in> set xs \<or> k = i \<and> s = x"
  by (induction xs) (auto split: if_splits)

lemma simulates_put:
  assumes "simulates dt mt t0 b m" "t0 \<le> t" "cl_id (sl_lease s) = i" "stands_for t s a"
  shows "simulates dt mt t (put_lease i s b) (m(i \<mapsto> a))"
proof -
  have "simulates dt mt t b m"
    using simulates_later [OF assms(1,2)] .
  moreover have "distinct (map fst (lb_leases (put_lease i s b)))"
    using assms(1) by (simp add: simulates_def put_lease_def distinct_update)
  moreover have "\<forall>(k, s) \<in> set (lb_leases (put_lease i s b)). cl_id (sl_lease s) = k"
    using assms(1,3) by (fastforce simp: simulates_def put_lease_def dest: set_put_lease)
  ultimately show ?thesis
    using assms(4) by (simp add: simulates_def)
qed

lemma simulates_looked:
  assumes "simulates dt mt t0 b m" "t0 \<le> t" "m i = Some a" "stands_for t0 s a" "cl_id (sl_lease s) = i"
  shows "simulates dt mt t (put_lease i (expireIfNeeded E b (Instant t) s) b) (look t i m)"
  unfolding look_known(1) [of m i, OF assms(3)]
  using assms by (intro simulates_put [OF assms(1,2)] stands_for_expire(1)) simp_all

definition looked_up :: "int \<Rightarrow> lease_table \<Rightarrow> string \<Rightarrow> stored_lease option \<Rightarrow> bool" where
  "looked_up t m i r \<longleftrightarrow>
     (case r of
        None \<Rightarrow> (case m i of None \<Rightarrow> True | Some a \<Rightarrow> \<not> alive t a)
      | Some s \<Rightarrow> (\<exists>a. m i = Some a \<and> alive t a \<and> stands_for t s a \<and> cl_id (sl_lease s) = i))"

lemma getStored_simulates:
  assumes "simulates dt mt t0 b m" "t0 \<le> t"
  shows "simulates dt mt t (snd (getStoredActiveLease E i (Instant t) b)) (look t i m)
    \<and> looked_up t m i (fst (getStoredActiveLease E i (Instant t) b))"
proof (cases rule: simulates_lookup [OF assms(1), of i])
  case 1
  then show ?thesis
    using simulates_later [OF assms] by (simp add: getStoredActiveLease_def looked_up_def look_known(2))
next
  case (2 s a)
  note e = stands_for_expire [OF 2(3) assms(2), of E b]
  have "simulates dt mt t (put_lease i (expireIfNeeded E b (Instant t) s) b) (look t i m)"
    by (rule simulates_looked [OF assms 2(2-4)])
  with 2 e show ?thesis
    by (auto simp: getStoredActiveLease_def Let_def looked_up_def)
qed

lemma ttl_granted:
  assumes "simulates dt mt t b m"
  shows "granted_ttl dt mt ttl = Some n \<Longrightarrow> normalizeTtlMs b ttl = Inr n"
    "granted_ttl dt mt ttl = None \<Longrightarrow> \<exists>e. normalizeTtlMs b ttl = Inl e"
  using assms by (auto simp: simulates_def normalizeTtlMs_def granted_ttl_def Let_def split: if_splits)

lemma resolve_refines:
  assumes "simulates dt mt t0 b m" "t0 \<le> t"
  shows "simulates dt mt t (snd (performed E t (Do_resolve i) b)) (snd (specified dt mt t (Do_resolve i) m))
    \<and> fst (performed E t (Do_resolve i) b) = fst (specified dt mt t (Do_resolve i) m)"
proof -
  obtain r b' where g: "getStoredActiveLease E i (Instant t) b = (r, b')"
    by (cases "getStoredActiveLease E i (Instant t) b")
  with getStored_simulates [OF assms, of E i] have "simulates dt mt t b' (look t i m)" "looked_up t m i r"
    by simp_all
  with g show ?thesis
    by (auto simp: resolveLeaseTarget_def looked_up_def resolve_answer_def stands_for_def look_known Let_def split: option.splits)
qed

lemma renew_refines:
  assumes "simulates dt mt t0 b m" "t0 \<le> t"
  shows "simulates dt mt t (snd (performed E t (Do_renew i ttl) b)) (snd (specified dt mt t (Do_renew i ttl) m))
    \<and> fst (performed E t (Do_renew i ttl) b) = fst (specified dt mt t (Do_renew i ttl) m)"
proof -
  obtain r b' where g: "getStoredActiveLease E i (Instant t) b = (r, b')"
    by (cases "getStoredActiveLease E i (Instant t) b")
  with getStored_simulates [OF assms, of E i] have b0: "simulates dt mt t b' (look t i m)" "looked_up t m i r"
    by simp_all
  show ?thesis
  proof (cases r)
    case None
    with b0 g show ?thesis
      by (auto simp: renewLease_def looked_up_def lease_answer_of_def look_known split: option.splits)
  next
    case (Some s)
    with b0(2) obtain a where a: "m i = Some a" "alive t a" "stands_for t s a" "cl_id (sl_lease s) = i"
      by (auto simp: looked_up_def)
    have same: "look t i m = m" by (rule look_alive [of m i, OF a(1,2)])
    note b' = b0 [unfolded same]
    show ?thesis
    proof (cases "granted_ttl dt mt ttl")
      case None
      moreover obtain x where "normalizeTtlMs b' ttl = Inl x"
        using ttl_granted(2) [OF b'(1) None] by blast
      ultimately show ?thesis
        using g Some a b' same by (simp add: renewLease_def lease_answer_of_def)
    next
      case ttl: (Some n)
      then have n: "normalizeTtlMs b' ttl = Inr n"
        using ttl_granted(1) [OF b'(1)] by simp
      let ?e = "min_expiry (t + n) (al_limit a)"
      have limit: "sl_credentialExpiresAtMs s = al_limit a"
        using a(3) by (simp add: stands_for_def)
      show ?thesis
      proof (cases "granted_expiry t n (al_limit a)")
        case None
        then have "?e \<le> t \<or> \<not> \<bar>?e\<bar> \<le> max_date_ms"
          by (auto simp: granted_expiry_def Let_def split: if_splits)
        with None g Some a b' n ttl same show ?thesis
          by (auto simp: renewLease_def lease_answer_of_def limit Let_def iso_of_ms_def)
      next
        case e: (Some e)
        then have "\<not> ?e \<le> t" "\<bar>?e\<bar> \<le> max_date_ms" "e = ?e"
          by (auto simp: granted_expiry_def Let_def split: if_splits)
        let ?s = "renew_audit E b' (s\<lparr> sl_lease := (sl_lease s)\<lparr> cl_expiresAt := Instant e, cl_ttlMs := e - t \<rparr> \<rparr>)"
        have "stands_for t ?s (a\<lparr> al_expiry := e \<rparr>)"
          using a(2,3) by (auto simp: stands_for_def alive_def)
        from simulates_put [OF b'(1) order_refl _ this, of i] have
          "simulates dt mt t (put_lease i ?s b') (m(i \<mapsto> a\<lparr> al_expiry := e \<rparr>))"
          using a(4) by simp
        with \<open>\<not> ?e \<le> t\<close> \<open>\<bar>?e\<bar> \<le> max_date_ms\<close> \<open>e = ?e\<close> e g Some a n ttl limit show ?thesis
          by (simp add: renewLease_def lease_answer_of_def Let_def iso_of_ms_def)
      qed
    qed
  qed
qed

lemma revoke_refines:
  assumes "simulates dt mt t0 b m" "t0 \<le> t"
  shows "simulates dt mt t (snd (performed E t (Do_revoke i) b)) (snd (specified dt mt t (Do_revoke i) m))
    \<and> fst (performed E t (Do_revoke i) b) = fst (specified dt mt t (Do_revoke i) m)"
proof (cases rule: simulates_lookup [OF assms(1), of i])
  case 1
  then show ?thesis
    using simulates_later [OF assms] by (simp add: revokeLease_def revoke_answer_def)
next
  case (2 s a)
  let ?s = "expireIfNeeded E b (Instant t) s"
  note e = stands_for_expire [OF 2(3) assms(2), of E b]
  show ?thesis
  proof (cases "alive t a")
    case True
    let ?m = "with_status Lease_revoked ?s"
    let ?r = "renew_audit E b (?m\<lparr> sl_lease := (sl_lease ?m)\<lparr> cl_revokedAt := Some (Instant t) \<rparr> \<rparr>)"
    have "\<not> al_ended a" using True 2(3) assms(2) by (auto simp: stands_for_def alive_def)
    then have "simulates dt mt t (put_lease i ?r b) (m(i \<mapsto> a\<lparr> al_revoked := True \<rparr>))"
      by (intro simulates_put [OF assms]) (use 2(4) e(1) True in \<open>simp_all add: stands_for_def\<close>)
    with True 2 e show ?thesis
      by (simp add: revokeLease_def revoke_answer_def Let_def)
  next
    case False
    have "simulates dt mt t (put_lease i ?s b) (look t i m)"
      by (rule simulates_looked [OF assms 2(2-4)])
    moreover have "cl_status (sl_lease ?s) = (if al_revoked a then Lease_revoked else Lease_expired)"
      using False e(1) by (auto simp: stands_for_def looked_def alive_def split: if_splits)
    ultimately show ?thesis
      using False 2 e by (simp add: revokeLease_def revoke_answer_def Let_def)
  qed
qed

lemma limit_parsed:
  "credential_limit c = Some limit \<Longrightarrow> parseOptionalTimestamp (cm_expiresAt c) l = Inr limit"
  "credential_limit c = None \<Longrightarrow> \<exists>e. parseOptionalTimestamp (cm_expiresAt c) l = Inl e"
  by (auto simp: credential_limit_def parseOptionalTimestamp_def split: option.splits)

lemma issue_refines:
  assumes "simulates dt mt t0 b m" "t0 \<le> t"
  shows "simulates dt mt t (snd (performed E t (Do_issue i request) b)) (snd (specified dt mt t (Do_issue i request) m))
    \<and> fst (performed E t (Do_issue i request) b) = fst (specified dt mt t (Do_issue i request) m)"
proof -
  note later = simulates_later [OF assms]
  let ?c = "lq_credential request"
  have refused: ?thesis if "isl (fst (issueLease E i (Instant t) request b))" "snd (issueLease E i (Instant t) request b) = b"
    "granted_terms dt mt t request = None"
    using that later by (cases "issueLease E i (Instant t) request b") (auto simp: lease_answer_of_def isl_def)
  consider "\<not> isLeaseableCredentialStatus (cm_status ?c)" | "credential_limit ?c = None"
    | limit where "isLeaseableCredentialStatus (cm_status ?c)" "credential_limit ?c = Some limit" "granted_ttl dt mt (lq_ttlMs request) = None"
    | limit n where "isLeaseableCredentialStatus (cm_status ?c)" "credential_limit ?c = Some limit" "granted_ttl dt mt (lq_ttlMs request) = Some n"
    by (cases "credential_limit ?c"; cases "granted_ttl dt mt (lq_ttlMs request)") blast+
  then show ?thesis
  proof cases
    case 1
    then show ?thesis
      by (intro refused) (simp_all add: issueLease_def Let_def granted_terms_def grantable_def)
  next
    case 2
    obtain e where "parseOptionalTimestamp (cm_expiresAt ?c) ''credential expiresAt'' = Inl e"
      using limit_parsed(2) [OF 2] by blast
    with 2 show ?thesis
      by (cases "isLeaseableCredentialStatus (cm_status ?c)")
        (intro refused; simp add: issueLease_def Let_def granted_terms_def grantable_def)+
  next
    case 3
    obtain e where "normalizeTtlMs b (lq_ttlMs request) = Inl e"
      using ttl_granted(2) [OF assms(1) 3(3)] by blast
    with 3 show ?thesis
      by (intro refused) (auto simp: issueLease_def Let_def granted_terms_def limit_parsed split: option.split)
  next
    case (4 limit n)
    note ttl = ttl_granted(1) [OF assms(1) 4(3)]
    let ?e = "min_expiry (t + n) limit"
    have n: "0 < n" using 4(3) by (auto simp: granted_ttl_def Let_def split: if_splits)
    consider "?e \<le> t" | "t < ?e" "js_trim (lq_purpose request) = []"
      | "t < ?e" "js_trim (lq_purpose request) \<noteq> []" "max_date_ms < \<bar>?e\<bar>"
      | "t < ?e" "js_trim (lq_purpose request) \<noteq> []" "\<bar>?e\<bar> \<le> max_date_ms"
      by linarith
    then show ?thesis
    proof cases
      case 1
      with 4 ttl n show ?thesis
        by (cases limit; intro refused)
          (auto simp: issueLease_def Let_def granted_terms_def limit_parsed granted_expiry_def min_expiry_def)
    next
      case 2
      then have "\<not> (case limit of None \<Rightarrow> False | Some e \<Rightarrow> e \<le> t)"
        by (auto simp: min_expiry_def split: option.splits)
      with 2 4 ttl show ?thesis
        by (intro refused) (auto simp: issueLease_def Let_def granted_terms_def grantable_def limit_parsed
            normalizeRequired_def split: option.splits)
    next
      case 3
      then have "\<not> (case limit of None \<Rightarrow> False | Some e \<Rightarrow> e \<le> t)"
        by (auto simp: min_expiry_def split: option.splits)
      with 3 4 ttl show ?thesis
        by (intro refused) (auto simp: issueLease_def Let_def granted_terms_def limit_parsed granted_expiry_def
            normalizeRequired_def iso_of_ms_def split: option.splits)
    next
      case ok: 4
      then have "\<not> (case limit of None \<Rightarrow> False | Some e \<Rightarrow> e \<le> t)"
        by (auto simp: min_expiry_def split: option.splits)
      moreover define lease where "lease = lease_of_request E b i request (js_trim (lq_purpose request)) (Instant t) (Instant ?e) (?e - t)"
      moreover define s where "s = \<lparr> sl_lease = lease, sl_credential = ?c, sl_secretRef = cm_secretRef ?c,
        sl_credentialExpiresAtMs = limit \<rparr>"
      ultimately have issued: "issueLease E i (Instant t) request b = (Inr lease, put_lease i s b)"
        using ok 4 ttl by (auto simp: issueLease_def Let_def limit_parsed normalizeRequired_def iso_of_ms_def
            split: option.splits)
      have terms: "granted_terms dt mt t request = Some \<lparr> al_expiry = ?e, al_limit = limit, al_revoked = False, al_ended = False \<rparr>"
        using ok 4 by (simp add: granted_terms_def grantable_def granted_expiry_def)
      have "simulates dt mt t (put_lease i s b) (m(i \<mapsto> \<lparr> al_expiry = ?e, al_limit = limit, al_revoked = False, al_ended = False \<rparr>))"
        by (rule simulates_put [OF assms])
          (simp_all add: s_def lease_def lease_of_request_def Let_def stands_for_def)
      with issued terms show ?thesis
        by (simp add: lease_answer_of_def lease_def lease_of_request_def Let_def)
    qed
  qed
qed

lemma expire_all_leases:
  "lb_leases (expire_all E at b) = map (\<lambda>(k, s). (k, expireIfNeeded E b at s)) (lb_leases b)"
  by (simp add: expire_all_def)

lemma expire_all_lookup:
  "map_of (lb_leases (expire_all E at b)) i = map_option (expireIfNeeded E b at) (map_of (lb_leases b) i)"
  by (simp add: expire_all_leases map_of_map)

lemma expire_all_simulates:
  assumes "simulates dt mt t0 b m" "t0 \<le> t"
  shows "simulates dt mt t (expire_all E (Instant t) b) (look_all t m)"
proof -
  have "rel_option (stands_for t) (map_of (lb_leases (expire_all E (Instant t) b)) i) (look_all t m i)" for i
    by (cases rule: simulates_lookup [OF assms(1), of i])
      (simp_all add: expire_all_lookup look_all_def stands_for_expire(1) [OF _ assms(2)])
  moreover have "\<forall>(k, s) \<in> set (lb_leases (expire_all E (Instant t) b)). cl_id (sl_lease s) = k"
    using assms(1) by (auto simp: simulates_def expire_all_leases)
  moreover have "distinct (map fst (lb_leases (expire_all E (Instant t) b)))"
    using assms(1) by (simp add: simulates_def expire_all_leases comp_def case_prod_unfold)
  ultimately show ?thesis
    using assms(1) by (simp add: simulates_def expire_all_def)
qed

lemma active_leases:
  assumes "simulates dt mt t b m"
  shows "(i, s) \<in> set (lb_leases b) \<longleftrightarrow> map_of (lb_leases b) i = Some s"
  using assms by (simp add: simulates_def map_of_eq_Some_iff)

lemma listed_expire [simp]: "listed (sl_lease (expireIfNeeded E b at s)) = listed (sl_lease s)"
  by (simp add: listed_def expireIfNeeded_def)

lemma listed_filter:
  "listed ` set (map sl_lease (filter P (map (expireIfNeeded E b at) (filter Q (map snd ls))))) =
     {listed (sl_lease s) | k s. (k, s) \<in> set ls \<and> Q s \<and> P (expireIfNeeded E b at s)}" (is "?L ls = ?R ls")
proof (induction ls)
  case (Cons x ls)
  have "?R (x # ls) = (if Q (snd x) \<and> P (expireIfNeeded E b at (snd x)) then {listed (sl_lease (snd x))} else {}) \<union> ?R ls"
    by (cases x) auto
  moreover have "?L (x # ls) = (if Q (snd x) \<and> P (expireIfNeeded E b at (snd x)) then {listed (sl_lease (snd x))} else {}) \<union> ?L ls"
    by (simp del: set_map set_filter)
  ultimately show ?case using Cons.IH by (simp only:)
qed simp

text \<open>The leases of the broker with a property, as the table has them.\<close>

lemma stored_pairs:
  assumes "simulates dt mt t0 b m" "\<And>s a. stands_for t0 s a \<Longrightarrow> P s = Q a"
  shows "{listed (sl_lease s) | k s. (k, s) \<in> set (lb_leases b) \<and> P s} = {(i, al_expiry a) | i a. m i = Some a \<and> Q a}"
    (is "?L = ?R")
proof (intro set_eqI iffI)
  fix x assume "x \<in> ?L"
  then obtain i s where s: "map_of (lb_leases b) i = Some s" "P s" "x = listed (sl_lease s)"
    using active_leases [OF assms(1)] by auto
  with simulates_lookup [OF assms(1), of i] obtain a where "m i = Some a" "stands_for t0 s a" "cl_id (sl_lease s) = i"
    by (metis option.distinct(1) option.inject)
  with s assms(2) show "x \<in> ?R" by (auto simp: listed_def stands_for_def)
next
  fix x assume "x \<in> ?R"
  then obtain i a where a: "m i = Some a" "Q a" "x = (i, al_expiry a)" by blast
  with simulates_lookup [OF assms(1), of i] obtain s where
    s: "map_of (lb_leases b) i = Some s" "stands_for t0 s a" "cl_id (sl_lease s) = i"
    by (metis option.distinct(1) option.inject)
  then have "x = listed (sl_lease s)" "P s"
    using a assms(2) by (auto simp: listed_def stands_for_def)
  with s(1) active_leases [OF assms(1)] show "x \<in> ?L" by blast
qed

lemma list_refines:
  assumes "simulates dt mt t0 b m" "t0 \<le> t"
  shows "simulates dt mt t (snd (performed E t Do_list b)) (snd (specified dt mt t Do_list m))
    \<and> fst (performed E t Do_list b) = fst (specified dt mt t Do_list m)"
proof -
  let ?b = "expire_all E (Instant t) b"
  have "listed ` set (map sl_lease (filter is_active (map snd (lb_leases ?b)))) =
      {listed (sl_lease s) | k s. (k, s) \<in> set (lb_leases b) \<and> is_active (expireIfNeeded E b (Instant t) s)}"
    using listed_filter [of is_active E b "Instant t" "\<lambda>_. True" "lb_leases b"]
    by (simp add: expire_all_leases comp_def case_prod_unfold)
  also have "\<dots> = {(i, al_expiry a) | i a. m i = Some a \<and> alive t a}"
    by (rule stored_pairs [OF assms(1)]) (rule stands_for_expire(2) [OF _ assms(2)])
  finally show ?thesis
    using expire_all_simulates [OF assms, of E] by (simp add: listActiveLeases_def Let_def)
qed

lemma sweep_refines:
  assumes "simulates dt mt t0 b m" "t0 \<le> t"
  shows "simulates dt mt t (snd (performed E t Do_sweep b)) (snd (specified dt mt t Do_sweep m))
    \<and> fst (performed E t Do_sweep b) = fst (specified dt mt t Do_sweep m)"
proof -
  have swept: "is_active s \<and> \<not> is_active (expireIfNeeded E b (Instant t) s)
      \<longleftrightarrow> \<not> al_revoked a \<and> \<not> al_ended a \<and> al_expiry a \<le> t" if "stands_for t0 s a" for s a
    using that stands_for_expire(2) [OF that assms(2), of E b] by (auto simp: stands_for_def is_active_def alive_def split: if_splits)
  have "listed ` set (fst (sweepExpired E (Instant t) b)) =
      {listed (sl_lease s) | k s. (k, s) \<in> set (lb_leases b) \<and> is_active s \<and> \<not> is_active (expireIfNeeded E b (Instant t) s)}"
    by (simp only: sweepExpired_def fst_conv listed_filter)
  also have "\<dots> = {(i, al_expiry a) | i a. m i = Some a \<and> \<not> al_revoked a \<and> \<not> al_ended a \<and> al_expiry a \<le> t}"
    by (rule stored_pairs [OF assms(1)]) (rule swept)
  finally show ?thesis
    using expire_all_simulates [OF assms, of E] by (simp add: sweepExpired_def)
qed

lemma step_refines:
  assumes "simulates dt mt t0 b m" "t0 \<le> t"
  shows "simulates dt mt t (snd (performed E t c b)) (snd (specified dt mt t c m))
    \<and> fst (performed E t c b) = fst (specified dt mt t c m)"
  using assms
  by (cases c) (simp_all only: issue_refines renew_refines revoke_refines resolve_refines list_refines sweep_refines)

section \<open>Runs of the broker\<close>

fun broker_answers :: "env \<Rightarrow> (int \<times> lease_command) list \<Rightarrow> lease_broker \<Rightarrow> lease_answer list" where
  "broker_answers E [] b = []"
| "broker_answers E ((t, c) # cs) b =
     fst (performed E t c b) # broker_answers E cs (snd (performed E t c b))"

fun specified_answers :: "int \<Rightarrow> int \<Rightarrow> (int \<times> lease_command) list \<Rightarrow> lease_table \<Rightarrow> lease_answer list" where
  "specified_answers dt mt [] m = []"
| "specified_answers dt mt ((t, c) # cs) m =
     fst (specified dt mt t c m) # specified_answers dt mt cs (snd (specified dt mt t c m))"

lemma answers_agree:
  assumes "simulates dt mt t0 b m" "sorted (t0 # map fst cs)"
  shows "broker_answers E cs b = specified_answers dt mt cs m"
  using assms
proof (induction cs arbitrary: t0 b m)
  case (Cons tc cs)
  obtain t c where tc: "tc = (t, c)" by (cases tc)
  with Cons.prems(2) have "t0 \<le> t" "sorted (t # map fst cs)" by auto
  note step = step_refines [OF Cons.prems(1) this(1), of E c]
  from Cons.IH [OF step [THEN conjunct1] \<open>sorted (t # map fst cs)\<close>] step show ?case
    by (simp add: tc)
qed simp


definition demo_credential :: credential_meta where
  "demo_credential =
     \<lparr> cm_id = ''c'', cm_orgId = ''o'', cm_name = ''GitHub'', cm_provider = ''github'', cm_secretRef = ''vault:1'',
       cm_status = Cred_rotation_due, cm_scopeSummary = ''repo'', cm_connectorInstallId = None,
       cm_externalAccountId = None, cm_expiresAt = Some (Instant 9), cm_rotationDueAt = None, cm_lastUsedAt = None \<rparr>"

definition demo_lease_request :: lease_request where
  "demo_lease_request =
     \<lparr> lq_credential = demo_credential, lq_purpose = '' push '', lq_scopes = Some [''b'', '' a'', ''b''], lq_ttlMs = Some 4,
       lq_requestedByPrincipalId = None, lq_runId = Some ''r'' \<rparr>"

definition demo_lease_env :: env where
  "demo_lease_env = \<lparr> env_uuid = nat_str, env_clock = int, env_sha256 = rev, env_collate = code_unit_le \<rparr>"

definition demo_commands :: "(int \<times> lease_command) list" where
  "demo_commands =
     [(1, Do_issue ''l'' demo_lease_request), (4, Do_resolve ''l''), (4, Do_renew ''l'' (Some 8)), (5, Do_resolve ''x''),
      (8, Do_resolve ''l''), (9, Do_resolve ''l''), (9, Do_revoke ''l''), (9, Do_issue ''m'' demo_lease_request),
      (9, Do_sweep)]"


end
