(* ===== verification/Credential_Safety.thy ===== *)
theory Credential_Safety
  imports Credential_Broker
begin

text \<open>
  What holds of every lease in every state the broker can reach, whatever dates its callers pass,
  invalid ones and ones that run backwards included.
\<close>

section \<open>Reachable brokers\<close>

text \<open>A new lease gets an id that no lease has, as \<open>randomUUID\<close> does.\<close>

inductive broker_step :: "env \<Rightarrow> lease_broker \<Rightarrow> lease_broker \<Rightarrow> bool" for E where
  issue: "leaseId \<notin> fst ` set (lb_leases b) \<Longrightarrow> broker_step E b (snd (issueLease E leaseId now request b))"
| renew: "broker_step E b (snd (renewLease E now renewedAt leaseId ttl b))"
| revoke: "broker_step E b (snd (revokeLease E at revokedAt leaseId b))"
| get: "broker_step E b (snd (getLease E leaseId at b))"
| list: "broker_step E b (snd (listActiveLeases E at b))"
| sweep: "broker_step E b (snd (sweepExpired E at b))"
| resolve: "broker_step E b (snd (resolveLeaseTarget E leaseId at b))"

definition within_limit :: "iso_date \<Rightarrow> int option \<Rightarrow> bool" where
  "within_limit expiresAt limit =
     (case date_parse expiresAt of None \<Rightarrow> False | Some e \<Rightarrow> (case limit of None \<Rightarrow> True | Some l \<Rightarrow> e \<le> l))"

definition lease_ok :: "env \<Rightarrow> lease_broker \<Rightarrow> string \<times> stored_lease \<Rightarrow> bool" where
  "lease_ok E b ks = (case ks of (k, s) \<Rightarrow>
     cl_id (sl_lease s) = k
     \<and> sl_secretRef s = cm_secretRef (sl_credential s)
     \<and> isLeaseableCredentialStatus (cm_status (sl_credential s))
     \<and> cm_expiresAt (sl_credential s) = map_option Instant (sl_credentialExpiresAtMs s)
     \<and> within_limit (cl_expiresAt (sl_lease s)) (sl_credentialExpiresAtMs s)
     \<and> 0 < cl_ttlMs (sl_lease s) \<and> cl_ttlMs (sl_lease s) \<le> lb_maxTtlMs b
     \<and> (cl_status (sl_lease s) = Lease_revoked \<or> cl_revokedAt (sl_lease s) = None)
     \<and> (cl_auditRef (sl_lease s) = createLeaseAuditReference E b s
        \<or> cl_status (sl_lease s) = Lease_revoked \<and> cl_revokedAt (sl_lease s) = None))"

lemma audit_same [simp]:
  "createLeaseAuditReference E (put_lease i x b) s = createLeaseAuditReference E b s"
  "createLeaseAuditReference E (expire_all E at b) s = createLeaseAuditReference E b s"
  unfolding createLeaseAuditReference_def Let_def by (simp_all add: expire_all_def)

lemma lease_ok_same [simp]:
  "lease_ok E (put_lease i x b) ks = lease_ok E b ks" "lease_ok E (expire_all E at b) ks = lease_ok E b ks"
  by (simp_all add: lease_ok_def) (simp add: expire_all_def)

lemma audit_renewed [simp]: "cl_auditRef (sl_lease (renew_audit E b s)) = createLeaseAuditReference E b (renew_audit E b s)"
  by (simp add: renew_audit_def createLeaseAuditReference_def Let_def)

lemma lease_ok_expire:
  "lease_ok E b (k, s) \<Longrightarrow> lease_ok E b (k, expireIfNeeded E b at s)"
  by (auto simp: lease_ok_def expireIfNeeded_def)

definition leases_ok :: "env \<Rightarrow> lease_broker \<Rightarrow> bool" where
  "leases_ok E b = list_all (lease_ok E b) (lb_leases b)"

lemma leases_ok_lookup: "leases_ok E b \<Longrightarrow> map_of (lb_leases b) i = Some s \<Longrightarrow> lease_ok E b (i, s)"
  by (auto simp: leases_ok_def list_all_iff dest: map_of_SomeD)

lemma leases_ok_put: "leases_ok E b \<Longrightarrow> lease_ok E b (i, s) \<Longrightarrow> leases_ok E (put_lease i s b)"
  by (auto simp: leases_ok_def list_all_iff put_lease_def lease_ok_same(1) [unfolded put_lease_def] dest: set_put_lease)

lemma getStored_ok:
  assumes "leases_ok E b" "getStoredActiveLease E i at b = (r, b')"
  shows "leases_ok E b' \<and> lb_maxTtlMs b' = lb_maxTtlMs b
    \<and> (case r of None \<Rightarrow> True | Some s \<Rightarrow> lease_ok E b' (i, s) \<and> is_active s)"
  using assms leases_ok_put [OF assms(1) lease_ok_expire [OF leases_ok_lookup [OF assms(1)]]]
    lease_ok_expire [OF leases_ok_lookup [OF assms(1)]]
  by (auto simp: getStoredActiveLease_def Let_def split: option.splits if_splits)

lemma normalizeTtl_bounds: "normalizeTtlMs b ttl = Inr n \<Longrightarrow> 0 < n \<and> n \<le> lb_maxTtlMs b"
  by (auto simp: normalizeTtlMs_def Let_def split: if_splits)

lemma min_expiry_le: "min_expiry (t + n) limit - t \<le> n"
  by (auto simp: min_expiry_def split: option.split)

lemma iso_of_ms_Inr: "iso_of_ms e = Inr d \<Longrightarrow> d = Instant e"
  by (auto simp: iso_of_ms_def split: if_splits)

lemma issue_Inr:
  assumes "issueLease E i now request b = (Inr lease, b')"
  obtains t limit n purpose where "now = Instant t"
    "isLeaseableCredentialStatus (cm_status (lq_credential request))"
    "parseOptionalTimestamp (cm_expiresAt (lq_credential request)) ''credential expiresAt'' = Inr limit"
    "normalizeTtlMs b (lq_ttlMs request) = Inr n" "t < min_expiry (t + n) limit"
    "lease = lease_of_request E b i request purpose now (Instant (min_expiry (t + n) limit)) (min_expiry (t + n) limit - t)"
    "b' = put_lease i \<lparr> sl_lease = lease, sl_credential = lq_credential request,
       sl_secretRef = cm_secretRef (lq_credential request), sl_credentialExpiresAtMs = limit \<rparr> b"
proof -
  from assms obtain limit n where p: "isLeaseableCredentialStatus (cm_status (lq_credential request))"
    "parseOptionalTimestamp (cm_expiresAt (lq_credential request)) ''credential expiresAt'' = Inr limit"
    "normalizeTtlMs b (lq_ttlMs request) = Inr n"
    by (auto simp: issueLease_def Let_def split: if_splits sum.splits)
  show ?thesis
  proof (cases now)
    case (Instant t)
    with assms p that show ?thesis
      by (auto simp: issueLease_def Let_def dest: iso_of_ms_Inr split: if_splits sum.splits)
  next
    case Unparsable
    with assms p show ?thesis
      by (auto simp: issueLease_def Let_def split: if_splits sum.splits option.splits)
  qed
qed

lemma limit_of_parsed: "parseOptionalTimestamp d l = Inr limit \<Longrightarrow> d = map_option Instant limit"
  by (cases d; cases "the d") (auto simp: parseOptionalTimestamp_def)

lemma issue_ok:
  assumes "leases_ok E b"
  shows "leases_ok E (snd (issueLease E i now request b))"
proof (cases "fst (issueLease E i now request b)")
  case (Inl e)
  then have "snd (issueLease E i now request b) = b"
    by (auto simp: issueLease_def Let_def split: if_splits sum.splits option.splits)
  with assms show ?thesis by simp
next
  case (Inr lease)
  then obtain b' where r: "issueLease E i now request b = (Inr lease, b')"
    by (cases "issueLease E i now request b") simp
  obtain t limit n purpose where o: "now = Instant t"
    "isLeaseableCredentialStatus (cm_status (lq_credential request))"
    "parseOptionalTimestamp (cm_expiresAt (lq_credential request)) ''credential expiresAt'' = Inr limit"
    "normalizeTtlMs b (lq_ttlMs request) = Inr n" "t < min_expiry (t + n) limit"
    "lease = lease_of_request E b i request purpose now (Instant (min_expiry (t + n) limit)) (min_expiry (t + n) limit - t)"
    "b' = put_lease i \<lparr> sl_lease = lease, sl_credential = lq_credential request,
       sl_secretRef = cm_secretRef (lq_credential request), sl_credentialExpiresAtMs = limit \<rparr> b"
    using r by (rule issue_Inr)
  have "within_limit (Instant (min_expiry (t + n) limit)) limit"
    by (auto simp: within_limit_def min_expiry_def split: option.split)
  moreover have "min_expiry (t + n) limit - t \<le> lb_maxTtlMs b"
    using min_expiry_le [of t n limit] normalizeTtl_bounds [OF o(4)] by linarith
  ultimately have "lease_ok E b (i, \<lparr> sl_lease = lease, sl_credential = lq_credential request,
       sl_secretRef = cm_secretRef (lq_credential request), sl_credentialExpiresAtMs = limit \<rparr>)"
    using o(2,5) limit_of_parsed [OF o(3)]
    by (simp add: lease_ok_def o(6) lease_of_request_def Let_def createLeaseAuditReference_def)
  with leases_ok_put [OF assms] show ?thesis
    by (simp add: r o(7))
qed

lemma renew_ok:
  assumes "leases_ok E b"
  shows "leases_ok E (snd (renewLease E now renewedAt i ttl b))"
proof -
  obtain r b1 where g: "getStoredActiveLease E i now b = (r, b1)"
    by (cases "getStoredActiveLease E i now b")
  note ok = getStored_ok [OF assms g]
  show ?thesis
  proof (cases r)
    case None
    with g ok show ?thesis by (simp add: renewLease_def)
  next
    case (Some s)
    show ?thesis
    proof (cases "fst (renewLease E now renewedAt i ttl b)")
      case (Inl e)
      then have "snd (renewLease E now renewedAt i ttl b) = b1"
        using g Some by (auto simp: renewLease_def Let_def split: sum.splits option.splits if_splits)
      with ok show ?thesis by simp
    next
      case (Inr lease)
      then obtain t n where o: "renewedAt = Instant t" "normalizeTtlMs b1 ttl = Inr n"
        "t < min_expiry (t + n) (sl_credentialExpiresAtMs s)"
        using g Some by (cases renewedAt)
          (auto simp: renewLease_def Let_def not_le split: sum.splits if_splits)
      let ?e = "min_expiry (t + n) (sl_credentialExpiresAtMs s)"
      let ?s = "renew_audit E b1 (s\<lparr> sl_lease := (sl_lease s)\<lparr> cl_expiresAt := Instant ?e, cl_ttlMs := ?e - t \<rparr> \<rparr>)"
      have result: "snd (renewLease E now renewedAt i ttl b) = put_lease i ?s b1"
        using Inr g Some o by (auto simp: renewLease_def Let_def dest: iso_of_ms_Inr split: sum.splits if_splits)
      have "within_limit (Instant ?e) (sl_credentialExpiresAtMs s)"
        by (auto simp: within_limit_def min_expiry_def split: option.split)
      moreover have "?e - t \<le> lb_maxTtlMs b1"
        using min_expiry_le [of t n "sl_credentialExpiresAtMs s"] normalizeTtl_bounds [OF o(2)] by linarith
      ultimately have "lease_ok E b1 (i, ?s)"
        using ok Some o(3) by (simp add: lease_ok_def)
      with ok leases_ok_put show ?thesis
        by (simp add: result)
    qed
  qed
qed

lemma revoke_ok:
  assumes "leases_ok E b"
  shows "leases_ok E (snd (revokeLease E at revokedAt i b))"
proof (cases "map_of (lb_leases b) i")
  case None
  with assms show ?thesis by (simp add: revokeLease_def)
next
  case (Some s)
  define s1 where "s1 = expireIfNeeded E b at s"
  have s: "lease_ok E b (i, s1)"
    unfolding s1_def by (rule lease_ok_expire [OF leases_ok_lookup [OF assms Some]])
  consider "\<not> is_active s1" | "is_active s1" "date_parse revokedAt = None" | t where "is_active s1" "date_parse revokedAt = Some t"
    by (cases "date_parse revokedAt") blast+
  then show ?thesis
  proof cases
    case 1
    with Some leases_ok_put [OF assms s] show ?thesis
      by (simp add: revokeLease_def Let_def s1_def)
  next
    case 2
    have "lease_ok E b (i, with_status Lease_revoked s1)"
      using s 2(1) by (auto simp: lease_ok_def is_active_def)
    with 2 Some leases_ok_put [OF assms] show ?thesis
      by (simp add: revokeLease_def Let_def s1_def)
  next
    case 3
    let ?m = "with_status Lease_revoked s1"
    have "lease_ok E b (i, renew_audit E b (?m\<lparr> sl_lease := (sl_lease ?m)\<lparr> cl_revokedAt := Some revokedAt \<rparr> \<rparr>))"
      using s by (auto simp: lease_ok_def)
    with 3 Some leases_ok_put [OF assms] show ?thesis
      by (simp add: revokeLease_def Let_def s1_def)
  qed
qed

lemma expire_all_ok: "leases_ok E b \<Longrightarrow> leases_ok E (expire_all E at b)"
  by (auto simp: leases_ok_def list_all_iff expire_all_leases intro: lease_ok_expire)

lemma step_ok: "broker_step E b b' \<Longrightarrow> leases_ok E b \<Longrightarrow> leases_ok E b'"
proof (induction rule: broker_step.induct)
  case (get b leaseId at)
  with getStored_ok [OF this, of leaseId at] show ?case
    by (cases "getStoredActiveLease E leaseId at b") (simp add: getLease_def)
next
  case (resolve b leaseId at)
  with getStored_ok [OF this, of leaseId at] show ?case
    by (cases "getStoredActiveLease E leaseId at b") (auto simp: resolveLeaseTarget_def Let_def split: option.split)
qed (simp_all add: issue_ok renew_ok revoke_ok expire_all_ok listActiveLeases_def sweepExpired_def Let_def)

text \<open>
  Whatever is done to a broker, with whatever dates: every lease it holds is on a credential
  that was leaseable, names that credential's secret, expires no later than the credential, was
  granted for a positive time of at most the maximum, and has an audit reference that agrees with
  it (but for a lease that was revoked with an invalid date).
\<close>

theorem leases_stay_within_credentials:
  assumes "newLeaseBroker defaultTtlMs maxTtlMs salt = Inr b0" "(broker_step E)\<^sup>*\<^sup>* b0 b"
  shows "list_all (lease_ok E b) (lb_leases b)"
proof -
  have "leases_ok E b0"
    using assms(1) by (auto simp: newLeaseBroker_def leases_ok_def Let_def split: if_splits)
  with assms(2) have "leases_ok E b"
    by (induction rule: rtranclp_induct) (simp_all add: step_ok)
  then show ?thesis
    by (simp add: leases_ok_def)
qed

section \<open>Leases that ended\<close>

definition ended :: "lease_broker \<Rightarrow> string \<Rightarrow> bool" where
  "ended b i \<longleftrightarrow> (case map_of (lb_leases b) i of None \<Rightarrow> False | Some s \<Rightarrow> \<not> is_active s)"

lemma ended_expire [simp]: "\<not> is_active s \<Longrightarrow> expireIfNeeded E b at s = s"
  by (simp add: expireIfNeeded_def is_active_def)

lemma ended_put:
  "ended b i \<Longrightarrow> (i = j \<Longrightarrow> \<not> is_active s) \<Longrightarrow> ended (put_lease j s b) i"
  by (auto simp: ended_def)

lemma ended_lookup:
  assumes "ended b i"
  obtains s where "map_of (lb_leases b) i = Some s" "\<not> is_active s"
  using assms by (auto simp: ended_def split: option.splits)

lemma ended_getStored:
  assumes "ended b i"
  shows "ended (snd (getStoredActiveLease E j at b)) i" "fst (getStoredActiveLease E i at b) = None"
proof -
  obtain s where s: "map_of (lb_leases b) i = Some s" "\<not> is_active s"
    using assms by (rule ended_lookup)
  then show "fst (getStoredActiveLease E i at b) = None"
    by (simp add: getStoredActiveLease_def)
  show "ended (snd (getStoredActiveLease E j at b)) i"
    using assms s by (auto simp: getStoredActiveLease_def Let_def intro!: ended_put split: option.split)
qed

lemma ended_renew:
  assumes "ended b i"
  shows "ended (snd (renewLease E now renewedAt j ttl b)) i"
proof -
  obtain r b1 where g: "getStoredActiveLease E j now b = (r, b1)"
    by (cases "getStoredActiveLease E j now b")
  have b1: "ended b1 i" "i = j \<Longrightarrow> r = None"
    using ended_getStored(1) [OF assms, of E j now] ended_getStored(2) [OF assms, where E = E and at = now] g by auto
  show ?thesis
  proof (cases r)
    case None
    with g b1 show ?thesis by (simp add: renewLease_def)
  next
    case (Some s)
    with b1(2) have "i \<noteq> j" by auto
    with Some g b1(1) show ?thesis
      by (auto simp: renewLease_def Let_def intro!: ended_put split: sum.split option.split)
  qed
qed

lemma ended_revoke:
  assumes "ended b i"
  shows "ended (snd (revokeLease E at revokedAt j b)) i"
proof (cases "map_of (lb_leases b) j")
  case None
  with assms show ?thesis by (simp add: revokeLease_def)
next
  case (Some s)
  with assms have "i = j \<Longrightarrow> \<not> is_active s"
    by (auto simp: ended_def)
  with assms Some show ?thesis
    by (auto simp: revokeLease_def Let_def is_active_def intro!: ended_put split: option.split)
qed

lemma ended_expire_all: "ended b i \<Longrightarrow> ended (expire_all E at b) i"
  by (auto simp: ended_def expire_all_lookup split: option.splits)

lemma ended_issue:
  assumes "ended b i" "j \<notin> fst ` set (lb_leases b)"
  shows "ended (snd (issueLease E j now request b)) i"
proof (cases "fst (issueLease E j now request b)")
  case (Inl e)
  then have "snd (issueLease E j now request b) = b"
    by (auto simp: issueLease_def Let_def split: if_splits sum.splits option.splits)
  with assms show ?thesis by simp
next
  case (Inr lease)
  then obtain b' where r: "issueLease E j now request b = (Inr lease, b')"
    by (cases "issueLease E j now request b") simp
  have "i \<noteq> j"
    using assms by (metis ended_lookup map_of_eq_None_iff option.distinct(1))
  with assms(1) r show ?thesis
    by (auto elim!: issue_Inr intro!: ended_put)
qed

lemma ended_step: "broker_step E b b' \<Longrightarrow> ended b i \<Longrightarrow> ended b' i"
proof (induction rule: broker_step.induct)
  case (get b leaseId at)
  with ended_getStored(1) [OF this, of E leaseId at] show ?case
    by (cases "getStoredActiveLease E leaseId at b") (simp add: getLease_def)
next
  case (resolve b leaseId at)
  with ended_getStored(1) [OF this, of E leaseId at] show ?case
    by (cases "getStoredActiveLease E leaseId at b") (auto simp: resolveLeaseTarget_def Let_def split: option.split)
qed (simp_all add: ended_issue ended_renew ended_revoke ended_expire_all listActiveLeases_def sweepExpired_def Let_def)

text \<open>
  A lease that was revoked or has expired gives its secret to nobody ever after: in no later
  state, at no date, is it resolved or renewed.
\<close>

theorem ended_lease_is_final:
  assumes "(broker_step E)\<^sup>*\<^sup>* b b'" "ended b i"
  shows "fst (resolveLeaseTarget E i at b') = None \<and> fst (getLease E i at b') = None
    \<and> fst (renewLease E now renewedAt i ttl b') = Inl (Error ''Credential lease is not active.'')"
proof -
  from assms have "ended b' i"
    by (induction rule: rtranclp_induct) (simp_all add: ended_step)
  from ended_getStored(2) [OF this] have "fst (getStoredActiveLease E i at b') = None" for at .
  then show ?thesis
    by (auto simp: resolveLeaseTarget_def getLease_def renewLease_def case_prod_unfold)
qed

section \<open>Examples\<close>

definition demo_broker :: lease_broker where
  "demo_broker = \<lparr> lb_leases = [], lb_defaultTtlMs = 5, lb_maxTtlMs = 8, lb_fingerprintSalt = None \<rparr>"

definition demo_leased :: lease_broker where
  "demo_leased = snd (issueLease demo_lease_env ''l'' (Instant 1) demo_lease_request demo_broker)"

definition demo_ended :: lease_broker where
  "demo_ended = snd (revokeLease demo_lease_env (Instant 3) (Instant 3) ''l'' demo_leased)"

lemma demo_issue: "(broker_step demo_lease_env)\<^sup>*\<^sup>* demo_broker demo_leased"
  unfolding demo_leased_def by (rule r_into_rtranclp, rule broker_step.issue) (simp add: demo_broker_def)

lemma demo_new: "newLeaseBroker (Some 5) (Some 8) None = Inr demo_broker"
  by (simp add: newLeaseBroker_def isSafeInteger_def demo_broker_def)

lemma leases_stay_within_credentials_witness:
  "list_all (lease_ok demo_lease_env demo_leased) (lb_leases demo_leased) \<and> length (lb_leases demo_leased) = 1"
  using leases_stay_within_credentials [OF demo_new demo_issue]
  by (rule conjI) code_simp

lemma ended_lease_is_final_witness:
  "fst (resolveLeaseTarget demo_lease_env ''l'' (Instant 0)
     (snd (getLease demo_lease_env ''l'' (Instant 2) demo_ended))) = None
   \<and> fst (resolveLeaseTarget demo_lease_env ''l'' (Instant 4) demo_leased) \<noteq> None"
proof
  have "ended demo_ended ''l''" by code_simp
  from ended_lease_is_final [OF r_into_rtranclp [of "broker_step demo_lease_env", OF broker_step.get] this]
  show "fst (resolveLeaseTarget demo_lease_env ''l'' (Instant 0)
     (snd (getLease demo_lease_env ''l'' (Instant 2) demo_ended))) = None"
    by blast
  show "fst (resolveLeaseTarget demo_lease_env ''l'' (Instant 4) demo_leased) \<noteq> None"
    by code_simp
qed

text \<open>A sweep does not report a lease that was found expired by a read before it.\<close>

lemma sweep_misses_expired_on_read:
  "map cl_id (fst (sweepExpired demo_lease_env (Instant 9) demo_leased)) = [''l'']
   \<and> fst (sweepExpired demo_lease_env (Instant 9) (snd (getLease demo_lease_env ''l'' (Instant 9) demo_leased))) = []"
  by code_simp

text \<open>A revocation with an invalid date fails after it took effect, and leaves the audit reference as it was.\<close>

lemma invalid_revocation_date:
  "isl (fst (revokeLease demo_lease_env Unparsable Unparsable ''l'' demo_leased))
   \<and> map (\<lambda>(k, s). (cl_status (sl_lease s), la_status (cl_auditRef (sl_lease s))))
       (lb_leases (snd (revokeLease demo_lease_env Unparsable Unparsable ''l'' demo_leased))) = [(Lease_revoked, Lease_active)]"
  by code_simp

end
