(* ===== verification/Credential_Health.thy ===== *)
theory Credential_Health
  imports Credential_Broker
begin

text \<open>
  The health of a credential, \<open>packages/credentials/src/health.ts\<close>, and the tracker of its last use,
  \<open>last-used.ts\<close>. Health predicts the lease broker: a healthy credential is one that can be leased
  now. The tracker keeps the latest time and the number of uses, in whatever order they are told.
\<close>

section \<open>Health\<close>

datatype health_state =
  Health_active | Health_disabled | Health_rotation_due | Health_revoked | Health_expired | Health_missing_scopes

datatype health_reason =
  Why_active | Why_disabled | Why_revoked | Why_expired | Why_rotation_overdue | Why_rotation_flagged
  | Why_missing_scopes

record credential_health =
  hh_credentialId :: string
  hh_state :: health_state
  hh_reason :: health_reason
  hh_leaseable :: bool
  hh_missingScopes :: "string list option"
  hh_activeLeaseIds :: "string list option"

definition isLeaseableCredentialHealthState :: "health_state \<Rightarrow> bool" where
  "isLeaseableCredentialHealthState state \<longleftrightarrow> state = Health_active \<or> state = Health_rotation_due"

text \<open>\<open>split(/[\s,]+/)\<close> without the empty parts.\<close>

definition scope_separator :: "char \<Rightarrow> bool" where
  "scope_separator c \<longleftrightarrow> is_space c \<or> c = CHR '',''"

fun scope_parts :: "string \<Rightarrow> string \<Rightarrow> string list" where
  "scope_parts acc [] = (if acc = [] then [] else [acc])"
| "scope_parts acc (c # s) =
     (if scope_separator c then (if acc = [] then [] else [acc]) @ scope_parts [] s
      else scope_parts (acc @ [c]) s)"

definition parseScopeSummary :: "string \<Rightarrow> string list" where
  "parseScopeSummary scopeSummary =
     dedupe (filter (\<lambda>s. s \<noteq> []) (map js_trim (scope_parts [] scopeSummary)))"

definition computeMissingScopes :: "string \<Rightarrow> string list option \<Rightarrow> string list" where
  "computeMissingScopes scopeSummary requiredScopes =
     (let advertised = parseScopeSummary scopeSummary in
      sort_by code_unit_le (dedupe
        (filter (\<lambda>s. s \<noteq> [] \<and> s \<notin> set advertised) (map js_trim (or_else requiredScopes [])))))"

definition collectActiveLeaseIds :: "string \<Rightarrow> credential_lease list option \<Rightarrow> int \<Rightarrow> string list option" where
  "collectActiveLeaseIds credentialId leases nowMs =
     map_option (\<lambda>ls. sort_by code_unit_le (map cl_id (filter (\<lambda>lease.
       cl_credentialId lease = credentialId \<and> cl_status lease = Lease_active
       \<and> (case date_parse (cl_expiresAt lease) of None \<Rightarrow> False | Some e \<Rightarrow> nowMs < e)) ls))) leases"

definition deriveCredentialHealth :: "credential_meta \<Rightarrow> iso_date \<Rightarrow> string list option \<Rightarrow> credential_lease list option
    \<Rightarrow> js_error + credential_health" where
  "deriveCredentialHealth credential now requiredScopes leases =
     (case date_parse now of
        None \<Rightarrow> Inl (Error ''now must be a valid date.'')
      | Some nowMs \<Rightarrow>
          (let base = (\<lambda>state reason leaseable missing.
                 \<lparr> hh_credentialId = cm_id credential, hh_state = state, hh_reason = reason,
                   hh_leaseable = leaseable, hh_missingScopes = missing,
                   hh_activeLeaseIds = collectActiveLeaseIds (cm_id credential) leases nowMs \<rparr>)
           in if cm_status credential = Cred_revoked then Inr (base Health_revoked Why_revoked False None)
              else if cm_status credential = Cred_disabled then Inr (base Health_disabled Why_disabled False None)
              else case parseOptionalTimestamp (cm_expiresAt credential) ''credential expiresAt'' of
                Inl e \<Rightarrow> Inl e
              | Inr expiresAtMs \<Rightarrow>
                  if (case expiresAtMs of None \<Rightarrow> False | Some e \<Rightarrow> e \<le> nowMs)
                  then Inr (base Health_expired Why_expired False None)
                  else let missing = computeMissingScopes (cm_scopeSummary credential) requiredScopes in
                    if missing \<noteq> [] then Inr (base Health_missing_scopes Why_missing_scopes False (Some missing))
                    else case parseOptionalTimestamp (cm_rotationDueAt credential) ''credential rotationDueAt'' of
                      Inl e \<Rightarrow> Inl e
                    | Inr rotationDueAtMs \<Rightarrow>
                        if (case rotationDueAtMs of None \<Rightarrow> False | Some r \<Rightarrow> r \<le> nowMs)
                        then Inr (base Health_rotation_due Why_rotation_overdue True None)
                        else if cm_status credential = Cred_rotation_due
                        then Inr (base Health_rotation_due Why_rotation_flagged True None)
                        else Inr (base Health_active Why_active True None)))"

text \<open>
  Where the health of a credential can be told, it is called leaseable exactly in the two
  leaseable states, names missing scopes exactly when its state is that of missing scopes, and,
  when no scopes are required, it is leaseable exactly if the broker would grant a lease on it at
  that moment for some purpose and the default lifetime.
\<close>

theorem health_predicts_the_broker:
  assumes "deriveCredentialHealth credential (Instant t) None leases = Inr health"
    and "newLeaseBroker defaultTtlMs maxTtlMs salt = Inr b" "0 \<le> t" "t + lb_maxTtlMs b \<le> max_date_ms"
  shows "hh_leaseable health = isLeaseableCredentialHealthState (hh_state health)
    \<and> hh_leaseable health = (\<not> isl (fst (issueLease E leaseId (Instant t)
        \<lparr> lq_credential = credential, lq_purpose = ''check'', lq_scopes = None, lq_ttlMs = None,
          lq_requestedByPrincipalId = None, lq_runId = None \<rparr> b)))"
proof
  have missing: "computeMissingScopes s None = []" for s
    by (simp add: computeMissingScopes_def Let_def)
  show "hh_leaseable health = isLeaseableCredentialHealthState (hh_state health)"
    using assms(1) by (auto simp: deriveCredentialHealth_def Let_def isLeaseableCredentialHealthState_def
        split: if_splits sum.splits)
  have b: "isSafeInteger (lb_defaultTtlMs b)" "0 < lb_defaultTtlMs b" "lb_defaultTtlMs b \<le> lb_maxTtlMs b"
    using assms(2) by (auto simp: newLeaseBroker_def Let_def split: if_splits)
  have purpose: "normalizeRequired ''check'' ''purpose'' = Inr ''check''" by code_simp
  show "hh_leaseable health = (\<not> isl (fst (issueLease E leaseId (Instant t)
        \<lparr> lq_credential = credential, lq_purpose = ''check'', lq_scopes = None, lq_ttlMs = None,
          lq_requestedByPrincipalId = None, lq_runId = None \<rparr> b)))"
    using assms(1,3,4) b
    by (cases "cm_status credential"; cases "parseOptionalTimestamp (cm_expiresAt credential) ''credential expiresAt''")
      (auto simp: deriveCredentialHealth_def issueLease_def Let_def missing purpose normalizeTtlMs_def
        isLeaseableCredentialStatus_def min_expiry_def iso_of_ms_def split: if_splits sum.splits option.splits)
qed

section \<open>Last use\<close>

record last_used_record =
  lu_credentialId :: string
  lu_lastUsedAt :: iso_date
  lu_useCount :: int
  lu_lastUsedByIdentityId :: "string option"
  lu_lastAction :: "string option"

record usage_input =
  ui_credentialId :: string
  ui_usedByIdentityId :: "string option"
  ui_action :: "string option"
  ui_at :: "iso_date option"

type_synonym last_used_tracker = "(string \<times> last_used_record) list"

definition next_usage :: "last_used_record option \<Rightarrow> string \<Rightarrow> int \<Rightarrow> usage_input \<Rightarrow> last_used_record" where
  "next_usage existing credentialId usedAtMs input =
     \<lparr> lu_credentialId = credentialId,
       lu_lastUsedAt = (case existing of None \<Rightarrow> Instant usedAtMs
         | Some r \<Rightarrow> (case date_parse (lu_lastUsedAt r) of
             None \<Rightarrow> Instant usedAtMs | Some l \<Rightarrow> if usedAtMs < l then lu_lastUsedAt r else Instant usedAtMs)),
       lu_useCount = (case existing of None \<Rightarrow> 0 | Some r \<Rightarrow> lu_useCount r) + 1,
       lu_lastUsedByIdentityId = (case normalizeOptional (ui_usedByIdentityId input) of
           None \<Rightarrow> Option.bind existing lu_lastUsedByIdentityId | Some i \<Rightarrow> Some i),
       lu_lastAction = (case normalizeOptional (ui_action input) of
           None \<Rightarrow> Option.bind existing lu_lastAction | Some a \<Rightarrow> Some a) \<rparr>"

definition recordUsage :: "iso_date \<Rightarrow> usage_input \<Rightarrow> last_used_tracker \<Rightarrow> (last_used_tracker, last_used_record) outcome" where
  "recordUsage now input tracker =
     (case normalizeRequired (ui_credentialId input) ''credentialId'' of
        Inl e \<Rightarrow> (Inl e, tracker)
      | Inr credentialId \<Rightarrow>
          (case date_parse (or_else (ui_at input) now) of
             None \<Rightarrow> (Inl (Error ''Credential usage time must be a valid date.''), tracker)
           | Some usedAtMs \<Rightarrow>
               (let r = next_usage (map_of tracker credentialId) credentialId usedAtMs input
                in (Inr r, AList.update credentialId r tracker))))"

definition getUsage :: "string \<Rightarrow> last_used_tracker \<Rightarrow> last_used_record option" where
  "getUsage credentialId tracker = map_of tracker credentialId"

definition more_recent :: "last_used_record \<Rightarrow> last_used_record \<Rightarrow> bool" where
  "more_recent a b =
     (case (date_parse (lu_lastUsedAt a), date_parse (lu_lastUsedAt b)) of
        (Some x, Some y) \<Rightarrow> if x = y then code_unit_le (lu_credentialId a) (lu_credentialId b) else y < x
      | _ \<Rightarrow> code_unit_le (lu_credentialId a) (lu_credentialId b))"

definition listUsage :: "last_used_tracker \<Rightarrow> last_used_record list" where
  "listUsage tracker = sort_by more_recent (map snd tracker)"

definition record_all :: "(string \<times> int) list \<Rightarrow> last_used_tracker" where
  "record_all uses = foldl (\<lambda>tracker (c, t). snd (recordUsage Unparsable
     \<lparr> ui_credentialId = c, ui_usedByIdentityId = None, ui_action = None, ui_at = Some (Instant t) \<rparr> tracker)) [] uses"

definition times_of :: "string \<Rightarrow> (string \<times> int) list \<Rightarrow> int list" where
  "times_of c uses = map snd (filter (\<lambda>u. js_trim (fst u) = c) uses)"

definition summarizes :: "last_used_record option \<Rightarrow> string \<Rightarrow> int list \<Rightarrow> bool" where
  "summarizes r c ts =
     (case r of
        None \<Rightarrow> ts = []
      | Some u \<Rightarrow> ts \<noteq> [] \<and> lu_credentialId u = c \<and> lu_useCount u = int (length ts)
          \<and> lu_lastUsedAt u = Instant (Max (set ts)))"

lemma summarizes_next:
  assumes "summarizes r c ts"
  shows "summarizes (Some (next_usage r c t input)) c (ts @ [t])"
proof (cases r)
  case None
  with assms show ?thesis by (simp add: summarizes_def next_usage_def)
next
  case (Some u)
  with assms have "Max (insert t (set ts)) = max t (Max (set ts))"
    by (intro Max_insert) (auto simp: summarizes_def)
  with Some assms show ?thesis
    by (auto simp: summarizes_def next_usage_def max_def)
qed

text \<open>
  Whatever the order in which uses are told, the tracker has for a credential the number of
  its uses and the latest of their times, and nothing for one that was not used.
\<close>

theorem tracker_summarizes_uses:
  assumes "c \<noteq> []"
  shows "summarizes (getUsage c (record_all uses)) c (times_of c uses)"
proof (induction uses rule: rev_induct)
  case Nil
  then show ?case by (simp add: getUsage_def record_all_def times_of_def summarizes_def)
next
  case (snoc u uses)
  obtain i t where u: "u = (i, t)" by (cases u)
  let ?input = "\<lparr> ui_credentialId = i, ui_usedByIdentityId = None, ui_action = None, ui_at = Some (Instant t) \<rparr>"
  have r: "record_all (uses @ [u]) = snd (recordUsage Unparsable ?input (record_all uses))"
    by (simp add: record_all_def u)
  have t: "times_of c (uses @ [u]) = times_of c uses @ (if js_trim i = c then [t] else [])"
    by (simp add: times_of_def u)
  show ?case
  proof (cases "js_trim i = c")
    case True
    with assms have "recordUsage Unparsable ?input (record_all uses) =
        (Inr (next_usage (map_of (record_all uses) c) c t ?input),
         AList.update c (next_usage (map_of (record_all uses) c) c t ?input) (record_all uses))"
      by (simp add: recordUsage_def normalizeRequired_def Let_def)
    with True summarizes_next [OF snoc.IH [unfolded getUsage_def], of t ?input] show ?thesis
      by (simp add: r t getUsage_def update_conv')
  next
    case False
    then have "getUsage c (snd (recordUsage Unparsable ?input (record_all uses))) = getUsage c (record_all uses)"
      by (auto simp: recordUsage_def normalizeRequired_def Let_def getUsage_def update_conv')
    with False snoc.IH show ?thesis
      by (simp add: r t)
  qed
qed

lemma health_predicts_the_broker_witness:
  "hh_leaseable (projr (deriveCredentialHealth demo_credential (Instant 3) None None)) \<and>
   isLeaseableCredentialHealthState (hh_state (projr (deriveCredentialHealth demo_credential (Instant 3) None None)))"
proof -
  have h: "deriveCredentialHealth demo_credential (Instant 3) None None =
      Inr (projr (deriveCredentialHealth demo_credential (Instant 3) None None))"
    by code_simp
  have b: "newLeaseBroker (Some 5) (Some 8) None = Inr \<lparr> lb_leases = [], lb_defaultTtlMs = 5, lb_maxTtlMs = 8, lb_fingerprintSalt = None \<rparr>"
    by (simp add: newLeaseBroker_def isSafeInteger_def)
  have "hh_leaseable (projr (deriveCredentialHealth demo_credential (Instant 3) None None))"
    by code_simp
  with health_predicts_the_broker [OF h b, of demo_lease_env "''l''"] show ?thesis
    by (simp add: max_date_ms_def)
qed

lemma tracker_summarizes_uses_witness:
  "summarizes (getUsage ''c'' (record_all [('' c'', 7), (''d'', 9), (''c'', 4)])) ''c''
     (times_of ''c'' [('' c'', 7), (''d'', 9), (''c'', 4)])
   \<and> times_of ''c'' [('' c'', 7), (''d'', 9), (''c'', 4)] = [7, 4]"
  by (rule conjI [OF tracker_summarizes_uses]) (simp, code_simp)

end
