(* ===== verification/Preflight.thy ===== *)
theory Preflight
  imports Prelude
begin

text \<open>
  The check of a deployment before it starts, \<open>packages/core/src/preflight.ts\<close>. The environment maps
  names of variables to their values.
\<close>

datatype preflight_mode = Mode_local | Mode_self_hosted | Mode_hosted

datatype preflight_severity = Sev_pass | Sev_warn | Sev_fail

record preflight_check =
  pc_key :: string
  pc_severity :: preflight_severity
  pc_message :: string
  pc_remediation :: "string option"

record preflight_report =
  pp_mode :: preflight_mode
  pp_ok :: bool
  pp_failures :: nat
  pp_warnings :: nat
  pp_checks :: "preflight_check list"

type_synonym variables = "string \<Rightarrow> string option"

definition has_variable :: "variables \<Rightarrow> string \<Rightarrow> bool" where
  "has_variable env key = (case env key of None \<Rightarrow> False | Some v \<Rightarrow> js_trim v \<noteq> [])"

definition setting :: "variables \<Rightarrow> string \<Rightarrow> string \<Rightarrow> string" where
  "setting env key fallback = to_lower_case (js_trim (or_else (env key) fallback))"

definition isTrue :: "variables \<Rightarrow> string \<Rightarrow> bool" where
  "isTrue env key \<longleftrightarrow> setting env key [] = ''true''"

definition check_of :: "string \<Rightarrow> preflight_severity \<Rightarrow> string \<Rightarrow> string \<Rightarrow> preflight_check" where
  "check_of key severity message remediation =
     \<lparr> pc_key = key, pc_severity = severity, pc_message = message,
       pc_remediation = (if remediation = [] then None else Some remediation) \<rparr>"

definition admin_auth_checks :: "variables \<Rightarrow> preflight_mode \<Rightarrow> preflight_check list" where
  "admin_auth_checks env mode =
     (let nonLocal = (mode \<noteq> Mode_local) in
      if isTrue env ''BEK_ALLOW_UNAUTHENTICATED_LOCAL''
      then (if nonLocal
        then [check_of ''admin_auth'' Sev_fail
                ''BEK_ALLOW_UNAUTHENTICATED_LOCAL is enabled in a non-local deployment.''
                ''Unset BEK_ALLOW_UNAUTHENTICATED_LOCAL and set BEK_ADMIN_API_TOKEN.'']
        else [check_of ''admin_auth'' Sev_pass ''Local unauthenticated bypass enabled.'' []])
      else if \<not> has_variable env ''BEK_ADMIN_API_TOKEN'' \<and> \<not> has_variable env ''BEK_ADMIN_API_TOKENS''
      then [check_of ''admin_auth'' (if nonLocal then Sev_fail else Sev_warn)
              ''No admin API token configured; the admin API will fail closed.''
              ''Set BEK_ADMIN_API_TOKEN (or BEK_ADMIN_API_TOKENS for role tokens).'']
      else check_of ''admin_auth'' Sev_pass ''Admin API token configured.'' []
        # (let token = (case env ''BEK_ADMIN_API_TOKEN'' of None \<Rightarrow> [] | Some t \<Rightarrow> js_trim t) in
           if token \<noteq> [] \<and> length token < 24
           then [check_of ''admin_token_strength'' Sev_warn ''BEK_ADMIN_API_TOKEN is short and may be weak.''
                   ''Use a high-entropy token of at least 24 characters.'']
           else []))"

definition session_checks :: "variables \<Rightarrow> preflight_mode \<Rightarrow> preflight_check list" where
  "session_checks env mode =
     (if mode = Mode_hosted \<and> \<not> isTrue env ''BEK_REQUIRE_ADMIN_AUTH''
      then [check_of ''require_admin_auth'' Sev_warn ''BEK_REQUIRE_ADMIN_AUTH is not true for a hosted deployment.''
              ''Set BEK_REQUIRE_ADMIN_AUTH=true to enforce admin auth.'']
      else [])
     @ (if mode = Mode_hosted \<and> \<not> has_variable env ''BEK_SESSION_SECRET''
        then [check_of ''sessions'' Sev_warn ''BEK_SESSION_SECRET is unset; cookie sign-in is disabled.''
                ''Set BEK_SESSION_SECRET to enable signed session cookies.'']
        else [])"

definition persistence_checks :: "variables \<Rightarrow> preflight_mode \<Rightarrow> preflight_check list" where
  "persistence_checks env mode =
     (if setting env ''BEK_STORAGE'' ''memory'' = ''postgres''
      then (if \<not> has_variable env ''DATABASE_URL''
        then [check_of ''persistence'' Sev_fail ''BEK_STORAGE=postgres but DATABASE_URL is not set.''
                ''Set DATABASE_URL or use BEK_STORAGE=memory.'']
        else [check_of ''persistence'' Sev_pass ''Postgres persistence configured.'' []])
      else if mode \<noteq> Mode_local
      then [check_of ''persistence'' Sev_warn
              ''Using the in-memory store in a non-local deployment (not durable).''
              ''Set BEK_STORAGE=postgres and provide DATABASE_URL.'']
      else [])"

definition vault_checks :: "variables \<Rightarrow> preflight_mode \<Rightarrow> preflight_check list" where
  "vault_checks env mode =
     (let slackOauth = (has_variable env ''SLACK_CLIENT_ID'' \<and> has_variable env ''SLACK_CLIENT_SECRET'') in
      if (slackOauth \<or> mode \<noteq> Mode_local) \<and> \<not> has_variable env ''BEK_CREDENTIAL_MASTER_KEY''
      then [check_of ''credential_vault'' Sev_warn
              ''BEK_CREDENTIAL_MASTER_KEY is unset; encrypted credential storage is unavailable.''
              ''Generate a key (openssl rand -hex 32) and set BEK_CREDENTIAL_MASTER_KEY.'']
      else [])"

definition slack_configured :: "variables \<Rightarrow> bool" where
  "slack_configured env \<longleftrightarrow> has_variable env ''SLACK_BOT_TOKEN'' \<or> has_variable env ''SLACK_CLIENT_ID''"

definition slack_checks :: "variables \<Rightarrow> preflight_check list" where
  "slack_checks env =
     (if slack_configured env \<and> \<not> has_variable env ''SLACK_SIGNING_SECRET'' \<and> \<not> isTrue env ''BEK_DEV_UNSIGNED_SLACK''
      then [check_of ''slack_signing'' Sev_fail
              ''Slack is configured but SLACK_SIGNING_SECRET is missing; events cannot be verified.''
              ''Set SLACK_SIGNING_SECRET from your Slack app's Basic Information page.'']
      else [])"

definition github_configured :: "variables \<Rightarrow> bool" where
  "github_configured env \<longleftrightarrow> has_variable env ''GITHUB_APP_ID'' \<and> has_variable env ''GITHUB_APP_PRIVATE_KEY''
     \<and> (has_variable env ''GITHUB_APP_WEBHOOK_SECRET'' \<or> has_variable env ''GITHUB_WEBHOOK_SECRET'')"

definition github_checks :: "variables \<Rightarrow> preflight_check list" where
  "github_checks env =
     (if setting env ''BEK_GITHUB_EXECUTION'' [] = ''real''
      then (if \<not> github_configured env
        then [check_of ''github'' Sev_fail ''BEK_GITHUB_EXECUTION=real but the GitHub App is not fully configured.''
                ''Set GITHUB_APP_ID, GITHUB_APP_PRIVATE_KEY, and GITHUB_APP_WEBHOOK_SECRET.'']
        else [check_of ''github'' Sev_pass ''GitHub App configured for real execution.'' []])
      else [])"

definition gateway_checks :: "variables \<Rightarrow> preflight_check list" where
  "gateway_checks env =
     (let gateway = setting env ''BEK_MODEL_GATEWAY'' ''local'' in
      if gateway \<noteq> ''local'' \<and> \<not> has_variable env ''AI_GATEWAY_API_KEY''
      then [check_of ''model_gateway'' Sev_warn
              (''BEK_MODEL_GATEWAY='' @ gateway @ '' but AI_GATEWAY_API_KEY is not set.'')
              ''Set AI_GATEWAY_API_KEY (or switch BEK_MODEL_GATEWAY=local).'']
      else [])"

definition hosted_checks :: "variables \<Rightarrow> preflight_mode \<Rightarrow> preflight_check list" where
  "hosted_checks env mode =
     (if mode \<noteq> Mode_hosted then []
      else
        (let publicUrl = or_else (env ''BEK_PUBLIC_URL'') [] in
         if publicUrl = [] \<or> str_includes publicUrl ''localhost''
         then [check_of ''public_url'' Sev_warn
                 ''BEK_PUBLIC_URL is missing or points at localhost; external callbacks will fail.''
                 ''Set BEK_PUBLIC_URL to your public HTTPS origin.'']
         else [])
        @ (if setting env ''NODE_ENV'' [] \<noteq> ''production''
           then [check_of ''node_env'' Sev_warn ''NODE_ENV is not 'production' for a hosted deployment.''
                   ''Set NODE_ENV=production.'']
           else []))"

definition evaluateDeploymentPreflight :: "variables \<Rightarrow> preflight_mode \<Rightarrow> preflight_report" where
  "evaluateDeploymentPreflight env mode =
     (let checks = admin_auth_checks env mode @ session_checks env mode @ persistence_checks env mode
            @ vault_checks env mode @ slack_checks env @ github_checks env @ gateway_checks env
            @ hosted_checks env mode;
          failures = length (filter (\<lambda>c. pc_severity c = Sev_fail) checks);
          warnings = length (filter (\<lambda>c. pc_severity c = Sev_warn) checks)
      in \<lparr> pp_mode = mode, pp_ok = (failures = 0), pp_failures = failures, pp_warnings = warnings,
           pp_checks = checks \<rparr>)"

section \<open>When a deployment may start\<close>

definition fails :: "preflight_check list \<Rightarrow> bool" where
  "fails checks = list_ex (\<lambda>c. pc_severity c = Sev_fail) checks"

lemma fails_append [simp]: "fails (xs @ ys) \<longleftrightarrow> fails xs \<or> fails ys"
  by (simp add: fails_def)

lemma check_severity [simp]: "pc_severity (check_of k s m r) = s"
  by (simp add: check_of_def)

lemma never_fails [simp]:
  "\<not> fails (session_checks env mode)" "\<not> fails (vault_checks env mode)" "\<not> fails (gateway_checks env)"
  "\<not> fails (hosted_checks env mode)"
  by (simp_all add: fails_def session_checks_def vault_checks_def gateway_checks_def hosted_checks_def Let_def)

lemma count_fails: "length (filter (\<lambda>c. pc_severity c = Sev_fail) checks) = 0 \<longleftrightarrow> \<not> fails checks"
  by (induction checks) (auto simp: fails_def)

text \<open>
  The preflight passes exactly when admin access is protected (outside local mode by a token
  and without the bypass), a chosen database has its URL, a configured Slack app has its signing
  secret or the development switch, and real GitHub execution has a complete app. Warnings never
  decide.
\<close>

theorem preflight_passes_iff:
  "pp_ok (evaluateDeploymentPreflight env mode) =
    ((if mode = Mode_local then True
      else \<not> isTrue env ''BEK_ALLOW_UNAUTHENTICATED_LOCAL''
        \<and> (has_variable env ''BEK_ADMIN_API_TOKEN'' \<or> has_variable env ''BEK_ADMIN_API_TOKENS''))
     \<and> (if setting env ''BEK_STORAGE'' ''memory'' = ''postgres'' then has_variable env ''DATABASE_URL'' else True)
     \<and> (if slack_configured env
        then has_variable env ''SLACK_SIGNING_SECRET'' \<or> isTrue env ''BEK_DEV_UNSIGNED_SLACK'' else True)
     \<and> (if setting env ''BEK_GITHUB_EXECUTION'' [] = ''real'' then github_configured env else True))"
proof -
  have "fails (admin_auth_checks env mode) = (\<not> (if mode = Mode_local then True
      else \<not> isTrue env ''BEK_ALLOW_UNAUTHENTICATED_LOCAL''
        \<and> (has_variable env ''BEK_ADMIN_API_TOKEN'' \<or> has_variable env ''BEK_ADMIN_API_TOKENS'')))"
    by (auto simp: fails_def admin_auth_checks_def Let_def)
  moreover have "fails (persistence_checks env mode) =
      (\<not> (if setting env ''BEK_STORAGE'' ''memory'' = ''postgres'' then has_variable env ''DATABASE_URL'' else True))"
    by (simp add: fails_def persistence_checks_def)
  moreover have "fails (slack_checks env) = (\<not> (if slack_configured env
        then has_variable env ''SLACK_SIGNING_SECRET'' \<or> isTrue env ''BEK_DEV_UNSIGNED_SLACK'' else True))"
    by (simp add: fails_def slack_checks_def)
  moreover have "fails (github_checks env) =
      (\<not> (if setting env ''BEK_GITHUB_EXECUTION'' [] = ''real'' then github_configured env else True))"
    by (simp add: fails_def github_checks_def)
  ultimately show ?thesis
    unfolding evaluateDeploymentPreflight_def Let_def preflight_report.select_convs count_fails
    by (simp only: fails_append never_fails de_Morgan_disj not_not simp_thms conj_assoc)
qed

text \<open>A hosted deployment passes although its Slack events are not verified: the development switch is honoured in every mode.\<close>

lemma unsigned_slack_passes_hosted:
  "pp_ok (evaluateDeploymentPreflight (map_of [(''BEK_ADMIN_API_TOKEN'', ''t''), (''SLACK_BOT_TOKEN'', ''x''),
     (''BEK_DEV_UNSIGNED_SLACK'', ''true'')]) Mode_hosted)"
  by code_simp

end
