(* ===== verification/Worker_Budget.thy ===== *)
theory Worker_Budget
  imports Agent_Loop Policy
begin

text \<open>
  The budget guard of the worker, \<open>packages/worker/src/index.ts\<close>: the cost expected of a run, the
  strictest ceilings that apply to it, the spend of the day, and what an approved increase covers.
  Costs are integers. Instants before the year 100, whose years \<open>Date.UTC\<close> shifts, are left out.
\<close>

section \<open>The context of a run\<close>

record runtime_context =
  wx_snapshot :: bek_snapshot
  wx_run :: run
  wx_requester :: principal
  wx_place :: place_scope
  wx_accessBundles :: "access_bundle list"
  wx_modelPolicy :: model_policy
  wx_modelRoute :: runtime_model_route
  wx_runtimeProfile :: runtime_profile
  wx_grants :: "capability_grant list"

definition normalizeEstimatedCostCents :: "int \<Rightarrow> int" where
  "normalizeEstimatedCostCents v = max 0 v"

definition providerFromModel :: "string \<Rightarrow> string" where
  "providerFromModel model =
     (let provider = takeWhile (\<lambda>c. c \<noteq> CHR ''/'') model
      in if provider \<noteq> [] \<and> provider \<noteq> model then provider else ''local'')"

definition defaultModelRoute :: "model_policy \<Rightarrow> runtime_profile \<Rightarrow> runtime_model_route" where
  "defaultModelRoute modelPolicy runtimeProfile =
     \<lparr> rt_provider = providerFromModel (mp_defaultModel modelPolicy), rt_model = mp_defaultModel modelPolicy,
       rt_reason = ''Using '' @ mp_name modelPolicy @ '' for '' @ rp_name runtimeProfile @ ''.'',
       rt_estimatedCostCents = None, rt_budget = None \<rparr>"

definition estimateRunInputTokens :: "run \<Rightarrow> principal \<Rightarrow> place_scope \<Rightarrow> int" where
  "estimateRunInputTokens r requester place =
     (let trimmedPrompt = js_trim (buildRuntimeRunPrompt r requester place)
      in if trimmedPrompt = [] then 0 else ceil_div (int (length trimmedPrompt)) 4)"

fun estimatedOutputTokens :: "runtime_kind \<Rightarrow> int" where
  "estimatedOutputTokens Ai_sdk = 1024"
| "estimatedOutputTokens Opencode = 4096"
| "estimatedOutputTokens Langgraph = 2048"
| "estimatedOutputTokens External_runtime = 1024"

definition createRuntimeModelBudgetPreflight :: "model_policy \<Rightarrow> runtime_profile \<Rightarrow> run \<Rightarrow> principal \<Rightarrow> place_scope \<Rightarrow> int
    \<Rightarrow> route_budget" where
  "createRuntimeModelBudgetPreflight modelPolicy runtimeProfile r requester place estimatedCost =
     (let remaining = mp_perRunBudgetCents modelPolicy - estimatedCost in
      \<lparr> rb_decision = (if 0 \<le> remaining then Within_budget else Over_budget),
        rb_budgetCents = mp_perRunBudgetCents modelPolicy, rb_estimatedCostCents = estimatedCost,
        rb_remainingBudgetCents = remaining, rb_estimatedInputTokens = estimateRunInputTokens r requester place,
        rb_estimatedOutputTokens = estimatedOutputTokens (rp_runtimeKind runtimeProfile) \<rparr>)"

definition withModelRouteBudgetPreflight :: "runtime_model_route \<Rightarrow> model_policy \<Rightarrow> runtime_profile \<Rightarrow> run \<Rightarrow> principal
    \<Rightarrow> place_scope \<Rightarrow> runtime_model_route" where
  "withModelRouteBudgetPreflight route modelPolicy runtimeProfile r requester place =
     (let estimatedCost = max (max (normalizeEstimatedCostCents (or_else (rt_estimatedCostCents route) 0))
            (normalizeEstimatedCostCents (case rt_budget route of None \<Rightarrow> 0 | Some b \<Rightarrow> rb_estimatedCostCents b)))
            (normalizeEstimatedCostCents (run_estimatedCostCents r));
          computed = createRuntimeModelBudgetPreflight modelPolicy runtimeProfile r requester place estimatedCost
      in route\<lparr> rt_estimatedCostCents := Some estimatedCost,
                rt_budget := Some (case rt_budget route of
                    None \<Rightarrow> computed
                  | Some b \<Rightarrow> computed\<lparr> rb_estimatedInputTokens := rb_estimatedInputTokens b,
                                        rb_estimatedOutputTokens := rb_estimatedOutputTokens b \<rparr>) \<rparr>)"

section \<open>Ceilings\<close>

datatype budget_scope = Scope_per_run | Scope_per_day

fun source_str :: "budget_source \<Rightarrow> string" where
  "source_str Source_model_policy = ''model_policy''"
| "source_str Source_budget_policy = ''budget_policy''"

fun budget_scope_str :: "budget_scope \<Rightarrow> string" where
  "budget_scope_str Scope_per_run = ''per_run''"
| "budget_scope_str Scope_per_day = ''per_day''"

record budget_guard =
  bg_decision :: budget_decision
  bg_provider :: string
  bg_model :: string
  bg_estimatedCostCents :: int
  bg_budgetCents :: int
  bg_remainingBudgetCents :: int
  bg_budgetSource :: budget_source
  bg_budgetScope :: budget_scope
  bg_budgetPolicyId :: "string option"
  bg_dailySpentCents :: "int option"
  bg_dailyCommittedCents :: "int option"
  bg_dailyWindowStart :: "iso_date option"
  bg_dailyWindowEnd :: "iso_date option"
  bg_reason :: string

definition budgetPoliciesForAccessBundles :: "budget_policy list \<Rightarrow> access_bundle list \<Rightarrow> string \<Rightarrow> budget_policy list" where
  "budgetPoliciesForAccessBundles budgetPolicies accessBundles orgId =
     (let policyIds = map bu_budgetPolicyId (filter (\<lambda>b. bu_orgId b = orgId) accessBundles)
      in filter (\<lambda>p. bp_orgId p = orgId \<and> bp_id p \<in> set policyIds) budgetPolicies)"

definition applicable_policies :: "runtime_context \<Rightarrow> budget_policy list" where
  "applicable_policies context =
     budgetPoliciesForAccessBundles (sn_budgetPolicies (wx_snapshot context)) (wx_accessBundles context)
       (run_orgId (wx_run context))"

definition smallest :: "('a \<Rightarrow> int) \<Rightarrow> 'a list \<Rightarrow> 'a option" where
  "smallest key xs = (case sort_by (\<lambda>a b. key a \<le> key b) xs of [] \<Rightarrow> None | x # _ \<Rightarrow> Some x)"

definition strictestRuntimeBudgetCeiling :: "runtime_context \<Rightarrow> int \<times> budget_source \<times> string option" where
  "strictestRuntimeBudgetCeiling context =
     (let perRun = mp_perRunBudgetCents (wx_modelPolicy context) in
      case smallest bp_perRunCents (applicable_policies context) of
        None \<Rightarrow> (perRun, Source_model_policy, None)
      | Some p \<Rightarrow> if bp_perRunCents p < perRun
                  then (bp_perRunCents p, Source_budget_policy, Some (bp_id p))
                  else (perRun, Source_model_policy, None))"

definition strictestDailyBudgetPolicy :: "runtime_context \<Rightarrow> budget_policy option" where
  "strictestDailyBudgetPolicy context = smallest bp_perDayCents (applicable_policies context)"

section \<open>The spend of a day\<close>

definition utcDayWindow :: "iso_date \<Rightarrow> js_error + int \<times> int" where
  "utcDayWindow v =
     (let t = or_else (date_parse v) 0; start = t div 86400000 * 86400000; finish = start + 86400000
      in if max_date_ms < finish then Inl (RangeError ''Invalid time value'') else Inr (start, finish))"

definition isoTimeInWindow :: "iso_date \<Rightarrow> int \<times> int \<Rightarrow> bool" where
  "isoTimeInWindow v window =
     (case date_parse v of None \<Rightarrow> False | Some t \<Rightarrow> fst window \<le> t \<and> t < snd window)"

definition runCountsAgainstDailyBudget :: "run \<Rightarrow> bool" where
  "runCountsAgainstDailyBudget r \<longleftrightarrow> run_status r \<noteq> Run_cancelled \<and> run_status r \<noteq> Run_failed"

definition committedRunCostCents :: "run \<Rightarrow> int" where
  "committedRunCostCents r =
     normalizeEstimatedCostCents (if 0 < run_actualCostCents r then run_actualCostCents r else run_estimatedCostCents r)"

definition dailyBudgetSpentCents :: "runtime_context \<Rightarrow> string \<Rightarrow> int \<times> int \<Rightarrow> int" where
  "dailyBudgetSpentCents context budgetPolicyId window =
     (let r = wx_run context;
          governed = concat (map bu_attachedPlaceIds (filter (\<lambda>b. bu_orgId b = run_orgId r
            \<and> bu_budgetPolicyId b = budgetPolicyId) (sn_accessBundles (wx_snapshot context))))
      in sum_list (map committedRunCostCents (filter (\<lambda>x. run_orgId x = run_orgId r \<and> run_id x \<noteq> run_id r
           \<and> run_placeScopeId x \<in> set governed \<and> runCountsAgainstDailyBudget x
           \<and> isoTimeInWindow (run_createdAt x) window) (sn_runs (wx_snapshot context)))))"

definition runtimeDailyBudgetGuardDecision :: "runtime_context \<Rightarrow> int \<Rightarrow> js_error + budget_guard option" where
  "runtimeDailyBudgetGuardDecision context estimatedCost =
     (case strictestDailyBudgetPolicy context of
        None \<Rightarrow> Inr None
      | Some policy \<Rightarrow>
          (case utcDayWindow (run_createdAt (wx_run context)) of
             Inl e \<Rightarrow> Inl e
           | Inr window \<Rightarrow>
               (let spent = dailyBudgetSpentCents context (bp_id policy) window;
                    committed = spent + estimatedCost;
                    remaining = bp_perDayCents policy - committed;
                    route = wx_modelRoute context
                in Inr (Some
                  \<lparr> bg_decision = (if 0 \<le> remaining then Within_budget else Over_budget),
                    bg_provider = rt_provider route, bg_model = rt_model route,
                    bg_estimatedCostCents = estimatedCost, bg_budgetCents = bp_perDayCents policy,
                    bg_remainingBudgetCents = remaining, bg_budgetSource = Source_budget_policy,
                    bg_budgetScope = Scope_per_day, bg_budgetPolicyId = Some (bp_id policy),
                    bg_dailySpentCents = Some spent, bg_dailyCommittedCents = Some committed,
                    bg_dailyWindowStart = Some (Instant (fst window)), bg_dailyWindowEnd = Some (Instant (snd window)),
                    bg_reason =
                      (if 0 \<le> remaining then ''Daily budget preflight for '' @ rt_model route @ '' is within budget.''
                       else ''Daily budget preflight blocked '' @ rt_model route @ '': committed '' @ int_str committed
                         @ '' cents would exceed daily budget '' @ int_str (bp_perDayCents policy) @ '' cents.'') \<rparr>))))"

definition expected_cost :: "runtime_context \<Rightarrow> int" where
  "expected_cost context =
     normalizeEstimatedCostCents
       (case rt_budget (wx_modelRoute context) of
          Some b \<Rightarrow> rb_estimatedCostCents b
        | None \<Rightarrow> or_else (rt_estimatedCostCents (wx_modelRoute context)) (run_estimatedCostCents (wx_run context)))"

definition runtimeBudgetGuardDecision :: "runtime_context \<Rightarrow> js_error + budget_guard" where
  "runtimeBudgetGuardDecision context =
     (let route = wx_modelRoute context;
          estimated = expected_cost context;
          (budgetCents, source, policyId) = strictestRuntimeBudgetCeiling context;
          remaining = budgetCents - estimated;
          perRun = \<lparr> bg_decision = (if 0 \<le> remaining then Within_budget else Over_budget),
            bg_provider = rt_provider route, bg_model = rt_model route, bg_estimatedCostCents = estimated,
            bg_budgetCents = budgetCents, bg_remainingBudgetCents = remaining, bg_budgetSource = source,
            bg_budgetScope = Scope_per_run, bg_budgetPolicyId = (if truthy policyId then policyId else None),
            bg_dailySpentCents = None, bg_dailyCommittedCents = None, bg_dailyWindowStart = None,
            bg_dailyWindowEnd = None,
            bg_reason =
              (if 0 \<le> remaining then ''Budget preflight for '' @ rt_model route @ '' is within budget.''
               else ''Budget preflight blocked '' @ rt_model route @ '': estimated '' @ int_str estimated
                 @ '' cents exceeds '' @ int_str budgetCents @ '' cents.'') \<rparr>
      in if remaining < 0 then Inr perRun
         else case runtimeDailyBudgetGuardDecision context estimated of
           Inl e \<Rightarrow> Inl e
         | Inr (Some daily) \<Rightarrow> Inr (if bg_decision daily = Over_budget then daily else perRun)
         | Inr None \<Rightarrow> Inr perRun)"

section \<open>Numbers in texts\<close>

text \<open>\<open>Number(text)\<close> for a text: exact, and \<open>None\<close> for what is not finite.\<close>

definition digits_only :: "string \<Rightarrow> bool" where
  "digits_only s \<longleftrightarrow> s \<noteq> [] \<and> list_all (in_range CHR ''0'' CHR ''9'') s"

fun radix_value :: "nat \<Rightarrow> nat \<Rightarrow> string \<Rightarrow> nat option" where
  "radix_value base acc [] = Some acc"
| "radix_value base acc (c # s) =
     (let d = (if in_range CHR ''0'' CHR ''9'' c then of_char c - 48
               else if in_range CHR ''a'' CHR ''f'' c then of_char c - 87
               else if in_range CHR ''A'' CHR ''F'' c then of_char c - 55 else base)
      in if d < base then radix_value base (acc * base + d) s else None)"

definition exponent_value :: "string \<Rightarrow> int option" where
  "exponent_value s =
     (case s of
        [] \<Rightarrow> None
      | c # t \<Rightarrow>
          if c = CHR ''-'' then (if digits_only t then Some (- int (read_digits t)) else None)
          else if c = CHR ''+'' then (if digits_only t then Some (int (read_digits t)) else None)
          else if digits_only s then Some (int (read_digits s)) else None)"

definition scaled :: "rat \<Rightarrow> int \<Rightarrow> rat" where
  "scaled m e = (if 0 \<le> e then m * 10 ^ nat e else m / 10 ^ nat (- e))"

definition decimal_value :: "string \<Rightarrow> rat option" where
  "decimal_value s =
     (let mantissa = takeWhile (\<lambda>c. c \<noteq> CHR ''e'' \<and> c \<noteq> CHR ''E'') s;
          rest = drop (length mantissa) s;
          whole = takeWhile (\<lambda>c. c \<noteq> CHR ''.'') mantissa;
          fraction = drop (length whole + 1) mantissa
      in if list_all (in_range CHR ''0'' CHR ''9'') (whole @ fraction) \<and> whole @ fraction \<noteq> []
         then map_option (scaled (of_nat (read_digits whole) + scaled (of_nat (read_digits fraction)) (- int (length fraction))))
                (if rest = [] then Some 0 else exponent_value (tl rest))
         else None)"

definition finite_number :: "rat \<Rightarrow> rat option" where
  "finite_number v = (if \<bar>v\<bar> < 2 ^ 1024 then Some v else None)"

definition number_of_text :: "string \<Rightarrow> rat option" where
  "number_of_text text =
     (let t = js_trim text in
      if t = [] then Some 0
      else if starts_with t ''0x'' \<or> starts_with t ''0X''
      then (if drop 2 t = [] then None else Option.bind (radix_value 16 0 (drop 2 t)) (finite_number \<circ> of_nat))
      else if starts_with t ''0o'' \<or> starts_with t ''0O''
      then (if drop 2 t = [] then None else Option.bind (radix_value 8 0 (drop 2 t)) (finite_number \<circ> of_nat))
      else if starts_with t ''0b'' \<or> starts_with t ''0B''
      then (if drop 2 t = [] then None else Option.bind (radix_value 2 0 (drop 2 t)) (finite_number \<circ> of_nat))
      else if hd t = CHR ''-'' then Option.bind (decimal_value (tl t)) (finite_number \<circ> uminus)
      else if hd t = CHR ''+'' then Option.bind (decimal_value (tl t)) finite_number
      else Option.bind (decimal_value t) finite_number)"

section \<open>Approved increases\<close>

record approved_budget_route = approved_route +
  ab_budgetCents :: int
  ab_budgetSource :: budget_source
  ab_budgetScope :: budget_scope
  ab_budgetPolicyId :: "string option"
  ab_dailySpentCents :: "int option"
  ab_dailyWindowStart :: "string option"
  ab_dailyWindowEnd :: "string option"

definition metadataString :: "json_record \<Rightarrow> string \<Rightarrow> string option" where
  "metadataString metadata key =
     (case obj_get metadata key of Some (JStr s) \<Rightarrow> if js_trim s = [] then None else Some s | _ \<Rightarrow> None)"

definition metadataNonNegativeInteger :: "json_record \<Rightarrow> string \<Rightarrow> int option" where
  "metadataNonNegativeInteger metadata key =
     (case (case obj_get metadata key of
              Some (JNum n) \<Rightarrow> Some (of_int n)
            | Some (JReal t) \<Rightarrow> number_of_text t
            | Some (JStr t) \<Rightarrow> number_of_text t
            | _ \<Rightarrow> None) of
        None \<Rightarrow> None
      | Some v \<Rightarrow> if 0 \<le> (v :: rat) then Some \<lceil>v\<rceil> else None)"

definition read_source :: "string option \<Rightarrow> budget_source option" where
  "read_source s =
     (if s = Some ''model_policy'' then Some Source_model_policy
      else if s = Some ''budget_policy'' then Some Source_budget_policy else None)"

definition read_scope :: "string option \<Rightarrow> budget_scope option" where
  "read_scope s =
     (if s = None \<or> s = Some ''per_run'' then Some Scope_per_run
      else if s = Some ''per_day'' then Some Scope_per_day else None)"

definition approvedBudgetRouteFromRecord :: "worker_work_record \<Rightarrow> approved_budget_route option" where
  "approvedBudgetRouteFromRecord record =
     (case wr_approval record of
        None \<Rightarrow> None
      | Some gate \<Rightarrow>
          if wi_reason (wr_item record) \<noteq> Reason_approval_granted \<or> wg_action gate \<noteq> ''budget.increase''
            \<or> wg_status gate \<noteq> Approval_approved then None
          else (case wg_payloadMetadata gate of
              Some (JObj metadata) \<Rightarrow>
                (case (metadataString metadata ''provider'', metadataString metadata ''model'',
                       metadataNonNegativeInteger metadata ''estimatedCostCents'',
                       metadataNonNegativeInteger metadata ''budgetCents'',
                       read_source (metadataString metadata ''budgetSource''),
                       read_scope (metadataString metadata ''budgetScope'')) of
                   (Some provider, Some model, Some estimated, Some budget, Some source, Some scp) \<Rightarrow> Some
                     \<lparr> ar_provider = provider, ar_model = model, ar_estimatedCostCents = estimated,
                       ab_budgetCents = budget, ab_budgetSource = source, ab_budgetScope = scp,
                       ab_budgetPolicyId = metadataString metadata ''budgetPolicyId'',
                       ab_dailySpentCents = metadataNonNegativeInteger metadata ''dailySpentCents'',
                       ab_dailyWindowStart = metadataString metadata ''dailyWindowStart'',
                       ab_dailyWindowEnd = metadataString metadata ''dailyWindowEnd'' \<rparr>
                 | _ \<Rightarrow> None)
            | _ \<Rightarrow> None))"

definition approvedDailyBudgetContextMatches :: "approved_budget_route \<Rightarrow> budget_guard \<Rightarrow> bool" where
  "approvedDailyBudgetContextMatches approvedRoute decision =
     (if bg_budgetScope decision \<noteq> Scope_per_day then True
      else ab_dailySpentCents approvedRoute = bg_dailySpentCents decision
        \<and> ab_dailyWindowStart approvedRoute = map_option toISOString (bg_dailyWindowStart decision)
        \<and> ab_dailyWindowEnd approvedRoute = map_option toISOString (bg_dailyWindowEnd decision))"

definition approvedBudgetRouteForCurrentContext :: "worker_work_record \<Rightarrow> budget_guard \<Rightarrow> approved_route option" where
  "approvedBudgetRouteForCurrentContext record decision =
     (case approvedBudgetRouteFromRecord record of
        None \<Rightarrow> None
      | Some a \<Rightarrow>
          if ar_provider a \<noteq> bg_provider decision \<or> ar_model a \<noteq> bg_model decision
            \<or> ar_estimatedCostCents a < bg_estimatedCostCents decision
            \<or> ab_budgetCents a \<noteq> bg_budgetCents decision \<or> ab_budgetSource a \<noteq> bg_budgetSource decision
            \<or> ab_budgetScope a \<noteq> bg_budgetScope decision
            \<or> or_else (ab_budgetPolicyId a) [] \<noteq> or_else (bg_budgetPolicyId decision) []
            \<or> \<not> approvedDailyBudgetContextMatches a decision
          then None
          else Some \<lparr> ar_provider = ar_provider a, ar_model = ar_model a,
                 ar_estimatedCostCents = ar_estimatedCostCents a \<rparr>)"

definition hasApprovedBudgetIncreaseForDecision :: "worker_work_record \<Rightarrow> budget_guard \<Rightarrow> bool" where
  "hasApprovedBudgetIncreaseForDecision record decision =
     (approvedBudgetRouteForCurrentContext record decision \<noteq> None)"

definition createRuntimeEffectiveModelBudget :: "worker_work_record \<Rightarrow> runtime_context \<Rightarrow> js_error + effective_budget" where
  "createRuntimeEffectiveModelBudget record context =
     (let (budgetCents, source, policyId) = strictestRuntimeBudgetCeiling context in
      case runtimeBudgetGuardDecision context of
        Inl e \<Rightarrow> Inl e
      | Inr decision \<Rightarrow> Inr
          \<lparr> ef_budgetCents = budgetCents, ef_source = source,
            ef_budgetPolicyId = (if truthy policyId then policyId else None),
            ef_approvedOverBudgetRoute = approvedBudgetRouteForCurrentContext record decision \<rparr>)"

definition opt_num :: "string \<Rightarrow> int option \<Rightarrow> string \<times> json" where
  "opt_num key v = (key, case v of None \<Rightarrow> JUndef | Some n \<Rightarrow> JNum n)"

definition opt_str :: "string \<Rightarrow> string option \<Rightarrow> string \<times> json" where
  "opt_str key v = (key, case v of None \<Rightarrow> JUndef | Some s \<Rightarrow> JStr s)"

text \<open>The payload of the approval that the guard asks for.\<close>

definition budget_payload :: "runtime_context \<Rightarrow> budget_guard \<Rightarrow> json" where
  "budget_payload context decision = JObj
     [(''provider'', JStr (rt_provider (wx_modelRoute context))), (''model'', JStr (rt_model (wx_modelRoute context))),
      (''estimatedCostCents'', JNum (bg_estimatedCostCents decision)), (''budgetCents'', JNum (bg_budgetCents decision)),
      (''budgetSource'', JStr (source_str (bg_budgetSource decision))),
      (''budgetScope'', JStr (budget_scope_str (bg_budgetScope decision))),
      opt_str ''budgetPolicyId'' (bg_budgetPolicyId decision),
      opt_num ''dailySpentCents'' (bg_dailySpentCents decision),
      opt_num ''dailyCommittedCents'' (bg_dailyCommittedCents decision),
      opt_str ''dailyWindowStart'' (map_option toISOString (bg_dailyWindowStart decision)),
      opt_str ''dailyWindowEnd'' (map_option toISOString (bg_dailyWindowEnd decision))]"

definition budgetBlockedResult :: "runtime_model_route \<Rightarrow> runtime_result" where
  "budgetBlockedResult route =
     \<lparr> rr_status = Res_awaiting_approval,
       rr_finalText = Some (''Budget approval required before starting '' @ rt_model route @ ''.''),
       rr_artifactRefs = [], rr_actualCostCents = 0, rr_error = None \<rparr>"

end
