(* ===== verification/Redaction.thy ===== *)
theory Redaction
  imports Worker_Budget
begin

text \<open>
  When redaction (\<^verbatim>\<open>packages/core/src/security.ts\<close>, theory Security) leaves a value as it is:
  a criterion for the texts in which no secret pattern finds a match, the normalised field names
  written out, and what the store keeps of the payload of a budget increase.
\<close>

section \<open>Patterns that cannot match\<close>

text \<open>A pattern that needs a character which the text does not have: it matches nowhere.\<close>

primrec barred :: "string \<Rightarrow> rx \<Rightarrow> bool" where
  "barred s (Cls p) = (\<not> list_ex p s)"
| "barred s Eps = False"
| "barred s (Seq a b) = (barred s a \<or> barred s b)"
| "barred s (Alt a b) = (barred s a \<and> barred s b)"
| "barred s (Rep greedy lo hi a) = (0 < lo \<and> hi \<noteq> Some 0 \<and> barred s a)"
| "barred s (Grp k a) = barred s a"
| "barred s WordB = False"
| "barred s AtStart = False"
| "barred s AtEnd = False"

lemma barred_runs: "barred s r \<Longrightarrow> set (rest_of m) \<subseteq> set s \<Longrightarrow> rx_runs r m = []"
proof (induction r arbitrary: m)
  case (Cls p)
  then show ?case by (auto simp: list_ex_iff split: prod.splits list.splits)
next
  case (Seq a b)
  have "rx_runs b m' = []" if "barred s b" "m' \<in> set (rx_runs a m)" for m'
    using Seq.IH(2) [OF that(1)] suffix_rx_runs [OF that(2)] Seq.prems(2) set_mono_suffix by blast
  moreover have "rx_runs a m = []" if "barred s a"
    using Seq.IH(1) [OF that Seq.prems(2)] .
  ultimately show ?case using Seq.prems(1) by (cases "barred s a") simp_all
qed auto

lemma barred_no_match: "barred s r \<Longrightarrow> \<not> rx_test r s"
proof -
  assume b: "barred s r"
  have "rx_scan r prev t = None" if "set t \<subseteq> set s" for prev t
    using that by (induction t arbitrary: prev) (simp_all add: rx_scan.simps barred_runs [OF b])
  then show ?thesis by (simp add: rx_test_def rx_exec_def)
qed

lemma barred_seq: "barred s (rx_seq rs) = list_ex (barred s) rs"
  by (induction rs) auto

lemma barred_lit: "c \<notin> set s \<Longrightarrow> c \<in> set p \<Longrightarrow> barred s (lit p)"
  by (auto simp: lit_def chr_def barred_seq list_ex_iff)

lemma barred_lit_i: "c \<notin> set (map js_lower_char s) \<Longrightarrow> c \<in> set (map js_lower_char p) \<Longrightarrow> barred s (lit_i p)"
proof -
  assume c: "c \<notin> set (map js_lower_char s)" "c \<in> set (map js_lower_char p)"
  then obtain x where x: "x \<in> set p" "c = js_lower_char x" by auto
  then have "barred s (chr_i x)"
    using c(1) by (auto simp: chr_i_def list_ex_iff image_iff)
  with x(1) show ?thesis by (auto simp: lit_i_def barred_seq list_ex_iff)
qed

text \<open>Texts without the letters that every secret pattern needs.\<close>

definition plain_text :: "string \<Rightarrow> bool" where
  "plain_text s =
     (list_all (\<lambda>c. c \<notin> set (map js_lower_char s)) ''xhk'' \<and> CHR ''A'' \<notin> set s \<and> CHR ''G'' \<notin> set s
      \<and> (\<not> list_ex is_space s \<or> CHR ''b'' \<notin> set (map js_lower_char s)))"

lemma plain_text_not_masked: "plain_text s \<Longrightarrow> redactSecrets s = s"
proof -
  assume p: "plain_text s"
  then have low: "CHR ''x'' \<notin> set (map js_lower_char s)" "CHR ''h'' \<notin> set (map js_lower_char s)"
      "CHR ''k'' \<notin> set (map js_lower_char s)"
    and A: "CHR ''A'' \<notin> set s" and G: "CHR ''G'' \<notin> set s"
    by (simp_all add: plain_text_def)
  have same: "js_lower_char CHR ''x'' = CHR ''x''" "js_lower_char CHR ''h'' = CHR ''h''" "js_lower_char CHR ''k'' = CHR ''k''"
    "js_lower_char CHR ''b'' = CHR ''b''" "js_lower_char CHR ''B'' = CHR ''b''"
    by code_simp+
  have plain: "CHR ''x'' \<notin> set s" "CHR ''h'' \<notin> set s" "CHR ''k'' \<notin> set s"
    using low same image_eqI [of _ js_lower_char _ "set s"] by (metis list.set_map)+
  note words = barred_lit_i [OF low(1)] barred_lit_i [OF low(2)] barred_lit_i [OF low(3)] same
  have "barred s slack_token_rx" "barred s slack_app_token_rx"
    unfolding slack_token_rx_def slack_app_token_rx_def barred_seq by (simp_all add: barred_lit [OF plain(1)])
  moreover have "barred s github_token_rx" "barred s github_pat_rx"
    unfolding github_token_rx_def github_pat_rx_def barred_seq by (simp_all add: barred_lit [OF plain(2)])
  moreover have "barred s sk_key_rx"
    unfolding sk_key_rx_def barred_seq by (simp add: barred_lit [OF plain(3)])
  moreover have "barred s api_key_rx"
    by (simp add: api_key_rx_def barred_seq words del: rx_seq_simps)
  moreover have "barred s auth_value_rx"
    by (simp add: auth_value_rx_def named_token_rx_def barred_seq words del: rx_seq_simps)
  moreover have "barred s aws_key_rx"
    by (simp add: aws_key_rx_def barred_seq barred_lit [OF A] del: rx_seq_simps)
  moreover have "barred s bearer_rx"
    using p barred_lit_i [of "CHR ''b''" s "''Bearer''"] same
    by (auto simp: bearer_rx_def barred_seq plus_def plain_text_def simp del: rx_seq_simps)
  moreover have "barred s private_key_rx"
    by (simp add: private_key_rx_def barred_seq barred_lit [OF G] del: rx_seq_simps)
  ultimately have "list_all (\<lambda>(pattern, _). barred s pattern) SECRET_PATTERNS"
    by (simp add: SECRET_PATTERNS_def)
  moreover have "foldl (\<lambda>v (pattern, replacement). replace_all pattern replacement v) s ps = s"
    if "list_all (\<lambda>(pattern, _). barred s pattern) ps" for ps :: "(rx \<times> (captures \<Rightarrow> string)) list"
    using that by (induction ps) (auto simp: replace_all_no_match barred_no_match)
  ultimately show ?thesis by (simp add: redactSecrets_def)
qed

section \<open>Field names\<close>

text \<open>An underscore between a small letter or digit and the capital after it.\<close>

definition small_or_digit :: "char \<Rightarrow> bool" where
  "small_or_digit c = (in_range CHR ''a'' CHR ''z'' c \<or> in_range CHR ''0'' CHR ''9'' c)"

fun split_camel :: "string \<Rightarrow> string" where
  "split_camel (a # b # s) =
     (if small_or_digit a \<and> in_range CHR ''A'' CHR ''Z'' b then a # CHR ''_'' # b # split_camel s
      else a # split_camel (b # s))"
| "split_camel s = s"

lemma runs_camel:
  "rx_runs camel_rx (prev, s, caps) =
     (case s of a # b # t \<Rightarrow> if small_or_digit a \<and> in_range CHR ''A'' CHR ''Z'' b
        then [(Some b, t, (2, [b]) # (1, [a]) # caps)] else [] | _ \<Rightarrow> [])"
  by (auto simp: camel_rx_def small_or_digit_def split: list.split)

lemma replace_camel:
  "replace_from camel_rx (\<lambda>caps. capture caps 1 @ ''_'' @ capture caps 2) prev s = split_camel s"
  by (induction s arbitrary: prev rule: split_camel.induct)
    (subst replace_from.simps, simp add: runs_camel capture_def)+

lemma normalized:
  "\<not> list_ex is_space (split_camel s) \<Longrightarrow> normalizeFieldName s = to_lower_case (split_camel s)"
  unfolding normalizeFieldName_def replace_all_def replace_camel
  by (simp add: replace_all_no_match [unfolded replace_all_def] barred_no_match plus_def)


definition sensitive_words :: "string list" where
  "sensitive_words = [''token'', ''secret'', ''password'', ''passphrase'', ''api'', ''private'', ''access'',
     ''authorization'', ''credential'', ''refresh'', ''client'', ''bot'', ''signing'', ''webhook'']"

lemma runs_lit_i:
  "rx_runs (lit_i p) (prev, s, caps) \<noteq> [] \<Longrightarrow> prefix (map js_lower_char p) (map js_lower_char s)"
  by (induction p arbitrary: prev s) (auto simp: lit_i_def chr_i_def split: list.splits if_splits)

lemma scan_somewhere:
  "rx_scan r prev s \<noteq> None \<Longrightarrow> \<exists>prev' t. suffix t s \<and> rx_runs r (prev', t, []) \<noteq> []"
proof (induction s arbitrary: prev)
  case Nil
  then have "rx_runs r (prev, [], []) \<noteq> []" by (auto simp: rx_scan.simps split: list.splits)
  then show ?case by blast
next
  case (Cons c s)
  show ?case
  proof (cases "rx_runs r (prev, c # s, []) = []")
    case True
    with Cons.prems have "rx_scan r (Some c) s \<noteq> None" by (simp add: rx_scan.simps)
    from Cons.IH [OF this] show ?thesis by (meson suffix_ConsI)
  qed blast
qed

lemma alts_runs: "rx_runs (rx_alts rs) m \<noteq> [] \<Longrightarrow> list_ex (\<lambda>r. rx_runs r m \<noteq> []) rs"
  by (induction rs rule: rx_alts.induct) (auto split: prod.splits list.splits)

lemma seq_runs: "rx_runs (Seq a b) m \<noteq> [] \<Longrightarrow> rx_runs a m \<noteq> []"
  by auto

lemma word_named:
  assumes "isSensitiveFieldName f"
  shows "list_ex (\<lambda>w. sublist w (map js_lower_char (normalizeFieldName f))) sensitive_words"
proof -
  define n where "n = normalizeFieldName f"
  from assms scan_somewhere obtain prev t where t: "suffix t n" "rx_runs SENSITIVE_FIELD_NAME_PATTERN (prev, t, []) \<noteq> []"
    unfolding isSensitiveFieldName_def rx_test_def rx_exec_def n_def [symmetric] by meson
  then obtain w where w: "w \<in> set sensitive_words" "rx_runs (lit_i w) (prev, t, []) \<noteq> []"
    using alts_runs [OF t(2) [unfolded SENSITIVE_FIELD_NAME_PATTERN_def]]
    by (auto simp: joined_def sensitive_words_def simp del: rx_runs.simps dest!: seq_runs)
  moreover have "map js_lower_char w = w"
    using w(1) by (auto simp: sensitive_words_def js_lower_char_def)
  ultimately have "prefix w (map js_lower_char t)"
    using runs_lit_i by metis
  moreover have "sublist (map js_lower_char t) (map js_lower_char n)"
    using t(1) unfolding suffix_def sublist_def by (metis map_append append_Nil2)
  ultimately show ?thesis
    using w(1) by (auto simp: list_ex_iff n_def intro: sublist_order.order_trans)
qed

lemma field_not_sensitive:
  assumes "\<not> list_ex is_space (split_camel f)"
    and "list_all (\<lambda>w. \<not> sublist w (map js_lower_char (to_lower_case (split_camel f)))) sensitive_words"
  shows "\<not> isSensitiveFieldName f"
  using word_named [of f] assms by (auto simp: normalized list_ex_iff list_all_iff)

section \<open>The payload of a budget increase\<close>

lemma iso_text_plain: "plain_text (toISOString d)"
proof (cases d)
  case (Instant t)
  have "set (padded k n) \<subseteq> {c. 48 \<le> (of_char c :: nat) \<and> (of_char c :: nat) \<le> 57}" for k n
    by (auto simp: padded_def pad_start_def dest: nat_str_digits)
  note digits = subsetD [OF this]
  obtain y mm dd where civil: "civil_date (t div 86400000) = (y, mm, dd)" by (metis prod_cases3)
  have "set (toISOString d) \<subseteq> {c. 48 \<le> (of_char c :: nat) \<and> (of_char c :: nat) \<le> 57} \<union> set ''+-T:.Z''"
    unfolding Instant toISOString.simps civil Let_def prod.case set_append
    by (auto dest: digits split: if_splits)
  then have c: "(48 \<le> (of_char c :: nat) \<and> (of_char c :: nat) \<le> 57) \<or> c \<in> set ''+-T:.Z''"
    if "c \<in> set (toISOString d)" for c
    using that by blast
  have low: "js_lower_char c \<notin> set ''xhkb'' \<and> c \<noteq> CHR ''A'' \<and> c \<noteq> CHR ''G'' \<and> \<not> is_space c"
    if in_iso: "c \<in> set (toISOString d)" for c
  proof -
    have marks: "list_all (\<lambda>c. js_lower_char c \<notin> set ''xhkb'' \<and> c \<noteq> CHR ''A'' \<and> c \<noteq> CHR ''G'' \<and> \<not> is_space c) ''+-T:.Z''"
      by code_simp
    consider "48 \<le> (of_char c :: nat)" "(of_char c :: nat) \<le> 57" | "c \<in> set ''+-T:.Z''"
      using c [OF in_iso] by blast
    then show ?thesis
    proof cases
      case 1
      then show ?thesis by (auto simp: js_lower_char_def is_space_def Let_def)
    next
      case 2
      with marks show ?thesis unfolding list_all_iff by blast
    qed
  qed
  then show ?thesis
    unfolding plain_text_def list_ex_iff by (fastforce simp: image_iff)
next
  case Unparsable
  show ?thesis unfolding Unparsable by code_simp
qed

lemma budget_fields_not_sensitive:
  "\<not> isSensitiveFieldName ''provider''" "\<not> isSensitiveFieldName ''model''"
  "\<not> isSensitiveFieldName ''estimatedCostCents''" "\<not> isSensitiveFieldName ''budgetCents''"
  "\<not> isSensitiveFieldName ''budgetSource''" "\<not> isSensitiveFieldName ''budgetScope''"
  "\<not> isSensitiveFieldName ''budgetPolicyId''" "\<not> isSensitiveFieldName ''dailySpentCents''"
  "\<not> isSensitiveFieldName ''dailyCommittedCents''" "\<not> isSensitiveFieldName ''dailyWindowStart''"
  "\<not> isSensitiveFieldName ''dailyWindowEnd''"
  by (rule field_not_sensitive; code_simp)+

lemma budget_texts_plain: "plain_text (source_str src)" "plain_text (budget_scope_str scp)"
proof -
  have texts: "plain_text ''model_policy''" "plain_text ''budget_policy''" "plain_text ''per_run''" "plain_text ''per_day''"
    by code_simp+
  show "plain_text (source_str src)" "plain_text (budget_scope_str scp)"
    by (cases src; simp add: texts) (cases scp; simp add: texts)
qed

text \<open>
  Redaction leaves the payload of a budget increase as it is when it leaves the names of the
  provider, of the model and of the budget policy as they are.
\<close>

lemma budget_payload_is_kept:
  assumes "redactSecrets (rt_provider (wx_modelRoute ctx)) = rt_provider (wx_modelRoute ctx)"
    and "redactSecrets (rt_model (wx_modelRoute ctx)) = rt_model (wx_modelRoute ctx)"
    and "map_option redactSecrets (bg_budgetPolicyId g) = bg_budgetPolicyId g"
  shows "approvalPayloadMetadata (budget_payload ctx g) = Some (budget_payload ctx g)"
proof -
  let ?kept = "\<lambda>(key, entry). (key, if isSensitiveFieldName key then masked else redactUnknown entry)"
  have opt: "?kept (opt_num k n) = opt_num k n" if "\<not> isSensitiveFieldName k" for k n
    using that by (simp add: opt_num_def split: option.split)
  have iso: "?kept (opt_str k (map_option toISOString d)) = opt_str k (map_option toISOString d)"
    if "\<not> isSensitiveFieldName k" for k d
    using that by (cases d) (simp_all add: opt_str_def plain_text_not_masked iso_text_plain)
  have pol: "?kept (opt_str k (bg_budgetPolicyId g)) = opt_str k (bg_budgetPolicyId g)"
    if "\<not> isSensitiveFieldName k" for k
    using that assms(3) by (cases "bg_budgetPolicyId g") (simp_all add: opt_str_def)
  show ?thesis
    unfolding approvalPayloadMetadata_def budget_payload_def redactUnknown.simps list.map
      opt [OF budget_fields_not_sensitive(8)] opt [OF budget_fields_not_sensitive(9)]
      iso [OF budget_fields_not_sensitive(10)] iso [OF budget_fields_not_sensitive(11)]
      pol [OF budget_fields_not_sensitive(7)]
    by (simp add: budget_fields_not_sensitive assms(1,2) plain_text_not_masked budget_texts_plain)
qed

end
