(* ===== verification/Budget_Guard.thy ===== *)
theory Budget_Guard
  imports Redaction Worker_Properties Seed
begin

text \<open>
  What the budget guard of the worker guarantees: when it lets a run start, which approvals lift it,
  and that the approval it asks for lifts it once granted.
\<close>

section \<open>Ceilings\<close>

interpretation by_key: comparator "\<lambda>a b. (key a :: int) \<le> key b" for key
  by unfold_locales auto

lemma smallest_None [simp]: "smallest key xs = None \<longleftrightarrow> xs = []"
  using sort_by_Nil_iff [of "\<lambda>a b. key a \<le> key b" xs]
  by (cases "sort_by (\<lambda>a b. key a \<le> key b) xs") (simp_all add: smallest_def)

lemma smallest_Some:
  assumes "smallest key xs = Some x"
  shows "x \<in> set xs" "y \<in> set xs \<Longrightarrow> key x \<le> key y"
proof -
  obtain ys where s: "sort_by (\<lambda>a b. key a \<le> key b) xs = x # ys"
    using assms by (auto simp: smallest_def split: list.splits)
  show "x \<in> set xs" by (rule by_key.first_mem [OF s])
  show "y \<in> set xs \<Longrightarrow> key x \<le> key y" by (rule by_key.least_first [OF s])
qed

definition within_ceilings :: "runtime_context \<Rightarrow> int \<Rightarrow> bool" where
  "within_ceilings ctx cost \<longleftrightarrow>
     cost \<le> mp_perRunBudgetCents (wx_modelPolicy ctx)
     \<and> list_all (\<lambda>p. cost \<le> bp_perRunCents p) (applicable_policies ctx)"

lemma ceiling_iff:
  assumes "strictestRuntimeBudgetCeiling ctx = (budget, source, policyId)"
  shows "cost \<le> budget \<longleftrightarrow> within_ceilings ctx cost"
proof (cases "smallest bp_perRunCents (applicable_policies ctx)")
  case None
  with assms show ?thesis
    by (auto simp: strictestRuntimeBudgetCeiling_def within_ceilings_def Let_def)
next
  case (Some p)
  note s = smallest_Some [OF Some]
  from s have "list_all (\<lambda>q. cost \<le> bp_perRunCents q) (applicable_policies ctx) \<longleftrightarrow> cost \<le> bp_perRunCents p"
    by (fastforce simp: list_all_iff)
  with assms Some show ?thesis
    by (auto simp: strictestRuntimeBudgetCeiling_def within_ceilings_def Let_def split: if_splits)
qed

definition within_day :: "runtime_context \<Rightarrow> int \<Rightarrow> bool" where
  "within_day ctx cost =
     (case strictestDailyBudgetPolicy ctx of
        None \<Rightarrow> True
      | Some p \<Rightarrow> (case utcDayWindow (run_createdAt (wx_run ctx)) of
          Inl _ \<Rightarrow> False
        | Inr window \<Rightarrow> dailyBudgetSpentCents ctx (bp_id p) window + cost \<le> bp_perDayCents p))"

lemma daily_decision:
  "runtimeDailyBudgetGuardDecision ctx cost = Inr (Some g) \<Longrightarrow>
     (bg_decision g = Within_budget) = within_day ctx cost \<and> bg_estimatedCostCents g = cost
     \<and> bg_provider g = rt_provider (wx_modelRoute ctx) \<and> bg_model g = rt_model (wx_modelRoute ctx)"
  "runtimeDailyBudgetGuardDecision ctx cost = Inr None \<Longrightarrow> within_day ctx cost"
  by (auto simp: runtimeDailyBudgetGuardDecision_def within_day_def Let_def split: option.splits sum.splits prod.splits if_splits)

lemma daily_spent_nonneg: "0 \<le> dailyBudgetSpentCents ctx policyId window"
  unfolding dailyBudgetSpentCents_def Let_def
  by (rule sum_list_nonneg) (auto simp: committedRunCostCents_def normalizeEstimatedCostCents_def)

lemma daily_spent_recorded:
  "runtimeDailyBudgetGuardDecision ctx cost = Inr (Some g) \<Longrightarrow> \<exists>n. bg_dailySpentCents g = Some n \<and> 0 \<le> n"
  by (auto simp: runtimeDailyBudgetGuardDecision_def daily_spent_nonneg Let_def split: option.splits sum.splits)

lemma expected_cost_nonneg: "0 \<le> expected_cost ctx"
  by (simp add: expected_cost_def normalizeEstimatedCostCents_def)

definition spent_ok :: "budget_guard \<Rightarrow> bool" where
  "spent_ok g = (case bg_dailySpentCents g of None \<Rightarrow> True | Some n \<Rightarrow> 0 \<le> n)"

lemma guard_values:
  assumes "runtimeBudgetGuardDecision ctx = Inr g"
  shows "bg_estimatedCostCents g = expected_cost ctx \<and> bg_provider g = rt_provider (wx_modelRoute ctx)
    \<and> bg_model g = rt_model (wx_modelRoute ctx) \<and> spent_ok g"
proof -
  obtain budget source policyId where c: "strictestRuntimeBudgetCeiling ctx = (budget, source, policyId)"
    by (metis prod_cases3)
  with assms show ?thesis
    using daily_decision [of ctx "expected_cost ctx"] daily_spent_recorded [of ctx "expected_cost ctx"]
    by (auto simp: runtimeBudgetGuardDecision_def spent_ok_def Let_def split: if_splits sum.splits option.splits)
qed

lemma over_iff: "x = Over_budget \<longleftrightarrow> x \<noteq> Within_budget"
  by (cases x) simp_all

text \<open>
  C22. The guard lets a run start exactly when its expected cost, which is never negative, is
  within the ceiling of the model policy and of every budget policy of the bundles of its place,
  and, with what the other runs of the day committed, within the strictest daily ceiling.
\<close>

theorem guard_decides:
  assumes "runtimeBudgetGuardDecision ctx = Inr g"
  shows "(bg_decision g = Within_budget) =
      (within_ceilings ctx (expected_cost ctx) \<and> within_day ctx (expected_cost ctx))
    \<and> bg_estimatedCostCents g = expected_cost ctx \<and> 0 \<le> expected_cost ctx
    \<and> bg_provider g = rt_provider (wx_modelRoute ctx) \<and> bg_model g = rt_model (wx_modelRoute ctx)"
proof -
  obtain budget source policyId where c: "strictestRuntimeBudgetCeiling ctx = (budget, source, policyId)"
    by (metis prod_cases3)
  show ?thesis
    using assms c expected_cost_nonneg [of ctx] ceiling_iff [OF c, of "expected_cost ctx"] daily_decision [of ctx "expected_cost ctx"]
    by (auto simp: runtimeBudgetGuardDecision_def Let_def over_iff split: if_splits sum.splits option.splits)
qed

section \<open>Approved increases\<close>

text \<open>
  An increase is honoured only for work that was resumed by an approval of a budget increase
  that stands approved, for the very provider and model, up to the cost it was asked for, under the
  same ceiling.
\<close>

theorem increase_needs_matching_approval:
  assumes "approvedBudgetRouteForCurrentContext work g = Some route"
  shows "wi_reason (wr_item work) = Reason_approval_granted
    \<and> map_option wg_action (wr_approval work) = Some ''budget.increase''
    \<and> map_option wg_status (wr_approval work) = Some Approval_approved
    \<and> ar_provider route = bg_provider g \<and> ar_model route = bg_model g
    \<and> bg_estimatedCostCents g \<le> ar_estimatedCostCents route
    \<and> map_option ab_budgetCents (approvedBudgetRouteFromRecord work) = Some (bg_budgetCents g)
    \<and> map_option ab_budgetScope (approvedBudgetRouteFromRecord work) = Some (bg_budgetScope g)"
proof -
  obtain a where a: "approvedBudgetRouteFromRecord work = Some a"
    using assms by (auto simp: approvedBudgetRouteForCurrentContext_def split: option.splits)
  have "wi_reason (wr_item work) = Reason_approval_granted
    \<and> map_option wg_action (wr_approval work) = Some ''budget.increase''
    \<and> map_option wg_status (wr_approval work) = Some Approval_approved"
    using a by (cases "wr_approval work") (simp_all add: approvedBudgetRouteFromRecord_def split: if_splits)
  with assms a show ?thesis
    by (auto simp: approvedBudgetRouteForCurrentContext_def split: if_splits)
qed


text \<open>The budget guard on the seeded workspace, for a run of 50 cents in the checkout channel.\<close>

definition overlapping_context :: runtime_context where
  "overlapping_context =
     \<lparr> wx_snapshot = (createSeedSnapshot (Instant 0))
         \<lparr> sn_budgetPolicies :=
             [seed_budget_policy\<lparr> bp_id := ''budget_a'', bp_perDayCents := 100 \<rparr>,
              seed_budget_policy\<lparr> bp_id := ''budget_b'', bp_perDayCents := 200 \<rparr>],
           sn_accessBundles :=
             [bundle_checkout\<lparr> bu_budgetPolicyId := ''budget_a'' \<rparr>,
              bundle_general\<lparr> bu_budgetPolicyId := ''budget_b'',
                bu_attachedPlaceIds := [''place_checkout'', ''place_general''] \<rparr>],
           sn_runs := [(seed_run (Instant 0))\<lparr> run_id := ''run_other'', run_placeScopeId := ''place_general'',
             run_actualCostCents := 199 \<rparr>] \<rparr>,
       wx_run = (seed_run (Instant 0))\<lparr> run_estimatedCostCents := 50 \<rparr>,
       wx_requester = seed_principal ''principal_bryson'' Human ''Bryson'' None, wx_place = place_checkout,
       wx_accessBundles =
         [bundle_checkout\<lparr> bu_budgetPolicyId := ''budget_a'' \<rparr>,
          bundle_general\<lparr> bu_budgetPolicyId := ''budget_b'',
            bu_attachedPlaceIds := [''place_checkout'', ''place_general''] \<rparr>],
       wx_modelPolicy = seed_model_policy, wx_modelRoute = defaultModelRoute seed_model_policy runtime_answer,
       wx_runtimeProfile = runtime_answer, wx_grants = [] \<rparr>"

text \<open>The same run against a ceiling of 10 cents.\<close>

definition tight_context :: runtime_context where
  "tight_context = overlapping_context
     \<lparr> wx_modelPolicy := seed_model_policy\<lparr> mp_perRunBudgetCents := 10 \<rparr> \<rparr>"

definition guard_of :: "runtime_context \<Rightarrow> budget_guard" where
  "guard_of ctx = (case runtimeBudgetGuardDecision ctx of Inr g \<Rightarrow> g | Inl _ \<Rightarrow> undefined)"

lemma guard_of_overlapping: "runtimeBudgetGuardDecision overlapping_context = Inr (guard_of overlapping_context)"
  by code_simp

lemma guard_of_tight:
  "runtimeBudgetGuardDecision tight_context = Inr (guard_of tight_context)"
  "bg_decision (guard_of tight_context) = Over_budget"
  by code_simp+

lemma daily_ceiling_of_another_bundle_is_passed:
  "(case runtimeBudgetGuardDecision overlapping_context of Inr g \<Rightarrow> bg_decision g = Within_budget | Inl _ \<Rightarrow> False)
   \<and> list_ex (\<lambda>p. bp_perDayCents p < dailyBudgetSpentCents overlapping_context (bp_id p) (0, 86400000)
         + expected_cost overlapping_context) (applicable_policies overlapping_context)"
  by code_simp

lemma guard_decides_witness:
  "runtimeBudgetGuardDecision tight_context = Inr (guard_of tight_context)
   \<and> (bg_decision (guard_of tight_context) = Within_budget) =
      (within_ceilings tight_context (expected_cost tight_context) \<and> within_day tight_context (expected_cost tight_context))
   \<and> 0 \<le> expected_cost tight_context"
  using guard_of_tight(1) guard_decides [OF guard_of_tight(1)] by simp

section \<open>The increase the guard asks for\<close>

text \<open>Work that was resumed by the grant of a budget increase with this payload.\<close>

definition granted_gate :: "json \<Rightarrow> worker_approval_gate" where
  "granted_gate payload =
     \<lparr> wg_approvalId = ''approval'', wg_payloadHash = ''hash'', wg_payloadMetadata = Some payload,
       wg_action = ''budget.increase'', wg_risk = Privileged, wg_status = Approval_approved,
       wg_createdAt = Instant 0, wg_expiresAt = Instant 9 \<rparr>"

definition granted_work :: "json \<Rightarrow> worker_work_record" where
  "granted_work payload = demo_record
     \<lparr> wr_item := demo_item\<lparr> wi_reason := Reason_approval_granted \<rparr>, wr_approval := Some (granted_gate payload) \<rparr>"

lemma js_trim_Nil: "js_trim s = [] \<longleftrightarrow> list_all is_space s"
proof (cases "dropWhile is_space s")
  case Nil
  then show ?thesis by (auto simp: js_trim_def dropWhile_eq_Nil_conv list_all_iff dest: set_dropWhileD)
next
  case (Cons c t)
  then have "\<not> is_space c" "c \<in> set s"
    using hd_dropWhile [of is_space s] set_dropWhileD [of c is_space s] by auto
  with Cons show ?thesis
    by (auto simp: js_trim_def dropWhile_eq_Nil_conv list_all_iff dest: set_dropWhileD)
qed

lemma iso_text_not_blank [simp]: "js_trim (toISOString d) \<noteq> []"
proof -
  have "CHR ''Z'' \<in> set (toISOString d) \<or> CHR ''I'' \<in> set (toISOString d)"
  proof (cases d)
    case (Instant t)
    obtain y mm dd where "civil_date (t div 86400000) = (y, mm, dd)" by (metis prod_cases3)
    with Instant show ?thesis by (simp add: Let_def)
  qed simp
  moreover have "\<not> is_space CHR ''Z''" "\<not> is_space CHR ''I''"
    by (simp_all add: is_space_def)
  ultimately show ?thesis
    by (auto simp only: js_trim_Nil list_all_iff)
qed

lemma source_not_blank [simp]: "js_trim (source_str src) \<noteq> []"
  by (cases src) (simp_all add: js_trim_Nil is_space_def)

lemma scope_not_blank [simp]: "js_trim (budget_scope_str scp) \<noteq> []"
  by (cases scp) (simp_all add: js_trim_Nil is_space_def)

lemma source_read_back [simp]: "read_source (Some (source_str src)) = Some src"
  by (cases src) (simp_all add: read_source_def)

lemma scope_read_back [simp]: "read_scope (Some (budget_scope_str scp)) = Some scp"
  by (cases scp) (simp_all add: read_scope_def)

lemma integer_entry [simp]: "0 \<le> n \<Longrightarrow> obj_get m k = Some (JNum n) \<Longrightarrow> metadataNonNegativeInteger m k = Some n"
  by (simp add: metadataNonNegativeInteger_def)

definition policy_named :: "budget_guard \<Rightarrow> bool" where
  "policy_named g = (case bg_budgetPolicyId g of None \<Rightarrow> True | Some i \<Rightarrow> js_trim i \<noteq> [])"

lemma payload_reads_back:
  assumes "runtimeBudgetGuardDecision ctx = Inr g" "budget_payload ctx g = JObj m"
    and "js_trim (rt_provider (wx_modelRoute ctx)) \<noteq> []" "js_trim (rt_model (wx_modelRoute ctx)) \<noteq> []"
    and "0 \<le> bg_budgetCents g" "policy_named g"
  shows "metadataString m ''provider'' = Some (bg_provider g)" "metadataString m ''model'' = Some (bg_model g)"
    "metadataNonNegativeInteger m ''estimatedCostCents'' = Some (bg_estimatedCostCents g)"
    "metadataNonNegativeInteger m ''budgetCents'' = Some (bg_budgetCents g)"
    "metadataString m ''budgetSource'' = Some (source_str (bg_budgetSource g))"
    "metadataString m ''budgetScope'' = Some (budget_scope_str (bg_budgetScope g))"
    "metadataString m ''budgetPolicyId'' = bg_budgetPolicyId g"
    "metadataNonNegativeInteger m ''dailySpentCents'' = bg_dailySpentCents g"
    "metadataString m ''dailyWindowStart'' = map_option toISOString (bg_dailyWindowStart g)"
    "metadataString m ''dailyWindowEnd'' = map_option toISOString (bg_dailyWindowEnd g)"
proof -
  have v: "bg_provider g = rt_provider (wx_modelRoute ctx)" "bg_model g = rt_model (wx_modelRoute ctx)"
    "0 \<le> bg_estimatedCostCents g" "spent_ok g"
    using guard_values [OF assms(1)] expected_cost_nonneg [of ctx] by auto
  note entries = budget_payload_def opt_num_def opt_str_def
  have m: "m = [(''provider'', JStr (bg_provider g)), (''model'', JStr (bg_model g)),
      (''estimatedCostCents'', JNum (bg_estimatedCostCents g)), (''budgetCents'', JNum (bg_budgetCents g)),
      (''budgetSource'', JStr (source_str (bg_budgetSource g))),
      (''budgetScope'', JStr (budget_scope_str (bg_budgetScope g))),
      opt_str ''budgetPolicyId'' (bg_budgetPolicyId g),
      opt_num ''dailySpentCents'' (bg_dailySpentCents g),
      opt_num ''dailyCommittedCents'' (bg_dailyCommittedCents g),
      opt_str ''dailyWindowStart'' (map_option toISOString (bg_dailyWindowStart g)),
      opt_str ''dailyWindowEnd'' (map_option toISOString (bg_dailyWindowEnd g))]"
    using assms(2) unfolding budget_payload_def v(1,2) by simp
  show "metadataString m ''provider'' = Some (bg_provider g)" "metadataString m ''model'' = Some (bg_model g)"
    "metadataNonNegativeInteger m ''estimatedCostCents'' = Some (bg_estimatedCostCents g)"
    "metadataNonNegativeInteger m ''budgetCents'' = Some (bg_budgetCents g)"
    "metadataString m ''budgetSource'' = Some (source_str (bg_budgetSource g))"
    "metadataString m ''budgetScope'' = Some (budget_scope_str (bg_budgetScope g))"
    using assms(3-5) v unfolding m by (simp_all add: metadataString_def)
  show "metadataString m ''budgetPolicyId'' = bg_budgetPolicyId g"
    using assms(6) unfolding m metadataString_def policy_named_def opt_str_def
    by (cases "bg_budgetPolicyId g") (simp_all add: opt_num_def)
  show "metadataNonNegativeInteger m ''dailySpentCents'' = bg_dailySpentCents g"
    using v(4) unfolding m metadataNonNegativeInteger_def spent_ok_def opt_str_def
    by (simp add: opt_num_def split: option.splits)
  show "metadataString m ''dailyWindowStart'' = map_option toISOString (bg_dailyWindowStart g)"
    unfolding m metadataString_def opt_str_def
    by (cases "bg_dailyWindowStart g") (simp_all add: opt_num_def)
  show "metadataString m ''dailyWindowEnd'' = map_option toISOString (bg_dailyWindowEnd g)"
    unfolding m metadataString_def opt_str_def
    by (cases "bg_dailyWindowEnd g") (simp_all add: opt_num_def)
qed

text \<open>
  C23. The approval that the guard asks for lifts it: once it is granted, with the metadata that the
  store keeps of the guard's payload (the payload after redaction), the resumed work carries a route
  for the same provider, model and cost, and the guard's same decision about the run is lifted.
  Conditions: redaction masks nothing in the names of the provider, of the model and of the deciding
  budget policy (a masked name no longer matches); these names are not blank; the budget is not
  negative; and the guard decides as it did when it asked, with the same budget, the same amount
  spent today and the same day.
\<close>

theorem granted_increase_lifts_the_guard:
  assumes "runtimeBudgetGuardDecision ctx = Inr g"
    and "wi_reason (wr_item work) = Reason_approval_granted" "wr_approval work = Some gate"
    and "wg_action gate = ''budget.increase''" "wg_status gate = Approval_approved"
    and "wg_payloadMetadata gate = approvalPayloadMetadata (budget_payload ctx g)"
    and "redactSecrets (rt_provider (wx_modelRoute ctx)) = rt_provider (wx_modelRoute ctx)"
    and "redactSecrets (rt_model (wx_modelRoute ctx)) = rt_model (wx_modelRoute ctx)"
    and "map_option redactSecrets (bg_budgetPolicyId g) = bg_budgetPolicyId g"
    and "js_trim (rt_provider (wx_modelRoute ctx)) \<noteq> []" "js_trim (rt_model (wx_modelRoute ctx)) \<noteq> []"
    and "0 \<le> bg_budgetCents g" "policy_named g"
  shows "approvedBudgetRouteForCurrentContext work g =
      Some \<lparr> ar_provider = rt_provider (wx_modelRoute ctx), ar_model = rt_model (wx_modelRoute ctx),
        ar_estimatedCostCents = expected_cost ctx \<rparr>
    \<and> hasApprovedBudgetIncreaseForDecision work g"
proof -
  obtain m where m: "budget_payload ctx g = JObj m"
    by (simp add: budget_payload_def)
  note reads = payload_reads_back [OF assms(1) m assms(10-13)]
  have kept: "wg_payloadMetadata gate = Some (JObj m)"
    using assms(6) budget_payload_is_kept [OF assms(7-9)] by (simp add: m)
  show ?thesis
    using assms(2-5) kept guard_values [OF assms(1)]
    by (simp add: hasApprovedBudgetIncreaseForDecision_def approvedBudgetRouteForCurrentContext_def
        approvedBudgetRouteFromRecord_def approvedDailyBudgetContextMatches_def m reads)
qed

lemma tight_work_is_lifted:
  "js_trim (rt_provider (wx_modelRoute tight_context)) \<noteq> []"
  "js_trim (rt_model (wx_modelRoute tight_context)) \<noteq> []"
  "0 \<le> bg_budgetCents (guard_of tight_context)" "policy_named (guard_of tight_context)"
  by code_simp+

lemma tight_names_are_kept:
  "redactSecrets (rt_provider (wx_modelRoute tight_context)) = rt_provider (wx_modelRoute tight_context)"
  "redactSecrets (rt_model (wx_modelRoute tight_context)) = rt_model (wx_modelRoute tight_context)"
  "map_option redactSecrets (bg_budgetPolicyId (guard_of tight_context)) = bg_budgetPolicyId (guard_of tight_context)"
proof -
  have names: "plain_text (rt_provider (wx_modelRoute tight_context))" "plain_text (rt_model (wx_modelRoute tight_context))"
    "bg_budgetPolicyId (guard_of tight_context) = None"
    by code_simp+
  show "redactSecrets (rt_provider (wx_modelRoute tight_context)) = rt_provider (wx_modelRoute tight_context)"
    "redactSecrets (rt_model (wx_modelRoute tight_context)) = rt_model (wx_modelRoute tight_context)"
    "map_option redactSecrets (bg_budgetPolicyId (guard_of tight_context)) = bg_budgetPolicyId (guard_of tight_context)"
    by (simp_all add: names plain_text_not_masked)
qed

lemma granted_increase_lifts_the_guard_witness:
  "runtimeBudgetGuardDecision tight_context = Inr (guard_of tight_context)
   \<and> bg_decision (guard_of tight_context) = Over_budget
   \<and> approvalPayloadMetadata (budget_payload tight_context (guard_of tight_context))
       = Some (budget_payload tight_context (guard_of tight_context))
   \<and> hasApprovedBudgetIncreaseForDecision
       (granted_work (budget_payload tight_context (guard_of tight_context))) (guard_of tight_context)"
  using granted_increase_lifts_the_guard [OF guard_of_tight(1) _ _ _ _ _ tight_names_are_kept tight_work_is_lifted,
      of "granted_work (budget_payload tight_context (guard_of tight_context))"
        "granted_gate (budget_payload tight_context (guard_of tight_context))"]
    guard_of_tight budget_payload_is_kept [OF tight_names_are_kept]
  by (simp add: granted_work_def granted_gate_def)

lemma tight_route:
  "approvedBudgetRouteForCurrentContext (granted_work (budget_payload tight_context (guard_of tight_context)))
     (guard_of tight_context)
   = Some \<lparr> ar_provider = ''openai'', ar_model = ''openai/gpt-5.4'', ar_estimatedCostCents = 50 \<rparr>"
  by code_simp

lemma increase_needs_matching_approval_witness:
  "approvedBudgetRouteForCurrentContext (granted_work (budget_payload tight_context (guard_of tight_context)))
     (guard_of tight_context)
   = Some \<lparr> ar_provider = ''openai'', ar_model = ''openai/gpt-5.4'', ar_estimatedCostCents = 50 \<rparr>
   \<and> bg_estimatedCostCents (guard_of tight_context) \<le> 50"
  using tight_route increase_needs_matching_approval [OF tight_route] by simp

end
