(* ===== verification/Sandbox_Network.thy ===== *)
theory Sandbox_Network
  imports Canonical JsRegex
begin

text \<open>
  The network rules of a sandbox, \<open>packages/sandbox/src/index.ts\<close>: which texts are addresses, which
  hosts are private or serve metadata, which allowlists are accepted, and whether an egress target
  is allowed. \<open>isIP\<close> of \<open>node:net\<close> is written out; the constructor of \<open>URL\<close> is the parameter
  \<open>U\<close>, \<open>None\<close> where it throws.
\<close>

section \<open>Texts\<close>

fun split_at :: "char \<Rightarrow> string \<Rightarrow> string list" where
  "split_at d [] = [[]]"
| "split_at d (c # s) =
     (if c = d then [] # split_at d s
      else (case split_at d s of [] \<Rightarrow> [[c]] | w # ws \<Rightarrow> (c # w) # ws))"

definition is_digit :: "char \<Rightarrow> bool" where
  "is_digit = in_range CHR ''0'' CHR ''9''"

definition is_hex :: "char \<Rightarrow> bool" where
  "is_hex c \<longleftrightarrow> is_digit c \<or> in_range CHR ''a'' CHR ''f'' c \<or> in_range CHR ''A'' CHR ''F'' c"

definition digits_between :: "nat \<Rightarrow> nat \<Rightarrow> string \<Rightarrow> bool" where
  "digits_between lo hi s \<longleftrightarrow> lo \<le> length s \<and> length s \<le> hi \<and> list_all is_digit s"

definition hex_value :: "string \<Rightarrow> nat" where
  "hex_value s = foldl (\<lambda>n c. n * 16 +
     (if is_digit c then of_char c - 48 else if in_range CHR ''a'' CHR ''f'' c then of_char c - 87 else of_char c - 55)) 0 s"

section \<open>\<open>isIP\<close>\<close>

definition octet_text :: "string \<Rightarrow> bool" where
  "octet_text s \<longleftrightarrow> digits_between 1 3 s \<and> (length s = 1 \<or> hd s \<noteq> CHR ''0'') \<and> read_digits s \<le> 255"

definition isIPv4 :: "string \<Rightarrow> bool" where
  "isIPv4 s \<longleftrightarrow> (let parts = split_at CHR ''.'' s in length parts = 4 \<and> list_all octet_text parts)"

definition hex_group :: "string \<Rightarrow> bool" where
  "hex_group s \<longleftrightarrow> 1 \<le> length s \<and> length s \<le> 4 \<and> list_all is_hex s"

text \<open>The groups of 16 bits of a part of an IPv6 text without \<open>::\<close>; it may end with an IPv4 text.\<close>

definition group_count :: "bool \<Rightarrow> string \<Rightarrow> nat option" where
  "group_count ends_ipv4 s =
     (if s = [] then Some 0
      else let parts = split_at CHR '':'' s in
        if list_all hex_group parts then Some (length parts)
        else if ends_ipv4 \<and> list_all hex_group (butlast parts) \<and> isIPv4 (last parts) then Some (length parts + 1)
        else None)"

fun double_colon :: "string \<Rightarrow> (string \<times> string) option" where
  "double_colon (c # d # s) =
     (if c = CHR '':'' \<and> d = CHR '':'' then Some ([], s)
      else map_option (\<lambda>(l, r). (c # l, r)) (double_colon (d # s)))"
| "double_colon _ = None"

definition isIPv6 :: "string \<Rightarrow> bool" where
  "isIPv6 s \<longleftrightarrow>
     (let address = takeWhile (\<lambda>c. c \<noteq> CHR ''%'') s; zone = drop (length address) s in
      (zone = [] \<or> (2 \<le> length zone \<and> list_all (alnum_or ''-.:'') (tl zone)))
      \<and> (case double_colon address of
           None \<Rightarrow> group_count True address = Some 8
         | Some (l, r) \<Rightarrow> (case (group_count False l, group_count True r) of
               (Some a, Some b) \<Rightarrow> a + b \<le> 7
             | _ \<Rightarrow> False)))"

definition isIP :: "string \<Rightarrow> nat" where
  "isIP s = (if isIPv4 s then 4 else if isIPv6 s then 6 else 0)"

section \<open>Hosts\<close>

definition line_end :: "char \<Rightarrow> bool" where
  "line_end c \<longleftrightarrow> c = CHR 0x0A \<or> c = CHR 0x0D"

definition normalizeHost :: "string \<Rightarrow> string" where
  "normalizeHost v =
     (let h = to_lower_case (js_trim v) in
      if 2 \<le> length h \<and> hd h = CHR ''['' \<and> last h = CHR '']'' \<and> \<not> list_ex line_end h
      then butlast (tl h) else h)"

definition METADATA_NETWORK_TARGETS :: "string list" where
  "METADATA_NETWORK_TARGETS =
     [''169.254.169.254'', ''169.254.170.2'', ''metadata'', ''metadata.google.internal'', ''metadata.google'',
      ''instance-data'', ''fd00:ec2::254'']"

definition private_octets :: "nat \<Rightarrow> nat \<Rightarrow> bool" where
  "private_octets a b \<longleftrightarrow>
     a = 0 \<or> a = 10 \<or> a = 127 \<or> (a = 100 \<and> 64 \<le> b \<and> b \<le> 127) \<or> (a = 169 \<and> b = 254)
     \<or> (a = 172 \<and> 16 \<le> b \<and> b \<le> 31) \<or> (a = 192 \<and> b = 168) \<or> (a = 198 \<and> (b = 18 \<or> b = 19)) \<or> 224 \<le> a"

definition isPrivateIpv4 :: "string \<Rightarrow> bool" where
  "isPrivateIpv4 host \<longleftrightarrow>
     (case map read_digits (split_at CHR ''.'' host) of a # b # _ \<Rightarrow> private_octets a b | _ \<Rightarrow> True)"

definition dotted :: "nat list \<Rightarrow> string" where
  "dotted octets = join ''.'' (map nat_str octets)"

definition normalizeDottedIpv4 :: "string \<Rightarrow> string option" where
  "normalizeDottedIpv4 v =
     (let octets = map read_digits (split_at CHR ''.'' v)
      in if length octets \<noteq> 4 \<or> list_ex (\<lambda>n. 255 < n) octets then None else Some (dotted octets))"

definition dotted_text :: "string \<Rightarrow> bool" where
  "dotted_text s \<longleftrightarrow> (let parts = split_at CHR ''.'' s in length parts = 4 \<and> list_all (digits_between 1 3) parts)"

fun two_groups :: "string list \<Rightarrow> (nat \<times> nat) option" where
  "two_groups [a, b] = (if hex_group a \<and> hex_group b then Some (hex_value a, hex_value b) else None)"
| "two_groups _ = None"

definition without_ffff :: "string \<Rightarrow> string" where
  "without_ffff s = (if starts_with (to_lower_case s) ''ffff:'' then drop 5 s else s)"

definition ipv4FromMappedIpv6 :: "string \<Rightarrow> string option" where
  "ipv4FromMappedIpv6 host =
     (if \<not> starts_with host ''::'' then None
      else let t = drop 2 host in
        if dotted_text (without_ffff t) then normalizeDottedIpv4 (without_ffff t)
        else case (case two_groups (split_at CHR '':'' (without_ffff t)) of
                     Some g \<Rightarrow> Some g | None \<Rightarrow> two_groups (split_at CHR '':'' t)) of
               None \<Rightarrow> None
             | Some (high, low) \<Rightarrow> Some (dotted [high div 256, high mod 256, low div 256, low mod 256]))"

definition isMetadataNetworkTarget :: "string \<Rightarrow> bool" where
  "isMetadataNetworkTarget v \<longleftrightarrow>
     (let host = normalizeHost v in
      (case ipv4FromMappedIpv6 host of None \<Rightarrow> False | Some e \<Rightarrow> e \<in> set METADATA_NETWORK_TARGETS)
      \<or> host \<in> set METADATA_NETWORK_TARGETS)"

definition isPrivateIpv6 :: "string \<Rightarrow> bool" where
  "isPrivateIpv6 host \<longleftrightarrow>
     (case ipv4FromMappedIpv6 host of
        Some e \<Rightarrow> isPrivateIpv4 e
      | None \<Rightarrow> host = ''::'' \<or> host = ''::1'' \<or> starts_with host ''fc'' \<or> starts_with host ''fd''
          \<or> starts_with host ''fe80:'')"

definition isPrivateNetworkTarget :: "string \<Rightarrow> bool" where
  "isPrivateNetworkTarget v \<longleftrightarrow>
     (let host = normalizeHost v in
      if host = ''localhost'' \<or> ends_with host ''.localhost'' \<or> ends_with host ''.local'' \<or> ends_with host ''.internal''
      then True
      else if isIP host = 4 then isPrivateIpv4 host
      else if isIP host = 6 then isPrivateIpv6 host
      else False)"

definition isLoopbackTarget :: "string \<Rightarrow> bool" where
  "isLoopbackTarget host \<longleftrightarrow>
     (if host = ''localhost'' \<or> ends_with host ''.localhost'' then True
      else if isIP host = 4 then starts_with host ''127.''
      else if isIP host = 6 then (case ipv4FromMappedIpv6 host of
             Some e \<Rightarrow> starts_with e ''127.'' | None \<Rightarrow> host = ''::1'')
      else False)"

section \<open>Allowlists\<close>

record url =
  ur_protocol :: string
  ur_username :: string
  ur_password :: string
  ur_hostname :: string
  ur_port :: string
  ur_pathname :: string
  ur_search :: string
  ur_hash :: string

type_synonym url_parser = "string \<Rightarrow> url option"

datatype network_mode = Net_disabled | Net_egress_allowlist

record network_policy =
  np_mode :: network_mode
  np_allowlist :: "string list"
  np_blockPrivateNetworks :: bool
  np_blockMetadataService :: bool

record allowlist_entry =
  al_raw :: string
  al_value :: string
  al_host :: string
  al_port :: "nat option"

definition scheme_char :: "char \<Rightarrow> bool" where
  "scheme_char c \<longleftrightarrow> in_range CHR ''a'' CHR ''z'' c \<or> is_digit c \<or> c \<in> set ''+.-''"

definition has_scheme :: "string \<Rightarrow> bool" where
  "has_scheme s \<longleftrightarrow> s \<noteq> [] \<and> in_range CHR ''a'' CHR ''z'' (hd s) \<and> starts_with (dropWhile scheme_char s) ''://''"

definition bad_target_char :: "char \<Rightarrow> bool" where
  "bad_target_char c \<longleftrightarrow> is_space c \<or> c = CHR '','' \<or> c = CHR 0x00"

definition entry_error :: "string \<Rightarrow> string \<Rightarrow> js_error" where
  "entry_error raw why = Error (''Sandbox network allowlist entry '' @ raw @ why)"

definition parseAllowlistUrl :: "url_parser \<Rightarrow> string \<Rightarrow> string \<Rightarrow> js_error + url" where
  "parseAllowlistUrl U trimmed raw =
     (case U (if has_scheme trimmed then trimmed else ''https://'' @ trimmed) of
        None \<Rightarrow> Inl (entry_error raw '' is not valid.'')
      | Some url \<Rightarrow> Inr url)"

definition label_char :: "char \<Rightarrow> bool" where
  "label_char c \<longleftrightarrow> in_range CHR ''a'' CHR ''z'' c \<or> is_digit c \<or> c = CHR ''-''"

definition valid_label :: "string \<Rightarrow> bool" where
  "valid_label l \<longleftrightarrow> l \<noteq> [] \<and> length l \<le> 63 \<and> list_all label_char l \<and> hd l \<noteq> CHR ''-'' \<and> last l \<noteq> CHR ''-''"

definition assertValidNetworkHost :: "string \<Rightarrow> string \<Rightarrow> js_error + unit" where
  "assertValidNetworkHost host raw =
     (if host = [] then Inl (entry_error raw '' has no host.'')
      else if isIP host \<noteq> 0 then Inr ()
      else if 253 < length host then Inl (Error (''Sandbox network allowlist host '' @ raw @ '' is too long.''))
      else if list_all valid_label (split_at CHR ''.'' host) then Inr ()
      else Inl (Error (''Sandbox network allowlist host '' @ raw @ '' is invalid.'')))"

definition formatAllowlistValue :: "string \<Rightarrow> string \<Rightarrow> string" where
  "formatAllowlistValue host port =
     (let formatted = (if isIP host = 6 then ''['' @ host @ '']'' else host)
      in if port = [] then formatted else formatted @ '':'' @ port)"

definition parseNetworkAllowlistEntry :: "url_parser \<Rightarrow> string \<Rightarrow> js_error + allowlist_entry" where
  "parseNetworkAllowlistEntry U raw =
     (let trimmed = to_lower_case (js_trim raw) in
      if trimmed = [] then Inl (Error ''Sandbox network allowlist entries cannot be empty.'')
      else if list_ex bad_target_char trimmed then Inl (entry_error raw '' contains an invalid character.'')
      else if CHR ''*'' \<in> set trimmed then Inl (entry_error raw '' cannot use wildcards.'')
      else if \<not> has_scheme trimmed \<and> CHR ''/'' \<in> set trimmed
      then Inl (entry_error raw '' must be a hostname or HTTP(S) origin, not a path or CIDR range.'')
      else case parseAllowlistUrl U trimmed raw of
        Inl e \<Rightarrow> Inl e
      | Inr url \<Rightarrow>
          if ur_protocol url \<noteq> ''http:'' \<and> ur_protocol url \<noteq> ''https:''
          then Inl (entry_error raw '' must use http or https.'')
          else if ur_username url \<noteq> [] \<or> ur_password url \<noteq> []
          then Inl (entry_error raw '' cannot include credentials.'')
          else if ur_pathname url \<noteq> ''/'' \<or> ur_search url \<noteq> [] \<or> ur_hash url \<noteq> []
          then Inl (entry_error raw '' must be an origin without path, query, or fragment.'')
          else let host = normalizeHost (ur_hostname url) in
            case assertValidNetworkHost host raw of
              Inl e \<Rightarrow> Inl e
            | Inr _ \<Rightarrow> Inr \<lparr> al_raw = raw, al_value = formatAllowlistValue host (ur_port url), al_host = host,
                al_port = (if ur_port url = [] then None else Some (read_digits (ur_port url))) \<rparr>)"

fun parse_entries :: "url_parser \<Rightarrow> string list \<Rightarrow> js_error + allowlist_entry list" where
  "parse_entries U [] = Inr []"
| "parse_entries U (raw # raws) =
     (case parseNetworkAllowlistEntry U raw of
        Inl e \<Rightarrow> Inl e
      | Inr entry \<Rightarrow> (case parse_entries U raws of Inl e \<Rightarrow> Inl e | Inr es \<Rightarrow> Inr (entry # es)))"

fun refused_entry :: "network_policy \<Rightarrow> allowlist_entry list \<Rightarrow> js_error option" where
  "refused_entry policy [] = None"
| "refused_entry policy (e # es) =
     (if np_blockMetadataService policy \<and> isMetadataNetworkTarget (al_host e)
      then Some (Error (''Sandbox network allowlist cannot include metadata service '' @ al_raw e @ ''.''))
      else if np_blockPrivateNetworks policy \<and> isPrivateNetworkTarget (al_host e)
      then Some (Error (''Sandbox network allowlist cannot include private network target '' @ al_raw e @ ''.''))
      else refused_entry policy es)"

text \<open>The values of a \<open>Map\<close> from values to entries: the first position, the last entry.\<close>

definition put_entry :: "allowlist_entry list \<Rightarrow> allowlist_entry \<Rightarrow> allowlist_entry list" where
  "put_entry es e =
     (if list_ex (\<lambda>x. al_value x = al_value e) es
      then map (\<lambda>x. if al_value x = al_value e then e else x) es else es @ [e])"

definition validateNetworkAllowlist :: "url_parser \<Rightarrow> network_policy \<Rightarrow> js_error + allowlist_entry list" where
  "validateNetworkAllowlist U policy =
     (if np_mode policy = Net_disabled then
        (if np_allowlist policy \<noteq> []
         then Inl (Error ''Disabled sandbox networks cannot include egress allowlist entries.'') else Inr [])
      else if np_allowlist policy = []
      then Inl (Error ''Egress allowlist networks require at least one host.'')
      else case parse_entries U (np_allowlist policy) of
        Inl e \<Rightarrow> Inl e
      | Inr entries \<Rightarrow> (case refused_entry policy entries of
            Some e \<Rightarrow> Inl e
          | None \<Rightarrow> Inr (foldl put_entry [] entries)))"

section \<open>Egress\<close>

type_synonym egress_target = "string \<times> nat option"

definition bracketed :: "string \<Rightarrow> egress_target option" where
  "bracketed s =
     (let inner = takeWhile (\<lambda>c. c \<noteq> CHR '']'') (tl s); rest = drop (length inner + 1) (tl s) in
      if s \<noteq> [] \<and> hd s = CHR ''['' \<and> inner \<noteq> [] \<and> length inner < length (tl s)
        \<and> (rest = [] \<or> hd rest = CHR '':'' \<and> digits_between 1 5 (tl rest))
      then Some (inner, if rest = [] then None else Some (read_digits (tl rest))) else None)"

definition parseEgressTarget :: "url_parser \<Rightarrow> string \<Rightarrow> egress_target option" where
  "parseEgressTarget U target =
     (let trimmed = to_lower_case (js_trim target) in
      if trimmed = [] \<or> list_ex bad_target_char trimmed \<or> CHR ''*'' \<in> set trimmed then None
      else if has_scheme trimmed then
        (case U trimmed of
           None \<Rightarrow> None
         | Some url \<Rightarrow>
             (let host = normalizeHost (ur_hostname url) in
              if host = [] then None
              else Some (host, if ur_port url = [] then None else Some (read_digits (ur_port url)))))
      else case bracketed trimmed of
        Some (inner, port) \<Rightarrow> (let host = normalizeHost inner in if host = [] then None else Some (host, port))
      | None \<Rightarrow>
          if isIP trimmed = 6 then Some (normalizeHost trimmed, None)
          else let hostPart = takeWhile (\<lambda>c. c \<noteq> CHR '':'') trimmed; rest = drop (length hostPart) trimmed;
                   host = normalizeHost hostPart in
            if rest \<noteq> [] \<and> \<not> digits_between 1 5 (tl rest) then None
            else if host = [] \<or> CHR ''/'' \<in> set host then None
            else Some (host, if rest = [] then None else Some (read_digits (tl rest))))"

definition entry_matches :: "string \<Rightarrow> nat option \<Rightarrow> egress_target option \<Rightarrow> bool" where
  "entry_matches host port entry =
     (case entry of None \<Rightarrow> False | Some (h, p) \<Rightarrow> h = host \<and> (p = None \<or> p = port))"

definition matchesEgressAllowlist :: "url_parser \<Rightarrow> string list \<Rightarrow> string \<Rightarrow> nat option \<Rightarrow> bool" where
  "matchesEgressAllowlist U allowlist host port =
     list_ex (\<lambda>raw. entry_matches host port (parseEgressTarget U raw)) allowlist"

datatype egress_reason =
  Egress_network_disabled | Egress_not_allowlisted | Egress_metadata_blocked | Egress_private_network_blocked
  | Egress_localhost_blocked | Egress_invalid_target | Egress_allowlisted

record egress_decision =
  eg_allowed :: bool
  eg_reason :: egress_reason
  eg_message :: string
  eg_host :: "string option"
  eg_port :: "nat option"

definition egress :: "egress_reason \<Rightarrow> string \<Rightarrow> string \<Rightarrow> nat option \<Rightarrow> egress_decision" where
  "egress why message host port =
     \<lparr> eg_allowed = (why = Egress_allowlisted), eg_reason = why, eg_message = message, eg_host = Some host, eg_port = port \<rparr>"

definition evaluateEgressPolicy :: "url_parser \<Rightarrow> network_policy \<Rightarrow> string \<Rightarrow> bool option \<Rightarrow> egress_decision" where
  "evaluateEgressPolicy U policy target allowlistOverridesGuards =
     (case parseEgressTarget U target of
        None \<Rightarrow>
          \<lparr> eg_allowed = False, eg_reason = Egress_invalid_target,
            eg_message = ''Egress target '' @ json_quote target @ '' could not be parsed.'',
            eg_host = None, eg_port = None \<rparr>
      | Some (host, port) \<Rightarrow>
          (let matches = matchesEgressAllowlist U (np_allowlist policy) host port;
               guardsApply = (\<not> (matches \<and> or_else allowlistOverridesGuards False))
           in if np_mode policy = Net_disabled
              then egress Egress_network_disabled ''Sandbox network egress is disabled by policy.'' host port
              else if np_blockMetadataService policy \<and> isMetadataNetworkTarget host
              then egress Egress_metadata_blocked (''Egress to cloud metadata service '' @ host @ '' is blocked.'') host port
              else if guardsApply \<and> np_blockPrivateNetworks policy \<and> isLoopbackTarget host
              then egress Egress_localhost_blocked (''Egress to localhost target '' @ host @ '' is blocked.'') host port
              else if guardsApply \<and> np_blockPrivateNetworks policy \<and> isPrivateNetworkTarget host
              then egress Egress_private_network_blocked (''Egress to private network target '' @ host @ '' is blocked.'') host port
              else if \<not> matches
              then egress Egress_not_allowlisted (''Egress target '' @ host @ '' is not on the allowlist.'') host port
              else egress Egress_allowlisted (''Egress target '' @ host @ '' is allowlisted.'') host port))"

end
