(* ===== verification/Sandbox_Policy.thy ===== *)
theory Sandbox_Policy
  imports Complex_Main Sandbox_Network Policy
begin

text \<open>
  The policies of a sandbox, \<open>packages/sandbox/src/index.ts\<close>: their data and defaults, the assertions
  on limits, mounts, commands and variables, the \<open>docker run\<close> command made from a policy, access to
  paths, and the normal form of resource limits. \<open>path.posix.normalize\<close> is written out.
\<close>

section \<open>Numbers\<close>

text \<open>A number is finite, or one of \<open>NaN\<close> and the infinities by its text; \<open>T\<close> writes a fraction.\<close>

datatype js_number = Finite rat | Nonfinite string

definition rat_text :: "(rat \<Rightarrow> string) \<Rightarrow> rat \<Rightarrow> string" where
  "rat_text T v = (if of_int \<lfloor>v\<rfloor> = v \<and> \<bar>v\<bar> < 10 ^ 21 then int_str \<lfloor>v\<rfloor> else T v)"

fun number_str :: "(rat \<Rightarrow> string) \<Rightarrow> js_number \<Rightarrow> string" where
  "number_str T (Finite v) = rat_text T v"
| "number_str T (Nonfinite t) = t"

fun positive_safe_integer :: "js_number \<Rightarrow> bool" where
  "positive_safe_integer (Finite v) = (of_int \<lfloor>v\<rfloor> = v \<and> \<bar>v\<bar> \<le> 9007199254740991 \<and> 0 < v)"
| "positive_safe_integer (Nonfinite t) = False"

fun positive_number :: "js_number \<Rightarrow> bool" where
  "positive_number (Finite v) = (0 < v)"
| "positive_number (Nonfinite t) = False"

section \<open>Data\<close>

datatype sandbox_kind = Docker_local | Vercel_sandbox | E2b | Noop

datatype mount_mode = Read_only | Read_write

datatype mount_purpose = Mount_source | Mount_worktree | Mount_artifact | Mount_cache | Mount_scratch

fun sandbox_kind_str :: "sandbox_kind \<Rightarrow> string" where
  "sandbox_kind_str Docker_local = ''docker-local''"
| "sandbox_kind_str Vercel_sandbox = ''vercel-sandbox''"
| "sandbox_kind_str E2b = ''e2b''"
| "sandbox_kind_str Noop = ''noop''"

record sandbox_limits =
  sl_cpuCount :: js_number
  sl_memoryMb :: js_number
  sl_diskMb :: js_number
  sl_processLimit :: js_number
  sl_timeoutMs :: js_number

record sandbox_mount =
  sm_source :: string
  sm_target :: string
  sm_mode :: mount_mode
  sm_purpose :: mount_purpose

type_synonym variables_list = "(string \<times> string) list"

record sandbox_policy =
  po_providerKind :: sandbox_kind
  po_imageRef :: "string option"
  po_templateId :: "string option"
  po_risk :: risk_level
  po_network :: network_policy
  po_mounts :: "sandbox_mount list"
  po_resourceLimits :: sandbox_limits
  po_env :: variables_list
  po_allowPrivileged :: bool

record sandbox_create =
  sc_orgId :: string
  sc_runId :: string
  sc_attempt :: int
  sc_policy :: sandbox_policy
  sc_traceId :: string

record sandbox_lease =
  se_id :: string
  se_providerKind :: sandbox_kind
  se_runId :: string
  se_createdAt :: iso_date
  se_expiresAt :: iso_date

record sandbox_command =
  sx_idempotencyKey :: string
  sx_command :: "string list"
  sx_cwd :: "string option"
  sx_env :: "variables_list option"
  sx_timeoutMs :: "js_number option"
  sx_risk :: risk_level

record sandbox_result =
  sr_exitCode :: int
  sr_stdout :: string
  sr_stderr :: string
  sr_durationMs :: int
  sr_timedOut :: bool

definition defaultSandboxResourceLimits :: sandbox_limits where
  "defaultSandboxResourceLimits =
     \<lparr> sl_cpuCount = Finite 2, sl_memoryMb = Finite 4096, sl_diskMb = Finite 10240, sl_processLimit = Finite 256,
       sl_timeoutMs = Finite 900000 \<rparr>"

definition defaultSandboxNetworkPolicy :: network_policy where
  "defaultSandboxNetworkPolicy =
     \<lparr> np_mode = Net_disabled, np_allowlist = [], np_blockPrivateNetworks = True, np_blockMetadataService = True \<rparr>"

definition createDefaultSandboxPolicy :: "sandbox_kind \<Rightarrow> risk_level \<Rightarrow> sandbox_mount list option \<Rightarrow> sandbox_policy" where
  "createDefaultSandboxPolicy kind risk mounts =
     \<lparr> po_providerKind = kind, po_imageRef = None, po_templateId = None, po_risk = risk,
       po_network = defaultSandboxNetworkPolicy, po_mounts = or_else mounts [],
       po_resourceLimits = defaultSandboxResourceLimits, po_env = [], po_allowPrivileged = False \<rparr>"

definition requiresNetworkApproval :: "sandbox_policy \<Rightarrow> bool" where
  "requiresNetworkApproval policy \<longleftrightarrow>
     np_mode (po_network policy) \<noteq> Net_disabled \<and> po_risk policy \<noteq> Read_internal"

section \<open>Assertions\<close>

text \<open>An assertion returns the error that it throws.\<close>

type_synonym assertion = "js_error option"

definition demand :: "bool \<Rightarrow> string \<Rightarrow> assertion" where
  "demand b message = (if b then None else Some (Error message))"

fun first_error :: "assertion list \<Rightarrow> assertion" where
  "first_error [] = None"
| "first_error (a # as) = (case a of Some e \<Rightarrow> Some e | None \<Rightarrow> first_error as)"

definition control_char :: "char \<Rightarrow> bool" where
  "control_char c \<longleftrightarrow> c = CHR 0x00 \<or> c = CHR 0x0D \<or> c = CHR 0x0A"

definition assertNoControlCharacters :: "string \<Rightarrow> string \<Rightarrow> assertion" where
  "assertNoControlCharacters v label = demand (\<not> list_ex control_char v) (label @ '' contains a control character.'')"

definition assertAbsoluteHostPath :: "string \<Rightarrow> string \<Rightarrow> assertion" where
  "assertAbsoluteHostPath v label = first_error
     [assertNoControlCharacters v label,
      demand (starts_with v ''/'') (label @ '' must be an absolute path.''),
      demand (v \<noteq> ''/'') (label @ '' cannot be the host root.'')]"

definition restricted_container_path :: "string \<Rightarrow> bool" where
  "restricted_container_path v \<longleftrightarrow>
     v = ''/'' \<or> starts_with v ''/proc'' \<or> starts_with v ''/sys'' \<or> starts_with v ''/dev''"

definition assertAbsoluteContainerPath :: "string \<Rightarrow> string \<Rightarrow> assertion" where
  "assertAbsoluteContainerPath v label = first_error
     [assertNoControlCharacters v label,
      demand (starts_with v ''/'') (label @ '' must be an absolute path.''),
      demand (\<not> restricted_container_path v) (label @ '' points at a restricted container path.'')]"

definition assertNoDockerMountDelimiter :: "string \<Rightarrow> string \<Rightarrow> assertion" where
  "assertNoDockerMountDelimiter v label = demand (CHR '','' \<notin> set v) (label @ '' cannot contain a comma.'')"

definition isDockerSocketPath :: "string \<Rightarrow> bool" where
  "isDockerSocketPath p \<longleftrightarrow> p = ''/var/run/docker.sock'' \<or> ends_with p ''/docker.sock''"

fun sensitive_segments :: "string list \<Rightarrow> bool" where
  "sensitive_segments [] = False"
| "sensitive_segments (s # ss) =
     (s = ''.ssh'' \<or> s = ''.aws'' \<or> s = ''.kube''
      \<or> s = ''.config'' \<and> (case ss of [] \<Rightarrow> False | t # _ \<Rightarrow> t = ''gcloud'')
      \<or> s = ''.docker'' \<or> s = ''.env'' \<or> starts_with s ''.env.'' \<or> sensitive_segments ss)"

definition path_segments :: "string \<Rightarrow> string list" where
  "path_segments p = filter (\<lambda>s. s \<noteq> []) (split_at CHR ''/'' p)"

definition containsSensitiveHostPath :: "string \<Rightarrow> bool" where
  "containsSensitiveHostPath p = sensitive_segments (path_segments p)"

definition assertSandboxMount :: "sandbox_mount \<Rightarrow> assertion" where
  "assertSandboxMount m = first_error
     [assertAbsoluteHostPath (sm_source m) ''Sandbox mount source'',
      assertAbsoluteContainerPath (sm_target m) ''Sandbox mount target'',
      assertNoDockerMountDelimiter (sm_source m) ''Sandbox mount source'',
      assertNoDockerMountDelimiter (sm_target m) ''Sandbox mount target'',
      demand (\<not> (isDockerSocketPath (sm_source m) \<or> isDockerSocketPath (sm_target m)))
        ''Sandbox mounts cannot include the Docker socket.'',
      demand (\<not> containsSensitiveHostPath (sm_source m)) ''Sandbox mounts cannot include host credential paths.'',
      demand (\<not> (sm_purpose m = Mount_source \<and> sm_mode m \<noteq> Read_only)) ''Sandbox source mounts must be read-only.'']"

definition variable_name :: "string \<Rightarrow> bool" where
  "variable_name k \<longleftrightarrow> k \<noteq> [] \<and> list_all (alnum_or ''_'') k \<and> \<not> is_digit (hd k)"

definition assertDockerEnv :: "string \<times> string \<Rightarrow> assertion" where
  "assertDockerEnv e = first_error
     [demand (variable_name (fst e)) (''Sandbox environment variable '' @ fst e @ '' is invalid.''),
      assertNoControlCharacters (snd e) (''Sandbox environment variable '' @ fst e)]"

definition assertPositiveInteger :: "js_number \<Rightarrow> string \<Rightarrow> assertion" where
  "assertPositiveInteger v label = demand (positive_safe_integer v) (label @ '' must be a positive integer.'')"

definition assertSandboxResourceLimits :: "sandbox_limits \<Rightarrow> assertion" where
  "assertSandboxResourceLimits l = first_error
     [demand (positive_number (sl_cpuCount l)) ''Sandbox CPU limit must be greater than zero.'',
      assertPositiveInteger (sl_memoryMb l) ''Sandbox memory limit'',
      assertPositiveInteger (sl_diskMb l) ''Sandbox disk limit'',
      assertPositiveInteger (sl_processLimit l) ''Sandbox process limit'',
      assertPositiveInteger (sl_timeoutMs l) ''Sandbox timeout'']"

definition assertSandboxPolicy :: "url_parser \<Rightarrow> sandbox_policy \<Rightarrow> assertion" where
  "assertSandboxPolicy U policy = first_error
     ([demand (\<not> po_allowPrivileged policy) ''Bek sandbox policies cannot enable privileged execution.'',
       demand (np_blockMetadataService (po_network policy)) ''Bek sandbox policies must block cloud metadata services.'',
       assertSandboxResourceLimits (po_resourceLimits policy),
       (case validateNetworkAllowlist U (po_network policy) of Inl e \<Rightarrow> Some e | Inr _ \<Rightarrow> None)]
      @ map assertSandboxMount (po_mounts policy) @ map assertDockerEnv (po_env policy))"

fun exceeds :: "js_number option \<Rightarrow> js_number \<Rightarrow> bool" where
  "exceeds (Some (Finite a)) (Finite b) = (b < a)"
| "exceeds (Some (Nonfinite t)) (Finite b) = (t = ''Infinity'')"
| "exceeds (Some (Finite a)) (Nonfinite t) = (t = ''-Infinity'')"
| "exceeds (Some (Nonfinite s)) (Nonfinite t) = (s = ''Infinity'' \<and> t = ''-Infinity'')"
| "exceeds None b = False"

definition assertSandboxCommand :: "sandbox_command \<Rightarrow> sandbox_policy \<Rightarrow> assertion" where
  "assertSandboxCommand cmd policy = first_error
     ([demand (sx_command cmd \<noteq> []) ''Sandbox commands must include at least one argv entry.'']
      @ map (\<lambda>argv. assertNoControlCharacters argv ''Sandbox command argv'') (sx_command cmd)
      @ [demand (\<not> exceeds (sx_timeoutMs cmd) (sl_timeoutMs (po_resourceLimits policy)))
           ''Sandbox command timeout cannot exceed the policy timeout.'',
         (case sx_cwd cmd of None \<Rightarrow> None | Some cwd \<Rightarrow> assertAbsoluteContainerPath cwd ''Sandbox command cwd'')]
      @ map assertDockerEnv (or_else (sx_env cmd) []))"

definition assertArtifactPath :: "string \<Rightarrow> assertion" where
  "assertArtifactPath p = first_error
     [assertAbsoluteContainerPath p ''Sandbox artifact path'',
      demand (\<not> str_includes p ''..'') (''Sandbox artifact paths cannot contain '' @ [CHR 0x27] @ ''..'' @ [CHR 0x27] @ ''.'')]"

section \<open>The docker command\<close>

record docker_run_input =
  dr_create :: sandbox_create
  dr_containerName :: "string option"
  dr_command :: "string list option"
  dr_workdir :: "string option"
  dr_user :: "string option"
  dr_egressNetworkName :: "string option"

record docker_run_command =
  dc_args :: "string list"
  dc_containerName :: string
  dc_networkAllowlist :: "string list"

definition defaultDockerSandboxImage :: string where
  "defaultDockerSandboxImage = ''bek/sandbox:local''"

definition defaultDockerEgressNetworkName :: string where
  "defaultDockerEgressNetworkName = ''bek-egress-allowlist''"

definition dockerContainerName :: "string \<Rightarrow> int \<Rightarrow> string" where
  "dockerContainerName runId attempt =
     slice 128 (dropWhile (\<lambda>c. c = CHR ''-'')
       (map (\<lambda>c. if alnum_or ''_.-'' c then c else CHR ''-'') (''bek-'' @ runId @ ''-'' @ int_str attempt)))"

definition dockerNetworkName :: "network_policy \<Rightarrow> string option \<Rightarrow> string" where
  "dockerNetworkName policy egressNetworkName =
     (if np_mode policy = Net_disabled then ''none'' else or_else egressNetworkName defaultDockerEgressNetworkName)"

definition dockerMountValue :: "sandbox_mount \<Rightarrow> string" where
  "dockerMountValue m =
     join '','' ([''type=bind'', ''src='' @ sm_source m, ''dst='' @ sm_target m]
       @ (if sm_mode m = Read_only then [''readonly''] else []))"

definition env_args :: "(string \<Rightarrow> string \<Rightarrow> bool) \<Rightarrow> variables_list \<Rightarrow> string list" where
  "env_args collate env =
     concat (map (\<lambda>(k, v). [''--env'', k @ ''='' @ v]) (sort_by (\<lambda>a b. collate (fst a) (fst b)) env))"

definition mount_args :: "sandbox_mount list \<Rightarrow> string list" where
  "mount_args mounts = concat (map (\<lambda>m. [''--mount'', dockerMountValue m]) mounts)"

definition limit_args :: "(rat \<Rightarrow> string) \<Rightarrow> sandbox_limits \<Rightarrow> string list" where
  "limit_args T l =
     [''--cpus'', number_str T (sl_cpuCount l), ''--memory'', number_str T (sl_memoryMb l) @ ''m'',
      ''--pids-limit'', number_str T (sl_processLimit l), ''--read-only'', ''--tmpfs'',
      ''/tmp:rw,nosuid,nodev,noexec,size='' @ number_str T (sl_diskMb l) @ ''m'',
      ''--security-opt'', ''no-new-privileges'', ''--cap-drop'', ''ALL'', ''--init'']"

definition label_args :: "sandbox_create \<Rightarrow> string list" where
  "label_args c =
     [''--label'', ''dev.bek.org='' @ sc_orgId c, ''--label'', ''dev.bek.run='' @ sc_runId c,
      ''--label'', ''dev.bek.trace='' @ sc_traceId c]"

definition docker_options :: "(string \<Rightarrow> string \<Rightarrow> bool) \<Rightarrow> (rat \<Rightarrow> string) \<Rightarrow> docker_run_input \<Rightarrow> string list \<Rightarrow> string list" where
  "docker_options collate T input networkAllowlist =
     (let policy = sc_policy (dr_create input);
          containerName = or_else (dr_containerName input)
            (dockerContainerName (sc_runId (dr_create input)) (sc_attempt (dr_create input)))
      in [''run'', ''--detach'', ''--rm'', ''--name'', containerName] @ label_args (dr_create input)
         @ [''--network'', dockerNetworkName (po_network policy) (dr_egressNetworkName input)]
         @ limit_args T (po_resourceLimits policy)
         @ [''--user'', or_else (dr_user input) ''1000:1000'', ''--workdir'', or_else (dr_workdir input) ''/workspace/worktree'']
         @ mount_args (po_mounts policy) @ env_args collate (po_env policy)
         @ (if networkAllowlist = [] then []
            else [''--env'', ''BEK_SANDBOX_EGRESS_ALLOWLIST='' @ join '','' networkAllowlist]))"

definition buildDockerRunCommand :: "url_parser \<Rightarrow> (string \<Rightarrow> string \<Rightarrow> bool) \<Rightarrow> (rat \<Rightarrow> string) \<Rightarrow> docker_run_input
    \<Rightarrow> js_error + docker_run_command" where
  "buildDockerRunCommand U collate T input =
     (let policy = sc_policy (dr_create input) in
      if po_providerKind policy \<noteq> Docker_local then Inl (Error ''Docker run commands require a docker-local policy.'')
      else case assertSandboxPolicy U policy of
        Some e \<Rightarrow> Inl e
      | None \<Rightarrow>
          (case validateNetworkAllowlist U (po_network policy) of
             Inl e \<Rightarrow> Inl e
           | Inr entries \<Rightarrow>
               (let networkAllowlist = map al_value entries in Inr
                 \<lparr> dc_args = docker_options collate T input networkAllowlist
                     @ [or_else (po_imageRef policy) defaultDockerSandboxImage]
                     @ or_else (dr_command input) [''sleep'', ''infinity''],
                   dc_containerName = or_else (dr_containerName input)
                     (dockerContainerName (sc_runId (dr_create input)) (sc_attempt (dr_create input))),
                   dc_networkAllowlist = networkAllowlist \<rparr>)))"

section \<open>Access to paths\<close>

fun normal_segments :: "bool \<Rightarrow> string list \<Rightarrow> string list \<Rightarrow> string list" where
  "normal_segments upwards acc [] = rev acc"
| "normal_segments upwards acc (s # ss) =
     (if s = [] \<or> s = ''.'' then normal_segments upwards acc ss
      else if s = ''..'' then
        (case acc of
           a # rest \<Rightarrow> if a \<noteq> ''..'' then normal_segments upwards rest ss
                       else normal_segments upwards (if upwards then s # acc else acc) ss
         | [] \<Rightarrow> normal_segments upwards (if upwards then [s] else []) ss)
      else normal_segments upwards (s # acc) ss)"

definition posix_normalize :: "string \<Rightarrow> string" where
  "posix_normalize p =
     (if p = [] then ''.''
      else let absolute = starts_with p ''/''; trailing = ends_with p ''/'';
               body = join ''/'' (normal_segments (\<not> absolute) [] (split_at CHR ''/'' p))
        in if body = [] then (if absolute then ''/'' else if trailing then ''./'' else ''.'')
           else (if absolute then ''/'' else []) @ body @ (if trailing then ''/'' else []))"

datatype access_mode = Access_read | Access_write

datatype filesystem_reason =
  Fs_invalid_path | Fs_path_traversal | Fs_outside_roots | Fs_read_only_root | Fs_size_exceeded | Fs_allowed

datatype fs_root = Root_source | Root_worktree | Root_artifact

fun fs_root_str :: "fs_root \<Rightarrow> string" where
  "fs_root_str Root_source = ''source''"
| "fs_root_str Root_worktree = ''worktree''"
| "fs_root_str Root_artifact = ''artifact''"

record filesystem_policy =
  fp_sourceRoot :: string
  fp_worktreeRoot :: string
  fp_artifactRoot :: string
  fp_maxWriteBytes :: "int option"

record filesystem_decision =
  fd_allowed :: bool
  fd_reason :: filesystem_reason
  fd_message :: string
  fd_normalizedPath :: "string option"
  fd_root :: "fs_root option"

definition containsTraversalSegment :: "string \<Rightarrow> bool" where
  "containsTraversalSegment v \<longleftrightarrow> ''..'' \<in> set (split_at CHR ''/'' v)"

definition isWithinRoot :: "string \<Rightarrow> string \<Rightarrow> bool" where
  "isWithinRoot rootName candidate \<longleftrightarrow>
     (if \<not> starts_with rootName ''/'' then False
      else let normalizedRoot = posix_normalize rootName;
               base = (if ends_with normalizedRoot ''/'' \<and> normalizedRoot \<noteq> ''/'' then butlast normalizedRoot else normalizedRoot)
        in candidate = base \<or> starts_with candidate (if base = ''/'' then ''/'' else base @ ''/''))"

definition fs_roots :: "filesystem_policy \<Rightarrow> (fs_root \<times> string) list" where
  "fs_roots policy =
     [(Root_source, fp_sourceRoot policy), (Root_worktree, fp_worktreeRoot policy), (Root_artifact, fp_artifactRoot policy)]"

definition fs_decision :: "filesystem_reason \<Rightarrow> string \<Rightarrow> string option \<Rightarrow> fs_root option \<Rightarrow> filesystem_decision" where
  "fs_decision why message normalized rootName =
     \<lparr> fd_allowed = (why = Fs_allowed), fd_reason = why, fd_message = message, fd_normalizedPath = normalized, fd_root = rootName \<rparr>"

definition evaluateFilesystemAccess :: "filesystem_policy \<Rightarrow> string \<Rightarrow> access_mode option \<Rightarrow> int option \<Rightarrow> filesystem_decision" where
  "evaluateFilesystemAccess policy requested givenMode sizeBytes =
     (let mode = or_else givenMode Access_read; path = posix_normalize requested in
      if requested = [] \<or> list_ex control_char requested \<or> \<not> starts_with requested ''/''
      then fs_decision Fs_invalid_path (''Requested path '' @ json_quote requested @ '' must be a non-empty absolute path.'') None None
      else if containsTraversalSegment requested
      then fs_decision Fs_path_traversal
        (''Requested path '' @ requested @ '' contains a '' @ [CHR 0x27] @ ''..'' @ [CHR 0x27] @ '' traversal segment.'') None None
      else if path = ''..'' \<or> starts_with path ''../''
      then fs_decision Fs_path_traversal (''Requested path '' @ requested @ '' escapes the filesystem roots.'') (Some path) None
      else case List.find (\<lambda>r. isWithinRoot (snd r) path) (fs_roots policy) of
        None \<Rightarrow> fs_decision Fs_outside_roots
          (''Requested path '' @ path @ '' is outside the source, worktree, and artifact roots.'') (Some path) None
      | Some (rootName, _) \<Rightarrow>
          if mode = Access_write \<and> rootName = Root_source
          then fs_decision Fs_read_only_root
            (''Requested path '' @ path @ '' is in the read-only '' @ fs_root_str rootName @ '' root.'') (Some path) (Some rootName)
          else (case (fp_maxWriteBytes policy, sizeBytes) of
              (Some maxBytes, Some bytes) \<Rightarrow>
                if mode = Access_write \<and> maxBytes < bytes
                then fs_decision Fs_size_exceeded
                  (''Write of '' @ int_str bytes @ '' bytes exceeds the '' @ int_str maxBytes @ ''-byte limit.'') (Some path) (Some rootName)
                else fs_decision Fs_allowed
                  (''Requested path '' @ path @ '' is permitted in the '' @ fs_root_str rootName @ '' root.'') (Some path) (Some rootName)
            | _ \<Rightarrow> fs_decision Fs_allowed
                (''Requested path '' @ path @ '' is permitted in the '' @ fs_root_str rootName @ '' root.'') (Some path) (Some rootName)))"

section \<open>Resource limits\<close>

datatype limit_field = Cpu_count | Memory_mb | Disk_mb | Process_limit | Timeout_ms | Wall_clock_ms | Egress_bytes

fun field_name :: "limit_field \<Rightarrow> string" where
  "field_name Cpu_count = ''cpuCount''"
| "field_name Memory_mb = ''memoryMb''"
| "field_name Disk_mb = ''diskMb''"
| "field_name Process_limit = ''processLimit''"
| "field_name Timeout_ms = ''timeoutMs''"
| "field_name Wall_clock_ms = ''wallClockMs''"
| "field_name Egress_bytes = ''egressBytes''"

text \<open>A structure with one entry per field is a function of the field.\<close>

type_synonym limit_request = "limit_field \<Rightarrow> js_number option"

type_synonym effective_limits = "limit_field \<Rightarrow> rat"

record limit_bounds =
  lb_min :: "limit_field \<Rightarrow> rat"
  lb_max :: "limit_field \<Rightarrow> rat"

datatype warning_kind = Clamped_low | Clamped_high | Defaulted_invalid

record limit_warning =
  lw_field :: limit_field
  lw_requested :: js_number
  lw_applied :: rat
  lw_kind :: warning_kind
  lw_message :: string

fun default_min :: "limit_field \<Rightarrow> rat" where
  "default_min Cpu_count = 1 / 4"
| "default_min Memory_mb = 128"
| "default_min Disk_mb = 64"
| "default_min Process_limit = 16"
| "default_min Timeout_ms = 1000"
| "default_min Wall_clock_ms = 1000"
| "default_min Egress_bytes = 0"

fun default_max :: "limit_field \<Rightarrow> rat" where
  "default_max Cpu_count = 16"
| "default_max Memory_mb = 65536"
| "default_max Disk_mb = 102400"
| "default_max Process_limit = 4096"
| "default_max Timeout_ms = 3600000"
| "default_max Wall_clock_ms = 7200000"
| "default_max Egress_bytes = 5368709120"

definition defaultResourceLimitBounds :: limit_bounds where
  "defaultResourceLimitBounds = \<lparr> lb_min = default_min, lb_max = default_max \<rparr>"

fun defaultEffectiveResourceLimits :: effective_limits where
  "defaultEffectiveResourceLimits Cpu_count = 2"
| "defaultEffectiveResourceLimits Memory_mb = 4096"
| "defaultEffectiveResourceLimits Disk_mb = 10240"
| "defaultEffectiveResourceLimits Process_limit = 256"
| "defaultEffectiveResourceLimits Timeout_ms = 900000"
| "defaultEffectiveResourceLimits Wall_clock_ms = 900000"
| "defaultEffectiveResourceLimits Egress_bytes = 268435456"

fun usable :: "bool \<Rightarrow> js_number \<Rightarrow> rat option" where
  "usable integral (Finite v) = (if v < 0 \<or> integral \<and> of_int \<lfloor>v\<rfloor> \<noteq> v then None else Some v)"
| "usable integral (Nonfinite t) = None"

definition clampField :: "(rat \<Rightarrow> string) \<Rightarrow> limit_field \<Rightarrow> js_number option \<Rightarrow> rat \<Rightarrow> rat \<Rightarrow> rat \<Rightarrow> bool
    \<Rightarrow> rat \<times> limit_warning list" where
  "clampField T field requested lo hi fallback integral =
     (case requested of
        None \<Rightarrow> (fallback, [])
      | Some n \<Rightarrow>
          (let warning = (\<lambda>applied kind note. \<lparr> lw_field = field, lw_requested = n, lw_applied = applied, lw_kind = kind,
                 lw_message = field_name field @ '' value '' @ number_str T n @ note \<rparr>) in
           case usable integral n of
             None \<Rightarrow> (fallback, [warning fallback Defaulted_invalid ('' is invalid; using default '' @ rat_text T fallback @ ''.'')])
           | Some v \<Rightarrow>
               if v < lo then (lo, [warning lo Clamped_low ('' is below the minimum '' @ rat_text T lo @ ''; clamped up.'')])
               else if hi < v then (hi, [warning hi Clamped_high ('' exceeds the maximum '' @ rat_text T hi @ ''; clamped down.'')])
               else (v, [])))"

definition limit_fields :: "limit_field list" where
  "limit_fields = [Cpu_count, Memory_mb, Disk_mb, Process_limit, Timeout_ms, Wall_clock_ms, Egress_bytes]"

definition normalizeResourceLimits :: "(rat \<Rightarrow> string) \<Rightarrow> limit_request \<Rightarrow> limit_bounds \<Rightarrow> effective_limits
    \<Rightarrow> effective_limits \<times> limit_warning list" where
  "normalizeResourceLimits T request bounds defaults =
     (let clamp = (\<lambda>f. clampField T f (request f) (lb_min bounds f) (lb_max bounds f) (defaults f) (f \<noteq> Cpu_count));
          limits = (\<lambda>f. fst (clamp f));
          warnings = concat (map (\<lambda>f. snd (clamp f)) limit_fields)
      in if limits Wall_clock_ms < limits Timeout_ms
         then (limits(Wall_clock_ms := limits Timeout_ms),
               warnings @ [\<lparr> lw_field = Wall_clock_ms, lw_requested = Finite (limits Wall_clock_ms),
                 lw_applied = limits Timeout_ms, lw_kind = Clamped_low,
                 lw_message = ''wallClockMs ('' @ rat_text T (limits Wall_clock_ms) @ '') cannot be less than timeoutMs (''
                   @ rat_text T (limits Timeout_ms) @ ''); raised to match.'' \<rparr>])
         else (limits, warnings))"

definition toSandboxResourceLimits :: "effective_limits \<Rightarrow> sandbox_limits" where
  "toSandboxResourceLimits l =
     \<lparr> sl_cpuCount = Finite (l Cpu_count), sl_memoryMb = Finite (l Memory_mb), sl_diskMb = Finite (l Disk_mb),
       sl_processLimit = Finite (l Process_limit), sl_timeoutMs = Finite (l Timeout_ms) \<rparr>"

end
