(* ===== verification/Sandbox_Providers.thy ===== *)
theory Sandbox_Providers
  imports Sandbox_Policy Security Worker_Queue "HOL-Library.AList" "HOL-Library.Word"
begin

text \<open>
  The providers of sandboxes, \<open>packages/sandbox/src/index.ts\<close>: \<open>DockerSandboxProvider\<close>, which runs
  docker commands, and \<open>FakeSandboxProvider\<close>, which records what it is asked. The host that
  runs a docker process and holds temporary files is a parameter with a world of its own; SHA-256 of
  bytes, as hexadecimal text, is a parameter. Clock and ids are functions of a counter.
\<close>

type_synonym bytes = "8 word list"

record sandbox_upload =
  su_path :: string
  su_bytes :: bytes
  su_mode :: mount_mode

record sandbox_artifact =
  sf_path :: string
  sf_contentHash :: string
  sf_sizeBytes :: nat
  sf_mediaType :: "string option"

definition hashSandboxBytes :: "(bytes \<Rightarrow> string) \<Rightarrow> bytes \<Rightarrow> string" where
  "hashSandboxBytes sha256 bs = ''sha256:'' @ sha256 bs"

definition createSandboxArtifact :: "(bytes \<Rightarrow> string) \<Rightarrow> string \<Rightarrow> bytes \<Rightarrow> string option \<Rightarrow> js_error + sandbox_artifact" where
  "createSandboxArtifact sha256 path bs mediaType =
     (case assertArtifactPath path of
        Some e \<Rightarrow> Inl e
      | None \<Rightarrow> Inr \<lparr> sf_path = path, sf_contentHash = hashSandboxBytes sha256 bs, sf_sizeBytes = length bs,
          sf_mediaType = mediaType \<rparr>)"

section \<open>Output of a process\<close>

record output_collector =
  oc_limit :: nat
  oc_chunks :: "bytes list"
  oc_bytes :: nat

definition createOutputCollector :: "nat \<Rightarrow> output_collector" where
  "createOutputCollector limitBytes = \<lparr> oc_limit = limitBytes, oc_chunks = [], oc_bytes = 0 \<rparr>"

definition push_chunk :: "output_collector \<Rightarrow> bytes \<Rightarrow> output_collector" where
  "push_chunk c chunk =
     (if oc_limit c \<le> oc_bytes c then c
      else let remaining = oc_limit c - oc_bytes c;
               piece = (if remaining < length chunk then take remaining chunk else chunk)
        in c\<lparr> oc_chunks := oc_chunks c @ [piece], oc_bytes := oc_bytes c + length piece \<rparr>)"

definition collected :: "output_collector \<Rightarrow> bytes" where
  "collected c = concat (oc_chunks c)"

section \<open>Docker\<close>

record docker_process =
  do_args :: "string list"
  do_timeoutMs :: js_number
  do_stdoutLimitBytes :: nat
  do_stderrLimitBytes :: nat

record 'w host =
  ho_run :: "docker_process \<Rightarrow> 'w \<Rightarrow> ('w, sandbox_result) outcome"
  ho_mkdtemp :: "string \<Rightarrow> 'w \<Rightarrow> ('w, string) outcome"
  ho_writeFile :: "string \<Rightarrow> bytes \<Rightarrow> 'w \<Rightarrow> ('w, unit) outcome"
  ho_readFile :: "string \<Rightarrow> 'w \<Rightarrow> ('w, bytes) outcome"
  ho_rm :: "string \<Rightarrow> 'w \<Rightarrow> ('w, unit) outcome"

record 'w docker_config =
  dk_id :: string
  dk_now :: "nat \<Rightarrow> iso_date"
  dk_idFactory :: "nat \<Rightarrow> string \<Rightarrow> string"
  dk_stdoutLimitBytes :: nat
  dk_stderrLimitBytes :: nat
  dk_egressNetworkName :: "string option"
  dk_host :: "'w host"
  dk_url :: url_parser
  dk_collate :: "string \<Rightarrow> string \<Rightarrow> bool"
  dk_fraction :: "rat \<Rightarrow> string"
  dk_sha256 :: "bytes \<Rightarrow> string"

record docker_lease =
  ds_lease :: sandbox_lease
  ds_containerName :: string
  ds_policy :: sandbox_policy
  ds_destroyed :: bool

record 'w docker_provider =
  dv_leases :: "(string \<times> docker_lease) list"
  dv_ticks :: nat
  dv_draws :: nat
  dv_world :: 'w

definition newDockerProvider :: "'w \<Rightarrow> 'w docker_provider" where
  "newDockerProvider w = \<lparr> dv_leases = [], dv_ticks = 0, dv_draws = 0, dv_world = w \<rparr>"

definition on_world :: "('w \<Rightarrow> ('w, 'a) outcome) \<Rightarrow> 'w docker_provider \<Rightarrow> ('w docker_provider, 'a) outcome" where
  "on_world f v = (let (r, w) = f (dv_world v) in (r, v\<lparr> dv_world := w \<rparr>))"

definition runDocker :: "'w docker_config \<Rightarrow> string list \<Rightarrow> js_number \<Rightarrow> 'w docker_provider
    \<Rightarrow> ('w docker_provider, sandbox_result) outcome" where
  "runDocker C args timeoutMs =
     on_world (ho_run (dk_host C) \<lparr> do_args = args, do_timeoutMs = timeoutMs,
       do_stdoutLimitBytes = dk_stdoutLimitBytes C, do_stderrLimitBytes = dk_stderrLimitBytes C \<rparr>)"

definition dockerFailureMessage :: "string \<Rightarrow> sandbox_result \<Rightarrow> string" where
  "dockerFailureMessage action result =
     (let err = js_trim (sr_stderr result); out = js_trim (sr_stdout result);
          output = redactSecrets (if err \<noteq> [] then err else if out \<noteq> [] then out else ''Docker returned no output.'');
          reason = (if sr_timedOut result then ''timed out after '' @ int_str (sr_durationMs result) @ ''ms''
                    else ''exited with code '' @ int_str (sr_exitCode result))
      in ''Failed to '' @ action @ '': docker '' @ reason @ ''. '' @ output)"

definition assertDockerSuccess :: "sandbox_result \<Rightarrow> string \<Rightarrow> js_error + unit" where
  "assertDockerSuccess result action =
     (if sr_exitCode result \<noteq> 0 \<or> sr_timedOut result then Inl (Error (dockerFailureMessage action result)) else Inr ())"

definition run_checked :: "'w docker_config \<Rightarrow> string list \<Rightarrow> js_number \<Rightarrow> string \<Rightarrow> 'w docker_provider
    \<Rightarrow> ('w docker_provider, unit) outcome" where
  "run_checked C args timeoutMs action =
     andThen (runDocker C args timeoutMs) (\<lambda>result. lift_sum (assertDockerSuccess result action))"

definition timeout_of :: "sandbox_policy \<Rightarrow> js_number" where
  "timeout_of policy = sl_timeoutMs (po_resourceLimits policy)"

fun whole_ms :: "js_number \<Rightarrow> int option" where
  "whole_ms (Finite v) = Some \<lfloor>v\<rfloor>"
| "whole_ms (Nonfinite t) = None"

text \<open>\<open>new Date(Date.parse(createdAt) + timeoutMs).toISOString()\<close>.\<close>

definition lease_end :: "iso_date \<Rightarrow> js_number \<Rightarrow> js_error + iso_date" where
  "lease_end createdAt timeoutMs =
     (case whole_ms timeoutMs of None \<Rightarrow> Inl (RangeError ''Invalid time value'') | Some ms \<Rightarrow> date_plus createdAt ms)"

definition next_time :: "'w docker_config \<Rightarrow> 'w docker_provider \<Rightarrow> ('w docker_provider, iso_date) outcome" where
  "next_time C v = (Inr (dk_now C (dv_ticks v)), v\<lparr> dv_ticks := dv_ticks v + 1 \<rparr>)"

definition next_id :: "'w docker_config \<Rightarrow> 'w docker_provider \<Rightarrow> ('w docker_provider, string) outcome" where
  "next_id C v = (Inr (dk_idFactory C (dv_draws v) ''sandbox''), v\<lparr> dv_draws := dv_draws v + 1 \<rparr>)"

definition put_docker_lease :: "string \<Rightarrow> docker_lease \<Rightarrow> 'w docker_provider \<Rightarrow> 'w docker_provider" where
  "put_docker_lease i l v = v\<lparr> dv_leases := AList.update i l (dv_leases v) \<rparr>"

definition docker_create :: "'w docker_config \<Rightarrow> sandbox_create \<Rightarrow> 'w docker_provider \<Rightarrow> ('w docker_provider, sandbox_lease) outcome" where
  "docker_create C input =
     andThen (lift_sum (buildDockerRunCommand (dk_url C) (dk_collate C) (dk_fraction C)
         \<lparr> dr_create = input, dr_containerName = None, dr_command = None, dr_workdir = None, dr_user = None,
           dr_egressNetworkName = dk_egressNetworkName C \<rparr>)) (\<lambda>dockerRun.
     andThen (run_checked C (dc_args dockerRun) (timeout_of (sc_policy input)) ''create Docker sandbox'') (\<lambda>_.
     andThen (next_time C) (\<lambda>createdAt.
     andThen (next_id C) (\<lambda>ident.
     andThen (lift_sum (lease_end createdAt (timeout_of (sc_policy input)))) (\<lambda>expiresAt v.
       let lease = \<lparr> se_id = ident, se_providerKind = Docker_local, se_runId = sc_runId input,
             se_createdAt = createdAt, se_expiresAt = expiresAt \<rparr>
       in (Inr lease, put_docker_lease ident \<lparr> ds_lease = lease, ds_containerName = dc_containerName dockerRun,
             ds_policy = sc_policy input, ds_destroyed = False \<rparr> v))))))"

definition requireActiveLease :: "sandbox_lease \<Rightarrow> 'w docker_provider \<Rightarrow> ('w docker_provider, docker_lease) outcome" where
  "requireActiveLease lease v =
     (case map_of (dv_leases v) (se_id lease) of
        None \<Rightarrow> (Inl (Error (''Sandbox lease '' @ se_id lease @ '' was not found.'')), v)
      | Some s \<Rightarrow>
          if ds_destroyed s then (Inl (Error (''Sandbox lease '' @ se_id lease @ '' has been destroyed.'')), v)
          else (Inr s, v))"

definition mark_destroyed :: "string \<Rightarrow> 'w docker_provider \<Rightarrow> 'w docker_provider" where
  "mark_destroyed i v =
     v\<lparr> dv_leases := map (\<lambda>(k, s). (k, if k = i then s\<lparr> ds_destroyed := True \<rparr> else s)) (dv_leases v) \<rparr>"

text \<open>An error of the kill is dropped; the lease counts as destroyed in any case.\<close>

definition killContainer :: "'w docker_config \<Rightarrow> sandbox_lease \<Rightarrow> docker_lease \<Rightarrow> 'w docker_provider \<Rightarrow> 'w docker_provider" where
  "killContainer C lease s v =
     mark_destroyed (se_id lease) (snd (runDocker C [''kill'', ds_containerName s] (timeout_of (ds_policy s)) v))"

definition exec_args :: "'w docker_config \<Rightarrow> docker_lease \<Rightarrow> sandbox_command \<Rightarrow> string list" where
  "exec_args C s cmd =
     [''exec''] @ (case sx_cwd cmd of None \<Rightarrow> [] | Some cwd \<Rightarrow> if cwd = [] then [] else [''--workdir'', cwd])
       @ env_args (dk_collate C) (or_else (sx_env cmd) []) @ [ds_containerName s] @ sx_command cmd"

definition docker_exec :: "'w docker_config \<Rightarrow> sandbox_lease \<Rightarrow> sandbox_command \<Rightarrow> 'w docker_provider
    \<Rightarrow> ('w docker_provider, sandbox_result) outcome" where
  "docker_exec C lease cmd =
     andThen (requireActiveLease lease) (\<lambda>s.
     andThen (lift_sum (case assertSandboxCommand cmd (ds_policy s) of Some e \<Rightarrow> Inl e | None \<Rightarrow> Inr ())) (\<lambda>_.
     andThen (runDocker C (exec_args C s cmd) (or_else (sx_timeoutMs cmd) (timeout_of (ds_policy s)))) (\<lambda>result v.
       (Inr result, if sr_timedOut result then killContainer C lease s v else v))))"

definition posix_dirname :: "string \<Rightarrow> string" where
  "posix_dirname p =
     (case p of
        [] \<Rightarrow> ''.''
      | c # body \<Rightarrow>
          (let rest = dropWhile (\<lambda>d. d \<noteq> CHR ''/'') (dropWhile (\<lambda>d. d = CHR ''/'') (rev body)) in
           if rest = [] then (if c = CHR ''/'' then ''/'' else ''.'')
           else if c = CHR ''/'' \<and> tl rest = [] then ''//''
           else c # rev (tl rest)))"

text \<open>\<open>try ... finally\<close>: the last part always runs, and its own error wins.\<close>

definition finally_do :: "('s \<Rightarrow> ('s, 'a) outcome) \<Rightarrow> ('s \<Rightarrow> ('s, unit) outcome) \<Rightarrow> 's \<Rightarrow> ('s, 'a) outcome" where
  "finally_do m cleanup s =
     (let (r, s1) = m s in case cleanup s1 of (Inl e, s2) \<Rightarrow> (Inl e, s2) | (Inr _, s2) \<Rightarrow> (r, s2))"

definition docker_upload :: "'w docker_config \<Rightarrow> sandbox_lease \<Rightarrow> sandbox_upload \<Rightarrow> 'w docker_provider
    \<Rightarrow> ('w docker_provider, unit) outcome" where
  "docker_upload C lease upload =
     andThen (requireActiveLease lease) (\<lambda>s.
     andThen (lift_sum (case assertArtifactPath (su_path upload) of Some e \<Rightarrow> Inl e | None \<Rightarrow> Inr ())) (\<lambda>_.
     andThen (on_world (ho_mkdtemp (dk_host C) ''bek-sandbox-upload-'')) (\<lambda>tempDir.
       let tempPath = tempDir @ ''/upload.bin'' in
       finally_do
         (andThen (on_world (ho_writeFile (dk_host C) tempPath (su_bytes upload))) (\<lambda>_.
          andThen (run_checked C [''exec'', ds_containerName s, ''mkdir'', ''-p'', posix_dirname (su_path upload)]
             (timeout_of (ds_policy s)) ''prepare sandbox upload directory'') (\<lambda>_.
          run_checked C [''cp'', tempPath, ds_containerName s @ '':'' @ su_path upload]
             (timeout_of (ds_policy s)) ''upload sandbox artifact'')))
         (on_world (ho_rm (dk_host C) tempDir)))))"

definition docker_download :: "'w docker_config \<Rightarrow> sandbox_lease \<Rightarrow> string \<Rightarrow> 'w docker_provider
    \<Rightarrow> ('w docker_provider, sandbox_artifact) outcome" where
  "docker_download C lease artifactPath =
     andThen (requireActiveLease lease) (\<lambda>s.
     andThen (lift_sum (case assertArtifactPath artifactPath of Some e \<Rightarrow> Inl e | None \<Rightarrow> Inr ())) (\<lambda>_.
     andThen (on_world (ho_mkdtemp (dk_host C) ''bek-sandbox-download-'')) (\<lambda>tempDir.
       let tempPath = tempDir @ ''/download.bin'' in
       finally_do
         (andThen (run_checked C [''cp'', ds_containerName s @ '':'' @ artifactPath, tempPath]
             (timeout_of (ds_policy s)) ''download sandbox artifact'') (\<lambda>_.
          andThen (on_world (ho_readFile (dk_host C) tempPath)) (\<lambda>bs.
          lift_sum (createSandboxArtifact (dk_sha256 C) artifactPath bs None))))
         (on_world (ho_rm (dk_host C) tempDir)))))"

definition docker_destroy :: "'w docker_config \<Rightarrow> sandbox_lease \<Rightarrow> 'w docker_provider \<Rightarrow> ('w docker_provider, unit) outcome" where
  "docker_destroy C lease v =
     (case map_of (dv_leases v) (se_id lease) of
        None \<Rightarrow> (Inr (), v)
      | Some s \<Rightarrow>
          if ds_destroyed s then (Inr (), v)
          else andThen (runDocker C [''rm'', ''--force'', ds_containerName s] (timeout_of (ds_policy s))) (\<lambda>result v.
            let v1 = mark_destroyed (se_id lease) v in
            if sr_exitCode result \<noteq> 0 \<and> \<not> str_includes (to_lower_case (sr_stderr result)) ''no such container''
            then (Inl (Error (dockerFailureMessage ''destroy Docker sandbox'' result)), v1)
            else (Inr (), v1)) v)"

section \<open>The fake provider\<close>

record fake_config =
  fk_now :: "nat \<Rightarrow> iso_date"
  fk_idFactory :: "nat \<Rightarrow> string \<Rightarrow> string"
  fk_url :: url_parser
  fk_sha256 :: "bytes \<Rightarrow> string"

record fake_lease =
  fl_lease :: sandbox_lease
  fl_policy :: sandbox_policy
  fl_destroyed :: bool
  fl_commands :: "sandbox_command list"
  fl_artifacts :: "(string \<times> sandbox_artifact) list"
  fl_uploads :: "(string \<times> bytes) list"

record fake_provider =
  fv_leases :: "(string \<times> fake_lease) list"
  fv_execResults :: "sandbox_result list"
  fv_ticks :: nat
  fv_draws :: nat

definition newFakeProvider :: "sandbox_result list \<Rightarrow> fake_provider" where
  "newFakeProvider execResults = \<lparr> fv_leases = [], fv_execResults = execResults, fv_ticks = 0, fv_draws = 0 \<rparr>"

definition fake_create :: "fake_config \<Rightarrow> sandbox_create \<Rightarrow> fake_provider \<Rightarrow> (fake_provider, sandbox_lease) outcome" where
  "fake_create C input v =
     (case assertSandboxPolicy (fk_url C) (sc_policy input) of
        Some e \<Rightarrow> (Inl e, v)
      | None \<Rightarrow>
          (let createdAt = fk_now C (fv_ticks v); ident = fk_idFactory C (fv_draws v) ''sandbox'';
               v1 = v\<lparr> fv_ticks := fv_ticks v + 1, fv_draws := fv_draws v + 1 \<rparr>
           in case lease_end createdAt (timeout_of (sc_policy input)) of
                Inl e \<Rightarrow> (Inl e, v1)
              | Inr expiresAt \<Rightarrow>
                  (let lease = \<lparr> se_id = ident, se_providerKind = Noop, se_runId = sc_runId input,
                         se_createdAt = createdAt, se_expiresAt = expiresAt \<rparr>
                   in (Inr lease, v1\<lparr> fv_leases := AList.update ident
                         \<lparr> fl_lease = lease, fl_policy = sc_policy input, fl_destroyed = False, fl_commands = [],
                           fl_artifacts = [], fl_uploads = [] \<rparr> (fv_leases v1) \<rparr>))))"

definition fake_active :: "sandbox_lease \<Rightarrow> fake_provider \<Rightarrow> js_error + fake_lease" where
  "fake_active lease v =
     (case map_of (fv_leases v) (se_id lease) of
        None \<Rightarrow> Inl (Error (''Sandbox lease '' @ se_id lease @ '' was not found.''))
      | Some s \<Rightarrow>
          if fl_destroyed s then Inl (Error (''Sandbox lease '' @ se_id lease @ '' has been destroyed.'')) else Inr s)"

definition put_fake :: "sandbox_lease \<Rightarrow> fake_lease \<Rightarrow> fake_provider \<Rightarrow> fake_provider" where
  "put_fake lease s v = v\<lparr> fv_leases := AList.update (se_id lease) s (fv_leases v) \<rparr>"

definition quiet_result :: sandbox_result where
  "quiet_result = \<lparr> sr_exitCode = 0, sr_stdout = [], sr_stderr = [], sr_durationMs = 0, sr_timedOut = False \<rparr>"

definition fake_exec :: "sandbox_lease \<Rightarrow> sandbox_command \<Rightarrow> fake_provider \<Rightarrow> (fake_provider, sandbox_result) outcome" where
  "fake_exec lease cmd v =
     (case fake_active lease v of
        Inl e \<Rightarrow> (Inl e, v)
      | Inr s \<Rightarrow>
          (case assertSandboxCommand cmd (fl_policy s) of
             Some e \<Rightarrow> (Inl e, v)
           | None \<Rightarrow>
               (let v1 = put_fake lease (s\<lparr> fl_commands := fl_commands s @ [cmd] \<rparr>) v in
                case fv_execResults v1 of
                  [] \<Rightarrow> (Inr quiet_result, v1)
                | r # rs \<Rightarrow> (Inr r, v1\<lparr> fv_execResults := rs \<rparr>))))"

definition fake_upload :: "fake_config \<Rightarrow> sandbox_lease \<Rightarrow> sandbox_upload \<Rightarrow> fake_provider \<Rightarrow> (fake_provider, unit) outcome" where
  "fake_upload C lease upload v =
     (case fake_active lease v of
        Inl e \<Rightarrow> (Inl e, v)
      | Inr s \<Rightarrow>
          (case createSandboxArtifact (fk_sha256 C) (su_path upload) (su_bytes upload) None of
             Inl e \<Rightarrow> (Inl e, v)
           | Inr artifact \<Rightarrow>
               (Inr (), put_fake lease (s\<lparr> fl_uploads := AList.update (su_path upload) (su_bytes upload) (fl_uploads s),
                  fl_artifacts := AList.update (su_path upload) artifact (fl_artifacts s) \<rparr>) v)))"

definition fake_download :: "sandbox_lease \<Rightarrow> string \<Rightarrow> fake_provider \<Rightarrow> (fake_provider, sandbox_artifact) outcome" where
  "fake_download lease path v =
     (case fake_active lease v of
        Inl e \<Rightarrow> (Inl e, v)
      | Inr s \<Rightarrow>
          (case assertArtifactPath path of
             Some e \<Rightarrow> (Inl e, v)
           | None \<Rightarrow> (case map_of (fl_artifacts s) path of
                 None \<Rightarrow> (Inl (Error (''Sandbox artifact '' @ path @ '' was not found.'')), v)
               | Some artifact \<Rightarrow> (Inr artifact, v))))"

definition fake_destroy :: "sandbox_lease \<Rightarrow> fake_provider \<Rightarrow> (fake_provider, unit) outcome" where
  "fake_destroy lease v =
     (case map_of (fv_leases v) (se_id lease) of
        None \<Rightarrow> (Inr (), v)
      | Some s \<Rightarrow> (Inr (), put_fake lease (s\<lparr> fl_destroyed := True \<rparr>) v))"

record fake_snapshot =
  fs_leases :: "sandbox_lease list"
  fs_commands :: "(string \<times> sandbox_command) list"
  fs_artifacts :: "(string \<times> sandbox_artifact) list"

definition read_fake :: "fake_provider \<Rightarrow> fake_snapshot" where
  "read_fake v =
     (let states = map snd (fv_leases v) in
      \<lparr> fs_leases = map fl_lease states,
        fs_commands = concat (map (\<lambda>s. map (\<lambda>c. (se_id (fl_lease s), c)) (fl_commands s)) states),
        fs_artifacts = concat (map (\<lambda>s. map (\<lambda>a. (se_id (fl_lease s), snd a)) (fl_artifacts s)) states) \<rparr>)"

end
