(* ===== verification/Sandbox_Hosts.thy ===== *)
theory Sandbox_Hosts
  imports Sandbox_Network "HOL-Library.Word"
begin

text \<open>
  What the network rules of a sandbox guarantee: which IPv4 addresses are private, what an accepted
  allowlist holds, when egress is allowed, and that the entries of an accepted allowlist can be reached.
\<close>

section \<open>Texts and their characters\<close>

lemma split_at_not_Nil [simp]: "split_at d s \<noteq> []"
  by (induction s) (auto split: list.splits)

lemma set_split_at: "set s \<subseteq> insert d (\<Union> (set ` set (split_at d s)))"
proof (induction s)
  case (Cons c s)
  then show ?case
    by (cases "split_at d s") auto
qed simp

lemma split_at_plain: "d \<notin> set s \<Longrightarrow> split_at d s = [s]"
  by (induction s) auto

lemma split_at_append: "d \<notin> set s \<Longrightarrow> split_at d (s @ d # t) = s # split_at d t"
  by (induction s) auto

lemma split_at_join:
  assumes "ws \<noteq> []" "\<forall>w \<in> set ws. d \<notin> set w"
  shows "split_at d (join [d] ws) = ws"
  using assms
proof (induction "[d]" ws rule: join.induct)
  case (3 a b ws)
  then show ?case by (simp add: split_at_append)
qed (simp_all add: split_at_plain)

lemma js_trim_plain: "\<forall>c \<in> set s. \<not> is_space c \<Longrightarrow> js_trim s = s"
proof -
  assume "\<forall>c \<in> set s. \<not> is_space c"
  then have "dropWhile is_space t = t" if "set t = set s" for t
    using that hd_in_set [of t] by (metis dropWhile_eq_self_iff)
  then show ?thesis by (simp add: js_trim_def)
qed

definition plain_char :: "char \<Rightarrow> bool" where
  "plain_char c \<longleftrightarrow> \<not> is_space c \<and> c \<noteq> CHR ''[''"

definition plain_host :: "string \<Rightarrow> bool" where
  "plain_host s = list_all plain_char s"

lemma normalize_plain:
  assumes "plain_host s" "to_lower_case s = s"
  shows "normalizeHost s = s"
proof -
  have trim: "js_trim s = s"
    using assms(1) by (intro js_trim_plain) (simp add: plain_host_def plain_char_def list_all_iff)
  have "hd s \<noteq> CHR ''[''" if "s \<noteq> []"
    using assms(1) hd_in_set [OF that] by (auto simp only: plain_host_def plain_char_def list_all_iff)
  then have "\<not> (2 \<le> length s \<and> hd s = CHR ''['' \<and> last s = CHR '']'' \<and> \<not> list_ex line_end s)"
    by (cases s) simp_all
  then show ?thesis
    unfolding normalizeHost_def Let_def trim assms(2) by (rule if_not_P)
qed

lemma plain_parts: "(\<forall>w \<in> set (split_at d s). plain_host w) \<Longrightarrow> plain_char d \<Longrightarrow> plain_host s"
  using set_split_at [of s d] by (fastforce simp: plain_host_def list_all_iff)

lemma digit_range: "is_digit c \<longleftrightarrow> 48 \<le> (of_char c :: nat) \<and> (of_char c :: nat) \<le> 57"
  by (simp add: is_digit_def in_range_def)

lemma plain_digit: "is_digit c \<Longrightarrow> plain_char c"
  by (auto simp: digit_range plain_char_def is_space_def Let_def)

lemma plain_hex: "is_hex c \<Longrightarrow> plain_char c"
  by (auto simp: is_hex_def digit_range in_range_def plain_char_def is_space_def Let_def)

lemma plain_alnum: "alnum_or ''-.:'' c \<Longrightarrow> plain_char c"
  by (auto simp: alnum_or_def in_range_def plain_char_def is_space_def Let_def)

lemma plain_signs [simp]: "plain_char CHR ''.''" "plain_char CHR '':''" "plain_char CHR ''%''" "plain_char CHR ''-''"
  by (simp_all add: plain_char_def is_space_def)

lemma plain_ipv4: "isIPv4 s \<Longrightarrow> plain_host s"
  by (rule plain_parts [of "CHR ''.''"])
    (auto simp: isIPv4_def octet_text_def digits_between_def plain_host_def list_all_iff plain_digit Let_def)

lemma plain_group: "hex_group w \<Longrightarrow> plain_host w"
  by (auto simp: hex_group_def plain_host_def list_all_iff plain_hex)

lemma plain_groups: "group_count b s = Some n \<Longrightarrow> plain_host s"
proof (rule plain_parts [of "CHR '':''"])
  assume g: "group_count b s = Some n"
  let ?ws = "split_at CHR '':'' s"
  have "set ?ws = set (butlast ?ws) \<union> {last ?ws}"
    by (metis append_butlast_last_id split_at_not_Nil list.set(1) list.simps(15) set_append)
  then show "\<forall>w \<in> set ?ws. plain_host w"
    using g plain_group plain_ipv4
    by (cases "s = []") (auto simp: group_count_def list_all_iff plain_host_def Let_def split: if_splits)
qed simp

lemma double_colon_Some: "double_colon s = Some (l, r) \<Longrightarrow> s = l @ ''::'' @ r"
  by (induction s arbitrary: l rule: double_colon.induct) (auto split: if_splits)

lemma plain_append [simp]: "plain_host (s @ t) \<longleftrightarrow> plain_host s \<and> plain_host t"
  by (simp add: plain_host_def)

lemma plain_Cons [simp]: "plain_host (c # t) \<longleftrightarrow> plain_char c \<and> plain_host t" "plain_host []"
  by (simp_all add: plain_host_def)

lemma plain_ipv6:
  assumes "isIPv6 s"
  shows "plain_host s"
proof -
  define address where "address = takeWhile (\<lambda>c. c \<noteq> CHR ''%'') s"
  define zone where "zone = drop (length address) s"
  have s: "s = address @ zone"
    by (simp add: address_def zone_def flip: dropWhile_eq_drop)
  have z: "zone = [] \<or> list_all (alnum_or ''-.:'') (tl zone)" and
    groups: "case double_colon address of None \<Rightarrow> group_count True address = Some 8
       | Some (l, r) \<Rightarrow> (case (group_count False l, group_count True r) of
           (Some a, Some b) \<Rightarrow> a + b \<le> 7 | _ \<Rightarrow> False)"
    using assms unfolding isIPv6_def Let_def address_def [symmetric] zone_def [symmetric] by blast+
  have "plain_host address"
  proof (cases "double_colon address")
    case None
    with groups show ?thesis by (simp add: plain_groups)
  next
    case (Some p)
    obtain l r where p: "p = (l, r)" by (cases p)
    with Some groups have "plain_host l" "plain_host r"
      by (auto split: option.splits intro: plain_groups)
    then show ?thesis
      using double_colon_Some [of address l r] Some p by simp
  qed
  moreover have "plain_host zone"
  proof (cases zone)
    case (Cons c t)
    have "c = CHR ''%''"
      using Cons hd_dropWhile [of "\<lambda>c. c \<noteq> CHR ''%''" s] by (simp add: zone_def address_def dropWhile_eq_drop)
    moreover have "plain_host t"
      using z Cons plain_alnum by (simp add: plain_host_def list_all_iff)
    ultimately show ?thesis
      using Cons by simp
  qed simp
  ultimately show ?thesis
    by (subst s) simp
qed

lemma plain_label_char: "label_char c \<Longrightarrow> plain_char c"
  by (auto simp: label_char_def plain_digit) (simp add: in_range_def plain_char_def is_space_def, auto)

lemma plain_label: "valid_label l \<Longrightarrow> plain_host l"
  by (simp add: valid_label_def plain_host_def list_all_iff plain_label_char)

lemma plain_valid_host:
  assumes "assertValidNetworkHost host raw = Inr ()"
  shows "plain_host host"
proof (cases "isIP host = 0")
  case True
  with assms have "\<forall>w \<in> set (split_at CHR ''.'' host). valid_label w"
    by (simp add: assertValidNetworkHost_def list_all_iff split: if_splits)
  then show ?thesis by (intro plain_parts [of "CHR ''.''"]) (simp_all add: plain_label)
next
  case False
  then show ?thesis using plain_ipv4 [of host] plain_ipv6 [of host] by (auto simp: isIP_def split: if_splits)
qed

section \<open>Private addresses\<close>

lemma of_char_digit: "k < 10 \<Longrightarrow> of_char (digit k) = 48 + k"
  by (simp add: digit_def)

lemma octet_nat_str:
  assumes "n \<le> 255"
  shows "octet_text (nat_str n)"
proof -
  have "list_all is_digit (nat_str n)"
    using nat_str_digits [of _ n] by (simp add: list_all_iff digit_range)
  moreover have "length (nat_str n) \<le> 3 \<and> (length (nat_str n) = 1 \<or> of_char (hd (nat_str n)) \<noteq> (48 :: nat))"
  proof (cases "n < 10")
    case True
    then show ?thesis by (simp add: nat_str.simps [of n])
  next
    case big: False
    then have n: "nat_str n = nat_str (n div 10) @ [digit (n mod 10)]"
      by (simp add: nat_str.simps [of n])
    show ?thesis
    proof (cases "n < 100")
      case True
      then have "n div 10 < 10" "0 < n div 10" using big by simp_all
      then show ?thesis by (simp add: n nat_str.simps [of "n div 10"] of_char_digit)
    next
      case False
      then have "\<not> n div 10 < 10" "n div 10 div 10 < 10"
        using assms by simp_all
      then have "nat_str (n div 10) = [digit (n div 10 div 10), digit (n div 10 mod 10)]"
        by (simp add: nat_str.simps [of "n div 10"] nat_str.simps [of "n div 10 div 10"])
      moreover have "n div 10 div 10 < 10" "n div 10 div 10 \<noteq> 0"
        using assms False by simp_all
      ultimately show ?thesis by (simp add: n of_char_digit)
    qed
  qed
  ultimately show ?thesis
    using assms by (auto simp: octet_text_def digits_between_def Suc_le_eq)
qed

definition host_digit :: "char \<Rightarrow> bool" where
  "host_digit c \<longleftrightarrow> is_digit c \<or> c = CHR ''.''"

lemma octet_digits:
  assumes "octet_text w"
  shows "list_all is_digit w" "w \<noteq> []" "CHR ''.'' \<notin> set w" "list_all host_digit w"
  using assms by (auto simp: octet_text_def digits_between_def host_digit_def list_all_iff digit_range)

lemma dotted_parts: "list_all (\<lambda>n. n \<le> 255) ns \<Longrightarrow> ns \<noteq> [] \<Longrightarrow> split_at CHR ''.'' (dotted ns) = map nat_str ns"
  unfolding dotted_def by (rule split_at_join) (auto simp: list_all_iff dest: octet_digits(3) [OF octet_nat_str])

lemma host_digit_lower: "host_digit c \<Longrightarrow> js_lower_char c = c \<and> plain_char c"
  by (auto simp: host_digit_def digit_range js_lower_char_def plain_char_def is_space_def Let_def)

lemma join_octets: "list_all octet_text ws \<Longrightarrow> list_all host_digit (join ''.'' ws)"
  by (induction "''.''" ws rule: join.induct) (auto simp: octet_digits(4) host_digit_def)

lemma dotted_host:
  assumes "list_all (\<lambda>n. n \<le> 255) ns"
  shows "plain_host (dotted ns)" "to_lower_case (dotted ns) = dotted ns"
proof -
  have "list_all host_digit (dotted ns)"
    unfolding dotted_def using assms by (intro join_octets) (simp add: list_all_iff octet_nat_str)
  then show "plain_host (dotted ns)" "to_lower_case (dotted ns) = dotted ns"
    by (auto simp: plain_host_def to_lower_case_def list_all_iff host_digit_lower map_idI)
qed

lemma last_join: "ws \<noteq> [] \<Longrightarrow> last ws \<noteq> [] \<Longrightarrow> last (join d ws) = last (last ws) \<and> join d ws \<noteq> []"
  by (induction d ws rule: join.induct) (auto split: if_splits)

lemma digit_end:
  assumes "list_all (\<lambda>n. n \<le> 255) ns" "ns \<noteq> []"
  shows "dotted ns \<noteq> [] \<and> is_digit (last (dotted ns))"
proof -
  have "octet_text (nat_str (last ns))"
    using assms by (intro octet_nat_str) (simp add: list_all_iff)
  then show ?thesis
    using last_join [of "map nat_str ns" "''.''"] assms(2) octet_digits(1,2) [of "nat_str (last ns)"]
    by (simp add: dotted_def last_map list_all_iff)
qed

lemma not_ends_with: "is_digit (last s) \<Longrightarrow> p \<noteq> [] \<Longrightarrow> \<not> is_digit (last p) \<Longrightarrow> \<not> ends_with s p"
  by (auto simp: ends_with_iff)

text \<open>An IPv4 address as 32 bits, and the blocks of addresses that are not public.\<close>

definition ipv4_word :: "nat \<Rightarrow> nat \<Rightarrow> nat \<Rightarrow> nat \<Rightarrow> 32 word" where
  "ipv4_word a b c d = of_nat (((a * 256 + b) * 256 + c) * 256 + d)"

definition in_block :: "32 word \<Rightarrow> 32 word \<times> nat \<Rightarrow> bool" where
  "in_block address block = (drop_bit (32 - snd block) address = drop_bit (32 - snd block) (fst block))"

definition private_blocks :: "(32 word \<times> nat) list" where
  "private_blocks =
     [(ipv4_word 0 0 0 0, 8), (ipv4_word 10 0 0 0, 8), (ipv4_word 127 0 0 0, 8), (ipv4_word 100 64 0 0, 10),
      (ipv4_word 169 254 0 0, 16), (ipv4_word 172 16 0 0, 12), (ipv4_word 192 168 0 0, 16),
      (ipv4_word 198 18 0 0, 15), (ipv4_word 224 0 0 0, 3)]"

lemma unat_ipv4:
  assumes "a \<le> 255" "b \<le> 255" "c \<le> 255" "d \<le> 255"
  shows "unat (ipv4_word a b c d) = ((a * 256 + b) * 256 + c) * 256 + d"
proof -
  have "((a * 256 + b) * 256 + c) * 256 + d < 2 ^ LENGTH(32)"
    using assms by simp
  then show ?thesis
    unfolding ipv4_word_def unat_of_nat by (rule mod_less)
qed

lemma in_block_iff: "in_block x (y, k) \<longleftrightarrow> unat x div 2 ^ (32 - k) = unat y div 2 ^ (32 - k)"
  unfolding in_block_def word_unat_eq_iff unat_drop_bit_eq by (simp add: drop_bit_eq_div)

lemma high_bits:
  fixes v x :: nat
  assumes "v div 65536 = x"
  shows "v div 16777216 = x div 256" "v div 4194304 = x div 64" "v div 1048576 = x div 16"
    "v div 131072 = x div 2" "v div 536870912 = x div 8192"
  unfolding assms [symmetric] div_mult2_eq [symmetric] by simp_all

lemma upper_octets:
  fixes a b c d :: nat
  assumes "c \<le> 255" "d \<le> 255"
  shows "(((a * 256 + b) * 256 + c) * 256 + d) div 65536 = a * 256 + b"
proof -
  have "((a * 256 + b) * 256 + c) * 256 + d = (c * 256 + d) + (a * 256 + b) * 65536"
    by simp
  moreover have "(c * 256 + d) div 65536 = 0"
    using assms by (intro div_less) simp
  ultimately show ?thesis
    by simp
qed

lemma quot_iff: "0 < m \<Longrightarrow> n div m = q \<longleftrightarrow> q * m \<le> n \<and> n < Suc q * m" for n :: nat
  by (auto intro: div_nat_eqI simp: mult.commute dividend_less_times_div)

lemma digits_eq:
  fixes a u q x y :: nat
  assumes "u < q" "y < q"
  shows "a * q + u = x * q + y \<longleftrightarrow> a = x \<and> u = y"
proof
  assume e: "a * q + u = x * q + y"
  then have "(a * q + u) div q = (x * q + y) div q" "(a * q + u) mod q = (x * q + y) mod q"
    by simp_all
  with assms show "a = x \<and> u = y" by simp
qed simp

lemma block_octets:
  fixes a b :: nat
  assumes "b \<le> 255"
  shows "a * 4 + b div 64 = 401 \<longleftrightarrow> a = 100 \<and> 64 \<le> b \<and> b \<le> 127"
    "a * 256 + b = 43518 \<longleftrightarrow> a = 169 \<and> b = 254"
    "a * 16 + b div 16 = 2753 \<longleftrightarrow> a = 172 \<and> 16 \<le> b \<and> b \<le> 31"
    "a * 256 + b = 49320 \<longleftrightarrow> a = 192 \<and> b = 168"
    "a * 128 + b div 2 = 25353 \<longleftrightarrow> a = 198 \<and> (b = 18 \<or> b = 19)"
proof -
  have q: "b div 64 = 1 \<longleftrightarrow> 64 \<le> b \<and> b \<le> 127" "b div 16 = 1 \<longleftrightarrow> 16 \<le> b \<and> b \<le> 31"
    "b div 2 = 9 \<longleftrightarrow> b = 18 \<or> b = 19"
    using quot_iff [of 64 b 1] quot_iff [of 16 b 1] quot_iff [of 2 b 9] by auto
  have "b div 64 < 4" "b div 16 < 16" "b div 2 < 128" "b < 256"
    using assms by simp_all
  then show "a * 4 + b div 64 = 401 \<longleftrightarrow> a = 100 \<and> 64 \<le> b \<and> b \<le> 127"
    "a * 256 + b = 43518 \<longleftrightarrow> a = 169 \<and> b = 254"
    "a * 16 + b div 16 = 2753 \<longleftrightarrow> a = 172 \<and> 16 \<le> b \<and> b \<le> 31"
    "a * 256 + b = 49320 \<longleftrightarrow> a = 192 \<and> b = 168"
    "a * 128 + b div 2 = 25353 \<longleftrightarrow> a = 198 \<and> (b = 18 \<or> b = 19)"
    using digits_eq [of "b div 64" 4 1 a 100] digits_eq [of b 256 254 a 169] digits_eq [of "b div 16" 16 1 a 172]
      digits_eq [of b 256 168 a 192] digits_eq [of "b div 2" 128 9 a 198] q
    by simp_all
qed

lemma blocks_iff:
  assumes "a \<le> 255" "b \<le> 255" "c \<le> 255" "d \<le> 255"
  shows "list_ex (in_block (ipv4_word a b c d)) private_blocks \<longleftrightarrow> private_octets a b"
proof -
  define v where "v = ((a * 256 + b) * 256 + c) * 256 + d"
  define x where "x = a * 256 + b"
  have v: "v div 65536 = x"
    unfolding v_def x_def by (rule upper_octets [OF assms(3,4)])
  have x: "x div 256 = a" "x div 64 = a * 4 + b div 64" "x div 16 = a * 16 + b div 16"
    "x div 2 = a * 128 + b div 2" "x div 8192 = a div 32"
  proof -
    have "x = b + a * 4 * 64" "x = b + a * 16 * 16" "x = b + a * 128 * 2" and x: "x = b + a * 256" and b: "b div 256 = 0"
      using assms(2) by (simp_all add: x_def)
    then show "x div 64 = a * 4 + b div 64" "x div 16 = a * 16 + b div 16" "x div 2 = a * 128 + b div 2"
      by (simp_all only: div_mult_self1 numeral_eq_iff zero_neq_numeral add.commute)
    show q: "x div 256 = a"
      using b by (simp add: x)
    show "x div 8192 = a div 32"
      using q div_mult2_eq [of x 256 32] by simp
  qed
  have "unat (ipv4_word a b c d) = v"
    by (simp only: unat_ipv4 [OF assms] v_def)
  then have "list_ex (in_block (ipv4_word a b c d)) private_blocks \<longleftrightarrow>
      a = 0 \<or> a = 10 \<or> a = 127 \<or> a * 4 + b div 64 = 401 \<or> x = 43518 \<or> a * 16 + b div 16 = 2753
      \<or> x = 49320 \<or> a * 128 + b div 2 = 25353 \<or> a div 32 = 7"
    by (simp add: private_blocks_def in_block_iff unat_ipv4 v high_bits [OF v] x)
  moreover have "a div 32 = 7 \<longleftrightarrow> 224 \<le> a"
    using quot_iff [of 32 a 7] assms(1) by auto
  ultimately show ?thesis
    unfolding private_octets_def by (simp only: block_octets [OF assms(2)] x_def)
qed

text \<open>
  C24. An IPv4 address in dotted form, and the same address mapped into IPv6, is a private network
  target exactly when its 32 bits lie in one of the blocks that are not public: this network, private
  use, loopback, shared, link local, benchmarking, and multicast with all above.
\<close>

theorem private_iff_in_blocks:
  assumes "a \<le> 255" "b \<le> 255" "c \<le> 255" "d \<le> 255"
  shows "isPrivateNetworkTarget (dotted [a, b, c, d]) = list_ex (in_block (ipv4_word a b c d)) private_blocks"
proof -
  let ?h = "dotted [a, b, c, d]"
  have all: "list_all (\<lambda>n. n \<le> 255) [a, b, c, d]"
    using assms by simp
  have parts: "split_at CHR ''.'' ?h = map nat_str [a, b, c, d]"
    by (rule dotted_parts [OF all]) simp
  have n: "normalizeHost ?h = ?h"
    using dotted_host [OF all] by (rule normalize_plain)
  have digit: "is_digit (last ?h)" and "?h \<noteq> []"
    using digit_end [OF all] by simp_all
  have letters: "\<not> is_digit CHR ''l''" "\<not> is_digit CHR ''t''"
    by (simp_all add: digit_range)
  have "\<not> ends_with ?h ''.localhost''" "\<not> ends_with ?h ''.local''" "\<not> ends_with ?h ''.internal''"
    by (intro not_ends_with digit; simp add: letters)+
  moreover have "?h \<noteq> ''localhost''"
    using digit letters by auto
  moreover have "isIP ?h = 4"
    using assms by (simp add: isIP_def isIPv4_def parts octet_nat_str)
  moreover have "isPrivateIpv4 ?h = private_octets a b"
    by (simp add: isPrivateIpv4_def parts)
  ultimately show ?thesis
    unfolding isPrivateNetworkTarget_def Let_def n blocks_iff [OF assms] by simp
qed

lemma private_iff_in_blocks_witness:
  "isPrivateNetworkTarget (dotted [172, 31, 0, 9])
     = list_ex (in_block (ipv4_word 172 31 0 9)) private_blocks"
  by (rule private_iff_in_blocks) simp_all

section \<open>Allowlists\<close>

lemma lower_normalizeHost: "to_lower_case (normalizeHost v) = normalizeHost v"
proof -
  have "to_lower_case (butlast (tl (to_lower_case s))) = butlast (tl (to_lower_case s))" for s
    by (simp add: to_lower_case_def map_butlast [symmetric] map_tl [symmetric] comp_def)
  then show ?thesis
    by (simp add: normalizeHost_def Let_def)
qed

lemma entry_parsed:
  assumes "parseNetworkAllowlistEntry U raw = Inr e"
  shows "to_lower_case (al_host e) = al_host e \<and> assertValidNetworkHost (al_host e) raw = Inr ()"
  using assms
  by (auto simp: parseNetworkAllowlistEntry_def lower_normalizeHost Let_def split: if_splits sum.splits)

lemma entry_host:
  assumes "parseNetworkAllowlistEntry U raw = Inr e"
  shows "plain_host (al_host e)" "normalizeHost (al_host e) = al_host e"
  using entry_parsed [OF assms] plain_valid_host normalize_plain by blast+

lemma parsed_entries: "parse_entries U raws = Inr es \<Longrightarrow> list_all2 (\<lambda>raw e. parseNetworkAllowlistEntry U raw = Inr e) raws es"
  by (induction raws arbitrary: es) (auto split: sum.splits)

lemma refused_None:
  "refused_entry p es = None \<longleftrightarrow>
     list_all (\<lambda>e. \<not> (np_blockMetadataService p \<and> isMetadataNetworkTarget (al_host e))
       \<and> \<not> (np_blockPrivateNetworks p \<and> isPrivateNetworkTarget (al_host e))) es"
  by (induction es) auto

lemma put_entry_values:
  "set (map al_value (put_entry es e)) = insert (al_value e) (set (map al_value es))"
  "distinct (map al_value es) \<Longrightarrow> distinct (map al_value (put_entry es e))"
  "set (put_entry es e) \<subseteq> insert e (set es)"
proof -
  have same: "map al_value (map (\<lambda>x. if al_value x = al_value e then e else x) es) = map al_value es"
    by simp
  show "set (map al_value (put_entry es e)) = insert (al_value e) (set (map al_value es))"
    using same by (auto simp: put_entry_def list_ex_iff simp del: map_map)
  show "distinct (map al_value es) \<Longrightarrow> distinct (map al_value (put_entry es e))"
    using same by (auto simp: put_entry_def list_ex_iff simp del: map_map)
  show "set (put_entry es e) \<subseteq> insert e (set es)"
    by (auto simp: put_entry_def)
qed

lemma put_all:
  "distinct (map al_value acc) \<Longrightarrow>
     distinct (map al_value (foldl put_entry acc es)) \<and> set (foldl put_entry acc es) \<subseteq> set acc \<union> set es
     \<and> set (map al_value (foldl put_entry acc es)) = set (map al_value acc) \<union> set (map al_value es)"
proof (induction es arbitrary: acc)
  case (Cons e es)
  note IH = Cons.IH [OF put_entry_values(2) [OF Cons.prems, of e]]
  have "set (foldl put_entry (put_entry acc e) es) \<subseteq> set (put_entry acc e) \<union> set es"
    using IH by blast
  also have "\<dots> \<subseteq> set acc \<union> set (e # es)"
    using put_entry_values(3) [of acc e] by auto
  finally have "set (foldl put_entry acc (e # es)) \<subseteq> set acc \<union> set (e # es)"
    by simp
  then show ?case
    using IH put_entry_values(1) [of acc e] by auto
qed simp

definition public_entry :: "network_policy \<Rightarrow> allowlist_entry \<Rightarrow> bool" where
  "public_entry p e \<longleftrightarrow>
     plain_host (al_host e) \<and> normalizeHost (al_host e) = al_host e
     \<and> \<not> (np_blockMetadataService p \<and> isMetadataNetworkTarget (al_host e))
     \<and> \<not> (np_blockPrivateNetworks p \<and> isPrivateNetworkTarget (al_host e))"

lemma validated:
  assumes "validateNetworkAllowlist U p = Inr es" "np_mode p \<noteq> Net_disabled"
  obtains entries where "list_all2 (\<lambda>raw e. parseNetworkAllowlistEntry U raw = Inr e) (np_allowlist p) entries"
    "list_all (public_entry p) entries" "es = foldl put_entry [] entries"
proof -
  obtain entries where e: "parse_entries U (np_allowlist p) = Inr entries" "refused_entry p entries = None"
    "es = foldl put_entry [] entries"
    using assms by (auto simp: validateNetworkAllowlist_def split: if_splits sum.splits option.splits)
  note all = parsed_entries [OF e(1)]
  have "list_all (public_entry p) entries"
    using all e(2) entry_host unfolding refused_None list_all_iff list_all2_conv_all_nth
    by (metis public_entry_def in_set_conv_nth)
  with all e(3) that show thesis by blast
qed

lemma accepted_nonempty:
  assumes "validateNetworkAllowlist U p = Inr es"
  shows "np_mode p = Net_disabled \<longleftrightarrow> es = []"
proof (cases "np_mode p = Net_disabled")
  case True
  with assms show ?thesis by (simp add: validateNetworkAllowlist_def split: if_splits)
next
  case False
  from validated [OF assms this] obtain entries where e:
    "list_all2 (\<lambda>raw e. parseNetworkAllowlistEntry U raw = Inr e) (np_allowlist p) entries"
    "es = foldl put_entry [] entries" .
  have "entries \<noteq> []"
    using e(1) assms False by (auto simp: validateNetworkAllowlist_def split: if_splits)
  then show ?thesis
    using put_all [of "[]" entries, folded e(2)] False by auto
qed

text \<open>
  An accepted allowlist: the disabled network has none; otherwise every entry is the reading of
  an entry of the policy, its host is in normal form, serves no metadata and is not private where the
  policy blocks these, and no value occurs twice.
\<close>

theorem accepted_allowlist_is_public:
  assumes "validateNetworkAllowlist U p = Inr es"
  shows "distinct (map al_value es) \<and> (if np_mode p = Net_disabled then es = [] else es \<noteq> [])
    \<and> list_all (\<lambda>e. public_entry p e
        \<and> list_ex (\<lambda>raw. parseNetworkAllowlistEntry U raw = Inr e) (np_allowlist p)) es"
proof (cases "np_mode p = Net_disabled")
  case True
  with assms show ?thesis by (simp add: validateNetworkAllowlist_def split: if_splits)
next
  case False
  from validated [OF assms this] obtain entries where e:
    "list_all2 (\<lambda>raw e. parseNetworkAllowlistEntry U raw = Inr e) (np_allowlist p) entries"
    "list_all (public_entry p) entries" "es = foldl put_entry [] entries" .
  note put = put_all [of "[]" entries, folded e(3)]
  have "list_ex (\<lambda>raw. parseNetworkAllowlistEntry U raw = Inr e) (np_allowlist p)" if "e \<in> set es" for e
    using e(1) put that by (fastforce simp: list_ex_iff list_all2_conv_all_nth in_set_conv_nth subset_iff)
  then show ?thesis
    using put e(2) False accepted_nonempty [OF assms] by (auto simp: list_all_iff)
qed

definition sample_url :: url_parser where
  "sample_url text = (if text = ''https://api.github.com'' then
     Some \<lparr> ur_protocol = ''https:'', ur_username = [], ur_password = [], ur_hostname = ''api.github.com'', ur_port = [],
       ur_pathname = ''/'', ur_search = [], ur_hash = [] \<rparr> else None)"

definition sample_policy :: network_policy where
  "sample_policy = \<lparr> np_mode = Net_egress_allowlist, np_allowlist = [''api.github.com''],
     np_blockPrivateNetworks = True, np_blockMetadataService = True \<rparr>"

definition sample_entry :: allowlist_entry where
  "sample_entry = \<lparr> al_raw = ''api.github.com'', al_value = ''api.github.com'', al_host = ''api.github.com'', al_port = None \<rparr>"

lemma sample_accepted:
  "validateNetworkAllowlist sample_url sample_policy = Inr [sample_entry]"
  "parseNetworkAllowlistEntry sample_url ''api.github.com'' = Inr sample_entry"
  "parseEgressTarget sample_url ''api.github.com'' = Some (al_host sample_entry, None)"
  by code_simp+

lemma accepted_allowlist_is_public_witness:
  "validateNetworkAllowlist sample_url sample_policy = Inr [sample_entry] \<and> public_entry sample_policy sample_entry"
  using sample_accepted(1) accepted_allowlist_is_public [OF sample_accepted(1)] by simp

section \<open>Egress\<close>

lemma starts_127: "starts_with e ''127.'' \<Longrightarrow> isPrivateIpv4 e"
proof -
  assume "starts_with e ''127.''"
  then obtain t where "e = ''127'' @ CHR ''.'' # t"
    by (auto simp: starts_with_iff)
  then have "split_at CHR ''.'' e = ''127'' # split_at CHR ''.'' t"
    by (simp only: split_at_append) simp
  moreover have "read_digits ''127'' = 127"
    by code_simp
  moreover obtain b bs where "split_at CHR ''.'' t = b # bs"
    by (metis split_at_not_Nil neq_Nil_conv)
  ultimately show ?thesis by (simp add: isPrivateIpv4_def private_octets_def)
qed

lemma loopback_is_private:
  assumes "normalizeHost h = h" "isLoopbackTarget h"
  shows "isPrivateNetworkTarget h"
proof (cases "h = ''localhost'' \<or> ends_with h ''.localhost''")
  case True
  then show ?thesis unfolding isPrivateNetworkTarget_def Let_def assms(1) by auto
next
  case False
  then show ?thesis
    using assms starts_127
    unfolding isPrivateNetworkTarget_def isLoopbackTarget_def Let_def assms(1)
    by (auto simp: isPrivateIpv6_def split: if_splits option.splits)
qed


text \<open>
  Validation and evaluation agree: an entry of an accepted allowlist, read by both to the same
  host, is itself an allowed target, under the very guards that the validation applied.
\<close>

theorem accepted_entry_is_reachable:
  assumes "validateNetworkAllowlist U p = Inr es" "np_mode p = Net_egress_allowlist" "raw \<in> set (np_allowlist p)"
    and "parseNetworkAllowlistEntry U raw = Inr e" "parseEgressTarget U raw = Some (al_host e, port)"
  shows "eg_allowed (evaluateEgressPolicy U p raw overrides)"
proof -
  have "np_mode p \<noteq> Net_disabled" using assms(2) by simp
  from validated [OF assms(1) this] obtain entries where entries:
    "list_all2 (\<lambda>raw e. parseNetworkAllowlistEntry U raw = Inr e) (np_allowlist p) entries"
    "list_all (public_entry p) entries" .
  have "e \<in> set entries"
    using entries(1) assms(3,4) unfolding list_all2_conv_all_nth by (metis in_set_conv_nth sum.inject(2))
  then have public: "public_entry p e"
    using entries(2) by (simp add: list_all_iff)
  then have "\<not> (np_blockPrivateNetworks p \<and> (isLoopbackTarget (al_host e) \<or> isPrivateNetworkTarget (al_host e)))"
    using loopback_is_private [of "al_host e"] by (auto simp: public_entry_def)
  moreover have "list_ex (\<lambda>r. entry_matches (al_host e) port (parseEgressTarget U r)) (np_allowlist p)"
    using assms(3,5) by (auto simp: list_ex_iff entry_matches_def intro!: bexI [of _ raw])
  moreover have "matchesEgressAllowlist U (np_allowlist p) (al_host e) port"
    using calculation(2) by (simp add: matchesEgressAllowlist_def)
  ultimately show ?thesis
    using public assms(2,5) by (simp add: evaluateEgressPolicy_def egress_def public_entry_def Let_def)
qed

lemma accepted_entry_is_reachable_witness:
  "validateNetworkAllowlist sample_url sample_policy = Inr [sample_entry]
   \<and> eg_allowed (evaluateEgressPolicy sample_url sample_policy ''api.github.com'' None)"
  using sample_accepted(1)
    accepted_entry_is_reachable [OF sample_accepted(1) _ _ sample_accepted(2,3), of None]
  by (simp add: sample_policy_def)

text \<open>
  Addresses that the guards miss: link local addresses of IPv6 other than \<open>fe80:\<close>, and the loopback
  address of IPv6 written without its abbreviation.
\<close>

lemma other_link_local_is_public:
  "isIP ''fe90::1'' = 6 \<and> \<not> isPrivateNetworkTarget ''fe90::1''"
  by code_simp

lemma long_loopback_passes:
  "eg_allowed (evaluateEgressPolicy (\<lambda>_. None)
     (sample_policy\<lparr> np_allowlist := [''0:0:0:0:0:0:0:1''] \<rparr>) ''0:0:0:0:0:0:0:1'' None)"
  by code_simp

end
