(* ===== verification/Sandbox_Rules.thy ===== *)
theory Sandbox_Rules
  imports Sandbox_Policy Sandbox_Hosts
begin

text \<open>
  What the policies of a sandbox guarantee: a write stays inside the writable roots, the \<open>docker run\<close>
  command carries the isolation and the mounts of its policy and nothing else, and resource limits
  have a normal form within their bounds.
\<close>

section \<open>Paths as lists of segments\<close>

lemma split_at_join_append:
  assumes "ws \<noteq> []" "\<forall>w \<in> set ws. d \<notin> set w"
  shows "split_at d (join [d] ws @ d # t) = ws @ split_at d t"
  using assms
proof (induction "[d]" ws rule: join.induct)
  case (3 a b ws)
  then show ?case by (simp add: split_at_append)
qed (simp_all add: split_at_append)

lemma join_append: "ws \<noteq> [] \<Longrightarrow> zs \<noteq> [] \<Longrightarrow> join d (ws @ zs) = join d ws @ d @ join d zs"
proof (induction d ws rule: join.induct)
  case (2 d s)
  then show ?case by (cases zs) simp_all
qed simp_all

definition segment_list :: "string list \<Rightarrow> bool" where
  "segment_list ws \<longleftrightarrow> (\<forall>w \<in> set ws. w \<noteq> [] \<and> CHR ''/'' \<notin> set w)"

lemma split_trail:
  assumes "segment_list vs" "vs \<noteq> []"
  shows "split_at CHR ''/'' (join ''/'' vs @ (if trail then ''/'' else [])) = vs @ (if trail then [[]] else [])"
  using assms split_at_join [of vs "CHR ''/''"] split_at_join_append [of vs "CHR ''/''" "[]"]
  by (simp add: segment_list_def)

lemma prefix_drop_last: "prefix ws (vs @ [x]) \<Longrightarrow> x \<notin> set ws \<Longrightarrow> prefix ws vs"
  by (auto simp: prefix_snoc)

lemma under_iff_prefix:
  fixes trail :: bool
  assumes vs: "segment_list vs" "vs \<noteq> []" and ws: "segment_list ws" "ws \<noteq> []"
  defines "candidate \<equiv> join ''/'' vs @ (if trail then ''/'' else [])"
  shows "candidate = join ''/'' ws \<or> starts_with candidate (join ''/'' ws @ ''/'') \<longleftrightarrow> prefix ws vs"
proof
  have split_ws: "split_at CHR ''/'' (join ''/'' ws) = ws"
    "split_at CHR ''/'' (join ''/'' ws @ CHR ''/'' # t) = ws @ split_at CHR ''/'' t" for t
    using ws split_at_join [of ws "CHR ''/''"] split_at_join_append [of ws "CHR ''/''"]
    by (simp_all add: segment_list_def)
  have split_vs: "split_at CHR ''/'' candidate = vs @ (if trail then [[]] else [])"
    unfolding candidate_def by (rule split_trail [OF vs])
  have no_empty: "[] \<notin> set ws"
    using ws(1) by (auto simp: segment_list_def)
  assume "candidate = join ''/'' ws \<or> starts_with candidate (join ''/'' ws @ ''/'')"
  then consider "candidate = join ''/'' ws" | t where "candidate = join ''/'' ws @ CHR ''/'' # t"
    by (auto simp only: starts_with_iff append_assoc append.simps)
  then have "prefix ws (vs @ (if trail then [[]] else []))"
  proof cases
    case 1
    then show ?thesis using split_ws(1) split_vs by simp
  next
    case (2 t)
    then have "vs @ (if trail then [[]] else []) = ws @ split_at CHR ''/'' t"
      using split_ws(2) split_vs by metis
    then show ?thesis by (metis prefixI)
  qed
  then show "prefix ws vs"
    using prefix_drop_last [OF _ no_empty] by (simp split: if_splits)
next
  assume "prefix ws vs"
  then obtain zs where "vs = ws @ zs" by (auto simp: prefix_def)
  then show "candidate = join ''/'' ws \<or> starts_with candidate (join ''/'' ws @ ''/'')"
    using join_append [OF ws(2), of zs "''/''"] by (cases zs) (auto simp: candidate_def starts_with_iff)
qed

text \<open>The place an absolute path names.\<close>

definition location :: "string \<Rightarrow> string list" where
  "location p = normal_segments False [] (split_at CHR ''/'' p)"

lemma normal_segments_set:
  "set (normal_segments upwards acc ss) \<subseteq> set acc \<union> {s \<in> set ss. s \<noteq> []}"
  by (induction upwards acc ss rule: normal_segments.induct) (auto split: list.splits if_splits)

lemma split_pieces: "w \<in> set (split_at d s) \<Longrightarrow> d \<notin> set w"
  by (induction s arbitrary: w) (auto split: list.splits if_splits)

lemma location_segments: "segment_list (location p)"
  using normal_segments_set [of False "[]" "split_at CHR ''/'' p"] split_pieces
  by (fastforce simp: location_def segment_list_def)

lemma location_without_dots:
  assumes "''..'' \<notin> set (split_at CHR ''/'' p)"
  shows "location p = filter (\<lambda>s. s \<noteq> [] \<and> s \<noteq> ''.'') (split_at CHR ''/'' p)"
proof -
  have "''..'' \<notin> set ss \<Longrightarrow> normal_segments u acc ss = rev acc @ filter (\<lambda>s. s \<noteq> [] \<and> s \<noteq> ''.'') ss" for u acc ss
    by (induction u acc ss rule: normal_segments.induct) auto
  with assms show ?thesis by (simp add: location_def)
qed

lemma join_Nil_iff: "segment_list ws \<Longrightarrow> join ''/'' ws = [] \<longleftrightarrow> ws = []"
  by (cases "(''/'', ws)" rule: join.cases) (auto simp: segment_list_def)

lemma normalize_absolute:
  assumes "starts_with p ''/''"
  shows "posix_normalize p =
    (if location p = [] then ''/'' else ''/'' @ join ''/'' (location p) @ (if ends_with p ''/'' then ''/'' else []))"
proof -
  have "p \<noteq> []" using assms by (auto simp: starts_with_iff)
  then show ?thesis
    using assms join_Nil_iff [OF location_segments [of p]]
    by (simp add: posix_normalize_def location_def Let_def)
qed

lemma last_join_segment:
  assumes "segment_list ws" "ws \<noteq> []"
  shows "last (join ''/'' ws) \<noteq> CHR ''/''" "join ''/'' ws \<noteq> []"
proof -
  have "last ws \<in> set ws" using assms(2) by simp
  then have "last ws \<noteq> []" "CHR ''/'' \<notin> set (last ws)"
    using assms(1) unfolding segment_list_def by blast+
  with last_join [OF assms(2) this(1), of "''/''"]
  show "last (join ''/'' ws) \<noteq> CHR ''/''" "join ''/'' ws \<noteq> []"
    by (metis last_in_set)+
qed

lemma ends_slash: "s \<noteq> [] \<Longrightarrow> ends_with s ''/'' \<longleftrightarrow> last s = CHR ''/''"
  by (cases s rule: rev_cases) (auto simp: ends_with_iff)

lemma within_iff:
  assumes "starts_with p ''/''"
  shows "isWithinRoot r (posix_normalize p) \<longleftrightarrow> starts_with r ''/'' \<and> prefix (location r) (location p)"
proof (cases "starts_with r ''/''")
  case False
  then show ?thesis by (simp add: isWithinRoot_def)
next
  case True
  define base where "base = (if location r = [] then ''/'' else ''/'' @ join ''/'' (location r))"
  have "(if ends_with (posix_normalize r) ''/'' \<and> posix_normalize r \<noteq> ''/'' then butlast (posix_normalize r)
      else posix_normalize r) = base"
  proof (cases "location r = []")
    case True
    then show ?thesis by (simp add: base_def normalize_absolute [OF \<open>starts_with r ''/''\<close>])
  next
    case nonempty: False
    note l = last_join_segment [OF location_segments nonempty]
    show ?thesis
      using nonempty l by (simp add: base_def normalize_absolute [OF True] ends_slash butlast_append)
  qed
  then have w: "isWithinRoot r (posix_normalize p) \<longleftrightarrow>
      posix_normalize p = base \<or> starts_with (posix_normalize p) (if base = ''/'' then ''/'' else base @ ''/'')"
    using True unfolding isWithinRoot_def Let_def by simp
  show ?thesis
  proof (cases "location r = [] \<or> location p = []")
    case True
    then show ?thesis
      using w last_join_segment(2) [OF location_segments, of r] \<open>starts_with r ''/''\<close>
      by (auto simp: base_def normalize_absolute [OF assms] starts_with_iff)
  next
    case False
    have base: "base = CHR ''/'' # join ''/'' (location r)" "base \<noteq> ''/''"
      using False last_join_segment(2) [OF location_segments, of r] by (simp_all add: base_def)
    have n: "posix_normalize p = CHR ''/'' # join ''/'' (location p) @ (if ends_with p ''/'' then ''/'' else [])"
      using False by (simp add: normalize_absolute [OF assms])
    show ?thesis
      using w under_iff_prefix [OF location_segments _ location_segments, of p r "ends_with p ''/''"] False
        \<open>starts_with r ''/''\<close> base
      unfolding n by (simp add: starts_with_iff)
  qed
qed

text \<open>
  C26. A write that the filesystem rules allow stays where it may: its path has no segment \<open>..\<close>, and
  its segments extend those of the worktree or the artifact root and do not extend those of the
  source root. Empty segments, \<open>.\<close> and trailing slashes make no difference.
\<close>

theorem writes_stay_in_writable_roots:
  assumes "fd_allowed (evaluateFilesystemAccess policy requested (Some Access_write) bytes)"
  shows "''..'' \<notin> set (split_at CHR ''/'' requested)
    \<and> (prefix (location (fp_worktreeRoot policy)) (location requested)
        \<or> prefix (location (fp_artifactRoot policy)) (location requested))
    \<and> \<not> (starts_with (fp_sourceRoot policy) ''/'' \<and> prefix (location (fp_sourceRoot policy)) (location requested))
    \<and> location requested = filter (\<lambda>s. s \<noteq> [] \<and> s \<noteq> ''.'') (split_at CHR ''/'' requested)"
proof -
  have abs: "starts_with requested ''/''" and dots: "''..'' \<notin> set (split_at CHR ''/'' requested)"
    and "\<exists>path. List.find (\<lambda>r. isWithinRoot (snd r) (posix_normalize requested)) (fs_roots policy) \<noteq> None
      \<and> fst (the (List.find (\<lambda>r. isWithinRoot (snd r) (posix_normalize requested)) (fs_roots policy))) \<noteq> Root_source"
    using assms unfolding evaluateFilesystemAccess_def Let_def containsTraversalSegment_def
    by (auto simp: fs_decision_def or_else_def split: if_splits option.splits)
  then show ?thesis
    using within_iff [OF abs] location_without_dots [OF dots]
    by (auto simp: fs_roots_def split: if_splits)
qed

definition sample_roots :: filesystem_policy where
  "sample_roots = \<lparr> fp_sourceRoot = ''/workspace/source'', fp_worktreeRoot = ''/workspace/worktree'',
     fp_artifactRoot = ''/workspace/artifacts'', fp_maxWriteBytes = Some 100 \<rparr>"

lemma sample_write: "fd_allowed (evaluateFilesystemAccess sample_roots ''/workspace//worktree/./a'' (Some Access_write) (Some 9))"
  by code_simp

lemma writes_stay_in_writable_roots_witness:
  "fd_allowed (evaluateFilesystemAccess sample_roots ''/workspace//worktree/./a'' (Some Access_write) (Some 9))
   \<and> location ''/workspace//worktree/./a'' = [''workspace'', ''worktree'', ''a'']"
  using sample_write writes_stay_in_writable_roots [OF sample_write] by simp

section \<open>The docker command\<close>

lemma first_error_None [simp]: "first_error as = None \<longleftrightarrow> list_all (\<lambda>a. a = None) as"
  by (induction as) (auto split: option.splits)

declare first_error.simps(2) [simp del]

lemma demand_None [simp]: "demand b m = None \<longleftrightarrow> b"
  by (simp add: demand_def)

definition mount_options :: "sandbox_mount \<Rightarrow> string list" where
  "mount_options m =
     [''type=bind'', ''src='' @ sm_source m, ''dst='' @ sm_target m] @ (if sm_mode m = Read_only then [''readonly''] else [])"

text \<open>A mount that Docker reads back as it was meant, outside its socket and the host's credentials.\<close>

definition contained_mount :: "sandbox_mount \<Rightarrow> bool" where
  "contained_mount m \<longleftrightarrow>
     split_at CHR '','' (dockerMountValue m) = mount_options m \<and> starts_with (sm_source m) ''/''
     \<and> \<not> isDockerSocketPath (sm_source m) \<and> \<not> isDockerSocketPath (sm_target m)
     \<and> \<not> containsSensitiveHostPath (sm_source m) \<and> (sm_purpose m = Mount_source \<longrightarrow> sm_mode m = Read_only)"

lemma mount_reads_back:
  assumes "CHR '','' \<notin> set (sm_source m)" "CHR '','' \<notin> set (sm_target m)"
  shows "split_at CHR '','' (dockerMountValue m) = mount_options m"
proof -
  have "split_at CHR '','' (join '','' (mount_options m)) = mount_options m"
    using assms by (intro split_at_join) (auto simp: mount_options_def)
  then show ?thesis
    by (simp only: dockerMountValue_def mount_options_def)
qed

lemma mount_contained: "assertSandboxMount m = None \<Longrightarrow> contained_mount m"
  by (simp add: assertSandboxMount_def contained_mount_def assertNoDockerMountDelimiter_def assertAbsoluteHostPath_def
      mount_reads_back)

lemma variable_name_no_equals: "variable_name k \<Longrightarrow> CHR ''='' \<notin> set k"
  by (auto simp: variable_name_def list_all_iff alnum_or_def in_range_def)

lemma assignment_reads_back: "variable_name k \<Longrightarrow> split_at CHR ''='' (k @ ''='' @ v) = k # split_at CHR ''='' v"
  using split_at_append [OF variable_name_no_equals, of k v] by simp

section \<open>The docker command, read back\<close>

text \<open>
  How \<open>docker run\<close> reads its arguments, for the options that the code may use: flags, options with a
  value in the next argument, whatever that is, and from the first argument that is no option the
  image and its command. Any other option is not read.
\<close>

definition docker_flags :: "string list" where
  "docker_flags = [''--detach'', ''--rm'', ''--read-only'', ''--init'']"

definition docker_valued :: "string list" where
  "docker_valued = [''--name'', ''--label'', ''--network'', ''--cpus'', ''--memory'', ''--pids-limit'', ''--tmpfs'',
     ''--security-opt'', ''--cap-drop'', ''--user'', ''--workdir'', ''--mount'', ''--env'']"

type_synonym docker_settings = "(string \<times> string option) list"

fun read_docker :: "string list \<Rightarrow> (docker_settings \<times> string \<times> string list) option" where
  "read_docker [] = None"
| "read_docker (a # as) =
     (if a \<in> set docker_flags then map_option (\<lambda>(os, r). ((a, None) # os, r)) (read_docker as)
      else if a \<in> set docker_valued
      then (case as of
              [] \<Rightarrow> None
            | v # rest \<Rightarrow> map_option (\<lambda>(os, r). ((a, Some v) # os, r)) (read_docker rest))
      else if starts_with a ''-'' then None else Some ([], a, as))"

definition values_of :: "string \<Rightarrow> docker_settings \<Rightarrow> string list" where
  "values_of name os = concat (map (\<lambda>(k, v). if k = name then (case v of None \<Rightarrow> [] | Some x \<Rightarrow> [x]) else []) os)"

text \<open>A variable as Docker reads it: its name ends at the first equals sign.\<close>

definition read_assignment :: "string \<Rightarrow> string \<times> string" where
  "read_assignment s = (takeWhile (\<lambda>c. c \<noteq> CHR ''='') s, drop 1 (dropWhile (\<lambda>c. c \<noteq> CHR ''='') s))"

definition told_variables :: "(string \<Rightarrow> string \<Rightarrow> bool) \<Rightarrow> sandbox_policy \<Rightarrow> string list \<Rightarrow> (string \<times> string) list" where
  "told_variables collate policy allowlist =
     sort_by (\<lambda>a b. collate (fst a) (fst b)) (po_env policy)
     @ (if allowlist = [] then [] else [(''BEK_SANDBOX_EGRESS_ALLOWLIST'', join '','' allowlist)])"

text \<open>What the options of a container must be under a policy.\<close>

definition isolating :: "(string \<Rightarrow> string \<Rightarrow> bool) \<Rightarrow> docker_run_input \<Rightarrow> string list \<Rightarrow> docker_settings \<Rightarrow> bool" where
  "isolating collate input allowlist os \<longleftrightarrow>
     (let policy = sc_policy (dr_create input) in
      values_of ''--cap-drop'' os = [''ALL''] \<and> values_of ''--security-opt'' os = [''no-new-privileges'']
      \<and> (''--read-only'', None) \<in> set os \<and> (''--rm'', None) \<in> set os
      \<and> values_of ''--user'' os = [or_else (dr_user input) ''1000:1000'']
      \<and> values_of ''--network'' os = [if np_mode (po_network policy) = Net_disabled then ''none''
                                     else or_else (dr_egressNetworkName input) ''bek-egress-allowlist'']
      \<and> map (split_at CHR '','') (values_of ''--mount'' os) = map mount_options (po_mounts policy)
      \<and> list_all contained_mount (po_mounts policy)
      \<and> map read_assignment (values_of ''--env'' os) = told_variables collate policy allowlist)"

lemma read_flag: "a \<in> set docker_flags \<Longrightarrow> read_docker (a # as) = map_option (\<lambda>(os, r). ((a, None) # os, r)) (read_docker as)"
  by simp

lemma read_value:
  "a \<in> set docker_valued \<Longrightarrow> read_docker (a # v # as) = map_option (\<lambda>(os, r). ((a, Some v) # os, r)) (read_docker as)"
  by (auto simp: docker_flags_def docker_valued_def)

lemma read_values:
  assumes "name \<in> set docker_valued"
  shows "read_docker (concat (map (\<lambda>x. [name, f x]) xs) @ rest)
    = map_option (\<lambda>(os, r). (map (\<lambda>x. (name, Some (f x))) xs @ os, r)) (read_docker rest)"
proof (induction xs)
  case (Cons x xs)
  have step: "concat (map (\<lambda>x. [name, f x]) (x # xs)) @ rest = name # f x # (concat (map (\<lambda>x. [name, f x]) xs) @ rest)"
    by simp
  show ?case
    unfolding step read_value [OF assms] Cons.IH by (simp add: option.map_comp comp_def case_prod_unfold)
qed (simp add: case_prod_unfold option.map_ident)

lemma read_image: "\<not> starts_with a ''-'' \<Longrightarrow> read_docker (a # as) = Some ([], a, as)"
proof -
  assume a: "\<not> starts_with a ''-''"
  have "list_all (\<lambda>b. starts_with b ''-'') (docker_flags @ docker_valued)"
    by code_simp
  with a show ?thesis by (auto simp: list_all_iff)
qed

lemma values_of_simps [simp]:
  "values_of n [] = []" "values_of n (os @ ps) = values_of n os @ values_of n ps"
  "values_of n ((k, None) # os) = values_of n os"
  "values_of n ((k, Some v) # os) = (if k = n then v # values_of n os else values_of n os)"
  "values_of n (map (\<lambda>x. (k, Some (f x))) xs) = (if k = n then map f xs else [])"
  by (simp_all add: values_of_def) (induction xs; simp)+

text \<open>The options that the code writes, in its order.\<close>

definition written_settings :: "(string \<Rightarrow> string \<Rightarrow> bool) \<Rightarrow> (rat \<Rightarrow> string) \<Rightarrow> docker_run_input \<Rightarrow> string list \<Rightarrow> docker_settings" where
  "written_settings collate T input allowlist =
     (let policy = sc_policy (dr_create input); l = po_resourceLimits policy in
      [(''--detach'', None), (''--rm'', None), (''--name'', Some (or_else (dr_containerName input)
          (dockerContainerName (sc_runId (dr_create input)) (sc_attempt (dr_create input))))),
       (''--label'', Some (''dev.bek.org='' @ sc_orgId (dr_create input))),
       (''--label'', Some (''dev.bek.run='' @ sc_runId (dr_create input))),
       (''--label'', Some (''dev.bek.trace='' @ sc_traceId (dr_create input))),
       (''--network'', Some (dockerNetworkName (po_network policy) (dr_egressNetworkName input))),
       (''--cpus'', Some (number_str T (sl_cpuCount l))), (''--memory'', Some (number_str T (sl_memoryMb l) @ ''m'')),
       (''--pids-limit'', Some (number_str T (sl_processLimit l))), (''--read-only'', None),
       (''--tmpfs'', Some (''/tmp:rw,nosuid,nodev,noexec,size='' @ number_str T (sl_diskMb l) @ ''m'')),
       (''--security-opt'', Some ''no-new-privileges''), (''--cap-drop'', Some ''ALL''), (''--init'', None),
       (''--user'', Some (or_else (dr_user input) ''1000:1000'')),
       (''--workdir'', Some (or_else (dr_workdir input) ''/workspace/worktree''))]
      @ map (\<lambda>m. (''--mount'', Some (dockerMountValue m))) (po_mounts policy)
      @ map (\<lambda>e. (''--env'', Some (fst e @ ''='' @ snd e))) (sort_by (\<lambda>a b. collate (fst a) (fst b)) (po_env policy))
      @ map (\<lambda>t. (''--env'', Some (''BEK_SANDBOX_EGRESS_ALLOWLIST='' @ t)))
          (if allowlist = [] then [] else [join '','' allowlist]))"

lemma options_read_back:
  assumes "read_docker rest = Some (extra, r)"
  shows "hd (docker_options collate T input allowlist @ rest) = ''run''"
    "read_docker (tl (docker_options collate T input allowlist @ rest)) = Some (written_settings collate T input allowlist @ extra, r)"
proof -
  let ?policy = "sc_policy (dr_create input)"
  let ?told = "if allowlist = [] then [] else [join '','' allowlist]"
  note flags = docker_flags_def docker_valued_def
  have told: "(if allowlist = [] then []
      else [''--env'', ''BEK_SANDBOX_EGRESS_ALLOWLIST='' @ join '','' allowlist])
    = concat (map (\<lambda>t. [''--env'', ''BEK_SANDBOX_EGRESS_ALLOWLIST='' @ t]) ?told)"
    by simp
  have env: "env_args collate (po_env ?policy)
    = concat (map (\<lambda>e. [''--env'', fst e @ ''='' @ snd e]) (sort_by (\<lambda>a b. collate (fst a) (fst b)) (po_env ?policy)))"
    by (simp add: env_args_def case_prod_unfold)
  have valued: "''--mount'' \<in> set docker_valued" "''--env'' \<in> set docker_valued"
    by (simp_all add: docker_valued_def)
  have lists: "read_docker (mount_args (po_mounts ?policy) @ env_args collate (po_env ?policy)
      @ concat (map (\<lambda>t. [''--env'', ''BEK_SANDBOX_EGRESS_ALLOWLIST='' @ t]) ?told) @ rest)
    = Some (map (\<lambda>m. (''--mount'', Some (dockerMountValue m))) (po_mounts ?policy)
      @ map (\<lambda>e. (''--env'', Some (fst e @ ''='' @ snd e))) (sort_by (\<lambda>a b. collate (fst a) (fst b)) (po_env ?policy))
      @ map (\<lambda>t. (''--env'', Some (''BEK_SANDBOX_EGRESS_ALLOWLIST='' @ t))) ?told @ extra, r)"
    unfolding mount_args_def env read_values [OF valued(1)] read_values [OF valued(2)] assms by simp
  have fixed: "read_docker (''--detach'' # ''--rm'' # ''--name'' # n # ''--label'' # l1 # ''--label'' # l2 # ''--label'' # l3
      # ''--network'' # net # ''--cpus'' # c # ''--memory'' # mem # ''--pids-limit'' # pids # ''--read-only'' # ''--tmpfs'' # t
      # ''--security-opt'' # so # ''--cap-drop'' # cap # ''--init'' # ''--user'' # u # ''--workdir'' # d # more)
    = map_option (\<lambda>(os, r). ([(''--detach'', None), (''--rm'', None), (''--name'', Some n), (''--label'', Some l1),
        (''--label'', Some l2), (''--label'', Some l3), (''--network'', Some net), (''--cpus'', Some c), (''--memory'', Some mem),
        (''--pids-limit'', Some pids), (''--read-only'', None), (''--tmpfs'', Some t), (''--security-opt'', Some so),
        (''--cap-drop'', Some cap), (''--init'', None), (''--user'', Some u), (''--workdir'', Some d)] @ os, r)) (read_docker more)"
    for n l1 l2 l3 net c mem pids t so cap u d more
    by (simp add: read_flag read_value docker_flags_def docker_valued_def option.map_comp comp_def case_prod_unfold
        del: read_docker.simps)
  have listed: "docker_options collate T input allowlist @ rest =
    ''run'' # ''--detach'' # ''--rm'' # ''--name'' # or_else (dr_containerName input)
          (dockerContainerName (sc_runId (dr_create input)) (sc_attempt (dr_create input)))
      # ''--label'' # (''dev.bek.org='' @ sc_orgId (dr_create input)) # ''--label'' # (''dev.bek.run='' @ sc_runId (dr_create input))
      # ''--label'' # (''dev.bek.trace='' @ sc_traceId (dr_create input))
      # ''--network'' # dockerNetworkName (po_network ?policy) (dr_egressNetworkName input)
      # ''--cpus'' # number_str T (sl_cpuCount (po_resourceLimits ?policy))
      # ''--memory'' # (number_str T (sl_memoryMb (po_resourceLimits ?policy)) @ ''m'')
      # ''--pids-limit'' # number_str T (sl_processLimit (po_resourceLimits ?policy)) # ''--read-only''
      # ''--tmpfs'' # (''/tmp:rw,nosuid,nodev,noexec,size='' @ number_str T (sl_diskMb (po_resourceLimits ?policy)) @ ''m'')
      # ''--security-opt'' # ''no-new-privileges'' # ''--cap-drop'' # ''ALL'' # ''--init''
      # ''--user'' # or_else (dr_user input) ''1000:1000'' # ''--workdir'' # or_else (dr_workdir input) ''/workspace/worktree''
      # (mount_args (po_mounts ?policy) @ env_args collate (po_env ?policy)
         @ concat (map (\<lambda>t. [''--env'', ''BEK_SANDBOX_EGRESS_ALLOWLIST='' @ t]) ?told) @ rest)"
    by (simp add: docker_options_def Let_def label_args_def limit_args_def told del: if_image_distrib)
  show "hd (docker_options collate T input allowlist @ rest) = ''run''"
    unfolding listed by simp
  show "read_docker (tl (docker_options collate T input allowlist @ rest)) = Some (written_settings collate T input allowlist @ extra, r)"
    unfolding listed list.sel fixed lists by (simp add: written_settings_def Let_def)
qed

lemma assignment_read:
  assumes "CHR ''='' \<notin> set k"
  shows "read_assignment (k @ ''='' @ v) = (k, v)"
  using assms by (simp add: read_assignment_def takeWhile_append dropWhile_append takeWhile_eq_all_conv dropWhile_eq_Nil_conv)

lemma settings_isolate:
  assumes mounts: "list_all (\<lambda>m. assertSandboxMount m = None) (po_mounts (sc_policy (dr_create input)))"
    and env: "list_all (\<lambda>e. assertDockerEnv e = None) (po_env (sc_policy (dr_create input)))"
  shows "isolating collate input allowlist (written_settings collate T input allowlist)"
proof -
  let ?policy = "sc_policy (dr_create input)"
  have m: "list_all contained_mount (po_mounts ?policy)"
    using mounts mount_contained by (auto simp: list_all_iff)
  then have split: "map (split_at CHR '','' \<circ> dockerMountValue) (po_mounts ?policy) = map mount_options (po_mounts ?policy)"
    by (simp add: list_all_iff contained_mount_def)
  have named: "variable_name (fst e)" if "e \<in> set (po_env ?policy)" for e
    using env that by (auto simp: assertDockerEnv_def list_all_iff)
  have members: "set (sort_by (\<lambda>a b. collate (fst a) (fst b)) (po_env ?policy)) = set (po_env ?policy)"
    by simp
  have vars: "map (\<lambda>e. read_assignment (fst e @ ''='' @ snd e)) (sort_by (\<lambda>a b. collate (fst a) (fst b)) (po_env ?policy))
      = sort_by (\<lambda>a b. collate (fst a) (fst b)) (po_env ?policy)"
    using named members by (intro map_idI) (simp add: assignment_read variable_name_no_equals del: append_Cons)
  have "CHR ''='' \<notin> set ''BEK_SANDBOX_EGRESS_ALLOWLIST''" by simp
  from assignment_read [OF this] have told: "read_assignment (''BEK_SANDBOX_EGRESS_ALLOWLIST='' @ t) = (''BEK_SANDBOX_EGRESS_ALLOWLIST'', t)" for t
    by simp
  show ?thesis
    using m split vars
    by (simp add: isolating_def written_settings_def Let_def dockerNetworkName_def defaultDockerEgressNetworkName_def
        told_variables_def told comp_def del: append_Cons)
qed

text \<open>
  C27. The \<open>docker run\<close> command of a policy, read back as Docker reads it, is isolated: it has no option
  beyond those known here (none adds privileges, devices or volumes); it drops every capability,
  takes no new privileges, has a read-only root and the given user; the network is \<open>none\<close> where the
  policy disables it and otherwise the configured one, and the allowlist it is told is empty exactly
  where the network is disabled; the mounts it carries out are those of the policy, each read back
  as it was meant, none the Docker socket or a credential path of the host; the variables are those
  of the policy, each under its own name; and the image and the command are the ones given. The
  reference to the image must not start with a dash: the code does not check this, and Docker would
  read it as an option.
\<close>

theorem docker_command_is_isolated:
  assumes "buildDockerRunCommand U collate T input = Inr cmd"
    and "\<not> starts_with (or_else (po_imageRef (sc_policy (dr_create input))) ''bek/sandbox:local'') ''-''"
  shows "\<exists>os. hd (dc_args cmd) = ''run''
    \<and> read_docker (tl (dc_args cmd)) = Some (os, or_else (po_imageRef (sc_policy (dr_create input))) ''bek/sandbox:local'',
         or_else (dr_command input) [''sleep'', ''infinity''])
    \<and> isolating collate input (dc_networkAllowlist cmd) os
    \<and> (np_mode (po_network (sc_policy (dr_create input))) = Net_disabled) = (dc_networkAllowlist cmd = [])"
proof -
  let ?p = "sc_policy (dr_create input)"
  have ok: "assertSandboxPolicy U ?p = None"
    using assms(1) by (auto simp: buildDockerRunCommand_def Let_def split: if_splits option.splits)
  then obtain entries where entries: "validateNetworkAllowlist U (po_network ?p) = Inr entries"
    by (auto simp: assertSandboxPolicy_def split: sum.splits)
  with assms(1) ok have allow: "dc_networkAllowlist cmd = map al_value entries"
    and args: "dc_args cmd = docker_options collate T input (dc_networkAllowlist cmd)
      @ (or_else (po_imageRef ?p) ''bek/sandbox:local'' # or_else (dr_command input) [''sleep'', ''infinity''])"
    by (auto simp: buildDockerRunCommand_def Let_def defaultDockerSandboxImage_def split: if_splits)
  have mode: "(np_mode (po_network ?p) = Net_disabled) = (dc_networkAllowlist cmd = [])"
    using allow accepted_nonempty [OF entries] by simp
  have "list_all (\<lambda>m. assertSandboxMount m = None) (po_mounts ?p)" "list_all (\<lambda>e. assertDockerEnv e = None) (po_env ?p)"
    using ok by (auto simp: assertSandboxPolicy_def list_all_iff)
  from settings_isolate [OF this] options_read_back [OF read_image [OF assms(2)], unfolded append_Nil2] mode show ?thesis
    unfolding args by blast
qed

definition sample_create :: sandbox_create where
  "sample_create = \<lparr> sc_orgId = ''org'', sc_runId = ''run'', sc_attempt = 1,
     sc_policy = (createDefaultSandboxPolicy Docker_local Privileged
       (Some [\<lparr> sm_source = ''/srv/repo'', sm_target = ''/workspace/source'', sm_mode = Read_only, sm_purpose = Mount_source \<rparr>]))
       \<lparr> po_env := [(''A'', ''1'')] \<rparr>,
     sc_traceId = ''trace'' \<rparr>"

definition sample_run :: docker_run_input where
  "sample_run = \<lparr> dr_create = sample_create, dr_containerName = None, dr_command = None, dr_workdir = None,
     dr_user = None, dr_egressNetworkName = None \<rparr>"

definition sample_command :: docker_run_command where
  "sample_command = (case buildDockerRunCommand (\<lambda>_. None) code_unit_le (\<lambda>_. []) sample_run of Inr c \<Rightarrow> c | Inl _ \<Rightarrow> undefined)"

lemma sample_built: "buildDockerRunCommand (\<lambda>_. None) code_unit_le (\<lambda>_. []) sample_run = Inr sample_command"
proof -
  note policy = sample_run_def sample_create_def createDefaultSandboxPolicy_def defaultSandboxNetworkPolicy_def
    defaultSandboxResourceLimits_def or_else_def
  have "assertSandboxMount \<lparr> sm_source = ''/srv/repo'', sm_target = ''/workspace/source'', sm_mode = Read_only,
      sm_purpose = Mount_source \<rparr> = None" "assertDockerEnv (''A'', ''1'') = None"
    by code_simp+
  then have "assertSandboxPolicy (\<lambda>_. None) (sc_policy (dr_create sample_run)) = None"
    by (simp add: assertSandboxPolicy_def policy assertSandboxResourceLimits_def assertPositiveInteger_def
        validateNetworkAllowlist_def)
  then have "\<exists>c. buildDockerRunCommand (\<lambda>_. None) code_unit_le (\<lambda>_. []) sample_run = Inr c"
    by (simp add: buildDockerRunCommand_def Let_def) (simp add: policy validateNetworkAllowlist_def)
  then show ?thesis by (auto simp: sample_command_def)
qed

lemma sample_image: "\<not> starts_with (or_else (po_imageRef (sc_policy (dr_create sample_run))) ''bek/sandbox:local'') ''-''"
  by (simp add: sample_run_def sample_create_def createDefaultSandboxPolicy_def or_else_def starts_with_def)

lemma sample_isolating:
  "isolating code_unit_le sample_run allowlist os \<Longrightarrow>
     map (split_at CHR '','') (values_of ''--mount'' os) = [[''type=bind'', ''src=/srv/repo'', ''dst=/workspace/source'', ''readonly'']]
     \<and> values_of ''--network'' os = [''none'']"
  by (simp add: isolating_def Let_def sample_run_def sample_create_def createDefaultSandboxPolicy_def or_else_def
      mount_options_def defaultSandboxNetworkPolicy_def)

lemma docker_command_is_isolated_witness:
  "buildDockerRunCommand (\<lambda>_. None) code_unit_le (\<lambda>_. []) sample_run = Inr sample_command
   \<and> (\<exists>os. read_docker (tl (dc_args sample_command)) = Some (os, ''bek/sandbox:local'', [''sleep'', ''infinity''])
       \<and> isolating code_unit_le sample_run (dc_networkAllowlist sample_command) os
       \<and> map (split_at CHR '','') (values_of ''--mount'' os)
           = [[''type=bind'', ''src=/srv/repo'', ''dst=/workspace/source'', ''readonly'']]
       \<and> values_of ''--network'' os = [''none''])"
proof -
  have image: "or_else (po_imageRef (sc_policy (dr_create sample_run))) ''bek/sandbox:local'' = ''bek/sandbox:local''"
    "or_else (dr_command sample_run) [''sleep'', ''infinity''] = [''sleep'', ''infinity'']"
    by (simp_all add: sample_run_def sample_create_def createDefaultSandboxPolicy_def or_else_def)
  show ?thesis
    using sample_built docker_command_is_isolated [OF sample_built sample_image, unfolded image] sample_isolating by blast
qed

text \<open>An image whose name starts with a dash: Docker takes it as an option and the command as the image.\<close>

lemma dashed_image_is_read_as_an_option:
  assumes "po_imageRef (sc_policy (dr_create input)) = Some ''--init''" "dr_command input = None"
    and "buildDockerRunCommand U collate T input = Inr cmd"
  shows "\<exists>os. read_docker (tl (dc_args cmd)) = Some (os, ''sleep'', [''infinity''])"
proof -
  have "dc_args cmd = (docker_options collate T input (dc_networkAllowlist cmd) @ [''--init'', ''sleep'', ''infinity''])"
    using assms by (auto simp: buildDockerRunCommand_def Let_def or_else_def split: if_splits option.splits sum.splits)
  moreover have "read_docker [''--init'', ''sleep'', ''infinity''] = Some ([(''--init'', None)], ''sleep'', [''infinity''])"
    by code_simp
  note options_read_back(2) [OF this]
  ultimately show ?thesis by simp
qed

text \<open>Paths that the assertions on mounts let pass: the root of the host and the processes of the container, with two slashes.\<close>

lemma double_slash_mount_passes:
  "assertSandboxMount \<lparr> sm_source = ''//'', sm_target = ''//proc'', sm_mode = Read_write, sm_purpose = Mount_scratch \<rparr> = None"
  by code_simp

section \<open>Resource limits\<close>

lemma integral_bounds:
  "of_int \<lfloor>default_min f\<rfloor> = default_min f \<or> f = Cpu_count" "of_int \<lfloor>default_max f\<rfloor> = default_max f"
  "of_int \<lfloor>defaultEffectiveResourceLimits f\<rfloor> = defaultEffectiveResourceLimits f"
  by (cases f; simp)+

lemma default_ranges:
  "default_min f \<le> defaultEffectiveResourceLimits f" "defaultEffectiveResourceLimits f \<le> default_max f"
  "default_min f \<le> default_max f" "0 \<le> default_min f"
  by (cases f; simp)+

text \<open>What one field gets: a value in its range, integral but for the CPUs, and the request itself if it was such a value.\<close>

lemma clamped:
  fixes f :: limit_field and T :: "rat \<Rightarrow> string" and request :: "js_number option"
  defines "r \<equiv> clampField T f request (default_min f) (default_max f) (defaultEffectiveResourceLimits f) (f \<noteq> Cpu_count)"
  shows "default_min f \<le> fst r \<and> fst r \<le> default_max f \<and> (f = Cpu_count \<or> of_int \<lfloor>fst r\<rfloor> = fst r)"
    "snd r = [] \<longleftrightarrow> (case request of None \<Rightarrow> True | Some n \<Rightarrow> n = Finite (fst r))"
proof -
  show "default_min f \<le> fst r \<and> fst r \<le> default_max f \<and> (f = Cpu_count \<or> of_int \<lfloor>fst r\<rfloor> = fst r)"
  proof (cases request)
    case None
    then show ?thesis using default_ranges [of f] integral_bounds(3) [of f] by (simp add: r_def clampField_def)
  next
    case (Some n)
    then show ?thesis
      using default_ranges [of f] integral_bounds [of f]
      by (cases n) (auto simp: r_def clampField_def Let_def split: option.splits if_splits)
  qed
  show "snd r = [] \<longleftrightarrow> (case request of None \<Rightarrow> True | Some n \<Rightarrow> n = Finite (fst r))"
    using default_ranges [of f] integral_bounds(3) [of f]
    by (cases request) (auto simp: r_def clampField_def Let_def split: option.splits if_splits elim!: usable.elims)
qed

lemma clamp_id:
  assumes "default_min f \<le> v" "v \<le> default_max f" "f = Cpu_count \<or> of_int \<lfloor>v\<rfloor> = v"
  shows "clampField T f (Some (Finite v)) (default_min f) (default_max f) fb (f \<noteq> Cpu_count) = (v, [])"
  using assms default_ranges(4) [of f] by (auto simp: clampField_def)

text \<open>
  The normal form of a request for resources: every limit is within its bounds, integral but for
  the CPUs, and the wall clock is no shorter than one command; the policy made of it is accepted; a
  request in normal form is kept as it is, without a warning.
\<close>

theorem normal_limits_are_bounded:
  shows "(let l = fst (normalizeResourceLimits T request defaultResourceLimitBounds defaultEffectiveResourceLimits) in
      list_all (\<lambda>f. default_min f \<le> l f \<and> l f \<le> default_max f) limit_fields \<and> l Timeout_ms \<le> l Wall_clock_ms
      \<and> assertSandboxResourceLimits (toSandboxResourceLimits l) = None
      \<and> normalizeResourceLimits T (\<lambda>f. Some (Finite (l f))) defaultResourceLimitBounds defaultEffectiveResourceLimits = (l, []))"
proof -
  define c where "c f = fst (clampField T f (request f) (default_min f) (default_max f)
    (defaultEffectiveResourceLimits f) (f \<noteq> Cpu_count))" for f
  define l where "l = (if c Wall_clock_ms < c Timeout_ms then c(Wall_clock_ms := c Timeout_ms) else c)"
  have l_eq: "fst (normalizeResourceLimits T request defaultResourceLimitBounds defaultEffectiveResourceLimits) = l"
    by (auto simp: normalizeResourceLimits_def defaultResourceLimitBounds_def l_def c_def Let_def)
  have c: "default_min f \<le> c f \<and> c f \<le> default_max f \<and> (f = Cpu_count \<or> of_int \<lfloor>c f\<rfloor> = c f)" for f
    unfolding c_def by (rule clamped(1))
  have l: "default_min f \<le> l f \<and> l f \<le> default_max f \<and> (f = Cpu_count \<or> of_int \<lfloor>l f\<rfloor> = l f)" for f
  proof (cases "c Wall_clock_ms < c Timeout_ms \<and> f = Wall_clock_ms")
    case True
    then show ?thesis using c [of Timeout_ms] by (simp add: l_def)
  next
    case False
    then have "l f = c f" by (auto simp: l_def)
    with c [of f] show ?thesis by simp
  qed
  have wall: "l Timeout_ms \<le> l Wall_clock_ms"
    by (simp add: l_def)
  have k: "clampField T f (Some (Finite (l f))) (default_min f) (default_max f) fb (f \<noteq> Cpu_count) = (l f, [])" for f fb
    using l [of f] by (intro clamp_id) blast+
  have "normalizeResourceLimits T (\<lambda>f. Some (Finite (l f))) defaultResourceLimitBounds defaultEffectiveResourceLimits = (l, [])"
    using wall
    unfolding normalizeResourceLimits_def defaultResourceLimitBounds_def limit_fields_def Let_def limit_bounds.select_convs k
    by simp
  moreover have "assertSandboxResourceLimits (toSandboxResourceLimits l) = None"
    using l [of Cpu_count] l [of Memory_mb] l [of Disk_mb] l [of Process_limit] l [of Timeout_ms]
    by (simp add: assertSandboxResourceLimits_def toSandboxResourceLimits_def assertPositiveInteger_def)
  ultimately show ?thesis
    unfolding l_eq Let_def using l wall by (simp add: list_all_iff)
qed

end
