(* ===== verification/Sandbox_Lifecycle.thy ===== *)
theory Sandbox_Lifecycle
  imports Sandbox_Providers Sandbox_Rules
begin

text \<open>
  The life of a sandbox: output is collected up to its limit, and a sandbox that has ended, by
  \<open>destroy\<close> or by a command that timed out, is never used again, with Docker or with the fake.
\<close>

section \<open>Output\<close>

lemma push_collected:
  "oc_bytes c = length (collected c) \<Longrightarrow>
     collected (push_chunk c chunk) = collected c @ take (oc_limit c - oc_bytes c) chunk
     \<and> oc_bytes (push_chunk c chunk) = length (collected (push_chunk c chunk))
     \<and> oc_limit (push_chunk c chunk) = oc_limit c"
  by (auto simp: push_chunk_def collected_def Let_def)

lemma push_all:
  "oc_bytes c = length (collected c) \<Longrightarrow> oc_bytes c \<le> oc_limit c \<Longrightarrow>
     collected (foldl push_chunk c chunks) = take (oc_limit c) (collected c @ concat chunks)"
proof (induction chunks arbitrary: c)
  case (Cons chunk chunks)
  note p = push_collected [OF Cons.prems(1), of chunk]
  with Cons.prems have "oc_bytes (push_chunk c chunk) \<le> oc_limit (push_chunk c chunk)"
    by simp
  with Cons.IH [of "push_chunk c chunk"] p Cons.prems show ?case
    by (simp add: min_def)
qed simp

text \<open>Whatever the sizes of its chunks, the collected output is the whole output cut at the limit.\<close>

theorem output_is_cut_at_limit:
  "collected (foldl push_chunk (createOutputCollector n) chunks) = take n (concat chunks)"
  using push_all [of "createOutputCollector n" chunks] by (simp add: createOutputCollector_def collected_def)

section \<open>What ends stays ended\<close>

locale ending =
  fixes step :: "'c \<Rightarrow> 's \<Rightarrow> 's" and ok :: "'s \<Rightarrow> bool" and ended :: "'s \<Rightarrow> string \<Rightarrow> bool"
  assumes ok_step: "ok s \<Longrightarrow> ok (step c s)"
    and ended_step: "ok s \<Longrightarrow> ended s i \<Longrightarrow> ended (step c s) i"
begin

lemma ok_calls: "ok s \<Longrightarrow> ok (foldl (\<lambda>s c. step c s) s cs)"
  by (induction cs arbitrary: s) (simp_all add: ok_step)

lemma ended_calls: "ok s \<Longrightarrow> ended s i \<Longrightarrow> ended (foldl (\<lambda>s c. step c s) s cs) i"
  by (induction cs arbitrary: s) (simp_all add: ok_step ended_step)

end

section \<open>Docker\<close>

definition same_leases :: "'w docker_provider \<Rightarrow> 'w docker_provider \<Rightarrow> bool" where
  "same_leases v v' \<longleftrightarrow> dv_leases v' = dv_leases v \<and> dv_draws v' = dv_draws v"

lemma same_leases_world: "same_leases v (snd (on_world f v))"
  by (simp add: same_leases_def on_world_def Let_def split: prod.splits)

lemma same_leases_trans: "same_leases a b \<Longrightarrow> same_leases b c \<Longrightarrow> same_leases a c"
  by (simp add: same_leases_def)

lemma same_leases_andThen:
  assumes "\<And>v. same_leases v (snd (m v))" "\<And>x v. same_leases v (snd (f x v))"
  shows "same_leases v (snd (andThen m f v))"
proof (cases "m v")
  case (Pair r v1)
  with assms(1) [of v] have "same_leases v v1" by simp
  with Pair assms(2) show ?thesis
    by (cases r) (auto simp: andThen_def intro: same_leases_trans)
qed

lemma same_leases_lift: "same_leases v (snd (lift_sum r v))"
  by (simp add: lift_sum_def same_leases_def)

lemma same_leases_finally:
  assumes "\<And>v. same_leases v (snd (m v))" "\<And>v. same_leases v (snd (f v))"
  shows "same_leases v (snd (finally_do m f v))"
proof -
  have "same_leases v (snd (f (snd (m v))))"
    using assms by (rule same_leases_trans)
  then show ?thesis
    by (cases "m v"; cases "fst (f (snd (m v)))"; cases "f (snd (m v))") (simp_all add: finally_do_def)
qed

lemma same_leases_run: "same_leases v (snd (runDocker C args t v))"
  unfolding runDocker_def by (rule same_leases_world)

lemma same_leases_require: "same_leases v (snd (requireActiveLease lease v))"
  by (simp add: requireActiveLease_def same_leases_def split: option.splits)

lemma same_leases_checked: "same_leases v (snd (run_checked C args t a v))"
  unfolding run_checked_def by (intro same_leases_andThen same_leases_run same_leases_lift)

lemmas same_leases_rules = same_leases_andThen same_leases_lift same_leases_require same_leases_world
  same_leases_checked same_leases_finally same_leases_run

lemma upload_same: "same_leases v (snd (docker_upload C lease upload v))"
  unfolding docker_upload_def Let_def by (intro same_leases_rules)

lemma download_same: "same_leases v (snd (docker_download C lease path v))"
  unfolding docker_download_def Let_def by (intro same_leases_rules)

datatype docker_call =
    D_create sandbox_create
  | D_exec sandbox_lease sandbox_command
  | D_upload sandbox_lease sandbox_upload
  | D_download sandbox_lease string
  | D_destroy sandbox_lease

fun docker_step :: "'w docker_config \<Rightarrow> docker_call \<Rightarrow> 'w docker_provider \<Rightarrow> 'w docker_provider" where
  "docker_step C (D_create input) v = snd (docker_create C input v)"
| "docker_step C (D_exec lease cmd) v = snd (docker_exec C lease cmd v)"
| "docker_step C (D_upload lease upload) v = snd (docker_upload C lease upload v)"
| "docker_step C (D_download lease path) v = snd (docker_download C lease path v)"
| "docker_step C (D_destroy lease) v = snd (docker_destroy C lease v)"

definition docker_ended :: "'w docker_provider \<Rightarrow> string \<Rightarrow> bool" where
  "docker_ended v i = (case map_of (dv_leases v) i of None \<Rightarrow> False | Some s \<Rightarrow> ds_destroyed s)"

definition drawn_ids :: "'w docker_config \<Rightarrow> 'w docker_provider \<Rightarrow> bool" where
  "drawn_ids C v \<longleftrightarrow> inj (\<lambda>k. dk_idFactory C k ''sandbox'')
     \<and> (\<forall>i \<in> fst ` set (dv_leases v). \<exists>k < dv_draws v. i = dk_idFactory C k ''sandbox'')"

definition advances :: "'w docker_config \<Rightarrow> 'w docker_provider \<Rightarrow> 'w docker_provider \<Rightarrow> bool" where
  "advances C v v' \<longleftrightarrow> drawn_ids C v \<longrightarrow> drawn_ids C v' \<and> (\<forall>i. docker_ended v i \<longrightarrow> docker_ended v' i)"

lemma advances_trans: "advances C a b \<Longrightarrow> advances C b c \<Longrightarrow> advances C a c"
  by (auto simp: advances_def)

lemma advances_same: "same_leases v v' \<Longrightarrow> advances C v v'"
  by (auto simp: advances_def same_leases_def drawn_ids_def docker_ended_def)

lemma map_of_marked:
  "map_of (map (\<lambda>(k, s). (k, if k = i then f s else s)) xs) j =
     (if j = i then map_option f (map_of xs j) else map_of xs j)"
  by (induction xs) auto

lemma advances_mark: "advances C v (mark_destroyed i v)"
  by (auto simp: advances_def drawn_ids_def docker_ended_def mark_destroyed_def map_of_marked image_iff
      split: option.splits if_splits) (force+)?

lemma advances_draw:
  "drawn_ids C v \<Longrightarrow> drawn_ids C (v\<lparr> dv_ticks := t, dv_draws := dv_draws v + 1 \<rparr>)"
  by (auto simp: drawn_ids_def less_Suc_eq)

lemma advances_put:
  assumes "v' = v\<lparr> dv_ticks := t, dv_draws := dv_draws v + 1,
    dv_leases := AList.update (dk_idFactory C (dv_draws v) ''sandbox'') l (dv_leases v) \<rparr>"
  shows "advances C v v'"
proof -
  have "drawn_ids C v'" if "drawn_ids C v"
    using that assms by (auto simp: drawn_ids_def dom_update less_Suc_eq image_iff)
  moreover have "docker_ended v' i" if "drawn_ids C v" "docker_ended v i" for i
  proof -
    have "i \<in> fst ` set (dv_leases v)"
      using that(2) by (auto simp: docker_ended_def split: option.splits dest: map_of_SomeD intro: rev_image_eqI)
    moreover have "\<forall>i \<in> fst ` set (dv_leases v). \<exists>k < dv_draws v. i = dk_idFactory C k ''sandbox''"
      using that(1) unfolding drawn_ids_def by (rule conjunct2)
    ultimately obtain k where "k < dv_draws v" "i = dk_idFactory C k ''sandbox''"
      by blast
    then have "i \<noteq> dk_idFactory C (dv_draws v) ''sandbox''"
      using that(1) injD [of "\<lambda>k. dk_idFactory C k ''sandbox''" k "dv_draws v"] by (auto simp: drawn_ids_def)
    with that(2) assms show ?thesis by (simp add: docker_ended_def update_conv)
  qed
  ultimately show ?thesis by (simp add: advances_def)
qed

lemma advances_create: "advances C v (snd (docker_create C input v))"
proof (cases "buildDockerRunCommand (dk_url C) (dk_collate C) (dk_fraction C)
    \<lparr> dr_create = input, dr_containerName = None, dr_command = None, dr_workdir = None, dr_user = None,
      dr_egressNetworkName = dk_egressNetworkName C \<rparr>")
  case (Inl e)
  then show ?thesis
    by (simp add: docker_create_def andThen_def lift_sum_def advances_same same_leases_def)
next
  case (Inr run)
  obtain r v1 where r: "run_checked C (dc_args run) (timeout_of (sc_policy input)) ''create Docker sandbox'' v = (r, v1)"
    by (cases "run_checked C (dc_args run) (timeout_of (sc_policy input)) ''create Docker sandbox'' v")
  then have same: "same_leases v v1"
    using same_leases_checked [of v C "dc_args run"] by (metis snd_conv)
  show ?thesis
  proof (cases r)
    case (Inl e)
    with Inr r same show ?thesis
      by (simp add: docker_create_def andThen_def lift_sum_def advances_same)
  next
    case ok: (Inr u)
    have "advances C v1 (snd (docker_create C input v))"
    proof (cases "lease_end (dk_now C (dv_ticks v1)) (timeout_of (sc_policy input))")
      case (Inl e)
      have "docker_ended (v1\<lparr> dv_ticks := dv_ticks v1 + 1, dv_draws := dv_draws v1 + 1 \<rparr>) = docker_ended v1"
        by (simp add: docker_ended_def fun_eq_iff)
      with Inl Inr r ok show ?thesis
        using advances_draw [of C v1 "dv_ticks v1 + 1"]
        by (simp add: docker_create_def andThen_def lift_sum_def next_time_def next_id_def advances_def)
    next
      case (Inr expiresAt)
      show ?thesis
        by (rule advances_put [where v = v1 and t = "dv_ticks v1 + 1" and C = C])
          (simp add: docker_create_def andThen_def lift_sum_def next_time_def next_id_def put_docker_lease_def
            Let_def Inr ok r \<open>buildDockerRunCommand _ _ _ _ = Inr run\<close>)
    qed
    with advances_same [OF same] show ?thesis by (rule advances_trans)
  qed
qed

lemma advances_andThen:
  assumes "\<And>v. advances C v (snd (m v))" "\<And>x v. advances C v (snd (f x v))"
  shows "advances C v (snd (andThen m f v))"
proof (cases "m v")
  case (Pair r v1)
  with assms(1) [of v] have "advances C v v1" by simp
  with Pair assms(2) show ?thesis
    by (cases r) (auto simp: andThen_def intro: advances_trans)
qed

lemma advances_kill: "advances C v (killContainer C lease s v)"
  unfolding killContainer_def using advances_same [OF same_leases_run] advances_mark by (rule advances_trans)

lemma advances_exec: "advances C v (snd (docker_exec C lease cmd v))"
proof -
  have "advances C v (snd (Inr result, if sr_timedOut result then killContainer C lease s v else v))" for v result s
    by (cases "sr_timedOut result") (simp_all add: advances_kill advances_same same_leases_def)
  then show ?thesis
    unfolding docker_exec_def
    by (intro advances_andThen advances_same [OF same_leases_require] advances_same [OF same_leases_lift]
        advances_same [OF same_leases_run])
qed

lemma advances_destroy: "advances C v (snd (docker_destroy C lease v))"
proof (cases "map_of (dv_leases v) (se_id lease)")
  case None
  then show ?thesis by (simp add: docker_destroy_def advances_def)
next
  case (Some s)
  obtain r v1 where r: "runDocker C [''rm'', ''--force'', ds_containerName s] (timeout_of (ds_policy s)) v = (r, v1)"
    by (cases "runDocker C [''rm'', ''--force'', ds_containerName s] (timeout_of (ds_policy s)) v")
  then have "advances C v v1"
    using same_leases_run advances_same by (metis snd_conv)
  then have "advances C v v1 \<and> advances C v (mark_destroyed (se_id lease) v1)"
    using advances_mark advances_trans by blast
  then show ?thesis
    using Some r by (cases r) (auto simp: docker_destroy_def andThen_def advances_def Let_def)
qed

lemma advances_step: "advances C v (docker_step C c v)"
  by (cases c) (simp_all add: advances_create advances_exec advances_destroy advances_same upload_same download_same)

interpretation docker: ending "docker_step C" "drawn_ids C" docker_ended for C :: "'w docker_config"
  by unfold_locales (use advances_step in \<open>auto simp: advances_def\<close>)

lemma drawn_new: "inj (\<lambda>k. dk_idFactory C k ''sandbox'') \<Longrightarrow> drawn_ids C (newDockerProvider w)"
  by (simp add: drawn_ids_def newDockerProvider_def)

lemma ended_refused:
  assumes "docker_ended v (se_id lease)"
  shows "requireActiveLease lease v = (Inl (Error (''Sandbox lease '' @ se_id lease @ '' has been destroyed.'')), v)"
  using assms by (auto simp: docker_ended_def requireActiveLease_def split: option.splits)

text \<open>
  A Docker sandbox that has ended is final: after any further calls, whatever docker answers,
  a command, an upload or a download on it fails and neither runs docker nor touches a file. The
  factory never gives an id twice.
\<close>

theorem ended_sandbox_is_final:
  assumes "inj (\<lambda>k. dk_idFactory C k ''sandbox'')"
    and "v = foldl (\<lambda>v c. docker_step C c v) (newDockerProvider w) before" "docker_ended v (se_id lease)"
    and "v' = foldl (\<lambda>v c. docker_step C c v) v later"
  shows "docker_exec C lease cmd v' = (Inl (Error (''Sandbox lease '' @ se_id lease @ '' has been destroyed.'')), v')
    \<and> docker_upload C lease upload v' = (Inl (Error (''Sandbox lease '' @ se_id lease @ '' has been destroyed.'')), v')
    \<and> docker_download C lease path v' = (Inl (Error (''Sandbox lease '' @ se_id lease @ '' has been destroyed.'')), v')
    \<and> docker_destroy C lease v' = (Inr (), v')"
proof -
  have "drawn_ids C v"
    unfolding assms(2) by (intro docker.ok_calls drawn_new assms(1))
  then have e: "docker_ended v' (se_id lease)"
    unfolding assms(4) using assms(3) by (rule docker.ended_calls)
  note refused = ended_refused [OF this]
  have "docker_destroy C lease v' = (Inr (), v')"
    using e by (auto simp: docker_destroy_def docker_ended_def split: option.splits)
  then show ?thesis
    by (simp add: docker_exec_def docker_upload_def docker_download_def andThen_def refused)
qed

section \<open>A container that is left behind\<close>

text \<open>A host whose docker starts containers, lets every command time out and cannot kill; it notes the commands.\<close>

definition sample_host :: "string list list host" where
  "sample_host =
     \<lparr> ho_run = (\<lambda>p w. (if hd (do_args p) = ''kill'' then Inl (Error ''docker is gone'')
         else Inr (quiet_result\<lparr> sr_timedOut := hd (do_args p) = ''exec'' \<rparr>), w @ [do_args p])),
       ho_mkdtemp = (\<lambda>_ w. (Inr ''/tmp/x'', w)), ho_writeFile = (\<lambda>_ _ w. (Inr (), w)),
       ho_readFile = (\<lambda>_ w. (Inr [], w)), ho_rm = (\<lambda>_ w. (Inr (), w)) \<rparr>"

definition sample_docker :: "string list list docker_config" where
  "sample_docker =
     \<lparr> dk_id = ''docker-local'', dk_now = (\<lambda>k. Instant (int k)), dk_idFactory = (\<lambda>k p. p @ nat_str k),
       dk_stdoutLimitBytes = 10, dk_stderrLimitBytes = 10, dk_egressNetworkName = None, dk_host = sample_host,
       dk_url = (\<lambda>_. None), dk_collate = code_unit_le, dk_fraction = (\<lambda>_. []), dk_sha256 = (\<lambda>_. []) \<rparr>"

definition sample_sandbox :: sandbox_lease where
  "sample_sandbox = \<lparr> se_id = ''sandbox0'', se_providerKind = Docker_local, se_runId = ''run'', se_createdAt = Instant 0,
     se_expiresAt = Instant 900000 \<rparr>"

definition sample_exec :: sandbox_command where
  "sample_exec = \<lparr> sx_idempotencyKey = ''k'', sx_command = [''true''], sx_cwd = None, sx_env = None, sx_timeoutMs = None,
     sx_risk = Privileged \<rparr>"

lemma sample_factory: "inj (\<lambda>k. dk_idFactory sample_docker k ''sandbox'')"
  by (auto simp: sample_docker_def inj_def)

definition created :: "string list list docker_provider" where
  "created = snd (docker_create sample_docker sample_create (newDockerProvider []))"

definition timed_out :: "string list list docker_provider" where
  "timed_out = snd (docker_exec sample_docker sample_sandbox sample_exec created)"

lemma built_runs: "buildDockerRunCommand U collate T input = Inr c \<Longrightarrow> hd (dc_args c) = ''run''"
  by (auto simp: buildDockerRunCommand_def docker_options_def Let_def split: if_splits option.splits sum.splits)

lemmas sample_first_args = built_runs [OF sample_built]

lemma sample_run_id: "sc_runId sample_create = ''run''"
  by (simp add: sample_create_def)

lemma sample_lease_end: "lease_end (Instant 0) (timeout_of (sc_policy sample_create)) = Inr (Instant 900000)"
  by (simp add: lease_end_def timeout_of_def sample_create_def createDefaultSandboxPolicy_def
      defaultSandboxResourceLimits_def date_plus_def max_date_ms_def)

lemma sample_id: "nat_str 0 = ''0''"
  by code_simp

lemmas sample_run_simps = andThen_def lift_sum_def runDocker_def on_world_def sample_docker_def sample_host_def
  quiet_result_def Let_def

lemma created_eq:
  "created = \<lparr> dv_leases = [(''sandbox0'', \<lparr> ds_lease = sample_sandbox, ds_containerName = dc_containerName sample_command,
      ds_policy = sc_policy sample_create, ds_destroyed = False \<rparr>)], dv_ticks = 1, dv_draws = 1,
      dv_world = [dc_args sample_command] \<rparr>"
  by (simp add: created_def docker_create_def run_checked_def newDockerProvider_def next_time_def next_id_def
      put_docker_lease_def assertDockerSuccess_def sample_built [unfolded sample_run_def] sample_run_simps
      sample_first_args sample_lease_end sample_id sample_sandbox_def sample_run_id)

lemma timed_out_eq:
  "timed_out = created\<lparr> dv_leases := [(''sandbox0'', \<lparr> ds_lease = sample_sandbox,
      ds_containerName = dc_containerName sample_command, ds_policy = sc_policy sample_create, ds_destroyed = True \<rparr>)],
     dv_world := [dc_args sample_command, [''exec'', dc_containerName sample_command, ''true''],
       [''kill'', dc_containerName sample_command]] \<rparr>"
proof -
  have ok: "assertSandboxCommand sample_exec policy = None" for policy
    by (simp add: assertSandboxCommand_def sample_exec_def assertNoControlCharacters_def control_char_def or_else_def
        del: first_error.simps(2))
  show ?thesis
    unfolding timed_out_def docker_exec_def created_eq
    by (simp add: requireActiveLease_def killContainer_def mark_destroyed_def exec_args_def env_args_def ok
        sample_run_simps sample_sandbox_def) (simp add: sample_exec_def or_else_def)
qed

text \<open>
  The kill of a container whose command timed out may fail; the lease counts as destroyed all the
  same, and \<open>destroy\<close> no longer removes the container.
\<close>

lemma failed_kill_leaves_container:
  "docker_destroy sample_docker sample_sandbox timed_out = (Inr (), timed_out)
   \<and> list_all (\<lambda>args. args = dc_args sample_command \<or> hd args \<noteq> ''rm'') (dv_world timed_out)"
  by (simp add: docker_destroy_def timed_out_eq created_eq sample_sandbox_def)

lemma ended_sandbox_is_final_witness:
  "docker_ended timed_out (se_id sample_sandbox)
   \<and> docker_download sample_docker sample_sandbox ''/a'' timed_out
      = (Inl (Error (''Sandbox lease '' @ se_id sample_sandbox @ '' has been destroyed.'')), timed_out)"
proof -
  have v: "timed_out = foldl (\<lambda>v c. docker_step sample_docker c v) (newDockerProvider [])
      [D_create sample_create, D_exec sample_sandbox sample_exec]"
    by (simp add: timed_out_def created_def)
  have e: "docker_ended timed_out (se_id sample_sandbox)"
    by (simp add: docker_ended_def timed_out_eq created_eq sample_sandbox_def)
  show ?thesis
    using e ended_sandbox_is_final [OF sample_factory v e, of timed_out "[]"] by simp
qed

end
