(* ===== verification/Worker_Service.thy ===== *)
theory Worker_Service
  imports Worker_Budget Worker_Persisted Sandbox_Providers
begin

text \<open>
  The runtime service of the worker, \<open>WorkerRuntimeService\<close> of \<open>packages/worker/src/index.ts\<close>: it
  claims work, checks the budget and the sandbox, runs the adapter of the runtime profile and settles
  what came out. An adapter is a parameter: what it does is a tree of emitted events, requested
  approvals and calls of the outside, which is a world of its own. Other users of the queue act at
  every await; what they do is a parameter of the service. The drafting of pull requests is an
  option of the service; it is modelled as left out.
\<close>

section \<open>Adapters and providers\<close>

record sandbox_context =
  sb_policy :: sandbox_policy
  sb_lease :: sandbox_lease

record adapter_input = start_input +
  ai_sandbox :: "sandbox_context option"

text \<open>What an adapter does until it returns or throws.\<close>

datatype 'w activity =
    Emit runtime_event "'w activity"
  | Request_approval approval_checkpoint "js_error + approval_request \<Rightarrow> 'w activity"
  | Outside "'w \<Rightarrow> 'w" "'w \<Rightarrow> 'w activity"
  | Finish "js_error + runtime_result"

record 'w runtime_adapter =
  ra_id :: string
  ra_kind :: runtime_kind
  ra_canRun :: "runtime_profile \<Rightarrow> bool"
  ra_start :: "adapter_input \<Rightarrow> 'w activity"
  ra_resume :: "adapter_input \<Rightarrow> approval_request \<Rightarrow> 'w activity"
  ra_cancel :: "string \<Rightarrow> 'w \<Rightarrow> ('w, unit) outcome"

record 'w sandbox_provider =
  sp_id :: string
  sp_kind :: sandbox_kind
  sp_create :: "sandbox_create \<Rightarrow> 'w \<Rightarrow> ('w, sandbox_lease) outcome"
  sp_exec :: "sandbox_lease \<Rightarrow> sandbox_command \<Rightarrow> 'w \<Rightarrow> ('w, sandbox_result) outcome"
  sp_upload :: "sandbox_lease \<Rightarrow> sandbox_upload \<Rightarrow> 'w \<Rightarrow> ('w, unit) outcome"
  sp_download :: "sandbox_lease \<Rightarrow> string \<Rightarrow> 'w \<Rightarrow> ('w, sandbox_artifact) outcome"
  sp_destroy :: "sandbox_lease \<Rightarrow> 'w \<Rightarrow> ('w, unit) outcome"

section \<open>The service\<close>

record 'w service_options =
  so_queue :: worker_config
  so_others :: "nat \<Rightarrow> worker_queue \<Rightarrow> worker_queue"
  so_env :: env
  so_state :: "'w \<Rightarrow> js_error + bek_snapshot"
  so_adapters :: "'w runtime_adapter list"
  so_sandboxProvider :: "'w sandbox_provider option"
  so_sandboxPolicyProvider :: "(worker_work_record \<Rightarrow> runtime_context \<Rightarrow> 'w \<Rightarrow> ('w, sandbox_policy) outcome) option"
  so_workerId :: string
  so_leaseMs :: int
  so_now :: "nat \<Rightarrow> iso_date"
  so_approvalExpiresInMs :: int
  so_approvalProvider :: "(worker_work_record \<Rightarrow> bek_snapshot \<Rightarrow> 'w \<Rightarrow> ('w, approval_request option) outcome) option"
  so_modelRouteProvider :: "(model_policy \<Rightarrow> runtime_profile \<Rightarrow> run \<Rightarrow> js_error + runtime_model_route) option"

text \<open>The queue, the outside, and the numbers of clock readings, drawn ids and awaits so far.\<close>

record 'w service =
  sv_queue :: worker_queue
  sv_world :: 'w
  sv_ticks :: nat
  sv_draws :: nat
  sv_awaits :: nat

record process_input =
  pi_workerId :: "string option"
  pi_leaseMs :: "int option"
  pi_now :: "iso_date option"

datatype process_decision =
    Process_empty
  | Processed string worker_lease worker_work_record runtime_result settle_decision
  | Process_lost_lease worker_lease worker_work_record string

section \<open>Steps\<close>

definition awaiting :: "'w service_options \<Rightarrow> 'w service \<Rightarrow> 'w service" where
  "awaiting S s =
     s\<lparr> sv_queue := so_others S (sv_awaits s) (sv_queue s), sv_awaits := sv_awaits s + 1 \<rparr>"

definition on_queue :: "(worker_queue \<Rightarrow> (worker_queue, 'a) outcome) \<Rightarrow> 'w service \<Rightarrow> ('w service, 'a) outcome" where
  "on_queue m s = (let (r, q) = m (sv_queue s) in (r, s\<lparr> sv_queue := q \<rparr>))"

text \<open>An awaited call of the outside.\<close>

definition on_outside :: "'w service_options \<Rightarrow> ('w \<Rightarrow> ('w, 'a) outcome) \<Rightarrow> 'w service \<Rightarrow> ('w service, 'a) outcome" where
  "on_outside S m s = (let (r, w) = m (sv_world s) in (r, awaiting S (s\<lparr> sv_world := w \<rparr>)))"

definition service_time :: "'w service_options \<Rightarrow> iso_date option \<Rightarrow> 'w service \<Rightarrow> ('w service, iso_date) outcome" where
  "service_time S given s =
     (case given of
        Some t \<Rightarrow> (Inr t, s)
      | None \<Rightarrow> (Inr (so_now S (sv_ticks s)), s\<lparr> sv_ticks := sv_ticks s + 1 \<rparr>))"

definition runtime_event_of :: "runtime_event_type \<Rightarrow> string \<Rightarrow> json_record \<Rightarrow> runtime_event" where
  "runtime_event_of kind message data = \<lparr> re_type = kind, re_message = message, re_data = Some (JObj data) \<rparr>"

definition emit_at :: "'w service_options \<Rightarrow> string \<Rightarrow> runtime_event \<Rightarrow> iso_date \<Rightarrow> 'w service \<Rightarrow> ('w service, unit) outcome" where
  "emit_at S leaseId event now =
     andThen (on_queue (total (emitRuntimeEvent (so_queue S)
       \<lparr> rti_leaseId = leaseId, rti_event = event, rti_now = Some now \<rparr>))) (\<lambda>_. returns ())"

definition emit_now :: "'w service_options \<Rightarrow> string \<Rightarrow> runtime_event \<Rightarrow> 'w service \<Rightarrow> ('w service, unit) outcome" where
  "emit_now S leaseId event = andThen (service_time S None) (emit_at S leaseId event)"

section \<open>Event data\<close>

fun budget_decision_str :: "budget_decision \<Rightarrow> string" where
  "budget_decision_str Within_budget = ''within_budget''"
| "budget_decision_str Over_budget = ''over_budget''"

fun runtime_kind_str :: "runtime_kind \<Rightarrow> string" where
  "runtime_kind_str Ai_sdk = ''ai_sdk''"
| "runtime_kind_str Opencode = ''opencode''"
| "runtime_kind_str Langgraph = ''langgraph''"
| "runtime_kind_str External_runtime = ''external''"

fun checkpoint_kind_str :: "checkpoint_kind \<Rightarrow> string" where
  "checkpoint_kind_str Check_sandbox_start = ''sandbox.start''"
| "checkpoint_kind_str Check_sandbox_network = ''sandbox.network''"
| "checkpoint_kind_str Check_sandbox_command = ''sandbox.command''"
| "checkpoint_kind_str Check_filesystem_write = ''filesystem.write''"
| "checkpoint_kind_str Check_external_write = ''external.write''"
| "checkpoint_kind_str Check_budget_increase = ''budget.increase''"

definition modelRouteEventData :: "runtime_model_route \<Rightarrow> json_record" where
  "modelRouteEventData route =
     [(''provider'', JStr (rt_provider route)), (''model'', JStr (rt_model route))]
     @ (case rt_estimatedCostCents route of None \<Rightarrow> [] | Some c \<Rightarrow> [(''estimatedCostCents'', JNum c)])
     @ (case rt_budget route of
          None \<Rightarrow> []
        | Some b \<Rightarrow>
            [(''budgetDecision'', JStr (budget_decision_str (rb_decision b))), (''budgetCents'', JNum (rb_budgetCents b)),
             (''remainingBudgetCents'', JNum (rb_remainingBudgetCents b)),
             (''estimatedUsage'', JObj [(''input'', JNum (rb_estimatedInputTokens b)),
                (''output'', JNum (rb_estimatedOutputTokens b))])])"

definition present :: "string \<Rightarrow> 'a option \<Rightarrow> ('a \<Rightarrow> json) \<Rightarrow> json_record" where
  "present key v f = (case v of None \<Rightarrow> [] | Some x \<Rightarrow> [(key, f x)])"

definition day_fields :: "budget_guard \<Rightarrow> json_record" where
  "day_fields decision =
     (if truthy (bg_budgetPolicyId decision) then opt_entry ''budgetPolicyId'' (bg_budgetPolicyId decision) else [])
     @ present ''dailySpentCents'' (bg_dailySpentCents decision) JNum
     @ present ''dailyCommittedCents'' (bg_dailyCommittedCents decision) JNum
     @ present ''dailyWindowStart'' (bg_dailyWindowStart decision) (JStr \<circ> toISOString)
     @ present ''dailyWindowEnd'' (bg_dailyWindowEnd decision) (JStr \<circ> toISOString)"

definition runtimeBudgetGuardEventData :: "budget_guard \<Rightarrow> json_record" where
  "runtimeBudgetGuardEventData decision =
     [(''budgetDecision'', JStr (budget_decision_str (bg_decision decision))),
      (''budgetCents'', JNum (bg_budgetCents decision)),
      (''remainingBudgetCents'', JNum (bg_remainingBudgetCents decision)),
      (''budgetSource'', JStr (source_str (bg_budgetSource decision))),
      (''budgetScope'', JStr (budget_scope_str (bg_budgetScope decision)))] @ day_fields decision"

text \<open>A later entry of an object literal replaces an earlier one of the same name, in its place.\<close>

definition spread :: "json_record \<Rightarrow> json_record \<Rightarrow> json_record" where
  "spread a b = fold (\<lambda>(k, v). AList.update k v) b a"

section \<open>The context of a run\<close>

definition found :: "string \<Rightarrow> 'a option \<Rightarrow> ('a \<Rightarrow> js_error + 'b) \<Rightarrow> js_error + 'b" where
  "found missing v f = (case v of None \<Rightarrow> Inl (Error missing) | Some x \<Rightarrow> f x)"

definition resolveRuntimeContext :: "'w service_options \<Rightarrow> worker_work_record \<Rightarrow> bek_snapshot \<Rightarrow> js_error + runtime_context" where
  "resolveRuntimeContext S work snapshot =
     found (''Run '' @ wi_runId (wr_item work) @ '' was not found.'')
       (List.find (\<lambda>r. run_orgId r = wi_orgId (wr_item work) \<and> run_id r = wi_runId (wr_item work)) (sn_runs snapshot)) (\<lambda>r.
     found (''Requester '' @ run_requesterPrincipalId r @ '' was not found.'')
       (List.find (\<lambda>p. pr_orgId p = run_orgId r \<and> pr_id p = run_requesterPrincipalId r) (sn_principals snapshot)) (\<lambda>requester.
     found (''Place '' @ run_placeScopeId r @ '' was not found.'')
       (List.find (\<lambda>p. pl_orgId p = run_orgId r \<and> pl_id p = run_placeScopeId r) (sn_places snapshot)) (\<lambda>place.
     found (''Model policy '' @ run_modelPolicyId r @ '' was not found.'')
       (List.find (\<lambda>p. mp_orgId p = run_orgId r \<and> mp_id p = run_modelPolicyId r) (sn_modelPolicies snapshot)) (\<lambda>policy.
     found (''Runtime profile '' @ run_runtimeProfileId r @ '' was not found.'')
       (List.find (\<lambda>p. rp_orgId p = run_orgId r \<and> rp_id p = run_runtimeProfileId r) (sn_runtimeProfiles snapshot)) (\<lambda>profile.
     let bundles = bundlesForPlace (sn_accessBundles snapshot) place in
     case (case so_modelRouteProvider S of
             None \<Rightarrow> Inr (defaultModelRoute policy profile) | Some f \<Rightarrow> f policy profile r) of
       Inl e \<Rightarrow> Inl e
     | Inr route \<Rightarrow> Inr
         \<lparr> wx_snapshot = snapshot, wx_run = r, wx_requester = requester, wx_place = place, wx_accessBundles = bundles,
           wx_modelPolicy = policy,
           wx_modelRoute = withModelRouteBudgetPreflight route policy profile r requester place,
           wx_runtimeProfile = profile, wx_grants = concat (map bu_grants bundles) \<rparr>)))))"

definition selectAdapter :: "'w service_options \<Rightarrow> runtime_profile \<Rightarrow> js_error + 'w runtime_adapter" where
  "selectAdapter S profile =
     found (''No runtime adapter registered for '' @ runtime_kind_str (rp_runtimeKind profile) @ '':''
         @ rp_adapter profile @ ''.'')
       (List.find (\<lambda>a. adapterMatchesProfile \<lparr> ad_id = ra_id a, ad_kind = ra_kind a \<rparr> profile \<and> ra_canRun a profile)
          (so_adapters S)) Inr"

section \<open>Approvals\<close>

text \<open>\<open>createApprovalRequest\<close> of \<open>packages/core/src/runs.ts\<close> with both dates given.\<close>

definition createApprovalRequest_at :: "env \<Rightarrow> nat \<Rightarrow> string \<Rightarrow> string \<Rightarrow> string \<Rightarrow> string \<Rightarrow> json \<Rightarrow> risk_level
    \<Rightarrow> iso_date \<Rightarrow> iso_date \<Rightarrow> (js_error + approval_request) \<times> nat" where
  "createApprovalRequest_at E n orgId runId requestedByPrincipalId action payload risk now expiresAt =
     (let (ident, n1) = createId E n ''approval'' in
      (case hashPayload E payload of
         Inl e \<Rightarrow> Inl e
       | Inr h \<Rightarrow> Inr \<lparr> ap_id = ident, ap_orgId = orgId, ap_runId = runId, ap_action = action, ap_risk = risk,
           ap_status = Approval_pending, ap_payloadHash = h, ap_payloadMetadata = approvalPayloadMetadata payload,
           ap_requestedByPrincipalId = requestedByPrincipalId, ap_decidedByPrincipalId = None,
           ap_createdAt = now, ap_expiresAt = expiresAt, ap_decidedAt = None \<rparr>, n1))"

definition new_approval :: "'w service_options \<Rightarrow> worker_work_record \<Rightarrow> runtime_context \<Rightarrow> string \<Rightarrow> json \<Rightarrow> risk_level
    \<Rightarrow> iso_date \<Rightarrow> 'w service \<Rightarrow> ('w service, approval_request) outcome" where
  "new_approval S work context action payload risk now =
     andThen (lift_sum (addMs now (so_approvalExpiresInMs S))) (\<lambda>expiresAt s.
       let (r, n) = createApprovalRequest_at (so_env S) (sv_draws s) (wi_orgId (wr_item work)) (wi_runId (wr_item work))
             (run_requesterPrincipalId (wx_run context)) action payload risk now expiresAt
       in (r, s\<lparr> sv_draws := n \<rparr>))"

definition requestApproval :: "'w service_options \<Rightarrow> string \<Rightarrow> worker_work_record \<Rightarrow> runtime_context
    \<Rightarrow> approval_checkpoint \<Rightarrow> 'w service \<Rightarrow> ('w service, approval_request) outcome" where
  "requestApproval S leaseId work context checkpoint =
     andThen (service_time S None) (\<lambda>now.
     andThen (new_approval S work context (ck_action checkpoint) (ck_payload checkpoint) (ck_risk checkpoint) now) (\<lambda>approval.
     andThen (emit_at S leaseId (runtime_event_of Rt_tool_requested
         (''Approval requested for '' @ ck_action checkpoint @ ''.'')
         [(''approvalId'', JStr (ap_id approval)), (''action'', JStr (ck_action checkpoint)),
          (''kind'', JStr (checkpoint_kind_str (ck_kind checkpoint))), (''resource'', JStr (ck_resource checkpoint)),
          (''risk'', JStr (risk_str (ck_risk checkpoint)))]) now) (\<lambda>_.
     returns approval)))"

definition gate_approval :: "worker_work_record \<Rightarrow> runtime_context \<Rightarrow> js_error + approval_request" where
  "gate_approval work context =
     (case wr_approval work of
        None \<Rightarrow> Inl (Error ''Approval resume work is missing an approval gate.'')
      | Some gate \<Rightarrow> Inr
          \<lparr> ap_id = wg_approvalId gate, ap_orgId = wi_orgId (wr_item work), ap_runId = wi_runId (wr_item work),
            ap_action = wg_action gate, ap_risk = wg_risk gate, ap_status = wg_status gate,
            ap_payloadHash = wg_payloadHash gate, ap_payloadMetadata = wg_payloadMetadata gate,
            ap_requestedByPrincipalId = run_requesterPrincipalId (wx_run context), ap_decidedByPrincipalId = None,
            ap_createdAt = wg_createdAt gate, ap_expiresAt = wg_expiresAt gate, ap_decidedAt = None \<rparr>)"

definition resolveResumeApproval :: "'w service_options \<Rightarrow> worker_work_record \<Rightarrow> runtime_context \<Rightarrow> 'w service
    \<Rightarrow> ('w service, approval_request) outcome" where
  "resolveResumeApproval S work context =
     andThen (on_outside S (case so_approvalProvider S of
         None \<Rightarrow> returns None | Some f \<Rightarrow> f work (wx_snapshot context))) (\<lambda>provided.
       case provided of Some approval \<Rightarrow> returns approval | None \<Rightarrow> lift_sum (gate_approval work context))"

section \<open>Budget and sandbox\<close>

definition emitBudgetCheckedEvent :: "'w service_options \<Rightarrow> string \<Rightarrow> runtime_model_route \<Rightarrow> budget_guard \<Rightarrow> 'w service
    \<Rightarrow> ('w service, unit) outcome" where
  "emitBudgetCheckedEvent S leaseId route decision =
     (if rt_budget route = None then returns ()
      else emit_now S leaseId (runtime_event_of Rt_budget_checked (bg_reason decision)
             (spread (modelRouteEventData route) (runtimeBudgetGuardEventData decision))))"

definition createBudgetApprovalIfOverLimit :: "'w service_options \<Rightarrow> string \<Rightarrow> worker_work_record \<Rightarrow> runtime_context
    \<Rightarrow> budget_guard \<Rightarrow> 'w service \<Rightarrow> ('w service, approval_request option) outcome" where
  "createBudgetApprovalIfOverLimit S leaseId work context decision =
     (if bg_decision decision = Within_budget \<or> hasApprovedBudgetIncreaseForDecision work decision then returns None
      else
        andThen (service_time S None) (\<lambda>now.
        andThen (new_approval S work context ''budget.increase'' (budget_payload context decision) Privileged now) (\<lambda>approval.
        andThen (emit_at S leaseId (runtime_event_of Rt_tool_requested (bg_reason decision)
            ([(''approvalId'', JStr (ap_id approval)), (''action'', JStr (ap_action approval)),
              (''kind'', JStr ''budget.increase''), (''resource'', JStr (''model:'' @ rt_model (wx_modelRoute context))),
              (''risk'', JStr (risk_str (ap_risk approval))), (''provider'', JStr (rt_provider (wx_modelRoute context))),
              (''model'', JStr (rt_model (wx_modelRoute context))),
              (''estimatedCostCents'', JNum (bg_estimatedCostCents decision)),
              (''budgetDecision'', JStr (budget_decision_str (bg_decision decision))),
              (''budgetCents'', JNum (bg_budgetCents decision)),
              (''remainingBudgetCents'', JNum (bg_remainingBudgetCents decision)),
              (''budgetSource'', JStr (source_str (bg_budgetSource decision))),
              (''budgetScope'', JStr (budget_scope_str (bg_budgetScope decision)))] @ day_fields decision)) now) (\<lambda>_.
        returns (Some approval)))))"

definition runtimeProfileRequiresSandbox :: "runtime_profile \<Rightarrow> bool" where
  "runtimeProfileRequiresSandbox profile \<longleftrightarrow>
     rp_runtimeKind profile = Opencode \<or> str_includes (rp_adapter profile) ''sandbox''"

definition sandboxResourceForProvider :: "'w sandbox_provider \<Rightarrow> string" where
  "sandboxResourceForProvider provider = ''sandbox:'' @ sandbox_kind_str (sp_kind provider)"

definition isApprovedSandboxExec :: "worker_work_record \<Rightarrow> bool" where
  "isApprovedSandboxExec work \<longleftrightarrow> wi_reason (wr_item work) = Reason_approval_granted
     \<and> (case wr_approval work of None \<Rightarrow> False
        | Some gate \<Rightarrow> wg_action gate = ''sandbox.exec'' \<and> wg_status gate = Approval_approved)"

definition sandboxApprovalRequiredResult :: "'w sandbox_provider \<Rightarrow> string \<Rightarrow> runtime_result" where
  "sandboxApprovalRequiredResult provider reason =
     \<lparr> rr_status = Res_awaiting_approval,
       rr_finalText = Some (''Sandbox approval required before starting '' @ sandbox_kind_str (sp_kind provider) @ '': '' @ reason),
       rr_artifactRefs = [], rr_actualCostCents = 0, rr_error = None \<rparr>"

definition failed_result :: "string \<Rightarrow> runtime_result" where
  "failed_result message =
     \<lparr> rr_status = Res_failed, rr_finalText = None, rr_artifactRefs = [], rr_actualCostCents = 0, rr_error = Some message \<rparr>"

definition sandbox_decision :: "'w sandbox_provider \<Rightarrow> runtime_context \<Rightarrow> policy_decision" where
  "sandbox_decision provider context =
     evaluatePolicy (wx_accessBundles context)
       \<lparr> rq_placeScopeId = pl_id (wx_place context), rq_capability = Sandbox_exec,
         rq_resource = Some (sandboxResourceForProvider provider) \<rparr>"

text \<open>What the preparation gives: nothing to prepare, a sandbox, or a result that ends the attempt.\<close>

datatype sandbox_preparation =
    No_sandbox
  | Prepared sandbox_context
  | Ended runtime_result "approval_request option"

definition deny_sandbox :: "'w service_options \<Rightarrow> string \<Rightarrow> 'w sandbox_provider \<Rightarrow> runtime_context \<Rightarrow> policy_decision
    \<Rightarrow> 'w service \<Rightarrow> ('w service, sandbox_preparation) outcome" where
  "deny_sandbox S leaseId provider context decision =
     andThen (emit_now S leaseId (runtime_event_of Rt_tool_denied (pd_reason decision)
         [(''action'', JStr ''sandbox.exec''), (''resource'', JStr (sandboxResourceForProvider provider)),
          (''providerKind'', JStr (sandbox_kind_str (sp_kind provider))),
          (''runtimeProfileId'', JStr (rp_id (wx_runtimeProfile context))), (''risk'', JStr (risk_str (pd_risk decision)))])) (\<lambda>_.
     returns (Ended (failed_result (''Sandbox execution denied: '' @ pd_reason decision)) None))"

definition ask_sandbox :: "'w service_options \<Rightarrow> string \<Rightarrow> 'w sandbox_provider \<Rightarrow> worker_work_record \<Rightarrow> runtime_context
    \<Rightarrow> policy_decision \<Rightarrow> 'w service \<Rightarrow> ('w service, sandbox_preparation) outcome" where
  "ask_sandbox S leaseId provider work context decision =
     andThen (service_time S None) (\<lambda>now.
     andThen (new_approval S work context ''sandbox.exec''
         (JObj ([(''providerId'', JStr (sp_id provider)), (''providerKind'', JStr (sandbox_kind_str (sp_kind provider))),
           (''resource'', JStr (sandboxResourceForProvider provider)),
           (''runtimeProfileId'', JStr (rp_id (wx_runtimeProfile context)))]
          @ opt_entry ''grantId'' (map_option gr_id (pd_matchingGrant decision))))
         (pd_risk decision) now) (\<lambda>approval.
     andThen (emit_at S leaseId (runtime_event_of Rt_tool_requested (pd_reason decision)
         [(''approvalId'', JStr (ap_id approval)), (''action'', JStr (ap_action approval)), (''kind'', JStr ''sandbox.start''),
          (''resource'', JStr (sandboxResourceForProvider provider)),
          (''providerKind'', JStr (sandbox_kind_str (sp_kind provider))),
          (''runtimeProfileId'', JStr (rp_id (wx_runtimeProfile context))), (''risk'', JStr (risk_str (ap_risk approval)))]) now) (\<lambda>_.
     returns (Ended (sandboxApprovalRequiredResult provider (pd_reason decision)) (Some approval)))))"

definition defaultSandboxPolicyForContext :: "'w sandbox_provider \<Rightarrow> risk_level \<Rightarrow> sandbox_policy" where
  "defaultSandboxPolicyForContext provider risk = createDefaultSandboxPolicy (sp_kind provider) risk None"

definition start_sandbox :: "'w service_options \<Rightarrow> string \<Rightarrow> 'w sandbox_provider \<Rightarrow> worker_work_record \<Rightarrow> runtime_context
    \<Rightarrow> policy_decision \<Rightarrow> 'w service \<Rightarrow> ('w service, sandbox_preparation) outcome" where
  "start_sandbox S leaseId provider work context decision =
     andThen (on_outside S (case so_sandboxPolicyProvider S of
         None \<Rightarrow> returns (defaultSandboxPolicyForContext provider (pd_risk decision)) | Some f \<Rightarrow> f work context)) (\<lambda>policy.
     andThen (emit_now S leaseId (runtime_event_of Rt_sandbox_requested
         (''Sandbox provider '' @ sp_id provider @ '' requested.'')
         [(''providerKind'', JStr (sandbox_kind_str (sp_kind provider))),
          (''runtimeProfileId'', JStr (rp_id (wx_runtimeProfile context))), (''risk'', JStr (risk_str (po_risk policy)))])) (\<lambda>_.
     andThen (on_outside S (sp_create provider
         \<lparr> sc_orgId = wi_orgId (wr_item work), sc_runId = wi_runId (wr_item work), sc_attempt = wi_attempt (wr_item work),
           sc_policy = policy, sc_traceId = wi_traceId (wr_item work) \<rparr>)) (\<lambda>lease.
     andThen (emit_now S leaseId (runtime_event_of Rt_sandbox_started (''Sandbox '' @ se_id lease @ '' started.'')
         [(''sandboxLeaseId'', JStr (se_id lease)), (''providerKind'', JStr (sandbox_kind_str (se_providerKind lease))),
          (''expiresAt'', JStr (toISOString (se_expiresAt lease)))])) (\<lambda>_.
     returns (Prepared \<lparr> sb_policy = policy, sb_lease = lease \<rparr>)))))"

definition createSandboxContext :: "'w service_options \<Rightarrow> string \<Rightarrow> worker_work_record \<Rightarrow> runtime_context \<Rightarrow> 'w service
    \<Rightarrow> ('w service, sandbox_preparation) outcome" where
  "createSandboxContext S leaseId work context =
     (case so_sandboxProvider S of
        None \<Rightarrow> returns No_sandbox
      | Some provider \<Rightarrow>
          if \<not> runtimeProfileRequiresSandbox (wx_runtimeProfile context) then returns No_sandbox
          else
            let decision = sandbox_decision provider context in
            if pd_decision decision = Deny then deny_sandbox S leaseId provider context decision
            else if pd_requiresApproval decision \<and> \<not> isApprovedSandboxExec work
            then ask_sandbox S leaseId provider work context decision
            else start_sandbox S leaseId provider work context decision)"

section \<open>Running an adapter\<close>

definition createRuntimeInput :: "worker_work_record \<Rightarrow> runtime_context \<Rightarrow> sandbox_context option \<Rightarrow> js_error + adapter_input" where
  "createRuntimeInput work context sandbox =
     (case createRuntimeEffectiveModelBudget work context of
        Inl e \<Rightarrow> Inl e
      | Inr budget \<Rightarrow> Inr
          \<lparr> rs_workItem = wr_item work, rs_run = wx_run context, rs_requester = wx_requester context,
            rs_place = wx_place context, rs_accessBundles = wx_accessBundles context,
            rs_modelPolicy = wx_modelPolicy context, rs_modelRoute = wx_modelRoute context,
            rs_effectiveModelBudget = Some budget, rs_runtimeProfile = wx_runtimeProfile context,
            rs_grants = wx_grants context, ai_sandbox = sandbox \<rparr>)"

text \<open>The activity of an adapter, with the approval remembered so far.\<close>

primrec perform :: "'w service_options \<Rightarrow> string \<Rightarrow> worker_work_record \<Rightarrow> runtime_context \<Rightarrow> 'w activity
    \<Rightarrow> approval_request option \<Rightarrow> 'w service \<Rightarrow> ('w service, runtime_result \<times> approval_request option) outcome" where
  "perform S leaseId work context (Emit event rest) = (\<lambda>remembered s.
     perform S leaseId work context rest remembered (awaiting S (snd (emit_now S leaseId event s))))"
| "perform S leaseId work context (Request_approval checkpoint rest) = (\<lambda>remembered s.
     let (r, s1) = requestApproval S leaseId work context checkpoint s in
     perform S leaseId work context (rest r) (case r of Inl _ \<Rightarrow> remembered | Inr approval \<Rightarrow> Some approval) (awaiting S s1))"
| "perform S leaseId work context (Outside act rest) = (\<lambda>remembered s.
     perform S leaseId work context (rest (sv_world s)) remembered (awaiting S (s\<lparr> sv_world := act (sv_world s) \<rparr>)))"
| "perform S leaseId work context (Finish r) = (\<lambda>remembered s.
     (case r of Inl e \<Rightarrow> Inl e | Inr result \<Rightarrow> Inr (result, remembered), s))"

definition start_adapter :: "'w service_options \<Rightarrow> 'w runtime_adapter \<Rightarrow> string \<Rightarrow> worker_work_record \<Rightarrow> runtime_context
    \<Rightarrow> sandbox_context option \<Rightarrow> 'w service \<Rightarrow> ('w service, runtime_result \<times> approval_request option) outcome" where
  "start_adapter S adapter leaseId work context sandbox =
     andThen (lift_sum (createRuntimeInput work context sandbox)) (\<lambda>input.
     andThen (emit_now S leaseId (runtime_event_of Rt_runtime_selected
         (''Selected runtime adapter '' @ ra_id adapter @ ''.'')
         ([(''adapterId'', JStr (ra_id adapter)), (''runtimeKind'', JStr (runtime_kind_str (ra_kind adapter)))]
          @ modelRouteEventData (wx_modelRoute context)))) (\<lambda>_.
     andThen (if wi_reason (wr_item work) = Reason_approval_granted
         then andThen (resolveResumeApproval S work context) (\<lambda>approval.
                perform S leaseId work context (ra_resume adapter input approval) None)
         else perform S leaseId work context (ra_start adapter input) None) (\<lambda>(result, approval).
     if rr_status result = Res_awaiting_approval \<and> approval = None
     then lift_sum (Inl (Error ''Runtime returned awaiting_approval without requesting approval.''))
     else returns (result, approval))))"

text \<open>With no executor of pull requests configured, this only resolves the approval of resumed work.\<close>

definition executeApprovedGitHubPullRequestIfConfigured :: "'w service_options \<Rightarrow> worker_work_record \<Rightarrow> runtime_context
    \<Rightarrow> 'w service \<Rightarrow> ('w service, unit) outcome" where
  "executeApprovedGitHubPullRequestIfConfigured S work context =
     (if wi_reason (wr_item work) \<noteq> Reason_approval_granted then returns ()
      else andThen (resolveResumeApproval S work context) (\<lambda>_. returns ()))"

definition run_in_sandbox :: "'w service_options \<Rightarrow> 'w runtime_adapter \<Rightarrow> string \<Rightarrow> worker_work_record \<Rightarrow> runtime_context
    \<Rightarrow> sandbox_preparation \<Rightarrow> 'w service \<Rightarrow> ('w service, runtime_result \<times> approval_request option) outcome" where
  "run_in_sandbox S adapter leaseId work context preparation =
     (case preparation of
        Ended result approval \<Rightarrow> returns (result, approval)
      | No_sandbox \<Rightarrow> start_adapter S adapter leaseId work context None
      | Prepared sandbox \<Rightarrow>
          finally_do (start_adapter S adapter leaseId work context (Some sandbox))
            (case so_sandboxProvider S of
               None \<Rightarrow> returns () | Some provider \<Rightarrow> on_outside S (sp_destroy provider (sb_lease sandbox))))"

definition runAdapter :: "'w service_options \<Rightarrow> 'w runtime_adapter \<Rightarrow> string \<Rightarrow> worker_work_record \<Rightarrow> runtime_context
    \<Rightarrow> 'w service \<Rightarrow> ('w service, runtime_result \<times> approval_request option) outcome" where
  "runAdapter S adapter leaseId work context =
     andThen (executeApprovedGitHubPullRequestIfConfigured S work context) (\<lambda>_ s0.
     andThen (lift_sum (runtimeBudgetGuardDecision context)) (\<lambda>decision.
     andThen (emitBudgetCheckedEvent S leaseId (wx_modelRoute context) decision) (\<lambda>_.
     andThen (createBudgetApprovalIfOverLimit S leaseId work context decision) (\<lambda>budgetApproval.
     case budgetApproval of
       Some approval \<Rightarrow> returns (budgetBlockedResult (wx_modelRoute context), Some approval)
     | None \<Rightarrow>
         andThen (createSandboxContext S leaseId work context) (\<lambda>preparation s.
           run_in_sandbox S adapter leaseId work context preparation (awaiting S s))))) (awaiting S s0))"

section \<open>Processing\<close>

fun errorMessage :: "js_error \<Rightarrow> string" where
  "errorMessage (Error m) = m"
| "errorMessage (RangeError m) = m"
| "errorMessage (TypeError m) = m"

definition runtimeFailureResult :: "js_error \<Rightarrow> runtime_result" where
  "runtimeFailureResult e = failed_result (errorMessage e)"

datatype cancellation =
    Continue_with runtime_result "approval_request option"
  | Lost_lease string

definition cancelled_result :: "runtime_result \<Rightarrow> string \<Rightarrow> runtime_result" where
  "cancelled_result output reason =
     \<lparr> rr_status = Res_cancelled, rr_finalText = None, rr_artifactRefs = [],
       rr_actualCostCents = rr_actualCostCents output, rr_error = Some reason \<rparr>"

definition coerceCancelledResult :: "'w service_options \<Rightarrow> 'w runtime_adapter \<Rightarrow> worker_lease \<Rightarrow> worker_work_record
    \<Rightarrow> runtime_result \<times> approval_request option \<Rightarrow> 'w service \<Rightarrow> ('w service, cancellation) outcome" where
  "coerceCancelledResult S adapter lease work output =
     andThen (service_time S None) (\<lambda>now.
     andThen (on_queue (heartbeat (so_queue S) \<lparr> hbi_leaseId = wl_id lease, hbi_extendByMs = None, hbi_now = Some now \<rparr>)) (\<lambda>beat.
       case beat of
         Hb_continue _ _ \<Rightarrow> returns (Continue_with (fst output) (snd output))
       | Hb_cancel reason _ \<Rightarrow>
           andThen (on_outside S (ra_cancel adapter (wi_runId (wr_item work)))) (\<lambda>_.
           returns (Continue_with (cancelled_result (fst output) reason) None))
       | Hb_lost_lease reason \<Rightarrow> returns (Lost_lease reason)
       | Hb_not_found reason \<Rightarrow> returns (Lost_lease reason)))"

definition settle_with :: "'w service_options \<Rightarrow> iso_date option \<Rightarrow> worker_lease \<Rightarrow> runtime_result
    \<Rightarrow> approval_request option \<Rightarrow> 'w service \<Rightarrow> ('w service, settle_decision) outcome" where
  "settle_with S given lease result approval =
     andThen (service_time S given) (\<lambda>now. on_queue (settle (so_queue S)
       \<lparr> sei_leaseId = wl_id lease, sei_result = result, sei_approval = approval, sei_now = Some now \<rparr>))"

text \<open>The body of the \<open>try\<close> once the adapter is known.\<close>

definition process_with :: "'w service_options \<Rightarrow> iso_date option \<Rightarrow> worker_lease \<Rightarrow> worker_work_record \<Rightarrow> runtime_context
    \<Rightarrow> 'w runtime_adapter \<Rightarrow> 'w service \<Rightarrow> ('w service, process_decision) outcome" where
  "process_with S given lease work context adapter =
     andThen (runAdapter S adapter (wl_id lease) work context) (\<lambda>output s.
     andThen (coerceCancelledResult S adapter lease work output) (\<lambda>c s.
       case c of
         Lost_lease reason \<Rightarrow> (Inr (Process_lost_lease lease work reason), awaiting S s)
       | Continue_with result approval \<Rightarrow>
           andThen (settle_with S given lease result approval) (\<lambda>settlement.
           returns (Processed (ra_id adapter) lease work result settlement)) (awaiting S s)) (awaiting S s))"

text \<open>The \<open>try\<close>: the id of the adapter, as far as it is known, and the outcome.\<close>

definition try_process :: "'w service_options \<Rightarrow> iso_date option \<Rightarrow> worker_lease \<Rightarrow> worker_work_record \<Rightarrow> bek_snapshot
    \<Rightarrow> 'w service \<Rightarrow> string \<times> ('w service, process_decision) outcome" where
  "try_process S given lease work snapshot s =
     (case resolveRuntimeContext S work snapshot of
        Inl e \<Rightarrow> (''unresolved'', Inl e, s)
      | Inr context \<Rightarrow>
          (case selectAdapter S (wx_runtimeProfile context) of
             Inl e \<Rightarrow> (''unresolved'', Inl e, s)
           | Inr adapter \<Rightarrow> (ra_id adapter, process_with S given lease work context adapter s)))"

definition processNext :: "'w service_options \<Rightarrow> process_input \<Rightarrow> 'w service \<Rightarrow> ('w service, process_decision) outcome" where
  "processNext S input =
     andThen (service_time S (pi_now input)) (\<lambda>now.
     andThen (on_queue (claimNext (so_queue S)
         \<lparr> cli_workerId = or_else (pi_workerId input) (so_workerId S), cli_leaseMs = or_else (pi_leaseMs input) (so_leaseMs S),
           cli_now = Some now \<rparr>)) (\<lambda>claim.
       case claim of
         No_available_work \<Rightarrow> returns Process_empty
       | Claimed lease work \<Rightarrow> (\<lambda>s.
           case so_state S (sv_world s) of
             Inl e \<Rightarrow> (Inl e, s)
           | Inr snapshot \<Rightarrow>
               (case try_process S (pi_now input) lease work snapshot s of
                  (_, Inr d, s1) \<Rightarrow> (Inr d, s1)
                | (adapterId, Inl e, s1) \<Rightarrow>
                    andThen (settle_with S (pi_now input) lease (runtimeFailureResult e) None) (\<lambda>settlement.
                    returns (Processed adapterId lease work (runtimeFailureResult e) settlement)) s1))))"

datatype stopped_reason = Stopped_empty | Stopped_lost_lease | Stopped_max_items

record drain_result =
  dr_processed :: nat
  dr_decisions :: "process_decision list"
  dr_stoppedReason :: stopped_reason

fun drain_loop :: "'w service_options \<Rightarrow> process_input \<Rightarrow> nat \<Rightarrow> nat \<Rightarrow> process_decision list \<Rightarrow> 'w service
    \<Rightarrow> ('w service, drain_result) outcome" where
  "drain_loop S input 0 processed decisions s =
     (Inr \<lparr> dr_processed = processed, dr_decisions = decisions, dr_stoppedReason = Stopped_max_items \<rparr>, s)"
| "drain_loop S input (Suc n) processed decisions s =
     (case processNext S input s of
        (Inl e, s1) \<Rightarrow> (Inl e, s1)
      | (Inr d, s1) \<Rightarrow>
          (let s2 = awaiting S s1; ds = decisions @ [d] in
           case d of
             Process_empty \<Rightarrow> (Inr \<lparr> dr_processed = processed, dr_decisions = ds, dr_stoppedReason = Stopped_empty \<rparr>, s2)
           | Process_lost_lease _ _ _ \<Rightarrow>
               (Inr \<lparr> dr_processed = processed, dr_decisions = ds, dr_stoppedReason = Stopped_lost_lease \<rparr>, s2)
           | Processed _ _ _ _ _ \<Rightarrow> drain_loop S input n (processed + 1) ds s2))"

definition drain :: "'w service_options \<Rightarrow> process_input \<Rightarrow> int option \<Rightarrow> 'w service \<Rightarrow> ('w service, drain_result) outcome" where
  "drain S input maxItems s =
     (if or_else maxItems 100 < 1 then (Inl (Error ''maxItems must be at least 1.''), s)
      else drain_loop S input (nat (or_else maxItems 100)) 0 [] s)"

end
