(* ===== verification/Worker_Adapters.thy ===== *)
theory Worker_Adapters
  imports Worker_Service
begin

text \<open>
  The adapters of \<open>packages/worker/src/index.ts\<close>: the deterministic local one, the model gateway, the
  agent loop and the sandbox, each as the activity it performs. The gateway, the tool proxy, the
  generation of the agent and the sandbox provider act on the outside and are parameters. The
  events of the agent loop are emitted once it has ended.
\<close>

section \<open>Activities\<close>

text \<open>An awaited call of the outside; what it throws ends the adapter.\<close>

definition calling :: "('w \<Rightarrow> ('w, 'a) outcome) \<Rightarrow> ('a \<Rightarrow> 'w activity) \<Rightarrow> 'w activity" where
  "calling m rest = Outside (\<lambda>w. snd (m w)) (\<lambda>w. case fst (m w) of Inl e \<Rightarrow> Finish (Inl e) | Inr x \<Rightarrow> rest x)"

text \<open>An approval that is requested and awaited; a thrown error ends the adapter.\<close>

definition asking :: "approval_checkpoint \<Rightarrow> 'w activity \<Rightarrow> 'w activity" where
  "asking checkpoint rest = Request_approval checkpoint (\<lambda>r. case r of Inl e \<Rightarrow> Finish (Inl e) | Inr _ \<Rightarrow> rest)"

definition finished :: "runtime_result \<Rightarrow> 'w activity" where
  "finished result = Finish (Inr result)"

definition bare_event :: "runtime_event_type \<Rightarrow> string \<Rightarrow> runtime_event" where
  "bare_event kind message = \<lparr> re_type = kind, re_message = message, re_data = None \<rparr>"

definition completed_result :: "string \<Rightarrow> runtime_artifact_ref list \<Rightarrow> int \<Rightarrow> runtime_result" where
  "completed_result answer artifacts cost =
     \<lparr> rr_status = Res_completed, rr_finalText = Some answer, rr_artifactRefs = artifacts, rr_actualCostCents = cost,
       rr_error = None \<rparr>"

definition failed_costing :: "int \<Rightarrow> string \<Rightarrow> runtime_result" where
  "failed_costing cost message = (failed_result message)\<lparr> rr_actualCostCents := cost \<rparr>"

definition canRun_as :: "string \<Rightarrow> runtime_kind \<Rightarrow> runtime_profile \<Rightarrow> bool" where
  "canRun_as ident kind profile \<longleftrightarrow> rp_runtimeKind profile = kind \<and> rp_adapter profile = ident"

definition no_cancel :: "string \<Rightarrow> 'w \<Rightarrow> ('w, unit) outcome" where
  "no_cancel runId = returns ()"

definition at_least_one :: "'a start_input_scheme \<Rightarrow> int" where
  "at_least_one input = max 1 (run_estimatedCostCents (rs_run input))"

section \<open>The deterministic local adapter\<close>

definition approval_word :: "string \<Rightarrow> bool" where
  "approval_word = rx_test (rx_seq [WordB, lit_i ''approval'', WordB])"

record local_options =
  lp_id :: "string option"
  lp_kind :: "runtime_kind option"
  lp_approvalPromptPattern :: "(string \<Rightarrow> bool) option"

definition localFinalText :: "'a start_input_scheme \<Rightarrow> string" where
  "localFinalText input =
     ''Bek local worker completed '' @ run_id (rs_run input) @ '' with '' @ rp_adapter (rs_runtimeProfile input) @ ''.''"

definition local_start :: "string \<Rightarrow> (string \<Rightarrow> bool) \<Rightarrow> adapter_input \<Rightarrow> 'w activity" where
  "local_start ident asks input =
     Emit (runtime_event_of Rt_runtime_started (''Local runtime '' @ ident @ '' started.'')
       [(''reason'', JStr (work_reason_str (wi_reason (rs_workItem input))))])
     (if asks (run_prompt (rs_run input)) then
        asking \<lparr> ck_kind = Check_external_write, ck_action = ''local.approval'',
            ck_resource = ''run:'' @ run_id (rs_run input), ck_risk = Write_external,
            ck_payload = JObj [(''runId'', JStr (run_id (rs_run input))), (''prompt'', JStr (run_prompt (rs_run input))),
              (''adapterId'', JStr ident)] \<rparr>
          (finished (loop_result Res_awaiting_approval None 1 None))
      else
        Emit (runtime_event_of Rt_model_requested (''Local model route '' @ rt_model (rs_modelRoute input) @ '' requested.'')
            (modelRouteEventData (rs_modelRoute input)))
        (Emit (bare_event Rt_model_completed ''Local model response completed.'')
        (Emit (bare_event Rt_runtime_completed (''Local runtime '' @ ident @ '' completed.''))
        (finished (completed_result (localFinalText input) [] (at_least_one input))))))"

definition local_resume :: "string \<Rightarrow> adapter_input \<Rightarrow> approval_request \<Rightarrow> 'w activity" where
  "local_resume ident input approval =
     Emit (runtime_event_of Rt_tool_approved (''Approval '' @ ap_id approval @ '' accepted by local runtime.'')
       [(''approvalId'', JStr (ap_id approval))])
     (Emit (bare_event Rt_runtime_completed (''Local runtime '' @ ident @ '' resumed and completed.''))
     (finished (completed_result (localFinalText input) [] (at_least_one input))))"

definition createDeterministicLocalRuntimeAdapter :: "local_options \<Rightarrow> 'w runtime_adapter" where
  "createDeterministicLocalRuntimeAdapter options =
     (let ident = or_else (lp_id options) ''ai-sdk-local-stub''; kind = or_else (lp_kind options) Ai_sdk in
      \<lparr> ra_id = ident, ra_kind = kind, ra_canRun = canRun_as ident kind,
        ra_start = local_start ident (or_else (lp_approvalPromptPattern options) approval_word),
        ra_resume = local_resume ident, ra_cancel = no_cancel \<rparr>)"

definition local_adapter :: "string \<Rightarrow> runtime_kind \<Rightarrow> 'w runtime_adapter" where
  "local_adapter ident kind = createDeterministicLocalRuntimeAdapter
     \<lparr> lp_id = Some ident, lp_kind = Some kind, lp_approvalPromptPattern = None \<rparr>"

definition createDeterministicLocalRuntimeAdapters :: "'w runtime_adapter list" where
  "createDeterministicLocalRuntimeAdapters =
     [local_adapter ''ai-sdk-local-stub'' Ai_sdk, local_adapter ''opencode-sandbox'' Opencode,
      local_adapter ''langgraph-local-stub'' Langgraph, local_adapter ''external-local-stub'' External_runtime]"

definition deterministicLocalToolProxy :: "tool_request \<Rightarrow> tool_result" where
  "deterministicLocalToolProxy request =
     \<lparr> tr_ok = True,
       tr_output = Some (JObj [(''deterministic'', JBool True), (''tool'', JStr (tq_name request)),
         (''capability'', JStr (capability_str (gr_capability (tq_grant request)))), (''input'', JObj (tq_input request))]),
       tr_error = None, tr_artifactRefs = None \<rparr>"

section \<open>The model gateway\<close>

record 'w gateway_options =
  go_id :: "string option"
  go_kind :: "runtime_kind option"
  go_gateway :: "'w \<Rightarrow> gateway_request \<Rightarrow> gateway_reply \<times> 'w"
  go_modelRoutingMode :: "route_mode option"
  go_registry :: "provider_registry option"
  go_benchmarks :: "model_benchmark list option"
  go_gatewayContext :: "gateway_context option"
  go_gatewayTags :: "string list option"

definition createGatewayRunContext :: "'a start_input_scheme \<Rightarrow> 'w gateway_options \<Rightarrow> gateway_context" where
  "createGatewayRunContext input options =
     \<lparr> gx_orgId = Some (or_else (Option.bind (go_gatewayContext options) gx_orgId) (run_orgId (rs_run input))),
       gx_requesterId = Some (or_else (Option.bind (go_gatewayContext options) gx_requesterId) (pr_id (rs_requester input))),
       gx_traceId = Some (or_else (Option.bind (go_gatewayContext options) gx_traceId) (wi_traceId (rs_workItem input))),
       gx_tags = Some (or_else (Option.bind (go_gatewayContext options) gx_tags) [] @ or_else (go_gatewayTags options) []) \<rparr>"

text \<open>Costs are integers here; \<open>Number.isFinite\<close> holds for them.\<close>

definition normalizeGatewayActualCostCents :: "int \<Rightarrow> int \<Rightarrow> int" where
  "normalizeGatewayActualCostCents actual fallback =
     (if 0 < actual then actual else max 1 (normalizeEstimatedCostCents fallback))"

fun attempt_status_str :: "attempt_status \<Rightarrow> string" where
  "attempt_status_str Attempt_succeeded = ''succeeded''"
| "attempt_status_str Attempt_failed = ''failed''"
| "attempt_status_str Attempt_skipped = ''skipped''"

definition attempt_data :: "failover_attempt \<Rightarrow> json" where
  "attempt_data a =
     JObj [(''provider'', JStr (mo_provider (fa_route a))), (''model'', JStr (mo_model (fa_route a))),
       (''status'', JStr (attempt_status_str (fa_status a))),
       (''retryable'', case fa_retryable a of None \<Rightarrow> JUndef | Some b \<Rightarrow> JBool b)]"

definition gateway_input :: "'w gateway_options \<Rightarrow> adapter_input \<Rightarrow> failover_input" where
  "gateway_input options input =
     \<lparr> si_policy = rs_modelPolicy input, si_mode = go_modelRoutingMode options,
       si_estimatedInputTokens = map_option rb_estimatedInputTokens (rt_budget (rs_modelRoute input)),
       si_estimatedOutputTokens = map_option rb_estimatedOutputTokens (rt_budget (rs_modelRoute input)),
       si_benchmarks = go_benchmarks options, si_registry = go_registry options,
       fi_runId = run_id (rs_run input),
       fi_prompt = buildRuntimeRunPrompt (rs_run input) (rs_requester input) (rs_place input),
       fi_context = Some (createGatewayRunContext input options), fi_createdAt = None,
       fi_requireKnownPricing = Some (rs_effectiveModelBudget input \<noteq> None),
       fi_effectiveBudgetCents = map_option ef_budgetCents (rs_effectiveModelBudget input),
       fi_approvedOverBudgetRoute = Option.bind (rs_effectiveModelBudget input) ef_approvedOverBudgetRoute \<rparr>"

definition gateway_failed :: "failover_result \<Rightarrow> 'w activity" where
  "gateway_failed result =
     Emit (runtime_event_of Rt_model_completed ''AI SDK Gateway model call failed.''
       ([(''status'', JStr ''failed'')] @ opt_entry ''error'' (fr_error result)
        @ [(''attempts'', JArr (map attempt_data (fr_attempts result)))]))
     (finished (failed_result (or_else (fr_error result) ''AI SDK Gateway model call failed.'')))"

definition gateway_answered :: "string \<Rightarrow> adapter_input \<Rightarrow> failover_result \<Rightarrow> gateway_response \<Rightarrow> 'w activity" where
  "gateway_answered ident input result response =
     (let estimated = max (max (normalizeEstimatedCostCents (case fr_route result of None \<Rightarrow> 0 | Some r \<Rightarrow> mo_estimatedCostCents r))
            (normalizeEstimatedCostCents (or_else (rt_estimatedCostCents (rs_modelRoute input)) 0)))
            (normalizeEstimatedCostCents (run_estimatedCostCents (rs_run input)));
          actual = normalizeGatewayActualCostCents (gp_costCents response) estimated
      in Emit (runtime_event_of Rt_model_completed ''AI SDK Gateway model response completed.''
           ([(''status'', JStr ''succeeded''), (''provider'', JStr (gp_provider response)), (''model'', JStr (gp_model response)),
             (''usage'', JObj [(''input'', JNum (gp_inputTokens response)), (''output'', JNum (gp_outputTokens response)),
                (''total'', JNum (gp_inputTokens response + gp_outputTokens response))]),
             (''estimatedCostCents'', JNum estimated), (''actualCostCents'', JNum actual),
             opt_num ''latencyMs'' (gp_latencyMs response), opt_str ''finishReason'' (gp_finishReason response),
             opt_str ''rawFinishReason'' (gp_rawFinishReason response),
             opt_str ''gatewayResponseId'' (gp_gatewayResponseId response),
             (''attempts'', JArr (map attempt_data (fr_attempts result)))]))
         (Emit (bare_event Rt_runtime_completed (''AI SDK Gateway runtime '' @ ident @ '' completed.''))
         (finished (completed_result (gp_content response) [] actual))))"

text \<open>\<open>clock\<close> is what the ledger of the call reads as the current time.\<close>

definition gateway_run :: "iso_date \<Rightarrow> string \<Rightarrow> 'w gateway_options \<Rightarrow> adapter_input \<Rightarrow> 'w activity" where
  "gateway_run clock ident options input =
     Emit (runtime_event_of Rt_runtime_started (''AI SDK Gateway runtime '' @ ident @ '' started.'')
       [(''reason'', JStr (work_reason_str (wi_reason (rs_workItem input))))])
     (Emit (runtime_event_of Rt_model_requested (''AI SDK Gateway route '' @ rt_model (rs_modelRoute input) @ '' requested.'')
       (modelRouteEventData (rs_modelRoute input)
        @ [(''promptEnvelope'', JStr ''bek-untrusted-content-v1''), (''promptSource'', JStr (trigger_str (run_trigger (rs_run input))))]))
     (calling (\<lambda>w. case runModelWithFailover (go_gateway options) clock (gateway_input options input) [] w of
           Inl e \<Rightarrow> (Inl e, w) | Inr (result, _, w') \<Rightarrow> (Inr result, w')) (\<lambda>result.
        case fr_response result of
          None \<Rightarrow> gateway_failed result
        | Some response \<Rightarrow> if fr_ok result then gateway_answered ident input result response else gateway_failed result)))"

definition createAiSdkGatewayRuntimeAdapter :: "iso_date \<Rightarrow> 'w gateway_options \<Rightarrow> 'w runtime_adapter" where
  "createAiSdkGatewayRuntimeAdapter clock options =
     (let ident = or_else (go_id options) ''ai-sdk-local-stub''; kind = or_else (go_kind options) Ai_sdk in
      \<lparr> ra_id = ident, ra_kind = kind, ra_canRun = canRun_as ident kind, ra_start = gateway_run clock ident options,
        ra_resume = (\<lambda>input _. gateway_run clock ident options input), ra_cancel = no_cancel \<rparr>)"

section \<open>The agent loop\<close>

record 'w agent_options =
  ao_id :: "string option"
  ao_kind :: "runtime_kind option"
  ao_generate :: "generate_params \<Rightarrow> generation"
  ao_tools :: "'w \<Rightarrow> tool_request \<Rightarrow> (string + tool_result) \<times> 'w"
  ao_registry :: "provider_registry option"
  ao_benchmarks :: "model_benchmark list option"
  ao_timeoutMs :: "int option"

definition priceUsageCents :: "'w agent_options \<Rightarrow> runtime_model_route \<Rightarrow> model_usage option \<Rightarrow> int" where
  "priceUsageCents options route usage =
     calculateModelUsageCostCents
       (case Option.bind (ao_benchmarks options) (List.find (\<lambda>b. bm_model b = rt_model route)) of
          Some b \<Rightarrow> Some b
        | None \<Rightarrow> Option.bind (Option.bind (ao_registry options) (\<lambda>r. resolveModel r (rt_model route))) rm_benchmark)
       (or_else (Option.bind usage mu_inputTokens) 0) (or_else (Option.bind usage mu_outputTokens) 0)"

definition agent_loop_options :: "'w agent_options \<Rightarrow> (capability_grant \<Rightarrow> bool) \<Rightarrow> 'a start_input_scheme \<Rightarrow> loop_options" where
  "agent_loop_options options isApproved input =
     \<lparr> lo_timeout = Some (or_else (ao_timeoutMs options) 120000),
       lo_priceUsageCents = Some (\<lambda>usage. Some (of_int (priceUsageCents options (rs_modelRoute input) usage))),
       lo_isApproved = Some isApproved, lo_identity = None \<rparr>"

fun emit_all :: "runtime_event list \<Rightarrow> 'w activity \<Rightarrow> 'w activity" where
  "emit_all [] rest = rest"
| "emit_all (e # es) rest = Emit e (emit_all es rest)"

text \<open>A checkpoint is requested before the last event, that of the suspension.\<close>

definition agent_tail :: "runtime_event list \<Rightarrow> approval_checkpoint list \<Rightarrow> runtime_result \<Rightarrow> 'w activity" where
  "agent_tail events checkpoints result =
     (case checkpoints of
        [] \<Rightarrow> emit_all events (finished result)
      | checkpoint # _ \<Rightarrow>
          emit_all (butlast events) (asking checkpoint (emit_all (drop (length events - 1) events) (finished result))))"

definition agent_run :: "'w agent_options \<Rightarrow> (capability_grant \<Rightarrow> bool) \<Rightarrow> adapter_input \<Rightarrow> 'w activity" where
  "agent_run options isApproved input =
     (let run = runBekAgentLoop (ao_tools options) (ao_generate options) (agent_loop_options options isApproved input)
            (start_input.truncate input)
      in Outside (\<lambda>w. as_world (snd (run w))) (\<lambda>w.
           agent_tail (as_events (snd (run w))) (as_checkpoints (snd (run w))) (fst (run w))))"

definition createAiSdkAgentRuntimeAdapter :: "'w agent_options \<Rightarrow> 'w runtime_adapter" where
  "createAiSdkAgentRuntimeAdapter options =
     (let ident = or_else (ao_id options) ''ai-sdk-agent''; kind = or_else (ao_kind options) Ai_sdk in
      \<lparr> ra_id = ident, ra_kind = kind, ra_canRun = canRun_as ident kind,
        ra_start = agent_run options (\<lambda>_. False), ra_resume = (\<lambda>input _. agent_run options (\<lambda>_. True) input),
        ra_cancel = no_cancel \<rparr>)"

section \<open>The sandbox\<close>

record 'w sandbox_options =
  xo_id :: "string option"
  xo_kind :: "runtime_kind option"
  xo_provider :: "'w sandbox_provider"
  xo_command :: "string list option"
  xo_cwd :: "string option"
  xo_artifactPath :: "string option"
  xo_networkTargets :: "string list option"
  xo_url :: url_parser
  xo_fraction :: "rat \<Rightarrow> string"

definition filesystemPolicyFromMounts :: "sandbox_mount list \<Rightarrow> filesystem_policy option" where
  "filesystemPolicyFromMounts mounts =
     (let target = (\<lambda>purpose. map_option sm_target (List.find (\<lambda>m. sm_purpose m = purpose) mounts));
          worktree = target Mount_worktree; artifact = target Mount_artifact
      in if worktree = None \<and> artifact = None then None
         else Some \<lparr> fp_sourceRoot = or_else (target Mount_source) ''/__bek_no_source_root__'',
                fp_worktreeRoot = or_else worktree (or_else artifact []),
                fp_artifactRoot = or_else artifact (or_else worktree []), fp_maxWriteBytes = None \<rparr>)"

definition truncateForWorkerOutput :: "string \<Rightarrow> string" where
  "truncateForWorkerOutput v = (if 4000 < length v then take 4000 v @ ''...'' else v)"

definition paragraph_break :: string where
  "paragraph_break = [newline, newline]"

definition sandboxFinalText :: "sandbox_result \<Rightarrow> string" where
  "sandboxFinalText result =
     (let out = redactSecrets (js_trim (sr_stdout result)); err = redactSecrets (js_trim (sr_stderr result)) in
      if out \<noteq> [] then ''Sandbox command completed.'' @ paragraph_break @ truncateForWorkerOutput out
      else if err \<noteq> [] then ''Sandbox command completed with no stdout.'' @ paragraph_break @ truncateForWorkerOutput err
      else ''Sandbox command completed with exit code '' @ int_str (sr_exitCode result) @ ''.'')"

definition sandboxError :: "sandbox_result \<Rightarrow> string" where
  "sandboxError result =
     (let err = js_trim (sr_stderr result); out = js_trim (sr_stdout result);
          output = redactSecrets (if err \<noteq> [] then err else if out \<noteq> [] then out else ''Sandbox returned no output.'');
          reason = (if sr_timedOut result then ''Sandbox command timed out.''
                    else ''Sandbox command exited with code '' @ int_str (sr_exitCode result) @ ''.'')
      in reason @ '' '' @ truncateForWorkerOutput output)"

fun warning_kind_str :: "warning_kind \<Rightarrow> string" where
  "warning_kind_str Clamped_low = ''clamped_low''"
| "warning_kind_str Clamped_high = ''clamped_high''"
| "warning_kind_str Defaulted_invalid = ''defaulted_invalid''"

fun egress_reason_str :: "egress_reason \<Rightarrow> string" where
  "egress_reason_str Egress_network_disabled = ''network_disabled''"
| "egress_reason_str Egress_not_allowlisted = ''not_allowlisted''"
| "egress_reason_str Egress_metadata_blocked = ''metadata_blocked''"
| "egress_reason_str Egress_private_network_blocked = ''private_network_blocked''"
| "egress_reason_str Egress_localhost_blocked = ''localhost_blocked''"
| "egress_reason_str Egress_invalid_target = ''invalid_target''"
| "egress_reason_str Egress_allowlisted = ''allowlisted''"

fun number_json :: "(rat \<Rightarrow> string) \<Rightarrow> Sandbox_Policy.js_number \<Rightarrow> json" where
  "number_json T (Sandbox_Policy.Finite v) = (if of_int \<lfloor>v\<rfloor> = v then JNum \<lfloor>v\<rfloor> else JReal (T v))"
| "number_json T (Nonfinite t) = JReal t"

definition policy_limit_request :: "sandbox_policy \<Rightarrow> limit_request" where
  "policy_limit_request policy =
     (\<lambda>field. case field of
        Cpu_count \<Rightarrow> Some (sl_cpuCount (po_resourceLimits policy))
      | Memory_mb \<Rightarrow> Some (sl_memoryMb (po_resourceLimits policy))
      | Disk_mb \<Rightarrow> Some (sl_diskMb (po_resourceLimits policy))
      | Process_limit \<Rightarrow> Some (sl_processLimit (po_resourceLimits policy))
      | Timeout_ms \<Rightarrow> Some (sl_timeoutMs (po_resourceLimits policy))
      | _ \<Rightarrow> None)"

definition warn_limits :: "string \<Rightarrow> (rat \<Rightarrow> string) \<Rightarrow> limit_warning list \<Rightarrow> 'w activity \<Rightarrow> 'w activity" where
  "warn_limits ident T warnings rest =
     (if warnings = [] then rest
      else Emit (runtime_event_of Rt_sandbox_started
          (''Sandbox runtime '' @ ident @ '' clamped '' @ nat_str (length warnings) @ '' resource limit(s) to policy ceilings.'')
          [(''warnings'', JArr (map (\<lambda>w. JObj [(''field'', JStr (field_name (lw_field w))),
             (''requested'', number_json T (lw_requested w)), (''applied'', number_json T (Sandbox_Policy.Finite (lw_applied w))),
             (''kind'', JStr (warning_kind_str (lw_kind w)))]) warnings))]) rest)"

definition blocked_egress :: "string \<Rightarrow> string \<Rightarrow> egress_decision \<Rightarrow> 'w activity" where
  "blocked_egress ident target e =
     Emit (runtime_event_of Rt_sandbox_network_changed
       (''Sandbox runtime '' @ ident @ '' blocked egress to '' @ target @ '': '' @ eg_message e)
       ([(''target'', JStr target), (''reason'', JStr (egress_reason_str (eg_reason e)))]
        @ present ''host'' (eg_host e) JStr @ present ''port'' (eg_port e) (\<lambda>p. JNum (int p))))
     (finished (failed_costing 1 (''Sandbox egress denied for '' @ target @ '': '' @ eg_message e)))"

fun check_egress :: "'w sandbox_options \<Rightarrow> string \<Rightarrow> network_policy \<Rightarrow> string list \<Rightarrow> 'w activity \<Rightarrow> 'w activity" where
  "check_egress options ident network [] rest = rest"
| "check_egress options ident network (target # targets) rest =
     (let e = evaluateEgressPolicy (xo_url options) network target None in
      if eg_allowed e then check_egress options ident network targets rest else blocked_egress ident target e)"

definition check_paths :: "'w sandbox_options \<Rightarrow> string \<Rightarrow> sandbox_policy \<Rightarrow> 'w activity \<Rightarrow> 'w activity" where
  "check_paths options cwd policy rest =
     (case filesystemPolicyFromMounts (po_mounts policy) of
        None \<Rightarrow> rest
      | Some fs \<Rightarrow>
          let c = evaluateFilesystemAccess fs cwd (Some Access_write) None in
          if \<not> fd_allowed c
          then finished (failed_costing 1 (''Sandbox working directory '' @ cwd @ '' denied: '' @ filesystem_decision.fd_message c))
          else case xo_artifactPath options of
            None \<Rightarrow> rest
          | Some path \<Rightarrow>
              if path = [] then rest
              else let a = evaluateFilesystemAccess fs path (Some Access_read) None in
                if \<not> fd_allowed a
                then finished (failed_costing 1 (''Sandbox artifact path '' @ path @ '' denied: '' @ filesystem_decision.fd_message a))
                else rest)"

definition artifact_ref :: "'a start_input_scheme \<Rightarrow> sandbox_artifact \<Rightarrow> runtime_artifact_ref" where
  "artifact_ref input artifact =
     \<lparr> runtime_artifact_ref.ar_id = ''sandbox_artifact_'' @ wi_runId (rs_workItem input) @ ''_'' @ int_str (wi_attempt (rs_workItem input)),
       ar_kind = Art_summary, ar_contentHash = sf_contentHash artifact, ar_sizeBytes = int (sf_sizeBytes artifact),
       ar_uri = Some (''sandbox:'' @ sf_path artifact) \<rparr>"

definition sandbox_done :: "string \<Rightarrow> 'a start_input_scheme \<Rightarrow> sandbox_result \<Rightarrow> runtime_artifact_ref list \<Rightarrow> 'w activity" where
  "sandbox_done ident input result artifacts =
     Emit (bare_event Rt_runtime_completed (''Sandbox runtime '' @ ident @ '' completed.''))
       (finished (completed_result (sandboxFinalText result) artifacts (at_least_one input)))"

definition collect_artifact :: "'w sandbox_options \<Rightarrow> string \<Rightarrow> sandbox_lease \<Rightarrow> 'a start_input_scheme \<Rightarrow> sandbox_result
    \<Rightarrow> 'w activity" where
  "collect_artifact options ident lease input result =
     (case xo_artifactPath options of
        None \<Rightarrow> sandbox_done ident input result []
      | Some path \<Rightarrow>
          if path = [] then sandbox_done ident input result []
          else calling (sp_download (xo_provider options) lease path) (\<lambda>artifact.
            Emit (runtime_event_of Rt_sandbox_artifact_created (''Sandbox artifact '' @ sf_path artifact @ '' collected.'')
              [(''artifactId'', JStr (runtime_artifact_ref.ar_id (artifact_ref input artifact))),
               (''contentHash'', JStr (sf_contentHash artifact)), (''sizeBytes'', JNum (int (sf_sizeBytes artifact)))])
            (sandbox_done ident input result [artifact_ref input artifact])))"

definition sandbox_command_of :: "string list \<Rightarrow> string \<Rightarrow> sandbox_policy \<Rightarrow> 'a start_input_scheme \<Rightarrow> sandbox_command" where
  "sandbox_command_of command cwd policy input =
     \<lparr> sx_idempotencyKey = ''sandbox:'' @ wi_runId (rs_workItem input) @ '':'' @ int_str (wi_attempt (rs_workItem input))
         @ '':'' @ work_reason_str (wi_reason (rs_workItem input)),
       sx_command = command, sx_cwd = Some cwd, sx_env = Some [(''BEK_RUN_ID'', run_id (rs_run input))],
       sx_timeoutMs = Some (timeout_of policy), sx_risk = po_risk policy \<rparr>"

definition execute_in_sandbox :: "'w sandbox_options \<Rightarrow> string \<Rightarrow> string list \<Rightarrow> string \<Rightarrow> sandbox_context \<Rightarrow> 'a start_input_scheme
    \<Rightarrow> 'w activity" where
  "execute_in_sandbox options ident command cwd sandbox input =
     Emit (runtime_event_of Rt_sandbox_command_started (''Sandbox command started for '' @ ident @ ''.'')
       (opt_entry ''command'' (case command of [] \<Rightarrow> None | c # _ \<Rightarrow> Some c) @ [(''cwd'', JStr cwd)]))
     (calling (sp_exec (xo_provider options) (sb_lease sandbox)
         (sandbox_command_of command cwd (sb_policy sandbox) input)) (\<lambda>result.
      Emit (runtime_event_of Rt_sandbox_command_completed
          (''Sandbox command exited with '' @ int_str (sr_exitCode result) @ ''.'')
          [(''exitCode'', JNum (sr_exitCode result)), (''timedOut'', JBool (sr_timedOut result)),
           (''durationMs'', JNum (sr_durationMs result)), (''stdoutBytes'', JNum (int (length (sr_stdout result)))),
           (''stderrBytes'', JNum (int (length (sr_stderr result))))])
      (if sr_timedOut result \<or> sr_exitCode result \<noteq> 0
       then finished (failed_costing (at_least_one input) (sandboxError result))
       else collect_artifact options ident (sb_lease sandbox) input result)))"

definition default_sandbox_command :: "string list" where
  "default_sandbox_command =
     [''sh'', ''-lc'', ''printf '' @ [CHR 0x27] @ ''Bek sandbox runtime executed for run %s'' @ [CHR 0x5C] @ ''n'' @ [CHR 0x27]
        @ '' '' @ [CHR 0x22] @ ''$BEK_RUN_ID'' @ [CHR 0x22]]"

definition runInSandbox :: "'w sandbox_options \<Rightarrow> string \<Rightarrow> adapter_input \<Rightarrow> 'w activity" where
  "runInSandbox options ident input =
     (let command = or_else (xo_command options) default_sandbox_command;
          cwd = or_else (xo_cwd options) ''/workspace/worktree''
      in Emit (runtime_event_of Rt_runtime_started (''Sandbox runtime '' @ ident @ '' started.'')
           [(''providerId'', JStr (sp_id (xo_provider options)))])
         (case ai_sandbox input of
            None \<Rightarrow> finished (failed_costing 1 ''Sandbox runtime requires a sandbox lease.'')
          | Some sandbox \<Rightarrow>
              warn_limits ident (xo_fraction options)
                (snd (normalizeResourceLimits (xo_fraction options) (policy_limit_request (sb_policy sandbox))
                   defaultResourceLimitBounds defaultEffectiveResourceLimits))
              (check_egress options ident (po_network (sb_policy sandbox)) (or_else (xo_networkTargets options) [])
              (check_paths options cwd (sb_policy sandbox)
              (execute_in_sandbox options ident command cwd sandbox input)))))"

definition createSandboxRuntimeAdapter :: "'w sandbox_options \<Rightarrow> 'w runtime_adapter" where
  "createSandboxRuntimeAdapter options =
     (let ident = or_else (xo_id options) ''opencode-sandbox''; kind = or_else (xo_kind options) Opencode in
      \<lparr> ra_id = ident, ra_kind = kind, ra_canRun = canRun_as ident kind, ra_start = runInSandbox options ident,
        ra_resume = (\<lambda>input _. runInSandbox options ident input), ra_cancel = no_cancel \<rparr>)"

end
