(* ===== verification/Service_Steps.thy ===== *)
theory Service_Steps
  imports Worker_Adapters
begin

text \<open>
  What holds along the steps of the runtime service, whatever adapters, providers and other users of
  the queue do: the queue moves by its own methods only. A relation between states that
  sequencing keeps is a locale; it is interpreted for the run of the queue and for an untouched
  outside.
\<close>

section \<open>Relations kept by sequencing\<close>

locale tracked =
  fixes rel :: "'s \<Rightarrow> 's \<Rightarrow> bool"
  assumes refl: "rel s s"
    and trans: "rel a b \<Longrightarrow> rel b c \<Longrightarrow> rel a c"
begin

lemma andThen_tracked:
  assumes "rel s (snd (m s))" "\<And>x s'. m s = (Inr x, s') \<Longrightarrow> rel s' (snd (f x s'))"
  shows "rel s (snd (andThen m f s))"
  using assms by (cases "m s"; cases "fst (m s)") (auto simp: andThen_def intro: trans)

lemma returns_tracked: "rel s (snd (returns x s))"
  by (simp add: returns_def refl)

lemma lift_sum_tracked: "rel s (snd (lift_sum r s))"
  by (simp add: lift_sum_def refl)

lemma finally_tracked:
  assumes "rel s (snd (m s))" "\<And>s'. rel s' (snd (cleanup s'))"
  shows "rel s (snd (finally_do m cleanup s))"
  using assms(1) assms(2) [of "snd (m s)"]
  by (auto simp: finally_do_def split_def Let_def intro: trans split: prod.split sum.split)

lemmas tracked_simple = returns_tracked lift_sum_tracked

end

section \<open>The queue\<close>

definition polite :: "'w service_options \<Rightarrow> bool" where
  "polite S \<longleftrightarrow> (\<forall>n q. worker_run (so_queue S) q (so_others S n q))"

lemma worker_run_trans: "worker_run C a b \<Longrightarrow> worker_run C a0 a \<Longrightarrow> worker_run C a0 b"
  by (induction rule: worker_run.induct) (auto intro: worker_run.intros)

lemma one_step: "worker_step C q q' \<Longrightarrow> worker_run C q q'"
  by (rule run_step [OF run_start])

definition queue_moves :: "'w service_options \<Rightarrow> 'w service \<Rightarrow> 'w service \<Rightarrow> bool" where
  "queue_moves S s s' \<longleftrightarrow> worker_run (so_queue S) (sv_queue s) (sv_queue s')"

interpretation queue: tracked "queue_moves S" for S :: "'w service_options"
  by unfold_locales (auto simp: queue_moves_def run_start intro: worker_run_trans)

lemma moves_same: "sv_queue s' = sv_queue s \<Longrightarrow> queue_moves S s s'"
  by (simp add: queue_moves_def run_start)

lemma awaiting_moves: "polite S \<Longrightarrow> queue_moves S s (awaiting S s)"
  by (simp add: queue_moves_def awaiting_def polite_def)

lemma on_outside_moves:
  assumes "polite S"
  shows "queue_moves S s (snd (on_outside S m s))"
proof -
  have "queue_moves S s (s\<lparr> sv_world := snd (m (sv_world s)) \<rparr>)"
    by (rule moves_same) simp
  from queue.trans [OF this awaiting_moves [OF assms]] show ?thesis
    by (simp add: on_outside_def split_def Let_def)
qed

lemma service_time_moves: "queue_moves S s (snd (service_time S given s))"
  by (rule moves_same) (simp add: service_time_def split: option.split)

lemma on_queue_moves:
  assumes "\<And>q. worker_step (so_queue S) q (snd (m q))"
  shows "queue_moves S s (snd (on_queue m s))"
  using one_step [OF assms] by (simp add: queue_moves_def on_queue_def split_def Let_def)

lemma emit_at_moves: "queue_moves S s (snd (emit_at S leaseId event now s))"
  unfolding emit_at_def
  by (intro queue.andThen_tracked queue.returns_tracked on_queue_moves)
    (simp add: total_def split_def Let_def worker_step.step_runtime_event)

lemma emit_now_moves: "queue_moves S s (snd (emit_now S leaseId event s))"
  unfolding emit_now_def by (intro queue.andThen_tracked service_time_moves emit_at_moves)

lemma new_approval_moves: "queue_moves S s (snd (new_approval S work ctx action payload risk now s))"
  unfolding new_approval_def
  by (intro queue.andThen_tracked queue.lift_sum_tracked moves_same) (simp add: split_def Let_def)

lemmas moves_simple = queue.andThen_tracked queue.tracked_simple service_time_moves emit_at_moves emit_now_moves
  new_approval_moves

lemma requestApproval_moves: "queue_moves S s (snd (requestApproval S leaseId work ctx checkpoint s))"
  unfolding requestApproval_def by (intro moves_simple)

lemma resolveResumeApproval_moves: "polite S \<Longrightarrow> queue_moves S s (snd (resolveResumeApproval S work ctx s))"
  unfolding resolveResumeApproval_def
  by (intro moves_simple on_outside_moves) (auto intro: moves_simple split: option.split)

lemma budget_moves:
  "queue_moves S s (snd (emitBudgetCheckedEvent S leaseId route decision s))"
  "queue_moves S s (snd (createBudgetApprovalIfOverLimit S leaseId work ctx decision s))"
  by (auto simp: emitBudgetCheckedEvent_def createBudgetApprovalIfOverLimit_def intro!: moves_simple)

lemma sandbox_moves:
  assumes "polite S"
  shows "queue_moves S s (snd (createSandboxContext S leaseId work ctx s))"
  unfolding createSandboxContext_def Let_def deny_sandbox_def ask_sandbox_def start_sandbox_def
  using assms by (auto intro!: moves_simple on_outside_moves split: option.split)

lemma perform_moves: "polite S \<Longrightarrow> queue_moves S s (snd (perform S leaseId work ctx act remembered s))"
proof (induction act arbitrary: remembered s)
  case (Emit event rest)
  from queue.trans [OF emit_now_moves awaiting_moves [OF Emit.prems]] Emit.IH [OF Emit.prems] queue.trans
  show ?case by (simp, blast)
next
  case (Request_approval checkpoint rest)
  from queue.trans [OF requestApproval_moves awaiting_moves [OF Request_approval.prems]]
    Request_approval.IH [OF _ Request_approval.prems] queue.trans
  show ?case by (simp add: split_def Let_def, blast)
next
  case (Outside act rest)
  have "queue_moves S s (awaiting S (s\<lparr> sv_world := act (sv_world s) \<rparr>))"
    using queue.trans [OF moves_same awaiting_moves [OF Outside.prems]] by force
  from queue.trans [OF this Outside.IH [OF _ Outside.prems]] show ?case by simp
next
  case (Finish r)
  then show ?case by (simp add: queue.refl split: sum.split)
qed

lemma start_adapter_moves:
  assumes "polite S"
  shows "queue_moves S s (snd (start_adapter S adapter leaseId work ctx sandbox s))"
  unfolding start_adapter_def
  using assms by (auto intro!: moves_simple resolveResumeApproval_moves perform_moves split: prod.split)

lemma run_in_sandbox_moves:
  assumes "polite S"
  shows "queue_moves S s (snd (run_in_sandbox S adapter leaseId work ctx preparation s))"
  using assms
  by (auto simp: run_in_sandbox_def intro!: queue.tracked_simple start_adapter_moves queue.finally_tracked on_outside_moves
      split: sandbox_preparation.split option.split)

lemma runAdapter_moves:
  assumes "polite S"
  shows "queue_moves S s (snd (runAdapter S adapter leaseId work ctx s))"
proof -
  have "queue_moves S s0 (snd (andThen (lift_sum (runtimeBudgetGuardDecision ctx)) (\<lambda>decision.
     andThen (emitBudgetCheckedEvent S leaseId (wx_modelRoute ctx) decision) (\<lambda>_.
     andThen (createBudgetApprovalIfOverLimit S leaseId work ctx decision) (\<lambda>budgetApproval.
     case budgetApproval of
       Some approval \<Rightarrow> returns (budgetBlockedResult (wx_modelRoute ctx), Some approval)
     | None \<Rightarrow>
         andThen (createSandboxContext S leaseId work ctx) (\<lambda>preparation s.
           run_in_sandbox S adapter leaseId work ctx preparation (awaiting S s))))) s0))" for s0
    using assms
    by (intro moves_simple budget_moves)
      (auto intro!: moves_simple sandbox_moves queue.trans [OF awaiting_moves run_in_sandbox_moves] split: option.split)
  moreover have "queue_moves S s (snd (executeApprovedGitHubPullRequestIfConfigured S work ctx s))"
    unfolding executeApprovedGitHubPullRequestIfConfigured_def
    using assms by (auto intro!: moves_simple resolveResumeApproval_moves)
  ultimately show ?thesis
    unfolding runAdapter_def
    by (intro queue.andThen_tracked) (blast intro: queue.trans [OF awaiting_moves [OF assms]])+
qed

lemma heartbeat_moves: "queue_moves S s (snd (on_queue (heartbeat (so_queue S) input) s))"
  by (rule on_queue_moves) (rule worker_step.step_heartbeat)

lemma coerce_moves:
  assumes "polite S"
  shows "queue_moves S s (snd (coerceCancelledResult S adapter lease work out s))"
  unfolding coerceCancelledResult_def
  using assms by (auto intro!: moves_simple heartbeat_moves on_outside_moves split: heartbeat_decision.split)

lemma settle_with_moves: "queue_moves S s (snd (settle_with S given lease result approval s))"
  unfolding settle_with_def
  by (intro moves_simple on_queue_moves) (rule worker_step.step_settle)

lemma settled_moves:
  "queue_moves S s (snd (andThen (settle_with S given lease result approval) (\<lambda>settlement. returns (f settlement)) s))"
  by (intro queue.andThen_tracked settle_with_moves queue.returns_tracked)

lemma process_with_moves:
  assumes "polite S"
  shows "queue_moves S s (snd (process_with S given lease work ctx adapter s))"
proof -
  have "queue_moves S s0 (snd (andThen (coerceCancelledResult S adapter lease work out) (\<lambda>c s.
       case c of
         Lost_lease reason \<Rightarrow> (Inr (Process_lost_lease lease work reason), awaiting S s)
       | Continue_with result approval \<Rightarrow>
           andThen (settle_with S given lease result approval) (\<lambda>settlement.
           returns (Processed (ra_id adapter) lease work result settlement)) (awaiting S s)) s0))" for s0 out
    using assms
    by (auto intro!: queue.andThen_tracked [OF coerce_moves] awaiting_moves
        queue.trans [OF awaiting_moves settled_moves]
        split: cancellation.split)
  then show ?thesis
    unfolding process_with_def
    by (intro queue.andThen_tracked runAdapter_moves assms) (blast intro: queue.trans [OF awaiting_moves [OF assms]])
qed

lemma processNext_moves:
  assumes "polite S"
  shows "queue_moves S s (snd (processNext S input s))"
  unfolding processNext_def
proof (intro moves_simple)
  fix now s1 claim s2
  show "queue_moves S s1 (snd (on_queue (claimNext (so_queue S)
      \<lparr> cli_workerId = or_else (pi_workerId input) (so_workerId S), cli_leaseMs = or_else (pi_leaseMs input) (so_leaseMs S),
        cli_now = Some now \<rparr>) s1))"
    by (rule on_queue_moves) (rule worker_step.step_claim)
  have "queue_moves S s2 (snd (snd (try_process S given lease work snapshot s2)))" for given lease work snapshot
    using process_with_moves [OF assms]
    by (simp add: try_process_def queue.refl split: sum.split)
  then show "queue_moves S s2 (snd ((case claim of
         No_available_work \<Rightarrow> returns Process_empty
       | Claimed lease work \<Rightarrow> (\<lambda>s.
           case so_state S (sv_world s) of
             Inl e \<Rightarrow> (Inl e, s)
           | Inr snapshot \<Rightarrow>
               (case try_process S (pi_now input) lease work snapshot s of
                  (_, Inr d, s1) \<Rightarrow> (Inr d, s1)
                | (adapterId, Inl e, s1) \<Rightarrow>
                    andThen (settle_with S (pi_now input) lease (runtimeFailureResult e) None) (\<lambda>settlement.
                    returns (Processed adapterId lease work (runtimeFailureResult e) settlement)) s1))) s2))"
    by (auto simp: queue.refl queue.returns_tracked split: claim_decision.split sum.split prod.split
        intro!: queue.trans [OF _ settled_moves])
      (metis snd_conv)+
qed

end
