(* ===== verification/Service_Properties.thy ===== *)
theory Service_Properties
  imports Service_Steps Worker_Claims Sandbox_Lifecycle Budget_Guard
begin

text \<open>
  What the runtime service guarantees: the queue stays consistent while work is processed, processed
  work has spent its lease, a run that the budget or the sandbox policy stops touches nothing
  outside, and its sandbox does not outlive an attempt. The last section has what approvals do
  beyond what they were asked for.
\<close>

lemma andThen_post:
  assumes "\<And>e s'. m s = (Inl e, s') \<Longrightarrow> Q (Inl e, s')" "\<And>x s'. m s = (Inr x, s') \<Longrightarrow> Q (f x s')"
  shows "Q (andThen m f s)"
  using assms by (cases "m s"; cases "fst (m s)") (auto simp: andThen_def)

section \<open>A service to apply the properties to\<close>

text \<open>One piece of work for a run that the workspace does not have, and Docker for sandboxes.\<close>

definition docker_sandbox :: "'w docker_config \<Rightarrow> 'w docker_provider sandbox_provider" where
  "docker_sandbox C =
     \<lparr> sp_id = dk_id C, sp_kind = Docker_local, sp_create = docker_create C, sp_exec = docker_exec C,
       sp_upload = docker_upload C, sp_download = docker_download C, sp_destroy = docker_destroy C \<rparr>"

definition sample_service :: "string list list docker_provider service_options" where
  "sample_service =
     \<lparr> so_queue = demo_config, so_others = (\<lambda>_ q. q),
       so_env = \<lparr> env_uuid = nat_str, env_clock = int, env_sha256 = (\<lambda>s. s), env_collate = code_unit_le \<rparr>,
       so_state = (\<lambda>_. Inr ((createSeedSnapshot (Instant 0))\<lparr> sn_runs := [] \<rparr>)), so_adapters = createDeterministicLocalRuntimeAdapters,
       so_sandboxProvider = Some (docker_sandbox sample_docker), so_sandboxPolicyProvider = None, so_workerId = ''w'',
       so_leaseMs = 1000, so_now = (\<lambda>k. Instant (5 + int k)), so_approvalExpiresInMs = 1800000,
       so_approvalProvider = None, so_modelRouteProvider = None \<rparr>"

definition sample_state :: "string list list docker_provider service" where
  "sample_state =
     \<lparr> sv_queue = demo_queue, sv_world = newDockerProvider [], sv_ticks = 0, sv_draws = 0, sv_awaits = 0 \<rparr>"

definition sample_input :: process_input where
  "sample_input = \<lparr> pi_workerId = None, pi_leaseMs = None, pi_now = None \<rparr>"

lemma sample_polite: "polite sample_service"
  by (simp add: polite_def sample_service_def worker_run.run_start)

lemma sample_queue: "ok_config (so_queue sample_service)" "queue_inv (so_queue sample_service) (sv_queue sample_state)"
  by (simp_all add: sample_service_def sample_state_def demo_config_ok demo_queue_inv)

text \<open>Its first step: the claim, the missing run, and the retry that is scheduled for it.\<close>

definition sample_claimed :: worker_queue where
  "sample_claimed = emit_for demo_config 0 (Runtime_event Rt_worker_claimed) ''Worker w claimed run work.''
     (Some (JObj [(''workerId'', JStr ''w''), (''leaseId'', JStr (sequential_id 2 ''lease''))])) (Instant 5) demo_claimed"

lemma sample_claim:
  "claimNext demo_config \<lparr> cli_workerId = ''w'', cli_leaseMs = 1000, cli_now = Some (Instant 5) \<rparr> demo_queue
     = (Inr (Claimed demo_lease (record_at demo_claimed 0)), sample_claimed)"
proof -
  have q: "requeueExpiredLeases demo_config (Instant 5) demo_queue = (Inr [], demo_queue)"
    by (simp add: requeueExpiredLeases_def demo_queue_def empty_queue_def demo_record_def fresh_record_def record_at_def
        lease_expired_def Let_def)
  have n: "next_due (Instant 5) demo_queue = Some 0"
    by (simp add: next_due_def demo_queue_def empty_queue_def demo_record_def fresh_record_def record_at_def claimable_def)
  have t: "transitionRecord 0 Work_claimed At_claimed (Instant 5) (demo_queue\<lparr> wq_draws := 2 \<rparr>)
      = (Inr (), demo_queue\<lparr> wq_draws := 2, wq_records := [demo_record\<lparr>wr_status := Work_claimed,
     wr_attemptState := At_claimed, wr_updatedAt := Instant 5\<rparr>] \<rparr>)"
    by (simp add: transitionRecord_def demo_queue_def record_at_def demo_record_def fresh_record_def set_rec_def
       canTransitionRunAttemptState_def empty_queue_def Let_def)
  have d: "wq_draws demo_queue = Suc 0" "record_at demo_queue 0 = demo_record"
    by (simp_all add: demo_queue_def empty_queue_def record_at_def)
  have t': "transitionRecord 0 Work_claimed At_claimed (Instant 5) (demo_queue\<lparr> wq_draws := Suc (Suc 0) \<rparr>)
      = (Inr (), demo_queue\<lparr> wq_draws := 2, wq_records := [demo_record\<lparr>wr_status := Work_claimed,
     wr_attemptState := At_claimed, wr_updatedAt := Instant 5\<rparr>] \<rparr>)"
    using t by (simp add: numeral_2_eq_2)
  have l: "\<lparr> wl_id = sequential_id (Suc (Suc 0)) ''lease'', wl_idempotencyKey = wr_idempotencyKey demo_record,
     wl_workerId = ''w'', wl_orgId = wi_orgId (wr_item demo_record), wl_runId = wi_runId (wr_item demo_record),
     wl_attempt = wi_attempt (wr_item demo_record), wl_traceId = wi_traceId (wr_item demo_record),
     wl_claimedAt = Instant 5, wl_heartbeatAt = Instant 5, wl_expiresAt = Instant 1005 \<rparr> = demo_lease"
    by (simp add: demo_lease_def demo_record_def fresh_record_def demo_item_def numeral_2_eq_2)
  have c: "set_rec 0 (wr_lease_update (\<lambda>_. Some demo_lease)) (demo_queue\<lparr> wq_draws := 2, wq_records := [demo_record\<lparr>wr_status := Work_claimed,
     wr_attemptState := At_claimed, wr_updatedAt := Instant 5\<rparr>] \<rparr>) = demo_claimed"
    by (simp add: set_rec_def demo_claimed_def)
  then have r: "record_at demo_claimed 0 = (demo_record\<lparr>wr_status := Work_claimed,
     wr_attemptState := At_claimed, wr_updatedAt := Instant 5\<rparr>)\<lparr> wr_lease := Some demo_lease \<rparr>"
    by (simp add: record_at_def demo_claimed_def)
  have a: "addMs (Instant 5) 1000 = Inr (Instant 1005)"
    by (simp add: addMs_def date_plus_def max_date_ms_def)
  show ?thesis
    unfolding claimNext_def now_or_clock_def
    by (simp add: andThen_def q n draw_id_def demo_ids lift_sum_def a Let_def d t' l c [unfolded numeral_2_eq_2] r sample_claimed_def numeral_2_eq_2)
      (simp add: record_at_def)
qed

lemma sample_context: "try_process sample_service None lease (record_at demo_claimed 0) ((createSeedSnapshot (Instant 0))\<lparr> sn_runs := [] \<rparr>) s
   = (''unresolved'', Inl (Error ''Run run was not found.''), s)"
  by (simp add: try_process_def resolveRuntimeContext_def found_def) (simp add: demo_claimed_def record_at_def demo_record_def
    fresh_record_def demo_item_def)

definition sample_settle :: settle_input where
  "sample_settle = \<lparr> sei_leaseId = wl_id demo_lease, sei_result = runtimeFailureResult (Error ''Run run was not found.''),
     sei_approval = None, sei_now = Some (Instant 6) \<rparr>"

lemma retry_branch_ok:
  assumes "transitionRecord i Work_failed At_retry_scheduled now q = (Inr u, q1)"
    and "retryDelayMs (wi_attempt (wr_item (record_at q1 i))) (wc_retryPolicy C) = Inr d" "addMs now d = Inr t"
  shows "\<exists>a b c q'. retry_branch C i now q = (Inr (Retry_scheduled a b c), q')"
  by (simp add: retry_branch_def andThen_def assms lift_sum_def Let_def split_def)

lemma sample_settled: "\<exists>a b c. settle demo_config sample_settle sample_claimed = (Inr (Retry_scheduled a b c), snd (settle demo_config sample_settle sample_claimed))"
proof -
  have f: "findByLeaseId (sei_leaseId sample_settle) sample_claimed = Some 0"
    using demo_claimed_simps(1) find_index_cong [of sample_claimed demo_claimed]
    unfolding findByLeaseId_def by (simp add: sample_claimed_def sample_settle_def demo_lease_def del: map_option_eq_Some)
  have inv: "queue_inv demo_config sample_claimed"
    using keeps_emit_for [OF demo_config_ok demo_claimed_inv] by (simp add: keeps_def sample_claimed_def)
  have r: "record_at sample_claimed 0 = record_at demo_claimed 0"
    by (simp add: sample_claimed_def)
  have e: "settle demo_config sample_settle sample_claimed = settle_active demo_config 0 sample_settle (Instant 6) sample_claimed"
    using settle_unexpired [OF inv f] by (simp add: r sample_settle_def now_or_clock_def)
  let ?q = "set_rec 0 (\<lambda>r. r\<lparr> wr_lease := None, wr_result := Some (sei_result sample_settle),
    wr_terminalReason := Some ''Run run was not found.'', wr_updatedAt := Instant 6 \<rparr>) sample_claimed"
  have len: "length (wq_records sample_claimed) = 1"
    by (simp add: sample_claimed_def)
  have a: "wr_attemptState (record_at ?q 0) = At_claimed" "wi_attempt (wr_item (record_at ?q 0)) = 1"
    "wr_cancelRequestedAt (record_at sample_claimed 0) = None"
    by (simp_all add: r len) (simp add: demo_claimed_def record_at_def demo_record_def fresh_record_def demo_item_def)
  then have t: "transitionRecord 0 Work_failed At_retry_scheduled (Instant 6) ?q =
     (Inr (), set_rec 0 (\<lambda>r. r\<lparr> wr_status := Work_failed, wr_attemptState := At_retry_scheduled, wr_updatedAt := Instant 6 \<rparr>) ?q)"
    by (simp add: transitionRecord_def canTransitionRunAttemptState_def Let_def)
  have "\<exists>a b c q'. retry_branch demo_config 0 (Instant 6) ?q = (Inr (Retry_scheduled a b c), q')"
  proof (rule retry_branch_ok [OF t])
    have "retryDelayMs 1 (wc_retryPolicy demo_config) = Inr 1000"
      by (simp add: retryDelayMs_def assertRetryPolicy_def demo_config_def defaultWorkerRetryPolicy_def)
    then show "retryDelayMs (wi_attempt (wr_item (record_at (set_rec 0 (\<lambda>r. r\<lparr> wr_status := Work_failed,
        wr_attemptState := At_retry_scheduled, wr_updatedAt := Instant 6 \<rparr>) ?q) 0))) (wc_retryPolicy demo_config) = Inr 1000"
      using a(2) len by simp
    show "addMs (Instant 6) 1000 = Inr (Instant 1006)"
      by (simp add: addMs_def date_plus_def max_date_ms_def)
  qed
  moreover have "settle_active demo_config 0 sample_settle (Instant 6) sample_claimed = retry_branch demo_config 0 (Instant 6) ?q"
  proof -
    have m: "wp_maxAttempts (wc_retryPolicy demo_config) = 3"
      by (simp add: demo_config_def defaultWorkerRetryPolicy_def)
    have c: "\<not> 3 \<le> wi_attempt (wr_item (record_at ?q 0))" using a(2) by simp
    have "settle_active demo_config 0 sample_settle (Instant 6) sample_claimed
        = settleFailure demo_config 0 (sei_result sample_settle) (Instant 6) sample_claimed"
      using a(3) by (simp add: settle_active_def sample_settle_def runtimeFailureResult_def failed_result_def)
    also have "\<dots> = retry_branch demo_config 0 (Instant 6) ?q"
      unfolding settleFailure_def Let_def m using c
      by (simp add: sample_settle_def runtimeFailureResult_def failed_result_def)
    finally show ?thesis .
  qed
  ultimately show ?thesis
    unfolding e by (metis snd_conv)
qed


lemma sample_processed:
  "\<exists>a b c s'. processNext sample_service sample_input sample_state
     = (Inr (Processed ''unresolved'' demo_lease (record_at demo_claimed 0)
          (runtimeFailureResult (Error ''Run run was not found.'')) (Retry_scheduled a b c)), s')"
proof -
  obtain a b c q where st: "settle demo_config sample_settle sample_claimed = (Inr (Retry_scheduled a b c), q)"
    using sample_settled by blast
  note parts = sample_service_def sample_input_def sample_state_def
  show ?thesis
    by (simp add: processNext_def service_time_def andThen_def on_queue_def parts sample_claim
        sample_context [unfolded sample_service_def] settle_with_def st [unfolded sample_settle_def] returns_def)
qed

section \<open>The queue stays consistent\<close>

lemma drain_loop_moves:
  "polite S \<Longrightarrow> queue_moves S s (snd (drain_loop S input n processed decisions s))"
proof (induction S input n processed decisions s rule: drain_loop.induct)
  case (1 S input processed decisions s)
  then show ?case by (simp add: queue.refl)
next
  case (2 S input n processed decisions s)
  obtain r s1 where r: "processNext S input s = (r, s1)"
    by (cases "processNext S input s")
  have moved: "queue_moves S s s1"
    using processNext_moves [OF "2.prems", of s input] r by simp
  show ?case
  proof (cases r)
    case (Inl e)
    with r moved show ?thesis by simp
  next
    case (Inr d)
    have "queue_moves S s (awaiting S s1)"
      using moved awaiting_moves [OF "2.prems"] by (rule queue.trans)
    moreover have "d = Processed i l w res st \<Longrightarrow>
        queue_moves S (awaiting S s1) (snd (drain_loop S input n (processed + 1) (decisions @ [d]) (awaiting S s1)))" for i l w res st
      using "2.IH" [OF r [symmetric] Inr refl refl] "2.prems" by simp
    ultimately show ?thesis
      using r Inr by (cases d) (auto intro: queue.trans)
  qed
qed

lemma drain_moves: "polite S \<Longrightarrow> queue_moves S s (snd (drain S input maxItems s))"
  by (simp add: drain_def drain_loop_moves queue.refl)

text \<open>
  C30. Draining the queue keeps it consistent: from a state where the invariant of the queue holds, and
  whatever the adapters, the sandbox provider and the other users of the queue do, the invariant
  holds afterwards, records, dead letters and events are only added, and records evolve by allowed
  transitions.
\<close>

theorem draining_keeps_the_queue:
  assumes "ok_config (so_queue S)" "queue_inv (so_queue S) (sv_queue s)" "polite S"
  shows "queue_inv (so_queue S) (sv_queue (snd (drain S input maxItems s)))
    \<and> history (sv_queue s) (sv_queue (snd (drain S input maxItems s)))"
  using drain_moves [OF assms(3)] run_keeps [OF _ assms(1,2)] by (simp add: queue_moves_def keeps_def)

lemma draining_keeps_the_queue_witness:
  "queue_inv demo_config (sv_queue (snd (drain sample_service sample_input None sample_state)))"
  using draining_keeps_the_queue [OF sample_queue sample_polite, of sample_input None] by (simp add: sample_service_def)

section \<open>Processed work is settled\<close>

fun fits :: "runtime_result_status \<Rightarrow> settle_decision \<Rightarrow> bool" where
  "fits status (Settled_completed _) = (status = Res_completed)"
| "fits status (Paused_for_approval _) = (status = Res_awaiting_approval)"
| "fits status (Retry_scheduled _ _ _) = (status = Res_failed)"
| "fits status (Dead_lettered _ _) = (status = Res_failed)"
| "fits status (Settled_cancelled _) = True"
| "fits status (Settle_lost_lease _) = True"

fun is_lost :: "settle_decision \<Rightarrow> bool" where
  "is_lost (Settle_lost_lease _) = True"
| "is_lost _ = False"

lemma is_lost_iff: "is_lost d \<longleftrightarrow> (\<exists>t. d = Settle_lost_lease t)"
  by (cases d) simp_all

lemma andThen_fits:
  assumes "\<And>x q'. fst (f x q') = Inr d \<Longrightarrow> fits st d" "fst (andThen m f q) = Inr d"
  shows "fits st d"
  using assms by (cases "m q"; cases "fst (m q)") (auto simp: andThen_def)

lemma failure_fits: "fst (settleFailure C i result now q) = Inr d \<Longrightarrow> fits Res_failed d"
  by (auto simp: settleFailure_def deadLetter_branch_def retry_branch_def Let_def lift_sum_def split_def
      elim!: andThen_fits [rotated] split: if_splits sum.splits)

lemma settle_fits:
  assumes "fst (settle C input q) = Inr d"
  shows "fits (rr_status (sei_result input)) d"
proof -
  have "fits (rr_status (sei_result input)) d" if "fst (settle_active C i input now q1) = Inr d" for i now q1
    using that failure_fits [of C i "sei_result input" now q1 d]
    by (cases "rr_status (sei_result input)")
      (auto simp: settle_active_def settle_cancelled_def settle_completed_def settle_awaiting_def Let_def
        elim!: andThen_fits [rotated] split: if_splits option.splits)
  with assms show ?thesis
    by (auto simp: settle_def returns_def Let_def split_def elim!: andThen_fits [rotated] split: option.splits if_splits)
qed

lemma settle_with_Inr:
  assumes "settle_with S given lease result approval s = (Inr d, s')"
  obtains now q where "settle (so_queue S) \<lparr> sei_leaseId = wl_id lease, sei_result = result, sei_approval = approval,
      sei_now = Some now \<rparr> (sv_queue s) = (Inr d, q)" "sv_queue s' = q"
  using assms
  by (cases given) (auto simp: settle_with_def service_time_def on_queue_def andThen_def split: sum.splits prod.splits)

lemma settled_processed:
  "andThen (settle_with S given lease result approval) (\<lambda>settlement. returns (Processed ident lease work result settlement)) s
     = (Inr (Processed i l w res st), s') \<Longrightarrow>
   settle_with S given l res approval s = (Inr st, s')"
  by (auto simp: andThen_def returns_def split: sum.splits prod.splits)

lemma process_with_settles:
  assumes "polite S" "process_with S given lease work ctx adapter s = (Inr (Processed i l w res st), s')"
  shows "\<exists>s1 approval. queue_moves S s s1 \<and> settle_with S given l res approval s1 = (Inr st, s')"
proof -
  let ?run = "runAdapter S adapter (wl_id lease) work ctx s"
  obtain out s1 where run: "?run = (Inr out, s1)"
    using assms(2) by (cases ?run; cases "fst ?run") (auto simp: process_with_def)
  let ?co = "coerceCancelledResult S adapter lease work out (awaiting S s1)"
  obtain c s2 where co: "?co = (Inr c, s2)"
    using assms(2) run by (cases ?co; cases "fst ?co") (auto simp: process_with_def)
  have m: "queue_moves S s (awaiting S s2)"
    using runAdapter_moves [OF assms(1), of s adapter "wl_id lease" work ctx]
      coerce_moves [OF assms(1), of "awaiting S s1" adapter lease work out]
    unfolding run co snd_conv by (blast intro: queue.trans awaiting_moves [OF assms(1)])
  show ?thesis
  proof (cases c)
    case (Continue_with result approval)
    with assms(2) run co have "settle_with S given l res approval (awaiting S s2) = (Inr st, s')"
      by (auto simp: process_with_def intro: settled_processed)
    with m show ?thesis by blast
  next
    case (Lost_lease reason)
    with assms(2) run co show ?thesis by (simp add: process_with_def)
  qed
qed

lemma processed_settles:
  assumes "polite S" "processNext S input s = (Inr (Processed i l w res st), s')"
  shows "\<exists>s1 approval. queue_moves S s s1 \<and> settle_with S (pi_now input) l res approval s1 = (Inr st, s')"
proof -
  obtain now s0 where t: "service_time S (pi_now input) s = (Inr now, s0)"
    by (cases "pi_now input") (simp_all add: service_time_def)
  let ?claim = "on_queue (claimNext (so_queue S) \<lparr> cli_workerId = or_else (pi_workerId input) (so_workerId S),
      cli_leaseMs = or_else (pi_leaseMs input) (so_leaseMs S), cli_now = Some now \<rparr>) s0"
  obtain claim s1 where claim: "?claim = (Inr claim, s1)"
    using assms(2) t by (cases ?claim; cases "fst ?claim") (auto simp: processNext_def)
  have "queue_moves S s0 (snd ?claim)"
    by (rule on_queue_moves) (rule worker_step.step_claim)
  then have m: "queue_moves S s s1"
    using service_time_moves [of S s "pi_now input"] unfolding t claim snd_conv by (rule queue.trans [rotated])
  show ?thesis
  proof (cases claim)
    case No_available_work
    with assms(2) t claim show ?thesis by (simp add: processNext_def returns_def)
  next
    case (Claimed lease work)
    obtain snapshot where sn: "so_state S (sv_world s1) = Inr snapshot"
      using assms(2) t claim Claimed by (cases "so_state S (sv_world s1)") (auto simp: processNext_def)
    obtain ident r s2 where tr: "try_process S (pi_now input) lease work snapshot s1 = (ident, r, s2)"
      by (metis prod_cases3)
    show ?thesis
    proof (cases r)
      case (Inl e)
      have "snd (snd (try_process S (pi_now input) lease work snapshot s1)) = s2" by (simp add: tr)
      then have "queue_moves S s1 s2"
        using process_with_moves [OF assms(1), of s1] queue.refl [of S s1]
        by (auto simp: try_process_def split: sum.splits)
      moreover have "settle_with S (pi_now input) l res None s2 = (Inr st, s')"
        using assms(2) t claim Claimed sn tr Inl by (auto simp: processNext_def intro: settled_processed)
      ultimately show ?thesis
        using m by (blast intro: queue.trans)
    next
      case (Inr d)
      with assms(2) t claim Claimed sn tr have d: "d = Processed i l w res st" "s2 = s'"
        by (auto simp: processNext_def)
      obtain ctx adapter where "process_with S (pi_now input) lease work ctx adapter s1 = (Inr d, s')"
        using tr Inr d by (auto simp: try_process_def split: sum.splits)
      from process_with_settles [OF assms(1) this [unfolded d(1)]] m show ?thesis
        by (blast intro: queue.trans)
    qed
  qed
qed

text \<open>
  C28. Work that is reported as processed is settled as its result says: completed, paused, retried or
  dead-lettered, or cancelled on request. Unless the lease was lost before, its lease is spent for good:
  whatever happens to the queue later, settling it again is refused.
\<close>

theorem processed_work_is_settled:
  assumes "ok_config (so_queue S)" "queue_inv (so_queue S) (sv_queue s)" "polite S"
    "processNext S input s = (Inr (Processed ident lease work result settlement), s')"
    "\<not> is_lost settlement" "worker_run (so_queue S) (sv_queue s') q" "sei_leaseId again = wl_id lease"
  shows "fits (rr_status result) settlement
    \<and> fst (settle (so_queue S) again q) = Inr (Settle_lost_lease ''Worker lease is not active.'')"
proof -
  obtain s1 approval where m: "queue_moves S s s1"
    and st: "settle_with S (pi_now input) lease result approval s1 = (Inr settlement, s')"
    using processed_settles [OF assms(3,4)] by blast
  obtain now q1 where set: "settle (so_queue S) \<lparr> sei_leaseId = wl_id lease, sei_result = result, sei_approval = approval,
      sei_now = Some now \<rparr> (sv_queue s1) = (Inr settlement, q1)" and q1: "sv_queue s' = q1"
    by (rule settle_with_Inr [OF st])
  have inv: "queue_inv (so_queue S) (sv_queue s1)"
    using run_keeps [OF m [unfolded queue_moves_def] assms(1,2)] by (simp add: keeps_def)
  have lost: "\<forall>t. settlement \<noteq> Settle_lost_lease t"
    using assms(5) by (auto simp: is_lost_iff)
  have "wl_id lease \<notin> lease_ids q"
    using settled_lease_never_back [OF assms(1) inv set lost assms(6) [unfolded q1]] by simp
  then have "findByLeaseId (wl_id lease) (snd (now_or_clock (so_queue S) t q)) = None" for t
    using lease_ids_find [of "wl_id lease" q] find_index_cong [of q "snd (now_or_clock (so_queue S) t q)"]
    by (simp add: findByLeaseId_def)
  then have "fst (settle (so_queue S) again q) = Inr (Settle_lost_lease ''Worker lease is not active.'')"
    by (simp add: settle_def assms(7) split_def Let_def)
  moreover have "fits (rr_status result) settlement"
    using settle_fits [of "so_queue S" "\<lparr> sei_leaseId = wl_id lease, sei_result = result, sei_approval = approval,
      sei_now = Some now \<rparr>" "sv_queue s1" settlement] set by simp
  ultimately show ?thesis by blast
qed


lemma processed_work_is_settled_witness:
  "fst (settle demo_config sample_settle (sv_queue (snd (processNext sample_service sample_input sample_state))))
     = Inr (Settle_lost_lease ''Worker lease is not active.'')"
proof -
  obtain a b c s' where p: "processNext sample_service sample_input sample_state
     = (Inr (Processed ''unresolved'' demo_lease (record_at demo_claimed 0)
          (runtimeFailureResult (Error ''Run run was not found.'')) (Retry_scheduled a b c)), s')"
    using sample_processed by blast
  show ?thesis
    using processed_work_is_settled [OF sample_queue sample_polite p _ worker_run.run_start, of sample_settle]
    unfolding p by (simp add: sample_settle_def sample_service_def)
qed

section \<open>What stops a run\<close>

interpretation outside: tracked "\<lambda>s s'. sv_world s' = sv_world s"
  by unfold_locales simp_all

lemma same_world_steps:
  "sv_world (awaiting S s) = sv_world s"
  "sv_world (snd (service_time S given s)) = sv_world s"
  "sv_world (snd (emit_at S leaseId event now s)) = sv_world s"
  "sv_world (snd (new_approval S work ctx action payload risk now s)) = sv_world s"
  by (auto simp: awaiting_def service_time_def emit_at_def new_approval_def on_queue_def andThen_def lift_sum_def
      returns_def split_def Let_def split: option.splits sum.splits)

lemma same_world_emit: "sv_world (snd (emit_now S leaseId event s)) = sv_world s"
  unfolding emit_now_def by (intro outside.andThen_tracked same_world_steps)

lemmas outside_simple = outside.andThen_tracked outside.tracked_simple same_world_steps same_world_emit

lemma same_world_budget:
  "sv_world (snd (emitBudgetCheckedEvent S leaseId route decision s)) = sv_world s"
  "sv_world (snd (createBudgetApprovalIfOverLimit S leaseId work ctx decision s)) = sv_world s"
  by (auto simp: emitBudgetCheckedEvent_def createBudgetApprovalIfOverLimit_def intro!: outside_simple)

definition budget_allows :: "worker_work_record \<Rightarrow> budget_guard \<Rightarrow> bool" where
  "budget_allows work g \<longleftrightarrow> bg_decision g = Within_budget \<or> hasApprovedBudgetIncreaseForDecision work g"

definition sandbox_allows :: "'w service_options \<Rightarrow> worker_work_record \<Rightarrow> runtime_context \<Rightarrow> bool" where
  "sandbox_allows S work ctx =
     (case so_sandboxProvider S of
        None \<Rightarrow> True
      | Some provider \<Rightarrow> runtimeProfileRequiresSandbox (wx_runtimeProfile ctx) \<longrightarrow>
          pd_decision (sandbox_decision provider ctx) \<noteq> Deny
          \<and> (pd_requiresApproval (sandbox_decision provider ctx) \<longrightarrow> isApprovedSandboxExec work))"

text \<open>An attempt that did not run: it threw, failed with a reason, or waits for a gate of the service.\<close>

fun stopped :: "js_error + runtime_result \<times> approval_request option \<Rightarrow> bool" where
  "stopped (Inl e) = True"
| "stopped (Inr (result, None)) = (rr_status result = Res_failed \<and> rr_actualCostCents result = 0)"
| "stopped (Inr (result, Some approval)) =
     (rr_status result = Res_awaiting_approval \<and> rr_actualCostCents result = 0 \<and> ap_status approval = Approval_pending
      \<and> ap_action approval \<in> {''budget.increase'', ''sandbox.exec''})"

lemma new_approval_Inr:
  assumes "new_approval S work ctx action payload risk now s = (Inr approval, s')"
  shows "ap_status approval = Approval_pending \<and> ap_action approval = action \<and> ap_runId approval = wi_runId (wr_item work)
    \<and> hashPayload (so_env S) payload = Inr (ap_payloadHash approval)"
  using assms
  by (auto simp: new_approval_def createApprovalRequest_at_def createId_def andThen_def lift_sum_def Let_def split: sum.splits)

lemma budget_gate:
  assumes "createBudgetApprovalIfOverLimit S leaseId work ctx g s = (Inr r, s')"
  shows "case r of None \<Rightarrow> budget_allows work g
    | Some approval \<Rightarrow> ap_status approval = Approval_pending \<and> ap_action approval = ''budget.increase''"
  using assms new_approval_Inr
  by (auto simp: createBudgetApprovalIfOverLimit_def budget_allows_def andThen_def returns_def
      split: if_splits sum.splits prod.splits option.splits dest!: new_approval_Inr)

definition blocked_outcome :: "'w service \<Rightarrow> ('w service, runtime_result \<times> approval_request option) outcome \<Rightarrow> bool" where
  "blocked_outcome s r \<longleftrightarrow> sv_world (snd r) = sv_world s \<and> stopped (fst r)"

lemma sandbox_blocked:
  assumes "\<not> sandbox_allows S work ctx"
  shows "sv_world (snd (createSandboxContext S leaseId work ctx s)) = sv_world s
    \<and> (case fst (createSandboxContext S leaseId work ctx s) of
         Inl _ \<Rightarrow> True
       | Inr preparation \<Rightarrow> \<exists>result approval. preparation = Ended result approval \<and> stopped (Inr (result, approval)))"
proof -
  obtain P where P: "so_sandboxProvider S = Some P" "runtimeProfileRequiresSandbox (wx_runtimeProfile ctx)"
    using assms by (auto simp: sandbox_allows_def split: option.splits)
  let ?d = "sandbox_decision P ctx"
  show ?thesis
  proof (cases "pd_decision ?d = Deny")
    case True
    have "sv_world (snd (deny_sandbox S leaseId P ctx ?d s)) = sv_world s"
      unfolding deny_sandbox_def by (intro outside_simple)
    moreover have "\<exists>result approval. preparation = Ended result approval \<and> stopped (Inr (result, approval))"
      if "fst (deny_sandbox S leaseId P ctx ?d s) = Inr preparation" for preparation
      using that by (auto simp: deny_sandbox_def andThen_def returns_def failed_result_def split: sum.splits prod.splits)
    ultimately show ?thesis
      using P True by (auto simp: createSandboxContext_def Let_def split: sum.split)
  next
    case False
    with assms P have ask: "pd_requiresApproval ?d" "\<not> isApprovedSandboxExec work"
      by (auto simp: sandbox_allows_def)
    have "sv_world (snd (ask_sandbox S leaseId P work ctx ?d s)) = sv_world s"
      unfolding ask_sandbox_def by (intro outside_simple)
    moreover have "\<exists>result approval. preparation = Ended result approval \<and> stopped (Inr (result, approval))"
      if "fst (ask_sandbox S leaseId P work ctx ?d s) = Inr preparation" for preparation
      using that
      by (auto simp: ask_sandbox_def andThen_def returns_def sandboxApprovalRequiredResult_def
          split: sum.splits prod.splits dest!: new_approval_Inr)
    ultimately show ?thesis
      using P False ask by (auto simp: createSandboxContext_def Let_def split: sum.split)
  qed
qed

lemma resume_world:
  assumes "so_approvalProvider S = None"
  shows "sv_world (snd (executeApprovedGitHubPullRequestIfConfigured S work ctx s)) = sv_world s"
  using assms
  by (auto simp: executeApprovedGitHubPullRequestIfConfigured_def resolveResumeApproval_def on_outside_def returns_def
      same_world_steps lift_sum_def intro!: outside_simple)

lemma blocked_run:
  assumes "so_approvalProvider S = None" "runtimeBudgetGuardDecision ctx = Inr g"
    and "\<not> (budget_allows work g \<and> sandbox_allows S work ctx)"
  shows "blocked_outcome s (runAdapter S adapter leaseId work ctx s)"
proof -
  obtain r0 s0 where e0: "executeApprovedGitHubPullRequestIfConfigured S work ctx s = (r0, s0)"
    by (cases "executeApprovedGitHubPullRequestIfConfigured S work ctx s")
  have w0: "sv_world (awaiting S s0) = sv_world s"
    using resume_world [OF assms(1), of work ctx s] by (simp add: e0 same_world_steps)
  obtain r1 s1 where e1: "emitBudgetCheckedEvent S leaseId (wx_modelRoute ctx) g (awaiting S s0) = (r1, s1)"
    by (cases "emitBudgetCheckedEvent S leaseId (wx_modelRoute ctx) g (awaiting S s0)")
  obtain r2 s2 where e2: "createBudgetApprovalIfOverLimit S leaseId work ctx g s1 = (r2, s2)"
    by (cases "createBudgetApprovalIfOverLimit S leaseId work ctx g s1")
  obtain r3 s3 where e3: "createSandboxContext S leaseId work ctx s2 = (r3, s3)"
    by (cases "createSandboxContext S leaseId work ctx s2")
  have w: "sv_world s0 = sv_world s" "sv_world s1 = sv_world s" "sv_world s2 = sv_world s"
    using w0 same_world_budget [of S leaseId] by (metis e1 e2 snd_conv same_world_steps(1))+
  note steps = runAdapter_def andThen_def lift_sum_def e0 assms(2) e1 e2 e3 blocked_outcome_def
  show ?thesis
  proof (cases r0)
    case (Inl e)
    then show ?thesis using w by (simp add: steps)
  next
    case r0: (Inr u)
    show ?thesis
    proof (cases r1)
      case (Inl e)
      then show ?thesis using w r0 by (simp add: steps)
    next
      case r1: (Inr u')
      show ?thesis
      proof (cases r2)
        case (Inl e)
        then show ?thesis using w r0 r1 by (simp add: steps)
      next
        case r2: (Inr a)
        show ?thesis
        proof (cases a)
          case (Some approval)
          then show ?thesis
            using w r0 r1 r2 budget_gate [of S leaseId work ctx g s1 a s2] e2
            by (simp add: steps returns_def budgetBlockedResult_def)
        next
          case None
          with budget_gate [of S leaseId work ctx g s1 a s2] e2 r2 assms(3) have "\<not> sandbox_allows S work ctx"
            by simp
          from sandbox_blocked [OF this, of leaseId s2] show ?thesis
            using w r0 r1 r2 None
            by (auto simp: steps run_in_sandbox_def returns_def same_world_steps split: sum.splits)
        qed
      qed
    qed
  qed
qed



section \<open>Two gates\<close>

lemma increase_action:
  "hasApprovedBudgetIncreaseForDecision work g \<Longrightarrow> map_option wg_action (wr_approval work) = Some ''budget.increase''"
  by (auto simp: hasApprovedBudgetIncreaseForDecision_def approvedBudgetRouteForCurrentContext_def
      approvedBudgetRouteFromRecord_def split: option.splits if_splits)

lemma exec_action: "isApprovedSandboxExec work \<Longrightarrow> map_option wg_action (wr_approval work) = Some ''sandbox.exec''"
  by (auto simp: isApprovedSandboxExec_def split: option.splits)

text \<open>
  Work holds one approval at a time: a run that is over its budget and whose sandbox needs an approval
  never starts, whichever of the two was granted last; each attempt asks for the other one.
\<close>

lemma two_gates_never_open:
  assumes "so_approvalProvider S = None" "runtimeBudgetGuardDecision ctx = Inr g" "bg_decision g = Over_budget"
    and "so_sandboxProvider S = Some P" "runtimeProfileRequiresSandbox (wx_runtimeProfile ctx)"
    and "pd_requiresApproval (sandbox_decision P ctx)"
  shows "sv_world (snd (runAdapter S adapter leaseId work ctx s)) = sv_world s
    \<and> stopped (fst (runAdapter S adapter leaseId work ctx s))"
proof -
  have "\<not> (budget_allows work g \<and> sandbox_allows S work ctx)"
    using increase_action [of work g] exec_action [of work] assms(3-6)
    by (auto simp: budget_allows_def sandbox_allows_def)
  from blocked_run [OF assms(1,2) this] show ?thesis unfolding blocked_outcome_def by blast
qed

section \<open>Sandboxes end with the attempt\<close>

lemma destroyed_refuses:
  assumes "docker_destroy C lease v = (Inr u, v')"
  shows "\<exists>e. requireActiveLease lease v' = (Inl e, v')"
proof (cases "map_of (dv_leases v) (se_id lease)")
  case None
  with assms show ?thesis by (auto simp: docker_destroy_def requireActiveLease_def)
next
  case (Some l)
  show ?thesis
  proof (cases "ds_destroyed l")
    case True
    with assms Some show ?thesis by (auto simp: docker_destroy_def requireActiveLease_def)
  next
    case False
    obtain r v1 where r: "runDocker C [''rm'', ''--force'', ds_containerName l] (timeout_of (ds_policy l)) v = (Inr r, v1)"
      "v' = mark_destroyed (se_id lease) v1"
      using assms Some False
      by (auto simp: docker_destroy_def andThen_def Let_def split: sum.splits prod.splits if_splits)
    have "dv_leases v1 = dv_leases v"
      using r(1) by (auto simp: runDocker_def on_world_def Let_def split: prod.splits)
    then have "map_of (dv_leases v') (se_id lease) = Some (l\<lparr> ds_destroyed := True \<rparr>)"
      using Some by (simp add: r(2) mark_destroyed_def map_of_marked)
    then show ?thesis by (simp add: requireActiveLease_def)
  qed
qed

text \<open>What \<open>destroy\<close> did when it returned, with the process it ran for the container of an active lease.\<close>

definition removed_or_ended :: "'w docker_config \<Rightarrow> sandbox_lease \<Rightarrow> 'w docker_provider \<Rightarrow> 'w docker_provider \<Rightarrow> bool" where
  "removed_or_ended C lease v v' =
     (case map_of (dv_leases v) (se_id lease) of
        None \<Rightarrow> v' = v
      | Some l \<Rightarrow>
          if ds_destroyed l then v' = v
          else case ho_run (dk_host C) \<lparr> do_args = [''rm'', ''--force'', ds_containerName l], do_timeoutMs = timeout_of (ds_policy l),
                 do_stdoutLimitBytes = dk_stdoutLimitBytes C, do_stderrLimitBytes = dk_stderrLimitBytes C \<rparr> (dv_world v) of
               (Inl _, _) \<Rightarrow> False
             | (Inr result, w) \<Rightarrow>
                 (sr_exitCode result = 0 \<or> str_includes (to_lower_case (sr_stderr result)) ''no such container'')
                 \<and> v' = mark_destroyed (se_id lease) (v\<lparr> dv_world := w \<rparr>))"

lemma destroy_removes:
  assumes "docker_destroy C lease v = (Inr u, v')"
  shows "removed_or_ended C lease v v'"
  using assms
  by (auto simp: docker_destroy_def removed_or_ended_def andThen_def runDocker_def on_world_def Let_def
      split: option.splits sum.splits prod.splits if_splits)

text \<open>
  C31. A container ends with its attempt. When an attempt in a Docker sandbox comes to a result, also
  to an error of the adapter, then after the adapter ended the provider ran \<open>docker rm --force\<close> on the
  container of the lease, the command exited with 0 or found no such container, and the lease is
  marked and takes no command any more. Nothing is run when the provider does not know the lease or
  had marked it before; a command that ran out of time marks it, and kills the container but does
  not check that the kill succeeded, so in that case the container may be left.
\<close>

theorem attempt_leaves_no_live_sandbox:
  assumes "so_sandboxProvider S = Some (docker_sandbox C)"
    and "run_in_sandbox S adapter leaseId work ctx (Prepared sandbox) s = (Inr out, s')"
  shows "\<exists>s1. start_adapter S adapter leaseId work ctx (Some sandbox) s = (Inr out, s1)
    \<and> removed_or_ended C (sb_lease sandbox) (sv_world s1) (sv_world s')
    \<and> (\<exists>e. docker_exec C (sb_lease sandbox) cmd (sv_world s') = (Inl e, sv_world s'))"
proof -
  let ?run = "start_adapter S adapter leaseId work ctx (Some sandbox) s"
  obtain r s1 where run: "?run = (r, s1)" by (cases ?run)
  let ?last = "docker_destroy C (sb_lease sandbox) (sv_world s1)"
  have d: "r = Inr out \<and> (\<exists>u. ?last = (Inr u, sv_world s'))"
    using assms(2) run
    by (auto simp: run_in_sandbox_def assms(1) docker_sandbox_def finally_do_def on_outside_def awaiting_def Let_def
        split: sum.splits prod.splits)
  then obtain u where u: "?last = (Inr u, sv_world s')" by blast
  obtain e where "requireActiveLease (sb_lease sandbox) (sv_world s') = (Inl e, sv_world s')"
    using destroyed_refuses [OF u] by blast
  then show ?thesis
    using run d destroy_removes [OF u] by (auto simp: docker_exec_def andThen_def)
qed

text \<open>The sandbox that \<open>created\<close> holds, and an adapter that fails at once.\<close>

definition failing_adapter :: "'w runtime_adapter" where
  "failing_adapter = (local_adapter ''ai-sdk-local-stub'' Ai_sdk)\<lparr> ra_start := \<lambda>_. finished (failed_result ''no'') \<rparr>"

definition sample_prepared :: sandbox_context where
  "sample_prepared = \<lparr> sb_policy = sc_policy sample_create, sb_lease = sample_sandbox \<rparr>"

definition prepared_state :: "string list list docker_provider service" where
  "prepared_state = sample_state\<lparr> sv_world := created \<rparr>"

lemma sample_start:
  "\<exists>s1. start_adapter sample_service failing_adapter ''none'' demo_record overlapping_context (Some sample_prepared) prepared_state
     = (Inr (failed_result ''no'', None), s1) \<and> sv_world s1 = created"
proof -
  have i: "\<exists>input. createRuntimeInput demo_record overlapping_context (Some sample_prepared) = Inr input"
    using guard_of_overlapping by (auto simp: createRuntimeInput_def createRuntimeEffectiveModelBudget_def split: prod.split)
  have f: "findByLeaseId ''none'' demo_queue = None"
    by (simp add: findByLeaseId_def find_index_def demo_queue_def empty_queue_def demo_record_def fresh_record_def)
  have n: "wi_reason (wr_item demo_record) = Reason_new_run"
    by (simp add: demo_record_def fresh_record_def demo_item_def)
  show ?thesis
    using i
    by (auto simp: start_adapter_def andThen_def lift_sum_def emit_now_def service_time_def
        emit_at_def on_queue_def total_def emitRuntimeEvent_def returns_def finished_def failing_adapter_def n f
        prepared_state_def sample_state_def sample_service_def failed_result_def awaiting_def Let_def)
qed

lemma sample_removal:
  "docker_destroy sample_docker sample_sandbox created = (Inr (), mark_destroyed ''sandbox0'' (created
     \<lparr> dv_world := [dc_args sample_command, [''rm'', ''--force'', dc_containerName sample_command]] \<rparr>))"
  by (simp add: docker_destroy_def created_eq sample_run_simps sample_sandbox_def)

lemma sample_attempt:
  "\<exists>s'. run_in_sandbox sample_service failing_adapter ''none'' demo_record overlapping_context (Prepared sample_prepared) prepared_state
     = (Inr (failed_result ''no'', None), s')
   \<and> dv_world (sv_world s') = [dc_args sample_command, [''rm'', ''--force'', dc_containerName sample_command]]"
  using sample_start
  by (auto simp: run_in_sandbox_def finally_do_def sample_service_def docker_sandbox_def on_outside_def sample_prepared_def
      sample_removal awaiting_def mark_destroyed_def Let_def)

lemma attempt_leaves_no_live_sandbox_witness:
  "\<exists>s1 s' e. sv_world s1 = created \<and> removed_or_ended sample_docker sample_sandbox created (sv_world s')
     \<and> dv_world (sv_world s') = [dc_args sample_command, [''rm'', ''--force'', dc_containerName sample_command]]
     \<and> docker_exec sample_docker sample_sandbox sample_exec (sv_world s') = (Inl e, sv_world (s' :: string list list docker_provider service))
     \<and> start_adapter sample_service failing_adapter ''none'' demo_record overlapping_context (Some sample_prepared) prepared_state
         = (Inr (failed_result ''no'', None), s1)"
proof -
  obtain s' where a: "run_in_sandbox sample_service failing_adapter ''none'' demo_record overlapping_context
      (Prepared sample_prepared) prepared_state = (Inr (failed_result ''no'', None), s')"
    and w: "dv_world (sv_world s') = [dc_args sample_command, [''rm'', ''--force'', dc_containerName sample_command]]"
    using sample_attempt by blast
  have p: "so_sandboxProvider sample_service = Some (docker_sandbox sample_docker)"
    by (simp add: sample_service_def)
  obtain s1 e where "start_adapter sample_service failing_adapter ''none'' demo_record overlapping_context
      (Some sample_prepared) prepared_state = (Inr (failed_result ''no'', None), s1)"
    "removed_or_ended sample_docker sample_sandbox (sv_world s1) (sv_world s')"
    "docker_exec sample_docker sample_sandbox sample_exec (sv_world s') = (Inl e, sv_world s')"
    using attempt_leaves_no_live_sandbox [OF p a, of sample_exec] by (auto simp: sample_prepared_def)
  moreover from this(1) have "sv_world s1 = created"
    using sample_start by auto
  ultimately show ?thesis
    using w by (intro exI [of _ s1] exI [of _ s'] exI [of _ e]) simp
qed

section \<open>The sandbox adapter\<close>

definition sandbox_permits :: "'w sandbox_options \<Rightarrow> sandbox_policy \<Rightarrow> bool" where
  "sandbox_permits options policy \<longleftrightarrow>
     list_all (\<lambda>target. eg_allowed (evaluateEgressPolicy (xo_url options) (po_network policy) target None))
       (or_else (xo_networkTargets options) [])
     \<and> (case filesystemPolicyFromMounts (po_mounts policy) of
          None \<Rightarrow> True
        | Some fs \<Rightarrow>
            fd_allowed (evaluateFilesystemAccess fs (or_else (xo_cwd options) ''/workspace/worktree'') (Some Access_write) None)
            \<and> (case xo_artifactPath options of
                 None \<Rightarrow> True
               | Some path \<Rightarrow> path = [] \<or> fd_allowed (evaluateFilesystemAccess fs path (Some Access_read) None)))"

definition refuses :: "'w activity \<Rightarrow> bool" where
  "refuses act \<longleftrightarrow> (\<forall>S leaseId work ctx remembered s.
     sv_world (snd (perform S leaseId work ctx act remembered s)) = sv_world (s :: 'w service)
     \<and> (\<exists>result. fst (perform S leaseId work ctx act remembered s) = Inr (result, remembered) \<and> rr_status result = Res_failed))"

lemma refuses_emit: "refuses act \<Longrightarrow> refuses (Emit event act)"
  by (simp add: refuses_def same_world_steps same_world_emit)

lemma refuses_failed: "refuses (finished (failed_costing n message))"
  by (simp add: refuses_def finished_def failed_costing_def failed_result_def)

lemma refuses_warnings: "refuses act \<Longrightarrow> refuses (warn_limits ident T warnings act)"
  by (simp add: warn_limits_def refuses_emit)

lemma refuses_egress:
  "(\<exists>target \<in> set targets. \<not> eg_allowed (evaluateEgressPolicy (xo_url options) network target None)) \<or> refuses rest
    \<Longrightarrow> refuses (check_egress options ident network targets rest)"
  by (induction targets) (auto simp: Let_def blocked_egress_def intro!: refuses_emit refuses_failed)

text \<open>
  C32. The command of the sandbox adapter runs under the policy of its sandbox: when an announced target
  is not allowed by the network rules, or the working directory may not be written or the artifact
  not be read under its mounts, the attempt fails without calling the provider.
\<close>

theorem sandbox_command_needs_policy:
  assumes "ai_sandbox input = Some sandbox" "\<not> sandbox_permits options (sb_policy sandbox)"
  shows "sv_world (snd (perform S leaseId work ctx (runInSandbox options ident input) remembered s)) = sv_world s
    \<and> (\<exists>result. fst (perform S leaseId work ctx (runInSandbox options ident input) remembered s) = Inr (result, remembered)
        \<and> rr_status result = Res_failed)"
proof -
  let ?cwd = "or_else (xo_cwd options) ''/workspace/worktree''"
  have paths: "refuses (check_paths options ?cwd (sb_policy sandbox) rest)"
    if "list_all (\<lambda>target. eg_allowed (evaluateEgressPolicy (xo_url options) (po_network (sb_policy sandbox)) target None))
       (or_else (xo_networkTargets options) [])" for rest
    using assms(2) that
    by (auto simp: sandbox_permits_def check_paths_def Let_def refuses_failed split: option.splits)
  have "refuses (runInSandbox options ident input)"
    unfolding runInSandbox_def Let_def assms(1) option.case
    by (intro refuses_emit refuses_warnings refuses_egress) (use paths in \<open>auto simp: list_all_iff\<close>)
  then show ?thesis unfolding refuses_def by blast
qed

text \<open>A target is announced, but the default policy disables the network.\<close>

definition sample_adapter :: "string list list docker_provider sandbox_options" where
  "sample_adapter =
     \<lparr> xo_id = None, xo_kind = None, xo_provider = docker_sandbox sample_docker, xo_command = None, xo_cwd = None,
       xo_artifactPath = None, xo_networkTargets = Some [''example.com''], xo_url = (\<lambda>_. None), xo_fraction = (\<lambda>_. []) \<rparr>"

definition sample_adapter_input :: adapter_input where
  "sample_adapter_input =
     (case createRuntimeInput demo_record overlapping_context None of Inr input \<Rightarrow> input | Inl _ \<Rightarrow> undefined)
       \<lparr> ai_sandbox := Some \<lparr> sb_policy = createDefaultSandboxPolicy Docker_local Privileged None, sb_lease = sample_sandbox \<rparr> \<rparr>"

lemma sandbox_command_needs_policy_witness:
  "sv_world (snd (perform sample_service ''lease'' demo_record overlapping_context
     (runInSandbox sample_adapter ''opencode-sandbox'' sample_adapter_input) None sample_state)) = newDockerProvider []"
proof -
  have "ai_sandbox sample_adapter_input
      = Some \<lparr> sb_policy = createDefaultSandboxPolicy Docker_local Privileged None, sb_lease = sample_sandbox \<rparr>"
    by (simp add: sample_adapter_input_def)
  moreover have "\<not> sandbox_permits sample_adapter (createDefaultSandboxPolicy Docker_local Privileged None)"
    by (simp add: sandbox_permits_def sample_adapter_def createDefaultSandboxPolicy_def defaultSandboxNetworkPolicy_def
        evaluateEgressPolicy_def egress_def Let_def split: option.split)
  ultimately show ?thesis
    using sandbox_command_needs_policy [of sample_adapter_input _ sample_adapter sample_service "''lease''" demo_record
        overlapping_context "''opencode-sandbox''" None sample_state]
    by (simp add: sample_state_def)
qed

section \<open>Draining\<close>

fun is_processed :: "process_decision \<Rightarrow> bool" where
  "is_processed (Processed _ _ _ _ _) = True"
| "is_processed _ = False"

definition drained :: "nat \<Rightarrow> nat \<Rightarrow> process_decision list \<Rightarrow> drain_result \<Rightarrow> bool" where
  "drained n processed decisions r \<longleftrightarrow>
     (\<exists>ds. dr_decisions r = decisions @ ds \<and> length ds \<le> n \<and> list_all is_processed (butlast ds)
        \<and> dr_processed r = processed + length (filter is_processed ds)
        \<and> (dr_stoppedReason r = Stopped_max_items) = (length (filter is_processed ds) = n))"

lemma drained_step:
  "drained n (processed + 1) (decisions @ [d]) r \<Longrightarrow> is_processed d \<Longrightarrow> drained (Suc n) processed decisions r"
  unfolding drained_def
proof (elim exE conjE)
  fix ds
  assume "dr_decisions r = (decisions @ [d]) @ ds" "length ds \<le> n" "list_all is_processed (butlast ds)" "is_processed d"
    "dr_processed r = processed + 1 + length (filter is_processed ds)"
    "(dr_stoppedReason r = Stopped_max_items) = (length (filter is_processed ds) = n)"
  then show "\<exists>ds. dr_decisions r = decisions @ ds \<and> length ds \<le> Suc n \<and> list_all is_processed (butlast ds)
        \<and> dr_processed r = processed + length (filter is_processed ds)
        \<and> (dr_stoppedReason r = Stopped_max_items) = (length (filter is_processed ds) = Suc n)"
    by (intro exI [of _ "d # ds"]) simp
qed

lemma drain_loop_drained:
  "drain_loop S input n processed decisions s = (Inr r, s') \<Longrightarrow> drained n processed decisions r"
proof (induction S input n processed decisions s rule: drain_loop.induct)
  case (1 S input processed decisions s)
  then show ?case by (auto simp: drained_def)
next
  case (2 S input n processed decisions s)
  obtain p s1 where p: "processNext S input s = (p, s1)" by (cases "processNext S input s")
  show ?case
  proof (cases p)
    case (Inl e)
    with p "2.prems" show ?thesis by simp
  next
    case (Inr d)
    show ?thesis
    proof (cases d)
      case (Processed i l w res st)
      with p Inr "2.prems" have "drain_loop S input n (processed + 1) (decisions @ [d]) (awaiting S s1) = (Inr r, s')"
        by simp
      with "2.IH" [OF p [symmetric] Inr refl refl Processed] Processed show ?thesis
        by (intro drained_step [of n processed decisions d r]) simp_all
    qed (use p Inr "2.prems" in \<open>auto simp: drained_def\<close>)
  qed
qed

text \<open>
  C6. Draining is bounded: at most \<open>maxItems\<close> attempts are made, all but the last were processed, the
  count of processed ones is right, and draining stopped for the limit exactly when it is reached.
\<close>

theorem draining_is_bounded:
  assumes "drain S input maxItems s = (Inr r, s')"
  shows "int (length (dr_decisions r)) \<le> or_else maxItems 100 \<and> list_all is_processed (butlast (dr_decisions r))
    \<and> dr_processed r = length (filter is_processed (dr_decisions r))
    \<and> (dr_stoppedReason r = Stopped_max_items) = (int (dr_processed r) = or_else maxItems 100)"
proof -
  have "drained (nat (or_else maxItems 100)) 0 [] r" "1 \<le> or_else maxItems 100"
    using assms drain_loop_drained by (auto simp: drain_def split: if_splits)
  then show ?thesis by (auto simp: drained_def)
qed

lemma draining_is_bounded_witness:
  "\<exists>r s'. drain sample_service sample_input (Some 1) sample_state = (Inr r, s') \<and> dr_processed r = length (filter is_processed (dr_decisions r))"
proof -
  obtain r s' where d: "drain sample_service sample_input (Some 1) sample_state = (Inr r, s')"
    using sample_processed by (auto simp: drain_def)
  show ?thesis
    using draining_is_bounded [OF d] d by blast
qed

section \<open>What a granted approval lets pass\<close>

text \<open>
  The local adapter asks before it serves a prompt that names an approval. Once work was resumed by any
  approval, one of the budget, say, it completes without having asked.
\<close>

lemma resumed_local_adapter_never_asks:
  "fst (perform S leaseId work ctx (ra_resume (local_adapter ident kind) input approval) None s)
     = Inr (completed_result (localFinalText input) [] (at_least_one input), None)"
  by (simp add: local_adapter_def createDeterministicLocalRuntimeAdapter_def local_resume_def finished_def Let_def)

definition quiet :: "'w activity \<Rightarrow> bool" where
  "quiet act \<longleftrightarrow> (\<forall>S leaseId work ctx remembered s.
     sv_world (snd (perform S leaseId work ctx act remembered s)) = sv_world (s :: 'w service))"

lemma quiet_finish: "quiet (Finish r)"
  by (simp add: quiet_def split: sum.split)

lemma quiet_emit: "quiet act \<Longrightarrow> quiet (Emit event act)"
  by (simp add: quiet_def same_world_steps same_world_emit)

lemma same_world_request: "sv_world (snd (requestApproval S leaseId work ctx checkpoint s)) = sv_world s"
  unfolding requestApproval_def by (intro outside_simple)

lemma quiet_asking: "quiet act \<Longrightarrow> quiet (asking checkpoint act)"
  using same_world_request
  by (auto simp: quiet_def asking_def same_world_steps quiet_finish [unfolded quiet_def] split_def Let_def split: sum.split)

lemma quiet_emits: "quiet act \<Longrightarrow> quiet (emit_all es act)"
  by (induction es) (simp_all add: quiet_emit)

lemma quiet_world: "quiet act \<Longrightarrow> sv_world (snd (perform S leaseId work ctx act remembered s)) = sv_world s"
  unfolding quiet_def by blast

lemma quiet_tail: "quiet (agent_tail events checkpoints result)"
  by (auto simp: agent_tail_def finished_def intro!: quiet_emits quiet_asking quiet_finish split: list.split)

lemma agent_run_world:
  "sv_world (snd (perform S leaseId work ctx (agent_run options isApproved input) remembered s))
     = as_world (snd (runBekAgentLoop (ao_tools options) (ao_generate options) (agent_loop_options options isApproved input)
         (start_input.truncate input) (sv_world s)))"
  by (simp add: agent_run_def quiet_world [OF quiet_tail] same_world_steps Let_def)

lemma as_world_emit: "as_world (emit_event kind message data st) = as_world st"
  by (simp add: emit_event_def)

lemma loop_world:
  "as_world (snd (runBekAgentLoop proxy generate options input w))
     = as_world (snd (run_generation proxy (isApproved_of options) (buildBekToolSet (rs_grants input))
         (generate (params_of input options (buildBekToolSet (rs_grants input))))
         (started input (buildBekToolSet (rs_grants input)) w)))"
  by (simp add: runBekAgentLoop_def suspend_def as_world_emit Let_def split: sum.split prod.split list.split)

text \<open>
  The agent adapter blocks a grant that requires an approval in its first attempt; after an approval,
  of whatever it was, it calls the tool.
\<close>

lemma any_approval_unlocks_tools:
  assumes "rs_grants input = [g]" "gr_decision g \<noteq> Deny" "gr_requiresApproval g"
    and "ao_generate options = (\<lambda>_. Use_tool (uniqueToolName g []) args (\<lambda>_. Answer answer))"
  shows "sv_world (snd (perform S leaseId work ctx (ra_start (createAiSdkAgentRuntimeAdapter options) input) None s)) = sv_world s"
    and "sv_world (snd (perform S leaseId work ctx (ra_resume (createAiSdkAgentRuntimeAdapter options) input approval) None s))
      = snd (ao_tools options (sv_world s)
          \<lparr> tq_name = uniqueToolName g [], tq_grant = g, tq_input = args, tq_risk = gr_risk g \<rparr>)"
proof -
  have t: "buildBekToolSet (rs_grants (start_input.truncate input)) = [(uniqueToolName g [], g)]"
    using assms(1) by (simp add: buildBekToolSet_def start_input.defs)
  have w: "as_world (started (start_input.truncate input) tools w) = w" for tools and w :: 'a
    by (simp add: started_def as_world_emit)
  note world = createAiSdkAgentRuntimeAdapter_def Let_def agent_run_world loop_world t assms(4) execute_tool_def
    as_world_emit w note_pending_def isApproved_of_def agent_loop_options_def
  show "sv_world (snd (perform S leaseId work ctx (ra_start (createAiSdkAgentRuntimeAdapter options) input) None s)) = sv_world s"
    using assms(3) by (simp add: world)
  show "sv_world (snd (perform S leaseId work ctx (ra_resume (createAiSdkAgentRuntimeAdapter options) input approval) None s))
      = snd (ao_tools options (sv_world s)
          \<lparr> tq_name = uniqueToolName g [], tq_grant = g, tq_input = args, tq_risk = gr_risk g \<rparr>)"
    using assms(2) by (simp add: world split: prod.split sum.split)
qed

end
