(* ===== verification/GitHub_Names.thy ===== *)
theory GitHub_Names
  imports Sandbox_Rules Grants
begin

text \<open>
  The names the GitHub connector accepts, \<open>packages/github/src/resources.ts\<close> and the validators of
  \<open>proposals.ts\<close>, \<open>approvals.ts\<close>, \<open>tokens.ts\<close> and \<open>workflows.ts\<close>: repositories, branches, labels,
  installation and repository ids, commit hashes, file paths and the changes of a commit. Each
  returns the normal form or the error the code throws. The lemmas show that a normal form is
  normal, except for a repository whose name still ends in \<open>.git\<close>. The constructor of \<open>URL\<close> is the
  parameter \<open>U\<close>, as for the sandbox.
\<close>

section \<open>Results in sequence\<close>

named_theorems try_simps "results that are computed one after the other"

text \<open>What follows a call that may throw, and a callback that may throw over an array.\<close>

definition attempt :: "js_error + 'a \<Rightarrow> ('a \<Rightarrow> js_error + 'b) \<Rightarrow> js_error + 'b" where
  "attempt r f = (case r of Inl e \<Rightarrow> Inl e | Inr x \<Rightarrow> f x)"

fun map_try :: "('a \<Rightarrow> js_error + 'b) \<Rightarrow> 'a list \<Rightarrow> js_error + 'b list" where
  "map_try f [] = Inr []"
| "map_try f (x # xs) = attempt (f x) (\<lambda>y. attempt (map_try f xs) (\<lambda>ys. Inr (y # ys)))"

fun find_try :: "('a \<Rightarrow> js_error + bool) \<Rightarrow> 'a list \<Rightarrow> js_error + 'a option" where
  "find_try p [] = Inr None"
| "find_try p (x # xs) = attempt (p x) (\<lambda>b. if b then Inr (Some x) else find_try p xs)"

definition check :: "bool \<Rightarrow> string \<Rightarrow> js_error + unit" where
  "check ok message = (if ok then Inr () else Inl (Error message))"

text \<open>An optional value is normalised when it is given.\<close>

definition when_given :: "('a \<Rightarrow> js_error + 'b) \<Rightarrow> 'a option \<Rightarrow> js_error + 'b option" where
  "when_given f v = (case v of None \<Rightarrow> Inr None | Some x \<Rightarrow> attempt (f x) (\<lambda>y. Inr (Some y)))"

lemma attempted [simp, try_simps]: "attempt (Inl e) f = Inl e" "attempt (Inr x) f = f x"
  by (simp_all add: attempt_def)

lemma attempt_Inr [try_simps]: "attempt r f = Inr y \<longleftrightarrow> (\<exists>x. r = Inr x \<and> f x = Inr y)"
  by (cases r) simp_all

lemma refused_unless [try_simps]: "(if refused then Inl e else r) = Inr y \<longleftrightarrow> \<not> refused \<and> r = Inr y"
  by simp

lemma check_Inr [simp, try_simps]: "check ok m = Inr u \<longleftrightarrow> ok"
  by (simp add: check_def)

lemma check_True [simp]: "check True m = Inr ()"
  by (simp add: check_def)

lemma when_given_simps [simp]:
  "when_given f None = Inr None" "when_given f (Some x) = attempt (f x) (\<lambda>y. Inr (Some y))"
  by (simp_all add: when_given_def)

text \<open>A normal form is normal: once it has been computed, computing it again gives it back.\<close>

definition settles :: "('a \<Rightarrow> js_error + 'a) \<Rightarrow> bool" where
  "settles f \<longleftrightarrow> (\<forall>x y. f x = Inr y \<longrightarrow> f y = Inr y)"

lemma settlesD: "settles f \<Longrightarrow> f x = Inr y \<Longrightarrow> f y = Inr y"
  by (simp add: settles_def)

lemma map_try_settled: "settles f \<Longrightarrow> map_try f xs = Inr ys \<Longrightarrow> map_try f ys = Inr ys"
  by (induction xs arbitrary: ys) (auto simp: attempt_Inr settlesD)

lemma map_try_all: "map_try f xs = Inr ys \<Longrightarrow> y \<in> set ys \<Longrightarrow> \<exists>x \<in> set xs. f x = Inr y"
  by (induction xs arbitrary: ys) (auto simp: attempt_Inr)

lemma map_try_length: "map_try f xs = Inr ys \<Longrightarrow> length ys = length xs"
  by (induction xs arbitrary: ys) (auto simp: attempt_Inr)

lemma when_given_settled: "settles f \<Longrightarrow> when_given f v = Inr w \<Longrightarrow> when_given f w = Inr w"
  by (cases v) (auto simp: attempt_Inr settlesD)

section \<open>Texts\<close>

definition requiredText :: "string \<Rightarrow> string \<Rightarrow> js_error + string" where
  "requiredText value label =
     (let normalized = js_trim value
      in if normalized = [] then Inl (Error (label @ '' is required.'')) else Inr normalized)"

text \<open>\<open>value?.trim()\<close>, kept when it is not empty.\<close>

definition optionalText :: "string option \<Rightarrow> string option" where
  "optionalText value = (case value of
      None \<Rightarrow> None
    | Some v \<Rightarrow> (let normalized = js_trim v in if normalized = [] then None else Some normalized))"

definition normalizeStringList :: "string list \<Rightarrow> string \<Rightarrow> js_error + string list" where
  "normalizeStringList values label =
     (let normalized = filter (\<lambda>v. v \<noteq> []) (map js_trim values)
      in if list_ex (\<lambda>v. 100 < length v) normalized
         then Inl (Error (''GitHub '' @ label @ ''s must be 100 characters or fewer.''))
         else Inr (dedupe normalized))"

text \<open>\<open>replace(/c+/g, r)\<close> for a class \<open>c\<close> of characters: every run of them becomes one \<open>r\<close>.\<close>

fun squash :: "(char \<Rightarrow> bool) \<Rightarrow> char \<Rightarrow> bool \<Rightarrow> string \<Rightarrow> string" where
  "squash P r inside [] = []"
| "squash P r inside (c # s) =
     (if P c then (if inside then squash P r True s else r # squash P r True s)
      else c # squash P r False s)"

definition replace_runs :: "(char \<Rightarrow> bool) \<Rightarrow> char \<Rightarrow> string \<Rightarrow> string" where
  "replace_runs P r s = squash P r False s"

section \<open>Repositories\<close>

record repo_resource =
  gr_owner :: string
  gr_repo :: string
  gr_fullName :: string
  gr_resource :: string
  gr_url :: string

datatype repo_input = Repo_text string | Repo_ref string string

text \<open>\<open>replace(/\.git$/i, "")\<close>: one suffix is taken off.\<close>

definition strip_git :: "string \<Rightarrow> string" where
  "strip_git s = (if ends_with (to_lower_case s) ''.git'' then take (length s - 4) s else s)"

definition lower_alnum :: "char \<Rightarrow> bool" where
  "lower_alnum c \<longleftrightarrow> in_range CHR ''a'' CHR ''z'' c \<or> is_digit c"

definition owner_text :: "string \<Rightarrow> bool" where
  "owner_text s \<longleftrightarrow> s \<noteq> [] \<and> length s \<le> 39 \<and> list_all (\<lambda>c. lower_alnum c \<or> c = CHR ''-'') s
     \<and> lower_alnum (hd s) \<and> lower_alnum (last s)"

definition repo_text :: "string \<Rightarrow> bool" where
  "repo_text s \<longleftrightarrow> s \<noteq> [] \<and> length s \<le> 100 \<and> list_all (\<lambda>c. lower_alnum c \<or> c \<in> set ''._-'') s"

definition normalizeGitHubOwner :: "string \<Rightarrow> js_error + string" where
  "normalizeGitHubOwner owner =
     (let normalized = to_lower_case (js_trim owner)
      in if owner_text normalized then Inr normalized
         else Inl (Error ''GitHub owner must be a valid user or organization name.''))"

definition normalizeGitHubRepoName :: "string \<Rightarrow> js_error + string" where
  "normalizeGitHubRepoName repo =
     (let normalized = to_lower_case (strip_git (js_trim repo))
      in if normalized = ''.'' \<or> normalized = ''..'' \<or> \<not> repo_text normalized
         then Inl (Error ''GitHub repo must be a valid repository name.'') else Inr normalized)"

definition partsFromPath :: "string \<Rightarrow> (string \<times> string) option" where
  "partsFromPath path = (case split_at CHR ''/'' (strip_git (js_trim path)) of
      [owner, repo] \<Rightarrow> if owner \<noteq> [] \<and> repo \<noteq> [] then Some (owner, repo) else None
    | _ \<Rightarrow> None)"

definition parseGitHubUrl :: "url_parser \<Rightarrow> string \<Rightarrow> (string \<times> string) option" where
  "parseGitHubUrl U input = (case U input of
      None \<Rightarrow> None
    | Some url \<Rightarrow>
        if to_lower_case (ur_hostname url) \<noteq> ''github.com'' then None
        else (case filter (\<lambda>p. p \<noteq> []) (split_at CHR ''/'' (dropWhile (\<lambda>c. c = CHR ''/'') (ur_pathname url))) of
                owner # repo # _ \<Rightarrow> Some (owner, repo)
              | _ \<Rightarrow> None))"

definition parseGitHubRepoRef :: "url_parser \<Rightarrow> string \<Rightarrow> (string \<times> string) option" where
  "parseGitHubRepoRef U input =
     (let trimmed = js_trim input; lowered = to_lower_case trimmed in
      if trimmed = [] then None
      else if starts_with trimmed ''github:'' then partsFromPath (drop 7 trimmed)
      else if starts_with lowered ''http://'' \<or> starts_with lowered ''https://'' then parseGitHubUrl U trimmed
      else if starts_with lowered ''git@github.com:'' then partsFromPath (drop 15 trimmed)
      else partsFromPath trimmed)"

definition repo_of :: "string \<Rightarrow> string \<Rightarrow> repo_resource" where
  "repo_of owner repo =
     (let fullName = owner @ ''/'' @ repo in
      \<lparr> gr_owner = owner, gr_repo = repo, gr_fullName = fullName, gr_resource = ''github:'' @ fullName,
        gr_url = ''https://github.com/'' @ fullName \<rparr>)"

definition parseGitHubRepoResource :: "url_parser \<Rightarrow> repo_input \<Rightarrow> js_error + repo_resource" where
  "parseGitHubRepoResource U input =
     (case (case input of Repo_text s \<Rightarrow> parseGitHubRepoRef U s | Repo_ref owner repo \<Rightarrow> Some (owner, repo)) of
        None \<Rightarrow> Inl (Error ''Expected a GitHub repo resource like github:owner/repo.'')
      | Some (given_owner, given_repo) \<Rightarrow>
          attempt (normalizeGitHubOwner given_owner) (\<lambda>owner.
          attempt (normalizeGitHubRepoName given_repo) (\<lambda>repo. Inr (repo_of owner repo))))"

definition formatGitHubRepoResource :: "string \<Rightarrow> string \<Rightarrow> js_error + string" where
  "formatGitHubRepoResource given_owner given_repo =
     attempt (normalizeGitHubOwner given_owner) (\<lambda>owner.
     attempt (normalizeGitHubRepoName given_repo) (\<lambda>repo. Inr (''github:'' @ owner @ ''/'' @ repo)))"

definition tryParseGitHubRepoResource :: "url_parser \<Rightarrow> repo_input \<Rightarrow> repo_resource option" where
  "tryParseGitHubRepoResource U input =
     (case parseGitHubRepoResource U input of Inl _ \<Rightarrow> None | Inr r \<Rightarrow> Some r)"

definition isGitHubRepoResource :: "url_parser \<Rightarrow> string \<Rightarrow> bool" where
  "isGitHubRepoResource U input = (tryParseGitHubRepoResource U (Repo_text input) \<noteq> None)"

text \<open>A resource that is passed on as a reference to a repository.\<close>

definition ref_of :: "repo_resource \<Rightarrow> repo_input" where
  "ref_of r = Repo_ref (gr_owner r) (gr_repo r)"

section \<open>Branches\<close>

text \<open>The class of characters a ref name must not have: controls, the space, the
  signs of patterns and revisions, and the backslash.\<close>

definition bad_ref_char :: "char \<Rightarrow> bool" where
  "bad_ref_char c \<longleftrightarrow> (of_char c :: nat) < 32 \<or> (of_char c :: nat) = 127 \<or> c \<in> set '' ~^:?*['' \<or> c = CHR 0x5C"

definition bad_ref :: "string \<Rightarrow> bool" where
  "bad_ref s \<longleftrightarrow> starts_with s ''/'' \<or> ends_with s ''/'' \<or> ends_with s ''.'' \<or> str_includes s ''//''
     \<or> str_includes s ''..'' \<or> str_includes s [CHR ''@'', CHR ''{''] \<or> list_ex bad_ref_char s
     \<or> list_ex (\<lambda>part. starts_with part ''.'') (split_at CHR ''/'' s)"

definition normalizeGitHubBranchName :: "string \<Rightarrow> js_error + string" where
  "normalizeGitHubBranchName branch =
     (let normalized = js_trim branch in
      if normalized = [] then Inl (Error ''GitHub branch name is required.'')
      else if 255 < length normalized then Inl (Error ''GitHub branch name must be 255 characters or fewer.'')
      else if bad_ref normalized then Inl (Error ''GitHub branch name is not a valid git ref name.'')
      else if list_ex (\<lambda>part. ends_with part ''.lock'') (split_at CHR ''/'' normalized)
      then Inl (Error ''GitHub branch name cannot contain .lock ref segments.'')
      else Inr normalized)"

section \<open>Numbers and hashes\<close>

text \<open>A number of the language: one with an integral value, or a fraction, \<open>NaN\<close> or an infinity.\<close>

datatype js_number = Whole int | Not_whole

datatype github_id = Id_text string | Id_number js_number

definition max_safe_integer :: int where
  "max_safe_integer = 2 ^ 53 - 1"

definition digits_text :: "string \<Rightarrow> bool" where
  "digits_text s \<longleftrightarrow> s \<noteq> [] \<and> list_all is_digit s"

text \<open>
  \<open>String(id).trim()\<close> where it can be a row of digits: from \<open>10^21\<close> on a number is written with an
  exponent, a fraction with a point.
\<close>

definition id_digits :: "github_id \<Rightarrow> string option" where
  "id_digits v = (case v of
      Id_text s \<Rightarrow> Some (js_trim s)
    | Id_number (Whole n) \<Rightarrow> if \<bar>n\<bar> < 10 ^ 21 then Some (int_str n) else None
    | Id_number Not_whole \<Rightarrow> None)"

definition normalizeGitHubInstallationId :: "github_id \<Rightarrow> js_error + string" where
  "normalizeGitHubInstallationId installationId =
     (case id_digits installationId of
        Some normalized \<Rightarrow>
          if \<not> digits_text normalized \<or> read_digits normalized \<le> 0
          then Inl (Error ''GitHub installation id must be a positive integer.'') else Inr normalized
      | None \<Rightarrow> Inl (Error ''GitHub installation id must be a positive integer.''))"

text \<open>
  \<open>Number(value.trim())\<close> rounds a row of digits beyond \<open>2^53\<close>, and never into the safe integers.
\<close>

definition normalizeGitHubRepositoryId :: "github_id \<Rightarrow> js_error + int" where
  "normalizeGitHubRepositoryId value =
     (let number = (case value of
              Id_number (Whole n) \<Rightarrow> Some n
            | Id_number Not_whole \<Rightarrow> None
            | Id_text s \<Rightarrow> if digits_text (js_trim s) then Some (int (read_digits (js_trim s))) else None)
      in case number of
           Some n \<Rightarrow> if 0 < n \<and> n \<le> max_safe_integer then Inr n
                     else Inl (Error ''GitHub repository id must be a positive safe integer.'')
         | None \<Rightarrow> Inl (Error ''GitHub repository id must be a positive safe integer.''))"

definition normalizePullRequestNumber :: "js_number \<Rightarrow> js_error + int" where
  "normalizePullRequestNumber value = (case value of
      Whole n \<Rightarrow> if 0 < n then Inr n else Inl (Error ''GitHub pull request number must be a positive integer.'')
    | Not_whole \<Rightarrow> Inl (Error ''GitHub pull request number must be a positive integer.''))"

definition lower_hex :: "char \<Rightarrow> bool" where
  "lower_hex c \<longleftrightarrow> is_digit c \<or> in_range CHR ''a'' CHR ''f'' c"

definition normalizeSha :: "string \<Rightarrow> js_error + string" where
  "normalizeSha value =
     (let normalized = to_lower_case (js_trim value)
      in if length normalized = 40 \<and> list_all lower_hex normalized then Inr normalized
         else Inl (Error ''GitHub commit SHA must be a 40 character hex string.''))"

section \<open>The changes of a commit\<close>

record file_change =
  fc_path :: string
  fc_content :: "string option"
  fc_deletion :: "bool option"
  fc_executable :: "bool option"

text \<open>\<open>replaceAll\<close> of the backslash by a slash.\<close>

definition forward_slashes :: "string \<Rightarrow> string" where
  "forward_slashes s = map (\<lambda>c. if c = CHR 0x5C then CHR ''/'' else c) s"

definition normalizeGitHubFilePath :: "string \<Rightarrow> js_error + string" where
  "normalizeGitHubFilePath value =
     (let normalized = forward_slashes (js_trim value) in
      if normalized = [] \<or> starts_with normalized ''/'' \<or> CHR 0x00 \<in> set normalized
         \<or> list_ex (\<lambda>part. part = [] \<or> part = ''.'' \<or> part = ''..'') (split_at CHR ''/'' normalized)
      then Inl (Error ''GitHub file path must be a safe relative path.'') else Inr normalized)"

definition normalizeCommitChange :: "file_change \<Rightarrow> js_error + file_change" where
  "normalizeCommitChange change =
     attempt (normalizeGitHubFilePath (fc_path change)) (\<lambda>path.
     let deletion = (fc_deletion change = Some True) in
     if deletion \<and> fc_content change \<noteq> None
     then Inl (Error ''GitHub deleted file changes cannot include content.'')
     else if \<not> deletion \<and> fc_content change = None
     then Inl (Error ''GitHub file changes require content unless deleted.'')
     else Inr \<lparr> fc_path = path, fc_content = (if deletion then None else fc_content change),
                 fc_deletion = (if deletion then Some True else None),
                 fc_executable = (if fc_executable change = Some True then Some True else None) \<rparr>)"

text \<open>The first path that occurred before.\<close>

fun duplicate_path :: "string list \<Rightarrow> file_change list \<Rightarrow> string option" where
  "duplicate_path seen [] = None"
| "duplicate_path seen (c # cs) =
     (if fc_path c \<in> set seen then Some (fc_path c) else duplicate_path (fc_path c # seen) cs)"

definition normalizeCommitChanges :: "file_change list \<Rightarrow> js_error + file_change list" where
  "normalizeCommitChanges changes =
     (if changes = [] then Inl (Error ''GitHub commit workflow requires at least one file change.'')
      else attempt (map_try normalizeCommitChange changes) (\<lambda>normalized.
        case duplicate_path [] normalized of
          Some path \<Rightarrow> Inl (Error (''GitHub commit workflow has duplicate path: '' @ path))
        | None \<Rightarrow> Inr normalized))"

section \<open>Normal forms\<close>

lemma requiredText_settles: "settles (\<lambda>v. requiredText v label)"
  by (auto simp: settles_def requiredText_def Let_def split: if_splits)

lemma requiredText_Inr [simp]: "requiredText v label = Inr t \<longleftrightarrow> t = js_trim v \<and> js_trim v \<noteq> []"
  by (auto simp: requiredText_def Let_def)

lemma requiredText_given [simp]: "js_trim v \<noteq> [] \<Longrightarrow> requiredText v label = Inr (js_trim v)"
  by (simp add: requiredText_def)

lemma optionalText_idem [simp]: "optionalText (optionalText v) = optionalText v"
  by (auto simp: optionalText_def Let_def split: option.splits)

lemma dedupe_distinct: "distinct xs \<Longrightarrow> dedupe xs = xs"
  by (induction xs) (auto simp: filter_id_conv)

lemma normalizeStringList_settles: "settles (\<lambda>vs. normalizeStringList vs label)"
proof -
  have "filter (\<lambda>v. v \<noteq> []) (map js_trim (dedupe vs)) = dedupe vs"
    if "vs = filter (\<lambda>v. v \<noteq> []) (map js_trim xs)" for vs xs
  proof -
    have v: "js_trim v = v" "v \<noteq> []" if "v \<in> set (dedupe vs)" for v
      using that \<open>vs = _\<close> by (auto simp: set_dedupe)
    then have "map js_trim (dedupe vs) = dedupe vs"
      by (intro map_idI) simp
    with v show ?thesis
      by (simp add: filter_id_conv)
  qed
  then show ?thesis
    by (fastforce simp: settles_def normalizeStringList_def Let_def list_ex_iff set_dedupe dedupe_distinct
        distinct_dedupe split: if_splits)
qed

lemma in_range_lower: "in_range CHR ''a'' CHR ''z'' c \<longleftrightarrow> 97 \<le> (of_char c :: nat) \<and> (of_char c :: nat) \<le> 122"
  by (simp add: in_range_def)

lemma lower_alnum_plain: "lower_alnum c \<Longrightarrow> \<not> is_space c"
  by (auto simp: lower_alnum_def in_range_lower digit_range is_space_def Let_def)

lemma to_lower_trim: "js_trim (to_lower_case s) = to_lower_case (js_trim s)"
proof -
  have "is_space (js_lower_char c) = is_space c" for c
  proof -
    have "(of_char c :: nat) < 256" by (rule nat_of_char_less_256)
    then show ?thesis by (auto simp: js_lower_char_def is_space_def Let_def)
  qed
  then show ?thesis
    by (simp add: js_trim_def to_lower_case_def dropWhile_map rev_map comp_def)
qed

lemma owner_settles: "settles normalizeGitHubOwner"
  by (auto simp: settles_def normalizeGitHubOwner_def Let_def to_lower_trim split: if_splits)

lemma branch_settles: "settles normalizeGitHubBranchName"
  by (auto simp: settles_def normalizeGitHubBranchName_def Let_def split: if_splits)

text \<open>
  The name of a repository keeps its normal form only when no suffix is left: \<open>x.git.git\<close> loses one
  suffix each time it is read.
\<close>

lemma repo_plain: "repo_text s \<Longrightarrow> js_trim s = s"
proof (rule trim_no_space)
  fix c assume "repo_text s" "c \<in> set s"
  then have "lower_alnum c \<or> c \<in> set ''._-''"
    by (simp add: repo_text_def list_all_iff)
  then show "\<not> is_space c"
    using lower_alnum_plain by (auto simp: is_space_def)
qed

lemma repo_name_again:
  "normalizeGitHubRepoName r = Inr n \<Longrightarrow> \<not> ends_with n ''.git'' \<Longrightarrow> normalizeGitHubRepoName n = Inr n"
  by (auto simp: normalizeGitHubRepoName_def Let_def strip_git_def repo_plain split: if_splits)

lemma repo_resource_again:
  assumes "parseGitHubRepoResource U input = Inr r" "\<not> ends_with (gr_repo r) ''.git''"
  shows "parseGitHubRepoResource U' (ref_of r) = Inr r"
proof -
  from assms(1) obtain o' r' owner repo where n: "normalizeGitHubOwner o' = Inr owner"
      "normalizeGitHubRepoName r' = Inr repo" and r: "r = repo_of owner repo"
    by (auto simp: parseGitHubRepoResource_def attempt_Inr split: option.splits)
  have "gr_owner r = owner" "gr_repo r = repo"
    using r by (simp_all add: repo_of_def Let_def)
  then show ?thesis
    using settlesD [OF owner_settles n(1)] repo_name_again [OF n(2)] assms(2) r
    by (simp add: parseGitHubRepoResource_def ref_of_def)
qed

lemma installation_id_settled:
  "normalizeGitHubInstallationId v = Inr t \<Longrightarrow> normalizeGitHubInstallationId (Id_text t) = Inr t"
proof -
  assume n: "normalizeGitHubInstallationId v = Inr t"
  then have t: "digits_text t" "0 < read_digits t"
    by (auto simp: normalizeGitHubInstallationId_def split: option.splits if_splits)
  then have "js_trim t = t"
    by (auto intro!: trim_no_space simp: digits_text_def list_all_iff digit_range is_space_def Let_def)
  with t show ?thesis
    by (simp add: normalizeGitHubInstallationId_def id_digits_def)
qed

lemma repository_id_settled:
  "normalizeGitHubRepositoryId v = Inr n \<Longrightarrow> normalizeGitHubRepositoryId (Id_number (Whole n)) = Inr n"
  by (auto simp: normalizeGitHubRepositoryId_def Let_def split: github_id.splits js_number.splits option.splits if_splits)

lemma slashes_twice [simp]: "forward_slashes (forward_slashes s) = forward_slashes s"
  by (simp add: forward_slashes_def)

lemma slashed_trim [simp]: "js_trim (forward_slashes s) = forward_slashes (js_trim s)"
proof -
  have "is_space (if c = CHR 0x5C then CHR ''/'' else c) = is_space c" for c
    by (simp add: is_space_def)
  then show ?thesis
    by (simp add: forward_slashes_def js_trim_def dropWhile_map rev_map comp_def)
qed

lemma no_backslash: "CHR 0x5C \<notin> set (forward_slashes s)"
  by (auto simp: forward_slashes_def split: if_splits)

lemma path_settles: "settles normalizeGitHubFilePath"
  by (auto simp: settles_def normalizeGitHubFilePath_def Let_def split: if_splits)

lemma change_settles: "settles normalizeCommitChange"
proof -
  have "normalizeCommitChange d = Inr d" if c: "normalizeCommitChange c = Inr d" for c d
  proof -
    from c obtain p where p: "normalizeGitHubFilePath (fc_path c) = Inr p"
      by (auto simp: normalizeCommitChange_def attempt_Inr)
    with c show ?thesis
      using settlesD [OF path_settles p] by (auto simp: normalizeCommitChange_def Let_def split: if_splits)
  qed
  then show ?thesis by (simp add: settles_def)
qed

lemma changes_settle: "settles normalizeCommitChanges"
  by (auto simp: settles_def normalizeCommitChanges_def attempt_Inr map_try_settled [OF change_settles]
      dest: map_try_length split: if_splits option.splits)

text \<open>What a path and the changes of a commit are once they are accepted.\<close>

lemma no_duplicate_path:
  "duplicate_path seen cs = None \<longleftrightarrow> distinct (map fc_path cs) \<and> set seen \<inter> fc_path ` set cs = {}"
  by (induction cs arbitrary: seen) auto

lemma path_safe:
  assumes "normalizeGitHubFilePath v = Inr p"
  shows "p \<noteq> []" "CHR 0x5C \<notin> set p" "CHR 0x00 \<notin> set p" "\<not> starts_with p ''/''"
    and "part \<in> set (split_at CHR ''/'' p) \<Longrightarrow> part \<noteq> [] \<and> part \<noteq> ''.'' \<and> part \<noteq> ''..''"
  using assms no_backslash [of "js_trim v"]
  by (simp_all add: normalizeGitHubFilePath_def Let_def list_ex_iff split: if_splits)

lemma change_accepted:
  assumes "normalizeCommitChange c = Inr d"
  shows "normalizeGitHubFilePath (fc_path d) = Inr (fc_path d)" "fc_deletion d = Some True \<longleftrightarrow> fc_content d = None"
proof -
  from assms obtain p where p: "normalizeGitHubFilePath (fc_path c) = Inr p" and d: "fc_path d = p"
      "fc_deletion d = Some True \<longleftrightarrow> fc_content d = None"
    by (auto simp: normalizeCommitChange_def attempt_Inr Let_def split: if_splits)
  then show "normalizeGitHubFilePath (fc_path d) = Inr (fc_path d)" "fc_deletion d = Some True \<longleftrightarrow> fc_content d = None"
    using settlesD [OF path_settles p] by simp_all
qed

lemma changes_accepted:
  assumes "normalizeCommitChanges cs = Inr ds"
  shows "ds \<noteq> []" "distinct (map fc_path ds)"
    and "d \<in> set ds \<Longrightarrow> normalizeGitHubFilePath (fc_path d) = Inr (fc_path d)"
    and "d \<in> set ds \<Longrightarrow> fc_deletion d = Some True \<longleftrightarrow> fc_content d = None"
proof -
  from assms have m: "map_try normalizeCommitChange cs = Inr ds" and ne: "cs \<noteq> []"
    and dist: "distinct (map fc_path ds)"
    by (auto simp: normalizeCommitChanges_def attempt_Inr no_duplicate_path split: if_splits option.splits)
  show "distinct (map fc_path ds)" by (rule dist)
  show "ds \<noteq> []"
    using map_try_length [OF m] ne by auto
  show "normalizeGitHubFilePath (fc_path d) = Inr (fc_path d)" "fc_deletion d = Some True \<longleftrightarrow> fc_content d = None"
    if "d \<in> set ds"
    using map_try_all [OF m that] change_accepted by blast+
qed

end
