(* ===== verification/GitHub_Tokens.thy ===== *)
theory GitHub_Tokens
  imports GitHub_Names Json_Values
begin

text \<open>
  Installation tokens of the GitHub connector, \<open>packages/github/src/tokens.ts\<close>: what a workflow may
  request, when a token is accepted as a lease for a request, and the two providers, the fake one
  that keeps the tokens it issued and the one that signs a JWT and asks GitHub. The network call is
  the parameter \<open>fetch\<close>, which changes a world of its own; signing is the parameter \<open>sign\<close>.
\<close>

section \<open>Requests\<close>

text \<open>An object of permissions lists its entries; an access may be \<open>undefined\<close>.\<close>

type_synonym permissions = "(string \<times> string option) list"

definition GITHUB_INSTALLATION_PERMISSION_NAMES :: "string list" where
  "GITHUB_INSTALLATION_PERMISSION_NAMES = [''checks'', ''contents'', ''metadata'', ''pull_requests'']"

record token_request_input =
  ri_installationId :: github_id
  ri_repository :: "repo_input option"
  ri_repositoryIds :: "github_id list option"
  ri_permissions :: "permissions option"

record token_request =
  tr_installationId :: string
  tr_repository :: "repo_resource option"
  tr_repositoryIds :: "int list option"
  tr_permissions :: permissions

definition isKnownPermissionName :: "string \<Rightarrow> bool" where
  "isKnownPermissionName v \<longleftrightarrow> v \<in> set GITHUB_INSTALLATION_PERMISSION_NAMES"

fun normalizeGitHubInstallationTokenPermissions :: "permissions \<Rightarrow> js_error + permissions" where
  "normalizeGitHubInstallationTokenPermissions [] = Inr []"
| "normalizeGitHubInstallationTokenPermissions ((name, access) # rest) =
     (if \<not> isKnownPermissionName name
      then Inl (Error (''Unsupported GitHub installation permission: '' @ name @ ''.''))
      else if access = None then normalizeGitHubInstallationTokenPermissions rest
      else if access \<noteq> Some ''read'' \<and> access \<noteq> Some ''write''
      then Inl (Error ''Unsupported GitHub installation permission access.'')
      else attempt (normalizeGitHubInstallationTokenPermissions rest) (\<lambda>ps. Inr ((name, access) # ps)))"

definition normalizeGitHubRepositoryIds :: "github_id list \<Rightarrow> js_error + int list" where
  "normalizeGitHubRepositoryIds repositoryIds =
     (if repositoryIds = [] then Inl (Error ''GitHub repositoryIds must include at least one id.'')
      else attempt (map_try normalizeGitHubRepositoryId repositoryIds) (\<lambda>ids. Inr (dedupe ids)))"

definition createGitHubInstallationTokenRequest :: "url_parser \<Rightarrow> token_request_input \<Rightarrow> js_error + token_request" where
  "createGitHubInstallationTokenRequest U input =
     attempt (normalizeGitHubInstallationId (ri_installationId input)) (\<lambda>installationId.
     attempt (normalizeGitHubInstallationTokenPermissions (or_else (ri_permissions input) [])) (\<lambda>ps.
     attempt (when_given (parseGitHubRepoResource U) (ri_repository input)) (\<lambda>repository.
     attempt (when_given normalizeGitHubRepositoryIds (ri_repositoryIds input)) (\<lambda>ids.
     Inr \<lparr> tr_installationId = installationId, tr_repository = repository, tr_repositoryIds = ids,
           tr_permissions = ps \<rparr>))))"

text \<open>A request that is passed on as the input of one.\<close>

definition whole_ids :: "int list \<Rightarrow> github_id list" where
  "whole_ids ids = map (Id_number \<circ> Whole) ids"

definition request_again :: "token_request \<Rightarrow> token_request_input" where
  "request_again r = \<lparr> ri_installationId = Id_text (tr_installationId r),
     ri_repository = map_option ref_of (tr_repository r), ri_repositoryIds = map_option whole_ids (tr_repositoryIds r),
     ri_permissions = Some (tr_permissions r) \<rparr>"

section \<open>Tokens and leases\<close>

record installation_token =
  it_installationId :: github_id
  it_token :: string
  it_expiresAt :: iso_date
  it_permissions :: permissions
  it_repository :: "repo_resource option"
  it_repositoryIds :: "github_id list option"

record token_lease =
  tl_installationId :: string
  tl_expiresAt :: iso_date
  tl_permissions :: permissions
  tl_repository :: "repo_resource option"
  tl_repositoryIds :: "int list option"

text \<open>A span of milliseconds; \<open>Not_finite\<close> is \<open>NaN\<close> or an infinity.\<close>

datatype js_span = Span rat | Not_finite

definition permissionAccessRank :: "string \<Rightarrow> nat" where
  "permissionAccessRank access = (if access = ''write'' then 2 else 1)"

definition permissionAccessCovers :: "string \<Rightarrow> string \<Rightarrow> bool" where
  "permissionAccessCovers actual required \<longleftrightarrow> permissionAccessRank required \<le> permissionAccessRank actual"

fun error_message :: "js_error \<Rightarrow> string" where
  "error_message (Error m) = m"
| "error_message (RangeError m) = m"
| "error_message (TypeError m) = m"

definition createGitHubInstallationTokenLease :: "url_parser \<Rightarrow> installation_token \<Rightarrow> js_error + token_lease" where
  "createGitHubInstallationTokenLease U token =
     attempt (normalizeGitHubInstallationId (it_installationId token)) (\<lambda>installationId.
     attempt (normalizeGitHubInstallationTokenPermissions (it_permissions token)) (\<lambda>ps.
     attempt (when_given (parseGitHubRepoResource U) (map_option ref_of (it_repository token))) (\<lambda>repository.
     attempt (when_given normalizeGitHubRepositoryIds (it_repositoryIds token)) (\<lambda>ids.
     Inr \<lparr> tl_installationId = installationId, tl_expiresAt = it_expiresAt token, tl_permissions = ps,
           tl_repository = repository, tl_repositoryIds = ids \<rparr>))))"

text \<open>A computation whose error is recorded; the value is there when it succeeded.\<close>

definition caught :: "js_error + 'a \<Rightarrow> 'a option \<times> string list" where
  "caught r = (case r of Inl e \<Rightarrow> (None, [error_message e]) | Inr x \<Rightarrow> (Some x, []))"

definition installation_errors :: "token_request option \<Rightarrow> string option \<Rightarrow> string list" where
  "installation_errors request tokenId = (case (request, tokenId) of
      (Some r, Some i) \<Rightarrow>
        if i \<noteq> tr_installationId r
        then [''GitHub installation token installation mismatch: expected '' @ tr_installationId r @ ''.''] else []
    | _ \<Rightarrow> [])"

definition repository_errors :: "url_parser \<Rightarrow> token_request option \<Rightarrow> installation_token \<Rightarrow> js_error + string list" where
  "repository_errors U request token = (case request of
      None \<Rightarrow> Inr []
    | Some r \<Rightarrow> (case tr_repository r of
        None \<Rightarrow> Inr []
      | Some expected \<Rightarrow>
          attempt (when_given (parseGitHubRepoResource U) (map_option ref_of (it_repository token))) (\<lambda>actual.
          Inr (case actual of
            None \<Rightarrow> [''GitHub installation token must be scoped to '' @ gr_resource expected @ ''.'']
          | Some a \<Rightarrow>
              if gr_resource a \<noteq> gr_resource expected
              then [''GitHub installation token repository mismatch: expected '' @ gr_resource expected @ ''.''] else []))))"

definition repository_id_errors :: "token_request option \<Rightarrow> installation_token \<Rightarrow> string list" where
  "repository_id_errors request token = (case request of
      None \<Rightarrow> []
    | Some r \<Rightarrow> (case tr_repositoryIds r of
        None \<Rightarrow> []
      | Some expected \<Rightarrow> (case it_repositoryIds token of
          None \<Rightarrow> [''GitHub installation token must be scoped to repository ids ''
                     @ join '', '' (map int_str expected) @ ''.'']
        | Some given \<Rightarrow>
            let (ids, errors) = caught (normalizeGitHubRepositoryIds given)
            in errors @ (case ids of
                 None \<Rightarrow> []
               | Some actual \<Rightarrow>
                   let missing = filter (\<lambda>i. i \<notin> set actual) expected
                   in if missing \<noteq> []
                      then [''GitHub installation token repository id scope missing: expected ''
                              @ join '', '' (map int_str missing) @ ''.'']
                      else []))))"

definition access_of :: "permissions \<Rightarrow> string \<Rightarrow> string option" where
  "access_of ps name = (case map_of ps name of Some (Some a) \<Rightarrow> Some a | _ \<Rightarrow> None)"

definition permission_error :: "permissions \<Rightarrow> permissions \<Rightarrow> string \<Rightarrow> string list" where
  "permission_error required actual name = (case access_of required name of
      None \<Rightarrow> []
    | Some needed \<Rightarrow> (case access_of actual name of
        None \<Rightarrow> [''GitHub installation token is missing '' @ name @ ''='' @ needed @ ''.'']
      | Some a \<Rightarrow>
          if \<not> permissionAccessCovers a needed
          then [''GitHub installation token has '' @ name @ ''='' @ a @ '', but '' @ needed @ '' is required.'']
          else []))"

definition expiry_errors :: "installation_token \<Rightarrow> int option \<Rightarrow> js_span option \<Rightarrow> string list" where
  "expiry_errors token now minTtlMs = (case date_parse (it_expiresAt token) of
      None \<Rightarrow> [''GitHub installation token expiresAt must be an ISO date.'']
    | Some expiresAtMs \<Rightarrow> (case or_else minTtlMs (Span 60000) of
        Not_finite \<Rightarrow> [''GitHub installation token minTtlMs must be non-negative.'']
      | Span ttl \<Rightarrow>
          if ttl < 0 then [''GitHub installation token minTtlMs must be non-negative.'']
          else (case now of
            None \<Rightarrow> [''GitHub installation token validation clock must return a valid date.'']
          | Some nowMs \<Rightarrow>
              if of_int expiresAtMs \<le> of_int nowMs + ttl
              then [''GitHub installation token expires too soon for workflow execution.''] else [])))"

text \<open>The validation: the lease, or the errors in the order they are found.\<close>

definition validateGitHubInstallationTokenLease ::
    "url_parser \<Rightarrow> installation_token \<Rightarrow> token_request_input \<Rightarrow> int option \<Rightarrow> js_span option \<Rightarrow>
     js_error + (string list + token_lease)" where
  "validateGitHubInstallationTokenLease U token input now minTtlMs =
     (let (request, request_errors) = caught (createGitHubInstallationTokenRequest U input);
          (tokenId, id_errors) = caught (normalizeGitHubInstallationId (it_installationId token));
          (ps, permissions_errors) = caught (normalizeGitHubInstallationTokenPermissions (it_permissions token))
      in attempt (repository_errors U request token) (\<lambda>scope_errors.
         let errors = request_errors @ id_errors @ permissions_errors
               @ installation_errors request tokenId @ scope_errors @ repository_id_errors request token
               @ (case (request, ps) of
                    (Some r, Some actual) \<Rightarrow>
                      concat (map (permission_error (tr_permissions r) actual) GITHUB_INSTALLATION_PERMISSION_NAMES)
                  | _ \<Rightarrow> [])
               @ expiry_errors token now minTtlMs
         in if errors \<noteq> [] then Inr (Inl errors)
            else attempt (createGitHubInstallationTokenLease U token) (\<lambda>lease. Inr (Inr lease))))"

definition assertGitHubInstallationTokenLease ::
    "url_parser \<Rightarrow> installation_token \<Rightarrow> token_request_input \<Rightarrow> int option \<Rightarrow> js_span option \<Rightarrow> js_error + token_lease" where
  "assertGitHubInstallationTokenLease U token input now minTtlMs =
     attempt (validateGitHubInstallationTokenLease U token input now minTtlMs) (\<lambda>validation.
     case validation of
       Inl errors \<Rightarrow> Inl (Error (''Invalid GitHub installation token lease: '' @ join '' '' errors))
     | Inr lease \<Rightarrow> Inr lease)"

section \<open>The fake provider\<close>

definition createFakeTokenValue :: "token_request \<Rightarrow> nat \<Rightarrow> string" where
  "createFakeTokenValue request sequence =
     (let repo = (case tr_repository request of
            Some r \<Rightarrow> gr_resource r
          | None \<Rightarrow> (case tr_repositoryIds request of
              Some ids \<Rightarrow> ''repository_ids:'' @ join '','' (map int_str ids)
            | None \<Rightarrow> ''all''))
      in ''fake-gh-installation-token:'' @ tr_installationId request @ '':'' @ repo @ '':'' @ nat_str sequence)"

text \<open>The state of the provider is the list of tokens it issued.\<close>

definition fake_getInstallationToken ::
    "url_parser \<Rightarrow> iso_date \<Rightarrow> int \<Rightarrow> token_request_input \<Rightarrow> installation_token list \<Rightarrow>
     (installation_token list, installation_token) outcome" where
  "fake_getInstallationToken U now ttlMs input issued =
     (case createGitHubInstallationTokenRequest U input of
        Inl e \<Rightarrow> (Inl e, issued)
      | Inr normalized \<Rightarrow> (case date_plus now ttlMs of
          Inl e \<Rightarrow> (Inl e, issued)
        | Inr expiresAt \<Rightarrow>
            let token = \<lparr> it_installationId = Id_text (tr_installationId normalized),
                  it_token = createFakeTokenValue normalized (length issued + 1), it_expiresAt = expiresAt,
                  it_permissions = tr_permissions normalized, it_repository = tr_repository normalized,
                  it_repositoryIds = map_option whole_ids (tr_repositoryIds normalized) \<rparr>
            in (Inr token, issued @ [token])))"

section \<open>The provider that asks GitHub\<close>

record http_request =
  hq_method :: string
  hq_url :: string
  hq_headers :: "(string \<times> string) list"
  hq_body :: "string option"

text \<open>
  A response with the text of its body, \<open>None\<close> where reading it fails, and what \<open>JSON.parse\<close> gives for
  that text: a value, or the message of its error.
\<close>

record http_response =
  hr_status :: nat
  hr_statusText :: string
  hr_text :: "string option"
  hr_json :: "string + json"

type_synonym 'w fetcher = "http_request \<Rightarrow> 'w \<Rightarrow> (string + http_response) \<times> 'w"

definition response_ok :: "http_response \<Rightarrow> bool" where
  "response_ok r \<longleftrightarrow> 200 \<le> hr_status r \<and> hr_status r \<le> 299"

text \<open>UTF-8 of a text, \<open>encodeURIComponent\<close> and \<open>base64url\<close>, over bytes as numbers.\<close>

definition utf8_char :: "char \<Rightarrow> nat list" where
  "utf8_char c = (let n = of_char c in if n < 128 then [n] else [192 + n div 64, 128 + n mod 64])"

definition utf8 :: "string \<Rightarrow> nat list" where
  "utf8 s = concat (map utf8_char s)"

definition upper_hex_digit :: "nat \<Rightarrow> char" where
  "upper_hex_digit n = (if n < 10 then char_of (48 + n) else char_of (55 + n))"

definition encodeURIComponent :: "string \<Rightarrow> string" where
  "encodeURIComponent s = concat (map (\<lambda>c.
     if in_range CHR ''A'' CHR ''Z'' c \<or> in_range CHR ''a'' CHR ''z'' c \<or> in_range CHR ''0'' CHR ''9'' c
        \<or> c \<in> set ''-_.!~*()'' \<or> c = CHR 0x27
     then [c] else concat (map (\<lambda>b. [CHR ''%'', upper_hex_digit (b div 16), upper_hex_digit (b mod 16)]) (utf8_char c))) s)"

definition base64_digit :: "nat \<Rightarrow> char" where
  "base64_digit n =
     (if n < 26 then char_of (65 + n) else if n < 52 then char_of (71 + n)
      else if n < 62 then char_of (n - 4) else if n = 62 then CHR ''-'' else CHR ''_'')"

fun base64UrlEncode :: "nat list \<Rightarrow> string" where
  "base64UrlEncode [] = []"
| "base64UrlEncode [a] = map base64_digit [a div 4, a mod 4 * 16]"
| "base64UrlEncode [a, b] = map base64_digit [a div 4, a mod 4 * 16 + b div 16, b mod 16 * 4]"
| "base64UrlEncode (a # b # c # s) =
     map base64_digit [a div 4, a mod 4 * 16 + b div 16, b mod 16 * 4 + c div 64, c mod 64] @ base64UrlEncode s"

definition base64UrlEncodeJson :: "json \<Rightarrow> string" where
  "base64UrlEncodeJson v = base64UrlEncode (utf8 (or_else (json_stringify v) []))"

subsection \<open>Redaction of its errors\<close>

definition pem_rx :: rx where
  "pem_rx = rx_seq [lit ''-----BEGIN '', plus (Cls (\<lambda>c. c \<noteq> CHR ''-'')), lit ''-----'',
     lazy_star (Cls (\<lambda>_. True)), lit ''-----END '', plus (Cls (\<lambda>c. c \<noteq> CHR ''-'')), lit ''-----'']"

definition gh_token_rx :: rx where
  "gh_token_rx = rx_seq [WordB, lit ''gh'', Cls (\<lambda>c. c \<in> set ''osurp''), chr CHR ''_'',
     plus (Cls (alnum_or ''_'')), WordB]"

definition jwt_rx :: rx where
  "jwt_rx = rx_seq [WordB, lit ''eyJ'', plus (Cls (alnum_or ''_-'')), chr CHR ''.'', plus (Cls (alnum_or ''_-'')),
     chr CHR ''.'', plus (Cls (alnum_or ''_-'')), WordB]"

definition any_bearer_rx :: rx where
  "any_bearer_rx = rx_seq [lit_i ''Bearer'', plus (Cls is_space), plus (Cls (\<lambda>c. \<not> is_space c))]"

text \<open>\<open>split(secret).join(mark)\<close>: every occurrence, from the left.\<close>

definition hide_secret :: "string \<Rightarrow> string option \<Rightarrow> string" where
  "hide_secret message secret = (case secret of
      None \<Rightarrow> message
    | Some s \<Rightarrow> if s = [] then message else replace_all (lit s) (\<lambda>_. ''[redacted:github-secret]'') message)"

definition redactGitHubSecrets :: "string \<Rightarrow> string option list \<Rightarrow> string" where
  "redactGitHubSecrets message secrets =
     foldl hide_secret
       (replace_all any_bearer_rx (\<lambda>_. ''Bearer [redacted:github-token]'')
         (replace_all jwt_rx (\<lambda>_. ''[redacted:github-jwt]'')
           (replace_all gh_token_rx (\<lambda>_. ''[redacted:github-token]'')
             (replace_all pem_rx (\<lambda>_. ''[redacted:github-private-key]'') message))))
       secrets"

definition createRedactedGitHubError :: "string \<Rightarrow> string \<Rightarrow> string option list \<Rightarrow> js_error" where
  "createRedactedGitHubError message caused secrets =
     Error (redactGitHubSecrets (message @ '' '' @ caused) secrets)"

subsection \<open>Construction\<close>

record app_provider =
  ap_appId :: string
  ap_privateKey :: string
  ap_apiBaseUrl :: string
  ap_userAgent :: string

definition normalizeGitHubAppId :: "github_id \<Rightarrow> js_error + string" where
  "normalizeGitHubAppId appId = (case id_digits appId of
      Some t \<Rightarrow> if digits_text t \<and> 0 < read_digits t then Inr t
                else Inl (Error ''GitHub App id must be a positive integer.'')
    | None \<Rightarrow> Inl (Error ''GitHub App id must be a positive integer.''))"

text \<open>\<open>replace(/\\n/g, "\n")\<close>: a backslash and an \<open>n\<close> become a line feed.\<close>

fun unescape_newlines :: "string \<Rightarrow> string" where
  "unescape_newlines (c # d # s) =
     (if c = CHR 0x5C \<and> d = CHR ''n'' then CHR 0x0A # unescape_newlines s else c # unescape_newlines (d # s))"
| "unescape_newlines s = s"

definition normalizeGitHubAppPrivateKey :: "string \<Rightarrow> js_error + string" where
  "normalizeGitHubAppPrivateKey privateKey =
     (let normalized = unescape_newlines (js_trim privateKey)
      in if normalized = [] then Inl (Error ''GitHub App private key must be a PEM private key.'')
         else Inr normalized)"

definition without_end_slashes :: "string \<Rightarrow> string" where
  "without_end_slashes s = rev (dropWhile (\<lambda>c. c = CHR ''/'') (rev s))"

definition normalizeGitHubApiBaseUrl :: "string \<Rightarrow> js_error + string" where
  "normalizeGitHubApiBaseUrl apiBaseUrl =
     (let normalized = without_end_slashes (js_trim apiBaseUrl)
      in if normalized = [] then Inl (Error ''GitHub API base URL must be non-empty.'') else Inr normalized)"

definition new_app_provider ::
    "github_id \<Rightarrow> string \<Rightarrow> string option \<Rightarrow> string option \<Rightarrow> js_error + app_provider" where
  "new_app_provider appId privateKey apiBaseUrl userAgent =
     attempt (normalizeGitHubAppId appId) (\<lambda>i.
     attempt (normalizeGitHubAppPrivateKey privateKey) (\<lambda>key.
     attempt (normalizeGitHubApiBaseUrl (or_else apiBaseUrl ''https://api.github.com'')) (\<lambda>base.
     Inr \<lparr> ap_appId = i, ap_privateKey = key, ap_apiBaseUrl = base,
           ap_userAgent = or_else (optionalText userAgent) ''bek-github-installation-token-provider'' \<rparr>)))"

subsection \<open>Asking for a token\<close>

text \<open>
  \<open>createAppJwt\<close>: \<open>sign key text\<close> is the signature as bytes, or the message of the error.
\<close>

definition createAppJwt :: "(string \<Rightarrow> string \<Rightarrow> string + nat list) \<Rightarrow> app_provider \<Rightarrow> int option \<Rightarrow> js_error + string" where
  "createAppJwt sign P now = (case now of
      None \<Rightarrow> Inl (Error ''GitHub App JWT clock must return a valid date.'')
    | Some nowMs \<Rightarrow>
        let nowSeconds = nowMs div 1000;
            header = JObj [(''alg'', JStr ''RS256''), (''typ'', JStr ''JWT'')];
            payload = JObj [(''iss'', JStr (ap_appId P)), (''iat'', JNum (nowSeconds - 60)),
                            (''exp'', JNum (nowSeconds + 10 * 60))];
            signingInput = base64UrlEncodeJson header @ ''.'' @ base64UrlEncodeJson payload
        in (case sign (ap_privateKey P) signingInput of
              Inl message \<Rightarrow> Inl (createRedactedGitHubError ''Failed to sign GitHub App JWT.'' message [Some (ap_privateKey P)])
            | Inr signature \<Rightarrow> Inr (signingInput @ ''.'' @ base64UrlEncode signature)))"

definition permissions_json :: "permissions \<Rightarrow> json" where
  "permissions_json ps = JObj (map (\<lambda>(name, access). (name, case access of None \<Rightarrow> JUndef | Some a \<Rightarrow> JStr a)) ps)"

definition createGitHubInstallationTokenApiBody :: "token_request \<Rightarrow> json" where
  "createGitHubInstallationTokenApiBody request = JObj
     ((case tr_repositoryIds request of
         Some ids \<Rightarrow> [(''repository_ids'', JArr (map JNum ids))]
       | None \<Rightarrow> (case tr_repository request of
           Some r \<Rightarrow> [(''repositories'', JArr [JStr (gr_repo r)])]
         | None \<Rightarrow> []))
      @ (if tr_permissions request \<noteq> [] then [(''permissions'', permissions_json (tr_permissions request))] else []))"

definition formatGitHubErrorDetail :: "string \<Rightarrow> string + json \<Rightarrow> string" where
  "formatGitHubErrorDetail body parsed =
     (if js_trim body = [] then []
      else case parsed of
        Inr (JObj es) \<Rightarrow> (case get_prop es ''message'' of JStr m \<Rightarrow> m | _ \<Rightarrow> body)
      | _ \<Rightarrow> body)"

definition readGitHubErrorResponse :: "http_response \<Rightarrow> string option list \<Rightarrow> string" where
  "readGitHubErrorResponse response secrets =
     (let status = nat_str (hr_status response)
            @ (if hr_statusText response \<noteq> [] then '' '' @ hr_statusText response else []);
          detail = (case hr_text response of
              None \<Rightarrow> [] | Some body \<Rightarrow> formatGitHubErrorDetail body (hr_json response))
      in redactGitHubSecrets (if detail \<noteq> [] then status @ '': '' @ detail else status) secrets)"

text \<open>\<open>Date.parse\<close> of a text in the response is the parameter \<open>parse_date\<close>.\<close>

definition normalizeGitHubApiExpiresAt :: "(string \<Rightarrow> iso_date) \<Rightarrow> json \<Rightarrow> js_error + iso_date" where
  "normalizeGitHubApiExpiresAt parse_date value = (case value of
      JStr s \<Rightarrow> (case parse_date s of
          Instant t \<Rightarrow> Inr (Instant t)
        | Unparsable \<Rightarrow> Inl (Error ''response expires_at must be an ISO date string.''))
    | _ \<Rightarrow> Inl (Error ''response expires_at must be an ISO date string.''))"

fun response_permissions :: "json_record \<Rightarrow> js_error + permissions" where
  "response_permissions [] = Inr []"
| "response_permissions ((name, access) # rest) =
     (if \<not> isKnownPermissionName name then response_permissions rest
      else if access \<noteq> JStr ''read'' \<and> access \<noteq> JStr ''write''
      then Inl (Error ''Unsupported GitHub installation permission access.'')
      else attempt (response_permissions rest) (\<lambda>ps.
        Inr ((name, Some (if access = JStr ''read'' then ''read'' else ''write'')) # ps)))"

definition normalizeGitHubApiResponsePermissions :: "json \<Rightarrow> permissions \<Rightarrow> js_error + permissions" where
  "normalizeGitHubApiResponsePermissions given fallback = (case given of
      JUndef \<Rightarrow> Inr fallback
    | JNull \<Rightarrow> Inr fallback
    | JObj es \<Rightarrow> response_permissions es
    | _ \<Rightarrow> Inl (Error ''response permissions must be an object.''))"

definition createGitHubInstallationTokenFromApiResponse ::
    "(string \<Rightarrow> iso_date) \<Rightarrow> json \<Rightarrow> token_request \<Rightarrow> js_error + installation_token" where
  "createGitHubInstallationTokenFromApiResponse parse_date raw request = (case raw of
      JObj es \<Rightarrow> (case get_prop es ''token'' of
          JStr token \<Rightarrow>
            if js_trim token = [] then Inl (Error ''response token must be a non-empty string.'')
            else
            attempt (normalizeGitHubApiExpiresAt parse_date (get_prop es ''expires_at'')) (\<lambda>expiresAt.
            attempt (normalizeGitHubApiResponsePermissions (get_prop es ''permissions'') (tr_permissions request)) (\<lambda>ps.
            Inr \<lparr> it_installationId = Id_text (tr_installationId request), it_token = token, it_expiresAt = expiresAt,
                  it_permissions = ps, it_repository = tr_repository request,
                  it_repositoryIds = map_option whole_ids (tr_repositoryIds request) \<rparr>))
        | _ \<Rightarrow> Inl (Error ''response token must be a non-empty string.''))
    | _ \<Rightarrow> Inl (Error ''response body must be an object.''))"

definition getRawApiResponseToken :: "json \<Rightarrow> string option" where
  "getRawApiResponseToken raw = (case raw of
      JObj es \<Rightarrow> (case get_prop es ''token'' of JStr t \<Rightarrow> Some t | _ \<Rightarrow> None) | _ \<Rightarrow> None)"

definition token_http_request :: "app_provider \<Rightarrow> string \<Rightarrow> token_request \<Rightarrow> http_request" where
  "token_http_request P jwt normalized =
     \<lparr> hq_method = ''POST'',
       hq_url = ap_apiBaseUrl P @ ''/app/installations/'' @ encodeURIComponent (tr_installationId normalized)
         @ ''/access_tokens'',
       hq_headers = [(''Accept'', ''application/vnd.github+json''), (''Authorization'', ''Bearer '' @ jwt),
         (''Content-Type'', ''application/json''), (''User-Agent'', ap_userAgent P),
         (''X-GitHub-Api-Version'', ''2022-11-28'')],
       hq_body = json_stringify (createGitHubInstallationTokenApiBody normalized) \<rparr>"

definition read_token_response ::
    "(string \<Rightarrow> iso_date) \<Rightarrow> app_provider \<Rightarrow> string \<Rightarrow> token_request \<Rightarrow> http_response \<Rightarrow> js_error + installation_token" where
  "read_token_response parse_date P jwt normalized response =
     (let secrets = [Some (ap_privateKey P), Some jwt] in
      if \<not> response_ok response
      then Inl (Error (''GitHub installation token request failed: '' @ readGitHubErrorResponse response secrets))
      else (case hr_json response of
          Inl message \<Rightarrow>
            Inl (createRedactedGitHubError ''GitHub installation token response was not valid JSON.'' message secrets)
        | Inr raw \<Rightarrow> (case createGitHubInstallationTokenFromApiResponse parse_date raw normalized of
            Inl e \<Rightarrow> Inl (createRedactedGitHubError ''Invalid GitHub installation token response.'' (error_message e)
              (secrets @ [getRawApiResponseToken raw]))
          | Inr token \<Rightarrow> Inr token)))"

definition getInstallationToken ::
    "url_parser \<Rightarrow> (string \<Rightarrow> iso_date) \<Rightarrow> (string \<Rightarrow> string \<Rightarrow> string + nat list) \<Rightarrow> 'w fetcher \<Rightarrow> app_provider \<Rightarrow>
     int option \<Rightarrow> token_request_input \<Rightarrow> 'w \<Rightarrow> ('w, installation_token) outcome" where
  "getInstallationToken U parse_date sign fetch P now input w =
     (case createGitHubInstallationTokenRequest U input of
        Inl e \<Rightarrow> (Inl e, w)
      | Inr normalized \<Rightarrow> (case createAppJwt sign P now of
          Inl e \<Rightarrow> (Inl e, w)
        | Inr jwt \<Rightarrow> (case fetch (token_http_request P jwt normalized) w of
            (Inl message, w') \<Rightarrow>
              (Inl (createRedactedGitHubError ''GitHub installation token request failed before GitHub responded.''
                 message [Some (ap_privateKey P), Some jwt]), w')
          | (Inr response, w') \<Rightarrow> (read_token_response parse_date P jwt normalized response, w'))))"

end
