(* ===== verification/GitHub_Plans.thy ===== *)
theory GitHub_Plans
  imports GitHub_Tokens
begin

text \<open>
  Plans of pull requests, \<open>packages/github/src/proposals.ts\<close>, \<open>approvals.ts\<close>, \<open>branches.ts\<close> and
  \<open>workflows.ts\<close>: the proposal of a pull request, the input of its approval hash, the plan hash and
  the branch name derived from it, the comparison with branches that exist, and the workflow plan
  with the approval payload that carries it to a human and back. SHA-256 and the collation of
  \<open>localeCompare\<close> are those of the environment \<open>E\<close>.
\<close>

section \<open>Proposals\<close>

record proposal_input =
  pi_repository :: repo_input
  pi_title :: string
  pi_headBranch :: string
  pi_baseBranch :: "string option"
  pi_body :: "string option"
  pi_draft :: "bool option"
  pi_maintainerCanModify :: "bool option"
  pi_labels :: "string list option"
  pi_reviewers :: "string list option"
  pi_runId :: "string option"
  pi_requesterPrincipalId :: "string option"

text \<open>An approval that a plan requires.\<close>

record plan_approval =
  pa_required :: bool
  pa_action :: capability_kind
  pa_risk :: risk_level
  pa_resource :: string
  pa_reason :: string

record pull_request_proposal =
  pp_visibleAgentHandle :: string
  pp_capability :: capability_kind
  pp_resource :: string
  pp_repository :: repo_resource
  pp_title :: string
  pp_body :: string
  pp_baseBranch :: string
  pp_headBranch :: string
  pp_draft :: bool
  pp_maintainerCanModify :: bool
  pp_labels :: "string list"
  pp_reviewers :: "string list"
  pp_approval :: plan_approval
  pp_runId :: "string option"
  pp_requesterPrincipalId :: "string option"

definition BEK_VISIBLE_AGENT_HANDLE :: string where
  "BEK_VISIBLE_AGENT_HANDLE = ''@bek''"

text \<open>The proposal made of an input and the normal forms of its parts.\<close>

definition proposal_of :: "'x proposal_input_scheme \<Rightarrow> repo_resource \<Rightarrow> string \<Rightarrow> string \<Rightarrow> string \<Rightarrow>
    string list \<Rightarrow> string list \<Rightarrow> pull_request_proposal" where
  "proposal_of input repository title baseBranch headBranch labels reviewers =
     \<lparr> pp_visibleAgentHandle = BEK_VISIBLE_AGENT_HANDLE, pp_capability = Github_pr,
       pp_resource = gr_resource repository, pp_repository = repository, pp_title = title,
       pp_body = or_else (map_option js_trim (pi_body input)) [],
       pp_baseBranch = baseBranch, pp_headBranch = headBranch,
       pp_draft = or_else (pi_draft input) True,
       pp_maintainerCanModify = or_else (pi_maintainerCanModify input) True,
       pp_labels = labels, pp_reviewers = reviewers,
       pp_approval = \<lparr> pa_required = True, pa_action = Github_pr, pa_risk = Write_external,
         pa_resource = gr_resource repository,
         pa_reason = ''Opening a GitHub pull request is an external write and must pass bundle policy and human approval.'' \<rparr>,
       pp_runId = optionalText (pi_runId input),
       pp_requesterPrincipalId = optionalText (pi_requesterPrincipalId input) \<rparr>"

definition createGitHubPullRequestProposal ::
    "url_parser \<Rightarrow> 'x proposal_input_scheme \<Rightarrow> js_error + pull_request_proposal" where
  "createGitHubPullRequestProposal U input =
     attempt (parseGitHubRepoResource U (pi_repository input)) (\<lambda>repository.
     attempt (requiredText (pi_title input) ''PR title'') (\<lambda>title.
     attempt (normalizeGitHubBranchName (or_else (pi_baseBranch input) ''main'')) (\<lambda>baseBranch.
     attempt (normalizeGitHubBranchName (pi_headBranch input)) (\<lambda>headBranch.
     if baseBranch = headBranch then Inl (Error ''PR base and head branches must be different.'')
     else
     attempt (normalizeStringList (or_else (pi_labels input) []) ''label'') (\<lambda>labels.
     attempt (normalizeStringList (or_else (pi_reviewers input) []) ''reviewer'') (\<lambda>reviewers.
     Inr (proposal_of input repository title baseBranch headBranch labels reviewers)))))))"

section \<open>The input of an approval hash\<close>

record write_approval_input = proposal_input +
  wi_installationId :: "github_id option"
  wi_repositoryId :: "github_id option"
  wi_existingPullRequestNumber :: "js_number option"
  wi_headCommitSha :: "string option"

record approval_hash_input =
  ah_visibleAgentHandle :: string
  ah_action :: capability_kind
  ah_resource :: string
  ah_repository :: repo_resource
  ah_title :: string
  ah_body :: string
  ah_baseBranch :: string
  ah_headBranch :: string
  ah_draft :: bool
  ah_maintainerCanModify :: bool
  ah_labels :: "string list"
  ah_reviewers :: "string list"
  ah_installationId :: "string option"
  ah_repositoryId :: "int option"
  ah_existingPullRequestNumber :: "int option"
  ah_headCommitSha :: "string option"

definition normalizeHashList :: "env \<Rightarrow> string list \<Rightarrow> string list" where
  "normalizeHashList E values =
     sort_by (env_collate E) (dedupe (filter (\<lambda>v. v \<noteq> []) (map js_trim values)))"

text \<open>The fields a proposal gives; a proposal has none of the optional ones.\<close>

definition hash_input_of_proposal :: "env \<Rightarrow> pull_request_proposal \<Rightarrow> approval_hash_input" where
  "hash_input_of_proposal E proposal =
     \<lparr> ah_visibleAgentHandle = BEK_VISIBLE_AGENT_HANDLE, ah_action = Github_pr,
       ah_resource = pp_resource proposal, ah_repository = pp_repository proposal,
       ah_title = pp_title proposal, ah_body = pp_body proposal,
       ah_baseBranch = pp_baseBranch proposal, ah_headBranch = pp_headBranch proposal,
       ah_draft = pp_draft proposal, ah_maintainerCanModify = pp_maintainerCanModify proposal,
       ah_labels = normalizeHashList E (pp_labels proposal),
       ah_reviewers = normalizeHashList E (pp_reviewers proposal),
       ah_installationId = None, ah_repositoryId = None, ah_existingPullRequestNumber = None,
       ah_headCommitSha = None \<rparr>"

definition createGitHubPullRequestWriteApprovalHashInput ::
    "url_parser \<Rightarrow> env \<Rightarrow> 'x write_approval_input_scheme \<Rightarrow> js_error + approval_hash_input" where
  "createGitHubPullRequestWriteApprovalHashInput U E input =
     attempt (createGitHubPullRequestProposal U input) (\<lambda>proposal.
     attempt (when_given normalizeGitHubInstallationId (wi_installationId input)) (\<lambda>installationId.
     attempt (when_given normalizeGitHubRepositoryId (wi_repositoryId input)) (\<lambda>repositoryId.
     attempt (when_given normalizePullRequestNumber (wi_existingPullRequestNumber input)) (\<lambda>number.
     attempt (when_given normalizeSha (wi_headCommitSha input)) (\<lambda>sha.
     Inr ((hash_input_of_proposal E proposal)
       \<lparr> ah_installationId := installationId, ah_repositoryId := repositoryId,
         ah_existingPullRequestNumber := number, ah_headCommitSha := sha \<rparr>))))))"

section \<open>The plan hash\<close>

record plan_hash_input = write_approval_input +
  ph_diffSummary :: "string option"
  ph_files :: "string list option"
  ph_modelRoute :: "string option"
  ph_runtime :: "string option"

record plan_hash_binding =
  pb_hash :: string
  pb_approvalHashInput :: approval_hash_input
  pb_diffSummary :: "string option"
  pb_files :: "string list option"
  pb_modelRoute :: "string option"
  pb_runtime :: "string option"
  pb_requesterPrincipalId :: "string option"

definition json_opt :: "('a \<Rightarrow> json) \<Rightarrow> 'a option \<Rightarrow> json" where
  "json_opt f v = (case v of None \<Rightarrow> JUndef | Some x \<Rightarrow> f x)"

definition json_or_null :: "('a \<Rightarrow> json) \<Rightarrow> 'a option \<Rightarrow> json" where
  "json_or_null f v = (case v of None \<Rightarrow> JNull | Some x \<Rightarrow> f x)"

definition approval_hash_json :: "approval_hash_input \<Rightarrow> json" where
  "approval_hash_json h = JObj
     [(''type'', JStr ''github.pr.write.approval_hash_input''), (''version'', JNum 1),
      (''visibleAgentHandle'', JStr (ah_visibleAgentHandle h)),
      (''action'', JStr (capability_str (ah_action h))), (''resource'', JStr (ah_resource h)),
      (''repository'', JObj [(''provider'', JStr ''github''), (''owner'', JStr (gr_owner (ah_repository h))),
         (''repo'', JStr (gr_repo (ah_repository h))), (''fullName'', JStr (gr_fullName (ah_repository h))),
         (''resource'', JStr (gr_resource (ah_repository h)))]),
      (''title'', JStr (ah_title h)), (''body'', JStr (ah_body h)),
      (''baseBranch'', JStr (ah_baseBranch h)), (''headBranch'', JStr (ah_headBranch h)),
      (''draft'', JBool (ah_draft h)), (''maintainerCanModify'', JBool (ah_maintainerCanModify h)),
      (''labels'', JArr (map JStr (ah_labels h))), (''reviewers'', JArr (map JStr (ah_reviewers h))),
      (''installationId'', json_opt JStr (ah_installationId h)),
      (''repositoryId'', json_opt JNum (ah_repositoryId h)),
      (''existingPullRequestNumber'', json_opt JNum (ah_existingPullRequestNumber h)),
      (''headCommitSha'', json_opt JStr (ah_headCommitSha h))]"

text \<open>\<open>canonicalStringify\<close> of \<open>branches.ts\<close>: keys in the order of code units, \<open>undefined\<close> as \<open>null\<close>.\<close>

fun plan_text :: "json \<Rightarrow> string" where
  "plan_text JNull = ''null''"
| "plan_text JUndef = ''null''"
| "plan_text (JBool b) = (if b then ''true'' else ''false'')"
| "plan_text (JNum n) = int_str n"
| "plan_text (JReal t) = number_text t"
| "plan_text (JStr s) = json_quote s"
| "plan_text (JArr vs) = ''['' @ join '','' (map plan_text vs) @ '']''"
| "plan_text (JObj es) =
     ''{'' @ join '','' (map snd (sort_by (\<lambda>a b. code_unit_le (fst a) (fst b))
       (map (\<lambda>(key, entry). (key, json_quote key @ '':'' @ plan_text entry))
         (filter (\<lambda>e. \<not> is_undefined (snd e)) es)))) @ ''}''"

definition hashCanonical :: "env \<Rightarrow> json \<Rightarrow> string" where
  "hashCanonical E v = env_sha256 E (plan_text v)"

definition normalizeFiles :: "string list option \<Rightarrow> string list option" where
  "normalizeFiles files =
     map_option (\<lambda>fs. sort_by code_unit_le (dedupe (filter (\<lambda>v. v \<noteq> []) (map js_trim fs)))) files"

definition createGitHubPullRequestPlanHashBinding ::
    "url_parser \<Rightarrow> env \<Rightarrow> plan_hash_input \<Rightarrow> js_error + plan_hash_binding" where
  "createGitHubPullRequestPlanHashBinding U E input =
     attempt (createGitHubPullRequestWriteApprovalHashInput U E input) (\<lambda>approvalHashInput.
     let diffSummary = optionalText (ph_diffSummary input);
         files = normalizeFiles (ph_files input);
         modelRoute = optionalText (ph_modelRoute input);
         runtime = optionalText (ph_runtime input);
         requester = optionalText (pi_requesterPrincipalId input)
     in Inr \<lparr> pb_hash = hashCanonical E (JObj
                 [(''approvalHashInput'', approval_hash_json approvalHashInput),
                  (''diffSummary'', json_or_null JStr diffSummary),
                  (''files'', json_or_null (\<lambda>fs. JArr (map JStr fs)) files),
                  (''modelRoute'', json_or_null JStr modelRoute),
                  (''runtime'', json_or_null JStr runtime),
                  (''requesterPrincipalId'', json_or_null JStr requester)]),
              pb_approvalHashInput = approvalHashInput, pb_diffSummary = diffSummary, pb_files = files,
              pb_modelRoute = modelRoute, pb_runtime = runtime, pb_requesterPrincipalId = requester \<rparr>)"

definition createGitHubPullRequestPlanHash ::
    "url_parser \<Rightarrow> env \<Rightarrow> plan_hash_input \<Rightarrow> js_error + string" where
  "createGitHubPullRequestPlanHash U E input =
     attempt (createGitHubPullRequestPlanHashBinding U E input) (\<lambda>binding. Inr (pb_hash binding))"

section \<open>Branch names\<close>

record branch_name_input =
  bn_runId :: string
  bn_planHash :: string
  bn_slug :: "string option"
  bn_prefix :: "string option"
  bn_maxLength :: "js_number option"

definition DEFAULT_BRANCH_PREFIX :: string where
  "DEFAULT_BRANCH_PREFIX = ''bek''"

definition DEFAULT_BRANCH_MAX_LENGTH :: int where
  "DEFAULT_BRANCH_MAX_LENGTH = 60"

definition BRANCH_HASH_LENGTH :: nat where
  "BRANCH_HASH_LENGTH = 12"

definition branch_edge :: "char \<Rightarrow> bool" where
  "branch_edge c \<longleftrightarrow> c = CHR ''-'' \<or> c = CHR ''.''"

definition trimBranchEdges :: "string \<Rightarrow> string" where
  "trimBranchEdges v = rev (dropWhile branch_edge (rev (dropWhile branch_edge v)))"

definition ref_safe :: "char \<Rightarrow> bool" where
  "ref_safe c \<longleftrightarrow> lower_alnum c \<or> c \<in> set ''._/-''"

definition sanitizeBranchSegment :: "string \<Rightarrow> string" where
  "sanitizeBranchSegment v =
     (let lowered = to_lower_case (js_trim v);
          collapsed = replace_runs (\<lambda>c. c = CHR ''-'') CHR ''-''
            (replace_runs (\<lambda>c. c = CHR ''/'') CHR ''-''
              (replace_runs (\<lambda>c. c = CHR ''.'') CHR ''.''
                (replace_runs (\<lambda>c. \<not> ref_safe c) CHR ''-'' lowered)))
      in trimBranchEdges collapsed)"

definition sanitizeBranchPrefix :: "string \<Rightarrow> string" where
  "sanitizeBranchPrefix v =
     join ''/'' (filter (\<lambda>s. s \<noteq> []) (map sanitizeBranchSegment (split_at CHR ''/'' v)))"

definition joinBranchSegments :: "string list \<Rightarrow> string" where
  "joinBranchSegments segments =
     replace_runs (\<lambda>c. c = CHR ''-'') CHR ''-'' (join ''-'' (filter (\<lambda>s. s \<noteq> []) segments))"

definition hashToHexSegment :: "env \<Rightarrow> string \<Rightarrow> string" where
  "hashToHexSegment E v = take BRANCH_HASH_LENGTH (env_sha256 E v)"

definition normalizeBranchMaxLength :: "js_number option \<Rightarrow> js_error + int" where
  "normalizeBranchMaxLength maxLength =
     (let refused = Inl (Error ''GitHub branch maxLength must be a positive integer no greater than 255.'') in
      case maxLength of
        None \<Rightarrow> Inr DEFAULT_BRANCH_MAX_LENGTH
      | Some (Whole n) \<Rightarrow> if n \<le> 0 \<or> 255 < n then refused else Inr n
      | Some Not_whole \<Rightarrow> refused)"

definition createDeterministicGitHubBranchName :: "env \<Rightarrow> branch_name_input \<Rightarrow> js_error + string" where
  "createDeterministicGitHubBranchName E input =
     (let prefix = sanitizeBranchPrefix (or_else (bn_prefix input) DEFAULT_BRANCH_PREFIX);
          runIdSegment = sanitizeBranchSegment (bn_runId input) in
      if prefix = [] then Inl (Error ''GitHub branch prefix must contain ref-safe characters.'')
      else if runIdSegment = [] then Inl (Error ''GitHub branch runId must contain ref-safe characters.'')
      else
      attempt (requiredText (bn_planHash input) ''GitHub branch planHash'') (\<lambda>planHash.
      attempt (normalizeBranchMaxLength (bn_maxLength input)) (\<lambda>maxLength.
      let planHashDigest = hashToHexSegment E planHash;
          slugSegment = (case bn_slug input of Some slug \<Rightarrow> sanitizeBranchSegment slug | None \<Rightarrow> []);
          fixed = prefix @ ''/'';
          tail = ''-'' @ planHashDigest;
          variableBudget = maxLength - int (length fixed) - int (length tail) in
      if variableBudget < 1 then Inl (Error ''GitHub branch maxLength is too small for the prefix.'')
      else let middle = take (nat variableBudget) (joinBranchSegments [runIdSegment, slugSegment])
           in normalizeGitHubBranchName (fixed @ trimBranchEdges middle @ tail))))"

section \<open>Branches that exist\<close>

record existing_branch =
  eb_name :: string
  eb_planHash :: "string option"

datatype pull_state = Pull_open | Pull_closed | Pull_merged

record existing_pull =
  ep_number :: int
  ep_headBranch :: string
  ep_baseBranch :: "string option"
  ep_state :: "pull_state option"
  ep_planHash :: "string option"

datatype branch_decision = Create_new | Reuse_existing | Conflict

record branch_resolution =
  br_decision :: branch_decision
  br_branchName :: string
  br_planHash :: string
  br_reason :: string
  br_existingPullRequestNumber :: "int option"

definition resolution :: "branch_decision \<Rightarrow> string \<Rightarrow> string \<Rightarrow> string \<Rightarrow> int option \<Rightarrow> branch_resolution" where
  "resolution d branchName planHash reason number =
     \<lparr> br_decision = d, br_branchName = branchName, br_planHash = planHash, br_reason = reason,
       br_existingPullRequestNumber = number \<rparr>"

definition same_branch :: "string \<Rightarrow> string \<Rightarrow> js_error + bool" where
  "same_branch branchName given =
     attempt (normalizeGitHubBranchName given) (\<lambda>n. Inr (n = branchName))"

definition resolve_pull ::
    "string option \<Rightarrow> string \<Rightarrow> string \<Rightarrow> existing_pull \<Rightarrow> js_error + branch_resolution" where
  "resolve_pull baseBranch branchName planHash pull =
     (let number = Some (ep_number pull);
          called = ''#'' @ int_str (ep_number pull);
          differs = (case (baseBranch, ep_baseBranch pull) of
              (Some b, Some given) \<Rightarrow> attempt (same_branch b given) (\<lambda>same. Inr (\<not> same))
            | _ \<Rightarrow> Inr False)
      in
      if or_else (ep_state pull) Pull_open = Pull_merged
      then Inr (resolution Conflict branchName planHash
        (''Branch '' @ branchName @ '' already has a merged pull request '' @ called @ ''.'') number)
      else attempt differs (\<lambda>other_base.
      if other_base
      then Inr (resolution Conflict branchName planHash
        (''Pull request '' @ called @ '' for '' @ branchName @ '' targets a different base branch.'') number)
      else case ep_planHash pull of
        None \<Rightarrow> Inr (resolution Conflict branchName planHash
          (''Pull request '' @ called @ '' for '' @ branchName @ '' has no recorded plan hash to reconcile against.'') number)
      | Some recorded \<Rightarrow>
          if recorded = planHash
          then Inr (resolution Reuse_existing branchName planHash
            (''Pull request '' @ called @ '' already matches this plan hash; reusing it.'') number)
          else Inr (resolution Conflict branchName planHash
            (''Pull request '' @ called @ '' for '' @ branchName @ '' was opened for a different plan hash.'') number)))"

definition resolve_branch :: "string \<Rightarrow> string \<Rightarrow> existing_branch \<Rightarrow> branch_resolution" where
  "resolve_branch branchName planHash branch =
     (case eb_planHash branch of
        None \<Rightarrow> resolution Conflict branchName planHash
          (''Branch '' @ branchName @ '' already exists without a recorded plan hash.'') None
      | Some recorded \<Rightarrow>
          if recorded = planHash
          then resolution Reuse_existing branchName planHash
            (''Branch '' @ branchName @ '' already exists for this plan hash; reusing it.'') None
          else resolution Conflict branchName planHash
            (''Branch '' @ branchName @ '' already exists for a different plan hash.'') None)"

definition resolveGitHubBranchPlan ::
    "string \<Rightarrow> string option \<Rightarrow> string \<Rightarrow> existing_branch list \<Rightarrow> existing_pull list \<Rightarrow> js_error + branch_resolution" where
  "resolveGitHubBranchPlan given_branch given_base given_hash existingBranches existingPullRequests =
     attempt (normalizeGitHubBranchName given_branch) (\<lambda>branchName.
     attempt (requiredText given_hash ''GitHub plan hash'') (\<lambda>planHash.
     attempt (when_given normalizeGitHubBranchName given_base) (\<lambda>baseBranch.
     attempt (find_try (\<lambda>pull. same_branch branchName (ep_headBranch pull)) existingPullRequests) (\<lambda>matchingPull.
     case matchingPull of
       Some pull \<Rightarrow> resolve_pull baseBranch branchName planHash pull
     | None \<Rightarrow>
         attempt (find_try (\<lambda>branch. same_branch branchName (eb_name branch)) existingBranches) (\<lambda>matchingBranch.
         case matchingBranch of
           Some branch \<Rightarrow> Inr (resolve_branch branchName planHash branch)
         | None \<Rightarrow> Inr (resolution Create_new branchName planHash
             (''No existing branch or pull request for '' @ branchName @ ''; creating new.'') None))))))"

section \<open>Workflow plans\<close>

record branch_workflow_plan =
  bw_resource :: string
  bw_repository :: repo_resource
  bw_installationId :: string
  bw_baseBranch :: string
  bw_headBranch :: string
  bw_approval :: plan_approval
  bw_runId :: "string option"
  bw_requesterPrincipalId :: "string option"

record commit_workflow_plan =
  cw_resource :: string
  cw_repository :: repo_resource
  cw_installationId :: string
  cw_branch :: string
  cw_message :: string
  cw_changes :: "file_change list"
  cw_approval :: plan_approval
  cw_expectedHeadSha :: "string option"
  cw_runId :: "string option"
  cw_requesterPrincipalId :: "string option"

definition draft_write_approval :: "repo_resource \<Rightarrow> string \<Rightarrow> plan_approval" where
  "draft_write_approval repository reason =
     \<lparr> pa_required = True, pa_action = Github_branch, pa_risk = Write_draft,
       pa_resource = gr_resource repository, pa_reason = reason \<rparr>"

definition createGitHubBranchWorkflowPlan ::
    "url_parser \<Rightarrow> repo_input \<Rightarrow> github_id \<Rightarrow> string option \<Rightarrow> string \<Rightarrow> string option \<Rightarrow> string option \<Rightarrow>
     js_error + branch_workflow_plan" where
  "createGitHubBranchWorkflowPlan U given_repository given_id given_base given_head runId requester =
     attempt (parseGitHubRepoResource U given_repository) (\<lambda>repository.
     attempt (normalizeGitHubBranchName (or_else given_base ''main'')) (\<lambda>baseBranch.
     attempt (normalizeGitHubBranchName given_head) (\<lambda>headBranch.
     if baseBranch = headBranch
     then Inl (Error ''GitHub branch workflow base and head must be different.'')
     else
     attempt (normalizeGitHubInstallationId given_id) (\<lambda>installationId.
     Inr \<lparr> bw_resource = gr_resource repository, bw_repository = repository, bw_installationId = installationId,
           bw_baseBranch = baseBranch, bw_headBranch = headBranch,
           bw_approval = draft_write_approval repository
             ''Creating or updating a GitHub branch is a draft write and must pass bundle policy.'',
           bw_runId = optionalText runId, bw_requesterPrincipalId = optionalText requester \<rparr>))))"

definition createGitHubCommitWorkflowPlan ::
    "url_parser \<Rightarrow> repo_input \<Rightarrow> github_id \<Rightarrow> string \<Rightarrow> string \<Rightarrow> file_change list \<Rightarrow> string option \<Rightarrow>
     string option \<Rightarrow> string option \<Rightarrow> js_error + commit_workflow_plan" where
  "createGitHubCommitWorkflowPlan U given_repository given_id given_branch given_message given_changes
       expectedHeadSha runId requester =
     attempt (parseGitHubRepoResource U given_repository) (\<lambda>repository.
     attempt (normalizeGitHubBranchName given_branch) (\<lambda>branch.
     attempt (requiredText given_message ''GitHub commit message'') (\<lambda>message.
     attempt (normalizeCommitChanges given_changes) (\<lambda>changes.
     attempt (normalizeGitHubInstallationId given_id) (\<lambda>installationId.
     attempt (if truthy expectedHeadSha then when_given normalizeSha expectedHeadSha else Inr None) (\<lambda>sha.
     Inr \<lparr> cw_resource = gr_resource repository, cw_repository = repository, cw_installationId = installationId,
           cw_branch = branch, cw_message = message, cw_changes = changes,
           cw_approval = draft_write_approval repository
             ''Committing to a GitHub branch is a draft write and must pass bundle policy.'',
           cw_expectedHeadSha = sha, cw_runId = optionalText runId,
           cw_requesterPrincipalId = optionalText requester \<rparr>))))))"

record draft_pull_input =
  di_repository :: repo_input
  di_installationId :: github_id
  di_repositoryId :: "github_id option"
  di_title :: string
  di_headBranch :: "string option"
  di_baseBranch :: "string option"
  di_body :: "string option"
  di_commitMessage :: string
  di_changes :: "file_change list"
  di_draft :: "bool option"
  di_maintainerCanModify :: "bool option"
  di_labels :: "string list option"
  di_reviewers :: "string list option"
  di_branchPrefix :: "string option"
  di_existingBranches :: "existing_branch list"
  di_existingPullRequests :: "existing_pull list"
  di_runId :: "string option"
  di_requesterPrincipalId :: "string option"

datatype workflow_step = Mint_installation_token | Create_branch | Commit_changes | Open_draft_pull_request

record draft_pull_plan =
  dp_resource :: string
  dp_repository :: repo_resource
  dp_installationId :: string
  dp_repositoryId :: "int option"
  dp_tokenRequest :: token_request
  dp_branch :: branch_workflow_plan
  dp_commit :: commit_workflow_plan
  dp_pullRequest :: pull_request_proposal
  dp_approvalHashInput :: approval_hash_input
  dp_planHashBinding :: plan_hash_binding
  dp_branchResolution :: branch_resolution
  dp_steps :: "workflow_step list"
  dp_runId :: "string option"
  dp_requesterPrincipalId :: "string option"

definition BRANCH_DERIVATION_PLACEHOLDER_HEAD :: string where
  "BRANCH_DERIVATION_PLACEHOLDER_HEAD = ''bek/__derive__''"

text \<open>The input of the plan hash from which a head branch is derived.\<close>

definition derivation_input ::
    "draft_pull_input \<Rightarrow> repo_resource \<Rightarrow> string \<Rightarrow> int option \<Rightarrow> string \<Rightarrow> string \<Rightarrow> file_change list \<Rightarrow> plan_hash_input" where
  "derivation_input input repository installationId repositoryId title baseBranch changes =
     \<lparr> pi_repository = ref_of repository, pi_title = title, pi_headBranch = BRANCH_DERIVATION_PLACEHOLDER_HEAD,
       pi_baseBranch = Some baseBranch, pi_body = di_body input, pi_draft = Some (or_else (di_draft input) True),
       pi_maintainerCanModify = di_maintainerCanModify input, pi_labels = di_labels input,
       pi_reviewers = di_reviewers input, pi_runId = None, pi_requesterPrincipalId = di_requesterPrincipalId input,
       wi_installationId = Some (Id_text installationId), wi_repositoryId = map_option (Id_number \<circ> Whole) repositoryId,
       wi_existingPullRequestNumber = None, wi_headCommitSha = None,
       ph_diffSummary = None, ph_files = Some (map fc_path changes), ph_modelRoute = None, ph_runtime = None \<rparr>"

definition resolveDraftPullRequestHeadBranch ::
    "url_parser \<Rightarrow> env \<Rightarrow> draft_pull_input \<Rightarrow> repo_resource \<Rightarrow> string \<Rightarrow> int option \<Rightarrow> string \<Rightarrow> string \<Rightarrow>
     file_change list \<Rightarrow> js_error + string" where
  "resolveDraftPullRequestHeadBranch U E input repository installationId repositoryId title baseBranch changes =
     (case di_headBranch input of
        Some head \<Rightarrow> normalizeGitHubBranchName head
      | None \<Rightarrow>
          attempt (createGitHubPullRequestPlanHash U E
            (derivation_input input repository installationId repositoryId title baseBranch changes)) (\<lambda>derivationHash.
          createDeterministicGitHubBranchName E
            \<lparr> bn_runId = or_else (optionalText (di_runId input)) derivationHash, bn_planHash = derivationHash,
              bn_slug = Some title, bn_prefix = di_branchPrefix input, bn_maxLength = None \<rparr>))"

text \<open>The input of the hashes of a plan, over its resolved pull request.\<close>

definition final_hash_input ::
    "repo_resource \<Rightarrow> string \<Rightarrow> int option \<Rightarrow> pull_request_proposal \<Rightarrow> file_change list \<Rightarrow> string option \<Rightarrow> plan_hash_input" where
  "final_hash_input repository installationId repositoryId pull changes requester =
     \<lparr> pi_repository = ref_of repository, pi_title = pp_title pull, pi_headBranch = pp_headBranch pull,
       pi_baseBranch = Some (pp_baseBranch pull), pi_body = Some (pp_body pull), pi_draft = Some (pp_draft pull),
       pi_maintainerCanModify = Some (pp_maintainerCanModify pull), pi_labels = Some (pp_labels pull),
       pi_reviewers = Some (pp_reviewers pull), pi_runId = None, pi_requesterPrincipalId = requester,
       wi_installationId = Some (Id_text installationId), wi_repositoryId = map_option (Id_number \<circ> Whole) repositoryId,
       wi_existingPullRequestNumber = None, wi_headCommitSha = None,
       ph_diffSummary = None, ph_files = Some (map fc_path changes), ph_modelRoute = None, ph_runtime = None \<rparr>"

definition workflow_token_input :: "string \<Rightarrow> repo_resource \<Rightarrow> int option \<Rightarrow> token_request_input" where
  "workflow_token_input installationId repository repositoryId =
     \<lparr> ri_installationId = Id_text installationId, ri_repository = Some (ref_of repository),
       ri_repositoryIds = map_option (\<lambda>n. whole_ids [n]) repositoryId,
       ri_permissions = Some [(''contents'', Some ''write''), (''metadata'', Some ''read''),
         (''pull_requests'', Some ''write'')] \<rparr>"

definition createGitHubDraftPullRequestWorkflowPlan ::
    "url_parser \<Rightarrow> env \<Rightarrow> draft_pull_input \<Rightarrow> js_error + draft_pull_plan" where
  "createGitHubDraftPullRequestWorkflowPlan U E input =
     attempt (parseGitHubRepoResource U (di_repository input)) (\<lambda>repository.
     attempt (normalizeGitHubInstallationId (di_installationId input)) (\<lambda>installationId.
     attempt (when_given normalizeGitHubRepositoryId (di_repositoryId input)) (\<lambda>repositoryId.
     attempt (requiredText (di_title input) ''PR title'') (\<lambda>title.
     attempt (normalizeGitHubBranchName (or_else (di_baseBranch input) ''main'')) (\<lambda>baseBranch.
     attempt (normalizeCommitChanges (di_changes input)) (\<lambda>changes.
     attempt (resolveDraftPullRequestHeadBranch U E input repository installationId repositoryId title baseBranch changes)
       (\<lambda>headBranch.
     attempt (createGitHubBranchWorkflowPlan U (ref_of repository) (Id_text installationId) (di_baseBranch input)
       headBranch (di_runId input) (di_requesterPrincipalId input)) (\<lambda>branch.
     attempt (createGitHubCommitWorkflowPlan U (ref_of repository) (Id_text installationId) (bw_headBranch branch)
       (di_commitMessage input) (di_changes input) None (di_runId input) (di_requesterPrincipalId input)) (\<lambda>commit.
     attempt (createGitHubPullRequestProposal U
       \<lparr> pi_repository = ref_of repository, pi_title = di_title input, pi_headBranch = bw_headBranch branch,
         pi_baseBranch = Some (bw_baseBranch branch), pi_body = di_body input,
         pi_draft = Some (or_else (di_draft input) True), pi_maintainerCanModify = di_maintainerCanModify input,
         pi_labels = di_labels input, pi_reviewers = di_reviewers input, pi_runId = di_runId input,
         pi_requesterPrincipalId = di_requesterPrincipalId input \<rparr>) (\<lambda>pull.
     attempt (createGitHubPullRequestPlanHashBinding U E
       (final_hash_input repository installationId repositoryId pull changes (di_requesterPrincipalId input)))
       (\<lambda>binding.
     attempt (resolveGitHubBranchPlan (pp_headBranch pull) (Some (pp_baseBranch pull)) (pb_hash binding)
       (di_existingBranches input) (di_existingPullRequests input)) (\<lambda>found.
     if br_decision found = Conflict
     then Inl (Error (''GitHub draft PR plan conflicts with an existing branch or pull request: '' @ br_reason found))
     else
     attempt (createGitHubInstallationTokenRequest U (workflow_token_input installationId repository repositoryId))
       (\<lambda>tokenRequest.
     attempt (createGitHubPullRequestWriteApprovalHashInput U E
       (final_hash_input repository installationId repositoryId pull changes None)) (\<lambda>hashInput.
     Inr \<lparr> dp_resource = gr_resource repository, dp_repository = repository, dp_installationId = installationId,
           dp_repositoryId = repositoryId, dp_tokenRequest = tokenRequest, dp_branch = branch, dp_commit = commit,
           dp_pullRequest = pull, dp_approvalHashInput = hashInput, dp_planHashBinding = binding,
           dp_branchResolution = found,
           dp_steps = [Mint_installation_token, Create_branch, Commit_changes, Open_draft_pull_request],
           dp_runId = optionalText (di_runId input),
           dp_requesterPrincipalId = optionalText (di_requesterPrincipalId input) \<rparr>))))))))))))))"

section \<open>The payload of an approval\<close>

record workflow_payload =
  wp_resource :: string
  wp_repository :: repo_resource
  wp_installationId :: string
  wp_repositoryId :: "int option"
  wp_baseBranch :: string
  wp_headBranch :: string
  wp_message :: string
  wp_changes :: "file_change list"
  wp_title :: string
  wp_body :: string
  wp_pullBaseBranch :: string
  wp_pullHeadBranch :: string
  wp_draft :: bool
  wp_maintainerCanModify :: bool
  wp_labels :: "string list"
  wp_reviewers :: "string list"
  wp_approvalHashInput :: approval_hash_input
  wp_steps :: "workflow_step list"
  wp_runId :: "string option"
  wp_requesterPrincipalId :: "string option"

definition createGitHubDraftPullRequestWorkflowApprovalPayload :: "draft_pull_plan \<Rightarrow> workflow_payload" where
  "createGitHubDraftPullRequestWorkflowApprovalPayload plan =
     \<lparr> wp_resource = dp_resource plan, wp_repository = dp_repository plan,
       wp_installationId = dp_installationId plan, wp_repositoryId = dp_repositoryId plan,
       wp_baseBranch = bw_baseBranch (dp_branch plan), wp_headBranch = bw_headBranch (dp_branch plan),
       wp_message = cw_message (dp_commit plan), wp_changes = cw_changes (dp_commit plan),
       wp_title = pp_title (dp_pullRequest plan), wp_body = pp_body (dp_pullRequest plan),
       wp_pullBaseBranch = pp_baseBranch (dp_pullRequest plan),
       wp_pullHeadBranch = pp_headBranch (dp_pullRequest plan), wp_draft = pp_draft (dp_pullRequest plan),
       wp_maintainerCanModify = pp_maintainerCanModify (dp_pullRequest plan),
       wp_labels = pp_labels (dp_pullRequest plan), wp_reviewers = pp_reviewers (dp_pullRequest plan),
       wp_approvalHashInput = dp_approvalHashInput plan, wp_steps = dp_steps plan,
       wp_runId = optionalText (dp_runId plan),
       wp_requesterPrincipalId = optionalText (dp_requesterPrincipalId plan) \<rparr>"

definition payload_input :: "workflow_payload \<Rightarrow> draft_pull_input" where
  "payload_input payload =
     \<lparr> di_repository = ref_of (wp_repository payload), di_installationId = Id_text (wp_installationId payload),
       di_repositoryId = map_option (Id_number \<circ> Whole) (wp_repositoryId payload), di_title = wp_title payload,
       di_headBranch = Some (wp_headBranch payload), di_baseBranch = Some (wp_baseBranch payload),
       di_body = Some (wp_body payload), di_commitMessage = wp_message payload, di_changes = wp_changes payload,
       di_draft = Some (wp_draft payload), di_maintainerCanModify = Some (wp_maintainerCanModify payload),
       di_labels = Some (wp_labels payload), di_reviewers = Some (wp_reviewers payload), di_branchPrefix = None,
       di_existingBranches = [], di_existingPullRequests = [], di_runId = wp_runId payload,
       di_requesterPrincipalId = wp_requesterPrincipalId payload \<rparr>"

definition createGitHubDraftPullRequestWorkflowPlanFromApprovalPayload ::
    "url_parser \<Rightarrow> env \<Rightarrow> workflow_payload \<Rightarrow> js_error + draft_pull_plan" where
  "createGitHubDraftPullRequestWorkflowPlanFromApprovalPayload U E payload =
     createGitHubDraftPullRequestWorkflowPlan U E (payload_input payload)"

end
