(* ===== verification/GitHub_Rebuilt.thy ===== *)
theory GitHub_Rebuilt
  imports GitHub_Approvals
begin

text \<open>
  The plan rebuilt from an approved payload, the plan hash and the paths it binds, and the safety of
  accepted plans, with their concrete plans.
\<close>

section \<open>The fields of the parts\<close>

lemma branch_plan_fields:
  assumes "createGitHubBranchWorkflowPlan U repository i base head run requester = Inr b"
  shows "parseGitHubRepoResource U repository = Inr (bw_repository b)"
    "normalizeGitHubInstallationId i = Inr (bw_installationId b)"
    "normalizeGitHubBranchName (or_else base ''main'') = Inr (bw_baseBranch b)"
    "normalizeGitHubBranchName head = Inr (bw_headBranch b)" "bw_baseBranch b \<noteq> bw_headBranch b"
    "bw_resource b = gr_resource (bw_repository b)"
  using assms by (auto simp: createGitHubBranchWorkflowPlan_def attempt_Inr refused_unless)

lemma commit_plan_fields:
  assumes "createGitHubCommitWorkflowPlan U repository i branch message changes sha run requester = Inr c"
  shows "parseGitHubRepoResource U repository = Inr (cw_repository c)"
    "normalizeGitHubInstallationId i = Inr (cw_installationId c)"
    "normalizeGitHubBranchName branch = Inr (cw_branch c)" "normalizeCommitChanges changes = Inr (cw_changes c)"
    "cw_resource c = gr_resource (cw_repository c)"
  using assms by (auto simp: createGitHubCommitWorkflowPlan_def attempt_Inr)

lemma proposal_fields:
  assumes "createGitHubPullRequestProposal U input = Inr p"
  shows "parseGitHubRepoResource U (pi_repository input) = Inr (pp_repository p)"
    "pp_resource p = gr_resource (pp_repository p)"
    "pp_title p = js_trim (pi_title input)" "js_trim (pi_title input) \<noteq> []"
    "normalizeGitHubBranchName (or_else (pi_baseBranch input) ''main'') = Inr (pp_baseBranch p)"
    "normalizeGitHubBranchName (pi_headBranch input) = Inr (pp_headBranch p)"
    "pp_runId p = optionalText (pi_runId input)"
    "pp_requesterPrincipalId p = optionalText (pi_requesterPrincipalId input)"
  using assms by (auto elim!: proposal_parts simp: proposal_of_def)

lemma resolution_simps [simp]:
  "br_planHash (resolution d n h reason k) = h" "br_decision (resolution d n h reason k) = d"
  by (simp_all add: resolution_def)

lemma resolve_branch_hash: "br_planHash (resolve_branch n h b) = h"
  by (simp add: resolve_branch_def split: option.splits)

lemma resolve_pull_hash: "resolve_pull base n h p = Inr r \<Longrightarrow> br_planHash r = h"
  unfolding resolve_pull_def Let_def attempt_def
  by (simp split: if_splits option.splits sum.splits prod.splits) (auto split: if_splits option.splits sum.splits)

lemma resolution_fields:
  assumes "resolveGitHubBranchPlan b base h branches pulls = Inr r"
  shows "js_trim h \<noteq> []" "br_planHash r = js_trim h"
proof -
  from assms obtain n m pull where h: "js_trim h \<noteq> []"
    and r: "(case pull of
         Some p \<Rightarrow> resolve_pull m n (js_trim h) p
       | None \<Rightarrow> attempt (find_try (\<lambda>branch. same_branch n (eb_name branch)) branches) (\<lambda>matchingBranch.
           case matchingBranch of
             Some branch \<Rightarrow> Inr (resolve_branch n (js_trim h) branch)
           | None \<Rightarrow> Inr (resolution Create_new n (js_trim h)
               (''No existing branch or pull request for '' @ n @ ''; creating new.'') None))) = Inr r"
    unfolding resolveGitHubBranchPlan_def attempt_Inr requiredText_Inr by blast
  show "js_trim h \<noteq> []" by (rule h)
  show "br_planHash r = js_trim h"
    using r by (auto simp: attempt_Inr resolve_branch_hash resolve_pull_hash split: option.splits)
qed

lemma resolution_alone:
  assumes "normalizeGitHubBranchName b = Inr n" "normalizeGitHubBranchName base = Inr m" "js_trim h \<noteq> []"
  obtains r where "resolveGitHubBranchPlan b (Some base) h [] [] = Inr r" "br_decision r = Create_new"
    "br_planHash r = js_trim h"
  using assms by (simp add: resolveGitHubBranchPlan_def)

lemma repository_id_again:
  "when_given normalizeGitHubRepositoryId v = Inr n \<Longrightarrow>
   when_given normalizeGitHubRepositoryId (map_option (Id_number \<circ> Whole) n) = Inr n"
  by (cases v) (auto simp: attempt_Inr dest: repository_id_settled)

lemma binding_requester:
  "createGitHubPullRequestPlanHashBinding U E (final_hash_input r i n p cs (optionalText q))
     = createGitHubPullRequestPlanHashBinding U E (final_hash_input r i n p cs q)"
  by (simp add: createGitHubPullRequestPlanHashBinding_def createGitHubPullRequestWriteApprovalHashInput_def
      createGitHubPullRequestProposal_def proposal_of_def final_hash_input_def hash_input_of_proposal_def attempt_def
      cong: sum.case_cong split: sum.splits)

lemma binding_paths:
  "map fc_path cs = map fc_path ds \<Longrightarrow> final_hash_input r i n p cs q = final_hash_input r i n p ds q"
  by (simp add: final_hash_input_def)

section \<open>Plans in one piece\<close>

text \<open>What every part of a plan says about the whole.\<close>

lemma plan_coherent:
  assumes "createGitHubDraftPullRequestWorkflowPlan U E input = Inr plan"
  shows "bw_installationId (dp_branch plan) = dp_installationId plan"
    "cw_installationId (dp_commit plan) = dp_installationId plan"
    "cw_branch (dp_commit plan) = bw_headBranch (dp_branch plan)"
    "pp_headBranch (dp_pullRequest plan) = bw_headBranch (dp_branch plan)"
    "pp_baseBranch (dp_pullRequest plan) = bw_baseBranch (dp_branch plan)"
    "bw_baseBranch (dp_branch plan) \<noteq> bw_headBranch (dp_branch plan)"
    "normalizeCommitChanges (di_changes input) = Inr (cw_changes (dp_commit plan))"
    "br_decision (dp_branchResolution plan) \<noteq> Conflict"
    "rereadable (dp_repository plan) \<Longrightarrow> bw_repository (dp_branch plan) = dp_repository plan"
    "rereadable (dp_repository plan) \<Longrightarrow> cw_repository (dp_commit plan) = dp_repository plan"
    "rereadable (dp_repository plan) \<Longrightarrow> pp_repository (dp_pullRequest plan) = dp_repository plan"
proof -
  from assms obtain headBranch where
      i: "normalizeGitHubInstallationId (di_installationId input) = Inr (dp_installationId plan)"
    and b: "createGitHubBranchWorkflowPlan U (ref_of (dp_repository plan)) (Id_text (dp_installationId plan))
       (di_baseBranch input) headBranch (di_runId input) (di_requesterPrincipalId input) = Inr (dp_branch plan)"
    and c: "createGitHubCommitWorkflowPlan U (ref_of (dp_repository plan)) (Id_text (dp_installationId plan))
       (bw_headBranch (dp_branch plan)) (di_commitMessage input) (di_changes input) None (di_runId input)
       (di_requesterPrincipalId input) = Inr (dp_commit plan)"
    and p: "createGitHubPullRequestProposal U
       \<lparr> pi_repository = ref_of (dp_repository plan), pi_title = di_title input,
         pi_headBranch = bw_headBranch (dp_branch plan),
         pi_baseBranch = Some (bw_baseBranch (dp_branch plan)), pi_body = di_body input,
         pi_draft = Some (or_else (di_draft input) True), pi_maintainerCanModify = di_maintainerCanModify input,
         pi_labels = di_labels input, pi_reviewers = di_reviewers input, pi_runId = di_runId input,
         pi_requesterPrincipalId = di_requesterPrincipalId input \<rparr> = Inr (dp_pullRequest plan)"
    and k: "br_decision (dp_branchResolution plan) \<noteq> Conflict"
    by (rule plan_parts)
  note bf = branch_plan_fields [OF b] and cf = commit_plan_fields [OF c] and pf = proposal_fields [OF p]
  have i2: "normalizeGitHubInstallationId (Id_text (dp_installationId plan)) = Inr (dp_installationId plan)"
    by (rule installation_id_settled [OF i])
  have bb: "normalizeGitHubBranchName (bw_baseBranch (dp_branch plan)) = Inr (bw_baseBranch (dp_branch plan))"
    "normalizeGitHubBranchName (bw_headBranch (dp_branch plan)) = Inr (bw_headBranch (dp_branch plan))"
    using settlesD [OF branch_settles bf(3)] settlesD [OF branch_settles bf(4)] by simp_all
  show "bw_installationId (dp_branch plan) = dp_installationId plan"
    "cw_installationId (dp_commit plan) = dp_installationId plan"
    using i2 bf(2) cf(2) by simp_all
  show "cw_branch (dp_commit plan) = bw_headBranch (dp_branch plan)"
    "pp_headBranch (dp_pullRequest plan) = bw_headBranch (dp_branch plan)"
    "pp_baseBranch (dp_pullRequest plan) = bw_baseBranch (dp_branch plan)"
    using bb cf(3) pf(5,6) by simp_all
  show "bw_baseBranch (dp_branch plan) \<noteq> bw_headBranch (dp_branch plan)"
    "normalizeCommitChanges (di_changes input) = Inr (cw_changes (dp_commit plan))"
    "br_decision (dp_branchResolution plan) \<noteq> Conflict"
    using bf(5) cf(4) k by simp_all
  show "rereadable (dp_repository plan) \<Longrightarrow> bw_repository (dp_branch plan) = dp_repository plan"
    "rereadable (dp_repository plan) \<Longrightarrow> cw_repository (dp_commit plan) = dp_repository plan"
    "rereadable (dp_repository plan) \<Longrightarrow> pp_repository (dp_pullRequest plan) = dp_repository plan"
    using bf(1) cf(1) pf(1) by simp_all
qed

lemma plan_rereadable:
  "createGitHubDraftPullRequestWorkflowPlan U E input = Inr plan \<Longrightarrow>
   \<not> ends_with (gr_repo (dp_repository plan)) ''.git'' \<Longrightarrow> rereadable (dp_repository plan)"
  by (erule plan_parts) (rule rereadable)

text \<open>The input a payload stands for, in terms of the plan it was made from.\<close>

definition rebuilt_input :: "draft_pull_plan \<Rightarrow> draft_pull_input" where
  "rebuilt_input plan = payload_input (createGitHubDraftPullRequestWorkflowApprovalPayload plan)"

lemma rebuilt_input_simps [simp]:
  "di_repository (rebuilt_input plan) = ref_of (dp_repository plan)"
  "di_installationId (rebuilt_input plan) = Id_text (dp_installationId plan)"
  "di_repositoryId (rebuilt_input plan) = map_option (Id_number \<circ> Whole) (dp_repositoryId plan)"
  "di_title (rebuilt_input plan) = pp_title (dp_pullRequest plan)"
  "di_headBranch (rebuilt_input plan) = Some (bw_headBranch (dp_branch plan))"
  "di_baseBranch (rebuilt_input plan) = Some (bw_baseBranch (dp_branch plan))"
  "di_body (rebuilt_input plan) = Some (pp_body (dp_pullRequest plan))"
  "di_commitMessage (rebuilt_input plan) = cw_message (dp_commit plan)"
  "di_changes (rebuilt_input plan) = cw_changes (dp_commit plan)"
  "di_draft (rebuilt_input plan) = Some (pp_draft (dp_pullRequest plan))"
  "di_maintainerCanModify (rebuilt_input plan) = Some (pp_maintainerCanModify (dp_pullRequest plan))"
  "di_labels (rebuilt_input plan) = Some (pp_labels (dp_pullRequest plan))"
  "di_reviewers (rebuilt_input plan) = Some (pp_reviewers (dp_pullRequest plan))"
  "di_existingBranches (rebuilt_input plan) = []" "di_existingPullRequests (rebuilt_input plan) = []"
  "di_runId (rebuilt_input plan) = optionalText (dp_runId plan)"
  "di_requesterPrincipalId (rebuilt_input plan) = optionalText (dp_requesterPrincipalId plan)"
  by (simp_all add: rebuilt_input_def payload_input_def createGitHubDraftPullRequestWorkflowApprovalPayload_def)

lemma rebuilt_plan:
  assumes "createGitHubDraftPullRequestWorkflowPlan U E input = Inr plan" "rereadable (dp_repository plan)"
  obtains r where "createGitHubDraftPullRequestWorkflowPlan U E (rebuilt_input plan)
      = Inr (plan\<lparr> dp_branchResolution := r \<rparr>)"
    "br_decision r = Create_new" "br_planHash r = br_planHash (dp_branchResolution plan)"
  using assms(1)
proof (rule plan_parts)
  fix baseBranch changes headBranch
  assume i: "normalizeGitHubInstallationId (di_installationId input) = Inr (dp_installationId plan)"
    and n: "when_given normalizeGitHubRepositoryId (di_repositoryId input) = Inr (dp_repositoryId plan)"
    and cs: "normalizeCommitChanges (di_changes input) = Inr changes"
    and b: "createGitHubBranchWorkflowPlan U (ref_of (dp_repository plan)) (Id_text (dp_installationId plan))
       (di_baseBranch input) headBranch (di_runId input) (di_requesterPrincipalId input) = Inr (dp_branch plan)"
    and c: "createGitHubCommitWorkflowPlan U (ref_of (dp_repository plan)) (Id_text (dp_installationId plan))
       (bw_headBranch (dp_branch plan)) (di_commitMessage input) (di_changes input) None (di_runId input)
       (di_requesterPrincipalId input) = Inr (dp_commit plan)"
    and p: "createGitHubPullRequestProposal U
       \<lparr> pi_repository = ref_of (dp_repository plan), pi_title = di_title input,
         pi_headBranch = bw_headBranch (dp_branch plan),
         pi_baseBranch = Some (bw_baseBranch (dp_branch plan)), pi_body = di_body input,
         pi_draft = Some (or_else (di_draft input) True), pi_maintainerCanModify = di_maintainerCanModify input,
         pi_labels = di_labels input, pi_reviewers = di_reviewers input, pi_runId = di_runId input,
         pi_requesterPrincipalId = di_requesterPrincipalId input \<rparr> = Inr (dp_pullRequest plan)"
    and h: "createGitHubPullRequestPlanHashBinding U E (final_hash_input (dp_repository plan) (dp_installationId plan)
       (dp_repositoryId plan) (dp_pullRequest plan) changes (di_requesterPrincipalId input)) = Inr (dp_planHashBinding plan)"
    and f: "resolveGitHubBranchPlan (pp_headBranch (dp_pullRequest plan)) (Some (pp_baseBranch (dp_pullRequest plan)))
       (pb_hash (dp_planHashBinding plan)) (di_existingBranches input) (di_existingPullRequests input)
       = Inr (dp_branchResolution plan)"
    and t: "createGitHubInstallationTokenRequest U (workflow_token_input (dp_installationId plan) (dp_repository plan)
       (dp_repositoryId plan)) = Inr (dp_tokenRequest plan)"
    and a: "createGitHubPullRequestWriteApprovalHashInput U E (final_hash_input (dp_repository plan) (dp_installationId plan)
       (dp_repositoryId plan) (dp_pullRequest plan) changes None) = Inr (dp_approvalHashInput plan)"
    and eqs: "dp_resource plan = gr_resource (dp_repository plan)"
       "dp_steps plan = [Mint_installation_token, Create_branch, Commit_changes, Open_draft_pull_request]"
       "dp_runId plan = optionalText (di_runId input)"
       "dp_requesterPrincipalId plan = optionalText (di_requesterPrincipalId input)"
  note co = plan_coherent [OF assms(1)]
  note rr = assms(2)
  have changes: "changes = cw_changes (dp_commit plan)" using cs co(7) by simp
  have bb: "normalizeGitHubBranchName (bw_baseBranch (dp_branch plan)) = Inr (bw_baseBranch (dp_branch plan))"
    "normalizeGitHubBranchName (bw_headBranch (dp_branch plan)) = Inr (bw_headBranch (dp_branch plan))"
    using settlesD [OF branch_settles branch_plan_fields(3) [OF b]] settlesD [OF branch_settles branch_plan_fields(4) [OF b]]
    by simp_all
  have title: "js_trim (pp_title (dp_pullRequest plan)) = pp_title (dp_pullRequest plan)"
    "pp_title (dp_pullRequest plan) \<noteq> []"
    using proposal_fields(3,4) [OF p] by simp_all
  have again: "proposal_again (dp_pullRequest plan) = \<lparr> pi_repository = ref_of (dp_repository plan),
      pi_title = pp_title (dp_pullRequest plan), pi_headBranch = bw_headBranch (dp_branch plan),
      pi_baseBranch = Some (bw_baseBranch (dp_branch plan)), pi_body = Some (pp_body (dp_pullRequest plan)),
      pi_draft = Some (pp_draft (dp_pullRequest plan)),
      pi_maintainerCanModify = Some (pp_maintainerCanModify (dp_pullRequest plan)),
      pi_labels = Some (pp_labels (dp_pullRequest plan)), pi_reviewers = Some (pp_reviewers (dp_pullRequest plan)),
      pi_runId = dp_runId plan, pi_requesterPrincipalId = dp_requesterPrincipalId plan \<rparr>"
    using co(4,5) co(11) [OF rr] proposal_fields(7,8) [OF p] eqs(3,4) by (simp add: proposal_again_def)
  have pull: "createGitHubPullRequestProposal U (proposal_again (dp_pullRequest plan)) = Inr (dp_pullRequest plan)"
    using proposal_plan_again [OF p] rr co(11) [OF rr] by simp
  obtain r where r: "resolveGitHubBranchPlan (bw_headBranch (dp_branch plan)) (Some (bw_baseBranch (dp_branch plan)))
      (pb_hash (dp_planHashBinding plan)) [] [] = Inr r"
    "br_decision r = Create_new" "br_planHash r = js_trim (pb_hash (dp_planHashBinding plan))"
    using resolution_alone [OF bb(2,1) resolution_fields(1) [OF f]] by blast
  have whole: "plan\<lparr> dp_branchResolution := r \<rparr> = \<lparr> dp_resource = gr_resource (dp_repository plan),
      dp_repository = dp_repository plan, dp_installationId = dp_installationId plan, dp_repositoryId = dp_repositoryId plan,
      dp_tokenRequest = dp_tokenRequest plan, dp_branch = dp_branch plan, dp_commit = dp_commit plan,
      dp_pullRequest = dp_pullRequest plan, dp_approvalHashInput = dp_approvalHashInput plan,
      dp_planHashBinding = dp_planHashBinding plan, dp_branchResolution = r,
      dp_steps = [Mint_installation_token, Create_branch, Commit_changes, Open_draft_pull_request],
      dp_runId = dp_runId plan, dp_requesterPrincipalId = dp_requesterPrincipalId plan \<rparr>"
    using eqs by (cases plan) simp
  have meta: "optionalText (dp_runId plan) = dp_runId plan"
    "optionalText (dp_requesterPrincipalId plan) = dp_requesterPrincipalId plan"
    using eqs(3,4) by simp_all
  have "createGitHubDraftPullRequestWorkflowPlan U E (rebuilt_input plan) = Inr (plan\<lparr> dp_branchResolution := r \<rparr>)"
    unfolding whole
    using rr installation_id_settled [OF i] repository_id_again [OF n] title bb settlesD [OF changes_settle cs]
      branch_plan_again [OF b rr] commit_plan_again [OF c rr] pull again h binding_requester [of U E] r t a
    by (simp add: createGitHubDraftPullRequestWorkflowPlan_def resolveDraftPullRequestHeadBranch_def changes co
        eqs(3,4) meta)
  then show thesis
    using that r resolution_fields(2) [OF f] by simp
qed

end
