(* ===== verification/GitHub_Branches.thy ===== *)
theory GitHub_Branches
  imports GitHub_Plans
begin

text \<open>
  The branch name derived from a plan: for every run id with a usable character and every plan hash,
  the name is a valid ref of bounded length that ends with the digest of the plan.
\<close>

section \<open>Runs that become one character\<close>

text \<open>A text in which a character does not occur twice in a row.\<close>

fun no_twice :: "char \<Rightarrow> string \<Rightarrow> bool" where
  "no_twice d (a # b # s) = ((a \<noteq> d \<or> b \<noteq> d) \<and> no_twice d (b # s))"
| "no_twice d _ = True"

lemma no_twice_Cons: "no_twice d (a # s) \<longleftrightarrow> no_twice d s \<and> (a \<noteq> d \<or> s = [] \<or> hd s \<noteq> d)"
  by (cases s) auto

lemma no_twice_includes: "str_includes s [d, d] \<longleftrightarrow> \<not> no_twice d s"
proof (induction s)
  case (Cons a s)
  have "starts_with (a # s) [d, d] \<longleftrightarrow> a = d \<and> s \<noteq> [] \<and> hd s = d"
    by (cases s) (auto simp: starts_with_def)
  with Cons show ?case by (auto simp: no_twice_Cons)
qed simp

lemma no_twice_append: "no_twice d (s @ t) \<longleftrightarrow> no_twice d s \<and> no_twice d t \<and> (s = [] \<or> t = [] \<or> last s \<noteq> d \<or> hd t \<noteq> d)"
  by (induction s) (auto simp: no_twice_Cons)

lemma no_twice_take: "no_twice d s \<Longrightarrow> no_twice d (take n s)"
  by (metis append_take_drop_id no_twice_append)

lemma no_twice_without: "d \<notin> set s \<Longrightarrow> no_twice d s"
  by (induction s) (auto simp: no_twice_Cons dest: hd_in_set)

lemma hd_squash_inside: "squash (\<lambda>c. c = r) r True s \<noteq> [] \<Longrightarrow> hd (squash (\<lambda>c. c = r) r True s) \<noteq> r"
  by (induction s) auto

lemma squash_own: "no_twice r (squash (\<lambda>c. c = r) r b s)"
  by (induction s arbitrary: b) (auto simp: no_twice_Cons hd_squash_inside)

lemma squash_keeps_hd: "squash P r False s \<noteq> [] \<Longrightarrow> hd (squash P r False s) = d \<Longrightarrow> d \<noteq> r \<Longrightarrow> s \<noteq> [] \<and> hd s = d"
  by (cases s) (auto split: if_splits)

lemma squash_other: "d \<noteq> r \<Longrightarrow> no_twice d s \<Longrightarrow> no_twice d (squash P r b s)"
proof (induction s arbitrary: b)
  case (Cons c s)
  then show ?case
    using squash_keeps_hd [of P r s d] by (auto simp: no_twice_Cons)
qed simp

lemma set_squash: "set (squash P r b s) \<subseteq> insert r {c \<in> set s. \<not> P c}"
  by (induction s arbitrary: b) auto

lemma squash_hd: "s \<noteq> [] \<Longrightarrow> \<not> P (hd s) \<Longrightarrow> \<exists>t. squash P r b s = hd s # t"
  by (cases s) auto

section \<open>Segments\<close>

text \<open>A text that may stand in a branch name: safe characters, no slash, no two dots in a row.\<close>

definition segment :: "string \<Rightarrow> bool" where
  "segment s \<longleftrightarrow> list_all (\<lambda>c. lower_alnum c \<or> c \<in> set ''._-'') s \<and> no_twice CHR ''.'' s"

lemma segment_append_dash: "segment s \<Longrightarrow> segment t \<Longrightarrow> segment (s @ ''-'' @ t)"
  by (auto simp: segment_def no_twice_append no_twice_Cons)

lemma segment_take: "segment s \<Longrightarrow> segment (take n s)"
  by (auto simp: segment_def no_twice_take list_all_iff dest: in_set_takeD)

lemma trim_edges_part: "\<exists>a b. s = a @ trimBranchEdges s @ b"
proof -
  have "s = takeWhile branch_edge s @ dropWhile branch_edge s" by simp
  moreover have "\<exists>b. t = rev (dropWhile branch_edge (rev t)) @ b" for t
    by (metis rev_append rev_rev_ident takeWhile_dropWhile_id)
  ultimately show ?thesis
    unfolding trimBranchEdges_def by metis
qed

lemma segment_trim: "segment s \<Longrightarrow> segment (trimBranchEdges s)"
proof -
  assume s: "segment s"
  obtain a b where "s = a @ trimBranchEdges s @ b" using trim_edges_part by blast
  then show ?thesis
    using s unfolding segment_def by (metis list_all_append no_twice_append)
qed

lemma trim_edges_hd: "s \<noteq> [] \<Longrightarrow> \<not> branch_edge (hd s) \<Longrightarrow> \<exists>t. trimBranchEdges s = hd s # t"
proof -
  assume s: "s \<noteq> []" "\<not> branch_edge (hd s)"
  then obtain c t where c: "s = c # t" by (cases s) auto
  with s have d: "dropWhile branch_edge (xs @ [c]) = dropWhile branch_edge xs @ [c]" for xs
    by (induction xs) auto
  show ?thesis
    using s c d [of "rev t"] by (simp add: trimBranchEdges_def)
qed

lemma trimmed_hd: "trimBranchEdges s \<noteq> [] \<Longrightarrow> \<not> branch_edge (hd (trimBranchEdges s))"
proof -
  assume ne: "trimBranchEdges s \<noteq> []"
  let ?t = "dropWhile branch_edge s"
  have "?t \<noteq> []"
    using ne by (metis dropWhile.simps(1) rev.simps(1) trimBranchEdges_def)
  moreover from this have e: "\<not> branch_edge (hd ?t)" by (rule hd_dropWhile)
  ultimately have "\<exists>u. trimBranchEdges ?t = hd ?t # u"
    by (rule trim_edges_hd)
  moreover have "trimBranchEdges ?t = trimBranchEdges s"
    by (simp add: trimBranchEdges_def)
  ultimately show ?thesis using e by auto
qed

lemma segment_sanitized: "segment (sanitizeBranchSegment v)"
proof -
  let ?l = "to_lower_case (js_trim v)"
  let ?a = "replace_runs (\<lambda>c. \<not> ref_safe c) CHR ''-'' ?l"
  let ?b = "replace_runs (\<lambda>c. c = CHR ''.'') CHR ''.'' ?a"
  let ?c = "replace_runs (\<lambda>c. c = CHR ''/'') CHR ''-'' ?b"
  let ?d = "replace_runs (\<lambda>c. c = CHR ''-'') CHR ''-'' ?c"
  have "no_twice CHR ''.'' ?b"
    unfolding replace_runs_def by (rule squash_own)
  then have twice: "no_twice CHR ''.'' ?d"
    by (simp add: replace_runs_def squash_other)
  have a: "set ?a \<subseteq> {c. ref_safe c}"
    using set_squash [of "\<lambda>c. \<not> ref_safe c" "CHR ''-''" False ?l]
    by (auto simp: replace_runs_def ref_safe_def)
  have "set ?b \<subseteq> {c. ref_safe c}"
    using a set_squash [of "\<lambda>c. c = CHR ''.''" "CHR ''.''" False ?a]
    by (auto simp: replace_runs_def ref_safe_def)
  then have "set ?c \<subseteq> {c. ref_safe c \<and> c \<noteq> CHR ''/''}"
    using set_squash [of "\<lambda>c. c = CHR ''/''" "CHR ''-''" False ?b]
    by (auto simp: replace_runs_def ref_safe_def)
  then have "set ?d \<subseteq> {c. ref_safe c \<and> c \<noteq> CHR ''/''}"
    using set_squash [of "\<lambda>c. c = CHR ''-''" "CHR ''-''" False ?c]
    by (auto simp: replace_runs_def ref_safe_def)
  with twice have "segment ?d"
    by (auto simp: segment_def list_all_iff ref_safe_def)
  then show ?thesis
    unfolding sanitizeBranchSegment_def Let_def by (rule segment_trim)
qed

lemma sanitized_hd: "sanitizeBranchSegment v \<noteq> [] \<Longrightarrow> \<not> branch_edge (hd (sanitizeBranchSegment v))"
  unfolding sanitizeBranchSegment_def Let_def by (rule trimmed_hd)

lemma segment_runs: "segment s \<Longrightarrow> segment (replace_runs (\<lambda>c. c = CHR ''-'') CHR ''-'' s)"
  using set_squash [of "\<lambda>c. c = CHR ''-''" "CHR ''-''" False s]
  by (auto simp: segment_def list_all_iff replace_runs_def squash_other)

lemma joined_segments:
  assumes "run = sanitizeBranchSegment v" "run \<noteq> []" "segment slug"
  shows "segment (joinBranchSegments [run, slug])" "\<exists>t. joinBranchSegments [run, slug] = hd run # t"
proof -
  have run: "segment run" "\<not> branch_edge (hd run)"
    using assms(1,2) segment_sanitized sanitized_hd by auto
  let ?j = "join ''-'' (filter (\<lambda>s. s \<noteq> []) [run, slug])"
  have j: "segment ?j" "?j \<noteq> []" "hd ?j = hd run"
    using run assms(2,3) segment_append_dash [of run slug] by auto
  show "segment (joinBranchSegments [run, slug])"
    unfolding joinBranchSegments_def by (rule segment_runs [OF j(1)])
  show "\<exists>t. joinBranchSegments [run, slug] = hd run # t"
    unfolding joinBranchSegments_def replace_runs_def
    using squash_hd [of ?j "\<lambda>c. c = CHR ''-''" "CHR ''-''" False] j run(2) by (simp add: branch_edge_def)
qed

section \<open>The derived branch\<close>

text \<open>A digest is written with the digits of lower-case hexadecimal numbers.\<close>

definition hex_digests :: "env \<Rightarrow> bool" where
  "hex_digests E \<longleftrightarrow> (\<forall>s. length (env_sha256 E s) = 64 \<and> list_all lower_hex (env_sha256 E s))"

lemma digest_segment:
  assumes "hex_digests E"
  shows "length (hashToHexSegment E s) = 12" "list_all lower_hex (hashToHexSegment E s)"
  using assms by (auto simp: hex_digests_def hashToHexSegment_def BRANCH_HASH_LENGTH_def list_all_iff dest: in_set_takeD)

lemma hex_char: "lower_hex c \<Longrightarrow> lower_alnum c"
  by (auto simp: lower_hex_def lower_alnum_def in_range_def)

lemma hex_segment: "list_all lower_hex s \<Longrightarrow> segment s"
  by (auto simp: segment_def list_all_iff hex_char intro!: no_twice_without)
    (auto simp: lower_hex_def digit_range in_range_def)

lemma segment_char:
  assumes "lower_alnum c \<or> c \<in> set ''._-''"
  shows "\<not> bad_ref_char c" "c \<noteq> CHR ''/''" "c \<noteq> CHR ''@''" "\<not> is_space c"
  using assms
  by (auto simp: bad_ref_char_def lower_alnum_def digit_range in_range_lower is_space_def Let_def)

lemma no_pair: "d \<notin> set s \<Longrightarrow> \<not> str_includes s (d # t)"
  by (induction s) (auto simp: starts_with_iff)

lemma derived_ref:
  assumes m: "segment m" "m \<noteq> []" "\<not> branch_edge (hd m)" and h: "list_all lower_hex h" "h \<noteq> []" and n: "length m + length h \<le> 250"
  shows "normalizeGitHubBranchName (''bek/'' @ m @ ''-'' @ h) = Inr (''bek/'' @ m @ ''-'' @ h)"
proof -
  let ?p = "m @ ''-'' @ h"
  let ?s = "''bek/'' @ ?p"
  have p: "segment ?p" using segment_append_dash [OF m(1) hex_segment [OF h(1)]] .
  have pc: "lower_alnum c \<or> c \<in> set ''._-''" if "c \<in> set ?p" for c
    using p that unfolding segment_def list_all_iff by blast
  have bek: "lower_alnum c" if "c \<in> set ''bek''" for c
    using that by (auto simp: lower_alnum_def in_range_def)
  have chars: "c = CHR ''/'' \<or> lower_alnum c \<or> c \<in> set ''._-''" if "c \<in> set ?s" for c
    using that pc [of c] bek [of c] by auto
  have ns: "CHR ''/'' \<notin> set ?p" using pc segment_char(2) by blast
  have parts: "split_at CHR ''/'' ?s = [''bek'', ?p]"
    using split_at_append [of "CHR ''/''" "''bek''" ?p] split_at_plain [OF ns] by simp
  have trim: "js_trim ?s = ?s"
  proof (rule trim_no_space)
    fix c assume "c \<in> set ?s"
    then consider "c = CHR ''/''" | "lower_alnum c \<or> c \<in> set ''._-''" using chars by blast
    then show "\<not> is_space c"
      by cases (simp add: is_space_def, rule segment_char(4))
  qed
  have bad: "\<not> list_ex bad_ref_char ?s"
  proof
    assume "list_ex bad_ref_char ?s"
    then obtain c where "c \<in> set ?s" "bad_ref_char c" unfolding list_ex_iff by blast
    then have "bad_ref_char CHR ''/''" using chars segment_char(1) by blast
    then show False by (simp add: bad_ref_char_def)
  qed
  have lasth: "last ?s = last h" "lower_hex (last h)"
    using h by (auto simp: list_all_iff)
  have ends: "\<not> ends_with ?s [c]" if "\<not> lower_hex c" for c
  proof
    assume "ends_with ?s [c]"
    then obtain t where "?s = t @ [c]" unfolding ends_with_iff by blast
    then have "last ?s = c" by (simp only: last_snoc)
    with lasth that show False by simp
  qed
  have slashes: "\<not> str_includes ?s ''//''"
    unfolding no_twice_includes using ns m(2)
    by (cases m) (auto simp: no_twice_append no_twice_Cons intro!: no_twice_without dest: hd_in_set)
  have dots: "\<not> str_includes ?s ''..''"
    unfolding no_twice_includes using p by (auto simp: segment_def no_twice_append no_twice_Cons)
  have at: "\<not> str_includes ?s [CHR ''@'', CHR ''{'']"
    by (rule no_pair) (use chars segment_char(3) in auto)
  have first: "\<not> starts_with ?p ''.''" "?p \<noteq> []"
    using m by (cases m; simp add: starts_with_def branch_edge_def)+
  have lock: "\<not> ends_with ?p ''.lock''"
    using ends [of "CHR ''k''"] by (auto simp: ends_with_iff lower_hex_def digit_range in_range_def)
  have no_bad: "\<not> bad_ref ?s"
    unfolding bad_ref_def parts
    using slashes dots at bad first ends [of "CHR ''/''"] ends [of "CHR ''.''"]
    by (simp add: starts_with_def lower_hex_def digit_range in_range_def)
  show ?thesis
    unfolding normalizeGitHubBranchName_def trim Let_def parts
    using no_bad lock n by (simp add: ends_with_def)
qed

text \<open>C36. A branch name is always derived and always valid: when the run id has a character that is safe
  in a ref and the plan hash is not blank, the default prefix gives a name that the connector's own
  validator accepts unchanged, that is at most as long as asked for, and that starts with \<open>bek/\<close> and
  ends with the first twelve digits of the hash of the plan hash, whatever the length of the run id
  and of the slug.\<close>

theorem derived_branch_is_valid:
  assumes digests: "hex_digests E"
    and run: "sanitizeBranchSegment (bn_runId input) \<noteq> []" and hash: "js_trim (bn_planHash input) \<noteq> []"
    and prefix: "bn_prefix input = None"
    and max: "normalizeBranchMaxLength (bn_maxLength input) = Inr n" "18 \<le> n"
  shows "\<exists>name. createDeterministicGitHubBranchName E input = Inr name
    \<and> normalizeGitHubBranchName name = Inr name \<and> int (length name) \<le> n
    \<and> starts_with name ''bek/'' \<and> ends_with name (hashToHexSegment E (js_trim (bn_planHash input)))"
proof -
  let ?h = "hashToHexSegment E (js_trim (bn_planHash input))"
  define slug where "slug = (case bn_slug input of Some slug \<Rightarrow> sanitizeBranchSegment slug | None \<Rightarrow> [])"
  define middle where "middle = trimBranchEdges (take (nat (n - 17)) (joinBranchSegments [sanitizeBranchSegment (bn_runId input), slug]))"
  have "segment slug"
    by (simp add: slug_def segment_sanitized split: option.splits) (simp add: segment_def)
  note joined = joined_segments [OF refl run this]
  have k: "0 < nat (n - 17)" using max(2) by simp
  let ?t = "take (nat (n - 17)) (joinBranchSegments [sanitizeBranchSegment (bn_runId input), slug])"
  have t: "?t \<noteq> []" "hd ?t = hd (sanitizeBranchSegment (bn_runId input))"
    using joined(2) k by (auto simp: take_Cons' gr0_conv_Suc)
  have mid: "segment middle" "middle \<noteq> []" "\<not> branch_edge (hd middle)"
    using segment_trim [OF segment_take [OF joined(1)]] trim_edges_hd [OF t(1)] t(2) sanitized_hd [OF run]
    by (auto simp: middle_def)
  have len: "length middle \<le> nat (n - 17)"
  proof -
    obtain a b where "?t = a @ middle @ b" using trim_edges_part [of ?t] middle_def by auto
    then have "length middle \<le> length ?t" by (metis length_append le_add1 le_add2 le_trans)
    then show ?thesis by simp
  qed
  have n: "n \<le> 255"
    using max(1) by (auto simp: normalizeBranchMaxLength_def DEFAULT_BRANCH_MAX_LENGTH_def Let_def
        split: option.splits js_number.splits if_splits)
  have pre: "sanitizeBranchPrefix (or_else (bn_prefix input) DEFAULT_BRANCH_PREFIX) = ''bek''"
    unfolding prefix by code_simp
  note h = digest_segment [OF digests, of "js_trim (bn_planHash input)"]
  have valid: "normalizeGitHubBranchName (''bek/'' @ middle @ ''-'' @ ?h) = Inr (''bek/'' @ middle @ ''-'' @ ?h)"
    using derived_ref [OF mid h(2)] h(1) len n by fastforce
  then have "createDeterministicGitHubBranchName E input = Inr (''bek/'' @ middle @ ''-'' @ ?h)"
    using run hash max pre h(1) by (simp add: createDeterministicGitHubBranchName_def Let_def slug_def middle_def)
  moreover have "int (length (''bek/'' @ middle @ ''-'' @ ?h)) \<le> n"
    using len h(1) max(2) by simp
  moreover have "ends_with (''bek/'' @ middle @ ''-'' @ ?h) ?h"
    by (metis append.assoc ends_with_iff)
  ultimately show ?thesis
    using valid by (auto simp: starts_with_def)
qed

definition hex_env :: env where
  "hex_env = \<lparr> env_uuid = nat_str, env_clock = int,
     env_sha256 = (\<lambda>s. replicate 64 (if even (length s) then CHR ''a'' else CHR ''7'')), env_collate = code_unit_le \<rparr>"

definition long_branch :: branch_name_input where
  "long_branch = \<lparr> bn_runId = ''run..7'', bn_planHash = ''abc'', bn_slug = Some (''Fix: '' @ replicate 80 CHR ''.''),
     bn_prefix = None, bn_maxLength = None \<rparr>"

theorem derived_branch_is_valid_witness:
  "\<exists>name. createDeterministicGitHubBranchName hex_env long_branch = Inr name
    \<and> normalizeGitHubBranchName name = Inr name \<and> int (length name) \<le> 60
    \<and> starts_with name ''bek/'' \<and> ends_with name (hashToHexSegment hex_env (js_trim (bn_planHash long_branch)))"
proof (rule derived_branch_is_valid)
  show "hex_digests hex_env"
    by (simp add: hex_digests_def hex_env_def list_all_iff lower_hex_def Sandbox_Network.is_digit_def in_range_def)
  show "sanitizeBranchSegment (bn_runId long_branch) \<noteq> []" "js_trim (bn_planHash long_branch) \<noteq> []"
    by code_simp+
  show "bn_prefix long_branch = None" "normalizeBranchMaxLength (bn_maxLength long_branch) = Inr 60" "18 \<le> (60 :: int)"
    by (simp_all add: long_branch_def normalizeBranchMaxLength_def DEFAULT_BRANCH_MAX_LENGTH_def Let_def)
qed

end
