(* ===== verification/GitHub_Clients.thy ===== *)
theory GitHub_Clients
  imports GitHub_Plans Worker_Queue
begin

text \<open>
  Carrying out a plan, \<open>packages/github/src/execution.ts\<close>, and the two clients that do it:
  \<open>FakeGitHubClient\<close> of \<open>fake-client.ts\<close>, whose repositories are a map kept here, and
  \<open>GitHubRestClient\<close> of \<open>rest-client.ts\<close>, whose requests go through the parameter \<open>fetch\<close>. SHA-1 of
  the fake client is the parameter \<open>sha1\<close>.
\<close>

section \<open>Results\<close>

record branch_result =
  gb_repository :: repo_resource
  gb_branch :: string
  gb_commitSha :: string
  gb_createdFrom :: string

record commit_result =
  gc_repository :: repo_resource
  gc_branch :: string
  gc_commitSha :: string
  gc_parentSha :: string
  gc_message :: string
  gc_changes :: "file_change list"

record pull_result =
  gp_repository :: repo_resource
  gp_number :: js_number
  gp_id :: js_number
  gp_title :: string
  gp_body :: string
  gp_baseBranch :: string
  gp_headBranch :: string
  gp_draft :: bool
  gp_maintainerCanModify :: bool
  gp_labels :: "string list"
  gp_reviewers :: "string list"
  gp_htmlUrl :: string

section \<open>Carrying out a plan\<close>

record workflow_auth =
  wa_installationToken :: installation_token
  wa_tokenLease :: token_lease

record 'w github_client =
  cl_createBranch :: "branch_workflow_plan \<Rightarrow> workflow_auth \<Rightarrow> 'w \<Rightarrow> ('w, branch_result) outcome"
  cl_commitFiles :: "commit_workflow_plan \<Rightarrow> workflow_auth \<Rightarrow> 'w \<Rightarrow> ('w, commit_result) outcome"
  cl_createDraftPullRequest :: "pull_request_proposal \<Rightarrow> workflow_auth \<Rightarrow> 'w \<Rightarrow> ('w, pull_result) outcome"

record workflow_execution =
  wx_resource :: string
  wx_installationId :: string
  wx_tokenLease :: token_lease
  wx_branch :: branch_result
  wx_commit :: commit_result
  wx_pullRequest :: pull_result
  wx_steps :: "workflow_step list"
  wx_runId :: "string option"
  wx_requesterPrincipalId :: "string option"

definition nonempty :: "string option \<Rightarrow> string option" where
  "nonempty v = (if truthy v then v else None)"

text \<open>The world \<open>'w\<close> is what the token provider and the client change; the clock is read once.\<close>

definition executeGitHubDraftPullRequestWorkflowPlan ::
    "url_parser \<Rightarrow> (token_request_input \<Rightarrow> 'w \<Rightarrow> ('w, installation_token) outcome) \<Rightarrow> 'w github_client \<Rightarrow>
     int option \<Rightarrow> js_span option \<Rightarrow> draft_pull_plan \<Rightarrow> 'w \<Rightarrow> ('w, workflow_execution) outcome" where
  "executeGitHubDraftPullRequestWorkflowPlan U provider client now minTokenTtlMs plan =
     andThen (provider (request_again (dp_tokenRequest plan))) (\<lambda>token.
     andThen (lift_sum (assertGitHubInstallationTokenLease U token (request_again (dp_tokenRequest plan))
       now minTokenTtlMs)) (\<lambda>lease.
     let auth = \<lparr> wa_installationToken = token, wa_tokenLease = lease \<rparr> in
     andThen (cl_createBranch client (dp_branch plan) auth) (\<lambda>branch.
     andThen (cl_commitFiles client ((dp_commit plan)\<lparr> cw_expectedHeadSha := Some (gb_commitSha branch) \<rparr>) auth) (\<lambda>commit.
     andThen (cl_createDraftPullRequest client (dp_pullRequest plan) auth) (\<lambda>pull.
     returns \<lparr> wx_resource = dp_resource plan, wx_installationId = dp_installationId plan, wx_tokenLease = lease,
       wx_branch = branch, wx_commit = commit, wx_pullRequest = pull, wx_steps = dp_steps plan,
       wx_runId = nonempty (dp_runId plan),
       wx_requesterPrincipalId = nonempty (dp_requesterPrincipalId plan) \<rparr>)))))"

section \<open>The fake client\<close>

record fake_repository =
  fr_repository :: repo_resource
  fr_defaultBranch :: string
  fr_branches :: "string \<rightharpoonup> string"
  fr_commits :: "commit_result list"
  fr_pullRequests :: "pull_result list"
  fr_nextPullRequestNumber :: int

type_synonym fake_client = "string \<rightharpoonup> fake_repository"

record repository_seed =
  rs_repository :: repo_input
  rs_defaultBranch :: "string option"
  rs_branches :: "(string \<times> string) list option"

definition EMPTY_TREE_SHA :: string where
  "EMPTY_TREE_SHA = replicate 40 CHR ''0''"

definition getRepository :: "url_parser \<Rightarrow> repo_input \<Rightarrow> fake_client \<Rightarrow> js_error + fake_repository" where
  "getRepository U repository repositories =
     attempt (parseGitHubRepoResource U repository) (\<lambda>parsed.
     case repositories (gr_resource parsed) of
       None \<Rightarrow> Inl (Error (''Fake GitHub repo is not seeded: '' @ gr_resource parsed))
     | Some state \<Rightarrow> Inr state)"

definition readRepositoryState :: "url_parser \<Rightarrow> repo_input \<Rightarrow> fake_client \<Rightarrow> js_error + fake_repository" where
  "readRepositoryState U repository repositories =
     attempt (parseGitHubRepoResource U repository) (\<lambda>parsed. getRepository U (ref_of parsed) repositories)"

text \<open>A seeded repository is read again under its parsed name, which may fail after it was put into the map.\<close>

definition seedRepository :: "url_parser \<Rightarrow> repository_seed \<Rightarrow> fake_client \<Rightarrow> (fake_client, fake_repository) outcome" where
  "seedRepository U seed repositories =
     (case parseGitHubRepoResource U (rs_repository seed) of
        Inl e \<Rightarrow> (Inl e, repositories)
      | Inr repository \<Rightarrow>
          let defaultBranch = or_else (optionalText (rs_defaultBranch seed)) ''main'';
              branches = map_of (or_else (rs_branches seed) [(defaultBranch, EMPTY_TREE_SHA)]);
              state = \<lparr> fr_repository = repository, fr_defaultBranch = defaultBranch,
                fr_branches = (if branches defaultBranch = None then branches(defaultBranch \<mapsto> EMPTY_TREE_SHA) else branches),
                fr_commits = [], fr_pullRequests = [], fr_nextPullRequestNumber = 1 \<rparr>;
              seeded = repositories(gr_resource repository \<mapsto> state)
          in (readRepositoryState U (ref_of repository) seeded, seeded))"

fun seed_repositories :: "url_parser \<Rightarrow> repository_seed list \<Rightarrow> fake_client \<Rightarrow> (fake_client, unit) outcome" where
  "seed_repositories U [] = returns ()"
| "seed_repositories U (seed # seeds) = andThen (seedRepository U seed) (\<lambda>_. seed_repositories U seeds)"

text \<open>The repository is an object of the map: an update replaces it where it was found.\<close>

definition put_repository :: "fake_repository \<Rightarrow> fake_client \<Rightarrow> fake_client" where
  "put_repository state repositories = repositories(gr_resource (fr_repository state) \<mapsto> state)"

definition truthy_branch :: "fake_repository \<Rightarrow> string \<Rightarrow> string option" where
  "truthy_branch state branch = nonempty (fr_branches state branch)"

definition fake_createBranch ::
    "url_parser \<Rightarrow> branch_workflow_plan \<Rightarrow> fake_client \<Rightarrow> (fake_client, branch_result) outcome" where
  "fake_createBranch U plan repositories =
     (case getRepository U (ref_of (bw_repository plan)) repositories of
        Inl e \<Rightarrow> (Inl e, repositories)
      | Inr state \<Rightarrow> (case truthy_branch state (bw_baseBranch plan) of
          None \<Rightarrow> (Inl (Error (''GitHub base branch does not exist: '' @ bw_baseBranch plan)), repositories)
        | Some baseSha \<Rightarrow>
            if fr_branches state (bw_headBranch plan) \<noteq> None
            then (Inl (Error (''GitHub branch already exists: '' @ bw_headBranch plan)), repositories)
            else (Inr \<lparr> gb_repository = fr_repository state, gb_branch = bw_headBranch plan, gb_commitSha = baseSha,
                        gb_createdFrom = bw_baseBranch plan \<rparr>,
                  put_repository (state\<lparr> fr_branches := (fr_branches state)(bw_headBranch plan \<mapsto> baseSha) \<rparr>)
                    repositories)))"

definition change_json :: "file_change \<Rightarrow> json" where
  "change_json change = JObj [(''path'', JStr (fc_path change)), (''content'', json_opt JStr (fc_content change)),
     (''deletion'', json_opt JBool (fc_deletion change)), (''executable'', json_opt JBool (fc_executable change))]"

definition createFakeCommitSha :: "(string \<Rightarrow> string) \<Rightarrow> fake_repository \<Rightarrow> string \<Rightarrow> commit_workflow_plan \<Rightarrow> string" where
  "createFakeCommitSha sha1 state parentSha plan =
     sha1 (or_else (json_stringify (JObj [(''repository'', JStr (gr_resource (fr_repository state))),
       (''branch'', JStr (cw_branch plan)), (''parentSha'', JStr parentSha), (''message'', JStr (cw_message plan)),
       (''changes'', JArr (map change_json (cw_changes plan)))])) [])"

text \<open>\<open>cloneChange\<close> keeps flags that are \<open>true\<close>.\<close>

definition cloneChange :: "file_change \<Rightarrow> file_change" where
  "cloneChange change = \<lparr> fc_path = fc_path change, fc_content = fc_content change,
     fc_deletion = (if fc_deletion change = Some True then Some True else None),
     fc_executable = (if fc_executable change = Some True then Some True else None) \<rparr>"

definition fake_commitFiles ::
    "url_parser \<Rightarrow> (string \<Rightarrow> string) \<Rightarrow> commit_workflow_plan \<Rightarrow> fake_client \<Rightarrow> (fake_client, commit_result) outcome" where
  "fake_commitFiles U sha1 plan repositories =
     (case getRepository U (ref_of (cw_repository plan)) repositories of
        Inl e \<Rightarrow> (Inl e, repositories)
      | Inr state \<Rightarrow> (case truthy_branch state (cw_branch plan) of
          None \<Rightarrow> (Inl (Error (''GitHub branch does not exist: '' @ cw_branch plan)), repositories)
        | Some parentSha \<Rightarrow>
            if truthy (cw_expectedHeadSha plan) \<and> cw_expectedHeadSha plan \<noteq> Some parentSha
            then (Inl (Error ''GitHub branch head did not match expected commit SHA.''), repositories)
            else
            let commitSha = createFakeCommitSha sha1 state parentSha plan;
                commit = \<lparr> gc_repository = fr_repository state, gc_branch = cw_branch plan, gc_commitSha = commitSha,
                  gc_parentSha = parentSha, gc_message = cw_message plan, gc_changes = map cloneChange (cw_changes plan) \<rparr>
            in (Inr commit, put_repository (state\<lparr> fr_branches := (fr_branches state)(cw_branch plan \<mapsto> commitSha),
                  fr_commits := fr_commits state @ [commit] \<rparr>) repositories)))"

definition fake_createDraftPullRequest ::
    "url_parser \<Rightarrow> pull_request_proposal \<Rightarrow> fake_client \<Rightarrow> (fake_client, pull_result) outcome" where
  "fake_createDraftPullRequest U proposal repositories =
     (case getRepository U (ref_of (pp_repository proposal)) repositories of
        Inl e \<Rightarrow> (Inl e, repositories)
      | Inr state \<Rightarrow>
          if fr_branches state (pp_baseBranch proposal) = None
          then (Inl (Error (''GitHub base branch does not exist: '' @ pp_baseBranch proposal)), repositories)
          else if fr_branches state (pp_headBranch proposal) = None
          then (Inl (Error (''GitHub head branch does not exist: '' @ pp_headBranch proposal)), repositories)
          else if list_ex (\<lambda>p. gp_baseBranch p = pp_baseBranch proposal \<and> gp_headBranch p = pp_headBranch proposal)
               (fr_pullRequests state)
          then (Inl (Error ''GitHub pull request already exists for this branch pair.''), repositories)
          else
          let number = fr_nextPullRequestNumber state;
              pull = \<lparr> gp_repository = fr_repository state, gp_number = Whole number, gp_id = Whole number,
                gp_title = pp_title proposal, gp_body = pp_body proposal, gp_baseBranch = pp_baseBranch proposal,
                gp_headBranch = pp_headBranch proposal, gp_draft = pp_draft proposal,
                gp_maintainerCanModify = pp_maintainerCanModify proposal, gp_labels = pp_labels proposal,
                gp_reviewers = pp_reviewers proposal,
                gp_htmlUrl = gr_url (fr_repository state) @ ''/pull/'' @ int_str number \<rparr>
          in (Inr pull, put_repository (state\<lparr> fr_nextPullRequestNumber := number + 1,
                fr_pullRequests := fr_pullRequests state @ [pull] \<rparr>) repositories))"

definition fake_github_client :: "url_parser \<Rightarrow> (string \<Rightarrow> string) \<Rightarrow> fake_client github_client" where
  "fake_github_client U sha1 = \<lparr> cl_createBranch = (\<lambda>plan auth. fake_createBranch U plan),
     cl_commitFiles = (\<lambda>plan auth. fake_commitFiles U sha1 plan),
     cl_createDraftPullRequest = (\<lambda>proposal auth. fake_createDraftPullRequest U proposal) \<rparr>"

section \<open>The REST client\<close>

record rest_client =
  rc_apiBaseUrl :: string
  rc_userAgent :: string

definition new_rest_client :: "string option \<Rightarrow> string option \<Rightarrow> rest_client" where
  "new_rest_client apiBaseUrl userAgent =
     \<lparr> rc_apiBaseUrl = without_end_slashes (or_else apiBaseUrl ''https://api.github.com''),
       rc_userAgent = or_else userAgent ''bek-github-rest-client'' \<rparr>"

definition rest_token_rx :: rx where
  "rest_token_rx = rx_seq [WordB, lit ''gh'', Cls (\<lambda>c. c \<in> set ''osurp''), chr CHR ''_'',
     plus (Cls (alnum_or ''_-'')), WordB]"

definition rest_pat_rx :: rx where
  "rest_pat_rx = rx_seq [WordB, lit ''github_pat_'', plus (Cls (alnum_or ''_'')), WordB]"

definition redactGitHubSecret :: "string \<Rightarrow> string \<Rightarrow> string" where
  "redactGitHubSecret v exactToken =
     (let exactRedacted = (if exactToken \<noteq> [] then replace_all (lit exactToken) (\<lambda>_. ''[redacted:github-token]'') v else v)
      in replace_all any_bearer_rx (\<lambda>_. ''Bearer [redacted:github-token]'')
           (replace_all rest_pat_rx (\<lambda>_. ''[redacted:github-token]'')
             (replace_all rest_token_rx (\<lambda>_. ''[redacted:github-token]'') exactRedacted)))"

text \<open>A refused request: its status and the message of the error it becomes.\<close>

type_synonym rest_result = "(nat \<times> string) + json"

definition rest_http_request :: "rest_client \<Rightarrow> string \<Rightarrow> string \<Rightarrow> workflow_auth \<Rightarrow> json option \<Rightarrow> http_request" where
  "rest_http_request C given_method path auth body =
     \<lparr> hq_method = given_method, hq_url = rc_apiBaseUrl C @ path,
       hq_headers = [(''accept'', ''application/vnd.github+json''),
         (''authorization'', ''Bearer '' @ it_token (wa_installationToken auth)),
         (''content-type'', ''application/json''), (''user-agent'', rc_userAgent C),
         (''x-github-api-version'', ''2022-11-28'')],
       hq_body = (case body of None \<Rightarrow> None | Some b \<Rightarrow> json_stringify b) \<rparr>"

definition tryRequestJson ::
    "'w fetcher \<Rightarrow> rest_client \<Rightarrow> string \<Rightarrow> string \<Rightarrow> workflow_auth \<Rightarrow> json option \<Rightarrow> 'w \<Rightarrow> ('w, rest_result) outcome" where
  "tryRequestJson fetch C given_method path auth body w =
     (case fetch (rest_http_request C given_method path auth body) w of
        (Inl message, w') \<Rightarrow> (Inl (Error message), w')
      | (Inr response, w') \<Rightarrow>
          if \<not> response_ok response
          then (Inr (Inl (hr_status response, js_trim (''GitHub REST request failed: '' @ nat_str (hr_status response)
                 @ '' '' @ hr_statusText response @ '' ''
                 @ redactGitHubSecret (or_else (hr_text response) []) (it_token (wa_installationToken auth))))), w')
          else (case hr_json response of
              Inl message \<Rightarrow> (Inl (Error message), w')
            | Inr v \<Rightarrow> (Inr (Inr v), w')))"

definition throwGitHubRestError :: "nat \<times> string \<Rightarrow> 'w \<Rightarrow> ('w, 'a) outcome" where
  "throwGitHubRestError refused w = (Inl (Error (snd refused)), w)"

definition requestJson ::
    "'w fetcher \<Rightarrow> rest_client \<Rightarrow> string \<Rightarrow> string \<Rightarrow> workflow_auth \<Rightarrow> json option \<Rightarrow> 'w \<Rightarrow> ('w, json) outcome" where
  "requestJson fetch C given_method path auth body =
     andThen (tryRequestJson fetch C given_method path auth body) (\<lambda>response.
     case response of Inl refused \<Rightarrow> throwGitHubRestError refused | Inr v \<Rightarrow> returns v)"

text \<open>\<open>value?.key\<close> of a value read from a response; \<open>null\<close> as a whole throws when a key is read.\<close>

definition maybe_field :: "json \<Rightarrow> string \<Rightarrow> json" where
  "maybe_field v key = (case v of JObj es \<Rightarrow> get_prop es key | _ \<Rightarrow> JUndef)"

definition read_field :: "json \<Rightarrow> string \<Rightarrow> js_error + json" where
  "read_field v key = (if v = JNull \<or> v = JUndef
     then Inl (TypeError (''Cannot read properties of '' @ (if v = JNull then ''null'' else ''undefined'')
       @ '' (reading '' @ [CHR 0x27] @ key @ [CHR 0x27] @ '')'')) else Inr (maybe_field v key))"

definition requireString :: "json \<Rightarrow> string \<Rightarrow> js_error + string" where
  "requireString v label = (case v of
      JStr s \<Rightarrow> if js_trim s = [] then Inl (Error (label @ '' is missing from GitHub response.'')) else Inr s
    | _ \<Rightarrow> Inl (Error (label @ '' is missing from GitHub response.'')))"

text \<open>A finite number: whole, or the text of a fraction.\<close>

definition requireNumber :: "json \<Rightarrow> string \<Rightarrow> js_error + string" where
  "requireNumber v label = (case v of
      JNum n \<Rightarrow> Inr (int_str n)
    | JReal t \<Rightarrow> if is_finite_text t then Inr t else Inl (Error (label @ '' is missing from GitHub response.''))
    | _ \<Rightarrow> Inl (Error (label @ '' is missing from GitHub response.'')))"

definition normalizeString :: "json \<Rightarrow> string \<Rightarrow> string" where
  "normalizeString v fallback = (case v of JStr s \<Rightarrow> s | _ \<Rightarrow> fallback)"

definition normalizeNumber :: "json \<Rightarrow> js_number \<Rightarrow> js_number" where
  "normalizeNumber v fallback = (case v of
      JNum n \<Rightarrow> Whole n | JReal t \<Rightarrow> if is_finite_text t then Not_whole else fallback | _ \<Rightarrow> fallback)"

definition normalizeBoolean :: "json \<Rightarrow> bool \<Rightarrow> bool" where
  "normalizeBoolean v fallback = (case v of JBool b \<Rightarrow> b | _ \<Rightarrow> fallback)"

definition named_entry :: "string \<Rightarrow> json \<Rightarrow> string list" where
  "named_entry key entry = (case entry of
      JObj es \<Rightarrow> (case get_prop es key of JStr s \<Rightarrow> if js_trim s = [] then [] else [s] | _ \<Rightarrow> [])
    | _ \<Rightarrow> [])"

definition namesFromObjects :: "json \<Rightarrow> string \<Rightarrow> string list" where
  "namesFromObjects v key = (case v of JArr entries \<Rightarrow> dedupe (concat (map (named_entry key) entries)) | _ \<Rightarrow> [])"

definition isRetryableExistingResourceStatus :: "nat \<Rightarrow> bool" where
  "isRetryableExistingResourceStatus status \<longleftrightarrow> status = 409 \<or> status = 422"

definition repo_path :: "repo_resource \<Rightarrow> string" where
  "repo_path r = ''/repos/'' @ encodeURIComponent (gr_owner r) @ ''/'' @ encodeURIComponent (gr_repo r)"

definition ref_sha :: "json \<Rightarrow> js_error + string" where
  "ref_sha ref = attempt (read_field ref ''object'') (\<lambda>object.
     requireString (maybe_field object ''sha'') ''GitHub branch ref SHA'')"

definition branch_ref_path :: "repo_resource \<Rightarrow> string \<Rightarrow> string" where
  "branch_ref_path r branch = repo_path r @ ''/git/ref/heads/'' @ encodeURIComponent branch"

definition getBranchRef ::
    "'w fetcher \<Rightarrow> rest_client \<Rightarrow> repo_resource \<Rightarrow> string \<Rightarrow> workflow_auth \<Rightarrow> 'w \<Rightarrow> ('w, string) outcome" where
  "getBranchRef fetch C r branch auth =
     andThen (requestJson fetch C ''GET'' (branch_ref_path r branch) auth None) (\<lambda>ref. lift_sum (ref_sha ref))"

definition tryGetBranchRef ::
    "'w fetcher \<Rightarrow> rest_client \<Rightarrow> repo_resource \<Rightarrow> string \<Rightarrow> workflow_auth \<Rightarrow> 'w \<Rightarrow> ('w, string option) outcome" where
  "tryGetBranchRef fetch C r branch auth =
     andThen (tryRequestJson fetch C ''GET'' (branch_ref_path r branch) auth None) (\<lambda>response.
     case response of
       Inl refused \<Rightarrow> if fst refused = 404 then returns None else throwGitHubRestError refused
     | Inr ref \<Rightarrow> andThen (lift_sum (ref_sha ref)) (\<lambda>sha. returns (Some sha)))"

text \<open>A branch that exists already is taken over when it still points at the base commit.\<close>

definition rest_createBranch ::
    "'w fetcher \<Rightarrow> rest_client \<Rightarrow> branch_workflow_plan \<Rightarrow> workflow_auth \<Rightarrow> 'w \<Rightarrow> ('w, branch_result) outcome" where
  "rest_createBranch fetch C plan auth =
     andThen (getBranchRef fetch C (bw_repository plan) (bw_baseBranch plan) auth) (\<lambda>baseSha.
     let created = \<lparr> gb_repository = bw_repository plan, gb_branch = bw_headBranch plan, gb_commitSha = baseSha,
           gb_createdFrom = bw_baseBranch plan \<rparr> in
     andThen (tryRequestJson fetch C ''POST'' (repo_path (bw_repository plan) @ ''/git/refs'') auth
       (Some (JObj [(''ref'', JStr (''refs/heads/'' @ bw_headBranch plan)), (''sha'', JStr baseSha)]))) (\<lambda>createRef.
     case createRef of
       Inr _ \<Rightarrow> returns created
     | Inl refused \<Rightarrow>
         if isRetryableExistingResourceStatus (fst refused)
         then andThen (tryGetBranchRef fetch C (bw_repository plan) (bw_headBranch plan) auth) (\<lambda>existing.
           case existing of
             None \<Rightarrow> throwGitHubRestError refused
           | Some sha \<Rightarrow>
               if sha = baseSha then returns created
               else lift_sum (Inl (Error (''GitHub branch '' @ bw_headBranch plan @ '' already exists at '' @ sha
                 @ ''; expected '' @ baseSha @ ''.''))))
         else throwGitHubRestError refused))"

definition treeEntryForChange :: "file_change \<Rightarrow> json" where
  "treeEntryForChange change = JObj ([(''path'', JStr (fc_path change)),
     (''mode'', JStr (if fc_executable change = Some True then ''100755'' else ''100644'')), (''type'', JStr ''blob'')]
     @ (if fc_deletion change = Some True then [(''sha'', JNull)]
        else [(''content'', JStr (or_else (fc_content change) []))]))"

definition string_field :: "json \<Rightarrow> string \<Rightarrow> string \<Rightarrow> js_error + string" where
  "string_field v key label = attempt (read_field v key) (\<lambda>x. requireString x label)"

definition tree_sha :: "json \<Rightarrow> js_error + string" where
  "tree_sha commit = attempt (read_field commit ''tree'') (\<lambda>tree.
     requireString (maybe_field tree ''sha'') ''GitHub commit tree SHA'')"

text \<open>The tree, the commit and the branch, once the head is known.\<close>

definition rest_commit_on ::
    "'w fetcher \<Rightarrow> rest_client \<Rightarrow> commit_workflow_plan \<Rightarrow> workflow_auth \<Rightarrow> string \<Rightarrow> 'w \<Rightarrow> ('w, commit_result) outcome" where
  "rest_commit_on fetch C plan auth headSha =
     (let repository = cw_repository plan in
     andThen (requestJson fetch C ''GET'' (repo_path repository @ ''/git/commits/'' @ encodeURIComponent headSha) auth None)
       (\<lambda>baseCommit.
     andThen (lift_sum (tree_sha baseCommit)) (\<lambda>baseTreeSha.
     andThen (requestJson fetch C ''POST'' (repo_path repository @ ''/git/trees'') auth
       (Some (JObj [(''base_tree'', JStr baseTreeSha), (''tree'', JArr (map treeEntryForChange (cw_changes plan)))])))
       (\<lambda>tree.
     andThen (lift_sum (string_field tree ''sha'' ''GitHub tree SHA'')) (\<lambda>treeSha.
     andThen (requestJson fetch C ''POST'' (repo_path repository @ ''/git/commits'') auth
       (Some (JObj [(''message'', JStr (cw_message plan)), (''tree'', JStr treeSha), (''parents'', JArr [JStr headSha])])))
       (\<lambda>commit.
     andThen (lift_sum (string_field commit ''sha'' ''GitHub commit SHA'')) (\<lambda>commitSha.
     andThen (requestJson fetch C ''PATCH'' (repo_path repository @ ''/git/refs/heads/'' @ encodeURIComponent (cw_branch plan))
       auth (Some (JObj [(''sha'', JStr commitSha), (''force'', JBool False)]))) (\<lambda>_.
     returns \<lparr> gc_repository = repository, gc_branch = cw_branch plan, gc_commitSha = commitSha, gc_parentSha = headSha,
       gc_message = cw_message plan, gc_changes = cw_changes plan \<rparr>))))))))"

definition rest_commitFiles ::
    "'w fetcher \<Rightarrow> rest_client \<Rightarrow> commit_workflow_plan \<Rightarrow> workflow_auth \<Rightarrow> 'w \<Rightarrow> ('w, commit_result) outcome" where
  "rest_commitFiles fetch C plan auth =
     andThen (getBranchRef fetch C (cw_repository plan) (cw_branch plan) auth) (\<lambda>headSha.
     if truthy (cw_expectedHeadSha plan) \<and> cw_expectedHeadSha plan \<noteq> Some headSha
     then lift_sum (Inl (Error ''GitHub branch head did not match expected commit SHA.''))
     else rest_commit_on fetch C plan auth headSha)"

definition form_encode :: "string \<Rightarrow> string" where
  "form_encode s = concat (map (\<lambda>c.
     if in_range CHR ''A'' CHR ''Z'' c \<or> in_range CHR ''a'' CHR ''z'' c \<or> in_range CHR ''0'' CHR ''9'' c \<or> c \<in> set ''*-._''
     then [c] else if c = CHR '' '' then ''+''
     else concat (map (\<lambda>b. [CHR ''%'', upper_hex_digit (b div 16), upper_hex_digit (b mod 16)]) (utf8_char c))) s)"

definition findOpenPullRequestForBranchPair ::
    "'w fetcher \<Rightarrow> rest_client \<Rightarrow> pull_request_proposal \<Rightarrow> workflow_auth \<Rightarrow> 'w \<Rightarrow> ('w, json option) outcome" where
  "findOpenPullRequestForBranchPair fetch C proposal auth =
     andThen (requestJson fetch C ''GET'' (repo_path (pp_repository proposal) @ ''/pulls?state=open&head=''
       @ form_encode (gr_owner (pp_repository proposal) @ '':'' @ pp_headBranch proposal) @ ''&base=''
       @ form_encode (pp_baseBranch proposal)) auth None) (\<lambda>responses.
     case responses of
       JArr (first # _) \<Rightarrow> returns (if first = JNull then None else Some first)
     | JArr [] \<Rightarrow> returns None
     | _ \<Rightarrow> lift_sum (Inl (Error ''GitHub pull request list is missing from response.'')))"

definition post_names ::
    "'w fetcher \<Rightarrow> rest_client \<Rightarrow> string \<Rightarrow> workflow_auth \<Rightarrow> string \<Rightarrow> string list \<Rightarrow> 'w \<Rightarrow> ('w, unit) outcome" where
  "post_names fetch C path auth key names =
     (if names = [] then returns ()
      else andThen (requestJson fetch C ''POST'' path auth (Some (JObj [(key, JArr (map JStr names))]))) (\<lambda>_. returns ()))"

definition number_of :: "json \<Rightarrow> js_number" where
  "number_of v = normalizeNumber v Not_whole"

definition read_pull :: "pull_request_proposal \<Rightarrow> js_number \<Rightarrow> json \<Rightarrow> js_error + pull_result" where
  "read_pull proposal number observed =
     attempt (read_field observed ''id'') (\<lambda>given_id.
     attempt (requireString (maybe_field observed ''html_url'') ''GitHub pull request URL'') (\<lambda>url.
     Inr \<lparr> gp_repository = pp_repository proposal, gp_number = number, gp_id = normalizeNumber given_id number,
       gp_title = normalizeString (maybe_field observed ''title'') (pp_title proposal),
       gp_body = normalizeString (maybe_field observed ''body'') (pp_body proposal),
       gp_baseBranch = normalizeString (maybe_field (maybe_field observed ''base'') ''ref'') (pp_baseBranch proposal),
       gp_headBranch = normalizeString (maybe_field (maybe_field observed ''head'') ''ref'') (pp_headBranch proposal),
       gp_draft = normalizeBoolean (maybe_field observed ''draft'') (pp_draft proposal),
       gp_maintainerCanModify = normalizeBoolean (maybe_field observed ''maintainer_can_modify'')
         (pp_maintainerCanModify proposal),
       gp_labels = namesFromObjects (maybe_field observed ''labels'') ''name'',
       gp_reviewers = namesFromObjects (maybe_field observed ''requested_reviewers'') ''login'', gp_htmlUrl = url \<rparr>))"

definition created_or_found ::
    "'w fetcher \<Rightarrow> rest_client \<Rightarrow> pull_request_proposal \<Rightarrow> workflow_auth \<Rightarrow> rest_result \<Rightarrow> 'w \<Rightarrow> ('w, json) outcome" where
  "created_or_found fetch C proposal auth response = (case response of
      Inr v \<Rightarrow> returns v
    | Inl refused \<Rightarrow>
        if isRetryableExistingResourceStatus (fst refused)
        then andThen (findOpenPullRequestForBranchPair fetch C proposal auth) (\<lambda>found.
          case found of None \<Rightarrow> throwGitHubRestError refused | Some v \<Rightarrow> returns v)
        else throwGitHubRestError refused)"

definition rest_createDraftPullRequest ::
    "'w fetcher \<Rightarrow> rest_client \<Rightarrow> pull_request_proposal \<Rightarrow> workflow_auth \<Rightarrow> 'w \<Rightarrow> ('w, pull_result) outcome" where
  "rest_createDraftPullRequest fetch C proposal auth =
     (let path = repo_path (pp_repository proposal) in
     andThen (tryRequestJson fetch C ''POST'' (path @ ''/pulls'') auth
       (Some (JObj [(''title'', JStr (pp_title proposal)), (''body'', JStr (pp_body proposal)),
         (''head'', JStr (pp_headBranch proposal)), (''base'', JStr (pp_baseBranch proposal)),
         (''draft'', JBool (pp_draft proposal)),
         (''maintainer_can_modify'', JBool (pp_maintainerCanModify proposal))]))) (\<lambda>createResponse.
     andThen (created_or_found fetch C proposal auth createResponse) (\<lambda>response.
     andThen (lift_sum (read_field response ''number'')) (\<lambda>given.
     andThen (lift_sum (requireNumber given ''GitHub pull request number'')) (\<lambda>number.
     andThen (post_names fetch C (path @ ''/issues/'' @ number @ ''/labels'') auth ''labels'' (pp_labels proposal)) (\<lambda>_.
     andThen (post_names fetch C (path @ ''/pulls/'' @ number @ ''/requested_reviewers'') auth ''reviewers''
       (pp_reviewers proposal)) (\<lambda>_.
     andThen (requestJson fetch C ''GET'' (path @ ''/pulls/'' @ number) auth None) (\<lambda>observed.
     lift_sum (read_pull proposal (number_of given) observed)))))))))"

definition rest_github_client :: "'w fetcher \<Rightarrow> rest_client \<Rightarrow> 'w github_client" where
  "rest_github_client fetch C = \<lparr> cl_createBranch = rest_createBranch fetch C,
     cl_commitFiles = rest_commitFiles fetch C, cl_createDraftPullRequest = rest_createDraftPullRequest fetch C \<rparr>"

end
