(* ===== verification/GitHub_Properties.thy ===== *)
theory GitHub_Properties
  imports GitHub_Rebuilt GitHub_Branches GitHub_Clients
begin

text \<open>
  The properties of the GitHub connector: plans, their hashes and branches, the tokens they run with
  and what carrying them out does to a repository, each with a concrete plan.
\<close>

section \<open>A concrete plan\<close>

definition sample_digest :: "string \<Rightarrow> string" where
  "sample_digest s = replicate 64 (if even (length s) then CHR ''a'' else CHR ''b'')"

definition github_env :: env where
  "github_env = \<lparr> env_uuid = nat_str, env_clock = int, env_sha256 = sample_digest, env_collate = code_unit_le \<rparr>"

definition sample_changes :: "file_change list" where
  "sample_changes =
     [\<lparr> fc_path = ''src'' @ [CHR 0x5C] @ ''login.ts'', fc_content = Some ''ok'', fc_deletion = None, fc_executable = None \<rparr>,
      \<lparr> fc_path = ''old.ts'', fc_content = None, fc_deletion = Some True, fc_executable = None \<rparr>]"

definition sample_pull_input :: draft_pull_input where
  "sample_pull_input = \<lparr> di_repository = Repo_text ''github:Acme/Site.git'', di_installationId = Id_number (Whole 42),
     di_repositoryId = None, di_title = '' Fix login '', di_headBranch = Some ''bek/login'', di_baseBranch = None, di_body = None,
     di_commitMessage = ''fix'', di_changes = sample_changes, di_draft = None, di_maintainerCanModify = Some False,
     di_labels = Some [''bug'', '' bug''], di_reviewers = None, di_branchPrefix = None,
     di_existingBranches = [], di_existingPullRequests = [], di_runId = Some ''run_7'',
     di_requesterPrincipalId = None \<rparr>"

definition no_urls :: url_parser where
  "no_urls = (\<lambda>_. None)"

definition sample_pull_plan :: draft_pull_plan where
  "sample_pull_plan = projr (createGitHubDraftPullRequestWorkflowPlan no_urls github_env sample_pull_input)"

lemma sample_digest_text: "js_trim (sample_digest s) = sample_digest s" "sample_digest s \<noteq> []"
  by (auto simp: sample_digest_def is_space_def intro!: trim_no_space)

lemma sample_hash: "js_trim (hashCanonical github_env v) = hashCanonical github_env v" "hashCanonical github_env v \<noteq> []"
  by (simp_all add: hashCanonical_def github_env_def sample_digest_text)

lemma sample_parts:
  "parseGitHubRepoResource no_urls (Repo_text ''github:Acme/Site.git'') = Inr (repo_of ''acme'' ''site'')"
  "parseGitHubRepoResource no_urls (ref_of (repo_of ''acme'' ''site'')) = Inr (repo_of ''acme'' ''site'')"
  "normalizeGitHubInstallationId (Id_number (Whole 42)) = Inr ''42''"
  "normalizeGitHubInstallationId (Id_text ''42'') = Inr ''42''"
  "normalizeGitHubBranchName ''main'' = Inr ''main''" "normalizeGitHubBranchName ''bek/login'' = Inr ''bek/login''"
  "normalizeStringList [''bug'', '' bug''] ''label'' = Inr [''bug'']" "normalizeStringList [''bug''] ''label'' = Inr [''bug'']"
  "normalizeStringList [] ''reviewer'' = Inr []" "js_trim '' Fix login '' = ''Fix login''" "js_trim ''Fix login'' = ''Fix login''"
  "js_trim ''fix'' = ''fix''"
  by code_simp+

lemma sample_changes_normal:
  "normalizeCommitChanges sample_changes = Inr
     [\<lparr> fc_path = ''src/login.ts'', fc_content = Some ''ok'', fc_deletion = None, fc_executable = None \<rparr>,
      \<lparr> fc_path = ''old.ts'', fc_content = None, fc_deletion = Some True, fc_executable = None \<rparr>]"
  by code_simp

lemmas github_plan_defs = createGitHubDraftPullRequestWorkflowPlan_def resolveDraftPullRequestHeadBranch_def
  createGitHubBranchWorkflowPlan_def createGitHubCommitWorkflowPlan_def createGitHubPullRequestProposal_def
  createGitHubPullRequestPlanHashBinding_def createGitHubPullRequestWriteApprovalHashInput_def
  createGitHubInstallationTokenRequest_def workflow_token_input_def final_hash_input_def proposal_of_def
  resolveGitHubBranchPlan_def truthy_def Let_def

lemma sample_planned:
  "createGitHubDraftPullRequestWorkflowPlan no_urls github_env sample_pull_input = Inr sample_pull_plan"
proof -
  have "\<not> isl (createGitHubDraftPullRequestWorkflowPlan no_urls github_env sample_pull_input)"
    by (simp add: sample_pull_input_def github_plan_defs sample_parts sample_changes_normal sample_hash resolution_def
        isKnownPermissionName_def GITHUB_INSTALLATION_PERMISSION_NAMES_def)
  then show ?thesis
    by (simp add: sample_pull_plan_def)
qed

lemma sample_plan_values:
  "gr_repo (dp_repository sample_pull_plan) = ''site''"
  "bw_headBranch (dp_branch sample_pull_plan) = ''bek/login''"
  "map fc_path (cw_changes (dp_commit sample_pull_plan)) = [''src/login.ts'', ''old.ts'']"
proof -
  note p = sample_planned
  have "parseGitHubRepoResource no_urls (di_repository sample_pull_input) = Inr (dp_repository sample_pull_plan)"
    by (rule plan_parts [OF p])
  then have "dp_repository sample_pull_plan = repo_of ''acme'' ''site''"
    by (simp add: sample_pull_input_def sample_parts(1))
  then show "gr_repo (dp_repository sample_pull_plan) = ''site''"
    by (simp add: repo_of_def Let_def)
  show "map fc_path (cw_changes (dp_commit sample_pull_plan)) = [''src/login.ts'', ''old.ts'']"
    using plan_coherent(7) [OF p, symmetric] by (simp add: sample_pull_input_def sample_changes_normal)
  obtain head where "normalizeGitHubBranchName ''bek/login'' = Inr head"
    "normalizeGitHubBranchName head = Inr (bw_headBranch (dp_branch sample_pull_plan))"
    by (rule plan_parts [OF p], drule branch_plan_fields(4))
      (simp add: resolveDraftPullRequestHeadBranch_def sample_pull_input_def)
  then show "bw_headBranch (dp_branch sample_pull_plan) = ''bek/login''"
    by (auto simp: sample_parts(6))
qed

section \<open>Plans\<close>

text \<open>C33. What a human approves is what runs: the payload of a plan, read back, gives the plan again, with the
  same repository, branches, changes, hashes and token request; only the comparison with existing
  branches is made anew, without any, for the same plan hash. The name of the repository must not
  still end in \<open>.git\<close>, because reading it again would take that off.\<close>

theorem approved_plan_is_rebuilt:
  assumes "createGitHubDraftPullRequestWorkflowPlan U E input = Inr plan"
    and "\<not> ends_with (gr_repo (dp_repository plan)) ''.git''"
  shows "\<exists>r. createGitHubDraftPullRequestWorkflowPlanFromApprovalPayload U E
        (createGitHubDraftPullRequestWorkflowApprovalPayload plan) = Inr (plan\<lparr> dp_branchResolution := r \<rparr>)
      \<and> br_decision r = Create_new \<and> br_planHash r = br_planHash (dp_branchResolution plan)"
proof -
  obtain r where "createGitHubDraftPullRequestWorkflowPlan U E (rebuilt_input plan) = Inr (plan\<lparr> dp_branchResolution := r \<rparr>)"
    "br_decision r = Create_new" "br_planHash r = br_planHash (dp_branchResolution plan)"
    using rebuilt_plan [OF assms(1) plan_rereadable [OF assms]] by blast
  then show ?thesis
    by (auto simp: createGitHubDraftPullRequestWorkflowPlanFromApprovalPayload_def rebuilt_input_def)
qed

lemma sample_not_git: "\<not> ends_with (gr_repo (dp_repository sample_pull_plan)) ''.git''"
  by (simp add: sample_plan_values ends_with_def)

theorem approved_plan_is_rebuilt_witness:
  "\<exists>r. createGitHubDraftPullRequestWorkflowPlanFromApprovalPayload no_urls github_env
        (createGitHubDraftPullRequestWorkflowApprovalPayload sample_pull_plan)
        = Inr (sample_pull_plan\<lparr> dp_branchResolution := r \<rparr>)
      \<and> br_decision r = Create_new \<and> br_planHash r = br_planHash (dp_branchResolution sample_pull_plan)"
  by (rule approved_plan_is_rebuilt [OF sample_planned sample_not_git])

text \<open>A repository that ends in the suffix twice: the plan is for one repository, its parts for another.\<close>

definition suffixed_input :: draft_pull_input where
  "suffixed_input = sample_pull_input\<lparr> di_repository := Repo_ref ''acme'' ''site.git.git'' \<rparr>"

lemma suffixed_parts:
  "parseGitHubRepoResource no_urls (Repo_ref ''acme'' ''site.git.git'') = Inr (repo_of ''acme'' ''site.git'')"
  "parseGitHubRepoResource no_urls (ref_of (repo_of ''acme'' ''site.git'')) = Inr (repo_of ''acme'' ''site'')"
  by code_simp+

lemma suffixed_repository_splits_the_plan:
  "\<exists>plan. createGitHubDraftPullRequestWorkflowPlan no_urls github_env suffixed_input = Inr plan
     \<and> dp_resource plan = ''github:acme/site.git'' \<and> bw_resource (dp_branch plan) = ''github:acme/site''"
  by (simp add: suffixed_input_def sample_pull_input_def github_plan_defs sample_parts suffixed_parts
      sample_changes_normal sample_hash resolution_def isKnownPermissionName_def
      GITHUB_INSTALLATION_PERMISSION_NAMES_def) (simp add: repo_of_def Let_def)

text \<open>The steps of a plan that decide its branch and its hash, over the changes it commits.\<close>

lemma plan_hash_parts:
  assumes "createGitHubDraftPullRequestWorkflowPlan U E input = Inr plan"
  obtains baseBranch headBranch where
    "normalizeGitHubBranchName (or_else (di_baseBranch input) ''main'') = Inr baseBranch"
    "resolveDraftPullRequestHeadBranch U E input (dp_repository plan) (dp_installationId plan)
       (dp_repositoryId plan) (js_trim (di_title input)) baseBranch (cw_changes (dp_commit plan)) = Inr headBranch"
    "createGitHubBranchWorkflowPlan U (ref_of (dp_repository plan)) (Id_text (dp_installationId plan))
       (di_baseBranch input) headBranch (di_runId input) (di_requesterPrincipalId input) = Inr (dp_branch plan)"
    "createGitHubPullRequestPlanHashBinding U E (final_hash_input (dp_repository plan) (dp_installationId plan)
       (dp_repositoryId plan) (dp_pullRequest plan) (cw_changes (dp_commit plan)) (di_requesterPrincipalId input))
       = Inr (dp_planHashBinding plan)"
proof (rule plan_parts [OF assms])
  fix baseBranch changes headBranch
  assume cs: "normalizeCommitChanges (di_changes input) = Inr changes"
    and parts: "normalizeGitHubBranchName (or_else (di_baseBranch input) ''main'') = Inr baseBranch"
    "resolveDraftPullRequestHeadBranch U E input (dp_repository plan) (dp_installationId plan)
       (dp_repositoryId plan) (js_trim (di_title input)) baseBranch changes = Inr headBranch"
    "createGitHubBranchWorkflowPlan U (ref_of (dp_repository plan)) (Id_text (dp_installationId plan))
       (di_baseBranch input) headBranch (di_runId input) (di_requesterPrincipalId input) = Inr (dp_branch plan)"
    "createGitHubPullRequestPlanHashBinding U E (final_hash_input (dp_repository plan) (dp_installationId plan)
       (dp_repositoryId plan) (dp_pullRequest plan) changes (di_requesterPrincipalId input))
       = Inr (dp_planHashBinding plan)"
  have "changes = cw_changes (dp_commit plan)"
    using cs plan_coherent(7) [OF assms] by simp
  with parts that show thesis by simp
qed

lemma head_paths:
  assumes "map fc_path cs = map fc_path ds"
  shows "resolveDraftPullRequestHeadBranch U E (input\<lparr> di_changes := changes, di_commitMessage := message \<rparr>) r i n t b ds
    = resolveDraftPullRequestHeadBranch U E input r i n t b cs"
  using assms by (simp add: resolveDraftPullRequestHeadBranch_def derivation_input_def split: option.split)


text \<open>Two plans that write different things to the same paths.\<close>

definition tampered_changes :: "file_change list" where
  "tampered_changes =
     [\<lparr> fc_path = ''src/login.ts'', fc_content = Some ''evil'', fc_deletion = None, fc_executable = Some True \<rparr>,
      \<lparr> fc_path = ''old.ts'', fc_content = Some ''kept'', fc_deletion = None, fc_executable = None \<rparr>]"

definition tampered_input :: draft_pull_input where
  "tampered_input = sample_pull_input\<lparr> di_changes := tampered_changes, di_commitMessage := ''fix'' \<rparr>"

definition tampered_plan :: draft_pull_plan where
  "tampered_plan = projr (createGitHubDraftPullRequestWorkflowPlan no_urls github_env tampered_input)"

lemma tampered_normal: "normalizeCommitChanges tampered_changes = Inr tampered_changes"
  by code_simp

lemma tampered_planned:
  "createGitHubDraftPullRequestWorkflowPlan no_urls github_env tampered_input = Inr tampered_plan"
proof -
  have "\<not> isl (createGitHubDraftPullRequestWorkflowPlan no_urls github_env tampered_input)"
    by (simp add: tampered_input_def sample_pull_input_def github_plan_defs sample_parts tampered_normal sample_hash
        resolution_def isKnownPermissionName_def GITHUB_INSTALLATION_PERMISSION_NAMES_def)
  then show ?thesis
    by (simp add: tampered_plan_def)
qed

lemma tampered_commit: "cw_changes (dp_commit tampered_plan) = tampered_changes"
  using plan_coherent(7) [OF tampered_planned] by (simp add: tampered_input_def tampered_normal)


definition safe_path :: "string \<Rightarrow> bool" where
  "safe_path p \<longleftrightarrow> p \<noteq> [] \<and> \<not> starts_with p ''/'' \<and> CHR 0x5C \<notin> set p \<and> CHR 0x00 \<notin> set p
     \<and> list_all (\<lambda>part. part \<noteq> [] \<and> part \<noteq> ''.'' \<and> part \<noteq> ''..'') (split_at CHR ''/'' p)"

text \<open>
  What is known of the head branch: the first pull request whose head it is was not merged, has the
  plan's base branch or none, and records the plan's hash; without such a pull request, the first
  branch of that name records the plan's hash.
\<close>

definition known_pull :: "draft_pull_input \<Rightarrow> draft_pull_plan \<Rightarrow> existing_pull option" where
  "known_pull input plan =
     find (\<lambda>pull. normalizeGitHubBranchName (ep_headBranch pull) = Inr (bw_headBranch (dp_branch plan)))
       (di_existingPullRequests input)"

definition known_branch :: "draft_pull_input \<Rightarrow> draft_pull_plan \<Rightarrow> existing_branch option" where
  "known_branch input plan =
     find (\<lambda>branch. normalizeGitHubBranchName (eb_name branch) = Inr (bw_headBranch (dp_branch plan)))
       (di_existingBranches input)"

definition branch_is_ours :: "draft_pull_input \<Rightarrow> draft_pull_plan \<Rightarrow> bool" where
  "branch_is_ours input plan =
     (let hash = Some (js_trim (pb_hash (dp_planHashBinding plan))) in
      case known_pull input plan of
        Some pull \<Rightarrow>
          ep_state pull \<noteq> Some Pull_merged \<and> ep_planHash pull = hash
          \<and> (case ep_baseBranch pull of None \<Rightarrow> True
             | Some base \<Rightarrow> normalizeGitHubBranchName base = Inr (bw_baseBranch (dp_branch plan)))
      | None \<Rightarrow> (case known_branch input plan of None \<Rightarrow> True | Some branch \<Rightarrow> eb_planHash branch = hash))"

lemma find_try_find:
  "find_try (\<lambda>x. same_branch n (f x)) xs = Inr r \<Longrightarrow> r = find (\<lambda>x. normalizeGitHubBranchName (f x) = Inr n) xs"
  by (induction xs) (auto simp: attempt_Inr same_branch_def split: if_splits)

lemma pull_not_in_conflict:
  assumes "resolve_pull (Some base) n hash pull = Inr r" "br_decision r \<noteq> Conflict"
  shows "ep_state pull \<noteq> Some Pull_merged" "ep_planHash pull = Some hash"
    "case ep_baseBranch pull of None \<Rightarrow> True | Some b \<Rightarrow> normalizeGitHubBranchName b = Inr base"
    "br_decision r = Reuse_existing"
  using assms
  by (auto simp: resolve_pull_def resolution_def same_branch_def attempt_Inr Let_def or_else_def split: option.splits if_splits)

lemma branch_not_in_conflict:
  assumes "br_decision (resolve_branch n hash branch) \<noteq> Conflict"
  shows "eb_planHash branch = Some hash" "br_decision (resolve_branch n hash branch) = Reuse_existing"
  using assms by (auto simp: resolve_branch_def resolution_def split: option.splits if_splits)

lemma accepted_branch_is_ours:
  assumes plan: "createGitHubDraftPullRequestWorkflowPlan U E input = Inr plan"
  shows "branch_is_ours input plan"
    "br_decision (dp_branchResolution plan)
      = (if known_pull input plan = None \<and> known_branch input plan = None then Create_new else Reuse_existing)"
proof -
  note co = plan_coherent [OF plan]
  have b: "normalizeGitHubBranchName (bw_headBranch (dp_branch plan)) = Inr (bw_headBranch (dp_branch plan))"
    "normalizeGitHubBranchName (bw_baseBranch (dp_branch plan)) = Inr (bw_baseBranch (dp_branch plan))"
    by (rule plan_parts [OF plan], rule settlesD [OF branch_settles branch_plan_fields(4)], assumption)
      (rule plan_parts [OF plan], rule settlesD [OF branch_settles branch_plan_fields(3)], assumption)
  have "resolveGitHubBranchPlan (pp_headBranch (dp_pullRequest plan)) (Some (pp_baseBranch (dp_pullRequest plan)))
       (pb_hash (dp_planHashBinding plan)) (di_existingBranches input) (di_existingPullRequests input)
       = Inr (dp_branchResolution plan)"
    by (rule plan_parts [OF plan])
  then obtain pull where
      find_pull: "find_try (\<lambda>pull. same_branch (bw_headBranch (dp_branch plan)) (ep_headBranch pull))
        (di_existingPullRequests input) = Inr pull"
    and decided: "case pull of
        Some p \<Rightarrow> resolve_pull (Some (bw_baseBranch (dp_branch plan))) (bw_headBranch (dp_branch plan))
          (js_trim (pb_hash (dp_planHashBinding plan))) p = Inr (dp_branchResolution plan)
      | None \<Rightarrow> \<exists>branch. find_try (\<lambda>branch. same_branch (bw_headBranch (dp_branch plan)) (eb_name branch))
          (di_existingBranches input) = Inr branch
          \<and> dp_branchResolution plan = (case branch of
              Some k \<Rightarrow> resolve_branch (bw_headBranch (dp_branch plan)) (js_trim (pb_hash (dp_planHashBinding plan))) k
            | None \<Rightarrow> resolution Create_new (bw_headBranch (dp_branch plan)) (js_trim (pb_hash (dp_planHashBinding plan)))
                (''No existing branch or pull request for '' @ bw_headBranch (dp_branch plan) @ ''; creating new.'') None)"
    using co(4,5) b
    by (auto simp: resolveGitHubBranchPlan_def attempt_Inr requiredText_Inr split: option.splits)
  have p: "known_pull input plan = pull"
    using find_try_find [OF find_pull] by (simp add: known_pull_def)
  have "branch_is_ours input plan \<and> br_decision (dp_branchResolution plan)
      = (if known_pull input plan = None \<and> known_branch input plan = None then Create_new else Reuse_existing)"
  proof (cases pull)
    case (Some k)
    then show ?thesis
      using pull_not_in_conflict [OF _ co(8), of "bw_baseBranch (dp_branch plan)" "bw_headBranch (dp_branch plan)"
          "js_trim (pb_hash (dp_planHashBinding plan))" k] decided p
      by (simp add: branch_is_ours_def Let_def)
  next
    case None
    then obtain branch where k: "known_branch input plan = branch"
      and d: "dp_branchResolution plan = (case branch of
              Some k \<Rightarrow> resolve_branch (bw_headBranch (dp_branch plan)) (js_trim (pb_hash (dp_planHashBinding plan))) k
            | None \<Rightarrow> resolution Create_new (bw_headBranch (dp_branch plan)) (js_trim (pb_hash (dp_planHashBinding plan)))
                (''No existing branch or pull request for '' @ bw_headBranch (dp_branch plan) @ ''; creating new.'') None)"
      using decided find_try_find by (force simp: known_branch_def)
    show ?thesis
    proof (cases branch)
      case None
      with k d p \<open>pull = None\<close> show ?thesis by (simp add: branch_is_ours_def Let_def resolution_def)
    next
      case (Some j)
      with branch_not_in_conflict [of "bw_headBranch (dp_branch plan)" "js_trim (pb_hash (dp_planHashBinding plan))" j]
        co(8) d k p \<open>pull = None\<close> show ?thesis by (simp add: branch_is_ours_def Let_def)
    qed
  qed
  then show "branch_is_ours input plan"
    "br_decision (dp_branchResolution plan)
      = (if known_pull input plan = None \<and> known_branch input plan = None then Create_new else Reuse_existing)"
    by blast+
qed

text \<open>C35. An accepted plan is safe: its head branch differs from its base branch, its commit and its pull
  request use that branch, its paths are distinct relative paths without empty, \<open>.\<close> or \<open>..\<close> segments,
  and a change without content is a deletion. The branch is new or the plan's own: if pull requests
  with this head branch are known, the first of them was not merged, has the same base branch or none
  given, and records exactly the hash of this plan (whatever a branch of that name records); if none
  is known, then the first known branch of that name, if any, records the hash. The plan creates the
  branch when neither is known and reuses it otherwise.\<close>

theorem accepted_plan_is_safe:
  assumes "createGitHubDraftPullRequestWorkflowPlan U E input = Inr plan"
  shows "bw_headBranch (dp_branch plan) \<noteq> bw_baseBranch (dp_branch plan)
    \<and> cw_branch (dp_commit plan) = bw_headBranch (dp_branch plan)
    \<and> pp_headBranch (dp_pullRequest plan) = bw_headBranch (dp_branch plan)
    \<and> pp_baseBranch (dp_pullRequest plan) = bw_baseBranch (dp_branch plan)
    \<and> cw_changes (dp_commit plan) \<noteq> [] \<and> distinct (map fc_path (cw_changes (dp_commit plan)))
    \<and> list_all (\<lambda>c. safe_path (fc_path c) \<and> (fc_deletion c = Some True \<longleftrightarrow> fc_content c = None))
        (cw_changes (dp_commit plan))
    \<and> branch_is_ours input plan
    \<and> br_decision (dp_branchResolution plan)
        = (if known_pull input plan = None \<and> known_branch input plan = None then Create_new else Reuse_existing)"
proof -
  note co = plan_coherent [OF assms]
  note ch = changes_accepted [OF co(7)]
  have "safe_path (fc_path c) \<and> (fc_deletion c = Some True \<longleftrightarrow> fc_content c = None)"
    if "c \<in> set (cw_changes (dp_commit plan))" for c
    using path_safe [OF ch(3) [OF that]] ch(4) [OF that] by (simp add: safe_path_def list_all_iff)
  then show ?thesis
    using co(3-6) ch(1,2) accepted_branch_is_ours [OF assms] by (auto simp: list_all_iff)
qed

text \<open>The same plan when a pull request for its branch is open that records its hash.\<close>

definition constant_env :: env where
  "constant_env = github_env\<lparr> env_sha256 := (\<lambda>_. ''d1'') \<rparr>"

definition reuse_input :: draft_pull_input where
  "reuse_input = sample_pull_input
     \<lparr> di_existingPullRequests := [\<lparr> ep_number = 5, ep_headBranch = ''bek/login'', ep_baseBranch = Some ''main'',
          ep_state = Some Pull_open, ep_planHash = Some ''d1'' \<rparr>],
       di_existingBranches := [\<lparr> eb_name = ''bek/login'', eb_planHash = None \<rparr>] \<rparr>"

definition reuse_plan :: draft_pull_plan where
  "reuse_plan = projr (createGitHubDraftPullRequestWorkflowPlan no_urls constant_env reuse_input)"

lemma constant_hash: "hashCanonical constant_env v = ''d1''" "js_trim ''d1'' = ''d1''"
  by (simp add: hashCanonical_def constant_env_def) code_simp

lemma reuse_planned:
  "createGitHubDraftPullRequestWorkflowPlan no_urls constant_env reuse_input = Inr reuse_plan"
proof -
  have "\<not> isl (createGitHubDraftPullRequestWorkflowPlan no_urls constant_env reuse_input)"
    by (simp add: reuse_input_def sample_pull_input_def github_plan_defs sample_parts sample_changes_normal
        constant_hash resolution_def resolve_pull_def same_branch_def
        isKnownPermissionName_def GITHUB_INSTALLATION_PERMISSION_NAMES_def)
  then show ?thesis
    by (simp add: reuse_plan_def)
qed

theorem accepted_plan_is_safe_witness:
  "bw_headBranch (dp_branch reuse_plan) \<noteq> bw_baseBranch (dp_branch reuse_plan)
    \<and> list_all (\<lambda>c. safe_path (fc_path c) \<and> (fc_deletion c = Some True \<longleftrightarrow> fc_content c = None))
        (cw_changes (dp_commit reuse_plan))
    \<and> branch_is_ours reuse_input reuse_plan
    \<and> br_decision (dp_branchResolution reuse_plan) = Reuse_existing"
proof -
  obtain head where "normalizeGitHubBranchName ''bek/login'' = Inr head"
    "normalizeGitHubBranchName head = Inr (bw_headBranch (dp_branch reuse_plan))"
    by (rule plan_parts [OF reuse_planned], drule branch_plan_fields(4))
      (simp add: resolveDraftPullRequestHeadBranch_def reuse_input_def sample_pull_input_def)
  then have "bw_headBranch (dp_branch reuse_plan) = ''bek/login''"
    by (auto simp: sample_parts(6))
  then have "known_pull reuse_input reuse_plan \<noteq> None"
    by (simp add: known_pull_def reuse_input_def sample_parts)
  with accepted_plan_is_safe [OF reuse_planned] show ?thesis by simp
qed

end
