(* ===== verification/GitHub_Execution.thy ===== *)
theory GitHub_Execution
  imports GitHub_Properties
begin

text \<open>
  Carrying out a plan: with which tokens it happens, what it does to a repository, and what happens
  when it is tried again.
\<close>

section \<open>Steps in sequence\<close>

lemma lift_sum_simps [simp]: "lift_sum (Inr x) w = (Inr x, w)" "lift_sum (Inl e) w = (Inl e, w)"
  by (simp_all add: lift_sum_def)

lemma returns_simp [simp]: "returns x w = (Inr x, w)"
  by (simp add: returns_def)

lemma andThen_Inr_E:
  assumes "andThen m f w = (Inr y, w')"
  obtains x v where "m w = (Inr x, v)" "f x v = (Inr y, w')"
  using assms by (auto simp: andThen_def split: prod.splits sum.splits)

lemma andThen_first: "m w = (Inr x, v) \<Longrightarrow> andThen m f w = f x v"
  by (simp add: andThen_def)

lemma andThen_throws: "m w = (Inl e, v) \<Longrightarrow> andThen m f w = (Inl e, v)"
  by (simp add: andThen_def)

section \<open>Tokens\<close>

lemma whole_id: "normalizeGitHubRepositoryId v = Inr n \<Longrightarrow> normalizeGitHubRepositoryIds (whole_ids [n]) = Inr [n]"
  using repository_id_settled [of v n] by (simp add: normalizeGitHubRepositoryIds_def whole_ids_def)

text \<open>The token request of a plan is passed on as itself.\<close>

lemma workflow_request:
  assumes "createGitHubDraftPullRequestWorkflowPlan U E input = Inr plan" "rereadable (dp_repository plan)"
  shows "createGitHubInstallationTokenRequest U' (request_again (dp_tokenRequest plan)) = Inr (dp_tokenRequest plan)"
    "tr_installationId (dp_tokenRequest plan) = dp_installationId plan"
    "tr_permissions (dp_tokenRequest plan)
       = [(''contents'', Some ''write''), (''metadata'', Some ''read''), (''pull_requests'', Some ''write'')]"
    "tr_repository (dp_tokenRequest plan) = Some (dp_repository plan)"
    "tr_repositoryIds (dp_tokenRequest plan) = map_option (\<lambda>n. [n]) (dp_repositoryId plan)"
proof -
  let ?ps = "[(''contents'', Some ''write''), (''metadata'', Some ''read''), (''pull_requests'', Some ''write'')]"
  have ps: "normalizeGitHubInstallationTokenPermissions ?ps = Inr ?ps" by code_simp
  from assms(1) obtain i n where i: "normalizeGitHubInstallationId i = Inr (dp_installationId plan)"
    and n: "when_given normalizeGitHubRepositoryId n = Inr (dp_repositoryId plan)"
    and t: "createGitHubInstallationTokenRequest U (workflow_token_input (dp_installationId plan) (dp_repository plan)
       (dp_repositoryId plan)) = Inr (dp_tokenRequest plan)"
    by (rule plan_parts)
  note i2 = installation_id_settled [OF i]
  have ids: "when_given normalizeGitHubRepositoryIds (map_option (\<lambda>n. whole_ids [n]) (dp_repositoryId plan))
      = Inr (map_option (\<lambda>n. [n]) (dp_repositoryId plan))"
    using n by (cases n; cases "dp_repositoryId plan") (auto simp: attempt_Inr whole_id)
  have r: "dp_tokenRequest plan = \<lparr> tr_installationId = dp_installationId plan, tr_repository = Some (dp_repository plan),
      tr_repositoryIds = map_option (\<lambda>n. [n]) (dp_repositoryId plan), tr_permissions = ?ps \<rparr>"
    using t i2 ids assms(2) ps
    by (simp del: normalizeGitHubInstallationTokenPermissions.simps
        add: createGitHubInstallationTokenRequest_def workflow_token_input_def)
  then show "tr_installationId (dp_tokenRequest plan) = dp_installationId plan"
    "tr_permissions (dp_tokenRequest plan) = ?ps" "tr_repository (dp_tokenRequest plan) = Some (dp_repository plan)"
    "tr_repositoryIds (dp_tokenRequest plan) = map_option (\<lambda>n. [n]) (dp_repositoryId plan)"
    by simp_all
  show "createGitHubInstallationTokenRequest U' (request_again (dp_tokenRequest plan)) = Inr (dp_tokenRequest plan)"
    using r i2 ids assms(2) ps
    by (simp del: normalizeGitHubInstallationTokenPermissions.simps
        add: createGitHubInstallationTokenRequest_def request_again_def option.map_comp comp_def)
qed

text \<open>What has been checked when a lease is asserted.\<close>

lemma lease_checks:
  assumes "assertGitHubInstallationTokenLease U token input now ttl = Inr lease"
    and "createGitHubInstallationTokenRequest U input = Inr request"
  shows "createGitHubInstallationTokenLease U token = Inr lease"
    "installation_errors (Some request) (Some (tl_installationId lease)) = []"
    "repository_errors U (Some request) token = Inr []"
    "concat (map (permission_error (tr_permissions request) (tl_permissions lease)) GITHUB_INSTALLATION_PERMISSION_NAMES) = []"
    "expiry_errors token now ttl = []" "repository_id_errors (Some request) token = []"
proof -
  from assms(1) have v: "validateGitHubInstallationTokenLease U token input now ttl = Inr (Inr lease)"
  proof -
    from assms(1) obtain x where "validateGitHubInstallationTokenLease U token input now ttl = Inr x"
      "(case x of Inl errors \<Rightarrow> Inl (Error (''Invalid GitHub installation token lease: '' @ join '' '' errors))
        | Inr l \<Rightarrow> Inr l) = Inr lease"
      by (auto simp: assertGitHubInstallationTokenLease_def attempt_Inr)
    then show ?thesis by (cases x) simp_all
  qed
  then have l: "createGitHubInstallationTokenLease U token = Inr lease"
    by (auto simp: validateGitHubInstallationTokenLease_def attempt_Inr Let_def split: prod.splits if_splits)
  then have n: "normalizeGitHubInstallationId (it_installationId token) = Inr (tl_installationId lease)"
    "normalizeGitHubInstallationTokenPermissions (it_permissions token) = Inr (tl_permissions lease)"
    by (auto simp: createGitHubInstallationTokenLease_def attempt_Inr)
  show "createGitHubInstallationTokenLease U token = Inr lease" by (rule l)
  show "installation_errors (Some request) (Some (tl_installationId lease)) = []"
    "repository_errors U (Some request) token = Inr []"
    "concat (map (permission_error (tr_permissions request) (tl_permissions lease)) GITHUB_INSTALLATION_PERMISSION_NAMES) = []"
    "expiry_errors token now ttl = []" "repository_id_errors (Some request) token = []"
    using v assms(2) n
    by (auto simp: validateGitHubInstallationTokenLease_def attempt_Inr Let_def caught_def split: if_splits)
qed

lemma permission_checked:
  assumes "permission_error required actual name = []" "access_of required name = Some ''write''"
  shows "access_of actual name = Some ''write''"
  using assms
  by (auto simp: permission_error_def permissionAccessCovers_def permissionAccessRank_def split: option.splits if_splits)

lemma expiry_checked:
  assumes "expiry_errors token now ttl = []"
  shows "\<exists>n t span. now = Some n \<and> it_expiresAt token = Instant t \<and> or_else ttl (Span 60000) = Span span
    \<and> 0 \<le> span \<and> of_int n + span < of_int t"
proof -
  from assms obtain t where t: "it_expiresAt token = Instant t"
    by (cases "it_expiresAt token") (auto simp: expiry_errors_def)
  from assms t obtain span where span: "or_else ttl (Span 60000) = Span span" "\<not> span < 0"
    by (auto simp: expiry_errors_def split: js_span.splits if_splits)
  from assms t span obtain n where n: "now = Some n" "\<not> of_int t \<le> of_int n + span"
    by (auto simp: expiry_errors_def split: option.splits if_splits)
  with t span show ?thesis by simp
qed

lemma ids_checked:
  assumes "repository_id_errors (Some request) token = []" "tr_repositoryIds request = Some expected"
    and "when_given normalizeGitHubRepositoryIds (it_repositoryIds token) = Inr ids"
  shows "\<exists>actual. ids = Some actual \<and> set expected \<subseteq> set actual"
proof (cases "it_repositoryIds token")
  case None
  with assms(1,2) show ?thesis by (simp add: repository_id_errors_def)
next
  case (Some given)
  with assms(3) obtain actual where "normalizeGitHubRepositoryIds given = Inr actual" "ids = Some actual"
    by (auto simp: attempt_Inr)
  with assms(1,2) Some show ?thesis
    by (auto simp: repository_id_errors_def caught_def filter_empty_conv split: if_splits)
qed

text \<open>
  What a lease must be to stand for a plan at a moment: it is for the plan's installation and scoped to
  its repository, and to the id of the repository when the plan names one; it may write contents
  and pull requests and covers the metadata; and it outlives the moment by the time asked for, one
  minute when nothing is asked.
\<close>

definition lease_fits :: "token_lease \<Rightarrow> draft_pull_plan \<Rightarrow> int option \<Rightarrow> js_span option \<Rightarrow> bool" where
  "lease_fits lease plan now ttl \<longleftrightarrow>
     tl_installationId lease = dp_installationId plan
     \<and> access_of (tl_permissions lease) ''contents'' = Some ''write''
     \<and> access_of (tl_permissions lease) ''pull_requests'' = Some ''write''
     \<and> access_of (tl_permissions lease) ''metadata'' \<noteq> None
     \<and> map_option gr_resource (tl_repository lease) = Some (dp_resource plan)
     \<and> (case dp_repositoryId plan of
          None \<Rightarrow> True
        | Some i \<Rightarrow> (case tl_repositoryIds lease of None \<Rightarrow> False | Some ids \<Rightarrow> i \<in> set ids))
     \<and> (case (now, tl_expiresAt lease, or_else ttl (Span 60000)) of
          (Some n, Instant t, Span gap) \<Rightarrow> 0 \<le> gap \<and> of_int n + gap < of_int t
        | _ \<Rightarrow> False)"

lemma asserted_fits:
  assumes plan: "createGitHubDraftPullRequestWorkflowPlan U E input = Inr plan" "rereadable (dp_repository plan)"
    and a: "assertGitHubInstallationTokenLease U' token (request_again (dp_tokenRequest plan)) now ttl = Inr lease"
  shows "lease_fits lease plan now ttl"
proof -
  note q = workflow_request [OF plan]
  note c = lease_checks [OF a q(1)]
  have l: "tl_expiresAt lease = it_expiresAt token"
    "when_given (parseGitHubRepoResource U') (map_option ref_of (it_repository token)) = Inr (tl_repository lease)"
    "when_given normalizeGitHubRepositoryIds (it_repositoryIds token) = Inr (tl_repositoryIds lease)"
    using c(1) by (auto simp: createGitHubInstallationTokenLease_def attempt_Inr)
  have names: "permission_error (tr_permissions (dp_tokenRequest plan)) (tl_permissions lease) ''contents'' = []"
    "permission_error (tr_permissions (dp_tokenRequest plan)) (tl_permissions lease) ''pull_requests'' = []"
    "permission_error (tr_permissions (dp_tokenRequest plan)) (tl_permissions lease) ''metadata'' = []"
    using c(4) by (simp_all add: GITHUB_INSTALLATION_PERMISSION_NAMES_def)
  have writes: "access_of (tl_permissions lease) ''contents'' = Some ''write''"
    "access_of (tl_permissions lease) ''pull_requests'' = Some ''write''"
    by (rule permission_checked [OF names(1)], simp add: q(3) access_of_def,
        rule permission_checked [OF names(2)], simp add: q(3) access_of_def)
  have metadata: "access_of (tl_permissions lease) ''metadata'' \<noteq> None"
    using names(3) by (auto simp: permission_error_def q(3) access_of_def split: option.splits)
  have ids: "case dp_repositoryId plan of None \<Rightarrow> True
      | Some i \<Rightarrow> (case tl_repositoryIds lease of None \<Rightarrow> False | Some ids \<Rightarrow> i \<in> set ids)"
  proof (cases "dp_repositoryId plan")
    case (Some i)
    then have "tr_repositoryIds (dp_tokenRequest plan) = Some [i]" by (simp add: q(5))
    from ids_checked [OF c(6) this l(3)] Some show ?thesis by auto
  qed simp
  have repository: "map_option gr_resource (tl_repository lease) = Some (gr_resource (dp_repository plan))"
    using c(3) l(2) by (cases "tl_repository lease") (auto simp: repository_errors_def q(4) attempt_Inr split: if_splits)
  have "dp_resource plan = gr_resource (dp_repository plan)"
    by (rule plan_parts [OF plan(1)])
  then show ?thesis
    using c(2) writes metadata ids repository expiry_checked [OF c(5)] l(1) q(2)
    by (auto simp: lease_fits_def installation_errors_def split: if_splits)
qed

text \<open>C37. A plan is carried out only with a token that fits it: whatever the provider returns and whatever
  the client is, if anything happens after the token was provided, the token is for the plan's
  installation, is scoped to the plan's repository (and to its id when the plan has one), may write
  contents and pull requests and covers the metadata, and expires later than the required time
  from now, one minute by default. The name of the plan's repository must not still end in
  \<open>.git\<close>: the request of such a plan is read once more and then names another repository.\<close>

theorem only_fitting_tokens_are_used:
  assumes plan: "createGitHubDraftPullRequestWorkflowPlan U E input = Inr plan"
      "\<not> ends_with (gr_repo (dp_repository plan)) ''.git''"
    and token: "provider (request_again (dp_tokenRequest plan)) w = (Inr token, v)"
    and run: "executeGitHubDraftPullRequestWorkflowPlan U' provider client now ttl plan w = (r, v')"
    and touched: "v' \<noteq> v"
  shows "\<exists>lease. createGitHubInstallationTokenLease U' token = Inr lease \<and> lease_fits lease plan now ttl"
proof -
  note rr = plan_rereadable [OF plan]
  have "\<exists>lease. assertGitHubInstallationTokenLease U' token (request_again (dp_tokenRequest plan)) now ttl = Inr lease"
  proof (rule ccontr)
    assume "\<not> ?thesis"
    then obtain e where "assertGitHubInstallationTokenLease U' token (request_again (dp_tokenRequest plan)) now ttl = Inl e"
      by (cases "assertGitHubInstallationTokenLease U' token (request_again (dp_tokenRequest plan)) now ttl") auto
    then have "executeGitHubDraftPullRequestWorkflowPlan U' provider client now ttl plan w = (Inl e, v)"
      using token by (simp add: executeGitHubDraftPullRequestWorkflowPlan_def andThen_def)
    with run touched show False by simp
  qed
  then obtain lease where a: "assertGitHubInstallationTokenLease U' token (request_again (dp_tokenRequest plan)) now ttl = Inr lease"
    by blast
  show ?thesis
    using lease_checks(1) [OF a workflow_request(1) [OF plan(1) rr]] asserted_fits [OF plan(1) rr a] by blast
qed

section \<open>The fake client\<close>

lemma execution_steps:
  assumes "executeGitHubDraftPullRequestWorkflowPlan U provider client now ttl plan w = (Inr result, w')"
  obtains token v lease v1 v2 where
    "provider (request_again (dp_tokenRequest plan)) w = (Inr token, v)"
    "assertGitHubInstallationTokenLease U token (request_again (dp_tokenRequest plan)) now ttl = Inr lease"
    "cl_createBranch client (dp_branch plan) \<lparr> wa_installationToken = token, wa_tokenLease = lease \<rparr> v
       = (Inr (wx_branch result), v1)"
    "cl_commitFiles client ((dp_commit plan)\<lparr> cw_expectedHeadSha := Some (gb_commitSha (wx_branch result)) \<rparr>)
       \<lparr> wa_installationToken = token, wa_tokenLease = lease \<rparr> v1 = (Inr (wx_commit result), v2)"
    "cl_createDraftPullRequest client (dp_pullRequest plan)
       \<lparr> wa_installationToken = token, wa_tokenLease = lease \<rparr> v2 = (Inr (wx_pullRequest result), w')"
    "wx_tokenLease result = lease"
  using assms unfolding executeGitHubDraftPullRequestWorkflowPlan_def Let_def lift_sum_def
  by (elim andThen_Inr_E) (auto intro: that)

lemma getRepository_known:
  "rereadable r \<Longrightarrow> w (gr_resource r) = Some st \<Longrightarrow> getRepository U (ref_of r) w = Inr st"
  by (simp add: getRepository_def)

text \<open>What each call of the client does when it succeeds, on a repository that is found.\<close>

lemma fake_branch_created:
  assumes "fake_createBranch U plan w = (Inr b, w')" "getRepository U (ref_of (bw_repository plan)) w = Inr st"
  obtains sha where "fr_branches st (bw_baseBranch plan) = Some sha" "sha \<noteq> []" "fr_branches st (bw_headBranch plan) = None"
    "gb_commitSha b = sha"
    "w' = put_repository (st\<lparr> fr_branches := (fr_branches st)(bw_headBranch plan \<mapsto> sha) \<rparr>) w"
  using assms
  by (auto simp: fake_createBranch_def truthy_branch_def nonempty_def truthy_def split: option.splits if_splits)

lemma fake_files_committed:
  assumes "fake_commitFiles U sha1 plan w = (Inr c, w')" "getRepository U (ref_of (cw_repository plan)) w = Inr st"
    "fr_branches st (cw_branch plan) = Some sha" "sha \<noteq> []"
  shows "gc_parentSha c = sha"
    "w' = put_repository (st\<lparr> fr_branches := (fr_branches st)(cw_branch plan \<mapsto> gc_commitSha c),
        fr_commits := fr_commits st @ [c] \<rparr>) w"
  using assms
  by (auto simp: fake_commitFiles_def truthy_branch_def nonempty_def truthy_def Let_def split: if_splits)

lemma fake_pull_opened:
  assumes "fake_createDraftPullRequest U p w = (Inr r, w')" "getRepository U (ref_of (pp_repository p)) w = Inr st"
  shows "gp_number r = Whole (fr_nextPullRequestNumber st)" "gp_headBranch r = pp_headBranch p"
    "gp_baseBranch r = pp_baseBranch p"
    "w' = put_repository (st\<lparr> fr_nextPullRequestNumber := fr_nextPullRequestNumber st + 1,
        fr_pullRequests := fr_pullRequests st @ [r] \<rparr>) w"
  using assms by (auto simp: fake_createDraftPullRequest_def Let_def split: if_splits)

lemma executed_effect:
  assumes plan: "createGitHubDraftPullRequestWorkflowPlan U E input = Inr plan"
      "\<not> ends_with (gr_repo (dp_repository plan)) ''.git''"
    and provider: "snd (provider (request_again (dp_tokenRequest plan)) w) = w"
    and known: "w (dp_resource plan) = Some st" "gr_resource (fr_repository st) = dp_resource plan"
    and run: "executeGitHubDraftPullRequestWorkflowPlan U' provider (fake_github_client U' sha1) now ttl plan w
      = (Inr result, w')"
  shows "\<exists>st'. w' = w(dp_resource plan \<mapsto> st') \<and> gr_resource (fr_repository st') = dp_resource plan
    \<and> fr_branches st (bw_headBranch (dp_branch plan)) = None
    \<and> fr_branches st (bw_baseBranch (dp_branch plan)) = Some (gc_parentSha (wx_commit result))
    \<and> fr_branches st' = (fr_branches st)(bw_headBranch (dp_branch plan) \<mapsto> gc_commitSha (wx_commit result))
    \<and> fr_commits st' = fr_commits st @ [wx_commit result]
    \<and> fr_pullRequests st' = fr_pullRequests st @ [wx_pullRequest result]
    \<and> gp_number (wx_pullRequest result) = Whole (fr_nextPullRequestNumber st)
    \<and> gp_headBranch (wx_pullRequest result) = bw_headBranch (dp_branch plan)
    \<and> gp_baseBranch (wx_pullRequest result) = bw_baseBranch (dp_branch plan)"
proof -
  note rr = plan_rereadable [OF plan] and co = plan_coherent [OF plan(1)]
  have res: "dp_resource plan = gr_resource (dp_repository plan)" by (rule plan_parts [OF plan(1)])
  from run obtain v lease v1 v2 where
      b: "fake_createBranch U' (dp_branch plan) v = (Inr (wx_branch result), v1)"
    and c: "fake_commitFiles U' sha1 ((dp_commit plan)\<lparr> cw_expectedHeadSha := Some (gb_commitSha (wx_branch result)) \<rparr>) v1
        = (Inr (wx_commit result), v2)"
    and p: "fake_createDraftPullRequest U' (dp_pullRequest plan) v2 = (Inr (wx_pullRequest result), w')"
    and v: "v = w"
    using provider by (elim execution_steps) (auto simp: fake_github_client_def)
  let ?head = "bw_headBranch (dp_branch plan)" and ?base = "bw_baseBranch (dp_branch plan)"
  have g: "getRepository U' (ref_of (dp_repository plan)) w = Inr st"
    using getRepository_known [OF rr] known(1) res by simp
  from b obtain sha where base: "fr_branches st ?base = Some sha" "sha \<noteq> []" and head: "fr_branches st ?head = None"
    and v1: "v1 = put_repository (st\<lparr> fr_branches := (fr_branches st)(?head \<mapsto> sha) \<rparr>) w"
    using g co(9) [OF rr] v by (auto elim: fake_branch_created)
  let ?st1 = "st\<lparr> fr_branches := (fr_branches st)(?head \<mapsto> sha) \<rparr>"
  have g1: "getRepository U' (ref_of (dp_repository plan)) v1 = Inr ?st1"
    using getRepository_known [OF rr] res v1 known(2) by (simp add: put_repository_def)
  note commit = fake_files_committed [OF c, of ?st1 sha, simplified, OF _ _ base(2)]
  have parent: "gc_parentSha (wx_commit result) = sha"
    using commit(1) g1 co(3) co(10) [OF rr] by simp
  let ?st2 = "?st1\<lparr> fr_branches := (fr_branches ?st1)(?head \<mapsto> gc_commitSha (wx_commit result)),
      fr_commits := fr_commits ?st1 @ [wx_commit result] \<rparr>"
  have v2: "v2 = put_repository ?st2 v1"
    using commit(2) g1 co(3) co(10) [OF rr] by simp
  have g2: "getRepository U' (ref_of (dp_repository plan)) v2 = Inr ?st2"
    using getRepository_known [OF rr] res v2 known(2) by (simp add: put_repository_def)
  note pull = fake_pull_opened [OF p, unfolded co(11) [OF rr], OF g2]
  show ?thesis
    using pull co(4,5) known(2) v1 v2 parent base head by (auto simp: put_repository_def)
qed

text \<open>C38. Carrying a plan out on a repository of the fake client creates the head branch, which was not
  there, with one commit on top of the base branch, appends exactly one pull request with the next
  number for these two branches, and changes no other repository.\<close>

theorem executed_plan_opens_one_pull:
  assumes plan: "createGitHubDraftPullRequestWorkflowPlan U E input = Inr plan"
      "\<not> ends_with (gr_repo (dp_repository plan)) ''.git''"
    and provider: "snd (provider (request_again (dp_tokenRequest plan)) w) = w"
    and known: "w (dp_resource plan) = Some st" "gr_resource (fr_repository st) = dp_resource plan"
    and run: "executeGitHubDraftPullRequestWorkflowPlan U' provider (fake_github_client U' sha1) now ttl plan w
      = (Inr result, w')"
  shows "\<exists>st'. w' = w(dp_resource plan \<mapsto> st') \<and> gr_resource (fr_repository st') = dp_resource plan
    \<and> fr_branches st (bw_headBranch (dp_branch plan)) = None
    \<and> fr_branches st (bw_baseBranch (dp_branch plan)) = Some (gc_parentSha (wx_commit result))
    \<and> fr_branches st' = (fr_branches st)(bw_headBranch (dp_branch plan) \<mapsto> gc_commitSha (wx_commit result))
    \<and> fr_commits st' = fr_commits st @ [wx_commit result]
    \<and> fr_pullRequests st' = fr_pullRequests st @ [wx_pullRequest result]
    \<and> gp_number (wx_pullRequest result) = Whole (fr_nextPullRequestNumber st)
    \<and> gp_headBranch (wx_pullRequest result) = bw_headBranch (dp_branch plan)
    \<and> gp_baseBranch (wx_pullRequest result) = bw_baseBranch (dp_branch plan)"
  by (rule executed_effect [OF assms])

section \<open>A concrete run\<close>

definition sample_token :: installation_token where
  "sample_token = \<lparr> it_installationId = Id_text ''42'', it_token = ''secret'', it_expiresAt = Instant 3600000,
     it_permissions = [(''contents'', Some ''write''), (''metadata'', Some ''read''), (''pull_requests'', Some ''write'')],
     it_repository = Some (repo_of ''acme'' ''site''), it_repositoryIds = None \<rparr>"

definition sample_provider :: "token_request_input \<Rightarrow> 'w \<Rightarrow> ('w, installation_token) outcome" where
  "sample_provider input w = (Inr sample_token, w)"

definition sample_repository :: fake_repository where
  "sample_repository = \<lparr> fr_repository = repo_of ''acme'' ''site'', fr_defaultBranch = ''main'',
     fr_branches = [''main'' \<mapsto> ''c0''], fr_commits = [], fr_pullRequests = [], fr_nextPullRequestNumber = 7 \<rparr>"

definition sample_world :: fake_client where
  "sample_world = [''github:acme/site'' \<mapsto> sample_repository]"

lemma sample_rereadable: "rereadable (dp_repository sample_pull_plan)"
  by (rule plan_rereadable [OF sample_planned sample_not_git])

lemma sample_plan_repository: "dp_repository sample_pull_plan = repo_of ''acme'' ''site''"
proof -
  have "parseGitHubRepoResource no_urls (di_repository sample_pull_input) = Inr (dp_repository sample_pull_plan)"
    by (rule plan_parts [OF sample_planned])
  then show ?thesis by (simp add: sample_pull_input_def sample_parts(1))
qed

lemma sample_plan_parts:
  "dp_installationId sample_pull_plan = ''42''" "dp_resource sample_pull_plan = ''github:acme/site''"
  "dp_repositoryId sample_pull_plan = None" "bw_baseBranch (dp_branch sample_pull_plan) = ''main''"
proof -
  have i: "normalizeGitHubInstallationId (di_installationId sample_pull_input) = Inr (dp_installationId sample_pull_plan)"
    by (rule plan_parts [OF sample_planned])
  have n: "when_given normalizeGitHubRepositoryId (di_repositoryId sample_pull_input) = Inr (dp_repositoryId sample_pull_plan)"
    by (rule plan_parts [OF sample_planned])
  have r: "dp_resource sample_pull_plan = gr_resource (dp_repository sample_pull_plan)"
    by (rule plan_parts [OF sample_planned])
  from i n r show "dp_installationId sample_pull_plan = ''42''" "dp_resource sample_pull_plan = ''github:acme/site''"
    "dp_repositoryId sample_pull_plan = None"
    by (simp_all add: sample_pull_input_def sample_parts sample_plan_repository repo_of_def Let_def)
  have "normalizeGitHubBranchName (or_else (di_baseBranch sample_pull_input) ''main'') = Inr (bw_baseBranch (dp_branch sample_pull_plan))"
    by (rule plan_parts [OF sample_planned], drule branch_plan_fields(3))
  then show "bw_baseBranch (dp_branch sample_pull_plan) = ''main''"
    by (simp add: sample_pull_input_def sample_parts)
qed

lemma sample_request_ids: "tr_repositoryIds (dp_tokenRequest sample_pull_plan) = None"
proof -
  have "createGitHubInstallationTokenRequest no_urls (workflow_token_input (dp_installationId sample_pull_plan)
      (dp_repository sample_pull_plan) (dp_repositoryId sample_pull_plan)) = Inr (dp_tokenRequest sample_pull_plan)"
    by (rule plan_parts [OF sample_planned])
  then show ?thesis
    by (cases "dp_tokenRequest sample_pull_plan")
      (auto simp: createGitHubInstallationTokenRequest_def workflow_token_input_def attempt_Inr sample_plan_parts)
qed

definition sample_lease :: token_lease where
  "sample_lease = \<lparr> tl_installationId = ''42'', tl_expiresAt = Instant 3600000,
     tl_permissions = [(''contents'', Some ''write''), (''metadata'', Some ''read''), (''pull_requests'', Some ''write'')],
     tl_repository = Some (repo_of ''acme'' ''site''), tl_repositoryIds = None \<rparr>"

lemma sample_token_parts:
  "normalizeGitHubInstallationTokenPermissions
     [(''contents'', Some ''write''), (''metadata'', Some ''read''), (''pull_requests'', Some ''write'')]
     = Inr [(''contents'', Some ''write''), (''metadata'', Some ''read''), (''pull_requests'', Some ''write'')]"
  by code_simp

lemma sample_assert:
  "assertGitHubInstallationTokenLease no_urls sample_token (request_again (dp_tokenRequest sample_pull_plan)) (Some 0) None
     = Inr sample_lease"
proof -
  note q = workflow_request [OF sample_planned sample_rereadable]
  have "dp_tokenRequest sample_pull_plan =
      \<lparr> tr_installationId = ''42'', tr_repository = Some (repo_of ''acme'' ''site''), tr_repositoryIds = None,
        tr_permissions = [(''contents'', Some ''write''), (''metadata'', Some ''read''), (''pull_requests'', Some ''write'')] \<rparr>"
    using q(2-4) sample_request_ids
    by (cases "dp_tokenRequest sample_pull_plan") (simp add: sample_plan_repository sample_plan_parts)
  with q(1) have "createGitHubInstallationTokenRequest no_urls (request_again (dp_tokenRequest sample_pull_plan)) = Inr
      \<lparr> tr_installationId = ''42'', tr_repository = Some (repo_of ''acme'' ''site''), tr_repositoryIds = None,
        tr_permissions = [(''contents'', Some ''write''), (''metadata'', Some ''read''), (''pull_requests'', Some ''write'')] \<rparr>"
    by simp
  moreover have "createGitHubInstallationTokenLease no_urls sample_token = Inr sample_lease"
    by (simp del: normalizeGitHubInstallationTokenPermissions.simps
        add: createGitHubInstallationTokenLease_def sample_token_def sample_lease_def sample_token_parts sample_parts)
  ultimately show ?thesis
    by (simp del: normalizeGitHubInstallationTokenPermissions.simps
        add: assertGitHubInstallationTokenLease_def validateGitHubInstallationTokenLease_def sample_token_def caught_def
        sample_token_parts sample_parts repository_errors_def installation_errors_def repository_id_errors_def
        expiry_errors_def permission_error_def access_of_def permissionAccessCovers_def
        GITHUB_INSTALLATION_PERMISSION_NAMES_def Let_def)
qed

lemma sample_sha: "js_trim (sample_digest s) \<noteq> []"
  by (simp add: sample_digest_text)

lemma sample_run:
  "\<exists>result w'. executeGitHubDraftPullRequestWorkflowPlan no_urls sample_provider (fake_github_client no_urls sample_digest)
     (Some 0) None sample_pull_plan sample_world = (Inr result, w')"
proof -
  note co = plan_coherent [OF sample_planned] and rr = sample_rereadable
  have g: "getRepository no_urls (ref_of (repo_of ''acme'' ''site'')) w = Inr st" if "w ''github:acme/site'' = Some st" for w st
    using getRepository_known [OF rr [unfolded sample_plan_repository], of w st] that by (simp add: repo_of_def Let_def)
  have k: "gr_resource (repo_of ''acme'' ''site'') = ''github:acme/site''"
    by (simp add: repo_of_def Let_def)
  show ?thesis
    by (simp add: executeGitHubDraftPullRequestWorkflowPlan_def andThen_def sample_provider_def sample_assert Let_def
        fake_github_client_def fake_createBranch_def fake_commitFiles_def fake_createDraftPullRequest_def
        co(9-11) [OF rr] co(3-5) sample_plan_repository g k sample_world_def sample_repository_def sample_plan_parts
        sample_plan_values truthy_branch_def nonempty_def truthy_def put_repository_def)
qed

theorem executed_plan_opens_one_pull_witness:
  "\<exists>result w' st'. executeGitHubDraftPullRequestWorkflowPlan no_urls sample_provider
       (fake_github_client no_urls sample_digest) (Some 0) None sample_pull_plan sample_world = (Inr result, w')
     \<and> w' = sample_world(''github:acme/site'' \<mapsto> st')
     \<and> fr_branches st' = [''main'' \<mapsto> ''c0'', ''bek/login'' \<mapsto> gc_commitSha (wx_commit result)]
     \<and> fr_pullRequests st' = [wx_pullRequest result] \<and> gp_number (wx_pullRequest result) = Whole 7"
proof -
  obtain result w' where run: "executeGitHubDraftPullRequestWorkflowPlan no_urls sample_provider
      (fake_github_client no_urls sample_digest) (Some 0) None sample_pull_plan sample_world = (Inr result, w')"
    using sample_run by blast
  have w: "sample_world (dp_resource sample_pull_plan) = Some sample_repository"
    "gr_resource (fr_repository sample_repository) = dp_resource sample_pull_plan"
    "snd (sample_provider (request_again (dp_tokenRequest sample_pull_plan)) sample_world) = sample_world"
    by (simp_all add: sample_world_def sample_repository_def sample_plan_parts sample_provider_def repo_of_def Let_def)
  from executed_plan_opens_one_pull [OF sample_planned sample_not_git w(3,1,2) run] run show ?thesis
    by (auto simp: sample_plan_parts sample_plan_values sample_repository_def)
qed

theorem only_fitting_tokens_are_used_witness:
  "\<exists>lease. createGitHubInstallationTokenLease no_urls sample_token = Inr lease
     \<and> lease_fits lease sample_pull_plan (Some 0) None"
proof -
  obtain result w' where run: "executeGitHubDraftPullRequestWorkflowPlan no_urls sample_provider
      (fake_github_client no_urls sample_digest) (Some 0) None sample_pull_plan sample_world = (Inr result, w')"
    using sample_run by blast
  have touched: "w' \<noteq> sample_world"
  proof -
    have w: "sample_world (dp_resource sample_pull_plan) = Some sample_repository"
      "gr_resource (fr_repository sample_repository) = dp_resource sample_pull_plan"
      "snd (sample_provider (request_again (dp_tokenRequest sample_pull_plan)) sample_world) = sample_world"
      by (simp_all add: sample_world_def sample_repository_def sample_plan_parts sample_provider_def repo_of_def Let_def)
    obtain st' where "w' = sample_world(dp_resource sample_pull_plan \<mapsto> st')"
      "fr_pullRequests st' = fr_pullRequests sample_repository @ [wx_pullRequest result]"
      using executed_effect [OF sample_planned sample_not_git w(3,1,2) run] by blast
    then have "w' (dp_resource sample_pull_plan) = Some st'" "fr_pullRequests st' \<noteq> fr_pullRequests sample_repository"
      by simp_all
    with w(1) show ?thesis by auto
  qed
  have "sample_provider (request_again (dp_tokenRequest sample_pull_plan)) sample_world = (Inr sample_token, sample_world)"
    by (simp add: sample_provider_def)
  from only_fitting_tokens_are_used [OF sample_planned sample_not_git this run touched] show ?thesis .
qed

section \<open>Trying again\<close>



end
