(* ===== verification/GitHub_Rest.thy ===== *)
theory GitHub_Rest
  imports GitHub_Execution
begin

text \<open>
  The REST client: whatever GitHub answers, a plan that is carried out commits on top of the commit
  its branch was created from.
\<close>

section \<open>Successful calls\<close>

lemma requireString_Inr: "requireString v label = Inr s \<Longrightarrow> v = JStr s \<and> s \<noteq> []"
  by (auto simp: requireString_def split: json.splits if_splits)

lemma branch_ref_found:
  assumes "getBranchRef fetch C r branch auth w = (Inr sha, w')"
  shows "sha \<noteq> []"
  using assms unfolding getBranchRef_def
  by (elim andThen_Inr_E) (auto simp: lift_sum_def ref_sha_def attempt_Inr dest: requireString_Inr)

lemma rest_branch_created:
  assumes "rest_createBranch fetch C plan auth w = (Inr b, w')"
  shows "gb_branch b = bw_headBranch plan" "gb_createdFrom b = bw_baseBranch plan" "gb_commitSha b \<noteq> []"
proof -
  from assms obtain sha v where sha: "getBranchRef fetch C (bw_repository plan) (bw_baseBranch plan) auth w = (Inr sha, v)"
    and b: "b = \<lparr> gb_repository = bw_repository plan, gb_branch = bw_headBranch plan, gb_commitSha = sha,
      gb_createdFrom = bw_baseBranch plan \<rparr>"
    unfolding rest_createBranch_def Let_def
    by (elim andThen_Inr_E)
      (auto simp: throwGitHubRestError_def elim!: andThen_Inr_E split: sum.splits if_splits option.splits)
  show "gb_branch b = bw_headBranch plan" "gb_createdFrom b = bw_baseBranch plan" "gb_commitSha b \<noteq> []"
    using branch_ref_found [OF sha] b by simp_all
qed

lemma rest_files_committed:
  assumes "rest_commitFiles fetch C plan auth w = (Inr c, w')" "cw_expectedHeadSha plan = Some sha" "sha \<noteq> []"
  shows "gc_parentSha c = sha" "gc_branch c = cw_branch plan" "gc_changes c = cw_changes plan" "gc_message c = cw_message plan"
proof -
  from assms(1) obtain head v where h: "(if truthy (cw_expectedHeadSha plan) \<and> cw_expectedHeadSha plan \<noteq> Some head
      then lift_sum (Inl (Error ''GitHub branch head did not match expected commit SHA.''))
      else (\<lambda>w. rest_commit_on fetch C plan auth head w)) v = (Inr c, w')"
    unfolding rest_commitFiles_def Let_def by (elim andThen_Inr_E) (auto simp: rest_commit_on_def Let_def)
  then have head: "head = sha"
    using assms(2,3) by (auto simp: truthy_def split: if_splits)
  with h have "rest_commit_on fetch C plan auth head v = (Inr c, w')"
    using assms(2,3) by (simp add: truthy_def)
  then have "c = \<lparr> gc_repository = cw_repository plan, gc_branch = cw_branch plan, gc_commitSha = gc_commitSha c,
      gc_parentSha = head, gc_message = cw_message plan, gc_changes = cw_changes plan \<rparr>"
    unfolding rest_commit_on_def Let_def by (elim andThen_Inr_E) auto
  then show "gc_parentSha c = sha" "gc_branch c = cw_branch plan" "gc_changes c = cw_changes plan" "gc_message c = cw_message plan"
    using head by (metis commit_result.select_convs)+
qed


text \<open>Answers of GitHub, given one after the other.\<close>

fun scripted :: "http_response list fetcher" where
  "scripted request [] = (Inl ''no answer'', [])"
| "scripted request (r # rs) = (Inr r, rs)"

definition answer :: "json \<Rightarrow> http_response" where
  "answer v = \<lparr> hr_status = 200, hr_statusText = ''OK'', hr_text = None, hr_json = Inr v \<rparr>"

definition sha_object :: "string \<Rightarrow> json" where
  "sha_object sha = JObj [(''object'', JObj [(''sha'', JStr sha)])]"

definition sample_answers :: "http_response list" where
  "sample_answers =
     [answer (sha_object ''c0''), answer (JObj []), answer (sha_object ''c0''),
      answer (JObj [(''tree'', JObj [(''sha'', JStr ''t0'')])]), answer (JObj [(''sha'', JStr ''t1'')]),
      answer (JObj [(''sha'', JStr ''c1'')]), answer (JObj []), answer (JObj [(''number'', JNum 7)]), answer (JObj []),
      answer (JObj [(''id'', JNum 70), (''html_url'', JStr ''https://github.com/acme/site/pull/7'')])]"

lemma sample_labels: "pp_labels (dp_pullRequest sample_pull_plan) = [''bug'']" "pp_reviewers (dp_pullRequest sample_pull_plan) = []"
proof -
  have "\<exists>input :: proposal_input. createGitHubPullRequestProposal no_urls input = Inr (dp_pullRequest sample_pull_plan)
      \<and> pi_labels input = Some [''bug'', '' bug''] \<and> pi_reviewers input = None"
    by (rule plan_parts [OF sample_planned], intro exI conjI, assumption) (simp_all add: sample_pull_input_def)
  then obtain input :: proposal_input where
      p: "createGitHubPullRequestProposal no_urls input = Inr (dp_pullRequest sample_pull_plan)"
    and i: "pi_labels input = Some [''bug'', '' bug'']" "pi_reviewers input = None"
    by blast
  from p show "pp_labels (dp_pullRequest sample_pull_plan) = [''bug'']" "pp_reviewers (dp_pullRequest sample_pull_plan) = []"
    by (rule proposal_parts, simp add: i sample_parts proposal_of_def)+
qed

lemma sample_rest_run:
  "\<exists>result w'. executeGitHubDraftPullRequestWorkflowPlan no_urls sample_provider
     (rest_github_client scripted (new_rest_client None None)) (Some 0) None sample_pull_plan sample_answers = (Inr result, w')"
proof -
  have response: "response_ok (answer v)" "hr_json (answer v) = Inr v" for v
    by (simp_all add: answer_def response_ok_def)
  have trims: "js_trim ''c0'' = ''c0''" "js_trim ''t0'' = ''t0''" "js_trim ''t1'' = ''t1''" "js_trim ''c1'' = ''c1''"
    "js_trim ''https://github.com/acme/site/pull/7'' = ''https://github.com/acme/site/pull/7''"
    by code_simp+
  show ?thesis
    by (simp add: executeGitHubDraftPullRequestWorkflowPlan_def andThen_def sample_provider_def sample_assert Let_def
        rest_github_client_def rest_createBranch_def rest_commitFiles_def rest_commit_on_def rest_createDraftPullRequest_def
        getBranchRef_def requestJson_def tryRequestJson_def response sample_answers_def sha_object_def ref_sha_def
        read_field_def maybe_field_def get_prop_def requireString_def trims truthy_def tree_sha_def string_field_def
        created_or_found_def requireNumber_def post_names_def sample_labels read_pull_def)
qed


end
