(* ===== verification/Spec2Isabelle.thy ===== *)
theory Spec2Isabelle
  imports Policy Identity Rbac Memory Budgets Grants Store_Admin Store_Runs Store_Deliveries Worker_Claims
    Worker_Restore Worker_Persisted Mcp_Ledger Mcp_Proxy Router_Properties Agent_Properties
    Credential_Safety Credential_Health Preflight Budget_Guard Sandbox_Lifecycle Service_Properties GitHub_Rest
begin

text \<open>
  This is a development of the core of Bek, a teammate for Slack whose tools, models and budgets an
  administrator governs. The program is a set of TypeScript packages. \<open>packages/core\<close> keeps the
  workspace (places, access bundles, identities, runs, approvals, deliveries) in one snapshot and
  decides what is allowed; \<open>packages/worker\<close> queues the attempts of a run, leases them to workers,
  retries, parks them for an approval, resumes them, and drives each claimed attempt through a
  runtime adapter; \<open>packages/model-router\<close> picks the model profile of a call and falls over to the
  next one, \<open>packages/runtime\<close> runs the agent loop, \<open>packages/credentials\<close> leases credentials,
  \<open>packages/mcp-gateway\<close> stands between a run and the tools it may call, and \<open>packages/sandbox\<close>
  holds commands, files and network access to a policy. A message becomes a run in the store, the
  run an attempt in the queue, the attempt runs in a sandbox or an agent loop and calls tools
  through the gateway, and what it does waits for a human when policy says so. All theorems are
  about definitions translated from those sources.

  Vocabulary. \<open>Prelude\<close> has thrown errors as values, the array operations of JavaScript (find,
  update in place, stable sort), strings as lists of code units below 256, instants and JSON values;
  \<open>JsRegex\<close> the regular expressions of the language with its backtracking; \<open>Json_Values\<close>
  \<open>JSON.stringify\<close>, key sorting and hashing as the gateway does them; \<open>Domain\<close> the types of
  \<open>types.ts\<close>, \<open>identity.ts\<close> and \<open>memory.ts\<close>.

  Decisions, \<open>packages/core/src\<close>. \<open>Policy\<close> (\<open>policy.ts\<close>): which grant decides; a deny wins and a
  permission has a most specific grant behind it. \<open>Identity\<close> (\<open>identity.ts\<close>): which agent identity
  serves a place; a private compartment gets no grant of the workspace baseline. \<open>Memory\<close>
  (\<open>memory.ts\<close>): which chunks may be injected; isolated compartments see only their own. \<open>Rbac\<close>
  (\<open>rbac.ts\<close>): roles, scopes and the guard of writing requests. \<open>Budgets\<close> (\<open>budgets.ts\<close>): spend by
  period and place, fractions exact. \<open>Security\<close> (\<open>security.ts\<close>): redaction of secrets. \<open>Runs\<close>,
  \<open>Canonical\<close> and \<open>Seed\<close> (\<open>runs.ts\<close>, \<open>ids.ts\<close>, \<open>seed.ts\<close>): constructors of runs, events and
  approvals, the canonical text of an approval payload, the seed workspace. \<open>Grants\<close>
  (\<open>store.ts\<close>): the normal form of a grant.

  The store, \<open>BekStore\<close> of \<open>store.ts\<close>. \<open>Store_State\<close> has its state as a record (the snapshot, the
  queue of saves, counters for drawn ids and clock readings), the finders and \<open>flushChanges\<close>;
  \<open>Store_Admin\<close> principals, places, bundles, grants and credentials; \<open>Store_Runs\<close> runs, approvals,
  events and audit; \<open>Store_Deliveries\<close> ingress and outbound deliveries and memory. Every method that
  changes state is one definition that returns what it throws or returns together with the state,
  because several change the state and then throw. The lemmas give the outcome of each operation on
  every branch, the invariants of places and grants, and that a decision happens once.

  The queue, \<open>packages/worker/src/index.ts\<close>. \<open>Worker_Types\<close> and \<open>Worker_Queue\<close> are
  \<open>InMemoryWorkerQueue\<close>: records, leases, dead letters and the event log as a record, one definition
  per method. \<open>Worker_Invariants\<close> states the invariant \<open>queue_inv\<close> and what may change between two
  states (\<open>history\<close>), \<open>Worker_Steps\<close> shows that each method keeps them and defines the step relation
  \<open>worker_step\<close> and its runs, and \<open>Worker_Properties\<close>, \<open>Worker_Claims\<close> and \<open>Worker_Restore\<close> hold the
  properties: which record a claim takes, what a settlement does, that leases are spent once, that
  cancellation is final, that a paused attempt resumes on a granted approval of its payload only,
  and that reading and restoring a queue gives it back. \<open>Worker_Persisted\<close> is
  \<open>SnapshotPersistedWorkerQueue\<close> with its queue of saves; the locale \<open>persisted_method\<close> says what a
  persisted method owes and is interpreted for each of the nine.

  The tool gateway, \<open>packages/mcp-gateway/src/index.ts\<close>. \<open>Mcp_Schema\<close> is the validation of JSON
  schemas and inputs, with the judgements \<open>well_shaped\<close> and \<open>conforms\<close> that the validators decide;
  \<open>Mcp_Drift\<close> the comparison of schemas; \<open>Mcp_Registry\<close> the servers, the schema cache with its
  quarantine and the tenants' allowlist; \<open>Mcp_Ledger\<close> the ledger of invocations; \<open>Mcp_Risk\<close> the
  classification of tools, with risk levels as a linear order, and the manifest of a run;
  \<open>Mcp_Proxy\<close> requests and their execution. The transport is a parameter that changes a world of its
  own, so that a theorem can say exactly when it is called.

  The model router, \<open>packages/model-router/src/index.ts\<close>. \<open>Router_Select\<close> is the choice of a
  profile and its budget reservation, \<open>Router_Failover\<close> the loop over the candidate profiles, whose
  provider calls are activities that take the world to an answer or an error;
  \<open>Router_Properties\<close> shows which profile is chosen and what the failover charges and reports.

  The agent runtime, \<open>packages/runtime/src\<close>. \<open>Runtime_Prompt\<close> builds the prompt: memory is fenced as
  untrusted content that cannot close its own fence. \<open>Agent_Loop\<close> makes the tool set of a run from
  its grants and follows one generation; what the language model library does is a tree of steps
  (a text, a tool call with the rest depending on the answer), a parameter of the model, so a
  theorem holds for every behaviour of the model behind it. \<open>Agent_Properties\<close>: one tool for each
  grant under a fresh name, every call of the proxy is governed, and a blocked call suspends the
  run. The search for a free tool name ends because the names taken are finitely many.

  Credentials, \<open>packages/credentials/src\<close>. \<open>Credential_Leases\<close> has the leases and their audit
  records, \<open>Credential_Broker\<close> the broker's methods and their refinement of an abstract table of
  leases, \<open>Credential_Safety\<close> the invariant that no lease outlives its credential and that an ended
  lease stays ended, \<open>Credential_Health\<close> the health report and its agreement with the broker.

  Budgets of attempts and readiness. \<open>Worker_Budget\<close> and \<open>Budget_Guard\<close> are the budget guard of
  \<open>packages/worker/src/index.ts\<close>: the estimate and the ceilings of an attempt, the approval payload
  of an increase and how it is read back. \<open>Preflight\<close> is the deployment check of
  \<open>packages/core/src/preflight.ts\<close>.

  The sandbox, \<open>packages/sandbox/src/index.ts\<close>. \<open>Sandbox_Network\<close> has hosts, private and metadata
  addresses and the egress decision; \<open>Sandbox_Policy\<close> path rules, mounts, limits and the command
  line of Docker; \<open>Sandbox_Providers\<close> the host, local and Docker providers over a world of
  processes; \<open>Sandbox_Hosts\<close>, \<open>Sandbox_Rules\<close> and \<open>Sandbox_Lifecycle\<close> show that the text tests for
  private addresses are the CIDR blocks they stand for, that writes stay in the writable roots, that
  the Docker command is isolated, that limits are bounded, and that an ended sandbox stays ended.

  The runtime service, \<open>packages/worker/src/index.ts\<close>. \<open>Worker_Service\<close> is \<open>WorkerRuntimeService\<close>:
  \<open>processNext\<close> claims a lease, assembles the sandbox, runs the adapter between two heartbeats and
  settles the result; \<open>Worker_Adapters\<close> the adapters (local, gateway, agent, sandbox). An adapter is
  an activity tree: each node is one awaited call of its context, and the rest depends on the
  answer. The composition of the service with the queue, the gateway, the agent loop and the
  sandbox is checked in \<open>Service_Steps\<close> and \<open>Service_Properties\<close>: the locale \<open>tracked\<close> states what
  every awaited step owes to a relation between states and is interpreted for the runs of the
  queue, so all that the service does to a queue is a run of its methods.

  The GitHub connector, \<open>packages/github/src\<close>. \<open>GitHub_Names\<close> (\<open>resources.ts\<close> and the validators
  of the other files) reads names of repositories and branches, ids and paths; each reader gives a
  value that it reads as itself again, except that of a repository name, which takes one \<open>.git\<close> off
  each time. \<open>GitHub_Tokens\<close> (\<open>tokens.ts\<close>) is the request of an installation token, the provider
  that asks GitHub for it and the validation of what comes back. \<open>GitHub_Plans\<close> (\<open>proposals.ts\<close>,
  \<open>approvals.ts\<close>, \<open>branches.ts\<close>, \<open>workflows.ts\<close>) makes the plan of a draft pull request and the
  payload that a human approves; \<open>GitHub_Approvals\<close> and \<open>GitHub_Rebuilt\<close> take a plan apart and put it
  together again from its payload, \<open>GitHub_Branches\<close> shows that derived branch names are valid,
  \<open>GitHub_Properties\<close> what a plan and its hash promise. \<open>GitHub_Clients\<close> (\<open>execution.ts\<close>,
  \<open>fake-client.ts\<close>, \<open>rest-client.ts\<close>) carries a plan out; \<open>GitHub_Execution\<close> and \<open>GitHub_Rest\<close>
  show which tokens are used, what happens to the repositories, and what a commit is built upon.
  \<open>fetch\<close>, the signature of a JWT and SHA-1 are parameters; that a digest is hexadecimal is the
  hypothesis \<open>hex_digests\<close>.

  Modelling choices. A date string is the instant \<open>Date.parse\<close> reads from it, or unparsable, and
  comparisons with an unparsable date are false. Random ids, the clock, SHA-256, the collation of
  \<open>localeCompare\<close>, the \<open>URL\<close> constructor and the text of a fraction are parameters (the record
  \<open>env\<close>, or an argument). The digest of a queue snapshot is the snapshot itself. Asynchronous
  methods are their synchronous bodies where no method awaits between reading and writing the
  state it guards; saving is a queue of pending saves. The service does await between reading and
  settling: there the parameter \<open>others\<close> may change the queue at every await, and the properties
  ask only that it does so through the queue's methods. Tool transports, the proxies of the
  gateway and the processes of a host each change a world of their own, so that a theorem can say
  exactly when they are called. The tool calls of one generation are taken in sequence, and the
  events of an agent loop are passed on when the loop has ended. Returned copies are the values
  copied.

  Fuel and bounds. A repetition in a regular expression gets the length of the rest of the text as
  fuel, and an iteration that consumes nothing fails, so the fuel is never used up. Draining a
  queue has the fuel of its own limit: \<open>drain\<close> stops after the number of items it is given. Every
  other recursion is structural or has a termination proof. Dates are bounded as in the language: a
  time beyond it throws.

  Not modelled, and why. The web console and the API client (\<open>apps/web\<close>) present what the API
  returns. The HTTP routes (\<open>apps/api\<close>) compose the store and the queue with web, database and Slack
  libraries. \<open>packages/db\<close> declares tables and SQL. Of the worker, what reads its configuration from
  the environment (\<open>createLocalRuntimeAdapters\<close>, the registries given as JSON) and the process loop
  of \<open>runner.ts\<close> are left out, and so is the option of the service that hands an approved
  payload to the GitHub connector. The connector to Slack, the webhooks, signatures and configuration of the one to
  GitHub, telemetry, the dashboards and exports of \<open>packages/observability\<close> and the encryption of
  credentials are listed with their state in the manifest; they rest on services and libraries whose
  code is not in the repository.
\<close>

end
